(* ===== verification/Prelude.thy ===== *)
theory Prelude
  imports Main "HOL-Library.Multiset" "HOL-Library.Product_Lexorder"
    "HOL-Library.List_Lexorder" "HOL-Library.Option_ord" "HOL-Library.Char_ord"
begin

text \<open>
  What every component shares: the standard-library pieces of Rust that the sources use.
  \<^item> \<open>Duration\<close> and the saturating integers, as naturals with the bound written out.
  \<^item> \<open>BTreeSet\<close> and \<open>BTreeMap\<close>, as strictly sorted lists and association lists. Their laws
    are the locales \<open>ordered_set\<close> and \<open>ordered_map\<close>, interpreted on the two providers.
  \<^item> The locales \<open>bounded_stepper\<close> and \<open>stepper\<close>: an event machine with a state invariant.
  \<^item> \<open>Path\<close>, compared component by component as \<open>std::path\<close> does.
\<close>

named_theorems io_simps \<open>equations that split a state-and-actions pair\<close>
named_theorems frame_simps \<open>fields an operation leaves alone\<close>

section \<open>Bounded integers and durations\<close>

text \<open>
  A \<open>std::time::Duration\<close> holds a \<open>u64\<close> of seconds and fewer than \<open>10 ^ 9\<close> nanoseconds. It is
  modelled by its total number of nanoseconds.
\<close>

type_synonym duration = nat
type_synonym sched_time = nat

definition u32_max :: nat where "u32_max = 2 ^ 32 - 1"
definition u64_max :: nat where "u64_max = 2 ^ 64 - 1"
definition u128_max :: nat where "u128_max = 2 ^ 128 - 1"
definition nanos_per_sec :: nat where "nanos_per_sec = 1000000000"
definition duration_max :: duration where
  "duration_max = u64_max * nanos_per_sec + (nanos_per_sec - 1)"

definition from_millis :: "nat \<Rightarrow> duration" where "from_millis ms = ms * 1000000"
definition from_secs :: "nat \<Rightarrow> duration" where "from_secs s = s * nanos_per_sec"

definition dur_saturating_add :: "duration \<Rightarrow> duration \<Rightarrow> duration" where
  "dur_saturating_add a b = min (a + b) duration_max"
definition dur_saturating_sub :: "duration \<Rightarrow> duration \<Rightarrow> duration" where
  "dur_saturating_sub a b = (if b \<le> a then a - b else 0)"
definition dur_checked_mul :: "duration \<Rightarrow> nat \<Rightarrow> duration option" where
  "dur_checked_mul a n = (if a * n \<le> duration_max then Some (a * n) else None)"

definition u32_saturating_add :: "nat \<Rightarrow> nat \<Rightarrow> nat" where
  "u32_saturating_add a b = min (a + b) u32_max"
definition u64_saturating_add :: "nat \<Rightarrow> nat \<Rightarrow> nat" where
  "u64_saturating_add a b = min (a + b) u64_max"
definition u128_saturating_add :: "nat \<Rightarrow> nat \<Rightarrow> nat" where
  "u128_saturating_add a b = min (a + b) u128_max"
definition u128_saturating_mul :: "nat \<Rightarrow> nat \<Rightarrow> nat" where
  "u128_saturating_mul a b = min (a * b) u128_max"

lemmas bounds_defs = u32_max_def u64_max_def u128_max_def nanos_per_sec_def duration_max_def

lemma duration_max_lt_u128 [simp]: "duration_max < u128_max"
  by (simp add: bounds_defs)

lemma dur_saturating_add_bounds:
  "a \<le> duration_max \<Longrightarrow> a \<le> dur_saturating_add a b \<and> dur_saturating_add a b \<le> duration_max"
  by (simp add: dur_saturating_add_def)

lemma u64_saturating_add_mono: "n \<le> u64_max \<Longrightarrow> n \<le> u64_saturating_add n k"
  by (simp add: u64_saturating_add_def)

lemma u64_saturating_add_exact:
  "u64_saturating_add n (Suc 0) < u64_max \<Longrightarrow> u64_saturating_add n (Suc 0) = Suc n \<and> n < u64_max"
  by (auto simp: u64_saturating_add_def min_def split: if_splits)

section \<open>Event machines\<close>

text \<open>
  A deterministic machine whose invariant survives a step as long as a resource bound still holds
  afterwards; the bound never comes back once lost. \<open>stepper\<close> is the case without a bound.
\<close>

locale bounded_stepper =
  fixes step :: "'e \<Rightarrow> 's \<Rightarrow> 's" and start :: 's
    and within :: "'s \<Rightarrow> bool" and inv :: "'s \<Rightarrow> bool"
  assumes inv_start: "inv start"
    and within_back: "within (step e s) \<Longrightarrow> within s"
    and inv_step: "inv s \<Longrightarrow> within (step e s) \<Longrightarrow> inv (step e s)"
begin

lemma within_prefix: "within (fold step es s) \<Longrightarrow> within s"
  by (induction es arbitrary: s) (auto dest: within_back)

lemma inv_fold: "inv s \<Longrightarrow> within (fold step es s) \<Longrightarrow> inv (fold step es s)"
proof (induction es arbitrary: s)
  case (Cons e es)
  from Cons.prems(2) have "within (step e s)" using within_prefix by simp
  with Cons show ?case by (simp add: inv_step)
qed simp

lemma inv_run: "within (fold step es start) \<Longrightarrow> inv (fold step es start)"
  by (rule inv_fold [OF inv_start])

end

locale stepper =
  fixes step :: "'e \<Rightarrow> 's \<Rightarrow> 's" and start :: 's and inv :: "'s \<Rightarrow> bool"
  assumes inv_start: "inv start"
    and inv_step: "inv s \<Longrightarrow> inv (step e s)"
begin

lemma inv_run_from: "inv s \<Longrightarrow> inv (fold step es s)"
  by (induction es arbitrary: s) (auto intro: inv_step)

lemma inv_run: "inv (fold step es start)"
  by (rule inv_run_from [OF inv_start])

end

section \<open>Paths\<close>

text \<open>
  \<open>Path\<close> equality and order work on the components (\<open>std::path::Component\<close>), in the order of the
  enum. A Unix path has no prefix component.
\<close>

datatype path_component = RootDir | CurDir | ParentDir | NormalComp string

primrec component_key :: "path_component \<Rightarrow> nat \<times> string" where
  "component_key RootDir = (0, [])"
| "component_key CurDir = (1, [])"
| "component_key ParentDir = (2, [])"
| "component_key (NormalComp s) = (3, s)"

lemma inj_component_key: "component_key a = component_key b \<Longrightarrow> a = b"
  by (cases a; cases b) auto

instantiation path_component :: linorder
begin
definition less_eq_path_component :: "path_component \<Rightarrow> path_component \<Rightarrow> bool" where
  "a \<le> b \<longleftrightarrow> component_key a \<le> component_key b"
definition less_path_component :: "path_component \<Rightarrow> path_component \<Rightarrow> bool" where
  "a < b \<longleftrightarrow> component_key a < component_key b"
instance
  by standard (auto simp: less_eq_path_component_def less_path_component_def
      less_le_not_le intro: order_trans inj_component_key)
end

type_synonym path = "path_component list"

section \<open>Ordered sets: BTreeSet\<close>

type_synonym 'a bset = "'a list"

fun bs_insert :: "'a::linorder \<Rightarrow> 'a bset \<Rightarrow> 'a bset" where
  "bs_insert x [] = [x]"
| "bs_insert x (y # ys) =
     (if y < x then y # bs_insert x ys else if y = x then y # ys else x # y # ys)"

definition bs_remove :: "'a \<Rightarrow> 'a bset \<Rightarrow> 'a bset" where
  "bs_remove x s = filter (\<lambda>y. y \<noteq> x) s"
definition bs_extend :: "'a::linorder bset \<Rightarrow> 'a list \<Rightarrow> 'a bset" where
  "bs_extend s xs = fold bs_insert xs s"
definition bs_collect :: "'a::linorder list \<Rightarrow> 'a bset" where
  "bs_collect xs = bs_extend [] xs"
definition bs_difference :: "'a bset \<Rightarrow> 'a bset \<Rightarrow> 'a bset" where
  "bs_difference a b = filter (\<lambda>x. x \<notin> set b) a"
definition bs_is_subset :: "'a bset \<Rightarrow> 'a bset \<Rightarrow> bool" where
  "bs_is_subset a b = list_all (\<lambda>x. x \<in> set b) a"
abbreviation bs_wf :: "'a::linorder bset \<Rightarrow> bool" where
  "bs_wf s \<equiv> sorted_wrt (<) s"

locale ordered_set =
  fixes ins :: "'a::linorder \<Rightarrow> 's \<Rightarrow> 's" and del :: "'a \<Rightarrow> 's \<Rightarrow> 's"
    and elems :: "'s \<Rightarrow> 'a list"
  assumes set_ins: "set (elems (ins x s)) = insert x (set (elems s))"
    and wf_ins: "bs_wf (elems s) \<Longrightarrow> bs_wf (elems (ins x s))"
    and set_del: "set (elems (del x s)) = set (elems s) - {x}"
    and wf_del: "bs_wf (elems s) \<Longrightarrow> bs_wf (elems (del x s))"
begin

lemma set_fold_ins: "set (elems (fold ins xs s)) = set xs \<union> set (elems s)"
  by (induction xs arbitrary: s) (auto simp: set_ins)

lemma wf_fold_ins: "bs_wf (elems s) \<Longrightarrow> bs_wf (elems (fold ins xs s))"
  by (induction xs arbitrary: s) (auto simp: wf_ins)

text \<open>The elements are a canonical form: two well-formed sets with the same members are equal.\<close>

lemma canonical:
  assumes "bs_wf (elems s)" "bs_wf (elems t)" "set (elems s) = set (elems t)"
  shows "elems s = elems t"
  using assms strict_sorted_equal by blast

lemma ins_absorb: "bs_wf (elems s) \<Longrightarrow> x \<in> set (elems s) \<Longrightarrow> elems (ins x s) = elems s"
  by (rule canonical) (auto simp: set_ins wf_ins)

end

lemma set_bs_insert [simp]: "set (bs_insert x s) = insert x (set s)"
  by (induction s) auto

lemma wf_bs_insert [simp]: "bs_wf s \<Longrightarrow> bs_wf (bs_insert x s)"
  by (induction s) auto

lemma set_bs_remove [simp]: "set (bs_remove x s) = set s - {x}"
  by (auto simp: bs_remove_def)

lemma wf_bs_remove [simp]: "bs_wf s \<Longrightarrow> bs_wf (bs_remove x s)"
  by (simp add: bs_remove_def sorted_wrt_filter)

interpretation bset: ordered_set bs_insert bs_remove "\<lambda>s. s"
  by unfold_locales auto

lemma set_bs_extend [simp]: "set (bs_extend s xs) = set xs \<union> set s"
  by (simp add: bs_extend_def bset.set_fold_ins)

lemma wf_bs_extend [simp]: "bs_wf s \<Longrightarrow> bs_wf (bs_extend s xs)"
  by (simp add: bs_extend_def bset.wf_fold_ins)

lemma set_bs_collect [simp]: "set (bs_collect xs) = set xs"
  by (simp add: bs_collect_def)

lemma wf_bs_collect [simp]: "bs_wf (bs_collect xs)"
  by (simp add: bs_collect_def)

lemma set_bs_difference [simp]: "set (bs_difference a b) = set a - set b"
  by (auto simp: bs_difference_def)

lemma bs_is_subset_iff [simp]: "bs_is_subset a b \<longleftrightarrow> set a \<subseteq> set b"
  by (auto simp: bs_is_subset_def list_all_iff)

end
