(* ===== verification/OrdMap.thy ===== *)
theory OrdMap
  imports Prelude
begin

text \<open>
  \<open>BTreeMap\<close>: a list of entries with strictly increasing keys. \<open>bm_map\<close> is a loop over
  \<open>&mut map\<close> that rewrites every value, \<open>bm_modify\<close> one \<open>get_mut\<close>. The locale \<open>ordered_map\<close> states
  what the clients rely on; the interpretation \<open>bmap\<close> discharges it.
\<close>

type_synonym ('k, 'v) bmap = "('k \<times> 'v) list"

fun bm_insert :: "'k::linorder \<Rightarrow> 'v \<Rightarrow> ('k, 'v) bmap \<Rightarrow> ('k, 'v) bmap" where
  "bm_insert k v [] = [(k, v)]"
| "bm_insert k v (p # ps) =
     (if fst p < k then p # bm_insert k v ps
      else if fst p = k then (k, v) # ps
      else (k, v) # p # ps)"

definition bm_get :: "('k, 'v) bmap \<Rightarrow> 'k \<Rightarrow> 'v option" where
  "bm_get m k = map_of m k"
definition bm_remove :: "'k \<Rightarrow> ('k, 'v) bmap \<Rightarrow> ('k, 'v) bmap" where
  "bm_remove k m = filter (\<lambda>p. fst p \<noteq> k) m"
definition bm_keys :: "('k, 'v) bmap \<Rightarrow> 'k list" where
  "bm_keys m = map fst m"
definition bm_contains :: "('k, 'v) bmap \<Rightarrow> 'k \<Rightarrow> bool" where
  "bm_contains m k \<longleftrightarrow> bm_get m k \<noteq> None"
definition bm_map :: "('k \<Rightarrow> 'v \<Rightarrow> 'w) \<Rightarrow> ('k, 'v) bmap \<Rightarrow> ('k, 'w) bmap" where
  "bm_map f m = map (\<lambda>(k, v). (k, f k v)) m"
definition bm_modify :: "'k \<Rightarrow> ('v \<Rightarrow> 'v) \<Rightarrow> ('k, 'v) bmap \<Rightarrow> ('k, 'v) bmap" where
  "bm_modify k f m = bm_map (\<lambda>k' v. if k' = k then f v else v) m"
definition bm_collect :: "('k::linorder \<times> 'v) list \<Rightarrow> ('k, 'v) bmap" where
  "bm_collect ps = fold (\<lambda>(k, v). bm_insert k v) ps []"

abbreviation bm_wf :: "('k::linorder, 'v) bmap \<Rightarrow> bool" where
  "bm_wf m \<equiv> sorted_wrt (<) (map fst m)"

locale ordered_map =
  fixes get :: "'m \<Rightarrow> 'k::linorder \<Rightarrow> 'v option" and ins :: "'k \<Rightarrow> 'v \<Rightarrow> 'm \<Rightarrow> 'm"
    and del :: "'k \<Rightarrow> 'm \<Rightarrow> 'm" and entries :: "'m \<Rightarrow> ('k \<times> 'v) list"
  assumes get_entries: "bm_wf (entries m) \<Longrightarrow> get m k = Some v \<longleftrightarrow> (k, v) \<in> set (entries m)"
    and get_ins: "get (ins k v m) = (get m)(k \<mapsto> v)"
    and wf_ins: "bm_wf (entries m) \<Longrightarrow> bm_wf (entries (ins k v m))"
    and get_del: "get (del k m) = (get m)(k := None)"
    and wf_del: "bm_wf (entries m) \<Longrightarrow> bm_wf (entries (del k m))"
begin

lemma get_fold_ins:
  "get (fold (\<lambda>(k, v). ins k v) ps m) = get m ++ map_of (rev ps)"
  by (induction ps arbitrary: m) (auto simp: get_ins map_add_def fun_eq_iff split: option.splits)

lemma wf_fold_ins: "bm_wf (entries m) \<Longrightarrow> bm_wf (entries (fold (\<lambda>(k, v). ins k v) ps m))"
  by (induction ps arbitrary: m) (auto simp: wf_ins)

lemma set_entries_ins:
  assumes "bm_wf (entries m)"
  shows "set (entries (ins k v m)) = insert (k, v) {p \<in> set (entries m). fst p \<noteq> k}"
proof -
  have "(k', v') \<in> set (entries (ins k v m)) \<longleftrightarrow>
      (k', v') = (k, v) \<or> (k', v') \<in> set (entries m) \<and> k' \<noteq> k" for k' v'
    using get_entries [OF wf_ins [OF assms], of k v k' v'] get_entries [OF assms, of k' v']
    by (auto simp: get_ins split: if_splits)
  then show ?thesis by auto
qed

lemma set_entries_del:
  assumes "bm_wf (entries m)"
  shows "set (entries (del k m)) = {p \<in> set (entries m). fst p \<noteq> k}"
proof -
  have "(k', v') \<in> set (entries (del k m)) \<longleftrightarrow> (k', v') \<in> set (entries m) \<and> k' \<noteq> k" for k' v'
    using get_entries [OF wf_del [OF assms], of k k' v'] get_entries [OF assms, of k' v']
    by (auto simp: get_del split: if_splits)
  then show ?thesis by auto
qed

end

lemma strict_sorted_distinct: "sorted_wrt (<) (xs :: 'a::linorder list) \<Longrightarrow> distinct xs"
  by (simp add: strict_sorted_iff)

lemma bm_wf_distinct: "bm_wf m \<Longrightarrow> distinct (map fst m)"
  by (rule strict_sorted_distinct)

lemma fst_bm_insert: "set (map fst (bm_insert k v m)) = insert k (set (map fst m))"
  by (induction m) auto

lemma bm_wf_insert [simp]: "bm_wf m \<Longrightarrow> bm_wf (bm_insert k v m)"
proof (induction m)
  case (Cons p m)
  then show ?case using fst_bm_insert [of k v m] by auto
qed simp

lemma bm_get_insert [simp]: "bm_get (bm_insert k v m) = (bm_get m)(k \<mapsto> v)"
  by (induction m) (auto simp: bm_get_def fun_eq_iff)

lemma bm_wf_remove [simp]: "bm_wf m \<Longrightarrow> bm_wf (bm_remove k m)"
  by (simp add: bm_remove_def sorted_wrt_map sorted_wrt_filter)

lemma bm_get_remove [simp]: "bm_get (bm_remove k m) = (bm_get m)(k := None)"
  by (induction m) (auto simp: bm_get_def bm_remove_def fun_eq_iff)

lemma bm_get_iff: "bm_wf m \<Longrightarrow> bm_get m k = Some v \<longleftrightarrow> (k, v) \<in> set m"
  by (simp add: bm_get_def bm_wf_distinct)

interpretation bmap: ordered_map bm_get bm_insert bm_remove "\<lambda>m. m"
  by unfold_locales (simp_all add: bm_get_iff)

lemma bm_get_in: "bm_get m k = Some v \<Longrightarrow> (k, v) \<in> set m"
  by (simp add: bm_get_def map_of_SomeD)

lemma bm_contains_iff [simp]: "bm_contains m k \<longleftrightarrow> k \<in> fst ` set m"
  by (simp add: bm_contains_def bm_get_def map_of_eq_None_iff)

lemma set_bm_remove: "set (bm_remove k m) = {p \<in> set m. fst p \<noteq> k}"
  by (auto simp: bm_remove_def)

lemma fst_bm_map [simp]: "map fst (bm_map f m) = map fst m"
  by (simp add: bm_map_def comp_def case_prod_unfold)

lemma set_bm_map: "set (bm_map f m) = (\<lambda>(k, v). (k, f k v)) ` set m"
  by (simp add: bm_map_def)

lemma bm_map_in: "(k, v) \<in> set (bm_map f m) \<longleftrightarrow> (\<exists>u. (k, u) \<in> set m \<and> v = f k u)"
  by (auto simp: set_bm_map)

lemma bm_get_map: "bm_get (bm_map f m) k = map_option (f k) (bm_get m k)"
  by (induction m) (auto simp: bm_get_def bm_map_def)

lemma fst_bm_modify [simp]: "map fst (bm_modify k f m) = map fst m"
  by (simp add: bm_modify_def)

lemma bm_modify_in:
  "(k', v) \<in> set (bm_modify k f m) \<longleftrightarrow> (\<exists>u. (k', u) \<in> set m \<and> v = (if k' = k then f u else u))"
  by (simp add: bm_modify_def bm_map_in)

lemma bm_get_modify:
  "bm_get (bm_modify k f m) k' = (if k' = k then map_option f (bm_get m k) else bm_get m k')"
  by (simp add: bm_modify_def bm_get_map option.map_ident)

lemma bm_map_bm_map: "bm_map f (bm_map g m) = bm_map (\<lambda>k v. f k (g k v)) m"
  by (simp add: bm_map_def case_prod_unfold comp_def)

lemma bm_wf_collect [simp]: "bm_wf (bm_collect ps)"
  using bmap.wf_fold_ins [of "[]" ps] by (simp add: bm_collect_def)

lemma bm_get_Nil [simp]: "bm_get [] = Map.empty"
  by (simp add: bm_get_def fun_eq_iff)

lemma bm_get_collect: "bm_get (bm_collect ps) = map_of (rev ps)"
  unfolding bm_collect_def bmap.get_fold_ins by simp

lemma mset_bm_insert: "k \<notin> fst ` set m \<Longrightarrow> mset (bm_insert k v m) = add_mset (k, v) (mset m)"
  by (induction m) auto

lemma set_bm_insert: "bm_wf m \<Longrightarrow> set (bm_insert k v m) = insert (k, v) {p \<in> set m. fst p \<noteq> k}"
  by (rule bmap.set_entries_ins)

end
