(* ===== verification/Forms.thy ===== *)
theory Forms
  imports OrdMap "HOL-Library.Word"
begin

text \<open>
  Forms, shapes and surfaces: \<open>src/domain/form.rs\<close>. A \<open>SurfaceSet\<close> is the \<open>u8\<close> bit mask of the
  source, kept as an \<open>8 word\<close>; \<open>from_str\<close> fails with a value of \<open>form_parse_error\<close>.
\<close>

unbundle bit_operations_syntax

datatype shape = Shape_TripleL | Shape_Duo
datatype surface = Tooltip | PanelHorizontal | PanelVertical
datatype form =
  Form_Value | Form_Bar | Form_Spark | Form_Braille | Form_SparkValue | Form_BrailleValue
  | Form_BarSpark | Form_BarBraille | Form_Pair

type_synonym surface_set = "8 word"

primrec shape_as_str :: "shape \<Rightarrow> string" where
  "shape_as_str Shape_TripleL = ''triple_l''"
| "shape_as_str Shape_Duo = ''duo''"

primrec surface_as_str :: "surface \<Rightarrow> string" where
  "surface_as_str Tooltip = ''tooltip''"
| "surface_as_str PanelHorizontal = ''panel_horizontal''"
| "surface_as_str PanelVertical = ''panel_vertical''"

definition SURF_NONE :: surface_set where "SURF_NONE = 0"
definition SURF_TOOLTIP :: surface_set where "SURF_TOOLTIP = push_bit 0 1"
definition SURF_PANEL_HORIZONTAL :: surface_set where "SURF_PANEL_HORIZONTAL = push_bit 1 1"
definition SURF_PANEL_VERTICAL :: surface_set where "SURF_PANEL_VERTICAL = push_bit 2 1"
definition SURF_PANEL :: surface_set where
  "SURF_PANEL = SURF_PANEL_HORIZONTAL OR SURF_PANEL_VERTICAL"
definition SURF_ALL :: surface_set where "SURF_ALL = SURF_TOOLTIP OR SURF_PANEL"

lemmas surface_consts = SURF_NONE_def SURF_TOOLTIP_def SURF_PANEL_HORIZONTAL_def
  SURF_PANEL_VERTICAL_def SURF_PANEL_def SURF_ALL_def

primrec from_surface :: "surface \<Rightarrow> surface_set" where
  "from_surface Tooltip = SURF_TOOLTIP"
| "from_surface PanelHorizontal = SURF_PANEL_HORIZONTAL"
| "from_surface PanelVertical = SURF_PANEL_VERTICAL"

definition surf_contains :: "surface_set \<Rightarrow> surface \<Rightarrow> bool" where
  "surf_contains s x \<longleftrightarrow> s AND from_surface x \<noteq> 0"
definition surf_intersection :: "surface_set \<Rightarrow> surface_set \<Rightarrow> surface_set" where
  "surf_intersection a b = a AND b"
definition surf_is_empty :: "surface_set \<Rightarrow> bool" where
  "surf_is_empty s \<longleftrightarrow> s = 0"

lemmas surf_defs = surf_contains_def surf_intersection_def surf_is_empty_def surface_consts

primrec form_as_str :: "form \<Rightarrow> string" where
  "form_as_str Form_Value = ''value''"
| "form_as_str Form_Bar = ''bar''"
| "form_as_str Form_Spark = ''spark''"
| "form_as_str Form_Braille = ''braille''"
| "form_as_str Form_SparkValue = ''spark_value''"
| "form_as_str Form_BrailleValue = ''braille_value''"
| "form_as_str Form_BarSpark = ''bar_spark''"
| "form_as_str Form_BarBraille = ''bar_braille''"
| "form_as_str Form_Pair = ''pair''"

primrec allowed_surfaces :: "form \<Rightarrow> surface_set" where
  "allowed_surfaces Form_Value = SURF_ALL"
| "allowed_surfaces Form_Bar = SURF_PANEL"
| "allowed_surfaces Form_Spark = SURF_PANEL"
| "allowed_surfaces Form_Braille = SURF_PANEL"
| "allowed_surfaces Form_SparkValue = SURF_TOOLTIP"
| "allowed_surfaces Form_BrailleValue = SURF_TOOLTIP"
| "allowed_surfaces Form_BarSpark = SURF_TOOLTIP"
| "allowed_surfaces Form_BarBraille = SURF_TOOLTIP"
| "allowed_surfaces Form_Pair = SURF_TOOLTIP"

primrec renders_history :: "form \<Rightarrow> bool" where
  "renders_history Form_Value = False"
| "renders_history Form_Bar = False"
| "renders_history Form_Spark = True"
| "renders_history Form_Braille = True"
| "renders_history Form_SparkValue = True"
| "renders_history Form_BrailleValue = True"
| "renders_history Form_BarSpark = True"
| "renders_history Form_BarBraille = True"
| "renders_history Form_Pair = False"

datatype form_parse_error = FormParseError string

definition form_from_str :: "string \<Rightarrow> form_parse_error + form" where
  "form_from_str v =
     (if v = '''' \<or> v = ''value'' then Inr Form_Value
      else if v = ''bar'' then Inr Form_Bar
      else if v = ''spark'' then Inr Form_Spark
      else if v = ''braille'' then Inr Form_Braille
      else if v = ''spark_value'' then Inr Form_SparkValue
      else if v = ''braille_value'' then Inr Form_BrailleValue
      else if v = ''bar_spark'' then Inr Form_BarSpark
      else if v = ''bar_braille'' then Inr Form_BarBraille
      else if v = ''pair'' then Inr Form_Pair
      else Inl (FormParseError v))"

lemma form_from_as_str: "form_from_str (form_as_str f) = Inr f"
  by (cases f) (simp_all add: form_from_str_def)

lemma form_from_str_Inr:
  "form_from_str v = Inr f \<longleftrightarrow> v = form_as_str f \<or> v = [] \<and> f = Form_Value"
  by (cases f) (auto simp: form_from_str_def split: if_splits)

lemma form_from_str_Inl: "form_from_str v = Inl e \<Longrightarrow> e = FormParseError v"
  by (auto simp: form_from_str_def split: if_splits)

lemma form_as_str_inj: "form_as_str f = form_as_str g \<Longrightarrow> f = g"
  by (metis form_from_as_str sum.inject(2))

lemma form_as_str_no_colon: "CHR '':'' \<notin> set (form_as_str f)"
  by (cases f) simp_all

text \<open>Membership in an intersection of masks is membership in both.\<close>

lemma from_surface_bit:
  "from_surface x = 2 ^ (case x of Tooltip \<Rightarrow> 0 | PanelHorizontal \<Rightarrow> 1 | PanelVertical \<Rightarrow> 2)"
  by (cases x) (simp_all add: surface_consts)

lemma and_exp_nonzero: "(s :: 8 word) AND 2 ^ n \<noteq> 0 \<longleftrightarrow> bit s n"
  by (simp add: and_exp_eq_0_iff_not_bit)

lemma surf_contains_intersection:
  "surf_contains (surf_intersection a b) x \<longleftrightarrow> surf_contains a x \<and> surf_contains b x"
  by (simp add: surf_contains_def surf_intersection_def from_surface_bit and_exp_nonzero
      bit_and_iff)

end
