(* ===== verification/Metrics.thy ===== *)
theory Metrics
  imports Forms
begin

text \<open>
  The closed set of metrics and its contract table: \<open>src/domain/metric.rs\<close>. The derived order of
  the two enums is the declaration order, given here by a rank; \<open>metric_spec_of\<close> is \<open>Metric::spec\<close>,
  arm by arm. Metric constructors carry the prefix \<open>M_\<close>, capability constructors \<open>Cap_\<close>.
\<close>

datatype metric =
  M_CpuUsage | M_MemUsage | M_SwapUsage | M_CpuFreq | M_CpuTurbo | M_CpuTemp | M_HdTemp
  | M_DiskUsage | M_DiskSmart | M_GpuNvidiaTemp | M_GpuNvidiaUsage | M_GpuNvidiaMemUsage
  | M_GpuNvidiaDecoderUsage | M_GpuNvidiaFanSpeed | M_GpuAmdUsage | M_GpuAmdCodecUsage
  | M_GpuAmdMemUsage | M_GpuAmdFreq | M_GpuAmdTemp | M_GpuAmdPower | M_GpuAmdFanSpeed
  | M_NpuAmdUsage | M_NpuAmdPower | M_NpuAmdFreq | M_GpuIntelFreq | M_GpuIntelUsage
  | M_GpuIntelDecoderUsage | M_ScreenBrightness | M_FanSpeed | M_BatterySystem
  | M_BatteryMouse | M_BatteryKeyboard | M_NetSpeed | M_DiskIo | M_NetDevice | M_NetIp
  | M_NetDeviceIp | M_WifiSsid | M_WifiSignal | M_WifiSsidSignal | M_Uptime | M_LoadAverage
  | M_TopProcess | M_SystemUpdates | M_ServerCheck

datatype capability =
  Cap_SwapUsage | Cap_CpuFrequency | Cap_CpuTurbo | Cap_CpuTemperature | Cap_DiskTemperature
  | Cap_DiskUsage | Cap_DiskSmart | Cap_GpuNvidia | Cap_GpuAmdUsage | Cap_GpuAmdCodec
  | Cap_GpuAmdMemory | Cap_GpuAmdFrequency | Cap_GpuAmdTemperature | Cap_GpuAmdPower
  | Cap_GpuAmdFanSpeed | Cap_NpuAmdUsage | Cap_NpuAmdPower | Cap_NpuAmdFrequency
  | Cap_GpuIntelFrequency | Cap_GpuIntelUsage | Cap_GpuIntelDecoder | Cap_ScreenBrightness
  | Cap_FanSpeed | Cap_BatterySystem | Cap_BatteryMouse | Cap_BatteryKeyboard
  | Cap_NetworkSpeed | Cap_DiskIo | Cap_NetworkInfo | Cap_Uptime | Cap_LoadAverage
  | Cap_TopProcess | Cap_SystemUpdates | Cap_ServerCheck

primrec metric_rank :: "metric \<Rightarrow> nat" where
  "metric_rank M_CpuUsage = 0"
| "metric_rank M_MemUsage = 1"
| "metric_rank M_SwapUsage = 2"
| "metric_rank M_CpuFreq = 3"
| "metric_rank M_CpuTurbo = 4"
| "metric_rank M_CpuTemp = 5"
| "metric_rank M_HdTemp = 6"
| "metric_rank M_DiskUsage = 7"
| "metric_rank M_DiskSmart = 8"
| "metric_rank M_GpuNvidiaTemp = 9"
| "metric_rank M_GpuNvidiaUsage = 10"
| "metric_rank M_GpuNvidiaMemUsage = 11"
| "metric_rank M_GpuNvidiaDecoderUsage = 12"
| "metric_rank M_GpuNvidiaFanSpeed = 13"
| "metric_rank M_GpuAmdUsage = 14"
| "metric_rank M_GpuAmdCodecUsage = 15"
| "metric_rank M_GpuAmdMemUsage = 16"
| "metric_rank M_GpuAmdFreq = 17"
| "metric_rank M_GpuAmdTemp = 18"
| "metric_rank M_GpuAmdPower = 19"
| "metric_rank M_GpuAmdFanSpeed = 20"
| "metric_rank M_NpuAmdUsage = 21"
| "metric_rank M_NpuAmdPower = 22"
| "metric_rank M_NpuAmdFreq = 23"
| "metric_rank M_GpuIntelFreq = 24"
| "metric_rank M_GpuIntelUsage = 25"
| "metric_rank M_GpuIntelDecoderUsage = 26"
| "metric_rank M_ScreenBrightness = 27"
| "metric_rank M_FanSpeed = 28"
| "metric_rank M_BatterySystem = 29"
| "metric_rank M_BatteryMouse = 30"
| "metric_rank M_BatteryKeyboard = 31"
| "metric_rank M_NetSpeed = 32"
| "metric_rank M_DiskIo = 33"
| "metric_rank M_NetDevice = 34"
| "metric_rank M_NetIp = 35"
| "metric_rank M_NetDeviceIp = 36"
| "metric_rank M_WifiSsid = 37"
| "metric_rank M_WifiSignal = 38"
| "metric_rank M_WifiSsidSignal = 39"
| "metric_rank M_Uptime = 40"
| "metric_rank M_LoadAverage = 41"
| "metric_rank M_TopProcess = 42"
| "metric_rank M_SystemUpdates = 43"
| "metric_rank M_ServerCheck = 44"

primrec capability_rank :: "capability \<Rightarrow> nat" where
  "capability_rank Cap_SwapUsage = 0"
| "capability_rank Cap_CpuFrequency = 1"
| "capability_rank Cap_CpuTurbo = 2"
| "capability_rank Cap_CpuTemperature = 3"
| "capability_rank Cap_DiskTemperature = 4"
| "capability_rank Cap_DiskUsage = 5"
| "capability_rank Cap_DiskSmart = 6"
| "capability_rank Cap_GpuNvidia = 7"
| "capability_rank Cap_GpuAmdUsage = 8"
| "capability_rank Cap_GpuAmdCodec = 9"
| "capability_rank Cap_GpuAmdMemory = 10"
| "capability_rank Cap_GpuAmdFrequency = 11"
| "capability_rank Cap_GpuAmdTemperature = 12"
| "capability_rank Cap_GpuAmdPower = 13"
| "capability_rank Cap_GpuAmdFanSpeed = 14"
| "capability_rank Cap_NpuAmdUsage = 15"
| "capability_rank Cap_NpuAmdPower = 16"
| "capability_rank Cap_NpuAmdFrequency = 17"
| "capability_rank Cap_GpuIntelFrequency = 18"
| "capability_rank Cap_GpuIntelUsage = 19"
| "capability_rank Cap_GpuIntelDecoder = 20"
| "capability_rank Cap_ScreenBrightness = 21"
| "capability_rank Cap_FanSpeed = 22"
| "capability_rank Cap_BatterySystem = 23"
| "capability_rank Cap_BatteryMouse = 24"
| "capability_rank Cap_BatteryKeyboard = 25"
| "capability_rank Cap_NetworkSpeed = 26"
| "capability_rank Cap_DiskIo = 27"
| "capability_rank Cap_NetworkInfo = 28"
| "capability_rank Cap_Uptime = 29"
| "capability_rank Cap_LoadAverage = 30"
| "capability_rank Cap_TopProcess = 31"
| "capability_rank Cap_SystemUpdates = 32"
| "capability_rank Cap_ServerCheck = 33"

definition all_metrics :: "metric list" where
  "all_metrics =
    [M_CpuUsage, M_MemUsage, M_SwapUsage, M_CpuFreq, M_CpuTurbo, M_CpuTemp, M_HdTemp
     , M_DiskUsage, M_DiskSmart, M_GpuNvidiaTemp, M_GpuNvidiaUsage, M_GpuNvidiaMemUsage
     , M_GpuNvidiaDecoderUsage, M_GpuNvidiaFanSpeed, M_GpuAmdUsage, M_GpuAmdCodecUsage
     , M_GpuAmdMemUsage, M_GpuAmdFreq, M_GpuAmdTemp, M_GpuAmdPower, M_GpuAmdFanSpeed
     , M_NpuAmdUsage, M_NpuAmdPower, M_NpuAmdFreq, M_GpuIntelFreq, M_GpuIntelUsage
     , M_GpuIntelDecoderUsage, M_ScreenBrightness, M_FanSpeed, M_BatterySystem
     , M_BatteryMouse, M_BatteryKeyboard, M_NetSpeed, M_DiskIo, M_NetDevice, M_NetIp
     , M_NetDeviceIp, M_WifiSsid, M_WifiSignal, M_WifiSsidSignal, M_Uptime, M_LoadAverage
     , M_TopProcess, M_SystemUpdates, M_ServerCheck]"

definition all_capabilities :: "capability list" where
  "all_capabilities =
    [Cap_SwapUsage, Cap_CpuFrequency, Cap_CpuTurbo, Cap_CpuTemperature, Cap_DiskTemperature
     , Cap_DiskUsage, Cap_DiskSmart, Cap_GpuNvidia, Cap_GpuAmdUsage, Cap_GpuAmdCodec
     , Cap_GpuAmdMemory, Cap_GpuAmdFrequency, Cap_GpuAmdTemperature, Cap_GpuAmdPower
     , Cap_GpuAmdFanSpeed, Cap_NpuAmdUsage, Cap_NpuAmdPower, Cap_NpuAmdFrequency
     , Cap_GpuIntelFrequency, Cap_GpuIntelUsage, Cap_GpuIntelDecoder, Cap_ScreenBrightness
     , Cap_FanSpeed, Cap_BatterySystem, Cap_BatteryMouse, Cap_BatteryKeyboard
     , Cap_NetworkSpeed, Cap_DiskIo, Cap_NetworkInfo, Cap_Uptime, Cap_LoadAverage
     , Cap_TopProcess, Cap_SystemUpdates, Cap_ServerCheck]"

lemma metric_at_rank: "all_metrics ! metric_rank m = m"
  by (cases m) (simp_all add: all_metrics_def)

lemma capability_at_rank: "all_capabilities ! capability_rank c = c"
  by (cases c) (simp_all add: all_capabilities_def)

lemma metric_rank_inj: "metric_rank a = metric_rank b \<Longrightarrow> a = b"
  by (metis metric_at_rank)

lemma capability_rank_inj: "capability_rank a = capability_rank b \<Longrightarrow> a = b"
  by (metis capability_at_rank)

lemma metric_in_all: "m \<in> set all_metrics"
  by (cases m) (simp_all add: all_metrics_def)

instantiation metric :: linorder
begin
definition less_eq_metric :: "metric \<Rightarrow> metric \<Rightarrow> bool" where
  "a \<le> b \<longleftrightarrow> metric_rank a \<le> metric_rank b"
definition less_metric :: "metric \<Rightarrow> metric \<Rightarrow> bool" where
  "a < b \<longleftrightarrow> metric_rank a < metric_rank b"
instance
  by standard (auto simp: less_eq_metric_def less_metric_def intro: metric_rank_inj)
end

instantiation capability :: linorder
begin
definition less_eq_capability :: "capability \<Rightarrow> capability \<Rightarrow> bool" where
  "a \<le> b \<longleftrightarrow> capability_rank a \<le> capability_rank b"
definition less_capability :: "capability \<Rightarrow> capability \<Rightarrow> bool" where
  "a < b \<longleftrightarrow> capability_rank a < capability_rank b"
instance
  by standard (auto simp: less_eq_capability_def less_capability_def intro: capability_rank_inj)
end

definition HISTORIED_FORMS :: "form list" where
  "HISTORIED_FORMS =
     [Form_Value, Form_Bar, Form_Spark, Form_Braille, Form_SparkValue, Form_BrailleValue,
      Form_BarSpark, Form_BarBraille]"
definition VALUE_ONLY_FORMS :: "form list" where "VALUE_ONLY_FORMS = [Form_Value]"
definition VALUE_OR_PAIR_FORMS :: "form list" where "VALUE_OR_PAIR_FORMS = [Form_Value, Form_Pair]"
definition PAIR_ONLY_FORMS :: "form list" where "PAIR_ONLY_FORMS = [Form_Pair]"
definition NO_FORMS :: "form list" where "NO_FORMS = []"

lemmas form_lists = HISTORIED_FORMS_def VALUE_ONLY_FORMS_def VALUE_OR_PAIR_FORMS_def
  PAIR_ONLY_FORMS_def NO_FORMS_def

record metric_spec =
  ms_metric :: metric
  ms_capabilities :: "capability list"
  ms_generic_forms :: "form list"
  ms_surfaces :: surface_set
  ms_intrinsic_shape :: "shape option"

primrec metric_spec_of :: "metric \<Rightarrow> metric_spec" where
  "metric_spec_of M_CpuUsage =
     \<lparr>ms_metric = M_CpuUsage, ms_capabilities = [],
      ms_generic_forms = HISTORIED_FORMS, ms_surfaces = SURF_ALL, ms_intrinsic_shape = None\<rparr>"
| "metric_spec_of M_MemUsage =
     \<lparr>ms_metric = M_MemUsage, ms_capabilities = [],
      ms_generic_forms = HISTORIED_FORMS, ms_surfaces = SURF_ALL, ms_intrinsic_shape = None\<rparr>"
| "metric_spec_of M_SwapUsage =
     \<lparr>ms_metric = M_SwapUsage, ms_capabilities = [Cap_SwapUsage],
      ms_generic_forms = VALUE_ONLY_FORMS, ms_surfaces = SURF_ALL, ms_intrinsic_shape = None\<rparr>"
| "metric_spec_of M_CpuFreq =
     \<lparr>ms_metric = M_CpuFreq, ms_capabilities = [Cap_CpuFrequency, Cap_CpuTurbo],
      ms_generic_forms = VALUE_ONLY_FORMS, ms_surfaces = SURF_ALL, ms_intrinsic_shape = None\<rparr>"
| "metric_spec_of M_CpuTurbo =
     \<lparr>ms_metric = M_CpuTurbo, ms_capabilities = [Cap_CpuTurbo],
      ms_generic_forms = VALUE_ONLY_FORMS, ms_surfaces = SURF_ALL, ms_intrinsic_shape = None\<rparr>"
| "metric_spec_of M_CpuTemp =
     \<lparr>ms_metric = M_CpuTemp, ms_capabilities = [Cap_CpuTemperature],
      ms_generic_forms = VALUE_ONLY_FORMS, ms_surfaces = SURF_ALL, ms_intrinsic_shape = None\<rparr>"
| "metric_spec_of M_HdTemp =
     \<lparr>ms_metric = M_HdTemp, ms_capabilities = [Cap_DiskTemperature],
      ms_generic_forms = VALUE_OR_PAIR_FORMS, ms_surfaces = SURF_ALL, ms_intrinsic_shape = None\<rparr>"
| "metric_spec_of M_DiskUsage =
     \<lparr>ms_metric = M_DiskUsage, ms_capabilities = [Cap_DiskUsage],
      ms_generic_forms = VALUE_ONLY_FORMS, ms_surfaces = SURF_ALL, ms_intrinsic_shape = None\<rparr>"
| "metric_spec_of M_DiskSmart =
     \<lparr>ms_metric = M_DiskSmart, ms_capabilities = [Cap_DiskSmart],
      ms_generic_forms = PAIR_ONLY_FORMS, ms_surfaces = SURF_TOOLTIP, ms_intrinsic_shape = None\<rparr>"
| "metric_spec_of M_GpuNvidiaTemp =
     \<lparr>ms_metric = M_GpuNvidiaTemp, ms_capabilities = [Cap_GpuNvidia],
      ms_generic_forms = VALUE_ONLY_FORMS, ms_surfaces = SURF_ALL, ms_intrinsic_shape = None\<rparr>"
| "metric_spec_of M_GpuNvidiaUsage =
     \<lparr>ms_metric = M_GpuNvidiaUsage, ms_capabilities = [Cap_GpuNvidia],
      ms_generic_forms = VALUE_ONLY_FORMS, ms_surfaces = SURF_ALL, ms_intrinsic_shape = None\<rparr>"
| "metric_spec_of M_GpuNvidiaMemUsage =
     \<lparr>ms_metric = M_GpuNvidiaMemUsage, ms_capabilities = [Cap_GpuNvidia],
      ms_generic_forms = VALUE_ONLY_FORMS, ms_surfaces = SURF_ALL, ms_intrinsic_shape = None\<rparr>"
| "metric_spec_of M_GpuNvidiaDecoderUsage =
     \<lparr>ms_metric = M_GpuNvidiaDecoderUsage, ms_capabilities = [Cap_GpuNvidia],
      ms_generic_forms = VALUE_ONLY_FORMS, ms_surfaces = SURF_ALL, ms_intrinsic_shape = None\<rparr>"
| "metric_spec_of M_GpuNvidiaFanSpeed =
     \<lparr>ms_metric = M_GpuNvidiaFanSpeed, ms_capabilities = [Cap_GpuNvidia],
      ms_generic_forms = VALUE_ONLY_FORMS, ms_surfaces = SURF_ALL, ms_intrinsic_shape = None\<rparr>"
| "metric_spec_of M_GpuAmdUsage =
     \<lparr>ms_metric = M_GpuAmdUsage, ms_capabilities = [Cap_GpuAmdUsage],
      ms_generic_forms = VALUE_ONLY_FORMS, ms_surfaces = SURF_ALL, ms_intrinsic_shape = None\<rparr>"
| "metric_spec_of M_GpuAmdCodecUsage =
     \<lparr>ms_metric = M_GpuAmdCodecUsage, ms_capabilities = [Cap_GpuAmdCodec],
      ms_generic_forms = VALUE_ONLY_FORMS, ms_surfaces = SURF_ALL, ms_intrinsic_shape = None\<rparr>"
| "metric_spec_of M_GpuAmdMemUsage =
     \<lparr>ms_metric = M_GpuAmdMemUsage, ms_capabilities = [Cap_GpuAmdMemory],
      ms_generic_forms = VALUE_ONLY_FORMS, ms_surfaces = SURF_ALL, ms_intrinsic_shape = None\<rparr>"
| "metric_spec_of M_GpuAmdFreq =
     \<lparr>ms_metric = M_GpuAmdFreq, ms_capabilities = [Cap_GpuAmdFrequency],
      ms_generic_forms = VALUE_ONLY_FORMS, ms_surfaces = SURF_ALL, ms_intrinsic_shape = None\<rparr>"
| "metric_spec_of M_GpuAmdTemp =
     \<lparr>ms_metric = M_GpuAmdTemp, ms_capabilities = [Cap_GpuAmdTemperature],
      ms_generic_forms = VALUE_ONLY_FORMS, ms_surfaces = SURF_ALL, ms_intrinsic_shape = None\<rparr>"
| "metric_spec_of M_GpuAmdPower =
     \<lparr>ms_metric = M_GpuAmdPower, ms_capabilities = [Cap_GpuAmdPower],
      ms_generic_forms = VALUE_ONLY_FORMS, ms_surfaces = SURF_ALL, ms_intrinsic_shape = None\<rparr>"
| "metric_spec_of M_GpuAmdFanSpeed =
     \<lparr>ms_metric = M_GpuAmdFanSpeed, ms_capabilities = [Cap_GpuAmdFanSpeed],
      ms_generic_forms = VALUE_ONLY_FORMS, ms_surfaces = SURF_ALL, ms_intrinsic_shape = None\<rparr>"
| "metric_spec_of M_NpuAmdUsage =
     \<lparr>ms_metric = M_NpuAmdUsage, ms_capabilities = [Cap_NpuAmdUsage],
      ms_generic_forms = VALUE_ONLY_FORMS, ms_surfaces = SURF_ALL, ms_intrinsic_shape = None\<rparr>"
| "metric_spec_of M_NpuAmdPower =
     \<lparr>ms_metric = M_NpuAmdPower, ms_capabilities = [Cap_NpuAmdPower],
      ms_generic_forms = VALUE_ONLY_FORMS, ms_surfaces = SURF_ALL, ms_intrinsic_shape = None\<rparr>"
| "metric_spec_of M_NpuAmdFreq =
     \<lparr>ms_metric = M_NpuAmdFreq, ms_capabilities = [Cap_NpuAmdFrequency],
      ms_generic_forms = VALUE_ONLY_FORMS, ms_surfaces = SURF_ALL, ms_intrinsic_shape = None\<rparr>"
| "metric_spec_of M_GpuIntelFreq =
     \<lparr>ms_metric = M_GpuIntelFreq, ms_capabilities = [Cap_GpuIntelFrequency],
      ms_generic_forms = VALUE_ONLY_FORMS, ms_surfaces = SURF_ALL, ms_intrinsic_shape = None\<rparr>"
| "metric_spec_of M_GpuIntelUsage =
     \<lparr>ms_metric = M_GpuIntelUsage, ms_capabilities = [Cap_GpuIntelUsage],
      ms_generic_forms = VALUE_ONLY_FORMS, ms_surfaces = SURF_ALL, ms_intrinsic_shape = None\<rparr>"
| "metric_spec_of M_GpuIntelDecoderUsage =
     \<lparr>ms_metric = M_GpuIntelDecoderUsage, ms_capabilities = [Cap_GpuIntelDecoder],
      ms_generic_forms = VALUE_ONLY_FORMS, ms_surfaces = SURF_ALL, ms_intrinsic_shape = None\<rparr>"
| "metric_spec_of M_ScreenBrightness =
     \<lparr>ms_metric = M_ScreenBrightness, ms_capabilities = [Cap_ScreenBrightness],
      ms_generic_forms = VALUE_ONLY_FORMS, ms_surfaces = SURF_ALL, ms_intrinsic_shape = None\<rparr>"
| "metric_spec_of M_FanSpeed =
     \<lparr>ms_metric = M_FanSpeed, ms_capabilities = [Cap_FanSpeed],
      ms_generic_forms = VALUE_OR_PAIR_FORMS, ms_surfaces = SURF_ALL, ms_intrinsic_shape = None\<rparr>"
| "metric_spec_of M_BatterySystem =
     \<lparr>ms_metric = M_BatterySystem, ms_capabilities = [Cap_BatterySystem],
      ms_generic_forms = VALUE_ONLY_FORMS, ms_surfaces = SURF_ALL, ms_intrinsic_shape = None\<rparr>"
| "metric_spec_of M_BatteryMouse =
     \<lparr>ms_metric = M_BatteryMouse, ms_capabilities = [Cap_BatteryMouse],
      ms_generic_forms = VALUE_ONLY_FORMS, ms_surfaces = SURF_ALL, ms_intrinsic_shape = None\<rparr>"
| "metric_spec_of M_BatteryKeyboard =
     \<lparr>ms_metric = M_BatteryKeyboard, ms_capabilities = [Cap_BatteryKeyboard],
      ms_generic_forms = VALUE_ONLY_FORMS, ms_surfaces = SURF_ALL, ms_intrinsic_shape = None\<rparr>"
| "metric_spec_of M_NetSpeed =
     \<lparr>ms_metric = M_NetSpeed, ms_capabilities = [Cap_NetworkSpeed],
      ms_generic_forms = NO_FORMS, ms_surfaces = SURF_ALL, ms_intrinsic_shape = Some Shape_Duo\<rparr>"
| "metric_spec_of M_DiskIo =
     \<lparr>ms_metric = M_DiskIo, ms_capabilities = [Cap_DiskIo],
      ms_generic_forms = NO_FORMS, ms_surfaces = SURF_ALL, ms_intrinsic_shape = Some Shape_Duo\<rparr>"
| "metric_spec_of M_NetDevice =
     \<lparr>ms_metric = M_NetDevice, ms_capabilities = [Cap_NetworkInfo],
      ms_generic_forms = VALUE_ONLY_FORMS, ms_surfaces = SURF_TOOLTIP, ms_intrinsic_shape = None\<rparr>"
| "metric_spec_of M_NetIp =
     \<lparr>ms_metric = M_NetIp, ms_capabilities = [Cap_NetworkInfo],
      ms_generic_forms = VALUE_ONLY_FORMS, ms_surfaces = SURF_TOOLTIP, ms_intrinsic_shape = None\<rparr>"
| "metric_spec_of M_NetDeviceIp =
     \<lparr>ms_metric = M_NetDeviceIp, ms_capabilities = [Cap_NetworkInfo],
      ms_generic_forms = VALUE_ONLY_FORMS, ms_surfaces = SURF_TOOLTIP, ms_intrinsic_shape = None\<rparr>"
| "metric_spec_of M_WifiSsid =
     \<lparr>ms_metric = M_WifiSsid, ms_capabilities = [Cap_NetworkInfo],
      ms_generic_forms = VALUE_ONLY_FORMS, ms_surfaces = SURF_TOOLTIP, ms_intrinsic_shape = None\<rparr>"
| "metric_spec_of M_WifiSignal =
     \<lparr>ms_metric = M_WifiSignal, ms_capabilities = [Cap_NetworkInfo],
      ms_generic_forms = VALUE_ONLY_FORMS, ms_surfaces = SURF_ALL, ms_intrinsic_shape = None\<rparr>"
| "metric_spec_of M_WifiSsidSignal =
     \<lparr>ms_metric = M_WifiSsidSignal, ms_capabilities = [Cap_NetworkInfo],
      ms_generic_forms = VALUE_ONLY_FORMS, ms_surfaces = SURF_TOOLTIP, ms_intrinsic_shape = None\<rparr>"
| "metric_spec_of M_Uptime =
     \<lparr>ms_metric = M_Uptime, ms_capabilities = [Cap_Uptime],
      ms_generic_forms = VALUE_ONLY_FORMS, ms_surfaces = SURF_TOOLTIP, ms_intrinsic_shape = None\<rparr>"
| "metric_spec_of M_LoadAverage =
     \<lparr>ms_metric = M_LoadAverage, ms_capabilities = [Cap_LoadAverage],
      ms_generic_forms = VALUE_ONLY_FORMS, ms_surfaces = SURF_TOOLTIP, ms_intrinsic_shape = None\<rparr>"
| "metric_spec_of M_TopProcess =
     \<lparr>ms_metric = M_TopProcess, ms_capabilities = [Cap_TopProcess],
      ms_generic_forms = NO_FORMS, ms_surfaces = SURF_TOOLTIP, ms_intrinsic_shape = Some Shape_TripleL\<rparr>"
| "metric_spec_of M_SystemUpdates =
     \<lparr>ms_metric = M_SystemUpdates, ms_capabilities = [Cap_SystemUpdates],
      ms_generic_forms = VALUE_ONLY_FORMS, ms_surfaces = SURF_ALL, ms_intrinsic_shape = None\<rparr>"
| "metric_spec_of M_ServerCheck =
     \<lparr>ms_metric = M_ServerCheck, ms_capabilities = [Cap_ServerCheck],
      ms_generic_forms = VALUE_ONLY_FORMS, ms_surfaces = SURF_ALL, ms_intrinsic_shape = None\<rparr>"

primrec metric_as_str :: "metric \<Rightarrow> string" where
  "metric_as_str M_CpuUsage = ''cpu_usage''"
| "metric_as_str M_MemUsage = ''mem_usage''"
| "metric_as_str M_SwapUsage = ''swap_usage''"
| "metric_as_str M_CpuFreq = ''cpu_freq''"
| "metric_as_str M_CpuTurbo = ''cpu_turbo''"
| "metric_as_str M_CpuTemp = ''cpu_temp''"
| "metric_as_str M_HdTemp = ''hd_temp''"
| "metric_as_str M_DiskUsage = ''disk_usage''"
| "metric_as_str M_DiskSmart = ''disk_smart''"
| "metric_as_str M_GpuNvidiaTemp = ''gpu_nvidia_temp''"
| "metric_as_str M_GpuNvidiaUsage = ''gpu_nvidia_usage''"
| "metric_as_str M_GpuNvidiaMemUsage = ''gpu_nvidia_mem_usage''"
| "metric_as_str M_GpuNvidiaDecoderUsage = ''gpu_nvidia_dec_usage''"
| "metric_as_str M_GpuNvidiaFanSpeed = ''gpu_nvidia_fan_speed''"
| "metric_as_str M_GpuAmdUsage = ''gpu_amd_usage''"
| "metric_as_str M_GpuAmdCodecUsage = ''gpu_amd_codec_usage''"
| "metric_as_str M_GpuAmdMemUsage = ''gpu_amd_mem_usage''"
| "metric_as_str M_GpuAmdFreq = ''gpu_amd_freq''"
| "metric_as_str M_GpuAmdTemp = ''gpu_amd_temp''"
| "metric_as_str M_GpuAmdPower = ''gpu_amd_power''"
| "metric_as_str M_GpuAmdFanSpeed = ''gpu_amd_fan_speed''"
| "metric_as_str M_NpuAmdUsage = ''npu_amd_usage''"
| "metric_as_str M_NpuAmdPower = ''npu_amd_power''"
| "metric_as_str M_NpuAmdFreq = ''npu_amd_freq''"
| "metric_as_str M_GpuIntelFreq = ''gpu_intel_freq''"
| "metric_as_str M_GpuIntelUsage = ''gpu_intel_usage''"
| "metric_as_str M_GpuIntelDecoderUsage = ''gpu_intel_dec_usage''"
| "metric_as_str M_ScreenBrightness = ''screen_brightness''"
| "metric_as_str M_FanSpeed = ''fan_speed''"
| "metric_as_str M_BatterySystem = ''battery_sys''"
| "metric_as_str M_BatteryMouse = ''battery_mouse''"
| "metric_as_str M_BatteryKeyboard = ''battery_kbd''"
| "metric_as_str M_NetSpeed = ''net_speed''"
| "metric_as_str M_DiskIo = ''disk_io''"
| "metric_as_str M_NetDevice = ''net_device''"
| "metric_as_str M_NetIp = ''net_ip''"
| "metric_as_str M_NetDeviceIp = ''net_device_ip''"
| "metric_as_str M_WifiSsid = ''wifi_ssid''"
| "metric_as_str M_WifiSignal = ''wifi_signal''"
| "metric_as_str M_WifiSsidSignal = ''wifi_ssid_signal''"
| "metric_as_str M_Uptime = ''uptime''"
| "metric_as_str M_LoadAverage = ''load_avg''"
| "metric_as_str M_TopProcess = ''top_process''"
| "metric_as_str M_SystemUpdates = ''system_updates''"
| "metric_as_str M_ServerCheck = ''server_check''"

primrec capability_as_str :: "capability \<Rightarrow> string" where
  "capability_as_str Cap_SwapUsage = ''swap_usage''"
| "capability_as_str Cap_CpuFrequency = ''cpu_freq''"
| "capability_as_str Cap_CpuTurbo = ''cpu_turbo''"
| "capability_as_str Cap_CpuTemperature = ''cpu_temp''"
| "capability_as_str Cap_DiskTemperature = ''hd_temp''"
| "capability_as_str Cap_DiskUsage = ''disk_usage''"
| "capability_as_str Cap_DiskSmart = ''disk_smart''"
| "capability_as_str Cap_GpuNvidia = ''gpu_nvidia''"
| "capability_as_str Cap_GpuAmdUsage = ''gpu_amd_usage''"
| "capability_as_str Cap_GpuAmdCodec = ''gpu_amd_codec_usage''"
| "capability_as_str Cap_GpuAmdMemory = ''gpu_amd_mem_usage''"
| "capability_as_str Cap_GpuAmdFrequency = ''gpu_amd_freq''"
| "capability_as_str Cap_GpuAmdTemperature = ''gpu_amd_temp''"
| "capability_as_str Cap_GpuAmdPower = ''gpu_amd_power''"
| "capability_as_str Cap_GpuAmdFanSpeed = ''gpu_amd_fan_speed''"
| "capability_as_str Cap_NpuAmdUsage = ''npu_amd_usage''"
| "capability_as_str Cap_NpuAmdPower = ''npu_amd_power''"
| "capability_as_str Cap_NpuAmdFrequency = ''npu_amd_freq''"
| "capability_as_str Cap_GpuIntelFrequency = ''gpu_intel_freq''"
| "capability_as_str Cap_GpuIntelUsage = ''gpu_intel_usage''"
| "capability_as_str Cap_GpuIntelDecoder = ''gpu_intel_dec''"
| "capability_as_str Cap_ScreenBrightness = ''screen_brightness''"
| "capability_as_str Cap_FanSpeed = ''fan_speed''"
| "capability_as_str Cap_BatterySystem = ''battery_sys''"
| "capability_as_str Cap_BatteryMouse = ''battery_mouse''"
| "capability_as_str Cap_BatteryKeyboard = ''battery_kbd''"
| "capability_as_str Cap_NetworkSpeed = ''net_speed''"
| "capability_as_str Cap_DiskIo = ''disk_io''"
| "capability_as_str Cap_NetworkInfo = ''net_info''"
| "capability_as_str Cap_Uptime = ''uptime''"
| "capability_as_str Cap_LoadAverage = ''load_avg''"
| "capability_as_str Cap_TopProcess = ''top_process''"
| "capability_as_str Cap_SystemUpdates = ''system_updates''"
| "capability_as_str Cap_ServerCheck = ''server_check''"

datatype metric_parse_error = MetricParseError string

definition metric_from_str :: "string \<Rightarrow> metric_parse_error + metric" where
  "metric_from_str v =
     (if v = ''cpu_usage'' then Inr M_CpuUsage
      else if v = ''mem_usage'' then Inr M_MemUsage
      else if v = ''swap_usage'' then Inr M_SwapUsage
      else if v = ''cpu_freq'' then Inr M_CpuFreq
      else if v = ''cpu_turbo'' then Inr M_CpuTurbo
      else if v = ''cpu_temp'' then Inr M_CpuTemp
      else if v = ''hd_temp'' then Inr M_HdTemp
      else if v = ''disk_usage'' then Inr M_DiskUsage
      else if v = ''disk_smart'' then Inr M_DiskSmart
      else if v = ''gpu_nvidia_temp'' then Inr M_GpuNvidiaTemp
      else if v = ''gpu_nvidia_usage'' then Inr M_GpuNvidiaUsage
      else if v = ''gpu_nvidia_mem_usage'' then Inr M_GpuNvidiaMemUsage
      else if v = ''gpu_nvidia_dec_usage'' then Inr M_GpuNvidiaDecoderUsage
      else if v = ''gpu_nvidia_fan_speed'' then Inr M_GpuNvidiaFanSpeed
      else if v = ''gpu_amd_usage'' then Inr M_GpuAmdUsage
      else if v = ''gpu_amd_codec_usage'' then Inr M_GpuAmdCodecUsage
      else if v = ''gpu_amd_mem_usage'' then Inr M_GpuAmdMemUsage
      else if v = ''gpu_amd_freq'' then Inr M_GpuAmdFreq
      else if v = ''gpu_amd_temp'' then Inr M_GpuAmdTemp
      else if v = ''gpu_amd_power'' then Inr M_GpuAmdPower
      else if v = ''gpu_amd_fan_speed'' then Inr M_GpuAmdFanSpeed
      else if v = ''npu_amd_usage'' then Inr M_NpuAmdUsage
      else if v = ''npu_amd_power'' then Inr M_NpuAmdPower
      else if v = ''npu_amd_freq'' then Inr M_NpuAmdFreq
      else if v = ''gpu_intel_freq'' then Inr M_GpuIntelFreq
      else if v = ''gpu_intel_usage'' then Inr M_GpuIntelUsage
      else if v = ''gpu_intel_dec_usage'' then Inr M_GpuIntelDecoderUsage
      else if v = ''screen_brightness'' then Inr M_ScreenBrightness
      else if v = ''fan_speed'' then Inr M_FanSpeed
      else if v = ''battery_sys'' then Inr M_BatterySystem
      else if v = ''battery_mouse'' then Inr M_BatteryMouse
      else if v = ''battery_kbd'' then Inr M_BatteryKeyboard
      else if v = ''net_speed'' then Inr M_NetSpeed
      else if v = ''disk_io'' then Inr M_DiskIo
      else if v = ''net_device'' then Inr M_NetDevice
      else if v = ''net_ip'' then Inr M_NetIp
      else if v = ''net_device_ip'' then Inr M_NetDeviceIp
      else if v = ''wifi_ssid'' then Inr M_WifiSsid
      else if v = ''wifi_signal'' then Inr M_WifiSignal
      else if v = ''wifi_ssid_signal'' then Inr M_WifiSsidSignal
      else if v = ''uptime'' then Inr M_Uptime
      else if v = ''load_avg'' then Inr M_LoadAverage
      else if v = ''top_process'' then Inr M_TopProcess
      else if v = ''system_updates'' then Inr M_SystemUpdates
      else if v = ''server_check'' then Inr M_ServerCheck
      else Inl (MetricParseError v))"

definition supports_form :: "metric \<Rightarrow> form \<Rightarrow> bool" where
  "supports_form m f \<longleftrightarrow> f \<in> set (ms_generic_forms (metric_spec_of m))"
definition metric_surfaces :: "metric \<Rightarrow> surface_set" where
  "metric_surfaces m = ms_surfaces (metric_spec_of m)"
definition intrinsic_shape :: "metric \<Rightarrow> shape option" where
  "intrinsic_shape m = ms_intrinsic_shape (metric_spec_of m)"
definition metric_capabilities :: "metric \<Rightarrow> capability list" where
  "metric_capabilities m = ms_capabilities (metric_spec_of m)"

lemma metric_from_as_str: "metric_from_str (metric_as_str m) = Inr m"
  by (cases m) (simp_all add: metric_from_str_def)

lemma metric_from_str_Inr: "metric_from_str v = Inr m \<longleftrightarrow> v = metric_as_str m"
proof
  assume "metric_from_str v = Inr m"
  then show "v = metric_as_str m"
    by (auto simp: metric_from_str_def split: if_splits)
qed (simp add: metric_from_as_str)

lemma metric_from_str_Inl: "metric_from_str v = Inl e \<Longrightarrow> e = MetricParseError v"
  by (auto simp: metric_from_str_def split: if_splits)

lemma metric_as_str_inj: "metric_as_str a = metric_as_str b \<Longrightarrow> a = b"
  by (metis metric_from_as_str sum.inject(2))

lemma metric_as_str_no_colon: "CHR '':'' \<notin> set (metric_as_str m)"
  by (cases m) simp_all

lemma metric_as_str_nonempty: "metric_as_str m \<noteq> []"
  by (cases m) simp_all

text \<open>An intrinsic metric offers no generic form, and every other metric offers at least one.\<close>

lemma intrinsic_iff_no_forms:
  "intrinsic_shape m \<noteq> None \<longleftrightarrow> ms_generic_forms (metric_spec_of m) = []"
  by (cases m) (simp_all add: intrinsic_shape_def form_lists)

lemma generic_forms_distinct: "distinct (ms_generic_forms (metric_spec_of m))"
  by (cases m) (simp_all add: form_lists)

end
