(* ===== verification/Readings.thy ===== *)
theory Readings
  imports Metrics
begin

text \<open>
  Retained samples and accelerator sources: \<open>src/domain/readings.rs\<close>. A \<open>RetainedMetricSample\<close>
  keeps the last two successful samples; the abstract view is the whole list of successes since
  the last absence or invalidation, newest first, and \<open>retained_refines\<close> relates the two.
\<close>

section \<open>Retained metric samples\<close>

record 'a metric_sample =
  smp_value :: 'a
  captured_at :: duration

definition metric_sample_new :: "'a \<Rightarrow> duration \<Rightarrow> 'a metric_sample" where
  "metric_sample_new v t = \<lparr>smp_value = v, captured_at = t\<rparr>"

record 'a retained =
  latest :: "'a metric_sample option"
  previous :: "'a metric_sample option"
  attempted_at :: "duration option"
  failed_at :: "duration option"
  latest_attempt_failed :: bool

definition retained_default :: "'a retained" where
  "retained_default =
     \<lparr>latest = None, previous = None, attempted_at = None, failed_at = None,
      latest_attempt_failed = False\<rparr>"

definition record_value :: "'a \<Rightarrow> duration \<Rightarrow> 'a retained \<Rightarrow> 'a retained" where
  "record_value v t r =
     r\<lparr>attempted_at := Some t,
       previous := latest r,
       latest := Some (metric_sample_new v t),
       latest_attempt_failed := False\<rparr>"

definition record_failure :: "duration \<Rightarrow> 'a retained \<Rightarrow> 'a retained" where
  "record_failure t r =
     r\<lparr>attempted_at := Some t, failed_at := Some t, latest_attempt_failed := True\<rparr>"

definition record_attempt :: "'a option \<Rightarrow> duration \<Rightarrow> 'a retained \<Rightarrow> 'a retained" where
  "record_attempt v t r = (case v of Some x \<Rightarrow> record_value x t r | None \<Rightarrow> record_failure t r)"

definition record_baseline :: "duration \<Rightarrow> 'a retained \<Rightarrow> 'a retained" where
  "record_baseline t r = r\<lparr>attempted_at := Some t, latest_attempt_failed := False\<rparr>"

definition record_absence :: "duration \<Rightarrow> 'a retained \<Rightarrow> 'a retained" where
  "record_absence t r =
     r\<lparr>attempted_at := Some t, latest := None, previous := None, latest_attempt_failed := False\<rparr>"

definition invalidate :: "'a retained \<Rightarrow> 'a retained" where
  "invalidate r =
     r\<lparr>latest := None, previous := None, attempted_at := None, failed_at := None,
       latest_attempt_failed := False\<rparr>"

definition update_values :: "('a \<Rightarrow> 'a) \<Rightarrow> 'a retained \<Rightarrow> 'a retained" where
  "update_values f r =
     r\<lparr>latest := map_option (\<lambda>s. s\<lparr>smp_value := f (smp_value s)\<rparr>) (latest r),
       previous := map_option (\<lambda>s. s\<lparr>smp_value := f (smp_value s)\<rparr>) (previous r)\<rparr>"

definition opt_filter :: "('a \<Rightarrow> bool) \<Rightarrow> 'a option \<Rightarrow> 'a option" where
  "opt_filter P x = (case x of Some v \<Rightarrow> (if P v then Some v else None) | None \<Rightarrow> None)"

definition sample_at_or_before :: "duration \<Rightarrow> 'a retained \<Rightarrow> 'a metric_sample option" where
  "sample_at_or_before cutoff r =
     (case opt_filter (\<lambda>s. captured_at s \<le> cutoff) (latest r) of
        Some s \<Rightarrow> Some s
      | None \<Rightarrow> opt_filter (\<lambda>s. captured_at s \<le> cutoff) (previous r))"

lemmas retained_defs = record_value_def record_failure_def record_attempt_def record_baseline_def
  record_absence_def invalidate_def update_values_def metric_sample_new_def

subsection \<open>Runs of attempts\<close>

datatype 'a attempt =
  Att_Value 'a duration | Att_Baseline duration | Att_Failure duration | Att_Absence duration
  | Att_Invalidate

primrec apply_attempt :: "'a attempt \<Rightarrow> 'a retained \<Rightarrow> 'a retained" where
  "apply_attempt (Att_Value v t) r = record_attempt (Some v) t r"
| "apply_attempt (Att_Baseline t) r = record_baseline t r"
| "apply_attempt (Att_Failure t) r = record_attempt None t r"
| "apply_attempt (Att_Absence t) r = record_absence t r"
| "apply_attempt Att_Invalidate r = invalidate r"

definition run_attempts :: "'a attempt list \<Rightarrow> 'a retained" where
  "run_attempts as = fold apply_attempt as retained_default"

text \<open>The specification: every success since the last absence or invalidation, newest first.\<close>

fun success_step :: "'a attempt \<Rightarrow> 'a metric_sample list \<Rightarrow> 'a metric_sample list" where
  "success_step (Att_Value v t) h = metric_sample_new v t # h"
| "success_step (Att_Absence t) h = []"
| "success_step Att_Invalidate h = []"
| "success_step (Att_Baseline t) h = h"
| "success_step (Att_Failure t) h = h"

definition successes :: "'a attempt list \<Rightarrow> 'a metric_sample list" where
  "successes as = fold success_step as []"

definition nth_opt :: "'a list \<Rightarrow> nat \<Rightarrow> 'a option" where
  "nth_opt xs n = (if n < length xs then Some (xs ! n) else None)"

lemma nth_opt_simps [simp]:
  "nth_opt [] n = None" "nth_opt (x # xs) 0 = Some x" "nth_opt (x # xs) (Suc n) = nth_opt xs n"
  by (simp_all add: nth_opt_def)

definition keeps :: "'a retained \<Rightarrow> 'a metric_sample list \<Rightarrow> bool" where
  "keeps r h \<longleftrightarrow> latest r = nth_opt h 0 \<and> previous r = nth_opt h 1"

lemma keeps_step: "keeps r h \<Longrightarrow> keeps (apply_attempt a r) (success_step a h)"
  by (cases a) (auto simp: keeps_def retained_defs)

lemma keeps_fold: "keeps r h \<Longrightarrow> keeps (fold apply_attempt as r) (fold success_step as h)"
  by (induction as arbitrary: r h) (auto dest: keeps_step)

lemma keeps_run: "keeps (run_attempts as) (successes as)"
  unfolding run_attempts_def successes_def
  by (rule keeps_fold) (simp add: keeps_def retained_default_def)

lemma sample_at_or_before_find:
  "keeps r h \<Longrightarrow> sample_at_or_before cutoff r = List.find (\<lambda>s. captured_at s \<le> cutoff) (take 2 h)"
  by (cases h; cases "tl h")
    (auto simp: keeps_def sample_at_or_before_def opt_filter_def numeral_2_eq_2)

section \<open>AMD sources\<close>

record amd_memory_paths =
  mem_used :: path
  mem_total :: path

record amd_gpu_source =
  pci_identity :: string
  usage_path :: "path option"
  codec_usage_path :: "path option"
  freq_path :: "path option"
  temp_path :: "path option"
  power_path :: "path option"
  fan_speed_path :: "path option"
  memory_paths :: "amd_memory_paths option"

definition changed_metrics :: "amd_gpu_source \<Rightarrow> amd_gpu_source \<Rightarrow> metric bset" where
  "changed_metrics a b =
     (let replaced = pci_identity a \<noteq> pci_identity b in
      bs_collect (List.map_filter
        (\<lambda>(m, changed). if replaced \<or> changed then Some m else None)
        [(M_GpuAmdUsage, usage_path a \<noteq> usage_path b),
         (M_GpuAmdCodecUsage, codec_usage_path a \<noteq> codec_usage_path b),
         (M_GpuAmdMemUsage, memory_paths a \<noteq> memory_paths b),
         (M_GpuAmdFreq, freq_path a \<noteq> freq_path b),
         (M_GpuAmdTemp, temp_path a \<noteq> temp_path b),
         (M_GpuAmdPower, power_path a \<noteq> power_path b),
         (M_GpuAmdFanSpeed, fan_speed_path a \<noteq> fan_speed_path b)]))"

lemma changed_metrics_refl: "changed_metrics a a = []"
  by (simp add: changed_metrics_def List.map_filter_def bs_collect_def bs_extend_def)

lemma changed_metrics_empty_iff: "changed_metrics a b = [] \<longleftrightarrow> a = b"
proof
  assume "changed_metrics a b = []"
  then have "set (changed_metrics a b) = {}" by simp
  then show "a = b"
    unfolding changed_metrics_def Let_def set_bs_collect
    by (cases a; cases b) (auto simp: List.map_filter_def split: if_splits)
qed (simp add: changed_metrics_refl)

record amd_memory_reading =
  used_bytes :: "64 word"
  total_bytes :: "64 word"

definition i32_try_from :: "nat \<Rightarrow> int option" where
  "i32_try_from n = (if n \<le> 2 ^ 31 - 1 then Some (int n) else None)"

definition mem_percent :: "amd_memory_reading \<Rightarrow> int option" where
  "mem_percent r =
     (if total_bytes r = 0 \<or> total_bytes r < used_bytes r then None
      else i32_try_from (unat (used_bytes r) * 100 div unat (total_bytes r)))"

lemma mem_percent_quotient:
  assumes "total_bytes r \<noteq> 0" "used_bytes r \<le> total_bytes r"
  shows "unat (used_bytes r) * 100 div unat (total_bytes r) \<le> 100"
proof -
  have pos: "0 < unat (total_bytes r)" using assms(1) by (simp add: unat_gt_0)
  have "unat (used_bytes r) * 100 \<le> 100 * unat (total_bytes r)"
    using assms(2) by (simp add: word_le_nat_alt)
  then have "unat (used_bytes r) * 100 div unat (total_bytes r)
      \<le> 100 * unat (total_bytes r) div unat (total_bytes r)"
    by (rule div_le_mono)
  with pos show ?thesis by simp
qed

record amd_npu_source =
  accel_pci :: string
  metrics_pci :: string
  metrics_path :: path

definition npu_identity :: "amd_npu_source \<Rightarrow> string" where
  "npu_identity s = ''npu:'' @ accel_pci s @ ''+'' @ metrics_pci s"

datatype inventory_family =
  Inv_Cpu | Inv_Thermal | Inv_SystemBattery | Inv_Smart | Inv_Nvidia | Inv_Amd | Inv_AmdNpu
  | Inv_Intel | Inv_Backlight | Inv_Network | Inv_DiskIo | Inv_Peripheral

primrec family_rank :: "inventory_family \<Rightarrow> nat" where
  "family_rank Inv_Cpu = 0"
| "family_rank Inv_Thermal = 1"
| "family_rank Inv_SystemBattery = 2"
| "family_rank Inv_Smart = 3"
| "family_rank Inv_Nvidia = 4"
| "family_rank Inv_Amd = 5"
| "family_rank Inv_AmdNpu = 6"
| "family_rank Inv_Intel = 7"
| "family_rank Inv_Backlight = 8"
| "family_rank Inv_Network = 9"
| "family_rank Inv_DiskIo = 10"
| "family_rank Inv_Peripheral = 11"

lemma family_rank_inj: "family_rank a = family_rank b \<Longrightarrow> a = b"
  by (cases a; cases b) simp_all

end
