(* ===== verification/SchedModel.thy ===== *)
theory SchedModel
  imports Readings
begin

text \<open>
  The scheduler's data: \<open>src/scheduler/model.rs\<close>. \<open>SchedulerTime\<close> is a \<open>Duration\<close> since boot. The
  derived orders are lexicographic: an enum compares its variants in declaration order, then the
  fields, so each type carries a key into an ordered tuple and the order of its keys.
\<close>

section \<open>Identities\<close>

type_synonym config_generation = nat
type_synonym inventory_generation = nat
type_synonym run_id = nat
type_synonym publication_id = nat
type_synonym resume_id = nat
type_synonym history_deadline = sched_time

definition generation_next :: "nat \<Rightarrow> nat" where
  "generation_next g = u64_saturating_add g 1"

datatype owner_id =
  Own_Cpu | Own_Process | Own_Memory | Own_Network | Own_Disk | Own_Power | Own_Nvidia
  | Own_AmdGpu | Own_AmdNpu | Own_IntelGpu | Own_GpuHistory | Own_External | Own_Page
  | Own_Discovery

datatype job_kind =
  Job_Cpu | Job_CpuCores | Job_CpuHistory | Job_CpuCoreHistory | Job_Memory
  | Job_MemoryHistory | Job_NetworkRate | Job_NetworkIdentity | Job_NetworkHistory
  | Job_DiskIo | Job_DiskIoHistory | Job_DiskUsage | Job_Smart | Job_DiskTemperature
  | Job_FanSpeed | Job_SystemBattery | Job_PeripheralBattery | Job_NvidiaNvml
  | Job_NvidiaFallback | Job_AmdFast | Job_AmdSlow | Job_AmdNpu | Job_AmdNpuHistory
  | Job_IntelFrequency | Job_IntelUsage | Job_GpuHistory | Job_PanelProcesses
  | Job_PageProcesses | Job_Brightness | Job_UpdatesFile | Job_ServerFile | Job_PageCommand
  | Job_PageRender | Job_HardwareDiscovery | Job_MountInventory

primrec owner_rank :: "owner_id \<Rightarrow> nat" where
  "owner_rank Own_Cpu = 0"
| "owner_rank Own_Process = 1"
| "owner_rank Own_Memory = 2"
| "owner_rank Own_Network = 3"
| "owner_rank Own_Disk = 4"
| "owner_rank Own_Power = 5"
| "owner_rank Own_Nvidia = 6"
| "owner_rank Own_AmdGpu = 7"
| "owner_rank Own_AmdNpu = 8"
| "owner_rank Own_IntelGpu = 9"
| "owner_rank Own_GpuHistory = 10"
| "owner_rank Own_External = 11"
| "owner_rank Own_Page = 12"
| "owner_rank Own_Discovery = 13"

primrec job_kind_rank :: "job_kind \<Rightarrow> nat" where
  "job_kind_rank Job_Cpu = 0"
| "job_kind_rank Job_CpuCores = 1"
| "job_kind_rank Job_CpuHistory = 2"
| "job_kind_rank Job_CpuCoreHistory = 3"
| "job_kind_rank Job_Memory = 4"
| "job_kind_rank Job_MemoryHistory = 5"
| "job_kind_rank Job_NetworkRate = 6"
| "job_kind_rank Job_NetworkIdentity = 7"
| "job_kind_rank Job_NetworkHistory = 8"
| "job_kind_rank Job_DiskIo = 9"
| "job_kind_rank Job_DiskIoHistory = 10"
| "job_kind_rank Job_DiskUsage = 11"
| "job_kind_rank Job_Smart = 12"
| "job_kind_rank Job_DiskTemperature = 13"
| "job_kind_rank Job_FanSpeed = 14"
| "job_kind_rank Job_SystemBattery = 15"
| "job_kind_rank Job_PeripheralBattery = 16"
| "job_kind_rank Job_NvidiaNvml = 17"
| "job_kind_rank Job_NvidiaFallback = 18"
| "job_kind_rank Job_AmdFast = 19"
| "job_kind_rank Job_AmdSlow = 20"
| "job_kind_rank Job_AmdNpu = 21"
| "job_kind_rank Job_AmdNpuHistory = 22"
| "job_kind_rank Job_IntelFrequency = 23"
| "job_kind_rank Job_IntelUsage = 24"
| "job_kind_rank Job_GpuHistory = 25"
| "job_kind_rank Job_PanelProcesses = 26"
| "job_kind_rank Job_PageProcesses = 27"
| "job_kind_rank Job_Brightness = 28"
| "job_kind_rank Job_UpdatesFile = 29"
| "job_kind_rank Job_ServerFile = 30"
| "job_kind_rank Job_PageCommand = 31"
| "job_kind_rank Job_PageRender = 32"
| "job_kind_rank Job_HardwareDiscovery = 33"
| "job_kind_rank Job_MountInventory = 34"

definition all_job_kinds :: "job_kind list" where
  "all_job_kinds =
    [Job_Cpu, Job_CpuCores, Job_CpuHistory, Job_CpuCoreHistory, Job_Memory
     , Job_MemoryHistory, Job_NetworkRate, Job_NetworkIdentity, Job_NetworkHistory
     , Job_DiskIo, Job_DiskIoHistory, Job_DiskUsage, Job_Smart, Job_DiskTemperature
     , Job_FanSpeed, Job_SystemBattery, Job_PeripheralBattery, Job_NvidiaNvml
     , Job_NvidiaFallback, Job_AmdFast, Job_AmdSlow, Job_AmdNpu, Job_AmdNpuHistory
     , Job_IntelFrequency, Job_IntelUsage, Job_GpuHistory, Job_PanelProcesses
     , Job_PageProcesses, Job_Brightness, Job_UpdatesFile, Job_ServerFile, Job_PageCommand
     , Job_PageRender, Job_HardwareDiscovery, Job_MountInventory]"

lemma owner_rank_inj: "owner_rank a = owner_rank b \<Longrightarrow> a = b"
  by (cases a; cases b) simp_all

lemma job_kind_at_rank: "all_job_kinds ! job_kind_rank k = k"
  by (cases k) (simp_all add: all_job_kinds_def)

lemma job_kind_rank_inj: "job_kind_rank a = job_kind_rank b \<Longrightarrow> a = b"
  by (metis job_kind_at_rank)

instantiation owner_id :: linorder
begin
definition less_eq_owner_id :: "owner_id \<Rightarrow> owner_id \<Rightarrow> bool" where
  "a \<le> b \<longleftrightarrow> owner_rank a \<le> owner_rank b"
definition less_owner_id :: "owner_id \<Rightarrow> owner_id \<Rightarrow> bool" where
  "a < b \<longleftrightarrow> owner_rank a < owner_rank b"
instance
  by standard (auto simp: less_eq_owner_id_def less_owner_id_def intro: owner_rank_inj)
end

datatype page_id =
  Page_Main | Page_Processes | Page_CpuCores | Page_Connections | Page_Fastfetch | Page_Graphs
  | Page_Other string

definition page_from_id :: "string \<Rightarrow> page_id" where
  "page_from_id v =
     (if v = ''full'' then Page_Main
      else if v = ''processes'' then Page_Processes
      else if v = ''cpu_cores'' then Page_CpuCores
      else if v = ''connections'' then Page_Connections
      else if v = ''fastfetch'' then Page_Fastfetch
      else if v = ''graphs'' then Page_Graphs
      else Page_Other v)"

primrec page_as_id :: "page_id \<Rightarrow> string" where
  "page_as_id Page_Main = ''main''"
| "page_as_id Page_Processes = ''processes''"
| "page_as_id Page_CpuCores = ''cpu_cores''"
| "page_as_id Page_Connections = ''connections''"
| "page_as_id Page_Fastfetch = ''fastfetch''"
| "page_as_id Page_Graphs = ''graphs''"
| "page_as_id (Page_Other p) = p"

primrec page_key :: "page_id \<Rightarrow> nat \<times> string" where
  "page_key Page_Main = (0, [])"
| "page_key Page_Processes = (1, [])"
| "page_key Page_CpuCores = (2, [])"
| "page_key Page_Connections = (3, [])"
| "page_key Page_Fastfetch = (4, [])"
| "page_key Page_Graphs = (5, [])"
| "page_key (Page_Other p) = (6, p)"

lemma page_key_inj: "page_key a = page_key b \<Longrightarrow> a = b"
  by (cases a; cases b) simp_all

instantiation page_id :: linorder
begin
definition less_eq_page_id :: "page_id \<Rightarrow> page_id \<Rightarrow> bool" where
  "a \<le> b \<longleftrightarrow> page_key a \<le> page_key b"
definition less_page_id :: "page_id \<Rightarrow> page_id \<Rightarrow> bool" where
  "a < b \<longleftrightarrow> page_key a < page_key b"
instance
  by standard (auto simp: less_eq_page_id_def less_page_id_def less_le_not_le
      intro: order_trans page_key_inj)
end

datatype peripheral_role = Role_Mouse | Role_Keyboard
datatype peripheral_source = Upower string | Bolt int

datatype source_identity =
  Singleton
  | CpuSources "path option" "path option" "path option"
  | PathSource path
  | Device string
  | Mount path
  | NamedPath string path
  | SmartDrive string string
  | BatterySource string
  | Peripheral peripheral_role peripheral_source
  | InventorySource inventory_family
  | PageSource page_id

text \<open>Variant, small tags, strings, number, paths: the fields of each variant in their order.\<close>

type_synonym source_key =
  "nat \<times> nat \<times> nat \<times> string \<times> string \<times> int \<times> path option \<times> path option \<times> path option"

primrec role_rank :: "peripheral_role \<Rightarrow> nat" where
  "role_rank Role_Mouse = 0"
| "role_rank Role_Keyboard = 1"

primrec source_key :: "source_identity \<Rightarrow> source_key" where
  "source_key Singleton = (0, 0, 0, [], [], 0, None, None, None)"
| "source_key (CpuSources t f u) = (1, 0, 0, [], [], 0, t, f, u)"
| "source_key (PathSource p) = (2, 0, 0, [], [], 0, Some p, None, None)"
| "source_key (Device d) = (3, 0, 0, d, [], 0, None, None, None)"
| "source_key (Mount p) = (4, 0, 0, [], [], 0, Some p, None, None)"
| "source_key (NamedPath n p) = (5, 0, 0, n, [], 0, Some p, None, None)"
| "source_key (SmartDrive l p) = (6, 0, 0, l, p, 0, None, None, None)"
| "source_key (BatterySource b) = (7, 0, 0, b, [], 0, None, None, None)"
| "source_key (Peripheral r s) =
     (8, role_rank r, (case s of Upower _ \<Rightarrow> 0 | Bolt _ \<Rightarrow> 1),
      (case s of Upower u \<Rightarrow> u | Bolt _ \<Rightarrow> []), [],
      (case s of Upower _ \<Rightarrow> 0 | Bolt i \<Rightarrow> i), None, None, None)"
| "source_key (InventorySource f) = (9, family_rank f, 0, [], [], 0, None, None, None)"
| "source_key (PageSource p) = (10, fst (page_key p), 0, snd (page_key p), [], 0, None, None, None)"

lemma role_rank_inj: "role_rank a = role_rank b \<Longrightarrow> a = b"
  by (cases a; cases b) simp_all

lemma source_key_inj: "source_key a = source_key b \<Longrightarrow> a = b"
  by (cases a; cases b)
    (auto dest: role_rank_inj family_rank_inj intro: page_key_inj prod_eqI
      split: peripheral_source.splits)

instantiation source_identity :: linorder
begin
definition less_eq_source_identity :: "source_identity \<Rightarrow> source_identity \<Rightarrow> bool" where
  "a \<le> b \<longleftrightarrow> source_key a \<le> source_key b"
definition less_source_identity :: "source_identity \<Rightarrow> source_identity \<Rightarrow> bool" where
  "a < b \<longleftrightarrow> source_key a < source_key b"
instance
  by standard (auto simp: less_eq_source_identity_def less_source_identity_def less_le_not_le
      simp del: less_eq_prod_simp less_prod_simp intro: order_trans source_key_inj)
end

datatype job_id =
  JobId (jid_owner: owner_id) (jid_kind: job_kind) (jid_source: source_identity)

definition job_singleton :: "owner_id \<Rightarrow> job_kind \<Rightarrow> job_id" where
  "job_singleton own kind = JobId own kind Singleton"
definition job_with_source :: "owner_id \<Rightarrow> job_kind \<Rightarrow> source_identity \<Rightarrow> job_id" where
  "job_with_source own kind source = JobId own kind source"

definition job_key :: "job_id \<Rightarrow> nat \<times> nat \<times> source_identity" where
  "job_key j = (owner_rank (jid_owner j), job_kind_rank (jid_kind j), jid_source j)"

lemma job_key_inj: "job_key a = job_key b \<Longrightarrow> a = b"
  by (cases a; cases b) (auto simp: job_key_def dest: owner_rank_inj job_kind_rank_inj)

instantiation job_id :: linorder
begin
definition less_eq_job_id :: "job_id \<Rightarrow> job_id \<Rightarrow> bool" where
  "a \<le> b \<longleftrightarrow> job_key a \<le> job_key b"
definition less_job_id :: "job_id \<Rightarrow> job_id \<Rightarrow> bool" where
  "a < b \<longleftrightarrow> job_key a < job_key b"
instance
  by standard (auto simp: less_eq_job_id_def less_job_id_def less_le_not_le
      simp del: less_eq_prod_simp less_prod_simp intro: order_trans job_key_inj)
end

section \<open>Jobs, plans, configurations\<close>

datatype timing_class = FastDisplay | Periodic | History | Triggered

record amd_job =
  amd_source :: amd_gpu_source
  amd_hidden :: "metric bset"
  amd_tooltip :: "metric bset"

definition amd_metrics :: "amd_job \<Rightarrow> bool \<Rightarrow> metric bset" where
  "amd_metrics a presented =
     (let metrics = amd_hidden a in
      if presented then bs_extend metrics (amd_tooltip a) else metrics)"

record job_spec =
  spec_amd :: "amd_job option"
  spec_id :: job_id
  spec_timing :: timing_class
  spec_freshness :: duration
  spec_history_source :: "job_id option"
  spec_startup_panel :: bool
  spec_counter :: bool
  spec_volatile :: bool

definition spec_plain ::
    "job_id \<Rightarrow> timing_class \<Rightarrow> duration \<Rightarrow> job_id option \<Rightarrow> job_spec" where
  "spec_plain i timing freshness source =
     \<lparr>spec_amd = None, spec_id = i, spec_timing = timing, spec_freshness = freshness,
      spec_history_source = source, spec_startup_panel = False, spec_counter = False,
      spec_volatile = False\<rparr>"

definition spec_periodic :: "job_id \<Rightarrow> duration \<Rightarrow> job_spec" where
  "spec_periodic i freshness = spec_plain i Periodic freshness None"
definition spec_fast :: "job_id \<Rightarrow> duration \<Rightarrow> job_spec" where
  "spec_fast i freshness = spec_plain i FastDisplay freshness None"
definition spec_history :: "job_id \<Rightarrow> job_id \<Rightarrow> duration \<Rightarrow> job_spec" where
  "spec_history i source cadence = spec_plain i History cadence (Some source)"
definition spec_source_history :: "job_id \<Rightarrow> duration \<Rightarrow> job_spec" where
  "spec_source_history i cadence = spec_plain i History cadence None"
definition spec_triggered :: "job_id \<Rightarrow> duration \<Rightarrow> job_spec" where
  "spec_triggered i retry_budget = spec_plain i Triggered retry_budget None"

record demand_plan =
  dp_hidden :: "job_id bset"
  dp_main_tooltip :: "job_id bset"
  dp_pages :: "(page_id, job_id bset) bmap"

definition demand_default :: demand_plan where
  "demand_default = \<lparr>dp_hidden = [], dp_main_tooltip = [], dp_pages = []\<rparr>"

definition demanded :: "demand_plan \<Rightarrow> bool \<Rightarrow> page_id \<Rightarrow> job_id bset" where
  "demanded d presented selected_page =
     (if presented then
        (let dem = bs_extend (dp_hidden d) (dp_main_tooltip d) in
         case bm_get (dp_pages d) selected_page of
           Some page \<Rightarrow> bs_extend dem page
         | None \<Rightarrow> dem)
      else dp_hidden d)"

record scheduler_config =
  cfg_generation :: config_generation
  cfg_display_interval :: duration
  cfg_jobs :: "job_spec list"
  cfg_demand :: demand_plan

record inventory_update =
  inv_generation :: inventory_generation
  inv_jobs :: "job_spec list"
  inv_demand :: demand_plan
  resume_acknowledgement :: "resume_id option"

record job_ticket =
  tk_metrics :: "metric bset"
  tk_run_id :: run_id
  tk_job :: job_id
  tk_config_generation :: config_generation
  tk_inventory_generation :: inventory_generation
  tk_history_deadline :: "history_deadline option"

section \<open>Events, actions, transitions\<close>

datatype completion_kind = Captured | Baseline | ConfirmedAbsent | Failed
datatype refresh_trigger =
  Trig_FileChanged | Trig_Signal | Trig_RouteChanged | Trig_PeripheralChanged | Trig_Reconnect

datatype scheduler_event =
  Startup sched_time scheduler_config inventory_generation
  | TimeAdvanced sched_time
  | ConfigChanged sched_time scheduler_config
  | InventoryChanged sched_time inventory_update
  | DemandChanged sched_time demand_plan
  | TooltipPresented sched_time bool
  | TooltipReactivated sched_time
  | SelectedPageChanged sched_time page_id
  | DisplayRefreshRequested sched_time
  | TooltipRefreshRequested sched_time
  | JobFinished sched_time job_ticket completion_kind bool
  | JobCancelled sched_time job_ticket
  | RefreshTriggered sched_time job_id refresh_trigger
  | PanelPublished sched_time publication_id
  | Suspend sched_time
  | Resume sched_time
  | Shutdown sched_time
  | CriticalFailure sched_time string

primrec event_at :: "scheduler_event \<Rightarrow> sched_time" where
  "event_at (Startup t _ _) = t"
| "event_at (TimeAdvanced t) = t"
| "event_at (ConfigChanged t _) = t"
| "event_at (InventoryChanged t _) = t"
| "event_at (DemandChanged t _) = t"
| "event_at (TooltipPresented t _) = t"
| "event_at (TooltipReactivated t) = t"
| "event_at (SelectedPageChanged t _) = t"
| "event_at (DisplayRefreshRequested t) = t"
| "event_at (TooltipRefreshRequested t) = t"
| "event_at (JobFinished t _ _ _) = t"
| "event_at (JobCancelled t _) = t"
| "event_at (RefreshTriggered t _ _) = t"
| "event_at (PanelPublished t _) = t"
| "event_at (Suspend t) = t"
| "event_at (Resume t) = t"
| "event_at (Shutdown t) = t"
| "event_at (CriticalFailure t _) = t"

datatype publish_reason =
  Pub_FirstPaintReady | Pub_FirstPaintTimeout | Pub_DisplayDeadline | Pub_TooltipActivated
  | Pub_TooltipRefresh | Pub_PageChanged | Pub_ConfigChanged
datatype cancel_reason =
  Can_ConfigChanged | Can_SourceReplaced | Can_DemandEnded | Can_Suspend | Can_Shutdown
  | Can_CriticalFailure
datatype rescan_kind = Scan_Hardware | Scan_VolatileInventoryAndRoute | Scan_Peripherals

datatype scheduler_action =
  CancelJob job_ticket cancel_reason
  | InvalidateJob job_id cancel_reason "metric bset option"
  | ResetCounterBaseline job_id
  | PublishDisplay publication_id publish_reason "sched_time option" nat bool bool
  | EvaluateNotifications job_ticket
  | RescanHardware rescan_kind "resume_id option"
  | ApplyBackoff job_id nat sched_time
  | StartJob job_ticket
  | ScheduleDeadline sched_time
  | Terminate "string option"

datatype event_disposition = Accepted | RejectedStale | RejectedTimeRegression | RejectedLifecycle

record transition =
  disposition :: event_disposition
  actions :: "scheduler_action list"

definition rejected :: "event_disposition \<Rightarrow> transition" where
  "rejected d = \<lparr>disposition = d, actions = []\<rparr>"

section \<open>Lemmas\<close>

lemma page_roundtrip: "p \<noteq> Page_Main \<Longrightarrow> (\<And>s. p \<noteq> Page_Other s) \<Longrightarrow> page_from_id (page_as_id p) = p"
  by (cases p) (simp_all add: page_from_id_def)

lemma set_demanded:
  "set (demanded d presented page) =
     set (dp_hidden d) \<union>
     (if presented then set (dp_main_tooltip d) \<union>
        (case bm_get (dp_pages d) page of Some p \<Rightarrow> set p | None \<Rightarrow> {}) else {})"
  by (auto simp: demanded_def split: option.splits)

lemma set_amd_metrics:
  "set (amd_metrics a presented) = set (amd_hidden a) \<union> (if presented then set (amd_tooltip a) else {})"
  by (auto simp: amd_metrics_def)

end
