(* ===== verification/SchedPolicy.thy ===== *)
theory SchedPolicy
  imports SchedModel
begin

text \<open>
  The scheduler's arithmetic and action order: \<open>src/scheduler/machine/policy.rs\<close> and the constants
  of \<open>src/scheduler/machine.rs\<close>. Deadlines lie on a grid \<open>deadline + k * cadence\<close>; \<open>advance_past_eq\<close>
  and \<open>latest_due_eq\<close> give the closed forms of the two \<open>u128\<close> computations, saturation included.
\<close>

definition FAST_PREFETCH :: duration where "FAST_PREFETCH = from_millis 50"
definition FIRST_PAINT_TIMEOUT :: duration where "FIRST_PAINT_TIMEOUT = from_millis 200"
definition ACTIVATION_REFRESH_TIMEOUT :: duration where
  "ACTIVATION_REFRESH_TIMEOUT = from_millis 100"
definition DEACTIVATION_GRACE :: duration where "DEACTIVATION_GRACE = from_secs 1"
definition RETRY_BASE :: duration where "RETRY_BASE = from_millis 100"

lemmas sched_consts = FAST_PREFETCH_def FIRST_PAINT_TIMEOUT_def ACTIVATION_REFRESH_TIMEOUT_def
  DEACTIVATION_GRACE_def RETRY_BASE_def from_millis_def from_secs_def

definition retry_delay :: "nat \<Rightarrow> duration \<Rightarrow> duration" where
  "retry_delay failures freshness =
     (let shift = min (failures - 1) 31;
          multiplier = 2 ^ shift
      in min (case dur_checked_mul RETRY_BASE multiplier of Some d \<Rightarrow> d | None \<Rightarrow> duration_max)
           (max freshness RETRY_BASE))"

text \<open>\<open>Duration::new\<close>, given fewer than \<open>10 ^ 9\<close> nanoseconds.\<close>

definition dur_new :: "nat \<Rightarrow> nat \<Rightarrow> duration" where
  "dur_new seconds nanos = seconds * nanos_per_sec + nanos"

definition advance_past :: "sched_time \<Rightarrow> duration \<Rightarrow> sched_time \<Rightarrow> sched_time" where
  "advance_past deadline cadence now =
     (if cadence = 0 then now
      else
        let elapsed = (if deadline \<le> now then now - deadline else 0);
            steps = elapsed div cadence + 1;
            target = u128_saturating_add deadline (u128_saturating_mul steps cadence);
            seconds = target div nanos_per_sec
        in if u64_max < seconds then duration_max
           else dur_new seconds (target mod nanos_per_sec))"

definition latest_due_at_or_before :: "sched_time \<Rightarrow> duration \<Rightarrow> sched_time \<Rightarrow> sched_time" where
  "latest_due_at_or_before deadline cadence now =
     (if cadence = 0 \<or> now \<le> deadline then deadline
      else
        let elapsed = now - deadline;
            steps = elapsed div cadence;
            target = u128_saturating_add deadline (u128_saturating_mul steps cadence);
            seconds = target div nanos_per_sec
        in if u64_max < seconds then duration_max
           else dur_new seconds (target mod nanos_per_sec))"

definition is_cancelled_page_work :: "job_id \<Rightarrow> bool" where
  "is_cancelled_page_work job \<longleftrightarrow> jid_kind job \<in> {Job_PageCommand, Job_PageRender, Job_PageProcesses}"

primrec action_priority :: "scheduler_action \<Rightarrow> nat" where
  "action_priority (InvalidateJob _ _ _) = 0"
| "action_priority (CancelJob _ _) = 1"
| "action_priority (ResetCounterBaseline _) = 2"
| "action_priority (PublishDisplay _ _ _ _ _ _) = 3"
| "action_priority (EvaluateNotifications _) = 4"
| "action_priority (RescanHardware _ _) = 5"
| "action_priority (ApplyBackoff _ _ _) = 6"
| "action_priority (StartJob _) = 7"
| "action_priority (ScheduleDeadline _) = 8"
| "action_priority (Terminate _) = 9"

text \<open>\<open>slice::sort_by_key\<close> is a stable sort, and so is \<open>sort_key\<close>.\<close>

definition sort_actions :: "scheduler_action list \<Rightarrow> scheduler_action list" where
  "sort_actions acts = sort_key action_priority acts"

definition skipped_intervals :: "sched_time \<Rightarrow> duration \<Rightarrow> sched_time \<Rightarrow> nat" where
  "skipped_intervals deadline cadence now =
     (if cadence = 0 \<or> now \<le> deadline then 0
      else min (dur_saturating_sub now deadline div cadence) u64_max)"

definition due_intervals :: "sched_time \<Rightarrow> duration \<Rightarrow> sched_time \<Rightarrow> nat" where
  "due_intervals deadline cadence now =
     (if cadence = 0 \<or> now < deadline then 0
      else u64_saturating_add (skipped_intervals deadline cadence now) 1)"

section \<open>Closed forms\<close>

lemma nanos_pos [simp]: "0 < nanos_per_sec"
  by (simp add: nanos_per_sec_def)

lemma seconds_overflow: "u64_max < t div nanos_per_sec \<longleftrightarrow> duration_max < t"
proof -
  have "u64_max < t div nanos_per_sec \<longleftrightarrow> (u64_max + 1) * nanos_per_sec \<le> t"
    by (simp only: Suc_le_eq [symmetric] less_eq_div_iff_mult_less_eq [OF nanos_pos] Suc_eq_plus1)
  then show ?thesis by (simp add: bounds_defs) linarith
qed

lemma dur_new_div_mod [simp]: "dur_new (t div nanos_per_sec) (t mod nanos_per_sec) = t"
  by (simp add: dur_new_def)

lemma clamp_target:
  "(if u64_max < t div nanos_per_sec then duration_max
    else dur_new (t div nanos_per_sec) (t mod nanos_per_sec)) = min t duration_max"
  by (simp add: seconds_overflow min_def)

lemma min_saturated:
  "min (u128_saturating_add a (u128_saturating_mul b c)) duration_max = min (a + b * c) duration_max"
  using duration_max_lt_u128 unfolding u128_saturating_add_def u128_saturating_mul_def by linarith

lemma advance_past_eq:
  "0 < c \<Longrightarrow> advance_past d c now = min (d + Suc ((now - d) div c) * c) duration_max"
  unfolding advance_past_def Let_def clamp_target min_saturated
  by (auto simp: not_le)

lemma latest_due_eq:
  "latest_due_at_or_before d c now =
     (if c = 0 \<or> now \<le> d then d else min (d + (now - d) div c * c) duration_max)"
  unfolding latest_due_at_or_before_def Let_def clamp_target min_saturated by simp

lemma div_grid_below: "(d :: nat) \<le> now \<Longrightarrow> d + (now - d) div c * c \<le> now"
  using div_times_less_eq_dividend [of "now - d" c] by linarith

lemma div_grid_above: "0 < (c :: nat) \<Longrightarrow> d \<le> now \<Longrightarrow> now < d + Suc ((now - d) div c) * c"
  using dividend_less_div_times [of c "now - d"] by simp

lemma advance_past_future:
  assumes "0 < c" "now < duration_max" "d \<le> now"
  shows "now < advance_past d c now"
  using assms div_grid_above [of c d now] by (simp add: advance_past_eq)

lemma advance_past_le_max: "0 < c \<Longrightarrow> advance_past d c now \<le> duration_max"
  by (simp add: advance_past_eq)

lemma retry_delay_eq:
  "retry_delay failures freshness =
     min (RETRY_BASE * 2 ^ min (failures - 1) 31) (max freshness RETRY_BASE)"
proof -
  have "(2::nat) ^ min (failures - 1) 31 \<le> 2 ^ 31" by (rule power_increasing) auto
  then have "RETRY_BASE * 2 ^ min (failures - 1) 31 \<le> RETRY_BASE * 2 ^ 31" by simp
  also have "\<dots> \<le> duration_max" by (simp add: sched_consts bounds_defs)
  finally show ?thesis by (simp add: retry_delay_def dur_checked_mul_def)
qed

lemma set_sort_actions [simp]: "set (sort_actions acts) = set acts"
  by (simp add: sort_actions_def)

lemma mset_sort_actions [simp]: "mset (sort_actions acts) = mset acts"
  by (simp add: sort_actions_def)

end
