(* ===== verification/SchedState.thy ===== *)
theory SchedState
  imports SchedPolicy
begin

text \<open>
  The scheduler's state and its inner operations: \<open>JobRuntime\<close> and \<open>Scheduler\<close> of
  \<open>src/scheduler/machine.rs\<close>, the publication steps of \<open>machine/publication.rs\<close> and the demand
  steps of \<open>machine/demand.rs\<close>. A method \<open>fn f(&mut self, .., actions: &mut Vec<_>)\<close> is a function
  on pairs of a state and the actions pushed so far. A loop over \<open>&mut self.jobs\<close> that also pushes
  cancellations is written as one map over the jobs and one list of the tickets taken, in the
  order of the keys (\<open>cancel_in_flight\<close>).
\<close>

section \<open>State\<close>

datatype lifecycle = Unstarted | Running | Suspended | Stopped

record job_runtime =
  jr_spec :: job_spec
  nominal_due :: "sched_time option"
  retry_due :: "sched_time option"
  pending_since :: "sched_time option"
  pending_history_deadline :: "history_deadline option"
  in_flight :: "job_ticket option"
  has_sample :: bool
  failure_count :: nat
  needs_baseline :: bool

abbreviation timing :: "job_runtime \<Rightarrow> timing_class" where
  "timing rt \<equiv> spec_timing (jr_spec rt)"

definition runtime_new :: "job_spec \<Rightarrow> sched_time \<Rightarrow> sched_time \<Rightarrow> job_runtime" where
  "runtime_new spec anchor display_deadline =
     \<lparr>jr_spec = spec,
      nominal_due =
        (case spec_timing spec of
           FastDisplay \<Rightarrow> Some (dur_saturating_sub display_deadline FAST_PREFETCH)
         | Periodic \<Rightarrow> Some (dur_saturating_add anchor (spec_freshness spec))
         | History \<Rightarrow> Some (dur_saturating_add anchor (spec_freshness spec))
         | Triggered \<Rightarrow> None),
      retry_due = None, pending_since = None, pending_history_deadline = None, in_flight = None,
      has_sample = False, failure_count = 0, needs_baseline = False\<rparr>"

definition get_or_insert :: "'a \<Rightarrow> 'a option \<Rightarrow> 'a option" where
  "get_or_insert x v = (case v of None \<Rightarrow> Some x | Some y \<Rightarrow> Some y)"

definition mark_pending :: "sched_time \<Rightarrow> job_runtime \<Rightarrow> job_runtime" where
  "mark_pending at rt = rt\<lparr>pending_since := get_or_insert at (pending_since rt)\<rparr>"

definition mark_history_pending :: "sched_time \<Rightarrow> job_runtime \<Rightarrow> job_runtime" where
  "mark_history_pending deadline rt =
     rt\<lparr>pending_since := get_or_insert deadline (pending_since rt),
        pending_history_deadline := Some deadline\<rparr>"

type_synonym job_map = "(job_id, job_runtime) bmap"

record scheduler =
  s_lifecycle :: lifecycle
  s_now :: sched_time
  s_config_generation :: config_generation
  s_inventory_generation :: inventory_generation
  s_display_interval :: duration
  s_next_display :: "sched_time option"
  s_jobs :: job_map
  s_demand :: demand_plan
  s_presented :: bool
  s_effective_presented :: bool
  s_selected_page :: page_id
  s_deactivation_deadline :: "sched_time option"
  s_activation_deadline :: "sched_time option"
  s_activation_waiting :: "job_id bset"
  s_first_paint_deadline :: "sched_time option"
  s_first_paint_waiting :: "job_id bset"
  s_first_paint_issued :: bool
  s_notifications_armed :: bool
  s_panel_publications :: "publication_id bset"
  s_in_flight_owners :: "(owner_id, run_id) bmap"
  s_cancelling :: "(run_id, job_ticket) bmap"
  s_awaiting_resume_inventory :: "resume_id option"
  s_next_run_id :: nat
  s_next_publication_id :: nat
  s_next_resume_reconciliation_id :: nat

definition scheduler_new :: scheduler where
  "scheduler_new =
     \<lparr>s_lifecycle = Unstarted, s_now = 0, s_config_generation = 0, s_inventory_generation = 0,
      s_display_interval = from_secs 1, s_next_display = None, s_jobs = [],
      s_demand = demand_default, s_presented = False, s_effective_presented = False,
      s_selected_page = Page_Main, s_deactivation_deadline = None, s_activation_deadline = None,
      s_activation_waiting = [], s_first_paint_deadline = None, s_first_paint_waiting = [],
      s_first_paint_issued = False, s_notifications_armed = False, s_panel_publications = [],
      s_in_flight_owners = [], s_cancelling = [], s_awaiting_resume_inventory = None,
      s_next_run_id = 1, s_next_publication_id = 1, s_next_resume_reconciliation_id = 1\<rparr>"

type_synonym sched_io = "scheduler \<times> scheduler_action list"

definition push :: "scheduler_action \<Rightarrow> sched_io \<Rightarrow> sched_io" where
  "push a io = (fst io, snd io @ [a])"

definition on_state :: "(scheduler \<Rightarrow> scheduler) \<Rightarrow> sched_io \<Rightarrow> sched_io" where
  "on_state f io = (f (fst io), snd io)"

definition due :: "sched_time option \<Rightarrow> sched_time \<Rightarrow> bool" where
  "due d at = (case d of Some t \<Rightarrow> t \<le> at | None \<Rightarrow> False)"

definition current_demand_for :: "bool \<Rightarrow> page_id \<Rightarrow> scheduler \<Rightarrow> job_id bset" where
  "current_demand_for presented page s = demanded (s_demand s) presented page"

definition current_demand :: "scheduler \<Rightarrow> job_id bset" where
  "current_demand s = current_demand_for (s_effective_presented s) (s_selected_page s) s"

text \<open>The samples map taken before a loop over the jobs, and the test made with it.\<close>

definition source_samples :: "scheduler \<Rightarrow> (job_id, bool) bmap" where
  "source_samples s = bm_map (\<lambda>_ rt. has_sample rt) (s_jobs s)"

definition history_ready :: "(job_id, bool) bmap \<Rightarrow> job_spec \<Rightarrow> bool" where
  "history_ready samples spec =
     (case spec_history_source spec of
        None \<Rightarrow> True
      | Some source \<Rightarrow> bm_get samples source = Some True)"

section \<open>Publication\<close>

primrec is_tooltip_publish :: "scheduler_action \<Rightarrow> bool" where
  "is_tooltip_publish (CancelJob _ _) = False"
| "is_tooltip_publish (InvalidateJob _ _ _) = False"
| "is_tooltip_publish (ResetCounterBaseline _) = False"
| "is_tooltip_publish (PublishDisplay _ _ _ _ _ tooltip) = tooltip"
| "is_tooltip_publish (EvaluateNotifications _) = False"
| "is_tooltip_publish (RescanHardware _ _) = False"
| "is_tooltip_publish (ApplyBackoff _ _ _) = False"
| "is_tooltip_publish (StartJob _) = False"
| "is_tooltip_publish (ScheduleDeadline _) = False"
| "is_tooltip_publish (Terminate _) = False"

text \<open>
  \<open>iter_mut().find(..)\<close>: rewrites the first pending tooltip refresh into the given publication and
  returns its id, or finds none.
\<close>

fun coalesce_refresh ::
    "publish_reason \<Rightarrow> sched_time option \<Rightarrow> nat \<Rightarrow> scheduler_action list
      \<Rightarrow> (publication_id \<times> scheduler_action list) option" where
  "coalesce_refresh reason deadline skipped [] = None"
| "coalesce_refresh reason deadline skipped (PublishDisplay p r d k pan tip # acts) =
     (if r = Pub_TooltipRefresh \<and> tip
      then Some (p, PublishDisplay p reason deadline skipped True True # acts)
      else map_option (\<lambda>(q, rest). (q, PublishDisplay p r d k pan tip # rest))
             (coalesce_refresh reason deadline skipped acts))"
| "coalesce_refresh reason deadline skipped (a # acts) =
     map_option (\<lambda>(q, rest). (q, a # rest)) (coalesce_refresh reason deadline skipped acts)"

definition issue_publish ::
    "publish_reason \<Rightarrow> sched_time option \<Rightarrow> nat \<Rightarrow> bool \<Rightarrow> bool \<Rightarrow> sched_io \<Rightarrow> sched_io" where
  "issue_publish reason deadline skipped panel tooltip io =
     (let (s, acts) = io;
          tooltip' = (tooltip \<and> s_presented s)
      in
        if \<not> panel \<and> \<not> tooltip' then (s, acts)
        else if reason = Pub_TooltipRefresh \<and> list_ex is_tooltip_publish acts then (s, acts)
        else
          case (if panel \<and> tooltip' then coalesce_refresh reason deadline skipped acts else None) of
            Some (p, acts') \<Rightarrow>
              (s\<lparr>s_panel_publications := bs_insert p (s_panel_publications s)\<rparr>, acts')
          | None \<Rightarrow>
              let p = s_next_publication_id s;
                  s1 = s\<lparr>s_next_publication_id := u64_saturating_add p 1\<rparr>;
                  s2 = (if panel
                        then s1\<lparr>s_panel_publications := bs_insert p (s_panel_publications s1)\<rparr>
                        else s1)
              in (s2, acts @ [PublishDisplay p reason deadline skipped panel tooltip']))"

definition reanchor_fast_jobs :: "scheduler \<Rightarrow> scheduler" where
  "reanchor_fast_jobs s =
     (case s_next_display s of
        None \<Rightarrow> s
      | Some display_deadline \<Rightarrow>
          let due_at = dur_saturating_sub display_deadline FAST_PREFETCH in
          s\<lparr>s_jobs := bm_map (\<lambda>_ rt. if timing rt = FastDisplay
                                   then rt\<lparr>nominal_due := Some due_at\<rparr> else rt) (s_jobs s)\<rparr>)"

definition issue_first_paint :: "publish_reason \<Rightarrow> sched_io \<Rightarrow> sched_io" where
  "issue_first_paint reason io =
     (let (s, acts) = io in
      if s_first_paint_issued s then (s, acts)
      else
        let s1 = s\<lparr>s_first_paint_issued := True, s_first_paint_deadline := None,
                   s_first_paint_waiting := []\<rparr>;
            skipped = (case s_next_display s1 of
                         None \<Rightarrow> 0
                       | Some d \<Rightarrow> due_intervals d (s_display_interval s1) (s_now s1));
            s2 = (case s_next_display s1 of
                    None \<Rightarrow> s1
                  | Some d \<Rightarrow>
                      (if d \<le> s_now s1
                       then reanchor_fast_jobs
                              (s1\<lparr>s_next_display :=
                                  Some (advance_past d (s_display_interval s1) (s_now s1))\<rparr>)
                       else s1))
        in issue_publish reason None skipped True (s_effective_presented s2) (s2, acts))"

text \<open>\<open>dispatch\<close>: the candidates in their \<open>BTreeSet\<close> order, then one start per free owner.\<close>

definition dispatch_ready :: "scheduler \<Rightarrow> job_id \<Rightarrow> job_runtime \<Rightarrow> bool" where
  "dispatch_ready s i rt \<longleftrightarrow>
     i \<in> set (current_demand s) \<and> pending_since rt \<noteq> None \<and> in_flight rt = None \<and>
     (case retry_due rt of None \<Rightarrow> True | Some deadline \<Rightarrow> deadline \<le> s_now s) \<and>
     (timing rt \<noteq> History \<or> history_ready (source_samples s) (jr_spec rt))"

definition candidate_key :: "scheduler \<Rightarrow> job_id \<Rightarrow> job_runtime \<Rightarrow> bool \<times> sched_time \<times> job_id" where
  "candidate_key s i rt =
     (s_first_paint_issued s \<or> \<not> spec_startup_panel (jr_spec rt),
      (case pending_since rt of Some t \<Rightarrow> t | None \<Rightarrow> s_now s), i)"

definition candidates :: "scheduler \<Rightarrow> (bool \<times> sched_time \<times> job_id) bset" where
  "candidates s =
     bs_collect (map (\<lambda>(i, rt). candidate_key s i rt)
                   (filter (\<lambda>(i, rt). dispatch_ready s i rt) (s_jobs s)))"

definition make_ticket :: "scheduler \<Rightarrow> run_id \<Rightarrow> job_id \<Rightarrow> job_runtime \<Rightarrow> job_ticket" where
  "make_ticket s run i rt =
     \<lparr>tk_metrics = (case spec_amd (jr_spec rt) of
                      Some amd \<Rightarrow> amd_metrics amd (s_presented s)
                    | None \<Rightarrow> []),
      tk_run_id = run, tk_job = i, tk_config_generation = s_config_generation s,
      tk_inventory_generation = s_inventory_generation s,
      tk_history_deadline = pending_history_deadline rt\<rparr>"

definition dispatch_one :: "job_id \<Rightarrow> sched_io \<Rightarrow> sched_io" where
  "dispatch_one i io =
     (let (s, acts) = io in
      if bm_contains (s_in_flight_owners s) (jid_owner i) then (s, acts)
      else
        let run = s_next_run_id s;
            s1 = s\<lparr>s_next_run_id := u64_saturating_add run 1\<rparr>
        in case bm_get (s_jobs s1) i of
             None \<Rightarrow> (s1, acts)
           | Some rt \<Rightarrow>
               let ticket = make_ticket s1 run i rt in
               (s1\<lparr>s_jobs := bm_modify i
                      (\<lambda>rt. rt\<lparr>pending_history_deadline := None, pending_since := None,
                               in_flight := Some ticket\<rparr>) (s_jobs s1),
                   s_in_flight_owners := bm_insert (jid_owner i) run (s_in_flight_owners s1)\<rparr>,
                acts @ [StartJob ticket]))"

definition dispatch :: "sched_io \<Rightarrow> sched_io" where
  "dispatch io =
     (let s = fst io in
      if s_lifecycle s \<noteq> Running \<or> s_awaiting_resume_inventory s \<noteq> None then io
      else fold dispatch_one (map (snd \<circ> snd) (candidates s)) io)"

section \<open>Cancellation\<close>

definition tickets_where :: "(job_id \<Rightarrow> bool) \<Rightarrow> job_map \<Rightarrow> job_ticket list" where
  "tickets_where P jobs =
     List.map_filter (\<lambda>(i, rt). if P i then in_flight rt else None) jobs"

definition cancel_in_flight :: "(job_id \<Rightarrow> bool) \<Rightarrow> cancel_reason \<Rightarrow> sched_io \<Rightarrow> sched_io" where
  "cancel_in_flight P reason io =
     (let (s, acts) = io;
          tickets = tickets_where P (s_jobs s)
      in (s\<lparr>s_jobs := bm_map (\<lambda>i rt. if P i then rt\<lparr>in_flight := None\<rparr> else rt) (s_jobs s),
            s_cancelling := fold (\<lambda>t. bm_insert (tk_run_id t) t) tickets (s_cancelling s)\<rparr>,
          acts @ map (\<lambda>t. CancelJob t reason) tickets))"

definition cancel_all :: "cancel_reason \<Rightarrow> sched_io \<Rightarrow> sched_io" where
  "cancel_all reason io = cancel_in_flight (\<lambda>_. True) reason io"

definition clear_pending :: "job_runtime \<Rightarrow> job_runtime" where
  "clear_pending rt =
     rt\<lparr>pending_since := None, pending_history_deadline := None, retry_due := None\<rparr>"

definition cancel_demand_ended :: "job_id bset \<Rightarrow> job_id bset \<Rightarrow> sched_io \<Rightarrow> sched_io" where
  "cancel_demand_ended before after io =
     (let ended = filter is_cancelled_page_work (bs_difference before after);
          io1 = on_state (\<lambda>s. s\<lparr>s_jobs := bm_map
                  (\<lambda>i rt. if i \<in> set ended then clear_pending rt else rt) (s_jobs s)\<rparr>) io
      in cancel_in_flight (\<lambda>i. i \<in> set ended) Can_DemandEnded io1)"

definition refresh_demand :: "bool \<Rightarrow> sched_io \<Rightarrow> sched_io" where
  "refresh_demand cancel_page_jobs io =
     (let dem = current_demand (fst io);
          io1 = on_state (\<lambda>s. s\<lparr>s_jobs := bm_map
                  (\<lambda>i rt. if i \<in> set dem
                          then (if timing rt \<noteq> History \<and> in_flight rt = None \<and> \<not> has_sample rt
                                then mark_pending (s_now s) rt else rt)
                          else clear_pending rt) (s_jobs s)\<rparr>) io
      in cancel_in_flight
           (\<lambda>i. i \<notin> set dem \<and> cancel_page_jobs \<and> is_cancelled_page_work i) Can_DemandEnded io1)"

section \<open>Demand\<close>

definition startup_blocker :: "job_id bset \<Rightarrow> job_id \<Rightarrow> job_runtime \<Rightarrow> bool" where
  "startup_blocker dem i rt \<longleftrightarrow>
     i \<in> set dem \<and> spec_startup_panel (jr_spec rt) \<and> timing rt \<noteq> History \<and> \<not> has_sample rt"

text \<open>One spec of \<open>replace_jobs\<close>: the old runtimes left, the new ones built, the actions.\<close>

definition replace_one ::
    "scheduler \<Rightarrow> sched_time \<Rightarrow> cancel_reason \<Rightarrow> job_spec
      \<Rightarrow> job_map \<times> job_map \<times> scheduler_action list \<Rightarrow> job_map \<times> job_map \<times> scheduler_action list" where
  "replace_one s display_deadline reason spec st =
     (let (old, replacement, acts) = st;
          i = spec_id spec
      in case bm_get old i of
           Some prev \<Rightarrow>
             let old' = bm_remove i old;
                 source_changed =
                   (spec_history_source (jr_spec prev) \<noteq> spec_history_source spec \<or>
                    spec_amd (jr_spec prev) \<noteq> spec_amd spec);
                 metrics =
                   (case (spec_amd (jr_spec prev), spec_amd spec) of
                      (Some a, Some b) \<Rightarrow> Some (changed_metrics (amd_source a) (amd_source b))
                    | _ \<Rightarrow> None)
             in if jr_spec prev = spec
                then (old', bm_insert i (prev\<lparr>jr_spec := spec\<rparr>) replacement, acts)
                else
                  let rt = (runtime_new spec (s_now s) display_deadline)
                             \<lparr>has_sample := (has_sample prev \<and> \<not> source_changed)\<rparr>
                  in (old', bm_insert i rt replacement,
                      if source_changed then acts @ [InvalidateJob i reason metrics] else acts)
         | None \<Rightarrow>
             (old, bm_insert i (runtime_new spec (s_now s) display_deadline) replacement, acts))"

text \<open>The tail of \<open>replace_jobs\<close>: the first-paint blockers of the new jobs, then the filter.\<close>

definition restart_blockers :: "scheduler \<Rightarrow> scheduler" where
  "restart_blockers s =
     (if s_first_paint_issued s then s
      else
        let dem = current_demand s in
        s\<lparr>s_jobs := bm_map (\<lambda>i rt. if startup_blocker dem i rt
                                 then mark_pending (s_now s) rt else rt) (s_jobs s),
          s_first_paint_waiting :=
            bs_extend (s_first_paint_waiting s)
              (bm_keys (filter (\<lambda>(i, rt). startup_blocker dem i rt) (s_jobs s)))\<rparr>)"

definition retain_activation :: "scheduler \<Rightarrow> scheduler" where
  "retain_activation s =
     s\<lparr>s_activation_waiting :=
         filter (\<lambda>j. bm_contains (s_jobs s) j) (s_activation_waiting s)\<rparr>"

definition replace_jobs :: "job_spec list \<Rightarrow> cancel_reason \<Rightarrow> sched_io \<Rightarrow> sched_io" where
  "replace_jobs specs reason io =
     (let (s, acts) = cancel_all reason io;
          display_deadline =
            (case s_next_display s of
               Some d \<Rightarrow> d
             | None \<Rightarrow> dur_saturating_add (s_now s) (s_display_interval s));
          (old, replacement, acts1) =
            fold (replace_one s display_deadline reason) specs (s_jobs s, [], acts);
          acts2 = acts1 @ map (\<lambda>i. InvalidateJob i reason None) (bm_keys old);
          s1 = s\<lparr>s_jobs := replacement, s_first_paint_waiting := []\<rparr>
      in (retain_activation (restart_blockers s1), acts2))"

text \<open>\<open>get_mut(job)\<close> on a job that is not a history job.\<close>

definition wakeable :: "job_map \<Rightarrow> job_id \<Rightarrow> bool" where
  "wakeable jobs i = (case bm_get jobs i of Some rt \<Rightarrow> timing rt \<noteq> History | None \<Rightarrow> False)"

definition activate_jobs :: "job_id bset \<Rightarrow> job_id bset \<Rightarrow> bool \<Rightarrow> scheduler \<Rightarrow> scheduler" where
  "activate_jobs before after track_tooltip_refresh s =
     (let fresh = filter (wakeable (s_jobs s)) (bs_difference after before);
          kept = filter (\<lambda>j. j \<in> set after) (s_activation_waiting s);
          waiting = (if track_tooltip_refresh then bs_extend kept fresh else kept)
      in s\<lparr>s_jobs := bm_map (\<lambda>i rt. if i \<in> set fresh then mark_pending (s_now s) rt else rt)
                       (s_jobs s),
           s_activation_waiting := waiting,
           s_activation_deadline :=
             (if waiting = [] then None
              else if track_tooltip_refresh \<and> s_activation_deadline s = None
              then Some (dur_saturating_add (s_now s) ACTIVATION_REFRESH_TIMEOUT)
              else s_activation_deadline s)\<rparr>)"

definition refresh_all_demanded :: "scheduler \<Rightarrow> scheduler" where
  "refresh_all_demanded s =
     (let dem = current_demand s in
      s\<lparr>s_jobs := bm_map (\<lambda>i rt. if i \<in> set dem \<and> timing rt \<noteq> History
                               then (mark_pending (s_now s) rt)\<lparr>retry_due := None\<rparr> else rt)
                    (s_jobs s)\<rparr>)"

definition rebuild_first_paint_blockers :: "sched_io \<Rightarrow> sched_io" where
  "rebuild_first_paint_blockers io =
     (let (s, acts) = io in
      if s_first_paint_issued s then (s, acts)
      else
        let dem = current_demand s;
            waiting = bs_collect (bm_keys (filter (\<lambda>(i, rt). startup_blocker dem i rt) (s_jobs s)));
            s1 = s\<lparr>s_first_paint_waiting := waiting\<rparr>
        in if waiting = [] then issue_first_paint Pub_FirstPaintReady (s1, acts) else (s1, acts))"

definition change_inventory :: "inventory_update \<Rightarrow> sched_io \<Rightarrow> sched_io" where
  "change_inventory update io =
     (let s = fst io;
          resumes_dispatch =
            (resume_acknowledgement update = s_awaiting_resume_inventory s \<and>
             s_awaiting_resume_inventory s \<noteq> None);
          demand_before = current_demand s;
          io1 = on_state (\<lambda>s. s\<lparr>s_inventory_generation := inv_generation update,
                                s_demand := inv_demand update\<rparr>) io;
          io2 = replace_jobs (inv_jobs update) Can_SourceReplaced io1;
          io3 = (if resumes_dispatch
                 then on_state (\<lambda>s. s\<lparr>s_awaiting_resume_inventory := None\<rparr>) io2 else io2);
          demand_after = current_demand (fst io3);
          io4 = on_state (\<lambda>s. activate_jobs demand_before demand_after
                                (s_effective_presented s) s) io3;
          io5 = refresh_demand False io4
      in if resumes_dispatch then on_state refresh_all_demanded io5 else io5)"

definition change_demand :: "demand_plan \<Rightarrow> sched_io \<Rightarrow> sched_io" where
  "change_demand demand io =
     (let before = current_demand (fst io);
          io1 = on_state (\<lambda>s. s\<lparr>s_demand := demand\<rparr>) io;
          after = current_demand (fst io1);
          io2 = cancel_demand_ended before after io1;
          io3 = on_state (\<lambda>s. activate_jobs before after (s_effective_presented s) s) io2;
          io4 = refresh_demand False io3
      in rebuild_first_paint_blockers io4)"

definition amd_tooltip_only :: "job_runtime \<Rightarrow> bool" where
  "amd_tooltip_only rt =
     (case spec_amd (jr_spec rt) of
        Some amd \<Rightarrow> \<not> bs_is_subset (amd_tooltip amd) (amd_hidden amd)
      | None \<Rightarrow> False)"

definition refresh_activation :: "sched_io \<Rightarrow> sched_io" where
  "refresh_activation io =
     (let (s, acts) = io;
          s1 = s\<lparr>s_jobs := bm_map (\<lambda>_ rt. if amd_tooltip_only rt
                                         then mark_pending (s_now s) rt else rt) (s_jobs s),
                 s_activation_waiting :=
                   bs_extend (s_activation_waiting s)
                     (bm_keys (filter (\<lambda>(_, rt). amd_tooltip_only rt) (s_jobs s)))\<rparr>
      in if s_activation_waiting s1 = []
         then issue_publish Pub_TooltipActivated None 0 False True (s1, acts)
         else if s_activation_deadline s1 = None
         then (s1\<lparr>s_activation_deadline :=
                   Some (dur_saturating_add (s_now s1) ACTIVATION_REFRESH_TIMEOUT)\<rparr>, acts)
         else (s1, acts))"

definition change_presentation :: "bool \<Rightarrow> sched_io \<Rightarrow> sched_io" where
  "change_presentation presented io =
     (let (s, acts) = io;
          was_presented = s_presented s;
          s1 = s\<lparr>s_presented := presented\<rparr>
      in if presented then
           let was_effective = s_effective_presented s1;
               s2 = s1\<lparr>s_deactivation_deadline := None, s_effective_presented := True\<rparr>;
               s3 = (if \<not> was_effective
                     then activate_jobs (current_demand_for False (s_selected_page s2) s2)
                            (current_demand s2) True s2
                     else s2)
           in if \<not> was_presented then refresh_activation (s3, acts) else (s3, acts)
         else if was_presented \<and> s_effective_presented s1
         then (s1\<lparr>s_deactivation_deadline :=
                   Some (dur_saturating_add (s_now s1) DEACTIVATION_GRACE)\<rparr>, acts)
         else (s1, acts))"

definition change_page :: "page_id \<Rightarrow> sched_io \<Rightarrow> sched_io" where
  "change_page page io =
     (if page = s_selected_page (fst io) then io
      else
        let before = current_demand (fst io);
            io1 = on_state (\<lambda>s. s\<lparr>s_selected_page := page\<rparr>) io
        in if s_effective_presented (fst io1) then
             let after = current_demand (fst io1);
                 io2 = cancel_demand_ended before after io1;
                 io3 = on_state (activate_jobs before after True) io2
             in if s_presented (fst io3) \<and> s_activation_waiting (fst io3) = []
                then issue_publish Pub_PageChanged None 0 False True io3 else io3
           else io1)"

end
