(* ===== verification/SchedMachine.thy ===== *)
theory SchedMachine
  imports SchedState
begin

text \<open>
  The scheduler's event handler: \<open>Scheduler::handle\<close> and the steps it calls, of
  \<open>src/scheduler/machine.rs\<close>. \<open>process_time\<close> is its five blocks in order. \<open>sched_run\<close> feeds a list
  of events to a fresh scheduler.
\<close>

section \<open>Startup and reconfiguration\<close>

definition startup_jobs ::
    "scheduler_config \<Rightarrow> inventory_generation \<Rightarrow> scheduler \<Rightarrow> scheduler" where
  "startup_jobs config inventory_generation s =
     (let first_display = dur_saturating_add (s_now s) (cfg_display_interval config) in
      s\<lparr>s_lifecycle := Running,
        s_inventory_generation := inventory_generation,
        s_config_generation := cfg_generation config,
        s_display_interval := cfg_display_interval config,
        s_demand := cfg_demand config,
        s_next_display := Some first_display,
        s_first_paint_deadline := Some (dur_saturating_add (s_now s) FIRST_PAINT_TIMEOUT),
        s_jobs := bm_collect (map (\<lambda>spec. (spec_id spec,
                     runtime_new spec (s_now s) first_display)) (cfg_jobs config))\<rparr>)"

definition startup_pending :: "scheduler \<Rightarrow> scheduler" where
  "startup_pending s =
     (let dem = current_demand s;
          blockers = bm_keys (filter (\<lambda>(i, rt). i \<in> set dem \<and> spec_startup_panel (jr_spec rt) \<and>
                                        timing rt \<noteq> History) (s_jobs s))
      in s\<lparr>s_jobs := bm_map (\<lambda>i rt. if i \<in> set dem \<and> timing rt \<noteq> History
                                  then mark_pending (s_now s) rt else rt) (s_jobs s),
           s_first_paint_waiting := bs_extend (s_first_paint_waiting s) blockers\<rparr>)"

definition startup ::
    "scheduler_config \<Rightarrow> inventory_generation \<Rightarrow> sched_io \<Rightarrow> event_disposition \<times> sched_io" where
  "startup config inventory_generation io =
     (let (s, acts) = io in
      if s_lifecycle s \<noteq> Unstarted then (RejectedLifecycle, io)
      else
        let s1 = startup_pending (startup_jobs config inventory_generation s)
        in (Accepted,
            if s_first_paint_waiting s1 = []
            then issue_first_paint Pub_FirstPaintReady (s1, acts) else (s1, acts)))"

definition reconfigure :: "scheduler_config \<Rightarrow> cancel_reason \<Rightarrow> sched_io \<Rightarrow> sched_io" where
  "reconfigure config reason io =
     (let io1 = on_state (\<lambda>s. s\<lparr>s_config_generation := cfg_generation config,
                                s_display_interval := cfg_display_interval config,
                                s_demand := cfg_demand config,
                                s_next_display :=
                                  Some (dur_saturating_add (s_now s) (cfg_display_interval config))\<rparr>)
                  io;
          io2 = replace_jobs (cfg_jobs config) reason io1;
          io3 = on_state reanchor_fast_jobs io2;
          io4 = refresh_demand False io3;
          dem = current_demand (fst io4);
          io5 = on_state (\<lambda>s. s\<lparr>s_jobs := bm_map
                  (\<lambda>i rt. if i \<in> set dem \<and> jid_kind i = Job_HardwareDiscovery
                          then mark_pending (s_now s) rt else rt) (s_jobs s)\<rparr>) io4
      in if s_first_paint_issued (fst io5)
         then issue_publish Pub_ConfigChanged None 0 True (s_effective_presented (fst io5)) io5
         else io5)"

section \<open>Time\<close>

definition pt_deactivation :: "sched_io \<Rightarrow> sched_io" where
  "pt_deactivation io =
     (let (s, acts) = io in
      if due (s_deactivation_deadline s) (s_now s) then
        let s1 = s\<lparr>s_deactivation_deadline := None\<rparr> in
        if \<not> s_presented s1
        then refresh_demand True (s1\<lparr>s_effective_presented := False\<rparr>, acts)
        else (s1, acts)
      else (s, acts))"

definition pt_first_paint :: "sched_io \<Rightarrow> sched_io" where
  "pt_first_paint io =
     (let s = fst io in
      if due (s_first_paint_deadline s) (s_now s) \<and> \<not> s_first_paint_issued s
      then issue_first_paint Pub_FirstPaintTimeout io else io)"

definition pt_activation :: "sched_io \<Rightarrow> sched_io" where
  "pt_activation io =
     (let (s, acts) = io in
      if due (s_activation_deadline s) (s_now s)
      then issue_publish Pub_TooltipRefresh None 0 False True
             (s\<lparr>s_activation_deadline := None, s_activation_waiting := []\<rparr>, acts)
      else (s, acts))"

definition pt_display :: "sched_io \<Rightarrow> sched_io" where
  "pt_display io =
     (let s = fst io in
      if s_first_paint_issued s \<and> due (s_next_display s) (s_now s) then
        let deadline = s_next_display s;
            skipped = (case deadline of
                         None \<Rightarrow> 0
                       | Some d \<Rightarrow> skipped_intervals d (s_display_interval s) (s_now s));
            io1 = issue_publish Pub_DisplayDeadline deadline skipped True
                    (s_effective_presented s) io
        in on_state (\<lambda>s. case s_next_display s of
                           None \<Rightarrow> s
                         | Some d \<Rightarrow> s\<lparr>s_next_display :=
                             Some (advance_past d (s_display_interval s) (s_now s))\<rparr>) io1
      else io)"

definition retry_step :: "sched_time \<Rightarrow> job_runtime \<Rightarrow> job_runtime" where
  "retry_step at rt =
     (if due (retry_due rt) at then mark_pending at (rt\<lparr>retry_due := None\<rparr>) else rt)"

definition nominal_step :: "(job_id, bool) bmap \<Rightarrow> sched_time \<Rightarrow> job_runtime \<Rightarrow> job_runtime" where
  "nominal_step samples at rt =
     (case nominal_due rt of
        Some d \<Rightarrow>
          (if d \<le> at then
             let rt1 =
               (if timing rt = History
                then (if history_ready samples (jr_spec rt)
                      then mark_history_pending
                             (latest_due_at_or_before d (spec_freshness (jr_spec rt)) at) rt
                      else rt)
                else mark_pending at rt)
             in rt1\<lparr>nominal_due := Some (advance_past d (spec_freshness (jr_spec rt1)) at)\<rparr>
           else rt)
      | None \<Rightarrow> rt)"

definition pt_jobs :: "sched_io \<Rightarrow> sched_io" where
  "pt_jobs io =
     on_state (\<lambda>s.
       let dem = current_demand s;
           samples = source_samples s
       in s\<lparr>s_jobs := bm_map (\<lambda>i rt. if i \<notin> set dem then rt
                                   else nominal_step samples (s_now s) (retry_step (s_now s) rt))
                        (s_jobs s)\<rparr>) io"

definition process_time :: "sched_io \<Rightarrow> sched_io" where
  "process_time io = pt_jobs (pt_display (pt_activation (pt_first_paint (pt_deactivation io))))"

section \<open>Completions\<close>

definition is_current_ticket :: "scheduler \<Rightarrow> job_ticket \<Rightarrow> bool" where
  "is_current_ticket s t \<longleftrightarrow>
     s_lifecycle s = Running \<and> tk_config_generation t = s_config_generation s \<and>
     tk_inventory_generation t = s_inventory_generation s \<and>
     (case bm_get (s_jobs s) (tk_job t) of Some rt \<Rightarrow> in_flight rt = Some t | None \<Rightarrow> False)"

definition is_cancelling_ticket :: "scheduler \<Rightarrow> job_ticket \<Rightarrow> bool" where
  "is_cancelling_ticket s t \<longleftrightarrow> bm_get (s_cancelling s) (tk_run_id t) = Some t"

definition completed_runtime ::
    "completion_kind \<Rightarrow> sched_time \<Rightarrow> job_runtime \<Rightarrow> job_runtime" where
  "completed_runtime completion at rt =
     (case completion of
        Captured \<Rightarrow> rt\<lparr>has_sample := True, failure_count := 0, needs_baseline := False,
                        retry_due := None\<rparr>
      | Baseline \<Rightarrow> rt\<lparr>failure_count := 0, needs_baseline := True,
                        retry_due := (if timing rt \<noteq> History
                                      then Some (dur_saturating_add at RETRY_BASE) else None)\<rparr>
      | ConfirmedAbsent \<Rightarrow> rt\<lparr>has_sample := False, failure_count := 0, needs_baseline := False,
                        retry_due := None\<rparr>
      | Failed \<Rightarrow>
          let n = u32_saturating_add (failure_count rt) 1;
              rt1 = rt\<lparr>failure_count := n\<rparr>
          in if timing rt \<noteq> History
             then rt1\<lparr>retry_due := Some (dur_saturating_add at
                        (retry_delay n (spec_freshness (jr_spec rt))))\<rparr>
             else rt1)"

definition backoff_actions ::
    "completion_kind \<Rightarrow> sched_time \<Rightarrow> job_id \<Rightarrow> job_runtime \<Rightarrow> scheduler_action list" where
  "backoff_actions completion at i rt =
     (if completion = Failed \<and> timing rt \<noteq> History
      then let n = u32_saturating_add (failure_count rt) 1 in
           [ApplyBackoff i n (dur_saturating_add at (retry_delay n (spec_freshness (jr_spec rt))))]
      else [])"

text \<open>
  \<open>finish_job\<close> in three parts: the job and its owner are released, an absent source takes its
  histories with it, and the paints that waited for the job are issued.
\<close>

definition release_finished :: "job_ticket \<Rightarrow> completion_kind \<Rightarrow> scheduler \<Rightarrow> scheduler" where
  "release_finished ticket completion s =
     (let i = tk_job ticket in
      s\<lparr>s_jobs := bm_modify i
          (\<lambda>rt. completed_runtime completion (s_now s) (rt\<lparr>in_flight := None\<rparr>)) (s_jobs s),
        s_in_flight_owners := bm_remove (jid_owner i) (s_in_flight_owners s),
        s_first_paint_waiting := bs_remove i (s_first_paint_waiting s),
        s_activation_waiting := bs_remove i (s_activation_waiting s)\<rparr>)"

definition clear_histories :: "job_id \<Rightarrow> sched_io \<Rightarrow> sched_io" where
  "clear_histories source io =
     (let (s, acts) = io;
          dependent = (\<lambda>rt. spec_history_source (jr_spec rt) = Some source);
          histories = bm_keys (filter (\<lambda>(_, rt). dependent rt) (s_jobs s))
      in (s\<lparr>s_jobs := bm_map (\<lambda>_ rt. if dependent rt
              then rt\<lparr>has_sample := False, pending_since := None,
                      pending_history_deadline := None\<rparr> else rt) (s_jobs s)\<rparr>,
          acts @ map (\<lambda>j. InvalidateJob j Can_SourceReplaced None) histories))"

definition settle_waits :: "sched_io \<Rightarrow> sched_io" where
  "settle_waits io =
     (let io1 = (if \<not> s_first_paint_issued (fst io) \<and> s_first_paint_waiting (fst io) = []
                 then issue_first_paint Pub_FirstPaintReady io else io)
      in if s_activation_deadline (fst io1) \<noteq> None \<and> s_activation_waiting (fst io1) = []
         then issue_publish Pub_TooltipRefresh None 0 False True
                (on_state (\<lambda>s. s\<lparr>s_activation_deadline := None\<rparr>) io1)
         else io1)"

definition finish_job ::
    "job_ticket \<Rightarrow> completion_kind \<Rightarrow> bool \<Rightarrow> sched_io \<Rightarrow> bool \<times> sched_io" where
  "finish_job ticket completion notification_ready io =
     (let (s, acts) = io;
          i = tk_job ticket
      in
        if tk_config_generation ticket \<noteq> s_config_generation s \<or>
           tk_inventory_generation ticket \<noteq> s_inventory_generation s then (False, io)
        else
          case bm_get (s_jobs s) i of
            None \<Rightarrow> (False, io)
          | Some rt \<Rightarrow>
              if in_flight rt \<noteq> Some ticket then (False, io)
              else
                let s1 = release_finished ticket completion s;
                    acts1 = acts @ backoff_actions completion (s_now s) i rt;
                    acts2 = (if notification_ready \<and> s_notifications_armed s1 \<and> timing rt \<noteq> History
                             then acts1 @ [EvaluateNotifications ticket] else acts1);
                    io2 = (if completion = ConfirmedAbsent then clear_histories i (s1, acts2)
                           else (s1, acts2))
                in (True, settle_waits io2))"

definition finish_cancellation :: "job_ticket \<Rightarrow> sched_io \<Rightarrow> bool \<times> sched_io" where
  "finish_cancellation ticket io =
     (let (s, acts) = io in
      if bm_get (s_cancelling s) (tk_run_id ticket) \<noteq> Some ticket then (False, io)
      else
        let own = jid_owner (tk_job ticket);
            s1 = s\<lparr>s_cancelling := bm_remove (tk_run_id ticket) (s_cancelling s)\<rparr>;
            s2 = (if bm_get (s_in_flight_owners s1) own = Some (tk_run_id ticket)
                  then s1\<lparr>s_in_flight_owners := bm_remove own (s_in_flight_owners s1)\<rparr> else s1)
        in (True, (s2, acts)))"

definition trigger :: "job_id \<Rightarrow> scheduler \<Rightarrow> scheduler" where
  "trigger job s =
     (if job \<in> set (current_demand s) \<and> wakeable (s_jobs s) job
      then s\<lparr>s_jobs := bm_modify job (mark_pending (s_now s)) (s_jobs s)\<rparr> else s)"

section \<open>Lifecycle\<close>

definition suspend :: "sched_io \<Rightarrow> sched_io" where
  "suspend io =
     (if s_lifecycle (fst io) \<noteq> Running then io
      else on_state (\<lambda>s. s\<lparr>s_lifecycle := Suspended\<rparr>) (cancel_all Can_Suspend io))"

definition resume_nominal :: "sched_time \<Rightarrow> job_runtime \<Rightarrow> job_runtime" where
  "resume_nominal at rt =
     (case nominal_due rt of
        Some d \<Rightarrow>
          (if (timing rt = Periodic \<or> timing rt = History) \<and> d \<le> at
           then rt\<lparr>nominal_due := Some (advance_past d (spec_freshness (jr_spec rt)) at)\<rparr> else rt)
      | None \<Rightarrow> rt)"

definition resume_runtime :: "job_id bset \<Rightarrow> sched_time \<Rightarrow> job_id \<Rightarrow> job_runtime \<Rightarrow> job_runtime" where
  "resume_runtime dem at i rt =
     (let rt1 = (if spec_counter (jr_spec rt) then rt\<lparr>needs_baseline := True\<rparr> else rt) in
      rt1\<lparr>pending_since := (if i \<in> set dem \<and> timing rt1 \<noteq> History then Some at else None),
          pending_history_deadline := None, retry_due := None\<rparr>)"

definition resume_clocks :: "scheduler \<Rightarrow> scheduler" where
  "resume_clocks s =
     (let s1 = reanchor_fast_jobs
                 (s\<lparr>s_lifecycle := Running,
                    s_next_display := Some (dur_saturating_add (s_now s) (s_display_interval s))\<rparr>)
      in s1\<lparr>s_jobs := bm_map (\<lambda>_ rt. resume_nominal (s_now s1) rt) (s_jobs s1)\<rparr>)"

definition resume :: "sched_io \<Rightarrow> sched_io" where
  "resume io =
     (let (s, acts) = io in
      if s_lifecycle s \<noteq> Suspended then io
      else
        let s2 = resume_clocks s;
            reconciliation = s_next_resume_reconciliation_id s2;
            s3 = s2\<lparr>s_next_resume_reconciliation_id := u64_saturating_add reconciliation 1,
                    s_awaiting_resume_inventory := Some reconciliation\<rparr>;
            dem = current_demand s3;
            counters = bm_keys (filter (\<lambda>(_, rt). spec_counter (jr_spec rt)) (s_jobs s3))
        in (s3\<lparr>s_jobs := bm_map (resume_runtime dem (s_now s3)) (s_jobs s3)\<rparr>,
            acts @ [RescanHardware Scan_VolatileInventoryAndRoute (Some reconciliation)]
                 @ map ResetCounterBaseline counters))"

definition stop :: "cancel_reason \<Rightarrow> string option \<Rightarrow> sched_io \<Rightarrow> sched_io" where
  "stop reason component io =
     push (Terminate component)
       (on_state (\<lambda>s. s\<lparr>s_lifecycle := Stopped\<rparr>) (cancel_all reason io))"

section \<open>The handler\<close>

definition opt_list :: "'a option \<Rightarrow> 'a list" where
  "opt_list x = (case x of Some v \<Rightarrow> [v] | None \<Rightarrow> [])"

definition opt_min :: "sched_time list \<Rightarrow> sched_time option" where
  "opt_min xs = (case xs of [] \<Rightarrow> None | x # r \<Rightarrow> Some (fold min r x))"

definition job_deadlines :: "scheduler \<Rightarrow> sched_time list" where
  "job_deadlines s =
     List.map_filter (\<lambda>(i, rt).
       if i \<in> set (current_demand s)
       then opt_min (opt_list (retry_due rt) @ opt_list (nominal_due rt)) else None) (s_jobs s)"

definition next_wake :: "scheduler \<Rightarrow> sched_time option" where
  "next_wake s =
     (if s_lifecycle s \<noteq> Running \<or> s_awaiting_resume_inventory s \<noteq> None then None
      else opt_min (job_deadlines s @ opt_list (s_next_display s)
             @ opt_list (s_first_paint_deadline s) @ opt_list (s_deactivation_deadline s)
             @ opt_list (s_activation_deadline s)))"

definition is_startup :: "scheduler_event \<Rightarrow> bool" where
  "is_startup ev = (case ev of Startup _ _ _ \<Rightarrow> True | _ \<Rightarrow> False)"

definition is_stale :: "scheduler \<Rightarrow> scheduler_event \<Rightarrow> bool" where
  "is_stale s ev =
     (case ev of
        ConfigChanged _ config \<Rightarrow> cfg_generation config \<le> s_config_generation s
      | InventoryChanged _ update \<Rightarrow> inv_generation update \<le> s_inventory_generation s
      | JobFinished _ ticket _ _ \<Rightarrow>
          \<not> is_current_ticket s ticket \<and> \<not> is_cancelling_ticket s ticket
      | JobCancelled _ ticket \<Rightarrow> bm_get (s_cancelling s) (tk_run_id ticket) \<noteq> Some ticket
      | PanelPublished _ publication \<Rightarrow> publication \<notin> set (s_panel_publications s)
      | _ \<Rightarrow> False)"

definition tick :: "sched_io \<Rightarrow> sched_io" where
  "tick io = (if s_lifecycle (fst io) = Running then process_time io else io)"

definition accept_if :: "bool \<times> sched_io \<Rightarrow> event_disposition \<times> sched_io" where
  "accept_if r = (if fst r then Accepted else RejectedStale, snd r)"

definition handle_event :: "scheduler_event \<Rightarrow> sched_io \<Rightarrow> event_disposition \<times> sched_io" where
  "handle_event ev io =
     (case ev of
        Startup _ config inventory_generation \<Rightarrow> startup config inventory_generation io
      | TimeAdvanced _ \<Rightarrow> (Accepted, tick io)
      | ConfigChanged _ config \<Rightarrow> (Accepted, reconfigure config Can_ConfigChanged io)
      | InventoryChanged _ update \<Rightarrow> (Accepted, change_inventory update io)
      | DemandChanged _ demand \<Rightarrow> (Accepted, change_demand demand io)
      | TooltipPresented _ presented \<Rightarrow> (Accepted, change_presentation presented io)
      | TooltipReactivated _ \<Rightarrow>
          (Accepted, if s_presented (fst io) then refresh_activation io else io)
      | SelectedPageChanged _ page \<Rightarrow> (Accepted, change_page page io)
      | DisplayRefreshRequested _ \<Rightarrow>
          (Accepted,
           issue_publish Pub_ConfigChanged None 0 True (s_effective_presented (fst io)) io)
      | TooltipRefreshRequested _ \<Rightarrow>
          (Accepted, issue_publish Pub_TooltipRefresh None 0 False True io)
      | JobFinished _ ticket completion notification_ready \<Rightarrow>
          if is_cancelling_ticket (fst io) ticket
          then (Accepted, snd (finish_cancellation ticket (tick io)))
          else accept_if (finish_job ticket completion notification_ready (tick io))
      | JobCancelled _ ticket \<Rightarrow> accept_if (finish_cancellation ticket (tick io))
      | RefreshTriggered _ job _ \<Rightarrow> (Accepted, on_state (trigger job) (tick io))
      | PanelPublished _ publication \<Rightarrow>
          if publication \<in> set (s_panel_publications (fst io))
          then (Accepted, on_state (\<lambda>s. s\<lparr>s_panel_publications :=
                              bs_remove publication (s_panel_publications s),
                            s_notifications_armed := True\<rparr>) io)
          else (RejectedStale, io)
      | Suspend _ \<Rightarrow> (Accepted, suspend io)
      | Resume _ \<Rightarrow> (Accepted, resume io)
      | Shutdown _ \<Rightarrow> (Accepted, stop Can_Shutdown None io)
      | CriticalFailure _ component \<Rightarrow>
          (Accepted, stop Can_CriticalFailure (Some component) io))"

definition finish_transition :: "event_disposition \<times> sched_io \<Rightarrow> scheduler \<times> transition" where
  "finish_transition r =
     (let (d, io) = r;
          io1 = (if d = Accepted \<and> s_lifecycle (fst io) = Running
                 then let io' = dispatch io in
                      case next_wake (fst io') of
                        Some deadline \<Rightarrow> push (ScheduleDeadline deadline) io'
                      | None \<Rightarrow> io'
                 else io)
      in (fst io1, \<lparr>disposition = d, actions = sort_actions (snd io1)\<rparr>))"

definition handle :: "scheduler \<Rightarrow> scheduler_event \<Rightarrow> scheduler \<times> transition" where
  "handle s ev =
     (let at = event_at ev in
      if s_lifecycle s \<noteq> Unstarted \<and> at < s_now s then (s, rejected RejectedTimeRegression)
      else if s_lifecycle s = Stopped then (s, rejected RejectedLifecycle)
      else if s_lifecycle s = Unstarted \<and> \<not> is_startup ev then (s, rejected RejectedLifecycle)
      else if s_lifecycle s \<noteq> Unstarted \<and> is_startup ev then (s, rejected RejectedLifecycle)
      else if is_stale s ev then (s, rejected RejectedStale)
      else finish_transition (handle_event ev (s\<lparr>s_now := at\<rparr>, [])))"

text \<open>A run over a list of events, and its transitions.\<close>

definition sched_step :: "scheduler_event \<Rightarrow> scheduler \<Rightarrow> scheduler" where
  "sched_step ev s = fst (handle s ev)"

definition sched_run :: "scheduler_event list \<Rightarrow> scheduler" where
  "sched_run evs = fold sched_step evs scheduler_new"

fun transitions_from :: "scheduler \<Rightarrow> scheduler_event list \<Rightarrow> transition list" where
  "transitions_from s [] = []"
| "transitions_from s (ev # evs) =
     (let (s', t) = handle s ev in t # transitions_from s' evs)"

end
