(* ===== verification/Reservations.thy ===== *)
theory Reservations
  imports SchedMachine
begin

text \<open>
  The contract of the scheduler's owners, without the scheduler. A job owner runs one ticket at a
  time: \<open>own_start\<close> reserves a free owner under a new run id, \<open>own_cancel\<close> asks for some running
  tickets to be cancelled without freeing their owners, and only the executor's report
  (\<open>own_finish\<close>, \<open>own_ack\<close>) frees an owner. The state is the set of running tickets, the set of
  tickets being cancelled, the reserved owners with their runs, and the next run id.
  \<open>SchedOwners\<close> proves that every event of the scheduler is a sequence of these steps.
\<close>

abbreviation ticket_owner :: "job_ticket \<Rightarrow> owner_id" where
  "ticket_owner t \<equiv> jid_owner (tk_job t)"

type_synonym own_state =
  "job_ticket set \<times> job_ticket set \<times> (owner_id \<rightharpoonup> run_id) \<times> run_id"

text \<open>The middle argument lists the tickets started, in order.\<close>

inductive own_steps :: "own_state \<Rightarrow> job_ticket list \<Rightarrow> own_state \<Rightarrow> bool" where
  own_refl: "own_steps a [] a"
| own_start:
    "own_steps a ts (F, C, R, n) \<Longrightarrow> R (ticket_owner t) = None \<Longrightarrow> tk_run_id t = n
      \<Longrightarrow> own_steps a (ts @ [t]) (insert t F, C, R(ticket_owner t \<mapsto> n), Suc n)"
| own_cancel:
    "own_steps a ts (F, C, R, n) \<Longrightarrow> T \<subseteq> F \<Longrightarrow> own_steps a ts (F - T, C \<union> T, R, n)"
| own_finish:
    "own_steps a ts (F, C, R, n) \<Longrightarrow> t \<in> F
      \<Longrightarrow> own_steps a ts (F - {t}, C, R(ticket_owner t := None), n)"
| own_ack:
    "own_steps a ts (F, C, R, n) \<Longrightarrow> t \<in> C
      \<Longrightarrow> own_steps a ts (F, C - {t}, R(ticket_owner t := None), n)"

fun own_safe :: "own_state \<Rightarrow> bool" where
  "own_safe (F, C, R, n) \<longleftrightarrow>
     F \<inter> C = {} \<and> inj_on tk_run_id (F \<union> C) \<and> (\<forall>t \<in> F \<union> C. tk_run_id t < n) \<and>
     (\<forall>own run. R own = Some run \<longleftrightarrow>
        (\<exists>t \<in> F \<union> C. ticket_owner t = own \<and> tk_run_id t = run))"

lemma own_safe_owner:
  "own_safe (F, C, R, n) \<Longrightarrow> t \<in> F \<union> C \<Longrightarrow> R (ticket_owner t) = Some (tk_run_id t)"
  by (simp only: own_safe.simps) blast

lemma own_safe_unique:
  assumes "own_safe (F, C, R, n)" "t \<in> F \<union> C" "u \<in> F \<union> C" "ticket_owner t = ticket_owner u"
  shows "t = u"
proof -
  from assms have "R (ticket_owner u) = Some (tk_run_id t)" "R (ticket_owner u) = Some (tk_run_id u)"
    using own_safe_owner by metis+
  with assms show ?thesis by (auto dest: inj_onD)
qed

lemma own_safe_start:
  assumes "own_safe (F, C, R, n)" "R (ticket_owner t) = None" "tk_run_id t = n"
  shows "own_safe (insert t F, C, R(ticket_owner t \<mapsto> n), Suc n)"
proof -
  have fresh: "u \<in> F \<union> C \<Longrightarrow> tk_run_id u \<noteq> n" for u using assms(1) by auto
  then have "t \<notin> F \<union> C" using assms(3) by blast
  moreover have "inj_on tk_run_id (insert t (F \<union> C))"
    using assms fresh by (auto simp: inj_on_insert)
  moreover have "u \<in> F \<union> C \<Longrightarrow> ticket_owner u \<noteq> ticket_owner t" for u
    using assms(1,2) by (metis option.distinct(1) own_safe.simps)
  ultimately show ?thesis using assms by (auto simp: less_Suc_eq)
qed

lemma own_safe_release:
  assumes "own_safe (F, C, R, n)" "t \<in> F \<union> C"
  shows "own_safe (F - {t}, C - {t}, R(ticket_owner t := None), n)"
proof -
  have "u \<in> F \<union> C \<Longrightarrow> u \<noteq> t \<Longrightarrow> ticket_owner u \<noteq> ticket_owner t" for u
    using own_safe_unique [OF assms(1)] assms(2) by blast
  moreover have "inj_on tk_run_id ((F - {t}) \<union> (C - {t}))"
    using assms(1) by (auto intro: inj_on_subset)
  ultimately show ?thesis using assms by (auto 4 3)
qed

lemma own_safe_finish:
  "own_safe (F, C, R, n) \<Longrightarrow> t \<in> F \<Longrightarrow> own_safe (F - {t}, C, R(ticket_owner t := None), n)"
  using own_safe_release [of F C R n t] by (cases "t \<in> C") auto

lemma own_safe_ack:
  "own_safe (F, C, R, n) \<Longrightarrow> t \<in> C \<Longrightarrow> own_safe (F, C - {t}, R(ticket_owner t := None), n)"
  using own_safe_release [of F C R n t] by (cases "t \<in> F") auto

lemma own_safe_cancel:
  assumes "own_safe (F, C, R, n)" "T \<subseteq> F"
  shows "own_safe (F - T, C \<union> T, R, n)"
proof -
  have "(F - T) \<union> (C \<union> T) = F \<union> C" using assms(2) by auto
  then show ?thesis using assms by (auto simp only: own_safe.simps)
qed

lemma own_safe_steps: "own_steps a ts b \<Longrightarrow> own_safe a \<Longrightarrow> own_safe b"
  by (induction rule: own_steps.induct)
    (blast intro: own_safe_start own_safe_finish own_safe_ack own_safe_cancel)+

lemma own_steps_trans: "own_steps b us c \<Longrightarrow> own_steps a ts b \<Longrightarrow> own_steps a (ts @ us) c"
proof (induction rule: own_steps.induct)
  case (own_start b us F C R n t)
  then show ?case using own_steps.own_start [of a "ts @ us"] by simp
qed (auto intro: own_steps.intros)

text \<open>The run ids of the started tickets are the consecutive numbers from the first free one.\<close>

lemma own_steps_runs:
  "own_steps a ts b \<Longrightarrow>
     map tk_run_id ts = [snd (snd (snd a)) ..< snd (snd (snd b))] \<and>
     snd (snd (snd a)) \<le> snd (snd (snd b))"
  by (induction rule: own_steps.induct) auto

text \<open>The tickets of a state. One that was released does not come back: new tickets have new runs.\<close>

fun tickets :: "own_state \<Rightarrow> job_ticket set" where
  "tickets (F, C, R, n) = F \<union> C"

lemma own_steps_tickets: "own_steps a ts b \<Longrightarrow> tickets b \<subseteq> tickets a \<union> set ts"
  by (induction rule: own_steps.induct) auto

lemma own_steps_gone:
  assumes "own_steps a ts b" "t \<notin> tickets a" "tk_run_id t < snd (snd (snd a))"
  shows "t \<notin> tickets b"
proof -
  have "map tk_run_id ts = [snd (snd (snd a)) ..< snd (snd (snd b))]"
    using own_steps_runs [OF assms(1)] by simp
  then have "tk_run_id ` set ts = {snd (snd (snd a)) ..< snd (snd (snd b))}"
    by (metis set_map set_upt)
  then have "t \<notin> set ts" using assms(3) by (metis atLeastLessThan_iff image_eqI not_le)
  then show ?thesis using own_steps_tickets [OF assms(1)] assms(2) by blast
qed

declare own_safe.simps [simp del]

end
