(* ===== verification/SchedFrames.thy ===== *)
theory SchedFrames
  imports SchedMachine
begin

text \<open>
  Which fields of the scheduler each operation leaves alone, as simplification rules. An invariant
  that does not read the fields an operation writes is kept by it by \<open>simp\<close>.
\<close>

lemma issue_publish_frame [simp]:
  "s_lifecycle (fst (issue_publish r d k p t io)) = s_lifecycle (fst io)"
  "s_now (fst (issue_publish r d k p t io)) = s_now (fst io)"
  "s_config_generation (fst (issue_publish r d k p t io)) = s_config_generation (fst io)"
  "s_inventory_generation (fst (issue_publish r d k p t io)) = s_inventory_generation (fst io)"
  "s_display_interval (fst (issue_publish r d k p t io)) = s_display_interval (fst io)"
  "s_next_display (fst (issue_publish r d k p t io)) = s_next_display (fst io)"
  "s_jobs (fst (issue_publish r d k p t io)) = s_jobs (fst io)"
  "s_demand (fst (issue_publish r d k p t io)) = s_demand (fst io)"
  "s_presented (fst (issue_publish r d k p t io)) = s_presented (fst io)"
  "s_effective_presented (fst (issue_publish r d k p t io)) = s_effective_presented (fst io)"
  "s_selected_page (fst (issue_publish r d k p t io)) = s_selected_page (fst io)"
  "s_deactivation_deadline (fst (issue_publish r d k p t io)) = s_deactivation_deadline (fst io)"
  "s_activation_deadline (fst (issue_publish r d k p t io)) = s_activation_deadline (fst io)"
  "s_activation_waiting (fst (issue_publish r d k p t io)) = s_activation_waiting (fst io)"
  "s_first_paint_deadline (fst (issue_publish r d k p t io)) = s_first_paint_deadline (fst io)"
  "s_first_paint_waiting (fst (issue_publish r d k p t io)) = s_first_paint_waiting (fst io)"
  "s_first_paint_issued (fst (issue_publish r d k p t io)) = s_first_paint_issued (fst io)"
  "s_notifications_armed (fst (issue_publish r d k p t io)) = s_notifications_armed (fst io)"
  "s_in_flight_owners (fst (issue_publish r d k p t io)) = s_in_flight_owners (fst io)"
  "s_cancelling (fst (issue_publish r d k p t io)) = s_cancelling (fst io)"
  "s_awaiting_resume_inventory (fst (issue_publish r d k p t io)) = s_awaiting_resume_inventory (fst io)"
  "s_next_run_id (fst (issue_publish r d k p t io)) = s_next_run_id (fst io)"
  "s_next_resume_reconciliation_id (fst (issue_publish r d k p t io)) = s_next_resume_reconciliation_id (fst io)"
  by (simp_all add: issue_publish_def Let_def on_state_def split: option.split prod.split)

lemma reanchor_frame [simp]:
  "s_lifecycle (reanchor_fast_jobs s) = s_lifecycle s" "s_now (reanchor_fast_jobs s) = s_now s"
  "s_config_generation (reanchor_fast_jobs s) = s_config_generation s"
  "s_inventory_generation (reanchor_fast_jobs s) = s_inventory_generation s"
  "s_display_interval (reanchor_fast_jobs s) = s_display_interval s"
  "s_next_display (reanchor_fast_jobs s) = s_next_display s"
  "s_demand (reanchor_fast_jobs s) = s_demand s"
  "s_presented (reanchor_fast_jobs s) = s_presented s"
  "s_effective_presented (reanchor_fast_jobs s) = s_effective_presented s"
  "s_selected_page (reanchor_fast_jobs s) = s_selected_page s"
  "s_deactivation_deadline (reanchor_fast_jobs s) = s_deactivation_deadline s"
  "s_activation_deadline (reanchor_fast_jobs s) = s_activation_deadline s"
  "s_activation_waiting (reanchor_fast_jobs s) = s_activation_waiting s"
  "s_first_paint_deadline (reanchor_fast_jobs s) = s_first_paint_deadline s"
  "s_first_paint_waiting (reanchor_fast_jobs s) = s_first_paint_waiting s"
  "s_first_paint_issued (reanchor_fast_jobs s) = s_first_paint_issued s"
  "s_notifications_armed (reanchor_fast_jobs s) = s_notifications_armed s"
  "s_panel_publications (reanchor_fast_jobs s) = s_panel_publications s"
  "s_in_flight_owners (reanchor_fast_jobs s) = s_in_flight_owners s"
  "s_cancelling (reanchor_fast_jobs s) = s_cancelling s"
  "s_awaiting_resume_inventory (reanchor_fast_jobs s) = s_awaiting_resume_inventory s"
  "s_next_run_id (reanchor_fast_jobs s) = s_next_run_id s"
  "s_next_publication_id (reanchor_fast_jobs s) = s_next_publication_id s"
  "s_next_resume_reconciliation_id (reanchor_fast_jobs s) = s_next_resume_reconciliation_id s"
  by (simp_all add: reanchor_fast_jobs_def Let_def split: option.split)

lemma first_paint_frame [simp]:
  "s_lifecycle (fst (issue_first_paint r io)) = s_lifecycle (fst io)"
  "s_now (fst (issue_first_paint r io)) = s_now (fst io)"
  "s_config_generation (fst (issue_first_paint r io)) = s_config_generation (fst io)"
  "s_inventory_generation (fst (issue_first_paint r io)) = s_inventory_generation (fst io)"
  "s_display_interval (fst (issue_first_paint r io)) = s_display_interval (fst io)"
  "s_demand (fst (issue_first_paint r io)) = s_demand (fst io)"
  "s_presented (fst (issue_first_paint r io)) = s_presented (fst io)"
  "s_effective_presented (fst (issue_first_paint r io)) = s_effective_presented (fst io)"
  "s_selected_page (fst (issue_first_paint r io)) = s_selected_page (fst io)"
  "s_deactivation_deadline (fst (issue_first_paint r io)) = s_deactivation_deadline (fst io)"
  "s_activation_deadline (fst (issue_first_paint r io)) = s_activation_deadline (fst io)"
  "s_activation_waiting (fst (issue_first_paint r io)) = s_activation_waiting (fst io)"
  "s_notifications_armed (fst (issue_first_paint r io)) = s_notifications_armed (fst io)"
  "s_in_flight_owners (fst (issue_first_paint r io)) = s_in_flight_owners (fst io)"
  "s_cancelling (fst (issue_first_paint r io)) = s_cancelling (fst io)"
  "s_awaiting_resume_inventory (fst (issue_first_paint r io)) = s_awaiting_resume_inventory (fst io)"
  "s_next_run_id (fst (issue_first_paint r io)) = s_next_run_id (fst io)"
  "s_next_resume_reconciliation_id (fst (issue_first_paint r io)) = s_next_resume_reconciliation_id (fst io)"
  by (simp_all add: issue_first_paint_def Let_def on_state_def split: option.split prod.split)

lemma cancel_in_flight_frame [simp]:
  "s_lifecycle (fst (cancel_in_flight P c io)) = s_lifecycle (fst io)"
  "s_now (fst (cancel_in_flight P c io)) = s_now (fst io)"
  "s_config_generation (fst (cancel_in_flight P c io)) = s_config_generation (fst io)"
  "s_inventory_generation (fst (cancel_in_flight P c io)) = s_inventory_generation (fst io)"
  "s_display_interval (fst (cancel_in_flight P c io)) = s_display_interval (fst io)"
  "s_next_display (fst (cancel_in_flight P c io)) = s_next_display (fst io)"
  "s_demand (fst (cancel_in_flight P c io)) = s_demand (fst io)"
  "s_presented (fst (cancel_in_flight P c io)) = s_presented (fst io)"
  "s_effective_presented (fst (cancel_in_flight P c io)) = s_effective_presented (fst io)"
  "s_selected_page (fst (cancel_in_flight P c io)) = s_selected_page (fst io)"
  "s_deactivation_deadline (fst (cancel_in_flight P c io)) = s_deactivation_deadline (fst io)"
  "s_activation_deadline (fst (cancel_in_flight P c io)) = s_activation_deadline (fst io)"
  "s_activation_waiting (fst (cancel_in_flight P c io)) = s_activation_waiting (fst io)"
  "s_first_paint_deadline (fst (cancel_in_flight P c io)) = s_first_paint_deadline (fst io)"
  "s_first_paint_waiting (fst (cancel_in_flight P c io)) = s_first_paint_waiting (fst io)"
  "s_first_paint_issued (fst (cancel_in_flight P c io)) = s_first_paint_issued (fst io)"
  "s_notifications_armed (fst (cancel_in_flight P c io)) = s_notifications_armed (fst io)"
  "s_panel_publications (fst (cancel_in_flight P c io)) = s_panel_publications (fst io)"
  "s_in_flight_owners (fst (cancel_in_flight P c io)) = s_in_flight_owners (fst io)"
  "s_awaiting_resume_inventory (fst (cancel_in_flight P c io)) = s_awaiting_resume_inventory (fst io)"
  "s_next_run_id (fst (cancel_in_flight P c io)) = s_next_run_id (fst io)"
  "s_next_publication_id (fst (cancel_in_flight P c io)) = s_next_publication_id (fst io)"
  "s_next_resume_reconciliation_id (fst (cancel_in_flight P c io)) = s_next_resume_reconciliation_id (fst io)"
  by (simp_all add: cancel_in_flight_def Let_def on_state_def split: prod.split)

lemma cancel_all_frame [simp]:
  "s_lifecycle (fst (cancel_all c io)) = s_lifecycle (fst io)"
  "s_now (fst (cancel_all c io)) = s_now (fst io)"
  "s_config_generation (fst (cancel_all c io)) = s_config_generation (fst io)"
  "s_inventory_generation (fst (cancel_all c io)) = s_inventory_generation (fst io)"
  "s_display_interval (fst (cancel_all c io)) = s_display_interval (fst io)"
  "s_next_display (fst (cancel_all c io)) = s_next_display (fst io)"
  "s_demand (fst (cancel_all c io)) = s_demand (fst io)"
  "s_presented (fst (cancel_all c io)) = s_presented (fst io)"
  "s_effective_presented (fst (cancel_all c io)) = s_effective_presented (fst io)"
  "s_selected_page (fst (cancel_all c io)) = s_selected_page (fst io)"
  "s_deactivation_deadline (fst (cancel_all c io)) = s_deactivation_deadline (fst io)"
  "s_activation_deadline (fst (cancel_all c io)) = s_activation_deadline (fst io)"
  "s_activation_waiting (fst (cancel_all c io)) = s_activation_waiting (fst io)"
  "s_first_paint_deadline (fst (cancel_all c io)) = s_first_paint_deadline (fst io)"
  "s_first_paint_waiting (fst (cancel_all c io)) = s_first_paint_waiting (fst io)"
  "s_first_paint_issued (fst (cancel_all c io)) = s_first_paint_issued (fst io)"
  "s_notifications_armed (fst (cancel_all c io)) = s_notifications_armed (fst io)"
  "s_panel_publications (fst (cancel_all c io)) = s_panel_publications (fst io)"
  "s_in_flight_owners (fst (cancel_all c io)) = s_in_flight_owners (fst io)"
  "s_awaiting_resume_inventory (fst (cancel_all c io)) = s_awaiting_resume_inventory (fst io)"
  "s_next_run_id (fst (cancel_all c io)) = s_next_run_id (fst io)"
  "s_next_publication_id (fst (cancel_all c io)) = s_next_publication_id (fst io)"
  "s_next_resume_reconciliation_id (fst (cancel_all c io)) = s_next_resume_reconciliation_id (fst io)"
  by (simp_all add: cancel_all_def Let_def on_state_def)

lemma demand_ended_frame [simp]:
  "s_lifecycle (fst (cancel_demand_ended b a io)) = s_lifecycle (fst io)"
  "s_now (fst (cancel_demand_ended b a io)) = s_now (fst io)"
  "s_config_generation (fst (cancel_demand_ended b a io)) = s_config_generation (fst io)"
  "s_inventory_generation (fst (cancel_demand_ended b a io)) = s_inventory_generation (fst io)"
  "s_display_interval (fst (cancel_demand_ended b a io)) = s_display_interval (fst io)"
  "s_next_display (fst (cancel_demand_ended b a io)) = s_next_display (fst io)"
  "s_demand (fst (cancel_demand_ended b a io)) = s_demand (fst io)"
  "s_presented (fst (cancel_demand_ended b a io)) = s_presented (fst io)"
  "s_effective_presented (fst (cancel_demand_ended b a io)) = s_effective_presented (fst io)"
  "s_selected_page (fst (cancel_demand_ended b a io)) = s_selected_page (fst io)"
  "s_deactivation_deadline (fst (cancel_demand_ended b a io)) = s_deactivation_deadline (fst io)"
  "s_activation_deadline (fst (cancel_demand_ended b a io)) = s_activation_deadline (fst io)"
  "s_activation_waiting (fst (cancel_demand_ended b a io)) = s_activation_waiting (fst io)"
  "s_first_paint_deadline (fst (cancel_demand_ended b a io)) = s_first_paint_deadline (fst io)"
  "s_first_paint_waiting (fst (cancel_demand_ended b a io)) = s_first_paint_waiting (fst io)"
  "s_first_paint_issued (fst (cancel_demand_ended b a io)) = s_first_paint_issued (fst io)"
  "s_notifications_armed (fst (cancel_demand_ended b a io)) = s_notifications_armed (fst io)"
  "s_panel_publications (fst (cancel_demand_ended b a io)) = s_panel_publications (fst io)"
  "s_in_flight_owners (fst (cancel_demand_ended b a io)) = s_in_flight_owners (fst io)"
  "s_awaiting_resume_inventory (fst (cancel_demand_ended b a io)) = s_awaiting_resume_inventory (fst io)"
  "s_next_run_id (fst (cancel_demand_ended b a io)) = s_next_run_id (fst io)"
  "s_next_publication_id (fst (cancel_demand_ended b a io)) = s_next_publication_id (fst io)"
  "s_next_resume_reconciliation_id (fst (cancel_demand_ended b a io)) = s_next_resume_reconciliation_id (fst io)"
  by (simp_all add: cancel_demand_ended_def Let_def on_state_def)

lemma refresh_demand_frame [simp]:
  "s_lifecycle (fst (refresh_demand c io)) = s_lifecycle (fst io)"
  "s_now (fst (refresh_demand c io)) = s_now (fst io)"
  "s_config_generation (fst (refresh_demand c io)) = s_config_generation (fst io)"
  "s_inventory_generation (fst (refresh_demand c io)) = s_inventory_generation (fst io)"
  "s_display_interval (fst (refresh_demand c io)) = s_display_interval (fst io)"
  "s_next_display (fst (refresh_demand c io)) = s_next_display (fst io)"
  "s_demand (fst (refresh_demand c io)) = s_demand (fst io)"
  "s_presented (fst (refresh_demand c io)) = s_presented (fst io)"
  "s_effective_presented (fst (refresh_demand c io)) = s_effective_presented (fst io)"
  "s_selected_page (fst (refresh_demand c io)) = s_selected_page (fst io)"
  "s_deactivation_deadline (fst (refresh_demand c io)) = s_deactivation_deadline (fst io)"
  "s_activation_deadline (fst (refresh_demand c io)) = s_activation_deadline (fst io)"
  "s_activation_waiting (fst (refresh_demand c io)) = s_activation_waiting (fst io)"
  "s_first_paint_deadline (fst (refresh_demand c io)) = s_first_paint_deadline (fst io)"
  "s_first_paint_waiting (fst (refresh_demand c io)) = s_first_paint_waiting (fst io)"
  "s_first_paint_issued (fst (refresh_demand c io)) = s_first_paint_issued (fst io)"
  "s_notifications_armed (fst (refresh_demand c io)) = s_notifications_armed (fst io)"
  "s_panel_publications (fst (refresh_demand c io)) = s_panel_publications (fst io)"
  "s_in_flight_owners (fst (refresh_demand c io)) = s_in_flight_owners (fst io)"
  "s_awaiting_resume_inventory (fst (refresh_demand c io)) = s_awaiting_resume_inventory (fst io)"
  "s_next_run_id (fst (refresh_demand c io)) = s_next_run_id (fst io)"
  "s_next_publication_id (fst (refresh_demand c io)) = s_next_publication_id (fst io)"
  "s_next_resume_reconciliation_id (fst (refresh_demand c io)) = s_next_resume_reconciliation_id (fst io)"
  by (simp_all add: refresh_demand_def Let_def on_state_def)

lemma dispatch_one_frame [simp]:
  "s_lifecycle (fst (dispatch_one i io)) = s_lifecycle (fst io)"
  "s_now (fst (dispatch_one i io)) = s_now (fst io)"
  "s_config_generation (fst (dispatch_one i io)) = s_config_generation (fst io)"
  "s_inventory_generation (fst (dispatch_one i io)) = s_inventory_generation (fst io)"
  "s_display_interval (fst (dispatch_one i io)) = s_display_interval (fst io)"
  "s_next_display (fst (dispatch_one i io)) = s_next_display (fst io)"
  "s_demand (fst (dispatch_one i io)) = s_demand (fst io)"
  "s_presented (fst (dispatch_one i io)) = s_presented (fst io)"
  "s_effective_presented (fst (dispatch_one i io)) = s_effective_presented (fst io)"
  "s_selected_page (fst (dispatch_one i io)) = s_selected_page (fst io)"
  "s_deactivation_deadline (fst (dispatch_one i io)) = s_deactivation_deadline (fst io)"
  "s_activation_deadline (fst (dispatch_one i io)) = s_activation_deadline (fst io)"
  "s_activation_waiting (fst (dispatch_one i io)) = s_activation_waiting (fst io)"
  "s_first_paint_deadline (fst (dispatch_one i io)) = s_first_paint_deadline (fst io)"
  "s_first_paint_waiting (fst (dispatch_one i io)) = s_first_paint_waiting (fst io)"
  "s_first_paint_issued (fst (dispatch_one i io)) = s_first_paint_issued (fst io)"
  "s_notifications_armed (fst (dispatch_one i io)) = s_notifications_armed (fst io)"
  "s_panel_publications (fst (dispatch_one i io)) = s_panel_publications (fst io)"
  "s_cancelling (fst (dispatch_one i io)) = s_cancelling (fst io)"
  "s_awaiting_resume_inventory (fst (dispatch_one i io)) = s_awaiting_resume_inventory (fst io)"
  "s_next_publication_id (fst (dispatch_one i io)) = s_next_publication_id (fst io)"
  "s_next_resume_reconciliation_id (fst (dispatch_one i io)) = s_next_resume_reconciliation_id (fst io)"
  by (simp_all add: dispatch_one_def Let_def on_state_def split: option.split prod.split)

lemma fold_frame:
  "(\<And>x io. f (fst (g x io)) = f (fst io)) \<Longrightarrow> f (fst (fold g xs io)) = f (fst io)"
  by (induction xs arbitrary: io) simp_all

lemma dispatch_frame [simp]:
  "s_lifecycle (fst (dispatch io)) = s_lifecycle (fst io)"
  "s_now (fst (dispatch io)) = s_now (fst io)"
  "s_config_generation (fst (dispatch io)) = s_config_generation (fst io)"
  "s_inventory_generation (fst (dispatch io)) = s_inventory_generation (fst io)"
  "s_display_interval (fst (dispatch io)) = s_display_interval (fst io)"
  "s_next_display (fst (dispatch io)) = s_next_display (fst io)"
  "s_demand (fst (dispatch io)) = s_demand (fst io)"
  "s_presented (fst (dispatch io)) = s_presented (fst io)"
  "s_effective_presented (fst (dispatch io)) = s_effective_presented (fst io)"
  "s_selected_page (fst (dispatch io)) = s_selected_page (fst io)"
  "s_deactivation_deadline (fst (dispatch io)) = s_deactivation_deadline (fst io)"
  "s_activation_deadline (fst (dispatch io)) = s_activation_deadline (fst io)"
  "s_activation_waiting (fst (dispatch io)) = s_activation_waiting (fst io)"
  "s_first_paint_deadline (fst (dispatch io)) = s_first_paint_deadline (fst io)"
  "s_first_paint_waiting (fst (dispatch io)) = s_first_paint_waiting (fst io)"
  "s_first_paint_issued (fst (dispatch io)) = s_first_paint_issued (fst io)"
  "s_notifications_armed (fst (dispatch io)) = s_notifications_armed (fst io)"
  "s_panel_publications (fst (dispatch io)) = s_panel_publications (fst io)"
  "s_cancelling (fst (dispatch io)) = s_cancelling (fst io)"
  "s_awaiting_resume_inventory (fst (dispatch io)) = s_awaiting_resume_inventory (fst io)"
  "s_next_publication_id (fst (dispatch io)) = s_next_publication_id (fst io)"
  "s_next_resume_reconciliation_id (fst (dispatch io)) = s_next_resume_reconciliation_id (fst io)"
  by (simp_all add: dispatch_def fold_frame [where g = dispatch_one] Let_def on_state_def)

lemma restart_blockers_frame [simp]:
  "s_lifecycle (restart_blockers s) = s_lifecycle s" "s_now (restart_blockers s) = s_now s"
  "s_config_generation (restart_blockers s) = s_config_generation s"
  "s_inventory_generation (restart_blockers s) = s_inventory_generation s"
  "s_display_interval (restart_blockers s) = s_display_interval s"
  "s_next_display (restart_blockers s) = s_next_display s"
  "s_demand (restart_blockers s) = s_demand s" "s_presented (restart_blockers s) = s_presented s"
  "s_effective_presented (restart_blockers s) = s_effective_presented s"
  "s_selected_page (restart_blockers s) = s_selected_page s"
  "s_deactivation_deadline (restart_blockers s) = s_deactivation_deadline s"
  "s_activation_deadline (restart_blockers s) = s_activation_deadline s"
  "s_activation_waiting (restart_blockers s) = s_activation_waiting s"
  "s_first_paint_deadline (restart_blockers s) = s_first_paint_deadline s"
  "s_first_paint_issued (restart_blockers s) = s_first_paint_issued s"
  "s_notifications_armed (restart_blockers s) = s_notifications_armed s"
  "s_panel_publications (restart_blockers s) = s_panel_publications s"
  "s_in_flight_owners (restart_blockers s) = s_in_flight_owners s"
  "s_cancelling (restart_blockers s) = s_cancelling s"
  "s_awaiting_resume_inventory (restart_blockers s) = s_awaiting_resume_inventory s"
  "s_next_run_id (restart_blockers s) = s_next_run_id s"
  "s_next_publication_id (restart_blockers s) = s_next_publication_id s"
  "s_next_resume_reconciliation_id (restart_blockers s) = s_next_resume_reconciliation_id s"
  by (simp_all add: restart_blockers_def Let_def)

lemma retain_frame [simp]:
  "s_lifecycle (retain_activation s) = s_lifecycle s" "s_now (retain_activation s) = s_now s"
  "s_config_generation (retain_activation s) = s_config_generation s"
  "s_inventory_generation (retain_activation s) = s_inventory_generation s"
  "s_display_interval (retain_activation s) = s_display_interval s"
  "s_next_display (retain_activation s) = s_next_display s"
  "s_jobs (retain_activation s) = s_jobs s" "s_demand (retain_activation s) = s_demand s"
  "s_presented (retain_activation s) = s_presented s"
  "s_effective_presented (retain_activation s) = s_effective_presented s"
  "s_selected_page (retain_activation s) = s_selected_page s"
  "s_deactivation_deadline (retain_activation s) = s_deactivation_deadline s"
  "s_activation_deadline (retain_activation s) = s_activation_deadline s"
  "s_first_paint_deadline (retain_activation s) = s_first_paint_deadline s"
  "s_first_paint_waiting (retain_activation s) = s_first_paint_waiting s"
  "s_first_paint_issued (retain_activation s) = s_first_paint_issued s"
  "s_notifications_armed (retain_activation s) = s_notifications_armed s"
  "s_panel_publications (retain_activation s) = s_panel_publications s"
  "s_in_flight_owners (retain_activation s) = s_in_flight_owners s"
  "s_cancelling (retain_activation s) = s_cancelling s"
  "s_awaiting_resume_inventory (retain_activation s) = s_awaiting_resume_inventory s"
  "s_next_run_id (retain_activation s) = s_next_run_id s"
  "s_next_publication_id (retain_activation s) = s_next_publication_id s"
  "s_next_resume_reconciliation_id (retain_activation s) = s_next_resume_reconciliation_id s"
  by (simp_all add: retain_activation_def Let_def)

lemma replace_jobs_frame [simp]:
  "s_lifecycle (fst (replace_jobs specs c io)) = s_lifecycle (fst io)"
  "s_now (fst (replace_jobs specs c io)) = s_now (fst io)"
  "s_config_generation (fst (replace_jobs specs c io)) = s_config_generation (fst io)"
  "s_inventory_generation (fst (replace_jobs specs c io)) = s_inventory_generation (fst io)"
  "s_display_interval (fst (replace_jobs specs c io)) = s_display_interval (fst io)"
  "s_next_display (fst (replace_jobs specs c io)) = s_next_display (fst io)"
  "s_demand (fst (replace_jobs specs c io)) = s_demand (fst io)"
  "s_presented (fst (replace_jobs specs c io)) = s_presented (fst io)"
  "s_effective_presented (fst (replace_jobs specs c io)) = s_effective_presented (fst io)"
  "s_selected_page (fst (replace_jobs specs c io)) = s_selected_page (fst io)"
  "s_deactivation_deadline (fst (replace_jobs specs c io)) = s_deactivation_deadline (fst io)"
  "s_activation_deadline (fst (replace_jobs specs c io)) = s_activation_deadline (fst io)"
  "s_first_paint_deadline (fst (replace_jobs specs c io)) = s_first_paint_deadline (fst io)"
  "s_first_paint_issued (fst (replace_jobs specs c io)) = s_first_paint_issued (fst io)"
  "s_notifications_armed (fst (replace_jobs specs c io)) = s_notifications_armed (fst io)"
  "s_panel_publications (fst (replace_jobs specs c io)) = s_panel_publications (fst io)"
  "s_in_flight_owners (fst (replace_jobs specs c io)) = s_in_flight_owners (fst io)"
  "s_awaiting_resume_inventory (fst (replace_jobs specs c io)) = s_awaiting_resume_inventory (fst io)"
  "s_next_run_id (fst (replace_jobs specs c io)) = s_next_run_id (fst io)"
  "s_next_publication_id (fst (replace_jobs specs c io)) = s_next_publication_id (fst io)"
  "s_next_resume_reconciliation_id (fst (replace_jobs specs c io)) = s_next_resume_reconciliation_id (fst io)"
  by (simp_all add: replace_jobs_def Let_def case_prod_unfold)

lemma activate_jobs_frame [simp]:
  "s_lifecycle (activate_jobs b a k s) = s_lifecycle s" "s_now (activate_jobs b a k s) = s_now s"
  "s_config_generation (activate_jobs b a k s) = s_config_generation s"
  "s_inventory_generation (activate_jobs b a k s) = s_inventory_generation s"
  "s_display_interval (activate_jobs b a k s) = s_display_interval s"
  "s_next_display (activate_jobs b a k s) = s_next_display s"
  "s_demand (activate_jobs b a k s) = s_demand s"
  "s_presented (activate_jobs b a k s) = s_presented s"
  "s_effective_presented (activate_jobs b a k s) = s_effective_presented s"
  "s_selected_page (activate_jobs b a k s) = s_selected_page s"
  "s_deactivation_deadline (activate_jobs b a k s) = s_deactivation_deadline s"
  "s_first_paint_deadline (activate_jobs b a k s) = s_first_paint_deadline s"
  "s_first_paint_waiting (activate_jobs b a k s) = s_first_paint_waiting s"
  "s_first_paint_issued (activate_jobs b a k s) = s_first_paint_issued s"
  "s_notifications_armed (activate_jobs b a k s) = s_notifications_armed s"
  "s_panel_publications (activate_jobs b a k s) = s_panel_publications s"
  "s_in_flight_owners (activate_jobs b a k s) = s_in_flight_owners s"
  "s_cancelling (activate_jobs b a k s) = s_cancelling s"
  "s_awaiting_resume_inventory (activate_jobs b a k s) = s_awaiting_resume_inventory s"
  "s_next_run_id (activate_jobs b a k s) = s_next_run_id s"
  "s_next_publication_id (activate_jobs b a k s) = s_next_publication_id s"
  "s_next_resume_reconciliation_id (activate_jobs b a k s) = s_next_resume_reconciliation_id s"
  by (simp_all add: activate_jobs_def Let_def)

lemma refresh_all_frame [simp]:
  "s_lifecycle (refresh_all_demanded s) = s_lifecycle s" "s_now (refresh_all_demanded s) = s_now s"
  "s_config_generation (refresh_all_demanded s) = s_config_generation s"
  "s_inventory_generation (refresh_all_demanded s) = s_inventory_generation s"
  "s_display_interval (refresh_all_demanded s) = s_display_interval s"
  "s_next_display (refresh_all_demanded s) = s_next_display s"
  "s_demand (refresh_all_demanded s) = s_demand s"
  "s_presented (refresh_all_demanded s) = s_presented s"
  "s_effective_presented (refresh_all_demanded s) = s_effective_presented s"
  "s_selected_page (refresh_all_demanded s) = s_selected_page s"
  "s_deactivation_deadline (refresh_all_demanded s) = s_deactivation_deadline s"
  "s_activation_deadline (refresh_all_demanded s) = s_activation_deadline s"
  "s_activation_waiting (refresh_all_demanded s) = s_activation_waiting s"
  "s_first_paint_deadline (refresh_all_demanded s) = s_first_paint_deadline s"
  "s_first_paint_waiting (refresh_all_demanded s) = s_first_paint_waiting s"
  "s_first_paint_issued (refresh_all_demanded s) = s_first_paint_issued s"
  "s_notifications_armed (refresh_all_demanded s) = s_notifications_armed s"
  "s_panel_publications (refresh_all_demanded s) = s_panel_publications s"
  "s_in_flight_owners (refresh_all_demanded s) = s_in_flight_owners s"
  "s_cancelling (refresh_all_demanded s) = s_cancelling s"
  "s_awaiting_resume_inventory (refresh_all_demanded s) = s_awaiting_resume_inventory s"
  "s_next_run_id (refresh_all_demanded s) = s_next_run_id s"
  "s_next_publication_id (refresh_all_demanded s) = s_next_publication_id s"
  "s_next_resume_reconciliation_id (refresh_all_demanded s) = s_next_resume_reconciliation_id s"
  by (simp_all add: refresh_all_demanded_def Let_def)

lemma rebuild_blockers_frame [simp]:
  "s_lifecycle (fst (rebuild_first_paint_blockers io)) = s_lifecycle (fst io)"
  "s_now (fst (rebuild_first_paint_blockers io)) = s_now (fst io)"
  "s_config_generation (fst (rebuild_first_paint_blockers io)) = s_config_generation (fst io)"
  "s_inventory_generation (fst (rebuild_first_paint_blockers io)) = s_inventory_generation (fst io)"
  "s_display_interval (fst (rebuild_first_paint_blockers io)) = s_display_interval (fst io)"
  "s_demand (fst (rebuild_first_paint_blockers io)) = s_demand (fst io)"
  "s_presented (fst (rebuild_first_paint_blockers io)) = s_presented (fst io)"
  "s_effective_presented (fst (rebuild_first_paint_blockers io)) = s_effective_presented (fst io)"
  "s_selected_page (fst (rebuild_first_paint_blockers io)) = s_selected_page (fst io)"
  "s_deactivation_deadline (fst (rebuild_first_paint_blockers io)) = s_deactivation_deadline (fst io)"
  "s_activation_deadline (fst (rebuild_first_paint_blockers io)) = s_activation_deadline (fst io)"
  "s_activation_waiting (fst (rebuild_first_paint_blockers io)) = s_activation_waiting (fst io)"
  "s_notifications_armed (fst (rebuild_first_paint_blockers io)) = s_notifications_armed (fst io)"
  "s_in_flight_owners (fst (rebuild_first_paint_blockers io)) = s_in_flight_owners (fst io)"
  "s_cancelling (fst (rebuild_first_paint_blockers io)) = s_cancelling (fst io)"
  "s_awaiting_resume_inventory (fst (rebuild_first_paint_blockers io)) = s_awaiting_resume_inventory (fst io)"
  "s_next_run_id (fst (rebuild_first_paint_blockers io)) = s_next_run_id (fst io)"
  "s_next_resume_reconciliation_id (fst (rebuild_first_paint_blockers io)) = s_next_resume_reconciliation_id (fst io)"
  by (simp_all add: rebuild_first_paint_blockers_def Let_def on_state_def split: prod.split)

lemma change_inventory_frame [simp]:
  "s_lifecycle (fst (change_inventory u io)) = s_lifecycle (fst io)"
  "s_now (fst (change_inventory u io)) = s_now (fst io)"
  "s_config_generation (fst (change_inventory u io)) = s_config_generation (fst io)"
  "s_display_interval (fst (change_inventory u io)) = s_display_interval (fst io)"
  "s_next_display (fst (change_inventory u io)) = s_next_display (fst io)"
  "s_presented (fst (change_inventory u io)) = s_presented (fst io)"
  "s_effective_presented (fst (change_inventory u io)) = s_effective_presented (fst io)"
  "s_selected_page (fst (change_inventory u io)) = s_selected_page (fst io)"
  "s_deactivation_deadline (fst (change_inventory u io)) = s_deactivation_deadline (fst io)"
  "s_first_paint_deadline (fst (change_inventory u io)) = s_first_paint_deadline (fst io)"
  "s_first_paint_issued (fst (change_inventory u io)) = s_first_paint_issued (fst io)"
  "s_notifications_armed (fst (change_inventory u io)) = s_notifications_armed (fst io)"
  "s_panel_publications (fst (change_inventory u io)) = s_panel_publications (fst io)"
  "s_in_flight_owners (fst (change_inventory u io)) = s_in_flight_owners (fst io)"
  "s_next_run_id (fst (change_inventory u io)) = s_next_run_id (fst io)"
  "s_next_publication_id (fst (change_inventory u io)) = s_next_publication_id (fst io)"
  "s_next_resume_reconciliation_id (fst (change_inventory u io)) = s_next_resume_reconciliation_id (fst io)"
  by (simp_all add: change_inventory_def Let_def on_state_def)

lemma change_demand_frame [simp]:
  "s_lifecycle (fst (change_demand dp io)) = s_lifecycle (fst io)"
  "s_now (fst (change_demand dp io)) = s_now (fst io)"
  "s_config_generation (fst (change_demand dp io)) = s_config_generation (fst io)"
  "s_inventory_generation (fst (change_demand dp io)) = s_inventory_generation (fst io)"
  "s_display_interval (fst (change_demand dp io)) = s_display_interval (fst io)"
  "s_presented (fst (change_demand dp io)) = s_presented (fst io)"
  "s_effective_presented (fst (change_demand dp io)) = s_effective_presented (fst io)"
  "s_selected_page (fst (change_demand dp io)) = s_selected_page (fst io)"
  "s_deactivation_deadline (fst (change_demand dp io)) = s_deactivation_deadline (fst io)"
  "s_notifications_armed (fst (change_demand dp io)) = s_notifications_armed (fst io)"
  "s_in_flight_owners (fst (change_demand dp io)) = s_in_flight_owners (fst io)"
  "s_awaiting_resume_inventory (fst (change_demand dp io)) = s_awaiting_resume_inventory (fst io)"
  "s_next_run_id (fst (change_demand dp io)) = s_next_run_id (fst io)"
  "s_next_resume_reconciliation_id (fst (change_demand dp io)) = s_next_resume_reconciliation_id (fst io)"
  by (simp_all add: change_demand_def Let_def on_state_def)

lemma refresh_activation_frame [simp]:
  "s_lifecycle (fst (refresh_activation io)) = s_lifecycle (fst io)"
  "s_now (fst (refresh_activation io)) = s_now (fst io)"
  "s_config_generation (fst (refresh_activation io)) = s_config_generation (fst io)"
  "s_inventory_generation (fst (refresh_activation io)) = s_inventory_generation (fst io)"
  "s_display_interval (fst (refresh_activation io)) = s_display_interval (fst io)"
  "s_next_display (fst (refresh_activation io)) = s_next_display (fst io)"
  "s_demand (fst (refresh_activation io)) = s_demand (fst io)"
  "s_presented (fst (refresh_activation io)) = s_presented (fst io)"
  "s_effective_presented (fst (refresh_activation io)) = s_effective_presented (fst io)"
  "s_selected_page (fst (refresh_activation io)) = s_selected_page (fst io)"
  "s_deactivation_deadline (fst (refresh_activation io)) = s_deactivation_deadline (fst io)"
  "s_first_paint_deadline (fst (refresh_activation io)) = s_first_paint_deadline (fst io)"
  "s_first_paint_waiting (fst (refresh_activation io)) = s_first_paint_waiting (fst io)"
  "s_first_paint_issued (fst (refresh_activation io)) = s_first_paint_issued (fst io)"
  "s_notifications_armed (fst (refresh_activation io)) = s_notifications_armed (fst io)"
  "s_in_flight_owners (fst (refresh_activation io)) = s_in_flight_owners (fst io)"
  "s_cancelling (fst (refresh_activation io)) = s_cancelling (fst io)"
  "s_awaiting_resume_inventory (fst (refresh_activation io)) = s_awaiting_resume_inventory (fst io)"
  "s_next_run_id (fst (refresh_activation io)) = s_next_run_id (fst io)"
  "s_next_resume_reconciliation_id (fst (refresh_activation io)) = s_next_resume_reconciliation_id (fst io)"
  by (simp_all add: refresh_activation_def Let_def on_state_def split: prod.split)

lemma change_presentation_frame [simp]:
  "s_lifecycle (fst (change_presentation p io)) = s_lifecycle (fst io)"
  "s_now (fst (change_presentation p io)) = s_now (fst io)"
  "s_config_generation (fst (change_presentation p io)) = s_config_generation (fst io)"
  "s_inventory_generation (fst (change_presentation p io)) = s_inventory_generation (fst io)"
  "s_display_interval (fst (change_presentation p io)) = s_display_interval (fst io)"
  "s_next_display (fst (change_presentation p io)) = s_next_display (fst io)"
  "s_demand (fst (change_presentation p io)) = s_demand (fst io)"
  "s_selected_page (fst (change_presentation p io)) = s_selected_page (fst io)"
  "s_first_paint_deadline (fst (change_presentation p io)) = s_first_paint_deadline (fst io)"
  "s_first_paint_waiting (fst (change_presentation p io)) = s_first_paint_waiting (fst io)"
  "s_first_paint_issued (fst (change_presentation p io)) = s_first_paint_issued (fst io)"
  "s_notifications_armed (fst (change_presentation p io)) = s_notifications_armed (fst io)"
  "s_in_flight_owners (fst (change_presentation p io)) = s_in_flight_owners (fst io)"
  "s_cancelling (fst (change_presentation p io)) = s_cancelling (fst io)"
  "s_awaiting_resume_inventory (fst (change_presentation p io)) = s_awaiting_resume_inventory (fst io)"
  "s_next_run_id (fst (change_presentation p io)) = s_next_run_id (fst io)"
  "s_next_resume_reconciliation_id (fst (change_presentation p io)) = s_next_resume_reconciliation_id (fst io)"
  by (simp_all add: change_presentation_def Let_def on_state_def split: prod.split)

lemma change_page_frame [simp]:
  "s_lifecycle (fst (change_page g io)) = s_lifecycle (fst io)"
  "s_now (fst (change_page g io)) = s_now (fst io)"
  "s_config_generation (fst (change_page g io)) = s_config_generation (fst io)"
  "s_inventory_generation (fst (change_page g io)) = s_inventory_generation (fst io)"
  "s_display_interval (fst (change_page g io)) = s_display_interval (fst io)"
  "s_next_display (fst (change_page g io)) = s_next_display (fst io)"
  "s_demand (fst (change_page g io)) = s_demand (fst io)"
  "s_presented (fst (change_page g io)) = s_presented (fst io)"
  "s_effective_presented (fst (change_page g io)) = s_effective_presented (fst io)"
  "s_deactivation_deadline (fst (change_page g io)) = s_deactivation_deadline (fst io)"
  "s_first_paint_deadline (fst (change_page g io)) = s_first_paint_deadline (fst io)"
  "s_first_paint_waiting (fst (change_page g io)) = s_first_paint_waiting (fst io)"
  "s_first_paint_issued (fst (change_page g io)) = s_first_paint_issued (fst io)"
  "s_notifications_armed (fst (change_page g io)) = s_notifications_armed (fst io)"
  "s_in_flight_owners (fst (change_page g io)) = s_in_flight_owners (fst io)"
  "s_awaiting_resume_inventory (fst (change_page g io)) = s_awaiting_resume_inventory (fst io)"
  "s_next_run_id (fst (change_page g io)) = s_next_run_id (fst io)"
  "s_next_resume_reconciliation_id (fst (change_page g io)) = s_next_resume_reconciliation_id (fst io)"
  by (simp_all add: change_page_def Let_def on_state_def)

lemma reconfigure_frame [simp]:
  "s_lifecycle (fst (reconfigure config c io)) = s_lifecycle (fst io)"
  "s_now (fst (reconfigure config c io)) = s_now (fst io)"
  "s_inventory_generation (fst (reconfigure config c io)) = s_inventory_generation (fst io)"
  "s_presented (fst (reconfigure config c io)) = s_presented (fst io)"
  "s_effective_presented (fst (reconfigure config c io)) = s_effective_presented (fst io)"
  "s_selected_page (fst (reconfigure config c io)) = s_selected_page (fst io)"
  "s_deactivation_deadline (fst (reconfigure config c io)) = s_deactivation_deadline (fst io)"
  "s_activation_deadline (fst (reconfigure config c io)) = s_activation_deadline (fst io)"
  "s_first_paint_deadline (fst (reconfigure config c io)) = s_first_paint_deadline (fst io)"
  "s_first_paint_issued (fst (reconfigure config c io)) = s_first_paint_issued (fst io)"
  "s_notifications_armed (fst (reconfigure config c io)) = s_notifications_armed (fst io)"
  "s_in_flight_owners (fst (reconfigure config c io)) = s_in_flight_owners (fst io)"
  "s_awaiting_resume_inventory (fst (reconfigure config c io)) = s_awaiting_resume_inventory (fst io)"
  "s_next_run_id (fst (reconfigure config c io)) = s_next_run_id (fst io)"
  "s_next_resume_reconciliation_id (fst (reconfigure config c io)) = s_next_resume_reconciliation_id (fst io)"
  by (simp_all add: reconfigure_def Let_def on_state_def)

lemma pt_deactivation_frame [simp]:
  "s_lifecycle (fst (pt_deactivation io)) = s_lifecycle (fst io)"
  "s_now (fst (pt_deactivation io)) = s_now (fst io)"
  "s_config_generation (fst (pt_deactivation io)) = s_config_generation (fst io)"
  "s_inventory_generation (fst (pt_deactivation io)) = s_inventory_generation (fst io)"
  "s_display_interval (fst (pt_deactivation io)) = s_display_interval (fst io)"
  "s_next_display (fst (pt_deactivation io)) = s_next_display (fst io)"
  "s_demand (fst (pt_deactivation io)) = s_demand (fst io)"
  "s_presented (fst (pt_deactivation io)) = s_presented (fst io)"
  "s_selected_page (fst (pt_deactivation io)) = s_selected_page (fst io)"
  "s_activation_deadline (fst (pt_deactivation io)) = s_activation_deadline (fst io)"
  "s_activation_waiting (fst (pt_deactivation io)) = s_activation_waiting (fst io)"
  "s_first_paint_deadline (fst (pt_deactivation io)) = s_first_paint_deadline (fst io)"
  "s_first_paint_waiting (fst (pt_deactivation io)) = s_first_paint_waiting (fst io)"
  "s_first_paint_issued (fst (pt_deactivation io)) = s_first_paint_issued (fst io)"
  "s_notifications_armed (fst (pt_deactivation io)) = s_notifications_armed (fst io)"
  "s_panel_publications (fst (pt_deactivation io)) = s_panel_publications (fst io)"
  "s_in_flight_owners (fst (pt_deactivation io)) = s_in_flight_owners (fst io)"
  "s_awaiting_resume_inventory (fst (pt_deactivation io)) = s_awaiting_resume_inventory (fst io)"
  "s_next_run_id (fst (pt_deactivation io)) = s_next_run_id (fst io)"
  "s_next_publication_id (fst (pt_deactivation io)) = s_next_publication_id (fst io)"
  "s_next_resume_reconciliation_id (fst (pt_deactivation io)) = s_next_resume_reconciliation_id (fst io)"
  by (simp_all add: pt_deactivation_def Let_def on_state_def split: prod.split)

lemma pt_first_paint_frame [simp]:
  "s_lifecycle (fst (pt_first_paint io)) = s_lifecycle (fst io)"
  "s_now (fst (pt_first_paint io)) = s_now (fst io)"
  "s_config_generation (fst (pt_first_paint io)) = s_config_generation (fst io)"
  "s_inventory_generation (fst (pt_first_paint io)) = s_inventory_generation (fst io)"
  "s_display_interval (fst (pt_first_paint io)) = s_display_interval (fst io)"
  "s_demand (fst (pt_first_paint io)) = s_demand (fst io)"
  "s_presented (fst (pt_first_paint io)) = s_presented (fst io)"
  "s_effective_presented (fst (pt_first_paint io)) = s_effective_presented (fst io)"
  "s_selected_page (fst (pt_first_paint io)) = s_selected_page (fst io)"
  "s_deactivation_deadline (fst (pt_first_paint io)) = s_deactivation_deadline (fst io)"
  "s_activation_deadline (fst (pt_first_paint io)) = s_activation_deadline (fst io)"
  "s_activation_waiting (fst (pt_first_paint io)) = s_activation_waiting (fst io)"
  "s_notifications_armed (fst (pt_first_paint io)) = s_notifications_armed (fst io)"
  "s_in_flight_owners (fst (pt_first_paint io)) = s_in_flight_owners (fst io)"
  "s_cancelling (fst (pt_first_paint io)) = s_cancelling (fst io)"
  "s_awaiting_resume_inventory (fst (pt_first_paint io)) = s_awaiting_resume_inventory (fst io)"
  "s_next_run_id (fst (pt_first_paint io)) = s_next_run_id (fst io)"
  "s_next_resume_reconciliation_id (fst (pt_first_paint io)) = s_next_resume_reconciliation_id (fst io)"
  by (simp_all add: pt_first_paint_def Let_def on_state_def)

lemma pt_activation_frame [simp]:
  "s_lifecycle (fst (pt_activation io)) = s_lifecycle (fst io)"
  "s_now (fst (pt_activation io)) = s_now (fst io)"
  "s_config_generation (fst (pt_activation io)) = s_config_generation (fst io)"
  "s_inventory_generation (fst (pt_activation io)) = s_inventory_generation (fst io)"
  "s_display_interval (fst (pt_activation io)) = s_display_interval (fst io)"
  "s_next_display (fst (pt_activation io)) = s_next_display (fst io)"
  "s_jobs (fst (pt_activation io)) = s_jobs (fst io)"
  "s_demand (fst (pt_activation io)) = s_demand (fst io)"
  "s_presented (fst (pt_activation io)) = s_presented (fst io)"
  "s_effective_presented (fst (pt_activation io)) = s_effective_presented (fst io)"
  "s_selected_page (fst (pt_activation io)) = s_selected_page (fst io)"
  "s_deactivation_deadline (fst (pt_activation io)) = s_deactivation_deadline (fst io)"
  "s_first_paint_deadline (fst (pt_activation io)) = s_first_paint_deadline (fst io)"
  "s_first_paint_waiting (fst (pt_activation io)) = s_first_paint_waiting (fst io)"
  "s_first_paint_issued (fst (pt_activation io)) = s_first_paint_issued (fst io)"
  "s_notifications_armed (fst (pt_activation io)) = s_notifications_armed (fst io)"
  "s_in_flight_owners (fst (pt_activation io)) = s_in_flight_owners (fst io)"
  "s_cancelling (fst (pt_activation io)) = s_cancelling (fst io)"
  "s_awaiting_resume_inventory (fst (pt_activation io)) = s_awaiting_resume_inventory (fst io)"
  "s_next_run_id (fst (pt_activation io)) = s_next_run_id (fst io)"
  "s_next_resume_reconciliation_id (fst (pt_activation io)) = s_next_resume_reconciliation_id (fst io)"
  by (simp_all add: pt_activation_def Let_def on_state_def split: prod.split)

lemma pt_display_frame [simp]:
  "s_lifecycle (fst (pt_display io)) = s_lifecycle (fst io)"
  "s_now (fst (pt_display io)) = s_now (fst io)"
  "s_config_generation (fst (pt_display io)) = s_config_generation (fst io)"
  "s_inventory_generation (fst (pt_display io)) = s_inventory_generation (fst io)"
  "s_display_interval (fst (pt_display io)) = s_display_interval (fst io)"
  "s_jobs (fst (pt_display io)) = s_jobs (fst io)"
  "s_demand (fst (pt_display io)) = s_demand (fst io)"
  "s_presented (fst (pt_display io)) = s_presented (fst io)"
  "s_effective_presented (fst (pt_display io)) = s_effective_presented (fst io)"
  "s_selected_page (fst (pt_display io)) = s_selected_page (fst io)"
  "s_deactivation_deadline (fst (pt_display io)) = s_deactivation_deadline (fst io)"
  "s_activation_deadline (fst (pt_display io)) = s_activation_deadline (fst io)"
  "s_activation_waiting (fst (pt_display io)) = s_activation_waiting (fst io)"
  "s_first_paint_deadline (fst (pt_display io)) = s_first_paint_deadline (fst io)"
  "s_first_paint_waiting (fst (pt_display io)) = s_first_paint_waiting (fst io)"
  "s_first_paint_issued (fst (pt_display io)) = s_first_paint_issued (fst io)"
  "s_notifications_armed (fst (pt_display io)) = s_notifications_armed (fst io)"
  "s_in_flight_owners (fst (pt_display io)) = s_in_flight_owners (fst io)"
  "s_cancelling (fst (pt_display io)) = s_cancelling (fst io)"
  "s_awaiting_resume_inventory (fst (pt_display io)) = s_awaiting_resume_inventory (fst io)"
  "s_next_run_id (fst (pt_display io)) = s_next_run_id (fst io)"
  "s_next_resume_reconciliation_id (fst (pt_display io)) = s_next_resume_reconciliation_id (fst io)"
  by (simp_all add: pt_display_def Let_def on_state_def split: option.split)

lemma pt_jobs_frame [simp]:
  "s_lifecycle (fst (pt_jobs io)) = s_lifecycle (fst io)"
  "s_now (fst (pt_jobs io)) = s_now (fst io)"
  "s_config_generation (fst (pt_jobs io)) = s_config_generation (fst io)"
  "s_inventory_generation (fst (pt_jobs io)) = s_inventory_generation (fst io)"
  "s_display_interval (fst (pt_jobs io)) = s_display_interval (fst io)"
  "s_next_display (fst (pt_jobs io)) = s_next_display (fst io)"
  "s_demand (fst (pt_jobs io)) = s_demand (fst io)"
  "s_presented (fst (pt_jobs io)) = s_presented (fst io)"
  "s_effective_presented (fst (pt_jobs io)) = s_effective_presented (fst io)"
  "s_selected_page (fst (pt_jobs io)) = s_selected_page (fst io)"
  "s_deactivation_deadline (fst (pt_jobs io)) = s_deactivation_deadline (fst io)"
  "s_activation_deadline (fst (pt_jobs io)) = s_activation_deadline (fst io)"
  "s_activation_waiting (fst (pt_jobs io)) = s_activation_waiting (fst io)"
  "s_first_paint_deadline (fst (pt_jobs io)) = s_first_paint_deadline (fst io)"
  "s_first_paint_waiting (fst (pt_jobs io)) = s_first_paint_waiting (fst io)"
  "s_first_paint_issued (fst (pt_jobs io)) = s_first_paint_issued (fst io)"
  "s_notifications_armed (fst (pt_jobs io)) = s_notifications_armed (fst io)"
  "s_panel_publications (fst (pt_jobs io)) = s_panel_publications (fst io)"
  "s_in_flight_owners (fst (pt_jobs io)) = s_in_flight_owners (fst io)"
  "s_cancelling (fst (pt_jobs io)) = s_cancelling (fst io)"
  "s_awaiting_resume_inventory (fst (pt_jobs io)) = s_awaiting_resume_inventory (fst io)"
  "s_next_run_id (fst (pt_jobs io)) = s_next_run_id (fst io)"
  "s_next_publication_id (fst (pt_jobs io)) = s_next_publication_id (fst io)"
  "s_next_resume_reconciliation_id (fst (pt_jobs io)) = s_next_resume_reconciliation_id (fst io)"
  by (simp_all add: pt_jobs_def Let_def on_state_def)

lemma process_time_frame [simp]:
  "s_lifecycle (fst (process_time io)) = s_lifecycle (fst io)"
  "s_now (fst (process_time io)) = s_now (fst io)"
  "s_config_generation (fst (process_time io)) = s_config_generation (fst io)"
  "s_inventory_generation (fst (process_time io)) = s_inventory_generation (fst io)"
  "s_display_interval (fst (process_time io)) = s_display_interval (fst io)"
  "s_demand (fst (process_time io)) = s_demand (fst io)"
  "s_presented (fst (process_time io)) = s_presented (fst io)"
  "s_selected_page (fst (process_time io)) = s_selected_page (fst io)"
  "s_notifications_armed (fst (process_time io)) = s_notifications_armed (fst io)"
  "s_in_flight_owners (fst (process_time io)) = s_in_flight_owners (fst io)"
  "s_awaiting_resume_inventory (fst (process_time io)) = s_awaiting_resume_inventory (fst io)"
  "s_next_run_id (fst (process_time io)) = s_next_run_id (fst io)"
  "s_next_resume_reconciliation_id (fst (process_time io)) = s_next_resume_reconciliation_id (fst io)"
  by (simp_all add: process_time_def Let_def on_state_def)

lemma tick_frame [simp]:
  "s_lifecycle (fst (tick io)) = s_lifecycle (fst io)" "s_now (fst (tick io)) = s_now (fst io)"
  "s_config_generation (fst (tick io)) = s_config_generation (fst io)"
  "s_inventory_generation (fst (tick io)) = s_inventory_generation (fst io)"
  "s_display_interval (fst (tick io)) = s_display_interval (fst io)"
  "s_demand (fst (tick io)) = s_demand (fst io)"
  "s_presented (fst (tick io)) = s_presented (fst io)"
  "s_selected_page (fst (tick io)) = s_selected_page (fst io)"
  "s_notifications_armed (fst (tick io)) = s_notifications_armed (fst io)"
  "s_in_flight_owners (fst (tick io)) = s_in_flight_owners (fst io)"
  "s_awaiting_resume_inventory (fst (tick io)) = s_awaiting_resume_inventory (fst io)"
  "s_next_run_id (fst (tick io)) = s_next_run_id (fst io)"
  "s_next_resume_reconciliation_id (fst (tick io)) = s_next_resume_reconciliation_id (fst io)"
  by (simp_all add: tick_def Let_def on_state_def)

lemma release_finished_frame [simp]:
  "s_lifecycle (release_finished t c s) = s_lifecycle s" "s_now (release_finished t c s) = s_now s"
  "s_config_generation (release_finished t c s) = s_config_generation s"
  "s_inventory_generation (release_finished t c s) = s_inventory_generation s"
  "s_display_interval (release_finished t c s) = s_display_interval s"
  "s_next_display (release_finished t c s) = s_next_display s"
  "s_demand (release_finished t c s) = s_demand s"
  "s_presented (release_finished t c s) = s_presented s"
  "s_effective_presented (release_finished t c s) = s_effective_presented s"
  "s_selected_page (release_finished t c s) = s_selected_page s"
  "s_deactivation_deadline (release_finished t c s) = s_deactivation_deadline s"
  "s_activation_deadline (release_finished t c s) = s_activation_deadline s"
  "s_first_paint_deadline (release_finished t c s) = s_first_paint_deadline s"
  "s_first_paint_issued (release_finished t c s) = s_first_paint_issued s"
  "s_notifications_armed (release_finished t c s) = s_notifications_armed s"
  "s_panel_publications (release_finished t c s) = s_panel_publications s"
  "s_cancelling (release_finished t c s) = s_cancelling s"
  "s_awaiting_resume_inventory (release_finished t c s) = s_awaiting_resume_inventory s"
  "s_next_run_id (release_finished t c s) = s_next_run_id s"
  "s_next_publication_id (release_finished t c s) = s_next_publication_id s"
  "s_next_resume_reconciliation_id (release_finished t c s) = s_next_resume_reconciliation_id s"
  by (simp_all add: release_finished_def Let_def)

lemma clear_histories_frame [simp]:
  "s_lifecycle (fst (clear_histories i io)) = s_lifecycle (fst io)"
  "s_now (fst (clear_histories i io)) = s_now (fst io)"
  "s_config_generation (fst (clear_histories i io)) = s_config_generation (fst io)"
  "s_inventory_generation (fst (clear_histories i io)) = s_inventory_generation (fst io)"
  "s_display_interval (fst (clear_histories i io)) = s_display_interval (fst io)"
  "s_next_display (fst (clear_histories i io)) = s_next_display (fst io)"
  "s_demand (fst (clear_histories i io)) = s_demand (fst io)"
  "s_presented (fst (clear_histories i io)) = s_presented (fst io)"
  "s_effective_presented (fst (clear_histories i io)) = s_effective_presented (fst io)"
  "s_selected_page (fst (clear_histories i io)) = s_selected_page (fst io)"
  "s_deactivation_deadline (fst (clear_histories i io)) = s_deactivation_deadline (fst io)"
  "s_activation_deadline (fst (clear_histories i io)) = s_activation_deadline (fst io)"
  "s_activation_waiting (fst (clear_histories i io)) = s_activation_waiting (fst io)"
  "s_first_paint_deadline (fst (clear_histories i io)) = s_first_paint_deadline (fst io)"
  "s_first_paint_waiting (fst (clear_histories i io)) = s_first_paint_waiting (fst io)"
  "s_first_paint_issued (fst (clear_histories i io)) = s_first_paint_issued (fst io)"
  "s_notifications_armed (fst (clear_histories i io)) = s_notifications_armed (fst io)"
  "s_panel_publications (fst (clear_histories i io)) = s_panel_publications (fst io)"
  "s_in_flight_owners (fst (clear_histories i io)) = s_in_flight_owners (fst io)"
  "s_cancelling (fst (clear_histories i io)) = s_cancelling (fst io)"
  "s_awaiting_resume_inventory (fst (clear_histories i io)) = s_awaiting_resume_inventory (fst io)"
  "s_next_run_id (fst (clear_histories i io)) = s_next_run_id (fst io)"
  "s_next_publication_id (fst (clear_histories i io)) = s_next_publication_id (fst io)"
  "s_next_resume_reconciliation_id (fst (clear_histories i io)) = s_next_resume_reconciliation_id (fst io)"
  by (simp_all add: clear_histories_def Let_def on_state_def split: prod.split)

lemma settle_waits_frame [simp]:
  "s_lifecycle (fst (settle_waits io)) = s_lifecycle (fst io)"
  "s_now (fst (settle_waits io)) = s_now (fst io)"
  "s_config_generation (fst (settle_waits io)) = s_config_generation (fst io)"
  "s_inventory_generation (fst (settle_waits io)) = s_inventory_generation (fst io)"
  "s_display_interval (fst (settle_waits io)) = s_display_interval (fst io)"
  "s_demand (fst (settle_waits io)) = s_demand (fst io)"
  "s_presented (fst (settle_waits io)) = s_presented (fst io)"
  "s_effective_presented (fst (settle_waits io)) = s_effective_presented (fst io)"
  "s_selected_page (fst (settle_waits io)) = s_selected_page (fst io)"
  "s_deactivation_deadline (fst (settle_waits io)) = s_deactivation_deadline (fst io)"
  "s_activation_waiting (fst (settle_waits io)) = s_activation_waiting (fst io)"
  "s_notifications_armed (fst (settle_waits io)) = s_notifications_armed (fst io)"
  "s_in_flight_owners (fst (settle_waits io)) = s_in_flight_owners (fst io)"
  "s_cancelling (fst (settle_waits io)) = s_cancelling (fst io)"
  "s_awaiting_resume_inventory (fst (settle_waits io)) = s_awaiting_resume_inventory (fst io)"
  "s_next_run_id (fst (settle_waits io)) = s_next_run_id (fst io)"
  "s_next_resume_reconciliation_id (fst (settle_waits io)) = s_next_resume_reconciliation_id (fst io)"
  by (simp_all add: settle_waits_def Let_def on_state_def)

lemma finish_job_frame [simp]:
  "s_lifecycle (fst (snd (finish_job t c ready io))) = s_lifecycle (fst io)"
  "s_now (fst (snd (finish_job t c ready io))) = s_now (fst io)"
  "s_config_generation (fst (snd (finish_job t c ready io))) = s_config_generation (fst io)"
  "s_inventory_generation (fst (snd (finish_job t c ready io))) = s_inventory_generation (fst io)"
  "s_display_interval (fst (snd (finish_job t c ready io))) = s_display_interval (fst io)"
  "s_demand (fst (snd (finish_job t c ready io))) = s_demand (fst io)"
  "s_presented (fst (snd (finish_job t c ready io))) = s_presented (fst io)"
  "s_effective_presented (fst (snd (finish_job t c ready io))) = s_effective_presented (fst io)"
  "s_selected_page (fst (snd (finish_job t c ready io))) = s_selected_page (fst io)"
  "s_deactivation_deadline (fst (snd (finish_job t c ready io))) = s_deactivation_deadline (fst io)"
  "s_notifications_armed (fst (snd (finish_job t c ready io))) = s_notifications_armed (fst io)"
  "s_cancelling (fst (snd (finish_job t c ready io))) = s_cancelling (fst io)"
  "s_awaiting_resume_inventory (fst (snd (finish_job t c ready io))) = s_awaiting_resume_inventory (fst io)"
  "s_next_run_id (fst (snd (finish_job t c ready io))) = s_next_run_id (fst io)"
  "s_next_resume_reconciliation_id (fst (snd (finish_job t c ready io))) = s_next_resume_reconciliation_id (fst io)"
  by (simp_all add: finish_job_def Let_def split: option.split prod.split)

lemma finish_cancellation_frame [simp]:
  "s_lifecycle (fst (snd (finish_cancellation t io))) = s_lifecycle (fst io)"
  "s_now (fst (snd (finish_cancellation t io))) = s_now (fst io)"
  "s_config_generation (fst (snd (finish_cancellation t io))) = s_config_generation (fst io)"
  "s_inventory_generation (fst (snd (finish_cancellation t io))) = s_inventory_generation (fst io)"
  "s_display_interval (fst (snd (finish_cancellation t io))) = s_display_interval (fst io)"
  "s_next_display (fst (snd (finish_cancellation t io))) = s_next_display (fst io)"
  "s_jobs (fst (snd (finish_cancellation t io))) = s_jobs (fst io)"
  "s_demand (fst (snd (finish_cancellation t io))) = s_demand (fst io)"
  "s_presented (fst (snd (finish_cancellation t io))) = s_presented (fst io)"
  "s_effective_presented (fst (snd (finish_cancellation t io))) = s_effective_presented (fst io)"
  "s_selected_page (fst (snd (finish_cancellation t io))) = s_selected_page (fst io)"
  "s_deactivation_deadline (fst (snd (finish_cancellation t io))) = s_deactivation_deadline (fst io)"
  "s_activation_deadline (fst (snd (finish_cancellation t io))) = s_activation_deadline (fst io)"
  "s_activation_waiting (fst (snd (finish_cancellation t io))) = s_activation_waiting (fst io)"
  "s_first_paint_deadline (fst (snd (finish_cancellation t io))) = s_first_paint_deadline (fst io)"
  "s_first_paint_waiting (fst (snd (finish_cancellation t io))) = s_first_paint_waiting (fst io)"
  "s_first_paint_issued (fst (snd (finish_cancellation t io))) = s_first_paint_issued (fst io)"
  "s_notifications_armed (fst (snd (finish_cancellation t io))) = s_notifications_armed (fst io)"
  "s_panel_publications (fst (snd (finish_cancellation t io))) = s_panel_publications (fst io)"
  "s_awaiting_resume_inventory (fst (snd (finish_cancellation t io))) = s_awaiting_resume_inventory (fst io)"
  "s_next_run_id (fst (snd (finish_cancellation t io))) = s_next_run_id (fst io)"
  "s_next_publication_id (fst (snd (finish_cancellation t io))) = s_next_publication_id (fst io)"
  "s_next_resume_reconciliation_id (fst (snd (finish_cancellation t io))) = s_next_resume_reconciliation_id (fst io)"
  by (simp_all add: finish_cancellation_def Let_def split: prod.split)

lemma trigger_frame [simp]:
  "s_lifecycle (trigger j s) = s_lifecycle s" "s_now (trigger j s) = s_now s"
  "s_config_generation (trigger j s) = s_config_generation s"
  "s_inventory_generation (trigger j s) = s_inventory_generation s"
  "s_display_interval (trigger j s) = s_display_interval s"
  "s_next_display (trigger j s) = s_next_display s" "s_demand (trigger j s) = s_demand s"
  "s_presented (trigger j s) = s_presented s"
  "s_effective_presented (trigger j s) = s_effective_presented s"
  "s_selected_page (trigger j s) = s_selected_page s"
  "s_deactivation_deadline (trigger j s) = s_deactivation_deadline s"
  "s_activation_deadline (trigger j s) = s_activation_deadline s"
  "s_activation_waiting (trigger j s) = s_activation_waiting s"
  "s_first_paint_deadline (trigger j s) = s_first_paint_deadline s"
  "s_first_paint_waiting (trigger j s) = s_first_paint_waiting s"
  "s_first_paint_issued (trigger j s) = s_first_paint_issued s"
  "s_notifications_armed (trigger j s) = s_notifications_armed s"
  "s_panel_publications (trigger j s) = s_panel_publications s"
  "s_in_flight_owners (trigger j s) = s_in_flight_owners s"
  "s_cancelling (trigger j s) = s_cancelling s"
  "s_awaiting_resume_inventory (trigger j s) = s_awaiting_resume_inventory s"
  "s_next_run_id (trigger j s) = s_next_run_id s"
  "s_next_publication_id (trigger j s) = s_next_publication_id s"
  "s_next_resume_reconciliation_id (trigger j s) = s_next_resume_reconciliation_id s"
  by (simp_all add: trigger_def Let_def)

lemma suspend_frame [simp]:
  "s_now (fst (suspend io)) = s_now (fst io)"
  "s_config_generation (fst (suspend io)) = s_config_generation (fst io)"
  "s_inventory_generation (fst (suspend io)) = s_inventory_generation (fst io)"
  "s_display_interval (fst (suspend io)) = s_display_interval (fst io)"
  "s_next_display (fst (suspend io)) = s_next_display (fst io)"
  "s_demand (fst (suspend io)) = s_demand (fst io)"
  "s_presented (fst (suspend io)) = s_presented (fst io)"
  "s_effective_presented (fst (suspend io)) = s_effective_presented (fst io)"
  "s_selected_page (fst (suspend io)) = s_selected_page (fst io)"
  "s_deactivation_deadline (fst (suspend io)) = s_deactivation_deadline (fst io)"
  "s_activation_deadline (fst (suspend io)) = s_activation_deadline (fst io)"
  "s_activation_waiting (fst (suspend io)) = s_activation_waiting (fst io)"
  "s_first_paint_deadline (fst (suspend io)) = s_first_paint_deadline (fst io)"
  "s_first_paint_waiting (fst (suspend io)) = s_first_paint_waiting (fst io)"
  "s_first_paint_issued (fst (suspend io)) = s_first_paint_issued (fst io)"
  "s_notifications_armed (fst (suspend io)) = s_notifications_armed (fst io)"
  "s_panel_publications (fst (suspend io)) = s_panel_publications (fst io)"
  "s_in_flight_owners (fst (suspend io)) = s_in_flight_owners (fst io)"
  "s_awaiting_resume_inventory (fst (suspend io)) = s_awaiting_resume_inventory (fst io)"
  "s_next_run_id (fst (suspend io)) = s_next_run_id (fst io)"
  "s_next_publication_id (fst (suspend io)) = s_next_publication_id (fst io)"
  "s_next_resume_reconciliation_id (fst (suspend io)) = s_next_resume_reconciliation_id (fst io)"
  by (simp_all add: suspend_def Let_def on_state_def)

lemma resume_clocks_frame [simp]:
  "s_now (resume_clocks s) = s_now s"
  "s_config_generation (resume_clocks s) = s_config_generation s"
  "s_inventory_generation (resume_clocks s) = s_inventory_generation s"
  "s_display_interval (resume_clocks s) = s_display_interval s"
  "s_demand (resume_clocks s) = s_demand s" "s_presented (resume_clocks s) = s_presented s"
  "s_effective_presented (resume_clocks s) = s_effective_presented s"
  "s_selected_page (resume_clocks s) = s_selected_page s"
  "s_deactivation_deadline (resume_clocks s) = s_deactivation_deadline s"
  "s_activation_deadline (resume_clocks s) = s_activation_deadline s"
  "s_activation_waiting (resume_clocks s) = s_activation_waiting s"
  "s_first_paint_deadline (resume_clocks s) = s_first_paint_deadline s"
  "s_first_paint_waiting (resume_clocks s) = s_first_paint_waiting s"
  "s_first_paint_issued (resume_clocks s) = s_first_paint_issued s"
  "s_notifications_armed (resume_clocks s) = s_notifications_armed s"
  "s_panel_publications (resume_clocks s) = s_panel_publications s"
  "s_in_flight_owners (resume_clocks s) = s_in_flight_owners s"
  "s_cancelling (resume_clocks s) = s_cancelling s"
  "s_awaiting_resume_inventory (resume_clocks s) = s_awaiting_resume_inventory s"
  "s_next_run_id (resume_clocks s) = s_next_run_id s"
  "s_next_publication_id (resume_clocks s) = s_next_publication_id s"
  "s_next_resume_reconciliation_id (resume_clocks s) = s_next_resume_reconciliation_id s"
  by (simp_all add: resume_clocks_def Let_def)

lemma resume_frame [simp]:
  "s_now (fst (resume io)) = s_now (fst io)"
  "s_config_generation (fst (resume io)) = s_config_generation (fst io)"
  "s_inventory_generation (fst (resume io)) = s_inventory_generation (fst io)"
  "s_display_interval (fst (resume io)) = s_display_interval (fst io)"
  "s_demand (fst (resume io)) = s_demand (fst io)"
  "s_presented (fst (resume io)) = s_presented (fst io)"
  "s_effective_presented (fst (resume io)) = s_effective_presented (fst io)"
  "s_selected_page (fst (resume io)) = s_selected_page (fst io)"
  "s_deactivation_deadline (fst (resume io)) = s_deactivation_deadline (fst io)"
  "s_activation_deadline (fst (resume io)) = s_activation_deadline (fst io)"
  "s_activation_waiting (fst (resume io)) = s_activation_waiting (fst io)"
  "s_first_paint_deadline (fst (resume io)) = s_first_paint_deadline (fst io)"
  "s_first_paint_waiting (fst (resume io)) = s_first_paint_waiting (fst io)"
  "s_first_paint_issued (fst (resume io)) = s_first_paint_issued (fst io)"
  "s_notifications_armed (fst (resume io)) = s_notifications_armed (fst io)"
  "s_panel_publications (fst (resume io)) = s_panel_publications (fst io)"
  "s_in_flight_owners (fst (resume io)) = s_in_flight_owners (fst io)"
  "s_cancelling (fst (resume io)) = s_cancelling (fst io)"
  "s_next_run_id (fst (resume io)) = s_next_run_id (fst io)"
  "s_next_publication_id (fst (resume io)) = s_next_publication_id (fst io)"
  by (simp_all add: resume_def Let_def on_state_def split: prod.split)

lemma stop_frame [simp]:
  "s_now (fst (stop c component io)) = s_now (fst io)"
  "s_config_generation (fst (stop c component io)) = s_config_generation (fst io)"
  "s_inventory_generation (fst (stop c component io)) = s_inventory_generation (fst io)"
  "s_display_interval (fst (stop c component io)) = s_display_interval (fst io)"
  "s_next_display (fst (stop c component io)) = s_next_display (fst io)"
  "s_demand (fst (stop c component io)) = s_demand (fst io)"
  "s_presented (fst (stop c component io)) = s_presented (fst io)"
  "s_effective_presented (fst (stop c component io)) = s_effective_presented (fst io)"
  "s_selected_page (fst (stop c component io)) = s_selected_page (fst io)"
  "s_deactivation_deadline (fst (stop c component io)) = s_deactivation_deadline (fst io)"
  "s_activation_deadline (fst (stop c component io)) = s_activation_deadline (fst io)"
  "s_activation_waiting (fst (stop c component io)) = s_activation_waiting (fst io)"
  "s_first_paint_deadline (fst (stop c component io)) = s_first_paint_deadline (fst io)"
  "s_first_paint_waiting (fst (stop c component io)) = s_first_paint_waiting (fst io)"
  "s_first_paint_issued (fst (stop c component io)) = s_first_paint_issued (fst io)"
  "s_notifications_armed (fst (stop c component io)) = s_notifications_armed (fst io)"
  "s_panel_publications (fst (stop c component io)) = s_panel_publications (fst io)"
  "s_in_flight_owners (fst (stop c component io)) = s_in_flight_owners (fst io)"
  "s_awaiting_resume_inventory (fst (stop c component io)) = s_awaiting_resume_inventory (fst io)"
  "s_next_run_id (fst (stop c component io)) = s_next_run_id (fst io)"
  "s_next_publication_id (fst (stop c component io)) = s_next_publication_id (fst io)"
  "s_next_resume_reconciliation_id (fst (stop c component io)) = s_next_resume_reconciliation_id (fst io)"
  by (simp_all add: stop_def push_def Let_def on_state_def)

lemma startup_pending_frame [simp]:
  "s_lifecycle (startup_pending s) = s_lifecycle s" "s_now (startup_pending s) = s_now s"
  "s_config_generation (startup_pending s) = s_config_generation s"
  "s_inventory_generation (startup_pending s) = s_inventory_generation s"
  "s_display_interval (startup_pending s) = s_display_interval s"
  "s_next_display (startup_pending s) = s_next_display s"
  "s_demand (startup_pending s) = s_demand s" "s_presented (startup_pending s) = s_presented s"
  "s_effective_presented (startup_pending s) = s_effective_presented s"
  "s_selected_page (startup_pending s) = s_selected_page s"
  "s_deactivation_deadline (startup_pending s) = s_deactivation_deadline s"
  "s_activation_deadline (startup_pending s) = s_activation_deadline s"
  "s_activation_waiting (startup_pending s) = s_activation_waiting s"
  "s_first_paint_deadline (startup_pending s) = s_first_paint_deadline s"
  "s_first_paint_issued (startup_pending s) = s_first_paint_issued s"
  "s_notifications_armed (startup_pending s) = s_notifications_armed s"
  "s_panel_publications (startup_pending s) = s_panel_publications s"
  "s_in_flight_owners (startup_pending s) = s_in_flight_owners s"
  "s_cancelling (startup_pending s) = s_cancelling s"
  "s_awaiting_resume_inventory (startup_pending s) = s_awaiting_resume_inventory s"
  "s_next_run_id (startup_pending s) = s_next_run_id s"
  "s_next_publication_id (startup_pending s) = s_next_publication_id s"
  "s_next_resume_reconciliation_id (startup_pending s) = s_next_resume_reconciliation_id s"
  by (simp_all add: startup_pending_def Let_def)

section \<open>Started tickets\<close>

fun starts :: "scheduler_action list \<Rightarrow> job_ticket list" where
  "starts [] = []"
| "starts (StartJob t # acts) = t # starts acts"
| "starts (a # acts) = starts acts"

lemma starts_append [simp]: "starts (xs @ ys) = starts xs @ starts ys"
  by (induction xs rule: starts.induct) auto

lemma starts_map [simp]:
  "(\<And>x t. f x \<noteq> StartJob t) \<Longrightarrow> starts (map f xs) = []"
proof (induction xs)
  case (Cons x xs)
  then show ?case by (cases "f x") auto
qed simp

lemma starts_filter: "starts acts = starts (filter (\<lambda>a. action_priority a = 7) acts)"
  by (induction acts rule: starts.induct) auto

lemma starts_sort [simp]: "starts (sort_actions acts) = starts acts"
  unfolding sort_actions_def starts_filter [of "sort_key action_priority acts"]
    starts_filter [of acts] by (simp only: sort_key_stable)

lemma set_starts: "t \<in> set (starts acts) \<longleftrightarrow> StartJob t \<in> set acts"
  by (induction acts rule: starts.induct) auto

lemma starts_coalesce:
  "coalesce_refresh r d k acts = Some (p, acts') \<Longrightarrow> starts acts' = starts acts"
  by (induction r d k acts arbitrary: p acts' rule: coalesce_refresh.induct)
    (auto split: if_splits)

lemma starts_publish [simp]: "starts (snd (issue_publish r d k p t io)) = starts (snd io)"
  by (cases io) (auto simp: issue_publish_def Let_def dest: starts_coalesce split: option.split)

lemma starts_first_paint [simp]: "starts (snd (issue_first_paint r io)) = starts (snd io)"
  by (cases io) (auto simp: issue_first_paint_def Let_def)

lemma starts_replace_one:
  "starts (snd (snd (replace_one s d r spec st))) = starts (snd (snd st))"
  by (simp add: replace_one_def Let_def split: prod.split option.split)

lemma starts_replace_fold:
  "starts (snd (snd (fold (replace_one s d r) specs st))) = starts (snd (snd st))"
  by (induction specs arbitrary: st) (simp_all add: starts_replace_one)

lemma starts_cancel_in_flight [simp]: "starts (snd (cancel_in_flight P c io)) = starts (snd io)"
  by (simp add: cancel_in_flight_def Let_def on_state_def split: prod.split)

lemma starts_cancel_all [simp]: "starts (snd (cancel_all c io)) = starts (snd io)"
  by (simp add: cancel_all_def Let_def on_state_def split: prod.split)

lemma starts_demand_ended [simp]: "starts (snd (cancel_demand_ended b a io)) = starts (snd io)"
  by (simp add: cancel_demand_ended_def Let_def on_state_def split: prod.split)

lemma starts_refresh_demand [simp]: "starts (snd (refresh_demand c io)) = starts (snd io)"
  by (simp add: refresh_demand_def Let_def on_state_def split: prod.split)

lemma starts_replace [simp]: "starts (snd (replace_jobs specs c io)) = starts (snd io)"
  using starts_replace_fold by (simp add: replace_jobs_def Let_def case_prod_unfold)

lemma starts_rebuild [simp]: "starts (snd (rebuild_first_paint_blockers io)) = starts (snd io)"
  by (simp add: rebuild_first_paint_blockers_def Let_def on_state_def split: prod.split)

lemma starts_inventory [simp]: "starts (snd (change_inventory u io)) = starts (snd io)"
  by (simp add: change_inventory_def Let_def on_state_def split: prod.split)

lemma starts_demand [simp]: "starts (snd (change_demand dp io)) = starts (snd io)"
  by (simp add: change_demand_def Let_def on_state_def split: prod.split)

lemma starts_activation [simp]: "starts (snd (refresh_activation io)) = starts (snd io)"
  by (simp add: refresh_activation_def Let_def on_state_def split: prod.split)

lemma starts_presentation [simp]: "starts (snd (change_presentation p io)) = starts (snd io)"
  by (simp add: change_presentation_def Let_def on_state_def split: prod.split)

lemma starts_page [simp]: "starts (snd (change_page g io)) = starts (snd io)"
  by (simp add: change_page_def Let_def on_state_def split: prod.split)

lemma starts_reconfigure [simp]: "starts (snd (reconfigure config c io)) = starts (snd io)"
  by (simp add: reconfigure_def Let_def on_state_def split: prod.split)

lemma starts_pt_deactivation [simp]: "starts (snd (pt_deactivation io)) = starts (snd io)"
  by (simp add: pt_deactivation_def Let_def on_state_def split: prod.split)

lemma starts_pt_first_paint [simp]: "starts (snd (pt_first_paint io)) = starts (snd io)"
  by (simp add: pt_first_paint_def Let_def on_state_def split: prod.split)

lemma starts_pt_activation [simp]: "starts (snd (pt_activation io)) = starts (snd io)"
  by (simp add: pt_activation_def Let_def on_state_def split: prod.split)

lemma starts_pt_display [simp]: "starts (snd (pt_display io)) = starts (snd io)"
  by (simp add: pt_display_def Let_def on_state_def split: prod.split)

lemma starts_pt_jobs [simp]: "starts (snd (pt_jobs io)) = starts (snd io)"
  by (simp add: pt_jobs_def Let_def on_state_def split: prod.split)

lemma starts_process_time [simp]: "starts (snd (process_time io)) = starts (snd io)"
  by (simp add: process_time_def Let_def on_state_def split: prod.split)

lemma starts_tick [simp]: "starts (snd (tick io)) = starts (snd io)"
  by (simp add: tick_def Let_def on_state_def split: prod.split)

lemma starts_histories [simp]: "starts (snd (clear_histories i io)) = starts (snd io)"
  by (simp add: clear_histories_def Let_def on_state_def split: prod.split)

lemma starts_settle [simp]: "starts (snd (settle_waits io)) = starts (snd io)"
  by (simp add: settle_waits_def Let_def on_state_def split: prod.split)

lemma starts_suspend [simp]: "starts (snd (suspend io)) = starts (snd io)"
  by (simp add: suspend_def Let_def on_state_def split: prod.split)

lemma starts_resume [simp]: "starts (snd (resume io)) = starts (snd io)"
  by (simp add: resume_def Let_def on_state_def split: prod.split)

lemma starts_stop [simp]: "starts (snd (stop c component io)) = starts (snd io)"
  by (simp add: stop_def push_def Let_def on_state_def split: prod.split)

lemma starts_finish [simp]: "starts (snd (snd (finish_job t c ready io))) = starts (snd io)"
  by (simp add: finish_job_def backoff_actions_def Let_def split: prod.split option.split)

lemma starts_cancellation [simp]: "starts (snd (snd (finish_cancellation t io))) = starts (snd io)"
  by (simp add: finish_cancellation_def Let_def split: prod.split)

lemma starts_event [simp]: "starts (snd (snd (handle_event ev io))) = starts (snd io)"
  by (cases ev; cases io)
    (simp_all add: handle_event_def accept_if_def startup_def on_state_def Let_def)

end
