(* ===== verification/SchedOwners.thy ===== *)
theory SchedOwners
  imports Reservations SchedFrames
begin

text \<open>
  The scheduler implements the reservation contract of \<open>Reservations\<close>. Everything the contract reads
  is in the \<open>view\<close> of a state: the ticket in flight of each job, \<open>cancelling\<close>,
  \<open>in_flight_owners\<close> and the next run id. Operations that leave the view alone are simplification
  rules; the others get one simulation lemma each (\<open>own_sim\<close>), and the simulations compose along the
  handler. Run ids are a saturating \<open>u64\<close>, so the result is stated below the saturation point.
\<close>

section \<open>The view\<close>

definition flights :: "job_map \<Rightarrow> (job_id, job_ticket option) bmap" where
  "flights jobs = bm_map (\<lambda>_ rt. in_flight rt) jobs"

type_synonym flight_view =
  "(job_id, job_ticket option) bmap \<times> (run_id, job_ticket) bmap \<times> (owner_id, run_id) bmap \<times> nat"

definition view :: "scheduler \<Rightarrow> flight_view" where
  "view s = (flights (s_jobs s), s_cancelling s, s_in_flight_owners s, s_next_run_id s)"

fun abs_view :: "flight_view \<Rightarrow> own_state" where
  "abs_view (fl, canc, owners, n) = ({t. \<exists>i. (i, Some t) \<in> set fl}, snd ` set canc, bm_get owners, n)"

fun wf_view :: "flight_view \<Rightarrow> bool" where
  "wf_view (fl, canc, owners, n) \<longleftrightarrow>
     bm_wf fl \<and> bm_wf canc \<and> bm_wf owners \<and> (\<forall>(r, t) \<in> set canc. tk_run_id t = r) \<and>
     (\<forall>(i, f) \<in> set fl. \<forall>t. f = Some t \<longrightarrow> tk_job t = i)"

definition view_ok :: "flight_view \<Rightarrow> bool" where
  "view_ok v \<longleftrightarrow> wf_view v \<and> own_safe (abs_view v)"

lemma flights_bm_map:
  "(\<And>i rt. in_flight (f i rt) = in_flight rt) \<Longrightarrow> flights (bm_map f jobs) = flights jobs"
  by (simp add: flights_def bm_map_bm_map)

lemma flights_bm_modify:
  "(\<And>rt. in_flight (f rt) = in_flight rt) \<Longrightarrow> flights (bm_modify i f jobs) = flights jobs"
  by (simp add: bm_modify_def flights_bm_map)

lemma fst_flights [simp]: "map fst (flights jobs) = map fst jobs"
  by (simp add: flights_def)

lemma flights_in: "(i, f) \<in> set (flights jobs) \<longleftrightarrow> (\<exists>rt. (i, rt) \<in> set jobs \<and> f = in_flight rt)"
  by (simp add: flights_def bm_map_in)

section \<open>Operations that keep every ticket where it is\<close>

lemma in_flight_updates [simp]:
  "in_flight (mark_pending t rt) = in_flight rt"
  "in_flight (mark_history_pending t rt) = in_flight rt"
  "in_flight (clear_pending rt) = in_flight rt"
  "in_flight (retry_step t rt) = in_flight rt"
  "in_flight (nominal_step smp t rt) = in_flight rt"
  "in_flight (completed_runtime c t rt) = in_flight rt"
  "in_flight (resume_nominal t rt) = in_flight rt"
  "in_flight (resume_runtime dem t i rt) = in_flight rt"
  by (simp_all add: mark_pending_def mark_history_pending_def clear_pending_def retry_step_def
      nominal_step_def completed_runtime_def resume_nominal_def resume_runtime_def Let_def
      split: option.splits completion_kind.splits)

lemma view_upd [simp]:
  "view (s\<lparr>s_first_paint_issued := a\<rparr>) = view s"
  "view (s\<lparr>s_first_paint_deadline := b\<rparr>) = view s"
  "view (s\<lparr>s_first_paint_waiting := c\<rparr>) = view s"
  "view (s\<lparr>s_next_display := b\<rparr>) = view s"
  "view (s\<lparr>s_presented := a\<rparr>) = view s"
  "view (s\<lparr>s_effective_presented := a\<rparr>) = view s"
  "view (s\<lparr>s_deactivation_deadline := b\<rparr>) = view s"
  "view (s\<lparr>s_activation_deadline := b\<rparr>) = view s"
  "view (s\<lparr>s_activation_waiting := c\<rparr>) = view s"
  "view (s\<lparr>s_selected_page := g\<rparr>) = view s"
  "view (s\<lparr>s_demand := dp\<rparr>) = view s"
  "view (s\<lparr>s_lifecycle := l\<rparr>) = view s"
  "view (s\<lparr>s_now := n\<rparr>) = view s"
  "view (s\<lparr>s_config_generation := n\<rparr>) = view s"
  "view (s\<lparr>s_inventory_generation := n\<rparr>) = view s"
  "view (s\<lparr>s_display_interval := n\<rparr>) = view s"
  "view (s\<lparr>s_notifications_armed := a\<rparr>) = view s"
  "view (s\<lparr>s_panel_publications := pp\<rparr>) = view s"
  "view (s\<lparr>s_awaiting_resume_inventory := b\<rparr>) = view s"
  "view (s\<lparr>s_next_publication_id := n\<rparr>) = view s"
  "view (s\<lparr>s_next_resume_reconciliation_id := n\<rparr>) = view s"
  by (simp_all add: view_def)

lemma view_bm_map [simp]:
  "(\<And>i rt. in_flight (f i rt) = in_flight rt) \<Longrightarrow> jobs = s_jobs s \<Longrightarrow>
   view (s\<lparr>s_jobs := bm_map f jobs\<rparr>) = view s"
  by (simp add: view_def flights_bm_map)

lemma view_reanchor [simp]: "view (reanchor_fast_jobs s) = view s"
  by (simp add: reanchor_fast_jobs_def Let_def split: option.split)

lemma view_publish [simp]: "view (fst (issue_publish r d k p t io)) = view (fst io)"
  by (simp add: issue_publish_def Let_def split: prod.split option.split)

lemma view_first_paint [simp]: "view (fst (issue_first_paint r io)) = view (fst io)"
  by (cases io) (auto simp: issue_first_paint_def Let_def split: option.split)

lemma view_activate [simp]: "view (activate_jobs b a k s) = view s"
  by (simp add: activate_jobs_def Let_def view_def flights_bm_map)

lemma view_refresh_all [simp]: "view (refresh_all_demanded s) = view s"
  by (simp add: refresh_all_demanded_def Let_def)

lemma view_trigger [simp]: "view (trigger j s) = view s"
  by (simp add: trigger_def view_def flights_bm_modify)

section \<open>Simulation\<close>

definition own_sim :: "sched_io \<Rightarrow> sched_io \<Rightarrow> bool" where
  "own_sim io io' \<longleftrightarrow>
     (s_next_run_id (fst io') < u64_max \<longrightarrow> s_next_run_id (fst io) < u64_max) \<and>
     (view_ok (view (fst io)) \<longrightarrow> s_next_run_id (fst io') < u64_max \<longrightarrow>
        view_ok (view (fst io')) \<and>
        (\<exists>ts. starts (snd io') = starts (snd io) @ ts \<and>
              own_steps (abs_view (view (fst io))) ts (abs_view (view (fst io')))))"

lemma own_sim_trans: "own_sim a b \<Longrightarrow> own_sim b c \<Longrightarrow> own_sim a c"
  unfolding own_sim_def by (metis append_assoc own_steps_trans)

lemma own_sim_same:
  assumes "view (fst io') = view (fst io)" "starts (snd io') = starts (snd io)"
  shows "own_sim io io'"
proof -
  have "s_next_run_id (fst io') = s_next_run_id (fst io)" using assms(1) by (simp add: view_def)
  then show ?thesis using assms by (simp add: own_sim_def own_refl)
qed

lemma own_sim_refl [simp]: "own_sim io io"
  by (rule own_sim_same) simp_all

lemma own_sim_silent:
  assumes "s_next_run_id (fst io') = s_next_run_id (fst io)" "starts (snd io') = starts (snd io)"
    and "view_ok (view (fst io)) \<Longrightarrow> wf_view (view (fst io')) \<and>
           own_steps (abs_view (view (fst io))) [] (abs_view (view (fst io')))"
  shows "own_sim io io'"
  using assms own_safe_steps [of "abs_view (view (fst io))" "[]" "abs_view (view (fst io'))"]
  by (simp add: own_sim_def view_ok_def)

subsection \<open>Cancelling\<close>

definition cancel_view :: "(job_id \<Rightarrow> bool) \<Rightarrow> flight_view \<Rightarrow> flight_view" where
  "cancel_view P v =
     (let (fl, canc, owners, n) = v in
      (bm_map (\<lambda>i f. if P i then None else f) fl,
       fold (\<lambda>t. bm_insert (tk_run_id t) t)
         (List.map_filter (\<lambda>(i, f). if P i then f else None) fl) canc, owners, n))"

lemma view_cancel: "view (fst (cancel_in_flight P r io)) = cancel_view P (view (fst io))"
proof -
  have "List.map_filter (\<lambda>(i, f). if P i then f else None) (flights jobs) = tickets_where P jobs" for jobs
    by (induction jobs)
      (auto simp: tickets_where_def flights_def bm_map_def split: option.split)
  moreover have "flights (bm_map (\<lambda>i rt. if P i then rt\<lparr>in_flight := None\<rparr> else rt) jobs) =
      bm_map (\<lambda>i f. if P i then None else f) (flights jobs)" for jobs
    by (auto simp: flights_def bm_map_bm_map bm_map_def)
  ultimately show ?thesis
    by (simp add: cancel_view_def cancel_in_flight_def view_def case_prod_unfold Let_def)
qed

lemma map_filter_in: "y \<in> set (List.map_filter g xs) \<longleftrightarrow> (\<exists>x \<in> set xs. g x = Some y)"
  by (induction xs) (auto simp: List.map_filter_simps split: option.split)

lemma fold_insert_tickets:
  assumes "bm_wf m" "inj_on tk_run_id (set ts)"
    and "\<And>p t. p \<in> set m \<Longrightarrow> t \<in> set ts \<Longrightarrow> fst p = tk_run_id t \<Longrightarrow> snd p = t"
  shows "bm_wf (fold (\<lambda>t. bm_insert (tk_run_id t) t) ts m) \<and>
         set (fold (\<lambda>t. bm_insert (tk_run_id t) t) ts m) = set m \<union> (\<lambda>t. (tk_run_id t, t)) ` set ts"
  using assms
proof (induction ts arbitrary: m)
  case (Cons t ts)
  let ?m = "bm_insert (tk_run_id t) t m"
  have set: "set ?m = insert (tk_run_id t, t) (set m)"
    using Cons.prems(1,3) by (force simp: set_bm_insert)
  have "p \<in> set ?m \<Longrightarrow> u \<in> set ts \<Longrightarrow> fst p = tk_run_id u \<Longrightarrow> snd p = u" for p u
    unfolding set using Cons.prems(3) [of p u] inj_onD [OF Cons.prems(2), of t u] by auto
  moreover have "inj_on tk_run_id (set ts)" using Cons.prems(2) by (auto intro: inj_on_subset)
  ultimately show ?case using Cons.IH [of ?m] Cons.prems(1) by (simp add: set)
qed simp

lemma cancel_view_ok:
  assumes "view_ok v"
  shows "wf_view (cancel_view P v) \<and> own_steps (abs_view v) [] (abs_view (cancel_view P v)) \<and>
    set (fst (snd v)) \<subseteq> set (fst (snd (cancel_view P v)))"
proof -
  obtain fl canc owners n where v: "v = (fl, canc, owners, n)" by (cases v) auto
  define ts where "ts = List.map_filter (\<lambda>(i, f). if P i then f else None) fl"
  define canc' where "canc' = fold (\<lambda>t. bm_insert (tk_run_id t) t) ts canc"
  define fl' where "fl' = bm_map (\<lambda>i f. if P i then None else f) fl"
  define F where "F = {t. \<exists>i. (i, Some t) \<in> set fl}"
  have wf: "wf_view v" and safe: "own_safe (F, snd ` set canc, bm_get owners, n)"
    using assms by (simp_all add: view_ok_def v F_def)
  have ts: "t \<in> set ts \<longleftrightarrow> (\<exists>i. (i, Some t) \<in> set fl \<and> P i)" for t
    by (force simp: ts_def map_filter_in split: if_splits)
  then have sub: "set ts \<subseteq> F" by (auto simp: F_def)
  have job: "(i, Some t) \<in> set fl \<Longrightarrow> tk_job t = i" for i t using wf by (auto simp: v)
  have canc': "bm_wf canc' \<and> set canc' = set canc \<union> (\<lambda>t. (tk_run_id t, t)) ` set ts"
    unfolding canc'_def
  proof (rule fold_insert_tickets)
    show "bm_wf canc" using wf by (simp add: v)
    show "inj_on tk_run_id (set ts)"
      using safe sub by (auto simp: own_safe.simps intro: inj_on_subset)
    fix p t assume p: "p \<in> set canc" "t \<in> set ts" "fst p = tk_run_id t"
    then have "tk_run_id (snd p) = tk_run_id t" using wf by (auto simp: v)
    then show "snd p = t"
      using safe p sub by (auto simp: own_safe.simps dest!: inj_onD)
  qed
  have F': "{t. \<exists>i. (i, Some t) \<in> set fl'} = F - set ts"
    using job by (auto simp: fl'_def F_def ts bm_map_in split: if_splits; blast)
  have "snd ` set canc' = snd ` set canc \<union> set ts" using canc' by force
  then have "own_steps (abs_view v) [] (abs_view (fl', canc', owners, n))"
    using own_cancel [OF own_refl sub] F' by (simp add: v F_def)
  moreover have "wf_view (fl', canc', owners, n)"
    using wf canc' job by (auto simp: v fl'_def bm_map_in split: if_splits)
  moreover have "cancel_view P v = (fl', canc', owners, n)"
    by (simp add: cancel_view_def v ts_def canc'_def fl'_def)
  ultimately show ?thesis using canc' by (simp add: v)
qed

lemma next_run_view: "s_next_run_id s = snd (snd (snd (view s)))"
  by (simp add: view_def)

lemma own_sim_cancel: "own_sim io (cancel_in_flight P r io)"
  by (rule own_sim_silent)
    (simp_all add: next_run_view view_cancel cancel_view_ok,
     simp_all add: cancel_view_def cancel_in_flight_def Let_def split: prod.split)

lemma own_sim_after_same:
  "view (fst b) = view (fst a) \<Longrightarrow> starts (snd b) = starts (snd a) \<Longrightarrow> own_sim b c \<Longrightarrow> own_sim a c"
  using own_sim_same own_sim_trans by blast

lemma own_sim_then_same:
  "own_sim a b \<Longrightarrow> view (fst c) = view (fst b) \<Longrightarrow> starts (snd c) = starts (snd b) \<Longrightarrow> own_sim a c"
  using own_sim_same own_sim_trans by blast

lemma own_sim_refresh_demand: "own_sim io (refresh_demand cancel io)"
  unfolding refresh_demand_def Let_def
  by (rule own_sim_after_same [OF _ _ own_sim_cancel]) (simp_all add: on_state_def)

lemma own_sim_demand_ended: "own_sim io (cancel_demand_ended b a io)"
  unfolding cancel_demand_ended_def Let_def
  by (rule own_sim_after_same [OF _ _ own_sim_cancel]) (simp_all add: on_state_def)

subsection \<open>Replacing the jobs\<close>

definition idle :: "job_map \<Rightarrow> bool" where
  "idle jobs \<longleftrightarrow> (\<forall>p \<in> set jobs. in_flight (snd p) = None)"

lemma idle_cancel_all: "idle (s_jobs (fst (cancel_all r io)))"
  by (auto simp: idle_def cancel_all_def cancel_in_flight_def Let_def bm_map_in split: prod.splits)

lemma idle_insert: "bm_wf m \<Longrightarrow> idle m \<Longrightarrow> in_flight rt = None \<Longrightarrow> idle (bm_insert i rt m)"
  by (auto simp: idle_def set_bm_insert)

lemma idle_get: "idle m \<Longrightarrow> bm_get m i = Some rt \<Longrightarrow> in_flight rt = None"
  by (force simp: idle_def dest: bm_get_in)

lemma idle_remove: "idle m \<Longrightarrow> idle (bm_remove i m)"
  by (auto simp: idle_def set_bm_remove)

lemma idle_new [simp]: "in_flight (runtime_new spec anchor d) = None"
  by (simp add: runtime_new_def)

lemma idle_map: "(\<And>i rt. in_flight (f i rt) = in_flight rt) \<Longrightarrow> idle (bm_map f jobs) = idle jobs"
  by (simp add: idle_def bm_map_def case_prod_unfold)

text \<open>What \<open>replace_one\<close> keeps: the three components of its state, one by one.\<close>

lemma replace_one_idle:
  assumes "idle old" "bm_wf new" "idle new"
  shows "(case replace_one s d r spec (old, new, acts) of (old', new', acts') \<Rightarrow>
            idle old' \<and> bm_wf new' \<and> idle new' \<and> starts acts' = starts acts)"
  using assms by (auto simp: replace_one_def Let_def idle_remove idle_get intro!: idle_insert
      split: option.split)

lemma fold_replace_idle:
  assumes "idle old" "bm_wf new" "idle new"
  shows "(case fold (replace_one s d r) specs (old, new, acts) of (old', new', acts') \<Rightarrow>
            idle old' \<and> bm_wf new' \<and> idle new' \<and> starts acts' = starts acts)"
  using assms
proof (induction specs arbitrary: old new acts)
  case (Cons spec specs)
  obtain old1 new1 acts1 where one: "replace_one s d r spec (old, new, acts) = (old1, new1, acts1)"
    by (metis prod_cases3)
  with replace_one_idle [OF Cons.prems, where s = s and d = d and r = r and spec = spec and acts = acts]
  have "idle old1" "bm_wf new1" "idle new1" "starts acts1 = starts acts" by simp_all
  with Cons.IH [of old1 new1 acts1] show ?case by (simp add: one)
qed simp

lemma replace_jobs_result:
  fixes io :: sched_io and specs r
  defines "io' \<equiv> replace_jobs specs r io" and "c \<equiv> cancel_all r io"
  shows "bm_wf (s_jobs (fst io')) \<and> idle (s_jobs (fst io')) \<and> starts (snd io') = starts (snd c) \<and>
    s_cancelling (fst io') = s_cancelling (fst c) \<and>
    s_in_flight_owners (fst io') = s_in_flight_owners (fst c) \<and>
    s_next_run_id (fst io') = s_next_run_id (fst c)"
proof -
  obtain s0 acts0 where c: "cancel_all r io = (s0, acts0)" by (cases "cancel_all r io")
  define d where "d = (case s_next_display s0 of Some d \<Rightarrow> d
                        | None \<Rightarrow> dur_saturating_add (s_now s0) (s_display_interval s0))"
  obtain old new acts1 where f: "fold (replace_one s0 d r) specs (s_jobs s0, [], acts0) = (old, new, acts1)"
    by (metis prod_cases3)
  have "idle (s_jobs s0)" using idle_cancel_all [of r io] by (simp add: c)
  moreover have "bm_wf ([] :: job_map)" "idle []" by (simp_all add: idle_def)
  ultimately have new: "bm_wf new" "idle new" "starts acts1 = starts acts0"
    using fold_replace_idle
      [where old = "s_jobs s0" and new = "[]" and s = s0 and d = d and r = r and specs = specs
         and acts = acts0] unfolding f prod.case by blast+
  have eq: "replace_jobs specs r io =
      (retain_activation (restart_blockers (s0\<lparr>s_jobs := new, s_first_paint_waiting := []\<rparr>)),
       acts1 @ map (\<lambda>i. InvalidateJob i r None) (bm_keys old))"
    unfolding replace_jobs_def c prod.case d_def [symmetric] Let_def f by simp
  show ?thesis
    unfolding io'_def c_def eq c fst_conv snd_conv
    using new by (cases "s_first_paint_issued s0")
      (simp_all add: Let_def idle_map restart_blockers_def retain_activation_def)
qed

lemma view_idle:
  assumes "bm_wf (s_jobs s)" "idle (s_jobs s)" "wf_view (view s0)" "idle (s_jobs s0)"
    "s_cancelling s = s_cancelling s0" "s_in_flight_owners s = s_in_flight_owners s0"
    "s_next_run_id s = s_next_run_id s0"
  shows "wf_view (view s) \<and> abs_view (view s) = abs_view (view s0)"
proof -
  have "(i, Some t) \<notin> set (flights (s_jobs s))" "(i, Some t) \<notin> set (flights (s_jobs s0))" for i t
    using assms(2,4) by (auto simp: flights_in idle_def)
  then show ?thesis using assms by (auto simp: view_def)
qed

lemma own_sim_replace: "own_sim io (replace_jobs specs r io)"
proof -
  let ?c = "cancel_all r io" and ?r = "replace_jobs specs r io"
  have c: "own_sim io ?c" by (simp add: cancel_all_def own_sim_cancel)
  note r = replace_jobs_result [of specs r io]
  then have "wf_view (view (fst ?c)) \<Longrightarrow>
      wf_view (view (fst ?r)) \<and> abs_view (view (fst ?r)) = abs_view (view (fst ?c))"
    by (intro view_idle) (simp_all add: idle_cancel_all)
  then have "own_sim ?c ?r"
    by (intro own_sim_silent) (simp_all add: r view_ok_def own_refl)
  with c show ?thesis by (rule own_sim_trans)
qed

subsection \<open>Composing the simulations\<close>

lemma own_chain_state:
  "(\<And>s. view (f s) = view s) \<Longrightarrow> own_sim a b \<Longrightarrow> own_sim a (on_state f b)"
  by (erule own_sim_then_same) (simp_all add: on_state_def)

lemma own_chain_push: "(\<And>t. x \<noteq> StartJob t) \<Longrightarrow> own_sim a b \<Longrightarrow> own_sim a (push x b)"
proof (erule own_sim_then_same)
  assume "\<And>t. x \<noteq> StartJob t"
  then have "starts [x] = []" using starts_map [of "\<lambda>_. x" "[x]"] by simp
  then show "starts (snd (push x b)) = starts (snd b)" by (simp add: push_def)
qed (simp add: push_def)

lemma own_chain_ops:
  assumes "own_sim a b"
  shows "own_sim a (issue_publish r d k p t b)" "own_sim a (issue_first_paint r b)"
    "own_sim a (cancel_in_flight P c b)" "own_sim a (cancel_all c b)"
    "own_sim a (refresh_demand x b)" "own_sim a (cancel_demand_ended m n b)"
    "own_sim a (replace_jobs specs c b)"
  using assms own_sim_trans own_sim_same own_sim_cancel own_sim_refresh_demand own_sim_demand_ended
    own_sim_replace cancel_all_def
  by (metis starts_publish view_publish) (metis assms own_sim_trans own_sim_same own_sim_cancel
    own_sim_refresh_demand own_sim_demand_ended own_sim_replace cancel_all_def
    starts_first_paint view_first_paint)+

lemmas own_chain = own_chain_state own_chain_push own_chain_ops

lemma own_chain_pair:
  "own_sim a (s, acts) \<Longrightarrow> view s' = view s \<Longrightarrow> own_sim a (s', acts)"
  by (erule own_sim_then_same) simp_all

lemma own_chain_rebuild: "own_sim a b \<Longrightarrow> own_sim a (rebuild_first_paint_blockers b)"
  by (cases b) (auto simp: rebuild_first_paint_blockers_def Let_def
      intro!: own_chain_ops intro: own_chain_pair)

lemma own_chain_inventory: "own_sim a b \<Longrightarrow> own_sim a (change_inventory update b)"
  by (auto simp: change_inventory_def Let_def intro!: own_chain)

lemma own_chain_demand: "own_sim a b \<Longrightarrow> own_sim a (change_demand d b)"
  by (auto simp: change_demand_def Let_def intro!: own_chain own_chain_rebuild)

lemma own_chain_activation: "own_sim a b \<Longrightarrow> own_sim a (refresh_activation b)"
  by (cases b) (auto simp: refresh_activation_def Let_def intro!: own_chain_ops
      intro: own_chain_pair)

lemma own_chain_presentation: "own_sim a b \<Longrightarrow> own_sim a (change_presentation p b)"
  by (cases b) (auto simp: change_presentation_def Let_def intro!: own_chain_activation
      intro: own_chain_pair)

lemma own_chain_page: "own_sim a b \<Longrightarrow> own_sim a (change_page p b)"
  by (auto simp: change_page_def Let_def intro!: own_chain)

lemma own_chain_reconfigure: "own_sim a b \<Longrightarrow> own_sim a (reconfigure config r b)"
  by (auto simp: reconfigure_def Let_def intro!: own_chain)

lemma own_chain_time: "own_sim a b \<Longrightarrow> own_sim a (process_time b)"
proof -
  have deactivation: "own_sim a b \<Longrightarrow> own_sim a (pt_deactivation b)" for b
    by (cases b) (auto simp: pt_deactivation_def Let_def intro!: own_chain_ops
        intro: own_chain_pair)
  have first: "own_sim a b \<Longrightarrow> own_sim a (pt_first_paint b)" for b
    by (simp add: pt_first_paint_def Let_def own_chain_ops)
  have activation: "own_sim a b \<Longrightarrow> own_sim a (pt_activation b)" for b
    by (cases b) (auto simp: pt_activation_def intro!: own_chain_ops intro: own_chain_pair)
  have display: "own_sim a b \<Longrightarrow> own_sim a (pt_display b)" for b
    by (auto simp: pt_display_def Let_def intro!: own_chain split: option.split)
  have jobs: "own_sim a b \<Longrightarrow> own_sim a (pt_jobs b)" for b
    by (auto simp: pt_jobs_def Let_def intro!: own_chain_state)
  assume "own_sim a b"
  then show ?thesis by (simp add: process_time_def deactivation first activation display jobs)
qed

lemma own_chain_tick: "own_sim a b \<Longrightarrow> own_sim a (tick b)"
  by (simp add: tick_def own_chain_time)

lemma view_resume_clocks: "view (resume_clocks s) = view s"
  by (simp add: resume_clocks_def Let_def)

lemma own_chain_lifecycle:
  assumes "own_sim a b"
  shows "own_sim a (suspend b)" "own_sim a (resume b)" "own_sim a (stop r component b)"
proof -
  show "own_sim a (suspend b)"
    using assms by (auto simp: suspend_def intro!: own_chain)
  show "own_sim a (stop r component b)"
    using assms by (auto simp: stop_def intro!: own_chain)
  have "starts (map ResetCounterBaseline xs) = []" for xs by simp
  then show "own_sim a (resume b)"
    using assms by (cases b)
      (auto simp: resume_def view_resume_clocks Let_def elim!: own_sim_then_same)
qed

subsection \<open>Releasing\<close>

lemma view_finished:
  "view (release_finished t c s) =
     (bm_modify (tk_job t) (\<lambda>_. None) (flights (s_jobs s)), s_cancelling s,
      bm_remove (ticket_owner t) (s_in_flight_owners s), s_next_run_id s)"
  by (auto simp: view_def release_finished_def Let_def flights_def bm_modify_def bm_map_bm_map
      bm_map_def)

lemma finished_ok:
  assumes ok: "view_ok (view s)"
    and job: "bm_get (s_jobs s) (tk_job t) = Some rt" "in_flight rt = Some t"
  shows "wf_view (view (release_finished t c s)) \<and>
         own_steps (abs_view (view s)) [] (abs_view (view (release_finished t c s))) \<and>
         t \<in> tickets (abs_view (view s)) \<and> t \<notin> tickets (abs_view (view (release_finished t c s)))"
proof -
  let ?fl = "flights (s_jobs s)"
  define F where "F = {u. \<exists>i. (i, Some u) \<in> set ?fl}"
  have wf: "wf_view (view s)" using ok by (simp add: view_ok_def)
  then have key: "(i, Some u) \<in> set ?fl \<Longrightarrow> tk_job u = i" for i u by (auto simp: view_def)
  have t: "(tk_job t, Some t) \<in> set ?fl" using job by (metis bm_get_in flights_in)
  have uniq: "(tk_job t, Some u) \<in> set ?fl \<Longrightarrow> u = t" for u
    using wf t by (simp add: view_def) (metis bm_get_iff fst_flights option.inject)
  have "(i, Some u) \<in> set (bm_modify (tk_job t) (\<lambda>_. None) ?fl) \<longleftrightarrow>
      (i, Some u) \<in> set ?fl \<and> i \<noteq> tk_job t" for i u
    by (auto simp: bm_modify_in)
  then have F': "{u. \<exists>i. (i, Some u) \<in> set (bm_modify (tk_job t) (\<lambda>_. None) ?fl)} = F - {t}"
    using key uniq t unfolding F_def by blast
  have "own_steps (abs_view (view s)) []
      (F - {t}, snd ` set (s_cancelling s), (bm_get (s_in_flight_owners s))(ticket_owner t := None),
       s_next_run_id s)"
    using t by (intro own_finish) (auto simp: view_def F_def intro: own_refl)
  moreover have "wf_view (view (release_finished t c s))"
    unfolding view_finished using wf [unfolded view_def] key
    by (auto simp: bm_modify_in split: if_splits)
  moreover have "t \<in> F" using t by (auto simp: F_def)
  moreover have "t \<notin> snd ` set (s_cancelling s)"
    using ok \<open>t \<in> F\<close> by (auto simp: view_ok_def view_def own_safe.simps F_def)
  ultimately show ?thesis by (simp add: view_finished F') (simp add: view_def F_def)
qed

lemma own_sim_finish: "own_sim io (snd (finish_job t c ready io))"
proof -
  obtain s acts where io: "io = (s, acts)" by (cases io)
  show ?thesis
  proof (cases "\<exists>rt. bm_get (s_jobs s) (tk_job t) = Some rt \<and> in_flight rt = Some t")
    case True
    then obtain rt where rt: "bm_get (s_jobs s) (tk_job t) = Some rt" "in_flight rt = Some t"
      by blast
    have release: "own_sim (s, acts) (release_finished t c s, acts')"
      if "starts acts' = starts acts" for c acts'
      using finished_ok [OF _ rt, of c] that
      by (intro own_sim_silent) (simp_all add: next_run_view view_finished)
    have nostart: "starts (backoff_actions c n i rt) = []" for c n i
      by (simp add: backoff_actions_def Let_def)
    have hist: "own_sim a b \<Longrightarrow> own_sim a (clear_histories i b)" for a b i
      by (cases b) (auto simp: clear_histories_def Let_def elim!: own_sim_then_same)
    have settle: "own_sim a b \<Longrightarrow> own_sim a (settle_waits b)" for a b
      by (auto simp: settle_waits_def Let_def intro!: own_chain)
    show ?thesis
      using rt by (auto simp: io finish_job_def Let_def nostart intro!: settle hist release)
  qed (auto simp: io finish_job_def Let_def split: option.split)
qed

lemma cancellation_ok:
  assumes ok: "view_ok (view s)" and t: "bm_get (s_cancelling s) (tk_run_id t) = Some t"
  shows "bm_get (s_in_flight_owners s) (ticket_owner t) = Some (tk_run_id t) \<and>
    wf_view (flights (s_jobs s), bm_remove (tk_run_id t) (s_cancelling s),
      bm_remove (ticket_owner t) (s_in_flight_owners s), s_next_run_id s) \<and>
    own_steps (abs_view (view s)) []
      (abs_view (flights (s_jobs s), bm_remove (tk_run_id t) (s_cancelling s),
        bm_remove (ticket_owner t) (s_in_flight_owners s), s_next_run_id s)) \<and>
    t \<in> tickets (abs_view (view s)) \<and>
    t \<notin> tickets (abs_view (flights (s_jobs s), bm_remove (tk_run_id t) (s_cancelling s),
        bm_remove (ticket_owner t) (s_in_flight_owners s), s_next_run_id s))"
proof -
  let ?C = "snd ` set (s_cancelling s)"
  have wf: "wf_view (view s)" and safe: "own_safe (abs_view (view s))"
    using ok by (simp_all add: view_ok_def)
  have tC: "t \<in> ?C" using t by (force dest: bm_get_in)
  have "bm_get (s_in_flight_owners s) (ticket_owner t) = Some (tk_run_id t)"
    using safe tC by (auto simp: view_def intro: own_safe_owner)
  moreover have C': "snd ` set (bm_remove (tk_run_id t) (s_cancelling s)) = ?C - {t}"
  proof -
    have canc: "bm_wf (s_cancelling s)" "\<And>r u. (r, u) \<in> set (s_cancelling s) \<Longrightarrow> r = tk_run_id u"
      using wf by (auto simp: view_def)
    then have uniq: "(tk_run_id t, u) \<in> set (s_cancelling s) \<Longrightarrow> u = t" for u
      using t bm_get_iff [OF canc(1)] by (metis option.inject)
    have "p \<in> set (s_cancelling s) \<Longrightarrow> fst p \<noteq> tk_run_id t \<longleftrightarrow> snd p \<noteq> t" for p
      using canc(2) [of "fst p" "snd p"] uniq [of "snd p"] by (cases p) auto
    then have "set (bm_remove (tk_run_id t) (s_cancelling s)) = {p \<in> set (s_cancelling s). snd p \<noteq> t}"
      unfolding set_bm_remove by blast
    then show ?thesis by auto
  qed
  then have "own_steps (abs_view (view s)) []
      (abs_view (flights (s_jobs s), bm_remove (tk_run_id t) (s_cancelling s),
        bm_remove (ticket_owner t) (s_in_flight_owners s), s_next_run_id s))"
    using own_ack [OF own_refl tC] by (simp add: view_def)
  moreover have "wf_view (flights (s_jobs s), bm_remove (tk_run_id t) (s_cancelling s),
      bm_remove (ticket_owner t) (s_in_flight_owners s), s_next_run_id s)"
    using wf by (auto simp: view_def set_bm_remove)
  moreover have "(i, Some t) \<notin> set (flights (s_jobs s))" for i
    using safe tC by (auto simp: view_def own_safe.simps)
  then have "t \<notin> tickets (abs_view (flights (s_jobs s), bm_remove (tk_run_id t) (s_cancelling s),
      bm_remove (ticket_owner t) (s_in_flight_owners s), s_next_run_id s))"
    by (simp add: C')
  moreover have "t \<in> tickets (abs_view (view s))" using tC by (simp add: view_def)
  ultimately show ?thesis by blast
qed

lemma own_sim_cancellation: "own_sim io (snd (finish_cancellation t io))"
proof -
  obtain s acts where io: "io = (s, acts)" by (cases io)
  show ?thesis
  proof (cases "bm_get (s_cancelling s) (tk_run_id t) = Some t")
    case True
    show ?thesis
      by (rule own_sim_silent)
        (use cancellation_ok [OF _ True] True in
          \<open>simp_all add: io finish_cancellation_def Let_def view_def\<close>)
  qed (simp add: io finish_cancellation_def)
qed

subsection \<open>Starting\<close>

lemma tk_make_ticket [simp]:
  "tk_run_id (make_ticket s run i rt) = run" "tk_job (make_ticket s run i rt) = i"
  by (simp_all add: make_ticket_def)

lemma dispatch_one_free:
  assumes free: "\<not> bm_contains (s_in_flight_owners s) (jid_owner i)"
    and rt: "bm_get (s_jobs s) i = Some rt"
  obtains t where "tk_run_id t = s_next_run_id s" "tk_job t = i"
    "dispatch_one i (s, acts) =
       (s\<lparr>s_next_run_id := u64_saturating_add (s_next_run_id s) 1,
          s_jobs := bm_modify i
            (\<lambda>rt. rt\<lparr>pending_history_deadline := None, pending_since := None,
                     in_flight := Some t\<rparr>) (s_jobs s),
          s_in_flight_owners :=
            bm_insert (jid_owner i) (s_next_run_id s) (s_in_flight_owners s)\<rparr>,
        acts @ [StartJob t])"
  by (rule that [of "make_ticket (s\<lparr>s_next_run_id := u64_saturating_add (s_next_run_id s) 1\<rparr>)
        (s_next_run_id s) i rt"])
    (use assms in \<open>simp_all add: dispatch_one_def Let_def\<close>)

lemma start_ok:
  assumes ok: "view_ok v" and v: "v = (fl, canc, owners, n)"
    and i: "i \<in> fst ` set fl" and free: "jid_owner i \<notin> fst ` set owners"
    and t: "tk_run_id t = n" "tk_job t = i"
  defines "v' \<equiv> (bm_modify i (\<lambda>_. Some t) fl, canc, bm_insert (jid_owner i) n owners, Suc n)"
  shows "view_ok v' \<and> own_steps (abs_view v) [t] (abs_view v')"
proof -
  define F where "F = {u. \<exists>i. (i, Some u) \<in> set fl}"
  have wf: "wf_view v" and safe: "own_safe (F, snd ` set canc, bm_get owners, n)"
    using ok by (simp_all add: view_ok_def v F_def)
  have key: "(j, Some u) \<in> set fl \<Longrightarrow> tk_job u = j" for j u using wf by (auto simp: v)
  have none: "bm_get owners (jid_owner i) = None"
    using free by (simp add: bm_get_def map_of_eq_None_iff)
  have idle: "(i, Some u) \<notin> set fl" for u
  proof
    assume "(i, Some u) \<in> set fl"
    then have "u \<in> F" "tk_job u = i" using key by (auto simp: F_def)
    then show False using own_safe_owner [OF safe, of u] none by simp
  qed
  have in': "(j, Some u) \<in> set (bm_modify i (\<lambda>_. Some t) fl) \<longleftrightarrow>
      j = i \<and> u = t \<or> j \<noteq> i \<and> (j, Some u) \<in> set fl" for j u
    using i by (auto simp: bm_modify_in)
  have "(\<exists>j. (j, Some u) \<in> set (bm_modify i (\<lambda>_. Some t) fl)) \<longleftrightarrow>
      u = t \<or> (\<exists>j. (j, Some u) \<in> set fl)" for u
    unfolding in' using idle by metis
  then have F': "{u. \<exists>j. (j, Some u) \<in> set (bm_modify i (\<lambda>_. Some t) fl)} = insert t F"
    unfolding F_def by auto
  have steps: "own_steps (abs_view v) ([] @ [t]) (abs_view v')"
    using own_start [OF own_refl, of "bm_get owners" t n F "snd ` set canc"] none t
    by (simp add: v v'_def F' F_def)
  moreover have "(j, Some u) \<in> set (bm_modify i (\<lambda>_. Some t) fl) \<Longrightarrow> tk_job u = j" for j u
    unfolding in' using key t by blast
  then have "wf_view v'"
    using wf by (auto simp: v v'_def)
  moreover have "own_safe (abs_view v')"
    by (rule own_safe_steps [OF steps]) (use safe in \<open>simp add: v F_def\<close>)
  ultimately show ?thesis by (simp add: view_ok_def)
qed

lemma own_sim_dispatch_one:
  assumes "i \<in> fst ` set (s_jobs (fst io))"
  shows "own_sim io (dispatch_one i io)"
proof -
  obtain s acts where io: "io = (s, acts)" by (cases io)
  obtain rt where rt: "bm_get (s_jobs s) i = Some rt"
    using assms by (auto simp: io bm_get_def dest!: weak_map_of_SomeI)
  show ?thesis
  proof (cases "bm_contains (s_in_flight_owners s) (jid_owner i)")
    case False
    obtain t where t: "tk_run_id t = s_next_run_id s" "tk_job t = i" and
      eq: "dispatch_one i (s, acts) =
       (s\<lparr>s_next_run_id := u64_saturating_add (s_next_run_id s) 1,
          s_jobs := bm_modify i
            (\<lambda>rt. rt\<lparr>pending_history_deadline := None, pending_since := None,
                     in_flight := Some t\<rparr>) (s_jobs s),
          s_in_flight_owners :=
            bm_insert (jid_owner i) (s_next_run_id s) (s_in_flight_owners s)\<rparr>,
        acts @ [StartJob t])"
      by (rule dispatch_one_free [OF False rt])
    have fl: "flights (bm_modify i (\<lambda>rt. rt\<lparr>pending_history_deadline := None,
        pending_since := None, in_flight := Some t\<rparr>) (s_jobs s)) =
      bm_modify i (\<lambda>_. Some t) (flights (s_jobs s))"
      by (auto simp: flights_def bm_modify_def bm_map_bm_map bm_map_def)
    have i: "i \<in> fst ` set (flights (s_jobs s))"
      using assms by (simp add: io flip: set_map)
    have "\<exists>ts. [t] = ts \<and> own_steps (abs_view (view s)) ts b"
      if "own_steps (abs_view (view s)) [t] b" for b using that by simp
    then show ?thesis
      using start_ok [OF _ view_def i, of t] False t
        u64_saturating_add_exact [of "s_next_run_id s"]
      by (simp add: own_sim_def io eq) (auto simp: view_def fl)
  qed (simp add: io dispatch_one_def)
qed

lemma keys_dispatch_one: "map fst (s_jobs (fst (dispatch_one i io))) = map fst (s_jobs (fst io))"
  by (cases io) (auto simp: dispatch_one_def Let_def split: option.split)

lemma own_sim_dispatch_fold:
  "set is \<subseteq> fst ` set (s_jobs (fst io)) \<Longrightarrow> own_sim io (fold dispatch_one is io)"
proof (induction "is" arbitrary: io)
  case (Cons i js)
  have "fst ` set (s_jobs (fst (dispatch_one i io))) = fst ` set (s_jobs (fst io))"
    using keys_dispatch_one [of i io] by (metis set_map)
  with Cons have "own_sim (dispatch_one i io) (fold dispatch_one js (dispatch_one i io))" by simp
  moreover have "own_sim io (dispatch_one i io)" using Cons.prems own_sim_dispatch_one by simp
  ultimately show ?case using own_sim_trans by simp
qed simp

lemma candidates_jobs: "set (map (snd \<circ> snd) (candidates s)) \<subseteq> fst ` set (s_jobs s)"
  by (force simp: candidates_def candidate_key_def)

lemma own_sim_dispatch: "own_sim io (dispatch io)"
  unfolding dispatch_def Let_def
  using own_sim_dispatch_fold [OF candidates_jobs] by simp

section \<open>The handler\<close>

definition owners_inv :: "scheduler \<Rightarrow> bool" where
  "owners_inv s \<longleftrightarrow> view_ok (view s) \<and> (s_lifecycle s = Unstarted \<longrightarrow> s_jobs s = [])"

abbreviation runs_left :: "scheduler \<Rightarrow> bool" where
  "runs_left s \<equiv> s_next_run_id s < u64_max"

lemma view_startup_pending [simp]: "view (startup_pending s) = view s"
  by (simp add: startup_pending_def Let_def)

lemma own_sim_startup:
  assumes "s_lifecycle (fst io) = Unstarted \<longrightarrow> s_jobs (fst io) = []"
  shows "own_sim io (snd (startup config g io))"
proof -
  obtain s acts where io: "io = (s, acts)" by (cases io)
  let ?t = "startup_jobs config g s"
  have wf: "bm_wf (s_jobs ?t)" by (simp add: startup_jobs_def Let_def)
  have "bm_get (s_jobs ?t) i = Some rt \<Longrightarrow> in_flight rt = None" for i rt
    by (auto simp: startup_jobs_def Let_def bm_get_collect dest!: map_of_SomeD)
  then have idle: "idle (s_jobs ?t)"
    using bm_get_iff [OF wf] by (force simp: idle_def)
  have "own_sim io (?t, acts)" if "s_lifecycle s = Unstarted"
  proof (rule own_sim_silent)
    assume "view_ok (view (fst io))"
    then show "wf_view (view (fst (?t, acts))) \<and>
        own_steps (abs_view (view (fst io))) [] (abs_view (view (fst (?t, acts))))"
      using view_idle [OF wf idle, of s] that assms
      by (simp add: io view_ok_def idle_def own_refl) (simp add: startup_jobs_def Let_def own_refl)
  qed (simp_all add: io startup_jobs_def Let_def)
  then have "own_sim io (startup_pending ?t, acts)" if "s_lifecycle s = Unstarted"
    using that own_chain_pair by simp
  then show ?thesis by (auto simp: io startup_def Let_def intro!: own_chain_ops)
qed

lemma own_sim_event:
  assumes "s_lifecycle (fst io) = Unstarted \<longrightarrow> s_jobs (fst io) = []"
  shows "own_sim io (snd (handle_event ev io))"
proof (cases ev)
  case (JobFinished t k c r)
  then show ?thesis
    using own_sim_trans [OF own_chain_tick [OF own_sim_refl] own_sim_finish]
      own_sim_trans [OF own_chain_tick [OF own_sim_refl] own_sim_cancellation]
    by (simp add: handle_event_def accept_if_def)
next
  case (JobCancelled t k)
  then show ?thesis
    using own_sim_trans [OF own_chain_tick [OF own_sim_refl] own_sim_cancellation]
    by (simp add: handle_event_def accept_if_def)
next
  case (PanelPublished t p)
  then show ?thesis by (auto simp: handle_event_def intro!: own_chain_state)
next
  case (RefreshTriggered t j r)
  then show ?thesis by (auto simp: handle_event_def intro!: own_chain_state own_chain_tick)
qed (use own_sim_startup [OF assms] in \<open>simp_all add: handle_event_def own_chain_tick
    own_chain_reconfigure own_chain_inventory own_chain_demand own_chain_presentation
    own_chain_activation own_chain_page own_chain_ops own_chain_lifecycle\<close>)

lemma own_sim_transition:
  "own_sim (snd r) (fst (finish_transition r), actions (snd (finish_transition r)))"
proof -
  obtain d io where r: "r = (d, io)" by (cases r)
  have "own_sim io (push (ScheduleDeadline t) (dispatch io))" for t
    by (rule own_chain_push [OF _ own_sim_dispatch]) simp
  then have "own_sim io (push (ScheduleDeadline t) (dispatch io))" for t .
  moreover have "own_sim io b \<Longrightarrow> own_sim io (fst b, sort_actions (snd b))" for b
    by (erule own_sim_then_same) simp_all
  ultimately show ?thesis
    using own_sim_dispatch [of io] by (simp add: finish_transition_def r Let_def split: option.split)
qed

lemma own_sim_handle:
  assumes "s_lifecycle s = Unstarted \<longrightarrow> s_jobs s = []"
  shows "own_sim (s, []) (fst (handle s ev), actions (snd (handle s ev)))"
proof -
  let ?io = "(s\<lparr>s_now := event_at ev\<rparr>, []) :: sched_io"
  have "own_sim (s, []) ?io" by (rule own_sim_same) simp_all
  moreover have "own_sim ?io (snd (handle_event ev ?io))" using assms by (simp add: own_sim_event)
  ultimately have "own_sim (s, []) (snd (handle_event ev ?io))" by (rule own_sim_trans)
  from own_sim_trans [OF this own_sim_transition]
  show ?thesis by (simp add: handle_def Let_def rejected_def)
qed

lemma lifecycle_event:
  "s_lifecycle (fst io) \<noteq> Unstarted \<or> is_startup ev \<Longrightarrow>
   s_lifecycle (fst (snd (handle_event ev io))) \<noteq> Unstarted"
  by (cases ev; cases io)
    (simp_all add: handle_event_def accept_if_def startup_def startup_jobs_def suspend_def
      resume_def resume_clocks_def stop_def push_def on_state_def is_startup_def Let_def)

lemma lifecycle_transition [simp]:
  "s_lifecycle (fst (finish_transition r)) = s_lifecycle (fst (snd r))"
  by (cases r) (simp add: finish_transition_def Let_def push_def split: option.split)

lemma handle_unstarted:
  "s_lifecycle (fst (handle s ev)) = Unstarted \<Longrightarrow> fst (handle s ev) = s"
  using lifecycle_event [of "(s\<lparr>s_now := event_at ev\<rparr>, [])" ev]
  by (auto simp: handle_def Let_def split: if_splits)

lemma owners_inv_start: "owners_inv scheduler_new"
  by (simp add: owners_inv_def view_ok_def view_def scheduler_new_def flights_def bm_map_def
      own_safe.simps)

lemma owners_inv_handle:
  assumes "owners_inv s" "runs_left (fst (handle s ev))"
  shows "owners_inv (fst (handle s ev))"
  using own_sim_handle [of s ev] handle_unstarted [of s ev] assms
  by (auto simp: owners_inv_def own_sim_def)

lemma next_run_event:
  "s_next_run_id (fst (snd (handle_event ev io))) = s_next_run_id (fst io)"
  by (cases ev; cases io)
    (simp_all add: handle_event_def accept_if_def startup_def startup_jobs_def on_state_def Let_def)

lemma runs_left_back:
  assumes "runs_left (fst (handle s ev))"
  shows "runs_left s"
proof -
  have "runs_left (fst (snd r))" if "runs_left (fst (finish_transition r))" for r
    using own_sim_transition [of r] that by (simp add: own_sim_def)
  from this [of "handle_event ev (s\<lparr>s_now := event_at ev\<rparr>, [])"] show ?thesis
    using assms by (auto simp: handle_def Let_def next_run_event split: if_splits)
qed

interpretation owners: bounded_stepper sched_step scheduler_new runs_left owners_inv
  by unfold_locales
    (simp_all add: sched_step_def owners_inv_start owners_inv_handle runs_left_back)

text \<open>The tickets started along a run.\<close>

definition started :: "transition list \<Rightarrow> job_ticket list" where
  "started ts = concat (map (starts \<circ> actions) ts)"

abbreviation abs_owners :: "scheduler \<Rightarrow> own_state" where
  "abs_owners s \<equiv> abs_view (view s)"

lemma own_steps_handle:
  assumes "owners_inv s" "runs_left (fst (handle s ev))"
  shows "own_steps (abs_owners s) (starts (actions (snd (handle s ev)))) (abs_owners (fst (handle s ev)))"
  using own_sim_handle [of s ev] assms by (auto simp: owners_inv_def own_sim_def)

lemma own_steps_run:
  assumes "owners_inv s" "runs_left (fold sched_step evs s)"
  shows "own_steps (abs_owners s) (started (transitions_from s evs)) (abs_owners (fold sched_step evs s))"
  using assms
proof (induction evs arbitrary: s)
  case (Cons ev evs)
  obtain s' t where h: "handle s ev = (s', t)" by (cases "handle s ev")
  then have st: "sched_step ev s = s'" by (simp add: sched_step_def)
  then have left: "runs_left s'"
    using Cons.prems(2) owners.within_prefix [of evs s'] by simp
  then have one: "own_steps (abs_owners s) (starts (actions t)) (abs_owners s')" and "owners_inv s'"
    using own_steps_handle [OF Cons.prems(1), of ev] owners_inv_handle [OF Cons.prems(1), of ev] h
    by simp_all
  with Cons show ?case
    using own_steps_trans [OF _ one] by (simp add: st h started_def)
qed (simp add: started_def own_refl)

section \<open>Releases\<close>

lemma view_settle [simp]: "view (fst (settle_waits io)) = view (fst io)"
  by (simp add: settle_waits_def Let_def on_state_def)

lemma view_histories [simp]: "view (fst (clear_histories i io)) = view (fst io)"
  by (simp add: clear_histories_def Let_def split: prod.split)

lemma finish_job_releases:
  assumes "view_ok (view (fst io))" "fst (finish_job t c ready io)"
  shows "t \<in> tickets (abs_owners (fst io)) \<and>
         t \<notin> tickets (abs_owners (fst (snd (finish_job t c ready io))))"
proof -
  obtain s acts where io: "io = (s, acts)" by (cases io)
  obtain rt where rt: "bm_get (s_jobs s) (tk_job t) = Some rt" "in_flight rt = Some t"
    and eq: "view (fst (snd (finish_job t c ready io))) = view (release_finished t c s)"
    using assms(2) by (auto simp: io finish_job_def Let_def split: if_splits option.splits)
  show ?thesis using finished_ok [OF _ rt, of c] assms(1) by (simp add: eq) (simp add: io)
qed

lemma finish_cancellation_releases:
  assumes "view_ok (view (fst io))" "fst (finish_cancellation t io)"
  shows "t \<in> tickets (abs_owners (fst io)) \<and>
         t \<notin> tickets (abs_owners (fst (snd (finish_cancellation t io))))"
proof -
  obtain s acts where io: "io = (s, acts)" by (cases io)
  have t: "bm_get (s_cancelling s) (tk_run_id t) = Some t"
    using assms(2) by (auto simp: io finish_cancellation_def split: if_splits)
  then have "abs_owners (fst (snd (finish_cancellation t io))) =
      abs_view (flights (s_jobs s), bm_remove (tk_run_id t) (s_cancelling s),
        bm_remove (ticket_owner t) (s_in_flight_owners s), s_next_run_id s)"
    using cancellation_ok [OF _ t] assms(1)
    by (simp add: io finish_cancellation_def Let_def view_def)
  then show ?thesis using cancellation_ok [OF _ t] assms(1) by (simp only: io fst_conv) blast
qed

lemma cancelling_view: "s_cancelling s = fst (snd (view s))"
  by (simp add: view_def)

lemma cancelling_refresh:
  assumes "view_ok (view (fst a))"
  shows "set (s_cancelling (fst a)) \<subseteq> set (s_cancelling (fst (refresh_demand x a)))"
proof -
  obtain P b where "refresh_demand x a = cancel_in_flight P Can_DemandEnded b"
    and "view (fst b) = view (fst a)"
    by (rule that [OF refresh_demand_def [unfolded Let_def]]) (simp add: on_state_def)
  then show ?thesis using cancel_view_ok [OF assms] by (simp add: cancelling_view view_cancel)
qed

lemma cancelling_tick:
  assumes "view_ok (view (fst io))"
  shows "set (s_cancelling (fst io)) \<subseteq> set (s_cancelling (fst (tick io)))"
proof -
  have "set (s_cancelling (fst io)) \<subseteq> set (s_cancelling (fst (pt_deactivation io)))"
    using cancelling_refresh [of "((fst io)\<lparr>s_deactivation_deadline := None,
        s_effective_presented := False\<rparr>, snd io)" True] assms
    by (cases io) (simp add: pt_deactivation_def Let_def)
  then show ?thesis by (simp add: tick_def process_time_def)
qed

text \<open>The two reports of the executor.\<close>

definition reports :: "scheduler_event \<Rightarrow> job_ticket \<Rightarrow> bool" where
  "reports ev t \<longleftrightarrow> (case ev of
     JobFinished _ u _ _ \<Rightarrow> u = t | JobCancelled _ u \<Rightarrow> u = t | _ \<Rightarrow> False)"

lemma report_releases:
  assumes ok: "view_ok (view s)" "runs_left s" and ev: "reports ev t"
    and acc: "fst (handle_event ev (s, [])) = Accepted"
  defines "s' \<equiv> fst (snd (handle_event ev (s, [])))"
  shows "t \<in> tickets (abs_owners s) \<and> t \<notin> tickets (abs_owners s') \<and> view_ok (view s')"
proof -
  let ?io = "tick (s, [])"
  have sim: "own_sim (s, []) ?io" by (rule own_chain_tick) simp
  then have ok1: "view_ok (view (fst ?io))" and
    "own_steps (abs_owners s) [] (abs_owners (fst ?io))"
    using ok by (simp_all add: own_sim_def)
  then have sub: "tickets (abs_owners (fst ?io)) \<subseteq> tickets (abs_owners s)"
    using own_steps_tickets by fastforce
  have "own_sim (s, []) (snd (handle_event ev (s, [])))"
    using ev by (cases ev) (auto simp: reports_def handle_event_def accept_if_def
        intro: own_sim_trans [OF sim] own_sim_finish own_sim_cancellation)
  then have "view_ok (view s')"
    using ok by (auto simp: own_sim_def s'_def next_run_event)
  moreover have "t \<in> tickets (abs_owners (fst ?io)) \<and> t \<notin> tickets (abs_owners s')"
  proof (cases ev)
    case (JobFinished n u c r)
    then have u: "u = t" using ev by (simp add: reports_def)
    show ?thesis
    proof (cases "is_cancelling_ticket s t")
      case True
      then have "(tk_run_id t, t) \<in> set (s_cancelling (fst ?io))"
        using cancelling_tick [of "(s, [])"] ok by (auto simp: is_cancelling_ticket_def dest: bm_get_in)
      moreover have "bm_wf (s_cancelling (fst ?io))" using ok1 by (auto simp: view_ok_def view_def)
      ultimately have "bm_get (s_cancelling (fst ?io)) (tk_run_id t) = Some t" by (simp add: bm_get_iff)
      then have "fst (finish_cancellation t ?io)"
        by (cases ?io) (simp add: finish_cancellation_def Let_def)
      then show ?thesis
        using finish_cancellation_releases [OF ok1, of t] True
        by (simp add: JobFinished u handle_event_def s'_def)
    next
      case False
      then show ?thesis
        using finish_job_releases [OF ok1, of t c r] acc
        by (auto simp: JobFinished u handle_event_def accept_if_def s'_def split: if_splits)
    qed
  next
    case (JobCancelled n u)
    then show ?thesis
      using finish_cancellation_releases [OF ok1, of t] acc ev
      by (auto simp: reports_def handle_event_def accept_if_def s'_def split: if_splits)
  qed (use ev in \<open>simp_all add: reports_def\<close>)
  ultimately show ?thesis using sub by blast
qed

lemma transition_gone:
  assumes "view_ok (view (fst (snd r)))" "runs_left (fst (finish_transition r))"
    and "t \<notin> tickets (abs_owners (fst (snd r)))" "tk_run_id t < s_next_run_id (fst (snd r))"
  shows "t \<notin> tickets (abs_owners (fst (finish_transition r)))"
proof -
  obtain ts where "own_steps (abs_owners (fst (snd r))) ts (abs_owners (fst (finish_transition r)))"
    using own_sim_transition [of r] assms(1,2) by (auto simp: own_sim_def)
  then show ?thesis
    by (rule own_steps_gone [OF _ assms(3)]) (use assms(4) in \<open>simp add: view_def\<close>)
qed

lemma tickets_below: "view_ok (view s) \<Longrightarrow> t \<in> tickets (abs_owners s) \<Longrightarrow> tk_run_id t < s_next_run_id s"
  by (simp add: view_ok_def view_def own_safe.simps)

lemma handle_releases:
  assumes inv: "owners_inv s" and left: "runs_left (fst (handle s ev))" and ev: "reports ev t"
    and acc: "disposition (snd (handle s ev)) = Accepted"
  shows "t \<in> tickets (abs_owners s) \<and> t \<notin> tickets (abs_owners (fst (handle s ev)))"
proof -
  let ?s = "s\<lparr>s_now := event_at ev\<rparr>" and ?r = "handle_event ev (s\<lparr>s_now := event_at ev\<rparr>, [])"
  have h: "handle s ev = finish_transition ?r"
    using acc by (auto simp: handle_def rejected_def Let_def split: if_splits)
  have d: "fst ?r = Accepted" using acc by (cases ?r) (simp add: h finish_transition_def Let_def)
  have ok: "view_ok (view ?s)" "runs_left ?s"
    using inv runs_left_back [OF left] by (simp_all add: owners_inv_def)
  have rel: "t \<in> tickets (abs_owners ?s) \<and> t \<notin> tickets (abs_owners (fst (snd ?r))) \<and>
      view_ok (view (fst (snd ?r)))"
    by (rule report_releases [OF ok ev d])
  moreover have "tk_run_id t < s_next_run_id (fst (snd ?r))"
    using tickets_below [OF ok(1)] rel by (simp add: next_run_event)
  ultimately show ?thesis using transition_gone [of ?r t] left by (simp add: h)
qed

end
