(* ===== verification/SchedFront.thy ===== *)
theory SchedFront
  imports SchedOwners
begin

text \<open>
  The front of the scheduler: presentation, first paint, activation and publications. \<open>front_ok\<close> is
  the state invariant. \<open>front_sim\<close> relates the state and actions before and after an operation: the
  invariant is kept, publication ids are handed out consecutively, every publication reaches some
  surface and only presented tooltips are published, and first paints are counted. It is transitive,
  so each operation of the handler gets one lemma.
\<close>

section \<open>The invariant\<close>

definition within_period :: "sched_time option \<Rightarrow> duration \<Rightarrow> sched_time \<Rightarrow> bool" where
  "within_period deadline period now \<longleftrightarrow> (\<forall>d. deadline = Some d \<longrightarrow> d \<le> now + period)"

definition front_ok :: "scheduler \<Rightarrow> bool" where
  "front_ok s \<longleftrightarrow>
     (s_presented s \<longrightarrow> s_effective_presented s) \<and>
     (s_deactivation_deadline s \<noteq> None \<longleftrightarrow> s_effective_presented s \<and> \<not> s_presented s) \<and>
     (s_first_paint_issued s \<longrightarrow>
        s_first_paint_deadline s = None \<and> s_first_paint_waiting s = []) \<and>
     (s_first_paint_issued s \<or> s_first_paint_deadline s \<noteq> None) \<and> s_next_display s \<noteq> None \<and>
     (s_activation_waiting s \<noteq> [] \<longrightarrow> s_activation_deadline s \<noteq> None) \<and>
     within_period (s_deactivation_deadline s) DEACTIVATION_GRACE (s_now s) \<and>
     within_period (s_first_paint_deadline s) FIRST_PAINT_TIMEOUT (s_now s) \<and>
     within_period (s_activation_deadline s) ACTIVATION_REFRESH_TIMEOUT (s_now s) \<and>
     within_period (s_next_display s) (s_display_interval s) (s_now s)"

lemma within_None [simp]: "within_period None p n"
  by (simp add: within_period_def)

lemma within_later: "within_period d p n \<Longrightarrow> n \<le> m \<Longrightarrow> within_period d p m"
  by (auto simp: within_period_def)

lemma within_add [simp]: "within_period (Some (dur_saturating_add n p)) p n"
  by (simp add: within_period_def dur_saturating_add_def)

lemma advance_past_near: "d \<le> n \<Longrightarrow> advance_past d c n \<le> n + c"
proof (cases "c = 0")
  case False
  assume "d \<le> n"
  then have "d + Suc ((n - d) div c) * c \<le> n + c" using div_grid_below [of d n c] by simp
  then show ?thesis using False by (simp add: advance_past_eq)
qed (simp add: advance_past_def)

lemma within_advance [simp]: "d \<le> n \<Longrightarrow> within_period (Some (advance_past d c n)) c n"
  by (simp add: within_period_def advance_past_near)

lemma front_ok_later: "front_ok s \<Longrightarrow> s_now s \<le> n \<Longrightarrow> front_ok (s\<lparr>s_now := n\<rparr>)"
  by (auto simp: front_ok_def intro: within_later)

lemma front_ok_same [simp]:
  "front_ok (fst (issue_publish r d k p t io)) = front_ok (fst io)"
  "front_ok (reanchor_fast_jobs s) = front_ok s"
  "front_ok (fst (cancel_in_flight P c io)) = front_ok (fst io)"
  "front_ok (fst (cancel_all c io)) = front_ok (fst io)"
  "front_ok (fst (cancel_demand_ended b a io)) = front_ok (fst io)"
  "front_ok (fst (refresh_demand x io)) = front_ok (fst io)"
  "front_ok (fst (dispatch io)) = front_ok (fst io)"
  "front_ok (refresh_all_demanded s) = front_ok s"
  "front_ok (fst (pt_jobs io)) = front_ok (fst io)"
  "front_ok (fst (clear_histories i io)) = front_ok (fst io)"
  "front_ok (fst (snd (finish_cancellation tk io))) = front_ok (fst io)"
  "front_ok (trigger j s) = front_ok s"
  "front_ok (fst (suspend io)) = front_ok (fst io)"
  "front_ok (fst (stop c component io)) = front_ok (fst io)"
  by (simp_all add: front_ok_def)

lemma front_ok_upd [simp]:
  "front_ok (s\<lparr>s_jobs := jobs\<rparr>) = front_ok s"
  "front_ok (s\<lparr>s_lifecycle := l\<rparr>) = front_ok s"
  "front_ok (s\<lparr>s_demand := dp\<rparr>) = front_ok s"
  "front_ok (s\<lparr>s_selected_page := g\<rparr>) = front_ok s"
  "front_ok (s\<lparr>s_config_generation := n\<rparr>) = front_ok s"
  "front_ok (s\<lparr>s_inventory_generation := n\<rparr>) = front_ok s"
  "front_ok (s\<lparr>s_awaiting_resume_inventory := b\<rparr>) = front_ok s"
  "front_ok (s\<lparr>s_notifications_armed := a\<rparr>) = front_ok s"
  "front_ok (s\<lparr>s_panel_publications := pp\<rparr>) = front_ok s"
  "front_ok (s\<lparr>s_next_resume_reconciliation_id := n\<rparr>) = front_ok s"
  by (simp_all add: front_ok_def)

lemma front_ok_activated [simp]:
  "front_ok s \<Longrightarrow> s_activation_waiting s = [] \<Longrightarrow> front_ok (s\<lparr>s_activation_deadline := None\<rparr>)"
  by (simp add: front_ok_def)

lemma front_first_paint:
  assumes "front_ok (fst io)"
  shows "front_ok (fst (issue_first_paint r io)) \<and>
    s_first_paint_issued (fst (issue_first_paint r io))"
  using assms by (cases io)
    (auto simp: issue_first_paint_def Let_def front_ok_def split: option.split)

lemma replace_jobs_waits:
  "s_activation_waiting (fst (replace_jobs specs c io)) =
     filter (\<lambda>j. bm_contains (s_jobs (fst (replace_jobs specs c io))) j) (s_activation_waiting (fst io))"
  "s_first_paint_issued (fst io) \<Longrightarrow> s_first_paint_waiting (fst (replace_jobs specs c io)) = []"
  by (simp_all add: replace_jobs_def retain_activation_def restart_blockers_def Let_def
      case_prod_unfold del: bm_contains_iff)

lemma front_replace [simp]: "front_ok (fst io) \<Longrightarrow> front_ok (fst (replace_jobs specs c io))"
  by (auto simp: front_ok_def replace_jobs_waits)

lemma front_activate [simp]: "front_ok s \<Longrightarrow> front_ok (activate_jobs b a k s)"
  by (auto simp: front_ok_def activate_jobs_def Let_def)

lemma front_rebuild [simp]:
  "front_ok (fst io) \<Longrightarrow> front_ok (fst (rebuild_first_paint_blockers io))"
  by (cases io) (auto simp: rebuild_first_paint_blockers_def Let_def
      intro!: front_first_paint [THEN conjunct1], simp_all add: front_ok_def)

lemma front_inventory [simp]: "front_ok (fst io) \<Longrightarrow> front_ok (fst (change_inventory u io))"
  by (simp add: change_inventory_def on_state_def Let_def)

lemma front_demand [simp]: "front_ok (fst io) \<Longrightarrow> front_ok (fst (change_demand d io))"
  by (simp add: change_demand_def on_state_def Let_def)

lemma front_activation [simp]: "front_ok (fst io) \<Longrightarrow> front_ok (fst (refresh_activation io))"
  by (cases io) (simp add: refresh_activation_def Let_def, simp add: front_ok_def)

lemma front_presentation [simp]:
  "front_ok (fst io) \<Longrightarrow> front_ok (fst (change_presentation p io))"
proof (cases io)
  case (Pair s acts)
  assume "front_ok (fst io)"
  then have ok: "front_ok s" by (simp add: Pair)
  have "front_ok (s\<lparr>s_presented := True, s_deactivation_deadline := None,
      s_effective_presented := True\<rparr>)"
    using ok by (simp add: front_ok_def)
  moreover have "s_presented s \<Longrightarrow> s_effective_presented s \<Longrightarrow> front_ok (s\<lparr>s_presented := False,
      s_deactivation_deadline := Some (dur_saturating_add (s_now s) DEACTIVATION_GRACE)\<rparr>)"
    using ok by (simp add: front_ok_def)
  moreover have "\<not> (s_presented s \<and> s_effective_presented s) \<Longrightarrow> front_ok (s\<lparr>s_presented := False\<rparr>)"
    using ok by (auto simp: front_ok_def)
  ultimately show ?thesis by (simp add: Pair change_presentation_def Let_def)
qed

lemma front_page [simp]: "front_ok (fst io) \<Longrightarrow> front_ok (fst (change_page g io))"
  by (simp add: change_page_def on_state_def Let_def)

lemma front_reconfigure [simp]: "front_ok (fst io) \<Longrightarrow> front_ok (fst (reconfigure config c io))"
proof -
  assume ok: "front_ok (fst io)"
  let ?s = "fst io"
  have "front_ok (?s\<lparr>s_config_generation := cfg_generation config,
      s_display_interval := cfg_display_interval config, s_demand := cfg_demand config,
      s_next_display := Some (dur_saturating_add (s_now ?s) (cfg_display_interval config))\<rparr>)"
    using ok by (simp add: front_ok_def)
  then show ?thesis by (simp add: reconfigure_def on_state_def Let_def)
qed

lemma front_time [simp]: "front_ok (fst io) \<Longrightarrow> front_ok (fst (process_time io))"
proof -
  have "front_ok (fst io) \<Longrightarrow> front_ok (fst (pt_deactivation io))" for io
    by (cases io) (auto simp: pt_deactivation_def Let_def due_def front_ok_def split: option.splits)
  moreover have "front_ok (fst io) \<Longrightarrow> front_ok (fst (pt_first_paint io))" for io
    by (simp add: pt_first_paint_def Let_def front_first_paint)
  moreover have "front_ok (fst io) \<Longrightarrow> front_ok (fst (pt_activation io))" for io
    by (cases io) (simp add: pt_activation_def Let_def, simp add: front_ok_def)
  moreover have "front_ok (fst io) \<Longrightarrow> front_ok (fst (pt_display io))" for io
    by (auto simp: pt_display_def on_state_def Let_def due_def front_ok_def split: option.split)
  ultimately show "front_ok (fst io) \<Longrightarrow> front_ok (fst (process_time io))"
    by (simp add: process_time_def)
qed

lemma front_tick [simp]: "front_ok (fst io) \<Longrightarrow> front_ok (fst (tick io))"
  by (simp add: tick_def)

lemma front_finish [simp]: "front_ok (fst io) \<Longrightarrow> front_ok (fst (snd (finish_job t c r io)))"
proof -
  have "front_ok (fst b) \<Longrightarrow> front_ok (fst (settle_waits b))" for b
    by (simp add: settle_waits_def Let_def on_state_def front_first_paint)
  moreover have "front_ok s \<Longrightarrow> front_ok (release_finished t c s)" for s c
    by (auto simp: release_finished_def front_ok_def bs_remove_def Let_def)
  ultimately show "front_ok (fst io) \<Longrightarrow> front_ok (fst (snd (finish_job t c r io)))"
    by (cases io) (simp add: finish_job_def Let_def split: option.split)
qed

lemma front_resume [simp]: "front_ok (fst io) \<Longrightarrow> front_ok (fst (resume io))"
  by (cases io) (auto simp: resume_def resume_clocks_def Let_def front_ok_def)

lemma front_event:
  assumes "front_ok (fst io)" "\<not> is_startup ev"
  shows "front_ok (fst (snd (handle_event ev io)))"
  using assms by (cases ev) (simp_all add: handle_event_def accept_if_def on_state_def is_startup_def)

definition front_inv :: "scheduler \<Rightarrow> bool" where
  "front_inv s \<longleftrightarrow> (if s_lifecycle s = Unstarted then s = scheduler_new else front_ok s)"

lemma front_startup:
  "front_ok (fst (snd (startup config g (scheduler_new\<lparr>s_now := n\<rparr>, []))))"
proof -
  have "front_ok (startup_pending (startup_jobs config g (scheduler_new\<lparr>s_now := n\<rparr>)))"
    by (simp add: front_ok_def startup_jobs_def Let_def) (simp add: scheduler_new_def)
  then show ?thesis
    by (simp add: startup_def Let_def front_first_paint) (simp add: scheduler_new_def)
qed

lemma front_transition [simp]:
  "front_ok (fst (finish_transition r)) = front_ok (fst (snd r))"
  by (cases r) (simp add: finish_transition_def Let_def push_def split: option.split)

lemma now_new [simp]: "s_now scheduler_new = 0" "s_lifecycle scheduler_new = Unstarted"
  by (simp_all add: scheduler_new_def)

lemma front_inv_handle:
  assumes inv: "front_inv s"
  shows "front_inv (fst (handle s ev))"
proof (cases "s_lifecycle s = Unstarted")
  case True
  then have s: "s = scheduler_new" using inv by (simp add: front_inv_def)
  show ?thesis
  proof (cases ev)
    case (Startup t config g)
    then have "handle s ev =
        finish_transition (startup config g (scheduler_new\<lparr>s_now := t\<rparr>, []))"
      by (simp add: s handle_def handle_event_def is_startup_def is_stale_def)
    then have ok: "front_ok (fst (handle s ev))" using front_startup [of config g t] by simp
    moreover have "\<not> front_ok scheduler_new" by (simp add: front_ok_def scheduler_new_def)
    ultimately have "s_lifecycle (fst (handle s ev)) \<noteq> Unstarted"
      using handle_unstarted [of s ev] s by metis
    with ok show ?thesis by (simp add: front_inv_def)
  qed (simp_all add: s handle_def is_startup_def front_inv_def)
next
  case False
  then have ok: "front_ok s" using inv by (simp add: front_inv_def)
  have "s_lifecycle (fst (handle s ev)) \<noteq> Unstarted"
    using handle_unstarted [of s ev] False by metis
  moreover have "front_ok (fst (handle s ev))"
    using ok False front_ok_later [OF ok, of "event_at ev"]
      front_event [of "(s\<lparr>s_now := event_at ev\<rparr>, [])" ev]
    by (auto simp: handle_def Let_def)
  ultimately show ?thesis by (simp add: front_inv_def)
qed

interpretation front: stepper sched_step scheduler_new front_inv
  by unfold_locales (simp_all add: sched_step_def front_inv_handle, simp add: front_inv_def)

section \<open>Publications\<close>

primrec is_publish :: "scheduler_action \<Rightarrow> bool" where
  "is_publish (CancelJob _ _) = False"
| "is_publish (InvalidateJob _ _ _) = False"
| "is_publish (ResetCounterBaseline _) = False"
| "is_publish (PublishDisplay _ _ _ _ _ _) = True"
| "is_publish (EvaluateNotifications _) = False"
| "is_publish (RescanHardware _ _) = False"
| "is_publish (ApplyBackoff _ _ _) = False"
| "is_publish (StartJob _) = False"
| "is_publish (ScheduleDeadline _) = False"
| "is_publish (Terminate _) = False"

definition pubs :: "scheduler_action list \<Rightarrow> scheduler_action list" where
  "pubs acts = filter is_publish acts"

definition is_first_reason :: "publish_reason \<Rightarrow> bool" where
  "is_first_reason r \<longleftrightarrow> r = Pub_FirstPaintReady \<or> r = Pub_FirstPaintTimeout"

fun pub_ids :: "scheduler_action list \<Rightarrow> publication_id list" where
  "pub_ids (PublishDisplay p r d k pan tip # acts) = p # pub_ids acts"
| "pub_ids (a # acts) = pub_ids acts"
| "pub_ids [] = []"

fun first_paints :: "scheduler_action list \<Rightarrow> int" where
  "first_paints (PublishDisplay p r d k pan tip # acts) =
     of_bool (is_first_reason r) + first_paints acts"
| "first_paints (a # acts) = first_paints acts"
| "first_paints [] = 0"

fun pub_shape :: "scheduler \<Rightarrow> scheduler_action \<Rightarrow> bool" where
  "pub_shape s (PublishDisplay p r d k pan tip) \<longleftrightarrow>
     (pan \<or> tip) \<and> (tip \<longrightarrow> s_presented s) \<and> (pan \<longrightarrow> p \<in> set (s_panel_publications s))"
| "pub_shape s a \<longleftrightarrow> True"

lemma pubs_append [simp]: "pubs (xs @ ys) = pubs xs @ pubs ys"
  by (simp add: pubs_def)

lemma pubs_simps [simp]:
  "pubs [] = []" "pubs (a # acts) = (if is_publish a then a # pubs acts else pubs acts)"
  by (simp_all add: pubs_def)

lemma pubs_map_silent [simp]: "(\<And>x. \<not> is_publish (f x)) \<Longrightarrow> pubs (map f xs) = []"
  by (simp add: pubs_def filter_empty_conv)

lemma pub_ids_pubs: "pub_ids acts = pub_ids (pubs acts)"
  by (induction acts rule: pub_ids.induct) auto

lemma first_paints_pubs: "first_paints acts = first_paints (pubs acts)"
  by (induction acts rule: first_paints.induct) auto

lemma pub_ids_append [simp]: "pub_ids (xs @ ys) = pub_ids xs @ pub_ids ys"
  by (induction xs rule: pub_ids.induct) auto

lemma first_paints_append [simp]: "first_paints (xs @ ys) = first_paints xs + first_paints ys"
  by (induction xs rule: first_paints.induct) auto

lemma pub_shape_silent: "\<not> is_publish a \<Longrightarrow> pub_shape s a"
  by (cases a) auto

lemma coalesce_some:
  "coalesce_refresh r d k acts = Some (p, acts') \<Longrightarrow>
     pub_ids acts' = pub_ids acts \<and> p \<in> set (pub_ids acts) \<and>
     first_paints acts' = first_paints acts + of_bool (is_first_reason r) \<and>
     set acts' \<subseteq> insert (PublishDisplay p r d k True True) (set acts)"
proof (induction r d k acts arbitrary: p acts' rule: coalesce_refresh.induct)
  case (2 reason deadline skipped p r d k pan tip acts)
  then show ?case
    by (auto simp: is_first_reason_def split: if_splits)
qed (auto split: if_splits)

definition pub_ok :: "sched_io \<Rightarrow> bool" where
  "pub_ok io \<longleftrightarrow> (\<forall>a \<in> set (pubs (snd io)). pub_shape (fst io) a)"

definition pub_count :: "sched_io \<Rightarrow> int" where
  "pub_count io = first_paints (snd io) - of_bool (s_first_paint_issued (fst io))"

definition pub_fresh :: "sched_io \<Rightarrow> bool" where
  "pub_fresh io \<longleftrightarrow>
     (\<forall>p \<in> set (s_panel_publications (fst io)) \<union> set (pub_ids (snd io)). p < s_next_publication_id (fst io))"

definition ids_sim :: "sched_io \<Rightarrow> sched_io \<Rightarrow> bool" where
  "ids_sim io io' \<longleftrightarrow>
     (s_next_publication_id (fst io') < u64_max \<longrightarrow>
        s_next_publication_id (fst io) < u64_max \<and>
        s_next_publication_id (fst io) \<le> s_next_publication_id (fst io') \<and>
        pub_ids (snd io') = pub_ids (snd io) @
          [s_next_publication_id (fst io) ..< s_next_publication_id (fst io')] \<and>
        (pub_fresh io \<longrightarrow> pub_fresh io'))"

definition pub_sim :: "sched_io \<Rightarrow> sched_io \<Rightarrow> bool" where
  "pub_sim io io' \<longleftrightarrow> (pub_ok io \<longrightarrow> pub_ok io') \<and> pub_count io' = pub_count io \<and> ids_sim io io'"

lemma ids_sim_trans:
  assumes ab: "ids_sim a b" and bc: "ids_sim b c"
  shows "ids_sim a c"
proof -
  let ?n = "\<lambda>io. s_next_publication_id (fst io)"
  have upt: "?n a \<le> ?n b \<Longrightarrow> ?n b \<le> ?n c \<Longrightarrow> [?n a ..< ?n b] @ [?n b ..< ?n c] = [?n a ..< ?n c]"
    by (metis le_add_diff_inverse upt_add_eq_append)
  then show ?thesis
    using ab bc unfolding ids_sim_def by (metis append_assoc le_trans)
qed

lemma pub_sim_trans: "pub_sim a b \<Longrightarrow> pub_sim b c \<Longrightarrow> pub_sim a c"
  unfolding pub_sim_def using ids_sim_trans by (metis (no_types))

lemma pub_sim_silent:
  assumes "pubs (snd b) = pubs (snd a)"
    and "s_next_publication_id (fst b) = s_next_publication_id (fst a)"
    and "s_panel_publications (fst b) = s_panel_publications (fst a)"
    and "s_first_paint_issued (fst b) = s_first_paint_issued (fst a)"
    and "s_presented (fst b) = s_presented (fst a) \<or> pubs (snd a) = []"
  shows "pub_sim a b"
proof -
  have eq: "pub_ids (snd b) = pub_ids (snd a)" "first_paints (snd b) = first_paints (snd a)"
    using assms(1) pub_ids_pubs first_paints_pubs by metis+
  have "pub_shape (fst b) x = pub_shape (fst a) x" if "s_presented (fst b) = s_presented (fst a)" for x
    using that assms by (cases x) auto
  then have "pub_ok a \<Longrightarrow> pub_ok b" using assms(1,5) by (auto simp: pub_ok_def)
  then show ?thesis
    using assms by (simp add: pub_sim_def pub_count_def ids_sim_def pub_fresh_def eq)
qed

lemma pub_shape_mono:
  assumes "pub_shape s a" "s_presented t = s_presented s"
    and "set (s_panel_publications s) \<subseteq> set (s_panel_publications t)"
  shows "pub_shape t a"
  using assms by (cases a) auto

lemma publish_cases:
  obtains
    (none) "issue_publish r d k pan tip (s, acts) = (s, acts)"
      "\<not> pan \<and> \<not> (tip \<and> s_presented s) \<or> r = Pub_TooltipRefresh"
  | (merged) p acts' where "pan" "tip" "s_presented s" "coalesce_refresh r d k acts = Some (p, acts')"
      "issue_publish r d k pan tip (s, acts) =
         (s\<lparr>s_panel_publications := bs_insert p (s_panel_publications s)\<rparr>, acts')"
  | (pushed) s' where "pan \<or> (tip \<and> s_presented s)"
      "issue_publish r d k pan tip (s, acts) =
         (s', acts @ [PublishDisplay (s_next_publication_id s) r d k pan (tip \<and> s_presented s)])"
      "s_next_publication_id s' = u64_saturating_add (s_next_publication_id s) 1"
      "s_presented s' = s_presented s" "s_first_paint_issued s' = s_first_paint_issued s"
      "set (s_panel_publications s') =
         (if pan then {s_next_publication_id s} else {}) \<union> set (s_panel_publications s)"
proof -
  let ?c = "if pan \<and> tip \<and> s_presented s then coalesce_refresh r d k acts else None"
  show thesis
  proof (cases "\<not> pan \<and> \<not> (tip \<and> s_presented s) \<or>
      r = Pub_TooltipRefresh \<and> list_ex is_tooltip_publish acts")
    case True
    then show ?thesis by (intro none) (auto simp: issue_publish_def Let_def)
  next
    case False
    show ?thesis
    proof (cases ?c)
      case None
      let ?s1 = "s\<lparr>s_next_publication_id := u64_saturating_add (s_next_publication_id s) 1\<rparr>"
      let ?s2 = "if pan then ?s1\<lparr>s_panel_publications :=
          bs_insert (s_next_publication_id s) (s_panel_publications ?s1)\<rparr> else ?s1"
      have "pan \<or> (tip \<and> s_presented s)" using False by blast
      moreover have "issue_publish r d k pan tip (s, acts) = (?s2,
          acts @ [PublishDisplay (s_next_publication_id s) r d k pan (tip \<and> s_presented s)])"
        unfolding issue_publish_def Let_def prod.case using False None by simp
      moreover have "s_next_publication_id ?s2 = u64_saturating_add (s_next_publication_id s) 1"
        "s_presented ?s2 = s_presented s" "s_first_paint_issued ?s2 = s_first_paint_issued s"
        "set (s_panel_publications ?s2) =
           (if pan then {s_next_publication_id s} else {}) \<union> set (s_panel_publications s)"
        by simp_all
      ultimately show ?thesis by (rule pushed)
    next
      case (Some pa)
      obtain p acts' where pa: "pa = (p, acts')" by (cases pa)
      have c: "pan" "tip" "s_presented s" "coalesce_refresh r d k acts = Some (p, acts')"
        using Some by (auto simp: pa split: if_splits)
      moreover have "issue_publish r d k pan tip (s, acts) =
          (s\<lparr>s_panel_publications := bs_insert p (s_panel_publications s)\<rparr>, acts')"
        unfolding issue_publish_def Let_def prod.case using False c by auto
      ultimately show ?thesis by (rule merged)
    qed
  qed
qed

lemma publish_ids: "ids_sim io (issue_publish r d k pan tip io)"
proof -
  obtain s acts where io: "io = (s, acts)" by (cases io)
  show ?thesis
  proof (cases rule: publish_cases [of r d k pan tip s acts])
    case none
    then show ?thesis by (simp add: io ids_sim_def)
  next
    case (merged p acts')
    then show ?thesis using coalesce_some [OF merged(4)] by (auto simp: io ids_sim_def pub_fresh_def)
  next
    case (pushed s')
    have "ids_sim (s, acts) (s', acts @ [PublishDisplay (s_next_publication_id s) r d k pan
        (tip \<and> s_presented s)])"
      unfolding ids_sim_def fst_conv snd_conv
    proof (intro impI)
      assume "s_next_publication_id s' < u64_max"
      then have n: "s_next_publication_id s' = Suc (s_next_publication_id s)"
        "s_next_publication_id s < u64_max"
        unfolding pushed(3) using u64_saturating_add_exact [of "s_next_publication_id s"]
        by (simp_all only: One_nat_def)
      then show "s_next_publication_id s < u64_max \<and>
          s_next_publication_id s \<le> s_next_publication_id s' \<and>
          pub_ids (acts @ [PublishDisplay (s_next_publication_id s) r d k pan (tip \<and> s_presented s)]) =
            pub_ids acts @ [s_next_publication_id s ..< s_next_publication_id s'] \<and>
          (pub_fresh (s, acts) \<longrightarrow> pub_fresh (s', acts @
            [PublishDisplay (s_next_publication_id s) r d k pan (tip \<and> s_presented s)]))"
        unfolding pub_fresh_def fst_conv snd_conv pushed(6) n(1)
        by (auto intro: less_SucI split: if_splits)
    qed
    then show ?thesis by (simp add: io pushed)
  qed
qed

lemma publish_ok: "pub_ok io \<Longrightarrow> pub_ok (issue_publish r d k pan tip io)"
proof -
  obtain s acts where io: "io = (s, acts)" by (cases io)
  assume ok: "pub_ok io"
  show ?thesis
  proof (cases rule: publish_cases [of r d k pan tip s acts])
    case none
    then show ?thesis using ok by (simp add: io)
  next
    case (merged p acts')
    let ?t = "s\<lparr>s_panel_publications := bs_insert p (s_panel_publications s)\<rparr>"
    have "pub_shape ?t a" if "a \<in> set (pubs acts)" for a
      using that ok pub_shape_mono [of s a ?t] by (auto simp: io pub_ok_def)
    moreover have "set (pubs acts') \<subseteq> insert (PublishDisplay p r d k True True) (set (pubs acts))"
      using coalesce_some [OF merged(4)] by (auto simp: pubs_def)
    ultimately show ?thesis using merged by (auto simp: io pub_ok_def)
  next
    case (pushed s')
    have "pub_shape s' a" if "a \<in> set (pubs acts)" for a
      using that ok pub_shape_mono [of s a s'] pushed by (auto simp: io pub_ok_def)
    with pushed show ?thesis by (auto simp: io pub_ok_def)
  qed
qed

lemma publish_count:
  "\<not> is_first_reason r \<Longrightarrow> first_paints (snd (issue_publish r d k pan tip io)) = first_paints (snd io)"
  "is_first_reason r \<Longrightarrow> pan \<Longrightarrow>
     first_paints (snd (issue_publish r d k pan tip io)) = first_paints (snd io) + 1"
proof -
  obtain s acts where io: "io = (s, acts)" by (cases io)
  have "first_paints (snd (issue_publish r d k pan tip io)) =
      first_paints (snd io) + of_bool (is_first_reason r)" if "is_first_reason r \<longrightarrow> pan"
  proof (cases rule: publish_cases [of r d k pan tip s acts])
    case none
    then show ?thesis using that by (auto simp: io is_first_reason_def)
  next
    case (merged p acts')
    then show ?thesis using coalesce_some [OF merged(4)] by (simp add: io)
  qed (simp add: io)
  then show "\<not> is_first_reason r \<Longrightarrow>
      first_paints (snd (issue_publish r d k pan tip io)) = first_paints (snd io)"
    "is_first_reason r \<Longrightarrow> pan \<Longrightarrow>
      first_paints (snd (issue_publish r d k pan tip io)) = first_paints (snd io) + 1"
    by simp_all
qed

lemma pub_sim_publish:
  "\<not> is_first_reason r \<Longrightarrow> pub_sim io (issue_publish r d k pan tip io)"
  by (simp add: pub_sim_def publish_ok publish_ids pub_count_def publish_count)

lemma first_paint_count: "pub_count (issue_first_paint r io) = pub_count io" if "is_first_reason r"
  by (cases io)
    (use that in \<open>simp add: issue_first_paint_def pub_count_def publish_count Let_def
      split: option.split\<close>)

lemma pub_sim_first_paint: "is_first_reason r \<Longrightarrow> pub_sim io (issue_first_paint r io)"
proof -
  obtain s acts where io: "io = (s, acts)" by (cases io)
  assume r: "is_first_reason r"
  show ?thesis
  proof (cases "s_first_paint_issued s")
    case True
    then show ?thesis by (intro pub_sim_silent) (simp_all add: io issue_first_paint_def)
  next
    case False
    then obtain t d k where eq: "issue_first_paint r io =
        issue_publish r d k True (s_effective_presented t) (t, acts)"
      and t: "s_next_publication_id t = s_next_publication_id s" "s_presented t = s_presented s"
        "s_panel_publications t = s_panel_publications s"
      by (simp add: io issue_first_paint_def Let_def split: option.split)
    have "pub_shape t a = pub_shape s a" for a by (cases a) (simp_all add: t)
    then have "pub_ok io \<longrightarrow> pub_ok (t, acts)" "ids_sim io (t, acts)"
      by (simp_all add: io pub_ok_def ids_sim_def pub_fresh_def t)
    then show ?thesis
      using publish_ok publish_ids ids_sim_trans first_paint_count [OF r, of io]
      unfolding pub_sim_def eq by metis
  qed
qed

lemma pub_chain_state:
  "(\<And>s. s_next_publication_id (f s) = s_next_publication_id s) \<Longrightarrow>
   (\<And>s. s_panel_publications (f s) = s_panel_publications s) \<Longrightarrow>
   (\<And>s. s_first_paint_issued (f s) = s_first_paint_issued s) \<Longrightarrow>
   (\<And>s. s_presented (f s) = s_presented s) \<Longrightarrow> pub_sim a b \<Longrightarrow> pub_sim a (on_state f b)"
  by (erule pub_sim_trans) (rule pub_sim_silent, simp_all add: on_state_def)

lemma pub_chain_publish:
  "\<not> is_first_reason r \<Longrightarrow> pub_sim a b \<Longrightarrow> pub_sim a (issue_publish r d k pan tip b)"
  using pub_sim_trans pub_sim_publish by blast

lemma pub_chain_first:
  "is_first_reason r \<Longrightarrow> pub_sim a b \<Longrightarrow> pub_sim a (issue_first_paint r b)"
  using pub_sim_trans pub_sim_first_paint by blast

lemma first_reason_simps [simp]:
  "is_first_reason Pub_FirstPaintReady" "is_first_reason Pub_FirstPaintTimeout"
  "\<not> is_first_reason Pub_DisplayDeadline" "\<not> is_first_reason Pub_TooltipActivated"
  "\<not> is_first_reason Pub_TooltipRefresh" "\<not> is_first_reason Pub_PageChanged"
  "\<not> is_first_reason Pub_ConfigChanged"
  by (simp_all add: is_first_reason_def)

lemma pubs_replace_one: "pubs (snd (snd (replace_one s d r spec st))) = pubs (snd (snd st))"
  by (simp add: replace_one_def Let_def split: prod.split option.split)

lemma pubs_replace_fold:
  "pubs (snd (snd (fold (replace_one s d r) specs st))) = pubs (snd (snd st))"
  by (induction specs arbitrary: st) (simp_all add: pubs_replace_one)

lemma pubs_silent [simp]:
  "pubs (snd (cancel_in_flight P c io)) = pubs (snd io)"
  "pubs (snd (cancel_all c io)) = pubs (snd io)"
  "pubs (snd (cancel_demand_ended b a io)) = pubs (snd io)"
  "pubs (snd (refresh_demand x io)) = pubs (snd io)"
  "pubs (snd (clear_histories i io)) = pubs (snd io)"
  "pubs (snd (pt_deactivation io)) = pubs (snd io)"
  "pubs (snd (pt_jobs io)) = pubs (snd io)"
  "pubs (snd (suspend io)) = pubs (snd io)"
  "pubs (snd (stop c component io)) = pubs (snd io)"
  "pubs (snd (resume io)) = pubs (snd io)"
  "pubs (snd (dispatch_one i io)) = pubs (snd io)"
  "pubs (snd (snd (finish_cancellation t io))) = pubs (snd io)"
  by (simp_all add: cancel_in_flight_def cancel_all_def cancel_demand_ended_def refresh_demand_def
      clear_histories_def pt_deactivation_def pt_jobs_def suspend_def stop_def push_def resume_def
      dispatch_one_def finish_cancellation_def on_state_def Let_def split: prod.split option.split)

lemma pubs_replace [simp]: "pubs (snd (replace_jobs specs c io)) = pubs (snd io)"
  using pubs_replace_fold by (simp add: replace_jobs_def Let_def case_prod_unfold)

lemma pubs_dispatch [simp]: "pubs (snd (dispatch io)) = pubs (snd io)"
proof -
  have "pubs (snd (fold dispatch_one is io)) = pubs (snd io)" for "is" io
    by (induction "is" arbitrary: io) simp_all
  then show ?thesis by (simp add: dispatch_def Let_def)
qed

lemma pub_chain_silent:
  assumes "pub_sim a b"
  shows "pub_sim a (cancel_in_flight P c b)" "pub_sim a (cancel_all c b)"
    "pub_sim a (cancel_demand_ended m n b)" "pub_sim a (refresh_demand x b)"
    "pub_sim a (replace_jobs specs c b)" "pub_sim a (clear_histories i b)"
    "pub_sim a (pt_deactivation b)" "pub_sim a (pt_jobs b)" "pub_sim a (suspend b)"
    "pub_sim a (stop c component b)" "pub_sim a (resume b)" "pub_sim a (dispatch b)"
    "pub_sim a (snd (finish_cancellation t b))"
  by (rule pub_sim_trans [OF assms], rule pub_sim_silent; simp)+

lemma pub_chain_pair:
  "pub_sim a (s, acts) \<Longrightarrow> s_next_publication_id t = s_next_publication_id s \<Longrightarrow>
   s_panel_publications t = s_panel_publications s \<Longrightarrow>
   s_first_paint_issued t = s_first_paint_issued s \<Longrightarrow> s_presented t = s_presented s \<Longrightarrow>
   pub_sim a (t, acts)"
  by (erule pub_sim_trans) (rule pub_sim_silent; simp)

lemmas pub_chain = pub_chain_publish pub_chain_first pub_chain_silent pub_chain_state

lemma pub_chain_rebuild: "pub_sim a b \<Longrightarrow> pub_sim a (rebuild_first_paint_blockers b)"
  by (cases b) (auto simp: rebuild_first_paint_blockers_def Let_def
      intro!: pub_chain_first intro: pub_chain_pair)

lemma pub_chain_inventory: "pub_sim a b \<Longrightarrow> pub_sim a (change_inventory update b)"
  by (auto simp: change_inventory_def Let_def intro!: pub_chain)

lemma pub_chain_demand: "pub_sim a b \<Longrightarrow> pub_sim a (change_demand d b)"
  by (auto simp: change_demand_def Let_def intro!: pub_chain pub_chain_rebuild)

lemma pub_chain_activation: "pub_sim a b \<Longrightarrow> pub_sim a (refresh_activation b)"
  by (cases b) (auto simp: refresh_activation_def Let_def intro!: pub_chain_publish
      intro: pub_chain_pair)

lemma pub_sim_presentation: "pub_sim (s, []) (change_presentation p (s, []))"
proof -
  have "pub_sim (s, []) (t, [])" if "s_next_publication_id t = s_next_publication_id s"
    "s_panel_publications t = s_panel_publications s"
    "s_first_paint_issued t = s_first_paint_issued s" for t
    by (rule pub_sim_silent) (simp_all add: that)
  then show ?thesis
    by (auto simp: change_presentation_def Let_def intro!: pub_chain_activation)
qed

lemma pub_chain_page: "pub_sim a b \<Longrightarrow> pub_sim a (change_page p b)"
  by (auto simp: change_page_def Let_def intro!: pub_chain)

lemma pub_chain_reconfigure: "pub_sim a b \<Longrightarrow> pub_sim a (reconfigure config r b)"
  by (auto simp: reconfigure_def Let_def intro!: pub_chain)

lemma pub_chain_tick: "pub_sim a b \<Longrightarrow> pub_sim a (tick b)"
proof -
  have first: "pub_sim a b \<Longrightarrow> pub_sim a (pt_first_paint b)" for b
    by (simp add: pt_first_paint_def Let_def pub_chain_first)
  have activation: "pub_sim a b \<Longrightarrow> pub_sim a (pt_activation b)" for b
    by (cases b) (auto simp: pt_activation_def intro!: pub_chain_publish intro: pub_chain_pair)
  have display: "pub_sim a b \<Longrightarrow> pub_sim a (pt_display b)" for b
    by (auto simp: pt_display_def Let_def intro!: pub_chain split: option.splits)
  assume "pub_sim a b"
  then show ?thesis
    by (simp add: tick_def process_time_def first activation display pub_chain_silent)
qed

lemma pub_chain_finish: "pub_sim a b \<Longrightarrow> pub_sim a (snd (finish_job t c ready b))"
proof -
  obtain s acts where b: "b = (s, acts)" by (cases b)
  have settle: "pub_sim a b \<Longrightarrow> pub_sim a (settle_waits b)" for b
    by (auto simp: settle_waits_def Let_def intro!: pub_chain)
  have "pubs (backoff_actions c n i rt) = []" for c n i rt
    by (simp add: backoff_actions_def Let_def)
  then have release: "pub_sim a (release_finished t c s, acts @ backoff_actions c n i rt @ rest)"
    if "pub_sim a (s, acts)" "pubs rest = []" for c n i rt rest
    by (rule_tac pub_sim_trans [OF that(1)]) (rule pub_sim_silent; simp add: that)
  assume "pub_sim a b"
  then show ?thesis
    using release [where rest = "[]"]
    by (auto simp: b finish_job_def Let_def intro!: settle pub_chain_silent release
        split: option.split)
qed

lemma pub_sim_startup: "pub_sim (s, []) (snd (startup config g (s, [])))"
proof -
  have "pub_sim (s, []) (startup_pending (startup_jobs config g s), [])"
    by (rule pub_sim_silent) (simp_all add: startup_jobs_def Let_def)
  then show ?thesis by (auto simp: startup_def Let_def intro!: pub_chain_first pub_sim_silent)
qed

lemma pub_sim_event: "pub_sim (s, []) (snd (handle_event ev (s, [])))"
proof -
  have refl: "pub_sim (s, []) (s, [])" by (rule pub_sim_silent) simp_all
  note chains = pub_chain_tick [OF refl] pub_chain_reconfigure [OF refl]
    pub_chain_inventory [OF refl] pub_chain_demand [OF refl] pub_sim_presentation
    pub_chain_activation [OF refl] pub_chain_page [OF refl] pub_chain_silent [OF refl]
    pub_chain_publish [OF _ refl] pub_chain_finish [OF pub_chain_tick [OF refl]]
    pub_chain_silent [OF pub_chain_tick [OF refl]] pub_sim_startup
  show ?thesis
  proof (cases ev)
    case (RefreshTriggered t j r)
    then show ?thesis
      by (auto simp: handle_event_def intro!: pub_chain_state chains)
  next
    case (PanelPublished t p)
    have "pub_sim (s, []) (s\<lparr>s_panel_publications := bs_remove p (s_panel_publications s),
        s_notifications_armed := True\<rparr>, [])"
      by (auto simp: pub_sim_def pub_ok_def pub_count_def ids_sim_def pub_fresh_def)
    then show ?thesis using refl by (simp add: PanelPublished handle_event_def on_state_def)
  qed (use chains refl in \<open>simp_all add: handle_event_def accept_if_def\<close>)
qed

lemma pubs_sort [simp]: "pubs (sort_actions acts) = pubs acts"
proof -
  have "is_publish a \<longleftrightarrow> action_priority a = 3" for a by (cases a) simp_all
  then have eq: "is_publish = (\<lambda>a. action_priority a = 3)" by (rule ext)
  show ?thesis unfolding pubs_def sort_actions_def eq by (rule sort_key_stable)
qed

lemma pub_sim_transition:
  "pub_sim (snd r) (fst (finish_transition r), actions (snd (finish_transition r)))"
proof -
  obtain d io where r: "r = (d, io)" by (cases r)
  have "pub_sim io (fst b, sort_actions (snd b))" if "pub_sim io b" for b
    by (rule pub_sim_trans [OF that]) (rule pub_sim_silent; simp)
  moreover have refl: "pub_sim io io" by (rule pub_sim_silent) simp_all
  moreover have "pub_sim io (dispatch io)" by (rule pub_chain_silent(12) [OF refl])
  moreover have "pub_sim io (push (ScheduleDeadline t) (dispatch io))" for t
    by (rule pub_sim_silent) (simp_all add: push_def)
  ultimately show ?thesis
    by (simp add: finish_transition_def r Let_def split: option.split)
qed

lemma pub_sim_handle: "pub_sim (s, []) (fst (handle s ev), actions (snd (handle s ev)))"
proof -
  let ?s = "s\<lparr>s_now := event_at ev\<rparr>"
  have refl: "pub_sim (s, []) (s, [])" by (rule pub_sim_silent) simp_all
  have "pub_sim (s, []) (?s, [])" by (rule pub_sim_silent) simp_all
  from pub_sim_trans [OF pub_sim_trans [OF this pub_sim_event] pub_sim_transition]
  show ?thesis using refl by (simp add: handle_def Let_def rejected_def)
qed

end
