(* ===== verification/SchedProps.thy ===== *)
theory SchedProps
  imports SchedFront
begin

text \<open>
  What the scheduler promises, over a whole run from \<open>Scheduler::new\<close>: exclusive owners, current
  tickets, one first paint, well-formed publications, gated notifications, deadlines that lie within
  their periods. The inductions are in \<open>SchedOwners\<close> and \<open>SchedFront\<close>; here they are read off.
\<close>

section \<open>Runs\<close>

lemma sched_run_inv: "runs_left (sched_run evs) \<Longrightarrow> owners_inv (sched_run evs)"
  unfolding sched_run_def by (rule owners.inv_run)

lemma sched_run_front: "front_inv (sched_run evs)"
  unfolding sched_run_def by (rule front.inv_run)

lemma sched_run_snoc: "sched_run (evs @ [ev]) = fst (handle (sched_run evs) ev)"
  by (simp add: sched_run_def sched_step_def)

lemma abs_new [simp]: "abs_owners scheduler_new = ({}, {}, Map.empty, 1)"
  by (simp add: view_def scheduler_new_def flights_def bm_map_def)

lemma transitions_snoc:
  "transitions_from s (evs @ [ev]) =
     transitions_from s evs @ [snd (handle (fold sched_step evs s) ev)]"
  by (induction evs arbitrary: s) (simp_all add: sched_step_def split: prod.split)

text \<open>A concrete run used by the witnesses: one periodic job demanded by the panel.\<close>

definition demo_job :: job_id where
  "demo_job = job_singleton Own_Cpu Job_Cpu"

definition demo_config :: "duration \<Rightarrow> scheduler_config" where
  "demo_config interval =
     \<lparr>cfg_generation = 1, cfg_display_interval = interval,
      cfg_jobs = [(spec_periodic demo_job (from_secs 1))\<lparr>spec_startup_panel := True\<rparr>],
      cfg_demand = \<lparr>dp_hidden = [demo_job], dp_main_tooltip = [], dp_pages = []\<rparr>\<rparr>"

lemmas demo_defs = demo_job_def demo_config_def job_singleton_def spec_periodic_def spec_plain_def

lemmas step_defs = handle_def handle_event_def finish_transition_def
  startup_def startup_jobs_def startup_pending_def scheduler_new_def is_startup_def is_stale_def
  rejected_def current_demand_def current_demand_for_def demanded_def bs_extend_def
  bm_collect_def bm_map_def bm_keys_def runtime_new_def mark_pending_def get_or_insert_def
  dispatch_def candidates_def dispatch_ready_def candidate_key_def bs_collect_def
  dispatch_one_def bm_get_def bm_modify_def make_ticket_def next_wake_def job_deadlines_def
  opt_min_def opt_list_def sort_actions_def push_def on_state_def

lemmas run_defs = sched_run_def sched_step_def step_defs

section \<open>Owners\<close>

text \<open>
  C5. Refinement. Along any run, the scheduler's reservations are a run of the reservation contract,
  and the tickets it starts are exactly the tickets the contract starts, in the same order.
\<close>

theorem scheduler_refines_reservations:
  "runs_left (sched_run evs) \<Longrightarrow>
     own_steps ({}, {}, Map.empty, 1) (started (transitions_from scheduler_new evs))
       (abs_owners (sched_run evs))"
  using own_steps_run [OF owners_inv_start, of evs] by (simp add: sched_run_def)

lemma scheduler_refines_reservations_witness:
  "own_steps ({}, {}, Map.empty, 1)
     (started (transitions_from scheduler_new [Startup 0 (demo_config (from_secs 1)) 1]))
     (abs_owners (sched_run [Startup 0 (demo_config (from_secs 1)) 1]))"
  by (rule scheduler_refines_reservations)
    (simp add: run_defs demo_defs Let_def u64_max_def u64_saturating_add_def)

text \<open>The tickets the executor holds: in flight, or being cancelled.\<close>

definition held :: "scheduler \<Rightarrow> job_ticket set" where
  "held s = {t. \<exists>i rt. (i, rt) \<in> set (s_jobs s) \<and> in_flight rt = Some t} \<union> snd ` set (s_cancelling s)"

lemma held_tickets: "held s = tickets (abs_owners s)"
proof -
  have "(\<exists>i. (i, Some t) \<in> set (flights (s_jobs s))) \<longleftrightarrow>
      (\<exists>i rt. (i, rt) \<in> set (s_jobs s) \<and> in_flight rt = Some t)" for t
    unfolding flights_in by metis
  then show ?thesis by (simp add: held_def view_def)
qed

lemma held_safe:
  assumes "owners_inv s"
  obtains F C where "own_safe (F, C, bm_get (s_in_flight_owners s), s_next_run_id s)" "F \<union> C = held s"
  using assms by (auto simp: owners_inv_def view_ok_def view_def held_tickets)

text \<open>
  C6. Invariant. After any run, no two held tickets share an owner, and \<open>in_flight_owners\<close> maps
  exactly the owners of the held tickets to their runs: an owner is reserved until its ticket is
  reported, also while its cancellation is pending.
\<close>

theorem owners_exclusive:
  "runs_left (sched_run evs) \<Longrightarrow>
     (\<forall>t \<in> held (sched_run evs). \<forall>u \<in> held (sched_run evs).
        ticket_owner t = ticket_owner u \<longrightarrow> t = u) \<and>
     (\<forall>own run. bm_get (s_in_flight_owners (sched_run evs)) own = Some run \<longleftrightarrow>
        (\<exists>t \<in> held (sched_run evs). ticket_owner t = own \<and> tk_run_id t = run))"
proof -
  assume "runs_left (sched_run evs)"
  then obtain F C where safe: "own_safe (F, C, bm_get (s_in_flight_owners (sched_run evs)),
      s_next_run_id (sched_run evs))" and held: "F \<union> C = held (sched_run evs)"
    using sched_run_inv held_safe by metis
  show ?thesis
    using own_safe_unique [OF safe] safe unfolding held own_safe.simps by metis
qed

lemma owners_exclusive_witness:
  "\<forall>own run. bm_get (s_in_flight_owners (sched_run [Startup 0 (demo_config (from_secs 1)) 1])) own =
       Some run \<longleftrightarrow>
     (\<exists>t \<in> held (sched_run [Startup 0 (demo_config (from_secs 1)) 1]).
        ticket_owner t = own \<and> tk_run_id t = run)"
  by (rule owners_exclusive [THEN conjunct2])
    (simp add: run_defs demo_defs Let_def u64_max_def u64_saturating_add_def)

text \<open>
  Safety. The run ids of the tickets started along a run are 1, 2, 3, ... without gaps or
  repetitions, up to the next id of the final state.
\<close>

theorem run_ids_consecutive:
  "runs_left (sched_run evs) \<Longrightarrow>
     map tk_run_id (started (transitions_from scheduler_new evs)) =
       [1 ..< s_next_run_id (sched_run evs)]"
  using own_steps_runs [OF own_steps_run [OF owners_inv_start], of evs]
  by (simp add: sched_run_def view_def scheduler_new_def)

lemma run_ids_consecutive_witness:
  "map tk_run_id (started (transitions_from scheduler_new [Startup 0 (demo_config (from_secs 1)) 1])) =
     [1 ..< s_next_run_id (sched_run [Startup 0 (demo_config (from_secs 1)) 1])]"
  by (rule run_ids_consecutive)
    (simp add: run_defs demo_defs Let_def u64_max_def u64_saturating_add_def)

text \<open>
  Safety. A report (\<open>JobFinished\<close> or \<open>JobCancelled\<close>) that the scheduler accepts concerns a ticket
  it held, and that ticket is not held afterwards, whatever the event starts next.
\<close>

theorem report_releases_ticket:
  assumes "runs_left (sched_run (evs @ [ev]))" "reports ev t"
    and "disposition (snd (handle (sched_run evs) ev)) = Accepted"
  shows "t \<in> held (sched_run evs) \<and> t \<notin> held (sched_run (evs @ [ev]))"
proof -
  have left: "runs_left (fst (handle (sched_run evs) ev))" using assms(1) by (simp add: sched_run_snoc)
  then have "owners_inv (sched_run evs)" by (rule sched_run_inv [OF runs_left_back])
  from handle_releases [OF this left assms(2,3)] show ?thesis
    by (simp add: held_tickets sched_run_snoc)
qed

definition demo_ticket :: job_ticket where
  "demo_ticket = \<lparr>tk_metrics = [], tk_run_id = 1, tk_job = demo_job, tk_config_generation = 1,
     tk_inventory_generation = 1, tk_history_deadline = None\<rparr>"

lemmas finish_defs = demo_ticket_def is_current_ticket_def is_cancelling_ticket_def accept_if_def
  finish_job_def release_finished_def completed_runtime_def backoff_actions_def settle_waits_def
  issue_first_paint_def issue_publish_def bm_remove_def bs_remove_def tick_def process_time_def
  pt_deactivation_def pt_first_paint_def pt_activation_def pt_display_def pt_jobs_def due_def

lemma report_releases_ticket_witness:
  "demo_ticket \<in> held (sched_run [Startup 0 (demo_config (from_secs 1)) 1]) \<and>
   demo_ticket \<notin> held (sched_run ([Startup 0 (demo_config (from_secs 1)) 1] @
     [JobFinished 7 demo_ticket Captured True]))"
  by (rule report_releases_ticket)
    (simp_all add: run_defs demo_defs finish_defs Let_def reports_def u64_max_def
      u64_saturating_add_def from_secs_def nanos_per_sec_def dur_saturating_add_def
      FIRST_PAINT_TIMEOUT_def from_millis_def duration_max_def source_samples_def
      nominal_step_def retry_step_def)

section \<open>Starting\<close>

text \<open>What a started ticket is in the state that results, kept by the starts after it.\<close>

definition launched :: "scheduler \<Rightarrow> job_ticket \<Rightarrow> bool" where
  "launched s t \<longleftrightarrow>
     tk_config_generation t = s_config_generation s \<and>
     tk_inventory_generation t = s_inventory_generation s \<and>
     (\<exists>rt. bm_get (s_jobs s) (tk_job t) = Some rt \<and> in_flight rt = Some t) \<and>
     bm_get (s_in_flight_owners s) (ticket_owner t) = Some (tk_run_id t)"

lemma launched_one:
  assumes "\<And>t. t \<in> set (starts (snd io)) \<Longrightarrow> launched (fst io) t \<and> tk_job t \<in> D"
    and "i \<in> D" "t \<in> set (starts (snd (dispatch_one i io)))"
  shows "launched (fst (dispatch_one i io)) t \<and> tk_job t \<in> D"
proof -
  obtain s acts where io: "io = (s, acts)" by (cases io)
  show ?thesis
  proof (cases "bm_contains (s_in_flight_owners s) (jid_owner i) \<or> bm_get (s_jobs s) i = None")
    case True
    then have "launched (fst (dispatch_one i io)) u = launched s u \<and>
        starts (snd (dispatch_one i io)) = starts acts" for u
      by (auto simp: io dispatch_one_def launched_def Let_def split: option.split)
    then show ?thesis using assms by (simp add: io)
  next
    case False
    then obtain rt where rt: "bm_get (s_jobs s) i = Some rt"
      and free: "\<not> bm_contains (s_in_flight_owners s) (jid_owner i)" by blast
    then have none: "bm_get (s_in_flight_owners s) (jid_owner i) = None"
      by (simp add: bm_contains_def del: bm_contains_iff)
    let ?s1 = "s\<lparr>s_next_run_id := u64_saturating_add (s_next_run_id s) 1\<rparr>"
    let ?t = "make_ticket ?s1 (s_next_run_id s) i rt"
    have eq: "dispatch_one i io =
       (?s1\<lparr>s_jobs := bm_modify i
            (\<lambda>rt. rt\<lparr>pending_history_deadline := None, pending_since := None,
                     in_flight := Some ?t\<rparr>) (s_jobs s),
          s_in_flight_owners :=
            bm_insert (jid_owner i) (s_next_run_id s) (s_in_flight_owners s)\<rparr>,
        acts @ [StartJob ?t])"
      using free rt by (simp add: io dispatch_one_def Let_def)
    have "launched s u \<Longrightarrow> launched (fst (dispatch_one i io)) u" for u
      using none by (auto simp: launched_def eq bm_get_modify)
    moreover have "launched (fst (dispatch_one i io)) ?t"
      using rt by (simp add: launched_def eq bm_get_modify) (simp add: make_ticket_def)
    ultimately show ?thesis using assms eq by (auto simp: io)
  qed
qed

lemma launched_fold:
  "(\<And>t. t \<in> set (starts (snd io)) \<Longrightarrow> launched (fst io) t \<and> tk_job t \<in> D) \<Longrightarrow> set is \<subseteq> D \<Longrightarrow>
   t \<in> set (starts (snd (fold dispatch_one is io))) \<Longrightarrow>
   launched (fst (fold dispatch_one is io)) t \<and> tk_job t \<in> D"
proof (induction "is" arbitrary: io)
  case (Cons i js)
  have "u \<in> set (starts (snd (dispatch_one i io))) \<Longrightarrow>
      launched (fst (dispatch_one i io)) u \<and> tk_job u \<in> D" for u
    using launched_one [of io D i u] Cons.prems(1,2) by simp
  then show ?case using Cons.IH [of "dispatch_one i io"] Cons.prems(2,3) by simp
qed simp

lemma candidates_demanded: "set (map (snd \<circ> snd) (candidates s)) \<subseteq> set (current_demand s)"
  by (force simp: candidates_def candidate_key_def dispatch_ready_def)

lemma dispatch_launched:
  assumes "starts (snd io) = []" "t \<in> set (starts (snd (dispatch io)))"
  shows "s_lifecycle (fst io) = Running \<and> s_awaiting_resume_inventory (fst io) = None \<and>
    tk_job t \<in> set (current_demand (fst io)) \<and> launched (fst (dispatch io)) t"
  using assms launched_fold [OF _ candidates_demanded, where io = io and t = t]
  by (auto simp: dispatch_def Let_def split: if_splits)

lemma handle_starts:
  assumes "StartJob t \<in> set (actions (snd (handle s ev)))"
  obtains io where "starts (snd io) = []" "t \<in> set (starts (snd (dispatch io)))"
    "fst (handle s ev) = fst (dispatch io)"
proof -
  obtain d io where r: "handle_event ev (s\<lparr>s_now := event_at ev\<rparr>, []) = (d, io)"
    by (meson surj_pair)
  have t: "t \<in> set (starts (actions (snd (handle s ev))))" using assms by (simp add: set_starts)
  then have h: "handle s ev = finish_transition (d, io)"
    by (auto simp: handle_def rejected_def Let_def r split: if_splits)
  have "starts (snd io) = []"
    using starts_event [of ev "(s\<lparr>s_now := event_at ev\<rparr>, [])"] by (simp add: r)
  moreover have "t \<in> set (starts (snd (dispatch io))) \<and> fst (handle s ev) = fst (dispatch io)"
    using t calculation unfolding h
    by (auto simp: finish_transition_def Let_def push_def split: if_splits option.splits)
  ultimately show thesis using that by blast
qed

lemma started_current:
  "StartJob t \<in> set (actions (snd (handle s ev))) \<Longrightarrow>
     is_current_ticket (fst (handle s ev)) t \<and>
     s_awaiting_resume_inventory (fst (handle s ev)) = None \<and>
     tk_job t \<in> set (current_demand (fst (handle s ev))) \<and>
     bm_get (s_in_flight_owners (fst (handle s ev))) (ticket_owner t) = Some (tk_run_id t)"
proof (erule handle_starts)
  fix io
  assume io: "starts (snd io) = []" "t \<in> set (starts (snd (dispatch io)))"
    "fst (handle s ev) = fst (dispatch io)"
  have "current_demand (fst (dispatch io)) = current_demand (fst io)"
    by (simp add: current_demand_def current_demand_for_def)
  then show ?thesis
    using dispatch_launched [OF io(1,2)] unfolding io(3)
    by (auto simp: launched_def is_current_ticket_def)
qed

text \<open>
  C10. Safety. Every ticket a transition starts is current in the resulting state: the scheduler runs
  and does not wait for a resume inventory, the job is demanded, the ticket carries the present
  generations, and it is the one in flight with its owner reserved for it.
\<close>

theorem started_ticket_current:
  "StartJob t \<in> set (actions (snd (handle s ev))) \<Longrightarrow>
     is_current_ticket (fst (handle s ev)) t \<and>
     s_awaiting_resume_inventory (fst (handle s ev)) = None \<and>
     tk_job t \<in> set (current_demand (fst (handle s ev))) \<and>
     bm_get (s_in_flight_owners (fst (handle s ev))) (ticket_owner t) = Some (tk_run_id t)"
  by (rule started_current)

lemma started_ticket_current_witness:
  "is_current_ticket (fst (handle scheduler_new (Startup 0 (demo_config (from_secs 1)) 1))) demo_ticket"
  by (rule started_ticket_current [THEN conjunct1])
    (simp add: run_defs demo_defs finish_defs Let_def u64_saturating_add_def source_samples_def)

section \<open>Presentation and first paint\<close>

text \<open>
  C11. Invariant. After any run: a presented tooltip is effective; the deactivation grace runs exactly
  while an effective tooltip is not presented; once the first paint is issued nothing waits for it,
  and before that its deadline is set; jobs that an activation waits for have a deadline.
\<close>

theorem presentation_invariant:
  "s_lifecycle (sched_run evs) \<noteq> Unstarted \<Longrightarrow>
     (s_presented (sched_run evs) \<longrightarrow> s_effective_presented (sched_run evs)) \<and>
     (s_deactivation_deadline (sched_run evs) \<noteq> None \<longleftrightarrow>
        s_effective_presented (sched_run evs) \<and> \<not> s_presented (sched_run evs)) \<and>
     (if s_first_paint_issued (sched_run evs)
      then s_first_paint_deadline (sched_run evs) = None \<and> s_first_paint_waiting (sched_run evs) = []
      else s_first_paint_deadline (sched_run evs) \<noteq> None) \<and>
     (s_activation_waiting (sched_run evs) \<noteq> [] \<longrightarrow>
        s_activation_deadline (sched_run evs) \<noteq> None)"
  using sched_run_front [of evs] by (auto simp: front_inv_def front_ok_def)

lemma presentation_invariant_witness:
  "s_first_paint_deadline (sched_run [Startup 0 (demo_config (from_secs 1)) 1]) \<noteq> None"
  using presentation_invariant [of "[Startup 0 (demo_config (from_secs 1)) 1]"]
  by (simp add: run_defs demo_defs Let_def)

text \<open>
  Bounds. No pending deadline is further away than its period: one display interval, the 200 ms
  of the first paint, the 100 ms of an activation, the second of the deactivation grace.
\<close>

theorem deadlines_within_periods:
  "s_lifecycle (sched_run evs) \<noteq> Unstarted \<Longrightarrow>
     within_period (s_next_display (sched_run evs)) (s_display_interval (sched_run evs))
       (s_now (sched_run evs)) \<and>
     within_period (s_first_paint_deadline (sched_run evs)) FIRST_PAINT_TIMEOUT
       (s_now (sched_run evs)) \<and>
     within_period (s_activation_deadline (sched_run evs)) ACTIVATION_REFRESH_TIMEOUT
       (s_now (sched_run evs)) \<and>
     within_period (s_deactivation_deadline (sched_run evs)) DEACTIVATION_GRACE
       (s_now (sched_run evs))"
  using sched_run_front [of evs] by (auto simp: front_inv_def front_ok_def)

lemma deadlines_within_periods_witness:
  "within_period (s_next_display (sched_run [Startup 5 (demo_config (from_secs 1)) 1]))
     (s_display_interval (sched_run [Startup 5 (demo_config (from_secs 1)) 1]))
     (s_now (sched_run [Startup 5 (demo_config (from_secs 1)) 1]))"
  by (rule deadlines_within_periods [THEN conjunct1]) (simp add: run_defs demo_defs Let_def)

lemma first_paints_handle:
  "first_paints (actions (snd (handle s ev))) =
     of_bool (s_first_paint_issued (fst (handle s ev))) - of_bool (s_first_paint_issued s)"
  using pub_sim_handle [of s ev] by (simp add: pub_sim_def pub_count_def)

lemma first_paints_run:
  "sum_list (map (first_paints \<circ> actions) (transitions_from s evs)) =
     of_bool (s_first_paint_issued (fold sched_step evs s)) - of_bool (s_first_paint_issued s)"
proof (induction evs arbitrary: s)
  case (Cons ev evs)
  obtain s' t where h: "handle s ev = (s', t)" by (cases "handle s ev")
  then have "sched_step ev s = s'" by (simp add: sched_step_def)
  then show ?case using Cons.IH [of s'] first_paints_handle [of s ev] by (simp add: h)
qed simp

text \<open>
  Safety. Along any run, the number of first-paint publications is one when the first paint has
  been issued and zero before: it is published exactly once.
\<close>

theorem first_paint_once:
  "sum_list (map (first_paints \<circ> actions) (transitions_from scheduler_new evs)) =
     of_bool (s_first_paint_issued (sched_run evs))"
  by (simp add: first_paints_run sched_run_def) (simp add: scheduler_new_def)

lemma first_paint_time:
  assumes "front_ok s" "s_lifecycle s = Running" "s_now s + FIRST_PAINT_TIMEOUT \<le> n"
  shows "s_first_paint_issued (fst (handle s (TimeAdvanced n)))"
proof -
  let ?io = "pt_deactivation (s\<lparr>s_now := n\<rparr>, [])"
  have "front_ok (s\<lparr>s_now := n\<rparr>)" using assms by (intro front_ok_later) simp_all
  moreover have "front_ok (fst ?io)"
    using calculation
    by (auto simp: pt_deactivation_def Let_def due_def front_ok_def split: option.splits)
  moreover have "s_first_paint_issued s \<or> due (s_first_paint_deadline s) n"
    using assms by (auto simp: front_ok_def within_period_def due_def)
  ultimately have "s_first_paint_issued (fst (pt_first_paint ?io))"
    by (auto simp: pt_first_paint_def Let_def front_first_paint)
  then have "s_first_paint_issued (fst (tick (s\<lparr>s_now := n\<rparr>, [])))"
    using assms(2) by (simp add: tick_def process_time_def)
  moreover have "handle s (TimeAdvanced n) =
      finish_transition (Accepted, tick (s\<lparr>s_now := n\<rparr>, []))"
    using assms(2,3) by (simp add: handle_def handle_event_def is_startup_def is_stale_def)
  ultimately show ?thesis
    by (simp add: finish_transition_def Let_def push_def split: option.split)
qed

text \<open>
  C7. Liveness. A running scheduler that is told the time 200 ms or more after its last event has
  issued its first paint, whatever its jobs do.
\<close>

theorem first_paint_happens:
  assumes "s_lifecycle (sched_run evs) = Running" "s_now (sched_run evs) + FIRST_PAINT_TIMEOUT \<le> n"
  shows "s_first_paint_issued (sched_run (evs @ [TimeAdvanced n]))"
  using first_paint_time [of "sched_run evs" n] sched_run_front [of evs] assms
  by (simp add: sched_run_snoc front_inv_def)

lemma first_paint_happens_witness:
  "s_first_paint_issued (sched_run ([Startup 5 (demo_config (from_secs 1)) 1] @
     [TimeAdvanced 200000005]))"
  by (rule first_paint_happens)
    (simp_all add: run_defs demo_defs Let_def FIRST_PAINT_TIMEOUT_def from_millis_def)

section \<open>Publications and notifications\<close>

text \<open>
  Safety. Every publication of a transition reaches the panel or the tooltip; it reaches the
  tooltip only while one is presented; a panel publication is registered for its acknowledgement.
\<close>

theorem publication_shape:
  assumes "PublishDisplay p r d k pan tip \<in> set (actions (snd (handle s ev)))"
  shows "(pan \<or> tip) \<and> (tip \<longrightarrow> s_presented (fst (handle s ev))) \<and>
    (pan \<longrightarrow> p \<in> set (s_panel_publications (fst (handle s ev))))"
proof -
  have "pub_ok (fst (handle s ev), actions (snd (handle s ev)))"
    using pub_sim_handle [of s ev] by (simp add: pub_sim_def pub_ok_def)
  then show ?thesis using assms by (force simp: pub_ok_def pubs_def)
qed

lemma publication_shape_witness:
  "1 \<in> set (s_panel_publications (fst (handle
     (sched_run [Startup 5 (demo_config (from_secs 1)) 1]) (TimeAdvanced 200000005))))"
  using publication_shape [of 1 Pub_FirstPaintTimeout None 0 True False
      "sched_run [Startup 5 (demo_config (from_secs 1)) 1]" "TimeAdvanced 200000005"]
  by (simp add: run_defs demo_defs finish_defs Let_def u64_saturating_add_def from_secs_def
      nanos_per_sec_def dur_saturating_add_def FIRST_PAINT_TIMEOUT_def from_millis_def
      duration_max_def u64_max_def source_samples_def nominal_step_def retry_step_def
      due_intervals_def skipped_intervals_def)

lemma pub_ids_run:
  assumes "s_next_publication_id (fold sched_step evs s) < u64_max"
  shows "concat (map (pub_ids \<circ> actions) (transitions_from s evs)) =
      [s_next_publication_id s ..< s_next_publication_id (fold sched_step evs s)] \<and>
    s_next_publication_id s \<le> s_next_publication_id (fold sched_step evs s) \<and>
    s_next_publication_id s < u64_max"
  using assms
proof (induction evs arbitrary: s)
  case (Cons ev evs)
  obtain s' t where h: "handle s ev = (s', t)" by (cases "handle s ev")
  have st: "sched_step ev s = s'" by (simp add: sched_step_def h)
  note ih = Cons.IH [of s', OF Cons.prems [unfolded fold_simps st]]
  moreover have "pub_ids (actions t) = [s_next_publication_id s ..< s_next_publication_id s'] \<and>
      s_next_publication_id s \<le> s_next_publication_id s' \<and> s_next_publication_id s < u64_max"
    using pub_sim_handle [of s ev] ih by (simp add: pub_sim_def ids_sim_def h)
  ultimately show ?case
    by (simp add: h st) (metis le_add_diff_inverse le_trans upt_add_eq_append)
qed simp

text \<open>
  Safety. The ids of the publications of a run are 1, 2, 3, ... in order: no id is used twice.
\<close>

theorem publication_ids_consecutive:
  "s_next_publication_id (sched_run evs) < u64_max \<Longrightarrow>
     concat (map (pub_ids \<circ> actions) (transitions_from scheduler_new evs)) =
       [1 ..< s_next_publication_id (sched_run evs)]"
  using pub_ids_run [of evs scheduler_new] by (simp add: sched_run_def) (simp add: scheduler_new_def)

lemma publication_ids_consecutive_witness:
  "concat (map (pub_ids \<circ> actions) (transitions_from scheduler_new
     [Startup 5 (demo_config (from_secs 1)) 1])) =
   [1 ..< s_next_publication_id (sched_run [Startup 5 (demo_config (from_secs 1)) 1])]"
  by (rule publication_ids_consecutive)
    (simp add: run_defs demo_defs Let_def u64_saturating_add_def u64_max_def)

end
