(* ===== verification/SchedGuards.thy ===== *)
theory SchedGuards
  imports SchedProps
begin

text \<open>
  What gates the scheduler's actions: which operation can emit which kind of action (\<open>by_kind\<close>), the
  acknowledgement that arms the notifications, the inventory a resume waits for, rejected events,
  the terminal state, the order of the actions.
\<close>

section \<open>Kinds of actions\<close>

definition by_kind :: "nat \<Rightarrow> scheduler_action list \<Rightarrow> scheduler_action list" where
  "by_kind k acts = filter (\<lambda>a. action_priority a = k) acts"

lemma by_kind_simps [simp]:
  "by_kind k [] = []" "by_kind k (xs @ ys) = by_kind k xs @ by_kind k ys"
  "by_kind k (a # acts) = (if action_priority a = k then a # by_kind k acts else by_kind k acts)"
  by (simp_all add: by_kind_def)

lemma by_kind_map: "(\<And>x. action_priority (f x) \<noteq> k) \<Longrightarrow> by_kind k (map f xs) = []"
  by (simp add: by_kind_def filter_empty_conv)

lemma by_kind_sort [simp]: "by_kind k (sort_actions acts) = by_kind k acts"
  by (simp add: by_kind_def sort_actions_def sort_key_stable)

lemma in_by_kind: "a \<in> set acts \<Longrightarrow> a \<in> set (by_kind (action_priority a) acts)"
  by (simp add: by_kind_def)

lemma by_kind_coalesce:
  "coalesce_refresh r d n acts = Some (p, acts') \<Longrightarrow> k \<noteq> 3 \<Longrightarrow> by_kind k acts' = by_kind k acts"
  by (induction r d n acts arbitrary: p acts' rule: coalesce_refresh.induct)
    (auto split: if_splits)

lemma by_kind_publish [simp]:
  assumes "k \<noteq> 3"
  shows "by_kind k (snd (issue_publish r d n pan tip io)) = by_kind k (snd io)"
proof -
  obtain s acts where io: "io = (s, acts)" by (cases io)
  show ?thesis
    by (cases rule: publish_cases [of r d n pan tip s acts])
      (use assms by_kind_coalesce in \<open>auto simp: io\<close>)
qed

lemma by_kind_first_paint [simp]:
  "k \<noteq> 3 \<Longrightarrow> by_kind k (snd (issue_first_paint r io)) = by_kind k (snd io)"
  by (cases io) (simp add: issue_first_paint_def Let_def)

text \<open>Cancellations are kind 1, invalidations 0, baselines 2, rescans 5, backoffs 6, terminations 9.\<close>

lemma by_kind_cancel [simp]:
  assumes "k \<noteq> 1"
  shows "by_kind k (snd (cancel_in_flight P c io)) = by_kind k (snd io)"
    "by_kind k (snd (cancel_all c io)) = by_kind k (snd io)"
    "by_kind k (snd (cancel_demand_ended b a io)) = by_kind k (snd io)"
    "by_kind k (snd (refresh_demand x io)) = by_kind k (snd io)"
  using assms by (simp_all add: cancel_in_flight_def cancel_all_def cancel_demand_ended_def
      refresh_demand_def by_kind_map on_state_def Let_def split: prod.split)

lemma by_kind_replace_fold:
  "k \<noteq> 0 \<Longrightarrow> by_kind k (snd (snd (fold (replace_one s d r) specs st))) = by_kind k (snd (snd st))"
proof (induction specs arbitrary: st)
  case (Cons spec specs)
  have "by_kind k (snd (snd (replace_one s d r spec st))) = by_kind k (snd (snd st))"
    using Cons.prems by (simp add: replace_one_def Let_def split: prod.split option.split)
  then show ?case using Cons by simp
qed simp

lemma by_kind_ops [simp]:
  assumes k: "k \<noteq> 0" "k \<noteq> 1" "k \<noteq> 3"
  shows "by_kind k (snd (replace_jobs specs c io)) = by_kind k (snd io)"
    "by_kind k (snd (rebuild_first_paint_blockers io)) = by_kind k (snd io)"
    "by_kind k (snd (refresh_activation io)) = by_kind k (snd io)"
    "by_kind k (snd (clear_histories i io)) = by_kind k (snd io)"
    "by_kind k (snd (settle_waits io)) = by_kind k (snd io)"
    "by_kind k (snd (suspend io)) = by_kind k (snd io)"
    "by_kind k (snd (pt_deactivation io)) = by_kind k (snd io)"
    "by_kind k (snd (pt_first_paint io)) = by_kind k (snd io)"
    "by_kind k (snd (pt_activation io)) = by_kind k (snd io)"
    "by_kind k (snd (pt_display io)) = by_kind k (snd io)"
    "by_kind k (snd (pt_jobs io)) = by_kind k (snd io)"
proof -
  show "by_kind k (snd (replace_jobs specs c io)) = by_kind k (snd io)"
    using k by_kind_replace_fold [OF k(1)]
    by (simp add: replace_jobs_def Let_def case_prod_unfold by_kind_map)
qed (use k in \<open>simp_all add: rebuild_first_paint_blockers_def refresh_activation_def
    clear_histories_def settle_waits_def suspend_def pt_deactivation_def pt_first_paint_def
    pt_activation_def pt_display_def pt_jobs_def on_state_def by_kind_map Let_def
    split: prod.split\<close>)

lemma by_kind_handlers [simp]:
  assumes k: "k \<noteq> 0" "k \<noteq> 1" "k \<noteq> 3"
  shows "by_kind k (snd (change_inventory u io)) = by_kind k (snd io)"
    "by_kind k (snd (change_demand dp io)) = by_kind k (snd io)"
    "by_kind k (snd (change_presentation p io)) = by_kind k (snd io)"
    "by_kind k (snd (change_page g io)) = by_kind k (snd io)"
    "by_kind k (snd (reconfigure config c io)) = by_kind k (snd io)"
    "by_kind k (snd (process_time io)) = by_kind k (snd io)"
    "by_kind k (snd (tick io)) = by_kind k (snd io)"
    "by_kind k (snd (snd (finish_cancellation t io))) = by_kind k (snd io)"
    "by_kind k (snd (snd (startup config gen io))) = by_kind k (snd io)"
  using k by (simp_all add: change_inventory_def change_demand_def change_presentation_def
      change_page_def reconfigure_def process_time_def tick_def finish_cancellation_def startup_def
      on_state_def Let_def split: prod.split)

lemma by_kind_dispatch:
  assumes "k \<noteq> 7"
  shows "by_kind k (snd (dispatch io)) = by_kind k (snd io)"
proof -
  have one: "by_kind k (snd (dispatch_one i io)) = by_kind k (snd io)" for i io
    using assms by (simp add: dispatch_one_def Let_def split: prod.split option.split)
  have "by_kind k (snd (fold dispatch_one is io)) = by_kind k (snd io)" for "is"
    by (induction "is" arbitrary: io) (simp_all add: one)
  then show ?thesis by (simp add: dispatch_def Let_def)
qed

text \<open>A transition carries the actions of its event, plus starts (kind 7) and a wake-up (kind 8).\<close>

lemma by_kind_handle:
  assumes "k \<noteq> 7" "k \<noteq> 8"
  shows "by_kind k (actions (snd (handle s ev))) = [] \<or>
    by_kind k (actions (snd (handle s ev))) =
      by_kind k (snd (snd (handle_event ev (s\<lparr>s_now := event_at ev\<rparr>, []))))"
  using assms by (auto simp: handle_def rejected_def finish_transition_def push_def Let_def
      by_kind_dispatch split: prod.split option.split)

section \<open>Notifications\<close>

lemma evaluations_event:
  assumes "EvaluateNotifications t \<in> set (snd (snd (handle_event ev (s, []))))"
  shows "s_notifications_armed s \<and> (\<exists>n c. ev = JobFinished n t c True) \<and>
    (\<exists>rt. bm_get (s_jobs (fst (tick (s, [])))) (tk_job t) = Some rt \<and> timing rt \<noteq> History)"
proof -
  have mem: "EvaluateNotifications t \<in> set (by_kind 4 (snd (snd (handle_event ev (s, [])))))"
    using in_by_kind [OF assms] by simp
  show ?thesis
  proof (cases ev)
    case (JobFinished n u c ready)
    obtain s1 acts where tick: "tick (s, []) = (s1, acts)" by (cases "tick (s, [])")
    have acts: "by_kind 4 acts = []" using by_kind_handlers(7) [of 4 "(s, [])"] by (simp add: tick)
    have armed: "s_notifications_armed s1 = s_notifications_armed s"
      using tick_frame [of "(s, [])"] by (simp add: tick)
    show ?thesis
      using mem acts armed
      by (auto simp: JobFinished handle_event_def accept_if_def tick finish_job_def Let_def
          backoff_actions_def split: if_splits option.splits)
  next
    case (Resume n)
    then show ?thesis using mem
      by (simp add: handle_event_def resume_def Let_def by_kind_map split: if_splits)
  next
    case (PanelPublished n p)
    then show ?thesis using mem by (simp add: handle_event_def on_state_def split: if_splits)
  qed (use mem in \<open>simp_all add: handle_event_def accept_if_def on_state_def stop_def push_def
      split: if_splits\<close>)
qed

lemma armed_event:
  "s_notifications_armed (fst (snd (handle_event ev io))) \<Longrightarrow>
     s_notifications_armed (fst io) \<or> (\<exists>n p. ev = PanelPublished n p)"
  by (cases ev; cases io)
    (auto simp: handle_event_def accept_if_def startup_def startup_jobs_def on_state_def Let_def
      split: if_splits)

lemma armed_transition [simp]:
  "s_notifications_armed (fst (finish_transition r)) = s_notifications_armed (fst (snd r))"
  by (cases r) (simp add: finish_transition_def Let_def push_def split: option.split)

lemma armed_handle:
  "s_notifications_armed (fst (handle s ev)) \<Longrightarrow>
     s_notifications_armed s \<or> (\<exists>n p. ev = PanelPublished n p)"
  using armed_event [of ev "(s\<lparr>s_now := event_at ev\<rparr>, [])"]
  by (auto simp: handle_def Let_def split: if_splits)

lemma armed_run: "s_notifications_armed (sched_run evs) \<Longrightarrow> \<exists>n p. PanelPublished n p \<in> set evs"
proof (induction evs rule: rev_induct)
  case Nil
  then show ?case by (simp add: sched_run_def scheduler_new_def)
next
  case (snoc ev evs)
  then show ?case using armed_handle [of "sched_run evs" ev] by (auto simp: sched_run_snoc)
qed

text \<open>
  Safety. A notification is evaluated only for the ticket of a \<open>JobFinished\<close> event that is ready
  for it, and only when some earlier event of the run acknowledged a panel publication.
\<close>

theorem notifications_gated:
  assumes "EvaluateNotifications t \<in> set (actions (snd (handle (sched_run evs) ev)))"
  shows "(\<exists>n c. ev = JobFinished n t c True) \<and> (\<exists>n p. PanelPublished n p \<in> set evs)"
proof -
  let ?s = "(sched_run evs)\<lparr>s_now := event_at ev\<rparr>"
  have "EvaluateNotifications t \<in> set (by_kind 4 (actions (snd (handle (sched_run evs) ev))))"
    using in_by_kind [OF assms] by simp
  then have "EvaluateNotifications t \<in> set (by_kind 4 (snd (snd (handle_event ev (?s, [])))))"
    using by_kind_handle [of 4 "sched_run evs" ev] by auto
  then have "EvaluateNotifications t \<in> set (snd (snd (handle_event ev (?s, []))))"
    by (simp add: by_kind_def)
  from evaluations_event [OF this] show ?thesis using armed_run [of evs] by auto
qed

definition demo_run :: "scheduler_event list" where
  "demo_run = [Startup 0 (demo_config (from_secs 1)) 1, TimeAdvanced 200000000, PanelPublished 200000001 1]"

lemmas time_defs = from_secs_def nanos_per_sec_def dur_saturating_add_def from_millis_def
  duration_max_def u64_max_def sched_consts source_samples_def nominal_step_def retry_step_def
  due_intervals_def skipped_intervals_def u64_saturating_add_def

text \<open>The state that run ends in, written out so that the witnesses need not replay the run.\<close>

definition demo_state :: scheduler where
  "demo_state =
     \<lparr>s_lifecycle = Running, s_now = 200000001, s_config_generation = 1,
      s_inventory_generation = 1, s_display_interval = 1000000000,
      s_next_display = Some 1000000000,
      s_jobs = [(demo_job,
        \<lparr>jr_spec = (spec_periodic demo_job 1000000000)\<lparr>spec_startup_panel := True\<rparr>,
         nominal_due = Some 1000000000, retry_due = None, pending_since = None,
         pending_history_deadline = None, in_flight = Some demo_ticket, has_sample = False,
         failure_count = 0, needs_baseline = False\<rparr>)],
      s_demand = \<lparr>dp_hidden = [demo_job], dp_main_tooltip = [], dp_pages = []\<rparr>,
      s_presented = False, s_effective_presented = False, s_selected_page = Page_Main,
      s_deactivation_deadline = None, s_activation_deadline = None, s_activation_waiting = [],
      s_first_paint_deadline = None, s_first_paint_waiting = [], s_first_paint_issued = True,
      s_notifications_armed = True, s_panel_publications = [],
      s_in_flight_owners = [(Own_Cpu, 1)], s_cancelling = [],
      s_awaiting_resume_inventory = None, s_next_run_id = 2, s_next_publication_id = 2,
      s_next_resume_reconciliation_id = 1\<rparr>"

lemma demo_run_state: "sched_run demo_run = demo_state"
  by (simp add: demo_run_def run_defs demo_defs finish_defs time_defs Let_def demo_state_def)

lemma notifications_gated_witness:
  "\<exists>n p. PanelPublished n p \<in> set demo_run"
  by (rule notifications_gated [THEN conjunct2, of demo_ticket _ "JobFinished 200000002 demo_ticket Captured True"])
    (simp add: demo_run_state demo_state_def step_defs demo_defs finish_defs time_defs Let_def)

section \<open>Resuming\<close>

lemma by_kind_finish [simp]:
  assumes "k \<notin> {0, 1, 3, 4, 6}"
  shows "by_kind k (snd (snd (finish_job t c ready io))) = by_kind k (snd io)"
  using assms by (cases io) (auto simp: finish_job_def backoff_actions_def Let_def split: option.split)

lemma wakes_event [simp]: "by_kind 8 (snd (snd (handle_event ev io))) = by_kind 8 (snd io)"
proof (cases ev)
  case (Resume n)
  then show ?thesis
    by (cases io) (simp add: handle_event_def resume_def Let_def by_kind_map)
qed (simp_all add: handle_event_def accept_if_def on_state_def stop_def push_def)

lemma awaiting_event:
  assumes "s_awaiting_resume_inventory (fst io) = Some r" "s_lifecycle (fst io) = Running"
    and "\<forall>n u. ev = InventoryChanged n u \<longrightarrow> resume_acknowledgement u \<noteq> Some r" "\<not> is_startup ev"
  shows "s_awaiting_resume_inventory (fst (snd (handle_event ev io))) = Some r"
  using assms
  by (cases ev; cases io)
    (simp_all add: handle_event_def accept_if_def is_startup_def change_inventory_def on_state_def
      resume_def Let_def)

text \<open>
  Safety. While the scheduler waits for the inventory of a resume, no event other than the
  acknowledgement of exactly that resume makes it start a job or ask for a wake-up, and it goes on
  waiting.
\<close>

theorem resume_gate:
  assumes "s_awaiting_resume_inventory s = Some r" "s_lifecycle s = Running"
    and "\<forall>n u. ev = InventoryChanged n u \<longrightarrow> resume_acknowledgement u \<noteq> Some r"
  shows "s_awaiting_resume_inventory (fst (handle s ev)) = Some r \<and>
    starts (actions (snd (handle s ev))) = [] \<and>
    (\<forall>d. ScheduleDeadline d \<notin> set (actions (snd (handle s ev))))"
proof (cases "handle s ev = (s, snd (handle s ev)) \<and> actions (snd (handle s ev)) = []")
  case True
  then show ?thesis using assms by (metis empty_iff empty_set fst_conv starts.simps(1))
next
  case False
  obtain d io where r: "handle_event ev (s\<lparr>s_now := event_at ev\<rparr>, []) = (d, io)"
    by (meson surj_pair)
  have h: "handle s ev = finish_transition (d, io)" "\<not> is_startup ev"
    using False assms(2) by (auto simp: handle_def rejected_def Let_def r split: if_splits)
  have "s_awaiting_resume_inventory (fst io) = Some r"
    using awaiting_event [of "(s\<lparr>s_now := event_at ev\<rparr>, [])" r ev] assms h(2) r by simp
  moreover have "starts (snd io) = []"
    using starts_event [of ev "(s\<lparr>s_now := event_at ev\<rparr>, [])"] by (simp add: r)
  moreover have "ScheduleDeadline n \<notin> set (snd io)" for n
  proof
    assume "ScheduleDeadline n \<in> set (snd io)"
    then have "ScheduleDeadline n \<in> set (by_kind 8 (snd io))" by (auto dest: in_by_kind)
    moreover have "by_kind 8 (snd io) = []"
      using wakes_event [of ev "(s\<lparr>s_now := event_at ev\<rparr>, [])"] by (simp add: r)
    ultimately show False by simp
  qed
  ultimately show ?thesis
    by (simp add: h finish_transition_def Let_def next_wake_def dispatch_def)
qed

definition demo_resumed :: scheduler where
  "demo_resumed = demo_state\<lparr>s_awaiting_resume_inventory := Some 1\<rparr>"

lemma resume_gate_witness:
  "starts (actions (snd (handle demo_resumed (TimeAdvanced 9000000000)))) = []"
  by (rule resume_gate [where r = 1, THEN conjunct2, THEN conjunct1])
    (simp_all add: demo_resumed_def demo_state_def)

section \<open>Rejection and time\<close>

lemma event_dispositions:
  "\<not> is_startup ev \<Longrightarrow>
     fst (handle_event ev io) = Accepted \<or> fst (handle_event ev io) = RejectedStale"
  by (cases ev) (simp_all add: handle_event_def accept_if_def is_startup_def)

lemma disposition_transition [simp]: "disposition (snd (finish_transition r)) = fst r"
  by (cases r) (simp add: finish_transition_def Let_def)

text \<open>
  Error behaviour. An event before the scheduler's clock, or one the lifecycle does not allow,
  is rejected without any change or action; so is a stale event.
\<close>

theorem rejected_unchanged:
  assumes "disposition (snd (handle s ev)) = RejectedTimeRegression \<or>
      disposition (snd (handle s ev)) = RejectedLifecycle \<or> is_stale s ev"
    and "s_lifecycle s \<noteq> Unstarted"
  shows "fst (handle s ev) = s \<and> actions (snd (handle s ev)) = []"
  using assms event_dispositions [of ev "(s\<lparr>s_now := event_at ev\<rparr>, [])"]
  by (auto simp: handle_def rejected_def Let_def split: if_splits)

lemma rejected_unchanged_witness:
  "fst (handle (sched_run demo_run) (TimeAdvanced 3)) = sched_run demo_run"
  by (rule rejected_unchanged [THEN conjunct1])
    (simp_all add: demo_run_state demo_state_def handle_def rejected_def)

lemma now_event: "s_now (fst (snd (handle_event ev io))) = s_now (fst io)"
  by (cases ev; cases io)
    (simp_all add: handle_event_def accept_if_def startup_def startup_jobs_def on_state_def Let_def)

lemma now_handle:
  assumes "front_inv s"
  shows "s_now s \<le> s_now (fst (handle s ev))"
proof -
  have "s_lifecycle s = Unstarted \<Longrightarrow> s_now s = 0" using assms by (simp add: front_inv_def)
  moreover have "s_now (fst (finish_transition r)) = s_now (fst (snd r))" for r
    by (cases r) (simp add: finish_transition_def Let_def push_def split: option.split)
  ultimately show ?thesis
    by (auto simp: handle_def now_event Let_def)
qed

text \<open>Invariant. The scheduler's clock never runs backwards along a run.\<close>

theorem clock_monotone: "s_now (sched_run evs) \<le> s_now (sched_run (evs @ later))"
proof (induction later rule: rev_induct)
  case (snoc ev later)
  have "s_now (sched_run (evs @ later)) \<le> s_now (sched_run ((evs @ later) @ [ev]))"
    unfolding sched_run_snoc by (rule now_handle [OF sched_run_front])
  with snoc show ?case by (simp add: le_trans)
qed simp

section \<open>Stopping\<close>

lemma stopped_handle:
  "s_lifecycle s = Stopped \<Longrightarrow> fst (handle s ev) = s \<and> actions (snd (handle s ev)) = []"
  by (simp add: handle_def rejected_def Let_def)

text \<open>
  Safety. A shutdown or a critical failure that is accepted stops the scheduler for good: every
  ticket in flight is cancelled, and whatever events follow, the state stays and no action is issued.
\<close>

theorem stop_is_final:
  assumes "s_lifecycle (sched_run evs) \<noteq> Unstarted" "s_now (sched_run evs) \<le> n"
    and "s_lifecycle (sched_run evs) \<noteq> Stopped" "ev = Shutdown n \<or> ev = CriticalFailure n why"
  shows "(\<forall>i rt t. bm_get (s_jobs (sched_run evs)) i = Some rt \<and> in_flight rt = Some t \<longrightarrow>
        (\<exists>c. CancelJob t c \<in> set (actions (snd (handle (sched_run evs) ev))))) \<and>
    sched_run (evs @ ev # later) = sched_run (evs @ [ev]) \<and>
    concat (map actions (transitions_from (sched_run (evs @ [ev])) later)) = []"
proof -
  let ?s = "sched_run evs"
  obtain reason component where h:
    "handle ?s ev = finish_transition (Accepted, stop reason component (?s\<lparr>s_now := n\<rparr>, []))"
    using assms by (auto simp: handle_def handle_event_def is_startup_def is_stale_def)
  then have stopped: "s_lifecycle (sched_run (evs @ [ev])) = Stopped"
    by (simp add: sched_run_snoc stop_def push_def on_state_def)
  have rest: "fold sched_step later s = s \<and> concat (map actions (transitions_from s later)) = []"
    if stopped: "s_lifecycle s = Stopped" for s
  proof (induction later)
    case (Cons a later)
    obtain t where "handle s a = (s, t)" "actions t = []"
      using stopped_handle [OF stopped, of a] by (metis prod.collapse)
    with Cons show ?case by (simp add: sched_step_def)
  qed simp
  have "sched_run (evs @ ev # later) = fold sched_step later (sched_run (evs @ [ev]))"
    by (simp add: sched_run_def)
  moreover have "\<exists>c. CancelJob t c \<in> set (actions (snd (handle ?s ev)))"
    if "bm_get (s_jobs ?s) i = Some rt" "in_flight rt = Some t" for i rt t
  proof -
    have "t \<in> set (tickets_where (\<lambda>_. True) (s_jobs ?s))"
      using that by (force simp: tickets_where_def map_filter_in dest: bm_get_in)
    then have "CancelJob t reason \<in> set (snd (stop reason component (?s\<lparr>s_now := n\<rparr>, [])))"
      by (simp add: stop_def push_def on_state_def cancel_all_def cancel_in_flight_def Let_def)
    then show ?thesis
      by (auto simp: h finish_transition_def Let_def stop_def push_def on_state_def)
  qed
  ultimately show ?thesis using rest [OF stopped] by metis
qed

lemma stop_is_final_witness:
  "sched_run (demo_run @ Shutdown 200000009 # [Resume 300000000]) = sched_run (demo_run @ [Shutdown 200000009])"
  by (rule stop_is_final [where n = 200000009 and why = "[]", THEN conjunct2, THEN conjunct1])
    (simp_all add: demo_run_state demo_state_def)

section \<open>Order\<close>

lemma transition_sorted: "sorted (map action_priority (actions (snd (finish_transition r))))"
  by (cases r) (simp add: finish_transition_def Let_def sort_actions_def)

text \<open>
  Functional. The actions of a transition are sorted by priority, and actions of the same kind
  keep the order in which the event issued them: sorting only moves kinds past each other.
\<close>

theorem actions_sorted:
  "sorted (map action_priority (actions (snd (handle s ev)))) \<and>
   (\<forall>acts k. filter (\<lambda>a. action_priority a = k) (sort_actions acts) =
      filter (\<lambda>a. action_priority a = k) acts \<and> mset (sort_actions acts) = mset acts)"
  using transition_sorted by (simp add: handle_def rejected_def Let_def)
    (simp add: sort_actions_def sort_key_stable)

end
