(* ===== verification/SchedWakes.thy ===== *)
theory SchedWakes
  imports SchedGuards
begin

text \<open>
  Deadlines: the grid arithmetic of \<open>src/scheduler/machine/policy.rs\<close> against its meaning, and the
  wake-ups the scheduler asks for.
\<close>

section \<open>Grids\<close>

text \<open>
  C15. Functional. With a positive cadence, \<open>advance_past\<close> returns the first point of the grid
  \<open>deadline + k * cadence\<close>, \<open>k > 0\<close>, that is later than now, or the largest duration when that point
  lies beyond it.
\<close>

theorem advance_past_least:
  assumes "0 < cadence" "deadline \<le> duration_max"
  shows "advance_past deadline cadence now =
    min duration_max (deadline + (LEAST k. 0 < k \<and> now < deadline + k * cadence) * cadence)"
proof -
  have "(LEAST k. 0 < k \<and> now < deadline + k * cadence) = Suc ((now - deadline) div cadence)"
  proof (rule Least_equality)
    show "0 < Suc ((now - deadline) div cadence) \<and>
        now < deadline + Suc ((now - deadline) div cadence) * cadence"
      using assms(1) dividend_less_div_times [of cadence "now - deadline"]
      by (cases "deadline \<le> now") auto
    fix k assume k: "0 < k \<and> now < deadline + k * cadence"
    then have "(now - deadline) div cadence < k"
      using assms(1) by (cases "deadline \<le> now") (auto simp: div_less_iff_less_mult)
    then show "Suc ((now - deadline) div cadence) \<le> k" by simp
  qed
  then show ?thesis using assms(1) by (simp add: advance_past_eq min.commute)
qed

lemma advance_past_least_witness:
  "advance_past 5 10 27 = min duration_max (5 + (LEAST k. 0 < k \<and> 27 < 5 + k * 10) * 10)"
  by (rule advance_past_least) (simp_all add: bounds_defs)

text \<open>
  Functional. The deadline a history job records is the last point of its grid that is not later
  than now, and the number of intervals reported as skipped counts the grid points between the
  deadline and now (saturating).
\<close>

theorem history_deadline_on_grid:
  assumes "0 < cadence" "deadline \<le> now" "now \<le> duration_max"
  shows "\<exists>k. latest_due_at_or_before deadline cadence now = deadline + k * cadence \<and>
      skipped_intervals deadline cadence now = min k u64_max \<and>
      deadline + k * cadence \<le> now \<and> now < deadline + Suc k * cadence"
proof (intro exI conjI)
  let ?k = "(now - deadline) div cadence"
  have below: "deadline + ?k * cadence \<le> now" using div_grid_below assms(2) by simp
  then show "deadline + ?k * cadence \<le> now" .
  show "now < deadline + Suc ?k * cadence" using div_grid_above assms by simp
  show "latest_due_at_or_before deadline cadence now = deadline + ?k * cadence"
    using below assms by (auto simp: latest_due_eq)
  show "skipped_intervals deadline cadence now = min ?k u64_max"
    using assms by (auto simp: skipped_intervals_def dur_saturating_sub_def)
qed

lemma history_deadline_on_grid_witness:
  "\<exists>k. latest_due_at_or_before 5 10 27 = 5 + k * 10 \<and> skipped_intervals 5 10 27 = min k u64_max \<and>
     5 + k * 10 \<le> 27 \<and> 27 < 5 + Suc k * 10"
  by (rule history_deadline_on_grid) (simp_all add: bounds_defs)

text \<open>
  Bounds. The retry delay doubles with each failure from 100 ms, never falls below 100 ms or
  exceeds the larger of the job's freshness and 100 ms, and never shrinks when failures add up.
\<close>

theorem retry_delay_bounds:
  "RETRY_BASE \<le> retry_delay n f \<and> retry_delay n f \<le> max f RETRY_BASE \<and>
   (n \<le> m \<longrightarrow> retry_delay n f \<le> retry_delay m f) \<and>
   (RETRY_BASE * 2 ^ n \<le> f \<and> n < 31 \<longrightarrow> retry_delay (Suc n) f = RETRY_BASE * 2 ^ n)"
proof -
  have "RETRY_BASE \<le> retry_delay n f \<and> retry_delay n f \<le> max f RETRY_BASE"
    by (simp add: retry_delay_eq)
  moreover have "retry_delay n f \<le> retry_delay m f" if "n \<le> m"
    unfolding retry_delay_eq using that
    by (intro min.mono mult_le_mono2 power_increasing) auto
  moreover have "retry_delay (Suc n) f = RETRY_BASE * 2 ^ n"
    if "RETRY_BASE * 2 ^ n \<le> f" "n < 31"
    using that by (simp add: retry_delay_eq min_absorb1 le_max_iff_disj)
  ultimately show ?thesis by blast
qed

lemma retry_delay_bounds_witness: "retry_delay 3 (from_secs 5) \<le> retry_delay 4 (from_secs 5)"
  using retry_delay_bounds [of 3 "from_secs 5" 4] by simp

section \<open>Wake-ups\<close>

text \<open>The jobs' specifications all satisfy a predicate; in particular, their cadences are positive.\<close>

definition specs_sat :: "(job_spec \<Rightarrow> bool) \<Rightarrow> job_map \<Rightarrow> bool" where
  "specs_sat P jobs \<longleftrightarrow> (\<forall>p \<in> set jobs. P (jr_spec (snd p)))"

abbreviation paced :: "job_map \<Rightarrow> bool" where
  "paced \<equiv> specs_sat (\<lambda>spec. 0 < spec_freshness spec)"

lemma sat_map [simp]:
  "(\<And>i rt. jr_spec (f i rt) = jr_spec rt) \<Longrightarrow> specs_sat P (bm_map f jobs) = specs_sat P jobs"
  by (simp add: specs_sat_def bm_map_def case_prod_unfold)

lemma spec_updates [simp]:
  "jr_spec (mark_pending t rt) = jr_spec rt"
  "jr_spec (mark_history_pending t rt) = jr_spec rt"
  "jr_spec (clear_pending rt) = jr_spec rt"
  "jr_spec (retry_step t rt) = jr_spec rt"
  "jr_spec (nominal_step smp t rt) = jr_spec rt"
  by (simp_all add: mark_pending_def mark_history_pending_def clear_pending_def retry_step_def
      nominal_step_def Let_def split: option.splits)

lemma sat_cancel [simp]: "specs_sat P (s_jobs (fst (cancel_in_flight Q c io))) = specs_sat P (s_jobs (fst io))"
  by (simp add: cancel_in_flight_def Let_def split: prod.split)

lemma sat_refresh [simp]: "specs_sat P (s_jobs (fst (refresh_demand x io))) = specs_sat P (s_jobs (fst io))"
  by (simp add: refresh_demand_def on_state_def Let_def)

lemma sat_reanchor [simp]: "specs_sat P (s_jobs (reanchor_fast_jobs s)) = specs_sat P (s_jobs s)"
  by (simp add: reanchor_fast_jobs_def Let_def split: option.split)

lemma sat_first_paint [simp]:
  "specs_sat P (s_jobs (fst (issue_first_paint r io))) = specs_sat P (s_jobs (fst io))"
  by (cases io) (auto simp: issue_first_paint_def Let_def split: option.split)

text \<open>What time has done to a job: its retry and its nominal deadline lie ahead.\<close>

definition ahead :: "sched_time \<Rightarrow> sched_time option \<Rightarrow> bool" where
  "ahead n d \<longleftrightarrow> (\<forall>t. d = Some t \<longrightarrow> n < t)"

lemma ahead_simps [simp]: "ahead n None" "ahead n (Some t) \<longleftrightarrow> n < t"
  by (simp_all add: ahead_def)

lemma not_due_ahead: "\<not> due d n \<Longrightarrow> ahead n d"
  by (cases d) (simp_all add: due_def)

lemma ahead_step:
  assumes "0 < spec_freshness (jr_spec rt)" "n < duration_max"
  shows "ahead n (retry_due (nominal_step smp n (retry_step n rt))) \<and>
    ahead n (nominal_due (nominal_step smp n (retry_step n rt)))"
proof -
  let ?r = "retry_step n rt"
  have "ahead n (retry_due ?r)"
    by (auto simp: retry_step_def mark_pending_def not_due_ahead)
  moreover have "retry_due (nominal_step smp n ?r) = retry_due ?r"
    by (simp add: nominal_step_def mark_history_pending_def mark_pending_def Let_def split: option.split)
  moreover have "spec_freshness (jr_spec ?r) = spec_freshness (jr_spec rt)" by simp
  then have "ahead n (nominal_due (nominal_step smp n ?r))"
    using assms advance_past_future
    by (auto simp: nominal_step_def mark_history_pending_def mark_pending_def Let_def
        split: option.split)
  ultimately show ?thesis by simp
qed

lemma ahead_pt_jobs:
  assumes "paced (s_jobs (fst io))" "s_now (fst io) < duration_max"
    and "(i, rt) \<in> set (s_jobs (fst (pt_jobs io)))" "i \<in> set (current_demand (fst (pt_jobs io)))"
  shows "ahead (s_now (fst io)) (retry_due rt) \<and> ahead (s_now (fst io)) (nominal_due rt)"
proof -
  have "current_demand (fst (pt_jobs io)) = current_demand (fst io)"
    by (simp add: current_demand_def current_demand_for_def)
  moreover obtain u where "(i, u) \<in> set (s_jobs (fst io))"
    "rt = (if i \<notin> set (current_demand (fst io)) then u
           else nominal_step (source_samples (fst io)) (s_now (fst io)) (retry_step (s_now (fst io)) u))"
    using assms(3) by (auto simp: pt_jobs_def on_state_def Let_def bm_map_in)
  ultimately show ?thesis using assms ahead_step by (auto simp: specs_sat_def)
qed

lemma opt_min_in: "opt_min xs = Some d \<Longrightarrow> d \<in> set xs"
proof (cases xs)
  case (Cons x r)
  have "fold min r x \<in> insert x (set r)" for x :: sched_time
  proof (induction r arbitrary: x)
    case (Cons a r)
    then show ?case using Cons.IH [of "min a x"] by (auto simp: min_def split: if_splits)
  qed simp
  then show "opt_min xs = Some d \<Longrightarrow> d \<in> set xs" by (auto simp: opt_min_def Cons)
qed (simp add: opt_min_def)

lemma opt_list_in [simp]: "d \<in> set (opt_list v) \<longleftrightarrow> v = Some d"
  by (cases v) (auto simp: opt_list_def)

text \<open>Every deadline \<open>next_wake\<close> reads lies ahead.\<close>

definition all_ahead :: "sched_time \<Rightarrow> scheduler \<Rightarrow> bool" where
  "all_ahead n s \<longleftrightarrow>
     ahead n (s_next_display s) \<and> ahead n (s_first_paint_deadline s) \<and>
     ahead n (s_deactivation_deadline s) \<and> ahead n (s_activation_deadline s) \<and>
     (\<forall>i rt. (i, rt) \<in> set (s_jobs s) \<and> i \<in> set (current_demand s) \<longrightarrow>
        ahead n (retry_due rt) \<and> ahead n (nominal_due rt))"

lemma next_wake_ahead: "all_ahead n s \<Longrightarrow> next_wake s = Some d \<Longrightarrow> n < d"
proof -
  assume ahead: "all_ahead n s" and "next_wake s = Some d"
  then have "d \<in> set (job_deadlines s @ opt_list (s_next_display s)
      @ opt_list (s_first_paint_deadline s) @ opt_list (s_deactivation_deadline s)
      @ opt_list (s_activation_deadline s))"
    by (auto simp: next_wake_def dest!: opt_min_in split: if_splits)
  moreover have "n < d" if "d \<in> set (job_deadlines s)"
    using that ahead
    by (auto simp: job_deadlines_def map_filter_in all_ahead_def ahead_def dest!: opt_min_in
        split: if_splits)
  ultimately show ?thesis using ahead by (auto simp: all_ahead_def)
qed

lemma dispatch_due:
  assumes "(i, rt) \<in> set (s_jobs (fst (dispatch io)))"
  shows "\<exists>u. (i, u) \<in> set (s_jobs (fst io)) \<and> retry_due u = retry_due rt \<and> nominal_due u = nominal_due rt"
proof -
  have one: "\<exists>u. (i, u) \<in> set (s_jobs (fst io)) \<and> retry_due u = retry_due rt \<and>
      nominal_due u = nominal_due rt"
    if "(i, rt) \<in> set (s_jobs (fst (dispatch_one j io)))" for j io rt
    using that by (cases io) (force simp: dispatch_one_def Let_def bm_modify_in split: if_splits option.splits)
  have "\<exists>u. (i, u) \<in> set (s_jobs (fst io)) \<and> retry_due u = retry_due rt \<and> nominal_due u = nominal_due rt"
    if "(i, rt) \<in> set (s_jobs (fst (fold dispatch_one js io)))" for js io
    using that
  proof (induction js arbitrary: io)
    case (Cons j js)
    then obtain u where "(i, u) \<in> set (s_jobs (fst (dispatch_one j io)))"
      "retry_due u = retry_due rt" "nominal_due u = nominal_due rt" by fastforce
    then show ?case using one [of u j io] by auto
  qed auto
  then show ?thesis using assms by (auto simp: dispatch_def Let_def split: if_splits)
qed

lemma demand_dispatch [simp]: "current_demand (fst (dispatch io)) = current_demand (fst io)"
  by (simp add: current_demand_def current_demand_for_def)

lemma all_ahead_dispatch: "all_ahead n (fst io) \<Longrightarrow> all_ahead n (fst (dispatch io))"
  unfolding all_ahead_def by (auto dest!: dispatch_due) metis+

lemma all_ahead_time:
  assumes ok: "front_ok (fst io)" "s_first_paint_issued (fst io)"
    and pace: "paced (s_jobs (fst io))" "0 < s_display_interval (fst io)"
    and n: "n = s_now (fst io)" "n < duration_max"
  shows "all_ahead n (fst (process_time io))"
proof -
  define a where "a = pt_deactivation io"
  define b where "b = pt_activation a"
  define c where "c = pt_display b"
  have a: "ahead n (s_deactivation_deadline (fst a))" "paced (s_jobs (fst a))"
    "s_first_paint_issued (fst a)" "s_first_paint_deadline (fst a) = None" "s_now (fst a) = n"
    using ok pace n by (auto simp: a_def pt_deactivation_def Let_def not_due_ahead front_ok_def
        split: prod.split)
  have b: "ahead n (s_activation_deadline (fst b))"
    using a(5) by (auto simp: b_def pt_activation_def not_due_ahead split: prod.split)
  have c: "ahead n (s_next_display (fst c))"
  proof -
    have "s_display_interval (fst b) = s_display_interval (fst io)" "s_now (fst b) = n"
      "s_first_paint_issued (fst b)" using a by (simp_all add: b_def a_def)
    then show ?thesis
      using pace(2) n(2) advance_past_future
      by (auto simp: c_def pt_display_def on_state_def Let_def due_def ahead_def
          split: option.splits)
  qed
  have jobs: "paced (s_jobs (fst c))" using a(2) by (simp add: c_def b_def)
  have "process_time io = pt_jobs c"
    using a(3) by (simp add: process_time_def pt_first_paint_def c_def b_def a_def Let_def)
  moreover have "s_now (fst c) = n" using a by (simp add: c_def b_def)
  ultimately have "\<forall>i rt. (i, rt) \<in> set (s_jobs (fst (process_time io))) \<and>
      i \<in> set (current_demand (fst (process_time io))) \<longrightarrow>
      ahead n (retry_due rt) \<and> ahead n (nominal_due rt)"
    using ahead_pt_jobs [OF jobs] n(2) by (metis (no_types))
  then show ?thesis
    using a b c \<open>process_time io = pt_jobs c\<close> unfolding all_ahead_def
    by (simp add: c_def b_def)
qed

text \<open>
  Told the time, a scheduler that has painted once and whose cadences are positive asks to be woken
  strictly later. \<open>ConfiguredRuns\<close> shows the cadences positive for the configurations the catalog makes.
\<close>

lemma wake_ahead:
  assumes "s_lifecycle (sched_run evs) = Running" "s_first_paint_issued (sched_run evs)"
    and "0 < s_display_interval (sched_run evs)" "paced (s_jobs (sched_run evs))"
    and "s_now (sched_run evs) \<le> n" "n < duration_max"
    and "ScheduleDeadline d \<in> set (actions (snd (handle (sched_run evs) (TimeAdvanced n))))"
  shows "n < d"
proof -
  let ?s = "sched_run evs"
  let ?io = "tick (?s\<lparr>s_now := n\<rparr>, [])"
  have "front_ok ?s" using sched_run_front [of evs] assms(1) by (simp add: front_inv_def)
  then have "front_ok (?s\<lparr>s_now := n\<rparr>)" using assms(5) by (simp add: front_ok_later)
  then have "all_ahead n (fst ?io)"
    using all_ahead_time [of "(?s\<lparr>s_now := n\<rparr>, [])" n] assms by (simp add: tick_def)
  then have ahead: "all_ahead n (fst (dispatch ?io))" by (rule all_ahead_dispatch)
  have h: "handle ?s (TimeAdvanced n) = finish_transition (Accepted, ?io)"
    using assms(1,5) by (simp add: handle_def handle_event_def is_startup_def is_stale_def)
  have "by_kind 8 (snd (dispatch ?io)) = []" by (simp add: by_kind_dispatch)
  moreover have "ScheduleDeadline d \<in> set (by_kind 8 (actions (snd (handle ?s (TimeAdvanced n)))))"
    using in_by_kind [OF assms(7)] by simp
  ultimately have "next_wake (fst (dispatch ?io)) = Some d"
    by (auto simp: h finish_transition_def Let_def push_def split: if_splits option.splits)
  then show ?thesis using next_wake_ahead [OF ahead] by simp
qed

text \<open>
  Error behaviour. Before the first paint this fails: with a display interval of 100 ms, the
  smallest the configuration allows, and a first paint that still waits for a job, the scheduler
  answers a time of 150 ms with a wake-up for 100 ms, which has passed. Until the first paint, 200 ms
  after the start at the latest, every such wake-up is immediate.
\<close>

theorem wake_in_past_before_first_paint:
  "ScheduleDeadline (from_millis 100) \<in> set (actions (snd (handle
     (sched_run [Startup 0 (demo_config (from_millis 100)) 1]) (TimeAdvanced (from_millis 150)))))"
  by (simp add: run_defs demo_defs finish_defs time_defs Let_def)

end
