(* ===== verification/Items.thy ===== *)
theory Items
  imports Metrics
begin

text \<open>
  Validated item tokens \<open>metric[:form]\<close>: \<open>src/domain/item.rs\<close>. \<open>item_new\<close> is the only way the
  source builds an \<open>ItemToken\<close>; \<open>valid_item\<close> states what it guarantees. \<open>item_to_string\<close> is the
  \<open>Display\<close> implementation and \<open>item_from_str\<close> the \<open>FromStr\<close> one, with \<open>split_once\<close> of the
  standard library written out.
\<close>

datatype item_rendering = Generic form | Intrinsic shape

record item_token =
  it_metric :: metric
  it_rendering :: item_rendering

datatype item_parse_error =
  ItemEmpty
  | UnknownMetric metric_parse_error
  | UnknownForm form_parse_error
  | IntrinsicMetricWithForm metric string
  | UnsupportedForm metric form

definition item_new :: "metric \<Rightarrow> form option \<Rightarrow> item_parse_error + item_token" where
  "item_new m form =
     (case intrinsic_shape m of
        Some sh \<Rightarrow>
          (case form of
             Some f \<Rightarrow> Inl (IntrinsicMetricWithForm m (form_as_str f))
           | None \<Rightarrow> Inr \<lparr>it_metric = m, it_rendering = Intrinsic sh\<rparr>)
      | None \<Rightarrow>
          (let f = (case form of Some f \<Rightarrow> f | None \<Rightarrow> Form_Value) in
           if \<not> supports_form m f then Inl (UnsupportedForm m f)
           else Inr \<lparr>it_metric = m, it_rendering = Generic f\<rparr>))"

definition item_form :: "item_token \<Rightarrow> form option" where
  "item_form t = (case it_rendering t of Generic f \<Rightarrow> Some f | Intrinsic _ \<Rightarrow> None)"

definition effective_surfaces :: "item_token \<Rightarrow> surface_set" where
  "effective_surfaces t =
     (case it_rendering t of
        Generic f \<Rightarrow> surf_intersection (metric_surfaces (it_metric t)) (allowed_surfaces f)
      | Intrinsic _ \<Rightarrow> metric_surfaces (it_metric t))"

definition item_to_string :: "item_token \<Rightarrow> string" where
  "item_to_string t =
     (case it_rendering t of
        Intrinsic _ \<Rightarrow> metric_as_str (it_metric t)
      | Generic f \<Rightarrow>
          (if f = Form_Value then metric_as_str (it_metric t)
           else metric_as_str (it_metric t) @ '':'' @ form_as_str f))"

primrec item_error_to_string :: "item_parse_error \<Rightarrow> string" where
  "item_error_to_string ItemEmpty = ''item token is empty''"
| "item_error_to_string (UnknownMetric e) =
     (case e of MetricParseError v \<Rightarrow> ''unknown metric: '' @ v)"
| "item_error_to_string (UnknownForm e) =
     (case e of FormParseError v \<Rightarrow> ''unknown form: '' @ v)"
| "item_error_to_string (IntrinsicMetricWithForm m f) =
     ''metric `'' @ metric_as_str m @ ''` does not accept form `'' @ f @ ''`''"
| "item_error_to_string (UnsupportedForm m f) =
     ''metric `'' @ metric_as_str m @ ''` does not support form `'' @ form_as_str f @ ''`''"

text \<open>\<open>str::split_once\<close>: the text before and after the first occurrence, if there is one.\<close>

fun split_once :: "char \<Rightarrow> string \<Rightarrow> (string \<times> string) option" where
  "split_once c [] = None"
| "split_once c (x # xs) =
     (if x = c then Some ([], xs)
      else map_option (\<lambda>(a, b). (x # a, b)) (split_once c xs))"

definition item_from_str :: "string \<Rightarrow> item_parse_error + item_token" where
  "item_from_str v =
     (if v = [] then Inl ItemEmpty
      else
        let (metric_text, form_text) =
              (case split_once CHR '':'' v of
                 None \<Rightarrow> (v, None)
               | Some (m, f) \<Rightarrow> (m, Some f))
        in case metric_from_str metric_text of
             Inl e \<Rightarrow> Inl (UnknownMetric e)
           | Inr metric \<Rightarrow>
               (case form_text of
                  None \<Rightarrow> item_new metric None
                | Some text \<Rightarrow>
                    (case form_from_str text of
                       Inl e \<Rightarrow> Inl (UnknownForm e)
                     | Inr f \<Rightarrow> item_new metric (Some f))))"

section \<open>Validity\<close>

definition valid_item :: "item_token \<Rightarrow> bool" where
  "valid_item t \<longleftrightarrow>
     (case it_rendering t of
        Generic f \<Rightarrow> intrinsic_shape (it_metric t) = None \<and> supports_form (it_metric t) f
      | Intrinsic sh \<Rightarrow> intrinsic_shape (it_metric t) = Some sh)"

lemma split_once_None: "split_once c v = None \<longleftrightarrow> c \<notin> set v"
  by (induction v) auto

lemma split_once_SomeD: "split_once c v = Some (a, b) \<Longrightarrow> v = a @ c # b \<and> c \<notin> set a"
  by (induction v arbitrary: a) (auto split: if_splits)

lemma split_once_append: "c \<notin> set a \<Longrightarrow> split_once c (a @ c # b) = Some (a, b)"
  by (induction a) auto

lemma split_once_metric [simp]: "split_once CHR '':'' (metric_as_str m) = None"
  by (simp add: split_once_None metric_as_str_no_colon)

lemma split_once_metric_form [simp]:
  "split_once CHR '':'' (metric_as_str m @ CHR '':'' # f) = Some (metric_as_str m, f)"
  by (rule split_once_append) (rule metric_as_str_no_colon)

lemma item_new_valid: "item_new m f = Inr t \<Longrightarrow> valid_item t \<and> it_metric t = m"
  by (auto simp: item_new_def valid_item_def Let_def split: option.splits if_splits)

lemma item_from_str_new:
  "item_from_str v = Inr t \<Longrightarrow> \<exists>m f. item_new m f = Inr t"
  by (auto simp: item_from_str_def Let_def split: if_splits option.splits sum.splits) blast+

lemma item_from_str_valid: "item_from_str v = Inr t \<Longrightarrow> valid_item t"
  using item_from_str_new item_new_valid by blast

lemma item_new_of_valid:
  assumes "valid_item t"
  shows "item_new (it_metric t) (item_form t) = Inr t"
  using assms
  by (cases t; cases "it_rendering t")
    (auto simp: valid_item_def item_new_def item_form_def Let_def)

lemma item_new_bare_value:
  "intrinsic_shape m = None \<Longrightarrow> item_new m None = item_new m (Some Form_Value)"
  by (simp add: item_new_def)

lemma item_roundtrip_aux:
  assumes "valid_item t"
  shows "item_from_str (item_to_string t) = Inr t"
proof (cases "it_rendering t")
  case (Generic f)
  with assms have m: "intrinsic_shape (it_metric t) = None" by (simp add: valid_item_def)
  from item_new_of_valid [OF assms] Generic
  have new: "item_new (it_metric t) (Some f) = Inr t" by (simp add: item_form_def)
  show ?thesis
  proof (cases "f = Form_Value")
    case True
    with new have "item_new (it_metric t) None = Inr t" by (simp add: item_new_bare_value [OF m])
    with True Generic show ?thesis
      by (simp add: item_from_str_def item_to_string_def metric_from_as_str metric_as_str_nonempty)
  next
    case False
    with new Generic show ?thesis
      by (simp add: item_from_str_def item_to_string_def metric_from_as_str form_from_as_str)
  qed
next
  case (Intrinsic sh)
  with item_new_of_valid [OF assms] have "item_new (it_metric t) None = Inr t"
    by (simp add: item_form_def)
  with Intrinsic show ?thesis
    by (simp add: item_from_str_def item_to_string_def metric_from_as_str metric_as_str_nonempty)
qed

end
