(* ===== verification/Registry.thy ===== *)
theory Registry
  imports Items
begin

text \<open>
  The token registry: \<open>src/domain/registry.rs\<close>. Sets of names are \<open>BTreeSet<String>\<close>; strings are
  compared byte by byte, as \<open>str\<close> is.
\<close>

definition SEPARATOR_ITEMS :: "string list" where
  "SEPARATOR_ITEMS = [''separator_small'', ''separator_big'']"

definition NOTIFY_CAPABILITY_MAP :: "(string \<times> capability) list" where
  "NOTIFY_CAPABILITY_MAP =
     [(''cpu_temp'', Cap_CpuTemperature),
      (''gpu_nvidia_temp'', Cap_GpuNvidia),
      (''gpu_amd_temp'', Cap_GpuAmdTemperature),
      (''disk_usage'', Cap_DiskUsage),
      (''disk_smart'', Cap_DiskSmart),
      (''hd_temp'', Cap_DiskTemperature),
      (''battery_sys'', Cap_BatterySystem),
      (''battery_mouse'', Cap_BatteryMouse),
      (''battery_kbd'', Cap_BatteryKeyboard),
      (''load_avg'', Cap_LoadAverage),
      (''server_check'', Cap_ServerCheck)]"

definition GRAPHS_PAGE_CAPABILITIES :: "capability list" where
  "GRAPHS_PAGE_CAPABILITIES =
     [Cap_GpuNvidia, Cap_GpuAmdUsage, Cap_GpuAmdCodec, Cap_GpuIntelUsage, Cap_GpuIntelDecoder,
      Cap_NetworkSpeed]"

definition is_separator :: "string \<Rightarrow> bool" where
  "is_separator token \<longleftrightarrow> token \<in> set SEPARATOR_ITEMS"

definition reg_parse :: "string \<Rightarrow> (metric \<times> form option) option" where
  "reg_parse token =
     (case item_from_str token of
        Inl _ \<Rightarrow> None
      | Inr item \<Rightarrow> Some (it_metric item, item_form item))"

definition unknown_item_names :: "string list \<Rightarrow> string bset" where
  "unknown_item_names names =
     bs_collect (filter (\<lambda>name. \<not> is_separator name \<and> reg_parse name = None) names)"

definition misplaced_on :: "string list \<Rightarrow> surface_set \<Rightarrow> string bset" where
  "misplaced_on names target =
     bs_collect (List.map_filter
       (\<lambda>name.
          if is_separator name then None
          else case item_from_str name of
                 Inl _ \<Rightarrow> None
               | Inr item \<Rightarrow>
                   (if surf_is_empty (surf_intersection (effective_surfaces item) target)
                    then Some name else None))
       names)"

definition misplaced_items :: "string list \<Rightarrow> string list \<Rightarrow> string bset \<times> string bset" where
  "misplaced_items panel_names tooltip_names =
     (misplaced_on panel_names SURF_PANEL, misplaced_on tooltip_names SURF_TOOLTIP)"

text \<open>The three loops of \<open>needed_capabilities\<close>, in order.\<close>

definition item_caps :: "item_token list \<Rightarrow> capability bset \<Rightarrow> capability bset" where
  "item_caps items caps =
     fold (\<lambda>item acc. bs_extend acc (metric_capabilities (it_metric item))) items caps"

definition notify_caps :: "string list \<Rightarrow> capability bset \<Rightarrow> capability bset" where
  "notify_caps flags caps =
     fold (\<lambda>flag acc.
        fold (\<lambda>(key, cap) acc. if key = flag then bs_insert cap acc else acc)
          NOTIFY_CAPABILITY_MAP acc) flags caps"

definition needed_capabilities ::
    "item_token list \<Rightarrow> string list \<Rightarrow> string list \<Rightarrow> capability bset" where
  "needed_capabilities items notify_flags pages_order =
     (let caps = notify_caps notify_flags (item_caps items [])
      in if list_ex (\<lambda>page. page = ''graphs'') pages_order
         then bs_extend caps GRAPHS_PAGE_CAPABILITIES else caps)"

definition placement_for :: "surface_set \<Rightarrow> string" where
  "placement_for effective =
     (let on_panel = \<not> surf_is_empty (surf_intersection effective SURF_PANEL);
          on_tooltip = surf_contains effective Tooltip
      in if on_panel then (if on_tooltip then ''panel + tooltip'' else ''panel only'')
         else (if on_tooltip then ''tooltip only'' else ''-''))"

definition form_token :: "metric \<Rightarrow> form \<Rightarrow> string" where
  "form_token m f =
     (if f = Form_Value then metric_as_str m else metric_as_str m @ '':'' @ form_as_str f)"

definition list_items_of :: "metric \<Rightarrow> (string \<times> string) list" where
  "list_items_of m =
     (if ms_intrinsic_shape (metric_spec_of m) \<noteq> None
      then [(metric_as_str m, placement_for (metric_surfaces m))]
      else List.map_filter
             (\<lambda>f. case item_from_str (form_token m f) of
                    Inr item \<Rightarrow> Some (form_token m f, placement_for (effective_surfaces item))
                  | Inl _ \<Rightarrow> None)
             (ms_generic_forms (metric_spec_of m)))"

definition list_items :: "(string \<times> string) list" where
  "list_items =
     sort_key (\<lambda>(token, place). (place, token)) (concat (map list_items_of all_metrics))"

section \<open>Lemmas\<close>

lemma separators_not_items: "is_separator v \<Longrightarrow> item_from_str v = Inl (UnknownMetric (MetricParseError v))"
  by (auto simp: is_separator_def SEPARATOR_ITEMS_def item_from_str_def metric_from_str_def)

lemma set_unknown_item_names:
  "set (unknown_item_names names) =
     {v \<in> set names. \<not> is_separator v \<and> (\<exists>e. item_from_str v = Inl e)}"
proof -
  have "reg_parse v = None \<longleftrightarrow> (\<exists>e. item_from_str v = Inl e)" for v
    by (cases "item_from_str v") (simp_all add: reg_parse_def)
  then show ?thesis by (auto simp: unknown_item_names_def)
qed

lemma set_map_filter: "set (List.map_filter f xs) = {y. \<exists>x \<in> set xs. f x = Some y}"
  by (force simp: List.map_filter_def)

lemma set_misplaced_on:
  "set (misplaced_on names target) =
     {v \<in> set names. \<exists>item. item_from_str v = Inr item \<and>
        surf_is_empty (surf_intersection (effective_surfaces item) target)}"
proof -
  define g where "g = (\<lambda>name.
          if is_separator name then None
          else case item_from_str name of
                 Inl _ \<Rightarrow> None
               | Inr item \<Rightarrow>
                   (if surf_is_empty (surf_intersection (effective_surfaces item) target)
                    then Some name else None))"
  have g: "g v = Some y \<longleftrightarrow> y = v \<and> (\<exists>item. item_from_str v = Inr item \<and>
      surf_is_empty (surf_intersection (effective_surfaces item) target))" for v y
  proof (cases "item_from_str v")
    case (Inl e)
    then show ?thesis by (simp add: g_def)
  next
    case (Inr item)
    with separators_not_items [of v] have "\<not> is_separator v" by auto
    with Inr show ?thesis by (auto simp: g_def)
  qed
  show ?thesis
    unfolding misplaced_on_def g_def [symmetric] set_bs_collect set_map_filter g by auto
qed

lemma set_item_caps:
  "set (item_caps items caps) =
     (\<Union>item \<in> set items. set (metric_capabilities (it_metric item))) \<union> set caps"
  unfolding item_caps_def by (induction items arbitrary: caps) auto

lemma set_notify_inner:
  "set (fold (\<lambda>(key, cap) acc. if key = flag then bs_insert cap acc else acc) tbl caps) =
     {c. (flag, c) \<in> set tbl} \<union> set caps"
  by (induction tbl arbitrary: caps) (auto split: if_splits)

lemma set_notify_caps:
  "set (notify_caps flags caps) =
     {c. \<exists>flag \<in> set flags. (flag, c) \<in> set NOTIFY_CAPABILITY_MAP} \<union> set caps"
  unfolding notify_caps_def by (induction flags arbitrary: caps) (auto simp: set_notify_inner)

lemma wf_fold_step: "(\<And>x a. bs_wf a \<Longrightarrow> bs_wf (f x a)) \<Longrightarrow> bs_wf a \<Longrightarrow> bs_wf (fold f xs a)"
  by (induction xs arbitrary: a) auto

lemma wf_needed_capabilities: "bs_wf (needed_capabilities items flags pages)"
  unfolding needed_capabilities_def Let_def notify_caps_def item_caps_def
  by (auto intro!: wf_fold_step wf_bs_extend split: prod.splits)

lemma form_token_item: "valid_item t \<Longrightarrow> it_rendering t = Generic f \<Longrightarrow>
    form_token (it_metric t) f = item_to_string t"
  by (simp add: form_token_def item_to_string_def)

lemma list_items_of_intrinsic:
  assumes "intrinsic_shape m = Some sh"
  shows "list_items_of m = [(item_to_string t, placement_for (effective_surfaces t))]
    \<longleftrightarrow> item_to_string t = metric_as_str m \<and>
        placement_for (effective_surfaces t) = placement_for (metric_surfaces m)"
  using assms by (auto simp: list_items_of_def intrinsic_shape_def)

lemma form_token_from_str:
  assumes "intrinsic_shape m = None" "supports_form m f"
  shows "item_from_str (form_token m f) = Inr \<lparr>it_metric = m, it_rendering = Generic f\<rparr>"
proof -
  have v: "valid_item \<lparr>it_metric = m, it_rendering = Generic f\<rparr>"
    using assms by (simp add: valid_item_def)
  show ?thesis using item_roundtrip_aux [OF v] form_token_item [OF v] by simp
qed

lemma list_items_of_generic:
  assumes "intrinsic_shape m = None"
  shows "list_items_of m = map (\<lambda>f. (form_token m f,
      placement_for (effective_surfaces \<lparr>it_metric = m, it_rendering = Generic f\<rparr>)))
    (ms_generic_forms (metric_spec_of m))"
proof -
  have "List.map_filter (\<lambda>f. case item_from_str (form_token m f) of
          Inr item \<Rightarrow> Some (form_token m f, placement_for (effective_surfaces item))
        | Inl _ \<Rightarrow> None) fs = map (\<lambda>f. (form_token m f,
      placement_for (effective_surfaces \<lparr>it_metric = m, it_rendering = Generic f\<rparr>))) fs"
    if "\<forall>f \<in> set fs. supports_form m f" for fs
    using that by (induction fs) (simp_all add: form_token_from_str [OF assms])
  then show ?thesis
    using assms by (simp add: list_items_of_def intrinsic_shape_def supports_form_def)
qed

lemma set_list_items_of:
  "set (list_items_of m) =
     {(item_to_string t, placement_for (effective_surfaces t)) |t. valid_item t \<and> it_metric t = m}"
proof (cases "intrinsic_shape m")
  case (Some sh)
  have "valid_item t \<and> it_metric t = m \<longleftrightarrow> t = \<lparr>it_metric = m, it_rendering = Intrinsic sh\<rparr>" for t
    using Some by (cases t) (auto simp: valid_item_def split: item_rendering.splits)
  with Some show ?thesis
    by (simp add: list_items_of_def intrinsic_shape_def item_to_string_def effective_surfaces_def)
next
  case None
  have *: "valid_item t \<and> it_metric t = m \<longleftrightarrow>
      (\<exists>f. supports_form m f \<and> t = \<lparr>it_metric = m, it_rendering = Generic f\<rparr>)" for t
    using None by (cases t) (auto simp: valid_item_def split: item_rendering.splits)
  have tok: "item_to_string \<lparr>it_metric = m, it_rendering = Generic f\<rparr> = form_token m f" for f
    by (simp add: item_to_string_def form_token_def)
  have "set (list_items_of m) = (\<lambda>f. (form_token m f,
      placement_for (effective_surfaces \<lparr>it_metric = m, it_rendering = Generic f\<rparr>)))
        ` {f. supports_form m f}"
    by (simp add: list_items_of_generic [OF None] supports_form_def)
  also have "\<dots> = {(item_to_string t, placement_for (effective_surfaces t)) |t.
      valid_item t \<and> it_metric t = m}"
    unfolding * by (force simp: tok)
  finally show ?thesis .
qed

lemma list_items_of_distinct: "distinct (map fst (list_items_of m))"
proof (cases "intrinsic_shape m")
  case (Some sh)
  then show ?thesis by (simp add: list_items_of_def intrinsic_shape_def)
next
  case None
  have "inj_on (form_token m) A" for A
    by (auto simp: inj_on_def form_token_def dest: form_as_str_inj split: if_splits)
  with None show ?thesis
    by (simp add: list_items_of_generic comp_def distinct_map generic_forms_distinct)
qed

end
