(* ===== verification/DomainProps.thy ===== *)
theory DomainProps
  imports Registry Readings
begin

text \<open>
  What the token registry and the retained samples promise: the spelling of a token determines it
  and back, every rejection names its cause, the listing is complete, the capabilities are those
  asked for, and a retained sample keeps exactly the last two successes.
\<close>

section \<open>Item tokens\<close>

text \<open>
  C19. Round trip. Reading the printed form of a valid token gives that token back.
\<close>

theorem item_roundtrip: "valid_item t \<Longrightarrow> item_from_str (item_to_string t) = Inr t"
  by (rule item_roundtrip_aux)

lemma item_roundtrip_witness:
  "item_from_str ''mem_usage:spark_value'' =
     Inr \<lparr>it_metric = M_MemUsage, it_rendering = Generic Form_SparkValue\<rparr>"
proof -
  have "valid_item \<lparr>it_metric = M_MemUsage, it_rendering = Generic Form_SparkValue\<rparr>"
    by (simp add: valid_item_def intrinsic_shape_def supports_form_def form_lists)
  from item_roundtrip [OF this] show ?thesis by (simp add: item_to_string_def)
qed

lemma item_from_str_new_form:
  "item_from_str (metric_as_str m @ CHR '':'' # f) =
     (case form_from_str f of Inl e \<Rightarrow> Inl (UnknownForm e) | Inr g \<Rightarrow> item_new m (Some g))"
  by (simp add: item_from_str_def metric_from_as_str)

lemma item_from_str_new_bare: "item_from_str (metric_as_str m) = item_new m None"
  by (simp add: item_from_str_def metric_from_as_str metric_as_str_nonempty)

lemma item_text_cases:
  obtains (empty) "v = []"
  | (bare) m where "v = metric_as_str m"
  | (form) m f where "v = metric_as_str m @ CHR '':'' # f"
  | (other) "v \<noteq> []" "\<forall>m. takeWhile (\<lambda>c. c \<noteq> CHR '':'') v \<noteq> metric_as_str m"
      "item_from_str v = Inl (UnknownMetric (MetricParseError (takeWhile (\<lambda>c. c \<noteq> CHR '':'') v)))"
proof (cases "v = []")
  case False
  let ?h = "takeWhile (\<lambda>c. c \<noteq> CHR '':'') v"
  have head: "split_once CHR '':'' v =
      (if CHR '':'' \<in> set v then Some (?h, tl (dropWhile (\<lambda>c. c \<noteq> CHR '':'') v)) else None)"
    by (induction v) auto
  show ?thesis
  proof (cases "\<exists>m. ?h = metric_as_str m")
    case True
    then obtain m where m: "?h = metric_as_str m" ..
    show ?thesis
    proof (cases "CHR '':'' \<in> set v")
      case True
      with head have "split_once CHR '':'' v = Some (metric_as_str m, tl (dropWhile (\<lambda>c. c \<noteq> CHR '':'') v))"
        by (simp add: m)
      from split_once_SomeD [OF this] show ?thesis using that(3) by blast
    next
      case False
      then have "?h = v" by (auto simp: takeWhile_eq_all_conv)
      with m have "v = metric_as_str m" by simp
      then show ?thesis by (rule that(2))
    qed
  next
    case no: False
    have unknown: "metric_from_str ?h = Inl (MetricParseError ?h)"
    proof (cases "metric_from_str ?h")
      case (Inl e)
      with metric_from_str_Inl [OF Inl] show ?thesis by simp
    next
      case (Inr m)
      with no show ?thesis by (simp add: metric_from_str_Inr)
    qed
    have item: "item_from_str v = Inl (UnknownMetric (MetricParseError ?h))"
    proof (cases "CHR '':'' \<in> set v")
      case True
      with False unknown show ?thesis by (simp add: item_from_str_def head)
    next
      case no_colon: False
      then have same: "?h = v" by (auto simp: takeWhile_eq_all_conv)
      from no_colon False unknown show ?thesis by (simp only: same) (simp add: item_from_str_def head)
    qed
    from False no item that(4) show ?thesis by blast
  qed
qed (rule that(1))

lemma item_new_Inr_iff:
  "item_new m f = Inr t \<longleftrightarrow> valid_item t \<and> it_metric t = m \<and>
     (item_form t = f \<or> f = None \<and> item_form t = Some Form_Value)"
  by (cases t; cases f)
    (auto simp: item_new_def valid_item_def item_form_def Let_def
      split: option.splits item_rendering.splits)

lemma item_form_simps:
  "item_form t = Some f \<longleftrightarrow> it_rendering t = Generic f"
  by (simp add: item_form_def split: item_rendering.splits)

text \<open>
  Functional. The accepted spellings: a text is read as a token exactly when the token is valid
  and the text is its printed form or, for a token in the value form, its metric followed by a colon
  and either nothing or \<open>value\<close>.
\<close>

theorem item_accepted_spellings:
  "item_from_str v = Inr t \<longleftrightarrow>
     valid_item t \<and>
     (v = item_to_string t \<or>
      it_rendering t = Generic Form_Value \<and>
        (v = metric_as_str (it_metric t) @ '':'' \<or> v = metric_as_str (it_metric t) @ '':value''))"
    (is "_ \<longleftrightarrow> valid_item t \<and> (?printed \<or> ?long)")
proof
  assume read: "item_from_str v = Inr t"
  then have valid: "valid_item t" by (rule item_from_str_valid)
  show "valid_item t \<and> (?printed \<or> ?long)"
  proof (cases v rule: item_text_cases)
    case empty
    with read show ?thesis by (simp add: item_from_str_def)
  next
    case (bare m)
    with read have "item_new m None = Inr t" by (simp add: item_from_str_new_bare)
    with valid bare show ?thesis
      by (auto simp: item_new_Inr_iff item_form_simps item_to_string_def item_form_def
          split: item_rendering.splits)
  next
    case (form m f)
    with read obtain g where g: "form_from_str f = Inr g" "item_new m (Some g) = Inr t"
      by (auto simp: item_from_str_new_form split: sum.splits)
    from g(1) have "f = form_as_str g \<or> f = [] \<and> g = Form_Value" by (simp add: form_from_str_Inr)
    with g(2) valid form show ?thesis
      by (auto simp: item_new_Inr_iff item_form_simps item_to_string_def)
  next
    case other
    with read show ?thesis by simp
  qed
next
  assume r: "valid_item t \<and> (?printed \<or> ?long)"
  then show "item_from_str v = Inr t"
  proof (cases ?printed)
    case True
    with r show ?thesis by (simp add: item_roundtrip_aux)
  next
    case False
    with r have rendering: "it_rendering t = Generic Form_Value"
      and v: "v = metric_as_str (it_metric t) @ CHR '':'' # [] \<or>
        v = metric_as_str (it_metric t) @ CHR '':'' # ''value''" by auto
    from v rendering r show ?thesis
      by (elim disjE)
        (simp_all only: item_from_str_new_form, simp_all add: form_from_str_def item_new_Inr_iff item_form_simps)
  qed
qed

text \<open>A witness: all three spellings of the CPU usage read as the same token.\<close>

lemma item_accepted_spellings_witness:
  "item_from_str ''cpu_usage:'' = item_from_str ''cpu_usage''"
proof -
  let ?t = "\<lparr>it_metric = M_CpuUsage, it_rendering = Generic Form_Value\<rparr>"
  have "valid_item ?t" by (simp add: valid_item_def intrinsic_shape_def supports_form_def form_lists)
  then have "item_from_str ''cpu_usage:'' = Inr ?t" "item_from_str ''cpu_usage'' = Inr ?t"
    by (simp_all add: item_accepted_spellings item_to_string_def)
  then show ?thesis by simp
qed

lemma takeWhile_metric:
  "takeWhile (\<lambda>c. c \<noteq> CHR '':'') (metric_as_str m) = metric_as_str m"
  "takeWhile (\<lambda>c. c \<noteq> CHR '':'') (metric_as_str m @ CHR '':'' # f) = metric_as_str m"
proof -
  have *: "\<forall>c \<in> set (metric_as_str m). c \<noteq> CHR '':''" using metric_as_str_no_colon [of m] by blast
  then show "takeWhile (\<lambda>c. c \<noteq> CHR '':'') (metric_as_str m) = metric_as_str m"
    by (simp add: takeWhile_eq_all_conv)
  from * show "takeWhile (\<lambda>c. c \<noteq> CHR '':'') (metric_as_str m @ CHR '':'' # f) = metric_as_str m"
    by (subst takeWhile_append2) simp_all
qed

lemma form_from_str_Inl_iff:
  "form_from_str f = Inl e \<longleftrightarrow> e = FormParseError f \<and> f \<noteq> [] \<and> (\<forall>g. f \<noteq> form_as_str g)"
proof (cases "form_from_str f")
  case (Inl d)
  with form_from_str_Inl [OF Inl] form_from_str_Inr [of f] show ?thesis by auto
next
  case (Inr g)
  then show ?thesis using form_from_str_Inr [of f g] by auto
qed

lemma item_new_Inl_iff:
  "item_new m f = Inl e \<longleftrightarrow>
     (\<exists>g. f = Some g \<and> intrinsic_shape m \<noteq> None \<and> e = IntrinsicMetricWithForm m (form_as_str g)) \<or>
     intrinsic_shape m = None \<and> (\<exists>g. \<not> supports_form m g \<and> e = UnsupportedForm m g \<and>
       (f = Some g \<or> f = None \<and> g = Form_Value))"
  by (cases f) (auto simp: item_new_def Let_def split: option.splits)

text \<open>
  Error behaviour. Every rejection names its cause: the empty text, the text before the first
  colon when it is no metric, the text after it when it is no form, the form given to a metric with
  a shape of its own, and the form the metric does not offer.
\<close>

theorem item_rejections:
  "item_from_str v = Inl e \<longleftrightarrow>
     (case e of
        ItemEmpty \<Rightarrow> v = []
      | UnknownMetric (MetricParseError h) \<Rightarrow>
          v \<noteq> [] \<and> h = takeWhile (\<lambda>c. c \<noteq> CHR '':'') v \<and> (\<forall>m. h \<noteq> metric_as_str m)
      | UnknownForm (FormParseError f) \<Rightarrow>
          f \<noteq> [] \<and> (\<forall>g. f \<noteq> form_as_str g) \<and> (\<exists>m. v = metric_as_str m @ '':'' @ f)
      | IntrinsicMetricWithForm m f \<Rightarrow>
          intrinsic_shape m \<noteq> None \<and>
          (\<exists>g. f = form_as_str g \<and>
             (v = metric_as_str m @ '':'' @ f \<or> g = Form_Value \<and> v = metric_as_str m @ '':''))
      | UnsupportedForm m f \<Rightarrow>
          intrinsic_shape m = None \<and> \<not> supports_form m f \<and>
          (v = metric_as_str m @ '':'' @ form_as_str f \<or>
           f = Form_Value \<and> (v = metric_as_str m \<or> v = metric_as_str m @ '':'')))"
    (is "_ \<longleftrightarrow> ?cause")
proof
  assume read: "item_from_str v = Inl e"
  show ?cause
  proof (cases v rule: item_text_cases)
    case empty
    with read show ?thesis by (auto simp: item_from_str_def)
  next
    case (bare m)
    with read have "item_new m None = Inl e" by (simp add: item_from_str_new_bare)
    with bare show ?thesis by (auto simp: item_new_Inl_iff)
  next
    case (form m f)
    show ?thesis
    proof (cases "form_from_str f")
      case (Inl d)
      with read form have e: "e = UnknownForm d" by (simp add: item_from_str_new_form)
      from Inl have "d = FormParseError f" "f \<noteq> []" "\<forall>g. f \<noteq> form_as_str g"
        by (simp_all add: form_from_str_Inl_iff)
      with e form show ?thesis by auto
    next
      case (Inr g)
      with read form have "item_new m (Some g) = Inl e" by (simp add: item_from_str_new_form)
      moreover from Inr have "f = form_as_str g \<or> f = [] \<and> g = Form_Value"
        by (simp add: form_from_str_Inr)
      ultimately show ?thesis using form by (auto simp: item_new_Inl_iff)
    qed
  next
    case other
    with read show ?thesis by auto
  qed
next
  assume cause: ?cause
  show "item_from_str v = Inl e"
  proof (cases e)
    case ItemEmpty
    with cause show ?thesis by (simp add: item_from_str_def)
  next
    case (UnknownMetric d)
    with cause have "v \<noteq> []" "\<forall>m. takeWhile (\<lambda>c. c \<noteq> CHR '':'') v \<noteq> metric_as_str m"
      "d = MetricParseError (takeWhile (\<lambda>c. c \<noteq> CHR '':'') v)" by (cases d; simp)+
    with UnknownMetric show ?thesis by (cases v rule: item_text_cases) (auto simp: takeWhile_metric)
  next
    case (UnknownForm d)
    with cause obtain f m where f: "d = FormParseError f" "v = metric_as_str m @ CHR '':'' # f"
      "f \<noteq> []" "\<forall>g. f \<noteq> form_as_str g" by (cases d) auto
    then have "form_from_str f = Inl (FormParseError f)" by (simp add: form_from_str_Inl_iff)
    with f UnknownForm show ?thesis by (simp add: item_from_str_new_form)
  next
    case (IntrinsicMetricWithForm m f)
    with cause obtain g where g: "intrinsic_shape m \<noteq> None" "f = form_as_str g"
      "v = metric_as_str m @ CHR '':'' # f \<or> g = Form_Value \<and> v = metric_as_str m @ CHR '':'' # []"
      by auto
    then obtain h where "v = metric_as_str m @ CHR '':'' # h" "form_from_str h = Inr g"
      by (auto simp: form_from_str_Inr)
    with g IntrinsicMetricWithForm show ?thesis
      by (simp add: item_from_str_new_form item_new_Inl_iff)
  next
    case (UnsupportedForm m f)
    with cause have f: "intrinsic_shape m = None" "\<not> supports_form m f"
      and v: "v = metric_as_str m @ CHR '':'' # form_as_str f \<or>
        f = Form_Value \<and> (v = metric_as_str m \<or> v = metric_as_str m @ CHR '':'' # [])"
      by auto
    from v consider (bare) "f = Form_Value" "v = metric_as_str m"
      | (form) h where "v = metric_as_str m @ CHR '':'' # h" "form_from_str h = Inr f"
      by (auto simp: form_from_str_Inr)
    then show ?thesis
      by cases (use f UnsupportedForm in
        \<open>simp_all add: item_from_str_new_form item_from_str_new_bare item_new_Inl_iff\<close>)
  qed
qed

section \<open>The registry\<close>

lemma item_to_string_inj: "valid_item s \<Longrightarrow> valid_item t \<Longrightarrow> item_to_string s = item_to_string t \<Longrightarrow> s = t"
  by (metis item_roundtrip_aux sum.inject(2))

lemma set_list_items:
  "set list_items = {(item_to_string t, placement_for (effective_surfaces t)) |t. valid_item t}"
  by (auto simp: list_items_def set_list_items_of metric_in_all)

lemma all_metrics_distinct: "distinct all_metrics"
  by (rule distinct_map [THEN iffD1, THEN conjunct1, of metric_rank]) (simp add: all_metrics_def)

lemma tokens_distinct: "distinct (map fst (concat (map list_items_of ms)))" if "distinct ms"
  using that
proof (induction ms)
  case (Cons m ms)
  have "fst ` set (list_items_of m) \<inter> fst ` set (concat (map list_items_of ms)) = {}"
    using Cons.prems by (auto simp: set_list_items_of dest: item_to_string_inj)
  with Cons show ?case by (simp add: list_items_of_distinct)
qed simp

lemma list_items_strict:
  "sorted_wrt (\<lambda>a b. (snd a, fst a) < (snd b, fst b)) list_items"
proof -
  let ?key = "\<lambda>(token :: string, place :: string). (place, token)"
  let ?all = "concat (map list_items_of all_metrics)"
  have "distinct (map fst (sort_key ?key ?all))"
    using tokens_distinct [OF all_metrics_distinct] by (metis distinct_map distinct_sort set_sort)
  then have "distinct (sort_key ?key ?all)" by (simp add: distinct_map)
  moreover have "inj_on ?key A" for A by (auto simp: inj_on_def)
  ultimately have "sorted_wrt (<) (map ?key (sort_key ?key ?all))"
    by (simp add: strict_sorted_iff distinct_map)
  then show ?thesis by (simp add: list_items_def sorted_wrt_map case_prod_beta)
qed

lemma item_has_place:
  assumes "valid_item t"
  shows "\<not> (surf_is_empty (surf_intersection (effective_surfaces t) SURF_PANEL) \<and>
    \<not> surf_contains (effective_surfaces t) Tooltip)"
  using assms
  by (cases "it_metric t"; cases "it_rendering t" rule: item_rendering.exhaust)
    (auto simp: valid_item_def effective_surfaces_def surf_defs metric_surfaces_def
      intrinsic_shape_def supports_form_def form_lists)

text \<open>
  Functional. The listing shows every valid token once, in its printed form with the places
  it can be put, ordered by place and then by token, and no token is left without a place.
\<close>

theorem list_items_complete:
  "set list_items = {(item_to_string t, placement_for (effective_surfaces t)) |t. valid_item t} \<and>
   sorted_wrt (\<lambda>a b. (snd a, fst a) < (snd b, fst b)) list_items \<and>
   ''-'' \<notin> snd ` set list_items"
proof -
  have "placement_for (effective_surfaces t) \<noteq> ''-''" if "valid_item t" for t
    using item_has_place [OF that] by (auto simp: placement_for_def Let_def)
  then have "''-'' \<notin> snd ` set list_items" by (force simp: set_list_items)
  with set_list_items list_items_strict show ?thesis by blast
qed

text \<open>
  Functional. The capabilities that are probed are exactly those some configured item needs, those
  of the notifications that are enabled, and, when the graphs page is shown, those of the graphs;
  they come sorted and without repetition.
\<close>

theorem needed_capabilities_exact:
  "set (needed_capabilities items flags pages) =
     {c. \<exists>t \<in> set items. c \<in> set (metric_capabilities (it_metric t))} \<union>
     {c. \<exists>flag \<in> set flags. (flag, c) \<in> set NOTIFY_CAPABILITY_MAP} \<union>
     (if ''graphs'' \<in> set pages then set GRAPHS_PAGE_CAPABILITIES else {}) \<and>
   sorted_wrt (<) (needed_capabilities items flags pages)"
  using wf_needed_capabilities [of items flags pages]
  by (auto simp: needed_capabilities_def Let_def set_item_caps set_notify_caps list_ex_iff)

lemma needed_capabilities_exact_witness:
  "set (needed_capabilities [] [] [''graphs'']) = set GRAPHS_PAGE_CAPABILITIES"
  using needed_capabilities_exact [of "[]" "[]" "[''graphs'']"] by simp

lemma ex_surface: "(\<exists>x. P x) \<longleftrightarrow> P Tooltip \<or> P PanelHorizontal \<or> P PanelVertical"
  by (metis surface.exhaust)

lemma surf_disjoint_iff:
  assumes "s AND 7 = s"
  shows "surf_is_empty (surf_intersection s target) \<longleftrightarrow>
    \<not> (\<exists>x. surf_contains s x \<and> surf_contains target x)"
proof -
  have low: "n < 3" if "bit s n" for n
  proof -
    from that have "bit (s AND mask 3) n" using assms by (simp add: mask_eq_exp_minus_1)
    then show ?thesis by (simp add: bit_and_iff bit_mask_iff)
  qed
  have low8: "bit s n \<Longrightarrow> n < 8" for n using low [of n] by simp
  have "surf_is_empty (surf_intersection s target) \<longleftrightarrow> (\<forall>n. \<not> (bit s n \<and> bit target n))"
    by (auto simp: surf_is_empty_def surf_intersection_def surface_consts bit_eq_iff bit_and_iff
        dest: low8)
  also have "\<dots> \<longleftrightarrow> \<not> (bit s 0 \<and> bit target 0 \<or> bit s 1 \<and> bit target 1 \<or> bit s 2 \<and> bit target 2)"
    using low by (auto simp: numeral_2_eq_2 numeral_3_eq_3 less_Suc_eq)
  also have "\<dots> \<longleftrightarrow> \<not> (\<exists>x. surf_contains s x \<and> surf_contains target x)"
    unfolding ex_surface surf_contains_def from_surface_bit and_exp_nonzero by simp
  finally show ?thesis .
qed

lemma effective_surfaces_low: "effective_surfaces t AND 7 = effective_surfaces t"
proof -
  have m: "metric_surfaces m AND 7 = metric_surfaces m" for m
    by (cases m) (simp_all add: metric_surfaces_def surface_consts)
  have f: "allowed_surfaces g AND 7 = allowed_surfaces g" for g
    by (cases g) (simp_all add: surface_consts)
  show ?thesis
    by (auto simp: effective_surfaces_def surf_intersection_def m f and.assoc split: item_rendering.splits)
qed

text \<open>
  Functional. Every configured name that is no separator is reported as unknown or read as a
  token, never both, and it is reported as misplaced exactly when it is read as a token with no
  surface in common with the place it is configured for.
\<close>

theorem names_classified:
  "set (unknown_item_names names) \<union> {v \<in> set names. is_separator v} \<union>
     {v \<in> set names. \<exists>t. item_from_str v = Inr t} = set names \<and>
   set (unknown_item_names names) \<inter> {v. is_separator v \<or> (\<exists>t. item_from_str v = Inr t)} = {} \<and>
   set (misplaced_on names target) =
     {v \<in> set names. \<exists>t. item_from_str v = Inr t \<and>
        \<not> (\<exists>x. surf_contains (effective_surfaces t) x \<and> surf_contains target x)}"
proof -
  have "item_from_str v = Inr t \<Longrightarrow> \<not> is_separator v" for v t
    using separators_not_items [of v] by auto
  moreover have "(\<exists>e. item_from_str v = Inl e) \<longleftrightarrow> \<not> (\<exists>t. item_from_str v = Inr t)" for v
    by (cases "item_from_str v") auto
  ultimately show ?thesis
    by (auto simp: set_unknown_item_names set_misplaced_on surf_disjoint_iff [OF effective_surfaces_low])
qed

section \<open>Retained samples\<close>

text \<open>
  C17. Refinement. After any sequence of attempts, a retained sample holds the last success and the one
  before it, counted since the last absence or invalidation, and looking up a cutoff finds the
  newest of the two that is not later.
\<close>

theorem retained_keeps_last_two:
  "latest (run_attempts as) = nth_opt (successes as) 0 \<and>
   previous (run_attempts as) = nth_opt (successes as) 1 \<and>
   sample_at_or_before cutoff (run_attempts as) =
     List.find (\<lambda>s. captured_at s \<le> cutoff) (take 2 (successes as))"
  using keeps_run [of as] sample_at_or_before_find [OF keeps_run [of as], of cutoff]
  by (simp add: keeps_def)

text \<open>
  Bounds. The share of video memory in use is a percentage, it is missing exactly when the totals
  make no sense, and otherwise it is the quotient rounded down.
\<close>

theorem mem_percent_bounds:
  "(case mem_percent r of
      None \<Rightarrow> total_bytes r = 0 \<or> unat (total_bytes r) < unat (used_bytes r)
    | Some p \<Rightarrow> 0 \<le> p \<and> p \<le> 100 \<and> unat (used_bytes r) \<le> unat (total_bytes r) \<and>
        p * int (unat (total_bytes r)) \<le> 100 * int (unat (used_bytes r)) \<and>
        100 * int (unat (used_bytes r)) < (p + 1) * int (unat (total_bytes r)))"
proof (cases "total_bytes r = 0 \<or> total_bytes r < used_bytes r")
  case True
  then show ?thesis by (auto simp: mem_percent_def word_less_nat_alt)
next
  case False
  let ?u = "unat (used_bytes r)" and ?t = "unat (total_bytes r)"
  from False have le: "?u \<le> ?t" and pos: "0 < ?t" by (auto simp: word_less_nat_alt unat_gt_0)
  from False have q: "?u * 100 div ?t \<le> 100" by (intro mem_percent_quotient) auto
  with False have p: "mem_percent r = Some (int (?u * 100 div ?t))"
    by (simp add: mem_percent_def i32_try_from_def)
  have "(?u * 100 div ?t) * ?t \<le> 100 * ?u" by (simp add: mult.commute)
  moreover have "100 * ?u < (?u * 100 div ?t + 1) * ?t"
    using dividend_less_div_times [OF pos, of "?u * 100"] by (simp add: mult.commute add.commute)
  ultimately have "(?u * 100 div ?t) * ?t \<le> 100 * ?u" "100 * ?u < (?u * 100 div ?t + 1) * ?t" .
  then have "int (?u * 100 div ?t) * int ?t \<le> 100 * int ?u"
    "100 * int ?u < (int (?u * 100 div ?t) + 1) * int ?t"
    by (metis of_nat_le_iff of_nat_mult of_nat_numeral, metis of_nat_less_iff of_nat_mult of_nat_numeral of_nat_add of_nat_1)
  with le q show ?thesis unfolding p by simp
qed

text \<open>
  Functional. Comparing two AMD sources reports no metric exactly when they are equal, and every
  metric of the card when the card was replaced.
\<close>

theorem changed_metrics_sound:
  "(changed_metrics a b = [] \<longleftrightarrow> a = b) \<and>
   set (changed_metrics a b) = {m. (pci_identity a \<noteq> pci_identity b \<or>
      (m = M_GpuAmdUsage \<and> usage_path a \<noteq> usage_path b) \<or>
      (m = M_GpuAmdCodecUsage \<and> codec_usage_path a \<noteq> codec_usage_path b) \<or>
      (m = M_GpuAmdMemUsage \<and> memory_paths a \<noteq> memory_paths b) \<or>
      (m = M_GpuAmdFreq \<and> freq_path a \<noteq> freq_path b) \<or>
      (m = M_GpuAmdTemp \<and> temp_path a \<noteq> temp_path b) \<or>
      (m = M_GpuAmdPower \<and> power_path a \<noteq> power_path b) \<or>
      (m = M_GpuAmdFanSpeed \<and> fan_speed_path a \<noteq> fan_speed_path b)) \<and>
     m \<in> {M_GpuAmdUsage, M_GpuAmdCodecUsage, M_GpuAmdMemUsage, M_GpuAmdFreq, M_GpuAmdTemp,
       M_GpuAmdPower, M_GpuAmdFanSpeed}}"
  unfolding changed_metrics_empty_iff
  by (simp add: changed_metrics_def Let_def set_map_filter) auto

lemma changed_metrics_sound_witness:
  "M_GpuAmdTemp \<in> set (changed_metrics
     \<lparr>pci_identity = ''0000:03:00.0'', usage_path = None, codec_usage_path = None, freq_path = None,
      temp_path = None, power_path = None, fan_speed_path = None, memory_paths = None\<rparr>
     \<lparr>pci_identity = ''0000:04:00.0'', usage_path = None, codec_usage_path = None, freq_path = None,
      temp_path = None, power_path = None, fan_speed_path = None, memory_paths = None\<rparr>)"
  by (simp add: changed_metrics_sound)

end
