(* ===== verification/Terminal.thy ===== *)
theory Terminal
  imports Prelude
begin

text \<open>
  Terminal output of the command pages: \<open>src/page_commands/terminal.rs\<close> and the text helpers of
  \<open>src/page_commands.rs\<close>. A text is the list of its Unicode scalar values. The source walks over the
  UTF-8 bytes; every byte it compares with is ASCII, which UTF-8 never uses inside another character,
  so walking over the scalar values finds the same sequences. An index into the text is the suffix
  that starts there.
\<close>

type_synonym utext = "nat list"

definition lit :: "string \<Rightarrow> utext" where "lit s = map of_char s"

abbreviation ESC :: nat where "ESC \<equiv> 27"
abbreviation CR :: nat where "CR \<equiv> 13"
abbreviation LF :: nat where "LF \<equiv> 10"
abbreviation BEL :: nat where "BEL \<equiv> 7"
abbreviation SPACE :: nat where "SPACE \<equiv> 32"
abbreviation BRACKET :: nat where "BRACKET \<equiv> 91"

section \<open>Control sequences\<close>

fun skip_osc :: "utext \<Rightarrow> utext" where
  "skip_osc [] = []"
| "skip_osc (b # rest) =
     (if b = BEL then rest
      else if b = ESC \<and> rest \<noteq> [] \<and> hd rest = 92 then tl rest
      else skip_osc rest)"

text \<open>\<open>skip_csi\<close>: the bytes up to the final one, what follows them, and whether the final byte is \<open>m\<close>.\<close>

fun skip_csi :: "utext \<Rightarrow> utext \<times> utext \<times> bool" where
  "skip_csi [] = ([], [], False)"
| "skip_csi (b # rest) =
     (if 64 \<le> b \<and> b \<le> 126 then ([b], rest, b = 109)
      else (case skip_csi rest of (seq, tail, keep) \<Rightarrow> (b # seq, tail, keep)))"

lemma skip_osc_length: "length (skip_osc t) \<le> length t"
  by (induction t rule: skip_osc.induct) auto

lemma skip_csi_append: "skip_csi t = (seq, tail, keep) \<Longrightarrow> seq @ tail = t"
  by (induction t arbitrary: seq) (auto split: if_splits prod.splits)

lemma skip_csi_length: "skip_csi t = (seq, tail, keep) \<Longrightarrow> length tail \<le> length t"
  using skip_csi_append by (metis le_add2 length_append)

definition csi_params :: "utext \<Rightarrow> bool" where
  "csi_params ps \<longleftrightarrow> (\<forall>p \<in> set ps. \<not> (64 \<le> p \<and> p \<le> 126))"

lemma csi_params_simps [simp]:
  "csi_params []" "csi_params (p # ps) \<longleftrightarrow> \<not> (64 \<le> p \<and> p \<le> 126) \<and> csi_params ps"
  "csi_params (ps @ qs) \<longleftrightarrow> csi_params ps \<and> csi_params qs"
  by (auto simp: csi_params_def)

lemma skip_csi_final [simp]:
  "csi_params ps \<Longrightarrow> 64 \<le> c \<Longrightarrow> c \<le> 126 \<Longrightarrow> skip_csi (ps @ c # tail) = (ps @ [c], tail, c = 109)"
  by (induction ps) auto

lemma skip_csi_keepD:
  "skip_csi t = (seq, tail, True) \<Longrightarrow> \<exists>ps. csi_params ps \<and> seq = ps @ [109] \<and> t = ps @ 109 # tail"
proof (induction t arbitrary: seq)
  case (Cons b t)
  show ?case
  proof (cases "64 \<le> b \<and> b \<le> 126")
    case True
    with Cons.prems show ?thesis by (auto intro: exI [of _ "[]"])
  next
    case False
    with Cons.prems obtain s where "skip_csi t = (s, tail, True)" "seq = b # s"
      by (auto split: prod.splits)
    with Cons.IH False show ?thesis by (metis append_Cons csi_params_simps(2))
  qed
qed simp

function strip_terminal_noise :: "utext \<Rightarrow> utext" where
  "strip_terminal_noise [] = []"
| "strip_terminal_noise (b # rest) =
     (if b = CR then strip_terminal_noise rest
      else if b = ESC then
        (case rest of
           [] \<Rightarrow> [b]
         | n # after \<Rightarrow>
             (if n = 93 then strip_terminal_noise (skip_osc after)
              else if n = BRACKET then
                (case skip_csi after of
                   (seq, tail, keep) \<Rightarrow>
                     (if keep then b # n # seq else []) @ strip_terminal_noise tail)
              else if n \<in> {61, 62, 78, 79, 80, 88, 94, 95, 99} then strip_terminal_noise after
              else b # strip_terminal_noise rest))
      else b # strip_terminal_noise rest)"
  by pat_completeness auto
termination
  by (relation "measure length")
    (auto simp: le_imp_less_Suc skip_osc_length less_SucI dest!: skip_csi_length [OF sym])

text \<open>A colour sequence at the start of a text, and what follows it.\<close>

definition sgr_prefix :: "utext \<Rightarrow> (utext \<times> utext) option" where
  "sgr_prefix t =
     (case t of
        e # n # after \<Rightarrow>
          (if e = ESC \<and> n = BRACKET then
             (case skip_csi after of (seq, tail, keep) \<Rightarrow>
                (if keep then Some (e # n # seq, tail) else None))
           else None)
      | _ \<Rightarrow> None)"

lemma sgr_prefix_append: "sgr_prefix t = Some (seq, tail) \<Longrightarrow> seq @ tail = t \<and> 2 < length seq"
  by (auto simp: sgr_prefix_def dest!: skip_csi_keepD split: list.splits if_splits prod.splits)

lemma sgr_prefix_length: "sgr_prefix t = Some (seq, tail) \<Longrightarrow> length tail < length t"
  using sgr_prefix_append by fastforce

function strip_sgr :: "utext \<Rightarrow> utext" where
  "strip_sgr [] = []"
| "strip_sgr (b # rest) =
     (case sgr_prefix (b # rest) of
        Some (seq, tail) \<Rightarrow> strip_sgr tail
      | None \<Rightarrow> b # strip_sgr rest)"
  by pat_completeness auto
termination
  by (relation "measure length") (auto dest: sgr_prefix_length)

section \<open>Wrapping\<close>

definition WRAP_INDENT :: nat where "WRAP_INDENT = 2"

definition break_line :: "utext \<Rightarrow> nat \<Rightarrow> utext \<times> nat" where
  "break_line out indent = (out @ [LF] @ replicate indent SPACE, indent)"

function split_words :: "utext \<Rightarrow> utext \<times> nat \<Rightarrow> (utext \<times> nat) list" where
  "split_words [] current = [current]"
| "split_words (b # rest) current =
     (case sgr_prefix (b # rest) of
        Some (seq, tail) \<Rightarrow> split_words tail (fst current @ seq, snd current)
      | None \<Rightarrow>
          (if b = SPACE then current # split_words rest ([], 0)
           else split_words rest (fst current @ [b], snd current + 1)))"
  by pat_completeness auto
termination
  by (relation "measure (\<lambda>(t, _). length t)") (auto dest: sgr_prefix_length)

function push_word :: "utext \<Rightarrow> nat \<Rightarrow> nat \<Rightarrow> utext \<Rightarrow> nat \<Rightarrow> utext \<times> nat" where
  "push_word [] width indent out col = (out, col)"
| "push_word (b # rest) width indent out col =
     (case sgr_prefix (b # rest) of
        Some (seq, tail) \<Rightarrow> push_word tail width indent (out @ seq) col
      | None \<Rightarrow>
          (let (out, col) = (if width \<le> col then break_line out indent else (out, col))
           in push_word rest width indent (out @ [b]) (col + 1)))"
  by pat_completeness auto
termination
  by (relation "measure (\<lambda>(t, _). length t)") (auto dest: sgr_prefix_length)

text \<open>The loop of \<open>wrap_visible\<close> over the words; a word that is not the first has a space before it.\<close>

fun wrap_words :: "(utext \<times> nat) list \<Rightarrow> bool \<Rightarrow> nat \<Rightarrow> nat \<Rightarrow> utext \<Rightarrow> nat \<Rightarrow> utext \<times> nat" where
  "wrap_words [] first width indent out col = (out, col)"
| "wrap_words ((word, word_width) # words) first width indent out col =
     (let (out, col) =
            (if first then (out, col)
             else if width < col + 1 + word_width then break_line out indent
             else (out @ [SPACE], col + 1));
          (out, col) = push_word word width indent out col
      in wrap_words words False width indent out col)"

definition wrap_visible :: "utext \<Rightarrow> nat \<Rightarrow> utext" where
  "wrap_visible line width =
     (if width = 0 \<or> length (strip_sgr line) \<le> width then line
      else fst (wrap_words (split_words line ([], 0)) True width (min WRAP_INDENT (width div 2)) [] 0))"

section \<open>Text helpers of the pages\<close>

definition is_shell_safe :: "nat \<Rightarrow> bool" where
  "is_shell_safe b \<longleftrightarrow> 97 \<le> b \<and> b \<le> 122 \<or> 65 \<le> b \<and> b \<le> 90 \<or> 48 \<le> b \<and> b \<le> 57 \<or>
     b \<in> {95, 45, 46, 47, 58}"

definition shell_quote :: "utext \<Rightarrow> utext" where
  "shell_quote arg =
     (if list_all is_shell_safe arg then arg
      else [39] @ concat (map (\<lambda>c. if c = 39 then [39, 34, 39, 34, 39] else [c]) arg) @ [39])"

fun join :: "'a list \<Rightarrow> 'a list list \<Rightarrow> 'a list" where
  "join sep [] = []"
| "join sep [x] = x"
| "join sep (x # y # ys) = x @ sep @ join sep (y # ys)"

definition shell_join :: "utext list \<Rightarrow> utext" where
  "shell_join argv = join [SPACE] (map shell_quote argv)"

definition escape_char :: "nat \<Rightarrow> utext" where
  "escape_char c =
     (if c = 38 then lit ''&amp;''
      else if c = 60 then lit ''&lt;''
      else if c = 62 then lit ''&gt;''
      else if c = 34 then lit ''&quot;''
      else if c = 39 then lit ''&#x27;''
      else [c])"

definition escape_html :: "utext \<Rightarrow> utext" where
  "escape_html t = concat (map escape_char t)"

definition escape_spaces :: "utext \<Rightarrow> utext" where
  "escape_spaces t =
     concat (map (\<lambda>c. if c = SPACE then lit ''&nbsp;'' else [c]) (escape_html t))"

fun split_on :: "'a \<Rightarrow> 'a list \<Rightarrow> 'a list list" where
  "split_on c [] = [[]]"
| "split_on c (x # xs) =
     (if x = c then [] # split_on c xs
      else (case split_on c xs of l # ls \<Rightarrow> (x # l) # ls | [] \<Rightarrow> [[x]]))"

definition text_to_mono_html :: "utext \<Rightarrow> utext" where
  "text_to_mono_html t =
     join (lit ''<br>'')
       (map (\<lambda>line. let escaped = escape_spaces line
                     in if escaped = [] then lit ''&nbsp;'' else escaped) (split_on LF t))"

definition text_width :: "utext \<Rightarrow> nat" where
  "text_width t = Max (set (map (\<lambda>line. length (strip_sgr line)) (split_on LF t)))"

definition format_plain :: "utext \<Rightarrow> nat \<Rightarrow> utext \<times> nat" where
  "format_plain t min_width =
     (let fitted = (if min_width = 0 then t
                    else join [LF] (map (\<lambda>line. wrap_visible line min_width) (split_on LF t)))
      in (text_to_mono_html fitted, text_width fitted))"

definition ellipsize :: "utext \<Rightarrow> nat \<Rightarrow> utext" where
  "ellipsize t max_chars =
     (if length t \<le> max_chars then t
      else take (max (max_chars - 1) 1) t @ [8230])"

definition pager_html :: "nat \<Rightarrow> nat \<Rightarrow> nat \<Rightarrow> utext" where
  "pager_html idx width page_count =
     (if page_count \<le> 1 then []
      else
        let dots = join (lit ''&nbsp;'')
              (map (\<lambda>page_idx. lit ''<span class='' @ [34]
                      @ lit (if page_idx = idx then ''on'' else ''off'') @ [34] @ lit ''>'' @ [9679]
                      @ lit ''</span>'') [0 ..< page_count]);
            visible = min (page_count * 2) u64_max - 1;
            pad = (width - visible) div 2
        in lit ''<div class='' @ [34] @ lit ''pager'' @ [34] @ lit ''>''
           @ concat (replicate pad (lit ''&nbsp;'')) @ dots @ lit ''</div>'')"

end
