(* ===== verification/TextProps.thy ===== *)
theory TextProps
  imports Terminal
begin

text \<open>
  What the terminal cleanup promises. A terminal text is a sequence of plain characters, carriage
  returns and control sequences; a colour text has no escape character outside a colour sequence.
\<close>

section \<open>Lines\<close>

lemma split_on_not_Nil [simp]: "split_on c xs \<noteq> []"
  by (induction c xs rule: split_on.induct) (auto split: list.splits)

lemma split_on_none [simp]: "c \<notin> set xs \<Longrightarrow> split_on c xs = [xs]"
  by (induction xs) auto

lemma split_on_append_sep [simp]: "c \<notin> set xs \<Longrightarrow> split_on c (xs @ c # ys) = xs # split_on c ys"
  by (induction xs) auto

lemma split_on_join:
  "xss \<noteq> [] \<Longrightarrow> \<forall>xs \<in> set xss. c \<notin> set xs \<Longrightarrow> split_on c (join [c] xss) = xss"
  by (induction "[c]" xss rule: join.induct) auto

lemma join_split_on [simp]: "join [c] (split_on c xs) = xs"
proof (induction c xs rule: split_on.induct)
  case (2 c x xs)
  then show ?case
    by (cases "split_on c xs" rule: remdups_adj.cases) (auto split: list.splits)
qed simp

lemma split_on_elems: "l \<in> set (split_on c xs) \<Longrightarrow> c \<notin> set l \<and> set l \<subseteq> set xs"
  by (induction c xs arbitrary: l rule: split_on.induct)
    (auto split: list.splits if_splits, (force)+)

section \<open>Colour texts\<close>

datatype vtok = Ch nat | Sgr utext

primrec spell :: "vtok \<Rightarrow> utext" where
  "spell (Ch c) = [c]"
| "spell (Sgr ps) = ESC # BRACKET # ps @ [109]"

primrec colour_tok :: "vtok \<Rightarrow> bool" where
  "colour_tok (Ch c) \<longleftrightarrow> c \<noteq> ESC"
| "colour_tok (Sgr ps) \<longleftrightarrow> csi_params ps"

abbreviation spell_all :: "vtok list \<Rightarrow> utext" where
  "spell_all ts \<equiv> concat (map spell ts)"

text \<open>Every escape character of a colour text starts a complete colour sequence.\<close>

function colour_text :: "utext \<Rightarrow> bool" where
  "colour_text [] = True"
| "colour_text (b # rest) =
     (case sgr_prefix (b # rest) of
        Some (seq, tail) \<Rightarrow> colour_text tail
      | None \<Rightarrow> b \<noteq> ESC \<and> colour_text rest)"
  by pat_completeness auto
termination
  by (relation "measure length") (auto dest: sgr_prefix_length)

lemma sgr_prefix_Sgr [simp]: "csi_params ps \<Longrightarrow> sgr_prefix (ESC # BRACKET # ps @ 109 # r) = Some (spell (Sgr ps), r)"
  by (simp add: sgr_prefix_def)

lemma sgr_prefix_Ch [simp]: "c \<noteq> ESC \<Longrightarrow> sgr_prefix (c # r) = None"
  by (simp add: sgr_prefix_def split: list.splits)

lemma sgr_prefix_SomeD:
  "sgr_prefix t = Some (seq, tail) \<Longrightarrow> \<exists>ps. csi_params ps \<and> seq = spell (Sgr ps) \<and> t = seq @ tail"
  by (auto simp: sgr_prefix_def dest!: skip_csi_keepD split: list.splits if_splits prod.splits)

lemma colour_text_tokens: "colour_text t \<longleftrightarrow> (\<exists>ts. list_all colour_tok ts \<and> t = spell_all ts)"
proof
  show "colour_text t \<Longrightarrow> \<exists>ts. list_all colour_tok ts \<and> t = spell_all ts"
  proof (induction t rule: colour_text.induct)
    case 1
    show ?case by (rule exI [of _ "[]"]) simp
  next
    case (2 b rest)
    show ?case
    proof (cases "sgr_prefix (b # rest)")
      case None
      with 2 obtain ts where "b \<noteq> ESC" "list_all colour_tok ts" "rest = spell_all ts" by auto
      then show ?thesis by (intro exI [of _ "Ch b # ts"]) simp
    next
      case (Some p)
      then obtain seq tail where p: "sgr_prefix (b # rest) = Some (seq, tail)" by (cases p) auto
      with "2.prems" have "colour_text tail" by simp
      with "2.IH"(2) [OF p refl] obtain ts where ts: "list_all colour_tok ts" "tail = spell_all ts"
        by blast
      from sgr_prefix_SomeD [OF p] obtain ps where
        "csi_params ps" "b # rest = spell (Sgr ps) @ tail" by auto
      with ts show ?thesis by (intro exI [of _ "Sgr ps # ts"]) auto
    qed
  qed
next
  assume "\<exists>ts. list_all colour_tok ts \<and> t = spell_all ts"
  then obtain ts where "list_all colour_tok ts" "t = spell_all ts" by auto
  then show "colour_text t"
  proof (induction ts arbitrary: t)
    case (Cons tok ts)
    then show ?case by (cases tok) auto
  qed simp
qed

primrec is_ch :: "vtok \<Rightarrow> bool" where "is_ch (Ch c) = True" | "is_ch (Sgr ps) = False"

abbreviation width :: "vtok list \<Rightarrow> nat" where "width ts \<equiv> length (filter is_ch ts)"

lemma strip_sgr_width: "list_all colour_tok ts \<Longrightarrow> length (strip_sgr (spell_all ts)) = width ts"
proof (induction ts)
  case (Cons tok ts)
  then show ?case by (cases tok) auto
qed simp

section \<open>Wrapping fits and keeps the text\<close>

text \<open>What has been written so far: finished lines and the one being written, none too wide.\<close>

definition fits :: "nat \<Rightarrow> utext \<Rightarrow> nat \<Rightarrow> bool" where
  "fits w out col \<longleftrightarrow>
     (\<exists>ls l. out = concat (map (\<lambda>k. spell_all k @ [LF]) ls) @ spell_all l \<and>
        (\<forall>k \<in> set (l # ls). list_all colour_tok k \<and> LF \<notin> set (spell_all k) \<and> width k \<le> w) \<and>
        width l = col)"

lemma fitsI:
  "out = concat (map (\<lambda>k. spell_all k @ [LF]) ls) @ spell_all l \<Longrightarrow>
   \<forall>k \<in> set (l # ls). list_all colour_tok k \<and> LF \<notin> set (spell_all k) \<and> width k \<le> w \<Longrightarrow>
   width l = col \<Longrightarrow> fits w out col"
  unfolding fits_def by blast

lemma fits_Nil: "fits w [] 0"
  by (rule fitsI [of _ "[]" "[]"]) simp_all

lemma fits_tok:
  assumes "fits w out col" "colour_tok tok" "LF \<notin> set (spell tok)" "col + width [tok] \<le> w"
  shows "fits w (out @ spell tok) (col + width [tok])"
proof -
  from assms(1) obtain ls l where "out = concat (map (\<lambda>k. spell_all k @ [LF]) ls) @ spell_all l"
    "\<forall>k \<in> set (l # ls). list_all colour_tok k \<and> LF \<notin> set (spell_all k) \<and> width k \<le> w"
    "width l = col" unfolding fits_def by blast
  with assms show ?thesis by (intro fitsI [of _ ls "l @ [tok]"]) auto
qed

lemma fits_break:
  assumes "fits w out col" "indent \<le> w" "break_line out indent = (out', col')"
  shows "fits w out' col' \<and> col' = indent"
proof -
  from assms(1) obtain ls l where "out = concat (map (\<lambda>k. spell_all k @ [LF]) ls) @ spell_all l"
    "\<forall>k \<in> set (l # ls). list_all colour_tok k \<and> LF \<notin> set (spell_all k) \<and> width k \<le> w"
    "width l = col" unfolding fits_def by blast
  moreover have "spell_all (replicate n (Ch SPACE)) = replicate n SPACE"
    "width (replicate n (Ch SPACE)) = n" "list_all colour_tok (replicate n (Ch SPACE))" for n
    by (induction n) auto
  ultimately have "fits w (out @ LF # replicate indent SPACE) indent"
    using assms(2) by (intro fitsI [of _ "ls @ [l]" "replicate indent (Ch SPACE)"]) auto
  with assms(3) show ?thesis by (auto simp: break_line_def)
qed

lemma push_word_fits:
  assumes "list_all colour_tok ts" "LF \<notin> set (spell_all ts)" "indent < w" "fits w out col" "col \<le> w"
    and "push_word (spell_all ts) w indent out col = (out', col')"
  shows "fits w out' col' \<and> col' \<le> w"
  using assms
proof (induction ts arbitrary: out col)
  case (Cons tok ts)
  show ?case
  proof (cases tok)
    case (Sgr ps)
    with Cons.prems have "fits w (out @ spell (Sgr ps)) (col + width [Sgr ps])"
      by (intro fits_tok) auto
    with Cons Sgr show ?thesis by simp
  next
    case (Ch c)
    obtain out1 col1 where b: "(if w \<le> col then break_line out indent else (out, col)) = (out1, col1)"
      by (meson surj_pair)
    have "fits w out1 col1 \<and> col1 < w"
    proof (cases "w \<le> col")
      case True
      with b have "break_line out indent = (out1, col1)" by simp
      from fits_break [OF Cons.prems(4) _ this] Cons.prems(3) show ?thesis by auto
    next
      case False
      with b Cons.prems show ?thesis by auto
    qed
    moreover from this Cons.prems Ch have "fits w (out1 @ spell (Ch c)) (col1 + width [Ch c])"
      by (intro fits_tok) auto
    moreover from Cons.prems(6) Ch b Cons.prems(1)
    have "push_word (spell_all ts) w indent (out1 @ [c]) (col1 + 1) = (out', col')" by simp
    ultimately show ?thesis using Cons.IH Cons.prems by simp
  qed
qed simp

text \<open>The words of a line: colour sequences stay with the word they stand in.\<close>

lemma split_words_tokens:
  assumes "list_all colour_tok ts" "list_all colour_tok cs" "LF \<notin> set (spell_all (cs @ ts))"
  shows "\<forall>(word, n) \<in> set (split_words (spell_all ts) (spell_all cs, width cs)).
     \<exists>ws. list_all colour_tok ws \<and> word = spell_all ws \<and> n = width ws \<and> LF \<notin> set word"
  using assms
proof (induction ts arbitrary: cs)
  case Nil
  then show ?case by auto
next
  case (Cons tok ts)
  show ?case
  proof (cases tok)
    case (Sgr ps)
    with Cons.prems Cons.IH [of "cs @ [tok]"] show ?thesis by simp
  next
    case (Ch c)
    with Cons.prems Cons.IH [of "cs @ [tok]"] Cons.IH [of "[]"] show ?thesis by auto
  qed
qed

lemma wrap_words_fits:
  assumes "\<forall>(word, n) \<in> set words.
      \<exists>ws. list_all colour_tok ws \<and> word = spell_all ws \<and> n = width ws \<and> LF \<notin> set word"
    and "indent < w" "fits w out col" "col \<le> w"
    and "wrap_words words first w indent out col = (out', col')"
  shows "fits w out' col' \<and> col' \<le> w"
  using assms
proof (induction words arbitrary: first out col)
  case (Cons p words)
  obtain word n where p: "p = (word, n)" by (cases p)
  with Cons.prems(1) obtain ws where ws: "list_all colour_tok ws" "word = spell_all ws"
    "n = width ws" "LF \<notin> set (spell_all ws)" by auto
  obtain out1 col1 where b: "(if first then (out, col) else if w < col + 1 + n
      then break_line out indent else (out @ [SPACE], col + 1)) = (out1, col1)"
    by (meson surj_pair)
  have 1: "fits w out1 col1 \<and> col1 \<le> w"
  proof -
    consider "first" | "\<not> first" "w < col + 1 + n" | "\<not> first" "col + 1 + n \<le> w" by linarith
    then show ?thesis
    proof cases
      case 1
      with b Cons.prems show ?thesis by auto
    next
      case 2
      with b have "break_line out indent = (out1, col1)" by simp
      from fits_break [OF Cons.prems(3) _ this] Cons.prems(2) show ?thesis by auto
    next
      case 3
      with Cons.prems have "fits w (out @ spell (Ch SPACE)) (col + width [Ch SPACE])"
        by (intro fits_tok) auto
      with 3 b show ?thesis by auto
    qed
  qed
  obtain out2 col2 where pw: "push_word word w indent out1 col1 = (out2, col2)" by (meson surj_pair)
  with ws 1 Cons.prems(2) have 2: "fits w out2 col2 \<and> col2 \<le> w"
    by (intro push_word_fits [of ws]) auto
  from Cons.prems(5) b pw p have "wrap_words words False w indent out2 col2 = (out', col')" by simp
  from Cons.IH [OF _ Cons.prems(2) _ _ this] 2 Cons.prems(1) show ?case by simp
qed simp

lemma split_lines:
  "\<forall>k \<in> set (l # ls). LF \<notin> set k \<Longrightarrow>
     split_on LF (concat (map (\<lambda>k. k @ [LF]) ls) @ l) = ls @ [l]"
  by (induction ls) auto

lemma fits_lines:
  assumes "fits w out col"
  shows "\<forall>line \<in> set (split_on LF out). colour_text line \<and> length (strip_sgr line) \<le> w"
proof -
  from assms obtain ls l where out: "out = concat (map (\<lambda>k. spell_all k @ [LF]) ls) @ spell_all l"
    and ok: "\<forall>k \<in> set (l # ls). list_all colour_tok k \<and> LF \<notin> set (spell_all k) \<and> width k \<le> w"
    unfolding fits_def by blast
  have "out = concat (map (\<lambda>k. k @ [LF]) (map spell_all ls)) @ spell_all l"
    by (simp add: out comp_def)
  with ok split_lines [of "spell_all l" "map spell_all ls"]
  have "split_on LF out = map spell_all ls @ [spell_all l]" by auto
  with ok show ?thesis by (auto simp: strip_sgr_width colour_text_tokens)
qed

lemma wrap_fits:
  assumes "colour_text line" "LF \<notin> set line" "0 < w"
  shows "\<forall>l \<in> set (split_on LF (wrap_visible line w)). colour_text l \<and> length (strip_sgr l) \<le> w"
proof (cases "length (strip_sgr line) \<le> w")
  case True
  with assms show ?thesis by (simp add: wrap_visible_def)
next
  case False
  from assms(1) obtain ts where ts: "list_all colour_tok ts" "line = spell_all ts"
    by (auto simp: colour_text_tokens)
  let ?indent = "min WRAP_INDENT (w div 2)"
  obtain out col where r: "wrap_words (split_words line ([], 0)) True w ?indent [] 0 = (out, col)"
    by (meson surj_pair)
  have "fits w out col \<and> col \<le> w"
    using split_words_tokens [of ts "[]"] ts assms r
    by (intro wrap_words_fits [of "split_words line ([], 0)" ?indent w "[]" 0 True])
      (auto simp: fits_Nil)
  with False r assms(3) show ?thesis by (auto simp: wrap_visible_def dest: fits_lines)
qed

lemma split_on_join_concat: "xss \<noteq> [] \<Longrightarrow> split_on c (join [c] xss) = concat (map (split_on c) xss)"
proof (induction xss rule: induct_list012)
  case (3 x y xss)
  have "split_on c (x @ c # z) = split_on c x @ split_on c z" for z
    by (induction x) (auto split: list.splits)
  with 3 show ?case by simp
qed simp_all

section \<open>Wrapping keeps every character\<close>

abbreviation ink :: "utext \<Rightarrow> utext" where
  "ink t \<equiv> filter (\<lambda>c. c \<noteq> SPACE \<and> c \<noteq> LF) t"

lemma ink_break: "break_line out indent = (out', col') \<Longrightarrow> ink out' = ink out"
  by (auto simp: break_line_def)

lemma ink_push_word: "ink (fst (push_word word w indent out col)) = ink out @ ink word"
proof (induction word w indent out col rule: push_word.induct)
  case (2 b rest width indent out col)
  show ?case
  proof (cases "sgr_prefix (b # rest)")
    case None
    with "2.IH" show ?thesis by (auto simp: break_line_def Let_def split: prod.splits)
  next
    case (Some p)
    then obtain seq tail where p: "sgr_prefix (b # rest) = Some (seq, tail)" by (cases p) auto
    from sgr_prefix_append [OF p] have "ink (b # rest) = ink seq @ ink tail"
      by (metis filter_append)
    with "2.IH" p show ?thesis by simp
  qed
qed simp

lemma ink_split_words: "ink (concat (map fst (split_words t cur))) = ink (fst cur) @ ink t"
proof (induction t cur rule: split_words.induct)
  case (2 b rest current)
  show ?case
  proof (cases "sgr_prefix (b # rest)")
    case None
    with "2.IH" show ?thesis by (cases "b = SPACE") simp_all
  next
    case (Some p)
    then obtain seq tail where p: "sgr_prefix (b # rest) = Some (seq, tail)" by (cases p) auto
    from sgr_prefix_append [OF p] have "ink (b # rest) = ink seq @ ink tail"
      by (metis filter_append)
    with "2.IH" p show ?thesis by simp
  qed
qed simp

lemma ink_wrap_words:
  "ink (fst (wrap_words words first w indent out col)) = ink out @ ink (concat (map fst words))"
proof (induction words first w indent out col rule: wrap_words.induct)
  case (2 word n words first w indent out col)
  obtain out1 col1 where b: "(if first then (out, col) else if w < col + 1 + n
      then break_line out indent else (out @ [SPACE], col + 1)) = (out1, col1)"
    by (meson surj_pair)
  then have "ink out1 = ink out" by (auto simp: break_line_def split: if_splits)
  moreover obtain out2 col2 where pw: "push_word word w indent out1 col1 = (out2, col2)"
    by (meson surj_pair)
  moreover from pw ink_push_word [of word w indent out1 col1] have "ink out2 = ink out1 @ ink word"
    by simp
  ultimately show ?case using 2 [OF b [symmetric] refl pw [symmetric] refl] b by simp
qed simp

text \<open>
  Safety. Wrapping only breaks lines: apart from spaces and line breaks, the wrapped text has
  exactly the characters of the line, in their order, whatever sequences it contains.
\<close>

lemma wrap_keeps_text: "ink (wrap_visible line w) = ink line"
  by (simp add: wrap_visible_def ink_wrap_words ink_split_words)

lemma ink_join: "ink (join [LF] xss) = concat (map ink xss)"
  by (induction "[LF]" xss rule: join.induct) auto

lemma ink_lines: "concat (map ink (split_on LF t)) = ink t"
  using ink_join [of "split_on LF t"] by simp

text \<open>
  C21. Bounds. A page that the plain formatter lays out for a known tooltip width \<open>w\<close> never widens the
  tooltip and loses nothing but blanks: when every escape character in the lines of the text starts a
  complete colour sequence, the page shows a text none of whose lines is wider than \<open>w\<close>, with exactly the
  characters of the given text, in their order, apart from spaces and line breaks; and the width it reports is
  at most \<open>w\<close>. (The connections page has a formatter of its own, of which this says nothing.)
\<close>

theorem page_fits_width:
  "\<forall>line \<in> set (split_on LF t). colour_text line \<Longrightarrow> 0 < w \<Longrightarrow>
     \<exists>fitted. format_plain t w = (text_to_mono_html fitted, text_width fitted) \<and> text_width fitted \<le> w \<and>
       (\<forall>line \<in> set (split_on LF fitted). length (strip_sgr line) \<le> w) \<and> ink fitted = ink t"
proof -
  assume lines: "\<forall>line \<in> set (split_on LF t). colour_text line" and w: "0 < w"
  let ?fitted = "join [LF] (map (\<lambda>line. wrap_visible line w) (split_on LF t))"
  have narrow: "length (strip_sgr l) \<le> w" if "l \<in> set (split_on LF ?fitted)" for l
  proof -
    from that obtain line where "line \<in> set (split_on LF t)" "l \<in> set (split_on LF (wrap_visible line w))"
      by (auto simp: split_on_join_concat)
    with lines w wrap_fits [of line w] split_on_elems [of line LF t] show ?thesis by auto
  qed
  moreover have "ink ?fitted = ink t"
    unfolding ink_join by (simp add: comp_def wrap_keeps_text ink_lines)
  ultimately show ?thesis
    using w by (intro exI [of _ ?fitted]) (simp add: format_plain_def text_width_def Let_def)
qed

lemma page_fits_width_witness:
  "\<exists>fitted. format_plain (lit ''Memory: 3.21 GiB'') 8 = (text_to_mono_html fitted, text_width fitted) \<and>
     text_width fitted \<le> 8"
  using page_fits_width [of "lit ''Memory: 3.21 GiB''" 8] by (auto simp: lit_def)

section \<open>Cleaning terminal output\<close>

text \<open>
  The tokens of a terminal text: characters, carriage returns, operating system commands with either
  terminator, control sequences with their final byte, and the two-character escapes, those of the list in
  \<open>strip_terminal_noise\<close> (\<open>Esc2\<close>) and the others (\<open>Other\<close>).
\<close>

datatype ttok = Plain nat | Return | Osc utext | OscSt utext | Csi utext nat | Esc2 nat | Other nat

primrec tspell :: "ttok \<Rightarrow> utext" where
  "tspell (Plain c) = [c]"
| "tspell Return = [CR]"
| "tspell (Osc body) = ESC # 93 # body @ [BEL]"
| "tspell (OscSt body) = ESC # 93 # body @ [ESC, 92]"
| "tspell (Csi ps final) = ESC # BRACKET # ps @ [final]"
| "tspell (Esc2 c) = [ESC, c]"
| "tspell (Other c) = [ESC, c]"

abbreviation listed_escapes :: "nat set" where
  "listed_escapes \<equiv> of_char ` {CHR ''='', CHR ''>'', CHR ''N'', CHR ''O'', CHR ''P'', CHR ''X'', CHR 0x5E, CHR ''_'', CHR ''c''}"

primrec well_formed :: "ttok \<Rightarrow> bool" where
  "well_formed (Plain c) \<longleftrightarrow> c \<noteq> ESC \<and> c \<noteq> CR"
| "well_formed Return \<longleftrightarrow> True"
| "well_formed (Osc body) \<longleftrightarrow> BEL \<notin> set body \<and> ESC \<notin> set body"
| "well_formed (OscSt body) \<longleftrightarrow> BEL \<notin> set body \<and> ESC \<notin> set body"
| "well_formed (Csi ps final) \<longleftrightarrow> csi_params ps \<and> 64 \<le> final \<and> final \<le> 126"
| "well_formed (Esc2 c) \<longleftrightarrow> c \<in> listed_escapes"
| "well_formed (Other c) \<longleftrightarrow> c \<notin> listed_escapes \<and> c \<notin> {BRACKET, 93, ESC, CR}"

primrec kept :: "ttok \<Rightarrow> utext" where
  "kept (Plain c) = [c]"
| "kept Return = []"
| "kept (Osc body) = []"
| "kept (OscSt body) = []"
| "kept (Csi ps final) = (if final = 109 then ESC # BRACKET # ps @ [109] else [])"
| "kept (Esc2 c) = []"
| "kept (Other c) = [ESC, c]"

primrec is_other :: "ttok \<Rightarrow> bool" where
  "is_other (Plain c) = False"
| "is_other Return = False"
| "is_other (Osc body) = False"
| "is_other (OscSt body) = False"
| "is_other (Csi ps final) = False"
| "is_other (Esc2 c) = False"
| "is_other (Other c) = True"

lemma skip_osc_bel [simp]:
  "BEL \<notin> set body \<Longrightarrow> ESC \<notin> set body \<Longrightarrow> skip_osc (body @ BEL # r) = r"
  by (induction body) auto

lemma skip_osc_st [simp]:
  "BEL \<notin> set body \<Longrightarrow> ESC \<notin> set body \<Longrightarrow> skip_osc (body @ ESC # 92 # r) = r"
  by (induction body) auto

lemma strip_noise_tok:
  "well_formed tok \<Longrightarrow> strip_terminal_noise (tspell tok @ r) = kept tok @ strip_terminal_noise r"
  by (cases tok) auto

lemma strip_noise_toks:
  "list_all well_formed toks \<Longrightarrow> strip_terminal_noise (concat (map tspell toks)) = concat (map kept toks)"
  by (induction toks) (auto simp: strip_noise_tok)

lemma kept_colour:
  "list_all well_formed toks \<Longrightarrow> \<not> list_ex is_other toks \<Longrightarrow>
     \<exists>ts. list_all colour_tok ts \<and> concat (map kept toks) = spell_all ts"
proof (induction toks)
  case Nil
  show ?case by (rule exI [of _ "[]"]) simp
next
  case (Cons tok toks)
  then obtain ts where ts: "list_all colour_tok ts" "concat (map kept toks) = spell_all ts" by auto
  have "\<exists>us. list_all colour_tok us \<and> kept tok = spell_all us"
  proof (cases tok)
    case (Plain c)
    with Cons.prems show ?thesis by (intro exI [of _ "[Ch c]"]) simp
  next
    case (Csi ps final)
    with Cons.prems show ?thesis by (intro exI [of _ "if final = 109 then [Sgr ps] else []"]) simp
  qed (use Cons.prems in \<open>auto intro: exI [of _ "[]"]\<close>)
  then obtain us where "list_all colour_tok us" "kept tok = spell_all us" by blast
  with ts show ?case by (intro exI [of _ "us @ ts"]) simp
qed

text \<open>
  C40. Functional. Of a text made of characters, carriage returns, terminated operating system commands,
  complete control sequences and two-character escapes, exactly this survives, in order: the characters,
  the control sequences that end in \<open>m\<close> (colours), and the two-character escapes that are not on the list of
  the source. Gone are carriage returns, operating system commands, all other control sequences, and an
  escape character followed by one of \<open>= > N O P X ^ _ c\<close>. Where the text has no other two-character escape,
  what survives is a colour text: every escape character in it starts a complete colour sequence.
\<close>

theorem noise_removed:
  "list_all well_formed toks \<Longrightarrow>
     strip_terminal_noise (concat (map tspell toks)) = concat (map kept toks) \<and>
     (\<not> list_ex is_other toks \<longrightarrow> colour_text (strip_terminal_noise (concat (map tspell toks))))"
  unfolding colour_text_tokens using strip_noise_toks kept_colour by metis

lemma noise_removed_witness:
  "strip_terminal_noise (concat (map tspell [Csi [50] 74, Plain 65, Return, Csi [51, 49] 109, Esc2 61, Other 55])) =
     [65, ESC, BRACKET, 51, 49, 109, ESC, 55]"
  using noise_removed [of "[Csi [50] 74, Plain 65, Return, Csi [51, 49] 109, Esc2 61, Other 55]"] by simp

text \<open>
  Error behaviour. The escapes that save and restore the cursor, and the one that scrolls back a line, are
  not on the list: they survive the cleanup, although all but colours is meant to be dropped.
\<close>

theorem cursor_escapes_survive:
  "strip_terminal_noise [ESC, 55, ESC, 56, ESC, 77] = [ESC, 55, ESC, 56, ESC, 77]"
  by simp

text \<open>
  Error behaviour. On an escape character that starts no sequence the cleanup can produce what it
  is there to remove: of an escape character, a carriage return and \<open>[2J\<close> it drops the carriage
  return only and returns the sequence that clears the screen; a second pass would remove it.
\<close>

theorem noise_reassembled:
  "strip_terminal_noise [ESC, CR, BRACKET, 50, 74] = [ESC, BRACKET, 50, 74] \<and>
   strip_terminal_noise (strip_terminal_noise [ESC, CR, BRACKET, 50, 74]) = []"
  by simp

section \<open>Quoting\<close>

text \<open>
  The part of a POSIX shell's word splitting that quoting relies on: blanks separate words, single
  and double quotes group, and a character the shell could read specially outside quotes is an error.
\<close>

datatype quoting = Unquoted | Single | Double

definition flush :: "utext option \<Rightarrow> utext list" where
  "flush cur = (case cur of None \<Rightarrow> [] | Some w \<Rightarrow> [w])"

definition extend :: "utext option \<Rightarrow> utext \<Rightarrow> utext option" where
  "extend cur cs = Some (case cur of None \<Rightarrow> cs | Some w \<Rightarrow> w @ cs)"

fun sh_words :: "quoting \<Rightarrow> utext option \<Rightarrow> utext \<Rightarrow> utext list option" where
  "sh_words q cur [] = (if q = Unquoted then Some (flush cur) else None)"
| "sh_words Unquoted cur (c # r) =
     (if c = SPACE then map_option ((@) (flush cur)) (sh_words Unquoted None r)
      else if c = 39 then sh_words Single (extend cur []) r
      else if c = 34 then sh_words Double (extend cur []) r
      else if is_shell_safe c then sh_words Unquoted (extend cur [c]) r
      else None)"
| "sh_words Single cur (c # r) =
     (if c = 39 then sh_words Unquoted cur r else sh_words Single (extend cur [c]) r)"
| "sh_words Double cur (c # r) =
     (if c = 34 then sh_words Unquoted cur r
      else if c \<in> {36, 96, 92} then None
      else sh_words Double (extend cur [c]) r)"

lemma extend_simps [simp]:
  "extend (extend cur a) b = extend cur (a @ b)" "extend None a = Some a"
  by (auto simp: extend_def split: option.splits)

lemma sh_words_safe:
  "list_all is_shell_safe a \<Longrightarrow> a \<noteq> [] \<Longrightarrow>
     sh_words Unquoted cur (a @ r) = sh_words Unquoted (extend cur a) r"
proof (induction a arbitrary: cur)
  case (Cons c a)
  then have "c \<noteq> SPACE" "c \<noteq> 39" "c \<noteq> 34" by (auto simp: is_shell_safe_def)
  with Cons show ?case by (cases "a = []") simp_all
qed simp

lemma sh_words_single:
  "sh_words Single (extend cur []) (concat (map (\<lambda>c. if c = 39 then [39, 34, 39, 34, 39] else [c]) a) @ 39 # r)
     = sh_words Unquoted (extend cur a) r"
proof (induction a arbitrary: cur)
  case (Cons c a)
  show ?case using Cons.IH [of "extend cur [c]"] by auto
qed simp

lemma sh_words_quote:
  "a \<noteq> [] \<Longrightarrow> sh_words Unquoted None (shell_quote a @ r) = sh_words Unquoted (Some a) r"
  using sh_words_single [of None a r] by (auto simp: shell_quote_def sh_words_safe)

lemma sh_words_join:
  "[] \<notin> set argv \<Longrightarrow> sh_words Unquoted None (shell_join argv) = Some argv"
proof (induction argv rule: induct_list012)
  case 1
  then show ?case by (simp add: shell_join_def flush_def)
next
  case (2 a)
  then show ?case using sh_words_quote [of a "[]"] by (simp add: shell_join_def flush_def)
next
  case (3 a b argv)
  then have "a \<noteq> []" by auto
  from sh_words_quote [OF this] 3 show ?case by (simp add: shell_join_def flush_def)
qed

text \<open>
  Round trip. A shell splits a joined command line back into the arguments it was joined from,
  whatever characters they contain, as long as none of them is empty.
\<close>

theorem shell_join_roundtrip: "[] \<notin> set argv \<Longrightarrow> sh_words Unquoted None (shell_join argv) = Some argv"
  by (rule sh_words_join)

lemma shell_join_roundtrip_witness:
  "sh_words Unquoted None (shell_join [lit ''fastfetch'', lit ''a b'', [39]]) =
     Some [lit ''fastfetch'', lit ''a b'', [39]]"
  by (rule shell_join_roundtrip) (simp add: lit_def)

text \<open>
  Error behaviour. An empty argument is lost: it is joined without quotes, so the shell sees two
  blanks and no word between them. The command pages have no such argument.
\<close>

theorem shell_join_drops_empty:
  "sh_words Unquoted None (shell_join [lit ''printf'', [], lit ''x'']) = Some [lit ''printf'', lit ''x'']"
  by (simp add: shell_join_def shell_quote_def lit_def is_shell_safe_def flush_def extend_def)

text \<open>Decoding the five entities, the inverse of the escape.\<close>

definition entities :: "(utext \<times> nat) list" where
  "entities = [(lit ''&amp;'', 38), (lit ''&lt;'', 60), (lit ''&gt;'', 62), (lit ''&quot;'', 34),
     (lit ''&#x27;'', 39)]"

function unescape_html :: "utext \<Rightarrow> utext" where
  "unescape_html [] = []"
| "unescape_html (c # r) =
     (case List.find (\<lambda>(e, _). take (length e) (c # r) = e \<and> e \<noteq> []) entities of
        Some (e, ch) \<Rightarrow> ch # unescape_html (drop (length e) (c # r))
      | None \<Rightarrow> c # unescape_html r)"
  by pat_completeness auto
termination
  by (relation "measure length")
    (auto simp: find_Some_iff entities_def lit_def nth_Cons' split: if_splits)

lemma unescape_char: "unescape_html (escape_char c @ r) = c # unescape_html r"
proof (cases "c \<in> {38, 60, 62, 34, 39}")
  case True
  then show ?thesis by (auto simp: escape_char_def entities_def lit_def)
next
  case False
  then show ?thesis by (auto simp: escape_char_def entities_def lit_def)
qed

lemma unescape_escape: "unescape_html (escape_html t) = t"
  by (induction t) (simp_all add: escape_html_def unescape_char del: unescape_html.simps(2))

text \<open>
  Round trip. Decoding the entities of an escaped text gives the text back, and the escaped text
  has no character that could open a tag or close an attribute.
\<close>

theorem escape_html_roundtrip:
  "unescape_html (escape_html t) = t \<and> set (escape_html t) \<inter> {60, 62, 34, 39} = {}"
  using unescape_escape by (auto simp: escape_html_def escape_char_def lit_def split: if_splits)

end
