(* ===== verification/Applet.thy ===== *)
theory Applet
  imports SchedModel Terminal
begin

text \<open>
  Applet requests and the daemon state they change: \<open>src/domain/applet.rs\<close>, the leases and the page
  selection of \<open>src/daemon/async_loop/applet.rs\<close>, and the page registry of \<open>src/page_commands.rs\<close>.
  Sink calls are the list of the selections announced.
\<close>

section \<open>Requests\<close>

type_synonym client_id = string
type_synonym instance_id = "64 word"

definition instance_new :: "64 word \<Rightarrow> instance_id option" where
  "instance_new raw = (if raw = 0 then None else Some raw)"

datatype page_step = Next | Prev

definition from_delta :: "32 word \<Rightarrow> page_step option" where
  "from_delta delta =
     (if delta = 1 then Some Next else if delta = - 1 then Some Prev else None)"

definition step_apply :: "page_step \<Rightarrow> 32 word \<Rightarrow> 32 word \<Rightarrow> 32 word" where
  "step_apply st page page_count =
     (if page_count \<le> 1 then 0
      else case st of
             Next \<Rightarrow> (page mod page_count + 1) mod page_count
           | Prev \<Rightarrow> (page mod page_count + page_count - 1) mod page_count)"

datatype 'geometry applet_request =
  StepPage page_step
  | Present client_id instance_id
  | Dismiss client_id instance_id
  | ClientGone client_id
  | Geometry 'geometry

datatype 'geometry applet_event =
  Request "'geometry applet_request"
  | ConnectionLost
  | ServiceFailed string

section \<open>Leases\<close>

record leases =
  live :: "(client_id \<times> instance_id) bset"
  gone :: "client_id bset"

definition leases_default :: leases where "leases_default = \<lparr>live = [], gone = []\<rparr>"

datatype lease_effect = Presented bool | Reactivated | Unchanged

definition lease_presented :: "leases \<Rightarrow> bool" where
  "lease_presented l \<longleftrightarrow> live l \<noteq> []"

definition transition_from :: "leases \<Rightarrow> bool \<Rightarrow> lease_effect" where
  "transition_from l was_presented =
     (if was_presented = lease_presented l then Unchanged else Presented (lease_presented l))"

definition lease_present :: "client_id \<Rightarrow> instance_id \<Rightarrow> leases \<Rightarrow> leases \<times> lease_effect" where
  "lease_present client instance l =
     (if client \<in> set (gone l) then (l, Unchanged)
      else
        let was_presented = lease_presented l in
        if (client, instance) \<in> set (live l) then (l, Reactivated)
        else (l\<lparr>live := bs_insert (client, instance) (live l)\<rparr>,
              if was_presented then Unchanged else Presented True))"

definition lease_dismiss :: "client_id \<Rightarrow> instance_id \<Rightarrow> leases \<Rightarrow> leases \<times> lease_effect" where
  "lease_dismiss client instance l =
     (let was_presented = lease_presented l;
          l = l\<lparr>live := bs_remove (client, instance) (live l)\<rparr>
      in (l, transition_from l was_presented))"

definition lease_client_gone :: "client_id \<Rightarrow> leases \<Rightarrow> leases \<times> lease_effect" where
  "lease_client_gone client l =
     (let was_presented = lease_presented l;
          l = l\<lparr>live := filter (\<lambda>(owner, _). owner \<noteq> client) (live l),
                gone := bs_insert client (gone l)\<rparr>
      in (l, transition_from l was_presented))"

definition lease_connection_lost :: "leases \<Rightarrow> leases \<times> lease_effect" where
  "lease_connection_lost l =
     (let was_presented = lease_presented l; l = l\<lparr>live := [], gone := []\<rparr>
      in (l, transition_from l was_presented))"

section \<open>Pages\<close>

datatype page_colorizer = Colorize_Connections
datatype page_render_kind = Render_TopProcess | Render_CpuCores | Render_Graphs

record page_command_spec =
  pc_argv :: "string list"
  pc_ttl :: duration
  pc_max_lines :: nat
  pc_pty :: bool
  pc_colorize :: "page_colorizer option"

datatype page_source = PS_Full | PS_Command page_command_spec | PS_Render page_render_kind

record page =
  pg_id :: string
  pg_label :: string
  pg_source :: page_source
  pg_click :: "string list"

definition page_command :: "page \<Rightarrow> page_command_spec option" where
  "page_command p = (case pg_source p of PS_Command spec \<Rightarrow> Some spec | _ \<Rightarrow> None)"
definition page_render :: "page \<Rightarrow> page_render_kind option" where
  "page_render p = (case pg_source p of PS_Render kind \<Rightarrow> Some kind | _ \<Rightarrow> None)"

definition CLICK_SYSTEM_MONITOR :: "string list" where
  "CLICK_SYSTEM_MONITOR = [''plasma-systemmonitor'']"

definition FULL_PAGE :: page where
  "FULL_PAGE = \<lparr>pg_id = ''full'', pg_label = ''Full stats'', pg_source = PS_Full,
     pg_click = CLICK_SYSTEM_MONITOR\<rparr>"

definition PROCESSES_PAGE :: page where
  "PROCESSES_PAGE = \<lparr>pg_id = ''processes'', pg_label = ''Top processes'',
     pg_source = PS_Render Render_TopProcess, pg_click = CLICK_SYSTEM_MONITOR\<rparr>"

definition CONNECTIONS_PAGE :: page where
  "CONNECTIONS_PAGE = \<lparr>pg_id = ''connections'', pg_label = ''Connections'',
     pg_source = PS_Command
       \<lparr>pc_argv = [''ss'', ''-4tlnp''], pc_ttl = 0, pc_max_lines = 20, pc_pty = False,
        pc_colorize = Some Colorize_Connections\<rparr>,
     pg_click = CLICK_SYSTEM_MONITOR\<rparr>"

definition FASTFETCH_PAGE :: page where
  "FASTFETCH_PAGE = \<lparr>pg_id = ''fastfetch'', pg_label = ''System info'',
     pg_source = PS_Command
       \<lparr>pc_argv = [''fastfetch'', ''--logo'', ''none'', ''--structure'',
          ''OS:Kernel:Loadavg:Uptime:Separator:Chassis:Board:Bios:CPU:GPU:Display:BluetoothRadio:'' @
          ''Separator:Memory:Disk:Battery:PowerAdapter:Wifi:LocalIP:DNS:Separator:InitSystem:Shell:'' @
          ''LM:DE:WM''],
        pc_ttl = from_secs 30, pc_max_lines = 0, pc_pty = True, pc_colorize = None\<rparr>,
     pg_click = CLICK_SYSTEM_MONITOR\<rparr>"

definition CPU_CORES_PAGE :: page where
  "CPU_CORES_PAGE = \<lparr>pg_id = ''cpu_cores'', pg_label = ''CPU cores'',
     pg_source = PS_Render Render_CpuCores, pg_click = CLICK_SYSTEM_MONITOR\<rparr>"

definition GRAPHS_PAGE :: page where
  "GRAPHS_PAGE = \<lparr>pg_id = ''graphs'', pg_label = ''Graphs'', pg_source = PS_Render Render_Graphs,
     pg_click = CLICK_SYSTEM_MONITOR\<rparr>"

definition PAGE_REGISTRY :: "page list" where
  "PAGE_REGISTRY = [PROCESSES_PAGE, CONNECTIONS_PAGE, FASTFETCH_PAGE, CPU_CORES_PAGE, GRAPHS_PAGE]"

definition build_pages :: "string list \<Rightarrow> page list" where
  "build_pages page_ids =
     FULL_PAGE # List.map_filter (\<lambda>i. List.find (\<lambda>p. pg_id p = i) PAGE_REGISTRY) page_ids"

section \<open>The page selection\<close>

text \<open>
  The fields of \<open>RuntimeState\<close> that the selection uses; \<open>announcements\<close> is the sink. An index into
  an empty page list panics, which is the result \<open>None\<close>.
\<close>

record selection_state =
  active :: "page list"
  page_index :: nat
  announced_selection :: "(nat \<times> nat) option"
  announcements :: "(nat \<times> nat) list"

definition selected_page :: "selection_state \<Rightarrow> (nat \<times> page_id) option" where
  "selected_page s =
     (let index = min (page_index s) (length (active s) - 1) in
      if index < length (active s) then Some (index, page_from_id (pg_id (active s ! index)))
      else None)"

definition selection :: "selection_state \<Rightarrow> (nat \<times> nat) option" where
  "selection s =
     (case selected_page s of
        None \<Rightarrow> None
      | Some (index, _) \<Rightarrow>
          Some (if index \<le> u32_max then index else 0, min (length (active s)) u32_max))"

definition step_page :: "page_step \<Rightarrow> selection_state \<Rightarrow> (selection_state \<times> bool) option" where
  "step_page st s =
     (case selection s of
        None \<Rightarrow> None
      | Some (current, page_count) \<Rightarrow>
          let next = step_apply st (of_nat current) (of_nat page_count)
          in Some (s\<lparr>page_index := unat next\<rparr>, next \<noteq> of_nat current))"

definition replace_pages :: "page list \<Rightarrow> selection_state \<Rightarrow> selection_state" where
  "replace_pages pages s =
     s\<lparr>active := pages, page_index := min (page_index s) (length pages - 1)\<rparr>"

definition announce_selection :: "selection_state \<Rightarrow> selection_state option" where
  "announce_selection s =
     (case selection s of
        None \<Rightarrow> None
      | Some sel \<Rightarrow>
          if announced_selection s \<noteq> Some sel
          then Some (s\<lparr>announced_selection := Some sel, announcements := announcements s @ [sel]\<rparr>)
          else Some s)"

end
