(* ===== verification/AppletProps.thy ===== *)
theory AppletProps
  imports Applet
begin

text \<open>
  What the applet side promises: turning pages is a cycle, the leases are exactly those a client
  holds, their effects tell the scheduler the truth, and every selection announced is a real change.
\<close>

section \<open>Turning pages\<close>

lemma step_apply_unat:
  assumes "1 < c" "c \<le> 2 ^ 31" "p < c"
  shows "unat (step_apply Next p c) = (unat p + 1) mod unat c"
    and "unat (step_apply Prev p c) = (unat p + unat c - 1) mod unat c"
proof -
  let ?p = "unat p" and ?c = "unat c"
  have c: "1 < ?c" using assms(1) by (simp add: word_less_nat_alt)
  have c31: "?c \<le> 2 ^ 31" using assms(2) by (simp add: word_le_nat_alt)
  have p: "?p < ?c" using assms(3) by (simp add: word_less_nat_alt)
  from assms(3) have pm: "p mod c = p"
    by (metis mod_less p unat_mod_distrib word_unat_eq_iff)
  from p c31 have "unat (p + 1) = ?p + 1" by (subst unat_add_lem [THEN iffD1]) simp_all
  with assms(1) pm show "unat (step_apply Next p c) = (?p + 1) mod ?c"
    by (simp add: step_apply_def unat_mod_distrib not_le)
  from p c31 have s: "unat (p + c) = ?p + ?c" by (subst unat_add_lem [THEN iffD1]) simp_all
  have "1 \<le> p + c" using s c by (simp add: word_le_nat_alt)
  with s have "unat (p + c - 1) = ?p + ?c - 1" by (simp add: unat_sub)
  with assms(1) pm show "unat (step_apply Prev p c) = (?p + ?c - 1) mod ?c"
    by (simp add: step_apply_def unat_mod_distrib not_le)
qed

lemma cycle_mod:
  "p < c \<Longrightarrow> 1 < (c :: nat) \<Longrightarrow> ((p + 1) mod c + c - 1) mod c = p \<and> ((p + c - 1) mod c + 1) mod c = p"
proof -
  assume p: "p < c" and c: "1 < c"
  have "((p + 1) mod c + c - 1) mod c = p"
    using p c by (cases "p + 1 = c") (auto simp: mod_if)
  moreover have "((p + c - 1) mod c + 1) mod c = p"
    using p c by (cases "p = 0") (auto simp: mod_if)
  ultimately show ?thesis by simp
qed

text \<open>
  Round trip. With up to \<open>2 ^ 31\<close> pages, a step stays within the pages and the opposite step
  returns to the page it started from: the machine arithmetic of \<open>Prev\<close> does not wrap around.
\<close>

theorem page_step_cycle:
  "p < c \<Longrightarrow> c \<le> 2 ^ 31 \<Longrightarrow>
     step_apply st p c < c \<and>
     step_apply Prev (step_apply Next p c) c = p \<and> step_apply Next (step_apply Prev p c) c = p"
proof -
  assume p: "p < c" and c: "c \<le> 2 ^ 31"
  show ?thesis
  proof (cases "1 < c")
    case False
    with p have "c = 1" "p = 0"
      by (auto simp: word_less_nat_alt unat_eq_0 [symmetric] word_unat_eq_iff)
    then show ?thesis by (simp add: step_apply_def)
  next
    case True
    have lt: "step_apply st p c < c" for st
      using step_apply_unat [OF True c p] True
      by (cases st) (simp_all add: word_less_nat_alt)
    have "unat p < unat c" "1 < unat c" using p True by (simp_all add: word_less_nat_alt)
    with cycle_mod [of "unat p" "unat c"] step_apply_unat [OF True c p]
      step_apply_unat [OF True c lt] lt show ?thesis
      by (auto simp: word_unat_eq_iff)
  qed
qed

lemma page_step_cycle_witness: "step_apply Next (step_apply Prev 0 5) 5 = 0"
  using page_step_cycle [of 0 5 Next] by simp

section \<open>Leases\<close>

datatype lease_op = L_Present client_id instance_id | L_Dismiss client_id instance_id
  | L_Gone client_id | L_Lost

primrec lease_step :: "lease_op \<Rightarrow> leases \<Rightarrow> leases \<times> lease_effect" where
  "lease_step (L_Present c i) l = lease_present c i l"
| "lease_step (L_Dismiss c i) l = lease_dismiss c i l"
| "lease_step (L_Gone c) l = lease_client_gone c l"
| "lease_step L_Lost l = lease_connection_lost l"

definition lease_run :: "lease_op list \<Rightarrow> leases" where
  "lease_run ops = fold (\<lambda>op l. fst (lease_step op l)) ops leases_default"

lemmas lease_defs = lease_present_def lease_dismiss_def lease_client_gone_def
  lease_connection_lost_def transition_from_def lease_presented_def Let_def

text \<open>
  The contract of a single lease, whatever the other clients do: free, held, or barred because its
  client left the bus. Only the loss of the daemon's own connection lifts the bar.
\<close>

datatype lease_status = Free | Held | Barred

fun lease_automaton :: "client_id \<Rightarrow> instance_id \<Rightarrow> lease_op \<Rightarrow> lease_status \<Rightarrow> lease_status" where
  "lease_automaton c i L_Lost st = Free"
| "lease_automaton c i (L_Gone d) st = (if d = c then Barred else st)"
| "lease_automaton c i (L_Present d j) st =
     (if (d, j) = (c, i) \<and> st = Free then Held else st)"
| "lease_automaton c i (L_Dismiss d j) st =
     (if (d, j) = (c, i) \<and> st = Held then Free else st)"

definition lease_status_of :: "client_id \<Rightarrow> instance_id \<Rightarrow> leases \<Rightarrow> lease_status" where
  "lease_status_of c i l =
     (if c \<in> set (gone l) then Barred else if (c, i) \<in> set (live l) then Held else Free)"

definition leases_ok :: "leases \<Rightarrow> bool" where
  "leases_ok l \<longleftrightarrow> (\<forall>(c, i) \<in> set (live l). c \<notin> set (gone l))"

lemma lease_step_ok: "leases_ok l \<Longrightarrow> leases_ok (fst (lease_step op l))"
  by (cases op) (auto simp: leases_ok_def lease_defs split: if_splits)

lemma lease_step_sim:
  "lease_status_of c i (fst (lease_step op l)) = lease_automaton c i op (lease_status_of c i l)"
  by (cases op) (auto simp: lease_status_of_def lease_defs)

interpretation leases: stepper "\<lambda>op l. fst (lease_step op l)" leases_default leases_ok
  by unfold_locales (simp add: leases_ok_def leases_default_def, simp add: lease_step_ok)

lemma leases_run_ok: "leases_ok (lease_run ops)"
  unfolding lease_run_def
  by (rule leases.inv_run)

text \<open>
  C18. Refinement. After any sequence of requests, each lease is in the state its own contract
  computes from them: a client that left holds no lease, and no request of another client or
  instance touches it.
\<close>

theorem leases_refine:
  "lease_status_of c i (lease_run ops) = fold (lease_automaton c i) ops Free \<and>
   ((c, i) \<in> set (live (lease_run ops)) \<longleftrightarrow> fold (lease_automaton c i) ops Free = Held)"
proof -
  have "lease_status_of c i (fold (\<lambda>op l. fst (lease_step op l)) ops l) =
      fold (lease_automaton c i) ops (lease_status_of c i l)" for l
    by (induction ops arbitrary: l) (simp_all add: lease_step_sim)
  then have sim: "lease_status_of c i (lease_run ops) = fold (lease_automaton c i) ops Free"
    by (simp add: lease_run_def lease_status_of_def leases_default_def)
  moreover from leases_run_ok have "c \<notin> set (gone (lease_run ops))" if "(c, i) \<in> set (live (lease_run ops))"
    using that by (fastforce simp: leases_ok_def)
  then have "(c, i) \<in> set (live (lease_run ops)) \<longleftrightarrow> lease_status_of c i (lease_run ops) = Held"
    by (auto simp: lease_status_of_def)
  ultimately show ?thesis by simp
qed

text \<open>What the effects reported along a run say about the presentation.\<close>

fun told :: "lease_effect list \<Rightarrow> bool \<Rightarrow> bool" where
  "told [] b = b"
| "told (Presented p # es) b = told es p"
| "told (Reactivated # es) b = told es b"
| "told (Unchanged # es) b = told es b"

fun lease_effects :: "lease_op list \<Rightarrow> leases \<Rightarrow> lease_effect list" where
  "lease_effects [] l = []"
| "lease_effects (op # ops) l =
     snd (lease_step op l) # lease_effects ops (fst (lease_step op l))"

lemma bs_insert_not_Nil [simp]: "bs_insert x s \<noteq> []"
  by (cases s) auto

lemma told_Cons: "told (e # es) b = told es (told [e] b)"
  by (cases e) simp_all

lemma told_step: "told [snd (lease_step op l)] (lease_presented l) = lease_presented (fst (lease_step op l))"
  by (cases op) (auto simp: lease_defs split: if_splits)

lemma effect_real:
  "snd (lease_step op l) = Presented p \<Longrightarrow> lease_presented l \<noteq> p \<and> lease_presented (fst (lease_step op l)) = p"
  by (cases op) (auto simp: lease_defs split: if_splits)

text \<open>
  Safety. The effects are faithful: what they say of the presentation is what the leases say,
  every \<open>Presented\<close> effect is a change, and a present request of a held lease, and nothing else, is
  reported as a reactivation.
\<close>

theorem lease_effects_faithful:
  "told (lease_effects ops leases_default) False = lease_presented (lease_run ops) \<and>
   (\<forall>p. snd (lease_step op (lease_run ops)) = Presented p \<longrightarrow> lease_presented (lease_run ops) \<noteq> p) \<and>
   (snd (lease_step op (lease_run ops)) = Reactivated \<longleftrightarrow>
      (\<exists>c i. op = L_Present c i \<and> (c, i) \<in> set (live (lease_run ops))))"
proof -
  have told: "told (lease_effects ops l) (lease_presented l) =
      lease_presented (fold (\<lambda>op l. fst (lease_step op l)) ops l)" for l
  proof (induction ops arbitrary: l)
    case (Cons op ops)
    then show ?case by (simp add: told_Cons [of "snd (lease_step op l)"] told_step)
  qed simp
  have "snd (lease_step op l) = Reactivated \<longleftrightarrow> (\<exists>c i. op = L_Present c i \<and> (c, i) \<in> set (live l))"
    if "leases_ok l" for l
    using that by (cases op) (auto simp: lease_defs leases_ok_def split: if_splits)
  moreover have "told (lease_effects ops leases_default) False = lease_presented (lease_run ops)"
    using told [of leases_default] by (simp add: lease_run_def lease_presented_def leases_default_def)
  ultimately show ?thesis
    using leases_run_ok [of ops] effect_real [of op "lease_run ops"] by simp
qed

lemma lease_effects_faithful_witness:
  "snd (lease_step (L_Present '':1.7'' 3) (lease_run [])) = Presented True \<and> \<not> lease_presented (lease_run [])"
proof -
  have "snd (lease_step (L_Present '':1.7'' 3) (lease_run [])) = Presented True"
    by (simp add: lease_run_def leases_default_def lease_defs)
  moreover from this have "\<not> lease_presented (lease_run [])"
    using lease_effects_faithful [of "[]" "L_Present '':1.7'' 3"] by blast
  ultimately show ?thesis by simp
qed

section \<open>Announced selections\<close>

datatype selection_op = S_Step page_step | S_Pages "string list" | S_Announce

text \<open>
  An operation on the selection: a turn, a new registry built from a configured order, as
  \<open>build_replacement_pages\<close> does, or an announcement.
\<close>

fun selection_step :: "selection_op \<Rightarrow> selection_state option \<Rightarrow> selection_state option" where
  "selection_step (S_Step st) (Some s) = map_option fst (step_page st s)"
| "selection_step (S_Pages pages) (Some s) = Some (replace_pages (build_pages pages) s)"
| "selection_step S_Announce (Some s) = announce_selection s"
| "selection_step op None = None"

definition selection_start :: "string list \<Rightarrow> selection_state" where
  "selection_start page_ids =
     \<lparr>active = build_pages page_ids, page_index = 0, announced_selection = None, announcements = []\<rparr>"

definition selection_ok :: "selection_state option \<Rightarrow> bool" where
  "selection_ok so \<longleftrightarrow>
     (case so of
        None \<Rightarrow> False
      | Some s \<Rightarrow>
          active s \<noteq> [] \<and> length (active s) \<le> u32_max \<and>
          (\<forall>(p, c) \<in> set (announcements s). p < c) \<and>
          distinct_adj (announcements s) \<and>
          announced_selection s = (if announcements s = [] then None else Some (last (announcements s))))"

primrec small_registry :: "selection_op \<Rightarrow> bool" where
  "small_registry (S_Step st) = True"
| "small_registry (S_Pages ids) = (length ids < u32_max)"
| "small_registry S_Announce = True"

lemma build_pages_length: "build_pages ids \<noteq> [] \<and> length (build_pages ids) \<le> Suc (length ids)"
  by (simp add: build_pages_def List.map_filter_def length_filter_le)

lemma selection_bound:
  "active s \<noteq> [] \<Longrightarrow> length (active s) \<le> u32_max \<Longrightarrow> \<exists>p c. selection s = Some (p, c) \<and> p < c"
  by (cases "active s") (auto simp: selection_def selected_page_def Let_def min_def)

lemma distinct_adj_snoc:
  "distinct_adj (xs @ [x]) \<longleftrightarrow> distinct_adj xs \<and> (xs = [] \<or> last xs \<noteq> x)"
  by (auto simp: distinct_adj_append_iff)

lemma selection_step_ok: "selection_ok so \<Longrightarrow> small_registry op \<Longrightarrow> selection_ok (selection_step op so)"
proof (cases so)
  case (Some s)
  assume ok: "selection_ok so" and small: "small_registry op"
  with Some obtain p c where sel: "selection s = Some (p, c)" "p < c"
    using selection_bound [of s] by (auto simp: selection_ok_def)
  show ?thesis
  proof (cases op)
    case (S_Pages ids)
    with ok small Some build_pages_length [of ids] show ?thesis
      by (simp add: selection_ok_def replace_pages_def)
  qed (use ok Some sel in \<open>auto simp: selection_ok_def step_page_def announce_selection_def
    distinct_adj_snoc Let_def\<close>)
qed (simp add: selection_ok_def)

lemma selection_run_ok:
  "list_all small_registry ops \<Longrightarrow> selection_ok so \<Longrightarrow> selection_ok (fold selection_step ops so)"
  by (induction ops arbitrary: so) (auto intro: selection_step_ok)

text \<open>
  Safety. Turning pages, installing a new registry and announcing never index out of the pages,
  whatever the configured order; every selection announced has its page below its count, and it
  differs from the one announced before.
\<close>

theorem announcements_are_changes:
  "length page_ids < u32_max \<Longrightarrow> list_all small_registry ops \<Longrightarrow>
   \<exists>s. fold selection_step ops (Some (selection_start page_ids)) = Some s \<and>
     (\<forall>(p, c) \<in> set (announcements s). p < c) \<and> distinct_adj (announcements s)"
proof -
  assume "length page_ids < u32_max" "list_all small_registry ops"
  then have "selection_ok (fold selection_step ops (Some (selection_start page_ids)))"
    using build_pages_length [of page_ids]
    by (intro selection_run_ok) (simp_all add: selection_ok_def selection_start_def)
  then show ?thesis by (auto simp: selection_ok_def split: option.splits)
qed

lemma announcements_are_changes_witness:
  "\<exists>s. fold selection_step [S_Announce, S_Step Prev, S_Announce] (Some (selection_start [''graphs''])) = Some s \<and>
     distinct_adj (announcements s)"
  using announcements_are_changes [of "[''graphs'']" "[S_Announce, S_Step Prev, S_Announce]"]
  by (auto simp: u32_max_def)

end
