(* ===== verification/Snapshot.thy ===== *)
theory Snapshot
  imports Readings SchedModel
begin

text \<open>
  What the daemon shows and what it knows of the machine: \<open>DisplaySnapshot\<close> and
  \<open>HardwareInventory\<close> of \<open>src/domain/readings.rs\<close>, and how a completed job is merged into them,
  \<open>src/daemon/async_loop/state/merge.rs\<close>. A floating-point reading is carried as its 64 bits: nothing
  here computes with it. Integers are the mathematical ones, for the same reason.
\<close>

section \<open>Readings\<close>

type_synonym f64 = "64 word"

text \<open>\<open>ClockSnapshot\<close>; the wall-clock time is the nanoseconds since the epoch.\<close>

record clock_snapshot =
  cs_monotonic :: duration
  cs_wall :: int

datatype battery_state = Bat_Unknown | Bat_Charging | Bat_Discharging | Bat_FullyCharged

primrec battery_state_as_str :: "battery_state \<Rightarrow> string" where
  "battery_state_as_str Bat_Unknown = ''''"
| "battery_state_as_str Bat_Charging = ''charging''"
| "battery_state_as_str Bat_Discharging = ''discharging''"
| "battery_state_as_str Bat_FullyCharged = ''fully-charged''"

record battery_system_reading =
  bs_id :: string
  bs_charge_percent :: int
  bs_rate_watts :: int
  bs_state :: battery_state
  bs_charge_limit_percent :: "int option"

record battery_peripheral_reading =
  bp_name :: string
  bp_charge_percent :: int

record disk_usage_reading =
  du_percent :: int
  du_used_gib :: nat
  du_total_gib :: nat

record load_average =
  la_one :: f64
  la_five :: f64
  la_fifteen :: f64

record top_process_summary =
  ts_command :: string
  ts_cpu_percent :: int

record top_process_details =
  td_pid :: nat
  td_command :: string
  td_cpu_percent :: int
  td_memory_percent :: f64

datatype disk_smart_interface = Smart_Ata | Smart_Nvme

primrec smart_interface_as_str :: "disk_smart_interface \<Rightarrow> string" where
  "smart_interface_as_str Smart_Ata = ''ata''"
| "smart_interface_as_str Smart_Nvme = ''nvme''"

record smart_disk =
  sd_object_path :: string
  sd_interface :: disk_smart_interface
  sd_rotational :: bool

section \<open>Hardware inventory\<close>

record hardware_inventory =
  hw_capabilities :: "capability bset"
  hw_metrics :: "metric bset"
  hw_cpu_temp_path :: "path option"
  hw_cpu_freq_path :: "path option"
  hw_cpu_turbo_path :: "path option"
  hw_hd_temp_paths :: "(string, path) bmap"
  hw_fan_paths :: "(string, path) bmap"
  hw_battery_sys_ids :: "string list"
  hw_has_nvidia :: bool
  hw_amd_gpu :: "amd_gpu_source option"
  hw_amd_npu :: "amd_npu_source option"
  hw_intel_gpu_freq_path :: "path option"
  hw_intel_gpu_pci :: "string option"
  hw_net_device :: "string option"
  hw_disk_io_device :: "string option"
  hw_cpu_count :: nat
  hw_cpu_turbo_supported :: bool
  hw_has_backlight :: bool
  hw_has_wifi :: bool
  hw_battery_mouse_id :: "string option"
  hw_battery_kbd_id :: "string option"
  hw_disk_smart_drives :: "(string, smart_disk) bmap"

definition hardware_inventory_default :: hardware_inventory where
  "hardware_inventory_default =
     \<lparr>hw_capabilities = [], hw_metrics = [], hw_cpu_temp_path = None,
      hw_cpu_freq_path = None, hw_cpu_turbo_path = None, hw_hd_temp_paths = [],
      hw_fan_paths = [], hw_battery_sys_ids = [], hw_has_nvidia = False, hw_amd_gpu = None,
      hw_amd_npu = None, hw_intel_gpu_freq_path = None, hw_intel_gpu_pci = None,
      hw_net_device = None, hw_disk_io_device = None, hw_cpu_count = 1,
      hw_cpu_turbo_supported = False, hw_has_backlight = False, hw_has_wifi = False,
      hw_battery_mouse_id = None, hw_battery_kbd_id = None, hw_disk_smart_drives = []\<rparr>"

section \<open>Display snapshot\<close>

record display_snapshot =
  ds_assembled_at :: clock_snapshot
  ds_metrics :: "metric bset"
  ds_cpu_usage :: "int option"
  ds_cpu_temp :: "int option"
  ds_cpu_freq_mhz :: "f64 option"
  ds_cpu_turbo :: "bool option"
  ds_cpu_history :: "int list"
  ds_cpu_temp_history :: "int list"
  ds_mem_history :: "int list"
  ds_uptime_seconds :: "int option"
  ds_load_average :: "load_average option"
  ds_top_process :: "top_process_summary list option"
  ds_top_process_full :: "top_process_details list option"
  ds_cpu_core_usage :: "int list option"
  ds_cpu_core_history :: "int list list option"
  ds_mem_usage :: "int option"
  ds_mem_used_gib :: "nat option"
  ds_mem_total_gib :: "nat option"
  ds_swap_usage :: "int option"
  ds_net_up_bps :: "nat option"
  ds_net_down_bps :: "nat option"
  ds_net_device :: "string option"
  ds_ip_address :: "string option"
  ds_wifi_ssid :: "string option"
  ds_wifi_signal_percent :: "int option"
  ds_disk_read_bps :: "nat option"
  ds_disk_write_bps :: "nat option"
  ds_disk_usage :: "(string, disk_usage_reading option) bmap"
  ds_disk_smart :: "(string, bool option) bmap"
  ds_hd_temps :: "(string, int option) bmap"
  ds_fan_speeds :: "(string, int option) bmap"
  ds_battery_sys :: "battery_system_reading list"
  ds_battery_mouse :: "battery_peripheral_reading option"
  ds_battery_kbd :: "battery_peripheral_reading option"
  ds_gpu_temp :: "int option"
  ds_gpu_usage :: "int option"
  ds_gpu_mem :: "int option"
  ds_gpu_dec :: "int option"
  ds_gpu_fan :: "int option"
  ds_gpu_amd_usage :: "int option"
  ds_gpu_amd_codec_usage :: "int option"
  ds_gpu_amd_mem_usage :: "amd_memory_reading option"
  ds_gpu_amd_freq :: "nat option"
  ds_gpu_amd_temp :: "int option"
  ds_gpu_amd_power :: "nat option"
  ds_gpu_amd_fan_speed :: "nat option"
  ds_npu_amd_usage :: "int option"
  ds_npu_amd_power_mw :: "nat option"
  ds_npu_amd_freq :: "nat option"
  ds_npu_amd_usage_history :: "int list"
  ds_gpu_intel_freq :: "int option"
  ds_gpu_intel_usage :: "int option"
  ds_gpu_intel_dec_usage :: "int option"
  ds_gpu_usage_history :: "int list"
  ds_gpu_dec_history :: "int list"
  ds_gpu_temp_history :: "int list"
  ds_net_up_history :: "nat list"
  ds_net_down_history :: "nat list"
  ds_disk_read_history :: "nat list"
  ds_disk_write_history :: "nat list"
  ds_screen_brightness :: "int option"
  ds_system_updates :: "int option"
  ds_server_ok :: "bool option"

definition display_snapshot_default :: display_snapshot where
  "display_snapshot_default =
     \<lparr>ds_assembled_at = \<lparr>cs_monotonic = 0, cs_wall = 0\<rparr>, ds_metrics = [],
      ds_cpu_usage = None, ds_cpu_temp = None, ds_cpu_freq_mhz = None, ds_cpu_turbo = None,
      ds_cpu_history = [], ds_cpu_temp_history = [], ds_mem_history = [],
      ds_uptime_seconds = None, ds_load_average = None, ds_top_process = None,
      ds_top_process_full = None, ds_cpu_core_usage = None, ds_cpu_core_history = None,
      ds_mem_usage = None, ds_mem_used_gib = None, ds_mem_total_gib = None,
      ds_swap_usage = None, ds_net_up_bps = None, ds_net_down_bps = None,
      ds_net_device = None, ds_ip_address = None, ds_wifi_ssid = None,
      ds_wifi_signal_percent = None, ds_disk_read_bps = None, ds_disk_write_bps = None,
      ds_disk_usage = [], ds_disk_smart = [], ds_hd_temps = [], ds_fan_speeds = [],
      ds_battery_sys = [], ds_battery_mouse = None, ds_battery_kbd = None,
      ds_gpu_temp = None, ds_gpu_usage = None, ds_gpu_mem = None, ds_gpu_dec = None,
      ds_gpu_fan = None, ds_gpu_amd_usage = None, ds_gpu_amd_codec_usage = None,
      ds_gpu_amd_mem_usage = None, ds_gpu_amd_freq = None, ds_gpu_amd_temp = None,
      ds_gpu_amd_power = None, ds_gpu_amd_fan_speed = None, ds_npu_amd_usage = None,
      ds_npu_amd_power_mw = None, ds_npu_amd_freq = None, ds_npu_amd_usage_history = [],
      ds_gpu_intel_freq = None, ds_gpu_intel_usage = None, ds_gpu_intel_dec_usage = None,
      ds_gpu_usage_history = [], ds_gpu_dec_history = [], ds_gpu_temp_history = [],
      ds_net_up_history = [], ds_net_down_history = [], ds_disk_read_history = [],
      ds_disk_write_history = [], ds_screen_brightness = None, ds_system_updates = None,
      ds_server_ok = None\<rparr>"

section \<open>Merging a completion\<close>

primrec apply_inventory_family :: "inventory_family \<Rightarrow> hardware_inventory \<Rightarrow> hardware_inventory \<Rightarrow> hardware_inventory" where
  "apply_inventory_family Inv_Cpu source target =
     target\<lparr>hw_cpu_temp_path := hw_cpu_temp_path source,
       hw_cpu_freq_path := hw_cpu_freq_path source,
       hw_cpu_turbo_path := hw_cpu_turbo_path source,
       hw_cpu_turbo_supported := hw_cpu_turbo_supported source\<rparr>"
| "apply_inventory_family Inv_Thermal source target =
     target\<lparr>hw_hd_temp_paths := hw_hd_temp_paths source, hw_fan_paths := hw_fan_paths source\<rparr>"
| "apply_inventory_family Inv_SystemBattery source target =
     target\<lparr>hw_battery_sys_ids := hw_battery_sys_ids source\<rparr>"
| "apply_inventory_family Inv_Smart source target =
     target\<lparr>hw_disk_smart_drives := hw_disk_smart_drives source\<rparr>"
| "apply_inventory_family Inv_Nvidia source target =
     target\<lparr>hw_has_nvidia := hw_has_nvidia source\<rparr>"
| "apply_inventory_family Inv_Amd source target =
     target\<lparr>hw_amd_gpu := hw_amd_gpu source\<rparr>"
| "apply_inventory_family Inv_AmdNpu source target =
     target\<lparr>hw_amd_npu := hw_amd_npu source\<rparr>"
| "apply_inventory_family Inv_Intel source target =
     target\<lparr>hw_intel_gpu_freq_path := hw_intel_gpu_freq_path source,
       hw_intel_gpu_pci := hw_intel_gpu_pci source\<rparr>"
| "apply_inventory_family Inv_Backlight source target =
     target\<lparr>hw_has_backlight := hw_has_backlight source\<rparr>"
| "apply_inventory_family Inv_Network source target =
     target\<lparr>hw_net_device := hw_net_device source, hw_has_wifi := hw_has_wifi source\<rparr>"
| "apply_inventory_family Inv_DiskIo source target =
     target\<lparr>hw_disk_io_device := hw_disk_io_device source\<rparr>"
| "apply_inventory_family Inv_Peripheral source target =
     target\<lparr>hw_battery_mouse_id := hw_battery_mouse_id source,
       hw_battery_kbd_id := hw_battery_kbd_id source\<rparr>"

primrec apply_owner_readings :: "owner_id \<Rightarrow> display_snapshot \<Rightarrow> display_snapshot \<Rightarrow> display_snapshot" where
  "apply_owner_readings Own_Cpu source target =
     target\<lparr>ds_cpu_usage := ds_cpu_usage source, ds_cpu_temp := ds_cpu_temp source,
       ds_cpu_freq_mhz := ds_cpu_freq_mhz source, ds_cpu_turbo := ds_cpu_turbo source,
       ds_cpu_history := ds_cpu_history source,
       ds_cpu_temp_history := ds_cpu_temp_history source,
       ds_gpu_temp_history := ds_gpu_temp_history source,
       ds_uptime_seconds := ds_uptime_seconds source,
       ds_load_average := ds_load_average source,
       ds_cpu_core_usage := ds_cpu_core_usage source,
       ds_cpu_core_history := ds_cpu_core_history source\<rparr>"
| "apply_owner_readings Own_Process source target =
     target\<lparr>ds_top_process := ds_top_process source,
       ds_top_process_full := ds_top_process_full source\<rparr>"
| "apply_owner_readings Own_Memory source target =
     target\<lparr>ds_mem_history := ds_mem_history source, ds_mem_usage := ds_mem_usage source,
       ds_mem_used_gib := ds_mem_used_gib source,
       ds_mem_total_gib := ds_mem_total_gib source,
       ds_swap_usage := ds_swap_usage source\<rparr>"
| "apply_owner_readings Own_Network source target =
     target\<lparr>ds_net_up_bps := ds_net_up_bps source, ds_net_down_bps := ds_net_down_bps source,
       ds_net_device := ds_net_device source, ds_ip_address := ds_ip_address source,
       ds_wifi_ssid := ds_wifi_ssid source,
       ds_wifi_signal_percent := ds_wifi_signal_percent source,
       ds_net_up_history := ds_net_up_history source,
       ds_net_down_history := ds_net_down_history source\<rparr>"
| "apply_owner_readings Own_Disk source target =
     target\<lparr>ds_disk_read_bps := ds_disk_read_bps source,
       ds_disk_write_bps := ds_disk_write_bps source,
       ds_disk_read_history := ds_disk_read_history source,
       ds_disk_write_history := ds_disk_write_history source,
       ds_disk_usage := ds_disk_usage source, ds_disk_smart := ds_disk_smart source,
       ds_hd_temps := ds_hd_temps source, ds_fan_speeds := ds_fan_speeds source\<rparr>"
| "apply_owner_readings Own_Power source target =
     target\<lparr>ds_battery_sys := ds_battery_sys source,
       ds_battery_mouse := ds_battery_mouse source,
       ds_battery_kbd := ds_battery_kbd source\<rparr>"
| "apply_owner_readings Own_Nvidia source target =
     target\<lparr>ds_gpu_temp := ds_gpu_temp source, ds_gpu_usage := ds_gpu_usage source,
       ds_gpu_mem := ds_gpu_mem source, ds_gpu_dec := ds_gpu_dec source,
       ds_gpu_fan := ds_gpu_fan source\<rparr>"
| "apply_owner_readings Own_AmdGpu source target =
     target\<lparr>ds_gpu_amd_usage := ds_gpu_amd_usage source,
       ds_gpu_amd_codec_usage := ds_gpu_amd_codec_usage source,
       ds_gpu_amd_mem_usage := ds_gpu_amd_mem_usage source,
       ds_gpu_amd_freq := ds_gpu_amd_freq source,
       ds_gpu_amd_temp := ds_gpu_amd_temp source,
       ds_gpu_amd_power := ds_gpu_amd_power source,
       ds_gpu_amd_fan_speed := ds_gpu_amd_fan_speed source\<rparr>"
| "apply_owner_readings Own_AmdNpu source target =
     target\<lparr>ds_npu_amd_usage := ds_npu_amd_usage source,
       ds_npu_amd_power_mw := ds_npu_amd_power_mw source,
       ds_npu_amd_freq := ds_npu_amd_freq source,
       ds_npu_amd_usage_history := ds_npu_amd_usage_history source\<rparr>"
| "apply_owner_readings Own_IntelGpu source target =
     target\<lparr>ds_gpu_intel_freq := ds_gpu_intel_freq source,
       ds_gpu_intel_usage := ds_gpu_intel_usage source,
       ds_gpu_intel_dec_usage := ds_gpu_intel_dec_usage source\<rparr>"
| "apply_owner_readings Own_GpuHistory source target =
     target\<lparr>ds_gpu_usage_history := ds_gpu_usage_history source,
       ds_gpu_dec_history := ds_gpu_dec_history source\<rparr>"
| "apply_owner_readings Own_External source target =
     target\<lparr>ds_screen_brightness := ds_screen_brightness source,
       ds_system_updates := ds_system_updates source,
       ds_server_ok := ds_server_ok source\<rparr>"
| "apply_owner_readings Own_Page source target =
     target"
| "apply_owner_readings Own_Discovery source target =
     target"

text \<open>
  \<open>apply_inventory_completion\<close>: the job, the inventory and the mounts it found, and the inventory and
  mounts of the daemon, which are returned.
\<close>

definition apply_inventory_completion ::
    "job_id \<Rightarrow> hardware_inventory \<Rightarrow> string list \<Rightarrow> hardware_inventory \<Rightarrow> string list \<Rightarrow>
     hardware_inventory \<times> string list" where
  "apply_inventory_completion job found found_mounts hw resolved_mounts =
     (case jid_kind job of
        Job_NetworkIdentity \<Rightarrow> (hw\<lparr>hw_net_device := hw_net_device found\<rparr>, resolved_mounts)
      | Job_MountInventory \<Rightarrow> (hw, found_mounts)
      | Job_HardwareDiscovery \<Rightarrow>
          (case jid_source job of
             InventorySource family \<Rightarrow> (apply_inventory_family family found hw, resolved_mounts)
           | _ \<Rightarrow> (hw, resolved_mounts))
      | _ \<Rightarrow> (hw, resolved_mounts))"

end
