(* ===== verification/SnapshotProps.thy ===== *)
theory SnapshotProps
  imports Snapshot
begin

text \<open>
  Every displayed reading and every piece of the inventory has exactly one writer, so the completions
  of different owners can be merged in any order.
\<close>

definition all_owners :: "owner_id list" where
  "all_owners = [Own_Cpu, Own_Process, Own_Memory, Own_Network, Own_Disk, Own_Power, Own_Nvidia,
     Own_AmdGpu, Own_AmdNpu, Own_IntelGpu, Own_GpuHistory, Own_External, Own_Page, Own_Discovery]"

lemma owner_in_all: "own \<in> set all_owners"
  by (cases own) (simp_all add: all_owners_def)

text \<open>The writer of each field.\<close>

lemma owner_fields [simp]:
  "ds_assembled_at (apply_owner_readings own s t) = ds_assembled_at t"
  "ds_metrics (apply_owner_readings own s t) = ds_metrics t"
  "ds_cpu_usage (apply_owner_readings own s t) =
     ds_cpu_usage (if own = Own_Cpu then s else t)"
  "ds_cpu_temp (apply_owner_readings own s t) =
     ds_cpu_temp (if own = Own_Cpu then s else t)"
  "ds_cpu_freq_mhz (apply_owner_readings own s t) =
     ds_cpu_freq_mhz (if own = Own_Cpu then s else t)"
  "ds_cpu_turbo (apply_owner_readings own s t) =
     ds_cpu_turbo (if own = Own_Cpu then s else t)"
  "ds_cpu_history (apply_owner_readings own s t) =
     ds_cpu_history (if own = Own_Cpu then s else t)"
  "ds_cpu_temp_history (apply_owner_readings own s t) =
     ds_cpu_temp_history (if own = Own_Cpu then s else t)"
  "ds_mem_history (apply_owner_readings own s t) =
     ds_mem_history (if own = Own_Memory then s else t)"
  "ds_uptime_seconds (apply_owner_readings own s t) =
     ds_uptime_seconds (if own = Own_Cpu then s else t)"
  "ds_load_average (apply_owner_readings own s t) =
     ds_load_average (if own = Own_Cpu then s else t)"
  "ds_top_process (apply_owner_readings own s t) =
     ds_top_process (if own = Own_Process then s else t)"
  "ds_top_process_full (apply_owner_readings own s t) =
     ds_top_process_full (if own = Own_Process then s else t)"
  "ds_cpu_core_usage (apply_owner_readings own s t) =
     ds_cpu_core_usage (if own = Own_Cpu then s else t)"
  "ds_cpu_core_history (apply_owner_readings own s t) =
     ds_cpu_core_history (if own = Own_Cpu then s else t)"
  "ds_mem_usage (apply_owner_readings own s t) =
     ds_mem_usage (if own = Own_Memory then s else t)"
  "ds_mem_used_gib (apply_owner_readings own s t) =
     ds_mem_used_gib (if own = Own_Memory then s else t)"
  "ds_mem_total_gib (apply_owner_readings own s t) =
     ds_mem_total_gib (if own = Own_Memory then s else t)"
  "ds_swap_usage (apply_owner_readings own s t) =
     ds_swap_usage (if own = Own_Memory then s else t)"
  "ds_net_up_bps (apply_owner_readings own s t) =
     ds_net_up_bps (if own = Own_Network then s else t)"
  "ds_net_down_bps (apply_owner_readings own s t) =
     ds_net_down_bps (if own = Own_Network then s else t)"
  "ds_net_device (apply_owner_readings own s t) =
     ds_net_device (if own = Own_Network then s else t)"
  "ds_ip_address (apply_owner_readings own s t) =
     ds_ip_address (if own = Own_Network then s else t)"
  "ds_wifi_ssid (apply_owner_readings own s t) =
     ds_wifi_ssid (if own = Own_Network then s else t)"
  "ds_wifi_signal_percent (apply_owner_readings own s t) =
     ds_wifi_signal_percent (if own = Own_Network then s else t)"
  "ds_disk_read_bps (apply_owner_readings own s t) =
     ds_disk_read_bps (if own = Own_Disk then s else t)"
  "ds_disk_write_bps (apply_owner_readings own s t) =
     ds_disk_write_bps (if own = Own_Disk then s else t)"
  "ds_disk_usage (apply_owner_readings own s t) =
     ds_disk_usage (if own = Own_Disk then s else t)"
  "ds_disk_smart (apply_owner_readings own s t) =
     ds_disk_smart (if own = Own_Disk then s else t)"
  "ds_hd_temps (apply_owner_readings own s t) =
     ds_hd_temps (if own = Own_Disk then s else t)"
  "ds_fan_speeds (apply_owner_readings own s t) =
     ds_fan_speeds (if own = Own_Disk then s else t)"
  "ds_battery_sys (apply_owner_readings own s t) =
     ds_battery_sys (if own = Own_Power then s else t)"
  "ds_battery_mouse (apply_owner_readings own s t) =
     ds_battery_mouse (if own = Own_Power then s else t)"
  "ds_battery_kbd (apply_owner_readings own s t) =
     ds_battery_kbd (if own = Own_Power then s else t)"
  "ds_gpu_temp (apply_owner_readings own s t) =
     ds_gpu_temp (if own = Own_Nvidia then s else t)"
  "ds_gpu_usage (apply_owner_readings own s t) =
     ds_gpu_usage (if own = Own_Nvidia then s else t)"
  "ds_gpu_mem (apply_owner_readings own s t) =
     ds_gpu_mem (if own = Own_Nvidia then s else t)"
  "ds_gpu_dec (apply_owner_readings own s t) =
     ds_gpu_dec (if own = Own_Nvidia then s else t)"
  "ds_gpu_fan (apply_owner_readings own s t) =
     ds_gpu_fan (if own = Own_Nvidia then s else t)"
  "ds_gpu_amd_usage (apply_owner_readings own s t) =
     ds_gpu_amd_usage (if own = Own_AmdGpu then s else t)"
  "ds_gpu_amd_codec_usage (apply_owner_readings own s t) =
     ds_gpu_amd_codec_usage (if own = Own_AmdGpu then s else t)"
  "ds_gpu_amd_mem_usage (apply_owner_readings own s t) =
     ds_gpu_amd_mem_usage (if own = Own_AmdGpu then s else t)"
  "ds_gpu_amd_freq (apply_owner_readings own s t) =
     ds_gpu_amd_freq (if own = Own_AmdGpu then s else t)"
  "ds_gpu_amd_temp (apply_owner_readings own s t) =
     ds_gpu_amd_temp (if own = Own_AmdGpu then s else t)"
  "ds_gpu_amd_power (apply_owner_readings own s t) =
     ds_gpu_amd_power (if own = Own_AmdGpu then s else t)"
  "ds_gpu_amd_fan_speed (apply_owner_readings own s t) =
     ds_gpu_amd_fan_speed (if own = Own_AmdGpu then s else t)"
  "ds_npu_amd_usage (apply_owner_readings own s t) =
     ds_npu_amd_usage (if own = Own_AmdNpu then s else t)"
  "ds_npu_amd_power_mw (apply_owner_readings own s t) =
     ds_npu_amd_power_mw (if own = Own_AmdNpu then s else t)"
  "ds_npu_amd_freq (apply_owner_readings own s t) =
     ds_npu_amd_freq (if own = Own_AmdNpu then s else t)"
  "ds_npu_amd_usage_history (apply_owner_readings own s t) =
     ds_npu_amd_usage_history (if own = Own_AmdNpu then s else t)"
  "ds_gpu_intel_freq (apply_owner_readings own s t) =
     ds_gpu_intel_freq (if own = Own_IntelGpu then s else t)"
  "ds_gpu_intel_usage (apply_owner_readings own s t) =
     ds_gpu_intel_usage (if own = Own_IntelGpu then s else t)"
  "ds_gpu_intel_dec_usage (apply_owner_readings own s t) =
     ds_gpu_intel_dec_usage (if own = Own_IntelGpu then s else t)"
  "ds_gpu_usage_history (apply_owner_readings own s t) =
     ds_gpu_usage_history (if own = Own_GpuHistory then s else t)"
  "ds_gpu_dec_history (apply_owner_readings own s t) =
     ds_gpu_dec_history (if own = Own_GpuHistory then s else t)"
  "ds_gpu_temp_history (apply_owner_readings own s t) =
     ds_gpu_temp_history (if own = Own_Cpu then s else t)"
  "ds_net_up_history (apply_owner_readings own s t) =
     ds_net_up_history (if own = Own_Network then s else t)"
  "ds_net_down_history (apply_owner_readings own s t) =
     ds_net_down_history (if own = Own_Network then s else t)"
  "ds_disk_read_history (apply_owner_readings own s t) =
     ds_disk_read_history (if own = Own_Disk then s else t)"
  "ds_disk_write_history (apply_owner_readings own s t) =
     ds_disk_write_history (if own = Own_Disk then s else t)"
  "ds_screen_brightness (apply_owner_readings own s t) =
     ds_screen_brightness (if own = Own_External then s else t)"
  "ds_system_updates (apply_owner_readings own s t) =
     ds_system_updates (if own = Own_External then s else t)"
  "ds_server_ok (apply_owner_readings own s t) =
     ds_server_ok (if own = Own_External then s else t)"
  by (cases own; simp)+

lemma family_fields [simp]:
  "hw_capabilities (apply_inventory_family fam s t) = hw_capabilities t"
  "hw_metrics (apply_inventory_family fam s t) = hw_metrics t"
  "hw_cpu_temp_path (apply_inventory_family fam s t) =
     hw_cpu_temp_path (if fam = Inv_Cpu then s else t)"
  "hw_cpu_freq_path (apply_inventory_family fam s t) =
     hw_cpu_freq_path (if fam = Inv_Cpu then s else t)"
  "hw_cpu_turbo_path (apply_inventory_family fam s t) =
     hw_cpu_turbo_path (if fam = Inv_Cpu then s else t)"
  "hw_hd_temp_paths (apply_inventory_family fam s t) =
     hw_hd_temp_paths (if fam = Inv_Thermal then s else t)"
  "hw_fan_paths (apply_inventory_family fam s t) =
     hw_fan_paths (if fam = Inv_Thermal then s else t)"
  "hw_battery_sys_ids (apply_inventory_family fam s t) =
     hw_battery_sys_ids (if fam = Inv_SystemBattery then s else t)"
  "hw_has_nvidia (apply_inventory_family fam s t) =
     hw_has_nvidia (if fam = Inv_Nvidia then s else t)"
  "hw_amd_gpu (apply_inventory_family fam s t) =
     hw_amd_gpu (if fam = Inv_Amd then s else t)"
  "hw_amd_npu (apply_inventory_family fam s t) =
     hw_amd_npu (if fam = Inv_AmdNpu then s else t)"
  "hw_intel_gpu_freq_path (apply_inventory_family fam s t) =
     hw_intel_gpu_freq_path (if fam = Inv_Intel then s else t)"
  "hw_intel_gpu_pci (apply_inventory_family fam s t) =
     hw_intel_gpu_pci (if fam = Inv_Intel then s else t)"
  "hw_net_device (apply_inventory_family fam s t) =
     hw_net_device (if fam = Inv_Network then s else t)"
  "hw_disk_io_device (apply_inventory_family fam s t) =
     hw_disk_io_device (if fam = Inv_DiskIo then s else t)"
  "hw_cpu_count (apply_inventory_family fam s t) = hw_cpu_count t"
  "hw_cpu_turbo_supported (apply_inventory_family fam s t) =
     hw_cpu_turbo_supported (if fam = Inv_Cpu then s else t)"
  "hw_has_backlight (apply_inventory_family fam s t) =
     hw_has_backlight (if fam = Inv_Backlight then s else t)"
  "hw_has_wifi (apply_inventory_family fam s t) =
     hw_has_wifi (if fam = Inv_Network then s else t)"
  "hw_battery_mouse_id (apply_inventory_family fam s t) =
     hw_battery_mouse_id (if fam = Inv_Peripheral then s else t)"
  "hw_battery_kbd_id (apply_inventory_family fam s t) =
     hw_battery_kbd_id (if fam = Inv_Peripheral then s else t)"
  "hw_disk_smart_drives (apply_inventory_family fam s t) =
     hw_disk_smart_drives (if fam = Inv_Smart then s else t)"
  by (cases fam; simp)+

lemma apply_owner_twice:
  "apply_owner_readings own s (apply_owner_readings own s' t) = apply_owner_readings own s t"
  by (rule display_snapshot.equality) simp_all

lemma apply_owner_commute:
  "own \<noteq> own' \<Longrightarrow> apply_owner_readings own s (apply_owner_readings own' s' t) =
     apply_owner_readings own' s' (apply_owner_readings own s t)"
  by (rule display_snapshot.equality) auto

lemma apply_all_owners:
  "fold (\<lambda>own. apply_owner_readings own s) all_owners t =
     s\<lparr>ds_assembled_at := ds_assembled_at t, ds_metrics := ds_metrics t\<rparr>"
  by (simp add: all_owners_def)

lemma apply_family_commute:
  "fam \<noteq> fam' \<Longrightarrow> apply_inventory_family fam s (apply_inventory_family fam' s' t) =
     apply_inventory_family fam' s' (apply_inventory_family fam s t)"
  by (rule hardware_inventory.equality) auto

lemma fold_distinct_keys:
  assumes comm: "\<And>a b x y. a \<noteq> b \<Longrightarrow> f a x \<circ> f b y = f b y \<circ> f a x"
    and "distinct (map fst xs)" "mset ys = mset xs"
  shows "fold (\<lambda>(k, v). f k v) ys = fold (\<lambda>(k, v). f k v) xs"
proof (rule fold_multiset_equiv [OF _ assms(3)])
  fix p q
  assume "p \<in> set ys" "q \<in> set ys"
  with assms(3) have "p \<in> set xs" "q \<in> set xs" by (metis set_mset_mset)+
  with assms(2) have "p = q \<or> fst p \<noteq> fst q"
    by (metis (no_types, opaque_lifting) distinct_map inj_on_def)
  with comm show "(case p of (k, v) \<Rightarrow> f k v) \<circ> (case q of (k, v) \<Rightarrow> f k v) =
      (case q of (k, v) \<Rightarrow> f k v) \<circ> (case p of (k, v) \<Rightarrow> f k v)"
    by (cases p; cases q) auto
qed

text \<open>
  C16. Functional. Completions of different owners can be committed in any order, a later completion of
  an owner replaces its earlier one, and every reading belongs to some owner: committing all owners
  of a snapshot shows all of its readings.
\<close>

theorem readings_have_one_owner:
  "(distinct (map fst cs) \<and> mset cs' = mset cs \<longrightarrow>
      fold (\<lambda>(own, s). apply_owner_readings own s) cs' t =
      fold (\<lambda>(own, s). apply_owner_readings own s) cs t) \<and>
   apply_owner_readings own s (apply_owner_readings own s' t) = apply_owner_readings own s t \<and>
   fold (\<lambda>own. apply_owner_readings own s) all_owners t =
     s\<lparr>ds_assembled_at := ds_assembled_at t, ds_metrics := ds_metrics t\<rparr>"
  using fold_distinct_keys [of apply_owner_readings cs cs'] apply_owner_commute
  by (auto simp: apply_owner_twice apply_all_owners fun_eq_iff)

lemma readings_have_one_owner_witness:
  "ds_cpu_usage (fold (\<lambda>(own, s). apply_owner_readings own s)
     [(Own_Memory, display_snapshot_default), (Own_Cpu, display_snapshot_default\<lparr>ds_cpu_usage := Some 7\<rparr>)]
     display_snapshot_default) = Some 7"
  by (subst readings_have_one_owner [THEN conjunct1, rule_format,
      of "[(Own_Cpu, display_snapshot_default\<lparr>ds_cpu_usage := Some 7\<rparr>), (Own_Memory, display_snapshot_default)]"])
    simp_all

end
