(* ===== verification/ConfigMerge.thy ===== *)
theory ConfigMerge
  imports OrdMap Registry
begin

text \<open>
  The untyped layer of the configuration: \<open>src/config/merge.rs\<close>, machine detection of
  \<open>src/config/geometry.rs\<close>, and the guardrails of \<open>src/config/mod.rs\<close>. The \<open>toml\<close> crate is not part of
  the sources; \<open>toml_value\<close> has the cases its \<open>Value\<close> documents, and a \<open>Table\<close> is its documented map
  with keys in ascending order (the crate is built without \<open>preserve_order\<close>).
\<close>

datatype toml_value =
  TString string
  | TInteger int
  | TFloat "64 word"
  | TBoolean bool
  | TDatetime string
  | TArray "toml_value list"
  | TTable "(string \<times> toml_value) list"

type_synonym toml_table = "(string, toml_value) bmap"

definition as_table :: "toml_value \<Rightarrow> toml_table option" where
  "as_table v = (case v of TTable t \<Rightarrow> Some t | _ \<Rightarrow> None)"
definition as_str :: "toml_value \<Rightarrow> string option" where
  "as_str v = (case v of TString s \<Rightarrow> Some s | _ \<Rightarrow> None)"
definition as_bool :: "toml_value \<Rightarrow> bool option" where
  "as_bool v = (case v of TBoolean b \<Rightarrow> Some b | _ \<Rightarrow> None)"
definition as_array :: "toml_value \<Rightarrow> toml_value list option" where
  "as_array v = (case v of TArray xs \<Rightarrow> Some xs | _ \<Rightarrow> None)"

section \<open>Merging tables\<close>

fun deep_merge_tables :: "toml_table \<Rightarrow> toml_table \<Rightarrow> toml_table" where
  "deep_merge_tables base [] = base"
| "deep_merge_tables base ((key, override_value) # override) =
     deep_merge_tables
       (let rest = bm_remove key base in
        case bm_get base key of
          Some (TTable base_sub) \<Rightarrow>
            (case override_value of
               TTable override_sub \<Rightarrow>
                 bm_insert key (TTable (deep_merge_tables base_sub override_sub)) rest
             | other \<Rightarrow> bm_insert key other rest)
        | _ \<Rightarrow> bm_insert key override_value rest)
       override"

section \<open>Sections and surfaces\<close>

definition string_array :: "toml_table \<Rightarrow> string \<Rightarrow> string list" where
  "string_array table key =
     (case Option.bind (bm_get table key) as_array of
        Some array \<Rightarrow> List.map_filter as_str array
      | None \<Rightarrow> [])"

definition push_absent :: "'a \<Rightarrow> 'a list \<Rightarrow> 'a list" where
  "push_absent x xs = (if x \<in> set xs then xs else xs @ [x])"

definition resolve_items :: "toml_table \<Rightarrow> string list" where
  "resolve_items sec =
     (let items = fold push_absent (string_array sec ''items_add'') (string_array sec ''items'')
      in fold (\<lambda>r items. filter (\<lambda>item. item \<noteq> r) items) (string_array sec ''items_remove'') items)"

record section_rec =
  sec_key :: string
  sec_title :: string
  sec_items :: "string list"

record surface_rec =
  sur_sections :: "section_rec list"
  sur_glyphs :: bool

definition surface_default :: surface_rec where
  "surface_default = \<lparr>sur_sections = [], sur_glyphs = True\<rparr>"

definition surface_has :: "surface_rec \<Rightarrow> string \<Rightarrow> bool" where
  "surface_has s name \<longleftrightarrow> list_ex (\<lambda>sec. list_ex (\<lambda>item. item = name) (sec_items sec)) (sur_sections s)"

definition item_set :: "surface_rec \<Rightarrow> string bset" where
  "item_set s = bs_collect (concat (map sec_items (sur_sections s)))"

definition option_default :: "'a \<Rightarrow> 'a option \<Rightarrow> 'a" where
  "option_default d x = (case x of Some v \<Rightarrow> v | None \<Rightarrow> d)"

definition parse_surface :: "toml_table \<Rightarrow> surface_rec" where
  "parse_surface raw =
     (let order = fold push_absent (string_array raw ''order_add'') (string_array raw ''order'');
          sections = List.map_filter
            (\<lambda>key. map_option
               (\<lambda>sec. \<lparr>sec_key = key,
                       sec_title = option_default [] (Option.bind (bm_get sec ''title'') as_str),
                       sec_items = resolve_items sec\<rparr>)
               (Option.bind (bm_get raw key) as_table))
            order;
          glyphs = option_default True (Option.bind (bm_get raw ''glyphs'') as_bool)
      in \<lparr>sur_sections = sections, sur_glyphs = glyphs\<rparr>)"

section \<open>Machine detection\<close>

definition is_prefix_of :: "'a list \<Rightarrow> 'a list \<Rightarrow> bool" where
  "is_prefix_of p t \<longleftrightarrow> take (length p) t = p"

fun str_contains :: "string \<Rightarrow> string \<Rightarrow> bool" where
  "str_contains [] p \<longleftrightarrow> p = []"
| "str_contains (c # t) p \<longleftrightarrow> is_prefix_of p (c # t) \<or> str_contains t p"

definition detect_rule :: "toml_table \<Rightarrow> string \<Rightarrow> string option" where
  "detect_rule detect key =
     (case Option.bind (bm_get detect key) as_str of
        Some value \<Rightarrow> (if value = [] then None else Some value)
      | None \<Rightarrow> None)"

definition detect_matches :: "toml_table \<Rightarrow> string \<Rightarrow> string \<Rightarrow> bool" where
  "detect_matches detect board product \<longleftrightarrow>
     (case detect_rule detect ''board_contains'' of Some v \<Rightarrow> str_contains board v | None \<Rightarrow> False) \<or>
     (case detect_rule detect ''board_startswith'' of Some v \<Rightarrow> is_prefix_of v board | None \<Rightarrow> False) \<or>
     (case detect_rule detect ''product_contains'' of Some v \<Rightarrow> str_contains product v | None \<Rightarrow> False)"

fun detect_machine_with_dmi :: "toml_table \<Rightarrow> string \<Rightarrow> string \<Rightarrow> string option" where
  "detect_machine_with_dmi [] board product = None"
| "detect_machine_with_dmi ((name, mdata) # machines) board product =
     (case Option.bind (as_table mdata) (\<lambda>t. bm_get t ''detect'') of
        None \<Rightarrow> detect_machine_with_dmi machines board product
      | Some detect \<Rightarrow>
          (case as_table detect of
             None \<Rightarrow> detect_machine_with_dmi machines board product
           | Some detect_table \<Rightarrow>
               if detect_matches detect_table board product then Some name
               else detect_machine_with_dmi machines board product))"

section \<open>Guardrails\<close>

definition drop_items :: "surface_rec \<Rightarrow> string bset \<Rightarrow> surface_rec" where
  "drop_items surface bad =
     (if bad = [] then surface
      else surface\<lparr>sur_sections := map
             (\<lambda>sec. sec\<lparr>sec_items := filter (\<lambda>item. item \<notin> set bad) (sec_items sec)\<rparr>)
             (sur_sections surface)\<rparr>)"

definition drop_unknown_items :: "surface_rec \<times> surface_rec \<Rightarrow> surface_rec \<times> surface_rec" where
  "drop_unknown_items = (\<lambda>(panel, tooltip).
     (drop_items panel (unknown_item_names (item_set panel)),
      drop_items tooltip (unknown_item_names (item_set tooltip))))"

definition drop_misplaced_items :: "surface_rec \<times> surface_rec \<Rightarrow> surface_rec \<times> surface_rec" where
  "drop_misplaced_items = (\<lambda>(panel, tooltip).
     (case misplaced_items (item_set panel) (item_set tooltip) of
        (bad_panel, bad_tooltip) \<Rightarrow> (drop_items panel bad_panel, drop_items tooltip bad_tooltip)))"

end
