(* ===== verification/KdeIni.thy ===== *)
theory KdeIni
  imports OrdMap Items
begin

text \<open>
  Panel orientation from KDE's appletsrc: the string part of \<open>src/config/geometry.rs\<close>. A \<open>char\<close>
  stands for a Unicode scalar value below 256; none above is told apart by the code.
\<close>

section \<open>Pieces of the standard library\<close>

definition is_space :: "char \<Rightarrow> bool" where
  "is_space c \<longleftrightarrow> of_char c \<in> {9, 10, 11, 12, 13, 32, 133, 160 :: nat}"

definition trim :: "string \<Rightarrow> string" where
  "trim s = rev (dropWhile is_space (rev (dropWhile is_space s)))"

definition strip_prefix :: "string \<Rightarrow> string \<Rightarrow> string option" where
  "strip_prefix p s = (if take (length p) s = p then Some (drop (length p) s) else None)"

definition is_digit :: "char \<Rightarrow> bool" where
  "is_digit c \<longleftrightarrow> 48 \<le> (of_char c :: nat) \<and> (of_char c :: nat) \<le> 57"

definition digits_value :: "string \<Rightarrow> nat" where
  "digits_value ds = foldl (\<lambda>n c. n * 10 + (of_char c - 48)) 0 ds"

definition parse_i64 :: "string \<Rightarrow> int option" where
  "parse_i64 s =
     (let (neg, ds) = (case s of
            c # r \<Rightarrow> if c = CHR ''-'' then (True, r) else if c = CHR ''+'' then (False, r) else (False, s)
          | [] \<Rightarrow> (False, []));
          v = (if neg then - int (digits_value ds) else int (digits_value ds))
      in if ds = [] \<or> \<not> list_all is_digit ds \<or> v < - (2 ^ 63) \<or> 2 ^ 63 \<le> v then None else Some v)"

text \<open>\<open>str::lines\<close>: split after every line feed, without it and without a carriage return before it.\<close>

fun raw_lines :: "string \<Rightarrow> string list" where
  "raw_lines s =
     (if s = [] then []
      else (case split_once (CHR 0x0A) s of
              None \<Rightarrow> [s]
            | Some (l, rest) \<Rightarrow>
                (if length rest < length s
                 then (if l \<noteq> [] \<and> last l = CHR 0x0D then butlast l else l) # raw_lines rest
                 else [])))"

declare raw_lines.simps [simp del]

section \<open>The appletsrc\<close>

type_synonym kde_sections = "(string, (string, string) bmap) bmap"

definition starts_with :: "char \<Rightarrow> string \<Rightarrow> bool" where "starts_with c s \<longleftrightarrow> s \<noteq> [] \<and> hd s = c"
definition ends_with :: "char \<Rightarrow> string \<Rightarrow> bool" where "ends_with c s \<longleftrightarrow> s \<noteq> [] \<and> last s = c"

fun parse_kde_line ::
    "string \<Rightarrow> kde_sections \<times> string option \<Rightarrow> kde_sections \<times> string option" where
  "parse_kde_line line (sections, current) =
     (if starts_with (CHR ''['') line \<and> ends_with (CHR '']'') line then
        (if bm_contains sections line then sections else bm_insert line [] sections, Some line)
      else
        (case current of
           None \<Rightarrow> (sections, current)
         | Some header \<Rightarrow>
             (case (bm_get sections header, split_once (CHR ''='') line) of
                (Some entry, Some (key, v)) \<Rightarrow>
                  (bm_insert header (bm_insert (trim key) (trim v) entry) sections, current)
              | _ \<Rightarrow> (sections, current))))"

definition parse_kde_ini :: "string \<Rightarrow> kde_sections" where
  "parse_kde_ini source = fst (fold parse_kde_line (raw_lines source) ([], None))"

function applets_rest :: "string \<Rightarrow> bool \<Rightarrow> (string \<times> bool) option" where
  "applets_rest rest matched =
     (case strip_prefix ''[Applets]['' rest of
        None \<Rightarrow> Some (rest, matched)
      | Some after_open \<Rightarrow>
          (case split_once (CHR '']'') after_open of
             None \<Rightarrow> None
           | Some (num, after_close) \<Rightarrow>
               if num = [] \<or> \<not> list_all is_digit num then None
               else applets_rest after_close True))"
  by pat_completeness auto
termination
  by (relation "measure (\<lambda>(rest, _). length rest)")
    (auto simp: strip_prefix_def dest!: split_once_SomeD split: if_splits,
     metis append_take_drop_id le_imp_less_Suc length_append length_Cons le_add2 add_Suc_right
       le_trans length_drop diff_le_self less_eq_Suc_le)

declare applets_rest.simps [simp del]

definition applet_root_containment :: "string \<Rightarrow> string option" where
  "applet_root_containment header =
     Option.bind (strip_prefix ''[Containments]['' header) (\<lambda>after_open.
     Option.bind (split_once (CHR '']'') after_open) (\<lambda>(num, after_close).
       if num = [] \<or> \<not> list_all is_digit num then None
       else Option.bind (applets_rest after_close False) (\<lambda>(rest, matched_any).
         if matched_any \<and> rest = [] then Some num else None)))"

fun find_applet :: "kde_sections \<Rightarrow> kde_sections \<Rightarrow> bool" where
  "find_applet sections [] = True"
| "find_applet sections ((header, kv) # others) =
     (case applet_root_containment header of
        None \<Rightarrow> find_applet sections others
      | Some containment \<Rightarrow>
          if bm_get kv ''plugin'' = Some ''com.github.bogdan-d.plasma-top'' then
            (let location =
                   Option.bind (bm_get sections (''[Containments]['' @ containment @ '']'')) (\<lambda>table.
                   Option.bind (bm_get table ''location'') parse_i64)
             in \<not> (location = Some 3 \<or> location = Some 4))
          else find_applet sections others)"

definition detect_vertical_from_appletsrc_text :: "string \<Rightarrow> bool" where
  "detect_vertical_from_appletsrc_text source =
     (let sections = parse_kde_ini source in find_applet sections sections)"

section \<open>The headers of an applet\<close>

text \<open>
  The regular expression the source names:
  \<open>\[Containments\]\[(\d+)\](?:\[Applets\]\[\d+\])+\<close>, as the texts it generates.
\<close>

definition number :: "string \<Rightarrow> bool" where "number a \<longleftrightarrow> a \<noteq> [] \<and> list_all is_digit a"

definition applet_header :: "string \<Rightarrow> string list \<Rightarrow> string" where
  "applet_header n applets =
     ''[Containments]['' @ n @ '']'' @ concat (map (\<lambda>a. ''[Applets]['' @ a @ '']'') applets)"

lemma strip_prefix_append [simp]: "strip_prefix p (p @ s) = Some s"
  by (simp add: strip_prefix_def)

lemma strip_prefix_SomeD: "strip_prefix p s = Some r \<Longrightarrow> s = p @ r"
  by (auto simp: strip_prefix_def split: if_splits) (metis append_take_drop_id)

lemma number_no_bracket: "number a \<Longrightarrow> CHR '']'' \<notin> set a"
  by (auto simp: number_def list_all_iff is_digit_def)

lemma applets_rest_some:
  "applets_rest s m = Some (r, m') \<Longrightarrow>
     \<exists>applets. s = concat (map (\<lambda>a. ''[Applets]['' @ a @ '']'') applets) @ r \<and>
       (\<forall>a \<in> set applets. number a) \<and> m' = (m \<or> applets \<noteq> [])"
proof (induction s m rule: applets_rest.induct)
  case (1 rest matched)
  show ?case
  proof (cases "strip_prefix ''[Applets]['' rest")
    case None
    with 1(2) show ?thesis by (auto simp: applets_rest.simps [of rest] intro: exI [of _ "[]"])
  next
    case (Some after)
    with 1(2) obtain num others where s: "split_once (CHR '']'') after = Some (num, others)"
      and n: "number num" "applets_rest others True = Some (r, m')"
      by (auto simp: applets_rest.simps [of rest] number_def split: option.splits if_splits)
    from 1(1) [OF Some s refl] n obtain applets where
      "others = concat (map (\<lambda>a. ''[Applets]['' @ a @ '']'') applets) @ r"
      "\<forall>a \<in> set applets. number a" "m'" by (auto simp: number_def)
    with n(1) strip_prefix_SomeD [OF Some] split_once_SomeD [OF s]
    show ?thesis by (intro exI [of _ "num # applets"]) auto
  qed
qed

lemma applets_rest_all:
  "\<forall>a \<in> set applets. number a \<Longrightarrow>
     applets_rest (concat (map (\<lambda>a. ''[Applets]['' @ a @ '']'') applets)) m = Some ([], m \<or> applets \<noteq> [])"
proof (induction applets arbitrary: m)
  case Nil
  show ?case by (simp add: applets_rest.simps [of "[]"] strip_prefix_def)
next
  case (Cons a applets)
  let ?tail = "concat (map (\<lambda>a. ''[Applets]['' @ a @ '']'') applets)"
  from Cons.prems have a: "number a" by simp
  have "split_once (CHR '']'') (a @ CHR '']'' # ?tail) = Some (a, ?tail)"
    by (rule split_once_append) (rule number_no_bracket [OF a])
  moreover have "strip_prefix ''[Applets]['' (concat (map (\<lambda>a. ''[Applets]['' @ a @ '']'') (a # applets))) =
      Some (a @ CHR '']'' # ?tail)" by (simp add: strip_prefix_def)
  ultimately show ?case
    using Cons a by (subst applets_rest.simps) (simp add: number_def)
qed

lemma applet_root_iff:
  "applet_root_containment header = Some n \<longleftrightarrow>
     (\<exists>applets. applets \<noteq> [] \<and> number n \<and> (\<forall>a \<in> set applets. number a) \<and>
        header = applet_header n applets)"
proof
  assume "applet_root_containment header = Some n"
  then obtain after others where 1: "strip_prefix ''[Containments]['' header = Some after"
    "split_once (CHR '']'') after = Some (n, others)" "number n" "applets_rest others False = Some ([], True)"
    by (auto simp: applet_root_containment_def number_def bind_eq_Some_conv split: if_splits)
  from applets_rest_some [OF 1(4)] obtain applets where
    "others = concat (map (\<lambda>a. ''[Applets]['' @ a @ '']'') applets)" "\<forall>a \<in> set applets. number a"
    "applets \<noteq> []" by auto
  with 1(3) strip_prefix_SomeD [OF 1(1)] split_once_SomeD [OF 1(2)]
  show "\<exists>applets. applets \<noteq> [] \<and> number n \<and> (\<forall>a \<in> set applets. number a) \<and>
        header = applet_header n applets"
    by (intro exI [of _ applets]) (auto simp: applet_header_def)
next
  assume "\<exists>applets. applets \<noteq> [] \<and> number n \<and> (\<forall>a \<in> set applets. number a) \<and>
        header = applet_header n applets"
  then obtain applets where a: "applets \<noteq> []" "number n" "\<forall>a \<in> set applets. number a"
    and h: "header = applet_header n applets" by blast
  let ?tail = "concat (map (\<lambda>a. ''[Applets]['' @ a @ '']'') applets)"
  have "split_once (CHR '']'') (n @ CHR '']'' # ?tail) = Some (n, ?tail)"
    by (rule split_once_append) (rule number_no_bracket [OF a(2)])
  moreover have "strip_prefix ''[Containments]['' header = Some (n @ CHR '']'' # ?tail)"
    by (simp add: h applet_header_def strip_prefix_def)
  ultimately show "applet_root_containment header = Some n"
    using a applets_rest_all [OF a(3), of False]
    by (simp add: applet_root_containment_def number_def)
qed

end
