(* ===== verification/ConfigProps.thy ===== *)
theory ConfigProps
  imports ConfigMerge KdeIni
begin

text \<open>
  What merging promises: the entries of the result, the values at nested paths, that a second
  application of an override changes nothing, and that the guardrails keep exactly the good items.
\<close>

section \<open>Entries of a merge\<close>

definition merge_entry :: "toml_value option \<Rightarrow> toml_value option \<Rightarrow> toml_value option" where
  "merge_entry x y =
     (case y of
        None \<Rightarrow> x
      | Some v \<Rightarrow>
          (case (x, v) of
             (Some (TTable b), TTable t) \<Rightarrow> Some (TTable (deep_merge_tables b t))
           | _ \<Rightarrow> Some v))"

lemma merge_entry_None [simp]: "merge_entry x None = x" "merge_entry None y = y"
  by (simp_all add: merge_entry_def split: option.splits)

lemma deep_merge_Cons:
  "deep_merge_tables b ((k, v) # over) =
     deep_merge_tables (bm_insert k (the (merge_entry (bm_get b k) (Some v))) (bm_remove k b)) over"
  by (simp add: merge_entry_def Let_def split: option.splits toml_value.splits)

declare deep_merge_tables.simps(2) [simp del]

lemma merge_entry_Some: "\<exists>w. merge_entry x (Some v) = Some w"
  by (auto simp: merge_entry_def split: option.splits toml_value.splits)

lemma bm_get_Cons: "bm_get ((j, v) # m) k = (if k = j then Some v else bm_get m k)"
  by (auto simp: bm_get_def)

lemma merge_get:
  "bm_wf over \<Longrightarrow>
     bm_get (deep_merge_tables b over) k = merge_entry (bm_get b k) (bm_get over k)"
proof (induction over arbitrary: b)
  case (Cons p over)
  obtain j v where p: "p = (j, v)" by (cases p)
  with Cons.prems have "bm_get over j = None"
    by (auto simp: bm_get_def map_of_eq_None_iff)
  moreover obtain w where "merge_entry (bm_get b j) (Some v) = Some w" using merge_entry_Some by blast
  moreover have "bm_wf over" using Cons.prems by simp
  ultimately show ?case using Cons.IH p by (auto simp: deep_merge_Cons bm_get_Cons)
qed simp

lemma merge_wf: "bm_wf b \<Longrightarrow> bm_wf (deep_merge_tables b over)"
  by (induction over arbitrary: b) (auto simp: deep_merge_Cons)

fun wf_toml :: "toml_value \<Rightarrow> bool" where
  "wf_toml (TTable t) \<longleftrightarrow> bm_wf t \<and> (\<forall>(k, v) \<in> set t. wf_toml v)"
| "wf_toml (TArray vs) \<longleftrightarrow> (\<forall>v \<in> set vs. wf_toml v)"
| "wf_toml _ \<longleftrightarrow> True"

lemma bm_eqI: "bm_wf m \<Longrightarrow> bm_wf n \<Longrightarrow> (\<And>k. bm_get m k = bm_get n k) \<Longrightarrow> m = n"
proof -
  assume wf: "bm_wf m" "bm_wf n" and get: "\<And>k. bm_get m k = bm_get n k"
  have "p \<in> set m \<longleftrightarrow> p \<in> set n" for p
    using bm_get_iff [OF wf(1), of "fst p" "snd p"] bm_get_iff [OF wf(2), of "fst p" "snd p"] get
    by simp
  then have eq: "set m = set n" by blast
  show "m = n"
  proof (rule map_sorted_distinct_set_unique [of fst])
    show "inj_on fst (set m \<union> set n)"
      using bm_wf_distinct [OF wf(1)] eq by (simp add: distinct_map)
  qed (use wf eq in \<open>simp_all add: strict_sorted_iff\<close>)
qed

lemma wf_toml_get: "bm_get t k = Some v \<Longrightarrow> wf_toml (TTable t) \<Longrightarrow> wf_toml v"
  by (auto dest!: bm_get_in)

lemma size_get: "bm_get t k = Some v \<Longrightarrow> size v < size (TTable t)"
proof -
  assume "bm_get t k = Some v"
  then have "(k, v) \<in> set t" by (rule bm_get_in)
  then show ?thesis by (induction t) auto
qed

lemma merge_self: "wf_toml (TTable t) \<Longrightarrow> deep_merge_tables t t = t"
proof (induction "TTable t" arbitrary: t rule: measure_induct_rule [where f = size])
  case less
  from less.prems have wf: "bm_wf t" by simp
  show ?case
  proof (rule bm_eqI [OF merge_wf [OF wf] wf])
    fix k
    show "bm_get (deep_merge_tables t t) k = bm_get t k"
    proof (cases "bm_get t k")
      case (Some v)
      have "deep_merge_tables u u = u" if "v = TTable u" for u
        using less.hyps [of u] size_get [OF Some] wf_toml_get [OF Some] less.prems that by simp
      with Some show ?thesis
        by (auto simp: merge_get [OF wf] merge_entry_def split: toml_value.splits)
    qed (simp add: merge_get [OF wf])
  qed
qed

lemma merge_again:
  "bm_wf b \<Longrightarrow> (\<forall>k v. bm_get b k = Some v \<longrightarrow> wf_toml v) \<Longrightarrow> wf_toml (TTable t) \<Longrightarrow>
     deep_merge_tables (deep_merge_tables b t) t = deep_merge_tables b t"
proof (induction "TTable t" arbitrary: b t rule: measure_induct_rule [where f = size])
  case less
  from less.prems have wf: "bm_wf t" by simp
  show ?case
  proof (rule bm_eqI [OF merge_wf [OF merge_wf [OF less.prems(1)]] merge_wf [OF less.prems(1)]])
    fix k
    show "bm_get (deep_merge_tables (deep_merge_tables b t) t) k = bm_get (deep_merge_tables b t) k"
    proof (cases "bm_get t k")
      case (Some v)
      show ?thesis
      proof (cases "\<exists>c u. bm_get b k = Some (TTable c) \<and> v = TTable u")
        case True
        then obtain c u where c: "bm_get b k = Some (TTable c)" "v = TTable u" by blast
        with less.prems have "wf_toml (TTable c)" by blast
        then have "bm_wf c" "\<forall>k v. bm_get c k = Some v \<longrightarrow> wf_toml v"
          by (auto dest: bm_get_in)
        with less.hyps [of u c] size_get [OF Some] wf_toml_get [OF Some] less.prems(3) c
        have "deep_merge_tables (deep_merge_tables c u) u = deep_merge_tables c u" by simp
        with Some c show ?thesis by (simp add: merge_get [OF wf] merge_entry_def)
      next
        case False
        with Some have "bm_get (deep_merge_tables b t) k = Some v"
          by (auto simp: merge_get [OF wf] merge_entry_def split: option.splits toml_value.splits)
        moreover have "deep_merge_tables u u = u" if "v = TTable u" for u
          using merge_self [of u] wf_toml_get [OF Some less.prems(3)] that by simp
        ultimately show ?thesis using Some
          by (auto simp: merge_get [OF wf] merge_entry_def split: toml_value.splits)
      qed
    qed (simp add: merge_get [OF wf])
  qed
qed

text \<open>The value at a path of keys, when it is not a table.\<close>

fun leaf_at :: "toml_table \<Rightarrow> string list \<Rightarrow> toml_value option" where
  "leaf_at t [] = None"
| "leaf_at t (k # ks) =
     (case bm_get t k of
        None \<Rightarrow> None
      | Some (TTable s) \<Rightarrow> leaf_at s ks
      | Some v \<Rightarrow> if ks = [] then Some v else None)"

text \<open>
  Functional. Merging works path by path: every value of the override is in the result, every
  value of the result comes from the override or the base at the same path, and applying the
  override once more changes nothing.
\<close>

theorem merge_paths:
  assumes "wf_toml (TTable base)" "wf_toml (TTable over)"
  shows "(leaf_at over p = Some v \<longrightarrow> leaf_at (deep_merge_tables base over) p = Some v) \<and>
    (leaf_at (deep_merge_tables base over) p = Some v \<longrightarrow>
       leaf_at over p = Some v \<or> leaf_at base p = Some v) \<and>
    deep_merge_tables (deep_merge_tables base over) over = deep_merge_tables base over"
proof -
  have "(leaf_at t p = Some v \<longrightarrow> leaf_at (deep_merge_tables b t) p = Some v) \<and>
    (leaf_at (deep_merge_tables b t) p = Some v \<longrightarrow> leaf_at t p = Some v \<or> leaf_at b p = Some v)"
    if "wf_toml (TTable t)" for b t
    using that
  proof (induction p arbitrary: b t)
    case (Cons k ks)
    then have wf: "bm_wf t" by simp
    have IH: "(leaf_at u ks = Some v \<longrightarrow> leaf_at (deep_merge_tables c u) ks = Some v) \<and>
        (leaf_at (deep_merge_tables c u) ks = Some v \<longrightarrow> leaf_at u ks = Some v \<or> leaf_at c ks = Some v)"
      if "bm_get t k = Some (TTable u)" for c u
      using Cons.IH wf_toml_get [OF that Cons.prems] by blast
    show ?case
    proof (cases "bm_get t k")
      case None
      then show ?thesis by (simp add: merge_get [OF wf])
    next
      case (Some w)
      show ?thesis
      proof (cases "\<exists>c u. bm_get b k = Some (TTable c) \<and> w = TTable u")
        case True
        then obtain c u where "bm_get b k = Some (TTable c)" "w = TTable u" by blast
        with Some IH [of u c] show ?thesis by (simp add: merge_get [OF wf] merge_entry_def)
      next
        case False
        with Some have "bm_get (deep_merge_tables b t) k = Some w"
          by (auto simp: merge_get [OF wf] merge_entry_def split: option.splits toml_value.splits)
        with Some show ?thesis by simp
      qed
    qed
  qed simp
  moreover have "deep_merge_tables (deep_merge_tables base over) over = deep_merge_tables base over"
    by (rule merge_again) (use assms wf_toml_get [OF _ assms(1)] in auto)
  ultimately show ?thesis using assms(2) by blast
qed

lemma merge_paths_witness:
  "leaf_at (deep_merge_tables
     [(''panel'', TTable [(''glyphs'', TBoolean True), (''order'', TArray [])])]
     [(''panel'', TTable [(''glyphs'', TBoolean False)])]) [''panel'', ''glyphs''] = Some (TBoolean False)"
  by (rule merge_paths [THEN conjunct1, rule_format]) (simp_all add: bm_get_def)

section \<open>Items of a section\<close>

lemma set_fold_push: "set (fold push_absent xs ys) = set xs \<union> set ys"
  by (induction xs arbitrary: ys) (auto simp: push_absent_def)

lemma distinct_fold_push: "distinct ys \<Longrightarrow> distinct (fold push_absent xs ys)"
  by (induction xs arbitrary: ys) (auto simp: push_absent_def)

lemma prefix_fold_push: "\<exists>zs. fold push_absent xs ys = ys @ zs"
proof (induction xs arbitrary: ys)
  case (Cons x xs)
  then obtain zs where "fold push_absent xs (push_absent x ys) = push_absent x ys @ zs" by blast
  then show ?case by (cases "x \<in> set ys") (simp_all add: push_absent_def [of x ys])
qed simp

lemma fold_remove:
  "fold (\<lambda>r items. filter (\<lambda>item. item \<noteq> r) items) rs xs = filter (\<lambda>item. item \<notin> set rs) xs"
  by (induction rs arbitrary: xs) (auto intro: filter_cong)

text \<open>
  Functional. The items of a section are the base items followed by the added ones that were
  missing, less the removed ones: the base keeps its order, and nothing is repeated that was not
  repeated in the base.
\<close>

theorem resolve_items_spec:
  "set (resolve_items sec) =
     (set (string_array sec ''items'') \<union> set (string_array sec ''items_add'')) -
       set (string_array sec ''items_remove'') \<and>
   (\<exists>added. resolve_items sec =
      filter (\<lambda>item. item \<notin> set (string_array sec ''items_remove'')) (string_array sec ''items'') @ added) \<and>
   (distinct (string_array sec ''items'') \<longrightarrow> distinct (resolve_items sec))"
proof -
  obtain zs where "fold push_absent (string_array sec ''items_add'') (string_array sec ''items'') =
      string_array sec ''items'' @ zs" using prefix_fold_push by blast
  then show ?thesis
    using set_fold_push [of "string_array sec ''items_add''" "string_array sec ''items''"]
      distinct_fold_push [of "string_array sec ''items''" "string_array sec ''items_add''"]
    by (auto simp: resolve_items_def fold_remove Let_def)
qed

lemma resolve_items_spec_witness:
  "distinct (resolve_items [(''items'', TArray [TString ''cpu_usage'']), (''items_add'', TArray [TString ''cpu_usage''])])"
  by (rule resolve_items_spec [THEN conjunct2, THEN conjunct2, rule_format])
    (simp add: string_array_def bm_get_def as_array_def List.map_filter_def as_str_def)

section \<open>Guardrails\<close>

lemma drop_items_sections:
  "sur_sections (drop_items s bad) =
     map (\<lambda>sec. sec\<lparr>sec_items := filter (\<lambda>item. item \<notin> set bad) (sec_items sec)\<rparr>) (sur_sections s)"
  by (simp add: drop_items_def map_idI)

lemma set_item_set [simp]: "set (item_set s) = (\<Union>sec \<in> set (sur_sections s). set (sec_items sec))"
  by (simp add: item_set_def)

definition admitted :: "surface_set \<Rightarrow> string \<Rightarrow> bool" where
  "admitted target v \<longleftrightarrow> is_separator v \<or>
     (\<exists>t. item_from_str v = Inr t \<and>
        \<not> surf_is_empty (surf_intersection (effective_surfaces t) target))"

definition keep_items :: "(string \<Rightarrow> bool) \<Rightarrow> surface_rec \<Rightarrow> surface_rec" where
  "keep_items P s = s\<lparr>sur_sections :=
     map (\<lambda>sec. sec\<lparr>sec_items := filter P (sec_items sec)\<rparr>) (sur_sections s)\<rparr>"

lemma drop_items_keep: "drop_items s bad = keep_items (\<lambda>v. v \<notin> set bad) s"
  by (simp add: drop_items_def keep_items_def map_idI)

lemma keep_items_keep: "keep_items Q (keep_items P s) = keep_items (\<lambda>v. P v \<and> Q v) s"
  by (simp add: keep_items_def)

lemma keep_items_cong:
  "(\<And>v. v \<in> set (item_set s) \<Longrightarrow> P v \<longleftrightarrow> Q v) \<Longrightarrow> keep_items P s = keep_items Q s"
  by (auto simp: keep_items_def intro!: surface_rec.fold_congs map_cong filter_cong section_rec.fold_congs)

lemma guard_keep:
  "drop_items (drop_items s (unknown_item_names (item_set s)))
     (misplaced_on (item_set (drop_items s (unknown_item_names (item_set s)))) target) =
   keep_items (admitted target) s"
proof -
  have "item_from_str v = Inr t \<Longrightarrow> \<not> is_separator v" for v t
    using separators_not_items [of v] by auto
  then show ?thesis
    unfolding drop_items_keep keep_items_keep
    by (intro keep_items_cong)
      (auto simp: admitted_def set_unknown_item_names set_misplaced_on keep_items_def
        split: sum.splits, (metis sum.exhaust)+)
qed

text \<open>
  Safety. After both guardrails each surface holds exactly the configured items that are
  separators or tokens with a place on it, in the configured order: nothing unknown or misplaced
  stays, and nothing else is dropped.
\<close>

theorem guardrails_exact:
  "drop_misplaced_items (drop_unknown_items (panel, tooltip)) =
     (keep_items (admitted SURF_PANEL) panel, keep_items (admitted SURF_TOOLTIP) tooltip)"
  by (simp add: drop_misplaced_items_def drop_unknown_items_def misplaced_items_def guard_keep)

section \<open>Machine detection\<close>

text \<open>The machine of a block whose rule matches.\<close>

definition machine_matches :: "toml_value \<Rightarrow> string \<Rightarrow> string \<Rightarrow> bool" where
  "machine_matches mdata board product \<longleftrightarrow>
     (\<exists>block detect. mdata = TTable block \<and> bm_get block ''detect'' = Some (TTable detect) \<and>
        detect_matches detect board product)"

lemma detect_find:
  "detect_machine_with_dmi machines board product =
     map_option fst (List.find (\<lambda>(name, mdata). machine_matches mdata board product) machines)"
proof (induction machines)
  case (Cons p machines)
  obtain name mdata where p: "p = (name, mdata)" by (cases p)
  show ?case
    using Cons unfolding p
    by (auto simp: machine_matches_def as_table_def Option.bind_eq_None_conv
        split: option.splits toml_value.splits bind_splits)
qed simp

text \<open>
  Functional. The machine detected is the alphabetically first block whose rule matches, whatever
  order the files list the blocks in; without a matching block there is none.
\<close>

theorem first_machine_alphabetically:
  assumes "bm_wf machines"
  shows "detect_machine_with_dmi machines board product = Some name \<longleftrightarrow>
    (\<exists>mdata. (name, mdata) \<in> set machines \<and> machine_matches mdata board product) \<and>
    (\<forall>(other, mdata) \<in> set machines. machine_matches mdata board product \<longrightarrow> name \<le> other)"
  using assms unfolding detect_find
proof (induction machines)
  case (Cons p machines)
  obtain n mdata where p: "p = (n, mdata)" by (cases p)
  from Cons.prems p have less: "\<forall>(m, d) \<in> set machines. n < m" by auto
  show ?case
  proof (cases "machine_matches mdata board product")
    case True
    with p less show ?thesis by (auto 4 3 dest: bspec)
  next
    case False
    with Cons p show ?thesis by auto
  qed
qed simp

lemma first_machine_alphabetically_witness:
  "detect_machine_with_dmi
     [(''desk'', TTable [(''detect'', TTable [(''board_contains'', TString ''B650'')])]),
      (''lap'', TTable [(''detect'', TTable [(''board_contains'', TString ''B'')])])] ''ROG B650E'' [] =
     Some ''desk''"
proof (subst first_machine_alphabetically)
qed (simp_all add: machine_matches_def detect_matches_def detect_rule_def bm_get_def as_str_def is_prefix_of_def)

section \<open>Applet headers\<close>

text \<open>
  C20. Equivalence. The hand-written header parser accepts exactly the headers of the regular expression
  it replaces, a containment number followed by at least one applet number and nothing else, and
  returns the containment number.
\<close>

theorem applet_header_regex:
  "applet_root_containment header = Some n \<longleftrightarrow>
     (\<exists>applets. applets \<noteq> [] \<and> number n \<and> (\<forall>a \<in> set applets. number a) \<and>
        header = applet_header n applets)"
  by (rule applet_root_iff)

lemma applet_header_regex_witness:
  "applet_root_containment ''[Containments][2][Applets][25]'' = Some ''2''"
  unfolding applet_header_regex
  by (rule exI [of _ "[''25'']"]) (simp add: number_def applet_header_def is_digit_def)

end
