(* ===== verification/Config.thy ===== *)
theory Config
  imports ConfigMerge Snapshot
begin

text \<open>
  The typed configuration and its defaults: \<open>src/config/schema.rs\<close>. A \<open>Cadence\<close> is its duration. A
  floating-point knob is carried as its 64 bits. \<open>mounts_of_toml\<close> is the \<open>Deserialize\<close> implementation of
  \<open>Mounts\<close>; the derived ones belong to \<open>serde\<close>.
\<close>

definition TOOLTIP_WIDTH_FLOOR :: int where "TOOLTIP_WIDTH_FLOOR = 30"
definition MIN_CADENCE :: duration where "MIN_CADENCE = from_millis 100"

definition GRAPH_CHARTS :: "string list" where
  "GRAPH_CHARTS = [''cpu'', ''memory'', ''gpu'', ''npu'', ''network'', ''disk'', ''temperature'']"

datatype mounts = Mounts_Auto | Mounts_Explicit "string list"

definition mounts_of_toml :: "toml_value \<Rightarrow> mounts option" where
  "mounts_of_toml v =
     (case v of
        TString s \<Rightarrow> Some (if s = ''auto'' then Mounts_Auto else Mounts_Explicit [s])
      | TArray items \<Rightarrow>
          (if list_all (\<lambda>item. as_str item \<noteq> None) items
           then Some (Mounts_Explicit (List.map_filter as_str items)) else None)
      | _ \<Rightarrow> None)"

record display_config =
  disp_poll_interval :: duration
  disp_history_interval :: duration
  disp_language :: string
  disp_top_process_name_max_len :: int
  disp_panel_font_size :: int
  disp_tooltip_width :: int
  disp_panel_min_width :: int
  disp_overlay :: bool

definition display_config_default :: display_config where
  "display_config_default =
     \<lparr>disp_poll_interval = from_millis 1500, disp_history_interval = from_millis 1500,
      disp_language = ''en'', disp_top_process_name_max_len = 20,
      disp_panel_font_size = 13, disp_tooltip_width = TOOLTIP_WIDTH_FLOOR,
      disp_panel_min_width = 5, disp_overlay = False\<rparr>"

record pages_config =
  pages_order :: "string list"
  pages_graph_history_length :: int
  pages_graph_order :: "string list"
  pages_graph_width :: int

definition pages_config_default :: pages_config where
  "pages_config_default =
     \<lparr>pages_order = [''processes'', ''cpu_cores'', ''connections'', ''fastfetch''],
      pages_graph_history_length = 60, pages_graph_order = GRAPH_CHARTS,
      pages_graph_width = 315\<rparr>"

record bar_config =
  bar_width :: int
  bar_height :: int

definition bar_config_default :: bar_config where
  "bar_config_default =
     \<lparr>bar_width = 22, bar_height = 0\<rparr>"

record spark_config =
  spark_cpu_spark_length :: int
  spark_mem_spark_length :: int

definition spark_config_default :: spark_config where
  "spark_config_default =
     \<lparr>spark_cpu_spark_length = 5, spark_mem_spark_length = 5\<rparr>"

record braille_config =
  braille_cpu_braille_length :: int
  braille_mem_braille_length :: int

definition braille_config_default :: braille_config where
  "braille_config_default =
     \<lparr>braille_cpu_braille_length = 5, braille_mem_braille_length = 5\<rparr>"

record column_config =
  column_width :: int
  column_height :: int

definition column_config_default :: column_config where
  "column_config_default =
     \<lparr>column_width = 1, column_height = 0\<rparr>"

record threshold_config =
  thr_cpu_usage :: "int list"
  thr_cpu_spark :: "int list"
  thr_mem_spark :: "int list"
  thr_mem_usage :: "int list"
  thr_top_process_cpu :: "int list"
  thr_top_process_mem :: "int list"
  thr_swap_usage :: "int list"
  thr_disk_usage :: "int list"
  thr_cpu_temp :: "int list"
  thr_gpu_nvidia_temp :: "int list"
  thr_gpu_amd_temp :: "int list"
  thr_gpu_nvidia_usage :: "int list"
  thr_gpu_amd_usage :: "int list"
  thr_gpu_nvidia_mem_usage :: "int list"
  thr_gpu_amd_mem_usage :: "int list"
  thr_npu_amd_usage :: "int list"
  thr_gpu_intel_usage :: "int list"
  thr_hd_temp :: "int list"
  thr_battery_sys :: "int list"
  thr_battery_mouse :: "int list"
  thr_battery_kbd :: "int list"
  thr_wifi_signal :: "int list"
  thr_gpu_nvidia_dec_usage :: int
  thr_gpu_amd_codec_usage :: int
  thr_gpu_intel_dec_usage :: int
  thr_load_avg_1 :: "f64 list"
  thr_load_avg_5 :: "f64 list"
  thr_load_avg_15 :: "f64 list"

definition threshold_config_default :: threshold_config where
  "threshold_config_default =
     \<lparr>thr_cpu_usage = [50, 70], thr_cpu_spark = [50, 70], thr_mem_spark = [40, 60],
      thr_mem_usage = [40, 60], thr_top_process_cpu = [50, 70],
      thr_top_process_mem = [15, 30], thr_swap_usage = [50, 70], thr_disk_usage = [50, 80],
      thr_cpu_temp = [50, 70], thr_gpu_nvidia_temp = [50, 70], thr_gpu_amd_temp = [50, 70],
      thr_gpu_nvidia_usage = [50, 70], thr_gpu_amd_usage = [50, 70],
      thr_gpu_nvidia_mem_usage = [50, 70], thr_gpu_amd_mem_usage = [50, 70],
      thr_npu_amd_usage = [50, 70], thr_gpu_intel_usage = [50, 70], thr_hd_temp = [50, 55],
      thr_battery_sys = [20, 80], thr_battery_mouse = [20, 80], thr_battery_kbd = [20, 80],
      thr_wifi_signal = [30, 60], thr_gpu_nvidia_dec_usage = 1,
      thr_gpu_amd_codec_usage = 1, thr_gpu_intel_dec_usage = 1,
      thr_load_avg_1 = [0x3FE6666666666666, 0x3FF0000000000000],
      thr_load_avg_5 = [0x3FE3333333333333, 0x3FECCCCCCCCCCCCD],
      thr_load_avg_15 = [0x3FE0000000000000, 0x3FE999999999999A]\<rparr>"

record notify_thresholds =
  nthr_disk_usage :: int
  nthr_cpu_temp :: int
  nthr_gpu_nvidia_temp :: int
  nthr_gpu_amd_temp :: int
  nthr_hd_temp :: int
  nthr_battery_sys :: int
  nthr_battery_mouse :: int
  nthr_battery_kbd :: int
  nthr_temp_sustain_seconds :: int
  nthr_temp_hysteresis :: int
  nthr_load_avg_15 :: f64
  nthr_load_avg_minutes :: int

definition notify_thresholds_default :: notify_thresholds where
  "notify_thresholds_default =
     \<lparr>nthr_disk_usage = 80, nthr_cpu_temp = 80, nthr_gpu_nvidia_temp = 80,
      nthr_gpu_amd_temp = 80, nthr_hd_temp = 60, nthr_battery_sys = 10,
      nthr_battery_mouse = 20, nthr_battery_kbd = 20, nthr_temp_sustain_seconds = 60,
      nthr_temp_hysteresis = 5, nthr_load_avg_15 = 0x3FECCCCCCCCCCCCD,
      nthr_load_avg_minutes = 10\<rparr>"

record notification_config =
  notif_disk_usage :: bool
  notif_disk_smart :: bool
  notif_cpu_temp :: bool
  notif_gpu_nvidia_temp :: bool
  notif_gpu_amd_temp :: bool
  notif_hd_temp :: bool
  notif_battery_sys :: bool
  notif_battery_mouse :: bool
  notif_battery_kbd :: bool
  notif_server_check :: bool
  notif_load_avg :: bool

definition notification_config_default :: notification_config where
  "notification_config_default =
     \<lparr>notif_disk_usage = False, notif_disk_smart = True, notif_cpu_temp = False,
      notif_gpu_nvidia_temp = False, notif_gpu_amd_temp = False, notif_hd_temp = True,
      notif_battery_sys = True, notif_battery_mouse = True, notif_battery_kbd = True,
      notif_server_check = False, notif_load_avg = False\<rparr>"

record sensor_overrides =
  sens_cpu_temp :: "string option"
  sens_fan1_speed :: "string option"
  sens_fan2_speed :: "string option"
  sens_fan3_speed :: "string option"
  sens_fan4_speed :: "string option"
  sens_hd1_temp :: "string option"
  sens_hd2_temp :: "string option"
  sens_hd3_temp :: "string option"
  sens_hd4_temp :: "string option"

definition sensor_overrides_default :: sensor_overrides where
  "sensor_overrides_default =
     \<lparr>sens_cpu_temp = None, sens_fan1_speed = None, sens_fan2_speed = None,
      sens_fan3_speed = None, sens_fan4_speed = None, sens_hd1_temp = None,
      sens_hd2_temp = None, sens_hd3_temp = None, sens_hd4_temp = None\<rparr>"

record disk_config =
  disk_mounts :: mounts
  disk_auto_roots :: "string list"
  disk_smart :: bool
  disk_smart_interval :: duration
  disk_smart_interval_hdd :: duration

definition disk_config_default :: disk_config where
  "disk_config_default =
     \<lparr>disk_mounts = Mounts_Auto, disk_auto_roots = [''/mnt'', ''/media'', ''/run/media''],
      disk_smart = True, disk_smart_interval = from_millis 3600000,
      disk_smart_interval_hdd = from_millis 21600000\<rparr>"

record battery_config =
  batt_mouse_unifying :: "string option"
  batt_kbd_unifying :: "string option"
  batt_mouse_bolt :: "int option"
  batt_kbd_bolt :: "int option"
  batt_mouse_name :: "string option"
  batt_kbd_name :: "string option"

definition battery_config_default :: battery_config where
  "battery_config_default =
     \<lparr>batt_mouse_unifying = None, batt_kbd_unifying = None, batt_mouse_bolt = None,
      batt_kbd_bolt = None, batt_mouse_name = None, batt_kbd_name = None\<rparr>"

record system_updates_config =
  updates_file :: string

definition system_updates_config_default :: system_updates_config where
  "system_updates_config_default =
     \<lparr>updates_file = []\<rparr>"

record server_check_config =
  server_file :: string

definition server_check_config_default :: server_check_config where
  "server_check_config_default =
     \<lparr>server_file = []\<rparr>"

record config =
  cf_display :: display_config
  cf_bar_panel :: bar_config
  cf_column_panel :: column_config
  cf_bar_tooltip :: bar_config
  cf_spark_panel :: spark_config
  cf_spark_tooltip :: spark_config
  cf_braille_panel :: braille_config
  cf_braille_tooltip :: braille_config
  cf_panel :: surface_rec
  cf_tooltip :: surface_rec
  cf_pages :: pages_config
  cf_thresholds :: threshold_config
  cf_notify_thresholds :: notify_thresholds
  cf_notifications :: notification_config
  cf_icons :: toml_table
  cf_labels :: toml_table
  cf_sensors :: sensor_overrides
  cf_disks :: disk_config
  cf_battery :: battery_config
  cf_system_updates :: system_updates_config
  cf_server_check :: server_check_config
  cf_machine :: string
  cf_vertical :: bool

definition config_default :: config where
  "config_default =
     \<lparr>cf_display = display_config_default, cf_bar_panel = bar_config_default,
      cf_column_panel = column_config_default, cf_bar_tooltip = bar_config_default,
      cf_spark_panel = spark_config_default, cf_spark_tooltip = spark_config_default,
      cf_braille_panel = braille_config_default,
      cf_braille_tooltip = braille_config_default, cf_panel = surface_default,
      cf_tooltip = surface_default, cf_pages = pages_config_default,
      cf_thresholds = threshold_config_default,
      cf_notify_thresholds = notify_thresholds_default,
      cf_notifications = notification_config_default, cf_icons = [], cf_labels = [],
      cf_sensors = sensor_overrides_default, cf_disks = disk_config_default,
      cf_battery = battery_config_default,
      cf_system_updates = system_updates_config_default,
      cf_server_check = server_check_config_default, cf_machine = [], cf_vertical = False\<rparr>"

end
