(* ===== verification/Catalog.thy ===== *)
theory Catalog
  imports Config Terminal "HOL-Library.State_Monad"
begin

text \<open>
  From the configuration and the hardware to the scheduler's jobs and demand:
  \<open>src/sensors/catalog.rs\<close> and \<open>src/sensors/catalog/gpu.rs\<close>. \<open>Catalog\<close> is an environment that is
  only read and the map of specifications, which the state monad threads through the calls in the
  order of the source.
\<close>

section \<open>The order of the inventory families\<close>

instantiation inventory_family :: linorder
begin
definition less_eq_inventory_family :: "inventory_family \<Rightarrow> inventory_family \<Rightarrow> bool" where
  "less_eq_inventory_family a b \<longleftrightarrow> family_rank a \<le> family_rank b"
definition less_inventory_family :: "inventory_family \<Rightarrow> inventory_family \<Rightarrow> bool" where
  "less_inventory_family a b \<longleftrightarrow> family_rank a < family_rank b"
instance
  by standard (auto simp: less_eq_inventory_family_def less_inventory_family_def intro: family_rank_inj)
end

section \<open>Constants and sources\<close>

definition BAT_CACHE_TTL :: duration where "BAT_CACHE_TTL = from_secs 30"
definition PERIPH_CACHE_TTL :: duration where "PERIPH_CACHE_TTL = from_secs 30"
definition BOLT_CACHE_TTL :: duration where "BOLT_CACHE_TTL = from_secs 3600"
definition HD_TEMP_CACHE_TTL :: duration where "HD_TEMP_CACHE_TTL = from_secs 30"
definition FAN_SPEED_CACHE_TTL :: duration where "FAN_SPEED_CACHE_TTL = from_secs 30"
definition INTEL_GPU_USAGE_TTL :: duration where "INTEL_GPU_USAGE_TTL = from_secs 30"
definition GPU_CACHE_TTL :: duration where "GPU_CACHE_TTL = from_secs 3"
definition NET_INFO_TTL :: duration where "NET_INFO_TTL = from_secs 10"
definition TOP_PROCESS_TTL :: duration where "TOP_PROCESS_TTL = from_secs 15"

lemmas ttl_defs = BAT_CACHE_TTL_def PERIPH_CACHE_TTL_def BOLT_CACHE_TTL_def HD_TEMP_CACHE_TTL_def
  FAN_SPEED_CACHE_TTL_def INTEL_GPU_USAGE_TTL_def GPU_CACHE_TTL_def NET_INFO_TTL_def TOP_PROCESS_TTL_def

text \<open>The components of a Unix path text, as \<open>std::path\<close> reads them.\<close>

definition path_of :: "string \<Rightarrow> path" where
  "path_of s =
     (let pieces = split_on CHR ''/'' s;
          rooted = (s \<noteq> [] \<and> hd s = CHR ''/'');
          leading = (if \<not> rooted \<and> hd pieces = ''.'' then [CurDir] else [])
      in (if rooted then [RootDir] else leading) @
         map (\<lambda>p. if p = ''..'' then ParentDir else NormalComp p)
           (filter (\<lambda>p. p \<noteq> [] \<and> p \<noteq> ''.'') pieces))"

definition FAST_METRICS :: "metric list" where
  "FAST_METRICS = [M_GpuAmdUsage, M_GpuAmdCodecUsage, M_GpuAmdMemUsage, M_GpuAmdFreq]"
definition SLOW_METRICS :: "metric list" where
  "SLOW_METRICS = [M_GpuAmdTemp, M_GpuAmdPower, M_GpuAmdFanSpeed]"

definition supported_metrics :: "amd_gpu_source \<Rightarrow> metric bset" where
  "supported_metrics source =
     bs_collect (List.map_filter (\<lambda>(m, present). if present then Some m else None)
       [(M_GpuAmdUsage, usage_path source \<noteq> None),
        (M_GpuAmdCodecUsage, codec_usage_path source \<noteq> None),
        (M_GpuAmdMemUsage, memory_paths source \<noteq> None),
        (M_GpuAmdFreq, freq_path source \<noteq> None),
        (M_GpuAmdTemp, temp_path source \<noteq> None),
        (M_GpuAmdPower, power_path source \<noteq> None),
        (M_GpuAmdFanSpeed, fan_speed_path source \<noteq> None)])"

definition source_for_metrics :: "amd_gpu_source \<Rightarrow> metric bset \<Rightarrow> amd_gpu_source" where
  "source_for_metrics source metrics =
     source\<lparr>
       usage_path := (if M_GpuAmdUsage \<in> set metrics then usage_path source else None),
       codec_usage_path := (if M_GpuAmdCodecUsage \<in> set metrics then codec_usage_path source else None),
       memory_paths := (if M_GpuAmdMemUsage \<in> set metrics then memory_paths source else None),
       freq_path := (if M_GpuAmdFreq \<in> set metrics then freq_path source else None),
       temp_path := (if M_GpuAmdTemp \<in> set metrics then temp_path source else None),
       power_path := (if M_GpuAmdPower \<in> set metrics then power_path source else None),
       fan_speed_path := (if M_GpuAmdFanSpeed \<in> set metrics then fan_speed_path source else None)\<rparr>"

definition selected_source :: "hardware_inventory \<Rightarrow> string option" where
  "selected_source hw =
     (if hw_has_nvidia hw then Some ''nvidia''
      else case hw_amd_gpu hw of
             Some amd \<Rightarrow> Some (''amd:'' @ pci_identity amd)
           | None \<Rightarrow> map_option (\<lambda>pci. ''intel:'' @ pci) (hw_intel_gpu_pci hw))"

definition resolve_peripheral_source ::
    "config \<Rightarrow> hardware_inventory \<Rightarrow> peripheral_role \<Rightarrow> peripheral_source option" where
  "resolve_peripheral_source cfg hw role =
     (let (unifying, bolt, discovered) =
            (case role of
               Role_Mouse \<Rightarrow>
                 (batt_mouse_unifying (cf_battery cfg), batt_mouse_bolt (cf_battery cfg), hw_battery_mouse_id hw)
             | Role_Keyboard \<Rightarrow>
                 (batt_kbd_unifying (cf_battery cfg), batt_kbd_bolt (cf_battery cfg), hw_battery_kbd_id hw))
      in case unifying of
           Some i \<Rightarrow> Some (Upower i)
         | None \<Rightarrow> (case bolt of Some b \<Rightarrow> Some (Bolt b) | None \<Rightarrow> map_option Upower discovered))"

section \<open>What the configuration asks for\<close>

definition graphs_page :: "config \<Rightarrow> bool" where
  "graphs_page cfg \<longleftrightarrow> list_ex (\<lambda>page. page = ''graphs'') (pages_order (cf_pages cfg))"

definition temperature_graph_enabled :: "config \<Rightarrow> bool" where
  "temperature_graph_enabled cfg \<longleftrightarrow>
     graphs_page cfg \<and> list_ex (\<lambda>chart. chart = ''temperature'') (pages_graph_order (cf_pages cfg))"
definition io_graph_enabled :: "config \<Rightarrow> bool" where
  "io_graph_enabled cfg \<longleftrightarrow>
     graphs_page cfg \<and> list_ex (\<lambda>chart. chart = ''disk'') (pages_graph_order (cf_pages cfg))"
definition npu_graph_enabled :: "config \<Rightarrow> bool" where
  "npu_graph_enabled cfg \<longleftrightarrow>
     graphs_page cfg \<and> list_ex (\<lambda>chart. chart = ''npu'') (pages_graph_order (cf_pages cfg))"

definition notification_flags :: "config \<Rightarrow> string list" where
  "notification_flags cfg =
     (let n = cf_notifications cfg in
      List.map_filter (\<lambda>(enabled, name). if enabled then Some name else None)
        [(notif_cpu_temp n, ''cpu_temp''),
         (notif_gpu_nvidia_temp n, ''gpu_nvidia_temp''),
         (notif_gpu_amd_temp n, ''gpu_amd_temp''),
         (notif_disk_usage n, ''disk_usage''),
         (notif_disk_smart n, ''disk_smart''),
         (notif_hd_temp n, ''hd_temp''),
         (notif_battery_sys n, ''battery_sys''),
         (notif_battery_mouse n, ''battery_mouse''),
         (notif_battery_kbd n, ''battery_kbd''),
         (notif_load_avg n, ''load_avg''),
         (notif_server_check n, ''server_check'')])"

definition surface_items :: "surface_rec \<Rightarrow> item_token list" where
  "surface_items surface =
     List.map_filter (\<lambda>token. case item_from_str token of Inr item \<Rightarrow> Some item | Inl _ \<Rightarrow> None)
       (concat (map sec_items (sur_sections surface)))"

definition configured_capabilities :: "config \<Rightarrow> capability bset" where
  "configured_capabilities cfg =
     (let capabilities = needed_capabilities
            (surface_items (cf_panel cfg) @ surface_items (cf_tooltip cfg))
            (notification_flags cfg) (pages_order (cf_pages cfg));
          capabilities =
            (if temperature_graph_enabled cfg
             then bs_insert Cap_GpuAmdTemperature (bs_insert Cap_CpuTemperature capabilities)
             else capabilities);
          capabilities =
            (if io_graph_enabled cfg then bs_insert Cap_DiskIo capabilities else capabilities)
      in if npu_graph_enabled cfg then bs_insert Cap_NpuAmdUsage capabilities else capabilities)"

section \<open>The catalog\<close>

record catalog_env =
  cat_cfg :: config
  cat_hw :: hardware_inventory
  cat_confirmed_auto_mounts :: "string list"
  cat_capabilities :: "capability bset"

type_synonym specs = "(job_id, job_spec) bmap"
type_synonym 'a catalog = "(specs, 'a) state"

definition poll_interval :: "catalog_env \<Rightarrow> duration" where
  "poll_interval env = disp_poll_interval (cf_display (cat_cfg env))"
definition history_interval :: "catalog_env \<Rightarrow> duration" where
  "history_interval env = disp_history_interval (cf_display (cat_cfg env))"

definition cat_insert :: "job_spec \<Rightarrow> job_id catalog" where
  "cat_insert spec =
     State (\<lambda>specs. (spec_id spec,
       if bm_contains specs (spec_id spec) then specs else bm_insert (spec_id spec) spec specs))"

definition mark_counter :: "job_id \<Rightarrow> job_id catalog" where
  "mark_counter i = State (\<lambda>specs. (i, bm_modify i (\<lambda>spec. spec\<lparr>spec_counter := True\<rparr>) specs))"

definition single :: "job_id catalog \<Rightarrow> job_id list catalog" where
  "single m = do {i \<leftarrow> m; State_Monad.return [i]}"

definition no_jobs :: "job_id list catalog" where "no_jobs = State_Monad.return []"

definition fast_singleton :: "catalog_env \<Rightarrow> owner_id \<Rightarrow> job_kind \<Rightarrow> job_id catalog" where
  "fast_singleton env own kind =
     cat_insert (spec_fast (job_singleton own kind) (poll_interval env))"

definition periodic_singleton ::
    "catalog_env \<Rightarrow> owner_id \<Rightarrow> job_kind \<Rightarrow> duration \<Rightarrow> job_id catalog" where
  "periodic_singleton env own kind cadence = cat_insert (spec_periodic (job_singleton own kind) cadence)"

definition page_command_job :: "page_id \<Rightarrow> duration \<Rightarrow> job_id catalog" where
  "page_command_job page cadence =
     cat_insert (spec_periodic (job_with_source Own_Page Job_PageCommand (PageSource page)) cadence)"

definition fast_page_command :: "catalog_env \<Rightarrow> page_id \<Rightarrow> job_id catalog" where
  "fast_page_command env page =
     cat_insert (spec_fast (job_with_source Own_Page Job_PageCommand (PageSource page)) (poll_interval env))"

definition external_file_job :: "catalog_env \<Rightarrow> job_kind \<Rightarrow> string \<Rightarrow> job_id list catalog" where
  "external_file_job env kind file =
     (if file = [] then no_jobs
      else single (cat_insert (spec_triggered
             (job_with_source Own_External kind (PathSource (path_of file))) (poll_interval env))))"

definition cpu_job :: "catalog_env \<Rightarrow> job_id catalog" where
  "cpu_job env =
     do {
       i \<leftarrow> cat_insert (spec_fast
              (job_with_source Own_Cpu Job_Cpu
                (CpuSources
                  (if Cap_CpuTemperature \<in> set (cat_capabilities env)
                   then hw_cpu_temp_path (cat_hw env) else None)
                  (if Cap_CpuFrequency \<in> set (cat_capabilities env)
                   then hw_cpu_freq_path (cat_hw env) else None)
                  (if Cap_CpuTurbo \<in> set (cat_capabilities env) \<and> hw_cpu_turbo_supported (cat_hw env)
                   then hw_cpu_turbo_path (cat_hw env) else None)))
              (poll_interval env));
       mark_counter i
     }"

definition cpu_history :: "catalog_env \<Rightarrow> job_id \<Rightarrow> job_id catalog" where
  "cpu_history env source =
     cat_insert (spec_history (job_singleton Own_Cpu Job_CpuHistory) source (history_interval env))"

definition memory_job :: "catalog_env \<Rightarrow> job_id catalog" where
  "memory_job env = fast_singleton env Own_Memory Job_Memory"

definition memory_history :: "catalog_env \<Rightarrow> job_id \<Rightarrow> job_id catalog" where
  "memory_history env source =
     cat_insert (spec_history (job_singleton Own_Memory Job_MemoryHistory) source (history_interval env))"

definition network_rate_job :: "catalog_env \<Rightarrow> job_id option catalog" where
  "network_rate_job env =
     (case hw_net_device (cat_hw env) of
        None \<Rightarrow> State_Monad.return None
      | Some device \<Rightarrow>
          do {
            i \<leftarrow> cat_insert ((spec_fast (job_with_source Own_Network Job_NetworkRate (Device device))
                   (poll_interval env))\<lparr>spec_counter := True\<rparr>);
            State_Monad.return (Some i)
          })"

definition network_history :: "catalog_env \<Rightarrow> job_id \<Rightarrow> job_id catalog" where
  "network_history env source =
     cat_insert (spec_history (job_singleton Own_Network Job_NetworkHistory) source (history_interval env))"

definition disk_io_jobs :: "catalog_env \<Rightarrow> job_id list catalog" where
  "disk_io_jobs env =
     (case hw_disk_io_device (cat_hw env) of
        None \<Rightarrow> no_jobs
      | Some device \<Rightarrow>
          single (cat_insert ((spec_fast (job_with_source Own_Disk Job_DiskIo (Device device))
            (poll_interval env))\<lparr>spec_counter := True\<rparr>)))"

definition disk_usage_jobs :: "catalog_env \<Rightarrow> job_id list catalog" where
  "disk_usage_jobs env =
     State_Monad.traverse_list
       (\<lambda>mount. cat_insert (spec_fast (job_with_source Own_Disk Job_DiskUsage (Mount (path_of mount)))
          (poll_interval env)))
       (case disk_mounts (cf_disks (cat_cfg env)) of
          Mounts_Explicit mounts \<Rightarrow> mounts
        | Mounts_Auto \<Rightarrow> cat_confirmed_auto_mounts env)"

definition smart_jobs :: "catalog_env \<Rightarrow> job_id list catalog" where
  "smart_jobs env =
     (if \<not> disk_smart (cf_disks (cat_cfg env)) then no_jobs
      else State_Monad.traverse_list
        (\<lambda>(label, drive). cat_insert (spec_periodic
           (job_with_source Own_Disk Job_Smart (SmartDrive label (sd_object_path drive)))
           (if sd_rotational drive then disk_smart_interval_hdd (cf_disks (cat_cfg env))
            else disk_smart_interval (cf_disks (cat_cfg env)))))
        (hw_disk_smart_drives (cat_hw env)))"

definition disk_temperature_jobs :: "catalog_env \<Rightarrow> job_id list catalog" where
  "disk_temperature_jobs env =
     State_Monad.traverse_list
       (\<lambda>(name, file). cat_insert (spec_periodic
          (job_with_source Own_Disk Job_DiskTemperature (NamedPath name file)) HD_TEMP_CACHE_TTL))
       (hw_hd_temp_paths (cat_hw env))"

definition fan_jobs :: "catalog_env \<Rightarrow> job_id list catalog" where
  "fan_jobs env =
     State_Monad.traverse_list
       (\<lambda>(name, file). cat_insert (spec_periodic
          (job_with_source Own_Disk Job_FanSpeed (NamedPath name file)) FAN_SPEED_CACHE_TTL))
       (hw_fan_paths (cat_hw env))"

definition system_battery_jobs :: "catalog_env \<Rightarrow> job_id list catalog" where
  "system_battery_jobs env =
     State_Monad.traverse_list
       (\<lambda>i. cat_insert (spec_periodic
          (job_with_source Own_Power Job_SystemBattery (BatterySource i)) BAT_CACHE_TTL))
       (hw_battery_sys_ids (cat_hw env))"

definition peripheral_jobs :: "catalog_env \<Rightarrow> peripheral_role \<Rightarrow> job_id list catalog" where
  "peripheral_jobs env role =
     (case resolve_peripheral_source (cat_cfg env) (cat_hw env) role of
        None \<Rightarrow> no_jobs
      | Some source \<Rightarrow>
          single (cat_insert (spec_periodic
            (job_with_source Own_Power Job_PeripheralBattery (Peripheral role source))
            (case source of Upower _ \<Rightarrow> PERIPH_CACHE_TTL | Bolt _ \<Rightarrow> BOLT_CACHE_TTL))))"

definition brightness_jobs :: "catalog_env \<Rightarrow> job_id list catalog" where
  "brightness_jobs env =
     (if \<not> hw_has_backlight (cat_hw env) then no_jobs
      else single (fast_singleton env Own_External Job_Brightness))"

definition nvidia_jobs :: "catalog_env \<Rightarrow> job_id list catalog" where
  "nvidia_jobs env =
     (if \<not> hw_has_nvidia (cat_hw env) then no_jobs
      else do {
             nvml \<leftarrow> fast_singleton env Own_Nvidia Job_NvidiaNvml;
             fallback \<leftarrow> periodic_singleton env Own_Nvidia Job_NvidiaFallback GPU_CACHE_TTL;
             State_Monad.return [nvml, fallback]
           })"

definition intel_frequency_jobs :: "catalog_env \<Rightarrow> job_id list catalog" where
  "intel_frequency_jobs env =
     (case hw_intel_gpu_freq_path (cat_hw env) of
        None \<Rightarrow> no_jobs
      | Some file \<Rightarrow>
          single (cat_insert (spec_fast
            (job_with_source Own_IntelGpu Job_IntelFrequency (PathSource file)) (poll_interval env))))"

definition intel_usage_jobs :: "catalog_env \<Rightarrow> job_id list catalog" where
  "intel_usage_jobs env =
     (case hw_intel_gpu_pci (cat_hw env) of
        None \<Rightarrow> no_jobs
      | Some pci \<Rightarrow>
          single (cat_insert ((spec_periodic
            (job_with_source Own_IntelGpu Job_IntelUsage (Device pci)) INTEL_GPU_USAGE_TTL)
            \<lparr>spec_counter := True\<rparr>)))"

definition amd_jobs :: "catalog_env \<Rightarrow> metric \<Rightarrow> job_id list catalog" where
  "amd_jobs env metric =
     (case hw_amd_gpu (cat_hw env) of
        None \<Rightarrow> no_jobs
      | Some source \<Rightarrow>
          if metric \<notin> set (supported_metrics source) then no_jobs
          else
            let fast = metric \<in> set FAST_METRICS;
                i = job_with_source Own_AmdGpu (if fast then Job_AmdFast else Job_AmdSlow)
                      (Device (''amd:'' @ pci_identity source))
            in single (cat_insert
                 (if fast then spec_fast i (poll_interval env) else spec_periodic i (from_secs 30))))"

definition amd_npu_jobs :: "catalog_env \<Rightarrow> job_id list catalog" where
  "amd_npu_jobs env =
     (case hw_amd_npu (cat_hw env) of
        None \<Rightarrow> no_jobs
      | Some source \<Rightarrow>
          single (cat_insert (spec_fast
            (job_with_source Own_AmdNpu Job_AmdNpu (Device (npu_identity source))) (poll_interval env))))"

definition inventory_job :: "inventory_family \<Rightarrow> job_id catalog" where
  "inventory_job family =
     cat_insert (spec_periodic
       (job_with_source Own_Discovery Job_HardwareDiscovery (InventorySource family))
       (case family of
          Inv_SystemBattery \<Rightarrow> BAT_CACHE_TTL
        | Inv_Peripheral \<Rightarrow> PERIPH_CACHE_TTL
        | _ \<Rightarrow> from_secs 60))"

section \<open>Jobs of metrics, capabilities and pages\<close>

primrec metric_jobs :: "catalog_env \<Rightarrow> metric \<Rightarrow> job_id list catalog" where
  "metric_jobs env M_CpuUsage = single (cpu_job env)"
| "metric_jobs env M_MemUsage = single (memory_job env)"
| "metric_jobs env M_SwapUsage = single (memory_job env)"
| "metric_jobs env M_CpuFreq = single (cpu_job env)"
| "metric_jobs env M_CpuTurbo = single (cpu_job env)"
| "metric_jobs env M_CpuTemp = single (cpu_job env)"
| "metric_jobs env M_HdTemp = disk_temperature_jobs env"
| "metric_jobs env M_DiskUsage = disk_usage_jobs env"
| "metric_jobs env M_DiskSmart = smart_jobs env"
| "metric_jobs env M_GpuNvidiaTemp = nvidia_jobs env"
| "metric_jobs env M_GpuNvidiaUsage = nvidia_jobs env"
| "metric_jobs env M_GpuNvidiaMemUsage = nvidia_jobs env"
| "metric_jobs env M_GpuNvidiaDecoderUsage = nvidia_jobs env"
| "metric_jobs env M_GpuNvidiaFanSpeed = nvidia_jobs env"
| "metric_jobs env M_GpuAmdUsage = amd_jobs env M_GpuAmdUsage"
| "metric_jobs env M_GpuAmdCodecUsage = amd_jobs env M_GpuAmdCodecUsage"
| "metric_jobs env M_GpuAmdMemUsage = amd_jobs env M_GpuAmdMemUsage"
| "metric_jobs env M_GpuAmdFreq = amd_jobs env M_GpuAmdFreq"
| "metric_jobs env M_GpuAmdTemp = amd_jobs env M_GpuAmdTemp"
| "metric_jobs env M_GpuAmdPower = amd_jobs env M_GpuAmdPower"
| "metric_jobs env M_GpuAmdFanSpeed = amd_jobs env M_GpuAmdFanSpeed"
| "metric_jobs env M_NpuAmdUsage = amd_npu_jobs env"
| "metric_jobs env M_NpuAmdPower = amd_npu_jobs env"
| "metric_jobs env M_NpuAmdFreq = amd_npu_jobs env"
| "metric_jobs env M_GpuIntelFreq = intel_frequency_jobs env"
| "metric_jobs env M_GpuIntelUsage = intel_usage_jobs env"
| "metric_jobs env M_GpuIntelDecoderUsage = intel_usage_jobs env"
| "metric_jobs env M_ScreenBrightness = brightness_jobs env"
| "metric_jobs env M_FanSpeed = fan_jobs env"
| "metric_jobs env M_BatterySystem = system_battery_jobs env"
| "metric_jobs env M_BatteryMouse = peripheral_jobs env Role_Mouse"
| "metric_jobs env M_BatteryKeyboard = peripheral_jobs env Role_Keyboard"
| "metric_jobs env M_NetSpeed =
     do {source \<leftarrow> network_rate_job env;
         State_Monad.return (case source of Some j \<Rightarrow> [j] | None \<Rightarrow> [])}"
| "metric_jobs env M_DiskIo = disk_io_jobs env"
| "metric_jobs env M_NetDevice =
     single (periodic_singleton env Own_Network Job_NetworkIdentity NET_INFO_TTL)"
| "metric_jobs env M_NetIp =
     single (periodic_singleton env Own_Network Job_NetworkIdentity NET_INFO_TTL)"
| "metric_jobs env M_NetDeviceIp =
     single (periodic_singleton env Own_Network Job_NetworkIdentity NET_INFO_TTL)"
| "metric_jobs env M_WifiSsid =
     single (periodic_singleton env Own_Network Job_NetworkIdentity NET_INFO_TTL)"
| "metric_jobs env M_WifiSignal =
     single (periodic_singleton env Own_Network Job_NetworkIdentity NET_INFO_TTL)"
| "metric_jobs env M_WifiSsidSignal =
     single (periodic_singleton env Own_Network Job_NetworkIdentity NET_INFO_TTL)"
| "metric_jobs env M_Uptime = single (cpu_job env)"
| "metric_jobs env M_LoadAverage = single (cpu_job env)"
| "metric_jobs env M_TopProcess =
     do {i \<leftarrow> periodic_singleton env Own_Process Job_PanelProcesses TOP_PROCESS_TTL;
         single (mark_counter i)}"
| "metric_jobs env M_SystemUpdates =
     external_file_job env Job_UpdatesFile (updates_file (cf_system_updates (cat_cfg env)))"
| "metric_jobs env M_ServerCheck =
     external_file_job env Job_ServerFile (server_file (cf_server_check (cat_cfg env)))"

primrec capability_jobs :: "catalog_env \<Rightarrow> capability \<Rightarrow> job_id list catalog" where
  "capability_jobs env Cap_SwapUsage = single (memory_job env)"
| "capability_jobs env Cap_CpuFrequency = single (cpu_job env)"
| "capability_jobs env Cap_CpuTurbo = single (cpu_job env)"
| "capability_jobs env Cap_CpuTemperature = single (cpu_job env)"
| "capability_jobs env Cap_DiskTemperature = disk_temperature_jobs env"
| "capability_jobs env Cap_DiskUsage = disk_usage_jobs env"
| "capability_jobs env Cap_DiskSmart = smart_jobs env"
| "capability_jobs env Cap_GpuNvidia = nvidia_jobs env"
| "capability_jobs env Cap_GpuAmdUsage = amd_jobs env M_GpuAmdUsage"
| "capability_jobs env Cap_GpuAmdCodec = amd_jobs env M_GpuAmdCodecUsage"
| "capability_jobs env Cap_GpuAmdMemory = amd_jobs env M_GpuAmdMemUsage"
| "capability_jobs env Cap_GpuAmdFrequency = amd_jobs env M_GpuAmdFreq"
| "capability_jobs env Cap_GpuAmdTemperature = amd_jobs env M_GpuAmdTemp"
| "capability_jobs env Cap_GpuAmdPower = amd_jobs env M_GpuAmdPower"
| "capability_jobs env Cap_GpuAmdFanSpeed = amd_jobs env M_GpuAmdFanSpeed"
| "capability_jobs env Cap_NpuAmdUsage = amd_npu_jobs env"
| "capability_jobs env Cap_NpuAmdPower = amd_npu_jobs env"
| "capability_jobs env Cap_NpuAmdFrequency = amd_npu_jobs env"
| "capability_jobs env Cap_GpuIntelFrequency = intel_frequency_jobs env"
| "capability_jobs env Cap_GpuIntelUsage = intel_usage_jobs env"
| "capability_jobs env Cap_GpuIntelDecoder = intel_usage_jobs env"
| "capability_jobs env Cap_ScreenBrightness = brightness_jobs env"
| "capability_jobs env Cap_FanSpeed = fan_jobs env"
| "capability_jobs env Cap_BatterySystem = system_battery_jobs env"
| "capability_jobs env Cap_BatteryMouse = peripheral_jobs env Role_Mouse"
| "capability_jobs env Cap_BatteryKeyboard = peripheral_jobs env Role_Keyboard"
| "capability_jobs env Cap_NetworkSpeed =
     do {source \<leftarrow> network_rate_job env;
         State_Monad.return (case source of Some j \<Rightarrow> [j] | None \<Rightarrow> [])}"
| "capability_jobs env Cap_DiskIo = disk_io_jobs env"
| "capability_jobs env Cap_NetworkInfo =
     single (periodic_singleton env Own_Network Job_NetworkIdentity NET_INFO_TTL)"
| "capability_jobs env Cap_Uptime = single (cpu_job env)"
| "capability_jobs env Cap_LoadAverage = single (cpu_job env)"
| "capability_jobs env Cap_TopProcess =
     do {i \<leftarrow> periodic_singleton env Own_Process Job_PanelProcesses TOP_PROCESS_TTL;
         single (mark_counter i)}"
| "capability_jobs env Cap_SystemUpdates =
     external_file_job env Job_UpdatesFile (updates_file (cf_system_updates (cat_cfg env)))"
| "capability_jobs env Cap_ServerCheck =
     external_file_job env Job_ServerFile (server_file (cf_server_check (cat_cfg env)))"

primrec metric_inventory_family :: "catalog_env \<Rightarrow> metric \<Rightarrow> inventory_family option" where
  "metric_inventory_family env M_CpuUsage = None"
| "metric_inventory_family env M_MemUsage = None"
| "metric_inventory_family env M_SwapUsage = None"
| "metric_inventory_family env M_CpuFreq = Some Inv_Cpu"
| "metric_inventory_family env M_CpuTurbo = Some Inv_Cpu"
| "metric_inventory_family env M_CpuTemp = Some Inv_Cpu"
| "metric_inventory_family env M_HdTemp = Some Inv_Thermal"
| "metric_inventory_family env M_DiskUsage = None"
| "metric_inventory_family env M_DiskSmart = (if disk_smart (cf_disks (cat_cfg env))
      then Some Inv_Smart else None)"
| "metric_inventory_family env M_GpuNvidiaTemp = Some Inv_Nvidia"
| "metric_inventory_family env M_GpuNvidiaUsage = Some Inv_Nvidia"
| "metric_inventory_family env M_GpuNvidiaMemUsage = Some Inv_Nvidia"
| "metric_inventory_family env M_GpuNvidiaDecoderUsage = Some Inv_Nvidia"
| "metric_inventory_family env M_GpuNvidiaFanSpeed = Some Inv_Nvidia"
| "metric_inventory_family env M_GpuAmdUsage = Some Inv_Amd"
| "metric_inventory_family env M_GpuAmdCodecUsage = Some Inv_Amd"
| "metric_inventory_family env M_GpuAmdMemUsage = Some Inv_Amd"
| "metric_inventory_family env M_GpuAmdFreq = Some Inv_Amd"
| "metric_inventory_family env M_GpuAmdTemp = Some Inv_Amd"
| "metric_inventory_family env M_GpuAmdPower = Some Inv_Amd"
| "metric_inventory_family env M_GpuAmdFanSpeed = Some Inv_Amd"
| "metric_inventory_family env M_NpuAmdUsage = Some Inv_AmdNpu"
| "metric_inventory_family env M_NpuAmdPower = Some Inv_AmdNpu"
| "metric_inventory_family env M_NpuAmdFreq = Some Inv_AmdNpu"
| "metric_inventory_family env M_GpuIntelFreq = Some Inv_Intel"
| "metric_inventory_family env M_GpuIntelUsage = Some Inv_Intel"
| "metric_inventory_family env M_GpuIntelDecoderUsage = Some Inv_Intel"
| "metric_inventory_family env M_ScreenBrightness = Some Inv_Backlight"
| "metric_inventory_family env M_FanSpeed = Some Inv_Thermal"
| "metric_inventory_family env M_BatterySystem = Some Inv_SystemBattery"
| "metric_inventory_family env M_BatteryMouse =
     (if batt_mouse_unifying (cf_battery (cat_cfg env)) = None \<and>
        batt_mouse_bolt (cf_battery (cat_cfg env)) = None
      then Some Inv_Peripheral else None)"
| "metric_inventory_family env M_BatteryKeyboard =
     (if batt_kbd_unifying (cf_battery (cat_cfg env)) = None \<and>
        batt_kbd_bolt (cf_battery (cat_cfg env)) = None
      then Some Inv_Peripheral else None)"
| "metric_inventory_family env M_NetSpeed = Some Inv_Network"
| "metric_inventory_family env M_DiskIo = Some Inv_DiskIo"
| "metric_inventory_family env M_NetDevice = Some Inv_Network"
| "metric_inventory_family env M_NetIp = Some Inv_Network"
| "metric_inventory_family env M_NetDeviceIp = Some Inv_Network"
| "metric_inventory_family env M_WifiSsid = Some Inv_Network"
| "metric_inventory_family env M_WifiSignal = Some Inv_Network"
| "metric_inventory_family env M_WifiSsidSignal = Some Inv_Network"
| "metric_inventory_family env M_Uptime = None"
| "metric_inventory_family env M_LoadAverage = None"
| "metric_inventory_family env M_TopProcess = None"
| "metric_inventory_family env M_SystemUpdates = None"
| "metric_inventory_family env M_ServerCheck = None"

definition item_jobs :: "catalog_env \<Rightarrow> item_token \<Rightarrow> job_id list catalog" where
  "item_jobs env item =
     (let renders = (case item_form item of Some f \<Rightarrow> renders_history f | None \<Rightarrow> False) in
      case it_metric item of
        M_CpuUsage \<Rightarrow>
          do {
            source \<leftarrow> cpu_job env;
            if renders then do {h \<leftarrow> cpu_history env source; State_Monad.return [source, h]}
            else State_Monad.return [source]
          }
      | M_MemUsage \<Rightarrow>
          do {
            source \<leftarrow> memory_job env;
            if renders then do {h \<leftarrow> memory_history env source; State_Monad.return [source, h]}
            else State_Monad.return [source]
          }
      | metric \<Rightarrow> metric_jobs env metric)"

definition job_set :: "job_id list list catalog \<Rightarrow> job_id bset catalog" where
  "job_set m = do {jobs \<leftarrow> m; State_Monad.return (bs_collect (concat jobs))}"

definition surface_jobs :: "catalog_env \<Rightarrow> surface_rec \<Rightarrow> job_id bset catalog" where
  "surface_jobs env surface = job_set (State_Monad.traverse_list (item_jobs env) (surface_items surface))"

definition notification_jobs :: "catalog_env \<Rightarrow> job_id bset catalog" where
  "notification_jobs env =
     (let n = cf_notifications (cat_cfg env) in
      job_set (State_Monad.traverse_list (capability_jobs env)
        (map snd (filter fst
          [(notif_cpu_temp n, Cap_CpuTemperature),
           (notif_gpu_nvidia_temp n, Cap_GpuNvidia),
           (notif_gpu_amd_temp n, Cap_GpuAmdTemperature),
           (notif_disk_usage n, Cap_DiskUsage),
           (notif_disk_smart n, Cap_DiskSmart),
           (notif_hd_temp n, Cap_DiskTemperature),
           (notif_battery_sys n, Cap_BatterySystem),
           (notif_battery_mouse n, Cap_BatteryMouse),
           (notif_battery_kbd n, Cap_BatteryKeyboard),
           (notif_load_avg n, Cap_LoadAverage),
           (notif_server_check n, Cap_ServerCheck)]))))"

definition page_jobs :: "catalog_env \<Rightarrow> page_id \<Rightarrow> job_id bset catalog" where
  "page_jobs env page =
     (case page of
        Page_Processes \<Rightarrow>
          do {
            i \<leftarrow> fast_singleton env Own_Process Job_PageProcesses;
            single (mark_counter i)
          }
      | Page_CpuCores \<Rightarrow>
          do {
            cores \<leftarrow> fast_singleton env Own_Cpu Job_CpuCores;
            cores \<leftarrow> mark_counter cores;
            history \<leftarrow> cat_insert (spec_history (job_singleton Own_Cpu Job_CpuCoreHistory) cores
                         (history_interval env));
            State_Monad.return (bs_collect [cores, history])
          }
      | Page_Connections \<Rightarrow> single (fast_page_command env Page_Connections)
      | Page_Fastfetch \<Rightarrow> single (page_command_job Page_Fastfetch (from_secs 30))
      | Page_Graphs \<Rightarrow> single (fast_singleton env Own_Page Job_PageRender)
      | Page_Main \<Rightarrow> State_Monad.return []
      | Page_Other _ \<Rightarrow> State_Monad.return [])"

text \<open>\<open>Vec::pop\<close> of the list a call returned.\<close>

definition pop :: "'a list \<Rightarrow> 'a option" where
  "pop xs = (if xs = [] then None else Some (last xs))"

definition history_of ::
    "catalog_env \<Rightarrow> job_id option \<Rightarrow> (job_id \<Rightarrow> job_id) \<Rightarrow> job_id list catalog" where
  "history_of env source history_id =
     (case source of
        None \<Rightarrow> no_jobs
      | Some i \<Rightarrow>
          do {
            h \<leftarrow> cat_insert (spec_history (history_id i) i (history_interval env));
            State_Monad.return [i, h]
          })"

definition graph_gpu_jobs :: "catalog_env \<Rightarrow> job_id list catalog" where
  "graph_gpu_jobs env =
     (if hw_has_nvidia (cat_hw env) then nvidia_jobs env
      else if hw_amd_gpu (cat_hw env) \<noteq> None then
        do {
          usage \<leftarrow> amd_jobs env M_GpuAmdUsage;
          codec \<leftarrow> amd_jobs env M_GpuAmdCodecUsage;
          temp \<leftarrow> (if temperature_graph_enabled (cat_cfg env) then amd_jobs env M_GpuAmdTemp else no_jobs);
          State_Monad.return (usage @ codec @ temp)
        }
      else intel_usage_jobs env)"

definition graph_jobs :: "catalog_env \<Rightarrow> job_id bset catalog" where
  "graph_jobs env =
     do {
       cpu \<leftarrow> cpu_job env;
       memory \<leftarrow> memory_job env;
       cpu_h \<leftarrow> cpu_history env cpu;
       memory_h \<leftarrow> memory_history env memory;
       network \<leftarrow> network_rate_job env;
       network_hs \<leftarrow> (case network of
            None \<Rightarrow> no_jobs
          | Some i \<Rightarrow> do {h \<leftarrow> network_history env i; State_Monad.return [i, h]});
       disk_hs \<leftarrow> (if io_graph_enabled (cat_cfg env) then
            do {
              disk_io \<leftarrow> disk_io_jobs env;
              history_of env (pop disk_io) (\<lambda>_. job_singleton Own_Disk Job_DiskIoHistory)
            }
          else no_jobs);
       npu_hs \<leftarrow> (if npu_graph_enabled (cat_cfg env) then
            do {
              npu \<leftarrow> amd_npu_jobs env;
              history_of env (pop npu)
                (\<lambda>i. job_with_source Own_AmdNpu Job_AmdNpuHistory (jid_source i))
            }
          else no_jobs);
       gpu \<leftarrow> graph_gpu_jobs env;
       gpu_h \<leftarrow> (case selected_source (cat_hw env) of
            None \<Rightarrow> no_jobs
          | Some source \<Rightarrow>
              single (cat_insert (spec_source_history
                (job_with_source Own_GpuHistory Job_GpuHistory (Device source)) (history_interval env))));
       State_Monad.return
         (bs_collect ([cpu, cpu_h, memory, memory_h] @ network_hs @ disk_hs @ npu_hs @ gpu @ gpu_h))
     }"

section \<open>AMD jobs\<close>

definition surface_metrics :: "surface_rec \<Rightarrow> metric bset" where
  "surface_metrics surface = bs_collect (map it_metric (surface_items surface))"

definition amd_hidden_metrics :: "catalog_env \<Rightarrow> metric bset" where
  "amd_hidden_metrics env =
     (let cfg = cat_cfg env;
          hidden = surface_metrics (cf_panel cfg);
          hidden = (if notif_gpu_amd_temp (cf_notifications cfg)
                    then bs_insert M_GpuAmdTemp hidden else hidden)
      in if \<not> hw_has_nvidia (cat_hw env) \<and> graphs_page cfg then
           (let hidden = bs_extend hidden [M_GpuAmdUsage, M_GpuAmdCodecUsage]
            in if temperature_graph_enabled cfg then bs_insert M_GpuAmdTemp hidden else hidden)
         else hidden)"

definition amd_job_for :: "catalog_env \<Rightarrow> amd_gpu_source \<Rightarrow> job_kind \<Rightarrow> amd_job" where
  "amd_job_for env source kind =
     (let group = (if kind = Job_AmdFast then FAST_METRICS else SLOW_METRICS);
          supported = supported_metrics source;
          keep = (\<lambda>metrics. bs_collect (filter (\<lambda>m. m \<in> set group \<and> m \<in> set supported) metrics));
          hidden = keep (amd_hidden_metrics env);
          tooltip = keep (surface_metrics (cf_tooltip (cat_cfg env)))
      in \<lparr>amd_source = source_for_metrics source (bs_extend hidden tooltip),
          amd_hidden = hidden, amd_tooltip = tooltip\<rparr>)"

definition finish_amd_jobs :: "catalog_env \<Rightarrow> specs \<Rightarrow> specs" where
  "finish_amd_jobs env specs =
     (case hw_amd_gpu (cat_hw env) of
        None \<Rightarrow> specs
      | Some source \<Rightarrow>
          bm_map (\<lambda>_ spec.
            if jid_owner (spec_id spec) = Own_AmdGpu
            then spec\<lparr>spec_amd := Some (amd_job_for env source (jid_kind (spec_id spec)))\<rparr>
            else spec) specs)"

section \<open>The scheduler configuration\<close>

definition surface_inventory_families :: "catalog_env \<Rightarrow> surface_rec \<Rightarrow> inventory_family bset" where
  "surface_inventory_families env surface =
     bs_collect (List.map_filter (\<lambda>item. metric_inventory_family env (it_metric item))
       (surface_items surface))"

definition notification_inventory_families :: "catalog_env \<Rightarrow> inventory_family bset" where
  "notification_inventory_families env =
     bs_collect (List.map_filter (metric_inventory_family env)
       (List.map_filter (\<lambda>name. case metric_from_str name of Inr m \<Rightarrow> Some m | Inl _ \<Rightarrow> None)
         (notification_flags (cat_cfg env))))"

definition hidden_inventory_families :: "catalog_env \<Rightarrow> inventory_family bset" where
  "hidden_inventory_families env =
     (let cfg = cat_cfg env;
          fams = notification_inventory_families env;
          fams = (if graphs_page cfg then bs_extend fams [Inv_Nvidia, Inv_Amd, Inv_Intel, Inv_Network]
                  else fams);
          fams = (if temperature_graph_enabled cfg then bs_insert Inv_Cpu fams else fams);
          fams = (if io_graph_enabled cfg then bs_insert Inv_DiskIo fams else fams)
      in if npu_graph_enabled cfg then bs_insert Inv_AmdNpu fams else fams)"

definition inventory_jobs :: "inventory_family bset \<Rightarrow> job_id list catalog" where
  "inventory_jobs fams = State_Monad.traverse_list inventory_job fams"

definition all_page_jobs :: "catalog_env \<Rightarrow> (page_id, job_id bset) bmap catalog" where
  "all_page_jobs env =
     do {
       pages \<leftarrow> State_Monad.traverse_list
         (\<lambda>page. do {jobs \<leftarrow> page_jobs env (page_from_id page);
                     State_Monad.return (page_from_id page, jobs)})
         (pages_order (cf_pages (cat_cfg env)));
       State_Monad.return (bm_collect (filter (\<lambda>(page, jobs). jobs \<noteq> []) pages))
     }"

definition is_disk_usage :: "job_id \<Rightarrow> bool" where
  "is_disk_usage job \<longleftrightarrow> jid_kind job = Job_DiskUsage"

text \<open>
  The mount inventory: demanded wherever disk usage is, when the mounts are discovered. The result is
  the demand and the startup jobs.
\<close>

definition with_inventory :: "job_id \<Rightarrow> job_id bset \<Rightarrow> job_id bset" where
  "with_inventory inventory jobs =
     (if list_ex is_disk_usage jobs then bs_insert inventory jobs else jobs)"

definition mount_inventory ::
    "catalog_env \<Rightarrow> job_id bset \<Rightarrow> demand_plan \<Rightarrow> job_id bset \<Rightarrow>
     (demand_plan \<times> job_id bset) catalog" where
  "mount_inventory env panel_jobs demand startup =
     (let wants = list_ex is_disk_usage
            (dp_hidden demand @ dp_main_tooltip demand @ concat (map snd (dp_pages demand)))
      in if wants \<and> disk_mounts (cf_disks (cat_cfg env)) = Mounts_Auto then
           do {
             inventory \<leftarrow> periodic_singleton env Own_Discovery Job_MountInventory (poll_interval env);
             State_Monad.return
               (demand\<lparr>dp_hidden := with_inventory inventory (dp_hidden demand),
                       dp_main_tooltip := with_inventory inventory (dp_main_tooltip demand),
                       dp_pages := bm_map (\<lambda>_. with_inventory inventory) (dp_pages demand)\<rparr>,
                if list_ex is_disk_usage panel_jobs then bs_insert inventory startup else startup)
           }
         else State_Monad.return (demand, startup))"

definition catalog_jobs :: "catalog_env \<Rightarrow> (demand_plan \<times> job_id bset) catalog" where
  "catalog_jobs env =
     (let cfg = cat_cfg env in
      do {
        panel_jobs \<leftarrow> surface_jobs env (cf_panel cfg);
        tooltip_jobs \<leftarrow> surface_jobs env (cf_tooltip cfg);
        notify_jobs \<leftarrow> notification_jobs env;
        graphs \<leftarrow> (if graphs_page cfg then graph_jobs env else no_jobs);
        panel_inventory \<leftarrow> inventory_jobs (surface_inventory_families env (cf_panel cfg));
        hidden_inventory \<leftarrow> inventory_jobs (hidden_inventory_families env);
        tooltip_inventory \<leftarrow> inventory_jobs (surface_inventory_families env (cf_tooltip cfg));
        pages \<leftarrow> all_page_jobs env;
        mount_inventory env panel_jobs
          \<lparr>dp_hidden = bs_collect (panel_jobs @ notify_jobs @ graphs @ panel_inventory @ hidden_inventory),
           dp_main_tooltip = bs_collect (tooltip_jobs @ tooltip_inventory),
           dp_pages = pages\<rparr>
          (bs_extend panel_jobs panel_inventory)
      })"

definition mark_startup :: "job_id bset \<Rightarrow> specs \<Rightarrow> specs" where
  "mark_startup startup specs =
     fold (\<lambda>job. bm_modify job
        (\<lambda>spec. spec\<lparr>spec_startup_panel := spec_timing spec \<noteq> History\<rparr>)) startup specs"

definition catalog_new :: "config \<Rightarrow> hardware_inventory \<Rightarrow> string list \<Rightarrow> catalog_env" where
  "catalog_new cfg hw confirmed_auto_mounts =
     \<lparr>cat_cfg = cfg, cat_hw = hw, cat_confirmed_auto_mounts = confirmed_auto_mounts,
      cat_capabilities = configured_capabilities cfg\<rparr>"

definition scheduler_config_of ::
    "config \<Rightarrow> hardware_inventory \<Rightarrow> string list \<Rightarrow> config_generation \<Rightarrow> scheduler_config" where
  "scheduler_config_of cfg hw confirmed_auto_mounts generation =
     (let env = catalog_new cfg hw confirmed_auto_mounts;
          ((demand, startup), specs) = run_state (catalog_jobs env) [];
          specs = finish_amd_jobs env (mark_startup startup specs)
      in \<lparr>cfg_generation = generation, cfg_display_interval = poll_interval env,
          cfg_jobs = map snd specs, cfg_demand = demand\<rparr>)"

end
