(* ===== verification/CatalogProps.thy ===== *)
theory CatalogProps
  imports Catalog SchedWakes
begin

text \<open>
  The job catalog: a small logic of the calls that fill it (\<open>yields\<close>), and what follows of the
  scheduler configuration \<open>scheduler_config\<close> returns: every demanded job and every history source has
  a specification, every cadence is one the configuration or the source names, and a scheduler that
  is configured from it never asks for a wake-up in the past.
\<close>

section \<open>The catalog invariant\<close>

text \<open>The owner of a job kind: the scheduler runs one job of an owner at a time.\<close>

definition kind_owner :: "job_kind \<Rightarrow> owner_id" where
  "kind_owner kind =
     (case kind of
        Job_Cpu \<Rightarrow> Own_Cpu | Job_CpuCores \<Rightarrow> Own_Cpu | Job_CpuHistory \<Rightarrow> Own_Cpu
      | Job_CpuCoreHistory \<Rightarrow> Own_Cpu | Job_Memory \<Rightarrow> Own_Memory | Job_MemoryHistory \<Rightarrow> Own_Memory
      | Job_NetworkRate \<Rightarrow> Own_Network | Job_NetworkIdentity \<Rightarrow> Own_Network
      | Job_NetworkHistory \<Rightarrow> Own_Network | Job_DiskIo \<Rightarrow> Own_Disk | Job_DiskIoHistory \<Rightarrow> Own_Disk
      | Job_DiskUsage \<Rightarrow> Own_Disk | Job_Smart \<Rightarrow> Own_Disk | Job_DiskTemperature \<Rightarrow> Own_Disk
      | Job_FanSpeed \<Rightarrow> Own_Disk | Job_SystemBattery \<Rightarrow> Own_Power
      | Job_PeripheralBattery \<Rightarrow> Own_Power | Job_NvidiaNvml \<Rightarrow> Own_Nvidia
      | Job_NvidiaFallback \<Rightarrow> Own_Nvidia | Job_AmdFast \<Rightarrow> Own_AmdGpu | Job_AmdSlow \<Rightarrow> Own_AmdGpu
      | Job_AmdNpu \<Rightarrow> Own_AmdNpu | Job_AmdNpuHistory \<Rightarrow> Own_AmdNpu
      | Job_IntelFrequency \<Rightarrow> Own_IntelGpu | Job_IntelUsage \<Rightarrow> Own_IntelGpu
      | Job_GpuHistory \<Rightarrow> Own_GpuHistory | Job_PanelProcesses \<Rightarrow> Own_Process
      | Job_PageProcesses \<Rightarrow> Own_Process | Job_Brightness \<Rightarrow> Own_External
      | Job_UpdatesFile \<Rightarrow> Own_External | Job_ServerFile \<Rightarrow> Own_External
      | Job_PageCommand \<Rightarrow> Own_Page | Job_PageRender \<Rightarrow> Own_Page
      | Job_HardwareDiscovery \<Rightarrow> Own_Discovery | Job_MountInventory \<Rightarrow> Own_Discovery)"

definition cadences :: "config \<Rightarrow> duration set" where
  "cadences cfg =
     {disp_poll_interval (cf_display cfg), disp_history_interval (cf_display cfg),
      disk_smart_interval (cf_disks cfg), disk_smart_interval_hdd (cf_disks cfg)} \<union>
     {BAT_CACHE_TTL, PERIPH_CACHE_TTL, BOLT_CACHE_TTL, HD_TEMP_CACHE_TTL, FAN_SPEED_CACHE_TTL,
      INTEL_GPU_USAGE_TTL, GPU_CACHE_TTL, NET_INFO_TTL, TOP_PROCESS_TTL, from_secs 30, from_secs 60}"

definition spec_ok :: "catalog_env \<Rightarrow> job_spec \<Rightarrow> bool" where
  "spec_ok env spec \<longleftrightarrow>
     jid_owner (spec_id spec) = kind_owner (jid_kind (spec_id spec)) \<and>
     spec_freshness spec \<in> cadences (cat_cfg env) \<and>
     (spec_history_source spec \<noteq> None \<longrightarrow> spec_timing spec = History) \<and>
     \<not> spec_startup_panel spec \<and> spec_amd spec = None"

definition keys :: "specs \<Rightarrow> job_id set" where
  "keys specs = fst ` set specs"

definition entry_ok :: "catalog_env \<Rightarrow> job_id set \<Rightarrow> job_id \<Rightarrow> job_spec \<Rightarrow> bool" where
  "entry_ok env K i spec \<longleftrightarrow>
     spec_id spec = i \<and> spec_ok env spec \<and> set_option (spec_history_source spec) \<subseteq> K"

definition catalog_inv :: "catalog_env \<Rightarrow> specs \<Rightarrow> bool" where
  "catalog_inv env specs \<longleftrightarrow>
     bm_wf specs \<and> (\<forall>i spec. (i, spec) \<in> set specs \<longrightarrow> entry_ok env (keys specs) i spec)"

text \<open>
  A call of the catalog yields the jobs \<open>f\<close> of its result: from a catalog that has the jobs \<open>A\<close>, it
  leads to one that has them too, and those of the result.
\<close>

definition yields :: "catalog_env \<Rightarrow> job_id set \<Rightarrow> ('a \<Rightarrow> job_id set) \<Rightarrow> 'a catalog \<Rightarrow> bool" where
  "yields env A f m \<longleftrightarrow>
     (\<forall>specs. catalog_inv env specs \<and> A \<subseteq> keys specs \<longrightarrow>
        catalog_inv env (snd (run_state m specs)) \<and>
        A \<union> f (fst (run_state m specs)) \<subseteq> keys (snd (run_state m specs)))"

named_theorems yields_rules

lemma yieldsD:
  "yields env A f m \<Longrightarrow> run_state m specs = (x, s') \<Longrightarrow> catalog_inv env specs \<Longrightarrow> A \<subseteq> keys specs \<Longrightarrow>
     catalog_inv env s' \<and> A \<union> f x \<subseteq> keys s'"
  unfolding yields_def by (metis fst_conv snd_conv)

lemma yieldsI:
  "(\<And>specs x s'. run_state m specs = (x, s') \<Longrightarrow> catalog_inv env specs \<Longrightarrow> A \<subseteq> keys specs \<Longrightarrow>
     catalog_inv env s' \<and> A \<union> f x \<subseteq> keys s') \<Longrightarrow> yields env A f m"
  unfolding yields_def by (metis prod.collapse)

lemma yields_return [yields_rules]: "f x \<subseteq> A \<Longrightarrow> yields env A f (State_Monad.return x)"
  by (auto simp: yields_def)

lemma yields_bind [yields_rules]:
  assumes "yields env A f m" "\<And>x. yields env (A \<union> f x) g (k x)"
  shows "yields env A g (State_Monad.bind m k)"
proof (rule yieldsI)
  fix specs y s'
  assume r: "run_state (State_Monad.bind m k) specs = (y, s')" and s: "catalog_inv env specs" "A \<subseteq> keys specs"
  obtain x s1 where x: "run_state m specs = (x, s1)" by fastforce
  from yieldsD [OF assms(1) this s] have "catalog_inv env s1" "A \<union> f x \<subseteq> keys s1" by auto
  from yieldsD [OF assms(2) _ this] r x show "catalog_inv env s' \<and> A \<union> g y \<subseteq> keys s'" by auto
qed

lemma entry_ok_mono: "entry_ok env K i spec \<Longrightarrow> K \<subseteq> L \<Longrightarrow> entry_ok env L i spec"
  unfolding entry_ok_def by blast

lemma entry_ok_mark [simp]:
  "entry_ok env K i (spec\<lparr>spec_counter := True\<rparr>) = entry_ok env K i spec"
  by (simp add: entry_ok_def spec_ok_def)

lemma keys_insert [simp]: "keys (bm_insert i spec specs) = insert i (keys specs)"
  unfolding keys_def by (metis fst_bm_insert list.set_map)

lemma keys_modify [simp]: "keys (bm_modify i f specs) = keys specs"
  unfolding keys_def by (metis fst_bm_modify list.set_map)

lemma catalog_inv_insert:
  assumes "catalog_inv env specs" "entry_ok env (keys specs) (spec_id spec) spec"
  shows "catalog_inv env (bm_insert (spec_id spec) spec specs)"
  unfolding catalog_inv_def keys_insert
proof (intro conjI allI impI)
  show "bm_wf (bm_insert (spec_id spec) spec specs)"
    using assms(1) by (simp only: catalog_inv_def bm_wf_insert)
  fix i s assume "(i, s) \<in> set (bm_insert (spec_id spec) spec specs)"
  then have "i = spec_id spec \<and> s = spec \<or> (i, s) \<in> set specs"
    using assms(1) by (auto simp only: catalog_inv_def set_bm_insert insert_iff mem_Collect_eq prod.inject)
  then have "entry_ok env (keys specs) i s" using assms unfolding catalog_inv_def by blast
  then show "entry_ok env (insert (spec_id spec) (keys specs)) i s" by (rule entry_ok_mono) blast
qed

lemma catalog_inv_mark:
  assumes "catalog_inv env specs"
  shows "catalog_inv env (bm_modify i (\<lambda>spec. spec\<lparr>spec_counter := True\<rparr>) specs)"
  unfolding catalog_inv_def keys_modify fst_bm_modify
proof (intro conjI allI impI)
  show "bm_wf specs" using assms by (simp only: catalog_inv_def)
  fix j s assume "(j, s) \<in> set (bm_modify i (\<lambda>spec. spec\<lparr>spec_counter := True\<rparr>) specs)"
  then obtain u where "(j, u) \<in> set specs" "s = (if j = i then u\<lparr>spec_counter := True\<rparr> else u)"
    unfolding bm_modify_in by blast
  then show "entry_ok env (keys specs) j s"
    using assms unfolding catalog_inv_def by (cases "j = i") simp_all
qed

lemma yields_insert:
  assumes "spec_ok env spec" "set_option (spec_history_source spec) \<subseteq> A"
  shows "yields env A (\<lambda>i. {i}) (cat_insert spec)"
proof (rule yieldsI)
  fix specs x s'
  assume r: "run_state (cat_insert spec) specs = (x, s')"
    and s: "catalog_inv env specs" "A \<subseteq> keys specs"
  have "entry_ok env (keys specs) (spec_id spec) spec"
    using assms s(2) unfolding entry_ok_def by blast
  from catalog_inv_insert [OF s(1) this] s r show "catalog_inv env s' \<and> A \<union> {x} \<subseteq> keys s'"
    by (cases "bm_contains specs (spec_id spec)") (auto simp: cat_insert_def keys_def [of specs])
qed

lemma yields_mark [yields_rules]:
  assumes "i \<in> A"
  shows "yields env A (\<lambda>i. {i}) (mark_counter i)"
  using assms catalog_inv_mark by (intro yieldsI) (auto simp: mark_counter_def)

lemma yields_single [yields_rules]: "yields env A (\<lambda>i. {i}) m \<Longrightarrow> yields env A set (single m)"
  unfolding single_def by (rule yields_bind) (auto intro: yields_return)

lemma yields_no_jobs [yields_rules]: "yields env A set no_jobs"
  by (simp add: no_jobs_def yields_return)

lemma yields_traverse:
  assumes "\<And>B x. x \<in> set xs \<Longrightarrow> A \<subseteq> B \<Longrightarrow> yields env B f (g x)"
  shows "yields env A (\<lambda>ys. \<Union> (f ` set ys)) (State_Monad.traverse_list g xs)"
  using assms
proof (induction xs arbitrary: A)
  case Nil
  show ?case by (simp add: yields_return)
next
  case (Cons x xs)
  have "yields env (A \<union> f y) (\<lambda>ys. \<Union> (f ` set ys)) (State_Monad.traverse_list g xs)" for y
    by (rule Cons.IH) (use Cons.prems in auto)
  moreover have "yields env A f (g x)" by (rule Cons.prems) auto
  ultimately show ?case
    by (simp del: bind_assoc)
      (rule yields_bind, assumption, rule yields_bind, assumption, rule yields_return, auto)
qed

lemma yields_each:
  "(\<And>B x. x \<in> set xs \<Longrightarrow> A \<subseteq> B \<Longrightarrow> yields env B (\<lambda>i. {i}) (g x)) \<Longrightarrow>
     yields env A set (State_Monad.traverse_list g xs)"
  using yields_traverse [of xs A env "\<lambda>i. {i}" g] by simp

lemma yields_job_set:
  "(\<And>B x. x \<in> set xs \<Longrightarrow> A \<subseteq> B \<Longrightarrow> yields env B set (g x)) \<Longrightarrow>
     yields env A set (job_set (State_Monad.traverse_list g xs))"
  unfolding job_set_def by (rule yields_bind, rule yields_traverse, assumption)
    (auto intro: yields_return)

section \<open>The calls\<close>

lemma spec_ok_plain [simp]:
  "spec_ok env (spec_plain (JobId own kind src) tc cadence source) \<longleftrightarrow>
     own = kind_owner kind \<and> cadence \<in> cadences (cat_cfg env) \<and> (source \<noteq> None \<longrightarrow> tc = History)"
  "spec_ok env (spec\<lparr>spec_counter := True\<rparr>) = spec_ok env spec"
  by (simp_all add: spec_ok_def spec_plain_def)

lemma cadence_cases [simp]:
  "poll_interval env \<in> cadences (cat_cfg env)" "history_interval env \<in> cadences (cat_cfg env)"
  "disk_smart_interval (cf_disks cfg) \<in> cadences cfg" "disk_smart_interval_hdd (cf_disks cfg) \<in> cadences cfg"
  "BAT_CACHE_TTL \<in> cadences cfg" "PERIPH_CACHE_TTL \<in> cadences cfg" "BOLT_CACHE_TTL \<in> cadences cfg"
  "HD_TEMP_CACHE_TTL \<in> cadences cfg" "FAN_SPEED_CACHE_TTL \<in> cadences cfg"
  "INTEL_GPU_USAGE_TTL \<in> cadences cfg" "GPU_CACHE_TTL \<in> cadences cfg" "NET_INFO_TTL \<in> cadences cfg"
  "TOP_PROCESS_TTL \<in> cadences cfg" "from_secs 30 \<in> cadences cfg" "from_secs 60 \<in> cadences cfg"
  by (simp_all add: cadences_def poll_interval_def history_interval_def)

lemma source_plain [simp]:
  "spec_history_source (spec_plain i tc cadence source) = source"
  by (simp add: spec_plain_def)

lemmas job_of_defs = job_with_source_def job_singleton_def kind_owner_def
  spec_fast_def spec_periodic_def spec_history_def spec_source_history_def spec_triggered_def

lemma cpu_job_yields [yields_rules]: "yields env A (\<lambda>i. {i}) (cpu_job env)"
  unfolding cpu_job_def
  by (rule yields_bind, rule yields_insert) (auto simp: job_of_defs intro: yields_mark)

lemma fast_singleton_yields [yields_rules]:
  "own = kind_owner kind \<Longrightarrow> yields env A (\<lambda>i. {i}) (fast_singleton env own kind)"
  unfolding fast_singleton_def by (rule yields_insert) (auto simp: job_of_defs)

lemma periodic_singleton_yields [yields_rules]:
  "own = kind_owner kind \<Longrightarrow> cadence \<in> cadences (cat_cfg env) \<Longrightarrow>
     yields env A (\<lambda>i. {i}) (periodic_singleton env own kind cadence)"
  unfolding periodic_singleton_def by (rule yields_insert) (auto simp: job_of_defs)

lemma history_yields [yields_rules]:
  "own = kind_owner kind \<Longrightarrow> i \<in> A \<Longrightarrow>
     yields env A (\<lambda>i. {i}) (cat_insert (spec_history (job_with_source own kind src) i (history_interval env)))"
  "own = kind_owner kind \<Longrightarrow> i \<in> A \<Longrightarrow>
     yields env A (\<lambda>i. {i}) (cat_insert (spec_history (job_singleton own kind) i (history_interval env)))"
  by (rule yields_insert; auto simp: job_of_defs)+

lemma listed_yields:
  "yields env A (\<lambda>i. {i}) m \<Longrightarrow> (\<And>i. f i = [i]) \<Longrightarrow>
     yields env A set (do {i \<leftarrow> m; State_Monad.return (f i)})"
  by (rule yields_bind) (auto intro: yields_return)

lemma memory_job_yields [yields_rules]: "yields env A (\<lambda>i. {i}) (memory_job env)"
  unfolding memory_job_def by (rule fast_singleton_yields) (simp add: kind_owner_def)

lemma cpu_history_yields [yields_rules]:
  "i \<in> A \<Longrightarrow> yields env A (\<lambda>i. {i}) (cpu_history env i)"
  unfolding cpu_history_def by (rule history_yields) (simp_all add: kind_owner_def)

lemma memory_history_yields [yields_rules]:
  "i \<in> A \<Longrightarrow> yields env A (\<lambda>i. {i}) (memory_history env i)"
  unfolding memory_history_def by (rule history_yields) (simp_all add: kind_owner_def)

lemma network_history_yields [yields_rules]:
  "i \<in> A \<Longrightarrow> yields env A (\<lambda>i. {i}) (network_history env i)"
  unfolding network_history_def by (rule history_yields) (simp_all add: kind_owner_def)

lemma network_rate_yields: "yields env A set_option (network_rate_job env)"
  unfolding network_rate_job_def
proof (cases "hw_net_device (cat_hw env)")
  case (Some device)
  then show "yields env A set_option (case hw_net_device (cat_hw env) of None \<Rightarrow> State_Monad.return None
      | Some device \<Rightarrow> do {i \<leftarrow> cat_insert ((spec_fast (job_with_source Own_Network Job_NetworkRate
          (Device device)) (poll_interval env))\<lparr>spec_counter := True\<rparr>); State_Monad.return (Some i)})"
    by simp (rule yields_bind, rule yields_insert, auto simp: job_of_defs intro: yields_return)
qed (simp add: yields_return)

lemma speed_jobs_yields [yields_rules]:
  "yields env A set (do {source \<leftarrow> network_rate_job env;
     State_Monad.return (case source of Some j \<Rightarrow> [j] | None \<Rightarrow> [])})"
  by (rule yields_bind, rule network_rate_yields) (auto intro: yields_return split: option.split)

lemma disk_io_yields [yields_rules]: "yields env A set (disk_io_jobs env)"
  unfolding disk_io_jobs_def
  by (auto intro!: yields_rules yields_insert simp: job_of_defs split: option.split)

lemma disk_usage_yields [yields_rules]: "yields env A set (disk_usage_jobs env)"
  unfolding disk_usage_jobs_def by (rule yields_each, rule yields_insert) (auto simp: job_of_defs)

lemma smart_yields [yields_rules]: "yields env A set (smart_jobs env)"
  unfolding smart_jobs_def
  by (auto intro!: yields_no_jobs yields_each yields_insert simp: job_of_defs split: prod.split)

lemma disk_temperature_yields [yields_rules]: "yields env A set (disk_temperature_jobs env)"
  unfolding disk_temperature_jobs_def
  by (rule yields_each) (auto intro!: yields_insert simp: job_of_defs split: prod.split)

lemma fan_yields [yields_rules]: "yields env A set (fan_jobs env)"
  unfolding fan_jobs_def
  by (rule yields_each) (auto intro!: yields_insert simp: job_of_defs split: prod.split)

lemma system_battery_yields [yields_rules]: "yields env A set (system_battery_jobs env)"
  unfolding system_battery_jobs_def
  by (rule yields_each) (auto intro!: yields_insert simp: job_of_defs)

lemma peripheral_yields [yields_rules]: "yields env A set (peripheral_jobs env role)"
  unfolding peripheral_jobs_def
  by (auto intro!: yields_rules yields_insert simp: job_of_defs
      split: option.split peripheral_source.split)

lemma brightness_yields [yields_rules]: "yields env A set (brightness_jobs env)"
  unfolding brightness_jobs_def by (auto intro!: yields_rules simp: kind_owner_def)

lemma nvidia_yields [yields_rules]: "yields env A set (nvidia_jobs env)"
  unfolding nvidia_jobs_def by (auto intro!: yields_rules simp: kind_owner_def)

lemma intel_frequency_yields [yields_rules]: "yields env A set (intel_frequency_jobs env)"
  unfolding intel_frequency_jobs_def
  by (auto intro!: yields_rules yields_insert simp: job_of_defs split: option.split)

lemma intel_usage_yields [yields_rules]: "yields env A set (intel_usage_jobs env)"
  unfolding intel_usage_jobs_def
  by (auto intro!: yields_rules yields_insert simp: job_of_defs split: option.split)

lemma amd_yields [yields_rules]: "yields env A set (amd_jobs env metric)"
  unfolding amd_jobs_def Let_def
  by (auto intro!: yields_rules yields_insert simp: job_of_defs split: option.split)

lemma amd_npu_yields [yields_rules]: "yields env A set (amd_npu_jobs env)"
  unfolding amd_npu_jobs_def
  by (auto intro!: yields_rules yields_insert simp: job_of_defs split: option.split)

lemma inventory_yields [yields_rules]: "yields env A (\<lambda>i. {i}) (inventory_job family)"
  unfolding inventory_job_def
  by (rule yields_insert) (auto simp: job_of_defs split: inventory_family.split)

lemma external_file_yields [yields_rules]:
  "kind_owner kind = Own_External \<Longrightarrow> yields env A set (external_file_job env kind file)"
  unfolding external_file_job_def
  by (auto intro!: yields_rules yields_insert simp: job_of_defs)

lemma top_process_yields [yields_rules]:
  "yields env A set (do {i \<leftarrow> periodic_singleton env Own_Process Job_PanelProcesses TOP_PROCESS_TTL;
     single (mark_counter i)})"
  by (rule yields_bind, rule periodic_singleton_yields)
    (auto intro!: yields_rules simp: kind_owner_def)

lemma identity_yields [yields_rules]:
  "yields env A set (single (periodic_singleton env Own_Network Job_NetworkIdentity NET_INFO_TTL))"
  by (intro yields_single periodic_singleton_yields) (simp_all add: kind_owner_def)

lemma external_owners [simp]:
  "kind_owner Job_UpdatesFile = Own_External" "kind_owner Job_ServerFile = Own_External"
  by (simp_all add: kind_owner_def)

lemma cpu_yields [yields_rules]: "yields env A set (single (cpu_job env))"
  by (intro yields_single cpu_job_yields)

lemma memory_yields [yields_rules]: "yields env A set (single (memory_job env))"
  by (intro yields_single memory_job_yields)

lemmas call_yields = cpu_yields memory_yields disk_temperature_yields disk_usage_yields smart_yields
  nvidia_yields amd_yields amd_npu_yields intel_frequency_yields intel_usage_yields brightness_yields
  fan_yields system_battery_yields peripheral_yields speed_jobs_yields disk_io_yields identity_yields
  top_process_yields external_file_yields external_owners

lemma metric_jobs_yields [yields_rules]: "yields env A set (metric_jobs env metric)"
  by (cases metric; simp only: metric_jobs.simps call_yields)

lemma capability_jobs_yields [yields_rules]: "yields env A set (capability_jobs env capability)"
  by (cases capability; simp only: capability_jobs.simps call_yields)

lemma item_jobs_yields: "yields env A set (item_jobs env item)"
proof -
  have "yields env A set (do {source \<leftarrow> cpu_job env;
      if b then do {h \<leftarrow> cpu_history env source; State_Monad.return [source, h]}
      else State_Monad.return [source]})" for b
    by (rule yields_bind, rule cpu_job_yields) (auto intro!: yields_rules)
  moreover have "yields env A set (do {source \<leftarrow> memory_job env;
      if b then do {h \<leftarrow> memory_history env source; State_Monad.return [source, h]}
      else State_Monad.return [source]})" for b
    by (rule yields_bind, rule memory_job_yields) (auto intro!: yields_rules)
  ultimately show ?thesis
    unfolding item_jobs_def Let_def by (cases "it_metric item"; simp only: metric.case metric_jobs_yields)
qed

lemma surface_yields: "yields env A set (surface_jobs env surface)"
  unfolding surface_jobs_def by (intro yields_job_set item_jobs_yields)

lemma notification_yields: "yields env A set (notification_jobs env)"
  unfolding notification_jobs_def Let_def by (intro yields_job_set capability_jobs_yields)

lemma page_command_yields:
  "yields env A (\<lambda>i. {i}) (page_command_job page (from_secs 30))"
  "yields env A (\<lambda>i. {i}) (fast_page_command env page)"
  unfolding page_command_job_def fast_page_command_def
  by (rule yields_insert; simp add: job_of_defs)+

lemma page_jobs_yields: "yields env A set (page_jobs env page)"
proof (cases page)
  case Page_CpuCores
  show ?thesis unfolding page_jobs_def Page_CpuCores page_id.case
    by (rule yields_bind, rule fast_singleton_yields, simp add: kind_owner_def)
      (auto intro!: yields_rules simp: kind_owner_def)
next
  case Page_Processes
  show ?thesis unfolding page_jobs_def Page_Processes page_id.case
    by (rule yields_bind, rule fast_singleton_yields, simp add: kind_owner_def)
      (auto intro!: yields_rules)
qed (auto simp: page_jobs_def kind_owner_def intro!: yields_single page_command_yields
    fast_singleton_yields yields_return)

lemma history_of_yields:
  assumes "\<And>i. kind_owner (jid_kind (hid i)) = jid_owner (hid i)" "set_option source \<subseteq> A"
  shows "yields env A set (history_of env source hid)"
proof (cases source)
  case (Some i)
  have "yields env A (\<lambda>i. {i}) (cat_insert (spec_history (hid i) i (history_interval env)))"
    using assms Some
    by (intro yields_insert) (cases "hid i", auto simp: spec_history_def, metis job_id.sel)
  then show ?thesis unfolding history_of_def Some option.case
    by (rule yields_bind) (use assms(2) Some in \<open>auto intro: yields_return\<close>)
qed (simp add: history_of_def yields_no_jobs)

lemma graph_gpu_yields: "yields env A set (graph_gpu_jobs env)"
proof -
  have "yields env A set (do {usage \<leftarrow> amd_jobs env M_GpuAmdUsage; codec \<leftarrow> amd_jobs env M_GpuAmdCodecUsage;
      temp \<leftarrow> (if b then amd_jobs env M_GpuAmdTemp else no_jobs);
      State_Monad.return (usage @ codec @ temp)})" for b
    by (rule yields_bind, rule amd_yields, rule yields_bind, rule amd_yields,
      rule yields_bind [where f = set]) (auto intro: amd_yields yields_no_jobs yields_return)
  then show ?thesis by (simp add: graph_gpu_jobs_def nvidia_yields intel_usage_yields)
qed

lemma graph_jobs_yields: "yields env A set (graph_jobs env)"
proof -
  have net: "yields env B set (case network of None \<Rightarrow> no_jobs
      | Some i \<Rightarrow> do {h \<leftarrow> network_history env i; State_Monad.return [i, h]})"
    if "set_option network \<subseteq> B" for B network
    using that by (cases network) (auto intro!: yields_rules)
  have popped: "set_option (pop xs) \<subseteq> set xs" for xs :: "job_id list"
    by (simp add: pop_def)
  have disk: "yields env B set (if b then do {disk_io \<leftarrow> disk_io_jobs env;
      history_of env (pop disk_io) (\<lambda>_. job_singleton Own_Disk Job_DiskIoHistory)} else no_jobs)" for B b
    using popped
    by (auto intro!: yields_bind [OF disk_io_yields] history_of_yields yields_no_jobs simp: job_of_defs)
  have npu: "yields env B set (if b then do {npu \<leftarrow> amd_npu_jobs env;
      history_of env (pop npu) (\<lambda>i. job_with_source Own_AmdNpu Job_AmdNpuHistory (jid_source i))}
      else no_jobs)" for B b
    using popped
    by (auto intro!: yields_bind [OF amd_npu_yields] history_of_yields yields_no_jobs simp: job_of_defs)
  have gpu_h: "yields env B set (case selected_source (cat_hw env) of None \<Rightarrow> no_jobs
      | Some source \<Rightarrow> single (cat_insert (spec_source_history
          (job_with_source Own_GpuHistory Job_GpuHistory (Device source)) (history_interval env))))" for B
    by (auto intro!: yields_no_jobs yields_single yields_insert simp: job_of_defs split: option.split)
  show ?thesis
    unfolding graph_jobs_def
    by (rule yields_bind, rule cpu_job_yields, rule yields_bind, rule memory_job_yields,
      rule yields_bind, rule cpu_history_yields, simp, rule yields_bind, rule memory_history_yields, simp,
      rule yields_bind, rule network_rate_yields, rule yields_bind, rule net, blast,
      rule yields_bind, rule disk, rule yields_bind, rule npu, rule yields_bind, rule graph_gpu_yields,
      rule yields_bind, rule gpu_h, rule yields_return) auto
qed

lemma inventory_jobs_yields: "yields env A set (inventory_jobs fams)"
  unfolding inventory_jobs_def by (rule yields_each) (rule inventory_yields)

definition page_ids :: "(page_id, job_id bset) bmap \<Rightarrow> job_id set" where
  "page_ids pages = \<Union> (set ` snd ` set pages)"

lemma set_bm_collect: "set (bm_collect ps) \<subseteq> set ps"
proof
  fix p assume "p \<in> set (bm_collect ps)"
  then have "bm_get (bm_collect ps) (fst p) = Some (snd p)"
    using bm_get_iff [OF bm_wf_collect, of ps "fst p" "snd p"] by simp
  then have "map_of (rev ps) (fst p) = Some (snd p)" by (simp only: bm_get_collect)
  from map_of_SomeD [OF this] show "p \<in> set ps" by simp
qed

lemma all_page_jobs_yields: "yields env A page_ids (all_page_jobs env)"
proof -
  have "yields env B (\<lambda>p. set (snd p)) (do {jobs \<leftarrow> page_jobs env (page_from_id page);
      State_Monad.return (page_from_id page, jobs)})" for B page
    by (rule yields_bind, rule page_jobs_yields) (auto intro: yields_return)
  from yields_traverse [OF this] show ?thesis
    unfolding all_page_jobs_def
    by (rule yields_bind) (use set_bm_collect in \<open>fastforce simp: page_ids_def intro!: yields_return\<close>)
qed

definition plan_ids :: "demand_plan \<Rightarrow> job_id set" where
  "plan_ids plan = set (dp_hidden plan) \<union> set (dp_main_tooltip plan) \<union> page_ids (dp_pages plan)"

definition plan_wf :: "demand_plan \<Rightarrow> bool" where
  "plan_wf plan \<longleftrightarrow> bs_wf (dp_hidden plan) \<and> bs_wf (dp_main_tooltip plan) \<and> bm_wf (dp_pages plan)"

lemma set_with_inventory: "set (with_inventory i jobs) \<subseteq> insert i (set jobs)"
  by (auto simp: with_inventory_def)

lemma mount_inventory_yields:
  assumes "plan_ids demand \<subseteq> A" "set starts0 \<subseteq> A"
  shows "yields env A (\<lambda>(d, s). plan_ids d \<union> set s) (mount_inventory env panel_jobs demand starts0)"
proof -
  have p: "page_ids (bm_map (\<lambda>_. with_inventory i) pages) \<subseteq> insert i (page_ids pages)" for i pages
    using set_with_inventory by (fastforce simp: page_ids_def set_bm_map)
  have "yields env A (\<lambda>i. {i}) (periodic_singleton env Own_Discovery Job_MountInventory (poll_interval env))"
    by (rule periodic_singleton_yields) (simp_all add: kind_owner_def)
  then show ?thesis
    unfolding mount_inventory_def Let_def
    using assms
    by (auto intro!: yields_return yields_bind simp: plan_ids_def
        dest!: subsetD [OF p] subsetD [OF set_with_inventory] split: if_splits)
qed

lemma catalog_jobs_yields: "yields env A (\<lambda>(d, s). plan_ids d \<union> set s) (catalog_jobs env)"
proof -
  have g: "yields env B set (if b then graph_jobs env else no_jobs)" for B b
    by (simp add: graph_jobs_yields yields_no_jobs)
  show ?thesis
    unfolding catalog_jobs_def Let_def
    by (rule yields_bind, rule surface_yields, rule yields_bind, rule surface_yields,
      rule yields_bind, rule notification_yields, rule yields_bind, rule g,
      rule yields_bind, rule inventory_jobs_yields, rule yields_bind, rule inventory_jobs_yields,
      rule yields_bind, rule inventory_jobs_yields, rule yields_bind, rule all_page_jobs_yields,
      rule mount_inventory_yields) (auto simp: plan_ids_def)
qed

section \<open>The finished configuration\<close>

lemma keys_eq: "keys specs = set (map fst specs)"
  by (simp add: keys_def)

definition startup_mark :: "job_id list \<Rightarrow> job_id \<Rightarrow> job_spec \<Rightarrow> job_spec" where
  "startup_mark jobs i spec =
     (if i \<in> set jobs then spec\<lparr>spec_startup_panel := spec_timing spec \<noteq> History\<rparr> else spec)"

lemma mark_startup_map: "mark_startup jobs specs = bm_map (startup_mark jobs) specs"
proof (induction jobs arbitrary: specs)
  case Nil
  show ?case by (simp add: mark_startup_def startup_mark_def bm_map_def)
next
  case (Cons j jobs)
  have "mark_startup (j # jobs) specs = mark_startup jobs
      (bm_modify j (\<lambda>spec. spec\<lparr>spec_startup_panel := spec_timing spec \<noteq> History\<rparr>) specs)"
    by (simp add: mark_startup_def)
  also have "\<dots> = bm_map (startup_mark (j # jobs)) specs"
    unfolding Cons.IH bm_modify_def bm_map_bm_map by (auto simp: bm_map_def startup_mark_def)
  finally show ?case .
qed

definition amd_mark :: "catalog_env \<Rightarrow> job_id \<Rightarrow> job_spec \<Rightarrow> job_spec" where
  "amd_mark env i spec =
     (case hw_amd_gpu (cat_hw env) of
        Some source \<Rightarrow>
          (if jid_owner (spec_id spec) = Own_AmdGpu
           then spec\<lparr>spec_amd := Some (amd_job_for env source (jid_kind (spec_id spec)))\<rparr> else spec)
      | None \<Rightarrow> spec)"

lemma finish_amd_map: "finish_amd_jobs env specs = bm_map (amd_mark env) specs"
  by (cases "hw_amd_gpu (cat_hw env)") (simp_all add: finish_amd_jobs_def amd_mark_def bm_map_def)

text \<open>What the catalog's calls leave behind, and the configuration made of it.\<close>

lemma catalog_result:
  fixes cfg hw mounts
  defines "env \<equiv> catalog_new cfg hw mounts"
  obtains demand starts0 specs where
    "catalog_inv env specs" "plan_ids demand \<subseteq> keys specs"
    "run_state (catalog_jobs env) [] = ((demand, starts0), specs)"
    "\<And>g. scheduler_config_of cfg hw mounts g =
       \<lparr>cfg_generation = g, cfg_display_interval = disp_poll_interval (cf_display cfg),
        cfg_jobs = map (\<lambda>(i, s). amd_mark env i (startup_mark starts0 i s)) specs,
        cfg_demand = demand\<rparr>"
proof -
  obtain demand starts0 specs where r: "run_state (catalog_jobs env) [] = ((demand, starts0), specs)"
    by (metis prod.exhaust)
  have "catalog_inv env []" by (simp add: catalog_inv_def)
  from yieldsD [OF catalog_jobs_yields [of env "{}"] r this]
  have "catalog_inv env specs" "plan_ids demand \<subseteq> keys specs" by auto
  moreover note r
  moreover have "scheduler_config_of cfg hw mounts g =
      \<lparr>cfg_generation = g, cfg_display_interval = disp_poll_interval (cf_display cfg),
        cfg_jobs = map (\<lambda>(i, s). amd_mark env i (startup_mark starts0 i s)) specs,
        cfg_demand = demand\<rparr>" for g
    using r by (simp add: scheduler_config_of_def env_def [symmetric] Let_def finish_amd_map
      mark_startup_map bm_map_bm_map)
      (simp add: bm_map_def env_def catalog_new_def poll_interval_def case_prod_unfold)
  ultimately show ?thesis by (rule that)
qed

lemma mark_simps [simp]:
  "spec_id (amd_mark env i s) = spec_id s" "spec_timing (amd_mark env i s) = spec_timing s"
  "spec_freshness (amd_mark env i s) = spec_freshness s"
  "spec_history_source (amd_mark env i s) = spec_history_source s"
  "spec_startup_panel (amd_mark env i s) = spec_startup_panel s"
  "spec_id (startup_mark js i s) = spec_id s" "spec_timing (startup_mark js i s) = spec_timing s"
  "spec_freshness (startup_mark js i s) = spec_freshness s"
  "spec_history_source (startup_mark js i s) = spec_history_source s"
  by (simp_all add: amd_mark_def startup_mark_def split: option.split)

definition cfg_ids :: "scheduler_config \<Rightarrow> job_id set" where
  "cfg_ids c = spec_id ` set (cfg_jobs c)"

lemma cfg_spec_cases:
  assumes "spec \<in> set (cfg_jobs (scheduler_config_of cfg hw mounts g))"
  obtains "jid_owner (spec_id spec) = kind_owner (jid_kind (spec_id spec))"
    "spec_freshness spec \<in> cadences cfg"
    "spec_history_source spec \<noteq> None \<longrightarrow> spec_timing spec = History"
    "spec_startup_panel spec \<longrightarrow> spec_timing spec \<noteq> History"
    "set_option (spec_history_source spec) \<subseteq> cfg_ids (scheduler_config_of cfg hw mounts g)"
proof -
  let ?env = "catalog_new cfg hw mounts"
  obtain demand starts0 specs where inv: "catalog_inv ?env specs"
    and c: "scheduler_config_of cfg hw mounts g =
       \<lparr>cfg_generation = g, cfg_display_interval = disp_poll_interval (cf_display cfg),
        cfg_jobs = map (\<lambda>(i, s). amd_mark ?env i (startup_mark starts0 i s)) specs,
        cfg_demand = demand\<rparr>"
    by (rule catalog_result [of cfg hw mounts]) blast
  from assms obtain i s where s: "(i, s) \<in> set specs"
    and spec: "spec = amd_mark ?env i (startup_mark starts0 i s)" by (auto simp: c)
  have e: "entry_ok ?env (keys specs) i s" using inv s unfolding catalog_inv_def by blast
  have "spec_id u = j" if "(j, u) \<in> set specs" for j u
    using inv that unfolding catalog_inv_def entry_ok_def by blast
  then have k: "keys specs = cfg_ids (scheduler_config_of cfg hw mounts g)"
    by (force simp: keys_def cfg_ids_def c image_image)
  show ?thesis
    by (rule that; use e in \<open>auto simp: spec entry_ok_def spec_ok_def k [symmetric] startup_mark_def
      catalog_new_def\<close>)
qed

text \<open>Every result of a call satisfies a property that does not depend on the catalog.\<close>

definition results :: "('a \<Rightarrow> bool) \<Rightarrow> 'a catalog \<Rightarrow> bool" where
  "results R m \<longleftrightarrow> (\<forall>specs. R (fst (run_state m specs)))"

lemma results_bind: "(\<And>x. results R (k x)) \<Longrightarrow> results R (State_Monad.bind m k)"
  by (simp add: results_def split: prod.split)

lemma mount_inventory_startup:
  assumes "set sts \<subseteq> set (dp_hidden d)" "set jobs \<subseteq> set (dp_hidden d)"
  shows "results (\<lambda>(d, sts). set sts \<subseteq> set (dp_hidden d)) (mount_inventory env jobs d sts)"
proof -
  have "list_ex is_disk_usage jobs \<Longrightarrow> list_ex is_disk_usage (dp_hidden d)"
    using assms(2) by (auto simp: list_ex_iff)
  then show ?thesis using assms(1)
    unfolding mount_inventory_def Let_def
    by (auto simp: with_inventory_def results_def split: prod.splits if_splits)
qed

lemma startup_demanded:
  assumes "run_state (catalog_jobs env) [] = ((demand, starts0), specs)"
  shows "set starts0 \<subseteq> set (dp_hidden demand)"
proof -
  have "results (\<lambda>(d, sts). set sts \<subseteq> set (dp_hidden d)) (catalog_jobs env)"
    unfolding catalog_jobs_def Let_def by (intro results_bind mount_inventory_startup) auto
  then show ?thesis using assms unfolding results_def by (metis fst_conv case_prod_conv)
qed

text \<open>
  C9. Invariant. The configuration the catalog makes of the user's configuration and the hardware is
  closed: one specification per job, in the order of the ids; every job that the panel, the tooltip
  or a page demands has a specification; so has every source of a history; and the jobs that hold
  back the first paint are demanded at once.
\<close>

theorem catalog_closed:
  "sorted_wrt (<) (map spec_id (cfg_jobs (scheduler_config_of cfg hw mounts g))) \<and>
   plan_ids (cfg_demand (scheduler_config_of cfg hw mounts g)) \<subseteq>
     cfg_ids (scheduler_config_of cfg hw mounts g) \<and>
   (\<Union>spec \<in> set (cfg_jobs (scheduler_config_of cfg hw mounts g)).
      set_option (spec_history_source spec)) \<subseteq> cfg_ids (scheduler_config_of cfg hw mounts g) \<and>
   spec_id ` {spec \<in> set (cfg_jobs (scheduler_config_of cfg hw mounts g)). spec_startup_panel spec} \<subseteq>
     set (dp_hidden (cfg_demand (scheduler_config_of cfg hw mounts g)))"
proof -
  let ?env = "catalog_new cfg hw mounts"
  obtain demand starts0 specs where inv: "catalog_inv ?env specs" "plan_ids demand \<subseteq> keys specs"
    and r: "run_state (catalog_jobs ?env) [] = ((demand, starts0), specs)"
    and c: "\<And>g. scheduler_config_of cfg hw mounts g =
       \<lparr>cfg_generation = g, cfg_display_interval = disp_poll_interval (cf_display cfg),
        cfg_jobs = map (\<lambda>(i, s). amd_mark ?env i (startup_mark starts0 i s)) specs,
        cfg_demand = demand\<rparr>"
    by (rule catalog_result [of cfg hw mounts]) blast
  have ids: "spec_id u = j" "\<not> spec_startup_panel u" if "(j, u) \<in> set specs" for j u
    using inv(1) that unfolding catalog_inv_def entry_ok_def spec_ok_def by blast+
  have "map spec_id (cfg_jobs (scheduler_config_of cfg hw mounts g)) = map fst specs"
    using ids(1) by (auto simp: c)
  then have "sorted_wrt (<) (map spec_id (cfg_jobs (scheduler_config_of cfg hw mounts g)))"
    and "cfg_ids (scheduler_config_of cfg hw mounts g) = keys specs"
    using inv(1) unfolding catalog_inv_def cfg_ids_def keys_eq by (metis, metis list.set_map)
  moreover have "(\<Union>spec \<in> set (cfg_jobs (scheduler_config_of cfg hw mounts g)).
      set_option (spec_history_source spec)) \<subseteq> cfg_ids (scheduler_config_of cfg hw mounts g)"
    by (intro UN_least) (erule cfg_spec_cases)
  moreover have "spec_id spec \<in> set (dp_hidden demand)"
    if spec: "spec \<in> set (cfg_jobs (scheduler_config_of cfg hw mounts g))" "spec_startup_panel spec" for spec
  proof -
    from spec(1) obtain i u where u: "(i, u) \<in> set specs" "spec = amd_mark ?env i (startup_mark starts0 i u)"
      by (auto simp: c)
    with spec(2) ids(2) [OF u(1)] have "i \<in> set starts0" by (simp add: startup_mark_def split: if_splits)
    then show ?thesis using startup_demanded [OF r] ids(1) [OF u(1)] u(2) by auto
  qed
  moreover have "cfg_demand (scheduler_config_of cfg hw mounts g) = demand" by (simp add: c)
  ultimately show ?thesis using inv(2) by (metis (no_types, lifting) image_Collect_subsetI)
qed

text \<open>
  C12. Type. Each specification of that configuration is well formed: the owner of a job follows from
  its kind, only history jobs have a source, history jobs do not hold back the first paint, and the
  cadence is one the configuration or the source names.
\<close>

theorem catalog_jobs_typed:
  assumes "spec \<in> set (cfg_jobs (scheduler_config_of cfg hw mounts g))"
  shows "jid_owner (spec_id spec) = kind_owner (jid_kind (spec_id spec)) \<and>
    (spec_history_source spec \<noteq> None \<longrightarrow> spec_timing spec = History) \<and>
    (spec_startup_panel spec \<longrightarrow> spec_timing spec \<noteq> History) \<and>
    spec_freshness spec \<in> cadences cfg"
  using assms by (rule cfg_spec_cases) blast

text \<open>A user's configuration of one page without panel items, worked out.\<close>

definition demo_user :: config where
  "demo_user = config_default
     \<lparr>cf_pages := pages_config_default\<lparr>pages_order := [''main'', ''processes'']\<rparr>,
      cf_notifications := notification_config_default
        \<lparr>notif_disk_smart := False, notif_hd_temp := False, notif_battery_sys := False,
         notif_battery_mouse := False, notif_battery_kbd := False\<rparr>\<rparr>"

definition demo_page_job :: job_id where
  "demo_page_job = job_singleton Own_Process Job_PageProcesses"

lemma demo_user_simps [simp]:
  "cf_panel demo_user = surface_default" "cf_tooltip demo_user = surface_default"
  "pages_order (cf_pages demo_user) = [''main'', ''processes'']"
  "notif_disk_usage (cf_notifications demo_user) = False" "notif_disk_smart (cf_notifications demo_user) = False"
  "notif_cpu_temp (cf_notifications demo_user) = False" "notif_gpu_nvidia_temp (cf_notifications demo_user) = False"
  "notif_gpu_amd_temp (cf_notifications demo_user) = False" "notif_hd_temp (cf_notifications demo_user) = False"
  "notif_battery_sys (cf_notifications demo_user) = False" "notif_battery_mouse (cf_notifications demo_user) = False"
  "notif_battery_kbd (cf_notifications demo_user) = False" "notif_server_check (cf_notifications demo_user) = False"
  "notif_load_avg (cf_notifications demo_user) = False"
  "disp_poll_interval (cf_display demo_user) = from_millis 1500"
  by (simp_all add: demo_user_def config_default_def pages_config_default_def
      notification_config_default_def display_config_default_def)

lemma surface_default_simps [simp]: "surface_items surface_default = []"
  by (simp add: surface_items_def surface_default_def)

lemma demo_catalog: "scheduler_config_of demo_user hardware_inventory_default [] g =
   \<lparr>cfg_generation = g, cfg_display_interval = from_millis 1500,
    cfg_jobs = [(spec_fast demo_page_job (from_millis 1500))\<lparr>spec_counter := True\<rparr>],
    cfg_demand = \<lparr>dp_hidden = [], dp_main_tooltip = [], dp_pages = [(Page_Processes, [demo_page_job])]\<rparr>\<rparr>"
  by (simp add: scheduler_config_of_def catalog_new_def Let_def catalog_jobs_def surface_jobs_def job_set_def
   notification_jobs_def graphs_page_def inventory_jobs_def
   surface_inventory_families_def hidden_inventory_families_def notification_inventory_families_def
   notification_flags_def temperature_graph_enabled_def io_graph_enabled_def npu_graph_enabled_def
   all_page_jobs_def page_jobs_def page_from_id_def fast_singleton_def single_def mark_counter_def
   cat_insert_def mount_inventory_def bs_collect_def bs_extend_def bm_collect_def finish_amd_jobs_def
   hardware_inventory_default_def mark_startup_def bm_modify_def bm_map_def poll_interval_def
   no_jobs_def spec_fast_def spec_plain_def demo_page_job_def map_filter_simps(2) job_singleton_def is_disk_usage_def)

lemma catalog_jobs_typed_witness:
  "jid_owner demo_page_job = kind_owner (jid_kind demo_page_job) \<and>
     from_millis 1500 \<in> cadences demo_user"
  using catalog_jobs_typed [of "(spec_fast demo_page_job (from_millis 1500))\<lparr>spec_counter := True\<rparr>"
      demo_user hardware_inventory_default "[]" 1]
  by (simp add: demo_catalog spec_fast_def spec_plain_def)

section \<open>AMD jobs\<close>

definition amd_group :: "job_kind \<Rightarrow> metric set" where
  "amd_group kind = (if kind = Job_AmdFast then set FAST_METRICS else set SLOW_METRICS)"

lemma supported_iff:
  "m \<in> set (supported_metrics source) \<longleftrightarrow>
     (m = M_GpuAmdUsage \<and> usage_path source \<noteq> None \<or>
      m = M_GpuAmdCodecUsage \<and> codec_usage_path source \<noteq> None \<or>
      m = M_GpuAmdMemUsage \<and> memory_paths source \<noteq> None \<or>
      m = M_GpuAmdFreq \<and> freq_path source \<noteq> None \<or>
      m = M_GpuAmdTemp \<and> temp_path source \<noteq> None \<or>
      m = M_GpuAmdPower \<and> power_path source \<noteq> None \<or>
      m = M_GpuAmdFanSpeed \<and> fan_speed_path source \<noteq> None)"
  unfolding supported_metrics_def set_bs_collect set_map_filter by auto

lemma supported_source_for:
  "set (supported_metrics (source_for_metrics source metrics)) =
     set (supported_metrics source) \<inter> set metrics"
proof (rule set_eqI)
  fix m
  show "m \<in> set (supported_metrics (source_for_metrics source metrics)) \<longleftrightarrow>
      m \<in> set (supported_metrics source) \<inter> set metrics"
    unfolding Int_iff supported_iff by (cases m) (simp_all add: source_for_metrics_def)
qed

lemma amd_job_sets:
  "set (amd_hidden (amd_job_for env source kind)) =
     amd_group kind \<inter> set (supported_metrics source) \<inter> set (amd_hidden_metrics env)"
  "set (amd_tooltip (amd_job_for env source kind)) =
     amd_group kind \<inter> set (supported_metrics source) \<inter>
       it_metric ` set (surface_items (cf_tooltip (cat_cfg env)))"
  by (auto simp: amd_job_for_def Let_def amd_group_def surface_metrics_def)

lemma amd_job_source:
  "set (supported_metrics (amd_source (amd_job_for env source kind))) =
     set (amd_hidden (amd_job_for env source kind)) \<union> set (amd_tooltip (amd_job_for env source kind))"
proof -
  have "amd_source (amd_job_for env source kind) = source_for_metrics source
      (bs_extend (amd_hidden (amd_job_for env source kind)) (amd_tooltip (amd_job_for env source kind)))"
    by (simp add: amd_job_for_def Let_def)
  then show ?thesis using amd_job_sets by (auto simp: supported_source_for)
qed

text \<open>
  Functional. An AMD job reads exactly what is shown: the metrics of its group (fast or slow) that
  the device supports and that the panel, the tooltip, the enabled notification or the graphs use;
  split by whether they are read while the tooltip is closed. The paths of all other metrics are
  taken out of the job's source. No other job carries an AMD payload.
\<close>

theorem amd_jobs_scoped:
  assumes "spec \<in> set (cfg_jobs (scheduler_config_of cfg hw mounts g))"
  shows "case spec_amd spec of
      None \<Rightarrow> hw_amd_gpu hw = None \<or> jid_owner (spec_id spec) \<noteq> Own_AmdGpu
    | Some job \<Rightarrow> \<exists>source. hw_amd_gpu hw = Some source \<and> jid_owner (spec_id spec) = Own_AmdGpu \<and>
        set (amd_hidden job) = amd_group (jid_kind (spec_id spec)) \<inter> set (supported_metrics source) \<inter>
          set (amd_hidden_metrics (catalog_new cfg hw mounts)) \<and>
        set (amd_tooltip job) = amd_group (jid_kind (spec_id spec)) \<inter> set (supported_metrics source) \<inter>
          it_metric ` set (surface_items (cf_tooltip cfg)) \<and>
        set (supported_metrics (amd_source job)) =
          set (amd_hidden job) \<union> set (amd_tooltip job)"
proof -
  let ?env = "catalog_new cfg hw mounts"
  obtain demand starts0 specs where inv: "catalog_inv ?env specs"
    and c: "\<And>g. scheduler_config_of cfg hw mounts g =
       \<lparr>cfg_generation = g, cfg_display_interval = disp_poll_interval (cf_display cfg),
        cfg_jobs = map (\<lambda>(i, s). amd_mark ?env i (startup_mark starts0 i s)) specs,
        cfg_demand = demand\<rparr>"
    by (rule catalog_result [of cfg hw mounts]) blast
  from assms obtain i s where s: "(i, s) \<in> set specs"
    and spec: "spec = amd_mark ?env i (startup_mark starts0 i s)" by (auto simp: c)
  have none: "spec_amd s = None"
    using inv s unfolding catalog_inv_def entry_ok_def spec_ok_def by blast
  show ?thesis
  proof (cases "hw_amd_gpu hw")
    case None
    then show ?thesis using none by (simp add: spec amd_mark_def startup_mark_def catalog_new_def)
  next
    case (Some source)
    then have hw: "hw_amd_gpu (cat_hw ?env) = Some source" by (simp add: catalog_new_def)
    show ?thesis
      using Some none amd_job_sets [of ?env source] amd_job_source [of ?env source]
      by (simp add: spec amd_mark_def hw startup_mark_def) (simp add: catalog_new_def)
  qed
qed

text \<open>The same user with an AMD card and a notification on its temperature.\<close>

definition demo_amd_user :: config where
  "demo_amd_user = demo_user
     \<lparr>cf_notifications := (cf_notifications demo_user)\<lparr>notif_gpu_amd_temp := True\<rparr>\<rparr>"

definition demo_card :: amd_gpu_source where
  "demo_card = \<lparr>pci_identity = ''0000:03:00.0'', usage_path = None, codec_usage_path = None,
     freq_path = None, temp_path = Some [RootDir, NormalComp ''t''], power_path = Some [RootDir, NormalComp ''p''],
     fan_speed_path = None, memory_paths = None\<rparr>"

definition demo_amd_hw :: hardware_inventory where
  "demo_amd_hw = hardware_inventory_default\<lparr>hw_amd_gpu := Some demo_card\<rparr>"

definition demo_amd_job :: job_id where
  "demo_amd_job = job_with_source Own_AmdGpu Job_AmdSlow (Device ''amd:0000:03:00.0'')"

lemma demo_amd_simps [simp]:
  "cf_panel demo_amd_user = surface_default" "cf_tooltip demo_amd_user = surface_default"
  "pages_order (cf_pages demo_amd_user) = [''main'', ''processes'']"
  "notif_disk_usage (cf_notifications demo_amd_user) = False" "notif_disk_smart (cf_notifications demo_amd_user) = False"
  "notif_cpu_temp (cf_notifications demo_amd_user) = False" "notif_gpu_nvidia_temp (cf_notifications demo_amd_user) = False"
  "notif_gpu_amd_temp (cf_notifications demo_amd_user) = True" "notif_hd_temp (cf_notifications demo_amd_user) = False"
  "notif_battery_sys (cf_notifications demo_amd_user) = False" "notif_battery_mouse (cf_notifications demo_amd_user) = False"
  "notif_battery_kbd (cf_notifications demo_amd_user) = False" "notif_server_check (cf_notifications demo_amd_user) = False"
  "notif_load_avg (cf_notifications demo_amd_user) = False"
  "disp_poll_interval (cf_display demo_amd_user) = from_millis 1500"
  by (simp_all add: demo_amd_user_def)

lemma demo_amd_hw_simps [simp]:
  "hw_amd_gpu demo_amd_hw = Some demo_card" "hw_has_nvidia demo_amd_hw = False"
  by (simp_all add: demo_amd_hw_def hardware_inventory_default_def)

lemma demo_amd_catalog:
  "demo_amd_job \<in> spec_id ` set (cfg_jobs (scheduler_config_of demo_amd_user demo_amd_hw [] g))"
  by (simp add: scheduler_config_of_def catalog_new_def Let_def catalog_jobs_def surface_jobs_def job_set_def
   notification_jobs_def graphs_page_def inventory_jobs_def inventory_job_def
   surface_inventory_families_def hidden_inventory_families_def notification_inventory_families_def
   notification_flags_def temperature_graph_enabled_def io_graph_enabled_def npu_graph_enabled_def
   all_page_jobs_def page_jobs_def page_from_id_def fast_singleton_def single_def mark_counter_def
   cat_insert_def mount_inventory_def bs_collect_def bs_extend_def bm_collect_def finish_amd_map bm_map_def
   mark_startup_def bm_modify_def poll_interval_def demo_amd_job_def amd_jobs_def
   supported_metrics_def demo_card_def FAST_METRICS_def map_filter_simps metric_from_str_def
   no_jobs_def spec_fast_def spec_periodic_def spec_plain_def job_singleton_def job_with_source_def
   is_disk_usage_def less_metric_def)

lemma amd_jobs_scoped_witness:
  "\<exists>spec job. spec \<in> set (cfg_jobs (scheduler_config_of demo_amd_user demo_amd_hw [] 1)) \<and>
     spec_id spec = demo_amd_job \<and> spec_amd spec = Some job \<and> set (amd_hidden job) = {M_GpuAmdTemp} \<and>
     set (amd_tooltip job) = {} \<and> set (supported_metrics (amd_source job)) = {M_GpuAmdTemp}"
proof -
  obtain spec where spec: "spec \<in> set (cfg_jobs (scheduler_config_of demo_amd_user demo_amd_hw [] 1))"
    "spec_id spec = demo_amd_job"
    using demo_amd_catalog [of 1] by auto
  have "amd_group Job_AmdSlow \<inter> set (supported_metrics demo_card) \<inter>
      set (amd_hidden_metrics (catalog_new demo_amd_user demo_amd_hw [])) = {M_GpuAmdTemp}"
    by (auto simp: amd_group_def SLOW_METRICS_def FAST_METRICS_def supported_iff demo_card_def amd_hidden_metrics_def
        catalog_new_def surface_metrics_def graphs_page_def)
  then show ?thesis
    using amd_jobs_scoped [OF spec(1)] spec
    by (auto simp: demo_amd_job_def job_with_source_def split: option.splits)
qed

end
