(* ===== verification/ConfiguredRuns.thy ===== *)
theory ConfiguredRuns
  imports CatalogProps
begin

text \<open>
  The catalog and the scheduler together: along a run whose configurations and inventories all come
  from \<open>scheduler_config\<close>, every job keeps a specification of the catalog, so that what the catalog
  guarantees holds of the scheduler's jobs at every moment.
\<close>

section \<open>The specifications along a run\<close>

lemma sat_modify [simp]:
  "(\<And>rt. jr_spec (f rt) = jr_spec rt) \<Longrightarrow> specs_sat P (bm_modify i f jobs) = specs_sat P jobs"
  by (simp add: bm_modify_def)

lemma sat_insert: "specs_sat P jobs \<Longrightarrow> P (jr_spec rt) \<Longrightarrow> specs_sat P (bm_insert i rt jobs)"
  unfolding specs_sat_def
proof
  fix p assume "\<forall>p \<in> set jobs. P (jr_spec (snd p))" "P (jr_spec rt)" "p \<in> set (bm_insert i rt jobs)"
  moreover have "set (bm_insert i rt jobs) \<subseteq> insert (i, rt) (set jobs)"
    by (induction i rt jobs rule: bm_insert.induct) auto
  ultimately show "P (jr_spec (snd p))" by auto
qed

lemma sat_Nil [simp]: "specs_sat P []"
  by (simp add: specs_sat_def)

lemma spec_steps [simp]:
  "jr_spec (completed_runtime c t rt) = jr_spec rt" "jr_spec (resume_nominal t rt) = jr_spec rt"
  "jr_spec (resume_runtime d t i rt) = jr_spec rt" "jr_spec (runtime_new spec t e) = spec"
  by (simp_all add: completed_runtime_def resume_nominal_def resume_runtime_def runtime_new_def Let_def
      split: completion_kind.split option.split)

lemma sat_replace:
  assumes "\<forall>spec \<in> set specs. P spec"
  shows "specs_sat P (s_jobs (fst (replace_jobs specs c io)))"
proof -
  have fold: "specs_sat P (fst (snd (fold (replace_one s dd c) specs (old, repl, acts))))"
    if "\<forall>spec \<in> set specs. P spec" "specs_sat P repl" for s dd specs old repl acts
    using that
  proof (induction specs arbitrary: old repl acts)
    case (Cons spec specs)
    have "\<exists>old' repl' acts'. replace_one s dd c spec (old, repl, acts) = (old', repl', acts') \<and>
        specs_sat P repl'"
      using Cons.prems by (auto simp: replace_one_def Let_def intro!: sat_insert split: option.split)
    then show ?case using Cons by fastforce
  qed simp
  have restart: "specs_sat P (s_jobs (restart_blockers s)) = specs_sat P (s_jobs s)" for s
    by (simp add: restart_blockers_def Let_def)
  have "specs_sat P repl" if "fold (replace_one s dd c) specs (old, [], acts) = (old', repl, acts')"
    for s dd old acts old' repl acts'
    using fold [OF assms sat_Nil, of s dd old acts] that by simp
  then show ?thesis
    by (auto simp: replace_jobs_def Let_def restart retain_activation_def split: prod.split)
qed

lemma sat_activate [simp]: "specs_sat P (s_jobs (activate_jobs b a t s)) = specs_sat P (s_jobs s)"
  by (simp add: activate_jobs_def Let_def)

lemma sat_ended [simp]:
  "specs_sat P (s_jobs (fst (cancel_demand_ended b a io))) = specs_sat P (s_jobs (fst io))"
  by (simp add: cancel_demand_ended_def on_state_def Let_def)

lemma sat_refresh_all [simp]: "specs_sat P (s_jobs (refresh_all_demanded s)) = specs_sat P (s_jobs s)"
  by (simp add: refresh_all_demanded_def Let_def)

lemma sat_rebuild [simp]:
  "specs_sat P (s_jobs (fst (rebuild_first_paint_blockers io))) = specs_sat P (s_jobs (fst io))"
  by (cases io) (simp add: rebuild_first_paint_blockers_def Let_def)

lemma sat_dispatch [simp]: "specs_sat P (s_jobs (fst (dispatch io))) = specs_sat P (s_jobs (fst io))"
proof -
  have one: "specs_sat P (s_jobs (fst (dispatch_one i io))) = specs_sat P (s_jobs (fst io))" for i io
    by (cases io) (simp add: dispatch_one_def Let_def split: option.split)
  have "specs_sat P (s_jobs (fst (fold dispatch_one js io))) = specs_sat P (s_jobs (fst io))" for js
    by (induction js arbitrary: io) (simp_all add: one)
  then show ?thesis by (simp add: dispatch_def Let_def)
qed

lemma sat_tick [simp]: "specs_sat P (s_jobs (fst (tick io))) = specs_sat P (s_jobs (fst io))"
proof -
  have "specs_sat P (s_jobs (fst (pt_deactivation io))) = specs_sat P (s_jobs (fst io))" for io
    by (cases io) (simp add: pt_deactivation_def Let_def)
  moreover have "specs_sat P (s_jobs (fst (pt_first_paint io))) = specs_sat P (s_jobs (fst io))" for io
    by (simp add: pt_first_paint_def Let_def)
  moreover have "s_jobs (fst (pt_activation io)) = s_jobs (fst io)" for io
    by (cases io) (simp add: pt_activation_def Let_def)
  moreover have "s_jobs (fst (pt_display io)) = s_jobs (fst io)" for io
    by (simp add: pt_display_def on_state_def Let_def split: option.split)
  moreover have "specs_sat P (s_jobs (fst (pt_jobs io))) = specs_sat P (s_jobs (fst io))" for io
    by (simp add: pt_jobs_def on_state_def Let_def)
  ultimately show ?thesis by (simp add: tick_def process_time_def)
qed


lemma sat_settle [simp]: "specs_sat P (s_jobs (fst (settle_waits io))) = specs_sat P (s_jobs (fst io))"
  by (simp add: settle_waits_def on_state_def Let_def)

lemma sat_clear [simp]: "specs_sat P (s_jobs (fst (clear_histories i io))) = specs_sat P (s_jobs (fst io))"
  by (cases io) (simp add: clear_histories_def Let_def)

lemma sat_finish [simp]:
  "specs_sat P (s_jobs (fst (snd (finish_job t c b io)))) = specs_sat P (s_jobs (fst io))"
  by (cases io) (simp add: finish_job_def release_finished_def Let_def split: option.split)

lemma sat_cancellation [simp]:
  "s_jobs (fst (snd (finish_cancellation t io))) = s_jobs (fst io)"
  by (cases io) (simp add: finish_cancellation_def Let_def)

lemma sat_cancel_all [simp]: "specs_sat P (s_jobs (fst (cancel_all c io))) = specs_sat P (s_jobs (fst io))"
  by (simp add: cancel_all_def)

lemma sat_trigger [simp]: "specs_sat P (s_jobs (trigger i s)) = specs_sat P (s_jobs s)"
  by (simp add: trigger_def)

lemma sat_resume [simp]: "specs_sat P (s_jobs (fst (resume io))) = specs_sat P (s_jobs (fst io))"
  by (cases io) (simp add: resume_def resume_clocks_def Let_def)

lemma sat_suspend [simp]:
  "specs_sat P (s_jobs (fst (suspend io))) = specs_sat P (s_jobs (fst io))"
  "specs_sat P (s_jobs (fst (stop c m io))) = specs_sat P (s_jobs (fst io))"
  by (simp_all add: suspend_def stop_def on_state_def push_def)

lemma sat_activation [simp]:
  "specs_sat P (s_jobs (fst (refresh_activation io))) = specs_sat P (s_jobs (fst io))"
  "specs_sat P (s_jobs (fst (change_presentation b io))) = specs_sat P (s_jobs (fst io))"
proof -
  show a: "specs_sat P (s_jobs (fst (refresh_activation io))) = specs_sat P (s_jobs (fst io))" for io
    by (cases io) (simp add: refresh_activation_def Let_def)
  show "specs_sat P (s_jobs (fst (change_presentation b io))) = specs_sat P (s_jobs (fst io))"
    by (cases io) (simp add: change_presentation_def Let_def a)
qed

lemma sat_page [simp]: "specs_sat P (s_jobs (fst (change_page p io))) = specs_sat P (s_jobs (fst io))"
  by (simp add: change_page_def on_state_def Let_def)

lemma sat_demand [simp]: "specs_sat P (s_jobs (fst (change_demand d io))) = specs_sat P (s_jobs (fst io))"
  by (simp add: change_demand_def on_state_def Let_def)

text \<open>The specifications an event brings.\<close>

definition event_specs :: "scheduler_event \<Rightarrow> job_spec list" where
  "event_specs ev =
     (case ev of
        Startup _ config _ \<Rightarrow> cfg_jobs config
      | ConfigChanged _ config \<Rightarrow> cfg_jobs config
      | InventoryChanged _ update \<Rightarrow> inv_jobs update
      | _ \<Rightarrow> [])"

lemma sat_collect:
  "\<forall>spec \<in> set specs. P spec \<Longrightarrow>
     specs_sat P (bm_collect (map (\<lambda>spec. (spec_id spec, runtime_new spec t d)) specs))"
  using set_bm_collect [of "map (\<lambda>spec. (spec_id spec, runtime_new spec t d)) specs"]
  by (fastforce simp: specs_sat_def)

lemma sat_event:
  assumes "specs_sat P (s_jobs (fst io))" "\<forall>spec \<in> set (event_specs ev). P spec"
  shows "specs_sat P (s_jobs (fst (snd (handle_event ev io))))"
proof (cases ev)
  case (Startup t config g)
  have "specs_sat P (s_jobs (startup_pending (startup_jobs config g s)))" for s
    using assms(2) Startup
    by (simp add: startup_pending_def startup_jobs_def Let_def event_specs_def sat_collect)
  then show ?thesis using Startup assms(1)
    by (cases io) (simp add: handle_event_def startup_def Let_def)
next
  case (ConfigChanged t config)
  then show ?thesis using assms(2)
    by (simp add: handle_event_def event_specs_def reconfigure_def on_state_def Let_def sat_replace)
next
  case (InventoryChanged t update)
  then show ?thesis using assms(2)
    by (simp add: handle_event_def event_specs_def change_inventory_def on_state_def Let_def sat_replace)
qed (use assms in \<open>simp_all add: handle_event_def accept_if_def on_state_def\<close>)

lemma sat_handle:
  assumes "specs_sat P (s_jobs s)" "\<forall>spec \<in> set (event_specs ev). P spec"
  shows "specs_sat P (s_jobs (fst (handle s ev)))"
proof -
  have "specs_sat P (s_jobs (fst (snd (handle_event ev (s\<lparr>s_now := event_at ev\<rparr>, [])))))"
    by (rule sat_event) (use assms in simp_all)
  then have "specs_sat P (s_jobs (fst (finish_transition (handle_event ev (s\<lparr>s_now := event_at ev\<rparr>, [])))))"
    by (auto simp: finish_transition_def push_def Let_def split: prod.split option.split)
  then show ?thesis using assms(1) by (simp add: handle_def Let_def)
qed


section \<open>Configured runs\<close>

definition floored_cadences :: "config \<Rightarrow> bool" where
  "floored_cadences cfg \<longleftrightarrow>
     MIN_CADENCE \<le> disp_poll_interval (cf_display cfg) \<and>
     MIN_CADENCE \<le> disp_history_interval (cf_display cfg) \<and>
     MIN_CADENCE \<le> disk_smart_interval (cf_disks cfg) \<and>
     MIN_CADENCE \<le> disk_smart_interval_hdd (cf_disks cfg)"

definition from_catalog :: "scheduler_config \<Rightarrow> bool" where
  "from_catalog c \<longleftrightarrow>
     (\<exists>cfg hw mounts g. floored_cadences cfg \<and> c = scheduler_config_of cfg hw mounts g)"

definition configured :: "scheduler_event \<Rightarrow> bool" where
  "configured ev =
     (case ev of
        Startup _ config _ \<Rightarrow> from_catalog config
      | ConfigChanged _ config \<Rightarrow> from_catalog config
      | InventoryChanged _ update \<Rightarrow> (\<exists>config. from_catalog config \<and> inv_jobs update = cfg_jobs config)
      | _ \<Rightarrow> True)"

lemma cadence_floor: "floored_cadences cfg \<Longrightarrow> d \<in> cadences cfg \<Longrightarrow> MIN_CADENCE \<le> d"
  by (auto simp: floored_cadences_def cadences_def ttl_defs MIN_CADENCE_def from_secs_def from_millis_def
      nanos_per_sec_def)

definition good_spec :: "job_spec \<Rightarrow> bool" where
  "good_spec spec \<longleftrightarrow> MIN_CADENCE \<le> spec_freshness spec"

lemma from_catalog_good: "from_catalog c \<Longrightarrow> spec \<in> set (cfg_jobs c) \<Longrightarrow> good_spec spec"
  unfolding from_catalog_def good_spec_def by (metis cfg_spec_cases cadence_floor)

lemma configured_good: "configured ev \<Longrightarrow> \<forall>spec \<in> set (event_specs ev). good_spec spec"
  by (cases ev) (auto simp: configured_def event_specs_def dest: from_catalog_good)


definition floored :: "scheduler \<Rightarrow> bool" where
  "floored s \<longleftrightarrow>
     specs_sat good_spec (s_jobs s) \<and> (s_lifecycle s = Unstarted \<or> MIN_CADENCE \<le> s_display_interval s)"

lemma catalog_interval: "from_catalog c \<Longrightarrow> MIN_CADENCE \<le> cfg_display_interval c"
  by (auto simp: from_catalog_def floored_cadences_def scheduler_config_of_def catalog_new_def
      poll_interval_def Let_def split: prod.split)

lemma interval_event:
  assumes "configured ev" "if s_lifecycle (fst io) = Unstarted then is_startup ev
    else MIN_CADENCE \<le> s_display_interval (fst io)"
  shows "MIN_CADENCE \<le> s_display_interval (fst (snd (handle_event ev io)))"
proof (cases ev)
  case (Startup t config g)
  then show ?thesis using assms catalog_interval
    by (cases io) (auto simp: handle_event_def startup_def startup_jobs_def configured_def Let_def)
next
  case (ConfigChanged t config)
  then show ?thesis using assms(1) catalog_interval
    by (simp add: handle_event_def configured_def reconfigure_def on_state_def Let_def)
qed (use assms(2) in \<open>simp_all add: handle_event_def accept_if_def on_state_def is_startup_def split: if_splits\<close>)

lemma floored_handle:
  assumes "configured ev" "floored s"
  shows "floored (fst (handle s ev))"
proof -
  have "specs_sat good_spec (s_jobs (fst (handle s ev)))"
    using assms configured_good by (intro sat_handle) (simp_all add: floored_def)
  moreover have "s_display_interval (fst (finish_transition r)) = s_display_interval (fst (snd r))" for r
    by (cases r) (simp add: finish_transition_def Let_def push_def split: option.split)
  then have "fst (handle s ev) = s \<or> MIN_CADENCE \<le> s_display_interval (fst (handle s ev))"
    using interval_event [OF assms(1), of "(s\<lparr>s_now := event_at ev\<rparr>, [])"] assms(2)
    by (auto simp: handle_def floored_def Let_def)
  ultimately show ?thesis using assms(2) by (auto simp: floored_def)
qed

lemma floored_run: "list_all configured evs \<Longrightarrow> floored (sched_run evs)"
proof (induction evs rule: rev_induct)
  case Nil
  show ?case by (simp add: floored_def sched_run_def scheduler_new_def)
next
  case (snoc ev evs)
  then show ?case using floored_handle [of ev "sched_run evs"]
    by (simp add: sched_run_def sched_step_def)
qed

text \<open>
  C8. Liveness. Along a run whose configurations and inventories come from the catalog, with the
  cadences the configuration accepts (100 ms or more): told the time, a scheduler that has painted
  once asks to be woken strictly later. The daemon's timer never fires again for a deadline passed.
\<close>

theorem configured_wakes:
  assumes "list_all configured evs" "s_lifecycle (sched_run evs) = Running"
    and "s_first_paint_issued (sched_run evs)" "s_now (sched_run evs) \<le> n" "n < duration_max"
    and "ScheduleDeadline d \<in> set (actions (snd (handle (sched_run evs) (TimeAdvanced n))))"
  shows "n < d"
proof -
  have f: "floored (sched_run evs)" using assms(1) by (rule floored_run)
  have pos: "0 < MIN_CADENCE" by (simp add: MIN_CADENCE_def from_millis_def)
  have "0 < s_display_interval (sched_run evs)" using f assms(2) pos by (simp add: floored_def)
  moreover have "paced (s_jobs (sched_run evs))"
    using f pos by (fastforce simp: floored_def specs_sat_def good_spec_def)
  ultimately show ?thesis using assms wake_ahead by blast
qed

definition demo_start :: "scheduler_event list" where
  "demo_start = [Startup 0 (scheduler_config_of demo_user hardware_inventory_default [] 1) 1]"

lemma configured_wakes_witness: "100 < (1500000000 :: nat)"
proof (rule configured_wakes [where evs = demo_start and n = 100])
  have "floored_cadences demo_user"
    by (simp add: floored_cadences_def demo_user_def config_default_def display_config_default_def
        disk_config_default_def MIN_CADENCE_def from_millis_def)
  then show "list_all configured demo_start"
    by (auto simp: demo_start_def configured_def from_catalog_def)
qed (simp_all add: demo_start_def demo_catalog demo_page_job_def spec_fast_def demo_defs run_defs time_defs
    finish_defs step_defs Let_def)

end
