(* ===== verification/Executor.thy ===== *)
theory Executor
  imports SchedMachine Applet
begin

text \<open>
  The daemon loop around the scheduler: \<open>src/daemon/async_loop.rs\<close> and its modules \<open>dispatch.rs\<close>,
  \<open>completion.rs\<close>, \<open>control.rs\<close>, and the message side of \<open>worker.rs\<close>. The loop applies the actions of
  the scheduler, hands runs to the fourteen owner workers and feeds their completions back.

  \<^item> The loop's own state is the record \<open>executor\<close>: the scheduler, the queue of actions, the messages
    not yet sent, the runs still valid (\<open>DispatchValidity\<close>), the received completion, and the part of
    \<open>RuntimeState\<close> that decides about control (\<open>runtime\<close>).
  \<^item> What lies between the loop and the workers (bounded channels, the blocking lane, threads) is not
    code of the repository. It appears as lists of the messages and completions under way, out of
    which any element may be delivered next, and as the answer of each send attempt; nothing else is
    assumed about it than that what is delivered was sent.
  \<^item> The outcome of sensor code, rendering and configuration code is a parameter of the step that uses
    it (\<open>loop_env\<close>, \<open>commit_effect\<close>).
\<close>

section \<open>Messages\<close>

definition OWNER_PENDING_CAPACITY :: nat where "OWNER_PENDING_CAPACITY = 1024"
definition FIRST_PAINT_DEADLINE :: duration where "FIRST_PAINT_DEADLINE = from_millis 200"

definition ALL_OWNERS :: "owner_id list" where
  "ALL_OWNERS = [Own_Cpu, Own_Process, Own_Memory, Own_Network, Own_Disk, Own_Power, Own_Nvidia,
     Own_AmdGpu, Own_AmdNpu, Own_IntelGpu, Own_GpuHistory, Own_External, Own_Page, Own_Discovery]"

primrec owner_name :: "owner_id \<Rightarrow> string" where
  "owner_name Own_Cpu = ''CPU owner''"
| "owner_name Own_Process = ''process owner''"
| "owner_name Own_Memory = ''memory owner''"
| "owner_name Own_Network = ''network owner''"
| "owner_name Own_Disk = ''disk owner''"
| "owner_name Own_Power = ''power owner''"
| "owner_name Own_Nvidia = ''NVIDIA owner''"
| "owner_name Own_AmdGpu = ''AMDGPU owner''"
| "owner_name Own_AmdNpu = ''AMD NPU owner''"
| "owner_name Own_IntelGpu = ''Intel GPU owner''"
| "owner_name Own_GpuHistory = ''GPU history owner''"
| "owner_name Own_External = ''external owner''"
| "owner_name Own_Page = ''page owner''"
| "owner_name Own_Discovery = ''discovery owner''"

text \<open>The copies of configuration, inventory, readings and style that an input carries are left out.\<close>

record job_input =
  ji_ticket :: job_ticket
  ji_style_generation :: nat
  ji_render_generation :: nat

record rescan_input =
  ri_kind :: rescan_kind
  ri_config_generation :: config_generation
  ri_inventory_generation :: inventory_generation
  ri_lifecycle_generation :: nat
  ri_resume_reconciliation :: "resume_id option"

datatype owner_message =
  Msg_Run job_input
  | Msg_Reset job_id
  | Msg_Invalidate job_id "metric bset option"
  | Msg_PagesChanged "page list"
  | Msg_Rescan rescan_input
  | Msg_ReconcileTheme path "nat option"

primrec message_ticket :: "owner_message \<Rightarrow> job_ticket option" where
  "message_ticket (Msg_Run input) = Some (ji_ticket input)"
| "message_ticket (Msg_Reset _) = None"
| "message_ticket (Msg_Invalidate _ _) = None"
| "message_ticket (Msg_PagesChanged _) = None"
| "message_ticket (Msg_Rescan _) = None"
| "message_ticket (Msg_ReconcileTheme _ _) = None"

type_synonym pending = "(owner_id \<times> owner_message) list"

text \<open>The coalescing of \<open>queue_owner_message\<close>: the fields of the queued invalidations of the job.\<close>

definition merged_metrics ::
    "owner_id \<Rightarrow> job_id \<Rightarrow> pending \<Rightarrow> metric bset option \<Rightarrow> metric bset option" where
  "merged_metrics own job pending metrics =
     fold (\<lambda>(candidate_owner, candidate) acc.
             case candidate of
               Msg_Invalidate j prev \<Rightarrow>
                 if candidate_owner = own \<and> j = job
                 then (case (acc, prev) of
                         (Some a, Some p) \<Rightarrow> Some (bs_extend a p)
                       | _ \<Rightarrow> None)
                 else acc
             | _ \<Rightarrow> acc)
       pending metrics"

definition merge_message :: "owner_id \<Rightarrow> pending \<Rightarrow> owner_message \<Rightarrow> owner_message" where
  "merge_message own pending message =
     (case message of
        Msg_Invalidate job metrics \<Rightarrow> Msg_Invalidate job (merged_metrics own job pending metrics)
      | m \<Rightarrow> m)"

fun supersedes :: "owner_message \<Rightarrow> owner_message \<Rightarrow> bool" where
  "supersedes (Msg_PagesChanged _) (Msg_PagesChanged _) = True"
| "supersedes (Msg_ReconcileTheme _ _) (Msg_ReconcileTheme _ _) = True"
| "supersedes (Msg_Rescan input) (Msg_Rescan candidate) = (ri_kind input = ri_kind candidate)"
| "supersedes (Msg_Reset job) (Msg_Reset candidate) = (job = candidate)"
| "supersedes (Msg_Invalidate job _) (Msg_Invalidate candidate _) = (job = candidate)"
| "supersedes (Msg_Run input) (Msg_Run candidate) =
     (tk_run_id (ji_ticket input) = tk_run_id (ji_ticket candidate))"
| "supersedes _ _ = False"

definition queue_owner_message :: "owner_id \<Rightarrow> owner_message \<Rightarrow> pending \<Rightarrow> pending \<times> bool" where
  "queue_owner_message own message pending =
     (let message' = merge_message own pending message;
          pending' = filter (\<lambda>(candidate_owner, candidate).
                       candidate_owner \<noteq> own \<or> \<not> supersedes message' candidate) pending
      in if OWNER_PENDING_CAPACITY \<le> length pending' then (pending', False)
         else (pending' @ [(own, message')], True))"

text \<open>
  \<open>flush_owner_messages\<close> tries every message once, in order. \<open>answer n\<close> is the outcome of the attempt
  that leaves \<open>n\<close> more to make. The result is what stays pending, what was sent, and the owner whose
  channel is gone.
\<close>

datatype send_outcome = Sent | Full | Closed

fun flush_loop ::
    "(nat \<Rightarrow> send_outcome) \<Rightarrow> nat \<Rightarrow> pending \<Rightarrow> pending \<Rightarrow> pending \<times> pending \<times> owner_id option" where
  "flush_loop answer 0 pending sent = (pending, sent, None)"
| "flush_loop answer (Suc n) [] sent = ([], sent, None)"
| "flush_loop answer (Suc n) ((own, message) # pending) sent =
     (if own \<notin> set ALL_OWNERS then (pending, sent, Some own)
      else case answer n of
             Sent \<Rightarrow> flush_loop answer n pending (sent @ [(own, message)])
           | Full \<Rightarrow> flush_loop answer n (pending @ [(own, message)]) sent
           | Closed \<Rightarrow> (pending, sent, Some own))"

definition flush_owner_messages ::
    "(nat \<Rightarrow> send_outcome) \<Rightarrow> pending \<Rightarrow> pending \<times> pending \<times> owner_id option" where
  "flush_owner_messages answer pending = flush_loop answer (length pending) pending []"

section \<open>Completions\<close>

record job_completion =
  jc_ticket :: job_ticket
  jc_completion :: completion_kind
  jc_notification_ready :: bool
  jc_rendered_page :: bool
  jc_style_generation :: nat
  jc_render_generation :: nat

datatype owner_completion =
  Completed job_completion
  | RunCancelled job_ticket
  | Rescanned rescan_input
  | ThemeRead "nat option" bool

definition uses_blocking_lane :: "job_id \<Rightarrow> bool" where
  "uses_blocking_lane job \<longleftrightarrow>
     jid_kind job \<in> {Job_NetworkIdentity, Job_DiskUsage, Job_Smart, Job_SystemBattery,
       Job_PeripheralBattery, Job_NvidiaNvml, Job_NvidiaFallback, Job_AmdSlow, Job_IntelUsage,
       Job_PanelProcesses, Job_PageProcesses, Job_UpdatesFile, Job_ServerFile, Job_PageCommand,
       Job_PageRender, Job_HardwareDiscovery, Job_MountInventory}"

section \<open>State\<close>

text \<open>
  The control part of \<open>RuntimeState\<close>. \<open>rt_config\<close> is the value of \<open>scheduler_config()\<close>, a function of
  the configuration and the inventory; \<open>rt_rendered_graph\<close> leaves out the HTML; \<open>rt_samples\<close> holds the
  keys of \<open>notification_samples\<close>.
\<close>

record runtime =
  rt_config :: scheduler_config
  rt_config_generation :: config_generation
  rt_inventory_generation :: inventory_generation
  rt_selected :: page_id
  rt_style_generation :: nat
  rt_render_generation :: nat
  rt_kde_stamp :: "nat option"
  rt_graph_requested :: "(run_id \<times> nat) option"
  rt_rendered_graph :: "(page_id \<times> nat) option"
  rt_samples :: "run_id bset"
  rt_last_committed :: "(owner_id, run_id) bmap"
  rt_first_paint_published :: bool
  rt_deferred_paint :: "scheduler_action option"
  rt_deferred_jobs :: "job_id bset"
  rt_completed_jobs :: "job_id bset"
  rt_terminate :: bool
  rt_critical :: "string option"

text \<open>
  \<open>x_channels\<close> are the messages sent and not received, \<open>x_waiting\<close> the runs that wait for the blocking
  lane, \<open>x_executing\<close> the runs in execution, \<open>x_deciding\<close> the workers that wait for the decision about
  their result, \<open>x_completions\<close> the completions sent and not received.
\<close>

record executor =
  x_sched :: scheduler
  x_actions :: "scheduler_action list"
  x_pending :: pending
  x_runs :: "run_id bset"
  x_lifecycle_generation :: nat
  x_slot :: "owner_completion option"
  x_runtime :: runtime
  x_channels :: pending
  x_waiting :: "(owner_id \<times> job_input) list"
  x_executing :: "(owner_id \<times> job_input) list"
  x_deciding :: "owner_id list"
  x_completions :: "owner_completion list"
  x_failed :: bool

definition wrapping_succ :: "nat \<Rightarrow> nat" where
  "wrapping_succ g = (g + 1) mod 2 ^ 64"

definition on_runtime :: "(runtime \<Rightarrow> runtime) \<Rightarrow> executor \<Rightarrow> executor" where
  "on_runtime f x = x\<lparr>x_runtime := f (x_runtime x)\<rparr>"

definition bump_render :: "runtime \<Rightarrow> runtime" where
  "bump_render rs = rs\<lparr>rt_render_generation := wrapping_succ (rt_render_generation rs)\<rparr>"

definition drop_graph :: "runtime \<Rightarrow> runtime" where
  "drop_graph rs = bump_render (rs\<lparr>rt_rendered_graph := None\<rparr>)"

definition x_handle :: "scheduler_event \<Rightarrow> executor \<Rightarrow> executor \<times> transition" where
  "x_handle ev x = (let (s, tr) = handle (x_sched x) ev in (x\<lparr>x_sched := s\<rparr>, tr))"

definition x_enqueue :: "scheduler_event \<Rightarrow> executor \<Rightarrow> executor" where
  "x_enqueue ev x =
     (let (x', tr) = x_handle ev x in x'\<lparr>x_actions := x_actions x' @ actions tr\<rparr>)"

definition x_prepend :: "scheduler_event \<Rightarrow> executor \<Rightarrow> executor" where
  "x_prepend ev x =
     (let (x', tr) = x_handle ev x in x'\<lparr>x_actions := actions tr @ x_actions x'\<rparr>)"

definition x_queue :: "owner_id \<Rightarrow> owner_message \<Rightarrow> executor \<Rightarrow> executor \<times> bool" where
  "x_queue own message x =
     (let (pending, ok) = queue_owner_message own message (x_pending x)
      in (x\<lparr>x_pending := pending\<rparr>, ok))"

text \<open>\<open>return Err(..)\<close>: the loop ends.\<close>

definition x_queue_or_fail :: "owner_id \<Rightarrow> owner_message \<Rightarrow> executor \<Rightarrow> executor" where
  "x_queue_or_fail own message x =
     (let (x', ok) = x_queue own message x in if ok then x' else x'\<lparr>x_failed := True\<rparr>)"

definition critical_failure :: "string \<Rightarrow> sched_time \<Rightarrow> executor \<Rightarrow> executor" where
  "critical_failure component now x = x_enqueue (CriticalFailure now component) x"

definition is_page_render_start :: "scheduler_action \<Rightarrow> bool" where
  "is_page_render_start a =
     (case a of StartJob t \<Rightarrow> jid_kind (tk_job t) = Job_PageRender | _ \<Rightarrow> False)"

definition request_selected_graph :: "sched_time \<Rightarrow> executor \<Rightarrow> executor" where
  "request_selected_graph now x =
     (if rt_selected (x_runtime x) \<noteq> Page_Graphs then x
      else case List.find (\<lambda>spec. jid_kind (spec_id spec) = Job_PageRender)
                  (cfg_jobs (rt_config (x_runtime x))) of
             None \<Rightarrow> x
           | Some spec \<Rightarrow> x_enqueue (RefreshTriggered now (spec_id spec) Trig_Signal) x)"

definition selected_graph_needs_render :: "runtime \<Rightarrow> bool" where
  "selected_graph_needs_render rs \<longleftrightarrow>
     rt_selected rs = Page_Graphs \<and>
     (case rt_graph_requested rs of
        None \<Rightarrow> True | Some (_, generation) \<Rightarrow> generation \<noteq> rt_render_generation rs) \<and>
     (case rt_rendered_graph rs of
        None \<Rightarrow> True
      | Some (page, generation) \<Rightarrow>
          page \<noteq> rt_selected rs \<or> generation \<noteq> rt_render_generation rs)"

definition mark_graph_render_requested :: "job_ticket \<Rightarrow> runtime \<Rightarrow> runtime" where
  "mark_graph_render_requested t rs =
     (if jid_kind (tk_job t) = Job_PageRender
      then rs\<lparr>rt_graph_requested := Some (tk_run_id t, rt_render_generation rs)\<rparr> else rs)"

definition clear_graph_render_requested :: "job_ticket \<Rightarrow> runtime \<Rightarrow> runtime" where
  "clear_graph_render_requested t rs =
     (case rt_graph_requested rs of
        Some (run, _) \<Rightarrow> if run = tk_run_id t then rs\<lparr>rt_graph_requested := None\<rparr> else rs
      | None \<Rightarrow> rs)"

definition refresh_deferred_first_paint_jobs :: "runtime \<Rightarrow> runtime" where
  "refresh_deferred_first_paint_jobs rs =
     (if rt_deferred_paint rs = None then rs
      else rs\<lparr>rt_deferred_jobs :=
             bs_collect (map spec_id
               (filter (\<lambda>spec. spec_startup_panel spec \<and> spec_id spec \<notin> set (rt_completed_jobs rs))
                 (cfg_jobs (rt_config rs))))\<rparr>)"

definition suppress_panel_publication :: "publish_reason \<Rightarrow> nat \<Rightarrow> runtime \<Rightarrow> runtime \<times> bool" where
  "suppress_panel_publication reason skipped rs =
     (case rt_deferred_paint rs of
        Some (PublishDisplay p r d deferred_skipped panel tooltip) \<Rightarrow>
          (if reason = Pub_DisplayDeadline
           then rs\<lparr>rt_deferred_paint :=
                  Some (PublishDisplay p r d
                    (u64_saturating_add (u64_saturating_add deferred_skipped 1) skipped)
                    panel tooltip)\<rparr>
           else rs, True)
      | _ \<Rightarrow> (rs, False))"

definition render_input_current :: "runtime \<Rightarrow> job_completion \<Rightarrow> bool" where
  "render_input_current rs c \<longleftrightarrow>
     jid_kind (tk_job (jc_ticket c)) \<noteq> Job_PageRender \<or>
     jc_style_generation c = rt_style_generation rs \<and>
     jc_render_generation c = rt_render_generation rs"

definition can_commit :: "runtime \<Rightarrow> scheduler \<Rightarrow> job_completion \<Rightarrow> bool" where
  "can_commit rs s c \<longleftrightarrow>
     is_current_ticket s (jc_ticket c) \<and> render_input_current rs c \<and>
     (case bm_get (rt_last_committed rs) (jid_owner (tk_job (jc_ticket c))) of
        None \<Rightarrow> True | Some run \<Rightarrow> run < tk_run_id (jc_ticket c))"

text \<open>
  \<open>commit\<close>: whether the readings of the graphs changed, whether the inventory changed, and the
  scheduler configuration of the committed state, are results of the merge of the completion.
\<close>

record commit_effect =
  ce_graph_input_changed :: bool
  ce_inventory_changed :: bool
  ce_config :: scheduler_config

definition commit :: "commit_effect \<Rightarrow> job_completion \<Rightarrow> runtime \<Rightarrow> runtime" where
  "commit eff c rs =
     (let t = jc_ticket c;
          page = (case jid_source (tk_job t) of PageSource p \<Rightarrow> p | _ \<Rightarrow> Page_Graphs);
          rs1 = (if jc_rendered_page c
                 then rs\<lparr>rt_rendered_graph := Some (page, jc_render_generation c)\<rparr> else rs);
          rs2 = rs1\<lparr>rt_config := ce_config eff,
                    rt_last_committed :=
                      bm_insert (jid_owner (tk_job t)) (tk_run_id t) (rt_last_committed rs1)\<rparr>
      in if ce_graph_input_changed eff then bump_render rs2 else rs2)"

section \<open>Draining the actions\<close>

text \<open>
  What the loop meets while it applies an action: the time, whether the canonical width changed in a
  publication, and whether an invalidation changed the input of the graphs.
\<close>

record loop_env =
  le_now :: sched_time
  le_width_changed :: bool
  le_graph_input_changed :: bool

definition start_job :: "job_ticket \<Rightarrow> executor \<Rightarrow> executor" where
  "start_job t x =
     (if is_current_ticket (x_sched x) t
      then
        let x1 = on_runtime (mark_graph_render_requested t)
                   (x\<lparr>x_runs := bs_insert (tk_run_id t) (x_runs x)\<rparr>);
            input = \<lparr>ji_ticket = t, ji_style_generation = rt_style_generation (x_runtime x1),
                     ji_render_generation = rt_render_generation (x_runtime x1)\<rparr>
        in x_queue_or_fail (jid_owner (tk_job t)) (Msg_Run input) x1
      else x)"

definition cancel_job :: "sched_time \<Rightarrow> job_ticket \<Rightarrow> executor \<Rightarrow> executor" where
  "cancel_job now t x =
     (let x1 = on_runtime (\<lambda>rs. (clear_graph_render_requested t rs)
                 \<lparr>rt_samples := bs_remove (tk_run_id t) (rt_samples rs)\<rparr>) x;
          was_dispatched = (tk_run_id t \<in> set (x_runs x1));
          before = length (x_pending x1);
          x2 = x1\<lparr>x_runs := bs_remove (tk_run_id t) (x_runs x1),
                  x_pending := filter (\<lambda>(_, m). case message_ticket m of
                      None \<Rightarrow> True | Some queued \<Rightarrow> tk_run_id queued \<noteq> tk_run_id t) (x_pending x1)\<rparr>
      in if \<not> was_dispatched \<or> length (x_pending x2) \<noteq> before
         then x_prepend (JobCancelled now t) x2 else x2)"

definition publish_display ::
    "loop_env \<Rightarrow> publication_id \<Rightarrow> publish_reason \<Rightarrow> nat \<Rightarrow> bool \<Rightarrow> bool \<Rightarrow> executor \<Rightarrow> executor" where
  "publish_display env publication reason skipped panel tooltip x =
     (let (rs, suppressed) =
            (if panel then suppress_panel_publication reason skipped (x_runtime x)
             else (x_runtime x, False))
      in if suppressed then x\<lparr>x_runtime := rs\<rparr>
         else
           let x1 = on_runtime (\<lambda>rs.
                      if reason = Pub_FirstPaintReady \<or> reason = Pub_FirstPaintTimeout
                      then rs\<lparr>rt_first_paint_published := True\<rparr> else rs) x;
               x2 = (if panel
                     then x_prepend (PanelPublished (le_now env) publication)
                            (if le_width_changed env then on_runtime drop_graph x1 else x1)
                     else x1);
               graph_start_queued = list_ex is_page_render_start (x_actions x2)
           in if tooltip \<and> \<not> graph_start_queued \<and> selected_graph_needs_render (x_runtime x2)
              then request_selected_graph (le_now env) x2 else x2)"

definition invalidate_job :: "loop_env \<Rightarrow> job_id \<Rightarrow> metric bset option \<Rightarrow> executor \<Rightarrow> executor" where
  "invalidate_job env job metrics x =
     x_queue_or_fail (jid_owner job) (Msg_Invalidate job metrics)
       (on_runtime (\<lambda>rs. (if le_graph_input_changed env then bump_render rs else rs)
            \<lparr>rt_completed_jobs := bs_remove job (rt_completed_jobs rs),
             rt_deferred_jobs := bs_remove job (rt_deferred_jobs rs)\<rparr>) x)"

definition rescan_message :: "rescan_kind \<Rightarrow> resume_id option \<Rightarrow> executor \<Rightarrow> owner_message" where
  "rescan_message kind reconciliation x =
     Msg_Rescan \<lparr>ri_kind = kind, ri_config_generation = rt_config_generation (x_runtime x),
       ri_inventory_generation = rt_inventory_generation (x_runtime x),
       ri_lifecycle_generation = x_lifecycle_generation x,
       ri_resume_reconciliation = reconciliation\<rparr>"

definition apply_action :: "loop_env \<Rightarrow> scheduler_action \<Rightarrow> executor \<Rightarrow> executor" where
  "apply_action env action x =
     (case action of
        StartJob t \<Rightarrow> start_job t x
      | CancelJob t _ \<Rightarrow> cancel_job (le_now env) t x
      | InvalidateJob job _ metrics \<Rightarrow> invalidate_job env job metrics x
      | ResetCounterBaseline job \<Rightarrow> x_queue_or_fail (jid_owner job) (Msg_Reset job) x
      | PublishDisplay p reason _ skipped panel tooltip \<Rightarrow>
          publish_display env p reason skipped panel tooltip x
      | EvaluateNotifications t \<Rightarrow>
          on_runtime (\<lambda>rs. rs\<lparr>rt_samples := bs_remove (tk_run_id t) (rt_samples rs)\<rparr>) x
      | RescanHardware kind reconciliation \<Rightarrow>
          x_queue_or_fail Own_Discovery (rescan_message kind reconciliation x) x
      | Terminate component \<Rightarrow>
          on_runtime (\<lambda>rs. rs\<lparr>rt_terminate := True, rt_critical := component\<rparr>) x
      | ApplyBackoff _ _ _ \<Rightarrow> x
      | ScheduleDeadline _ \<Rightarrow> x)"

text \<open>One round of the loop of \<open>drain_actions\<close>.\<close>

definition drain_one :: "loop_env \<Rightarrow> executor \<Rightarrow> executor" where
  "drain_one env x =
     (case x_actions x of
        [] \<Rightarrow> x
      | action # rest \<Rightarrow> apply_action env action (x\<lparr>x_actions := rest\<rparr>))"

definition flush_step :: "(nat \<Rightarrow> send_outcome) \<Rightarrow> sched_time \<Rightarrow> executor \<Rightarrow> executor" where
  "flush_step answer now x =
     (let (pending, sent, failed) = flush_owner_messages answer (x_pending x);
          x1 = x\<lparr>x_pending := pending, x_channels := x_channels x @ sent\<rparr>
      in case failed of
           None \<Rightarrow> x1
         | Some own \<Rightarrow> critical_failure (owner_name own) now x1)"

section \<open>Completions of the workers\<close>

definition transition_starts_job :: "transition \<Rightarrow> job_kind \<Rightarrow> bool" where
  "transition_starts_job tr kind \<longleftrightarrow>
     list_ex (\<lambda>a. case a of StartJob t \<Rightarrow> jid_kind (tk_job t) = kind | _ \<Rightarrow> False) (actions tr)"

definition should_trigger_nvidia_fallback ::
    "bool \<Rightarrow> job_kind \<Rightarrow> completion_kind \<Rightarrow> transition \<Rightarrow> bool" where
  "should_trigger_nvidia_fallback current kind completion finished \<longleftrightarrow>
     current \<and> kind = Job_NvidiaNvml \<and> completion = Failed \<and>
     \<not> transition_starts_job finished Job_NvidiaFallback"

definition is_tooltip_only :: "scheduler_action \<Rightarrow> bool" where
  "is_tooltip_only a = (case a of PublishDisplay _ _ _ _ panel tooltip \<Rightarrow> \<not> panel \<and> tooltip | _ \<Rightarrow> False)"

definition is_panel_publish :: "scheduler_action \<Rightarrow> bool" where
  "is_panel_publish a = (case a of PublishDisplay _ _ _ _ panel _ \<Rightarrow> panel | _ \<Rightarrow> False)"

definition is_refresh_publish :: "scheduler_action \<Rightarrow> bool" where
  "is_refresh_publish a =
     (case a of PublishDisplay _ reason _ _ _ _ \<Rightarrow> reason = Pub_TooltipRefresh | _ \<Rightarrow> False)"

definition is_first_paint :: "scheduler_action \<Rightarrow> bool" where
  "is_first_paint a =
     (case a of PublishDisplay _ reason _ _ _ _ \<Rightarrow> reason = Pub_FirstPaintReady | _ \<Rightarrow> False)"

definition remove_tooltip_only_publications :: "scheduler_action list \<Rightarrow> scheduler_action list" where
  "remove_tooltip_only_publications acts = filter (\<lambda>a. \<not> is_tooltip_only a) acts"

definition suppress_tooltip_refresh :: "scheduler_action list \<Rightarrow> scheduler_action list" where
  "suppress_tooltip_refresh acts = filter (\<lambda>a. \<not> is_refresh_publish a) acts"

text \<open>\<open>position\<close> and \<open>remove\<close>: the first paint is taken out of the actions.\<close>

fun take_first_paint :: "scheduler_action list \<Rightarrow> (scheduler_action \<times> scheduler_action list) option" where
  "take_first_paint [] = None"
| "take_first_paint (a # acts) =
     (if is_first_paint a then Some (a, acts)
      else map_option (\<lambda>(p, rest). (p, a # rest)) (take_first_paint acts))"

definition deadline_aware_first_paint ::
    "sched_time \<Rightarrow> sched_time \<Rightarrow> scheduler_action \<Rightarrow> scheduler_action" where
  "deadline_aware_first_paint now boot action =
     (if now < dur_saturating_add boot FIRST_PAINT_DEADLINE then action
      else case action of
             PublishDisplay p _ d k panel tooltip \<Rightarrow> PublishDisplay p Pub_FirstPaintTimeout d k panel tooltip
           | a \<Rightarrow> a)"

definition release_deferred_first_paint :: "sched_time \<Rightarrow> sched_time \<Rightarrow> executor \<Rightarrow> executor \<times> bool" where
  "release_deferred_first_paint now boot x =
     (if rt_deferred_jobs (x_runtime x) \<noteq> [] then (x, False)
      else case rt_deferred_paint (x_runtime x) of
             None \<Rightarrow> (x, False)
           | Some publication \<Rightarrow>
               (x\<lparr>x_runtime := (x_runtime x)\<lparr>rt_deferred_paint := None\<rparr>,
                  x_actions := x_actions x @ [deadline_aware_first_paint now boot publication]\<rparr>,
                True))"

definition reconcile_inventory_publication ::
    "bool \<Rightarrow> sched_time \<Rightarrow> sched_time \<Rightarrow> sched_time \<Rightarrow> executor \<Rightarrow> executor" where
  "reconcile_inventory_publication no_followups now boot at x =
     (let (x1, released_first_paint) = release_deferred_first_paint now boot x;
          drop = x1\<lparr>x_actions := remove_tooltip_only_publications (x_actions x1)\<rparr>
      in if \<not> released_first_paint \<and> \<not> no_followups then x1
         else if list_ex is_panel_publish (x_actions x1)
         then (if list_ex (\<lambda>a. is_panel_publish a \<and> is_tooltip_publish a) (x_actions x1)
               then drop else x1)
         else if \<not> no_followups then x1
         else x_enqueue (DisplayRefreshRequested at) drop)"

text \<open>
  The inventory part of the \<open>Completed\<close> arm: the transition of the inventory change is queued before
  the transition of the finished job, whose first paint is deferred.
\<close>

definition commit_inventory ::
    "commit_effect \<Rightarrow> sched_time \<Rightarrow> job_id list \<Rightarrow> scheduler_action list \<Rightarrow> executor
      \<Rightarrow> executor \<times> scheduler_action list \<times> bool" where
  "commit_inventory eff at jobs_before finished x =
     (let (rs, finished1) =
            (case take_first_paint finished of
               None \<Rightarrow> (x_runtime x, finished)
             | Some (publication, rest) \<Rightarrow>
                 (refresh_deferred_first_paint_jobs
                    ((x_runtime x)\<lparr>rt_deferred_paint := Some publication\<rparr>), rest));
          config = rt_config rs;
          tooltip_demand = demanded (cfg_demand config) True (rt_selected rs);
          introduced = bs_collect (filter (\<lambda>job. job \<in> set tooltip_demand \<and> job \<notin> set jobs_before)
                         (map spec_id (filter (\<lambda>spec. spec_timing spec \<noteq> History) (cfg_jobs config))));
          finished2 = (if introduced \<noteq> [] then suppress_tooltip_refresh finished1 else finished1);
          generation = generation_next (rt_inventory_generation rs);
          x1 = x\<lparr>x_runtime := rs\<lparr>rt_inventory_generation := generation\<rparr>\<rparr>
      in (x_enqueue (InventoryChanged at
            \<lparr>inv_generation = generation, inv_jobs = cfg_jobs config, inv_demand = cfg_demand config,
             resume_acknowledgement = None\<rparr>) x1,
          finished2, introduced = []))"

definition replacement_of :: "scheduler_action list \<Rightarrow> job_ticket option" where
  "replacement_of acts =
     (case List.find is_page_render_start acts of Some (StartJob t) \<Rightarrow> Some t | _ \<Rightarrow> None)"

definition will_notify :: "job_ticket \<Rightarrow> scheduler_action list \<Rightarrow> bool" where
  "will_notify t acts \<longleftrightarrow>
     list_ex (\<lambda>a. case a of EvaluateNotifications u \<Rightarrow> tk_run_id u = tk_run_id t | _ \<Rightarrow> False) acts"

definition note_completed :: "job_completion \<Rightarrow> bool \<Rightarrow> scheduler_action list \<Rightarrow> runtime \<Rightarrow> runtime" where
  "note_completed c current finished rs =
     (let t = jc_ticket c;
          rs1 = (if current
                 then rs\<lparr>rt_completed_jobs := bs_insert (tk_job t) (rt_completed_jobs rs),
                         rt_deferred_jobs := bs_remove (tk_job t) (rt_deferred_jobs rs)\<rparr> else rs);
          rs2 = (if current \<and> jc_notification_ready c
                 then rs1\<lparr>rt_samples := bs_insert (tk_run_id t) (rt_samples rs1)\<rparr> else rs1)
      in if will_notify t finished then rs2
         else rs2\<lparr>rt_samples := bs_remove (tk_run_id t) (rt_samples rs2)\<rparr>)"

text \<open>The tail of the arm: what is published or rendered again after the transitions are queued.\<close>

definition rerender_after ::
    "sched_time \<Rightarrow> job_completion \<Rightarrow> bool \<Rightarrow> bool \<Rightarrow> executor \<Rightarrow> executor" where
  "rerender_after at c rerender rendered_page x =
     (let x1 = (if rerender \<and> \<not> list_ex is_tooltip_publish (x_actions x)
                then x_enqueue (RefreshTriggered at (tk_job (jc_ticket c)) Trig_Signal) x else x)
      in if rendered_page \<and> \<not> list_ex is_tooltip_publish (x_actions x1)
         then x_enqueue (TooltipRefreshRequested at) x1 else x1)"

definition complete_job ::
    "commit_effect \<Rightarrow> sched_time \<Rightarrow> sched_time \<Rightarrow> sched_time \<Rightarrow> job_completion \<Rightarrow> executor \<Rightarrow> executor" where
  "complete_job eff boot now at c x =
     (let t = jc_ticket c;
          x0 = x\<lparr>x_runs := bs_remove (tk_run_id t) (x_runs x),
                 x_deciding := remove1 (jid_owner (tk_job t)) (x_deciding x)\<rparr>;
          rerender = (is_current_ticket (x_sched x0) t \<and> jid_kind (tk_job t) = Job_PageRender \<and>
                      \<not> render_input_current (x_runtime x0) c);
          eligible = can_commit (x_runtime x0) (x_sched x0) c;
          (x1, finished) = x_handle (JobFinished at t (jc_completion c)
                             (eligible \<and> jc_notification_ready c)) x0;
          current = (eligible \<and> disposition finished = Accepted);
          jobs_before = (if current then map spec_id (cfg_jobs (rt_config (x_runtime x1))) else []);
          inventory_changed = (current \<and> ce_inventory_changed eff);
          x2 = on_runtime (\<lambda>rs. note_completed c current (actions finished)
                             (if current then commit eff c rs else rs)) x1;
          x3 = (if should_trigger_nvidia_fallback current (jid_kind (tk_job t)) (jc_completion c) finished
                then x_enqueue (RefreshTriggered at (job_singleton Own_Nvidia Job_NvidiaFallback)
                       Trig_Reconnect) x2
                else x2);
          (x4, rest, no_followups) =
            (if inventory_changed then commit_inventory eff at jobs_before (actions finished) x3
             else (x3, actions finished, False));
          replacement_current =
            (case replacement_of (actions finished) of
               Some u \<Rightarrow> is_current_ticket (x_sched x4) u | None \<Rightarrow> False);
          x5 = reconcile_inventory_publication no_followups now boot at
                 (x4\<lparr>x_actions := x_actions x4 @ rest\<rparr>)
      in rerender_after at c (rerender \<and> \<not> replacement_current) (current \<and> jc_rendered_page c) x5)"

definition complete_rescan ::
    "commit_effect \<Rightarrow> sched_time \<Rightarrow> rescan_input \<Rightarrow> executor \<Rightarrow> executor" where
  "complete_rescan eff now r x =
     (if ri_config_generation r = rt_config_generation (x_runtime x) \<and>
         ri_inventory_generation r = rt_inventory_generation (x_runtime x) \<and>
         ri_lifecycle_generation r = x_lifecycle_generation x
      then
        let rs = (if ce_inventory_changed eff then drop_graph (x_runtime x) else x_runtime x);
            generation = generation_next (rt_inventory_generation rs);
            config = ce_config eff;
            x1 = x\<lparr>x_runtime := rs\<lparr>rt_inventory_generation := generation, rt_config := config\<rparr>\<rparr>;
            x2 = x_enqueue (InventoryChanged now
                   \<lparr>inv_generation = generation, inv_jobs = cfg_jobs config,
                    inv_demand = cfg_demand config,
                    resume_acknowledgement = ri_resume_reconciliation r\<rparr>) x1;
            x3 = on_runtime refresh_deferred_first_paint_jobs x2
        in if ce_inventory_changed eff
           then x_enqueue (DisplayRefreshRequested now) (request_selected_graph now x3) else x3
      else if ri_lifecycle_generation r = x_lifecycle_generation x
      then
        let (x', ok) = x_queue Own_Discovery
              (rescan_message Scan_VolatileInventoryAndRoute (ri_resume_reconciliation r) x) x
        in if ok then x' else critical_failure ''owner pending queue'' now x'
      else x)"

text \<open>\<open>applied\<close> is the result of \<open>apply_theme\<close>: whether the read theme selects another style.\<close>

definition complete_theme :: "bool \<Rightarrow> sched_time \<Rightarrow> nat option \<Rightarrow> executor \<Rightarrow> executor" where
  "complete_theme applied now stamp x =
     (if stamp = rt_kde_stamp (x_runtime x) \<and> applied
      then request_selected_graph now (x_enqueue (DisplayRefreshRequested now)
             (on_runtime (\<lambda>rs. drop_graph (rs\<lparr>rt_style_generation :=
                wrapping_succ (rt_style_generation rs)\<rparr>)) x))
      else x)"

definition handle_completion ::
    "commit_effect \<Rightarrow> bool \<Rightarrow> sched_time \<Rightarrow> sched_time \<Rightarrow> sched_time \<Rightarrow> owner_completion \<Rightarrow> executor
      \<Rightarrow> executor" where
  "handle_completion eff applied boot now at completion x =
     (case completion of
        Completed c \<Rightarrow> complete_job eff boot now at c x
      | RunCancelled t \<Rightarrow>
          x_enqueue (JobCancelled now t)
            (on_runtime (clear_graph_render_requested t)
              (x\<lparr>x_runs := bs_remove (tk_run_id t) (x_runs x)\<rparr>))
      | Rescanned r \<Rightarrow> complete_rescan eff now r x
      | ThemeRead stamp _ \<Rightarrow> complete_theme applied now stamp x)"

section \<open>Control\<close>

definition completion_time_after_drain :: "sched_time \<Rightarrow> sched_time \<Rightarrow> sched_time" where
  "completion_time_after_drain received_at observed_after_drain = max received_at observed_after_drain"

definition is_resume_work :: "scheduler_action \<Rightarrow> bool" where
  "is_resume_work a =
     (case a of RescanHardware _ _ \<Rightarrow> True | ResetCounterBaseline _ \<Rightarrow> True | _ \<Rightarrow> False)"

definition is_critical_stop :: "scheduler_action \<Rightarrow> bool" where
  "is_critical_stop a = (case a of Terminate (Some _) \<Rightarrow> True | _ \<Rightarrow> False)"

definition preempt_for_shutdown :: "bool \<Rightarrow> sched_time \<Rightarrow> executor \<Rightarrow> executor" where
  "preempt_for_shutdown requested at x =
     (if \<not> requested \<or> list_ex is_critical_stop (x_actions x) then x
      else
        let x1 = (case x_slot x of
                    Some (Completed c) \<Rightarrow>
                      x\<lparr>x_deciding := remove1 (jid_owner (tk_job (jc_ticket c))) (x_deciding x)\<rparr>
                  | _ \<Rightarrow> x)
        in x_enqueue (Shutdown at) (x1\<lparr>x_slot := None, x_actions := [], x_pending := []\<rparr>))"

definition sleep_duration :: "sched_time \<Rightarrow> sched_time \<Rightarrow> executor \<Rightarrow> duration" where
  "sleep_duration boot now x =
     (let scheduler_sleep =
            (case next_wake (x_sched x) of
               None \<Rightarrow> from_secs 86400
             | Some wake \<Rightarrow> dur_saturating_sub wake now)
      in case rt_deferred_paint (x_runtime x) of
           None \<Rightarrow> scheduler_sleep
         | Some _ \<Rightarrow> min (dur_saturating_sub (dur_saturating_add boot FIRST_PAINT_DEADLINE) now)
                      scheduler_sleep)"

datatype io_event = PrepareForSleep bool | UpowerChanged

definition is_power_job :: "job_id \<Rightarrow> bool" where
  "is_power_job job \<longleftrightarrow>
     jid_kind job = Job_SystemBattery \<or> jid_kind job = Job_PeripheralBattery \<or>
     jid_source job = InventorySource Inv_SystemBattery \<or>
     jid_source job = InventorySource Inv_Peripheral"

text \<open>One event of the batch: the second component collects the actions of the lifecycle events.\<close>

definition process_io_event ::
    "sched_time \<Rightarrow> io_event \<Rightarrow> executor \<times> scheduler_action list \<Rightarrow> executor \<times> scheduler_action list" where
  "process_io_event now ev st =
     (let (x, lifecycle_actions) = st in
      case ev of
        PrepareForSleep True \<Rightarrow>
          let x1 = x\<lparr>x_lifecycle_generation := wrapping_succ (x_lifecycle_generation x),
                     x_actions := filter (\<lambda>a. \<not> is_resume_work a) (x_actions x)\<rparr>;
              (x2, tr) = x_handle (Suspend now) x1
          in (x2, filter (\<lambda>a. \<not> is_resume_work a) lifecycle_actions @ actions tr)
      | PrepareForSleep False \<Rightarrow>
          let (x1, tr) = x_handle (Resume now) x in (x1, lifecycle_actions @ actions tr)
      | UpowerChanged \<Rightarrow>
          (fold (\<lambda>job. x_enqueue (RefreshTriggered now job Trig_PeripheralChanged))
             (filter is_power_job (map spec_id (cfg_jobs (rt_config (x_runtime x))))) x,
           lifecycle_actions))"

definition process_io_events :: "sched_time \<Rightarrow> io_event list \<Rightarrow> executor \<Rightarrow> executor" where
  "process_io_events now evs x =
     (let (x', lifecycle_actions) = fold (process_io_event now) evs (x, [])
      in x'\<lparr>x_actions := lifecycle_actions @ x_actions x'\<rparr>)"

section \<open>The workers\<close>

text \<open>
  \<open>owner_loop\<close>: what a worker does with a message. A run that is no longer valid is answered by
  \<open>RunCancelled\<close>; one that needs the blocking lane waits for it and is checked again. A rescan for an
  older lifecycle generation is dropped; the second check of the generation after the lane would drop
  a rescan whose completion the loop ignores. \<open>light\<close> is the theme read.
\<close>

definition worker_receive :: "bool \<Rightarrow> owner_id \<Rightarrow> owner_message \<Rightarrow> executor \<Rightarrow> executor" where
  "worker_receive light own message x =
     (case message of
        Msg_Run input \<Rightarrow>
          if tk_run_id (ji_ticket input) \<notin> set (x_runs x)
          then x\<lparr>x_completions := x_completions x @ [RunCancelled (ji_ticket input)]\<rparr>
          else if uses_blocking_lane (tk_job (ji_ticket input))
          then x\<lparr>x_waiting := x_waiting x @ [(own, input)]\<rparr>
          else x\<lparr>x_executing := x_executing x @ [(own, input)]\<rparr>
      | Msg_Rescan r \<Rightarrow>
          if ri_lifecycle_generation r \<noteq> x_lifecycle_generation x then x
          else x\<lparr>x_completions := x_completions x @ [Rescanned r]\<rparr>
      | Msg_ReconcileTheme _ stamp \<Rightarrow>
          x\<lparr>x_completions := x_completions x @ [ThemeRead stamp light]\<rparr>
      | _ \<Rightarrow> x)"

definition worker_enter_lane :: "owner_id \<Rightarrow> job_input \<Rightarrow> executor \<Rightarrow> executor" where
  "worker_enter_lane own input x =
     (if tk_run_id (ji_ticket input) \<notin> set (x_runs x)
      then x\<lparr>x_completions := x_completions x @ [RunCancelled (ji_ticket input)]\<rparr>
      else x\<lparr>x_executing := x_executing x @ [(own, input)]\<rparr>)"

definition worker_finish ::
    "completion_kind \<Rightarrow> bool \<Rightarrow> bool \<Rightarrow> owner_id \<Rightarrow> job_input \<Rightarrow> executor \<Rightarrow> executor" where
  "worker_finish completion ready rendered own input x =
     x\<lparr>x_completions := x_completions x @
         [Completed \<lparr>jc_ticket = ji_ticket input, jc_completion = completion,
            jc_notification_ready = ready, jc_rendered_page = rendered,
            jc_style_generation = ji_style_generation input,
            jc_render_generation = ji_render_generation input\<rparr>],
       x_deciding := x_deciding x @ [own]\<rparr>"

definition worker_busy :: "executor \<Rightarrow> owner_id \<Rightarrow> bool" where
  "worker_busy x own \<longleftrightarrow>
     own \<in> fst ` set (x_waiting x) \<or> own \<in> fst ` set (x_executing x) \<or> own \<in> set (x_deciding x)"

section \<open>The loop\<close>

text \<open>
  The loop starts with the startup of the scheduler, the presentation and the selected page. From then
  on it drains its actions, flushes the messages when there are no actions left, takes a completion
  and handles it. Everything else it does (\<open>TimeAdvanced\<close>, the requests of the applet, reloads, file
  changes, failures) raises an event that is no report of a worker and may change the runtime state.
  The clock does not go back, and after \<open>return Err(..)\<close> there is no further step.
\<close>

definition exec_new :: "runtime \<Rightarrow> executor" where
  "exec_new rs =
     \<lparr>x_sched = scheduler_new, x_actions = [], x_pending = [], x_runs = [], x_lifecycle_generation = 0,
      x_slot = None, x_runtime = rs, x_channels = [], x_waiting = [], x_executing = [],
      x_deciding = [], x_completions = [], x_failed = False\<rparr>"

definition exec_start :: "runtime \<Rightarrow> sched_time \<Rightarrow> sched_time \<Rightarrow> bool \<Rightarrow> executor" where
  "exec_start rs boot now presented =
     x_enqueue (SelectedPageChanged now (rt_selected rs))
       (x_enqueue (TooltipPresented now presented)
         (x_enqueue (Startup boot (rt_config rs) (rt_inventory_generation rs)) (exec_new rs)))"

definition is_report :: "scheduler_event \<Rightarrow> bool" where
  "is_report ev = (case ev of JobFinished _ _ _ _ \<Rightarrow> True | JobCancelled _ _ \<Rightarrow> True | _ \<Rightarrow> False)"

inductive exec_step :: "sched_time \<Rightarrow> executor \<Rightarrow> executor \<Rightarrow> bool" for boot where
  step_drain:
    "x_actions x \<noteq> [] \<Longrightarrow> s_now (x_sched x) \<le> le_now env \<Longrightarrow> exec_step boot x (drain_one env x)"
| step_flush:
    "x_actions x = [] \<Longrightarrow> s_now (x_sched x) \<le> now \<Longrightarrow> exec_step boot x (flush_step answer now x)"
| step_take:
    "x_actions x = [] \<Longrightarrow> x_slot x = None \<Longrightarrow> x_completions x = before @ c # after \<Longrightarrow>
     s_now (x_sched x) \<le> at \<Longrightarrow>
     exec_step boot x (x_enqueue (TimeAdvanced at)
       (x\<lparr>x_slot := Some c, x_completions := before @ after\<rparr>))"
| step_complete:
    "x_actions x = [] \<Longrightarrow> x_slot x = Some c \<Longrightarrow> s_now (x_sched x) \<le> now \<Longrightarrow>
     exec_step boot x (handle_completion eff applied boot now
       (completion_time_after_drain received now) c (x\<lparr>x_slot := None\<rparr>))"
| step_deferred:
    "dur_saturating_add boot FIRST_PAINT_DEADLINE \<le> now \<Longrightarrow>
     rt_deferred_paint (x_runtime x) = Some publication \<Longrightarrow>
     exec_step boot x (x\<lparr>x_runtime := (x_runtime x)\<lparr>rt_deferred_paint := None, rt_deferred_jobs := []\<rparr>,
       x_actions := x_actions x @ [deadline_aware_first_paint now boot publication]\<rparr>)"
| step_io:
    "s_now (x_sched x) \<le> now \<Longrightarrow> exec_step boot x (process_io_events now evs x)"
| step_event:
    "\<not> is_report ev \<Longrightarrow> s_now (x_sched x) \<le> event_at ev \<Longrightarrow>
     rt_deferred_paint rs = rt_deferred_paint (x_runtime x) \<Longrightarrow>
     exec_step boot x (x_enqueue ev (x\<lparr>x_runtime := rs\<rparr>))"
| step_queue:
    "message_ticket m = None \<Longrightarrow> exec_step boot x (x_queue_or_fail own m x)"
| step_shutdown:
    "s_now (x_sched x) \<le> at \<Longrightarrow> exec_step boot x (preempt_for_shutdown True at x)"
| step_receive:
    "x_channels x = before @ (own, m) # after \<Longrightarrow> \<not> worker_busy x own \<Longrightarrow>
     exec_step boot x (worker_receive light own m (x\<lparr>x_channels := before @ after\<rparr>))"
| step_enter_lane:
    "x_waiting x = before @ (own, input) # after \<Longrightarrow>
     exec_step boot x (worker_enter_lane own input (x\<lparr>x_waiting := before @ after\<rparr>))"
| step_finish:
    "x_executing x = before @ (own, input) # after \<Longrightarrow>
     exec_step boot x (worker_finish completion ready rendered own input
       (x\<lparr>x_executing := before @ after\<rparr>))"

inductive exec_reachable :: "sched_time \<Rightarrow> executor \<Rightarrow> bool" for boot where
  reach_start:
    "boot \<le> now \<Longrightarrow> rt_deferred_paint rs = None \<Longrightarrow>
     exec_reachable boot (exec_start rs boot now presented)"
| reach_step:
    "exec_reachable boot x \<Longrightarrow> \<not> x_failed x \<Longrightarrow> exec_step boot x y \<Longrightarrow> exec_reachable boot y"

end
