(* ===== verification/SchedTickets.thy ===== *)
theory SchedTickets
  imports SchedGuards
begin

text \<open>
  Where the tickets go in one transition: which ones it starts, which ones it moves from running to
  cancelling and announces with \<open>CancelJob\<close>, and which one a report releases. The executor's queues
  are checked against this account.
\<close>

section \<open>Running and cancelling tickets\<close>

definition flying :: "scheduler \<Rightarrow> job_ticket set" where
  "flying s = {t. \<exists>i. (i, Some t) \<in> set (flights (s_jobs s))}"

definition ending :: "scheduler \<Rightarrow> job_ticket set" where
  "ending s = snd ` set (s_cancelling s)"

lemma abs_owners_eq: "abs_owners s = (flying s, ending s, bm_get (s_in_flight_owners s), s_next_run_id s)"
  by (simp add: flying_def ending_def view_def)

lemma held_eq: "held s = flying s \<union> ending s"
  by (simp add: held_tickets abs_owners_eq)

lemma flying_view: "view s = view s' \<Longrightarrow> flying s = flying s'"
  by (simp add: flying_def view_def)

lemma ending_view: "view s = view s' \<Longrightarrow> ending s = ending s'"
  by (simp add: ending_def view_def)

lemma flying_iff: "t \<in> flying s \<longleftrightarrow> (\<exists>i rt. (i, rt) \<in> set (s_jobs s) \<and> in_flight rt = Some t)"
  by (auto simp: flying_def flights_in; metis)

definition cancels :: "scheduler_action list \<Rightarrow> job_ticket list" where
  "cancels acts = List.map_filter (\<lambda>a. case a of CancelJob t _ \<Rightarrow> Some t | _ \<Rightarrow> None) acts"

lemma cancels_simps [simp]:
  "cancels [] = []" "cancels (xs @ ys) = cancels xs @ cancels ys"
  "cancels (a # acts) = (case a of CancelJob t _ \<Rightarrow> t # cancels acts | _ \<Rightarrow> cancels acts)"
  by (simp_all add: cancels_def List.map_filter_def split: scheduler_action.split)

lemma in_cancels: "t \<in> set (cancels acts) \<longleftrightarrow> (\<exists>r. CancelJob t r \<in> set acts)"
  by (induction acts) (auto split: scheduler_action.splits)

lemma cancels_kind: "cancels acts = cancels (by_kind 1 acts)"
  by (induction acts) (auto split: scheduler_action.split)

lemma cancels_sort [simp]: "cancels (sort_actions acts) = cancels acts"
  by (metis cancels_kind by_kind_sort)

lemma cancels_map: "cancels (map (\<lambda>t. CancelJob t r) ts) = ts"
  by (induction ts) simp_all

text \<open>An operation that starts and releases nothing: some tickets move, each with its announcement.\<close>

definition moved :: "sched_io \<Rightarrow> sched_io \<Rightarrow> bool" where
  "moved a b \<longleftrightarrow>
     (view_ok (view (fst a)) \<longrightarrow>
        view_ok (view (fst b)) \<and>
        (\<exists>ts. cancels (snd b) = cancels (snd a) @ ts \<and> distinct ts \<and> set ts \<subseteq> flying (fst a) \<and>
           flying (fst b) = flying (fst a) - set ts \<and> ending (fst b) = ending (fst a) \<union> set ts))"

lemma moved_same:
  assumes "view (fst b) = view (fst a)" "cancels (snd b) = cancels (snd a)"
  shows "moved a b"
  using assms flying_view [OF assms(1)] ending_view [OF assms(1)] by (simp add: moved_def)

lemma moved_refl [simp]: "moved a a"
  by (rule moved_same) simp_all

lemma moved_trans:
  assumes "moved a b" "moved b c"
  shows "moved a c"
  unfolding moved_def
proof
  assume ok: "view_ok (view (fst a))"
  obtain ts where ts: "view_ok (view (fst b))" "cancels (snd b) = cancels (snd a) @ ts" "distinct ts"
    "set ts \<subseteq> flying (fst a)" "flying (fst b) = flying (fst a) - set ts"
    "ending (fst b) = ending (fst a) \<union> set ts"
    using assms(1) ok unfolding moved_def by blast
  obtain us where us: "view_ok (view (fst c))" "cancels (snd c) = cancels (snd b) @ us" "distinct us"
    "set us \<subseteq> flying (fst b)" "flying (fst c) = flying (fst b) - set us"
    "ending (fst c) = ending (fst b) \<union> set us"
    using assms(2) ts(1) unfolding moved_def by blast
  have "cancels (snd c) = cancels (snd a) @ (ts @ us)" "distinct (ts @ us)"
    "set (ts @ us) \<subseteq> flying (fst a)" "flying (fst c) = flying (fst a) - set (ts @ us)"
    "ending (fst c) = ending (fst a) \<union> set (ts @ us)"
    using ts us by auto
  with us(1) show "view_ok (view (fst c)) \<and>
        (\<exists>ts. cancels (snd c) = cancels (snd a) @ ts \<and> distinct ts \<and> set ts \<subseteq> flying (fst a) \<and>
           flying (fst c) = flying (fst a) - set ts \<and> ending (fst c) = ending (fst a) \<union> set ts)"
    by blast
qed

lemma tickets_where_flights:
  "tickets_where P jobs = List.map_filter (\<lambda>(i, f). if P i then f else None) (flights jobs)"
  by (induction jobs) (auto simp: tickets_where_def flights_def bm_map_def split: option.split)

lemma distinct_filtered:
  assumes "distinct (map fst fl)" "\<And>i t. (i, Some t) \<in> set fl \<Longrightarrow> tk_job t = i"
  shows "distinct (List.map_filter (\<lambda>(i, f). if P i then f else None) fl)"
  using assms
proof (induction fl)
  case (Cons p fl)
  have "t \<notin> set (List.map_filter (\<lambda>(i, f). if P i then f else None) fl)" if "snd p = Some t" for t
  proof
    assume "t \<in> set (List.map_filter (\<lambda>(i, f). if P i then f else None) fl)"
    then obtain i where i: "(i, Some t) \<in> set fl" by (auto simp: map_filter_in split: if_splits)
    have "p = (fst p, Some t)" using that by (cases p) simp
    then have "i = fst p" using Cons.prems(2) [of i t] Cons.prems(2) [of "fst p" t] i
      by (metis list.set_intros)
    then show False using Cons.prems(1) i by (metis distinct.simps(2) fst_conv image_eqI list.simps(9) list.set_map)
  qed
  then show ?case using Cons by (cases p) (auto simp: List.map_filter_simps split: option.split)
qed (simp add: List.map_filter_simps)

lemma moved_cancel: "moved io (cancel_in_flight P r io)"
  unfolding moved_def
proof
  assume ok: "view_ok (view (fst io))"
  obtain s acts where io: "io = (s, acts)" by (cases io)
  let ?b = "fst (cancel_in_flight P r io)" and ?ts = "tickets_where P (s_jobs s)"
  have key: "(i, Some t) \<in> set (flights (s_jobs s)) \<Longrightarrow> tk_job t = i" for i t
    using ok by (auto simp: io view_ok_def view_def)
  have ts: "t \<in> set ?ts \<longleftrightarrow> (\<exists>i. (i, Some t) \<in> set (flights (s_jobs s)) \<and> P i)" for t
    by (force simp: tickets_where_flights map_filter_in split: if_splits)
  have "bm_wf (flights (s_jobs s))" using ok by (simp add: io view_ok_def view_def)
  then have "distinct ?ts"
    unfolding tickets_where_flights by (intro distinct_filtered) (simp_all add: bm_wf_distinct key)
  moreover have "flights (s_jobs ?b) = bm_map (\<lambda>i f. if P i then None else f) (flights (s_jobs s))"
    by (auto simp: io cancel_in_flight_def Let_def flights_def bm_map_bm_map bm_map_def)
  then have "flying ?b = flying s - set ?ts"
    using key by (auto simp: flying_def ts bm_map_in split: if_splits; blast)
  moreover have ok2: "wf_view (cancel_view P (view s)) \<and>
      own_steps (abs_view (view s)) [] (abs_view (cancel_view P (view s)))"
    using cancel_view_ok [OF ok, of P] by (simp add: io)
  then have "view_ok (view ?b)"
    using own_safe_steps [of "abs_view (view s)" "[]"] ok
    by (simp add: view_cancel view_ok_def io)
  moreover have "ending ?b = ending s \<union> set ?ts"
  proof -
    have safe: "own_safe (flying s, ending s, bm_get (s_in_flight_owners s), s_next_run_id s)"
      using ok by (simp add: io view_ok_def abs_owners_eq)
    have sub: "set ?ts \<subseteq> flying s" by (auto simp: ts flying_def)
    have canc: "bm_wf (s_cancelling s)" "\<And>p. p \<in> set (s_cancelling s) \<Longrightarrow> tk_run_id (snd p) = fst p"
      using ok by (auto simp: io view_ok_def view_def)
    have inj: "inj_on tk_run_id (flying s \<union> ending s)" using safe by (simp add: own_safe.simps)
    have "snd p = t" if "p \<in> set (s_cancelling s)" "t \<in> set ?ts" "fst p = tk_run_id t" for p t
      using that canc(2) [of p] sub by (intro inj_onD [OF inj]) (auto simp: ending_def)
    moreover have "inj_on tk_run_id (set ?ts)" by (rule inj_on_subset [OF inj]) (use sub in auto)
    ultimately have "set (s_cancelling ?b) = set (s_cancelling s) \<union> (\<lambda>t. (tk_run_id t, t)) ` set ?ts"
      using fold_insert_tickets [OF canc(1), of ?ts] by (simp add: io cancel_in_flight_def Let_def)
    then show ?thesis by (force simp: ending_def)
  qed
  moreover have "cancels (snd (cancel_in_flight P r io)) = cancels acts @ ?ts"
    by (simp add: io cancel_in_flight_def Let_def cancels_map)
  moreover have "set ?ts \<subseteq> flying s" by (auto simp: ts flying_def)
  ultimately show "view_ok (view ?b) \<and>
        (\<exists>ts. cancels (snd (cancel_in_flight P r io)) = cancels (snd io) @ ts \<and> distinct ts \<and>
           set ts \<subseteq> flying (fst io) \<and> flying ?b = flying (fst io) - set ts \<and>
           ending ?b = ending (fst io) \<union> set ts)"
    by (auto simp: io)
qed

section \<open>The operations that only move tickets\<close>

lemma cancels_by_kind: "by_kind 1 acts = by_kind 1 acts' \<Longrightarrow> cancels acts = cancels acts'"
  by (metis cancels_kind)

lemma cancels_publish [simp]: "cancels (snd (issue_publish r d k p t io)) = cancels (snd io)"
  by (rule cancels_by_kind) simp

lemma cancels_first_paint [simp]: "cancels (snd (issue_first_paint r io)) = cancels (snd io)"
  by (rule cancels_by_kind) simp

lemma cancels_map_silent [simp]: "(\<And>x t r. f x \<noteq> CancelJob t r) \<Longrightarrow> cancels (map f xs) = []"
  by (induction xs) (auto split: scheduler_action.split)

lemma cancels_replace: "cancels (snd (replace_jobs specs c io)) = cancels (snd (cancel_all c io))"
proof -
  have "cancels (snd (snd (fold (replace_one s d c) specs st))) = cancels (snd (snd st))" for s d st
    using by_kind_replace_fold [of 1] by (intro cancels_by_kind) simp
  then show ?thesis
    by (simp add: replace_jobs_def Let_def case_prod_unfold)
qed

lemma moved_after_same:
  "view (fst b) = view (fst a) \<Longrightarrow> cancels (snd b) = cancels (snd a) \<Longrightarrow> moved b c \<Longrightarrow> moved a c"
  using moved_same moved_trans by blast

lemma moved_then_same:
  "moved a b \<Longrightarrow> view (fst c) = view (fst b) \<Longrightarrow> cancels (snd c) = cancels (snd b) \<Longrightarrow> moved a c"
  using moved_same moved_trans by blast

lemma moved_refresh_demand: "moved io (refresh_demand x io)"
  unfolding refresh_demand_def Let_def
  by (rule moved_after_same [OF _ _ moved_cancel]) (simp_all add: on_state_def)

lemma moved_demand_ended: "moved io (cancel_demand_ended b a io)"
  unfolding cancel_demand_ended_def Let_def
  by (rule moved_after_same [OF _ _ moved_cancel]) (simp_all add: on_state_def)

lemma flying_idle: "idle (s_jobs s) \<Longrightarrow> flying s = {}"
  by (force simp: flying_iff idle_def)

lemma moved_replace: "moved io (replace_jobs specs r io)"
proof -
  let ?c = "cancel_all r io" and ?r = "replace_jobs specs r io"
  have c: "moved io ?c" by (simp add: cancel_all_def moved_cancel)
  note r = replace_jobs_result [of specs r io]
  have "moved ?c ?r"
    unfolding moved_def
  proof
    assume "view_ok (view (fst ?c))"
    then have wf: "wf_view (view (fst ?c))" and safe: "own_safe (abs_view (view (fst ?c)))"
      by (simp_all add: view_ok_def)
    have eq: "wf_view (view (fst ?r)) \<and> abs_owners (fst ?r) = abs_owners (fst ?c)"
      using r wf by (intro view_idle) (simp_all add: idle_cancel_all)
    then have "view_ok (view (fst ?r))" using safe by (simp add: view_ok_def)
    moreover have "flying (fst ?r) = flying (fst ?c)" "ending (fst ?r) = ending (fst ?c)"
      using eq by (simp_all add: abs_owners_eq)
    ultimately show "view_ok (view (fst ?r)) \<and>
        (\<exists>ts. cancels (snd ?r) = cancels (snd ?c) @ ts \<and> distinct ts \<and> set ts \<subseteq> flying (fst ?c) \<and>
           flying (fst ?r) = flying (fst ?c) - set ts \<and> ending (fst ?r) = ending (fst ?c) \<union> set ts)"
      by (auto simp: cancels_replace)
  qed
  with c show ?thesis by (rule moved_trans)
qed

lemma moved_state: "(\<And>s. view (f s) = view s) \<Longrightarrow> moved a b \<Longrightarrow> moved a (on_state f b)"
  by (erule moved_then_same) (simp_all add: on_state_def)

lemma moved_push: "(\<And>t r. x \<noteq> CancelJob t r) \<Longrightarrow> moved a b \<Longrightarrow> moved a (push x b)"
  by (erule moved_then_same) (auto simp: push_def split: scheduler_action.split)

lemma moved_pair: "moved a (s, acts) \<Longrightarrow> view s' = view s \<Longrightarrow> moved a (s', acts)"
  by (erule moved_then_same) simp_all

lemma moved_ops:
  assumes "moved a b"
  shows "moved a (issue_publish r d k p t b)" "moved a (issue_first_paint r b)"
    "moved a (cancel_in_flight P c b)" "moved a (cancel_all c b)"
    "moved a (refresh_demand x b)" "moved a (cancel_demand_ended m n b)"
    "moved a (replace_jobs specs c b)"
proof -
  show "moved a (issue_publish r d k p t b)" "moved a (issue_first_paint r b)"
    using assms by (rule moved_then_same; simp)+
  show "moved a (cancel_in_flight P c b)" "moved a (cancel_all c b)"
    unfolding cancel_all_def using assms moved_cancel by (rule moved_trans)+
  show "moved a (refresh_demand x b)" using assms moved_refresh_demand by (rule moved_trans)
  show "moved a (cancel_demand_ended m n b)" using assms moved_demand_ended by (rule moved_trans)
  show "moved a (replace_jobs specs c b)" using assms moved_replace by (rule moved_trans)
qed

lemmas moved_chain = moved_state moved_push moved_ops


lemma moved_rebuild: "moved a b \<Longrightarrow> moved a (rebuild_first_paint_blockers b)"
  by (cases b) (auto simp: rebuild_first_paint_blockers_def Let_def
      intro!: moved_ops intro: moved_pair)

lemma moved_activation: "moved a b \<Longrightarrow> moved a (refresh_activation b)"
  by (cases b) (auto simp: refresh_activation_def Let_def intro!: moved_ops intro: moved_pair)

lemma moved_tick:
  assumes "moved a b"
  shows "moved a (tick b)"
proof -
  have deactivation: "moved a b \<Longrightarrow> moved a (pt_deactivation b)" for b
    by (cases b) (auto simp: pt_deactivation_def Let_def intro!: moved_ops intro: moved_pair)
  have first: "moved a b \<Longrightarrow> moved a (pt_first_paint b)" for b
    by (simp add: pt_first_paint_def Let_def moved_ops)
  have activation: "moved a b \<Longrightarrow> moved a (pt_activation b)" for b
    by (cases b) (auto simp: pt_activation_def intro!: moved_ops intro: moved_pair)
  have display: "moved a b \<Longrightarrow> moved a (pt_display b)" for b
    by (auto simp: pt_display_def Let_def intro!: moved_chain split: option.split)
  have jobs: "moved a b \<Longrightarrow> moved a (pt_jobs b)" for b
    by (auto simp: pt_jobs_def Let_def intro!: moved_state)
  show ?thesis using assms
    by (simp add: tick_def process_time_def deactivation first activation display jobs)
qed

lemma moved_handlers:
  assumes "moved a b"
  shows "moved a (change_inventory update b)" "moved a (change_demand d b)"
    "moved a (change_presentation p b)" "moved a (change_page g b)"
    "moved a (reconfigure config r b)" "moved a (suspend b)" "moved a (stop r component b)"
    "moved a (resume b)"
proof -
  show "moved a (change_inventory update b)" "moved a (change_page g b)"
    "moved a (reconfigure config r b)" "moved a (suspend b)" "moved a (stop r component b)"
    using assms by (auto simp: change_inventory_def change_page_def reconfigure_def suspend_def
        stop_def Let_def intro!: moved_chain)
  show "moved a (change_demand d b)"
    using assms by (auto simp: change_demand_def Let_def intro!: moved_chain moved_rebuild)
  show "moved a (change_presentation p b)"
    using assms by (cases b) (auto simp: change_presentation_def Let_def
        intro!: moved_activation intro: moved_pair)
  show "moved a (resume b)"
    using assms by (cases b)
      (auto simp: resume_def view_resume_clocks Let_def elim!: moved_then_same)
qed

section \<open>Releases and starts\<close>

text \<open>What a report takes out: the ticket it names, from the running or from the cancelling ones.\<close>

definition released :: "job_ticket set \<Rightarrow> sched_io \<Rightarrow> sched_io \<Rightarrow> bool" where
  "released R a b \<longleftrightarrow> cancels (snd b) = cancels (snd a) \<and> R \<subseteq> held (fst a) \<and>
     flying (fst b) = flying (fst a) - R \<and> ending (fst b) = ending (fst a) - R"

lemma released_none:
  "view (fst b) = view (fst a) \<Longrightarrow> cancels (snd b) = cancels (snd a) \<Longrightarrow> released {} a b"
  using flying_view [of "fst b" "fst a"] ending_view [of "fst b" "fst a"] by (simp add: released_def)

lemma flying_ending_disjoint: "view_ok (view s) \<Longrightarrow> flying s \<inter> ending s = {}"
proof -
  assume "view_ok (view s)"
  then have "own_safe (flying s, ending s, bm_get (s_in_flight_owners s), s_next_run_id s)"
    by (simp only: view_ok_def abs_owners_eq)
  then show ?thesis by (simp only: own_safe.simps)
qed

lemma released_then_same:
  "released R a b \<Longrightarrow> view (fst c) = view (fst b) \<Longrightarrow> cancels (snd c) = cancels (snd b)
     \<Longrightarrow> released R a c"
  using flying_view [of "fst c" "fst b"] ending_view [of "fst c" "fst b"] by (simp add: released_def)

lemma finished_accounts:
  assumes ok: "view_ok (view s)"
    and job: "bm_get (s_jobs s) (tk_job t) = Some rt" "in_flight rt = Some t"
  shows "released {t} (s, acts) (release_finished t c s, acts)"
proof -
  let ?fl = "flights (s_jobs s)"
  have wf: "wf_view (view s)" using ok by (simp add: view_ok_def)
  then have key: "(i, Some u) \<in> set ?fl \<Longrightarrow> tk_job u = i" for i u by (auto simp: view_def)
  have t: "(tk_job t, Some t) \<in> set ?fl" using job by (metis bm_get_in flights_in)
  have uniq: "(tk_job t, Some u) \<in> set ?fl \<Longrightarrow> u = t" for u
    using wf t by (simp add: view_def) (metis bm_get_iff fst_flights option.inject)
  have "flights (s_jobs (release_finished t c s)) = bm_modify (tk_job t) (\<lambda>_. None) ?fl"
    using view_finished [of t c s] by (simp add: view_def)
  then have "(i, Some u) \<in> set (flights (s_jobs (release_finished t c s))) \<longleftrightarrow>
      (i, Some u) \<in> set ?fl \<and> i \<noteq> tk_job t" for i u
    by (auto simp: bm_modify_in)
  then have "flying (release_finished t c s) = flying s - {t}"
    using key uniq t unfolding flying_def by blast
  moreover have tf: "t \<in> flying s" using t by (auto simp: flying_def)
  moreover have "ending (release_finished t c s) = ending s - {t}"
    using flying_ending_disjoint [OF ok] tf by (auto simp: ending_def release_finished_def Let_def)
  ultimately show ?thesis by (simp add: released_def held_eq)
qed

lemma finish_job_rejected: "\<not> fst (finish_job t c ready io) \<Longrightarrow> snd (finish_job t c ready io) = io"
  by (cases io) (auto simp: finish_job_def Let_def split: if_splits option.splits)

lemma finish_job_accounts:
  assumes ok: "view_ok (view (fst io))"
  shows "released (if fst (finish_job t c ready io) then {t} else {}) io
           (snd (finish_job t c ready io))"
proof (cases "fst (finish_job t c ready io)")
  case True
  obtain s acts where io: "io = (s, acts)" by (cases io)
  obtain rt where rt: "bm_get (s_jobs s) (tk_job t) = Some rt" "in_flight rt = Some t"
    using True by (auto simp: io finish_job_def Let_def split: if_splits option.splits)
  have rel: "released {t} (s, acts) (release_finished t c s, acts)"
    by (rule finished_accounts [OF _ rt]) (use ok in \<open>simp add: io\<close>)
  have "cancels (backoff_actions c n i rt) = []" for n i
    by (simp add: backoff_actions_def Let_def)
  moreover have "cancels (snd (clear_histories i a)) = cancels (snd a)"
    "cancels (snd (settle_waits a)) = cancels (snd a)" for i a
    by (simp_all add: clear_histories_def settle_waits_def on_state_def Let_def split: prod.split)
  ultimately have "view (fst (snd (finish_job t c ready io))) = view (release_finished t c s)"
    "cancels (snd (snd (finish_job t c ready io))) = cancels acts"
    using True rt by (auto simp: io finish_job_def Let_def split: if_splits)
  then show ?thesis
    using released_then_same [OF rel, of "snd (finish_job t c ready io)"] True by (simp add: io)
next
  case False
  then have "snd (finish_job t c ready io) = io" by (rule finish_job_rejected)
  then show ?thesis using False by (simp add: released_none)
qed

lemma flying_get:
  assumes "view_ok (view s)" "t \<in> flying s"
  obtains rt where "bm_get (s_jobs s) (tk_job t) = Some rt" "in_flight rt = Some t"
proof -
  have wf: "bm_wf (flights (s_jobs s))" and key: "(i, Some t) \<in> set (flights (s_jobs s)) \<Longrightarrow> tk_job t = i" for i
    using assms(1) by (auto simp: view_ok_def view_def)
  obtain rt where "(tk_job t, rt) \<in> set (s_jobs s)" "in_flight rt = Some t"
    using assms(2) key by (force simp: flying_def flights_in)
  moreover have "bm_wf (s_jobs s)" using wf by simp
  ultimately show ?thesis using that by (simp add: bm_get_iff)
qed

lemma finish_job_current:
  fixes io :: sched_io
  assumes "view_ok (view (fst io))" "t \<in> flying (fst io)" "\<not> fst (finish_job t c ready io)"
  shows "tk_config_generation t \<noteq> s_config_generation (fst io) \<or>
    tk_inventory_generation t \<noteq> s_inventory_generation (fst io)"
proof -
  obtain s acts where io: "io = (s, acts)" by (cases io)
  obtain rt where "bm_get (s_jobs s) (tk_job t) = Some rt" "in_flight rt = Some t"
    using flying_get assms(1,2) by (auto simp: io)
  then show ?thesis using assms(3) by (auto simp: io finish_job_def Let_def split: if_splits)
qed

lemma ending_get: "view_ok (view s) \<Longrightarrow> t \<in> ending s \<longleftrightarrow> bm_get (s_cancelling s) (tk_run_id t) = Some t"
proof -
  assume "view_ok (view s)"
  then have wf: "bm_wf (s_cancelling s)" and key: "(r, u) \<in> set (s_cancelling s) \<Longrightarrow> tk_run_id u = r" for r u
    by (auto simp: view_ok_def view_def)
  show ?thesis using key by (force simp: bm_get_iff [OF wf] ending_def)
qed

lemma cancellation_accounts:
  assumes ok: "view_ok (view (fst io))"
  shows "released (if fst (finish_cancellation t io) then {t} else {}) io
           (snd (finish_cancellation t io)) \<and>
         (fst (finish_cancellation t io) \<longleftrightarrow> t \<in> ending (fst io))"
proof -
  obtain s acts where io: "io = (s, acts)" by (cases io)
  have wf: "bm_wf (s_cancelling s)" and key: "\<And>r u. (r, u) \<in> set (s_cancelling s) \<Longrightarrow> tk_run_id u = r"
    using ok by (auto simp: io view_ok_def view_def)
  have iff: "bm_get (s_cancelling s) (tk_run_id t) = Some t \<longleftrightarrow> t \<in> ending s"
    using ending_get [of s t] ok by (simp add: io)
  have uniq: "(tk_run_id t, u) \<in> set (s_cancelling s) \<Longrightarrow> t \<in> ending s \<Longrightarrow> u = t" for u
    using iff by (metis bm_get_iff [OF wf] option.inject)
  show ?thesis
  proof (cases "t \<in> ending s")
    case True
    then have get: "bm_get (s_cancelling s) (tk_run_id t) = Some t" using iff by simp
    let ?s = "fst (snd (finish_cancellation t io))"
    have eq: "s_cancelling ?s = bm_remove (tk_run_id t) (s_cancelling s)" "s_jobs ?s = s_jobs s"
      "snd (snd (finish_cancellation t io)) = acts" "fst (finish_cancellation t io)"
      using get by (simp_all add: io finish_cancellation_def Let_def)
    have "p \<in> set (s_cancelling s) \<Longrightarrow> fst p \<noteq> tk_run_id t \<longleftrightarrow> snd p \<noteq> t" for p
      using key [of "fst p" "snd p"] uniq [of "snd p"] True by (cases p) auto
    then have "set (s_cancelling ?s) = {p \<in> set (s_cancelling s). snd p \<noteq> t}"
      unfolding eq set_bm_remove by blast
    then have "ending ?s = ending s - {t}" by (auto simp: ending_def)
    moreover have "flying ?s = flying s - {t}"
      using True flying_ending_disjoint [of s] ok by (auto simp: flying_def eq io)
    ultimately show ?thesis using True eq by (simp add: released_def held_eq io)
  next
    case False
    then show ?thesis using iff by (simp add: io finish_cancellation_def released_none)
  qed
qed

text \<open>A dispatch adds its tickets and moves none.\<close>

definition launches :: "sched_io \<Rightarrow> sched_io \<Rightarrow> bool" where
  "launches a b \<longleftrightarrow>
     (view_ok (view (fst a)) \<longrightarrow> s_next_run_id (fst b) < u64_max \<longrightarrow>
        (\<exists>ts. starts (snd b) = starts (snd a) @ ts \<and> cancels (snd b) = cancels (snd a) \<and>
           flying (fst b) = flying (fst a) \<union> set ts \<and> ending (fst b) = ending (fst a)))"

lemma launches_one:
  assumes "i \<in> fst ` set (s_jobs (fst io))"
  shows "launches io (dispatch_one i io)"
proof -
  obtain s acts where io: "io = (s, acts)" by (cases io)
  obtain rt where rt: "bm_get (s_jobs s) i = Some rt"
    using assms by (auto simp: io bm_get_def dest!: weak_map_of_SomeI)
  show ?thesis
  proof (cases "bm_contains (s_in_flight_owners s) (jid_owner i)")
    case True
    then show ?thesis by (simp add: io dispatch_one_def launches_def)
  next
    case False
    show ?thesis
      unfolding launches_def
    proof (intro impI)
      assume ok: "view_ok (view (fst io))"
      obtain t where t: "tk_run_id t = s_next_run_id s" "tk_job t = i" and
        eq: "dispatch_one i (s, acts) =
         (s\<lparr>s_next_run_id := u64_saturating_add (s_next_run_id s) 1,
            s_jobs := bm_modify i
              (\<lambda>rt. rt\<lparr>pending_history_deadline := None, pending_since := None,
                       in_flight := Some t\<rparr>) (s_jobs s),
            s_in_flight_owners :=
              bm_insert (jid_owner i) (s_next_run_id s) (s_in_flight_owners s)\<rparr>,
          acts @ [StartJob t])"
        by (rule dispatch_one_free [OF False rt])
      have none: "bm_get (s_in_flight_owners s) (jid_owner i) = None"
        using False by (simp add: bm_contains_def bm_get_def map_of_eq_None_iff)
      have safe: "own_safe (flying s, ending s, bm_get (s_in_flight_owners s), s_next_run_id s)"
        using ok by (simp add: io view_ok_def abs_owners_eq)
      have key: "(j, Some u) \<in> set (flights (s_jobs s)) \<Longrightarrow> tk_job u = j" for j u
        using ok by (auto simp: io view_ok_def view_def)
      have other: "u \<in> flying s \<Longrightarrow> tk_job u \<noteq> i" for u
        using own_safe_owner [OF safe, of u] none by auto
      have i: "\<exists>rt. (i, rt) \<in> set (s_jobs s)" using rt bm_get_in by metis
      have "u \<in> flying (fst (dispatch_one i io)) \<longleftrightarrow> u = t \<or> (u \<in> flying s \<and> tk_job u \<noteq> i)" for u
      proof -
        have fl: "flights (s_jobs (fst (dispatch_one i io))) =
            bm_modify i (\<lambda>_. Some t) (flights (s_jobs s))"
          by (auto simp: io eq flights_def bm_modify_def bm_map_bm_map bm_map_def)
        have "(j, Some u) \<in> set (bm_modify i (\<lambda>_. Some t) (flights (s_jobs s))) \<longleftrightarrow>
            j = i \<and> u = t \<or> j \<noteq> i \<and> (j, Some u) \<in> set (flights (s_jobs s))" for j
          using i by (auto simp: bm_modify_in flights_in)
        then have "u \<in> flying (fst (dispatch_one i io)) \<longleftrightarrow>
            u = t \<or> (\<exists>j. j \<noteq> i \<and> (j, Some u) \<in> set (flights (s_jobs s)))"
          by (simp add: flying_def fl) blast
        moreover have "(\<exists>j. j \<noteq> i \<and> (j, Some u) \<in> set (flights (s_jobs s))) \<longleftrightarrow>
            u \<in> flying s \<and> tk_job u \<noteq> i"
          using key [of _ u] by (auto simp: flying_def)
        ultimately show ?thesis by simp
      qed
      then have "flying (fst (dispatch_one i io)) = insert t (flying s)" using other by blast
      then show "\<exists>ts. starts (snd (dispatch_one i io)) = starts (snd io) @ ts \<and>
          cancels (snd (dispatch_one i io)) = cancels (snd io) \<and>
          flying (fst (dispatch_one i io)) = flying (fst io) \<union> set ts \<and>
          ending (fst (dispatch_one i io)) = ending (fst io)"
        by (intro exI [of _ "[t]"]) (auto simp: io eq ending_def)
    qed
  qed
qed

lemma launches_refl [simp]: "launches a a"
  by (simp add: launches_def)

lemma launches_trans:
  assumes "launches a b" "launches b c" "own_sim a b" "own_sim b c"
  shows "launches a c"
  unfolding launches_def
proof (intro impI)
  assume ok: "view_ok (view (fst a))" and left: "runs_left (fst c)"
  have mid: "runs_left (fst b)" "view_ok (view (fst b))"
    using assms(3,4) ok left by (simp_all add: own_sim_def)
  obtain ts where ts: "starts (snd b) = starts (snd a) @ ts" "cancels (snd b) = cancels (snd a)"
    "flying (fst b) = flying (fst a) \<union> set ts" "ending (fst b) = ending (fst a)"
    using assms(1) ok mid(1) unfolding launches_def by blast
  obtain us where us: "starts (snd c) = starts (snd b) @ us" "cancels (snd c) = cancels (snd b)"
    "flying (fst c) = flying (fst b) \<union> set us" "ending (fst c) = ending (fst b)"
    using assms(2) mid(2) left unfolding launches_def by blast
  show "\<exists>ts. starts (snd c) = starts (snd a) @ ts \<and> cancels (snd c) = cancels (snd a) \<and>
      flying (fst c) = flying (fst a) \<union> set ts \<and> ending (fst c) = ending (fst a)"
    by (intro exI [of _ "ts @ us"]) (simp add: ts us Un_assoc)
qed

lemma launches_fold:
  "set is \<subseteq> fst ` set (s_jobs (fst io)) \<Longrightarrow> launches io (fold dispatch_one is io)"
proof (induction "is" arbitrary: io)
  case (Cons i js)
  have sub: "set js \<subseteq> fst ` set (s_jobs (fst (dispatch_one i io)))"
    using keys_dispatch_one [of i io] Cons.prems by (metis insert_subset list.simps(15) set_map)
  have "i \<in> fst ` set (s_jobs (fst io))" using Cons.prems by simp
  then show ?case
    using launches_trans [OF launches_one Cons.IH [OF sub] own_sim_dispatch_one
        own_sim_dispatch_fold [OF sub]] by simp
qed simp

lemma launches_dispatch: "launches io (dispatch io)"
  unfolding dispatch_def Let_def using launches_fold [OF candidates_jobs] by simp

section \<open>The account of a transition\<close>

lemma moved_startup:
  assumes "s_lifecycle (fst io) = Unstarted \<longrightarrow> s_jobs (fst io) = []"
  shows "moved io (snd (startup config g io))"
proof -
  obtain s acts where io: "io = (s, acts)" by (cases io)
  let ?t = "startup_jobs config g s"
  have wf: "bm_wf (s_jobs ?t)" by (simp add: startup_jobs_def Let_def)
  have "bm_get (s_jobs ?t) i = Some rt \<Longrightarrow> in_flight rt = None" for i rt
    by (auto simp: startup_jobs_def Let_def bm_get_collect dest!: map_of_SomeD)
  then have idle: "idle (s_jobs ?t)"
    using bm_get_iff [OF wf] by (force simp: idle_def)
  have "moved io (?t, acts)" if un: "s_lifecycle s = Unstarted"
    unfolding moved_def
  proof
    assume ok: "view_ok (view (fst io))"
    have jobs: "s_jobs s = []" using assms un by (simp add: io)
    have eq: "wf_view (view ?t) \<and> abs_owners ?t = abs_owners s"
      using ok jobs by (intro view_idle [OF wf idle])
        (simp_all add: view_ok_def io idle_def startup_jobs_def Let_def)
    then have "view_ok (view ?t)" using ok by (simp add: view_ok_def io)
    moreover have "flying ?t = flying s" "ending ?t = ending s"
      using eq by (simp_all add: abs_owners_eq)
    ultimately show "view_ok (view (fst (?t, acts))) \<and>
        (\<exists>ts. cancels (snd (?t, acts)) = cancels (snd io) @ ts \<and> distinct ts \<and>
           set ts \<subseteq> flying (fst io) \<and> flying (fst (?t, acts)) = flying (fst io) - set ts \<and>
           ending (fst (?t, acts)) = ending (fst io) \<union> set ts)"
      by (simp add: io)
  qed
  then have "moved io (startup_pending ?t, acts)" if "s_lifecycle s = Unstarted"
    using that moved_pair by simp
  then show ?thesis by (auto simp: io startup_def Let_def intro!: moved_ops)
qed

text \<open>
  \<open>booked R a b\<close>: from \<open>a\<close> to \<open>b\<close> some tickets moved with their announcement, then the tickets of
  \<open>R\<close> were released.
\<close>

definition booked :: "job_ticket set \<Rightarrow> sched_io \<Rightarrow> sched_io \<Rightarrow> bool" where
  "booked R a b \<longleftrightarrow> (\<exists>m. moved a m \<and> released R m b)"

lemma bookedI: "moved a m \<Longrightarrow> released R m b \<Longrightarrow> booked R a b"
  unfolding booked_def by (rule exI [of _ m]) simp

lemma booked_moved: "moved a b \<Longrightarrow> booked {} a b"
  unfolding booked_def using released_none [of b b] by blast

lemma event_booked:
  fixes ev :: scheduler_event and io :: sched_io
  assumes ok: "view_ok (view (fst io))" "s_lifecycle (fst io) = Unstarted \<longrightarrow> s_jobs (fst io) = []"
  defines "r \<equiv> handle_event ev io"
  shows "\<exists>R. booked R io (snd r) \<and> (\<forall>t \<in> R. reports ev t) \<and>
    (\<forall>t n c ready. ev = JobFinished n t c ready \<longrightarrow>
       R = (if is_cancelling_ticket (fst io) t \<or> fst r = Accepted then {t} else {})) \<and>
    (\<forall>t n. ev = JobCancelled n t \<longrightarrow> R = (if fst r = Accepted then {t} else {}))"
proof -
  have tick: "moved io (tick io)" by (rule moved_tick) simp
  then have ok1: "view_ok (view (fst (tick io)))" using ok(1) by (simp add: moved_def)
  have plain: ?thesis if "moved io (snd r)" "\<And>t. \<not> reports ev t"
    using booked_moved [OF that(1)] that(2) by (force simp: reports_def)
  show ?thesis
  proof (cases ev)
    case (JobFinished n t c ready)
    show ?thesis
    proof (cases "is_cancelling_ticket (fst io) t")
      case True
      have "t \<in> ending (fst io)"
        using True by (force simp: is_cancelling_ticket_def ending_def dest: bm_get_in)
      then have "t \<in> ending (fst (tick io))" using tick ok(1) by (auto simp: moved_def)
      then have "fst (finish_cancellation t (tick io))"
        using cancellation_accounts [OF ok1, of t] by blast
      then have "released {t} (tick io) (snd (finish_cancellation t (tick io)))"
        using cancellation_accounts [OF ok1, of t] by (metis (full_types))
      then have "booked {t} io (snd r)"
        using bookedI [OF tick] True by (simp add: r_def JobFinished handle_event_def)
      then show ?thesis using True by (intro exI [of _ "{t}"]) (simp add: JobFinished reports_def)
    next
      case False
      then have "booked (if fst r = Accepted then {t} else {}) io (snd r)"
        using bookedI [OF tick finish_job_accounts [OF ok1, of t c ready]]
        by (auto simp: r_def JobFinished handle_event_def accept_if_def split: if_splits)
      then show ?thesis using False
        by (intro exI [of _ "if fst r = Accepted then {t} else {}"]) (simp add: JobFinished reports_def)
    qed
  next
    case (JobCancelled n t)
    then have "booked (if fst r = Accepted then {t} else {}) io (snd r)"
      using bookedI [OF tick cancellation_accounts [OF ok1, of t, THEN conjunct1]]
      by (auto simp: r_def handle_event_def accept_if_def split: if_splits)
    then show ?thesis
      by (intro exI [of _ "if fst r = Accepted then {t} else {}"]) (simp add: JobCancelled reports_def)
  next
    case (PanelPublished n p)
    then show ?thesis
      by (intro plain) (auto simp: r_def handle_event_def reports_def intro!: moved_state)
  next
    case (RefreshTriggered n j x)
    then show ?thesis
      by (intro plain) (auto simp: r_def handle_event_def reports_def intro!: moved_state moved_tick)
  next
    case (TooltipReactivated n)
    then show ?thesis
      by (intro plain) (auto simp: r_def handle_event_def reports_def intro!: moved_activation)
  qed (intro plain; use moved_startup [OF ok(2)] in \<open>simp add: r_def handle_event_def reports_def
      moved_handlers moved_tick moved_ops\<close>)+
qed

lemma transition_launches: "launches (snd r) (fst (finish_transition r), actions (snd (finish_transition r)))"
proof -
  obtain d io where r: "r = (d, io)" by (cases r)
  have "launches io b \<Longrightarrow> fst c = fst b \<Longrightarrow> starts (snd c) = starts (snd b) \<Longrightarrow>
      cancels (snd c) = cancels (snd b) \<Longrightarrow> launches io c" for b c
    by (simp add: launches_def)
  from this [OF launches_dispatch] this [OF launches_refl] show ?thesis
    by (auto simp: finish_transition_def r Let_def push_def split: option.split)
qed

text \<open>The current tickets: the running ones carry the present generations, and the scheduler runs.\<close>

definition flights_current :: "scheduler \<Rightarrow> bool" where
  "flights_current s \<longleftrightarrow> (\<forall>t \<in> flying s. is_current_ticket s t)"

text \<open>
  The account of one transition: \<open>cs\<close> are announced as cancelled, \<open>R\<close> is what the event reports and
  the scheduler releases, \<open>ns\<close> are started.
\<close>

lemma handle_account:
  assumes inv: "owners_inv s" and left: "runs_left (fst (handle s ev))"
  defines "s' \<equiv> fst (handle s ev)" and "cs \<equiv> cancels (actions (snd (handle s ev)))"
    and "ns \<equiv> starts (actions (snd (handle s ev)))"
  shows "\<exists>R. (\<forall>t \<in> R. reports ev t) \<and> distinct cs \<and> set cs \<subseteq> flying s \<and>
    flying s' = flying s - set cs - R \<union> set ns \<and> ending s' = ending s \<union> set cs - R \<and>
    (\<forall>t. reports ev t \<longrightarrow> t \<in> held s \<longrightarrow> flights_current s \<longrightarrow> s_now s \<le> event_at ev \<longrightarrow>
       s_lifecycle s \<noteq> Unstarted \<longrightarrow> s_lifecycle s \<noteq> Stopped \<longrightarrow>
       t \<in> R \<or> t \<in> set cs \<or> t \<in> flying s \<and> (\<exists>n. ev = JobCancelled n t))"
proof -
  let ?s = "s\<lparr>s_now := event_at ev\<rparr>"
  let ?io = "(?s, []) :: sched_io" and ?r = "handle_event ev (s\<lparr>s_now := event_at ev\<rparr>, [])"
  have same: "flying ?s = flying s" "ending ?s = ending s" "held ?s = held s"
    by (simp_all add: flying_def ending_def held_eq)
  have ok: "view_ok (view ?s)" using inv by (simp add: owners_inv_def)
  have un: "s_lifecycle ?s = Unstarted \<longrightarrow> s_jobs ?s = []" using inv by (simp add: owners_inv_def)
  show ?thesis
  proof (cases "handle s ev = finish_transition ?r")
    case False
    then have rej: "\<exists>d. handle s ev = (s, rejected d)"
      and "s_lifecycle s \<noteq> Unstarted \<and> event_at ev < s_now s \<or> s_lifecycle s = Stopped \<or>
        s_lifecycle s = Unstarted \<or> is_startup ev \<or> is_stale s ev"
      by (auto simp: handle_def Let_def split: if_splits)
    moreover have "t \<in> flying s \<and> (\<exists>n. ev = JobCancelled n t)"
      if t: "reports ev t" "t \<in> held s" "flights_current s" and st: "is_stale s ev" for t
    proof -
      have "t \<in> ending s \<Longrightarrow> bm_get (s_cancelling s) (tk_run_id t) = Some t"
        using ending_get inv by (simp add: owners_inv_def)
      then show ?thesis
        using t st by (cases ev) (auto simp: reports_def is_stale_def held_eq flights_current_def
            is_cancelling_ticket_def)
    qed
    moreover have "reports ev t \<Longrightarrow> \<not> is_startup ev" for t
      by (cases ev) (simp_all add: reports_def is_startup_def)
    ultimately show ?thesis
      by (intro exI [of _ "{}"]) (auto simp: s'_def cs_def ns_def rejected_def)
  next
    case h: True
    obtain R where bk: "booked R ?io (snd ?r)" and R: "\<forall>t \<in> R. reports ev t"
      and fin: "\<And>t n c ready. ev = JobFinished n t c ready \<Longrightarrow>
         R = (if is_cancelling_ticket ?s t \<or> fst ?r = Accepted then {t} else {})"
      and canc: "\<And>t n. ev = JobCancelled n t \<Longrightarrow> R = (if fst ?r = Accepted then {t} else {})"
      using event_booked [of ?io ev] ok un by auto
    obtain m where m: "moved ?io m" and rel: "released R m (snd ?r)"
      using bk by (auto simp: booked_def)
    obtain ts where ts: "cancels (snd m) = ts" "distinct ts" "set ts \<subseteq> flying s"
      "flying (fst m) = flying s - set ts" "ending (fst m) = ending s \<union> set ts"
      using m ok by (auto simp: moved_def same)
    have sim: "own_sim ?io (snd ?r)" by (rule own_sim_event) (simp add: un)
    have left': "runs_left (fst (snd ?r))" "view_ok (view (fst (snd ?r)))"
      using own_sim_transition [of ?r] left sim ok by (simp_all add: h own_sim_def)
    obtain us where us: "starts (actions (snd (finish_transition ?r))) = starts (snd (snd ?r)) @ us"
      "cancels (actions (snd (finish_transition ?r))) = cancels (snd (snd ?r))"
      "flying s' = flying (fst (snd ?r)) \<union> set us" "ending s' = ending (fst (snd ?r))"
      using transition_launches [of ?r] left left' by (auto simp: launches_def h s'_def)
    have eqs: "cs = ts" "ns = us" "flying s' = flying s - set cs - R \<union> set ns"
      "ending s' = ending s \<union> set cs - R"
      using us rel ts by (simp_all add: cs_def ns_def h released_def)
    have "t \<in> R \<or> t \<in> set cs \<or> t \<in> flying s \<and> (\<exists>n. ev = JobCancelled n t)"
      if t: "reports ev t" "t \<in> held s" "flights_current s" for t
    proof (cases "t \<in> R")
      case False
      show ?thesis
      proof (cases ev)
        case (JobFinished n u c ready)
        then have "u = t" using t by (simp add: reports_def)
        then have ev: "ev = JobFinished n t c ready" using JobFinished by simp
        have rej: "fst ?r \<noteq> Accepted" using False fin [OF ev] by (auto split: if_splits)
        have "\<not> is_cancelling_ticket ?s t" using False fin [OF ev] by (auto split: if_splits)
        then have out: "\<not> fst (finish_job t c ready (tick ?io))"
          and r: "snd ?r = snd (finish_job t c ready (tick ?io))"
          using rej by (auto simp: ev handle_event_def accept_if_def)
        have fly: "t \<in> flying s"
          using \<open>\<not> is_cancelling_ticket ?s t\<close> t(2) ending_get [OF ok, of t]
          by (auto simp: held_eq is_cancelling_ticket_def same)
        have "cs = cancels (snd (tick ?io))"
          using us(2) finish_job_rejected [OF out] by (simp add: cs_def h r)
        moreover have "t \<notin> flying (fst (tick ?io))"
          using finish_job_current [OF _ _ out] t(3) fly ok moved_tick [OF moved_refl, of ?io]
          by (auto simp: flights_current_def is_current_ticket_def moved_def)
        moreover have "flying (fst (tick ?io)) = flying s - set (cancels (snd (tick ?io)))"
          using moved_tick [OF moved_refl, of ?io] ok by (auto simp: moved_def same)
        ultimately show ?thesis using fly by blast
      next
        case (JobCancelled n u)
        then have ev: "ev = JobCancelled n t" using t by (simp add: reports_def)
        have "fst ?r \<noteq> Accepted" using False canc [OF ev] by (auto split: if_splits)
        then have "\<not> fst (finish_cancellation t (tick ?io))"
          by (auto simp: ev handle_event_def accept_if_def)
        moreover have "view_ok (view (fst (tick ?io)))" "ending s \<subseteq> ending (fst (tick ?io))"
          using moved_tick [OF moved_refl, of ?io] ok by (auto simp: moved_def same)
        ultimately have "t \<notin> ending s" using cancellation_accounts [of "tick ?io" t] by blast
        then show ?thesis using t ev by (simp add: held_eq)
      qed (use t in \<open>simp_all add: reports_def\<close>)
    qed simp
    then show ?thesis
      using R ts eqs by (intro exI [of _ R]) simp
  qed
qed

section \<open>Running tickets are current\<close>

lemma moved_grounded: "moved a b \<Longrightarrow> view_ok (view (fst a)) \<Longrightarrow> flying (fst a) = {} \<Longrightarrow> flying (fst b) = {}"
  by (auto simp: moved_def)

lemma grounded_replace: "flying (fst (replace_jobs specs r io)) = {}"
  using replace_jobs_result [of specs r io] by (simp add: flying_idle)

lemma grounded_handlers:
  assumes ok: "view_ok (view (fst io))"
  shows "flying (fst (change_inventory update io)) = {}" "flying (fst (reconfigure config r io)) = {}"
    "flying (fst (stop r component io)) = {}"
    "s_lifecycle (fst io) = Running \<Longrightarrow> flying (fst (suspend io)) = {}"
proof -
  have ok1: "view_ok (view (fst a)) \<Longrightarrow> view_ok (view (fst (replace_jobs specs r a)))" for specs r a
    using moved_replace [of a specs r] by (simp add: moved_def)
  have after: "moved (replace_jobs specs r a) b \<Longrightarrow> view_ok (view (fst a)) \<Longrightarrow> flying (fst b) = {}"
    for specs r a b
    using moved_grounded [OF _ ok1 grounded_replace] by blast
  show "flying (fst (change_inventory update io)) = {}"
    by (rule after [of "inv_jobs update" Can_SourceReplaced
          "on_state (\<lambda>s. s\<lparr>s_inventory_generation := inv_generation update,
             s_demand := inv_demand update\<rparr>) io"])
      (simp_all add: change_inventory_def Let_def moved_chain, simp add: on_state_def ok)
  show "flying (fst (reconfigure config r io)) = {}"
    by (rule after [of "cfg_jobs config" r
          "on_state (\<lambda>s. s\<lparr>s_config_generation := cfg_generation config,
             s_display_interval := cfg_display_interval config, s_demand := cfg_demand config,
             s_next_display := Some (dur_saturating_add (s_now s) (cfg_display_interval config))\<rparr>) io"])
      (simp_all add: reconfigure_def Let_def moved_chain, simp add: on_state_def ok)
  show "flying (fst (stop r component io)) = {}"
    using idle_cancel_all [of r io] by (simp add: stop_def push_def on_state_def flying_idle)
  show "s_lifecycle (fst io) = Running \<Longrightarrow> flying (fst (suspend io)) = {}"
    using idle_cancel_all [of Can_Suspend io] by (simp add: suspend_def on_state_def flying_idle)
qed

definition same_regime :: "scheduler \<Rightarrow> scheduler \<Rightarrow> bool" where
  "same_regime s s' \<longleftrightarrow> s_lifecycle s' = s_lifecycle s \<and>
     s_config_generation s' = s_config_generation s \<and>
     s_inventory_generation s' = s_inventory_generation s"

lemma flying_current:
  "view_ok (view s) \<Longrightarrow> t \<in> flying s \<Longrightarrow>
     is_current_ticket s t \<longleftrightarrow> s_lifecycle s = Running \<and>
       tk_config_generation t = s_config_generation s \<and> tk_inventory_generation t = s_inventory_generation s"
  by (erule flying_get) (auto simp: is_current_ticket_def)

lemma same_regime_current:
  assumes "view_ok (view s)" "view_ok (view s')" "same_regime s s'" "t \<in> flying s" "t \<in> flying s'"
    "is_current_ticket s t"
  shows "is_current_ticket s' t"
  using assms flying_current [of s t] flying_current [of s' t] by (simp add: same_regime_def)

lemma event_regime:
  fixes ev :: scheduler_event and io :: sched_io
  assumes ok: "view_ok (view (fst io))" "s_lifecycle (fst io) = Unstarted \<longrightarrow> s_jobs (fst io) = []"
    and grounded: "s_lifecycle (fst io) \<noteq> Running \<Longrightarrow> flying (fst io) = {}"
  defines "r \<equiv> handle_event ev io"
  shows "flying (fst (snd r)) = {} \<or> same_regime (fst io) (fst (snd r))"
proof (cases ev)
  case (Startup n config g)
  show ?thesis
  proof (cases "s_lifecycle (fst io) = Unstarted")
    case True
    then have "flying (fst io) = {}" using ok(2) by (auto simp: flying_iff)
    then show ?thesis
      using moved_grounded [OF moved_startup [OF ok(2)] ok(1)] by (simp add: r_def Startup handle_event_def)
  next
    case False
    then show ?thesis by (cases io) (simp add: r_def Startup handle_event_def startup_def same_regime_def)
  qed
next
  case (ConfigChanged n config)
  then show ?thesis using grounded_handlers [OF ok(1)] by (simp add: r_def handle_event_def)
next
  case (InventoryChanged n u)
  then show ?thesis using grounded_handlers [OF ok(1)] by (simp add: r_def handle_event_def)
next
  case (Shutdown n)
  then show ?thesis using grounded_handlers [OF ok(1)] by (simp add: r_def handle_event_def)
next
  case (CriticalFailure n c)
  then show ?thesis using grounded_handlers [OF ok(1)] by (simp add: r_def handle_event_def)
next
  case (Suspend n)
  then show ?thesis
    using grounded_handlers(4) [OF ok(1)]
    by (cases "s_lifecycle (fst io) = Running") (simp_all add: r_def handle_event_def suspend_def same_regime_def)
next
  case (Resume n)
  show ?thesis
  proof (cases "s_lifecycle (fst io) = Suspended")
    case True
    then have "flying (fst (resume io)) = {}"
      using moved_grounded [OF moved_handlers(8) [OF moved_refl] ok(1)] grounded by simp
    then show ?thesis by (simp add: r_def Resume handle_event_def)
  next
    case False
    then show ?thesis
      by (cases io) (simp add: r_def Resume handle_event_def resume_def same_regime_def)
  qed
qed (simp_all add: r_def handle_event_def accept_if_def same_regime_def on_state_def)

lemma flights_current_handle:
  assumes inv: "owners_inv s" and left: "runs_left (fst (handle s ev))" and cur: "flights_current s"
  shows "flights_current (fst (handle s ev))"
  unfolding flights_current_def
proof
  fix t
  assume t: "t \<in> flying (fst (handle s ev))"
  let ?s = "s\<lparr>s_now := event_at ev\<rparr>"
  let ?io = "(?s, []) :: sched_io" and ?r = "handle_event ev (s\<lparr>s_now := event_at ev\<rparr>, [])"
  obtain R where acc: "flying (fst (handle s ev)) = flying s - set (cancels (actions (snd (handle s ev)))) - R
      \<union> set (starts (actions (snd (handle s ev))))"
    using handle_account [OF inv left] by blast
  show "is_current_ticket (fst (handle s ev)) t"
  proof (cases "t \<in> set (starts (actions (snd (handle s ev))))")
    case True
    then show ?thesis using started_current [of t s ev] by (simp add: set_starts)
  next
    case False
    then have ts: "t \<in> flying s" using t acc by blast
    have c: "is_current_ticket s t" using cur ts by (simp add: flights_current_def)
    show ?thesis
    proof (cases "handle s ev = finish_transition ?r")
      case False
      then have "fst (handle s ev) = s" by (auto simp: handle_def Let_def split: if_splits)
      then show ?thesis using c by simp
    next
      case h: True
      have ok: "view_ok (view ?s)" using inv by (simp add: owners_inv_def)
      have sim: "own_sim ?io (snd ?r)" by (rule own_sim_event) (use inv in \<open>simp add: owners_inv_def\<close>)
      have "own_sim (snd ?r) (fst (handle s ev), actions (snd (handle s ev)))"
        using own_sim_transition [of ?r] by (simp add: h)
      then have mid: "runs_left (fst (snd ?r))" "view_ok (view (fst (snd ?r)))"
        "view_ok (view (fst (handle s ev)))"
        using left sim ok by (simp_all add: own_sim_def)
      have launch: "flying (fst (handle s ev)) \<subseteq>
          flying (fst (snd ?r)) \<union> set (starts (actions (snd (handle s ev))))"
        using transition_launches [of ?r] left mid by (auto simp: launches_def h)
      have "s_lifecycle ?s \<noteq> Running \<Longrightarrow> flying ?s = {}"
        using cur by (auto simp: flights_current_def is_current_ticket_def flying_def)
      then have "flying (fst (snd ?r)) = {} \<or> same_regime ?s (fst (snd ?r))"
        using event_regime [of ?io ev] ok inv by (simp add: owners_inv_def)
      then have "same_regime ?s (fst (snd ?r))" using launch t False by blast
      then have "same_regime s (fst (handle s ev))"
        by (simp add: same_regime_def h finish_transition_def Let_def push_def case_prod_unfold
            split: option.split)
      then show ?thesis
        using same_regime_current [OF _ mid(3) _ ts t c] inv by (simp add: owners_inv_def)
    qed
  qed
qed

end
