(* ===== verification/ExecutorLedger.thy ===== *)
theory ExecutorLedger
  imports Executor SchedTickets
begin

text \<open>
  The books of the executor. Every ticket the scheduler holds is accounted for: its start or its
  cancellation is still in the queue of actions, or its run is located somewhere on the way (pending,
  sent, waiting, executing, completed). The ledger relates the scheduler to the started and cancelled
  tickets in the queue (\<open>ss\<close>, \<open>cs\<close>), the located runs (\<open>ls\<close>), the valid runs (\<open>V\<close>) and the tickets
  reported as cancelled by a worker (\<open>K\<close>); \<open>Z\<close> are tickets whose entry is about to be made.
\<close>

section \<open>The ledger\<close>

definition ledger ::
    "job_ticket set \<Rightarrow> scheduler \<Rightarrow> job_ticket list \<Rightarrow> job_ticket list \<Rightarrow> job_ticket list \<Rightarrow> run_id set
      \<Rightarrow> job_ticket set \<Rightarrow> bool" where
  "ledger Z s ss cs ls V K \<longleftrightarrow>
     (runs_left s \<longrightarrow> s_lifecycle s \<noteq> Stopped \<longrightarrow>
        owners_inv s \<and> flights_current s \<and> s_lifecycle s \<noteq> Unstarted \<and>
        flying s - Z \<subseteq> set ss \<union> set ls \<and> ending s - Z \<subseteq> set cs \<union> set ls \<and>
        set ls \<subseteq> held s \<and> set cs \<inter> flying s = {} \<and>
        (\<forall>t \<in> set ls. t \<in> flying s \<union> set cs \<longrightarrow> tk_run_id t \<in> V \<and> t \<notin> K) \<and>
        V \<subseteq> tk_run_id ` set ls \<and> distinct (ls @ ss) \<and> distinct cs \<and>
        (\<forall>t \<in> set ss \<union> set cs. tk_run_id t < s_next_run_id s) \<and>
        inj_on tk_run_id (held s \<union> set cs))"

lemma ledger_mset:
  assumes "mset ss = mset ss'" "mset cs = mset cs'" "mset ls = mset ls'"
  shows "ledger Z s ss cs ls V K = ledger Z s ss' cs' ls' V K"
proof -
  have "set ss = set ss'" "set cs = set cs'" "set ls = set ls'"
    using assms mset_eq_setD by blast+
  moreover have "distinct cs = distinct cs'" using assms(2) by (rule mset_eq_imp_distinct_iff)
  moreover have "distinct (ls @ ss) = distinct (ls' @ ss')"
    by (rule mset_eq_imp_distinct_iff) (simp add: assms)
  ultimately show ?thesis by (simp add: ledger_def)
qed

lemma held_below: "owners_inv s \<Longrightarrow> t \<in> held s \<Longrightarrow> tk_run_id t < s_next_run_id s"
  using tickets_below by (simp add: owners_inv_def held_tickets)

lemma held_disjoint: "owners_inv s \<Longrightarrow> flying s \<inter> ending s = {}"
  by (simp add: owners_inv_def flying_ending_disjoint)

lemma handle_alive:
  assumes "runs_left (fst (handle s ev))" "s_lifecycle (fst (handle s ev)) \<noteq> Stopped"
  shows "runs_left s \<and> s_lifecycle s \<noteq> Stopped"
  using assms runs_left_back [of s ev] stopped_handle [of s ev] by auto

lemma handle_started: "s_lifecycle s \<noteq> Unstarted \<Longrightarrow> s_lifecycle (fst (handle s ev)) \<noteq> Unstarted"
  using handle_unstarted [of s ev] by auto

lemma next_run_abs: "snd (snd (snd (abs_owners s))) = s_next_run_id s"
  by (simp add: view_def)

text \<open>The run ids of the started tickets are new and differ from each other.\<close>

lemma starts_fresh:
  assumes "owners_inv s" "runs_left (fst (handle s ev))"
  defines "ns \<equiv> starts (actions (snd (handle s ev)))"
  shows "distinct ns \<and> inj_on tk_run_id (set ns) \<and>
    (\<forall>t \<in> set ns. s_next_run_id s \<le> tk_run_id t \<and> tk_run_id t < s_next_run_id (fst (handle s ev))) \<and>
    s_next_run_id s \<le> s_next_run_id (fst (handle s ev))"
proof -
  have runs: "map tk_run_id ns = [s_next_run_id s ..< s_next_run_id (fst (handle s ev))]"
    "s_next_run_id s \<le> s_next_run_id (fst (handle s ev))"
    using own_steps_runs [OF own_steps_handle [OF assms(1,2)]]
    by (simp_all add: ns_def next_run_abs del: abs_view.simps)
  have "distinct (map tk_run_id ns)" unfolding runs(1) by simp
  then have "distinct ns" "inj_on tk_run_id (set ns)" by (simp_all only: distinct_map)
  moreover have "tk_run_id ` set ns = {s_next_run_id s ..< s_next_run_id (fst (handle s ev))}"
    unfolding set_map [symmetric] runs(1) by simp
  then have "\<forall>t \<in> set ns. tk_run_id t \<in> {s_next_run_id s ..< s_next_run_id (fst (handle s ev))}"
    by blast
  ultimately show ?thesis using runs(2) by simp
qed

lemma ledger_step:
  assumes led: "ledger Z s ss cs ls V K" and rep: "\<And>t. reports ev t \<Longrightarrow> t \<notin> set ls"
  defines "tr \<equiv> snd (handle s ev)" and "s' \<equiv> fst (handle s ev)"
  shows "ledger Z s' (ss @ starts (actions tr)) (cs @ cancels (actions tr)) ls V K"
  unfolding ledger_def
proof (intro impI)
  assume alive: "runs_left s'" "s_lifecycle s' \<noteq> Stopped"
  define ns ds where "ns = starts (actions tr)" and "ds = cancels (actions tr)"
  have was: "runs_left s" "s_lifecycle s \<noteq> Stopped" using handle_alive alive by (simp_all add: s'_def)
  have inv: "owners_inv s" "flights_current s" "s_lifecycle s \<noteq> Unstarted"
    and acct: "flying s - Z \<subseteq> set ss \<union> set ls" "ending s - Z \<subseteq> set cs \<union> set ls"
    and loc: "set ls \<subseteq> held s" and cs: "set cs \<inter> flying s = {}"
    and val: "\<And>t. t \<in> set ls \<Longrightarrow> t \<in> flying s \<union> set cs \<Longrightarrow> tk_run_id t \<in> V \<and> t \<notin> K"
    and V: "V \<subseteq> tk_run_id ` set ls" and dist: "distinct (ls @ ss)" "distinct cs"
    and below: "\<And>t. t \<in> set ss \<union> set cs \<Longrightarrow> tk_run_id t < s_next_run_id s"
    and inj: "inj_on tk_run_id (held s \<union> set cs)"
    using led was unfolding ledger_def by blast+
  have left: "runs_left (fst (handle s ev))" using alive by (simp add: s'_def)
  obtain R where R: "\<forall>t \<in> R. reports ev t" and ds: "distinct ds" "set ds \<subseteq> flying s"
    and fly: "flying s' = flying s - set ds - R \<union> set ns" and en: "ending s' = ending s \<union> set ds - R"
    using handle_account [OF inv(1) left] by (auto simp: s'_def ns_def ds_def tr_def)
  have new: "distinct ns" "inj_on tk_run_id (set ns)" "s_next_run_id s \<le> s_next_run_id s'"
    and ns: "\<And>t. t \<in> set ns \<Longrightarrow> s_next_run_id s \<le> tk_run_id t \<and> tk_run_id t < s_next_run_id s'"
    using starts_fresh [OF inv(1) left] by (auto simp: ns_def s'_def tr_def)
  have old: "t \<in> held s \<union> set cs \<union> set ss \<Longrightarrow> tk_run_id t < s_next_run_id s" for t
    using below held_below [OF inv(1)] by blast
  have fresh: "t \<in> held s \<union> set cs \<union> set ss \<Longrightarrow> t \<notin> set ns" for t
    using old [of t] ns [of t] by fastforce
  have heldE: "held s = flying s \<union> ending s" "held s' = flying s' \<union> ending s'" by (rule held_eq)+
  have disj: "flying s \<inter> ending s = {}" by (rule held_disjoint [OF inv(1)])
  have lsR: "set ls \<inter> R = {}" using R rep by blast
  have a: "owners_inv s'" "flights_current s'" "s_lifecycle s' \<noteq> Unstarted"
    using owners_inv_handle [OF inv(1) left] flights_current_handle [OF inv(1) left inv(2)]
      handle_started [OF inv(3)] by (simp_all add: s'_def)
  moreover have "flying s' - Z \<subseteq> set (ss @ ns) \<union> set ls" using acct(1) fly by auto
  moreover have "ending s' - Z \<subseteq> set (cs @ ds) \<union> set ls" using acct(2) en by auto
  moreover have "set ls \<subseteq> held s'" using loc lsR by (auto simp: heldE fly en)
  moreover have "set (cs @ ds) \<inter> flying s' = {}"
    using cs ds(2) fresh by (auto simp: fly heldE)
  moreover have "\<forall>t \<in> set ls. t \<in> flying s' \<union> set (cs @ ds) \<longrightarrow> tk_run_id t \<in> V \<and> t \<notin> K"
  proof (intro ballI impI)
    fix t assume t: "t \<in> set ls" "t \<in> flying s' \<union> set (cs @ ds)"
    then have "t \<in> held s" using loc by blast
    then have "t \<notin> set ns" using fresh by blast
    then have "t \<in> flying s \<union> set cs" using t(2) ds(2) by (auto simp: fly)
    then show "tk_run_id t \<in> V \<and> t \<notin> K" using val t(1) by blast
  qed
  moreover have "distinct (ls @ ss @ ns)" using dist(1) new(1) fresh loc by auto
  moreover have "distinct (cs @ ds)" using dist(2) ds cs by auto
  moreover have "\<forall>t \<in> set (ss @ ns) \<union> set (cs @ ds). tk_run_id t < s_next_run_id s'"
    using old ns new(3) ds(2) by (fastforce simp: heldE)
  moreover have "inj_on tk_run_id (held s' \<union> set (cs @ ds))"
  proof (rule inj_on_subset)
    have "tk_run_id ` (held s \<union> set cs) \<inter> tk_run_id ` set ns = {}"
      using old ns by fastforce
    then show "inj_on tk_run_id ((held s \<union> set cs) \<union> set ns)"
      using inj new(2) by (auto simp: inj_on_Un)
    show "held s' \<union> set (cs @ ds) \<subseteq> (held s \<union> set cs) \<union> set ns"
      using ds(2) by (auto simp: heldE fly en)
  qed
  ultimately show "owners_inv s' \<and> flights_current s' \<and> s_lifecycle s' \<noteq> Unstarted \<and>
      flying s' - Z \<subseteq> set (ss @ starts (actions tr)) \<union> set ls \<and>
      ending s' - Z \<subseteq> set (cs @ cancels (actions tr)) \<union> set ls \<and>
      set ls \<subseteq> held s' \<and> set (cs @ cancels (actions tr)) \<inter> flying s' = {} \<and>
      (\<forall>t \<in> set ls. t \<in> flying s' \<union> set (cs @ cancels (actions tr)) \<longrightarrow> tk_run_id t \<in> V \<and> t \<notin> K) \<and>
      V \<subseteq> tk_run_id ` set ls \<and> distinct (ls @ ss @ starts (actions tr)) \<and>
      distinct (cs @ cancels (actions tr)) \<and>
      (\<forall>t \<in> set (ss @ starts (actions tr)) \<union> set (cs @ cancels (actions tr)).
         tk_run_id t < s_next_run_id s') \<and>
      inj_on tk_run_id (held s' \<union> set (cs @ cancels (actions tr)))"
    using V by (simp add: ns_def ds_def)
qed

text \<open>A report settles the entry of its ticket.\<close>

lemma ledger_report:
  assumes led: "ledger {t} s ss cs ls V K" and t: "t \<notin> set ls" "reports ev t" "s_now s \<le> event_at ev"
    and canc: "\<And>n. ev = JobCancelled n t \<Longrightarrow> runs_left s \<Longrightarrow> s_lifecycle s \<noteq> Stopped \<Longrightarrow> t \<notin> flying s"
  defines "tr \<equiv> snd (handle s ev)" and "s' \<equiv> fst (handle s ev)"
  shows "ledger {} s' (ss @ starts (actions tr)) (cs @ cancels (actions tr)) ls V K"
proof (cases "runs_left s' \<and> s_lifecycle s' \<noteq> Stopped")
  case True
  have uniq: "reports ev u \<Longrightarrow> u = t" for u using t(2) by (cases ev) (simp_all add: reports_def)
  then have "ledger {t} s' (ss @ starts (actions tr)) (cs @ cancels (actions tr)) ls V K"
    using ledger_step [OF led, of ev] t(1) by (auto simp: s'_def tr_def)
  moreover have "t \<in> flying s' \<longrightarrow> t \<in> set (ss @ starts (actions tr)) \<union> set ls"
    "t \<in> ending s' \<longrightarrow> t \<in> set (cs @ cancels (actions tr)) \<union> set ls"
  proof -
    have left: "runs_left (fst (handle s ev))" using True by (simp add: s'_def)
    have was: "runs_left s" "s_lifecycle s \<noteq> Stopped" using handle_alive True by (auto simp: s'_def)
    have inv: "owners_inv s" "flights_current s" "s_lifecycle s \<noteq> Unstarted"
      using led was unfolding ledger_def by blast+
    obtain R where fly: "flying s' = flying s - set (cancels (actions tr)) - R \<union> set (starts (actions tr))"
      and en: "ending s' = ending s \<union> set (cancels (actions tr)) - R"
      and settled: "t \<in> held s \<Longrightarrow> t \<in> R \<or> t \<in> set (cancels (actions tr)) \<or>
        t \<in> flying s \<and> (\<exists>n. ev = JobCancelled n t)"
      using handle_account [OF inv(1) left] inv t was by (auto simp: s'_def tr_def)
    show "t \<in> flying s' \<longrightarrow> t \<in> set (ss @ starts (actions tr)) \<union> set ls"
      "t \<in> ending s' \<longrightarrow> t \<in> set (cs @ cancels (actions tr)) \<union> set ls"
      using fly en settled canc was by (auto simp: held_eq)
  qed
  ultimately show ?thesis unfolding ledger_def by blast
qed (auto simp: ledger_def)

section \<open>The books of an executor\<close>

definition run_tickets :: "pending \<Rightarrow> job_ticket list" where
  "run_tickets pending = List.map_filter (message_ticket \<circ> snd) pending"

primrec completion_tickets :: "owner_completion \<Rightarrow> job_ticket list" where
  "completion_tickets (Completed c) = [jc_ticket c]"
| "completion_tickets (RunCancelled t) = [t]"
| "completion_tickets (Rescanned _) = []"
| "completion_tickets (ThemeRead _ _) = []"

abbreviation arrived :: "executor \<Rightarrow> owner_completion list" where
  "arrived x \<equiv> opt_list (x_slot x) @ x_completions x"

definition located :: "executor \<Rightarrow> job_ticket list" where
  "located x =
     run_tickets (x_pending x) @ run_tickets (x_channels x) @
     map (ji_ticket \<circ> snd) (x_waiting x) @ map (ji_ticket \<circ> snd) (x_executing x) @
     concat (map completion_tickets (arrived x))"

definition cancel_reports :: "executor \<Rightarrow> job_ticket set" where
  "cancel_reports x = {t. RunCancelled t \<in> set (arrived x)}"

text \<open>\<open>acts\<close> are the actions not applied yet: those in the queue and those of a transition at hand.\<close>

definition booked_exec :: "job_ticket set \<Rightarrow> executor \<Rightarrow> scheduler_action list \<Rightarrow> bool" where
  "booked_exec Z x acts \<longleftrightarrow>
     ledger Z (x_sched x) (starts acts) (cancels acts) (located x) (set (x_runs x)) (cancel_reports x)"

lemma run_tickets_simps [simp]:
  "run_tickets [] = []" "run_tickets (xs @ ys) = run_tickets xs @ run_tickets ys"
  "run_tickets ((own, m) # ms) = opt_list (message_ticket m) @ run_tickets ms"
  by (simp_all add: run_tickets_def List.map_filter_def opt_list_def split: option.split)

lemma located_upd [simp]:
  "located (x\<lparr>x_sched := s\<rparr>) = located x" "located (x\<lparr>x_actions := a\<rparr>) = located x"
  "located (x\<lparr>x_runs := v\<rparr>) = located x" "located (x\<lparr>x_lifecycle_generation := n\<rparr>) = located x"
  "located (x\<lparr>x_runtime := rs\<rparr>) = located x" "located (x\<lparr>x_deciding := d\<rparr>) = located x"
  "located (x\<lparr>x_failed := b\<rparr>) = located x"
  by (simp_all add: located_def)

lemma cancel_reports_upd [simp]:
  "cancel_reports (x\<lparr>x_sched := s\<rparr>) = cancel_reports x"
  "cancel_reports (x\<lparr>x_actions := a\<rparr>) = cancel_reports x"
  "cancel_reports (x\<lparr>x_runs := v\<rparr>) = cancel_reports x"
  "cancel_reports (x\<lparr>x_lifecycle_generation := n\<rparr>) = cancel_reports x"
  "cancel_reports (x\<lparr>x_runtime := rs\<rparr>) = cancel_reports x"
  "cancel_reports (x\<lparr>x_deciding := d\<rparr>) = cancel_reports x"
  "cancel_reports (x\<lparr>x_failed := b\<rparr>) = cancel_reports x"
  "cancel_reports (x\<lparr>x_pending := p\<rparr>) = cancel_reports x"
  "cancel_reports (x\<lparr>x_channels := p\<rparr>) = cancel_reports x"
  "cancel_reports (x\<lparr>x_waiting := w\<rparr>) = cancel_reports x"
  "cancel_reports (x\<lparr>x_executing := w\<rparr>) = cancel_reports x"
  by (simp_all add: cancel_reports_def)

lemma booked_upd [simp]:
  "booked_exec Z (x\<lparr>x_actions := a\<rparr>) acts = booked_exec Z x acts"
  "booked_exec Z (x\<lparr>x_lifecycle_generation := n\<rparr>) acts = booked_exec Z x acts"
  "booked_exec Z (x\<lparr>x_runtime := rs\<rparr>) acts = booked_exec Z x acts"
  "booked_exec Z (x\<lparr>x_deciding := d\<rparr>) acts = booked_exec Z x acts"
  "booked_exec Z (x\<lparr>x_failed := b\<rparr>) acts = booked_exec Z x acts"
  "booked_exec Z (on_runtime f x) acts = booked_exec Z x acts"
  by (simp_all add: booked_exec_def on_runtime_def)

lemma booked_mset:
  assumes "mset (starts acts) = mset (starts acts')" "mset (cancels acts) = mset (cancels acts')"
  shows "booked_exec Z x acts = booked_exec Z x acts'"
  unfolding booked_exec_def by (rule ledger_mset) (simp_all add: assms)

lemma booked_comm: "booked_exec Z x (as @ bs) = booked_exec Z x (bs @ as)"
  by (rule booked_mset) simp_all

lemma no_report: "\<not> is_report ev \<Longrightarrow> \<not> reports ev t"
  by (cases ev) (simp_all add: is_report_def reports_def)

lemma x_handle_eq:
  "x_handle ev x = (x\<lparr>x_sched := fst (handle (x_sched x) ev)\<rparr>, snd (handle (x_sched x) ev))"
  by (simp add: x_handle_def split: prod.split)

lemma booked_handle:
  "booked_exec Z x acts \<Longrightarrow> \<not> is_report ev \<Longrightarrow>
     booked_exec Z (fst (x_handle ev x)) (acts @ actions (snd (x_handle ev x)))"
  using ledger_step [of Z "x_sched x" _ _ _ _ _ ev] no_report [of ev]
  by (simp add: booked_exec_def x_handle_eq)

lemma handle_actions [simp]: "x_actions (fst (x_handle ev x)) = x_actions x"
  by (simp add: x_handle_eq)

lemma booked_enqueue:
  assumes "booked_exec Z x (x_actions x @ acts)" "\<not> is_report ev"
  shows "booked_exec Z (x_enqueue ev x) (x_actions (x_enqueue ev x) @ acts)"
proof -
  have "booked_exec Z (fst (x_handle ev x)) ((x_actions x @ acts) @ actions (snd (x_handle ev x)))"
    by (rule booked_handle [OF assms])
  then have "booked_exec Z (fst (x_handle ev x)) ((x_actions x @ actions (snd (x_handle ev x))) @ acts)"
    by (rule booked_mset [THEN iffD1, rotated 2]) simp_all
  then show ?thesis by (simp add: x_enqueue_def case_prod_unfold Let_def)
qed

lemma booked_prepend:
  assumes "booked_exec Z x (x_actions x)" "\<not> is_report ev"
  shows "booked_exec Z (x_prepend ev x) (x_actions (x_prepend ev x))"
  using booked_handle [OF assms] booked_comm
  by (simp add: x_prepend_def case_prod_unfold Let_def)

text \<open>Actions that neither start nor cancel can be dropped or moved.\<close>

primrec is_quiet :: "scheduler_action \<Rightarrow> bool" where
  "is_quiet (CancelJob _ _) = False"
| "is_quiet (InvalidateJob _ _ _) = True"
| "is_quiet (ResetCounterBaseline _) = True"
| "is_quiet (PublishDisplay _ _ _ _ _ _) = True"
| "is_quiet (EvaluateNotifications _) = True"
| "is_quiet (RescanHardware _ _) = True"
| "is_quiet (ApplyBackoff _ _ _) = True"
| "is_quiet (StartJob _) = False"
| "is_quiet (ScheduleDeadline _) = True"
| "is_quiet (Terminate _) = True"

lemma starts_Cons [simp]:
  "starts (a # acts) = (case a of StartJob t \<Rightarrow> t # starts acts | _ \<Rightarrow> starts acts)"
  by (cases a) simp_all

lemma quiet_starts: "is_quiet a \<Longrightarrow> starts (a # acts) = starts acts \<and> cancels (a # acts) = cancels acts"
  by (cases a) simp_all

lemma quiet_filter:
  assumes "\<And>a. \<not> is_quiet a \<Longrightarrow> P a"
  shows "starts (filter P acts) = starts acts" "cancels (filter P acts) = cancels acts"
  using assms by (induction acts) (auto split: scheduler_action.split)

lemma booked_filter:
  assumes "\<And>a. \<not> is_quiet a \<Longrightarrow> P a"
  shows "booked_exec Z x (filter P as @ bs) = booked_exec Z x (as @ bs)"
    "booked_exec Z x (bs @ filter P as) = booked_exec Z x (bs @ as)"
    "booked_exec Z x (filter P as) = booked_exec Z x as"
  by (rule booked_mset; simp add: quiet_filter [of P, OF assms])+

lemma booked_quiet: "is_quiet a \<Longrightarrow> booked_exec Z x (as @ a # bs) = booked_exec Z x (as @ bs)"
  using quiet_starts [of a bs] by (intro booked_mset) simp_all

lemma quiet_filters:
  "\<not> is_quiet a \<Longrightarrow> \<not> is_tooltip_only a" "\<not> is_quiet a \<Longrightarrow> \<not> is_refresh_publish a"
  "\<not> is_quiet a \<Longrightarrow> \<not> is_resume_work a" "is_first_paint a \<Longrightarrow> is_quiet a"
  by (cases a; simp add: is_tooltip_only_def is_refresh_publish_def is_resume_work_def
      is_first_paint_def)+

lemma take_first_paint_accounts:
  "take_first_paint acts = Some (p, rest) \<Longrightarrow>
     is_first_paint p \<and> starts rest = starts acts \<and> cancels rest = cancels acts"
proof (induction acts arbitrary: rest)
  case (Cons a acts)
  then show ?case
    using quiet_starts [OF quiet_filters(4), of a acts]
    by (auto split: if_splits scheduler_action.split)
qed simp

section \<open>Messages\<close>

lemma run_tickets_filter:
  "(\<And>own m. (own, m) \<in> set pending \<Longrightarrow> message_ticket m \<noteq> None \<Longrightarrow> P (own, m)) \<Longrightarrow>
     run_tickets (filter P pending) = run_tickets pending"
proof (induction pending)
  case (Cons p pending)
  have "run_tickets (filter P pending) = run_tickets pending" using Cons by simp
  moreover have "P p \<or> message_ticket (snd p) = None" using Cons.prems [of "fst p" "snd p"] by auto
  ultimately show ?case by (cases p) (auto simp: opt_list_def)
qed simp

lemma in_run_tickets: "t \<in> set (run_tickets pending) \<longleftrightarrow> (\<exists>own m. (own, m) \<in> set pending \<and> message_ticket m = Some t)"
proof -
  have "set (run_tickets pending) = {t. \<exists>p \<in> set pending. message_ticket (snd p) = Some t}"
    by (induction pending) (auto simp: opt_list_def split: option.split)
  then show ?thesis by force
qed

lemma merge_ticket [simp]: "message_ticket (merge_message own pending m) = message_ticket m"
  by (cases m) (simp_all add: merge_message_def)

lemma supersedes_run:
  "supersedes m c \<Longrightarrow> message_ticket c = Some u \<Longrightarrow> \<exists>t. message_ticket m = Some t \<and> tk_run_id t = tk_run_id u"
  by (cases m; cases c) auto

text \<open>Queueing a message keeps every queued run of another run id, and adds its own.\<close>

lemma queue_runs:
  assumes "\<And>t u. message_ticket m = Some t \<Longrightarrow> u \<in> set (run_tickets pending) \<Longrightarrow> tk_run_id u \<noteq> tk_run_id t"
  shows "run_tickets (fst (queue_owner_message own m pending)) =
    run_tickets pending @
      (if snd (queue_owner_message own m pending) then opt_list (message_ticket m) else [])"
proof -
  let ?P = "\<lambda>(o', c). o' \<noteq> own \<or> \<not> supersedes (merge_message own pending m) c"
  have "run_tickets (filter ?P pending) = run_tickets pending"
  proof (rule run_tickets_filter)
    fix o' c assume c: "(o', c) \<in> set pending" "message_ticket c \<noteq> None"
    then obtain u where u: "message_ticket c = Some u" by blast
    then have "u \<in> set (run_tickets pending)" using c(1) in_run_tickets by metis
    then show "?P (o', c)"
      using assms supersedes_run [OF _ u, of "merge_message own pending m"] by fastforce
  qed
  then show ?thesis by (simp add: queue_owner_message_def Let_def)
qed

lemma x_queue_eq:
  "x_queue own m x =
     (x\<lparr>x_pending := fst (queue_owner_message own m (x_pending x))\<rparr>,
      snd (queue_owner_message own m (x_pending x)))"
  by (simp add: x_queue_def split: prod.split)

lemma booked_queue:
  assumes "booked_exec Z x acts" "message_ticket m = None"
  shows "booked_exec Z (fst (x_queue own m x)) acts" "x_actions (fst (x_queue own m x)) = x_actions x"
proof -
  have "run_tickets (fst (queue_owner_message own m (x_pending x))) = run_tickets (x_pending x)"
    using queue_runs [of m "x_pending x" own] assms(2) by (simp add: opt_list_def)
  then have "located (fst (x_queue own m x)) = located x"
    by (simp add: x_queue_eq located_def)
  then show "booked_exec Z (fst (x_queue own m x)) acts"
    using assms(1) by (simp add: booked_exec_def x_queue_eq)
  show "x_actions (fst (x_queue own m x)) = x_actions x" by (simp add: x_queue_eq)
qed

lemma booked_queue_or_fail:
  assumes "booked_exec Z x (x_actions x)" "message_ticket m = None"
  shows "booked_exec Z (x_queue_or_fail own m x) (x_actions (x_queue_or_fail own m x))"
  using booked_queue [OF assms, of own] assms(1)
  by (simp add: x_queue_or_fail_def case_prod_unfold Let_def)

lemma flush_loop_runs:
  "flush_loop answer n pending sent = (p, q, None) \<Longrightarrow>
     mset (run_tickets p @ run_tickets q) = mset (run_tickets pending @ run_tickets sent)"
proof (induction n arbitrary: pending sent)
  case (Suc n)
  show ?case
  proof (cases pending)
    case (Cons pm rest)
    obtain own m where pm: "pm = (own, m)" by (cases pm)
    show ?thesis
      using Suc.IH [of rest "sent @ [(own, m)]"] Suc.IH [of "rest @ [(own, m)]" sent] Suc.prems
      by (auto simp: Cons pm split: if_splits send_outcome.splits)
  qed (use Suc.prems in simp)
qed simp

section \<open>The steps keep the books\<close>

abbreviation booked_now :: "executor \<Rightarrow> bool" where
  "booked_now x \<equiv> booked_exec {} x (x_actions x)"

text \<open>A located ticket can be taken off the list when its run is made invalid; its entry is then open.\<close>

lemma ledger_take:
  assumes led: "ledger {} s ss cs ls V K" and ls: "mset ls = mset (t # ls')" and K: "K' \<subseteq> K"
  shows "ledger {t} s ss cs ls' (V - {tk_run_id t}) K'"
proof -
  have led': "ledger {} s ss cs (t # ls') V K" using led ledger_mset [OF refl refl ls] by blast
  show ?thesis
    unfolding ledger_def
  proof (intro impI)
    assume alive: "runs_left s" "s_lifecycle s \<noteq> Stopped"
    note L = led' [unfolded ledger_def, rule_format, OF alive]
    have inj: "inj_on tk_run_id (held s \<union> set cs)" and held: "t \<in> held s" "set ls' \<subseteq> held s"
      and dist: "distinct ((t # ls') @ ss)" using L by auto
    have other: "tk_run_id u \<noteq> tk_run_id t" if "u \<in> set ls'" for u
      using inj_onD [OF inj, of u t] that held dist by auto
    have val: "\<forall>u \<in> set ls'. u \<in> flying s \<union> set cs \<longrightarrow> tk_run_id u \<in> V - {tk_run_id t} \<and> u \<notin> K'"
      using L other K by auto
    have V: "V - {tk_run_id t} \<subseteq> tk_run_id ` set ls'" using L by auto
    show "owners_inv s \<and> flights_current s \<and> s_lifecycle s \<noteq> Unstarted \<and>
        flying s - {t} \<subseteq> set ss \<union> set ls' \<and> ending s - {t} \<subseteq> set cs \<union> set ls' \<and>
        set ls' \<subseteq> held s \<and> set cs \<inter> flying s = {} \<and>
        (\<forall>u \<in> set ls'. u \<in> flying s \<union> set cs \<longrightarrow> tk_run_id u \<in> V - {tk_run_id t} \<and> u \<notin> K') \<and>
        V - {tk_run_id t} \<subseteq> tk_run_id ` set ls' \<and> distinct (ls' @ ss) \<and> distinct cs \<and>
        (\<forall>t \<in> set ss \<union> set cs. tk_run_id t < s_next_run_id s) \<and>
        inj_on tk_run_id (held s \<union> set cs)"
      using L val V by auto
  qed
qed

text \<open>The ticket of a cancellation is either located with a valid run, or neither.\<close>

lemma ledger_cancel:
  assumes led: "ledger {} s ss (t # cs) ls V K"
  shows "(tk_run_id t \<in> V \<longrightarrow> runs_left s \<longrightarrow> s_lifecycle s \<noteq> Stopped \<longrightarrow> t \<in> set ls) \<and>
    (tk_run_id t \<notin> V \<longrightarrow> runs_left s \<longrightarrow> s_lifecycle s \<noteq> Stopped \<longrightarrow> t \<notin> set ls) \<and>
    (runs_left s \<longrightarrow> s_lifecycle s \<noteq> Stopped \<longrightarrow> t \<notin> flying s)"
proof (intro conjI impI)
  assume alive: "runs_left s" "s_lifecycle s \<noteq> Stopped"
  note L = led [unfolded ledger_def, rule_format, OF alive]
  show "t \<notin> flying s" using L by auto
  show "t \<notin> set ls" if "tk_run_id t \<notin> V" using L that by auto
  assume "tk_run_id t \<in> V"
  then obtain u where u: "u \<in> set ls" "tk_run_id t = tk_run_id u" using L by blast
  have "inj_on tk_run_id (held s \<union> set (t # cs))" "set ls \<subseteq> held s" using L by blast+
  then have "u = t" using u inj_onD [of tk_run_id _ u t] by auto
  then show "t \<in> set ls" using u by simp
qed

text \<open>A cancellation that is applied: the run is no longer valid, and the entry stays or is open.\<close>

lemma ledger_uncancel:
  assumes led: "ledger {} s ss (t # cs) ls V K"
    and ls: "mset ls = mset (t # ls') \<or> ls' = ls" and Z: "t \<in> set ls' \<or> t \<in> Z"
  shows "ledger Z s ss cs ls' (V - {tk_run_id t}) K"
  unfolding ledger_def
proof (intro impI)
  assume alive: "runs_left s" "s_lifecycle s \<noteq> Stopped"
  note L = led [unfolded ledger_def, rule_format, OF alive]
  have sub: "set ls \<subseteq> insert t (set ls')" "set ls' \<subseteq> set ls" "distinct (ls' @ ss)"
    using ls L mset_eq_setD [of ls "t # ls'"] mset_eq_imp_distinct_iff [of ls "t # ls'"] by auto
  have inj: "inj_on tk_run_id (held s \<union> set (t # cs))" and held: "set ls \<subseteq> held s" using L by blast+
  have other: "tk_run_id u \<noteq> tk_run_id t" if "u \<in> set ls'" "u \<noteq> t" for u
    using inj_onD [OF inj, of u t] that held sub(2) by auto
  have val: "\<forall>u \<in> set ls'. u \<in> flying s \<union> set cs \<longrightarrow> tk_run_id u \<in> V - {tk_run_id t} \<and> u \<notin> K"
  proof (intro ballI impI)
    fix u assume u: "u \<in> set ls'" "u \<in> flying s \<union> set cs"
    have "t \<notin> flying s" "t \<notin> set cs" using L by auto
    then have "u \<noteq> t" using u by blast
    then show "tk_run_id u \<in> V - {tk_run_id t} \<and> u \<notin> K" using other [OF u(1)] L u sub(2) by auto
  qed
  have "V \<subseteq> tk_run_id ` insert t (set ls')" using L sub(1) by (meson image_mono order_trans)
  then have V: "V - {tk_run_id t} \<subseteq> tk_run_id ` set ls'" by blast
  have acct: "flying s - Z \<subseteq> set ss \<union> set ls'" "ending s - Z \<subseteq> set cs \<union> set ls'"
    using L sub(1) Z by auto
  show "owners_inv s \<and> flights_current s \<and> s_lifecycle s \<noteq> Unstarted \<and>
      flying s - Z \<subseteq> set ss \<union> set ls' \<and> ending s - Z \<subseteq> set cs \<union> set ls' \<and>
      set ls' \<subseteq> held s \<and> set cs \<inter> flying s = {} \<and>
      (\<forall>u \<in> set ls'. u \<in> flying s \<union> set cs \<longrightarrow> tk_run_id u \<in> V - {tk_run_id t} \<and> u \<notin> K) \<and>
      V - {tk_run_id t} \<subseteq> tk_run_id ` set ls' \<and> distinct (ls' @ ss) \<and> distinct cs \<and>
      (\<forall>t \<in> set ss \<union> set cs. tk_run_id t < s_next_run_id s) \<and>
      inj_on tk_run_id (held s \<union> set cs)"
    using L val V acct sub inj_on_subset [OF inj] by auto
qed

abbreviation alive :: "scheduler \<Rightarrow> bool" where
  "alive s \<equiv> runs_left s \<and> s_lifecycle s \<noteq> Stopped"

lemma booked_dead: "\<not> alive (x_sched x) \<Longrightarrow> booked_exec Z x acts"
  by (auto simp: booked_exec_def ledger_def)

lemma dead_handle: "\<not> alive (x_sched x) \<Longrightarrow> \<not> alive (x_sched (fst (x_handle ev x)))"
  using handle_alive [of "x_sched x" ev] by (auto simp: x_handle_eq)

lemma booked_report:
  assumes "booked_exec {t} x acts" "alive (x_sched x) \<Longrightarrow> t \<notin> set (located x)" "reports ev t"
    "s_now (x_sched x) \<le> event_at ev"
    "\<And>n. ev = JobCancelled n t \<Longrightarrow> alive (x_sched x) \<Longrightarrow> t \<notin> flying (x_sched x)"
  shows "booked_exec {} (fst (x_handle ev x)) (acts @ actions (snd (x_handle ev x)))"
proof (cases "alive (x_sched x)")
  case True
  then show ?thesis
    using ledger_report [of t "x_sched x" "starts acts" "cancels acts" "located x" "set (x_runs x)"
        "cancel_reports x" ev] assms
    by (simp add: booked_exec_def x_handle_eq)
next
  case False
  then show ?thesis by (intro booked_dead dead_handle)
qed

lemma run_tickets_drop:
  "run_tickets (filter (\<lambda>(_, m). case message_ticket m of
      None \<Rightarrow> True | Some queued \<Rightarrow> tk_run_id queued \<noteq> run) pending) =
   filter (\<lambda>u. tk_run_id u \<noteq> run) (run_tickets pending)"
proof (induction pending)
  case (Cons p pending)
  then show ?case by (cases p; cases "message_ticket (snd p)") (simp_all add: opt_list_def)
qed simp

lemma booked_cancel:
  assumes led: "booked_exec {} x (CancelJob t r # x_actions x)" and now: "s_now (x_sched x) \<le> now"
  shows "booked_now (cancel_job now t x)"
proof (cases "alive (x_sched x)")
  case False
  then show ?thesis
    unfolding cancel_job_def Let_def x_prepend_def case_prod_unfold
    by (intro booked_dead) (simp add: on_runtime_def dead_handle del: de_Morgan_conj split: if_split)
next
  case True
  define rest where "rest = run_tickets (x_channels x) @ map (ji_ticket \<circ> snd) (x_waiting x) @
    map (ji_ticket \<circ> snd) (x_executing x) @ concat (map completion_tickets (arrived x))"
  define kept where "kept = filter (\<lambda>(_, m). case message_ticket m of
      None \<Rightarrow> True | Some queued \<Rightarrow> tk_run_id queued \<noteq> tk_run_id t) (x_pending x)"
  define rs where "rs = (clear_graph_render_requested t (x_runtime x))
    \<lparr>rt_samples := bs_remove (tk_run_id t) (rt_samples (x_runtime x))\<rparr>"
  define y where "y = x\<lparr>x_runtime := rs, x_runs := bs_remove (tk_run_id t) (x_runs x), x_pending := kept\<rparr>"
  have job: "cancel_job now t x =
      (if tk_run_id t \<notin> set (x_runs x) \<or> length kept \<noteq> length (x_pending x)
       then x_prepend (JobCancelled now t) y else y)"
    by (simp add: cancel_job_def Let_def on_runtime_def y_def kept_def rs_def)
  let ?s = "x_sched x" and ?ls = "located x" and ?V = "set (x_runs x)"
  have L: "ledger {} ?s (starts (x_actions x)) (t # cancels (x_actions x)) ?ls ?V (cancel_reports x)"
    using led by (simp add: booked_exec_def)
  note F = ledger_cancel [OF L] and B = L [unfolded ledger_def, rule_format, OF True [THEN conjunct1] True [THEN conjunct2]]
  have inj: "inj_on tk_run_id (held ?s \<union> set (t # cancels (x_actions x)))" and held: "set ?ls \<subseteq> held ?s"
    and dist: "distinct ?ls"
    using B by auto
  have only: "tk_run_id u = tk_run_id t \<longleftrightarrow> u = t" if "u \<in> set ?ls" for u
    using inj_onD [OF inj, of u t] that held by auto
  have ls: "?ls = run_tickets (x_pending x) @ rest" by (simp add: located_def rest_def)
  have "filter (\<lambda>u. tk_run_id u \<noteq> tk_run_id t) (run_tickets (x_pending x)) =
      filter (\<lambda>u. t \<noteq> u) (run_tickets (x_pending x))"
    by (rule filter_cong) (use only in \<open>auto simp: ls\<close>)
  then have kept: "run_tickets kept = removeAll t (run_tickets (x_pending x))"
    by (simp add: kept_def run_tickets_drop removeAll_filter_not_eq)
  have ly: "located y = run_tickets kept @ rest"
    by (simp add: located_def rest_def y_def)
  have same: "x_sched y = ?s" "x_actions y = x_actions x" "cancel_reports y = cancel_reports x"
    "set (x_runs y) = ?V - {tk_run_id t}"
    by (simp_all add: y_def)
  have report: "booked_now (x_prepend (JobCancelled now t) y)"
    if y: "ledger {t} ?s (starts (x_actions x)) (cancels (x_actions x)) (located y) (?V - {tk_run_id t})
         (cancel_reports x)" and out: "t \<notin> set (located y)"
  proof -
    have "t \<notin> flying ?s" using F True by blast
    then have "booked_exec {} (fst (x_handle (JobCancelled now t) y))
        (x_actions y @ actions (snd (x_handle (JobCancelled now t) y)))"
      by (intro booked_report)
        (use y True now out in \<open>simp_all add: booked_exec_def same reports_def\<close>)
    then show ?thesis
      using booked_comm by (simp add: x_prepend_def case_prod_unfold Let_def)
  qed
  show ?thesis
  proof (cases "t \<in> set (run_tickets (x_pending x))")
    case True
    have m: "mset ?ls = mset (t # located y)"
      using True dist by (simp add: ls ly kept distinct_remove1_removeAll [symmetric])
    then have out: "t \<notin> set (located y)"
      using dist mset_eq_imp_distinct_iff [OF m] by simp
    have "length kept \<noteq> length (x_pending x)"
    proof
      assume "length kept = length (x_pending x)"
      then have "kept = x_pending x" unfolding kept_def by (metis filter_id_conv length_filter_less less_irrefl)
      then show False using kept True by (metis removeAll_id set_removeAll Diff_iff singletonI)
    qed
    then show ?thesis
      using report [OF ledger_uncancel [OF L disjI1 [OF m]] out] by (simp add: job)
  next
    case False
    then have k: "run_tickets kept = run_tickets (x_pending x)" by (simp add: kept)
    then have lsy: "located y = ?ls" by (simp add: ls ly)
    have all: "filter (\<lambda>u. tk_run_id u \<noteq> tk_run_id t) (run_tickets (x_pending x)) = run_tickets (x_pending x)"
      using k by (simp add: kept_def run_tickets_drop)
    have "\<forall>p \<in> set (x_pending x). case message_ticket (snd p) of
        None \<Rightarrow> True | Some queued \<Rightarrow> tk_run_id queued \<noteq> tk_run_id t"
    proof
      fix p assume "p \<in> set (x_pending x)"
      then have "message_ticket (snd p) = Some u \<Longrightarrow> u \<in> set (run_tickets (x_pending x))" for u
        using in_run_tickets [of u "x_pending x"] by (metis prod.collapse)
      then show "case message_ticket (snd p) of None \<Rightarrow> True | Some queued \<Rightarrow> tk_run_id queued \<noteq> tk_run_id t"
        using all unfolding filter_id_conv by (auto split: option.split)
    qed
    then have len: "length kept = length (x_pending x)"
      unfolding kept_def by (subst filter_True) (auto simp: case_prod_unfold)
    show ?thesis
    proof (cases "tk_run_id t \<in> ?V")
      case True
      then have "t \<in> set ?ls" using F \<open>alive ?s\<close> by blast
      then show ?thesis
        using ledger_uncancel [OF L, of ?ls "{}"] True len
        by (simp add: job booked_exec_def same lsy)
    next
      case False
      then have out: "t \<notin> set ?ls" using F \<open>alive ?s\<close> by blast
      then show ?thesis
        using report [unfolded lsy, OF ledger_uncancel [OF L, of ?ls "{t}"]] False by (simp add: job)
    qed
  qed
qed

lemma ledger_start:
  assumes led: "ledger {} s (t # ss) cs ls V K" and fly: "alive s \<Longrightarrow> t \<in> flying s"
    and ls: "mset ls' = mset (t # ls)" and K: "K \<subseteq> set ls"
  shows "ledger {} s ss cs ls' (insert (tk_run_id t) V) K"
proof -
  have "ledger {} s ss cs (t # ls) (insert (tk_run_id t) V) K"
    unfolding ledger_def
  proof (intro impI)
    assume alive: "runs_left s" "s_lifecycle s \<noteq> Stopped"
    note L = led [unfolded ledger_def, rule_format, OF alive]
    have t: "t \<in> flying s" using fly alive by simp
    then have "t \<in> held s" by (simp add: held_eq)
    moreover have "t \<notin> set ls" "t \<notin> set ss" "t \<notin> K" using L K by auto
    ultimately show "owners_inv s \<and> flights_current s \<and> s_lifecycle s \<noteq> Unstarted \<and>
        flying s - {} \<subseteq> set ss \<union> set (t # ls) \<and> ending s - {} \<subseteq> set cs \<union> set (t # ls) \<and>
        set (t # ls) \<subseteq> held s \<and> set cs \<inter> flying s = {} \<and>
        (\<forall>u \<in> set (t # ls). u \<in> flying s \<union> set cs \<longrightarrow>
           tk_run_id u \<in> insert (tk_run_id t) V \<and> u \<notin> K) \<and>
        insert (tk_run_id t) V \<subseteq> tk_run_id ` set (t # ls) \<and> distinct ((t # ls) @ ss) \<and>
        distinct cs \<and> (\<forall>t \<in> set ss \<union> set cs. tk_run_id t < s_next_run_id s) \<and>
        inj_on tk_run_id (held s \<union> set cs)"
      using L by auto
  qed
  then show ?thesis using ledger_mset [OF refl refl ls] by blast
qed

lemma ledger_skip:
  assumes led: "ledger {} s (t # ss) cs ls V K" and fly: "alive s \<Longrightarrow> t \<notin> flying s"
  shows "ledger {} s ss cs ls V K"
  unfolding ledger_def
proof (intro impI)
  assume alive: "runs_left s" "s_lifecycle s \<noteq> Stopped"
  note L = led [unfolded ledger_def, rule_format, OF alive]
  have "flying s \<subseteq> set ss \<union> set ls" using L fly alive by auto
  then show "owners_inv s \<and> flights_current s \<and> s_lifecycle s \<noteq> Unstarted \<and>
      flying s - {} \<subseteq> set ss \<union> set ls \<and> ending s - {} \<subseteq> set cs \<union> set ls \<and>
      set ls \<subseteq> held s \<and> set cs \<inter> flying s = {} \<and>
      (\<forall>t \<in> set ls. t \<in> flying s \<union> set cs \<longrightarrow> tk_run_id t \<in> V \<and> t \<notin> K) \<and>
      V \<subseteq> tk_run_id ` set ls \<and> distinct (ls @ ss) \<and> distinct cs \<and>
      (\<forall>t \<in> set ss \<union> set cs. tk_run_id t < s_next_run_id s) \<and>
      inj_on tk_run_id (held s \<union> set cs)"
    using L by auto
qed

lemma current_flying: "is_current_ticket s t \<Longrightarrow> t \<in> flying s"
  unfolding flying_iff is_current_ticket_def
  by (auto split: option.splits dest: bm_get_in)

lemma reports_located: "cancel_reports x \<subseteq> set (located x)"
  by (force simp: cancel_reports_def located_def)

lemma booked_start:
  assumes led: "booked_exec {} x (StartJob t # x_actions x)" and out: "\<not> x_failed (start_job t x)"
  shows "booked_now (start_job t x)"
proof (cases "is_current_ticket (x_sched x) t")
  case False
  have L: "ledger {} (x_sched x) (t # starts (x_actions x)) (cancels (x_actions x)) (located x)
      (set (x_runs x)) (cancel_reports x)"
    using led by (simp add: booked_exec_def)
  have "alive (x_sched x) \<Longrightarrow> flights_current (x_sched x)" using L unfolding ledger_def by blast
  then have "ledger {} (x_sched x) (starts (x_actions x)) (cancels (x_actions x)) (located x)
      (set (x_runs x)) (cancel_reports x)"
    by (intro ledger_skip [OF L]) (use False in \<open>auto simp: flights_current_def\<close>)
  then show ?thesis using False by (simp add: start_job_def booked_exec_def)
next
  case True
  define y where "y = on_runtime (mark_graph_render_requested t)
    (x\<lparr>x_runs := bs_insert (tk_run_id t) (x_runs x)\<rparr>)"
  define m where "m = Msg_Run \<lparr>ji_ticket = t, ji_style_generation = rt_style_generation (x_runtime y),
    ji_render_generation = rt_render_generation (x_runtime y)\<rparr>"
  have start: "start_job t x = x_queue_or_fail (jid_owner (tk_job t)) m y"
    using True by (simp add: start_job_def Let_def y_def m_def)
  have m: "message_ticket m = Some t" by (simp add: m_def)
  have y: "x_sched y = x_sched x" "x_pending y = x_pending x" "x_actions y = x_actions x"
    "located y = located x" "cancel_reports y = cancel_reports x"
    "set (x_runs y) = insert (tk_run_id t) (set (x_runs x))"
    by (simp_all add: y_def on_runtime_def)
  let ?z = "fst (x_queue (jid_owner (tk_job t)) m y)"
  have ok: "snd (queue_owner_message (jid_owner (tk_job t)) m (x_pending y))"
    using out by (auto simp: start x_queue_or_fail_def x_queue_eq Let_def split: if_splits)
  have z: "start_job t x = ?z" using ok by (simp add: start x_queue_or_fail_def x_queue_eq)
  have L: "ledger {} (x_sched x) (t # starts (x_actions x)) (cancels (x_actions x)) (located x)
      (set (x_runs x)) (cancel_reports x)"
    using led by (simp add: booked_exec_def)
  show ?thesis
  proof (cases "alive (x_sched x)")
    case False
    then show ?thesis by (intro booked_dead) (simp add: z x_queue_eq y)
  next
    case alive: True
    note B = L [unfolded ledger_def, rule_format, OF alive [THEN conjunct1] alive [THEN conjunct2]]
    have t: "t \<in> flying (x_sched x)" by (rule current_flying [OF True])
    have fresh: "tk_run_id u \<noteq> tk_run_id t" if "u \<in> set (run_tickets (x_pending x))" for u
    proof
      assume eq: "tk_run_id u = tk_run_id t"
      have "u \<in> set (located x)" using that by (simp add: located_def)
      then have "u \<in> held (x_sched x)" "u \<noteq> t" using B by auto
      moreover have "t \<in> held (x_sched x)" using t by (simp add: held_eq)
      moreover have "inj_on tk_run_id (held (x_sched x) \<union> set (cancels (x_actions x)))" using B by blast
      ultimately show False using eq by (auto dest: inj_onD)
    qed
    have "run_tickets (fst (queue_owner_message (jid_owner (tk_job t)) m (x_pending x))) =
        run_tickets (x_pending x) @
          (if snd (queue_owner_message (jid_owner (tk_job t)) m (x_pending x))
           then opt_list (message_ticket m) else [])"
      by (rule queue_runs) (use fresh m in auto)
    then have "run_tickets (x_pending ?z) = run_tickets (x_pending x) @ [t]"
      using ok m by (simp add: x_queue_eq y opt_list_def)
    then have "mset (located ?z) = mset (t # located x)"
      by (simp add: located_def x_queue_eq y_def on_runtime_def)
    from ledger_start [OF L _ this reports_located] t show ?thesis
      unfolding z by (simp add: booked_exec_def x_queue_eq y)
  qed
qed

lemma enqueue_frame [simp]:
  "x_runtime (x_enqueue ev x) = x_runtime x" "x_failed (x_enqueue ev x) = x_failed x"
  "x_runtime (x_prepend ev x) = x_runtime x" "x_failed (x_prepend ev x) = x_failed x"
  "x_slot (x_enqueue ev x) = x_slot x"
  by (simp_all add: x_enqueue_def x_prepend_def x_handle_eq)

lemma on_runtime_frame [simp]:
  "x_actions (on_runtime f x) = x_actions x" "x_failed (on_runtime f x) = x_failed x"
  "x_runtime (on_runtime f x) = f (x_runtime x)" "x_sched (on_runtime f x) = x_sched x"
  "x_runs (on_runtime f x) = x_runs x"
  by (simp_all add: on_runtime_def)

lemma is_report_simps [simp]:
  "\<not> is_report (TimeAdvanced n)" "\<not> is_report (PanelPublished n p)" "\<not> is_report (RefreshTriggered n j k)"
  "\<not> is_report (InventoryChanged n u)" "\<not> is_report (DisplayRefreshRequested n)"
  "\<not> is_report (TooltipRefreshRequested n)" "\<not> is_report (CriticalFailure n c)"
  "\<not> is_report (Shutdown n)" "\<not> is_report (Suspend n)" "\<not> is_report (Resume n)"
  "\<not> is_report (TooltipPresented n b)" "\<not> is_report (SelectedPageChanged n pg)"
  "\<not> is_report (Startup n config g)"
  by (simp_all add: is_report_def)

lemma booked_graph:
  "booked_exec Z x (x_actions x @ acts) \<Longrightarrow>
     booked_exec Z (request_selected_graph now x) (x_actions (request_selected_graph now x) @ acts)"
  by (auto simp: request_selected_graph_def intro: booked_enqueue split: option.split)

lemma booked_failure:
  "booked_exec Z x (x_actions x @ acts) \<Longrightarrow>
     booked_exec Z (critical_failure component now x) (x_actions (critical_failure component now x) @ acts)"
  unfolding critical_failure_def by (rule booked_enqueue) simp_all

lemmas booked_enqueue_now = booked_enqueue [where acts = "[]", simplified]
lemmas booked_graph_now = booked_graph [where acts = "[]", simplified]
lemmas booked_failure_now = booked_failure [where acts = "[]", simplified]

lemma booked_publish:
  assumes "booked_now x"
  shows "booked_now (publish_display env p reason skipped panel tooltip x)"
proof -
  define x1 where "x1 = on_runtime (\<lambda>rs. if reason = Pub_FirstPaintReady \<or> reason = Pub_FirstPaintTimeout
    then rs\<lparr>rt_first_paint_published := True\<rparr> else rs) x"
  define x2 where "x2 = (if panel
    then x_prepend (PanelPublished (le_now env) p)
           (if le_width_changed env then on_runtime drop_graph x1 else x1) else x1)"
  have "booked_now (if le_width_changed env then on_runtime drop_graph x1 else x1)" "booked_now x1"
    using assms by (simp_all add: x1_def)
  then have "booked_now x2" unfolding x2_def by (auto intro: booked_prepend)
  then have "booked_now (request_selected_graph (le_now env) x2)" "booked_now x2"
    by (simp_all add: booked_graph_now)
  then show ?thesis
    using assms by (simp add: publish_display_def Let_def x1_def [symmetric] x2_def [symmetric]
        case_prod_unfold)
qed

lemma booked_drain:
  assumes x: "booked_now x" and now: "s_now (x_sched x) \<le> le_now env"
    and out: "\<not> x_failed (drain_one env x)"
  shows "booked_now (drain_one env x)"
proof (cases "x_actions x")
  case (Cons a rest)
  let ?x = "x\<lparr>x_actions := rest\<rparr>"
  have one: "drain_one env x = apply_action env a ?x" by (simp add: drain_one_def Cons)
  have all: "booked_exec {} ?x (a # x_actions ?x)" using x by (simp add: Cons)
  then have quiet: "is_quiet a \<Longrightarrow> booked_now ?x" using booked_quiet [of a _ _ "[]"] by simp
  show ?thesis
  proof (cases a)
    case (StartJob t)
    then show ?thesis using booked_start [of ?x t] all out one by (simp add: apply_action_def)
  next
    case (CancelJob t r)
    then show ?thesis using booked_cancel [of ?x t r "le_now env"] all now one by (simp add: apply_action_def)
  qed (use quiet one in \<open>simp_all add: apply_action_def invalidate_job_def rescan_message_def
      booked_publish booked_queue_or_fail\<close>)
qed (use x in \<open>simp add: drain_one_def\<close>)

lemma located_flush:
  assumes "flush_owner_messages answer (x_pending x) = (p, q, None)"
  shows "mset (located (x\<lparr>x_pending := p, x_channels := x_channels x @ q\<rparr>)) = mset (located x)"
  using flush_loop_runs [OF assms [unfolded flush_owner_messages_def]]
  by (simp add: located_def ac_simps)

lemma booked_located:
  assumes "booked_exec Z x acts" "mset (located y) = mset (located x)" "x_sched y = x_sched x"
    "x_runs y = x_runs x" "cancel_reports y = cancel_reports x"
  shows "booked_exec Z y acts"
  using assms ledger_mset [OF refl refl assms(2)] by (simp add: booked_exec_def)

lemma stop_handle:
  assumes "s_lifecycle s \<noteq> Unstarted" "s_now s \<le> event_at ev"
    and "(\<exists>n. ev = Shutdown n) \<or> (\<exists>n c. ev = CriticalFailure n c)"
  shows "s_lifecycle (fst (handle s ev)) = Stopped"
proof (cases "s_lifecycle s = Stopped")
  case True
  then show ?thesis using stopped_handle [of s ev] by simp
next
  case False
  have "\<not> is_startup ev" "\<not> is_stale s ev" using assms(3) by (auto simp: is_startup_def is_stale_def)
  then have "handle s ev = finish_transition (handle_event ev (s\<lparr>s_now := event_at ev\<rparr>, []))"
    using assms False by (simp add: handle_def Let_def)
  moreover have "s_lifecycle (fst (snd (handle_event ev io))) = Stopped" for io
    using assms(3) by (auto simp: handle_event_def stop_def push_def on_state_def)
  ultimately show ?thesis by simp
qed

lemma booked_stop:
  assumes x: "booked_exec Z x acts" and now: "s_now (x_sched x) \<le> event_at ev"
    and ev: "(\<exists>n. ev = Shutdown n) \<or> (\<exists>n c. ev = CriticalFailure n c)"
    and y: "x_sched y = fst (handle (x_sched x) ev)"
  shows "booked_exec Z' y acts'"
proof (rule booked_dead)
  show "\<not> alive (x_sched y)"
  proof (cases "alive (x_sched x)")
    case True
    then have "s_lifecycle (x_sched x) \<noteq> Unstarted"
      using x unfolding booked_exec_def ledger_def by blast
    then show ?thesis using stop_handle [OF _ now ev] by (simp add: y)
  next
    case False
    then show ?thesis using dead_handle [of x ev] by (simp add: x_handle_eq y)
  qed
qed

lemma booked_flush:
  assumes x: "booked_now x" and now: "s_now (x_sched x) \<le> now"
  shows "booked_now (flush_step answer now x)"
proof -
  obtain p q f where f: "flush_owner_messages answer (x_pending x) = (p, q, f)" by (metis prod_cases3)
  show ?thesis
  proof (cases f)
    case None
    have "booked_exec {} (x\<lparr>x_pending := p, x_channels := x_channels x @ q\<rparr>) (x_actions x)"
      by (rule booked_located [OF x located_flush [OF f [unfolded None]]]) simp_all
    then show ?thesis by (simp add: flush_step_def f None)
  next
    case (Some own)
    show ?thesis
      by (rule booked_stop [OF x, of "CriticalFailure now (owner_name own)"])
        (use now in \<open>simp_all add: flush_step_def f Some critical_failure_def x_enqueue_def x_handle_eq\<close>)
  qed
qed

lemma booked_take:
  assumes "booked_now x" "x_slot x = None" "x_completions x = before @ c # after"
  shows "booked_now (x_enqueue (TimeAdvanced at) (x\<lparr>x_slot := Some c, x_completions := before @ after\<rparr>))"
proof (rule booked_enqueue_now)
  have "booked_exec {} (x\<lparr>x_slot := Some c, x_completions := before @ after\<rparr>) (x_actions x)"
    by (rule booked_located [OF assms(1)])
      (use assms in \<open>auto simp: located_def cancel_reports_def opt_list_def ac_simps\<close>)
  then show "booked_now (x\<lparr>x_slot := Some c, x_completions := before @ after\<rparr>)" by simp
qed simp

lemma ledger_mark:
  assumes "ledger Z s ss cs ls V K" "t \<in> set ls" "tk_run_id t \<notin> V"
  shows "ledger Z s ss cs ls V (insert t K)"
  using assms unfolding ledger_def by blast

lemma booked_mark:
  assumes "booked_exec Z x acts" "t \<in> set (located x)" "tk_run_id t \<notin> set (x_runs x)"
    "mset (located y) = mset (located x)" "x_sched y = x_sched x" "x_runs y = x_runs x"
    "cancel_reports y = insert t (cancel_reports x)"
  shows "booked_exec Z y acts"
  using ledger_mark [of Z "x_sched x" "starts acts" "cancels acts" "located x"] assms
    ledger_mset [OF refl refl assms(4)] by (simp add: booked_exec_def)

lemma reports_append: "cancel_reports (x\<lparr>x_completions := x_completions x @ [c]\<rparr>) =
    (case c of RunCancelled t \<Rightarrow> insert t (cancel_reports x) | _ \<Rightarrow> cancel_reports x)"
  by (auto simp: cancel_reports_def split: owner_completion.split)

lemma booked_receive:
  fixes light :: bool
  assumes x: "booked_now x" and ch: "x_channels x = before @ (own, m) # after"
  defines "y \<equiv> worker_receive light own m (x\<lparr>x_channels := before @ after\<rparr>)"
  shows "booked_now y"
proof -
  have acts: "x_actions y = x_actions x" "x_sched y = x_sched x" "x_runs y = x_runs x"
    by (simp_all add: y_def worker_receive_def split: owner_message.split)
  have loc: "mset (located y) = mset (located x)"
    by (cases m) (simp_all add: y_def worker_receive_def located_def ch opt_list_def ac_simps)
  show ?thesis
  proof (cases "\<exists>input. m = Msg_Run input \<and> tk_run_id (ji_ticket input) \<notin> set (x_runs x)")
    case True
    then obtain input where m: "m = Msg_Run input" "tk_run_id (ji_ticket input) \<notin> set (x_runs x)" by blast
    show ?thesis
      unfolding acts
      by (rule booked_mark [OF x _ m(2) loc])
        (use m in \<open>auto simp: acts located_def ch opt_list_def y_def worker_receive_def cancel_reports_def\<close>)
  next
    case False
    have "cancel_reports y = cancel_reports x"
      using False by (cases m) (auto simp: y_def worker_receive_def cancel_reports_def)
    then show ?thesis unfolding acts by (intro booked_located [OF x loc acts(2,3)])
  qed
qed

lemma booked_lane:
  assumes x: "booked_now x" and w: "x_waiting x = before @ (own, input) # after"
  defines "y \<equiv> worker_enter_lane own input (x\<lparr>x_waiting := before @ after\<rparr>)"
  shows "booked_now y"
proof -
  have acts: "x_actions y = x_actions x" "x_sched y = x_sched x" "x_runs y = x_runs x"
    by (simp_all add: y_def worker_enter_lane_def)
  have loc: "mset (located y) = mset (located x)"
    by (simp add: y_def worker_enter_lane_def located_def w ac_simps)
  show ?thesis
  proof (cases "tk_run_id (ji_ticket input) \<in> set (x_runs x)")
    case True
    then have "cancel_reports y = cancel_reports x"
      by (auto simp: y_def worker_enter_lane_def cancel_reports_def)
    then show ?thesis unfolding acts by (intro booked_located [OF x loc acts(2,3)])
  next
    case False
    show ?thesis
      unfolding acts
      by (rule booked_mark [OF x _ False loc])
        (use False in \<open>auto simp: acts located_def w y_def worker_enter_lane_def cancel_reports_def\<close>)
  qed
qed

lemma booked_finish:
  assumes x: "booked_now x" and e: "x_executing x = before @ (own, input) # after"
  shows "booked_now (worker_finish c ready rendered own input (x\<lparr>x_executing := before @ after\<rparr>))"
proof -
  have "booked_exec {} (worker_finish c ready rendered own input (x\<lparr>x_executing := before @ after\<rparr>)) (x_actions x)"
    by (rule booked_located [OF x])
      (auto simp: worker_finish_def located_def e cancel_reports_def ac_simps)
  then show ?thesis by (simp add: worker_finish_def)
qed

end
