(* ===== verification/ExecutorBooks.thy ===== *)
theory ExecutorBooks
  imports ExecutorLedger
begin

text \<open>
  The books of the executor are kept by completions and by every step of the loop.
\<close>

section \<open>Completions\<close>

text \<open>A deferred publication is neither a start nor a cancellation.\<close>

definition paint_ok :: "runtime \<Rightarrow> bool" where
  "paint_ok rs \<longleftrightarrow> (\<forall>a. rt_deferred_paint rs = Some a \<longrightarrow> is_quiet a)"

lemma paint_upd [simp]:
  "rt_deferred_paint (bump_render rs) = rt_deferred_paint rs"
  "rt_deferred_paint (drop_graph rs) = rt_deferred_paint rs"
  "rt_deferred_paint (commit eff c rs) = rt_deferred_paint rs"
  "rt_deferred_paint (note_completed c current acts rs) = rt_deferred_paint rs"
  "rt_deferred_paint (mark_graph_render_requested t rs) = rt_deferred_paint rs"
  "rt_deferred_paint (clear_graph_render_requested t rs) = rt_deferred_paint rs"
  "rt_deferred_paint (refresh_deferred_first_paint_jobs rs) = rt_deferred_paint rs"
  by (simp_all add: bump_render_def drop_graph_def commit_def note_completed_def Let_def
      mark_graph_render_requested_def clear_graph_render_requested_def
      refresh_deferred_first_paint_jobs_def split: option.split)

lemma graph_runtime [simp]: "x_runtime (request_selected_graph now x) = x_runtime x"
  by (simp add: request_selected_graph_def split: option.split)

lemma quiet_aware: "is_quiet a \<Longrightarrow> is_quiet (deadline_aware_first_paint now boot a)"
  by (cases a) (simp_all add: deadline_aware_first_paint_def)

lemma booked_append_quiet: "is_quiet a \<Longrightarrow> booked_exec Z x (as @ [a]) = booked_exec Z x as"
  using booked_quiet [of a Z x as "[]"] by simp

lemma booked_inventory:
  assumes b: "booked_exec Z x (x_actions x @ finished)" and p: "paint_ok (x_runtime x)"
    and r: "commit_inventory eff at before finished x = (y, rest, none)"
  shows "booked_exec Z y (x_actions y @ rest) \<and> paint_ok (x_runtime y)"
proof -
  define rs finished1 where
    "rs = (case take_first_paint finished of None \<Rightarrow> x_runtime x
       | Some (publication, rest) \<Rightarrow> refresh_deferred_first_paint_jobs
           ((x_runtime x)\<lparr>rt_deferred_paint := Some publication\<rparr>))" and
    "finished1 = (case take_first_paint finished of None \<Rightarrow> finished | Some (publication, rest) \<Rightarrow> rest)"
  have both: "(case take_first_paint finished of None \<Rightarrow> (x_runtime x, finished)
       | Some (publication, rest) \<Rightarrow> (refresh_deferred_first_paint_jobs
           ((x_runtime x)\<lparr>rt_deferred_paint := Some publication\<rparr>), rest)) = (rs, finished1)"
    by (simp add: rs_def finished1_def split: option.split prod.split)
  have f1: "starts finished1 = starts finished" "cancels finished1 = cancels finished"
    by (auto simp: finished1_def dest: take_first_paint_accounts split: option.split)
  have pr: "paint_ok rs"
    using p by (auto simp: rs_def paint_ok_def dest: take_first_paint_accounts intro: quiet_filters(4)
        split: option.splits)
  let ?update = "\<lparr>inv_generation = generation_next (rt_inventory_generation rs),
    inv_jobs = cfg_jobs (rt_config rs), inv_demand = cfg_demand (rt_config rs),
    resume_acknowledgement = None\<rparr>"
  let ?x = "x\<lparr>x_runtime := rs\<lparr>rt_inventory_generation := generation_next (rt_inventory_generation rs)\<rparr>\<rparr>"
  have y: "y = x_enqueue (InventoryChanged at ?update) ?x"
    and rest: "rest = finished1 \<or> rest = suppress_tooltip_refresh finished1"
    using r unfolding commit_inventory_def both Let_def by (auto split: if_splits)
  have "starts rest = starts finished" "cancels rest = cancels finished"
    using rest f1 quiet_filter [of "\<lambda>a. \<not> is_refresh_publish a" finished1] quiet_filters(2)
    by (auto simp: suppress_tooltip_refresh_def)
  then have "booked_exec Z x (x_actions x @ rest) = booked_exec Z x (x_actions x @ finished)"
    by (intro booked_mset) simp_all
  then have "booked_exec Z ?x (x_actions ?x @ rest)" using b by simp
  then have "booked_exec Z y (x_actions y @ rest)" unfolding y by (rule booked_enqueue) simp
  moreover have "paint_ok (x_runtime y)" using pr by (simp add: y paint_ok_def)
  ultimately show ?thesis ..
qed

lemma booked_reconcile:
  assumes b: "booked_now x" and p: "paint_ok (x_runtime x)"
  shows "booked_now (reconcile_inventory_publication none now boot at x) \<and>
    paint_ok (x_runtime (reconcile_inventory_publication none now boot at x))"
proof -
  obtain y rel where y: "release_deferred_first_paint now boot x = (y, rel)" by fastforce
  have ry: "booked_now y \<and> paint_ok (x_runtime y)"
    using y b p by (auto simp: release_deferred_first_paint_def paint_ok_def booked_append_quiet quiet_aware
        split: if_splits option.splits)
  let ?d = "y\<lparr>x_actions := remove_tooltip_only_publications (x_actions y)\<rparr>"
  have d: "booked_now ?d"
    using ry booked_filter(3) [of "\<lambda>a. \<not> is_tooltip_only a" _ y "x_actions y"] quiet_filters(1)
    by (simp add: remove_tooltip_only_publications_def)
  have e: "booked_now (x_enqueue (DisplayRefreshRequested at) ?d)"
    by (rule booked_enqueue_now [OF d]) simp
  show ?thesis
    using ry d e unfolding reconcile_inventory_publication_def y prod.case Let_def by simp
qed

lemma booked_rerender:
  assumes "booked_now x"
  shows "booked_now (rerender_after at c a b x) \<and> x_runtime (rerender_after at c a b x) = x_runtime x"
proof -
  let ?y = "if a \<and> \<not> list_ex is_tooltip_publish (x_actions x)
    then x_enqueue (RefreshTriggered at (tk_job (jc_ticket c)) Trig_Signal) x else x"
  have "booked_now ?y \<and> x_runtime ?y = x_runtime x" using assms by (simp add: booked_enqueue_now)
  then show ?thesis unfolding rerender_after_def Let_def by (simp add: booked_enqueue_now)
qed

text \<open>The stages of \<open>complete_job\<close>, named.\<close>

lemma complete_job_stages:
  fixes c :: job_completion and x :: executor
  defines "t \<equiv> jc_ticket c"
  defines "x0 \<equiv> x\<lparr>x_runs := bs_remove (tk_run_id t) (x_runs x),
    x_deciding := remove1 (jid_owner (tk_job t)) (x_deciding x)\<rparr>"
  defines "eligible \<equiv> can_commit (x_runtime x0) (x_sched x0) c"
  obtains x1 fin current x2 x3 before x4 rest none x5 rerender rendered where
    "x_handle (JobFinished at t (jc_completion c) (eligible \<and> jc_notification_ready c)) x0 = (x1, fin)"
    "current = (eligible \<and> disposition fin = Accepted)"
    "x2 = on_runtime (\<lambda>rs. note_completed c current (actions fin)
       (if current then commit eff c rs else rs)) x1"
    "x3 = (if should_trigger_nvidia_fallback current (jid_kind (tk_job t)) (jc_completion c) fin
       then x_enqueue (RefreshTriggered at (job_singleton Own_Nvidia Job_NvidiaFallback) Trig_Reconnect) x2
       else x2)"
    "(if current \<and> ce_inventory_changed eff then commit_inventory eff at before (actions fin) x3
      else (x3, actions fin, False)) = (x4, rest, none)"
    "x5 = reconcile_inventory_publication none now boot at (x4\<lparr>x_actions := x_actions x4 @ rest\<rparr>)"
    "complete_job eff boot now at c x = rerender_after at c rerender rendered x5"
proof -
  obtain x1 fin where h1: "x_handle (JobFinished at t (jc_completion c)
      (eligible \<and> jc_notification_ready c)) x0 = (x1, fin)"
    by fastforce
  define current where "current = (eligible \<and> disposition fin = Accepted)"
  define x2 where "x2 = on_runtime (\<lambda>rs. note_completed c current (actions fin)
    (if current then commit eff c rs else rs)) x1"
  define x3 where "x3 = (if should_trigger_nvidia_fallback current (jid_kind (tk_job t)) (jc_completion c) fin
    then x_enqueue (RefreshTriggered at (job_singleton Own_Nvidia Job_NvidiaFallback) Trig_Reconnect) x2
    else x2)"
  define before where "before = (if current then map spec_id (cfg_jobs (rt_config (x_runtime x1))) else [])"
  obtain x4 rest none where h4: "(if current \<and> ce_inventory_changed eff
      then commit_inventory eff at before (actions fin) x3 else (x3, actions fin, False)) = (x4, rest, none)"
    by (metis prod_cases3)
  define x5 where "x5 = reconcile_inventory_publication none now boot at
    (x4\<lparr>x_actions := x_actions x4 @ rest\<rparr>)"
  obtain r p where "complete_job eff boot now at c x = rerender_after at c r p x5"
    unfolding complete_job_def Let_def t_def [symmetric] x0_def [symmetric] eligible_def [symmetric]
      h1 prod.case current_def [symmetric] x2_def [symmetric] x3_def [symmetric]
      before_def [symmetric] h4 x5_def [symmetric]
    by blast
  then show thesis using that h1 current_def x2_def x3_def h4 x5_def by blast
qed

lemma booked_complete_job:
  fixes c :: job_completion and x :: executor
  defines "t \<equiv> jc_ticket c"
  defines "x0 \<equiv> x\<lparr>x_runs := bs_remove (tk_run_id t) (x_runs x),
    x_deciding := remove1 (jid_owner (tk_job t)) (x_deciding x)\<rparr>"
  assumes b: "booked_exec {t} x0 (x_actions x0)" and p: "paint_ok (x_runtime x)"
    and out: "alive (x_sched x) \<Longrightarrow> t \<notin> set (located x)" and now: "s_now (x_sched x) \<le> at"
  shows "booked_now (complete_job eff boot now at c x) \<and> paint_ok (x_runtime (complete_job eff boot now at c x))"
proof -
  define eligible where "eligible = can_commit (x_runtime x0) (x_sched x0) c"
  obtain x1 fin current x2 x3 before x4 rest none x5 r p' where
    h1: "x_handle (JobFinished at t (jc_completion c) (eligible \<and> jc_notification_ready c)) x0 = (x1, fin)" and
    "current = (eligible \<and> disposition fin = Accepted)" and
    x2_def: "x2 = on_runtime (\<lambda>rs. note_completed c current (actions fin)
       (if current then commit eff c rs else rs)) x1" and
    x3_def: "x3 = (if should_trigger_nvidia_fallback current (jid_kind (tk_job t)) (jc_completion c) fin
       then x_enqueue (RefreshTriggered at (job_singleton Own_Nvidia Job_NvidiaFallback) Trig_Reconnect) x2
       else x2)" and
    h4: "(if current \<and> ce_inventory_changed eff then commit_inventory eff at before (actions fin) x3
      else (x3, actions fin, False)) = (x4, rest, none)" and
    x5_def: "x5 = reconcile_inventory_publication none now boot at (x4\<lparr>x_actions := x_actions x4 @ rest\<rparr>)" and
    eq: "complete_job eff boot now at c x = rerender_after at c r p' x5"
    by (rule complete_job_stages [where c = c and x = x and eff = eff and boot = boot and now = now
        and at = at, folded t_def, folded x0_def, folded eligible_def])
  have "alive (x_sched x0) \<Longrightarrow> t \<notin> set (located x0)" "s_now (x_sched x0) \<le> at"
    using out now by (simp_all add: x0_def)
  then have "booked_exec {} x1 (x_actions x0 @ actions fin)"
    using booked_report [OF b, of "JobFinished at t (jc_completion c) (eligible \<and> jc_notification_ready c)"]
    by (simp add: h1 reports_def)
  moreover have "x_actions x1 = x_actions x0" "x_runtime x1 = x_runtime x"
    using h1 by (auto simp: x_handle_eq x0_def)
  ultimately have "booked_exec {} x2 (x_actions x2 @ actions fin)" and "paint_ok (x_runtime x2)"
    using p by (simp_all add: x2_def paint_ok_def)
  then have x3: "booked_exec {} x3 (x_actions x3 @ actions fin)" "paint_ok (x_runtime x3)"
    by (simp_all add: x3_def booked_enqueue)
  have "booked_exec {} x4 (x_actions x4 @ rest) \<and> paint_ok (x_runtime x4)"
  proof (cases "current \<and> ce_inventory_changed eff")
    case True
    then show ?thesis using booked_inventory [OF x3] h4 by simp
  next
    case False
    then show ?thesis using x3 h4 by auto
  qed
  then have "booked_now x5 \<and> paint_ok (x_runtime x5)"
    unfolding x5_def by (intro booked_reconcile) simp_all
  then show ?thesis using booked_rerender unfolding eq by metis
qed

lemma booked_rescan:
  assumes b: "booked_now x" and p: "paint_ok (x_runtime x)" and now: "s_now (x_sched x) \<le> now"
  shows "booked_now (complete_rescan eff now r x) \<and> paint_ok (x_runtime (complete_rescan eff now r x))"
proof -
  define rs where "rs = (if ce_inventory_changed eff then drop_graph (x_runtime x) else x_runtime x)"
  define x1 where "x1 = x\<lparr>x_runtime := rs\<lparr>rt_inventory_generation := generation_next (rt_inventory_generation rs),
    rt_config := ce_config eff\<rparr>\<rparr>"
  define x2 where "x2 = x_enqueue (InventoryChanged now
    \<lparr>inv_generation = generation_next (rt_inventory_generation rs), inv_jobs = cfg_jobs (ce_config eff),
     inv_demand = cfg_demand (ce_config eff), resume_acknowledgement = ri_resume_reconciliation r\<rparr>) x1"
  define x3 where "x3 = on_runtime refresh_deferred_first_paint_jobs x2"
  have "booked_now x1" "paint_ok (x_runtime x1)" using b p by (simp_all add: x1_def rs_def paint_ok_def)
  then have "booked_now x3" "paint_ok (x_runtime x3)"
    by (simp_all add: x3_def x2_def booked_enqueue_now paint_ok_def)
  then have first: "booked_now (if ce_inventory_changed eff
      then x_enqueue (DisplayRefreshRequested now) (request_selected_graph now x3) else x3) \<and>
    paint_ok (x_runtime (if ce_inventory_changed eff
      then x_enqueue (DisplayRefreshRequested now) (request_selected_graph now x3) else x3))"
    by (simp add: booked_enqueue_now booked_graph_now)
  obtain y ok where y: "x_queue Own_Discovery
      (rescan_message Scan_VolatileInventoryAndRoute (ri_resume_reconciliation r) x) x = (y, ok)"
    by fastforce
  have "booked_now y" "x_runtime y = x_runtime x"
    using booked_queue [OF b, of "rescan_message Scan_VolatileInventoryAndRoute (ri_resume_reconciliation r) x"
        Own_Discovery] y
    by (auto simp: rescan_message_def x_queue_eq)
  then have second: "booked_now (if ok then y else critical_failure ''owner pending queue'' now y) \<and>
      paint_ok (x_runtime (if ok then y else critical_failure ''owner pending queue'' now y))"
    using p by (simp add: booked_failure_now) (simp add: critical_failure_def)
  show ?thesis
    unfolding complete_rescan_def Let_def rs_def [symmetric] x1_def [symmetric] x2_def [symmetric]
      x3_def [symmetric] y prod.case
    using first second b p by simp
qed

lemma booked_theme:
  assumes "booked_now x" "paint_ok (x_runtime x)"
  shows "booked_now (complete_theme applied now stamp x) \<and> paint_ok (x_runtime (complete_theme applied now stamp x))"
  using assms by (simp add: complete_theme_def booked_graph_now booked_enqueue_now paint_ok_def)

lemma booked_completion:
  assumes b: "booked_now x" and p: "paint_ok (x_runtime x)" and slot: "x_slot x = Some c"
    and now: "s_now (x_sched x) \<le> now" "s_now (x_sched x) \<le> at"
  defines "y \<equiv> x\<lparr>x_slot := None\<rparr>"
  shows "booked_now (handle_completion eff applied boot now at c y) \<and>
    paint_ok (x_runtime (handle_completion eff applied boot now at c y))"
proof -
  have ls: "mset (located x) = mset (completion_tickets c @ located y)"
    by (simp add: located_def y_def slot opt_list_def ac_simps)
  have K: "cancel_reports y \<subseteq> cancel_reports x" by (auto simp: cancel_reports_def y_def opt_list_def)
  have y: "x_sched y = x_sched x" "x_runs y = x_runs x" "x_actions y = x_actions x" "x_runtime y = x_runtime x"
    by (simp_all add: y_def)
  have L: "ledger {} (x_sched x) (starts (x_actions x)) (cancels (x_actions x)) (located x)
      (set (x_runs x)) (cancel_reports x)"
    using b by (simp add: booked_exec_def)
  have plain: "booked_now y" if "completion_tickets c = []"
  proof -
    have "cancel_reports y = cancel_reports x"
      using that by (cases c) (auto simp: cancel_reports_def y_def opt_list_def slot)
    moreover have "mset (located y) = mset (located x)" using ls that by simp
    ultimately show ?thesis unfolding y(3) by (intro booked_located [OF b _ y(1,2)])
  qed
  have take: "ledger {t} (x_sched x) (starts (x_actions x)) (cancels (x_actions x)) (located y)
      (set (x_runs x) - {tk_run_id t}) (cancel_reports y)" if "completion_tickets c = [t]" for t
    by (rule ledger_take [OF L _ K]) (use ls that in simp)
  have gone: "t \<notin> set (located y)" if "completion_tickets c = [t]" "alive (x_sched x)" for t
  proof -
    have "distinct (located x)" using L that(2) unfolding ledger_def by auto
    then show ?thesis using ls that(1) mset_eq_imp_distinct_iff [of "located x" "t # located y"] by simp
  qed
  show ?thesis
  proof (cases c)
    case (Completed d)
    let ?y = "y\<lparr>x_runs := bs_remove (tk_run_id (jc_ticket d)) (x_runs y),
      x_deciding := remove1 (jid_owner (tk_job (jc_ticket d))) (x_deciding y)\<rparr>"
    have "booked_exec {jc_ticket d} ?y (x_actions ?y)"
      using take [of "jc_ticket d"] by (simp add: Completed booked_exec_def y)
    then show ?thesis
      using booked_complete_job [of d y at] gone [of "jc_ticket d"] p now
      by (simp add: handle_completion_def Completed y)
  next
    case (RunCancelled t)
    let ?y = "on_runtime (clear_graph_render_requested t) (y\<lparr>x_runs := bs_remove (tk_run_id t) (x_runs y)\<rparr>)"
    have led: "booked_exec {t} ?y (x_actions ?y)"
      using take [of t] by (simp add: RunCancelled booked_exec_def on_runtime_def y)
    have "t \<in> cancel_reports x" by (simp add: cancel_reports_def slot opt_list_def RunCancelled)
    then have fly: "alive (x_sched x) \<Longrightarrow> t \<notin> flying (x_sched x)"
      using L reports_located [of x] unfolding ledger_def by blast
    have out: "alive (x_sched x) \<Longrightarrow> t \<notin> set (located ?y)"
      using gone [of t] by (simp add: RunCancelled on_runtime_def)
    have "booked_exec {} (fst (x_handle (JobCancelled now t) ?y))
        (x_actions ?y @ actions (snd (x_handle (JobCancelled now t) ?y)))"
      by (rule booked_report [OF led]) (use out fly now in \<open>simp_all add: y reports_def\<close>)
    then have "booked_now (x_enqueue (JobCancelled now t) ?y)"
      by (simp add: x_enqueue_def case_prod_unfold Let_def)
    then show ?thesis using p by (simp add: handle_completion_def RunCancelled y paint_ok_def)
  next
    case (Rescanned r)
    then show ?thesis
      using booked_rescan [of y now eff r] plain p now by (simp add: handle_completion_def y)
  next
    case (ThemeRead stamp light)
    then show ?thesis
      using booked_theme [of y applied now stamp] plain p by (simp add: handle_completion_def y)
  qed
qed

section \<open>The other steps\<close>

lemma booked_deferred:
  assumes "booked_now x" "paint_ok (x_runtime x)" "rt_deferred_paint (x_runtime x) = Some publication"
  shows "booked_now (x\<lparr>x_runtime := (x_runtime x)\<lparr>rt_deferred_paint := None, rt_deferred_jobs := []\<rparr>,
    x_actions := x_actions x @ [deadline_aware_first_paint now boot publication]\<rparr>)"
proof -
  have "is_quiet (deadline_aware_first_paint now boot publication)"
    by (rule quiet_aware) (use assms in \<open>simp add: paint_ok_def\<close>)
  then show ?thesis using assms(1) by (simp add: booked_append_quiet)
qed

lemma booked_fold:
  "booked_exec {} x (x_actions x @ acts) \<Longrightarrow>
     booked_exec {} (fold (\<lambda>job. x_enqueue (RefreshTriggered now job k)) jobs x)
       (x_actions (fold (\<lambda>job. x_enqueue (RefreshTriggered now job k)) jobs x) @ acts) \<and>
     x_runtime (fold (\<lambda>job. x_enqueue (RefreshTriggered now job k)) jobs x) = x_runtime x"
  by (induction jobs arbitrary: x) (simp_all add: booked_enqueue)

lemma handle_frame [simp]: "x_runtime (fst (x_handle ev x)) = x_runtime x"
  by (simp add: x_handle_eq)

lemma booked_io_event:
  assumes b: "booked_exec {} x (x_actions x @ acts)" and r: "process_io_event now ev (x, acts) = (y, acts')"
  shows "booked_exec {} y (x_actions y @ acts') \<and> x_runtime y = x_runtime x"
proof (cases ev)
  case UpowerChanged
  then show ?thesis using r booked_fold [OF b] by (auto simp: process_io_event_def)
next
  case (PrepareForSleep starting)
  show ?thesis
  proof (cases starting)
    case True
    let ?x = "x\<lparr>x_lifecycle_generation := wrapping_succ (x_lifecycle_generation x),
      x_actions := filter (\<lambda>a. \<not> is_resume_work a) (x_actions x)\<rparr>"
    have "booked_exec {} ?x (x_actions ?x @ filter (\<lambda>a. \<not> is_resume_work a) acts)"
      using b booked_filter(1,2) [of "\<lambda>a. \<not> is_resume_work a", OF quiet_filters(3)] by simp
    from booked_handle [OF this, of "Suspend now"] show ?thesis
      using r PrepareForSleep True by (auto simp: process_io_event_def case_prod_unfold Let_def)
  next
    case False
    from booked_handle [OF b, of "Resume now"] show ?thesis
      using r PrepareForSleep False by (auto simp: process_io_event_def case_prod_unfold Let_def)
  qed
qed

lemma booked_io_events:
  "booked_exec {} x (x_actions x @ acts) \<Longrightarrow> fold (process_io_event now) evs (x, acts) = (y, acts') \<Longrightarrow>
     booked_exec {} y (x_actions y @ acts') \<and> x_runtime y = x_runtime x"
proof (induction evs arbitrary: x acts)
  case (Cons ev evs)
  obtain z zs where z: "process_io_event now ev (x, acts) = (z, zs)" by fastforce
  show ?case using booked_io_event [OF Cons.prems(1) z] Cons.IH [of z zs] Cons.prems(2) z by simp
qed auto

lemma booked_io:
  assumes "booked_now x"
  shows "booked_now (process_io_events now evs x) \<and> x_runtime (process_io_events now evs x) = x_runtime x"
proof -
  obtain y acts where y: "fold (process_io_event now) evs (x, []) = (y, acts)" by fastforce
  then show ?thesis
    using booked_io_events [of x "[]" now evs y acts] assms booked_comm
    by (simp add: process_io_events_def)
qed

lemma booked_preempt:
  assumes x: "booked_now x" and now: "s_now (x_sched x) \<le> at"
  shows "booked_now (preempt_for_shutdown True at x)"
proof (cases "list_ex is_critical_stop (x_actions x)")
  case False
  show ?thesis
    by (rule booked_stop [OF x, of "Shutdown at"])
      (use now False in \<open>simp_all add: preempt_for_shutdown_def Let_def x_enqueue_def x_handle_eq
         split: option.split owner_completion.split\<close>)
qed (use x in \<open>simp add: preempt_for_shutdown_def\<close>)

section \<open>Every reachable state has its books in order\<close>

lemma drain_paint:
  assumes "paint_ok (x_runtime x)"
  shows "paint_ok (x_runtime (drain_one env x))"
proof -
  have sup: "paint_ok (fst (suppress_panel_publication r k rs))" if "paint_ok rs" for r k rs
    using that by (auto simp: suppress_panel_publication_def paint_ok_def
        split: option.split scheduler_action.split)
  show ?thesis
    using assms sup [OF assms]
    by (auto simp: drain_one_def apply_action_def start_job_def cancel_job_def invalidate_job_def
        x_queue_or_fail_def x_queue_eq publish_display_def Let_def case_prod_unfold paint_ok_def
        split: list.split scheduler_action.split)
qed

lemma startup_running: "s_lifecycle (fst (handle scheduler_new (Startup boot config g))) = Running"
  by (simp add: handle_def Let_def scheduler_new_def is_startup_def is_stale_def handle_event_def
      startup_def startup_jobs_def startup_pending_def issue_first_paint_def)

lemma ledger_startup:
  fixes boot :: sched_time and config :: scheduler_config and g :: inventory_generation
  defines "tr \<equiv> snd (handle scheduler_new (Startup boot config g))"
    and "s' \<equiv> fst (handle scheduler_new (Startup boot config g))"
  shows "ledger {} s' (starts (actions tr)) (cancels (actions tr)) [] {} {}"
  unfolding ledger_def
proof (intro impI)
  assume alive: "runs_left s'" "s_lifecycle s' \<noteq> Stopped"
  let ?ev = "Startup boot config g"
  have left: "runs_left (fst (handle scheduler_new ?ev))" using alive by (simp add: s'_def)
  have empty: "flying scheduler_new = {}" "ending scheduler_new = {}"
    by (auto simp: flying_iff scheduler_new_def ending_def)
  have "\<forall>t. \<not> reports ?ev t" by (simp add: reports_def)
  then have fly: "flying s' = set (starts (actions tr))" and en: "ending s' = {}"
    and cs: "cancels (actions tr) = []"
    using handle_account [OF owners_inv_start left] by (auto simp: empty s'_def tr_def)
  have new: "distinct (starts (actions tr))" "inj_on tk_run_id (set (starts (actions tr)))"
    "\<And>t. t \<in> set (starts (actions tr)) \<Longrightarrow> tk_run_id t < s_next_run_id s'"
    using starts_fresh [OF owners_inv_start left] by (auto simp: s'_def tr_def)
  have "owners_inv s'" unfolding s'_def by (rule owners_inv_handle [OF owners_inv_start left])
  moreover have "flights_current s'"
    unfolding s'_def by (rule flights_current_handle [OF owners_inv_start left])
      (simp add: flights_current_def empty)
  moreover have "s_lifecycle s' \<noteq> Unstarted"
    by (simp add: s'_def startup_running)
  ultimately show "owners_inv s' \<and> flights_current s' \<and> s_lifecycle s' \<noteq> Unstarted \<and>
      flying s' - {} \<subseteq> set (starts (actions tr)) \<union> set [] \<and>
      ending s' - {} \<subseteq> set (cancels (actions tr)) \<union> set [] \<and>
      set [] \<subseteq> held s' \<and> set (cancels (actions tr)) \<inter> flying s' = {} \<and>
      (\<forall>t \<in> set []. t \<in> flying s' \<union> set (cancels (actions tr)) \<longrightarrow> tk_run_id t \<in> {} \<and> t \<notin> {}) \<and>
      {} \<subseteq> tk_run_id ` set [] \<and> distinct ([] @ starts (actions tr)) \<and> distinct (cancels (actions tr)) \<and>
      (\<forall>t \<in> set (starts (actions tr)) \<union> set (cancels (actions tr)). tk_run_id t < s_next_run_id s') \<and>
      inj_on tk_run_id (held s' \<union> set (cancels (actions tr)))"
    using new by (simp add: fly en cs held_eq)
qed

lemma booked_start_exec:
  assumes "rt_deferred_paint rs = None"
  shows "booked_now (exec_start rs boot now presented) \<and> paint_ok (x_runtime (exec_start rs boot now presented))"
proof -
  let ?x = "x_enqueue (Startup boot (rt_config rs) (rt_inventory_generation rs)) (exec_new rs)"
  have "booked_now ?x"
    using ledger_startup [of boot "rt_config rs" "rt_inventory_generation rs"]
    by (simp add: booked_exec_def x_enqueue_def x_handle_eq exec_new_def located_def cancel_reports_def
        opt_list_def)
  then have "booked_now (exec_start rs boot now presented)"
    unfolding exec_start_def
    by (rule booked_enqueue_now [OF booked_enqueue_now [OF _ is_report_simps(11)] is_report_simps(12)])
  then show ?thesis using assms by (simp add: exec_start_def exec_new_def paint_ok_def)
qed

lemma booked_step:
  assumes "exec_step boot x y" "booked_now x" "paint_ok (x_runtime x)" "\<not> x_failed y"
  shows "booked_now y \<and> paint_ok (x_runtime y)"
  using assms
proof cases
  case (step_drain env)
  then show ?thesis using assms booked_drain drain_paint by blast
next
  case (step_flush now answer)
  have "x_runtime y = x_runtime x"
    by (simp add: step_flush(1) flush_step_def Let_def case_prod_unfold critical_failure_def split: option.split)
  then show ?thesis using assms booked_flush [of x now answer] step_flush by simp
next
  case (step_take before c after at)
  then show ?thesis using assms booked_take [of x before c after at] by simp
next
  case (step_complete c now eff applied received)
  have "now \<le> completion_time_after_drain received now" by (simp add: completion_time_after_drain_def)
  then have "s_now (x_sched x) \<le> completion_time_after_drain received now"
    using step_complete(4) by (rule order_trans [rotated])
  then show ?thesis
    using assms booked_completion [of x c now _ eff applied boot] step_complete by simp
next
  case (step_deferred now publication)
  then show ?thesis using assms booked_deferred [of x publication now boot] by (simp add: paint_ok_def)
next
  case (step_io now evs)
  then show ?thesis using assms booked_io [of x now evs] by simp
next
  case (step_event ev rs)
  then show ?thesis
    using assms booked_enqueue_now [of "{}" "x\<lparr>x_runtime := rs\<rparr>" ev] by (simp add: paint_ok_def)
next
  case (step_queue m own)
  have "x_runtime y = x_runtime x"
    by (simp add: step_queue(1) x_queue_or_fail_def x_queue_eq)
  then show ?thesis using assms booked_queue_or_fail [of "{}" x m own] step_queue by simp
next
  case (step_shutdown at)
  have "x_runtime y = x_runtime x"
    by (simp add: step_shutdown(1) preempt_for_shutdown_def Let_def split: option.split owner_completion.split)
  then show ?thesis using assms booked_preempt [of x at] step_shutdown by simp
next
  case (step_receive before own m after light)
  have "x_runtime y = x_runtime x"
    by (simp add: step_receive(1) worker_receive_def split: owner_message.split)
  then show ?thesis using assms booked_receive [of x before own m after light] step_receive by simp
next
  case (step_enter_lane before own input after)
  then show ?thesis
    using assms booked_lane [of x before own input after] by (simp add: worker_enter_lane_def)
next
  case (step_finish before own input after completion ready rendered)
  then show ?thesis
    using assms booked_finish [of x before own input after] by (simp add: worker_finish_def)
qed

theorem exec_booked:
  "exec_reachable boot x \<Longrightarrow> \<not> x_failed x \<Longrightarrow> booked_now x \<and> paint_ok (x_runtime x)"
proof (induction rule: exec_reachable.induct)
  case (reach_start now rs presented)
  then show ?case using booked_start_exec by blast
next
  case (reach_step x y)
  then show ?case using booked_step by blast
qed

end
