(* ===== verification/DrainEnds.thy ===== *)
theory DrainEnds
  imports Executor SchedGuards
begin

text \<open>
  The drain loop ends. Applying an action can queue further ones: a cancellation that is answered at
  once, a panel publication that is acknowledged, a graph that is requested again. Each of these
  events lets the scheduler process the time, which may publish and cancel anew, so the number of
  actions alone does not go down. It does once no deadline of the scheduler is due at the time of the
  loop (\<open>calm\<close>), and that lasts until the clock moves.
\<close>

section \<open>The loop\<close>

text \<open>\<open>drain_actions\<close>: \<open>env k\<close> is what the loop meets in round \<open>k\<close>. \<open>return Err(..)\<close> ends it as well.\<close>

partial_function (option) drain_actions ::
    "(nat \<Rightarrow> loop_env) \<Rightarrow> nat \<Rightarrow> executor \<Rightarrow> executor option" where
  "drain_actions env k x =
     (if x_failed x \<or> x_actions x = [] then Some x
      else drain_actions env (Suc k) (drain_one (env k) x))"

section \<open>Calm schedulers\<close>

definition calm :: "sched_time \<Rightarrow> scheduler \<Rightarrow> bool" where
  "calm n s \<longleftrightarrow>
     s_lifecycle s = Running \<longrightarrow>
       \<not> due (s_deactivation_deadline s) n \<and> \<not> due (s_activation_deadline s) n \<and>
       \<not> (due (s_first_paint_deadline s) n \<and> \<not> s_first_paint_issued s) \<and>
       \<not> (s_first_paint_issued s \<and> due (s_next_display s) n)"

definition loud :: "scheduler_action list \<Rightarrow> nat" where
  "loud acts = length (by_kind 1 acts) + length (by_kind 3 acts)"

lemma loud_simps [simp]:
  "loud [] = 0" "loud (xs @ ys) = loud xs + loud ys" "loud (sort_actions acts) = loud acts"
  "loud (a # acts) = (if action_priority a = 1 \<or> action_priority a = 3 then 1 else 0) + loud acts"
  by (simp_all add: loud_def)

lemma loud_dispatch [simp]: "loud (snd (dispatch io)) = loud (snd io)"
  by (simp add: loud_def by_kind_dispatch)

lemma calm_dispatch [simp]: "calm n (fst (dispatch io)) = calm n (fst io)"
  by (simp add: calm_def)

lemma calm_cancellation [simp]: "calm n (fst (snd (finish_cancellation t io))) = calm n (fst io)"
  by (simp add: calm_def)

lemma calm_trigger [simp]: "calm n (trigger job s) = calm n s"
  by (simp add: calm_def)

lemma loud_cancellation [simp]: "snd (snd (finish_cancellation t io)) = snd io"
  by (simp add: finish_cancellation_def Let_def split: prod.split)

lemma calm_transition:
  "calm n (fst (finish_transition r)) = calm n (fst (snd r))"
  "loud (actions (snd (finish_transition r))) = loud (snd (snd r))"
  "s_display_interval (fst (finish_transition r)) = s_display_interval (fst (snd r))"
  by (simp_all add: finish_transition_def Let_def push_def split: prod.split option.split)

lemma tick_calm:
  assumes "calm (s_now (fst io)) (fst io)"
  shows "calm (s_now (fst io)) (fst (tick io)) \<and> snd (tick io) = snd io"
proof (cases "s_lifecycle (fst io) = Running")
  case True
  then have "pt_deactivation io = io" "pt_first_paint io = io" "pt_activation io = io" "pt_display io = io"
    using assms by (auto simp: calm_def pt_deactivation_def pt_first_paint_def pt_activation_def
        pt_display_def Let_def split: prod.split)
  then have "tick io = pt_jobs io" using True by (simp add: tick_def process_time_def)
  then show ?thesis using assms by (simp add: calm_def pt_jobs_def on_state_def Let_def)
qed (use assms in \<open>simp add: tick_def\<close>)

lemma tick_calms:
  assumes pos: "0 < s_display_interval (fst io)" and n: "s_now (fst io) < duration_max"
  shows "calm (s_now (fst io)) (fst (tick io))"
proof (cases "s_lifecycle (fst io) = Running")
  case True
  let ?n = "s_now (fst io)"
  define a where "a = pt_deactivation io"
  define b where "b = pt_first_paint a"
  define c where "c = pt_activation b"
  define d where "d = pt_display c"
  have now: "s_now (fst a) = ?n" "s_now (fst b) = ?n" "s_now (fst c) = ?n" "s_display_interval (fst c) = s_display_interval (fst io)"
    by (simp_all add: a_def b_def c_def)
  have a: "\<not> due (s_deactivation_deadline (fst a)) ?n"
    by (auto simp: a_def pt_deactivation_def due_def Let_def split: prod.split option.split)
  have b: "\<not> (due (s_first_paint_deadline (fst b)) ?n \<and> \<not> s_first_paint_issued (fst b))"
    unfolding b_def pt_first_paint_def Let_def now(1)
    by (cases a) (auto simp: issue_first_paint_def Let_def split: option.split)
  have c: "\<not> due (s_activation_deadline (fst c)) ?n"
    using now(2) by (cases b) (auto simp: c_def pt_activation_def due_def split: option.split)
  have d: "\<not> (s_first_paint_issued (fst d) \<and> due (s_next_display (fst d)) ?n)"
    using now(3,4) pos n advance_past_future
    by (auto simp: d_def pt_display_def on_state_def due_def Let_def not_le split: option.splits)
  have "tick io = pt_jobs d" using True by (simp add: tick_def process_time_def a_def b_def c_def d_def)
  then show ?thesis using a b c d by (simp add: calm_def d_def c_def b_def)
qed (simp add: tick_def calm_def)

text \<open>The events of the loop: they calm the scheduler down, or they neither publish nor cancel.\<close>

definition settles :: "sched_time \<Rightarrow> scheduler \<Rightarrow> scheduler_action list \<Rightarrow> scheduler \<Rightarrow> bool" where
  "settles n s acts s' \<longleftrightarrow>
     s_display_interval s' = s_display_interval s \<and>
     (calm n s \<and> calm n s' \<and> loud acts = 0 \<or>
      \<not> calm n s \<and> (calm n s' \<or> loud acts = 0))"

definition is_drain_event :: "scheduler_event \<Rightarrow> bool" where
  "is_drain_event ev =
     (case ev of JobCancelled _ _ \<Rightarrow> True | PanelPublished _ _ \<Rightarrow> True | RefreshTriggered _ _ _ \<Rightarrow> True
      | _ \<Rightarrow> False)"

lemma drain_event:
  assumes ev: "is_drain_event ev" "event_at ev = n" and pos: "0 < s_display_interval s"
    and n: "n < duration_max"
  shows "settles n s (actions (snd (handle s ev))) (fst (handle s ev))"
proof (cases "handle s ev = finish_transition (handle_event ev (s\<lparr>s_now := n\<rparr>, []))")
  case False
  then have "\<exists>d. handle s ev = (s, rejected d)" using ev by (auto simp: handle_def Let_def split: if_splits)
  then show ?thesis by (auto simp: settles_def rejected_def)
next
  case True
  let ?io = "(s\<lparr>s_now := n\<rparr>, [])" and ?r = "handle_event ev (s\<lparr>s_now := n\<rparr>, [])"
  have calm: "calm n (s\<lparr>s_now := n\<rparr>) = calm n s" by (simp add: calm_def)
  have t: "calm n (fst (tick ?io))" "calm n s \<Longrightarrow> loud (snd (tick ?io)) = 0"
    using tick_calms [of ?io] tick_calm [of ?io] pos n by (simp_all add: calm)
  have "s_display_interval (fst (snd ?r)) = s_display_interval s \<and>
    (calm n (fst (snd ?r)) \<and> (calm n s \<longrightarrow> loud (snd (snd ?r)) = 0) \<or>
     calm n (fst (snd ?r)) = calm n s \<and> loud (snd (snd ?r)) = 0)"
    using ev(1) t calm
    by (cases ev) (simp_all add: is_drain_event_def handle_event_def accept_if_def on_state_def, auto simp: calm_def)
  then show ?thesis using calm unfolding True settles_def calm_transition by auto
qed

section \<open>The rounds\<close>

abbreviation unrest :: "sched_time \<Rightarrow> executor \<Rightarrow> nat" where
  "unrest n x \<equiv> (if calm n (x_sched x) then 0 else 1)"

definition advances :: "sched_time \<Rightarrow> executor \<Rightarrow> executor \<Rightarrow> bool" where
  "advances n x y \<longleftrightarrow>
     s_display_interval (x_sched y) = s_display_interval (x_sched x) \<and>
     (unrest n y < unrest n x \<or> unrest n y = unrest n x \<and> loud (x_actions y) \<le> loud (x_actions x))"

lemma advances_refl: "x_sched y = x_sched x \<Longrightarrow> x_actions y = x_actions x \<Longrightarrow> advances n x y"
  by (simp add: advances_def)

lemma advances_trans: "advances n x y \<Longrightarrow> advances n y z \<Longrightarrow> advances n x z"
  unfolding advances_def by linarith

lemma advances_event:
  assumes "is_drain_event ev" "event_at ev = n" "0 < s_display_interval (x_sched x)" "n < duration_max"
  shows "advances n x (x_prepend ev x)" "advances n x (x_enqueue ev x)"
  using drain_event [OF assms]
  by (auto simp: advances_def settles_def x_prepend_def x_enqueue_def x_handle_def Let_def split: prod.split)

lemma advances_graph:
  assumes "0 < s_display_interval (x_sched x)" "n < duration_max"
  shows "advances n x (request_selected_graph n x)"
  using assms advances_event(2) [of "RefreshTriggered n _ Trig_Signal" n x]
  by (auto simp: request_selected_graph_def advances_refl is_drain_event_def split: option.split)

lemma advances_pos: "advances n x y \<Longrightarrow> 0 < s_display_interval (x_sched x) \<Longrightarrow> 0 < s_display_interval (x_sched y)"
  by (simp add: advances_def)

lemma advances_cancel:
  assumes "0 < s_display_interval (x_sched x)" "n < duration_max"
  shows "advances n x (cancel_job n t x)"
proof -
  define y where "y = on_runtime (\<lambda>rs. (clear_graph_render_requested t rs)
      \<lparr>rt_samples := bs_remove (tk_run_id t) (rt_samples rs)\<rparr>) x"
  define z where "z = y\<lparr>x_runs := bs_remove (tk_run_id t) (x_runs y),
    x_pending := filter (\<lambda>(_, m). case message_ticket m of
        None \<Rightarrow> True | Some queued \<Rightarrow> tk_run_id queued \<noteq> tk_run_id t) (x_pending y)\<rparr>"
  have z: "advances n x z" by (rule advances_refl) (simp_all add: z_def y_def on_runtime_def)
  then have "advances n z (x_prepend (JobCancelled n t) z)"
    by (intro advances_event) (simp_all add: is_drain_event_def assms advances_pos [OF z])
  then have "advances n x (x_prepend (JobCancelled n t) z)" by (rule advances_trans [OF z])
  then show ?thesis using z
    unfolding cancel_job_def Let_def y_def [symmetric] z_def [symmetric] by simp
qed

lemma advances_publish:
  assumes "0 < s_display_interval (x_sched x)" "le_now env < duration_max"
  shows "advances (le_now env) x (publish_display env p reason skipped panel tooltip x)"
proof -
  let ?n = "le_now env"
  define y where "y = on_runtime (\<lambda>rs. if reason = Pub_FirstPaintReady \<or> reason = Pub_FirstPaintTimeout
    then rs\<lparr>rt_first_paint_published := True\<rparr> else rs) x"
  define y' where "y' = (if le_width_changed env then on_runtime drop_graph y else y)"
  define z where "z = (if panel then x_prepend (PanelPublished ?n p) y' else y)"
  have y: "advances ?n x y" "advances ?n x y'"
    by (rule advances_refl; simp add: y_def y'_def on_runtime_def)+
  have "advances ?n y' (x_prepend (PanelPublished ?n p) y')"
    by (intro advances_event) (simp_all add: is_drain_event_def assms advances_pos [OF y(2)])
  then have z: "advances ?n x z" using advances_trans y by (auto simp: z_def)
  have "advances ?n z (request_selected_graph ?n z)"
    using assms by (intro advances_graph advances_pos [OF z])
  then have "advances ?n x (request_selected_graph ?n z)" by (rule advances_trans [OF z])
  moreover have "advances ?n x (x\<lparr>x_runtime := rs\<rparr>)" for rs by (simp add: advances_refl)
  ultimately show ?thesis
    using z unfolding publish_display_def Let_def y_def [symmetric] y'_def [symmetric] z_def [symmetric]
    by (simp add: case_prod_unfold)
qed

definition drain_measure :: "sched_time \<Rightarrow> executor \<Rightarrow> nat \<times> nat \<times> nat \<times> nat" where
  "drain_measure n x = (duration_max - n, unrest n x, loud (x_actions x), length (x_actions x))"

abbreviation drain_less :: "(nat \<times> nat \<times> nat \<times> nat) rel" where
  "drain_less \<equiv> less_than <*lex*> less_than <*lex*> less_than <*lex*> less_than"

lemma queue_keeps:
  "x_sched (x_queue_or_fail own m x) = x_sched x" "x_actions (x_queue_or_fail own m x) = x_actions x"
  by (cases "queue_owner_message own m (x_pending x)"; simp add: x_queue_or_fail_def x_queue_def)+

lemma drain_round:
  assumes pos: "0 < s_display_interval (x_sched x)" and n: "le_now env < duration_max"
    and acts: "x_actions x \<noteq> []" and later: "le_now env \<le> n'" "n' < duration_max"
  shows "(drain_measure n' (drain_one env x), drain_measure (le_now env) x) \<in> drain_less \<and>
    0 < s_display_interval (x_sched (drain_one env x))"
proof -
  let ?n = "le_now env"
  obtain a rest where a: "x_actions x = a # rest" using acts by (cases "x_actions x") auto
  let ?x = "x\<lparr>x_actions := rest\<rparr>"
  define y where "y = apply_action env a ?x"
  have y: "drain_one env x = y" by (simp add: drain_one_def a y_def)
  have pos': "0 < s_display_interval (x_sched ?x)" using pos by simp
  have step: "advances ?n ?x y \<and> (action_priority a = 1 \<or> action_priority a = 3) \<or>
      x_sched y = x_sched x \<and> x_actions y = rest"
  proof (cases a)
    case (CancelJob t r)
    then show ?thesis using advances_cancel [OF pos' n] by (simp add: y_def apply_action_def)
  next
    case (PublishDisplay p r d k panel tooltip)
    then show ?thesis using advances_publish [OF pos' n] by (simp add: y_def apply_action_def)
  qed (simp_all add: y_def apply_action_def start_job_def invalidate_job_def queue_keeps on_runtime_def Let_def)
  then have "0 < s_display_interval (x_sched y)" using pos by (auto simp: advances_def)
  moreover have "(drain_measure n' y, drain_measure ?n x) \<in> drain_less"
  proof (cases "?n < n'")
    case True
    then have "duration_max - n' < duration_max - ?n" using later by linarith
    then show ?thesis by (simp add: drain_measure_def)
  next
    case False
    then have "n' = ?n" using later by simp
    then show ?thesis using step by (auto simp: drain_measure_def advances_def a split: if_splits)
  qed
  ultimately show ?thesis by (simp add: y)
qed

end
