(* ===== verification/ExecutorProps.thy ===== *)
theory ExecutorProps
  imports ExecutorBooks DrainEnds
begin

text \<open>
  The properties of the daemon loop: no run is lost between the scheduler and the workers, an owner
  has at most one run under way, a loop without work has all owners free, the message queue merges
  without losing anything and is flushed in order, and what is committed only moves forward.
\<close>

section \<open>Where the runs are\<close>

lemma exec_ledger:
  assumes "exec_reachable boot x" "\<not> x_failed x" "runs_left (x_sched x)" "s_lifecycle (x_sched x) \<noteq> Stopped"
  shows "owners_inv (x_sched x) \<and> held (x_sched x) \<subseteq>
      set (starts (x_actions x)) \<union> set (cancels (x_actions x)) \<union> set (located x) \<and>
    set (located x) \<subseteq> held (x_sched x) \<and> distinct (located x)"
  using exec_booked [OF assms(1,2)] assms(3,4) unfolding booked_exec_def ledger_def held_eq by auto

lemma held_owner_unique:
  assumes "owners_inv s" "t \<in> held s" "u \<in> held s" "ticket_owner t = ticket_owner u"
  shows "t = u"
proof -
  obtain F C where safe: "own_safe (F, C, bm_get (s_in_flight_owners s), s_next_run_id s)"
    and "F \<union> C = held s"
    using held_safe [OF assms(1)] .
  then show ?thesis using own_safe_unique [OF safe] assms(2-4) by metis
qed

lemma reserved_iff:
  assumes "owners_inv s"
  shows "bm_get (s_in_flight_owners s) own = Some run \<longleftrightarrow>
    (\<exists>t \<in> held s. ticket_owner t = own \<and> tk_run_id t = run)"
proof -
  obtain F C where safe: "own_safe (F, C, bm_get (s_in_flight_owners s), s_next_run_id s)"
    and "F \<union> C = held s"
    using held_safe [OF assms(1)] .
  then show ?thesis using safe unfolding own_safe.simps by metis
qed

text \<open>
  Two concrete executors for the witnesses, with a configuration of one job and with none: right after
  the start, with the run of the job pending, and with nothing left to do.
\<close>

definition demo_runtime :: "scheduler_config \<Rightarrow> runtime" where
  "demo_runtime config =
     \<lparr>rt_config = config, rt_config_generation = 1, rt_inventory_generation = 1, rt_selected = Page_Main,
      rt_style_generation = 0, rt_render_generation = 0, rt_kde_stamp = None, rt_graph_requested = None,
      rt_rendered_graph = None, rt_samples = [], rt_last_committed = [], rt_first_paint_published = False,
      rt_deferred_paint = None, rt_deferred_jobs = [], rt_completed_jobs = [], rt_terminate = False,
      rt_critical = None\<rparr>"

definition demo_empty :: scheduler_config where
  "demo_empty = \<lparr>cfg_generation = 1, cfg_display_interval = from_secs 1, cfg_jobs = [],
     cfg_demand = demand_default\<rparr>"

definition demo_env :: loop_env where
  "demo_env = \<lparr>le_now = 0, le_width_changed = False, le_graph_input_changed = False\<rparr>"

definition demo_boot :: "scheduler_config \<Rightarrow> executor" where
  "demo_boot config = exec_start (demo_runtime config) 0 0 False"

definition demo_pending :: executor where
  "demo_pending = drain_one demo_env (demo_boot (demo_config (from_secs 1)))"

definition demo_idle :: executor where
  "demo_idle = (drain_one demo_env (demo_boot demo_empty))\<lparr>x_actions := []\<rparr>"

lemmas exec_demo_defs = demo_boot_def exec_start_def x_enqueue_def x_handle_def exec_new_def
  demo_runtime_def demo_empty_def demand_default_def demo_env_def change_presentation_def change_page_def
  issue_first_paint_def issue_publish_def

lemmas exec_drain_defs = demo_pending_def demo_idle_def drain_one_def apply_action_def publish_display_def
  suppress_panel_publication_def x_prepend_def start_job_def x_queue_or_fail_def x_queue_def
  queue_owner_message_def merge_message_def OWNER_PENDING_CAPACITY_def mark_graph_render_requested_def
  on_runtime_def selected_graph_needs_render_def

lemma boot_reachable: "exec_reachable 0 (demo_boot config)"
  unfolding demo_boot_def by (rule reach_start) (simp_all add: demo_runtime_def)

lemma reach_quiet:
  assumes "exec_reachable boot x" "\<not> x_failed x" "\<forall>a \<in> set (x_actions x). \<exists>d. a = ScheduleDeadline d"
  shows "exec_reachable boot (x\<lparr>x_actions := []\<rparr>)"
  using assms
proof (induction "x_actions x" arbitrary: x)
  case Nil
  have "x\<lparr>x_actions := []\<rparr> = x" by (cases x) (use Nil.hyps in simp)
  then show ?case using Nil.prems(1) by (simp only:)
next
  case (Cons a acts)
  let ?env = "\<lparr>le_now = s_now (x_sched x), le_width_changed = False, le_graph_input_changed = False\<rparr>"
  obtain d where "a = ScheduleDeadline d" using Cons.prems(3) Cons.hyps(2) by (metis list.set_intros(1))
  then have y: "drain_one ?env x = x\<lparr>x_actions := acts\<rparr>"
    using Cons.hyps(2) [symmetric] by (simp add: drain_one_def apply_action_def)
  have "exec_reachable boot (drain_one ?env x)"
    by (rule reach_step [OF Cons.prems(1,2) step_drain]) (use Cons.hyps(2) in auto)
  then show ?case
    using Cons.hyps(1) [of "x\<lparr>x_actions := acts\<rparr>"] Cons.prems(2,3) Cons.hyps(2) [symmetric] by (simp add: y)
qed

lemma pending_reachable: "exec_reachable 0 demo_pending"
  unfolding demo_pending_def
  by (rule reach_step [OF boot_reachable _ step_drain])
    (simp_all add: exec_demo_defs demo_defs finish_defs step_defs time_defs Let_def)

lemma idle_reachable: "exec_reachable 0 demo_idle"
  unfolding demo_idle_def
proof (rule reach_quiet)
  show "exec_reachable 0 (drain_one demo_env (demo_boot demo_empty))"
    by (rule reach_step [OF boot_reachable _ step_drain])
      (simp_all add: exec_demo_defs demo_defs finish_defs step_defs time_defs Let_def)
qed (simp_all add: exec_demo_defs exec_drain_defs demo_defs finish_defs step_defs time_defs Let_def)

lemma pending_state:
  "x_failed demo_pending = False" "located demo_pending = [demo_ticket]"
  "s_next_run_id (x_sched demo_pending) = 2" "s_lifecycle (x_sched demo_pending) = Running"
  "held (x_sched demo_pending) = {demo_ticket}"
  by (simp_all add: exec_demo_defs exec_drain_defs demo_defs finish_defs step_defs time_defs Let_def
      located_def held_tickets abs_owners_eq flying_def ending_def flights_def)

lemma pending_sched: "x_sched demo_pending =
    \<lparr>s_lifecycle = Running, s_now = 0, s_config_generation = 1, s_inventory_generation = 1,
     s_display_interval = 1000000000, s_next_display = Some 1000000000,
     s_jobs = [(demo_job,
       \<lparr>jr_spec = (spec_periodic demo_job 1000000000)\<lparr>spec_startup_panel := True\<rparr>,
        nominal_due = Some 1000000000, retry_due = None, pending_since = None,
        pending_history_deadline = None, in_flight = Some demo_ticket, has_sample = False,
        failure_count = 0, needs_baseline = False\<rparr>)],
     s_demand = \<lparr>dp_hidden = [demo_job], dp_main_tooltip = [], dp_pages = []\<rparr>,
     s_presented = False, s_effective_presented = False, s_selected_page = Page_Main,
     s_deactivation_deadline = None, s_activation_deadline = None, s_activation_waiting = [],
     s_first_paint_deadline = Some 200000000, s_first_paint_waiting = [demo_job],
     s_first_paint_issued = False, s_notifications_armed = False, s_panel_publications = [],
     s_in_flight_owners = [(Own_Cpu, 1)], s_cancelling = [], s_awaiting_resume_inventory = None,
     s_next_run_id = 2, s_next_publication_id = 1, s_next_resume_reconciliation_id = 1\<rparr>"
  by (simp add: exec_demo_defs exec_drain_defs demo_defs finish_defs step_defs time_defs Let_def)

lemma pending_runtime:
  "rt_last_committed (x_runtime demo_pending) = []" "rt_style_generation (x_runtime demo_pending) = 0"
  "rt_render_generation (x_runtime demo_pending) = 0"
  by (simp_all add: exec_demo_defs exec_drain_defs demo_defs finish_defs step_defs time_defs Let_def)

lemma idle_state:
  "x_failed demo_idle = False" "located demo_idle = []" "x_actions demo_idle = []"
  "s_next_run_id (x_sched demo_idle) = 1" "s_lifecycle (x_sched demo_idle) = Running"
  by (simp_all add: exec_demo_defs exec_drain_defs demo_defs finish_defs step_defs time_defs Let_def
      located_def)

text \<open>
  C1. Invariant. While the loop works, no run is lost between the scheduler and the workers. In every
  reachable state of the loop in which no action has failed, the scheduler is not stopped and run
  identifiers are left, a ticket that the scheduler holds is accounted for: its start or its cancellation
  is among the actions still to apply, or its run is pending, on the way to its worker, waiting,
  executing, or on the way back. (After a shutdown this is not so: the runs are cancelled, no report is awaited,
  and the scheduler keeps their tickets.)
\<close>

theorem no_run_lost:
  assumes "exec_reachable boot x" "\<not> x_failed x" "runs_left (x_sched x)"
    and "s_lifecycle (x_sched x) \<noteq> Stopped" "t \<in> held (x_sched x)"
  shows "StartJob t \<in> set (x_actions x) \<or> (\<exists>r. CancelJob t r \<in> set (x_actions x)) \<or> t \<in> set (located x)"
  using exec_ledger [OF assms(1-4)] assms(5) by (auto simp: set_starts in_cancels)

lemma no_run_lost_witness:
  "StartJob demo_ticket \<in> set (x_actions demo_pending) \<or>
   (\<exists>r. CancelJob demo_ticket r \<in> set (x_actions demo_pending)) \<or> demo_ticket \<in> set (located demo_pending)"
  by (rule no_run_lost [OF pending_reachable]) (simp_all add: pending_state u64_max_def)

text \<open>
  C3. Safety. In every reachable state of the loop in which no action has failed, the scheduler is not
  stopped and run identifiers are left: a run is in at most one place on its way, it is always a run the
  scheduler holds, and no two runs under way belong to the same owner - a worker never gets a second run
  before the first one has been reported.
\<close>

theorem runs_under_way:
  assumes "exec_reachable boot x" "\<not> x_failed x" "runs_left (x_sched x)"
    and "s_lifecycle (x_sched x) \<noteq> Stopped"
  shows "distinct (map ticket_owner (located x)) \<and> set (located x) \<subseteq> held (x_sched x)"
proof -
  have L: "owners_inv (x_sched x)" "set (located x) \<subseteq> held (x_sched x)" "distinct (located x)"
    using exec_ledger [OF assms] by auto
  then have "inj_on ticket_owner (set (located x))"
    using held_owner_unique unfolding inj_on_def by blast
  then show ?thesis using L by (simp add: distinct_map)
qed

lemma runs_under_way_witness:
  "distinct (map ticket_owner (located demo_pending)) \<and> set (located demo_pending) \<subseteq> held (x_sched demo_pending)"
  by (rule runs_under_way [OF pending_reachable]) (simp_all add: pending_state u64_max_def)

text \<open>
  C2. Liveness. A loop that has nothing to do is idle. In every reachable state of the loop in which no action
  has failed, the scheduler is not stopped and run identifiers are left: when no action is left to apply
  and no run is under way, every owner is free. So before the shutdown no cancellation, race or stale
  completion leaves an owner reserved for good. (After it, owners whose runs were cancelled stay reserved.)
\<close>

theorem idle_owners_free:
  assumes "exec_reachable boot x" "\<not> x_failed x" "runs_left (x_sched x)"
    and "s_lifecycle (x_sched x) \<noteq> Stopped" "x_actions x = []" "located x = []"
  shows "held (x_sched x) = {} \<and> bm_get (s_in_flight_owners (x_sched x)) own = None"
proof -
  have L: "owners_inv (x_sched x)" "held (x_sched x) = {}"
    using exec_ledger [OF assms(1-4)] assms(5,6) by auto
  then show ?thesis using reserved_iff [OF L(1)] by (cases "bm_get (s_in_flight_owners (x_sched x)) own") auto
qed

lemma idle_owners_free_witness:
  "held (x_sched demo_idle) = {} \<and> bm_get (s_in_flight_owners (x_sched demo_idle)) Own_Cpu = None"
  by (rule idle_owners_free [OF idle_reachable]) (simp_all add: idle_state u64_max_def)

section \<open>The queue of messages\<close>

text \<open>\<open>asks\<close>: the queue asks the owner to invalidate the metric of the job.\<close>

definition asks :: "owner_id \<Rightarrow> job_id \<Rightarrow> metric \<Rightarrow> owner_id \<times> owner_message \<Rightarrow> bool" where
  "asks own job m p \<longleftrightarrow>
     (\<exists>metrics. p = (own, Msg_Invalidate job metrics) \<and>
        (case metrics of None \<Rightarrow> True | Some ms \<Rightarrow> m \<in> set ms))"

lemma asks_simps [simp]:
  "asks own job m (own', Msg_Invalidate job' metrics) \<longleftrightarrow>
     own' = own \<and> job' = job \<and> (case metrics of None \<Rightarrow> True | Some ms \<Rightarrow> m \<in> set ms)"
  "asks own job m (own', Msg_Run input) = False" "asks own job m (own', Msg_Reset job') = False"
  "asks own job m (own', Msg_PagesChanged ps) = False" "asks own job m (own', Msg_Rescan ri) = False"
  "asks own job m (own', Msg_ReconcileTheme pt st) = False"
  by (auto simp: asks_def)

lemma merged_asks:
  "(case merged_metrics own job pending metrics of None \<Rightarrow> True | Some ms \<Rightarrow> m \<in> set ms) \<longleftrightarrow>
     (case metrics of None \<Rightarrow> True | Some ms \<Rightarrow> m \<in> set ms) \<or> (\<exists>p \<in> set pending. asks own job m p)"
proof (induction pending arbitrary: metrics)
  case (Cons p pending)
  obtain own' c where p: "p = (own', c)" by (cases p)
  let ?acc = "case c of
      Msg_Invalidate j prev \<Rightarrow>
        if own' = own \<and> j = job
        then (case (metrics, prev) of (Some a, Some p) \<Rightarrow> Some (bs_extend a p) | _ \<Rightarrow> None)
        else metrics
    | _ \<Rightarrow> metrics"
  have step: "merged_metrics own job (p # pending) metrics = merged_metrics own job pending ?acc"
    by (simp add: merged_metrics_def p)
  have "(case ?acc of None \<Rightarrow> True | Some ms \<Rightarrow> m \<in> set ms) \<longleftrightarrow>
      (case metrics of None \<Rightarrow> True | Some ms \<Rightarrow> m \<in> set ms) \<or> asks own job m p"
    by (cases c) (auto simp: p split: option.split)
  then show ?case unfolding step Cons.IH by auto
qed (simp add: merged_metrics_def)

definition uncoalesced :: "pending \<Rightarrow> bool" where
  "uncoalesced pending \<longleftrightarrow>
     sorted_wrt (\<lambda>(own, m) (own', m'). own = own' \<longrightarrow> \<not> supersedes m' m) pending"

lemma supersedes_merge [simp]: "supersedes (merge_message own pending m) = supersedes m"
  by (cases m) (auto simp: merge_message_def fun_eq_iff elim!: supersedes.elims)

lemma sorted_wrt_kept: "sorted_wrt P xs \<Longrightarrow> sorted_wrt P (filter Q xs)"
  by (induction xs) auto

text \<open>
  Functional. Queueing a message never loses an invalidation that an earlier message asked for:
  after it, exactly the metrics are asked for that were asked for before or are by the new message,
  for every owner and job. The queue never exceeds 1,024 messages, and it keeps at most one
  message per owner of each kind, page set, rescan, job and run.
\<close>

theorem queue_merges:
  assumes "queue_owner_message own message pending = (pending', True)"
  shows "((\<exists>p \<in> set pending'. asks own' job m p) \<longleftrightarrow>
      (\<exists>p \<in> set pending. asks own' job m p) \<or> asks own' job m (own, message)) \<and>
    length pending' \<le> OWNER_PENDING_CAPACITY \<and> (uncoalesced pending \<longrightarrow> uncoalesced pending')"
proof -
  let ?m = "merge_message own pending message"
  let ?keep = "\<lambda>(o', c). o' \<noteq> own \<or> \<not> supersedes ?m c"
  have p': "pending' = filter ?keep pending @ [(own, ?m)]"
    and len: "length (filter ?keep pending) < OWNER_PENDING_CAPACITY"
    using assms by (auto simp: queue_owner_message_def Let_def split: if_splits)
  have kept: "asks own' job m p \<Longrightarrow> \<not> ?keep p \<Longrightarrow>
      own' = own \<and> (\<exists>ms. message = Msg_Invalidate job ms)" for p
    by (cases message) (auto simp: asks_def)
  have new: "asks own' job m (own, ?m) \<longleftrightarrow>
      asks own' job m (own, message) \<or>
      own' = own \<and> (\<exists>ms. message = Msg_Invalidate job ms) \<and> (\<exists>p \<in> set pending. asks own job m p)"
  proof (cases message)
    case (Msg_Invalidate j ms)
    then show ?thesis
      using merged_asks [where own = own and job = j and pending = pending and m = m and metrics = ms]
      by (auto simp: merge_message_def simp del: case_prod_conv)
  qed (simp_all add: merge_message_def)
  have "(\<exists>p \<in> set pending'. asks own' job m p) \<longleftrightarrow>
      (\<exists>p \<in> set pending. ?keep p \<and> asks own' job m p) \<or> asks own' job m (own, ?m)"
    unfolding p' set_append set_filter list.set by blast
  then have "(\<exists>p \<in> set pending'. asks own' job m p) \<longleftrightarrow>
      (\<exists>p \<in> set pending. asks own' job m p) \<or> asks own' job m (own, message)"
    unfolding new using kept by metis
  moreover have "uncoalesced pending'" if "uncoalesced pending"
    using that unfolding p' uncoalesced_def
    by (auto simp: sorted_wrt_append sorted_wrt_kept)
  ultimately show ?thesis using len by (simp add: p')
qed

lemma queue_merges_witness:
  "\<exists>p \<in> set (fst (queue_owner_message Own_Cpu (Msg_Invalidate demo_job None)
       [(Own_Cpu, Msg_Invalidate demo_job (Some []))])). asks Own_Cpu demo_job M_CpuUsage p"
  using queue_merges [of Own_Cpu "Msg_Invalidate demo_job None" "[(Own_Cpu, Msg_Invalidate demo_job (Some []))]"
      "[(Own_Cpu, Msg_Invalidate demo_job None)]" Own_Cpu demo_job M_CpuUsage]
  by (simp add: queue_owner_message_def merge_message_def merged_metrics_def OWNER_PENDING_CAPACITY_def Let_def)

section \<open>Flushing\<close>

lemma all_owners_complete: "own \<in> set ALL_OWNERS"
  by (cases own) (simp_all add: ALL_OWNERS_def)

lemma flush_order:
  assumes "\<forall>i < length rest. answer i \<noteq> Closed"
    and "\<forall>i j. i < j \<longrightarrow> j < length rest \<longrightarrow> fst (rest ! i) = fst (rest ! j) \<longrightarrow>
      answer (length rest - Suc i) = Full \<longrightarrow> answer (length rest - Suc j) = Full"
    and "\<forall>i < length rest. fst (rest ! i) \<in> fst ` set kept \<longrightarrow> answer (length rest - Suc i) = Full"
  shows "\<exists>p q. flush_loop answer (length rest) (rest @ kept) sent = (p, q, None) \<and>
    (\<forall>own. filter (\<lambda>x. fst x = own) (q @ p) = filter (\<lambda>x. fst x = own) (sent @ kept @ rest))"
  using assms
proof (induction rest arbitrary: kept sent)
  case (Cons r rest)
  obtain own m where r: "r = (own, m)" by (cases r)
  let ?n = "length rest"
  have c1: "\<forall>i < ?n. answer i \<noteq> Closed" using Cons.prems(1) by simp
  have c2: "\<forall>i j. i < j \<longrightarrow> j < ?n \<longrightarrow> fst (rest ! i) = fst (rest ! j) \<longrightarrow>
      answer (?n - Suc i) = Full \<longrightarrow> answer (?n - Suc j) = Full"
  proof (intro allI impI)
    fix i j assume ij: "i < j" "j < ?n" "fst (rest ! i) = fst (rest ! j)" "answer (?n - Suc i) = Full"
    then show "answer (?n - Suc j) = Full" using Cons.prems(2) [rule_format, of "Suc i" "Suc j"] by simp
  qed
  have c3: "\<forall>i < ?n. fst (rest ! i) \<in> fst ` set kept \<longrightarrow> answer (?n - Suc i) = Full"
  proof (intro allI impI)
    fix i assume "i < ?n" "fst (rest ! i) \<in> fst ` set kept"
    then show "answer (?n - Suc i) = Full" using Cons.prems(3) [rule_format, of "Suc i"] by simp
  qed
  have head: "own \<in> fst ` set kept \<Longrightarrow> answer ?n = Full"
    using Cons.prems(3) [rule_format, of 0] by (simp add: r)
  show ?case
  proof (cases "answer ?n")
    case Sent
    then have "own \<notin> fst ` set kept" using head by auto
    then have "filter (\<lambda>x. fst x = o') (kept @ r # rest) = filter (\<lambda>x. fst x = o') (r # kept @ rest)" for o'
    proof (cases "own = o'")
      case True
      then have "filter (\<lambda>x. fst x = o') kept = []"
        using \<open>own \<notin> fst ` set kept\<close> by (force simp: filter_empty_conv)
      then show ?thesis by (simp add: r)
    qed (simp add: r)
    then show ?thesis
      using Cons.IH [OF c1 c2 c3, of "sent @ [r]"] Sent by (simp add: r all_owners_complete)
  next
    case Full
    have "\<forall>i < ?n. fst (rest ! i) \<in> fst ` set (kept @ [r]) \<longrightarrow> answer (?n - Suc i) = Full"
    proof (intro allI impI)
      fix i assume i: "i < ?n" "fst (rest ! i) \<in> fst ` set (kept @ [r])"
      show "answer (?n - Suc i) = Full"
      proof (cases "fst (rest ! i) \<in> fst ` set kept")
        case True
        then show ?thesis using c3 i by blast
      next
        case False
        then have "fst (rest ! i) = own" using i(2) by (simp add: r)
        then show ?thesis using Cons.prems(2) [rule_format, of 0 "Suc i"] i(1) Full by (simp add: r)
      qed
    qed
    then show ?thesis
      using Cons.IH [OF c1 c2, of "kept @ [r]" sent] Full by (simp add: r all_owners_complete)
  next
    case Closed
    then show ?thesis using Cons.prems(1) by auto
  qed
qed auto

text \<open>
  Safety. Flushing keeps the order of the messages of each owner: as long as no channel is closed,
  and a channel that was full stays full during the flush (the loop and the workers share one thread,
  and the flush does not yield), the messages sent to an owner followed by those still pending for
  it are exactly its messages before, in their order.
\<close>

theorem flush_keeps_order:
  assumes "\<forall>i < length pending. answer i \<noteq> Closed"
    and "\<forall>i j. i < j \<longrightarrow> j < length pending \<longrightarrow> fst (pending ! i) = fst (pending ! j) \<longrightarrow>
      answer (length pending - Suc i) = Full \<longrightarrow> answer (length pending - Suc j) = Full"
  shows "\<exists>p q. flush_owner_messages answer pending = (p, q, None) \<and>
    (\<forall>own. filter (\<lambda>x. fst x = own) (q @ p) = filter (\<lambda>x. fst x = own) pending)"
  using flush_order [of pending answer "[]" "[]"] assms by (simp add: flush_owner_messages_def)

lemma flush_keeps_order_witness:
  "\<exists>p q. flush_owner_messages (\<lambda>n. if n = 0 then Full else Sent)
       [(Own_Cpu, Msg_Reset demo_job), (Own_Cpu, Msg_PagesChanged [])] = (p, q, None) \<and>
     (\<forall>own. filter (\<lambda>x. fst x = own) (q @ p) = filter (\<lambda>x. fst x = own)
        [(Own_Cpu, Msg_Reset demo_job), (Own_Cpu, Msg_PagesChanged [])])"
  by (rule flush_keeps_order) auto

section \<open>Draining\<close>

text \<open>
  C4. Termination. The loop that applies the actions ends, whatever the actions queue in turn: with a
  positive display interval and a clock that does not go back, some number of rounds empties the
  queue or ends in an error. (A clock is a \<open>Duration\<close>, so it stays below the largest one.)
\<close>

theorem drain_terminates:
  assumes "0 < s_display_interval (x_sched x)"
    and "\<forall>k. le_now (env k) \<le> le_now (env (Suc k)) \<and> le_now (env k) < duration_max"
  shows "\<exists>y. drain_actions env k x = Some y \<and> (x_failed y \<or> x_actions y = [])"
proof -
  have "wf drain_less" by (intro wf_lex_prod wf_less_than)
  then show ?thesis
    using assms(1)
  proof (induction "drain_measure (le_now (env k)) x" arbitrary: k x rule: wf_induct_rule)
    case less
    show ?case
    proof (cases "x_failed x \<or> x_actions x = []")
      case True
      then show ?thesis by (subst drain_actions.simps) auto
    next
      case False
      then have "(drain_measure (le_now (env (Suc k))) (drain_one (env k) x),
          drain_measure (le_now (env k)) x) \<in> drain_less \<and>
        0 < s_display_interval (x_sched (drain_one (env k) x))"
        using assms(2) less.prems by (intro drain_round) auto
      then obtain y where "drain_actions env (Suc k) (drain_one (env k) x) = Some y"
        "x_failed y \<or> x_actions y = []"
        using less.hyps by blast
      then show ?thesis using False by (subst drain_actions.simps) auto
    qed
  qed
qed

lemma drain_terminates_witness:
  "\<exists>y. drain_actions (\<lambda>k. \<lparr>le_now = min k 9, le_width_changed = False, le_graph_input_changed = False\<rparr>)
      0 (demo_boot demo_empty) = Some y \<and> (x_failed y \<or> x_actions y = [])"
  by (rule drain_terminates)
    (auto simp: exec_demo_defs step_defs time_defs Let_def min_def)

section \<open>Commits\<close>

lemma commits_frames:
  "rt_last_committed (x_runtime (rerender_after at c r p x)) = rt_last_committed (x_runtime x)"
  "rt_last_committed (x_runtime (fst (release_deferred_first_paint now boot x))) = rt_last_committed (x_runtime x)"
  "rt_last_committed (x_runtime (reconcile_inventory_publication none now boot at x)) =
     rt_last_committed (x_runtime x)"
proof -
  show release: "rt_last_committed (x_runtime (fst (release_deferred_first_paint now boot x))) =
      rt_last_committed (x_runtime x)"
    by (simp add: release_deferred_first_paint_def split: option.split)
  show "rt_last_committed (x_runtime (reconcile_inventory_publication none now boot at x)) =
      rt_last_committed (x_runtime x)"
    by (simp add: reconcile_inventory_publication_def Let_def case_prod_unfold release)
qed (simp add: rerender_after_def Let_def)

lemma commits_inventory:
  "commit_inventory eff at before finished x = (y, rest, none) \<Longrightarrow>
     rt_last_committed (x_runtime y) = rt_last_committed (x_runtime x)"
  by (auto simp: commit_inventory_def refresh_deferred_first_paint_jobs_def Let_def
      split: option.splits prod.splits if_splits)

lemma commits_note [simp]: "rt_last_committed (note_completed c current acts rs) = rt_last_committed rs"
  by (simp add: note_completed_def Let_def)

lemma commits_complete:
  "rt_last_committed (x_runtime (complete_job eff boot now at c x)) =
    (if can_commit (x_runtime x) (x_sched x) c \<and>
        disposition (snd (handle (x_sched x) (JobFinished at (jc_ticket c) (jc_completion c)
          (jc_notification_ready c)))) = Accepted
     then bm_insert (jid_owner (tk_job (jc_ticket c))) (tk_run_id (jc_ticket c)) (rt_last_committed (x_runtime x))
     else rt_last_committed (x_runtime x))"
proof -
  define t where "t = jc_ticket c"
  define x0 where "x0 = x\<lparr>x_runs := bs_remove (tk_run_id t) (x_runs x),
    x_deciding := remove1 (jid_owner (tk_job t)) (x_deciding x)\<rparr>"
  define eligible where "eligible = can_commit (x_runtime x0) (x_sched x0) c"
  obtain x1 fin current x2 x3 before x4 rest none x5 r p' where
    h1: "x_handle (JobFinished at t (jc_completion c) (eligible \<and> jc_notification_ready c)) x0 = (x1, fin)" and
    current: "current = (eligible \<and> disposition fin = Accepted)" and
    x2_def: "x2 = on_runtime (\<lambda>rs. note_completed c current (actions fin)
       (if current then commit eff c rs else rs)) x1" and
    x3_def: "x3 = (if should_trigger_nvidia_fallback current (jid_kind (tk_job t)) (jc_completion c) fin
       then x_enqueue (RefreshTriggered at (job_singleton Own_Nvidia Job_NvidiaFallback) Trig_Reconnect) x2
       else x2)" and
    h4: "(if current \<and> ce_inventory_changed eff then commit_inventory eff at before (actions fin) x3
      else (x3, actions fin, False)) = (x4, rest, none)" and
    x5_def: "x5 = reconcile_inventory_publication none now boot at (x4\<lparr>x_actions := x_actions x4 @ rest\<rparr>)" and
    eq: "complete_job eff boot now at c x = rerender_after at c r p' x5"
    by (rule complete_job_stages [where c = c and x = x and eff = eff and boot = boot and now = now
        and at = at, folded t_def, folded x0_def, folded eligible_def])
  have "rt_last_committed (x_runtime x4) = rt_last_committed (x_runtime x3)"
    using h4 commits_inventory [of eff at before "actions fin" x3] by (auto split: if_splits)
  moreover have "x_runtime x1 = x_runtime x" using h1 by (auto simp: x_handle_eq x0_def)
  ultimately have "rt_last_committed (x_runtime (complete_job eff boot now at c x)) =
      (if current then rt_last_committed (commit eff c (x_runtime x)) else rt_last_committed (x_runtime x))"
    by (simp add: eq x5_def commits_frames x3_def x2_def)
  moreover have "rt_last_committed (commit eff c rs) = bm_insert (jid_owner (tk_job t)) (tk_run_id t) (rt_last_committed rs)" for rs
    by (simp add: commit_def bump_render_def t_def Let_def)
  moreover have "current \<longleftrightarrow> can_commit (x_runtime x) (x_sched x) c \<and>
      disposition (snd (handle (x_sched x) (JobFinished at t (jc_completion c)
        (jc_notification_ready c)))) = Accepted"
    using h1 by (auto simp: current eligible_def x0_def x_handle_eq)
  ultimately show ?thesis by (simp add: t_def)
qed

text \<open>
  C13. Safety. A completion changes what is committed only when its ticket is still current and newer
  than the last run committed for its owner, and then for that owner alone: a completion that was
  cancelled, superseded or made for another configuration or inventory never commits.
\<close>

theorem commits_move_forward:
  assumes "rt_last_committed (x_runtime (complete_job eff boot now at c x)) \<noteq> rt_last_committed (x_runtime x)"
  shows "is_current_ticket (x_sched x) (jc_ticket c) \<and>
    (\<forall>run. bm_get (rt_last_committed (x_runtime x)) (ticket_owner (jc_ticket c)) = Some run \<longrightarrow>
       run < tk_run_id (jc_ticket c)) \<and>
    rt_last_committed (x_runtime (complete_job eff boot now at c x)) =
      bm_insert (ticket_owner (jc_ticket c)) (tk_run_id (jc_ticket c)) (rt_last_committed (x_runtime x))"
  using assms commits_complete [of eff boot now at c x]
  by (auto simp: can_commit_def split: if_splits option.splits)

definition demo_completion :: job_completion where
  "demo_completion = \<lparr>jc_ticket = demo_ticket, jc_completion = Captured, jc_notification_ready = False,
     jc_rendered_page = False, jc_style_generation = 0, jc_render_generation = 0\<rparr>"

definition demo_effect :: commit_effect where
  "demo_effect = \<lparr>ce_graph_input_changed = False, ce_inventory_changed = False,
     ce_config = demo_config (from_secs 1)\<rparr>"

lemma demo_accepted:
  "disposition (snd (handle (x_sched demo_pending) (JobFinished 1 demo_ticket Captured False))) = Accepted"
  by (simp add: pending_sched demo_defs finish_defs handle_def is_startup_def is_stale_def bm_get_def
      finish_transition_def handle_event_def disposition_transition finish_job_def tick_def process_time_def
      pt_deactivation_def pt_first_paint_def pt_activation_def pt_display_def pt_jobs_def due_def
      on_state_def bm_map_def Let_def nominal_step_def retry_step_def
      current_demand_def current_demand_for_def demanded_def)

lemma commits_move_forward_witness: "is_current_ticket (x_sched demo_pending) demo_ticket"
proof -
  have "can_commit (x_runtime demo_pending) (x_sched demo_pending) demo_completion"
    by (simp add: can_commit_def demo_completion_def pending_sched render_input_current_def finish_defs demo_defs bm_get_def
        pending_runtime)
  then have "rt_last_committed (x_runtime (complete_job demo_effect 0 1 1 demo_completion demo_pending)) \<noteq>
      rt_last_committed (x_runtime demo_pending)"
    using demo_accepted unfolding commits_complete
    by (simp add: demo_completion_def pending_runtime)
  from commits_move_forward [OF this] show ?thesis by (simp add: demo_completion_def)
qed

section \<open>Shutting down\<close>

primrec closing :: "scheduler_action \<Rightarrow> bool" where
  "closing (CancelJob _ _) = True"
| "closing (InvalidateJob _ _ _) = False"
| "closing (ResetCounterBaseline _) = False"
| "closing (PublishDisplay _ _ _ _ _ _) = False"
| "closing (EvaluateNotifications _) = False"
| "closing (RescanHardware _ _) = False"
| "closing (ApplyBackoff _ _ _) = False"
| "closing (StartJob _) = False"
| "closing (ScheduleDeadline _) = False"
| "closing (Terminate component) = (component = None)"

lemma drain_closing:
  assumes "x_actions x = acts" "list_all closing acts" "s_lifecycle (x_sched x) = Stopped"
    and "\<not> x_failed x" "Terminate None \<in> set acts \<or> rt_terminate (x_runtime x) \<and> rt_critical (x_runtime x) = None"
    and "x_pending x = []"
  shows "\<exists>y. drain_actions env k x = Some y \<and> \<not> x_failed y \<and> x_actions y = [] \<and> x_pending y = [] \<and>
    rt_terminate (x_runtime y) \<and> rt_critical (x_runtime y) = None"
  using assms
proof (induction acts arbitrary: x k)
  case Nil
  then show ?case by (subst drain_actions.simps) auto
next
  case (Cons a acts)
  define y where "y = drain_one (env k) x"
  have "drain_actions env k x = drain_actions env (Suc k) y"
    using Cons.prems by (subst drain_actions.simps) (simp add: y_def)
  moreover have "x_actions y = acts \<and> s_lifecycle (x_sched y) = Stopped \<and> \<not> x_failed y \<and> x_pending y = [] \<and>
    (Terminate None \<in> set acts \<or> rt_terminate (x_runtime y) \<and> rt_critical (x_runtime y) = None)"
  proof (cases a)
    case (CancelJob t r)
    show ?thesis
      using Cons.prems stopped_handle [of "x_sched x" "JobCancelled (le_now (env k)) t"]
      by (auto simp: y_def drain_one_def apply_action_def CancelJob cancel_job_def x_prepend_def
          x_handle_def on_runtime_def Let_def clear_graph_render_requested_def
          split: prod.split option.split if_splits)
  qed (use Cons.prems in \<open>auto simp: y_def drain_one_def apply_action_def on_runtime_def\<close>)
  ultimately show ?case using Cons.IH [of y "Suc k"] Cons.prems(2) by simp
qed

lemma shutdown_closes:
  assumes "s_lifecycle s \<noteq> Unstarted" "s_lifecycle s \<noteq> Stopped" "s_now s \<le> at"
  shows "s_lifecycle (fst (handle s (Shutdown at))) = Stopped \<and>
    list_all closing (actions (snd (handle s (Shutdown at)))) \<and>
    Terminate None \<in> set (actions (snd (handle s (Shutdown at))))"
proof -
  have "handle s (Shutdown at) = finish_transition (Accepted, stop Can_Shutdown None (s\<lparr>s_now := at\<rparr>, []))"
    using assms by (simp add: handle_def handle_event_def is_startup_def is_stale_def)
  then show ?thesis
    by (auto simp: finish_transition_def stop_def push_def on_state_def cancel_all_def cancel_in_flight_def
        list_all_iff Let_def)
qed

text \<open>
  C14. Liveness. The first shutdown request ends the loop. Hypotheses: the scheduler has been started and is
  not stopped yet, its clock is not ahead of the request, no action has failed, and no termination on
  account of a failed component is queued (the request leaves that one to take effect). Then, whatever
  else was queued, the drain of the actions that follows the request returns without an error, with the
  request to terminate taken and no failed component, and nothing is left to send. (A request to a scheduler that is
  stopped already is not covered: it can drop the termination that is queued, \<open>shutdown_twice\<close>.)
\<close>

theorem shutdown_terminates:
  assumes "s_lifecycle (x_sched x) \<noteq> Unstarted" "s_lifecycle (x_sched x) \<noteq> Stopped"
    and "s_now (x_sched x) \<le> at" "\<not> x_failed x" "\<not> list_ex is_critical_stop (x_actions x)"
  shows "\<exists>y. drain_actions env k (preempt_for_shutdown True at x) = Some y \<and> \<not> x_failed y \<and>
    x_actions y = [] \<and> x_pending y = [] \<and> rt_terminate (x_runtime y) \<and> rt_critical (x_runtime y) = None"
proof (rule drain_closing [OF refl])
  let ?y = "preempt_for_shutdown True at x"
  have y: "x_sched ?y = fst (handle (x_sched x) (Shutdown at))"
    "x_actions ?y = actions (snd (handle (x_sched x) (Shutdown at)))" "x_pending ?y = []" "x_failed ?y = x_failed x"
    using assms(5) by (simp_all add: preempt_for_shutdown_def x_enqueue_def x_handle_eq Let_def
        split: option.split owner_completion.split)
  show "list_all closing (x_actions ?y)" "s_lifecycle (x_sched ?y) = Stopped" "\<not> x_failed ?y"
    "x_pending ?y = []"
    "Terminate None \<in> set (x_actions ?y) \<or> rt_terminate (x_runtime ?y) \<and> rt_critical (x_runtime ?y) = None"
    using shutdown_closes [OF assms(1-3)] assms(4) by (simp_all add: y)
qed

lemma shutdown_terminates_witness:
  "\<exists>y. drain_actions (\<lambda>_. demo_env) 0 (preempt_for_shutdown True 5 (demo_boot demo_empty)) = Some y \<and>
     \<not> x_failed y \<and> x_actions y = [] \<and> x_pending y = [] \<and> rt_terminate (x_runtime y) \<and>
     rt_critical (x_runtime y) = None"
  by (rule shutdown_terminates)
    (simp_all add: exec_demo_defs step_defs time_defs Let_def is_critical_stop_def)

text \<open>A request that is seen once more before the termination is applied drops it.\<close>

lemma shutdown_twice:
  assumes "s_lifecycle (x_sched x) = Stopped" "x_actions x = [Terminate None]"
  shows "x_actions (preempt_for_shutdown True at x) = []"
  using assms stopped_handle [of "x_sched x" "Shutdown at"]
  by (simp add: preempt_for_shutdown_def x_enqueue_def x_handle_eq is_critical_stop_def Let_def
      split: option.split owner_completion.split)

end
