(* ===== verification/Texts.thy ===== *)
theory Texts
  imports Terminal
begin

text \<open>
  What Rust's \<open>str\<close> and integer types give the readers of text: white space, lines, words and the
  parsing of numbers. Texts are lists of Unicode scalar values, as in \<open>Terminal\<close>.
\<close>

section \<open>Characters and words\<close>

text \<open>\<open>char::is_whitespace\<close>: the Unicode property White_Space.\<close>

definition is_ws :: "nat \<Rightarrow> bool" where
  "is_ws c \<longleftrightarrow>
     9 \<le> c \<and> c \<le> 13 \<or> c \<in> {32, 133, 160, 5760, 8232, 8233, 8239, 8287, 12288} \<or>
     8192 \<le> c \<and> c \<le> 8202"

fun split_when :: "('a \<Rightarrow> bool) \<Rightarrow> 'a list \<Rightarrow> 'a list list" where
  "split_when P [] = [[]]"
| "split_when P (x # xs) =
     (if P x then [] # split_when P xs
      else (case split_when P xs of l # ls \<Rightarrow> (x # l) # ls | [] \<Rightarrow> [[x]]))"

text \<open>\<open>split_whitespace\<close>\<close>

definition split_ws :: "utext \<Rightarrow> utext list" where
  "split_ws t = filter (\<lambda>w. w \<noteq> []) (split_when is_ws t)"

definition trim_text :: "utext \<Rightarrow> utext" where
  "trim_text t = rev (dropWhile is_ws (rev (dropWhile is_ws t)))"

definition strip_cr :: "utext \<Rightarrow> utext" where
  "strip_cr line = (if line \<noteq> [] \<and> last line = CR then butlast line else line)"

text \<open>\<open>str::lines\<close>: a last line without a line feed keeps its carriage return.\<close>

definition text_lines :: "utext \<Rightarrow> utext list" where
  "text_lines t =
     (let ls = split_on LF t
      in map strip_cr (butlast ls) @ (if last ls = [] then [] else [last ls]))"

text \<open>\<open>split_once\<close> and \<open>find\<close> on a single character.\<close>

fun break_at :: "'a \<Rightarrow> 'a list \<Rightarrow> ('a list \<times> 'a list) option" where
  "break_at c [] = None"
| "break_at c (x # xs) =
     (if x = c then Some ([], xs)
      else map_option (\<lambda>(pre, rest). (x # pre, rest)) (break_at c xs))"

lemma break_at_Some: "break_at c xs = Some (pre, rest) \<longleftrightarrow> xs = pre @ c # rest \<and> c \<notin> set pre"
proof (induction xs arbitrary: pre)
  case (Cons x xs)
  then show ?case by (cases pre) auto
qed simp

lemma break_at_None: "break_at c xs = None \<longleftrightarrow> c \<notin> set xs"
  by (induction xs) auto

definition strip_pre :: "'a list \<Rightarrow> 'a list \<Rightarrow> 'a list option" where
  "strip_pre p s = (if take (length p) s = p then Some (drop (length p) s) else None)"

section \<open>Numbers\<close>

definition digit_of :: "nat \<Rightarrow> nat \<Rightarrow> nat option" where
  "digit_of radix c =
     (let d = (if 48 \<le> c \<and> c \<le> 57 then c - 48
               else if 97 \<le> c \<and> c \<le> 122 then c - 87
               else if 65 \<le> c \<and> c \<le> 90 then c - 55 else radix)
      in if d < radix then Some d else None)"

fun digits_of :: "nat \<Rightarrow> utext \<Rightarrow> nat \<Rightarrow> nat option" where
  "digits_of radix [] acc = Some acc"
| "digits_of radix (c # cs) acc =
     (case digit_of radix c of
        None \<Rightarrow> None
      | Some d \<Rightarrow> digits_of radix cs (acc * radix + d))"

text \<open>\<open>from_str_radix\<close> of an unsigned type whose largest value is \<open>limit\<close>: a plus sign is accepted.\<close>

definition parse_unsigned :: "nat \<Rightarrow> nat \<Rightarrow> utext \<Rightarrow> nat option" where
  "parse_unsigned radix limit t =
     (let ds = (if t \<noteq> [] \<and> hd t = 43 then tl t else t)
      in if ds = [] then None
         else case digits_of radix ds 0 of
                None \<Rightarrow> None
              | Some n \<Rightarrow> if n \<le> limit then Some n else None)"

abbreviation parse_u64 :: "utext \<Rightarrow> nat option" where "parse_u64 \<equiv> parse_unsigned 10 u64_max"
abbreviation parse_u32 :: "utext \<Rightarrow> nat option" where "parse_u32 \<equiv> parse_unsigned 10 u32_max"

text \<open>A signed type of \<open>b\<close> bits.\<close>

definition parse_signed :: "nat \<Rightarrow> utext \<Rightarrow> int option" where
  "parse_signed b t =
     (let (neg, ds) = (if t \<noteq> [] \<and> hd t = 45 then (True, tl t)
                       else if t \<noteq> [] \<and> hd t = 43 then (False, tl t) else (False, t))
      in if ds = [] then None
         else case digits_of 10 ds 0 of
                None \<Rightarrow> None
              | Some n \<Rightarrow>
                  let v = (if neg then - int n else int n)
                  in if - (2 ^ (b - 1)) \<le> v \<and> v < 2 ^ (b - 1) then Some v else None)"

lemma parse_unsigned_bound: "parse_unsigned radix limit t = Some n \<Longrightarrow> n \<le> limit"
  by (auto simp: parse_unsigned_def Let_def split: if_splits option.splits)

text \<open>Decimal digits, as \<open>Display\<close> writes them.\<close>

fun nat_text :: "nat \<Rightarrow> utext" where
  "nat_text n = (if n < 10 then [48 + n] else nat_text (n div 10) @ [48 + n mod 10])"

declare nat_text.simps [simp del]

definition int_text :: "int \<Rightarrow> utext" where
  "int_text v = (if v < 0 then 45 # nat_text (nat (- v)) else nat_text (nat v))"

lemma nat_text_nonempty: "nat_text n \<noteq> []"
  by (subst nat_text.simps) auto

lemma digits_append:
  "digits_of r (xs @ ys) acc = Option.bind (digits_of r xs acc) (digits_of r ys)"
  by (induction xs arbitrary: acc) (auto split: option.split)

lemma digits_nat_text: "digits_of 10 (nat_text n) 0 = Some n"
proof (induction n rule: nat_text.induct)
  case (1 n)
  show ?case
  proof (cases "n < 10")
    case True
    then show ?thesis by (subst nat_text.simps) (simp add: digit_of_def)
  next
    case False
    then show ?thesis
      using 1 by (subst nat_text.simps) (simp add: digits_append digit_of_def)
  qed
qed

lemma nat_text_digits: "c \<in> set (nat_text n) \<Longrightarrow> 48 \<le> c \<and> c \<le> 57"
proof (induction n rule: nat_text.induct)
  case (1 n)
  then show ?case by (cases "n < 10") (auto simp: nat_text.simps [of n])
qed

text \<open>Printed numbers are read back.\<close>

lemma parse_nat_text: "n \<le> limit \<Longrightarrow> parse_unsigned 10 limit (nat_text n) = Some n"
proof -
  assume n: "n \<le> limit"
  have "hd (nat_text n) \<in> set (nat_text n)" using nat_text_nonempty by simp
  then have "hd (nat_text n) \<noteq> 43" using nat_text_digits by fastforce
  then show ?thesis using n by (simp add: parse_unsigned_def nat_text_nonempty digits_nat_text)
qed

section \<open>Signed arithmetic\<close>

text \<open>The value of an \<open>i32\<close> after an operation that wraps around, and division towards zero.\<close>

definition wrap32 :: "int \<Rightarrow> int" where
  "wrap32 v = (v + 2 ^ 31) mod 2 ^ 32 - 2 ^ 31"

definition tdiv :: "int \<Rightarrow> int \<Rightarrow> int" where
  "tdiv a b = (if (a < 0) = (b < 0) then \<bar>a\<bar> div \<bar>b\<bar> else - (\<bar>a\<bar> div \<bar>b\<bar>))"

lemma wrap32_id: "- (2 ^ 31) \<le> v \<Longrightarrow> v < 2 ^ 31 \<Longrightarrow> wrap32 v = v"
  by (simp add: wrap32_def)

lemma tdiv_nonneg [simp]: "0 \<le> a \<Longrightarrow> 0 < b \<Longrightarrow> tdiv a b = a div b"
  by (simp add: tdiv_def)

definition int_clamp :: "int \<Rightarrow> int \<Rightarrow> int \<Rightarrow> int" where
  "int_clamp lo hi v = (if v < lo then lo else if hi < v then hi else v)"

end
