(* ===== verification/Layout.thy ===== *)
theory Layout
  imports Texts
begin

text \<open>
  Cells, rows and blocks of the rendered display (\<open>src/render/model.rs\<close>), the monospace serializer
  (\<open>src/render/mono.rs\<close>) and the cell helpers of \<open>src/render/cells.rs\<close> that do not compute with
  floating point. A text is a list of Unicode scalar values; the width of a text is the number of
  characters a browser shows for it.
\<close>

section \<open>Cells\<close>

datatype align = Align_Left | Align_Center | Align_Right

record cell =
  c_text :: utext
  c_class :: "utext option"
  c_align :: align
  c_pad_left :: nat
  c_pad_right :: nat
  c_min_width :: nat
  c_layout_width :: "nat option"

definition cell_new :: "utext \<Rightarrow> cell" where
  "cell_new t = \<lparr>c_text = t, c_class = None, c_align = Align_Left, c_pad_left = 0, c_pad_right = 0,
     c_min_width = 0, c_layout_width = None\<rparr>"

definition cell_classified :: "utext \<Rightarrow> utext \<Rightarrow> cell" where
  "cell_classified t css = (cell_new t)\<lparr>c_class := Some css\<rparr>"

type_synonym row = "cell list"

record ident = id_metric :: utext  id_form :: "utext option"

definition ident_css :: "ident \<Rightarrow> utext" where
  "ident_css i =
     (case id_form i of
        None \<Rightarrow> lit ''item-'' @ id_metric i
      | Some form \<Rightarrow> lit ''item-'' @ id_metric i @ lit '' form-'' @ form)"

datatype separator_size = Sep_Small | Sep_Big

primrec separator_as_str :: "separator_size \<Rightarrow> utext" where
  "separator_as_str Sep_Small = lit ''small''"
| "separator_as_str Sep_Big = lit ''big''"

datatype entry = Entry_Row row | Entry_Separator separator_size

record block =
  b_rows :: "row list"
  b_separator :: "separator_size option"

section \<open>Visible width\<close>

text \<open>A tag runs to the next \<open>>\<close>; an unclosed one and the pair \<open><>\<close> are text.\<close>

function strip_tags :: "utext \<Rightarrow> utext" where
  "strip_tags [] = []"
| "strip_tags (c # rest) =
     (if c \<noteq> 60 then c # strip_tags rest
      else case break_at 62 rest of
             None \<Rightarrow> c # rest
           | Some (tag, after) \<Rightarrow>
               if tag = [] then 60 # 62 # strip_tags after else strip_tags after)"
  by pat_completeness auto
termination
  by (relation "measure length") (auto simp: break_at_Some)

text \<open>\<open>char::from_u32\<close> succeeds for scalar values.\<close>

definition is_scalar :: "nat \<Rightarrow> bool" where
  "is_scalar n \<longleftrightarrow> n < 55296 \<or> 57343 < n \<and> n \<le> 1114111"

definition decoded_entity :: "utext \<Rightarrow> nat option" where
  "decoded_entity entity =
     (let scalar = (\<lambda>n. case n of Some v \<Rightarrow> if is_scalar v then Some v else None | None \<Rightarrow> None) in
      if entity = lit ''nbsp'' then Some 160
      else if entity = lit ''amp'' then Some 38
      else if entity = lit ''lt'' then Some 60
      else if entity = lit ''gt'' then Some 62
      else if entity = lit ''quot'' then Some 34
      else if entity = lit ''apos'' \<or> entity = lit ''#39'' then Some 39
      else if take 2 entity = lit ''#x'' \<or> take 2 entity = lit ''#X''
      then scalar (parse_unsigned 16 u32_max (drop 2 entity))
      else if take 1 entity = lit ''#'' then scalar (parse_unsigned 10 u32_max (drop 1 entity))
      else None)"

function decoded_entity_width :: "utext \<Rightarrow> nat" where
  "decoded_entity_width [] = 0"
| "decoded_entity_width (c # rest) =
     (if c \<noteq> 38 then 1 + decoded_entity_width rest
      else case break_at 59 rest of
             None \<Rightarrow> 1 + length rest
           | Some (candidate, after) \<Rightarrow>
               if decoded_entity candidate \<noteq> None then 1 + decoded_entity_width after
               else 1 + decoded_entity_width rest)"
  by pat_completeness auto
termination
  by (relation "measure length") (auto simp: break_at_Some)

definition visible_width :: "utext \<Rightarrow> nat" where
  "visible_width t = decoded_entity_width (strip_tags t)"

definition nbsp :: utext where "nbsp = lit ''&nbsp;''"

definition non_breaking_spaces :: "nat \<Rightarrow> utext" where
  "non_breaking_spaces n = concat (replicate n nbsp)"

definition cell_inner :: "cell \<Rightarrow> utext" where
  "cell_inner c = non_breaking_spaces (c_pad_left c) @ c_text c @ non_breaking_spaces (c_pad_right c)"

section \<open>Building cells\<close>

definition push_class :: "utext option \<Rightarrow> utext \<Rightarrow> utext" where
  "push_class extra classes =
     (case extra of Some e \<Rightarrow> if e = [] then classes else classes @ [SPACE] @ e | None \<Rightarrow> classes)"

definition value_cell :: "utext \<Rightarrow> utext option \<Rightarrow> ident option \<Rightarrow> nat \<Rightarrow> cell" where
  "value_cell t state_class i min_width =
     (let classes = (case i of Some i \<Rightarrow> lit ''val '' @ ident_css i | None \<Rightarrow> lit ''val'')
      in (cell_new t)\<lparr>c_class := Some (push_class state_class classes), c_align := Align_Right,
                      c_min_width := min_width\<rparr>)"

definition auxiliary_cell ::
    "utext \<Rightarrow> utext option \<Rightarrow> ident option \<Rightarrow> nat \<Rightarrow> nat \<Rightarrow> nat option \<Rightarrow> cell" where
  "auxiliary_cell t state_class i pad_left pad_right layout_width =
     (let classes = (case i of Some i \<Rightarrow> lit ''aux '' @ ident_css i | None \<Rightarrow> lit ''aux'')
      in (cell_new t)\<lparr>c_class := Some (push_class state_class classes), c_pad_left := pad_left,
                      c_pad_right := pad_right, c_layout_width := layout_width\<rparr>)"

definition format_percent :: "int \<Rightarrow> bool \<Rightarrow> utext" where
  "format_percent v tooltip =
     (if 100 \<le> v \<and> \<not> tooltip then int_text v else int_text v @ lit ''%'')"

definition css_class_active :: "int \<Rightarrow> int \<Rightarrow> utext option" where
  "css_class_active v threshold = (if threshold < v then Some (lit ''active'') else None)"

definition css_class_battery :: "int \<Rightarrow> int \<Rightarrow> int \<Rightarrow> utext" where
  "css_class_battery v low high =
     (if v \<le> low then lit ''crit'' else if v \<le> high then lit ''warn'' else lit ''good'')"

definition render_two_pair_row :: "cell \<Rightarrow> cell \<Rightarrow> cell \<Rightarrow> cell \<Rightarrow> row" where
  "render_two_pair_row label1 value1 label2 value2 = [label1, value1, label2, value2]"

definition render_three_col_row :: "cell \<Rightarrow> cell \<Rightarrow> cell \<Rightarrow> row" where
  "render_three_col_row label extra val =
     [label, if c_text extra \<noteq> [] then extra\<lparr>c_pad_left := 1\<rparr> else extra, val]"

section \<open>Blocks\<close>

definition cell_role :: "cell \<Rightarrow> utext" where
  "cell_role c =
     (case c_class c of
        None \<Rightarrow> []
      | Some classes \<Rightarrow> (case split_ws classes of [] \<Rightarrow> [] | w # _ \<Rightarrow> w))"

definition row_shape :: "row \<Rightarrow> utext list" where
  "row_shape r = map cell_role r"

text \<open>The variables of the loop: the blocks so far, the current rows, their shape, the separator.\<close>

type_synonym grouping = "block list \<times> row list \<times> utext list option \<times> separator_size option"

definition flush_group :: "separator_size option \<Rightarrow> grouping \<Rightarrow> grouping" where
  "flush_group separator_after g =
     (let (blocks, current, shape, next) = g
      in (if current \<noteq> [] then blocks @ [\<lparr>b_rows = current, b_separator = next\<rparr>] else blocks,
          [], None, separator_after))"

definition group_entry :: "entry \<Rightarrow> grouping \<Rightarrow> grouping" where
  "group_entry e g =
     (case e of
        Entry_Separator sz \<Rightarrow> flush_group (Some sz) g
      | Entry_Row r \<Rightarrow>
          let shape = row_shape r;
              g1 = (case fst (snd (snd g)) of
                      Some current_shape \<Rightarrow> if current_shape \<noteq> shape then flush_group None g else g
                    | None \<Rightarrow> g);
              (blocks, current, _, next) = g1
          in (blocks, current @ [r], Some shape, next))"

definition group_rows_into_blocks :: "entry list \<Rightarrow> block list" where
  "group_rows_into_blocks entries =
     fst (flush_group None (fold group_entry entries ([], [], None, None)))"

definition separator_rule_html :: "separator_size \<Rightarrow> utext" where
  "separator_rule_html sz =
     lit ''<div width=\"100%\" class=\"separator-rule-'' @ separator_as_str sz @ lit ''\">&nbsp;</div>''"

definition inline_cell :: "cell \<Rightarrow> utext" where
  "inline_cell c =
     (let attributes = (case c_class c of
            Some classes \<Rightarrow> if classes = [] then [] else lit '' class=\"'' @ classes @ lit ''\"''
          | None \<Rightarrow> []);
          used_width = c_pad_left c + visible_width (c_text c) + c_pad_right c;
          gap = non_breaking_spaces (c_min_width c - used_width);
          inner = (if c_align c = Align_Right then gap @ cell_inner c else cell_inner c @ gap)
      in lit ''<span'' @ attributes @ lit ''>'' @ inner @ lit ''</span>'')"

definition render_row_inline :: "row \<Rightarrow> utext" where
  "render_row_inline r =
     join (lit ''<span class=\"gap\">&nbsp;</span>'') (map inline_cell r)"

section \<open>The monospace serializer\<close>

definition padding :: "nat \<Rightarrow> utext" where
  "padding k =
     (if k = 0 then []
      else lit ''<span class=\"gap\">'' @ non_breaking_spaces k @ lit ''</span>'')"

definition cell_width :: "cell \<Rightarrow> nat" where
  "cell_width c =
     c_pad_left c + (case c_layout_width c of Some w \<Rightarrow> w | None \<Rightarrow> visible_width (c_text c))
       + c_pad_right c"

definition cell_span :: "cell \<Rightarrow> utext" where
  "cell_span c =
     (case c_class c of
        Some classes \<Rightarrow>
          if classes = [] then cell_inner c
          else lit ''<span class=\"'' @ classes @ lit ''\">'' @ cell_inner c @ lit ''</span>''
      | None \<Rightarrow> cell_inner c)"

definition is_title_rule :: "cell \<Rightarrow> bool" where
  "is_title_rule c =
     (case c_class c of
        None \<Rightarrow> False
      | Some classes \<Rightarrow> (case split_ws classes of [] \<Rightarrow> False | w # _ \<Rightarrow> w = lit ''title-rule''))"

definition is_two_pair :: "row \<Rightarrow> bool" where
  "is_two_pair r \<longleftrightarrow> length r = 4 \<and> c_align (r ! 1) = Align_Right \<and> c_align (r ! 3) = Align_Right"

definition column_widths :: "block \<Rightarrow> nat list" where
  "column_widths b =
     (let cols = fold max (map length (b_rows b)) 0
      in fold (\<lambda>r widths. map2 max widths (map cell_width r) @ drop (length r) widths)
           (b_rows b) (replicate cols 0))"

definition render_columns :: "cell list \<Rightarrow> nat list \<Rightarrow> utext \<times> nat" where
  "render_columns cells widths =
     (concat (map (\<lambda>(c, width).
        let gap = padding (width - cell_width c)
        in if c_align c = Align_Right then gap @ cell_span c else cell_span c @ gap)
        (zip cells widths)), sum_list widths)"

datatype plan =
  Plan_Left (natural: nat) utext
  | Plan_RightValue (natural: nat) utext nat utext nat
  | Plan_CenterMiddle (natural: nat) utext nat utext nat utext nat nat
  | Plan_TwoPair (natural: nat) cell cell cell cell
  | Plan_TitleRule

primrec natural_width :: "plan \<Rightarrow> nat" where
  "natural_width (Plan_Left w _) = w"
| "natural_width (Plan_RightValue w _ _ _ _) = w"
| "natural_width (Plan_CenterMiddle w _ _ _ _ _ _ _) = w"
| "natural_width (Plan_TwoPair w _ _ _ _) = w"
| "natural_width Plan_TitleRule = 0"

primrec emit_plan :: "plan \<Rightarrow> nat \<Rightarrow> utext" where
  "emit_plan (Plan_TwoPair _ label1 value1 label2 value2) width =
     (let first_half = width div 2;
          first_gap = first_half - (cell_width label1 + cell_width value1);
          second_gap = (width - first_half) - (cell_width label2 + cell_width value2)
      in lit ''<div>'' @ cell_span label1 @ padding first_gap @ cell_span value1 @ cell_span label2
           @ padding second_gap @ cell_span value2 @ lit ''</div>'')"
| "emit_plan (Plan_RightValue _ left_html left_width value_html value_width) width =
     lit ''<div>'' @ left_html @ padding (width - (left_width + value_width)) @ value_html @ lit ''</div>''"
| "emit_plan (Plan_CenterMiddle _ left_html left_width middle_html middle_width value_html value_width
       value_column_width) width =
     (let region = width - (value_column_width + left_width);
          before_middle = (region - middle_width) div 2;
          after_middle = width - (value_width + left_width + before_middle + middle_width)
      in lit ''<div>'' @ left_html @ padding before_middle @ middle_html @ padding after_middle
           @ value_html @ lit ''</div>'')"
| "emit_plan Plan_TitleRule width = lit ''<div width=\"100%\" class=\"title-rule\">&nbsp;</div>''"
| "emit_plan (Plan_Left _ html) width = lit ''<div>'' @ html @ lit ''</div>''"

definition plan_row :: "row \<Rightarrow> nat list \<Rightarrow> nat \<Rightarrow> plan" where
  "plan_row r widths value_column_width =
     (if length r = 3 \<and> c_align (r ! 2) = Align_Right \<and> c_align (r ! 1) = Align_Center
      then
        let (left_html, left_width) = render_columns (take 1 r) (take 1 widths);
            middle_width = cell_width (r ! 1);
            value_width = cell_width (r ! 2)
        in Plan_CenterMiddle (left_width + middle_width + max value_width value_column_width)
             left_html left_width (cell_span (r ! 1)) middle_width (cell_span (r ! 2)) value_width
             value_column_width
      else if length r = 1
      then (if is_title_rule (r ! 0) then Plan_TitleRule
            else Plan_Left (cell_width (r ! 0)) (cell_span (r ! 0)))
      else if is_two_pair r
      then Plan_TwoPair (sum_list (map cell_width r)) (r ! 0) (r ! 1) (r ! 2) (r ! 3)
      else if r \<noteq> [] \<and> c_align (last r) = Align_Right
      then
        let left_count = length r - 1;
            (left_html, left_width) = render_columns (take left_count r) (take left_count widths);
            value_width = cell_width (last r)
        in Plan_RightValue (left_width + value_width) left_html left_width (cell_span (last r)) value_width
      else (case render_columns r widths of (html, width) \<Rightarrow> Plan_Left width html))"

definition block_value_column_width :: "block \<Rightarrow> nat" where
  "block_value_column_width b =
     fold max (map cell_width (List.map_filter (\<lambda>r.
        if 2 \<le> length r \<and> c_align (last r) = Align_Right then Some (last r) else None) (b_rows b))) 0"

definition block_plans :: "block \<Rightarrow> plan list" where
  "block_plans b =
     map (\<lambda>r. plan_row r (column_widths b) (block_value_column_width b)) (b_rows b)"

definition global_width_of :: "block list \<Rightarrow> nat \<Rightarrow> nat" where
  "global_width_of blocks min_width =
     fold (\<lambda>b w. fold (\<lambda>p w. max w (natural_width p)) (block_plans b) w) blocks min_width"

definition render_blocks_monospace :: "block list \<Rightarrow> nat \<Rightarrow> utext" where
  "render_blocks_monospace blocks min_width =
     (let laid_out = map (\<lambda>b. (b_separator b, block_plans b)) blocks;
          global_width = fold (\<lambda>(_, plans) w. fold (\<lambda>p w. max w (natural_width p)) plans w)
                           laid_out min_width
      in concat (map (\<lambda>(separator, plans).
           (case separator of Some sz \<Rightarrow> separator_rule_html sz | None \<Rightarrow> [])
           @ concat (map (\<lambda>p. emit_plan p global_width) plans)) laid_out))"

section \<open>Texts inside cells\<close>

definition net_fmt :: "nat \<Rightarrow> utext" where
  "net_fmt bps =
     (let kilobytes = bps div 1000
      in if 1000 \<le> kilobytes then nat_text (kilobytes div 1000) @ lit ''M''
         else if 0 < kilobytes then nat_text kilobytes @ lit ''K''
         else lit ''0'')"

abbreviation ELLIPSIS :: nat where "ELLIPSIS \<equiv> 8230"
abbreviation SLASH :: nat where "SLASH \<equiv> 47"

definition middle_ellipsis :: "utext \<Rightarrow> nat \<Rightarrow> utext" where
  "middle_ellipsis t max_chars =
     (if length t \<le> max_chars then t
      else if max_chars \<le> 1 then [ELLIPSIS]
      else
        let keep = max_chars - 1;
            head = (keep + 1) div 2;
            tail = keep - head
        in take head t @ [ELLIPSIS] @ (if 0 < tail then drop (length t - tail) t else []))"

definition ascii_upper :: "nat \<Rightarrow> nat" where
  "ascii_upper c = (if 97 \<le> c \<and> c \<le> 122 then c - 32 else c)"

definition upper_first :: "utext \<Rightarrow> utext" where
  "upper_first t = (case t of [] \<Rightarrow> [] | c # cs \<Rightarrow> ascii_upper c # cs)"

definition trim_end :: "(nat \<Rightarrow> bool) \<Rightarrow> utext \<Rightarrow> utext" where
  "trim_end P t = rev (dropWhile P (rev t))"

definition DISK_LABEL_MAX :: nat where "DISK_LABEL_MAX = 12"

definition disk_label :: "utext \<Rightarrow> utext" where
  "disk_label mount =
     (if mount = [SLASH] then lit ''Root''
      else
        let last_part = last (split_on SLASH (trim_end (\<lambda>c. c = SLASH) mount));
            label = (if last_part = [] then mount else last_part);
            chars = (if DISK_LABEL_MAX < length label then take (DISK_LABEL_MAX - 1) label @ [ELLIPSIS]
                     else label)
        in upper_first chars)"

definition hd_label :: "utext \<Rightarrow> utext" where
  "hd_label label =
     (let base = (case Option.bind (strip_pre (lit ''nvme'') label) (break_at 110) of
                    Some (controller, _) \<Rightarrow> lit ''nvme'' @ controller
                  | None \<Rightarrow> label)
      in upper_first (trim_end (\<lambda>c. 48 \<le> c \<and> c \<le> 57) base))"

definition fmt_disk_space ::
    "nat option \<Rightarrow> nat option \<Rightarrow> utext option \<Rightarrow> nat \<Rightarrow> nat \<Rightarrow> utext" where
  "fmt_disk_space used_gib total_gib used_class used_width total_width =
     (case (used_gib, total_gib) of
        (Some used, Some whole_gib) \<Rightarrow>
          let used_text = nat_text used @ lit ''G'';
              total_text = nat_text whole_gib @ lit ''G'';
              used_html = (case used_class of
                             None \<Rightarrow> used_text
                           | Some css \<Rightarrow> lit ''<span class=\"'' @ css @ lit ''\">'' @ used_text @ lit ''</span>'')
          in non_breaking_spaces (used_width - length used_text) @ used_html @ lit '' / '' @ total_text
             @ non_breaking_spaces (total_width - length total_text)
      | _ \<Rightarrow> [])"

section \<open>Separators between rows\<close>

definition separator_size_of :: "utext \<Rightarrow> separator_size option" where
  "separator_size_of name =
     (if name = lit ''separator_small'' then Some Sep_Small
      else if name = lit ''separator_big'' then Some Sep_Big else None)"

primrec separator_rank :: "separator_size \<Rightarrow> nat" where
  "separator_rank Sep_Small = 0"
| "separator_rank Sep_Big = 1"

definition normalize_entry ::
    "entry \<Rightarrow> entry list \<times> separator_size option \<Rightarrow> entry list \<times> separator_size option" where
  "normalize_entry e st =
     (let (out, pending) = st
      in case e of
           Entry_Separator sz \<Rightarrow>
             (out, if (case pending of None \<Rightarrow> True
                       | Some current \<Rightarrow> separator_rank current < separator_rank sz)
                   then Some sz else pending)
         | Entry_Row r \<Rightarrow>
             ((case pending of
                 Some sz \<Rightarrow> if out \<noteq> [] then out @ [Entry_Separator sz] else out
               | None \<Rightarrow> out) @ [Entry_Row r],
              None))"

definition normalize_separators :: "entry list \<Rightarrow> entry list" where
  "normalize_separators entries = fst (fold normalize_entry entries ([], None))"

end
