(* ===== verification/Cells.thy ===== *)
theory Cells
  imports Layout Config Items
begin

text \<open>
  Cells from configuration and readings: the label cells of \<open>src/render/cells.rs\<close>, the colour bands of
  \<open>src/render/model.rs\<close>, and the items the formatter renders, \<open>src/render/registry.rs\<close>. A \<open>String\<close> of
  the configuration or of a reading is its UTF-8 bytes; \<open>text_of\<close> decodes them. An index out of
  bounds panics: it is the result \<open>None\<close>. IEEE arithmetic and the printing of \<open>f64\<close> are the fields of
  \<open>float_ops\<close>.
\<close>

section \<open>Texts\<close>

fun utf8_decode :: "nat list \<Rightarrow> utext" where
  "utf8_decode (a # rest) =
     (if a < 128 then a # utf8_decode rest
      else if a < 224 then
        (case rest of
           b # rest' \<Rightarrow> ((a mod 32) * 64 + b mod 64) # utf8_decode rest'
         | _ \<Rightarrow> [])
      else if a < 240 then
        (case rest of
           b # c # rest' \<Rightarrow> ((a mod 16) * 4096 + (b mod 64) * 64 + c mod 64) # utf8_decode rest'
         | _ \<Rightarrow> [])
      else
        (case rest of
           b # c # d # rest' \<Rightarrow>
             ((a mod 8) * 262144 + (b mod 64) * 4096 + (c mod 64) * 64 + d mod 64) # utf8_decode rest'
         | _ \<Rightarrow> []))"
| "utf8_decode [] = []"

definition text_of :: "string \<Rightarrow> utext" where
  "text_of s = utf8_decode (map of_char s)"

definition EMPTY_VALUE :: utext where "EMPTY_VALUE = lit ''--''"
definition PERCENT_PANEL_WIDTH :: nat where "PERCENT_PANEL_WIDTH = 3"
definition TEMP_SCALE :: utext where "TEMP_SCALE = lit ''C''"
definition SSID_MAX :: nat where "SSID_MAX = 16"
definition NETDEV_MAX :: nat where "NETDEV_MAX = 12"
definition BATTERY_ALTERNATE_SECONDS :: nat where "BATTERY_ALTERNATE_SECONDS = 5"
definition TOP_PROCESS_MIN_PID :: nat where "TOP_PROCESS_MIN_PID = 6"
definition TOP_PROCESS_COMM_MIN :: nat where "TOP_PROCESS_COMM_MIN = 15"
definition TOP_PROCESS_SIDE_COLS :: nat where "TOP_PROCESS_SIDE_COLS = 2 + 1 + 4 + 1 + 5"
definition TOP_PROCESS_MIN_WIDTH :: nat where
  "TOP_PROCESS_MIN_WIDTH = TOP_PROCESS_MIN_PID + TOP_PROCESS_COMM_MIN + TOP_PROCESS_SIDE_COLS"

definition table_text :: "toml_table \<Rightarrow> string \<Rightarrow> utext" where
  "table_text table key =
     (case Option.bind (bm_get table key) as_str of Some s \<Rightarrow> text_of s | None \<Rightarrow> [])"

definition ident_new :: "string \<Rightarrow> string option \<Rightarrow> ident" where
  "ident_new metric form = \<lparr>id_metric = lit metric, id_form = map_option lit form\<rparr>"

section \<open>Labels\<close>

definition label_cell ::
    "config \<Rightarrow> string \<Rightarrow> string option \<Rightarrow> bool \<Rightarrow> utext option \<Rightarrow> utext option \<Rightarrow> cell" where
  "label_cell cfg metric form tooltip txt glyph =
     (let glyph = (case glyph of Some g \<Rightarrow> g | None \<Rightarrow> table_text (cf_icons cfg) metric);
          css = lit ''label '' @ ident_css (ident_new metric form)
      in if \<not> tooltip then cell_classified glyph css
         else
           let word = (case txt of Some t \<Rightarrow> t | None \<Rightarrow> table_text (cf_labels cfg) metric);
               delimiter = table_text (cf_labels cfg) ''delimiter''
           in cell_classified (glyph @ [SPACE] @ word @ delimiter) css)"

definition regular_label_cell ::
    "config \<Rightarrow> string \<Rightarrow> string option \<Rightarrow> bool \<Rightarrow> utext option \<Rightarrow> utext option \<Rightarrow> cell option" where
  "regular_label_cell cfg metric form tooltip txt glyph =
     (if \<not> tooltip \<and> \<not> sur_glyphs (cf_panel cfg) then None
      else Some (label_cell cfg metric form tooltip txt glyph))"

section \<open>Bands\<close>

definition css_band :: "bool \<Rightarrow> bool \<Rightarrow> utext" where
  "css_band at_high at_middle =
     (if at_high then lit ''crit'' else if at_middle then lit ''warn'' else lit ''good'')"

text \<open>Integers below \<open>2 ^ 53\<close> are compared as \<open>f64\<close> the way they are as integers.\<close>

definition css_class_from_thresholds :: "int \<Rightarrow> int \<times> int \<Rightarrow> utext" where
  "css_class_from_thresholds v thresholds =
     (case thresholds of (middle, high) \<Rightarrow> css_band (high \<le> v) (middle \<le> v))"

text \<open>\<open>&thresholds[0]\<close> and \<open>&thresholds[1]\<close>\<close>

definition index_pair :: "'a list \<Rightarrow> ('a \<times> 'a) option" where
  "index_pair xs = (case xs of a # b # _ \<Rightarrow> Some (a, b) | _ \<Rightarrow> None)"

definition threshold_pair :: "int list \<Rightarrow> int \<times> int" where
  "threshold_pair values =
     (case values of middle # high # _ \<Rightarrow> (middle, high) | [single] \<Rightarrow> (single, single) | [] \<Rightarrow> (0, 0))"

record float_ops =
  fo_ge :: "f64 \<Rightarrow> f64 \<Rightarrow> bool"
  fo_div :: "f64 \<Rightarrow> f64 \<Rightarrow> f64"
  fo_of_int :: "int \<Rightarrow> f64"
  fo_to_i32 :: "f64 \<Rightarrow> int"
  fo_fixed :: "nat \<Rightarrow> f64 \<Rightarrow> utext"

definition css_class_of_f64 :: "float_ops \<Rightarrow> f64 \<Rightarrow> f64 \<times> f64 \<Rightarrow> utext" where
  "css_class_of_f64 fo v thresholds =
     (case thresholds of (middle, high) \<Rightarrow> css_band (fo_ge fo v high) (fo_ge fo v middle))"

definition fmt_freq :: "float_ops \<Rightarrow> f64 option \<Rightarrow> bool \<Rightarrow> utext" where
  "fmt_freq fo mhz tooltip =
     (case mhz of
        None \<Rightarrow> EMPTY_VALUE
      | Some mhz \<Rightarrow>
          let thousand = fo_of_int fo 1000
          in if fo_ge fo mhz thousand
             then (if tooltip then fo_fixed fo 1 (fo_div fo mhz thousand) @ lit '' GHz''
                   else fo_fixed fo 1 (fo_div fo mhz thousand))
             else if tooltip then int_text (fo_to_i32 fo mhz) @ lit '' MHz''
             else int_text (fo_to_i32 fo mhz))"

section \<open>Items the formatter renders\<close>

record resolved_item =
  ri_token :: item_token
  ri_form_token :: "string option"

definition form_token_for :: "form option \<Rightarrow> bool \<Rightarrow> string option" where
  "form_token_for form vertical =
     (case form of
        None \<Rightarrow> None
      | Some f \<Rightarrow>
          if f = Form_Bar then Some (if vertical then ''bar'' else ''column'')
          else Some (form_as_str f))"

definition resolve_item :: "string \<Rightarrow> bool \<Rightarrow> resolved_item option" where
  "resolve_item token vertical =
     (case item_from_str token of
        Inl _ \<Rightarrow> None
      | Inr t \<Rightarrow> Some \<lparr>ri_token = t, ri_form_token = form_token_for (item_form t) vertical\<rparr>)"

datatype trace_metric = Trace_Cpu | Trace_Memory

definition trace_metric_of :: "metric \<Rightarrow> trace_metric option" where
  "trace_metric_of m =
     (case m of M_CpuUsage \<Rightarrow> Some Trace_Cpu | M_MemUsage \<Rightarrow> Some Trace_Memory | _ \<Rightarrow> None)"

definition amd_has :: "hardware_inventory \<Rightarrow> (amd_gpu_source \<Rightarrow> bool) \<Rightarrow> bool" where
  "amd_has hw P = (case hw_amd_gpu hw of Some source \<Rightarrow> P source | None \<Rightarrow> False)"

definition item_gate ::
    "config \<Rightarrow> hardware_inventory \<Rightarrow> item_token \<Rightarrow> display_snapshot \<Rightarrow> bool" where
  "item_gate cfg hw token readings =
     (case it_metric token of
        M_CpuTemp \<Rightarrow> hw_cpu_temp_path hw \<noteq> None
      | M_CpuTurbo \<Rightarrow> hw_cpu_turbo_supported hw
      | M_NetSpeed \<Rightarrow> hw_net_device hw \<noteq> None
      | M_NetDevice \<Rightarrow> hw_net_device hw \<noteq> None
      | M_NetIp \<Rightarrow> hw_net_device hw \<noteq> None
      | M_NetDeviceIp \<Rightarrow> hw_net_device hw \<noteq> None
      | M_DiskIo \<Rightarrow> hw_disk_io_device hw \<noteq> None
      | M_WifiSsid \<Rightarrow> hw_has_wifi hw
      | M_WifiSignal \<Rightarrow> hw_has_wifi hw
      | M_WifiSsidSignal \<Rightarrow> hw_has_wifi hw
      | M_FanSpeed \<Rightarrow> hw_fan_paths hw \<noteq> []
      | M_GpuNvidiaTemp \<Rightarrow> hw_has_nvidia hw
      | M_GpuNvidiaUsage \<Rightarrow> hw_has_nvidia hw
      | M_GpuNvidiaMemUsage \<Rightarrow> hw_has_nvidia hw
      | M_GpuNvidiaDecoderUsage \<Rightarrow> hw_has_nvidia hw
      | M_GpuNvidiaFanSpeed \<Rightarrow> hw_has_nvidia hw
      | M_GpuAmdUsage \<Rightarrow> amd_has hw (\<lambda>s. usage_path s \<noteq> None)
      | M_GpuAmdCodecUsage \<Rightarrow> amd_has hw (\<lambda>s. codec_usage_path s \<noteq> None)
      | M_GpuAmdMemUsage \<Rightarrow> amd_has hw (\<lambda>s. memory_paths s \<noteq> None)
      | M_GpuAmdFreq \<Rightarrow> amd_has hw (\<lambda>s. freq_path s \<noteq> None)
      | M_GpuAmdTemp \<Rightarrow> amd_has hw (\<lambda>s. temp_path s \<noteq> None)
      | M_GpuAmdPower \<Rightarrow> amd_has hw (\<lambda>s. power_path s \<noteq> None)
      | M_GpuAmdFanSpeed \<Rightarrow> amd_has hw (\<lambda>s. fan_speed_path s \<noteq> None)
      | M_NpuAmdUsage \<Rightarrow> hw_amd_npu hw \<noteq> None
      | M_NpuAmdPower \<Rightarrow> hw_amd_npu hw \<noteq> None
      | M_NpuAmdFreq \<Rightarrow> hw_amd_npu hw \<noteq> None
      | M_GpuIntelFreq \<Rightarrow> hw_intel_gpu_freq_path hw \<noteq> None
      | M_GpuIntelUsage \<Rightarrow> hw_intel_gpu_pci hw \<noteq> None
      | M_GpuIntelDecoderUsage \<Rightarrow> hw_intel_gpu_pci hw \<noteq> None
      | M_BatterySystem \<Rightarrow> hw_battery_sys_ids hw \<noteq> []
      | M_BatteryMouse \<Rightarrow> batt_mouse_unifying (cf_battery cfg) \<noteq> None \<or>
          batt_mouse_bolt (cf_battery cfg) \<noteq> None \<or> hw_battery_mouse_id hw \<noteq> None
      | M_BatteryKeyboard \<Rightarrow> batt_kbd_unifying (cf_battery cfg) \<noteq> None \<or>
          batt_kbd_bolt (cf_battery cfg) \<noteq> None \<or> hw_battery_kbd_id hw \<noteq> None
      | M_ScreenBrightness \<Rightarrow> hw_has_backlight hw
      | M_SwapUsage \<Rightarrow> ds_swap_usage readings \<noteq> None
      | M_SystemUpdates \<Rightarrow> updates_file (cf_system_updates cfg) \<noteq> []
      | M_ServerCheck \<Rightarrow> server_file (cf_server_check cfg) \<noteq> []
      | _ \<Rightarrow> True)"

end
