(* ===== verification/Traces.thy ===== *)
theory Traces
  imports Cells
begin

text \<open>
  Bars, columns, sparklines and braille traces: \<open>src/render/traces.rs\<close>. The \<open>i64\<close> products of two
  \<open>i32\<close> values cannot overflow; the \<open>i32\<close> products of the braille trace wrap around, as in a build
  without overflow checks.
\<close>

unbundle bit_operations_syntax

definition BLOCK_RAMP :: utext where "BLOCK_RAMP = [9601, 9602, 9603, 9604, 9605, 9606, 9607, 9608]"
definition BAR_FILL_CHAR :: nat where "BAR_FILL_CHAR = 9608"
definition BAR_EMPTY_CHAR :: nat where "BAR_EMPTY_CHAR = 9617"
definition BRAILLE_LEFT_BITS :: "nat list" where "BRAILLE_LEFT_BITS = [64, 4, 2, 1]"
definition BRAILLE_RIGHT_BITS :: "nat list" where "BRAILLE_RIGHT_BITS = [128, 32, 16, 8]"
definition BRAILLE_GRADES :: int where "BRAILLE_GRADES = 8"
definition BRAILLE_LENGTH_MULTIPLIER :: nat where "BRAILLE_LENGTH_MULTIPLIER = 2"
definition BRAILLE_BLANK :: nat where "BRAILLE_BLANK = 10240"

primrec usage_metric :: "trace_metric \<Rightarrow> string" where
  "usage_metric Trace_Cpu = ''cpu_usage''"
| "usage_metric Trace_Memory = ''mem_usage''"

primrec gradient_prefix :: "trace_metric \<Rightarrow> string" where
  "gradient_prefix Trace_Cpu = ''cpu''"
| "gradient_prefix Trace_Memory = ''mem''"

primrec spark_thresholds :: "trace_metric \<Rightarrow> config \<Rightarrow> int \<times> int" where
  "spark_thresholds Trace_Cpu cfg = threshold_pair (thr_cpu_spark (cf_thresholds cfg))"
| "spark_thresholds Trace_Memory cfg = threshold_pair (thr_mem_spark (cf_thresholds cfg))"

definition spark_length :: "trace_metric \<Rightarrow> config \<Rightarrow> bool \<Rightarrow> nat" where
  "spark_length metric cfg tooltip =
     (let spark = (if tooltip then cf_spark_tooltip cfg else cf_spark_panel cfg);
          raw = (case metric of Trace_Cpu \<Rightarrow> spark_cpu_spark_length spark
                 | Trace_Memory \<Rightarrow> spark_mem_spark_length spark)
      in nat (max raw 0))"

definition braille_length :: "trace_metric \<Rightarrow> config \<Rightarrow> bool \<Rightarrow> nat" where
  "braille_length metric cfg tooltip =
     (let braille = (if tooltip then cf_braille_tooltip cfg else cf_braille_panel cfg);
          raw = (case metric of Trace_Cpu \<Rightarrow> braille_cpu_braille_length braille
                 | Trace_Memory \<Rightarrow> braille_mem_braille_length braille)
      in nat (max raw 0))"

definition font_size_style :: "int \<Rightarrow> utext" where
  "font_size_style height =
     (if 0 < height then lit '' style=\"font-size:'' @ int_text height @ lit ''px\"'' else [])"

definition block_ramp_at :: "nat \<Rightarrow> nat" where
  "block_ramp_at index = BLOCK_RAMP ! min index (length BLOCK_RAMP - 1)"

definition round_half_even :: "int \<Rightarrow> int \<Rightarrow> int" where
  "round_half_even numerator denominator =
     (if denominator \<le> 0 then 0
      else
        let quotient = tdiv numerator denominator;
            remainder = numerator - quotient * denominator
        in if remainder * 2 < denominator then quotient
           else if denominator < remainder * 2 then quotient + 1
           else quotient + (if even quotient then 0 else 1))"

definition trace_label_cell :: "config \<Rightarrow> trace_metric \<Rightarrow> string \<Rightarrow> bool \<Rightarrow> utext \<Rightarrow> cell" where
  "trace_label_cell cfg metric form tooltip txt =
     (let css = lit ''label '' @ ident_css (ident_new (usage_metric metric) (Some form));
          glyph = table_text (cf_icons cfg) (usage_metric metric)
      in if \<not> tooltip then cell_classified glyph css
         else
           let word = (if txt = [] then table_text (cf_labels cfg) (usage_metric metric) else txt);
               delimiter = table_text (cf_labels cfg) ''delimiter''
           in cell_classified (glyph @ [SPACE] @ word @ delimiter) css)"

definition bar_layout_width :: "config \<Rightarrow> bool \<Rightarrow> nat option" where
  "bar_layout_width cfg tooltip =
     (let bar = (if tooltip then cf_bar_tooltip cfg else cf_bar_panel cfg);
          font = disp_panel_font_size (cf_display cfg)
      in if bar_height bar \<le> 0 \<or> bar_width bar \<le> 0 \<or> font \<le> 0 then None
         else Some (nat (max (round_half_even (bar_width bar * bar_height bar) font) 1)))"

definition standalone :: "utext \<Rightarrow> ident \<Rightarrow> nat option \<Rightarrow> row list" where
  "standalone html i layout_width =
     (if html = [] then [] else [[auxiliary_cell html None (Some i) 0 0 layout_width]])"

definition braille_level :: "int \<Rightarrow> nat" where
  "braille_level v =
     (if v \<le> 0 then 1 else nat (min (tdiv (wrap32 (v * 4 + 99)) 100) 4 mod 2 ^ 64))"

definition braille_char :: "int option \<Rightarrow> int option \<Rightarrow> nat" where
  "braille_char left right =
     (let add = (\<lambda>bits v code. case v of
                   None \<Rightarrow> code
                 | Some v \<Rightarrow> fold (\<lambda>bit code. code OR bit) (take (braille_level v) bits) code);
          code = add BRAILLE_RIGHT_BITS right (add BRAILLE_LEFT_BITS left BRAILLE_BLANK)
      in if is_scalar code then code else BRAILLE_BLANK)"

definition history_tail :: "int list \<Rightarrow> nat \<Rightarrow> int list" where
  "history_tail history k = (if k < length history then drop (length history - k) history else history)"

definition bar_html :: "config \<Rightarrow> int option \<Rightarrow> int \<times> int \<Rightarrow> bool \<Rightarrow> utext" where
  "bar_html cfg val thresholds tooltip =
     (case val of
        None \<Rightarrow> []
      | Some v \<Rightarrow>
          let bar = (if tooltip then cf_bar_tooltip cfg else cf_bar_panel cfg)
          in if bar_width bar \<le> 0 then []
             else
               let width = nat (bar_width bar);
                   filled = nat (int_clamp 0 (bar_width bar) (tdiv (v * bar_width bar) 100));
                   unfilled = width - filled;
                   css = css_class_from_thresholds v thresholds;
                   style = font_size_style (bar_height bar)
               in lit ''<span class=\"bar-'' @ css @ lit ''\"'' @ style @ lit ''>''
                  @ replicate filled BAR_FILL_CHAR
                  @ lit ''</span><span class=\"bar-empty\"'' @ style @ lit ''>''
                  @ replicate unfilled BAR_EMPTY_CHAR @ lit ''</span>'')"

definition column_html :: "config \<Rightarrow> int option \<Rightarrow> int \<times> int \<Rightarrow> utext" where
  "column_html cfg val thresholds =
     (case val of
        None \<Rightarrow> []
      | Some v \<Rightarrow>
          let css = css_class_from_thresholds v thresholds;
              width = nat (max (column_width (cf_column_panel cfg)) 1);
              index = nat (int_clamp 0 7 (tdiv (v * 8) 100));
              style = font_size_style (column_height (cf_column_panel cfg))
          in lit ''<span class=\"bar-'' @ css @ lit ''\"'' @ style @ lit ''>''
             @ replicate width (block_ramp_at index) @ lit ''</span>'')"

definition spark_mark :: "int \<times> int \<Rightarrow> int \<Rightarrow> utext" where
  "spark_mark thresholds v =
     (let index = nat (int_clamp 0 7 (tdiv (v * 8) 100));
          css = css_class_from_thresholds v thresholds
      in lit ''<span class=\"bar-'' @ css @ lit ''\">'' @ [block_ramp_at index] @ lit ''</span>'')"

definition spark_html :: "config \<Rightarrow> int list option \<Rightarrow> trace_metric \<Rightarrow> bool \<Rightarrow> utext" where
  "spark_html cfg history metric tooltip =
     (case history of
        None \<Rightarrow> []
      | Some history \<Rightarrow>
          let k = spark_length metric cfg tooltip;
              recent = history_tail history k;
              missing = k - length recent
          in (if 0 < missing
              then lit ''<span class=\"spark-empty\">'' @ replicate missing (BLOCK_RAMP ! 0) @ lit ''</span>''
              else [])
             @ concat (map (spark_mark (spark_thresholds metric cfg)) recent))"

fun chunks_of_two :: "'a list \<Rightarrow> ('a \<times> 'a) list" where
  "chunks_of_two (a # b # rest) = (a, b) # chunks_of_two rest"
| "chunks_of_two _ = []"

definition braille_grade :: "int option \<Rightarrow> int option \<Rightarrow> int" where
  "braille_grade left right =
     (let grade = (\<lambda>v. int_clamp 0 (BRAILLE_GRADES - 1) (tdiv (wrap32 (v * BRAILLE_GRADES)) 100))
      in case map grade (List.map_filter id [left, right]) of [] \<Rightarrow> 0 | g # gs \<Rightarrow> fold max gs g)"

definition braille_mark :: "trace_metric \<Rightarrow> int option \<times> int option \<Rightarrow> utext" where
  "braille_mark metric p =
     (case p of (left, right) \<Rightarrow>
        if left = None \<and> right = None then [BRAILLE_BLANK]
        else lit ''<span class=\"grad-'' @ lit (gradient_prefix metric) @ lit ''-''
               @ int_text (braille_grade left right) @ lit ''\">'' @ [braille_char left right]
               @ lit ''</span>'')"

definition braille_html ::
    "config \<Rightarrow> int list option \<Rightarrow> trace_metric \<Rightarrow> bool \<Rightarrow> nat option \<Rightarrow> utext" where
  "braille_html cfg history metric tooltip chars =
     (case history of
        None \<Rightarrow> []
      | Some history \<Rightarrow>
          let base_len = (case chars of Some n \<Rightarrow> n | None \<Rightarrow> braille_length metric cfg tooltip);
              k = min (base_len * BRAILLE_LENGTH_MULTIPLIER) u64_max;
              recent = history_tail history k;
              padded = replicate (k - length recent) None @ map Some recent;
              padded = (if odd (length padded) then None # padded else padded)
          in concat (map (braille_mark metric) (chunks_of_two padded)))"

section \<open>Rows\<close>

definition bar_row :: "config \<Rightarrow> int option \<Rightarrow> int \<times> int \<Rightarrow> bool \<Rightarrow> ident \<Rightarrow> row list" where
  "bar_row cfg v thresholds tooltip i =
     standalone (bar_html cfg v thresholds tooltip) i (bar_layout_width cfg tooltip)"

definition column_row :: "config \<Rightarrow> int option \<Rightarrow> int \<times> int \<Rightarrow> ident \<Rightarrow> row list" where
  "column_row cfg v thresholds i = standalone (column_html cfg v thresholds) i None"

definition spark_row :: "config \<Rightarrow> int list option \<Rightarrow> trace_metric \<Rightarrow> bool \<Rightarrow> ident \<Rightarrow> row list" where
  "spark_row cfg history metric tooltip i = standalone (spark_html cfg history metric tooltip) i None"

definition braille_row :: "config \<Rightarrow> int list option \<Rightarrow> trace_metric \<Rightarrow> bool \<Rightarrow> ident \<Rightarrow> row list" where
  "braille_row cfg history metric tooltip i =
     standalone (braille_html cfg history metric tooltip None) i None"

definition bar_history_row ::
    "config \<Rightarrow> trace_metric \<Rightarrow> utext \<Rightarrow> utext \<Rightarrow> string \<Rightarrow> bool \<Rightarrow> row list" where
  "bar_history_row cfg metric bar history history_form tooltip =
     (if bar = [] \<or> history = [] then []
      else
        let bar_ident = ident_new (usage_metric metric) (Some ''bar'');
            history_value_ident = ident_new (usage_metric metric) (Some history_form);
            live_label = trace_label_cell cfg metric ''bar'' tooltip
              (table_text (cf_labels cfg) (usage_metric metric));
            history_label = trace_label_cell cfg metric ''spark'' tooltip
              (table_text (cf_labels cfg) ''history'')
        in [render_two_pair_row live_label
              (auxiliary_cell bar None (Some bar_ident) 1 2 None) history_label
              (auxiliary_cell history None (Some history_value_ident) 2 0 None)])"

definition bar_spark_row ::
    "config \<Rightarrow> trace_metric \<Rightarrow> int option \<Rightarrow> int \<times> int \<Rightarrow> int list option \<Rightarrow> bool \<Rightarrow> row list" where
  "bar_spark_row cfg metric v thresholds history tooltip =
     bar_history_row cfg metric (bar_html cfg v thresholds tooltip)
       (spark_html cfg history metric tooltip) ''spark'' tooltip"

definition bar_braille_row ::
    "config \<Rightarrow> trace_metric \<Rightarrow> int option \<Rightarrow> int \<times> int \<Rightarrow> int list option \<Rightarrow> bool \<Rightarrow> row list" where
  "bar_braille_row cfg metric v thresholds history tooltip =
     bar_history_row cfg metric (bar_html cfg v thresholds tooltip)
       (braille_html cfg history metric tooltip None) ''braille'' tooltip"

end
