(* ===== verification/FormatRows.thy ===== *)
theory FormatRows
  imports Traces "HOL-Library.Monad_Syntax"
begin

text \<open>
  The rows of each metric: \<open>src/render/formatter/metrics.rs\<close>, \<open>storage.rs\<close>, \<open>connectivity.rs\<close>,
  \<open>amd.rs\<close>, \<open>npu.rs\<close>, \<open>battery.rs\<close>, \<open>system.rs\<close>. A function whose body can index a list of thresholds
  out of bounds, or reach an \<open>unreachable!\<close>, returns an option, \<open>None\<close> being the panic.
\<close>

text \<open>\<open>PanelFormatter\<close>; \<open>pf_now\<close> is what \<open>unix_seconds\<close> reads, \<open>pf_float\<close> the arithmetic of \<open>f64\<close>.\<close>

record formatter =
  pf_cfg :: config
  pf_hw :: hardware_inventory
  pf_vertical :: bool
  pf_now :: nat
  pf_float :: float_ops

definition formatter_new :: "config \<Rightarrow> hardware_inventory \<Rightarrow> nat \<Rightarrow> float_ops \<Rightarrow> formatter" where
  "formatter_new cfg hw now fo =
     \<lparr>pf_cfg = cfg, pf_hw = hw, pf_vertical = cf_vertical cfg, pf_now = now, pf_float = fo\<rparr>"

abbreviation pf_thr :: "formatter \<Rightarrow> threshold_config" where
  "pf_thr f \<equiv> cf_thresholds (pf_cfg f)"

definition collect_row :: "cell option list \<Rightarrow> row list" where
  "collect_row cells =
     (let r = List.map_filter id cells in if r = [] then [] else [r])"

text \<open>A loop that stops at the first panic.\<close>

primrec try_map :: "('a \<Rightarrow> 'b option) \<Rightarrow> 'a list \<Rightarrow> 'b list option" where
  "try_map g [] = Some []"
| "try_map g (x # xs) = do { y \<leftarrow> g x; ys \<leftarrow> try_map g xs; Some (y # ys) }"

definition try_option :: "('a \<Rightarrow> 'b option) \<Rightarrow> 'a option \<Rightarrow> 'b option option" where
  "try_option g v = (case v of None \<Rightarrow> Some None | Some x \<Rightarrow> map_option Some (g x))"

section \<open>Shared values\<close>

definition percent_value_cell ::
    "string \<Rightarrow> string option \<Rightarrow> bool \<Rightarrow> int option \<Rightarrow> int \<times> int \<Rightarrow> bool \<Rightarrow> cell" where
  "percent_value_cell metric form tooltip val thresholds reserve =
     (case val of
        Some v \<Rightarrow> value_cell (format_percent v tooltip) (Some (css_class_from_thresholds v thresholds))
                    (Some (ident_new metric form)) (if reserve then PERCENT_PANEL_WIDTH else 0)
      | None \<Rightarrow> value_cell EMPTY_VALUE None (Some (ident_new metric form)) 0)"

definition plain_percent_value_cell ::
    "string \<Rightarrow> string option \<Rightarrow> bool \<Rightarrow> int option \<Rightarrow> cell" where
  "plain_percent_value_cell metric form tooltip val =
     (case val of
        Some v \<Rightarrow> value_cell (format_percent v tooltip) None (Some (ident_new metric form)) PERCENT_PANEL_WIDTH
      | None \<Rightarrow> value_cell EMPTY_VALUE None (Some (ident_new metric form)) 0)"

definition active_percent_value_cell ::
    "string \<Rightarrow> string option \<Rightarrow> bool \<Rightarrow> int option \<Rightarrow> int \<Rightarrow> cell" where
  "active_percent_value_cell metric form tooltip val threshold =
     (case val of
        Some v \<Rightarrow> value_cell (format_percent v tooltip) (css_class_active v threshold)
                    (Some (ident_new metric form)) PERCENT_PANEL_WIDTH
      | None \<Rightarrow> value_cell EMPTY_VALUE None (Some (ident_new metric form)) 0)"

definition temp_text :: "int \<Rightarrow> bool \<Rightarrow> utext" where
  "temp_text v tooltip =
     (if tooltip then int_text v @ [176] @ TEMP_SCALE else int_text v @ TEMP_SCALE)"

definition temp_value_cell ::
    "string \<Rightarrow> string option \<Rightarrow> bool \<Rightarrow> int option \<Rightarrow> int \<times> int \<Rightarrow> cell" where
  "temp_value_cell metric form tooltip val thresholds =
     (case val of
        Some v \<Rightarrow> value_cell (temp_text v tooltip) (Some (css_class_from_thresholds v thresholds))
                    (Some (ident_new metric form)) 0
      | None \<Rightarrow> value_cell EMPTY_VALUE None (Some (ident_new metric form)) 0)"

definition padded_aux :: "utext \<Rightarrow> utext option \<Rightarrow> ident \<Rightarrow> cell" where
  "padded_aux html css i =
     (let c = auxiliary_cell html css (Some i) 0 0 None
      in if c_text c \<noteq> [] then c\<lparr>c_pad_left := 1\<rparr> else c)"

definition spark_aux_cell ::
    "formatter \<Rightarrow> string \<Rightarrow> string option \<Rightarrow> int list option \<Rightarrow> trace_metric \<Rightarrow> bool \<Rightarrow> cell" where
  "spark_aux_cell f metric form history tm tooltip =
     padded_aux (spark_html (pf_cfg f) history tm tooltip) None (ident_new metric form)"

definition braille_aux_cell ::
    "formatter \<Rightarrow> string \<Rightarrow> string option \<Rightarrow> int list option \<Rightarrow> trace_metric \<Rightarrow> bool \<Rightarrow> nat option \<Rightarrow> cell" where
  "braille_aux_cell f metric form history tm tooltip chars =
     padded_aux (braille_html (pf_cfg f) history tm tooltip chars) None (ident_new metric form)"

section \<open>Utilization, temperature and frequency\<close>

definition label_for :: "formatter \<Rightarrow> bool \<Rightarrow> string \<Rightarrow> string option \<Rightarrow> bool \<Rightarrow> cell option" where
  "label_for f regular metric form tooltip =
     (if regular then regular_label_cell (pf_cfg f) metric form tooltip None None
      else Some (label_cell (pf_cfg f) metric form tooltip None None))"

definition render_percent_row ::
    "formatter \<Rightarrow> string \<Rightarrow> string option \<Rightarrow> bool \<Rightarrow> int option \<Rightarrow> int \<times> int \<Rightarrow> bool \<Rightarrow> row list" where
  "render_percent_row f metric form tooltip val thresholds regular =
     collect_row [label_for f regular metric form tooltip,
       Some (percent_value_cell metric form tooltip val thresholds True)]"

definition render_plain_percent_row ::
    "formatter \<Rightarrow> string \<Rightarrow> string option \<Rightarrow> bool \<Rightarrow> int option \<Rightarrow> row list" where
  "render_plain_percent_row f metric form tooltip val =
     collect_row [Some (label_cell (pf_cfg f) metric form tooltip None None),
       Some (plain_percent_value_cell metric form tooltip val)]"

definition render_active_percent_row ::
    "formatter \<Rightarrow> string \<Rightarrow> string option \<Rightarrow> bool \<Rightarrow> int option \<Rightarrow> int \<Rightarrow> bool \<Rightarrow> row list" where
  "render_active_percent_row f metric form tooltip val threshold regular =
     collect_row [label_for f regular metric form tooltip,
       Some (active_percent_value_cell metric form tooltip val threshold)]"

definition render_temp_row ::
    "formatter \<Rightarrow> string \<Rightarrow> string option \<Rightarrow> bool \<Rightarrow> int option \<Rightarrow> int \<times> int \<Rightarrow> row list" where
  "render_temp_row f metric form tooltip val thresholds =
     collect_row [regular_label_cell (pf_cfg f) metric form tooltip None None,
       Some (temp_value_cell metric form tooltip val thresholds)]"

definition render_freq_row ::
    "formatter \<Rightarrow> string \<Rightarrow> string option \<Rightarrow> bool \<Rightarrow> int option \<Rightarrow> row list" where
  "render_freq_row f metric form tooltip val =
     collect_row [regular_label_cell (pf_cfg f) metric form tooltip None None,
       Some (value_cell (fmt_freq (pf_float f) (map_option (fo_of_int (pf_float f)) val) tooltip) None
         (Some (ident_new metric form)) 0)]"

definition render_cpu_freq_row :: "formatter \<Rightarrow> string option \<Rightarrow> display_snapshot \<Rightarrow> bool \<Rightarrow> row list" where
  "render_cpu_freq_row f form readings tooltip =
     (let i = ident_new (metric_as_str M_CpuFreq) form;
          (txt, css) = (case ds_cpu_turbo readings of
             Some True \<Rightarrow> (lit ''Turbo'', Some (lit ''active''))
           | Some False \<Rightarrow> (lit ''Slow'', Some (lit ''deactive''))
           | None \<Rightarrow> ([], None))
      in collect_row [regular_label_cell (pf_cfg f) (metric_as_str M_CpuFreq) form tooltip None None,
           Some (padded_aux txt css i),
           Some (value_cell (fmt_freq (pf_float f) (ds_cpu_freq_mhz readings) tooltip) None (Some i) 0)])"

definition render_cpu_turbo_row :: "formatter \<Rightarrow> string option \<Rightarrow> display_snapshot \<Rightarrow> bool \<Rightarrow> row list" where
  "render_cpu_turbo_row f form readings tooltip =
     (let (txt, css) = (case ds_cpu_turbo readings of
             Some True \<Rightarrow> (lit ''on'', Some (lit ''active''))
           | Some False \<Rightarrow> (lit ''off'', Some (lit ''crit''))
           | None \<Rightarrow> (EMPTY_VALUE, None))
      in collect_row [regular_label_cell (pf_cfg f) (metric_as_str M_CpuTurbo) form tooltip None None,
           Some (value_cell txt css (Some (ident_new (metric_as_str M_CpuTurbo) form)) 0)])"

definition render_gpu_fan_row :: "formatter \<Rightarrow> string option \<Rightarrow> display_snapshot \<Rightarrow> bool \<Rightarrow> row list" where
  "render_gpu_fan_row f form readings tooltip =
     (let txt = (case ds_gpu_fan readings of
             None \<Rightarrow> EMPTY_VALUE
           | Some v \<Rightarrow> if v = 0 then lit ''off'' else format_percent v tooltip)
      in collect_row [regular_label_cell (pf_cfg f) (metric_as_str M_GpuNvidiaFanSpeed) form tooltip None None,
           Some (value_cell txt None (Some (ident_new (metric_as_str M_GpuNvidiaFanSpeed) form))
             PERCENT_PANEL_WIDTH)])"

definition mem_space_cell ::
    "formatter \<Rightarrow> string \<Rightarrow> string option \<Rightarrow> display_snapshot \<Rightarrow> bool \<Rightarrow> cell option option" where
  "mem_space_cell f metric form readings tooltip =
     (if \<not> tooltip then Some None
      else
        (case (ds_mem_used_gib readings, ds_mem_total_gib readings) of
           (Some used, Some whole_gib) \<Rightarrow>
             do { used_class \<leftarrow> try_option (\<lambda>usage.
                    map_option (css_class_from_thresholds usage) (index_pair (thr_mem_usage (pf_thr f))))
                    (ds_mem_usage readings);
                  Some (Some (auxiliary_cell (fmt_disk_space (Some used) (Some whole_gib) used_class 0 0)
                    None (Some (ident_new metric form)) 1 0 None)) }
         | _ \<Rightarrow> Some None))"

datatype historied_form =
  Hist_Value | Hist_Bar | Hist_Spark | Hist_Braille | Hist_SparkValue | Hist_BrailleValue
  | Hist_BarSpark | Hist_BarBraille

definition resolved_form :: "string option \<Rightarrow> historied_form option" where
  "resolved_form form =
     (if form = Some ''bar'' \<or> form = Some ''column'' then Some Hist_Bar
      else if form = Some ''spark'' then Some Hist_Spark
      else if form = Some ''braille'' then Some Hist_Braille
      else if form = Some ''spark_value'' then Some Hist_SparkValue
      else if form = Some ''braille_value'' then Some Hist_BrailleValue
      else if form = Some ''bar_spark'' then Some Hist_BarSpark
      else if form = Some ''bar_braille'' then Some Hist_BarBraille
      else if form = Some ''value'' \<or> form = None then Some Hist_Value
      else None)"

definition historied_rows ::
    "formatter \<Rightarrow> metric \<Rightarrow> trace_metric \<Rightarrow> string option \<Rightarrow> display_snapshot \<Rightarrow> bool \<Rightarrow> int option \<Rightarrow>
     int list \<Rightarrow> int \<times> int \<Rightarrow> historied_form \<Rightarrow> row list option" where
  "historied_rows f metric tm form readings tooltip val history thresholds hist =
     (let name = metric_as_str metric;
          cfg = pf_cfg f;
          label = regular_label_cell cfg name form tooltip None None;
          value_part = Some (percent_value_cell name form tooltip val thresholds True)
      in case hist of
        Hist_Value \<Rightarrow>
          do { space \<leftarrow> (if metric = M_MemUsage
                          then map_option (\<lambda>c. [c]) (mem_space_cell f name form readings tooltip)
                          else Some []);
               Some (collect_row ([label] @ space @ [value_part])) }
      | Hist_Bar \<Rightarrow>
          Some (if pf_vertical f then bar_row cfg val thresholds tooltip (ident_new name form)
                else column_row cfg val thresholds (ident_new name form))
      | Hist_Spark \<Rightarrow> Some (spark_row cfg (Some history) tm tooltip (ident_new name form))
      | Hist_Braille \<Rightarrow> Some (braille_row cfg (Some history) tm tooltip (ident_new name form))
      | Hist_SparkValue \<Rightarrow>
          Some (collect_row [label, Some (spark_aux_cell f name form (Some history) tm tooltip), value_part])
      | Hist_BrailleValue \<Rightarrow>
          Some (collect_row [label, Some (braille_aux_cell f name form (Some history) tm tooltip None),
            value_part])
      | Hist_BarSpark \<Rightarrow> Some (bar_spark_row cfg tm val thresholds (Some history) tooltip)
      | Hist_BarBraille \<Rightarrow> Some (bar_braille_row cfg tm val thresholds (Some history) tooltip))"

definition render_historied ::
    "formatter \<Rightarrow> metric \<Rightarrow> string option \<Rightarrow> display_snapshot \<Rightarrow> bool \<Rightarrow> row list option" where
  "render_historied f metric form readings tooltip =
     (case trace_metric_of metric of
        None \<Rightarrow> Some []
      | Some tm \<Rightarrow>
          do { (val, history, thresholds) \<leftarrow>
                 (case metric of
                    M_CpuUsage \<Rightarrow>
                      map_option (\<lambda>t. (ds_cpu_usage readings, ds_cpu_history readings, t))
                        (index_pair (thr_cpu_usage (pf_thr f)))
                  | M_MemUsage \<Rightarrow>
                      map_option (\<lambda>t. (ds_mem_usage readings, ds_mem_history readings, t))
                        (index_pair (thr_mem_usage (pf_thr f)))
                  | _ \<Rightarrow> None);
               hist \<leftarrow> resolved_form form;
               historied_rows f metric tm form readings tooltip val history thresholds hist })"

section \<open>Disks and fans\<close>

fun pair_up :: "cell \<times> cell \<Rightarrow> (cell \<times> cell) list \<Rightarrow> row list" where
  "pair_up blank [] = []"
| "pair_up blank [(label1, value1)] =
     [render_two_pair_row label1 (value1\<lparr>c_pad_right := c_pad_right value1 + 2\<rparr>) (fst blank) (snd blank)]"
| "pair_up blank ((label1, value1) # (label2, value2) # rest) =
     render_two_pair_row label1 (value1\<lparr>c_pad_right := c_pad_right value1 + 2\<rparr>) label2 value2
       # pair_up blank rest"

definition pair_rows :: "(cell \<times> cell) list \<Rightarrow> string \<Rightarrow> string option \<Rightarrow> row list" where
  "pair_rows pairs metric form =
     (case pairs of
        [] \<Rightarrow> []
      | [(label, val)] \<Rightarrow> [[label, val]]
      | _ \<Rightarrow>
          pair_up (cell_classified [] (lit ''label '' @ ident_css (ident_new metric form)),
                   value_cell [] None (Some (ident_new metric form)) 0) pairs)"

definition reading_of :: "(string, 'a option) bmap \<Rightarrow> string \<Rightarrow> 'a option" where
  "reading_of m k = Option.bind (bm_get m k) id"

definition render_hd_temp_pair :: "formatter \<Rightarrow> display_snapshot \<Rightarrow> bool \<Rightarrow> row list option" where
  "render_hd_temp_pair f readings tooltip =
     (let name = metric_as_str M_HdTemp;
          found = List.map_filter (\<lambda>label. map_option (\<lambda>v. (label, v)) (reading_of (ds_hd_temps readings) label))
                    (bm_keys (hw_hd_temp_paths (pf_hw f)))
      in do { pairs \<leftarrow> try_map (\<lambda>(label, v).
                do { thresholds \<leftarrow> index_pair (thr_hd_temp (pf_thr f));
                     Some (label_cell (pf_cfg f) name (Some ''pair'') tooltip (Some (hd_label (text_of label))) None,
                       value_cell (temp_text v tooltip) (Some (css_class_from_thresholds v thresholds))
                         (Some (ident_new name (Some ''pair''))) 0) }) found;
              Some (pair_rows pairs name (Some ''pair'')) })"

definition render_hd_temp ::
    "formatter \<Rightarrow> string option \<Rightarrow> display_snapshot \<Rightarrow> bool \<Rightarrow> row list option" where
  "render_hd_temp f form readings tooltip =
     (if form = Some ''pair'' then render_hd_temp_pair f readings tooltip
      else
        let name = metric_as_str M_HdTemp;
            found = List.map_filter (\<lambda>label. map_option (\<lambda>v. (label, v)) (reading_of (ds_hd_temps readings) label))
                      (bm_keys (hw_hd_temp_paths (pf_hw f)))
        in map_option concat (try_map (\<lambda>(label, v).
             do { thresholds \<leftarrow> index_pair (thr_hd_temp (pf_thr f));
                  Some (collect_row
                    [regular_label_cell (pf_cfg f) name form tooltip
                       (Some (table_text (cf_labels (pf_cfg f)) name @ [SPACE] @ hd_label (text_of label))) None,
                     Some (temp_value_cell name form tooltip (Some v) thresholds)]) }) found))"

definition gib_width :: "(disk_usage_reading \<Rightarrow> nat) \<Rightarrow> display_snapshot \<Rightarrow> nat" where
  "gib_width gib readings =
     fold max (map (\<lambda>u. length (nat_text (gib u) @ lit ''G''))
       (List.map_filter snd (ds_disk_usage readings))) 0"

definition render_disk_usage ::
    "formatter \<Rightarrow> string option \<Rightarrow> display_snapshot \<Rightarrow> bool \<Rightarrow> row list option" where
  "render_disk_usage f form readings tooltip =
     (let name = metric_as_str M_DiskUsage;
          used_width = gib_width du_used_gib readings;
          total_width = gib_width du_total_gib readings
      in map_option concat (try_map (\<lambda>(mount, usage).
           do { thresholds \<leftarrow> index_pair (thr_disk_usage (pf_thr f));
                let percent = map_option du_percent usage;
                    used_class = map_option (\<lambda>v. css_class_from_thresholds v thresholds) percent
                in Some (collect_row (
                  [regular_label_cell (pf_cfg f) name form tooltip (Some (disk_label (text_of mount))) None]
                  @ (if tooltip
                     then [Some (auxiliary_cell
                             (fmt_disk_space (map_option du_used_gib usage) (map_option du_total_gib usage)
                               used_class used_width total_width)
                             None (Some (ident_new name form)) 1 0 None)]
                     else [])
                  @ [Some (percent_value_cell name form tooltip percent thresholds True)])) })
         (ds_disk_usage readings)))"

definition render_disk_smart :: "formatter \<Rightarrow> display_snapshot \<Rightarrow> bool \<Rightarrow> row list" where
  "render_disk_smart f readings tooltip =
     (if \<not> disk_smart (cf_disks (pf_cfg f)) then []
      else
        let name = metric_as_str M_DiskSmart;
            labels = bs_collect (bm_keys (hw_hd_temp_paths (pf_hw f)) @ bm_keys (hw_disk_smart_drives (pf_hw f)));
            pairs = List.map_filter (\<lambda>label. map_option (\<lambda>v.
              (label_cell (pf_cfg f) name (Some ''pair'') tooltip (Some (hd_label (text_of label))) None,
               value_cell (if v then lit ''OK'' else lit ''KO'')
                 (Some (if v then lit ''active'' else lit ''deactive''))
                 (Some (ident_new name (Some ''pair''))) 0))
              (reading_of (ds_disk_smart readings) label)) labels
        in pair_rows pairs name (Some ''pair''))"

definition render_fan_speed_pair :: "formatter \<Rightarrow> display_snapshot \<Rightarrow> bool \<Rightarrow> row list" where
  "render_fan_speed_pair f readings tooltip =
     (let name = metric_as_str M_FanSpeed;
          pairs = List.map_filter (\<lambda>key. map_option (\<lambda>v.
            (label_cell (pf_cfg f) name (Some ''pair'') tooltip (Some (lit ''Fan'' @ text_of key)) None,
             value_cell (if v = 0 then lit ''off'' else int_text v) None
               (Some (ident_new name (Some ''pair''))) 0))
            (reading_of (ds_fan_speeds readings) key)) (bm_keys (hw_fan_paths (pf_hw f)))
      in pair_rows pairs name (Some ''pair''))"

definition render_fan_speed :: "formatter \<Rightarrow> string option \<Rightarrow> display_snapshot \<Rightarrow> bool \<Rightarrow> row list" where
  "render_fan_speed f form readings tooltip =
     (if form = Some ''pair'' then render_fan_speed_pair f readings tooltip
      else
        let name = metric_as_str M_FanSpeed
        in concat (map (\<lambda>key.
             let txt = (case reading_of (ds_fan_speeds readings) key of
                    None \<Rightarrow> EMPTY_VALUE
                  | Some rpm \<Rightarrow>
                      if rpm = 0 then lit ''off''
                      else if tooltip then int_text rpm @ lit '' rpm''
                      else int_text rpm)
             in collect_row [regular_label_cell (pf_cfg f) name form tooltip (Some (lit ''Fan'' @ text_of key)) None,
                  Some (value_cell txt None (Some (ident_new name form)) 0)])
             (bm_keys (hw_fan_paths (pf_hw f)))))"

end
