(* ===== verification/FormatMore.thy ===== *)
theory FormatMore
  imports FormatRows
begin

text \<open>
  The rows of the remaining metrics: \<open>src/render/formatter/connectivity.rs\<close>, \<open>amd.rs\<close>, \<open>npu.rs\<close>,
  \<open>battery.rs\<close>, \<open>system.rs\<close>.
\<close>

section \<open>Network\<close>

definition render_dual_rate_rows ::
    "formatter \<Rightarrow> string \<Rightarrow> nat option \<Rightarrow> string \<Rightarrow> nat option \<Rightarrow> bool \<Rightarrow> row list" where
  "render_dual_rate_rows f first_metric first_value second_metric second_value tooltip =
     (let first_label = label_cell (pf_cfg f) first_metric None tooltip None None;
          second_label = label_cell (pf_cfg f) second_metric None tooltip None None;
          first_rate = value_cell (net_fmt (case first_value of Some v \<Rightarrow> v | None \<Rightarrow> 0)) None
            (Some (ident_new first_metric None)) 0;
          second_rate = value_cell (net_fmt (case second_value of Some v \<Rightarrow> v | None \<Rightarrow> 0)) None
            (Some (ident_new second_metric None)) 0
      in if tooltip \<or> \<not> pf_vertical f
         then [render_two_pair_row first_label (first_rate\<lparr>c_pad_right := c_pad_right first_rate + 2\<rparr>)
                 second_label second_rate]
         else [[first_label, first_rate], [second_label, second_rate]])"

definition render_string_row ::
    "formatter \<Rightarrow> string \<Rightarrow> string option \<Rightarrow> utext option \<Rightarrow> nat option \<Rightarrow> bool \<Rightarrow> row list" where
  "render_string_row f metric form val cap tooltip =
     (let txt = (case val of
            None \<Rightarrow> EMPTY_VALUE
          | Some v \<Rightarrow> (case cap of None \<Rightarrow> v | Some cap \<Rightarrow> middle_ellipsis v cap))
      in [[label_cell (pf_cfg f) metric form tooltip None None,
           value_cell txt None (Some (ident_new metric form)) 0]])"

text \<open>The class of a wireless signal.\<close>

definition signal_class :: "formatter \<Rightarrow> int \<Rightarrow> utext option" where
  "signal_class f v =
     map_option (\<lambda>(low, high). css_class_battery v low high) (index_pair (thr_wifi_signal (pf_thr f)))"

definition render_wifi_signal ::
    "formatter \<Rightarrow> string option \<Rightarrow> display_snapshot \<Rightarrow> bool \<Rightarrow> row list option" where
  "render_wifi_signal f form readings tooltip =
     (let metric = metric_as_str M_WifiSignal
      in do { css \<leftarrow> try_option (signal_class f) (ds_wifi_signal_percent readings);
              Some [[label_cell (pf_cfg f) metric form tooltip None None,
                value_cell (case ds_wifi_signal_percent readings of
                    None \<Rightarrow> EMPTY_VALUE | Some v \<Rightarrow> format_percent v tooltip)
                  css (Some (ident_new metric form)) PERCENT_PANEL_WIDTH]] })"

definition render_net_device_ip :: "formatter \<Rightarrow> display_snapshot \<Rightarrow> bool \<Rightarrow> row list" where
  "render_net_device_ip f readings tooltip =
     (let metric = metric_as_str M_NetDeviceIp;
          device = (case ds_net_device readings of
              None \<Rightarrow> EMPTY_VALUE | Some d \<Rightarrow> middle_ellipsis (text_of d) NETDEV_MAX);
          ip = (case ds_ip_address readings of None \<Rightarrow> EMPTY_VALUE | Some ip \<Rightarrow> text_of ip)
      in [[label_cell (pf_cfg f) metric (Some ''value'') tooltip None None,
           value_cell ([160] @ device @ lit '' - '' @ ip) None (Some (ident_new metric (Some ''value''))) 0]])"

definition render_wifi_ssid_signal :: "formatter \<Rightarrow> display_snapshot \<Rightarrow> bool \<Rightarrow> row list option" where
  "render_wifi_ssid_signal f readings tooltip =
     (let metric = metric_as_str M_WifiSsidSignal;
          ssid = (case ds_wifi_ssid readings of
              None \<Rightarrow> EMPTY_VALUE | Some s \<Rightarrow> middle_ellipsis (text_of s) SSID_MAX)
      in do { signal \<leftarrow> (case ds_wifi_signal_percent readings of
                None \<Rightarrow> Some EMPTY_VALUE
              | Some v \<Rightarrow>
                  map_option (\<lambda>css. lit ''<span class=\"'' @ css @ lit ''\">'' @ format_percent v tooltip
                    @ lit ''</span>'') (signal_class f v));
              Some [[label_cell (pf_cfg f) metric (Some ''value'') tooltip None None,
                value_cell (ssid @ lit '' - '' @ signal) None (Some (ident_new metric (Some ''value''))) 0]] })"

section \<open>AMD GPU and NPU\<close>

definition MAX_SCALAR :: nat where "MAX_SCALAR = 99999"
definition MAX_TEMPERATURE :: int where "MAX_TEMPERATURE = 999"

definition memory_mib :: "64 word \<Rightarrow> utext" where
  "memory_mib bytes =
     (let mib = unat bytes div 2 ^ 20
      in if 999999 < mib then lit ''999999+'' else nat_text mib)"

definition amd_scalar ::
    "formatter \<Rightarrow> string \<Rightarrow> string option \<Rightarrow> nat option \<Rightarrow> string \<Rightarrow> bool \<Rightarrow> row list" where
  "amd_scalar f name form val unit tooltip =
     (case val of
        None \<Rightarrow> []
      | Some v \<Rightarrow>
          let txt = (if unit = ''RPM'' \<and> v = 0 then lit ''off''
                     else if MAX_SCALAR < v then nat_text MAX_SCALAR @ lit ''+ '' @ lit unit
                     else nat_text v @ [SPACE] @ lit unit)
          in collect_row [regular_label_cell (pf_cfg f) name form tooltip None None,
               Some (value_cell txt None (Some (ident_new name form)) 0)])"

definition within :: "int \<Rightarrow> int \<Rightarrow> int option \<Rightarrow> int option" where
  "within lo hi v = (case v of Some x \<Rightarrow> if lo \<le> x \<and> x \<le> hi then Some x else None | None \<Rightarrow> None)"

definition amd_memory_row ::
    "formatter \<Rightarrow> string \<Rightarrow> string option \<Rightarrow> display_snapshot \<Rightarrow> bool \<Rightarrow> row list option" where
  "amd_memory_row f name form readings tooltip =
     (case ds_gpu_amd_mem_usage readings of
        None \<Rightarrow> Some []
      | Some memory \<Rightarrow>
          (case mem_percent memory of
             None \<Rightarrow> Some []
           | Some percent \<Rightarrow>
               do { thresholds \<leftarrow> index_pair (thr_gpu_amd_mem_usage (pf_thr f));
                    Some (collect_row
                      [regular_label_cell (pf_cfg f) name form tooltip None None,
                       if tooltip
                       then Some (auxiliary_cell (memory_mib (used_bytes memory) @ lit '' / ''
                              @ memory_mib (total_bytes memory) @ lit '' MiB'')
                              None (Some (ident_new name form)) 1 0 None)
                       else None,
                       Some (percent_value_cell name form tooltip (Some percent) thresholds True)]) }))"

definition render_amd ::
    "formatter \<Rightarrow> metric \<Rightarrow> string option \<Rightarrow> display_snapshot \<Rightarrow> bool \<Rightarrow> row list option" where
  "render_amd f metric form readings tooltip =
     (let name = metric_as_str metric
      in case metric of
        M_GpuAmdUsage \<Rightarrow>
          (case within 0 100 (ds_gpu_amd_usage readings) of
             None \<Rightarrow> Some []
           | Some v \<Rightarrow> map_option (\<lambda>t. render_percent_row f name form tooltip (Some v) t True)
                        (index_pair (thr_gpu_amd_usage (pf_thr f))))
      | M_GpuAmdCodecUsage \<Rightarrow>
          (case within 0 100 (ds_gpu_amd_codec_usage readings) of
             None \<Rightarrow> Some []
           | Some v \<Rightarrow> Some (render_active_percent_row f name form tooltip (Some v)
                              (thr_gpu_amd_codec_usage (pf_thr f)) True))
      | M_GpuAmdTemp \<Rightarrow>
          (case within (- 273) MAX_TEMPERATURE (ds_gpu_amd_temp readings) of
             None \<Rightarrow> Some []
           | Some v \<Rightarrow> map_option (render_temp_row f name form tooltip (Some v))
                        (index_pair (thr_gpu_amd_temp (pf_thr f))))
      | M_GpuAmdMemUsage \<Rightarrow> amd_memory_row f name form readings tooltip
      | M_GpuAmdFreq \<Rightarrow> Some (amd_scalar f name form (ds_gpu_amd_freq readings) ''MHz'' tooltip)
      | M_GpuAmdPower \<Rightarrow> Some (amd_scalar f name form (ds_gpu_amd_power readings) ''W'' tooltip)
      | M_GpuAmdFanSpeed \<Rightarrow> Some (amd_scalar f name form (ds_gpu_amd_fan_speed readings) ''RPM'' tooltip)
      | _ \<Rightarrow> None)"

definition watts :: "nat \<Rightarrow> utext" where
  "watts milliwatts =
     (let tenths = (milliwatts + 50) div 100
      in nat_text (tenths div 10) @ lit ''.'' @ nat_text (tenths mod 10) @ lit '' W'')"

definition render_npu ::
    "formatter \<Rightarrow> metric \<Rightarrow> string option \<Rightarrow> display_snapshot \<Rightarrow> bool \<Rightarrow> row list option" where
  "render_npu f metric form readings tooltip =
     (let name = metric_as_str metric;
          text_row = (\<lambda>txt. case txt of
             None \<Rightarrow> Some []
           | Some t \<Rightarrow> Some (collect_row [regular_label_cell (pf_cfg f) name form tooltip None None,
                        Some (value_cell t None (Some (ident_new name form)) 0)]))
      in case metric of
        M_NpuAmdUsage \<Rightarrow>
          (case within 0 100 (ds_npu_amd_usage readings) of
             None \<Rightarrow> Some []
           | Some v \<Rightarrow> map_option (\<lambda>t. render_percent_row f name form tooltip (Some v) t True)
                        (index_pair (thr_npu_amd_usage (pf_thr f))))
      | M_NpuAmdPower \<Rightarrow> text_row (map_option watts (ds_npu_amd_power_mw readings))
      | M_NpuAmdFreq \<Rightarrow>
          text_row (map_option (\<lambda>mhz. if mhz = 0 then lit ''off'' else nat_text mhz @ lit '' MHz'')
            (ds_npu_amd_freq readings))
      | _ \<Rightarrow> None)"

section \<open>Batteries\<close>

definition battery_sys_is_full :: "battery_system_reading \<Rightarrow> int \<Rightarrow> bool" where
  "battery_sys_is_full battery percent \<longleftrightarrow>
     100 \<le> percent \<or> bs_state battery = Bat_FullyCharged \<or>
     (case bs_charge_limit_percent battery of Some limit \<Rightarrow> limit \<le> percent | None \<Rightarrow> False)"

definition battery_sys_icon :: "formatter \<Rightarrow> battery_system_reading \<Rightarrow> int \<Rightarrow> utext" where
  "battery_sys_icon f battery percent =
     (let icons = cf_icons (pf_cfg f)
      in if bs_state battery = Bat_Charging then table_text icons ''battery_sys_charging''
         else if battery_sys_is_full battery percent then table_text icons ''battery_sys_full''
         else
           let level = int_clamp 10 90 (tdiv (wrap32 (percent + 5)) 10 * 10)
           in table_text icons (''battery_sys_'' @ map char_of (int_text level)))"

definition battery_rate_text :: "battery_system_reading \<Rightarrow> utext" where
  "battery_rate_text battery =
     (if 0 < bs_rate_watts battery
      then (case bs_state battery of Bat_Charging \<Rightarrow> lit ''+'' | Bat_Discharging \<Rightarrow> lit ''-'' | _ \<Rightarrow> [])
           @ int_text (bs_rate_watts battery) @ lit ''W''
      else [])"

definition battery_sys_class :: "formatter \<Rightarrow> battery_system_reading \<Rightarrow> utext option option" where
  "battery_sys_class f battery =
     (let percent = bs_charge_percent battery
      in if battery_sys_is_full battery percent then Some None
         else map_option (\<lambda>(low, high). Some (css_class_battery percent low high))
           (index_pair (thr_battery_sys (pf_thr f))))"

definition battery_extra_parts :: "formatter \<Rightarrow> battery_system_reading \<Rightarrow> utext list" where
  "battery_extra_parts f battery =
     (let percent = bs_charge_percent battery; rate_text = battery_rate_text battery
      in (if rate_text \<noteq> [] then [rate_text] else [])
         @ (case bs_charge_limit_percent battery of
              Some limit \<Rightarrow>
                if limit \<le> percent
                then [table_text (cf_icons (pf_cfg f)) ''battery_sys_limit'' @ [SPACE] @ int_text limit @ lit ''%'']
                else []
            | None \<Rightarrow> []))"

definition render_one_battery_sys ::
    "formatter \<Rightarrow> battery_system_reading \<Rightarrow> bool \<Rightarrow> nat \<Rightarrow> row option" where
  "render_one_battery_sys f battery tooltip index =
     (let metric = metric_as_str M_BatterySystem;
          i = ident_new metric (Some ''value'');
          percent = bs_charge_percent battery;
          label = label_cell (pf_cfg f) metric (Some ''value'') tooltip
            (Some (lit ''Battery '' @ nat_text index)) (Some (battery_sys_icon f battery percent));
          rate_text = battery_rate_text battery
      in map_option (\<lambda>css.
           if tooltip
           then render_three_col_row label
                  (auxiliary_cell (join [SPACE] (battery_extra_parts f battery)) None (Some i) 0 0 None)
                  (value_cell (format_percent percent True) css (Some i) 0)
           else
             let v = (if rate_text \<noteq> [] \<and> even (pf_now f div BATTERY_ALTERNATE_SECONDS)
                      then rate_text else format_percent percent False)
             in [label, value_cell v css (Some i) 0])
         (battery_sys_class f battery))"

definition render_battery_sys :: "formatter \<Rightarrow> display_snapshot \<Rightarrow> bool \<Rightarrow> row list option" where
  "render_battery_sys f readings tooltip =
     try_map (\<lambda>(index, battery). render_one_battery_sys f battery tooltip index)
       (enumerate 0 (ds_battery_sys readings))"

definition render_battery_peripheral ::
    "formatter \<Rightarrow> string \<Rightarrow> string option \<Rightarrow> battery_peripheral_reading option \<Rightarrow> int list \<Rightarrow> bool \<Rightarrow>
     row option" where
  "render_battery_peripheral f metric form battery thresholds tooltip =
     (let default_label = label_cell (pf_cfg f) metric form tooltip None None
      in case battery of
        None \<Rightarrow> Some [default_label, value_cell EMPTY_VALUE None (Some (ident_new metric form)) 0]
      | Some b \<Rightarrow>
          let label = (if tooltip \<and> bp_name b \<noteq> []
                       then label_cell (pf_cfg f) metric form tooltip (Some (text_of (bp_name b))) None
                       else default_label)
          in do { css \<leftarrow> (if 100 \<le> bp_charge_percent b then Some None
                            else map_option (\<lambda>(low, high). Some (css_class_battery (bp_charge_percent b) low high))
                              (index_pair thresholds));
                  Some [label, value_cell (format_percent (bp_charge_percent b) tooltip) css
                    (Some (ident_new metric form)) 0] })"

section \<open>System\<close>

definition trem :: "int \<Rightarrow> int \<Rightarrow> int" where "trem a b = a - tdiv a b * b"

definition uptime_text :: "int \<Rightarrow> utext" where
  "uptime_text seconds =
     (let days = tdiv seconds 86400;
          remaining = trem seconds 86400;
          hours = tdiv remaining 3600;
          minutes = trem (tdiv remaining 60) 60
      in join [SPACE] ((if 0 < days then [int_text days @ lit ''d''] else [])
           @ [int_text hours @ lit ''h'', int_text minutes @ lit ''m'']))"

definition render_uptime :: "formatter \<Rightarrow> string option \<Rightarrow> display_snapshot \<Rightarrow> bool \<Rightarrow> row" where
  "render_uptime f form readings tooltip =
     (let metric = metric_as_str M_Uptime
      in [label_cell (pf_cfg f) metric form tooltip None None,
          value_cell (case ds_uptime_seconds readings of None \<Rightarrow> EMPTY_VALUE | Some s \<Rightarrow> uptime_text s)
            None (Some (ident_new metric form)) 0])"

definition color_span :: "float_ops \<Rightarrow> f64 \<Rightarrow> utext \<Rightarrow> utext" where
  "color_span fo v css = lit ''<span class=\"'' @ css @ lit ''\">'' @ fo_fixed fo 2 v @ lit ''</span>''"

definition load_text :: "formatter \<Rightarrow> load_average \<Rightarrow> utext option" where
  "load_text f load =
     (let fo = pf_float f;
          cores = fo_of_int fo (int (max (hw_cpu_count (pf_hw f)) 1));
          part = (\<lambda>v thresholds. map_option
            (\<lambda>t. color_span fo v (css_class_of_f64 fo (fo_div fo v cores) t)) (index_pair thresholds))
      in do { one \<leftarrow> part (la_one load) (thr_load_avg_1 (pf_thr f));
              five \<leftarrow> part (la_five load) (thr_load_avg_5 (pf_thr f));
              fifteen \<leftarrow> part (la_fifteen load) (thr_load_avg_15 (pf_thr f));
              Some (one @ [SPACE] @ five @ [SPACE] @ fifteen) })"

definition render_load_average ::
    "formatter \<Rightarrow> string option \<Rightarrow> display_snapshot \<Rightarrow> bool \<Rightarrow> row option" where
  "render_load_average f form readings tooltip =
     (let metric = metric_as_str M_LoadAverage
      in do { txt \<leftarrow> (case ds_load_average readings of None \<Rightarrow> Some EMPTY_VALUE | Some load \<Rightarrow> load_text f load);
              Some [label_cell (pf_cfg f) metric form tooltip None None,
                value_cell txt None (Some (ident_new metric form)) 0] })"

definition process_name :: "nat \<Rightarrow> utext \<Rightarrow> utext" where
  "process_name max_len command =
     (if 0 < max_len \<and> max_len < length command then take (max_len - 1) command @ [ELLIPSIS] else command)"

definition render_top_process :: "formatter \<Rightarrow> string option \<Rightarrow> display_snapshot \<Rightarrow> bool \<Rightarrow> row list" where
  "render_top_process f form readings tooltip =
     (let metric = metric_as_str M_TopProcess;
          max_len = nat (max (disp_top_process_name_max_len (cf_display (pf_cfg f))) 0);
          processes = (case ds_top_process readings of Some ps \<Rightarrow> ps | None \<Rightarrow> [])
      in map (\<lambda>(index, process).
           render_three_col_row
             (label_cell (pf_cfg f) metric form tooltip (Some (lit ''Top '' @ nat_text (index + 1))) None)
             (auxiliary_cell (process_name max_len (text_of (ts_command process))) None
               (Some (ident_new metric form)) 0 0 None)
             (value_cell (int_text (ts_cpu_percent process) @ lit ''%'') None (Some (ident_new metric form)) 0))
           (enumerate 0 processes))"

definition render_system_updates :: "formatter \<Rightarrow> string option \<Rightarrow> display_snapshot \<Rightarrow> bool \<Rightarrow> row" where
  "render_system_updates f form readings tooltip =
     (let metric = metric_as_str M_SystemUpdates
      in [label_cell (pf_cfg f) metric form tooltip None None,
          value_cell (case ds_system_updates readings of None \<Rightarrow> EMPTY_VALUE | Some n \<Rightarrow> int_text n)
            (case ds_system_updates readings of
               Some n \<Rightarrow> if 1 \<le> n then Some (lit ''crit'') else None | None \<Rightarrow> None)
            (Some (ident_new metric form)) 0])"

definition render_server_check :: "formatter \<Rightarrow> string option \<Rightarrow> display_snapshot \<Rightarrow> bool \<Rightarrow> row" where
  "render_server_check f form readings tooltip =
     (let metric = metric_as_str M_ServerCheck;
          (txt, css) = (case ds_server_ok readings of
              Some True \<Rightarrow> (lit ''Ok'', None)
            | Some False \<Rightarrow> (lit ''KO'', Some (lit ''crit''))
            | None \<Rightarrow> (EMPTY_VALUE, None))
      in [label_cell (pf_cfg f) metric form tooltip None None,
          value_cell txt css (Some (ident_new metric form)) 0])"

end
