(* ===== verification/Formatter.thy ===== *)
theory Formatter
  imports FormatMore
begin

text \<open>
  The panel and tooltip formatter: \<open>src/render/formatter.rs\<close> and the widened readings of
  \<open>formatter/width.rs\<close>. \<open>None\<close> is a panic.
\<close>

section \<open>Dispatch\<close>

definition with_pair :: "int list \<Rightarrow> (int \<times> int \<Rightarrow> row list) \<Rightarrow> row list option" where
  "with_pair thresholds g = map_option g (index_pair thresholds)"

definition render_resolved ::
    "formatter \<Rightarrow> resolved_item \<Rightarrow> display_snapshot \<Rightarrow> bool \<Rightarrow> row list option" where
  "render_resolved f resolved readings tooltip =
     (let metric = it_metric (ri_token resolved);
          name = metric_as_str metric;
          form = ri_form_token resolved;
          thr = pf_thr f;
          percent = (\<lambda>v t. with_pair t (\<lambda>t. render_percent_row f name form tooltip v t True));
          temp = (\<lambda>v t. with_pair t (render_temp_row f name form tooltip v));
          active = (\<lambda>v t. Some (render_active_percent_row f name form tooltip v t True));
          amd = render_amd f metric form readings tooltip;
          npu = render_npu f metric form readings tooltip
      in case metric of
        M_CpuUsage \<Rightarrow> render_historied f metric form readings tooltip
      | M_MemUsage \<Rightarrow> render_historied f metric form readings tooltip
      | M_SwapUsage \<Rightarrow> percent (ds_swap_usage readings) (thr_swap_usage thr)
      | M_CpuTemp \<Rightarrow> temp (ds_cpu_temp readings) (thr_cpu_temp thr)
      | M_CpuFreq \<Rightarrow> Some (render_cpu_freq_row f form readings tooltip)
      | M_CpuTurbo \<Rightarrow> Some (render_cpu_turbo_row f form readings tooltip)
      | M_HdTemp \<Rightarrow> render_hd_temp f form readings tooltip
      | M_DiskUsage \<Rightarrow> render_disk_usage f form readings tooltip
      | M_DiskSmart \<Rightarrow> Some (render_disk_smart f readings tooltip)
      | M_GpuNvidiaTemp \<Rightarrow> temp (ds_gpu_temp readings) (thr_gpu_nvidia_temp thr)
      | M_GpuNvidiaUsage \<Rightarrow> percent (ds_gpu_usage readings) (thr_gpu_nvidia_usage thr)
      | M_GpuNvidiaMemUsage \<Rightarrow> percent (ds_gpu_mem readings) (thr_gpu_nvidia_mem_usage thr)
      | M_GpuNvidiaDecoderUsage \<Rightarrow> active (ds_gpu_dec readings) (thr_gpu_nvidia_dec_usage thr)
      | M_GpuNvidiaFanSpeed \<Rightarrow> Some (render_gpu_fan_row f form readings tooltip)
      | M_GpuAmdUsage \<Rightarrow> amd | M_GpuAmdCodecUsage \<Rightarrow> amd | M_GpuAmdMemUsage \<Rightarrow> amd
      | M_GpuAmdFreq \<Rightarrow> amd | M_GpuAmdTemp \<Rightarrow> amd | M_GpuAmdPower \<Rightarrow> amd | M_GpuAmdFanSpeed \<Rightarrow> amd
      | M_NpuAmdUsage \<Rightarrow> npu | M_NpuAmdPower \<Rightarrow> npu | M_NpuAmdFreq \<Rightarrow> npu
      | M_GpuIntelFreq \<Rightarrow> Some (render_freq_row f name form tooltip (ds_gpu_intel_freq readings))
      | M_GpuIntelUsage \<Rightarrow> percent (ds_gpu_intel_usage readings) (thr_gpu_intel_usage thr)
      | M_GpuIntelDecoderUsage \<Rightarrow> active (ds_gpu_intel_dec_usage readings) (thr_gpu_intel_dec_usage thr)
      | M_ScreenBrightness \<Rightarrow>
          Some (render_plain_percent_row f name form tooltip (ds_screen_brightness readings))
      | M_FanSpeed \<Rightarrow> Some (render_fan_speed f form readings tooltip)
      | M_BatterySystem \<Rightarrow> render_battery_sys f readings tooltip
      | M_BatteryMouse \<Rightarrow>
          map_option (\<lambda>r. [r]) (render_battery_peripheral f name form (ds_battery_mouse readings)
            (thr_battery_mouse thr) tooltip)
      | M_BatteryKeyboard \<Rightarrow>
          map_option (\<lambda>r. [r]) (render_battery_peripheral f name form (ds_battery_kbd readings)
            (thr_battery_kbd thr) tooltip)
      | M_NetSpeed \<Rightarrow> Some (render_dual_rate_rows f ''net_speed_up'' (ds_net_up_bps readings)
          ''net_speed_down'' (ds_net_down_bps readings) tooltip)
      | M_DiskIo \<Rightarrow> Some (render_dual_rate_rows f ''disk_io_read'' (ds_disk_read_bps readings)
          ''disk_io_write'' (ds_disk_write_bps readings) tooltip)
      | M_NetDevice \<Rightarrow>
          Some (render_string_row f name form (map_option text_of (ds_net_device readings)) None tooltip)
      | M_NetIp \<Rightarrow>
          Some (render_string_row f name form (map_option text_of (ds_ip_address readings)) None tooltip)
      | M_NetDeviceIp \<Rightarrow> Some (render_net_device_ip f readings tooltip)
      | M_WifiSsid \<Rightarrow>
          Some (render_string_row f name form (map_option text_of (ds_wifi_ssid readings)) (Some SSID_MAX) tooltip)
      | M_WifiSignal \<Rightarrow> render_wifi_signal f form readings tooltip
      | M_WifiSsidSignal \<Rightarrow> render_wifi_ssid_signal f readings tooltip
      | M_Uptime \<Rightarrow> Some [render_uptime f form readings tooltip]
      | M_LoadAverage \<Rightarrow> map_option (\<lambda>r. [r]) (render_load_average f form readings tooltip)
      | M_TopProcess \<Rightarrow> Some (render_top_process f form readings tooltip)
      | M_SystemUpdates \<Rightarrow> Some [render_system_updates f form readings tooltip]
      | M_ServerCheck \<Rightarrow> Some [render_server_check f form readings tooltip])"

section \<open>Entries\<close>

text \<open>One item of a section: the entries it adds; rows among them are what \<open>has_rows\<close> records.\<close>

definition item_entries :: "formatter \<Rightarrow> display_snapshot \<Rightarrow> bool \<Rightarrow> string \<Rightarrow> entry list option" where
  "item_entries f readings tooltip name =
     (case separator_size_of (lit name) of
        Some sz \<Rightarrow> Some [Entry_Separator sz]
      | None \<Rightarrow>
          (case resolve_item name (pf_vertical f) of
             None \<Rightarrow> Some []
           | Some resolved \<Rightarrow>
               if \<not> item_gate (pf_cfg f) (pf_hw f) (ri_token resolved) readings then Some []
               else map_option (map Entry_Row) (render_resolved f resolved readings tooltip)))"

primrec is_row :: "entry \<Rightarrow> bool" where
  "is_row (Entry_Row _) = True"
| "is_row (Entry_Separator _) = False"

definition section_entries ::
    "formatter \<Rightarrow> display_snapshot \<Rightarrow> bool \<Rightarrow> section_rec \<Rightarrow> entry list option" where
  "section_entries f readings tooltip sec =
     map_option concat (try_map (item_entries f readings tooltip) (sec_items sec))"

definition title_entries :: "bool \<Rightarrow> section_rec \<Rightarrow> entry list" where
  "title_entries tooltip sec =
     (if tooltip \<and> sec_title sec \<noteq> []
      then [Entry_Row [cell_classified (text_of (sec_title sec)) (lit ''title'')],
            Entry_Row [cell_classified [] (lit ''title-rule'')]]
      else [])"

text \<open>The loop over the sections; the flag is \<open>any_section_rendered\<close>.\<close>

fun sections_loop ::
    "formatter \<Rightarrow> display_snapshot \<Rightarrow> bool \<Rightarrow> section_rec list \<Rightarrow> bool \<Rightarrow> entry list option" where
  "sections_loop f readings tooltip [] any = Some []"
| "sections_loop f readings tooltip (sec # secs) any =
     do { own \<leftarrow> section_entries f readings tooltip sec;
          if \<not> list_ex is_row own then sections_loop f readings tooltip secs any
          else
            do { rest \<leftarrow> sections_loop f readings tooltip secs True;
                 Some ((if tooltip \<and> any then [Entry_Separator Sep_Big] else [])
                       @ title_entries tooltip sec @ own @ rest) } }"

definition build_entries :: "formatter \<Rightarrow> display_snapshot \<Rightarrow> bool \<Rightarrow> entry list option" where
  "build_entries f readings tooltip =
     (let surface = (if tooltip then cf_tooltip (pf_cfg f) else cf_panel (pf_cfg f))
      in map_option normalize_separators
           (sections_loop f readings tooltip (sur_sections surface) False))"

section \<open>Surfaces\<close>

definition style_of :: "utext \<Rightarrow> utext" where
  "style_of css = (if css = [] then [] else lit ''<style>'' @ css @ lit ''</style>'')"

definition panel_entry ::
    "entry \<Rightarrow> utext list \<times> separator_size option \<Rightarrow> utext list \<times> separator_size option" where
  "panel_entry e st =
     (let (parts, pending) = st
      in case e of
           Entry_Separator sz \<Rightarrow> (parts, Some sz)
         | Entry_Row r \<Rightarrow>
             if parts \<noteq> []
             then
               let css = (case pending of
                      Some Sep_Small \<Rightarrow> lit ''separator-rule-small''
                    | Some Sep_Big \<Rightarrow> lit ''separator-rule-big''
                    | None \<Rightarrow> lit ''item-gap'')
               in (parts @ [lit ''<span class=\"gap '' @ css @ lit ''\">&nbsp;</span>'', render_row_inline r], None)
             else (parts @ [render_row_inline r], pending))"

definition format_panel :: "formatter \<Rightarrow> display_snapshot \<Rightarrow> utext \<Rightarrow> utext option" where
  "format_panel f readings css =
     do { entries \<leftarrow> build_entries f readings False;
          if pf_vertical f
          then
            let blocks = group_rows_into_blocks entries;
                min_width = nat (max (disp_panel_min_width (cf_display (pf_cfg f))) 0)
            in Some (style_of css @ lit ''<div class=\"panel panel-v\">''
                 @ render_blocks_monospace blocks min_width @ lit ''</div>'')
          else
            Some (style_of css @ lit ''<div class=\"panel panel-h\">''
              @ concat (fst (fold panel_entry entries ([], None))) @ lit ''</div>'') }"

definition wrap_tooltip :: "utext \<Rightarrow> utext \<Rightarrow> utext" where
  "wrap_tooltip body css = style_of css @ lit ''<div class=\"tooltip\">'' @ body @ lit ''</div>''"

definition format_tooltip :: "formatter \<Rightarrow> display_snapshot \<Rightarrow> utext \<Rightarrow> utext option" where
  "format_tooltip f readings css =
     do { entries \<leftarrow> build_entries f readings True;
          let blocks = group_rows_into_blocks entries;
              min_width = nat (max (disp_tooltip_width (cf_display (pf_cfg f))) 0)
          in Some (wrap_tooltip (render_blocks_monospace blocks min_width) css) }"

section \<open>Widened readings\<close>

definition maxed_battery :: "battery_system_reading \<Rightarrow> battery_system_reading" where
  "maxed_battery b =
     b\<lparr>bs_charge_percent := 100, bs_rate_watts := 99, bs_state := Bat_Discharging,
       bs_charge_limit_percent :=
         (case bs_charge_limit_percent b of None \<Rightarrow> Some 80 | Some l \<Rightarrow> Some l)\<rparr>"

definition maxed_readings :: "formatter \<Rightarrow> display_snapshot \<Rightarrow> display_snapshot" where
  "maxed_readings f r =
     (let hw = pf_hw f;
          cores = fo_of_int (pf_float f) (int (max (hw_cpu_count hw) 1))
      in r\<lparr>
       ds_cpu_usage := Some 100, ds_mem_usage := Some 100, ds_swap_usage := Some 100,
       ds_cpu_temp := Some 100, ds_gpu_amd_usage := Some 100, ds_gpu_amd_codec_usage := Some 100,
       ds_gpu_amd_temp := Some (- 273), ds_gpu_amd_freq := Some u32_max, ds_gpu_amd_power := Some u32_max,
       ds_gpu_amd_fan_speed := Some u32_max, ds_npu_amd_usage := Some 100,
       ds_npu_amd_power_mw := Some 65534, ds_npu_amd_freq := Some 65534,
       ds_gpu_amd_mem_usage := Some \<lparr>used_bytes = - 1, total_bytes = - 1\<rparr>,
       ds_gpu_temp := Some 100, ds_gpu_usage := Some 100, ds_gpu_mem := Some 100,
       ds_gpu_dec := Some 100, ds_gpu_fan := Some 100, ds_gpu_intel_usage := Some 100,
       ds_gpu_intel_dec_usage := Some 100, ds_gpu_intel_freq := Some 9999,
       ds_cpu_freq_mhz := Some (fo_of_int (pf_float f) 9999), ds_screen_brightness := Some 100,
       ds_wifi_signal_percent := Some 100, ds_net_up_bps := Some 999000000,
       ds_net_down_bps := Some 999000000, ds_disk_read_bps := Some 999000000,
       ds_disk_write_bps := Some 999000000, ds_ip_address := Some ''255.255.255.255'',
       ds_net_device := (case ds_net_device r of None \<Rightarrow> hw_net_device hw | Some d \<Rightarrow> Some d),
       ds_mem_used_gib := (case ds_mem_total_gib r of Some t \<Rightarrow> Some t | None \<Rightarrow> ds_mem_used_gib r),
       ds_disk_usage := bm_map (\<lambda>_ u. map_option (\<lambda>u. u\<lparr>du_percent := 100, du_used_gib := du_total_gib u\<rparr>) u)
         (ds_disk_usage r),
       ds_hd_temps := bm_collect (map (\<lambda>label. (label, Some 100)) (bm_keys (hw_hd_temp_paths hw))),
       ds_fan_speeds := bm_collect (map (\<lambda>label. (label, Some 9999)) (bm_keys (hw_fan_paths hw))),
       ds_disk_smart := bm_collect (map (\<lambda>label. (label, Some True)) (bm_keys (hw_disk_smart_drives hw))),
       ds_battery_sys := map maxed_battery (ds_battery_sys r),
       ds_battery_mouse := map_option (\<lambda>b. b\<lparr>bp_charge_percent := 100\<rparr>) (ds_battery_mouse r),
       ds_battery_kbd := map_option (\<lambda>b. b\<lparr>bp_charge_percent := 100\<rparr>) (ds_battery_kbd r),
       ds_top_process := map_option (map (\<lambda>p. p\<lparr>ts_command := replicate 15 CHR ''X'', ts_cpu_percent := 100\<rparr>))
         (ds_top_process r),
       ds_load_average := Some \<lparr>la_one = cores, la_five = cores, la_fifteen = cores\<rparr>,
       ds_uptime_seconds := Some (999 * 86400 + 23 * 3600 + 59 * 60)\<rparr>)"

definition canonical_width :: "formatter \<Rightarrow> display_snapshot \<Rightarrow> nat option" where
  "canonical_width f readings =
     do { entries \<leftarrow> build_entries f (maxed_readings f readings) True;
          let width = global_width_of (group_rows_into_blocks entries) 0
          in Some (if list_ex (\<lambda>page. page = ''processes'') (pages_order (cf_pages (pf_cfg f)))
                   then max width TOP_PROCESS_MIN_WIDTH else width) }"

end
