(* ===== verification/LayoutProps.thy ===== *)
theory LayoutProps
  imports Layout
begin

text \<open>
  The width of every kind of rendered line, grouping of rows, normalization of separators.
\<close>

section \<open>Visible width of parts\<close>

text \<open>A text is whole when every tag and every entity that starts in it ends in it.\<close>

function tags_closed :: "utext \<Rightarrow> bool" where
  "tags_closed [] = True"
| "tags_closed (c # rest) =
     (if c \<noteq> 60 then tags_closed rest
      else case break_at 62 rest of None \<Rightarrow> False | Some (tag, after) \<Rightarrow> tags_closed after)"
  by pat_completeness auto
termination
  by (relation "measure length") (auto simp: break_at_Some)

function amps_closed :: "utext \<Rightarrow> bool" where
  "amps_closed [] = True"
| "amps_closed (c # rest) =
     (if c \<noteq> 38 then amps_closed rest
      else case break_at 59 rest of
             None \<Rightarrow> False
           | Some (candidate, after) \<Rightarrow>
               if decoded_entity candidate \<noteq> None then amps_closed after else amps_closed rest)"
  by pat_completeness auto
termination
  by (relation "measure length") (auto simp: break_at_Some)

definition whole :: "utext \<Rightarrow> bool" where
  "whole t \<longleftrightarrow> tags_closed t \<and> amps_closed (strip_tags t)"

lemma break_at_append:
  "break_at c xs = Some (pre, after) \<Longrightarrow> break_at c (xs @ ys) = Some (pre, after @ ys)"
  by (auto simp: break_at_Some)

lemma strip_tags_append: "tags_closed xs \<Longrightarrow> strip_tags (xs @ ys) = strip_tags xs @ strip_tags ys"
  by (induction xs rule: tags_closed.induct)
    (auto simp: break_at_append split: if_splits option.splits)

lemma tags_closed_append [simp]:
  "tags_closed xs \<Longrightarrow> tags_closed (xs @ ys) \<longleftrightarrow> tags_closed ys"
  by (induction xs rule: tags_closed.induct)
    (auto simp: break_at_append split: if_splits option.splits)

lemma entity_width_append:
  "amps_closed xs \<Longrightarrow> decoded_entity_width (xs @ ys) = decoded_entity_width xs + decoded_entity_width ys"
  by (induction xs rule: amps_closed.induct)
    (auto simp: break_at_append split: if_splits option.splits)

lemma amps_closed_append [simp]:
  "amps_closed xs \<Longrightarrow> amps_closed (xs @ ys) \<longleftrightarrow> amps_closed ys"
proof (induction xs rule: amps_closed.induct)
  case (2 c rest)
  show ?case
  proof (cases "c = 38")
    case True
    with "2.prems" obtain pre after where b: "break_at 59 rest = Some (pre, after)"
      by (auto split: option.splits)
    with 2 True show ?thesis by (cases "decoded_entity pre") (auto simp: break_at_append)
  next
    case False
    with 2 show ?thesis by simp
  qed
qed simp

lemma whole_append [simp]: "whole xs \<Longrightarrow> whole (xs @ ys) \<longleftrightarrow> whole ys"
  by (auto simp: whole_def strip_tags_append)

lemma width_append [simp]: "whole xs \<Longrightarrow> visible_width (xs @ ys) = visible_width xs + visible_width ys"
  by (simp add: whole_def visible_width_def strip_tags_append entity_width_append)

lemma whole_Nil [simp]: "whole []" "visible_width [] = 0"
  by (auto simp: whole_def visible_width_def)

lemma whole_concat: "\<forall>t \<in> set ts. whole t \<Longrightarrow> whole (concat ts)"
  by (induction ts) auto

lemma width_concat:
  "\<forall>t \<in> set ts. whole t \<Longrightarrow> visible_width (concat ts) = sum_list (map visible_width ts)"
  by (induction ts) auto

text \<open>The tags and the spaces the serializers write.\<close>

lemma open_tag [simp]:
  "t \<noteq> [] \<Longrightarrow> 62 \<notin> set t \<Longrightarrow> whole (60 # t @ 62 # ys) \<longleftrightarrow> whole ys"
  "t \<noteq> [] \<Longrightarrow> 62 \<notin> set t \<Longrightarrow> visible_width (60 # t @ 62 # ys) = visible_width ys"
proof -
  assume t: "t \<noteq> []" "62 \<notin> set t"
  then have b: "break_at 62 (t @ 62 # ys) = Some (t, ys)" by (simp add: break_at_Some)
  show "whole (60 # t @ 62 # ys) \<longleftrightarrow> whole ys" using t b by (simp add: whole_def)
  show "visible_width (60 # t @ 62 # ys) = visible_width ys"
    using t b by (simp add: visible_width_def)
qed

lemma nbsp_whole [simp]: "whole nbsp" "visible_width nbsp = 1"
  by (simp_all add: whole_def visible_width_def nbsp_def lit_def decoded_entity_def)

lemma spaces_whole [simp]:
  "whole (non_breaking_spaces n)" "visible_width (non_breaking_spaces n) = n"
  by (induction n) (auto simp: non_breaking_spaces_def)

lemma gap_tag: "lit ''<span class=\"gap\">'' = 60 # lit ''span class=\"gap\"'' @ [62]"
  and span_end_tag: "lit ''</span>'' = 60 # lit ''/span'' @ [62]"
  and div_tag: "lit ''<div>'' = 60 # lit ''div'' @ [62]"
  and div_end_tag: "lit ''</div>'' = 60 # lit ''/div'' @ [62]"
  and class_open: "lit ''<span class=\"'' = 60 # lit ''span class=\"''"
  and class_close: "lit ''\">'' = lit ''\"'' @ [62]"
  and span_open: "lit ''<span'' = 60 # lit ''span''"
  by (simp_all add: lit_def)

lemma fixed_tags [simp]:
  "whole (lit ''<div>'')" "visible_width (lit ''<div>'') = 0"
  "whole (lit ''</div>'')" "visible_width (lit ''</div>'') = 0"
  "whole (lit ''</span>'')" "visible_width (lit ''</span>'') = 0"
  "whole (lit ''<span class=\"gap\">'')" "visible_width (lit ''<span class=\"gap\">'') = 0"
  by (simp_all add: whole_def visible_width_def lit_def)

lemma class_tag [simp]:
  assumes "62 \<notin> set css"
  shows "whole (lit ''<span class=\"'' @ css @ lit ''\">'' @ ys) \<longleftrightarrow> whole ys"
    and "visible_width (lit ''<span class=\"'' @ css @ lit ''\">'' @ ys) = visible_width ys"
proof -
  let ?t = "lit ''span class=\"'' @ css @ lit ''\"''"
  have t: "?t \<noteq> []" "62 \<notin> set ?t" using assms by (auto simp: lit_def)
  have eq: "lit ''<span class=\"'' @ css @ lit ''\">'' @ ys = 60 # ?t @ 62 # ys"
    by (simp add: class_open class_close)
  show "whole (lit ''<span class=\"'' @ css @ lit ''\">'' @ ys) \<longleftrightarrow> whole ys"
    unfolding eq by (rule open_tag(1) [OF t])
  show "visible_width (lit ''<span class=\"'' @ css @ lit ''\">'' @ ys) = visible_width ys"
    unfolding eq by (rule open_tag(2) [OF t])
qed

lemma padding_whole [simp]: "whole (padding n)" "visible_width (padding n) = n"
  by (auto simp: padding_def)

text \<open>A character that is neither \<open><\<close> nor \<open>&\<close> shows as itself; so does every escaped character.\<close>

lemma plain_char: "c \<noteq> 60 \<Longrightarrow> c \<noteq> 38 \<Longrightarrow> whole [c] \<and> visible_width [c] = 1"
  by (simp add: whole_def visible_width_def)

lemma plain_text: "60 \<notin> set t \<Longrightarrow> 38 \<notin> set t \<Longrightarrow> whole t \<and> visible_width t = length t"
proof (induction t)
  case (Cons c t)
  then have "whole [c] \<and> visible_width [c] = 1" by (intro plain_char) auto
  then show ?case using Cons whole_append [of "[c]" t] width_append [of "[c]" t] by auto
qed simp

lemma decoded_names:
  "decoded_entity (lit ''amp'') = Some 38" "decoded_entity (lit ''lt'') = Some 60"
  "decoded_entity (lit ''gt'') = Some 62" "decoded_entity (lit ''quot'') = Some 34"
  by (simp_all add: decoded_entity_def lit_def)

lemma decoded_quote: "decoded_entity (lit ''#x27'') = Some 39"
proof -
  have "parse_unsigned 16 u32_max [50, 55] = Some 39"
    by (simp add: parse_unsigned_def digit_of_def u32_max_def)
  then show ?thesis by (simp add: decoded_entity_def lit_def is_scalar_def)
qed

lemma decoded_codes:
  "decoded_entity [97, 109, 112] = Some 38" "decoded_entity [108, 116] = Some 60"
  "decoded_entity [103, 116] = Some 62" "decoded_entity [113, 117, 111, 116] = Some 34"
  "decoded_entity [35, 120, 50, 55] = Some 39"
  using decoded_names decoded_quote by (simp_all add: lit_def)

lemma entities_whole [simp]:
  "whole (lit ''&amp;'')" "whole (lit ''&lt;'')" "whole (lit ''&gt;'')" "whole (lit ''&quot;'')"
  "whole (lit ''&#x27;'')"
  by (simp_all add: whole_def lit_def decoded_codes)

lemma entities_width [simp]:
  "visible_width (lit ''&amp;'') = 1" "visible_width (lit ''&lt;'') = 1" "visible_width (lit ''&gt;'') = 1"
  "visible_width (lit ''&quot;'') = 1" "visible_width (lit ''&#x27;'') = 1"
  by (simp_all add: visible_width_def lit_def decoded_codes)

lemma escaped_char: "whole (escape_char c) \<and> visible_width (escape_char c) = 1"
  by (simp add: escape_char_def plain_char)

lemma escaped_whole: "whole (escape_html t)"
  by (simp add: escape_html_def whole_concat escaped_char)

lemma escaped_width: "visible_width (escape_html t) = length t"
  by (induction t) (auto simp: escape_html_def escaped_char)

section \<open>Cells\<close>

definition cell_ok :: "cell \<Rightarrow> bool" where
  "cell_ok c \<longleftrightarrow> whole (c_text c) \<and> (\<forall>css. c_class c = Some css \<longrightarrow> 62 \<notin> set css) \<and>
     (\<forall>w. c_layout_width c = Some w \<longrightarrow> w = visible_width (c_text c))"

lemma span_whole [simp]: "cell_ok c \<Longrightarrow> whole (cell_span c)"
  by (auto simp: cell_ok_def cell_span_def cell_inner_def split: option.splits)

lemma span_width [simp]: "cell_ok c \<Longrightarrow> visible_width (cell_span c) = cell_width c"
  by (auto simp: cell_ok_def cell_span_def cell_inner_def cell_width_def split: option.splits)

section \<open>Columns\<close>

lemma fold_max_ge: "(x::nat) \<in> set xs \<or> x \<le> a \<Longrightarrow> x \<le> fold max xs a"
proof (induction xs arbitrary: a)
  case (Cons y ys)
  from Cons.prems have "x \<in> set ys \<or> x \<le> max y a" by (cases "x = y") auto
  then show ?case using Cons.IH by simp
qed simp

definition widen :: "nat list \<Rightarrow> row \<Rightarrow> nat list" where
  "widen widths r = map2 max widths (map cell_width r) @ drop (length r) widths"

lemma length_widen: "length r \<le> length widths \<Longrightarrow> length (widen widths r) = length widths"
  by (simp add: widen_def)

lemma widen_ge:
  assumes "length r \<le> length widths" "i < length widths"
  shows "widths ! i \<le> widen widths r ! i" and "i < length r \<Longrightarrow> cell_width (r ! i) \<le> widen widths r ! i"
  using assms by (auto simp: widen_def nth_append)

lemma column_widths_fold:
  "column_widths b = fold (\<lambda>r widths. widen widths r) (b_rows b)
     (replicate (fold max (map length (b_rows b)) 0) 0)"
  by (simp add: column_widths_def widen_def Let_def)

abbreviation widen_all :: "row list \<Rightarrow> nat list \<Rightarrow> nat list" where
  "widen_all rows widths \<equiv> fold (\<lambda>r widths. widen widths r) rows widths"

lemma length_widen_all:
  "\<forall>r \<in> set rows. length r \<le> length widths \<Longrightarrow> length (widen_all rows widths) = length widths"
  by (induction rows arbitrary: widths) (auto simp: length_widen)

lemma widen_all_grows:
  "\<forall>r \<in> set rows. length r \<le> length widths \<Longrightarrow> i < length widths \<Longrightarrow> widths ! i \<le> widen_all rows widths ! i"
proof (induction rows arbitrary: widths)
  case (Cons r rs)
  then have "widths ! i \<le> widen widths r ! i" by (simp add: widen_ge(1))
  also have "\<dots> \<le> widen_all rs (widen widths r) ! i"
    using Cons by (simp add: length_widen)
  finally show ?case by simp
qed simp

lemma widen_all_ge:
  "\<forall>r \<in> set rows. length r \<le> length widths \<Longrightarrow> r \<in> set rows \<Longrightarrow> i < length r \<Longrightarrow>
     cell_width (r ! i) \<le> widen_all rows widths ! i"
proof (induction rows arbitrary: widths)
  case (Cons q rs)
  show ?case
  proof (cases "r \<in> set rs")
    case True
    with Cons show ?thesis by (simp add: length_widen)
  next
    case False
    with Cons.prems have r: "r = q" and l: "length q \<le> length widths" by auto
    have "cell_width (q ! i) \<le> widen widths q ! i"
      using Cons.prems r l by (intro widen_ge(2)) auto
    also have "\<dots> \<le> widen_all rs (widen widths q) ! i"
      using Cons.prems r l by (intro widen_all_grows) (auto simp: length_widen)
    finally show ?thesis by (simp add: r)
  qed
qed simp

lemma column_widths_props:
  assumes "r \<in> set (b_rows b)"
  shows column_count: "length r \<le> length (column_widths b)"
    and column_fits: "i < length r \<Longrightarrow> cell_width (r ! i) \<le> column_widths b ! i"
proof -
  let ?n = "fold max (map length (b_rows b)) 0"
  have le: "\<forall>r \<in> set (b_rows b). length r \<le> length (replicate ?n (0::nat))"
    by (auto intro: fold_max_ge)
  show "length r \<le> length (column_widths b)"
    using le assms by (simp add: column_widths_fold length_widen_all)
  show "i < length r \<Longrightarrow> cell_width (r ! i) \<le> column_widths b ! i"
    unfolding column_widths_fold using le assms by (intro widen_all_ge) auto
qed

lemma value_column_fits:
  assumes "r \<in> set (b_rows b)" "2 \<le> length r" "c_align (last r) = Align_Right"
  shows "cell_width (last r) \<le> block_value_column_width b"
  unfolding block_value_column_width_def
  by (rule fold_max_ge) (use assms in \<open>auto simp: map_filter_def image_iff\<close>)

text \<open>Columns rendered within their widths take exactly those widths.\<close>

lemma columns_rendered:
  assumes "list_all2 (\<lambda>c w. cell_ok c \<and> cell_width c \<le> w) cells widths"
  shows "whole (fst (render_columns cells widths))"
    and "visible_width (fst (render_columns cells widths)) = sum_list widths"
proof -
  have "whole (fst (render_columns cells widths)) \<and>
        visible_width (fst (render_columns cells widths)) = sum_list widths"
    using assms
  proof (induction rule: list_all2_induct)
    case Nil
    then show ?case by (simp add: render_columns_def)
  next
    case (Cons c cs w ws)
    then show ?case by (auto simp: render_columns_def Let_def)
  qed
  then show "whole (fst (render_columns cells widths))"
    and "visible_width (fst (render_columns cells widths)) = sum_list widths" by auto
qed

lemma columns_of_block:
  assumes "r \<in> set (b_rows b)" "\<forall>c \<in> set r. cell_ok c" "n \<le> length r"
  shows "list_all2 (\<lambda>c w. cell_ok c \<and> cell_width c \<le> w) (take n r) (take n (column_widths b))"
  using assms column_count [OF assms(1)] column_fits [OF assms(1)]
  by (auto simp: list_all2_conv_all_nth)

section \<open>The shared width\<close>

lemma fold_plans: "fold (\<lambda>p w. max w (natural_width p)) ps a = fold max (map natural_width ps) a"
  by (induction ps arbitrary: a) (auto simp: max.commute)

lemma global_width_max:
  "global_width_of blocks m = fold max (concat (map (\<lambda>b. map natural_width (block_plans b)) blocks)) m"
  unfolding global_width_of_def fold_plans by (induction blocks arbitrary: m) auto

lemma natural_le_global:
  "b \<in> set blocks \<Longrightarrow> p \<in> set (block_plans b) \<Longrightarrow> natural_width p \<le> global_width_of blocks m"
  unfolding global_width_max by (rule fold_max_ge) force

lemma min_le_global: "m \<le> global_width_of blocks m"
  unfolding global_width_max by (rule fold_max_ge) simp

abbreviation row_plan :: "block \<Rightarrow> row \<Rightarrow> plan" where
  "row_plan b r \<equiv> plan_row r (column_widths b) (block_value_column_width b)"

lemma row_plan_fits:
  "b \<in> set blocks \<Longrightarrow> r \<in> set (b_rows b) \<Longrightarrow> natural_width (row_plan b r) \<le> global_width_of blocks m"
  by (rule natural_le_global) (auto simp: block_plans_def)

section \<open>Lines\<close>

lemma div_line: "whole t \<Longrightarrow> visible_width (lit ''<div>'' @ t @ lit ''</div>'') = visible_width t"
  by simp

lemma columns_html:
  assumes "r \<in> set (b_rows b)" "\<forall>c \<in> set r. cell_ok c" "n \<le> length r"
    and "render_columns (take n r) (take n (column_widths b)) = (html, w)"
  shows "whole html" "visible_width html = w" "w = sum_list (take n (column_widths b))"
proof -
  note cols = columns_rendered [OF columns_of_block [OF assms(1-3)]]
  show "w = sum_list (take n (column_widths b))"
    using assms(4) by (simp add: render_columns_def)
  then show "whole html" "visible_width html = w" using assms(4) cols by auto
qed

lemma right_value_line:
  assumes ok: "r \<in> set (b_rows b)" "\<forall>c \<in> set r. cell_ok c"
    and plan: "row_plan b r = Plan_RightValue n lh lw vh vw" and fits: "n \<le> w"
  shows "visible_width (emit_plan (row_plan b r) w) = w"
proof -
  let ?k = "length r - 1"
  have r: "r \<noteq> []" and html: "render_columns (take ?k r) (take ?k (column_widths b)) = (lh, lw)"
    and v: "vh = cell_span (last r)" "vw = cell_width (last r)" "n = lw + vw"
    using plan by (auto simp: plan_row_def Let_def split: if_splits prod.splits)
  have "cell_ok (last r)" using ok r by simp
  then show ?thesis
    using columns_html [OF ok _ html] fits unfolding plan by (simp add: v)
qed

lemma center_middle_line:
  assumes ok: "r \<in> set (b_rows b)" "\<forall>c \<in> set r. cell_ok c"
    and plan: "row_plan b r = Plan_CenterMiddle n lh lw mh mw vh vw vcw" and fits: "n \<le> w"
  shows "visible_width (emit_plan (row_plan b r) w) = w"
proof -
  have r: "length r = 3" "c_align (r ! 2) = Align_Right"
    and html: "render_columns (take 1 r) (take 1 (column_widths b)) = (lh, lw)"
    and v: "vh = cell_span (r ! 2)" "vw = cell_width (r ! 2)" "mh = cell_span (r ! 1)"
      "mw = cell_width (r ! 1)" "vcw = block_value_column_width b" "n = lw + mw + max vw vcw"
    using plan by (auto simp: plan_row_def Let_def split: if_splits prod.splits)
  have last: "last r = r ! 2" using r by (subst last_conv_nth) auto
  have cells: "cell_ok (r ! 1)" "cell_ok (r ! 2)" using ok r by auto
  have le: "vw \<le> vcw" using value_column_fits [OF ok(1)] r by (simp add: v last)
  have "lw + (w - (vcw + lw) - mw) div 2 + mw + vw \<le> w"
    using fits le by (simp add: v(6))
  then show ?thesis
    using columns_html [OF ok _ html] r cells unfolding plan by (simp add: v(1-4) Let_def)
qed

lemma title_rule_width: "visible_width (lit ''<div width=\"100%\" class=\"title-rule\">&nbsp;</div>'') = 1"
  by (simp add: visible_width_def lit_def decoded_entity_def)

lemma left_line:
  assumes ok: "r \<in> set (b_rows b)" "\<forall>c \<in> set r. cell_ok c"
    and plan: "row_plan b r = Plan_Left n html" and more: "length r \<noteq> 1"
  shows "visible_width (emit_plan (row_plan b r) w) = sum_list (take (length r) (column_widths b))"
    and "sum_list (take (length r) (column_widths b)) \<le> n"
proof -
  have h: "render_columns r (column_widths b) = (html, n)"
    using plan more by (auto simp: plan_row_def Let_def split: if_splits prod.splits)
  let ?ws = "column_widths b"
  have "zip r ?ws = zip r (take (length r) ?ws)"
    using column_count [OF ok(1)] by (metis length_zip min.absorb1 order_refl take_all take_zip)
  then have "html = fst (render_columns (take (length r) r) (take (length r) ?ws))"
    using h by (auto simp: render_columns_def)
  then show "visible_width (emit_plan (row_plan b r) w) = sum_list (take (length r) (column_widths b))"
    using columns_rendered [OF columns_of_block [OF ok order_refl]] unfolding plan by simp
  have "n = sum_list ?ws" using h by (simp add: render_columns_def)
  then show "sum_list (take (length r) ?ws) \<le> n"
    by (metis append_take_drop_id le_add1 sum_list_append)
qed

lemma one_cell_line:
  assumes "length r = 1" "\<forall>c \<in> set r. cell_ok c"
  shows "visible_width (emit_plan (row_plan b r) w) = (if is_title_rule (r ! 0) then 1 else cell_width (r ! 0))"
    and "\<not> is_title_rule (r ! 0) \<Longrightarrow> natural_width (row_plan b r) = cell_width (r ! 0)"
proof -
  have "cell_ok (r ! 0)" using assms by auto
  moreover have "whole nbsp" by simp
  ultimately show "visible_width (emit_plan (row_plan b r) w) = (if is_title_rule (r ! 0) then 1 else cell_width (r ! 0))"
    using title_rule_width assms(1) by (simp add: plan_row_def)
  show "\<not> is_title_rule (r ! 0) \<Longrightarrow> natural_width (row_plan b r) = cell_width (r ! 0)"
    using assms(1) by (simp add: plan_row_def)
qed

lemma two_pair_line:
  assumes ok: "\<forall>c \<in> set r. cell_ok c"
    and plan: "row_plan b r = Plan_TwoPair n l1 v1 l2 v2"
  shows "visible_width (emit_plan (row_plan b r) w) =
           max (w div 2) (cell_width l1 + cell_width v1) +
           max (w - w div 2) (cell_width l2 + cell_width v2)"
proof -
  have "length r = 4" "l1 = r ! 0" "v1 = r ! 1" "l2 = r ! 2" "v2 = r ! 3"
    using plan by (auto simp: plan_row_def is_two_pair_def Let_def split: if_splits prod.splits)
  with ok have "cell_ok l1" "cell_ok v1" "cell_ok l2" "cell_ok v2" by auto
  moreover have "(x::nat) + (h - (x + y)) + y = max h (x + y)" for x h y by (simp add: max_def)
  ultimately show ?thesis unfolding plan by (simp add: Let_def flip: add.assoc)
qed

text \<open>What kind of line a row becomes depends on its cells alone.\<close>

definition ends_right :: "row \<Rightarrow> bool" where
  "ends_right r \<longleftrightarrow> 2 \<le> length r \<and> c_align (last r) = Align_Right \<and> \<not> is_two_pair r"

lemma ends_right_plan:
  assumes "ends_right r"
  shows "(\<exists>n lh lw vh vw. row_plan b r = Plan_RightValue n lh lw vh vw) \<or>
    (\<exists>n lh lw mh mw vh vw vcw. row_plan b r = Plan_CenterMiddle n lh lw mh mw vh vw vcw)"
proof -
  have "length r \<noteq> 1" "r \<noteq> []" "c_align (last r) = Align_Right" "\<not> is_two_pair r"
    using assms by (auto simp: ends_right_def)
  then show ?thesis
    by (cases "length r = 3 \<and> c_align (r ! 2) = Align_Right \<and> c_align (r ! 1) = Align_Center")
      (simp_all add: plan_row_def Let_def split: prod.split)
qed

lemma ends_right_line:
  assumes "b \<in> set blocks" "r \<in> set (b_rows b)" "\<forall>c \<in> set r. cell_ok c" "ends_right r"
  shows "visible_width (emit_plan (row_plan b r) (global_width_of blocks m)) = global_width_of blocks m"
proof -
  have fits: "natural_width (row_plan b r) \<le> global_width_of blocks m"
    using assms row_plan_fits by simp
  show ?thesis
    using ends_right_plan [OF assms(4), of b]
  proof (elim disjE exE)
    fix n lh lw vh vw
    assume p: "row_plan b r = Plan_RightValue n lh lw vh vw"
    show ?thesis using fits right_value_line [OF assms(2,3) p] by (simp add: p)
  next
    fix n lh lw mh mw vh vw vcw
    assume p: "row_plan b r = Plan_CenterMiddle n lh lw mh mw vh vw vcw"
    show ?thesis using fits center_middle_line [OF assms(2,3) p] by (simp add: p)
  qed
qed

lemma two_pair_plan:
  assumes "is_two_pair r" "length r = 4"
  shows "row_plan b r = Plan_TwoPair (sum_list (map cell_width r)) (r ! 0) (r ! 1) (r ! 2) (r ! 3)"
  using assms by (simp add: plan_row_def)

lemma other_plan:
  assumes "\<not> ends_right r" "\<not> is_two_pair r" "length r \<noteq> 1"
  shows "\<exists>n html. row_plan b r = Plan_Left n html"
proof -
  have "\<not> (length r = 3 \<and> c_align (r ! 2) = Align_Right)"
  proof
    assume r: "length r = 3 \<and> c_align (r ! 2) = Align_Right"
    then have "last r = r ! 2" by (subst last_conv_nth) auto
    with r assms(1,2) show False by (simp add: ends_right_def)
  qed
  moreover have "r \<noteq> [] \<Longrightarrow> 2 \<le> length r" using assms(3) by (cases r) (auto simp: Suc_le_eq)
  ultimately show ?thesis
    using assms by (auto simp: plan_row_def ends_right_def Let_def split: prod.splits)
qed

text \<open>
  The width of every kind of line, from its cells, the column widths of its block and the shared
  width: a rule is one space, a single cell stays as wide as it is, two pairs get a half each and more
  where they need it, a right-aligned value ends at the shared width, and anything else takes its
  columns.
\<close>

definition line_width :: "nat \<Rightarrow> nat list \<Rightarrow> row \<Rightarrow> nat" where
  "line_width w widths r =
     (if length r = 1 then (if is_title_rule (r ! 0) then 1 else cell_width (r ! 0))
      else if is_two_pair r
      then max (w div 2) (cell_width (r ! 0) + cell_width (r ! 1)) +
           max (w - w div 2) (cell_width (r ! 2) + cell_width (r ! 3))
      else if r \<noteq> [] \<and> c_align (last r) = Align_Right then w
      else sum_list (take (length r) widths))"

lemma line_of_width:
  assumes "b \<in> set blocks" "r \<in> set (b_rows b)" "\<forall>c \<in> set r. cell_ok c"
  shows "visible_width (emit_plan (row_plan b r) (global_width_of blocks m)) =
    line_width (global_width_of blocks m) (column_widths b) r"
proof -
  have two: "length r = 4" if "is_two_pair r" using that by (simp add: is_two_pair_def)
  have more: "2 \<le> length r" if "r \<noteq> []" "length r \<noteq> 1" using that by (cases r) (auto simp: Suc_le_eq)
  consider "length r = 1" | "is_two_pair r" | "ends_right r"
    | "length r \<noteq> 1" "\<not> is_two_pair r" "\<not> ends_right r" by blast
  then show ?thesis
  proof cases
    case 1
    then show ?thesis using one_cell_line(1) [OF _ assms(3)] by (simp add: line_width_def)
  next
    case 2
    then show ?thesis
      using two_pair_line [OF assms(3) two_pair_plan [OF 2 two [OF 2]]] two by (simp add: line_width_def)
  next
    case 3
    then show ?thesis
      using ends_right_line [OF assms 3] by (auto simp: line_width_def ends_right_def)
  next
    case 4
    with other_plan [of r b] left_line(1) [OF assms(2,3)] more show ?thesis
      by (auto simp: line_width_def ends_right_def)
  qed
qed

lemma line_within:
  assumes "b \<in> set blocks" "r \<in> set (b_rows b)" "\<forall>c \<in> set r. cell_ok c"
    and "\<not> is_two_pair r" "\<not> (length r = 1 \<and> is_title_rule (r ! 0))"
  shows "line_width (global_width_of blocks m) (column_widths b) r \<le> global_width_of blocks m"
proof (cases "length r = 1 \<or> ends_right r")
  case True
  then show ?thesis
    using assms row_plan_fits [OF assms(1,2), of m] one_cell_line(2) [OF _ assms(3)]
    by (auto simp: line_width_def ends_right_def)
next
  case False
  then obtain n html where p: "row_plan b r = Plan_Left n html" using other_plan assms(4) by blast
  have "r \<noteq> [] \<Longrightarrow> 2 \<le> length r" using False by (cases r) (auto simp: Suc_le_eq)
  moreover have "n \<le> global_width_of blocks m" using row_plan_fits [OF assms(1,2), of m] p by simp
  ultimately show ?thesis
    using left_line(2) [OF assms(2,3) p] False assms(4) by (auto simp: line_width_def ends_right_def)
qed

text \<open>The value closes the line: whatever fills the line stands before it.\<close>

lemma value_closes:
  assumes "ends_right r"
  shows "\<exists>lead. emit_plan (row_plan b r) w = lead @ cell_span (last r) @ lit ''</div>''"
proof -
  have last: "last r = r ! 2" if "length r = 3" using that by (subst last_conv_nth) auto
  have "length r \<noteq> 1" "r \<noteq> []" "c_align (last r) = Align_Right" "\<not> is_two_pair r"
    using assms by (auto simp: ends_right_def)
  then show ?thesis
    by (cases "length r = 3 \<and> c_align (r ! 2) = Align_Right \<and> c_align (r ! 1) = Align_Center")
      (auto simp: plan_row_def last Let_def split: prod.split)
qed

text \<open>The width of the serializer is the one \<open>global_width_of\<close> reports.\<close>

lemma rendered_width:
  "render_blocks_monospace blocks m =
     concat (map (\<lambda>b. (case b_separator b of Some sz \<Rightarrow> separator_rule_html sz | None \<Rightarrow> []) @
       concat (map (\<lambda>r. emit_plan (row_plan b r) (global_width_of blocks m)) (b_rows b))) blocks)"
proof -
  have "fold (\<lambda>(_, plans) w. fold (\<lambda>p w. max w (natural_width p)) plans w)
          (map (\<lambda>b. (b_separator b, block_plans b)) blocks) m = global_width_of blocks m"
    by (simp add: global_width_of_def fold_map comp_def)
  then show ?thesis
    by (simp add: render_blocks_monospace_def Let_def comp_def block_plans_def)
qed

section \<open>Panel rows\<close>

lemma inline_cell_width:
  assumes "cell_ok c"
  shows "whole (inline_cell c) \<and>
    visible_width (inline_cell c) = max (c_min_width c) (c_pad_left c + visible_width (c_text c) + c_pad_right c)"
proof -
  define inner where "inner = (let gap = non_breaking_spaces (c_min_width c -
      (c_pad_left c + visible_width (c_text c) + c_pad_right c))
    in if c_align c = Align_Right then gap @ cell_inner c else cell_inner c @ gap)"
  have w: "whole (c_text c)" and css: "\<And>k. c_class c = Some k \<Longrightarrow> 62 \<notin> set k"
    using assms by (auto simp: cell_ok_def)
  have inner: "whole inner \<and> visible_width inner =
      max (c_min_width c) (c_pad_left c + visible_width (c_text c) + c_pad_right c)"
    using w by (auto simp: inner_def cell_inner_def Let_def)
  define attributes where "attributes = (case c_class c of
      Some classes \<Rightarrow> if classes = [] then [] else lit '' class=\"'' @ classes @ lit ''\"''
    | None \<Rightarrow> [])"
  have t: "62 \<notin> set (lit ''span'' @ attributes)" "lit ''span'' @ attributes \<noteq> []"
    using css by (auto simp: attributes_def lit_def split: option.splits)
  have eq: "inline_cell c = 60 # (lit ''span'' @ attributes) @ 62 # inner @ lit ''</span>''"
    by (simp add: inline_cell_def inner_def attributes_def Let_def lit_def)
  show ?thesis
    unfolding eq using inner open_tag [OF t(2,1), of "inner @ lit ''</span>''"] by simp
qed

lemma join_width:
  assumes "\<forall>t \<in> set ts. whole t" "whole sep"
  shows "whole (join sep ts) \<and>
    visible_width (join sep ts) = sum_list (map visible_width ts) + visible_width sep * (length ts - 1)"
  using assms by (induction sep ts rule: join.induct) auto

lemma gap_span: "whole (lit ''<span class=\"gap\">&nbsp;</span>'') \<and>
    visible_width (lit ''<span class=\"gap\">&nbsp;</span>'') = 1"
proof -
  have "lit ''<span class=\"gap\">&nbsp;</span>'' = padding 1"
    by (simp add: padding_def lit_def nbsp_def non_breaking_spaces_def)
  then show ?thesis by simp
qed

section \<open>Grouping\<close>

primrec entry_rows :: "entry \<Rightarrow> row list" where
  "entry_rows (Entry_Row r) = [r]"
| "entry_rows (Entry_Separator _) = []"

definition rows_of :: "entry list \<Rightarrow> row list" where
  "rows_of entries = concat (map entry_rows entries)"

text \<open>
  What the loop keeps: no row is lost, the finished blocks are not empty and uniform, the rows at
  hand have the shape remembered, two blocks in a row without a rule between them differ in shape.
\<close>

definition uniform :: "block \<Rightarrow> bool" where
  "uniform b \<longleftrightarrow> b_rows b \<noteq> [] \<and> (\<forall>r \<in> set (b_rows b). row_shape r = row_shape (hd (b_rows b)))"

definition block_shape :: "block \<Rightarrow> utext list" where "block_shape b = row_shape (hd (b_rows b))"

fun parted :: "block list \<Rightarrow> bool" where
  "parted (a # b # bs) = ((b_separator b = None \<longrightarrow> block_shape a \<noteq> block_shape b) \<and> parted (b # bs))"
| "parted _ = True"

lemma parted_snoc:
  "parted (bs @ [b]) \<longleftrightarrow>
     parted bs \<and> (bs \<noteq> [] \<longrightarrow> b_separator b = None \<longrightarrow> block_shape (last bs) \<noteq> block_shape b)"
  by (induction bs rule: parted.induct) auto

definition settled :: "row list \<Rightarrow> block list \<Rightarrow> bool" where
  "settled rows blocks \<longleftrightarrow>
     concat (map b_rows blocks) = rows \<and> (\<forall>b \<in> set blocks. uniform b) \<and> parted blocks"

definition grouped :: "row list \<Rightarrow> block list \<Rightarrow> row list \<Rightarrow> utext list option \<Rightarrow>
    separator_size option \<Rightarrow> bool" where
  "grouped rows blocks current shape next \<longleftrightarrow>
     (\<exists>done. settled done blocks \<and> rows = done @ current) \<and>
     (case shape of
        None \<Rightarrow> current = [] \<and> (blocks \<noteq> [] \<longrightarrow> next \<noteq> None)
      | Some sh \<Rightarrow> current \<noteq> [] \<and> (\<forall>r \<in> set current. row_shape r = sh) \<and>
          (blocks \<noteq> [] \<longrightarrow> next = None \<longrightarrow> block_shape (last blocks) \<noteq> sh))"

lemma settled_snoc:
  "settled rows blocks \<Longrightarrow> uniform b \<Longrightarrow>
     (blocks \<noteq> [] \<Longrightarrow> b_separator b = None \<Longrightarrow> block_shape (last blocks) \<noteq> block_shape b) \<Longrightarrow>
     settled (rows @ b_rows b) (blocks @ [b])"
  by (simp add: settled_def parted_snoc)

lemma flush_settles:
  assumes "grouped rows blocks current shape next"
  shows "\<exists>bs. flush_group sep (blocks, current, shape, next) = (bs, [], None, sep) \<and> settled rows bs \<and>
    (\<forall>sh. shape = Some sh \<longrightarrow> bs \<noteq> [] \<and> block_shape (last bs) = sh) \<and> (shape = None \<longrightarrow> bs = blocks)"
proof (cases shape)
  case None
  then show ?thesis using assms by (auto simp: grouped_def flush_group_def)
next
  case (Some sh)
  with assms obtain dn where s: "settled dn blocks" "rows = dn @ current" "current \<noteq> []"
    "\<forall>r \<in> set current. row_shape r = sh"
    "blocks \<noteq> [] \<longrightarrow> next = None \<longrightarrow> block_shape (last blocks) \<noteq> sh"
    by (auto simp: grouped_def)
  let ?b = "\<lparr>b_rows = current, b_separator = next\<rparr>"
  have b: "block_shape ?b = sh" "uniform ?b" using s by (auto simp: block_shape_def uniform_def)
  have "settled (dn @ b_rows ?b) (blocks @ [?b])" using s b by (intro settled_snoc) auto
  then show ?thesis using s b Some by (simp add: flush_group_def)
qed

lemma group_entry_grouped:
  assumes g: "grouped rows blocks current shape next"
    and step: "group_entry e (blocks, current, shape, next) = (bs, cur, sh, nx)"
  shows "grouped (rows @ entry_rows e) bs cur sh nx"
proof (cases e)
  case (Entry_Separator sz)
  with step g show ?thesis
    using flush_settles [OF g, of "Some sz"] by (auto simp: group_entry_def grouped_def)
next
  case (Entry_Row r)
  show ?thesis
  proof (cases "shape = None \<or> shape = Some (row_shape r)")
    case True
    then show ?thesis
      using step g Entry_Row by (auto simp: group_entry_def grouped_def Let_def split: option.splits)
  next
    case False
    then obtain old where "shape = Some old" "old \<noteq> row_shape r" by (cases shape) auto
    then show ?thesis
      using step Entry_Row flush_settles [OF g, of None]
      by (auto simp: group_entry_def grouped_def Let_def)
  qed
qed

lemma group_fold_grouped:
  "grouped rows blocks current shape next \<Longrightarrow>
   fold group_entry es (blocks, current, shape, next) = (bs, cur, sh, nx) \<Longrightarrow>
   grouped (rows @ rows_of es) bs cur sh nx"
proof (induction es arbitrary: rows blocks current shape "next")
  case (Cons e es)
  obtain b1 c1 s1 n1 where st: "group_entry e (blocks, current, shape, next) = (b1, c1, s1, n1)"
    using prod_cases4 by blast
  from Cons.IH [OF group_entry_grouped [OF Cons.prems(1) st]] Cons.prems(2) st show ?case
    by (simp add: rows_of_def)
qed (simp add: rows_of_def)

lemma grouping_settles: "settled (rows_of es) (group_rows_into_blocks es)"
proof -
  obtain bs cur sh nx where st: "fold group_entry es ([], [], None, None) = (bs, cur, sh, nx)"
    using prod_cases4 by blast
  have "grouped [] [] [] None None" by (simp add: grouped_def settled_def)
  from flush_settles [OF group_fold_grouped [OF this st], of None] obtain bs'
    where fl: "flush_group None (bs, cur, sh, nx) = (bs', [], None, None)"
      and se: "settled ([] @ rows_of es) bs'" by blast
  have "group_rows_into_blocks es = bs'" unfolding group_rows_into_blocks_def st fl by simp
  with se show ?thesis by simp
qed

section \<open>Separators\<close>

lemma normalize_rows:
  "fold normalize_entry es (out, p) = (out', p') \<Longrightarrow> rows_of out' = rows_of out @ rows_of es"
proof (induction es arbitrary: out p)
  case (Cons e es)
  obtain o1 p1 where st: "normalize_entry e (out, p) = (o1, p1)" by force
  then have "rows_of o1 = rows_of out @ entry_rows e"
    by (cases e; cases p) (auto simp: normalize_entry_def rows_of_def split: if_splits)
  with Cons st show ?case by (simp add: rows_of_def)
qed (simp add: rows_of_def)

fun spaced :: "entry list \<Rightarrow> bool" where
  "spaced [] = True"
| "spaced [Entry_Row _] = True"
| "spaced (Entry_Row _ # es) = spaced es"
| "spaced [Entry_Separator _] = False"
| "spaced (Entry_Separator _ # Entry_Separator _ # es) = False"
| "spaced (Entry_Separator _ # Entry_Row r # es) = spaced (Entry_Row r # es)"

lemma spaced_Row: "spaced (Entry_Row r # es) = spaced es"
  by (cases es) auto

lemma spaced_snoc_row: "spaced es \<Longrightarrow> spaced (es @ [Entry_Row r])"
  by (induction es rule: spaced.induct) (auto simp: spaced_Row)

lemma spaced_snoc_rule: "spaced es \<Longrightarrow> es \<noteq> [] \<Longrightarrow> spaced (es @ [Entry_Separator sz, Entry_Row r])"
  by (induction es rule: spaced.induct) (auto simp: spaced_Row)

lemma normalize_spaced:
  "spaced out \<and> (out \<noteq> [] \<longrightarrow> (\<exists>r. hd out = Entry_Row r)) \<Longrightarrow> fold normalize_entry es (out, p) = (out', p') \<Longrightarrow>
   spaced out' \<and> (out' \<noteq> [] \<longrightarrow> (\<exists>r. hd out' = Entry_Row r))"
proof (induction es arbitrary: out p)
  case (Cons e es)
  obtain o1 p1 where st: "normalize_entry e (out, p) = (o1, p1)" by force
  have "spaced o1 \<and> (o1 \<noteq> [] \<longrightarrow> (\<exists>r. hd o1 = Entry_Row r))"
    using st Cons.prems(1)
    by (cases e; cases p)
      (auto simp: normalize_entry_def spaced_snoc_row spaced_snoc_rule hd_append split: if_splits)
  with Cons st show ?case by simp
qed simp

text \<open>A rule stands between two rows only: none first, none last, no two next to each other.\<close>

definition rules_between :: "entry list \<Rightarrow> bool" where
  "rules_between es \<longleftrightarrow> (es \<noteq> [] \<longrightarrow> (\<exists>r. hd es = Entry_Row r)) \<and> spaced es"

text \<open>Of the rules asked for between two rows the biggest is drawn.\<close>

definition rule_of :: "separator_size list \<Rightarrow> entry list" where
  "rule_of szs = (if szs = [] then [] else [Entry_Separator (if Sep_Big \<in> set szs then Sep_Big else Sep_Small)])"

lemma pending_rules:
  "fold normalize_entry (map Entry_Separator szs) (out, p) =
     (out, if p = Some Sep_Big \<or> Sep_Big \<in> set szs then Some Sep_Big
           else if szs = [] then p else Some Sep_Small)"
proof (induction szs arbitrary: p)
  case (Cons sz szs)
  then show ?case
    by (cases sz; cases p; cases "the p") (auto simp: normalize_entry_def)
qed simp

lemma normalize_after:
  "out \<noteq> [] \<Longrightarrow> fst (fold normalize_entry es (lead @ out, p)) = lead @ fst (fold normalize_entry es (out, p))"
proof (induction es arbitrary: out p)
  case (Cons e es)
  obtain o1 p1 where st: "normalize_entry e (out, p) = (o1, p1)" by force
  then have "o1 \<noteq> []" "normalize_entry e (lead @ out, p) = (lead @ o1, p1)"
    using Cons.prems by (auto simp: normalize_entry_def split: entry.splits option.splits)
  with Cons.IH [of o1 p1] st show ?case by simp
qed simp

lemma normalize_gap:
  "normalize_separators (before @ Entry_Row r # map Entry_Separator szs @ Entry_Row r' # after) =
     normalize_separators (before @ [Entry_Row r]) @ rule_of szs @ normalize_separators (Entry_Row r' # after)"
proof -
  obtain out p where st: "fold normalize_entry before ([], None) = (out, p)" by force
  define o1 where "o1 = fst (normalize_entry (Entry_Row r) (out, p))"
  have o1: "normalize_entry (Entry_Row r) (out, p) = (o1, None)" "o1 \<noteq> []"
    by (simp_all add: o1_def normalize_entry_def)
  have "fst (fold normalize_entry after (o1 @ rule_of szs @ [Entry_Row r'], None)) =
      (o1 @ rule_of szs) @ fst (fold normalize_entry after ([Entry_Row r'], None))"
    using normalize_after [of "[Entry_Row r']" after "o1 @ rule_of szs"] by simp
  moreover have "normalize_entry (Entry_Row r') (fold normalize_entry (map Entry_Separator szs) (o1, None)) =
      (o1 @ rule_of szs @ [Entry_Row r'], None)"
    using o1(2) by (simp add: pending_rules rule_of_def normalize_entry_def)
  ultimately show ?thesis
    by (simp add: normalize_separators_def st o1(1)) (simp add: normalize_entry_def)
qed

section \<open>Properties\<close>

text \<open>
  C24. Functional. The width of a line in the tooltip and the vertical panel, for every row that is not
  two pairs: a row of two or more cells whose last is right-aligned, with or without a centred middle, is
  exactly as wide as the width all blocks share and ends with the value; a row of one cell is as wide as
  the cell, also when the cell is right-aligned, and a title rule is one column; any other row takes the
  columns of its block. No line but a title rule is wider than the shared width, which is at least the
  requested minimum. Hypotheses on the cells: their text closes its tags and entities, their classes
  hold no \<open>>\<close>, and a layout width, where given, is the width the text shows.
\<close>

theorem lines_fill_the_width:
  assumes "b \<in> set blocks" "r \<in> set (b_rows b)" "\<forall>c \<in> set r. cell_ok c" "\<not> is_two_pair r"
    and line: "line = emit_plan (plan_row r (column_widths b) (block_value_column_width b)) (global_width_of blocks m)"
  shows "visible_width line =
      (if length r = 1 then (if is_title_rule (r ! 0) then 1 else cell_width (r ! 0))
       else if r \<noteq> [] \<and> c_align (last r) = Align_Right then global_width_of blocks m
       else sum_list (take (length r) (column_widths b))) \<and>
    (2 \<le> length r \<and> c_align (last r) = Align_Right \<longrightarrow> (\<exists>lead. line = lead @ cell_span (last r) @ lit ''</div>'')) \<and>
    (\<not> (length r = 1 \<and> is_title_rule (r ! 0)) \<longrightarrow> visible_width line \<le> global_width_of blocks m) \<and>
    m \<le> global_width_of blocks m"
proof -
  have width: "visible_width line = line_width (global_width_of blocks m) (column_widths b) r"
    unfolding line by (rule line_of_width [OF assms(1-3)])
  moreover have "\<not> (length r = 1 \<and> is_title_rule (r ! 0)) \<longrightarrow> visible_width line \<le> global_width_of blocks m"
    unfolding width using line_within [OF assms(1-4)] by blast
  moreover have "2 \<le> length r \<and> c_align (last r) = Align_Right \<longrightarrow> (\<exists>lead. line = lead @ cell_span (last r) @ lit ''</div>'')"
    using value_closes [of r b] assms(4) by (simp add: line ends_right_def)
  ultimately show ?thesis
    using assms(4) min_le_global by (simp add: line_width_def)
qed

definition sample_row :: row where
  "sample_row = [cell_new (escape_html (lit ''A&B'')), value_cell (lit ''42%'') None None 0]"

lemma sample_ok: "\<forall>c \<in> set sample_row. cell_ok c" "ends_right sample_row"
proof -
  have "whole (lit ''42%'')" by (rule plain_text [THEN conjunct1]) (simp_all add: lit_def)
  moreover have "62 \<notin> set (push_class None (lit ''val''))" by (simp add: push_class_def lit_def)
  ultimately show "\<forall>c \<in> set sample_row. cell_ok c"
    by (simp add: sample_row_def cell_ok_def cell_new_def value_cell_def escaped_whole Let_def)
  show "ends_right sample_row"
    by (simp add: sample_row_def ends_right_def is_two_pair_def value_cell_def cell_new_def Let_def)
qed

theorem lines_fill_the_width_witness:
  "let b = \<lparr>b_rows = [sample_row], b_separator = None\<rparr> in
     visible_width (emit_plan (plan_row sample_row (column_widths b) (block_value_column_width b))
       (global_width_of [b] 20)) = global_width_of [b] 20"
  using lines_fill_the_width [OF _ _ sample_ok(1) _ refl, of "\<lparr>b_rows = [sample_row], b_separator = None\<rparr>"
      "[\<lparr>b_rows = [sample_row], b_separator = None\<rparr>]" 20] sample_ok(2)
  by (auto simp: ends_right_def Let_def)

text \<open>
  C25. Functional. The shared width covers the four cells of a line of two label and value pairs, but
  each pair gets half of it, and the line is wider than the shared width by what each pair needs beyond
  its half; so it is exactly as wide as the shared width when, and only when, both pairs fit their
  halves. Hypotheses on the cells: their text closes its tags and entities, their classes hold no
  \<open>>\<close>, and a layout width, where given, is the width the text shows.
\<close>

theorem two_pairs_fit_iff_halves_do:
  assumes "b \<in> set blocks" "r \<in> set (b_rows b)" "\<forall>c \<in> set r. cell_ok c" "is_two_pair r"
    and "width = global_width_of blocks m"
    and "line = emit_plan (plan_row r (column_widths b) (block_value_column_width b)) width"
  shows "cell_width (r ! 0) + cell_width (r ! 1) + cell_width (r ! 2) + cell_width (r ! 3) \<le> width \<and>
         visible_width line = width + (cell_width (r ! 0) + cell_width (r ! 1) - width div 2)
           + (cell_width (r ! 2) + cell_width (r ! 3) - (width - width div 2)) \<and>
         (visible_width line = width \<longleftrightarrow>
            cell_width (r ! 0) + cell_width (r ! 1) \<le> width div 2 \<and>
            cell_width (r ! 2) + cell_width (r ! 3) \<le> width - width div 2)"
proof -
  have four: "length r = 4" using assms(4) by (simp add: is_two_pair_def)
  note plan = two_pair_plan [OF assms(4) four, of b]
  obtain l1 v1 l2 v2 where r: "r = [l1, v1, l2, v2]"
    using four by (auto simp: length_Suc_conv numeral_eq_Suc)
  have sum: "cell_width l1 + cell_width v1 + cell_width l2 + cell_width v2 \<le> width"
    using row_plan_fits [OF assms(1,2), of m] by (simp add: plan assms(5)) (simp add: r)
  have halves: "max h x + max (g - h) y = g + (x - h) + (y - (g - h))" if "h \<le> g" for g h x y :: nat
    using that by linarith
  have wide: "visible_width line = width + (cell_width l1 + cell_width v1 - width div 2)
      + (cell_width l2 + cell_width v2 - (width - width div 2))"
    unfolding assms(6) two_pair_line [OF assms(3) plan] by (simp add: r halves)
  show ?thesis
    using sum by (auto simp: wide r)
qed

definition sample_pairs :: row where
  "sample_pairs = render_two_pair_row (cell_new (lit ''processor'')) (value_cell (lit ''99'') None None 0)
     (cell_new (lit ''m'')) (value_cell (lit ''1'') None None 0)"

text \<open>The pairs need 13 columns and share 13, yet the line takes 18.\<close>

lemma sample_pairs_ok: "\<forall>c \<in> set sample_pairs. cell_ok c" "is_two_pair sample_pairs"
proof -
  have "whole (lit ''processor'')" "whole (lit ''99'')" "whole (lit ''m'')" "whole (lit ''1'')"
    by (rule plain_text [THEN conjunct1]; simp add: lit_def)+
  moreover have "62 \<notin> set (push_class None (lit ''val''))" by (simp add: push_class_def lit_def)
  ultimately show "\<forall>c \<in> set sample_pairs. cell_ok c"
    by (simp add: sample_pairs_def render_two_pair_row_def cell_ok_def cell_new_def value_cell_def Let_def)
  show "is_two_pair sample_pairs"
    by (simp add: sample_pairs_def render_two_pair_row_def is_two_pair_def value_cell_def cell_new_def Let_def)
qed

theorem two_pairs_fit_iff_halves_do_witness:
  "let b = \<lparr>b_rows = [sample_pairs], b_separator = None\<rparr> in
     global_width_of [b] 0 = 13 \<and>
     visible_width (emit_plan (plan_row sample_pairs (column_widths b) (block_value_column_width b))
       (global_width_of [b] 0)) \<noteq> global_width_of [b] 0"
proof -
  let ?b = "\<lparr>b_rows = [sample_pairs], b_separator = None\<rparr>"
  have w: "map cell_width sample_pairs = [9, 2, 1, 1]"
    by (simp add: sample_pairs_def render_two_pair_row_def cell_width_def cell_new_def value_cell_def
        visible_width_def lit_def Let_def)
  have "length sample_pairs = 4" using sample_pairs_ok by (simp add: is_two_pair_def)
  then have g: "global_width_of [?b] 0 = 13"
    using two_pair_plan [OF sample_pairs_ok(2)] w by (simp add: global_width_of_def block_plans_def)
  have "cell_width (sample_pairs ! 0) = 9" "cell_width (sample_pairs ! 1) = 2"
    using w by (simp_all add: sample_pairs_def render_two_pair_row_def)
  then show ?thesis
    using two_pairs_fit_iff_halves_do [of ?b "[?b]" sample_pairs 13 0] sample_pairs_ok g by (simp add: Let_def)
qed

text \<open>
  C26. Invariant. Removing superfluous separators and grouping keep every row, in order; every block has
  rows and all its rows have one shape of cell roles; two neighbouring blocks of one shape have a rule
  between them. After the removal no rule stands first or last and no two stand next to each other: of
  the rules asked for between two rows exactly one is left, a big one if any of them is big.
\<close>

theorem rows_kept_in_blocks:
  "concat (map b_rows (group_rows_into_blocks (normalize_separators es))) = rows_of es \<and>
   list_all uniform (group_rows_into_blocks (normalize_separators es)) \<and>
   parted (group_rows_into_blocks (normalize_separators es)) \<and>
   rules_between (normalize_separators es) \<and>
   normalize_separators (before @ Entry_Row r # map Entry_Separator szs @ Entry_Row r' # after) =
     normalize_separators (before @ [Entry_Row r]) @ rule_of szs @ normalize_separators (Entry_Row r' # after)"
proof -
  obtain out p where st: "fold normalize_entry es ([], None) = (out, p)" by force
  have "rows_of out = rows_of es" using normalize_rows [OF st] by (simp add: rows_of_def)
  moreover have "rules_between out" using normalize_spaced [OF _ st] by (simp add: rules_between_def)
  moreover have "settled (rows_of out) (group_rows_into_blocks out)" by (rule grouping_settles)
  moreover have "normalize_separators es = out" by (simp add: normalize_separators_def st)
  ultimately show ?thesis
    using normalize_gap by (simp add: settled_def list_all_iff)
qed

text \<open>
  Equivalence. The serializer lays every line out at the width \<open>global_width_of\<close> reports for the
  same blocks, a rule before each block that asks for one.
\<close>

theorem rendered_at_reported_width:
  "render_blocks_monospace blocks m =
     concat (map (\<lambda>b. (case b_separator b of Some sz \<Rightarrow> separator_rule_html sz | None \<Rightarrow> []) @
       concat (map (\<lambda>r. emit_plan (plan_row r (column_widths b) (block_value_column_width b))
         (global_width_of blocks m)) (b_rows b))) blocks)"
  by (rule rendered_width)

text \<open>
  Functional. Escaped text shows exactly its characters: after \<open>escape_html\<close> the visible width
  of any text, markup included, is the number of its characters.
\<close>

theorem escaped_text_width: "visible_width (escape_html t) = length t"
  by (rule escaped_width)

text \<open>
  Functional. A row of the horizontal panel takes the footprint of each cell, its minimum width
  or its padded text, whichever is larger, and one column between two cells.
\<close>

theorem inline_row_footprint:
  assumes "\<forall>c \<in> set r. cell_ok c"
  shows "visible_width (render_row_inline r) =
    sum_list (map (\<lambda>c. max (c_min_width c) (c_pad_left c + visible_width (c_text c) + c_pad_right c)) r)
      + (length r - 1)"
proof -
  have "visible_width (render_row_inline r) = sum_list (map visible_width (map inline_cell r)) + (length r - 1)"
    using join_width [of "map inline_cell r" "lit ''<span class=\"gap\">&nbsp;</span>''"] assms
      inline_cell_width gap_span by (auto simp: render_row_inline_def)
  also have "map visible_width (map inline_cell r) =
      map (\<lambda>c. max (c_min_width c) (c_pad_left c + visible_width (c_text c) + c_pad_right c)) r"
    using assms inline_cell_width by simp
  finally show ?thesis .
qed

theorem inline_row_footprint_witness:
  "visible_width (render_row_inline sample_row) =
    sum_list (map (\<lambda>c. max (c_min_width c) (c_pad_left c + visible_width (c_text c) + c_pad_right c)) sample_row)
      + 1"
  using inline_row_footprint [OF sample_ok(1)] by (simp add: sample_row_def)

text \<open>
  Bounds. A shortened name keeps to its limit, with its first and last characters, and a disk
  label to twelve characters.
\<close>

theorem short_names_bounded:
  "length (middle_ellipsis t n) = (if length t \<le> n then length t else max 1 n) \<and>
   length (disk_label t) \<le> DISK_LABEL_MAX"
proof -
  have "length (upper_first u) = length u" for u by (simp add: upper_first_def split: list.split)
  then show ?thesis
    by (auto simp: middle_ellipsis_def disk_label_def DISK_LABEL_MAX_def lit_def Let_def)
qed

end
