(* ===== verification/TraceProps.thy ===== *)
theory TraceProps
  imports Traces LayoutProps
begin

text \<open>
  The traces have a fixed width whatever the readings are, and plain texts, on which the formatter
  rests.
\<close>

section \<open>Plain texts\<close>

text \<open>A plain text holds no markup: neither \<open><\<close> nor \<open>&\<close>.\<close>

definition plain :: "utext \<Rightarrow> bool" where
  "plain t \<longleftrightarrow> 60 \<notin> set t \<and> 38 \<notin> set t"

lemma plain_whole: "plain t \<Longrightarrow> whole t"
  using plain_text by (simp add: plain_def)

lemma plain_width: "plain t \<Longrightarrow> visible_width t = length t"
  using plain_text by (simp add: plain_def)

lemma plain_simps [simp]:
  "plain []" "plain (c # t) \<longleftrightarrow> c \<noteq> 60 \<and> c \<noteq> 38 \<and> plain t" "plain (s @ t) \<longleftrightarrow> plain s \<and> plain t"
  by (auto simp: plain_def)

lemma plain_replicate [simp]: "c \<noteq> 60 \<Longrightarrow> c \<noteq> 38 \<Longrightarrow> plain (replicate n c)"
  by (auto simp: plain_def)

lemma nat_text_plain [simp]: "plain (nat_text n)" "62 \<notin> set (nat_text n)"
  using nat_text_digits by (fastforce simp: plain_def)+

lemma int_text_plain [simp]: "plain (int_text v)" "62 \<notin> set (int_text v)"
  by (auto simp: int_text_def)

text \<open>A span whose attributes hold no \<open>>\<close> adds nothing to the width of its text.\<close>

lemma span_tag:
  assumes "62 \<notin> set (attributes)" "whole t"
  shows "whole (lit ''<span'' @ attributes @ lit ''>'' @ t @ lit ''</span>'' @ ys) \<longleftrightarrow> whole ys"
    and "visible_width (lit ''<span'' @ attributes @ lit ''>'' @ t @ lit ''</span>'' @ ys) =
      visible_width t + visible_width ys"
proof -
  have eq: "lit ''<span'' @ attributes @ lit ''>'' @ t @ lit ''</span>'' @ ys =
      60 # (lit ''span'' @ attributes) @ 62 # (t @ lit ''</span>'' @ ys)"
    by (simp add: lit_def)
  have a: "lit ''span'' @ attributes \<noteq> []" "62 \<notin> set (lit ''span'' @ attributes)"
    using assms(1) by (auto simp: lit_def)
  show "whole (lit ''<span'' @ attributes @ lit ''>'' @ t @ lit ''</span>'' @ ys) \<longleftrightarrow> whole ys"
    unfolding eq open_tag(1) [OF a] using assms(2) by simp
  show "visible_width (lit ''<span'' @ attributes @ lit ''>'' @ t @ lit ''</span>'' @ ys) =
      visible_width t + visible_width ys"
    unfolding eq open_tag(2) [OF a] using assms(2) by simp
qed

lemma lit_append: "lit (s @ t) = lit s @ lit t"
  by (simp add: lit_def)

lemma css_class_plain [simp]: "62 \<notin> set (css_class_from_thresholds v t)"
  by (cases t) (simp add: css_class_from_thresholds_def css_band_def lit_def)

lemma font_style_plain [simp]: "62 \<notin> set (font_size_style h)"
  by (auto simp: font_size_style_def lit_def)

lemma gradient_plain [simp]: "62 \<notin> set (lit (gradient_prefix m))"
  by (cases m) (simp_all add: lit_def)

lemma ramp_plain [simp]: "block_ramp_at i \<noteq> 60" "block_ramp_at i \<noteq> 38"
proof -
  have "set BLOCK_RAMP \<subseteq> {9601..9608}" by (simp add: BLOCK_RAMP_def)
  moreover have "block_ramp_at i \<in> set BLOCK_RAMP"
    unfolding block_ramp_at_def by (rule nth_mem) (simp add: BLOCK_RAMP_def min_def)
  ultimately show "block_ramp_at i \<noteq> 60" "block_ramp_at i \<noteq> 38" by auto
qed

section \<open>Bars, columns and sparklines\<close>

lemma bar_whole:
  "whole (bar_html cfg val t tooltip)"
  "visible_width (bar_html cfg (Some w) t tooltip) =
     nat (max (bar_width (if tooltip then cf_bar_tooltip cfg else cf_bar_panel cfg)) 0)"
proof -
  have "whole (bar_html cfg (Some v) t tooltip) \<and> visible_width (bar_html cfg (Some v) t tooltip) =
     nat (max (bar_width (if tooltip then cf_bar_tooltip cfg else cf_bar_panel cfg)) 0)" for v
  proof -
    define bar where "bar = (if tooltip then cf_bar_tooltip cfg else cf_bar_panel cfg)"
    define fill where "fill = nat (int_clamp 0 (bar_width bar) (tdiv (v * bar_width bar) 100))"
    define a where "a = lit '' class=\"bar-'' @ css_class_from_thresholds v t @ lit ''\"'' @ font_size_style (bar_height bar)"
    define e where "e = lit '' class=\"bar-empty\"'' @ font_size_style (bar_height bar)"
    have at: "62 \<notin> set a" "62 \<notin> set e" by (auto simp: a_def e_def lit_def)
    have chars: "plain (replicate n BAR_FILL_CHAR)" "plain (replicate n BAR_EMPTY_CHAR)" for n
      by (simp_all add: BAR_FILL_CHAR_def BAR_EMPTY_CHAR_def)
    note spans = span_tag [OF at(2) plain_whole [OF chars(2)], of _ "[]"]
      span_tag [OF at(1) plain_whole [OF chars(1)]]
    show ?thesis
    proof (cases "bar_width bar \<le> 0")
      case True
      then show ?thesis by (simp add: bar_html_def bar_def Let_def)
    next
      case False
      have le: "fill \<le> nat (bar_width bar)" using False by (auto simp: fill_def int_clamp_def intro: nat_mono)
      have eq: "bar_html cfg (Some v) t tooltip =
          lit ''<span'' @ a @ lit ''>'' @ replicate fill BAR_FILL_CHAR @ lit ''</span>'' @
          lit ''<span'' @ e @ lit ''>'' @ replicate (nat (bar_width bar) - fill) BAR_EMPTY_CHAR @ lit ''</span>'' @ []"
        using False by (simp add: bar_html_def bar_def [symmetric] a_def e_def fill_def Let_def lit_def)
      show ?thesis
        using False le unfolding eq spans by (simp add: spans plain_width [OF chars(1)] plain_width [OF chars(2)] flip: bar_def)
    qed
  qed
  note some = this
  show "whole (bar_html cfg val t tooltip)"
    using some by (cases val) (simp_all, simp add: bar_html_def)
  show "visible_width (bar_html cfg (Some w) t tooltip) =
     nat (max (bar_width (if tooltip then cf_bar_tooltip cfg else cf_bar_panel cfg)) 0)"
    using some by blast
qed

lemma column_whole:
  "whole (column_html cfg val t)"
  "visible_width (column_html cfg (Some w) t) = nat (max (column_width (cf_column_panel cfg)) 1)"
proof -
  have "whole (column_html cfg (Some v) t) \<and>
    visible_width (column_html cfg (Some v) t) = nat (max (column_width (cf_column_panel cfg)) 1)" for v
  proof -
    define a where "a = lit '' class=\"bar-'' @ css_class_from_thresholds v t @ lit ''\"''
      @ font_size_style (column_height (cf_column_panel cfg))"
    define n where "n = nat (max (column_width (cf_column_panel cfg)) 1)"
    define i where "i = nat (int_clamp 0 7 (tdiv (v * 8) 100))"
    have at: "62 \<notin> set a" by (auto simp: a_def lit_def)
    have chars: "plain (replicate n (block_ramp_at i))" by simp
    have eq: "column_html cfg (Some v) t =
        lit ''<span'' @ a @ lit ''>'' @ replicate n (block_ramp_at i) @ lit ''</span>'' @ []"
      by (simp add: column_html_def a_def n_def i_def Let_def lit_def)
    show ?thesis
      unfolding eq span_tag [OF at plain_whole [OF chars]] using plain_width [OF chars] by (simp add: n_def)
  qed
  note some = this
  show "whole (column_html cfg val t)"
    using some by (cases val) (simp_all, simp add: column_html_def)
  show "visible_width (column_html cfg (Some w) t) = nat (max (column_width (cf_column_panel cfg)) 1)"
    using some by blast
qed

lemma mark_span:
  assumes "62 \<notin> set css" "c \<noteq> 60" "c \<noteq> 38"
  shows "whole (lit ''<span class=\"'' @ css @ lit ''\">'' @ [c] @ lit ''</span>'')"
    and "visible_width (lit ''<span class=\"'' @ css @ lit ''\">'' @ [c] @ lit ''</span>'') = 1"
proof -
  have c: "whole [c]" "visible_width [c] = 1" using assms by (simp_all add: plain_char)
  then show "whole (lit ''<span class=\"'' @ css @ lit ''\">'' @ [c] @ lit ''</span>'')"
    and "visible_width (lit ''<span class=\"'' @ css @ lit ''\">'' @ [c] @ lit ''</span>'') = 1"
    unfolding class_tag [OF assms(1)] whole_append [OF c(1)] width_append [OF c(1)] c(2) by simp_all
qed

lemma spark_mark_whole: "whole (spark_mark t v)" "visible_width (spark_mark t v) = 1"
proof -
  have eq: "spark_mark t v = lit ''<span class=\"'' @ (lit ''bar-'' @ css_class_from_thresholds v t) @ lit ''\">''
      @ [block_ramp_at (nat (int_clamp 0 7 (tdiv (v * 8) 100)))] @ lit ''</span>''"
    by (simp add: spark_mark_def Let_def lit_def)
  have css: "62 \<notin> set (lit ''bar-'' @ css_class_from_thresholds v t)" by (auto simp: lit_def)
  show "whole (spark_mark t v)" "visible_width (spark_mark t v) = 1"
    unfolding eq using mark_span [OF css] by simp_all
qed

lemma length_history_tail [simp]: "length (history_tail h k) = min (length h) k"
  by (simp add: history_tail_def)

lemma spark_whole:
  "whole (spark_html cfg history m tooltip)"
  "visible_width (spark_html cfg (Some h) m tooltip) = spark_length m cfg tooltip"
proof -
  have "whole (spark_html cfg (Some h) m tooltip) \<and>
      visible_width (spark_html cfg (Some h) m tooltip) = spark_length m cfg tooltip" for h
  proof -
    define k where "k = spark_length m cfg tooltip"
    define recent where "recent = history_tail h k"
    define missing where "missing = k - length recent"
    define lead where "lead = (if 0 < missing
      then lit ''<span class=\"spark-empty\">'' @ replicate missing (BLOCK_RAMP ! 0) @ lit ''</span>'' else [])"
    define marks where "marks = map (spark_mark (spark_thresholds m cfg)) recent"
    have chars: "plain (replicate missing (BLOCK_RAMP ! 0))" by (simp add: BLOCK_RAMP_def)
    have tag: "lit ''<span class=\"spark-empty\">'' @ t = lit ''<span class=\"'' @ lit ''spark-empty'' @ lit ''\">'' @ t" for t
      by (simp add: lit_def)
    have css: "62 \<notin> set (lit ''spark-empty'')" by (simp add: lit_def)
    have lead: "whole lead \<and> visible_width lead = missing"
      using plain_whole [OF chars] plain_width [OF chars] by (simp add: lead_def tag class_tag [OF css])
    have marks: "\<forall>x \<in> set marks. whole x" "map visible_width marks = replicate (length recent) 1"
      by (auto simp: marks_def spark_mark_whole map_replicate_const [symmetric] comp_def)
    have "length recent \<le> k" by (simp add: recent_def)
    moreover have "spark_html cfg (Some h) m tooltip = lead @ concat marks"
      by (simp add: spark_html_def Let_def k_def recent_def missing_def lead_def marks_def)
    ultimately show ?thesis
      using lead marks whole_concat [OF marks(1)] width_concat [OF marks(1)]
      by (simp add: missing_def k_def sum_list_replicate)
  qed
  note some = this
  show "whole (spark_html cfg history m tooltip)"
    using some by (cases history) (simp_all, simp add: spark_html_def)
  show "visible_width (spark_html cfg (Some h) m tooltip) = spark_length m cfg tooltip"
    using some by blast
qed

section \<open>Braille\<close>

lemma or_bits_range:
  fixes code :: nat
  shows "code \<in> {10240..10495} \<Longrightarrow> set bits \<subseteq> {0..255} \<Longrightarrow> fold (\<lambda>bit c. c OR bit) bits code \<in> {10240..10495}"
proof (induction bits arbitrary: code)
  case (Cons b bits)
  have b: "b < 2 ^ 8" using Cons.prems by auto
  have code: "code div 256 = 40" using Cons.prems by auto
  have "(code OR b) div 2 ^ 8 = (code div 2 ^ 8) OR (b div 2 ^ 8)"
    by (simp only: drop_bit_or flip: drop_bit_eq_div)
  then have "(code OR b) div 256 = 40" using b code by simp
  then have "code OR b \<in> {10240..10495}" by auto
  with Cons show ?case by simp
qed simp

lemma braille_char_range: "braille_char left right \<in> {10240..10495}"
proof -
  let ?add = "\<lambda>bits v code. case v of None \<Rightarrow> code
    | Some v \<Rightarrow> fold (\<lambda>bit code. code OR bit) (take (braille_level v) bits) code"
  have add: "code \<in> {10240..10495} \<Longrightarrow> set bits \<subseteq> {0..255} \<Longrightarrow> ?add bits v code \<in> {10240..10495}"
    for bits :: "nat list" and v code
  proof (cases v)
    case (Some x)
    assume "code \<in> {10240..10495}" "set bits \<subseteq> {0..255}"
    then show ?thesis
      using or_bits_range [of code "take (braille_level x) bits"] set_take_subset [of _ bits] Some by auto
  qed simp
  have "?add BRAILLE_RIGHT_BITS right (?add BRAILLE_LEFT_BITS left BRAILLE_BLANK) \<in> {10240..10495}"
    by (intro add) (simp_all add: BRAILLE_BLANK_def BRAILLE_LEFT_BITS_def BRAILLE_RIGHT_BITS_def)
  then show ?thesis unfolding braille_char_def Let_def by (simp add: is_scalar_def BRAILLE_BLANK_def)
qed

lemma braille_mark_whole: "whole (braille_mark m p)" "visible_width (braille_mark m p) = 1"
proof -
  obtain left right where p: "p = (left, right)" by (cases p)
  have c: "braille_char left right \<noteq> 60" "braille_char left right \<noteq> 38"
    using braille_char_range [of left right] by auto
  let ?css = "lit ''grad-'' @ lit (gradient_prefix m) @ lit ''-'' @ int_text (braille_grade left right)"
  have css: "62 \<notin> set ?css" 
  proof -
    have "62 \<notin> set (lit ''grad-'')" "62 \<notin> set (lit ''-'')" by (simp_all add: lit_def)
    then show ?thesis by simp
  qed
  have eq: "braille_mark m p = (if left = None \<and> right = None then [BRAILLE_BLANK]
      else lit ''<span class=\"'' @ ?css @ lit ''\">'' @ [braille_char left right] @ lit ''</span>'')"
    by (simp add: braille_mark_def p lit_def)
  have blank: "whole [BRAILLE_BLANK]" "visible_width [BRAILLE_BLANK] = 1"
    using plain_char [of BRAILLE_BLANK] by (simp_all add: BRAILLE_BLANK_def)
  show "whole (braille_mark m p)" "visible_width (braille_mark m p) = 1"
    unfolding eq using mark_span [OF css c] blank by (simp_all only: split: if_split) blast+
qed

lemma length_chunks: "length (chunks_of_two xs) = length xs div 2"
  by (induction xs rule: chunks_of_two.induct) auto

lemma braille_whole:
  "whole (braille_html cfg history m tooltip chars)"
  "(case chars of Some n \<Rightarrow> n | None \<Rightarrow> braille_length m cfg tooltip) * BRAILLE_LENGTH_MULTIPLIER \<le> u64_max \<Longrightarrow>
     visible_width (braille_html cfg (Some h) m tooltip chars) =
       (case chars of Some n \<Rightarrow> n | None \<Rightarrow> braille_length m cfg tooltip)"
proof -
  have marks: "\<forall>x \<in> set (map (braille_mark m) ps). whole x"
    and widths: "visible_width (concat (map (braille_mark m) ps)) = length ps" for ps
  proof -
    show w: "\<forall>x \<in> set (map (braille_mark m) ps). whole x" by (simp add: braille_mark_whole)
    have "map (\<lambda>x. visible_width (braille_mark m x)) ps = replicate (length ps) 1"
      by (simp add: braille_mark_whole map_replicate_const)
    then show "visible_width (concat (map (braille_mark m) ps)) = length ps"
      using width_concat [OF w] by (simp add: comp_def sum_list_replicate)
  qed
  show "whole (braille_html cfg history m tooltip chars)"
    by (cases history) (simp_all add: braille_html_def Let_def whole_concat [OF marks])
  let ?n = "case chars of Some n \<Rightarrow> n | None \<Rightarrow> braille_length m cfg tooltip"
  assume k: "?n * BRAILLE_LENGTH_MULTIPLIER \<le> u64_max"
  have "length (chunks_of_two (let p = replicate (?n * 2 - length (history_tail h (?n * 2))) None
      @ map Some (history_tail h (?n * 2)) in if odd (length p) then None # p else p)) = ?n"
    by (simp add: length_chunks Let_def min_def)
  then show "visible_width (braille_html cfg (Some h) m tooltip chars) = ?n"
    using k by (simp add: braille_html_def BRAILLE_LENGTH_MULTIPLIER_def Let_def widths min_def)
qed

lemma braille_grade_range: "0 \<le> braille_grade left right \<and> braille_grade left right \<le> 7"
  by (cases left; cases right)
    (auto simp: braille_grade_def Let_def BRAILLE_GRADES_def List.map_filter_simps int_clamp_def)

section \<open>Properties\<close>

text \<open>
  C27. Bounds. A trace takes the width the configuration gives it, whatever it shows: for every reading a
  bar takes its width, a column its width and at least one character; for every history, however short
  or long, a sparkline and a braille trace take the length configured for their metric and surface, and
  a braille trace takes the length it is asked for where one is given. Negative widths and lengths count
  as none. All four are closed markup, also without a reading. Hypotheses: the two braille lengths, at
  two samples for each character, fit 64 bits.
\<close>

theorem traces_have_fixed_width:
  assumes "n * 2 \<le> u64_max"
    and "braille = (if tooltip then cf_braille_tooltip cfg else cf_braille_panel cfg)"
    and "spark = (if tooltip then cf_spark_tooltip cfg else cf_spark_panel cfg)"
    and "len = nat (max (case m of Trace_Cpu \<Rightarrow> braille_cpu_braille_length braille
                         | Trace_Memory \<Rightarrow> braille_mem_braille_length braille) 0)" "len * 2 \<le> u64_max"
  shows "visible_width (bar_html cfg (Some v) t tooltip) =
      nat (max (bar_width (if tooltip then cf_bar_tooltip cfg else cf_bar_panel cfg)) 0) \<and>
    visible_width (column_html cfg (Some v) t) = nat (max (column_width (cf_column_panel cfg)) 1) \<and>
    visible_width (spark_html cfg (Some h) m tooltip) =
      nat (max (case m of Trace_Cpu \<Rightarrow> spark_cpu_spark_length spark
                | Trace_Memory \<Rightarrow> spark_mem_spark_length spark) 0) \<and>
    visible_width (braille_html cfg (Some h) m tooltip None) = len \<and>
    visible_width (braille_html cfg (Some h) m tooltip (Some n)) = n \<and>
    whole (bar_html cfg reading t tooltip) \<and> whole (column_html cfg reading t) \<and>
    whole (spark_html cfg history m tooltip) \<and> whole (braille_html cfg history m tooltip chars)"
proof -
  have "braille_length m cfg tooltip = len"
    unfolding assms(2,4) braille_length_def Let_def by simp
  moreover have "spark_length m cfg tooltip = nat (max (case m of Trace_Cpu \<Rightarrow> spark_cpu_spark_length spark
                | Trace_Memory \<Rightarrow> spark_mem_spark_length spark) 0)"
    unfolding assms(3) spark_length_def Let_def by simp
  ultimately show ?thesis
    using assms(1,5) bar_whole column_whole spark_whole braille_whole(1)
      braille_whole(2) [of m cfg tooltip "Some n" h] braille_whole(2) [of m cfg tooltip None h]
    by (simp add: BRAILLE_LENGTH_MULTIPLIER_def)
qed

theorem traces_have_fixed_width_witness:
  "visible_width (braille_html config_default (Some [0, 55, 100, -3, 400]) Trace_Cpu True (Some 4)) = 4"
  using traces_have_fixed_width [of 4 _ True config_default _ _ Trace_Cpu 0 "(0, 0)" "[0, 55, 100, -3, 400]", OF _ refl refl refl]
  by (simp add: u64_max_def config_default_def braille_config_default_def)

text \<open>
  Bounds. A braille character is one of the 256 braille patterns and its colour grade one of the
  eight of the gradient, for any pair of samples, also where the products wrap around.
\<close>

theorem braille_in_range:
  "10240 \<le> braille_char left right \<and> braille_char left right \<le> 10495 \<and>
   0 \<le> braille_grade left right \<and> braille_grade left right < BRAILLE_GRADES"
  using braille_char_range [of left right] braille_grade_range [of left right]
  by (simp add: BRAILLE_GRADES_def)

end
