(* ===== verification/FormatProps.thy ===== *)
theory FormatProps
  imports Formatter TraceProps
begin

text \<open>
  The formatter on the whole: it panics exactly where a threshold list is too short, and every line of
  two or more cells it lays out has well-formed cells and the width stated for its kind.
\<close>

section \<open>Plain texts of the formatter\<close>

lemma plain_concat: "\<forall>t \<in> set ts. plain t \<Longrightarrow> plain (concat ts)"
  by (induction ts) auto

lemma plain_subset: "set s \<subseteq> insert ELLIPSIS (set t) \<Longrightarrow> plain t \<Longrightarrow> plain s"
  by (auto simp: plain_def)

lemma plain_join: "plain sep \<Longrightarrow> \<forall>t \<in> set ts. plain t \<Longrightarrow> plain (join sep ts)"
  by (induction sep ts rule: join.induct) auto

lemma whole_join: "whole sep \<Longrightarrow> \<forall>t \<in> set ts. whole t \<Longrightarrow> whole (join sep ts)"
  using join_width by blast

lemma plain_lits [simp]:
  "plain EMPTY_VALUE" "plain TEMP_SCALE" "plain (lit ''%'')" "plain (lit ''W'')" "plain (lit ''G'')"
  "plain (lit ''M'')" "plain (lit ''K'')" "plain (lit ''0'')" "plain (lit '' - '')" "plain (lit '' / '')"
  "plain (lit '' MiB'')" "plain (lit ''999999+'')" "plain (lit ''off'')" "plain (lit ''+ '')"
  "plain (lit ''.'')" "plain (lit '' W'')" "plain (lit '' MHz'')" "plain (lit '' GHz'')" "plain (lit ''Fan'')"
  "plain (lit ''Top '')" "plain (lit ''Battery '')" "plain (lit ''Ok'')" "plain (lit ''KO'')" "plain (lit ''OK'')"
  "plain (lit ''on'')" "plain (lit ''Turbo'')" "plain (lit ''Slow'')" "plain (lit ''d'')" "plain (lit ''h'')"
  "plain (lit ''m'')" "plain (lit '' rpm'')" "plain (lit ''+'')" "plain (lit ''-'')" "plain (lit ''Root'')"
  "plain (lit ''nvme'')"
  by (simp_all add: lit_def EMPTY_VALUE_def TEMP_SCALE_def)

lemma plain_texts [simp]:
  "plain (format_percent v tooltip)" "plain (temp_text v tooltip)" "plain (net_fmt n)"
  "plain (memory_mib b)" "plain (watts n)" "plain (uptime_text s)" "plain (battery_rate_text bat)"
  by (auto simp: format_percent_def temp_text_def net_fmt_def memory_mib_def watts_def uptime_text_def
      battery_rate_text_def Let_def intro!: plain_join split: battery_state.split)

lemma plain_upper [simp]: "plain t \<Longrightarrow> plain (upper_first t)"
  by (cases t) (auto simp: upper_first_def ascii_upper_def)

lemma set_trim_end: "set (trim_end P t) \<subseteq> set t"
  using set_dropWhileD by (fastforce simp: trim_end_def)

lemma set_split_on: "p \<in> set (split_on c t) \<Longrightarrow> set p \<subseteq> set t"
  by (induction c t arbitrary: p rule: split_on.induct) (fastforce split: if_splits list.splits)+

lemma plain_parts [simp]: "plain t \<Longrightarrow> plain (take n t)" "plain t \<Longrightarrow> plain (drop n t)"
  by (auto simp: plain_def dest: in_set_takeD in_set_dropD)

lemma plain_ellipsis [simp]: "plain t \<Longrightarrow> plain (middle_ellipsis t n)" "plain t \<Longrightarrow> plain (process_name n t)"
  by (simp_all add: middle_ellipsis_def process_name_def Let_def)

lemma split_on_nonempty: "split_on c t \<noteq> []"
  by (induction c t rule: split_on.induct) (auto split: list.splits)

lemma plain_disk_label [simp]: "plain t \<Longrightarrow> plain (disk_label t)"
proof -
  assume t: "plain t"
  have "set (last (split_on SLASH (trim_end (\<lambda>c. c = SLASH) t))) \<subseteq> set t"
    by (rule order_trans [OF set_split_on [OF last_in_set [OF split_on_nonempty]] set_trim_end])
  then have "plain (last (split_on SLASH (trim_end (\<lambda>c. c = SLASH) t)))"
    using t by (auto simp: plain_def)
  then show ?thesis using t by (simp add: disk_label_def Let_def)
qed

lemma plain_hd_label [simp]: "plain t \<Longrightarrow> plain (hd_label t)"
proof -
  assume t: "plain t"
  have base: "plain (trim_end P u)" if "plain u" for P u
    using that set_trim_end [of P u] by (auto simp: plain_def)
  have "plain a" if "Option.bind (strip_pre (lit ''nvme'') t) (break_at 110) = Some (a, b)" for a b
  proof -
    have "drop (length (lit ''nvme'')) t = a @ 110 # b"
      using that by (auto simp: strip_pre_def break_at_Some split: if_splits)
    moreover have "plain (drop (length (lit ''nvme'')) t)" using t by simp
    ultimately show ?thesis by simp
  qed
  then show ?thesis
    using t by (auto simp: hd_label_def Let_def intro!: plain_upper base split: option.split)
qed

section \<open>Well-formed cells\<close>

definition no_gt :: "string \<Rightarrow> bool" where "no_gt s \<longleftrightarrow> CHR ''>'' \<notin> set s"

definition form_ok :: "string option \<Rightarrow> bool" where
  "form_ok form \<longleftrightarrow> (case form of None \<Rightarrow> True | Some s \<Rightarrow> no_gt s)"

lemma lit_no_gt: "62 \<notin> set (lit s) \<longleftrightarrow> no_gt s"
proof -
  have "of_char c = (62::nat) \<longleftrightarrow> c = CHR ''>''" for c :: char
    using of_char_eq_iff [where ?'a = nat, of c "CHR ''>''"] by simp
  then show ?thesis by (auto simp: lit_def no_gt_def image_iff)
qed

lemma form_ok_simps [simp]: "form_ok None" "form_ok (Some s) \<longleftrightarrow> no_gt s"
  by (simp_all add: form_ok_def)

lemma metric_no_gt [simp]: "no_gt (metric_as_str m)"
  by (cases m) (simp_all add: no_gt_def)

lemma form_no_gt [simp]: "no_gt (form_as_str f)"
  by (cases f) (simp_all add: no_gt_def)

lemma trace_no_gt [simp]: "no_gt (usage_metric m)"
  by (cases m) (simp_all add: no_gt_def)

lemma no_gt_simps [simp]: "no_gt []" "no_gt (c # s) \<longleftrightarrow> c \<noteq> CHR ''>'' \<and> no_gt s"
  by (auto simp: no_gt_def)

declare plain_whole [simp]

definition css_ok :: "utext option \<Rightarrow> bool" where
  "css_ok css \<longleftrightarrow> (\<forall>k. css = Some k \<longrightarrow> 62 \<notin> set k)"

lemma css_ok_simps [simp]:
  "css_ok None" "css_ok (Some (css_class_from_thresholds v t))" "css_ok (css_class_active v n)"
  "css_ok (Some (css_class_battery v lo hi))" "css_ok (Some (lit ''crit''))" "css_ok (Some (lit ''active''))"
  "css_ok (Some (lit ''deactive''))"
  by (auto simp: css_ok_def css_class_active_def css_class_battery_def lit_def split: if_splits)

lemma ident_no_gt: "no_gt m \<Longrightarrow> form_ok form \<Longrightarrow> 62 \<notin> set (ident_css (ident_new m form))"
proof -
  assume "no_gt m" "form_ok form"
  moreover have "62 \<notin> set (lit ''item-'')" "62 \<notin> set (lit '' form-'')" by (simp_all add: lit_def)
  ultimately show ?thesis
    by (cases form) (auto simp: ident_css_def ident_new_def lit_no_gt)
qed

lemma push_class_no_gt: "css_ok css \<Longrightarrow> 62 \<notin> set base \<Longrightarrow> 62 \<notin> set (push_class css base)"
  by (cases css) (auto simp: css_ok_def push_class_def)

lemma value_cell_ok:
  "whole t \<Longrightarrow> css_ok css \<Longrightarrow> no_gt m \<Longrightarrow> form_ok form \<Longrightarrow>
     cell_ok (value_cell t css (Some (ident_new m form)) n)"
  using push_class_no_gt [of css "lit ''val '' @ ident_css (ident_new m form)"] ident_no_gt [of m form]
  by (auto simp: value_cell_def cell_ok_def cell_new_def lit_def Let_def)

lemma auxiliary_cell_ok:
  "whole t \<Longrightarrow> css_ok css \<Longrightarrow> no_gt m \<Longrightarrow> form_ok form \<Longrightarrow>
     cell_ok (auxiliary_cell t css (Some (ident_new m form)) pl pr None)"
  using push_class_no_gt [of css "lit ''aux '' @ ident_css (ident_new m form)"] ident_no_gt [of m form]
  by (auto simp: auxiliary_cell_def cell_ok_def cell_new_def lit_def Let_def)

lemma cell_ok_update [simp]:
  "cell_ok (c\<lparr>c_pad_left := n\<rparr>) = cell_ok c" "cell_ok (c\<lparr>c_pad_right := n\<rparr>) = cell_ok c"
  by (simp_all add: cell_ok_def)

lemma label_class_ok:
  "whole t \<Longrightarrow> no_gt m \<Longrightarrow> form_ok form \<Longrightarrow>
     cell_ok (cell_classified t (lit ''label '' @ ident_css (ident_new m form)))"
  using ident_no_gt [of m form] by (auto simp: cell_classified_def cell_ok_def cell_new_def lit_def)

section \<open>Clean inputs\<close>

definition clean_table :: "toml_table \<Rightarrow> bool" where
  "clean_table t \<longleftrightarrow> list_all (\<lambda>(k, v). case as_str v of Some s \<Rightarrow> whole (text_of s) | None \<Rightarrow> True) t"

definition plain_str :: "string \<Rightarrow> bool" where "plain_str s \<longleftrightarrow> plain (text_of s)"

text \<open>
  The icons and labels of the configuration are closed markup, numbers print as closed markup, and the
  names of devices hold none.
\<close>

definition clean_formatter :: "formatter \<Rightarrow> bool" where
  "clean_formatter f \<longleftrightarrow>
     clean_table (cf_icons (pf_cfg f)) \<and> clean_table (cf_labels (pf_cfg f)) \<and>
     (\<forall>d v. whole (fo_fixed (pf_float f) d v)) \<and>
     list_all plain_str (bm_keys (hw_hd_temp_paths (pf_hw f))) \<and>
     list_all plain_str (bm_keys (hw_disk_smart_drives (pf_hw f))) \<and>
     list_all plain_str (bm_keys (hw_fan_paths (pf_hw f)))"

definition opt_ok :: "('a \<Rightarrow> bool) \<Rightarrow> 'a option \<Rightarrow> bool" where
  "opt_ok P v \<longleftrightarrow> (case v of None \<Rightarrow> True | Some x \<Rightarrow> P x)"

lemma opt_ok_simps [simp]: "opt_ok P None" "opt_ok P (Some x) = P x"
  by (simp_all add: opt_ok_def)

definition clean_readings :: "display_snapshot \<Rightarrow> bool" where
  "clean_readings r \<longleftrightarrow>
     list_all plain_str (bm_keys (ds_disk_usage r)) \<and>
     opt_ok plain_str (ds_net_device r) \<and> opt_ok plain_str (ds_ip_address r) \<and>
     opt_ok plain_str (ds_wifi_ssid r) \<and>
     opt_ok (\<lambda>b. plain_str (bp_name b)) (ds_battery_mouse r) \<and>
     opt_ok (\<lambda>b. plain_str (bp_name b)) (ds_battery_kbd r) \<and>
     opt_ok (list_all (\<lambda>p. plain_str (ts_command p))) (ds_top_process r)"

lemma clean_table_text: "clean_table t \<Longrightarrow> whole (table_text t key)"
  by (auto simp: clean_table_def table_text_def list_all_iff split: option.splits
      dest!: bm_get_in bind_eq_Some_conv [THEN iffD1] dest: bspec)

lemma label_cell_ok:
  assumes "clean_formatter f" "no_gt m" "form_ok form" "opt_ok whole txt" "opt_ok whole glyph"
  shows "cell_ok (label_cell (pf_cfg f) m form tooltip txt glyph)"
proof -
  have t: "whole (table_text (cf_icons (pf_cfg f)) k)" "whole (table_text (cf_labels (pf_cfg f)) k)" for k
    using assms(1) by (simp_all add: clean_formatter_def clean_table_text)
  have sp: "whole (SPACE # s) \<longleftrightarrow> whole s" for s
    using whole_append [of "[SPACE]" s] plain_char [of SPACE] by simp
  show ?thesis
    using assms(2-5) t sp
    by (cases "txt"; cases glyph) (auto simp: label_cell_def Let_def intro!: label_class_ok)
qed

definition row_good :: "row \<Rightarrow> bool" where
  "row_good r \<longleftrightarrow> 2 \<le> length r \<longrightarrow> list_all cell_ok r"

lemma row_goodI: "list_all cell_ok r \<Longrightarrow> row_good r"
  by (simp add: row_good_def)

lemma collect_row_good:
  "list_all (opt_ok cell_ok) cells \<Longrightarrow> list_all row_good (collect_row cells)"
proof -
  assume "list_all (opt_ok cell_ok) cells"
  then have "list_all cell_ok (List.map_filter id cells)"
    by (induction cells) (auto simp: List.map_filter_simps opt_ok_def split: option.splits)
  then show ?thesis by (simp add: collect_row_def Let_def row_good_def)
qed

section \<open>The rows of each metric\<close>

lemma regular_label_ok:
  "clean_formatter f \<Longrightarrow> no_gt m \<Longrightarrow> form_ok form \<Longrightarrow> opt_ok whole txt \<Longrightarrow> opt_ok whole glyph \<Longrightarrow>
     opt_ok cell_ok (regular_label_cell (pf_cfg f) m form tooltip txt glyph)"
  by (simp add: regular_label_cell_def label_cell_ok)

lemma percent_cell_ok [simp]:
  "no_gt m \<Longrightarrow> form_ok form \<Longrightarrow> cell_ok (percent_value_cell m form tooltip v t reserve)"
  "no_gt m \<Longrightarrow> form_ok form \<Longrightarrow> cell_ok (plain_percent_value_cell m form tooltip v)"
  "no_gt m \<Longrightarrow> form_ok form \<Longrightarrow> cell_ok (active_percent_value_cell m form tooltip v n)"
  "no_gt m \<Longrightarrow> form_ok form \<Longrightarrow> cell_ok (temp_value_cell m form tooltip v t)"
  by (auto simp: percent_value_cell_def plain_percent_value_cell_def active_percent_value_cell_def
      temp_value_cell_def split: option.split intro!: value_cell_ok)

lemma padded_aux_ok:
  "whole t \<Longrightarrow> css_ok css \<Longrightarrow> no_gt m \<Longrightarrow> form_ok form \<Longrightarrow> cell_ok (padded_aux t css (ident_new m form))"
  by (simp add: padded_aux_def Let_def auxiliary_cell_ok)

lemma fmt_freq_whole: "clean_formatter f \<Longrightarrow> whole (fmt_freq (pf_float f) v tooltip)"
proof -
  assume "clean_formatter f"
  then have w: "whole (fo_fixed (pf_float f) d x)" for d x by (simp add: clean_formatter_def)
  have "whole (lit '' GHz'')" "whole (int_text n)" "whole (int_text n @ lit '' MHz'')" "whole EMPTY_VALUE" for n
    by (rule plain_whole; simp)+
  then show ?thesis
    using w by (auto simp: fmt_freq_def Let_def split: option.split)
qed

lemma disk_space_whole: "css_ok css \<Longrightarrow> whole (fmt_disk_space u t css w1 w2)"
proof -
  assume css: "css_ok css"
  have w: "whole (nat_text n)" "whole (lit ''G'')" "whole (lit '' / '')" for n by (rule plain_whole; simp)+
  show ?thesis
    using css w by (auto simp: fmt_disk_space_def css_ok_def Let_def split: option.split)
qed

lemmas cell_intros = value_cell_ok auxiliary_cell_ok padded_aux_ok regular_label_ok label_cell_ok
  collect_row_good fmt_freq_whole disk_space_whole

lemma percent_rows_good:
  assumes "clean_formatter f" "no_gt m" "form_ok form"
  shows "list_all row_good (render_percent_row f m form tooltip v t regular)"
    "list_all row_good (render_plain_percent_row f m form tooltip v)"
    "list_all row_good (render_active_percent_row f m form tooltip v n regular)"
    "list_all row_good (render_temp_row f m form tooltip v t)"
  using assms
  by (auto simp: render_percent_row_def render_plain_percent_row_def render_active_percent_row_def
      render_temp_row_def label_for_def intro!: cell_intros)

lemma freq_rows_good:
  assumes "clean_formatter f" "no_gt m" "form_ok form"
  shows "list_all row_good (render_freq_row f m form tooltip v)"
    "list_all row_good (render_cpu_freq_row f form r tooltip)"
    "list_all row_good (render_cpu_turbo_row f form r tooltip)"
    "list_all row_good (render_gpu_fan_row f form r tooltip)"
  using assms
  by (auto simp: render_freq_row_def render_cpu_freq_row_def render_cpu_turbo_row_def render_gpu_fan_row_def
      fmt_freq_whole Let_def split: option.split bool.split intro!: cell_intros)

lemma mem_space_ok:
  "no_gt m \<Longrightarrow> form_ok form \<Longrightarrow> mem_space_cell f m form r tooltip = Some c \<Longrightarrow> opt_ok cell_ok c"
  by (auto simp: mem_space_cell_def try_option_def bind_eq_Some_conv split: if_splits option.splits
      intro!: cell_intros disk_space_whole)

lemma single_row_good [simp]: "row_good [c]"
  by (simp add: row_good_def)

lemma standalone_good: "list_all row_good (standalone html i w)"
  by (simp add: standalone_def)

lemma trace_label_ok:
  "clean_formatter f \<Longrightarrow> no_gt form \<Longrightarrow> whole t \<Longrightarrow> cell_ok (trace_label_cell (pf_cfg f) m form tooltip t)"
proof -
  assume "clean_formatter f" "no_gt form" "whole t"
  moreover have "trace_label_cell (pf_cfg f) m form tooltip t = label_cell (pf_cfg f) (usage_metric m) (Some form)
      tooltip (if t = [] then None else Some t) None"
    by (simp add: trace_label_cell_def label_cell_def Let_def)
  ultimately show ?thesis by (simp add: label_cell_ok)
qed

lemma bar_history_good:
  "clean_formatter f \<Longrightarrow> no_gt form \<Longrightarrow> whole bar \<Longrightarrow> whole history \<Longrightarrow>
     list_all row_good (bar_history_row (pf_cfg f) m bar history form tooltip)"
  by (auto simp: bar_history_row_def render_two_pair_row_def Let_def trace_label_ok clean_formatter_def
      clean_table_text intro!: row_goodI auxiliary_cell_ok)

lemma historied_good:
  assumes "clean_formatter f" "form_ok form"
    and "historied_rows f metric tm form r tooltip v h t hist = Some rows"
  shows "list_all row_good rows"
proof -
  have label: "opt_ok cell_ok (regular_label_cell (pf_cfg f) (metric_as_str metric) form tooltip None None)"
    using assms by (intro regular_label_ok) auto
  have spark: "cell_ok (spark_aux_cell f (metric_as_str metric) form history tm tooltip)"
    "cell_ok (braille_aux_cell f (metric_as_str metric) form history tm tooltip chars)" for history chars
    using assms(2) by (simp_all add: spark_aux_cell_def braille_aux_cell_def padded_aux_ok spark_whole braille_whole)
  show ?thesis
  proof (cases hist)
    case Hist_Value
    with assms(3) obtain space where
      sp: "(if metric = M_MemUsage then map_option (\<lambda>c. [c])
             (mem_space_cell f (metric_as_str metric) form r tooltip) else Some []) = Some space"
      and rows: "rows = collect_row ([regular_label_cell (pf_cfg f) (metric_as_str metric)
        form tooltip None None] @ space @ [Some (percent_value_cell (metric_as_str metric) form tooltip v t True)])"
      by (auto simp only: historied_rows_def Let_def bind_eq_Some_conv historied_form.case option.inject)
    have "list_all (opt_ok cell_ok) space"
      using sp mem_space_ok [OF metric_no_gt assms(2), of f metric r tooltip] by (auto split: if_splits)
    with label assms(2) show ?thesis unfolding rows by (intro collect_row_good) auto
  qed (use assms label spark in \<open>auto simp: historied_rows_def Let_def bar_row_def column_row_def spark_row_def
      braille_row_def bar_spark_row_def bar_braille_row_def standalone_good bar_whole spark_whole braille_whole
      intro!: collect_row_good bar_history_good split: if_splits\<close>)
qed

lemma render_historied_good:
  "clean_formatter f \<Longrightarrow> form_ok form \<Longrightarrow> render_historied f metric form r tooltip = Some rows \<Longrightarrow>
     list_all row_good rows"
  by (auto simp: render_historied_def bind_eq_Some_conv split: option.splits prod.splits
      dest!: historied_good [rotated 2])

lemma try_map_set: "try_map g xs = Some ys \<Longrightarrow> y \<in> set ys \<Longrightarrow> \<exists>x \<in> set xs. g x = Some y"
  by (induction xs arbitrary: ys) (auto simp: bind_eq_Some_conv)

lemma try_map_all:
  "try_map g xs = Some ys \<Longrightarrow> (\<And>x y. x \<in> set xs \<Longrightarrow> g x = Some y \<Longrightarrow> P y) \<Longrightarrow> list_all P ys"
  by (auto simp: list_all_iff dest: try_map_set)

lemma try_map_concat:
  "try_map g xs = Some yss \<Longrightarrow> (\<And>x y. x \<in> set xs \<Longrightarrow> g x = Some y \<Longrightarrow> list_all P y) \<Longrightarrow>
     list_all P (concat yss)"
  using try_map_all [of g xs yss "list_all P"] by (auto simp: list_all_iff)

lemma pair_up_good:
  "cell_ok (fst blank) \<Longrightarrow> cell_ok (snd blank) \<Longrightarrow> list_all (\<lambda>(a, b). cell_ok a \<and> cell_ok b) pairs \<Longrightarrow>
     list_all row_good (pair_up blank pairs)"
  by (induction blank pairs rule: pair_up.induct) (auto simp: render_two_pair_row_def row_good_def)

lemma pair_rows_good:
  assumes "no_gt m" "form_ok form" "list_all (\<lambda>(a, b). cell_ok a \<and> cell_ok b) pairs"
  shows "list_all row_good (pair_rows pairs m form)"
proof -
  have "list_all row_good (pair_up (cell_classified [] (lit ''label '' @ ident_css (ident_new m form)),
      value_cell [] None (Some (ident_new m form)) 0) pairs)"
    using assms by (intro pair_up_good) (auto intro!: label_class_ok value_cell_ok)
  then show ?thesis
    using assms by (auto simp: pair_rows_def row_good_def split: list.split)
qed

lemma label_text_whole: "clean_formatter f \<Longrightarrow> plain t \<Longrightarrow>
    whole (table_text (cf_labels (pf_cfg f)) key @ SPACE # t)"
proof -
  assume a: "clean_formatter f" "plain t"
  then have "whole (table_text (cf_labels (pf_cfg f)) key)" by (simp add: clean_formatter_def clean_table_text)
  then show ?thesis using a by simp
qed

lemma hd_key_plain: "clean_formatter f \<Longrightarrow> label \<in> set (bm_keys (hw_hd_temp_paths (pf_hw f))) \<Longrightarrow> plain (text_of label)"
  and smart_key_plain: "clean_formatter f \<Longrightarrow> label \<in> set (bm_keys (hw_disk_smart_drives (pf_hw f))) \<Longrightarrow> plain (text_of label)"
  and fan_key_plain: "clean_formatter f \<Longrightarrow> label \<in> set (bm_keys (hw_fan_paths (pf_hw f))) \<Longrightarrow> plain (text_of label)"
  and mount_plain: "clean_readings r \<Longrightarrow> (mount, u) \<in> set (ds_disk_usage r) \<Longrightarrow> plain (text_of mount)"
  by (auto simp: clean_formatter_def clean_readings_def plain_str_def list_all_iff bm_keys_def)

lemma hd_temp_good:
  assumes f: "clean_formatter f" and form: "form_ok form"
    and "render_hd_temp f form r tooltip = Some rows"
  shows "list_all row_good rows"
proof (cases "form = Some ''pair''")
  case True
  with assms(3) show ?thesis
    using f hd_key_plain [OF f]
    by (auto simp: render_hd_temp_def render_hd_temp_pair_def bind_eq_Some_conv Let_def set_map_filter
        intro!: pair_rows_good cell_intros elim!: try_map_all)
next
  case False
  with assms(3) show ?thesis
    using f form hd_key_plain [OF f]
    by (auto simp: render_hd_temp_def bind_eq_Some_conv Let_def set_map_filter
        intro!: cell_intros label_text_whole elim!: try_map_concat)
qed

lemma disk_usage_good:
  assumes f: "clean_formatter f" and r: "clean_readings r" and form: "form_ok form"
    and "render_disk_usage f form r tooltip = Some rows"
  shows "list_all row_good rows"
proof -
  have css: "css_ok (map_option (\<lambda>v. css_class_from_thresholds v t) p)" for t p by (cases p) simp_all
  show ?thesis
    using assms(4) f form mount_plain [OF r]
    by (auto simp: render_disk_usage_def bind_eq_Some_conv Let_def css
        intro!: cell_intros elim!: try_map_concat)
qed

lemma list_all_map_filter: "(\<And>x y. x \<in> set xs \<Longrightarrow> g x = Some y \<Longrightarrow> P y) \<Longrightarrow> list_all P (List.map_filter g xs)"
  by (auto simp: list_all_iff set_map_filter)

lemma disk_smart_good:
  assumes "clean_formatter f"
  shows "list_all row_good (render_disk_smart f r tooltip)"
proof -
  have "plain (text_of label)"
    if "label \<in> set (bs_collect (bm_keys (hw_hd_temp_paths (pf_hw f)) @ bm_keys (hw_disk_smart_drives (pf_hw f))))"
    for label
    using that hd_key_plain [OF assms] smart_key_plain [OF assms] by auto
  then show ?thesis
    using assms by (auto simp: render_disk_smart_def Let_def intro!: pair_rows_good list_all_map_filter cell_intros)
qed

lemma fan_speed_good:
  assumes "clean_formatter f" "form_ok form"
  shows "list_all row_good (render_fan_speed f form r tooltip)"
proof (cases "form = Some ''pair''")
  case True
  then show ?thesis
    using assms fan_key_plain [OF assms(1)]
    by (auto simp: render_fan_speed_def render_fan_speed_pair_def Let_def
        intro!: pair_rows_good list_all_map_filter cell_intros)
next
  case False
  have "list_all row_good (collect_row [regular_label_cell (pf_cfg f) ''fan_speed'' form tooltip
      (Some (lit ''Fan'' @ text_of key)) None, Some (value_cell t None (Some (ident_new ''fan_speed'' form)) 0)])"
    if "key \<in> set (bm_keys (hw_fan_paths (pf_hw f)))" "plain t" for key t
    using that assms fan_key_plain [OF assms(1)] by (auto intro!: cell_intros)
  moreover have "plain (case reading_of (ds_fan_speeds r) key of None \<Rightarrow> EMPTY_VALUE
      | Some rpm \<Rightarrow> if rpm = 0 then lit ''off'' else if tooltip then int_text rpm @ lit '' rpm'' else int_text rpm)" for key
    by (simp split: option.split)
  ultimately show ?thesis
    using False by (fastforce simp: render_fan_speed_def Let_def list_all_iff)
qed

lemma dual_rate_good:
  "clean_formatter f \<Longrightarrow> no_gt a \<Longrightarrow> no_gt b \<Longrightarrow> list_all row_good (render_dual_rate_rows f a u b v tooltip)"
  by (auto simp: render_dual_rate_rows_def render_two_pair_row_def Let_def intro!: row_goodI cell_intros)

lemma string_row_good:
  "clean_formatter f \<Longrightarrow> no_gt m \<Longrightarrow> form_ok form \<Longrightarrow> opt_ok plain v \<Longrightarrow>
     list_all row_good (render_string_row f m form v cap tooltip)"
  by (cases v; cases cap) (auto simp: render_string_row_def Let_def intro!: row_goodI cell_intros)

lemma signal_class_ok: "signal_class f v = Some css \<Longrightarrow> 62 \<notin> set css"
  by (auto simp: signal_class_def css_class_battery_def lit_def split: if_splits)

lemma wifi_rows_good:
  assumes f: "clean_formatter f" and r: "clean_readings r" and form: "form_ok form"
  shows "render_wifi_signal f form r tooltip = Some rows \<Longrightarrow> list_all row_good rows"
    and "render_wifi_ssid_signal f r tooltip = Some rows \<Longrightarrow> list_all row_good rows"
    and "list_all row_good (render_net_device_ip f r tooltip)"
proof -
  have css: "try_option (signal_class f) v = Some css \<Longrightarrow> css_ok css" for v css
    using signal_class_ok [of f] by (auto simp: try_option_def css_ok_def split: option.splits)
  show "render_wifi_signal f form r tooltip = Some rows \<Longrightarrow> list_all row_good rows"
    using f form css
    by (auto simp: render_wifi_signal_def bind_eq_Some_conv Let_def split: option.split
        intro!: row_goodI cell_intros)
  have ssid: "plain (case ds_wifi_ssid r of None \<Rightarrow> EMPTY_VALUE | Some s \<Rightarrow> middle_ellipsis (text_of s) SSID_MAX)"
    using r by (auto simp: clean_readings_def plain_str_def split: option.split)
  have span: "whole (lit ''<span class=\"'' @ css @ lit ''\">'' @ format_percent v tooltip @ lit ''</span>'')"
    if "signal_class f v = Some css" for css v
    using signal_class_ok [OF that] by simp
  show "render_wifi_ssid_signal f r tooltip = Some rows \<Longrightarrow> list_all row_good rows"
    using f ssid span
    by (auto simp: render_wifi_ssid_signal_def bind_eq_Some_conv Let_def split: option.splits
        intro!: row_goodI cell_intros)
  show "list_all row_good (render_net_device_ip f r tooltip)"
    using f r by (auto simp: render_net_device_ip_def clean_readings_def plain_str_def Let_def split: option.splits
        intro!: row_goodI cell_intros)
qed

lemma amd_good:
  assumes f: "clean_formatter f" and form: "form_ok form"
    and rows: "render_amd f metric form r tooltip = Some rows"
  shows "list_all row_good rows"
proof -
  have scalar: "list_all row_good (amd_scalar f (metric_as_str metric) form v unit tooltip)"
    if "unit \<in> {''MHz'', ''W'', ''RPM''}" for v unit
  proof -
    have "plain (lit unit)" using that by (auto simp: lit_def)
    then show ?thesis
      using f form by (auto simp: amd_scalar_def Let_def split: option.split intro!: cell_intros)
  qed
  have memory: "amd_memory_row f (metric_as_str metric) form r tooltip = Some rows \<Longrightarrow> list_all row_good rows"
    using f form by (auto simp: amd_memory_row_def bind_eq_Some_conv split: option.splits if_splits intro!: cell_intros)
  have name: "metric_as_str metric = name \<Longrightarrow> no_gt name" for name using metric_no_gt by auto
  show ?thesis
    using rows scalar memory name percent_rows_good [OF f _ form]
    by (cases metric) (auto simp: render_amd_def Let_def split: option.splits)
qed

lemma npu_good:
  assumes f: "clean_formatter f" and form: "form_ok form"
    and rows: "render_npu f metric form r tooltip = Some rows"
  shows "list_all row_good rows"
  using rows f form percent_rows_good [OF f _ form]
  by (cases metric) (auto simp: render_npu_def Let_def split: option.splits intro!: cell_intros)

lemma battery_sys_good:
  assumes f: "clean_formatter f" and rows: "render_battery_sys f r tooltip = Some rows"
  shows "list_all row_good rows"
proof -
  have icon: "whole (battery_sys_icon f b p)" "whole (table_text (cf_icons (pf_cfg f)) k)" for b p k
    using f by (simp_all add: battery_sys_icon_def Let_def clean_formatter_def clean_table_text)
  have css: "battery_sys_class f b = Some css \<Longrightarrow> css_ok css" for b css
    by (auto simp: battery_sys_class_def Let_def split: if_splits)
  have extra: "whole (join [SPACE] (battery_extra_parts f b))" for b
    using icon(2) plain_char [of SPACE]
    by (intro whole_join) (auto simp: battery_extra_parts_def Let_def split: option.splits if_splits)
  have label: "cell_ok (label_cell (pf_cfg f) (metric_as_str M_BatterySystem) (Some ''value'') tooltip
      (Some (lit ''Battery '' @ nat_text i)) (Some (battery_sys_icon f b p)))" for i b p
    using f icon(1) by (intro label_cell_ok) auto
  have "row_good row" if "render_one_battery_sys f b tooltip i = Some row" for b i row
    using that label extra css
    by (auto simp: render_one_battery_sys_def render_three_col_row_def row_good_def Let_def
        intro!: value_cell_ok auxiliary_cell_ok)
  then show ?thesis
    using rows by (auto simp: render_battery_sys_def elim!: try_map_all)
qed

lemma battery_peripheral_good:
  assumes f: "clean_formatter f" and "no_gt m" "form_ok form" "opt_ok (\<lambda>b. plain_str (bp_name b)) battery"
    and rows: "render_battery_peripheral f m form battery thresholds tooltip = Some row"
  shows "row_good row"
  using assms
  by (auto simp: render_battery_peripheral_def bind_eq_Some_conv plain_str_def Let_def
      intro!: row_goodI cell_intros split: option.splits if_splits)

lemma load_text_whole:
  assumes "clean_formatter f" "load_text f load = Some t"
  shows "whole t"
proof -
  have fixed: "whole (fo_fixed (pf_float f) d v)" for d v using assms(1) by (simp add: clean_formatter_def)
  have css: "62 \<notin> set (css_class_of_f64 fo v t)" for fo v t
    by (cases t) (simp add: css_class_of_f64_def css_band_def lit_def)
  have sp: "whole (SPACE # s) \<longleftrightarrow> whole s" for s
    using whole_append [of "[SPACE]" s] plain_char [of SPACE] by simp
  show ?thesis
    using assms(2) fixed css by (auto simp: load_text_def Let_def bind_eq_Some_conv color_span_def sp)
qed

lemma system_rows_good:
  assumes f: "clean_formatter f" and r: "clean_readings r" and form: "form_ok form"
  shows "row_good (render_uptime f form r tooltip)"
    and "render_load_average f form r tooltip = Some row \<Longrightarrow> row_good row"
    and "list_all row_good (render_top_process f form r tooltip)"
    and "row_good (render_system_updates f form r tooltip)"
    and "row_good (render_server_check f form r tooltip)"
proof -
  show "row_good (render_uptime f form r tooltip)"
    using f form by (auto simp: render_uptime_def Let_def intro!: row_goodI cell_intros split: option.split)
  show "render_load_average f form r tooltip = Some row \<Longrightarrow> row_good row"
    using f form load_text_whole [OF f]
    by (auto simp: render_load_average_def bind_eq_Some_conv Let_def intro!: row_goodI cell_intros
        split: option.splits)
  have "plain (text_of (ts_command p))" if "ds_top_process r = Some ps" "p \<in> set ps" for ps p
    using r that by (auto simp: clean_readings_def plain_str_def list_all_iff)
  then show "list_all row_good (render_top_process f form r tooltip)"
    using f form by (auto simp: render_top_process_def render_three_col_row_def list_all_iff Let_def in_set_enumerate_eq
        intro!: row_good_def [THEN iffD2] cell_intros split: option.splits) 
  show "row_good (render_system_updates f form r tooltip)"
    using f form by (auto simp: render_system_updates_def Let_def intro!: row_goodI cell_intros split: option.split)
  show "row_good (render_server_check f form r tooltip)"
    using f form by (auto simp: render_server_check_def Let_def intro!: row_goodI cell_intros
        split: option.split bool.split)
qed

section \<open>All items\<close>

lemma resolve_item_form: "resolve_item name vertical = Some res \<Longrightarrow> form_ok (ri_form_token res)"
  by (auto simp: resolve_item_def form_token_for_def split: sum.splits option.splits)

lemma render_resolved_good:
  assumes f: "clean_formatter f" and r: "clean_readings r" and form: "form_ok (ri_form_token res)"
    and rows: "render_resolved f res r tooltip = Some rows"
  shows "list_all row_good rows"
proof -
  have strings: "opt_ok plain (map_option text_of (ds_net_device r))"
    "opt_ok plain (map_option text_of (ds_ip_address r))" "opt_ok plain (map_option text_of (ds_wifi_ssid r))"
    using r by (auto simp: clean_readings_def opt_ok_def plain_str_def split: option.splits)
  have names: "opt_ok (\<lambda>b. plain_str (bp_name b)) (ds_battery_mouse r)"
    "opt_ok (\<lambda>b. plain_str (bp_name b)) (ds_battery_kbd r)"
    using r by (simp_all add: clean_readings_def)
  note lemmas1 = percent_rows_good [OF f _ form] freq_rows_good(1) [OF f _ form]
    freq_rows_good(2-) [OF f metric_no_gt form] disk_smart_good [OF f]
    fan_speed_good [OF f form] dual_rate_good [OF f] string_row_good [OF f _ form] wifi_rows_good(3) [OF f r form]
    system_rows_good(1,3-) [OF f r form] strings names
  note lemmas2 = render_historied_good [OF f form] hd_temp_good [OF f form] disk_usage_good [OF f r form]
    amd_good [OF f form] npu_good [OF f form] battery_sys_good [OF f] wifi_rows_good(1,2) [OF f r form]
  have one: "map_option (\<lambda>r. [r]) x = Some rows \<Longrightarrow> (\<And>row. x = Some row \<Longrightarrow> row_good row) \<Longrightarrow>
      list_all row_good rows" for x
    by auto
  show ?thesis
    using rows lemmas1
    by (cases "it_metric (ri_token res)")
      (simp_all add: render_resolved_def Let_def with_pair_def,
       (auto dest: lemmas2 battery_peripheral_good [OF f _ form, rotated] system_rows_good(2) [OF f r form])+)
qed

lemma rows_of_simps [simp]:
  "rows_of [] = []" "rows_of (e # es) = entry_rows e @ rows_of es" "rows_of (es @ es') = rows_of es @ rows_of es'"
  by (simp_all add: rows_of_def)

lemma rows_of_map [simp]: "rows_of (map Entry_Row rows) = rows"
  by (induction rows) auto

lemma item_entries_good:
  assumes "clean_formatter f" "clean_readings r" "item_entries f r tooltip name = Some es"
  shows "list_all row_good (rows_of es)"
  using assms(3) render_resolved_good [OF assms(1,2) resolve_item_form]
  by (auto simp: item_entries_def split: option.splits if_splits)

lemma rows_of_concat: "rows_of (concat ess) = concat (map rows_of ess)"
  by (induction ess) auto

lemma section_entries_good:
  assumes "clean_formatter f" "clean_readings r" "section_entries f r tooltip sec = Some es"
  shows "list_all row_good (rows_of es)"
proof -
  obtain ess where ess: "try_map (item_entries f r tooltip) (sec_items sec) = Some ess" "es = concat ess"
    using assms(3) by (auto simp: section_entries_def)
  have "list_all (\<lambda>es. list_all row_good (rows_of es)) ess"
    using item_entries_good [OF assms(1,2)] by (rule try_map_all [OF ess(1)])
  then show ?thesis by (auto simp: ess(2) rows_of_concat list_all_iff)
qed

lemma sections_loop_good:
  assumes "clean_formatter f" "clean_readings r"
  shows "sections_loop f r tooltip secs any = Some es \<Longrightarrow> list_all row_good (rows_of es)"
proof (induction secs arbitrary: any es)
  case (Cons sec secs)
  then show ?case
    using section_entries_good [OF assms]
    by (auto simp: bind_eq_Some_conv title_entries_def split: if_splits)
qed simp

lemma normalize_rows_of: "rows_of (normalize_separators es) = rows_of es"
proof -
  obtain out p where st: "fold normalize_entry es ([], None) = (out, p)" by force
  show ?thesis using normalize_rows [OF st] by (simp add: normalize_separators_def st)
qed

lemma build_entries_good:
  assumes "clean_formatter f" "clean_readings r" "build_entries f r tooltip = Some es"
  shows "list_all row_good (rows_of es)"
  using assms(3) sections_loop_good [OF assms(1,2)]
  by (auto simp: build_entries_def Let_def normalize_rows_of)

section \<open>Panics\<close>

text \<open>Every threshold list the formatter indexes has its two entries.\<close>

definition has_pair :: "'a list \<Rightarrow> bool" where "has_pair xs \<longleftrightarrow> 2 \<le> length xs"

definition thresholds_ok :: "threshold_config \<Rightarrow> bool" where
  "thresholds_ok t \<longleftrightarrow>
     list_all has_pair
       [thr_cpu_usage t, thr_mem_usage t, thr_swap_usage t, thr_disk_usage t, thr_cpu_temp t,
        thr_gpu_nvidia_temp t, thr_gpu_amd_temp t, thr_gpu_nvidia_usage t, thr_gpu_amd_usage t,
        thr_gpu_nvidia_mem_usage t, thr_gpu_amd_mem_usage t, thr_npu_amd_usage t, thr_gpu_intel_usage t,
        thr_hd_temp t, thr_battery_sys t, thr_battery_mouse t, thr_battery_kbd t, thr_wifi_signal t] \<and>
     list_all has_pair [thr_load_avg_1 t, thr_load_avg_5 t, thr_load_avg_15 t]"

definition returns :: "'a option \<Rightarrow> bool" where "returns x \<longleftrightarrow> x \<noteq> None"

lemma returns_simps [simp]:
  "returns (Some v)" "\<not> returns None" "returns (map_option g x) = returns x"
  by (simp_all add: returns_def)

lemma index_pair_iff: "returns (index_pair xs) \<longleftrightarrow> has_pair xs"
  by (cases xs; cases "tl xs") (auto simp: index_pair_def has_pair_def)

lemma index_pairs:
  "thresholds_ok t \<Longrightarrow> returns (index_pair (thr_cpu_usage t))"
  "thresholds_ok t \<Longrightarrow> returns (index_pair (thr_mem_usage t))"
  "thresholds_ok t \<Longrightarrow> returns (index_pair (thr_swap_usage t))"
  "thresholds_ok t \<Longrightarrow> returns (index_pair (thr_disk_usage t))"
  "thresholds_ok t \<Longrightarrow> returns (index_pair (thr_cpu_temp t))"
  "thresholds_ok t \<Longrightarrow> returns (index_pair (thr_gpu_nvidia_temp t))"
  "thresholds_ok t \<Longrightarrow> returns (index_pair (thr_gpu_amd_temp t))"
  "thresholds_ok t \<Longrightarrow> returns (index_pair (thr_gpu_nvidia_usage t))"
  "thresholds_ok t \<Longrightarrow> returns (index_pair (thr_gpu_amd_usage t))"
  "thresholds_ok t \<Longrightarrow> returns (index_pair (thr_gpu_nvidia_mem_usage t))"
  "thresholds_ok t \<Longrightarrow> returns (index_pair (thr_gpu_amd_mem_usage t))"
  "thresholds_ok t \<Longrightarrow> returns (index_pair (thr_npu_amd_usage t))"
  "thresholds_ok t \<Longrightarrow> returns (index_pair (thr_gpu_intel_usage t))"
  "thresholds_ok t \<Longrightarrow> returns (index_pair (thr_hd_temp t))"
  "thresholds_ok t \<Longrightarrow> returns (index_pair (thr_battery_sys t))"
  "thresholds_ok t \<Longrightarrow> returns (index_pair (thr_battery_mouse t))"
  "thresholds_ok t \<Longrightarrow> returns (index_pair (thr_battery_kbd t))"
  "thresholds_ok t \<Longrightarrow> returns (index_pair (thr_wifi_signal t))"
  "thresholds_ok t \<Longrightarrow> returns (index_pair (thr_load_avg_1 t))"
  "thresholds_ok t \<Longrightarrow> returns (index_pair (thr_load_avg_5 t))"
  "thresholds_ok t \<Longrightarrow> returns (index_pair (thr_load_avg_15 t))"
  unfolding index_pair_iff by (simp_all add: thresholds_ok_def)

lemma try_map_total: "(\<And>x. x \<in> set xs \<Longrightarrow> returns (g x)) \<Longrightarrow> returns (try_map g xs)"
  by (induction xs) (auto simp: returns_def bind_eq_None_conv)

lemma try_map_None: "try_map g xs = None \<longleftrightarrow> (\<exists>x \<in> set xs. g x = None)"
  by (induction xs) (auto simp: bind_eq_None_conv)

lemma bind_total: "returns x \<Longrightarrow> (\<And>y. x = Some y \<Longrightarrow> returns (g y)) \<Longrightarrow> returns (Option.bind x g)"
  by (cases x) auto

lemma try_option_total: "(\<And>x. returns (g x)) \<Longrightarrow> returns (try_option g v)"
  by (cases v) (simp_all add: try_option_def)

lemmas totals = bind_total try_map_total try_option_total

lemma historied_total:
  assumes "thresholds_ok (pf_thr f)" "returns (resolved_form form)" "metric \<in> {M_CpuUsage, M_MemUsage}"
  shows "returns (render_historied f metric form r tooltip)"
proof -
  have space: "returns (mem_space_cell f name form r tooltip)" for name
    using index_pairs(2) [OF assms(1)]
    by (auto simp: mem_space_cell_def split: option.split intro!: totals)
  have "returns (historied_rows f metric tm form r tooltip v h t hist)" for tm v h t hist
    using space
    by (cases hist) (auto simp: historied_rows_def Let_def intro!: totals)
  then show ?thesis
    using assms(2,3) index_pairs(1,2) [OF assms(1)]
    by (auto simp: render_historied_def trace_metric_of_def intro!: totals)
qed

lemma storage_total:
  assumes "thresholds_ok (pf_thr f)"
  shows "returns (render_hd_temp f form r tooltip)" "returns (render_disk_usage f form r tooltip)"
  using index_pairs [OF assms]
  by (auto simp: render_hd_temp_def render_hd_temp_pair_def render_disk_usage_def Let_def
      intro!: totals)

lemma wifi_total:
  assumes "thresholds_ok (pf_thr f)"
  shows "returns (render_wifi_signal f form r tooltip)" "returns (render_wifi_ssid_signal f r tooltip)"
  using index_pairs [OF assms]
  by (auto simp: render_wifi_signal_def render_wifi_ssid_signal_def signal_class_def Let_def
      split: option.split intro!: totals)

lemma vendor_total:
  assumes "thresholds_ok (pf_thr f)"
  shows "metric \<in> {M_GpuAmdUsage, M_GpuAmdCodecUsage, M_GpuAmdMemUsage, M_GpuAmdFreq, M_GpuAmdTemp,
      M_GpuAmdPower, M_GpuAmdFanSpeed} \<Longrightarrow> returns (render_amd f metric form r tooltip)"
    "metric \<in> {M_NpuAmdUsage, M_NpuAmdPower, M_NpuAmdFreq} \<Longrightarrow> returns (render_npu f metric form r tooltip)"
  using index_pairs [OF assms]
  by (auto simp: render_amd_def amd_memory_row_def render_npu_def Let_def
      split: option.split intro!: totals)

lemma battery_total:
  assumes "thresholds_ok (pf_thr f)"
  shows "returns (render_battery_sys f r tooltip)"
    "returns (index_pair thresholds) \<Longrightarrow> returns (render_battery_peripheral f m form battery thresholds tooltip)"
  using index_pairs [OF assms]
  by (auto simp: render_battery_sys_def render_one_battery_sys_def battery_sys_class_def
      render_battery_peripheral_def Let_def split: option.split intro!: totals)

lemma load_total:
  assumes "thresholds_ok (pf_thr f)"
  shows "returns (render_load_average f form r tooltip)"
  using index_pairs [OF assms]
  by (auto simp: render_load_average_def load_text_def Let_def split: option.split
      intro!: totals)

lemma historied_form_known:
  assumes "resolve_item name vertical = Some res" "it_metric (ri_token res) \<in> {M_CpuUsage, M_MemUsage}"
  shows "returns (resolved_form (ri_form_token res))"
proof -
  obtain t where t: "item_from_str name = Inr t" "ri_token res = t"
    "ri_form_token res = form_token_for (item_form t) vertical"
    using assms(1) by (auto simp: resolve_item_def split: sum.splits)
  have "valid_item t" using item_from_str_new [OF t(1)] item_new_valid by blast
  then obtain fm where "item_form t = Some fm" "fm \<noteq> Form_Pair"
    using assms(2) t(2)
    by (auto simp: valid_item_def item_form_def supports_form_def intrinsic_shape_def form_lists
        split: item_rendering.splits)
  then show ?thesis by (cases fm) (auto simp: t(3) form_token_for_def resolved_form_def)
qed

lemma render_resolved_total:
  assumes "thresholds_ok (pf_thr f)" "resolve_item name vertical = Some res"
  shows "returns (render_resolved f res r tooltip)"
  using index_pairs [OF assms(1)] historied_total [OF assms(1) historied_form_known [OF assms(2)]]
    storage_total [OF assms(1)] wifi_total [OF assms(1)] vendor_total [OF assms(1)] battery_total [OF assms(1)]
    load_total [OF assms(1)]
  by (cases "it_metric (ri_token res)")
    (simp_all add: render_resolved_def Let_def with_pair_def)

lemma sections_total:
  assumes "thresholds_ok (pf_thr f)"
  shows "returns (sections_loop f r tooltip secs any)"
proof (induction secs arbitrary: any)
  case (Cons sec secs)
  have "returns (section_entries f r tooltip sec)"
    using render_resolved_total [OF assms]
    by (auto simp: section_entries_def item_entries_def intro!: totals split: option.split)
  then show ?case using Cons by (auto intro!: totals)
qed simp

lemma build_total: "thresholds_ok (pf_thr f) \<Longrightarrow> returns (build_entries f r tooltip)"
  by (simp add: build_entries_def Let_def sections_total)

section \<open>Properties\<close>

text \<open>
  C23. Safety. With two entries in every threshold list, whatever the items of the surfaces, the
  hardware and the readings are, no index and no \<open>unreachable!\<close> of the formatter panics: panel, tooltip
  and canonical width are always produced.
\<close>

theorem formatter_never_panics:
  assumes "thresholds_ok (cf_thresholds (pf_cfg f))"
  shows "format_panel f r css \<noteq> None \<and> format_tooltip f r css \<noteq> None \<and> canonical_width f r \<noteq> None"
proof -
  have b: "\<exists>es. build_entries f r tooltip = Some es" for r tooltip
    using build_total [OF assms] by (simp add: returns_def)
  obtain p t w where "build_entries f r False = Some p" "build_entries f r True = Some t"
    "build_entries f (maxed_readings f r) True = Some w"
    using b by blast
  then show ?thesis by (simp add: format_panel_def format_tooltip_def canonical_width_def Let_def)
qed

text \<open>Arithmetic and printing that stand for those of \<open>f64\<close>: integers in the bits.\<close>

definition sample_floats :: float_ops where
  "sample_floats = \<lparr>fo_ge = (\<lambda>a b. b \<le> a), fo_div = (\<lambda>a b. a div b), fo_of_int = of_int,
     fo_to_i32 = sint, fo_fixed = (\<lambda>d v. nat_text (unat v) @ lit ''.'' @ replicate d 48)\<rparr>"

definition sample_formatter :: formatter where
  "sample_formatter = formatter_new
     (config_default\<lparr>cf_tooltip := \<lparr>sur_sections =
        [\<lparr>sec_key = ''cpu'', sec_title = ''CPU'', sec_items = [''cpu_usage'', ''uptime'']\<rparr>], sur_glyphs = True\<rparr>,
        cf_icons := [(''cpu_usage'', TString ''c'')],
        cf_labels := [(''cpu_usage'', TString ''Use''), (''delimiter'', TString '':'')]\<rparr>)
     hardware_inventory_default 0 sample_floats"

theorem formatter_never_panics_witness:
  "format_tooltip sample_formatter display_snapshot_default [] \<noteq> None"
proof -
  have "thresholds_ok (cf_thresholds (pf_cfg sample_formatter))"
    by (simp add: sample_formatter_def formatter_new_def config_default_def threshold_config_default_def
        thresholds_ok_def has_pair_def)
  from formatter_never_panics [OF this] show ?thesis by blast
qed

text \<open>
  Error behaviour. A configuration whose \<open>cpu_usage\<close> thresholds have fewer than two entries
  makes the tooltip panic as soon as it shows the CPU usage, whatever the readings are.
\<close>

theorem short_thresholds_panic:
  assumes "sec \<in> set (sur_sections (cf_tooltip (pf_cfg f)))" "''cpu_usage'' \<in> set (sec_items sec)"
    and "length (thr_cpu_usage (cf_thresholds (pf_cfg f))) < 2"
  shows "format_tooltip f r css = None"
proof -
  have ip: "index_pair (thr_cpu_usage (pf_thr f)) = None"
    using assms(3) index_pair_iff [of "thr_cpu_usage (pf_thr f)"]
    by (cases "index_pair (thr_cpu_usage (pf_thr f))") (simp_all add: has_pair_def)
  have "item_entries f r True ''cpu_usage'' = None"
  proof -
    have t: "item_from_str ''cpu_usage'' = Inr \<lparr>it_metric = M_CpuUsage, it_rendering = Generic Form_Value\<rparr>"
      by (simp add: item_from_str_def metric_from_str_def item_new_def intrinsic_shape_def supports_form_def form_lists)
    have s: "separator_size_of (lit ''cpu_usage'') = None" by (simp add: separator_size_of_def lit_def)
    show ?thesis
      by (simp add: item_entries_def s resolve_item_def t item_gate_def render_resolved_def render_historied_def
          trace_metric_of_def ip Let_def)
  qed
  then have "section_entries f r True sec = None"
    using assms(2) by (auto simp: section_entries_def try_map_None)
  then have "sections_loop f r True secs any = None" if "sec \<in> set secs" for secs any
    using that by (induction secs arbitrary: any) (auto simp: bind_eq_None_conv)
  then show ?thesis using assms(1) by (simp add: format_tooltip_def build_entries_def Let_def)
qed

definition short_formatter :: formatter where
  "short_formatter = sample_formatter\<lparr>pf_cfg := (pf_cfg sample_formatter)
     \<lparr>cf_thresholds := threshold_config_default\<lparr>thr_cpu_usage := [50]\<rparr>\<rparr>\<rparr>"

theorem short_thresholds_panic_witness:
  "format_tooltip short_formatter display_snapshot_default [] = None"
  by (rule short_thresholds_panic [of "\<lparr>sec_key = ''cpu'', sec_title = ''CPU'', sec_items = [''cpu_usage'', ''uptime'']\<rparr>"])
    (simp_all add: short_formatter_def sample_formatter_def formatter_new_def)

text \<open>
  C22. Functional. The width of every line of two or more cells that the formatter lays out in the tooltip
  and the vertical panel, for any of the 46 metrics: a line of two pairs takes half the shared width for
  each pair, or what the pair needs if that is more; any other line whose last cell is right-aligned is
  exactly as wide as the shared width; a line with no value at its end takes the columns of its block.
  Nothing is said of lines of one cell: titles, standalone traces, and values shown without a label.
  Hypotheses: the icons and labels of the configuration and the numbers as they are printed are closed
  markup; the names of mount points, drives, fans, network devices, wireless networks, peripherals and
  processes and the address hold neither \<open><\<close> nor \<open>&\<close>; and the rows are built, no lookup panics.
\<close>

theorem formatted_lines_aligned:
  assumes "clean_formatter f" "clean_readings r" "build_entries f r tooltip = Some es"
    and "b \<in> set (group_rows_into_blocks es)" "row \<in> set (b_rows b)" "2 \<le> length row"
    and "width = global_width_of (group_rows_into_blocks es) m"
  shows "visible_width (emit_plan (plan_row row (column_widths b) (block_value_column_width b)) width) =
    (if is_two_pair row
     then max (width div 2) (cell_width (row ! 0) + cell_width (row ! 1)) +
          max (width - width div 2) (cell_width (row ! 2) + cell_width (row ! 3))
     else if c_align (last row) = Align_Right then width
     else sum_list (take (length row) (column_widths b)))"
proof -
  have "concat (map b_rows (group_rows_into_blocks es)) = rows_of es"
    using grouping_settles by (simp add: settled_def)
  moreover have "row \<in> set (concat (map b_rows (group_rows_into_blocks es)))" using assms(4,5) by auto
  ultimately have "row \<in> set (rows_of es)" by simp
  then have "list_all cell_ok row"
    using build_entries_good [OF assms(1-3)] assms(6) by (auto simp: list_all_iff row_good_def)
  then show ?thesis
    using line_of_width [OF assms(4,5), of m] assms(6) by (auto simp: assms(7) line_width_def list_all_iff)
qed

definition uptime_formatter :: formatter where
  "uptime_formatter = formatter_new
     (config_default\<lparr>cf_tooltip := \<lparr>sur_sections =
        [\<lparr>sec_key = ''sys'', sec_title = [], sec_items = [''uptime'', ''separator_big'']\<rparr>], sur_glyphs = True\<rparr>,
        cf_labels := [(''delimiter'', TString '':''), (''uptime'', TString ''Up'')]\<rparr>)
     hardware_inventory_default 0 sample_floats"

abbreviation uptime_row :: row where
  "uptime_row \<equiv> render_uptime uptime_formatter (Some ''value'') display_snapshot_default True"

lemma uptime_entries:
  "build_entries uptime_formatter display_snapshot_default True = Some [Entry_Row uptime_row]"
proof -
  have t: "item_from_str ''uptime'' = Inr \<lparr>it_metric = M_Uptime, it_rendering = Generic Form_Value\<rparr>"
    by (simp add: item_from_str_def metric_from_str_def item_new_def intrinsic_shape_def supports_form_def form_lists)
  have s: "separator_size_of (lit ''uptime'') = None" "separator_size_of (lit ''separator_big'') = Some Sep_Big"
    by (simp_all add: separator_size_of_def lit_def)
  have "item_entries uptime_formatter display_snapshot_default True ''uptime'' = Some [Entry_Row uptime_row]"
    "item_entries uptime_formatter display_snapshot_default True ''separator_big'' = Some [Entry_Separator Sep_Big]"
    by (simp_all add: item_entries_def s resolve_item_def t item_gate_def render_resolved_def item_form_def
        form_token_for_def Let_def)
  then have "section_entries uptime_formatter display_snapshot_default True
      \<lparr>sec_key = ''sys'', sec_title = [], sec_items = [''uptime'', ''separator_big'']\<rparr> =
      Some [Entry_Row uptime_row, Entry_Separator Sep_Big]"
    by (simp add: section_entries_def)
  then have "sections_loop uptime_formatter display_snapshot_default True
      (sur_sections (cf_tooltip (pf_cfg uptime_formatter))) False = Some [Entry_Row uptime_row, Entry_Separator Sep_Big]"
    by (simp add: uptime_formatter_def formatter_new_def title_entries_def)
  then show ?thesis
    by (simp add: build_entries_def Let_def normalize_separators_def normalize_entry_def)
qed

lemma uptime_clean: "clean_formatter uptime_formatter" "clean_readings display_snapshot_default"
proof -
  have "plain (replicate d 48)" for d by simp
  then have "whole (fo_fixed sample_floats d v)" for d v by (simp add: sample_floats_def)
  moreover have "whole (text_of '':'')" "whole (text_of ''Up'')" by (rule plain_whole; simp add: text_of_def)+
  ultimately show "clean_formatter uptime_formatter"
    by (simp add: clean_formatter_def uptime_formatter_def formatter_new_def clean_table_def as_str_def
        config_default_def hardware_inventory_default_def bm_keys_def)
  show "clean_readings display_snapshot_default"
    by (simp add: clean_readings_def display_snapshot_default_def bm_keys_def)
qed

theorem formatted_lines_aligned_witness:
  "let blocks = group_rows_into_blocks [Entry_Row uptime_row] in
     \<exists>b \<in> set blocks. uptime_row \<in> set (b_rows b) \<and>
       visible_width (emit_plan (plan_row uptime_row (column_widths b) (block_value_column_width b))
         (global_width_of blocks 30)) = global_width_of blocks 30"
proof -
  let ?blocks = "group_rows_into_blocks [Entry_Row uptime_row]"
  have "concat (map b_rows ?blocks) = [uptime_row]"
    using grouping_settles [of "[Entry_Row uptime_row]"] by (simp add: settled_def)
  then have "uptime_row \<in> set (concat (map b_rows ?blocks))" by simp
  then obtain b where b: "b \<in> set ?blocks" "uptime_row \<in> set (b_rows b)" by auto
  have row: "2 \<le> length uptime_row" "\<not> is_two_pair uptime_row" "c_align (last uptime_row) = Align_Right"
    by (simp_all add: render_uptime_def is_two_pair_def value_cell_def cell_new_def Let_def)
  from formatted_lines_aligned [OF uptime_clean uptime_entries b row(1) refl, of 30] b row(2,3) show ?thesis
    by (auto simp: Let_def)
qed

text \<open>The name of a network is shown as it is received: its markup is interpreted.\<close>

lemma ssid_not_escaped:
  "map c_text (hd (render_string_row f ''wifi_ssid'' None (Some (lit ''<b>x</b>'')) (Some SSID_MAX) False)) ! 1 =
     lit ''<b>x</b>'' \<and> visible_width (lit ''<b>x</b>'') = 1"
  by (simp add: render_string_row_def middle_ellipsis_def SSID_MAX_def value_cell_def cell_new_def Let_def
      visible_width_def lit_def)

end
