(* ===== verification/Notify.thy ===== *)
theory Notify
  imports Cells
begin

text \<open>
  The desktop-notification state machine: \<open>src/notify.rs\<close> and the state it keeps between polls,
  \<open>src/domain/state.rs\<close>. The adapter that delivers a notification is a parameter: a function that
  changes its own state and may answer with an error. Temperatures are compared as the integers they
  are; the fields \<open>nf_lt\<close> and \<open>nf_secs\<close> are \<open>f64\<close>'s comparison and \<open>Duration::as_secs_f64\<close>.
\<close>

record notify_floats = float_ops +
  nf_lt :: "f64 \<Rightarrow> f64 \<Rightarrow> bool"
  nf_secs :: "duration \<Rightarrow> f64"

section \<open>State and reports\<close>

record notification_latch =
  nl_active :: bool
  nl_since :: "duration option"

definition latch_default :: notification_latch where
  "latch_default = \<lparr>nl_active = False, nl_since = None\<rparr>"

record notification_state =
  ns_disk :: "(string, bool) bmap"
  ns_disk_smart :: "(string, bool) bmap"
  ns_battery_sys :: "(string, bool) bmap"
  ns_battery_mouse :: bool
  ns_battery_kbd :: bool
  ns_server :: bool
  ns_cpu_temp :: notification_latch
  ns_gpu_nvidia_temp :: notification_latch
  ns_gpu_amd_temp :: notification_latch
  ns_hd_temp :: "(string, notification_latch) bmap"
  ns_load_avg :: notification_latch

definition notification_state_default :: notification_state where
  "notification_state_default =
     \<lparr>ns_disk = [], ns_disk_smart = [], ns_battery_sys = [], ns_battery_mouse = False,
      ns_battery_kbd = False, ns_server = False, ns_cpu_temp = latch_default,
      ns_gpu_nvidia_temp = latch_default, ns_gpu_amd_temp = latch_default, ns_hd_temp = [],
      ns_load_avg = latch_default\<rparr>"

datatype notification_urgency = Urgency_Critical
datatype notification_timeout = Timeout_Never

record notification_payload =
  np_title :: utext
  np_body :: utext
  np_icon :: utext
  np_urgency :: notification_urgency
  np_timeout :: notification_timeout

record 'e notification_report =
  nr_attempted :: nat
  nr_failures :: "(notification_payload \<times> 'e) list"

definition report_default :: "'e notification_report" where
  "report_default = \<lparr>nr_attempted = 0, nr_failures = []\<rparr>"

definition TITLE :: utext where "TITLE = lit ''PlasmaTop''"
definition ERROR_ICON :: utext where "ERROR_ICON = lit ''dialog-error''"
definition WARNING_ICON :: utext where "WARNING_ICON = lit ''dialog-warning''"
definition BATTERY_ICON :: utext where "BATTERY_ICON = lit ''battery-caution''"

definition notify_payload :: "utext \<Rightarrow> utext \<Rightarrow> notification_payload" where
  "notify_payload body icon =
     \<lparr>np_title = TITLE, np_body = body, np_icon = icon, np_urgency = Urgency_Critical,
      np_timeout = Timeout_Never\<rparr>"

definition plain_label :: "toml_table \<Rightarrow> string \<Rightarrow> string \<Rightarrow> utext" where
  "plain_label table key fallback =
     (case Option.bind (bm_get table key) as_str of Some s \<Rightarrow> text_of s | None \<Rightarrow> text_of fallback)"

definition notify_label :: "toml_table \<Rightarrow> string \<Rightarrow> string \<Rightarrow> utext" where
  "notify_label table key fallback =
     (case Option.bind (Option.bind (Option.bind (bm_get table ''notify'') as_table) (\<lambda>n. bm_get n key)) as_str of
        Some s \<Rightarrow> text_of s | None \<Rightarrow> text_of fallback)"

section \<open>Delivery\<close>

text \<open>\<open>'s\<close> is the state of the adapter, \<open>'e\<close> its error.\<close>

type_synonym ('s, 'e) facade = "'s \<Rightarrow> notification_payload \<Rightarrow> 's \<times> 'e option"
type_synonym ('s, 'e) delivery = "'s \<times> 'e notification_report"

definition emit :: "('s, 'e) facade \<Rightarrow> notification_payload \<Rightarrow> ('s, 'e) delivery \<Rightarrow> ('s, 'e) delivery" where
  "emit send notification d =
     (let (s, report) = d;
          report = report\<lparr>nr_attempted := nr_attempted report + 1\<rparr>;
          (s', result) = send s notification
      in (s', case result of
                None \<Rightarrow> report
              | Some error \<Rightarrow> report\<lparr>nr_failures := nr_failures report @ [(notification, error)]\<rparr>))"

definition emit_if ::
    "('s, 'e) facade \<Rightarrow> bool \<Rightarrow> notification_payload \<Rightarrow> ('s, 'e) delivery \<Rightarrow> ('s, 'e) delivery" where
  "emit_if send b notification d = (if b then emit send notification d else d)"

section \<open>Latches\<close>

text \<open>
  \<open>sustained\<close> with its comparisons evaluated: whether the value is below the clearing level, whether
  it is below the trip level, and which durations are shorter than the hold.
\<close>

definition sustained ::
    "bool \<Rightarrow> bool \<Rightarrow> (duration \<Rightarrow> bool) \<Rightarrow> duration \<Rightarrow> notification_latch \<Rightarrow> bool \<times> notification_latch" where
  "sustained below_clear below_trip shorter now latch =
     (if nl_active latch
      then (False, if below_clear then \<lparr>nl_active = False, nl_since = None\<rparr> else latch)
      else if below_trip then (False, latch\<lparr>nl_since := None\<rparr>)
      else
        let since = (case nl_since latch of Some s \<Rightarrow> s | None \<Rightarrow> now);
            latch = latch\<lparr>nl_since := Some since\<rparr>
        in if shorter (now - since) then (False, latch) else (True, latch\<lparr>nl_active := True\<rparr>))"

definition sustained_temp ::
    "notify_floats \<Rightarrow> notify_thresholds \<Rightarrow> int \<Rightarrow> int \<Rightarrow> duration \<Rightarrow> notification_latch \<Rightarrow>
     bool \<times> notification_latch" where
  "sustained_temp fo thr trip temp now latch =
     sustained (temp < trip - nthr_temp_hysteresis thr) (temp < trip)
       (\<lambda>d. nf_lt fo (nf_secs fo d) (fo_of_int fo (nthr_temp_sustain_seconds thr))) now latch"

section \<open>One pass\<close>

text \<open>What a pass threads through its checks: the state and the deliveries.\<close>

type_synonym ('s, 'e) pass = "notification_state \<times> ('s, 'e) delivery"

definition temp_check ::
    "('s, 'e) facade \<Rightarrow> notify_floats \<Rightarrow> notify_thresholds \<Rightarrow> bool \<Rightarrow> int option \<Rightarrow> int \<Rightarrow> utext \<Rightarrow>
     (notification_state \<Rightarrow> notification_latch) \<Rightarrow>
     (notification_latch \<Rightarrow> notification_state \<Rightarrow> notification_state) \<Rightarrow> duration \<Rightarrow>
     ('s, 'e) pass \<Rightarrow> ('s, 'e) pass" where
  "temp_check send fo thr enabled reading trip name getl putl now p =
     (let (st, d) = p in
      if \<not> enabled then p
      else case reading of
        None \<Rightarrow> p
      | Some temp \<Rightarrow>
          let (alert, latch) = sustained_temp fo thr trip temp now (getl st)
          in (putl latch st,
              emit_if send alert
                (notify_payload (name @ [SPACE] @ int_text temp @ TEMP_SCALE) ERROR_ICON) d))"

definition was_set :: "(string, bool) bmap \<Rightarrow> string \<Rightarrow> bool" where
  "was_set m k = (case bm_get m k of Some b \<Rightarrow> b | None \<Rightarrow> False)"

definition disk_check ::
    "('s, 'e) facade \<Rightarrow> config \<Rightarrow> string \<times> disk_usage_reading option \<Rightarrow> ('s, 'e) pass \<Rightarrow> ('s, 'e) pass" where
  "disk_check send cfg entry p =
     (case entry of
        (mount, None) \<Rightarrow> p
      | (mount, Some usage) \<Rightarrow>
          let (st, d) = p;
              over = nthr_disk_usage (cf_notify_thresholds cfg) \<le> du_percent usage;
              was = was_set (ns_disk st) mount
          in (st\<lparr>ns_disk := bm_insert mount over (ns_disk st)\<rparr>,
              emit_if send (over \<and> \<not> was)
                (notify_payload (notify_label (cf_labels cfg) ''disk_usage'' ''Disk'' @ [SPACE]
                   @ text_of mount @ [SPACE] @ int_text (du_percent usage) @ lit ''%'') ERROR_ICON) d))"

definition smart_check ::
    "('s, 'e) facade \<Rightarrow> config \<Rightarrow> string \<times> bool option \<Rightarrow> ('s, 'e) pass \<Rightarrow> ('s, 'e) pass" where
  "smart_check send cfg entry p =
     (case entry of
        (name, None) \<Rightarrow> p
      | (name, Some healthy) \<Rightarrow>
          let (st, d) = p;
              bad = (\<not> healthy);
              was = was_set (ns_disk_smart st) name
          in (st\<lparr>ns_disk_smart := bm_insert name bad (ns_disk_smart st)\<rparr>,
              emit_if send (bad \<and> \<not> was)
                (notify_payload (notify_label (cf_labels cfg) ''disk_smart'' ''Disk'' @ [SPACE]
                   @ text_of name @ [SPACE]
                   @ notify_label (cf_labels cfg) ''smart_fail'' ''SMART check FAILED'') ERROR_ICON) d))"

definition hd_temp_check ::
    "('s, 'e) facade \<Rightarrow> notify_floats \<Rightarrow> config \<Rightarrow> duration \<Rightarrow> string \<times> int option \<Rightarrow>
     ('s, 'e) pass \<Rightarrow> ('s, 'e) pass" where
  "hd_temp_check send fo cfg now entry p =
     (case entry of
        (name, None) \<Rightarrow> p
      | (name, Some temp) \<Rightarrow>
          let (st, d) = p;
              thr = cf_notify_thresholds cfg;
              latch = (case bm_get (ns_hd_temp st) name of Some l \<Rightarrow> l | None \<Rightarrow> latch_default);
              (alert, latch) = sustained_temp fo thr (nthr_hd_temp thr) temp now latch
          in (st\<lparr>ns_hd_temp := bm_insert name latch (ns_hd_temp st)\<rparr>,
              emit_if send alert
                (notify_payload (plain_label (cf_labels cfg) ''hd_temp'' ''Disk'' @ [SPACE] @ text_of name
                   @ lit '' temp '' @ int_text temp @ TEMP_SCALE) WARNING_ICON) d))"

definition battery_sys_check ::
    "('s, 'e) facade \<Rightarrow> config \<Rightarrow> battery_system_reading \<Rightarrow> ('s, 'e) pass \<Rightarrow> ('s, 'e) pass" where
  "battery_sys_check send cfg battery p =
     (if bs_charge_percent battery = 0 then p
      else
        let (st, d) = p;
            over = (bs_state battery \<noteq> Bat_Charging \<and> 0 < bs_charge_percent battery \<and>
                    bs_charge_percent battery \<le> nthr_battery_sys (cf_notify_thresholds cfg));
            was = was_set (ns_battery_sys st) (bs_id battery)
        in (st\<lparr>ns_battery_sys := bm_insert (bs_id battery) over (ns_battery_sys st)\<rparr>,
            emit_if send (over \<and> \<not> was)
              (notify_payload (plain_label (cf_labels cfg) ''battery_sys'' ''Battery'' @ [SPACE]
                 @ int_text (bs_charge_percent battery) @ lit ''%'') BATTERY_ICON) d))"

definition peripheral_check ::
    "('s, 'e) facade \<Rightarrow> config \<Rightarrow> bool \<Rightarrow> battery_peripheral_reading option \<Rightarrow> int \<Rightarrow> string \<Rightarrow> string \<Rightarrow>
     (notification_state \<Rightarrow> bool) \<Rightarrow> (bool \<Rightarrow> notification_state \<Rightarrow> notification_state) \<Rightarrow>
     ('s, 'e) pass \<Rightarrow> ('s, 'e) pass" where
  "peripheral_check send cfg enabled reading threshold key fallback getb putb p =
     (let (st, d) = p in
      if \<not> enabled then p
      else case reading of
        None \<Rightarrow> p
      | Some battery \<Rightarrow>
          if bp_charge_percent battery = 0 then p
          else
            let over = (0 < bp_charge_percent battery \<and> bp_charge_percent battery < threshold);
                name = (if bp_name battery = [] then plain_label (cf_labels cfg) key fallback
                        else text_of (bp_name battery))
            in (putb over st,
                emit_if send (over \<and> \<not> getb st)
                  (notify_payload (name @ lit '': '' @ int_text (bp_charge_percent battery) @ lit ''%'')
                     BATTERY_ICON) d))"

definition load_check ::
    "('s, 'e) facade \<Rightarrow> notify_floats \<Rightarrow> config \<Rightarrow> nat \<Rightarrow> load_average option \<Rightarrow> duration \<Rightarrow>
     ('s, 'e) pass \<Rightarrow> ('s, 'e) pass" where
  "load_check send fo cfg cpu_count reading now p =
     (let (st, d) = p in
      if \<not> notif_load_avg (cf_notifications cfg) then p
      else case reading of
        None \<Rightarrow> p
      | Some load \<Rightarrow>
          let thr = cf_notify_thresholds cfg;
              v = fo_div fo (la_fifteen load) (fo_of_int fo (int cpu_count));
              below = nf_lt fo v (nthr_load_avg_15 thr);
              (alert, latch) = sustained below below
                (\<lambda>d. nf_lt fo (nf_secs fo d) (fo_of_int fo (nthr_load_avg_minutes thr * 60))) now (ns_load_avg st)
          in (st\<lparr>ns_load_avg := latch\<rparr>,
              emit_if send alert
                (notify_payload (plain_label (cf_labels cfg) ''load_avg'' ''Load avg'' @ lit '' 15m ''
                   @ notify_label (cf_labels cfg) ''load_high_for'' ''high for'' @ [SPACE]
                   @ int_text (nthr_load_avg_minutes thr) @ lit '' min ('' @ fo_fixed fo 2 (la_fifteen load)
                   @ lit '')'') WARNING_ICON) d))"

definition server_check ::
    "('s, 'e) facade \<Rightarrow> config \<Rightarrow> bool option \<Rightarrow> ('s, 'e) pass \<Rightarrow> ('s, 'e) pass" where
  "server_check send cfg reading p =
     (let (st, d) = p in
      if \<not> notif_server_check (cf_notifications cfg) then p
      else case reading of
        None \<Rightarrow> p
      | Some ok \<Rightarrow>
          (st\<lparr>ns_server := \<not> ok\<rparr>,
           emit_if send (\<not> ok \<and> \<not> ns_server st)
             (notify_payload (notify_label (cf_labels cfg) ''server_down'' ''Server is not reachable!'')
                ERROR_ICON) d))"

definition check_and_notify ::
    "('s, 'e) facade \<Rightarrow> notify_floats \<Rightarrow> display_snapshot \<Rightarrow> config \<Rightarrow> hardware_inventory \<Rightarrow> duration \<Rightarrow>
     notification_state \<Rightarrow> 's \<Rightarrow> ('s, 'e) pass" where
  "check_and_notify send fo readings cfg hw now st s =
     (let enabled = cf_notifications cfg;
          thr = cf_notify_thresholds cfg;
          labels = cf_labels cfg;
          p = (st, (s, report_default));
          p = temp_check send fo thr (notif_cpu_temp enabled) (ds_cpu_temp readings) (nthr_cpu_temp thr)
                (plain_label labels ''cpu_temp'' ''Cpu temp'') ns_cpu_temp (\<lambda>l st. st\<lparr>ns_cpu_temp := l\<rparr>) now p;
          p = temp_check send fo thr (notif_gpu_nvidia_temp enabled) (ds_gpu_temp readings)
                (nthr_gpu_nvidia_temp thr) (plain_label labels ''gpu_nvidia_temp'' ''Gpu temp'')
                ns_gpu_nvidia_temp (\<lambda>l st. st\<lparr>ns_gpu_nvidia_temp := l\<rparr>) now p;
          p = temp_check send fo thr (notif_gpu_amd_temp enabled) (ds_gpu_amd_temp readings)
                (nthr_gpu_amd_temp thr) (plain_label labels ''gpu_amd_temp'' ''AMD GPU temperature'')
                ns_gpu_amd_temp (\<lambda>l st. st\<lparr>ns_gpu_amd_temp := l\<rparr>) now p;
          p = (if notif_disk_usage enabled then fold (disk_check send cfg) (ds_disk_usage readings) p else p);
          p = (if notif_disk_smart enabled then fold (smart_check send cfg) (ds_disk_smart readings) p else p);
          p = (if notif_hd_temp enabled then fold (hd_temp_check send fo cfg now) (ds_hd_temps readings) p else p);
          p = (if notif_battery_sys enabled then fold (battery_sys_check send cfg) (ds_battery_sys readings) p
               else p);
          p = peripheral_check send cfg (notif_battery_mouse enabled) (ds_battery_mouse readings)
                (nthr_battery_mouse thr) ''battery_mouse'' ''Mouse'' ns_battery_mouse
                (\<lambda>b st. st\<lparr>ns_battery_mouse := b\<rparr>) p;
          p = peripheral_check send cfg (notif_battery_kbd enabled) (ds_battery_kbd readings)
                (nthr_battery_kbd thr) ''battery_kbd'' ''Keyboard'' ns_battery_kbd
                (\<lambda>b st. st\<lparr>ns_battery_kbd := b\<rparr>) p;
          p = load_check send fo cfg (hw_cpu_count hw) (ds_load_average readings) now p
      in server_check send cfg (ds_server_ok readings) p)"

end
