(* ===== verification/NotifyProps.thy ===== *)
theory NotifyProps
  imports Notify FormatProps
begin

text \<open>
  Notifications: delivery never influences the state, a CPU-temperature alert is attempted exactly
  when the temperature was held above its level and had recovered since the last alert.
\<close>

section \<open>Delivery\<close>

text \<open>Two passes that differ in the adapter only.\<close>

definition same_edges :: "('s, 'e) pass \<Rightarrow> ('t, 'f) pass \<Rightarrow> bool" where
  "same_edges p q \<longleftrightarrow> fst p = fst q \<and> nr_attempted (snd (snd p)) = nr_attempted (snd (snd q))"

lemma emit_attempted: "nr_attempted (snd (emit send n d)) = nr_attempted (snd d) + 1"
  by (simp add: emit_def Let_def split: prod.split option.split)

lemma emit_if_attempted:
  "nr_attempted (snd (emit_if send b n d)) = nr_attempted (snd d) + (if b then 1 else 0)"
  by (simp add: emit_if_def emit_attempted)

lemma same_edgesI:
  "same_edges (st, d) (st', d') \<Longrightarrow> same_edges (u, emit_if send b n d) (u, emit_if send' b n' d')"
  by (simp add: same_edges_def emit_if_attempted)

lemma same_edges_cases:
  assumes "same_edges p q"
  obtains st d d' where "p = (st, d)" "q = (st, d')" "same_edges (st, d) (st, d')"
  using assms by (cases p; cases q) (auto simp: same_edges_def)

lemma temp_same:
  "same_edges p q \<Longrightarrow> same_edges (temp_check send fo thr e r trip name g pl now p)
     (temp_check send' fo thr e r trip name g pl now q)"
  by (erule same_edges_cases)
    (auto simp: temp_check_def Let_def split: option.split prod.split intro: same_edgesI)

lemma disk_same: "same_edges p q \<Longrightarrow> same_edges (disk_check send cfg x p) (disk_check send' cfg x q)"
  by (erule same_edges_cases) (auto simp: disk_check_def Let_def split: option.split prod.split intro: same_edgesI)

lemma smart_same: "same_edges p q \<Longrightarrow> same_edges (smart_check send cfg x p) (smart_check send' cfg x q)"
  by (erule same_edges_cases) (auto simp: smart_check_def Let_def split: option.split prod.split intro: same_edgesI)

lemma hd_temp_same:
  "same_edges p q \<Longrightarrow> same_edges (hd_temp_check send fo cfg now x p) (hd_temp_check send' fo cfg now x q)"
  by (erule same_edges_cases) (auto simp: hd_temp_check_def Let_def split: option.split prod.split intro: same_edgesI)

lemma battery_sys_same:
  "same_edges p q \<Longrightarrow> same_edges (battery_sys_check send cfg b p) (battery_sys_check send' cfg b q)"
  by (erule same_edges_cases) (auto simp: battery_sys_check_def Let_def intro: same_edgesI)

lemma peripheral_same:
  "same_edges p q \<Longrightarrow> same_edges (peripheral_check send cfg e r t k fb g pb p)
     (peripheral_check send' cfg e r t k fb g pb q)"
  by (erule same_edges_cases) (auto simp: peripheral_check_def Let_def split: option.split intro: same_edgesI)

lemma load_same:
  "same_edges p q \<Longrightarrow> same_edges (load_check send fo cfg n r now p) (load_check send' fo cfg n r now q)"
  by (erule same_edges_cases) (auto simp: load_check_def Let_def split: option.split prod.split intro: same_edgesI)

lemma server_same: "same_edges p q \<Longrightarrow> same_edges (server_check send cfg r p) (server_check send' cfg r q)"
  by (erule same_edges_cases) (auto simp: server_check_def Let_def split: option.split intro: same_edgesI)

lemma fold_same:
  "(\<And>x p q. same_edges p q \<Longrightarrow> same_edges (f x p) (g x q)) \<Longrightarrow> same_edges p q \<Longrightarrow>
     same_edges (fold f xs p) (fold g xs q)"
  by (induction xs arbitrary: p q) auto

lemmas same_rules = temp_same peripheral_same load_same server_same fold_same [OF disk_same]
  fold_same [OF smart_same] fold_same [OF hd_temp_same] fold_same [OF battery_sys_same]

lemma same_edges_if: "same_edges p q \<Longrightarrow> same_edges p' q' \<Longrightarrow> same_edges (if b then p else p') (if b then q else q')"
  by simp

lemma notify_same_edges:
  "same_edges (check_and_notify send fo r cfg hw now st s) (check_and_notify send' fo r cfg hw now st s')"
  unfolding check_and_notify_def Let_def
  by (intro same_rules same_edges_if; simp add: same_edges_def report_default_def)

section \<open>Frames\<close>

text \<open>Which check moves the latch of the CPU temperature.\<close>

lemma cpu_latch_frame:
  "ns_cpu_temp (fst (disk_check send cfg x p)) = ns_cpu_temp (fst p)"
  "ns_cpu_temp (fst (smart_check send cfg y p)) = ns_cpu_temp (fst p)"
  "ns_cpu_temp (fst (hd_temp_check send fo cfg now z p)) = ns_cpu_temp (fst p)"
  "ns_cpu_temp (fst (battery_sys_check send cfg b p)) = ns_cpu_temp (fst p)"
  "ns_cpu_temp (fst (load_check send fo cfg n l now p)) = ns_cpu_temp (fst p)"
  "ns_cpu_temp (fst (server_check send cfg ok p)) = ns_cpu_temp (fst p)"
  "(\<And>b st. ns_cpu_temp (pb b st) = ns_cpu_temp st) \<Longrightarrow>
     ns_cpu_temp (fst (peripheral_check send cfg e r t k fb g pb p)) = ns_cpu_temp (fst p)"
  "(\<And>l st. ns_cpu_temp (pl l st) = ns_cpu_temp st) \<Longrightarrow>
     ns_cpu_temp (fst (temp_check send fo thr e rd trip name gl pl now p)) = ns_cpu_temp (fst p)"
  by (cases p, simp add: disk_check_def smart_check_def hd_temp_check_def battery_sys_check_def load_check_def
      server_check_def peripheral_check_def temp_check_def Let_def split: prod.split option.split)+

lemma fold_keeps: "(\<And>x p. g (f x p) = g p) \<Longrightarrow> g (fold f xs p) = g p"
  by (induction xs arbitrary: p) auto

lemma cpu_latch_next:
  "ns_cpu_temp (fst (check_and_notify send fo r cfg hw now st s)) =
     (case ds_cpu_temp r of
        Some t \<Rightarrow>
          if notif_cpu_temp (cf_notifications cfg)
          then snd (sustained_temp fo (cf_notify_thresholds cfg) (nthr_cpu_temp (cf_notify_thresholds cfg)) t now
                 (ns_cpu_temp st))
          else ns_cpu_temp st
      | None \<Rightarrow> ns_cpu_temp st)"
proof -
  have if_frame: "ns_cpu_temp (fst (if b then fold f xs p else p)) = ns_cpu_temp (fst p)"
    if "\<And>x p. ns_cpu_temp (fst (f x p)) = ns_cpu_temp (fst p)" for b f xs and p :: "('a, 'b) pass"
    using that fold_keeps [of "\<lambda>p. ns_cpu_temp (fst p)" f] by simp
  have "ns_cpu_temp (fst (check_and_notify send fo r cfg hw now st s)) =
      ns_cpu_temp (fst (temp_check send fo (cf_notify_thresholds cfg) (notif_cpu_temp (cf_notifications cfg))
        (ds_cpu_temp r) (nthr_cpu_temp (cf_notify_thresholds cfg)) (plain_label (cf_labels cfg) ''cpu_temp'' ''Cpu temp'')
        ns_cpu_temp (\<lambda>l st. st\<lparr>ns_cpu_temp := l\<rparr>) now (st, (s, report_default))))"
    unfolding check_and_notify_def Let_def
    by (simp add: cpu_latch_frame if_frame [OF cpu_latch_frame(1)] if_frame [OF cpu_latch_frame(2)]
        if_frame [OF cpu_latch_frame(3)] if_frame [OF cpu_latch_frame(4)])
  then show ?thesis
    by (auto simp: temp_check_def Let_def split: option.split prod.split)
qed


text \<open>
  Two passes whose states differ in the latch of the CPU temperature alone, the first with \<open>k\<close> attempts
  more: every later check treats them alike.
\<close>

definition ahead :: "nat \<Rightarrow> ('s, 'e) pass \<Rightarrow> ('s, 'e) pass \<Rightarrow> bool" where
  "ahead k p q \<longleftrightarrow>
     fst p\<lparr>ns_cpu_temp := latch_default\<rparr> = fst q\<lparr>ns_cpu_temp := latch_default\<rparr> \<and>
     nr_attempted (snd (snd p)) = nr_attempted (snd (snd q)) + k"

lemma ahead_emit:
  "ahead k (st, d) (st', d') \<Longrightarrow>
     u\<lparr>ns_cpu_temp := latch_default\<rparr> = u'\<lparr>ns_cpu_temp := latch_default\<rparr> \<Longrightarrow>
     ahead k (u, emit_if send b n d) (u', emit_if send b n d')"
  by (simp add: ahead_def emit_if_attempted)

lemma ahead_cases:
  assumes "ahead k p q"
  obtains st l d d' where "p = (st\<lparr>ns_cpu_temp := l\<rparr>, d)" "q = (st, d')" "ahead k (st\<lparr>ns_cpu_temp := l\<rparr>, d) (st, d')"
proof -
  obtain u d where p: "p = (u, d)" by (cases p)
  obtain st d' where q: "q = (st, d')" by (cases q)
  have "u = st\<lparr>ns_cpu_temp := ns_cpu_temp u\<rparr>"
    using assms by (cases u; cases st) (simp add: ahead_def p q)
  with assms p q that show ?thesis by metis
qed

lemma nvidia_ahead:
  "ahead k p q \<Longrightarrow> ahead k
     (temp_check send fo thr e r trip name ns_gpu_nvidia_temp (\<lambda>l st. st\<lparr>ns_gpu_nvidia_temp := l\<rparr>) now p)
     (temp_check send fo thr e r trip name ns_gpu_nvidia_temp (\<lambda>l st. st\<lparr>ns_gpu_nvidia_temp := l\<rparr>) now q)"
  by (erule ahead_cases) (auto simp: temp_check_def Let_def split: option.split prod.split intro: ahead_emit)

lemma amd_ahead:
  "ahead k p q \<Longrightarrow> ahead k
     (temp_check send fo thr e r trip name ns_gpu_amd_temp (\<lambda>l st. st\<lparr>ns_gpu_amd_temp := l\<rparr>) now p)
     (temp_check send fo thr e r trip name ns_gpu_amd_temp (\<lambda>l st. st\<lparr>ns_gpu_amd_temp := l\<rparr>) now q)"
  by (erule ahead_cases) (auto simp: temp_check_def Let_def split: option.split prod.split intro: ahead_emit)

lemma disk_ahead: "ahead k p q \<Longrightarrow> ahead k (disk_check send cfg x p) (disk_check send cfg x q)"
  by (erule ahead_cases) (auto simp: disk_check_def Let_def split: option.split prod.split intro: ahead_emit)

lemma smart_ahead: "ahead k p q \<Longrightarrow> ahead k (smart_check send cfg x p) (smart_check send cfg x q)"
  by (erule ahead_cases) (auto simp: smart_check_def Let_def split: option.split prod.split intro: ahead_emit)

lemma hd_temp_ahead: "ahead k p q \<Longrightarrow> ahead k (hd_temp_check send fo cfg now x p) (hd_temp_check send fo cfg now x q)"
  by (erule ahead_cases) (auto simp: hd_temp_check_def Let_def split: option.split prod.split intro: ahead_emit)

lemma battery_sys_ahead: "ahead k p q \<Longrightarrow> ahead k (battery_sys_check send cfg x p) (battery_sys_check send cfg x q)"
  by (erule ahead_cases) (auto simp: battery_sys_check_def Let_def intro: ahead_emit)

lemma mouse_ahead:
  "ahead k p q \<Longrightarrow> ahead k
     (peripheral_check send cfg e r t key fb ns_battery_mouse (\<lambda>b st. st\<lparr>ns_battery_mouse := b\<rparr>) p)
     (peripheral_check send cfg e r t key fb ns_battery_mouse (\<lambda>b st. st\<lparr>ns_battery_mouse := b\<rparr>) q)"
  by (erule ahead_cases) (auto simp: peripheral_check_def Let_def split: option.split intro: ahead_emit)

lemma kbd_ahead:
  "ahead k p q \<Longrightarrow> ahead k
     (peripheral_check send cfg e r t key fb ns_battery_kbd (\<lambda>b st. st\<lparr>ns_battery_kbd := b\<rparr>) p)
     (peripheral_check send cfg e r t key fb ns_battery_kbd (\<lambda>b st. st\<lparr>ns_battery_kbd := b\<rparr>) q)"
  by (erule ahead_cases) (auto simp: peripheral_check_def Let_def split: option.split intro: ahead_emit)

lemma load_ahead: "ahead k p q \<Longrightarrow> ahead k (load_check send fo cfg n r now p) (load_check send fo cfg n r now q)"
  by (erule ahead_cases) (auto simp: load_check_def Let_def split: option.split prod.split intro: ahead_emit)

lemma server_ahead: "ahead k p q \<Longrightarrow> ahead k (server_check send cfg r p) (server_check send cfg r q)"
  by (erule ahead_cases) (auto simp: server_check_def Let_def split: option.split intro: ahead_emit)

lemma fold_ahead:
  "(\<And>x p q. ahead k p q \<Longrightarrow> ahead k (f x p) (f x q)) \<Longrightarrow> ahead k p q \<Longrightarrow> ahead k (fold f xs p) (fold f xs q)"
  by (induction xs arbitrary: p q) auto

lemma ahead_if: "ahead k p q \<Longrightarrow> ahead k p' q' \<Longrightarrow> ahead k (if b then p else p') (if b then q else q')"
  by simp

lemmas ahead_rules = nvidia_ahead amd_ahead mouse_ahead kbd_ahead load_ahead server_ahead fold_ahead [OF disk_ahead]
  fold_ahead [OF smart_ahead] fold_ahead [OF hd_temp_ahead] fold_ahead [OF battery_sys_ahead] ahead_if

text \<open>Where the first check is ahead by \<open>k\<close>, the whole pass is.\<close>

lemma temp_check_ahead:
  "ahead (if enabled \<and> (\<exists>t. reading = Some t \<and> fst (sustained_temp fo thr trip t now (ns_cpu_temp st))) then 1 else 0)
     (temp_check send fo thr enabled reading trip name ns_cpu_temp (\<lambda>l st. st\<lparr>ns_cpu_temp := l\<rparr>) now (st, d)) (st, d)"
proof (cases reading)
  case (Some t)
  obtain a l where s: "sustained_temp fo thr trip t now (ns_cpu_temp st) = (a, l)" by force
  show ?thesis
    by (auto simp: temp_check_def Some s ahead_def emit_if_attempted Let_def)
qed (simp add: temp_check_def ahead_def)

lemma cpu_attempts:
  "nr_attempted (snd (snd (check_and_notify send fo r cfg hw now st s))) -
     nr_attempted (snd (snd (check_and_notify send fo (r\<lparr>ds_cpu_temp := None\<rparr>) cfg hw now st s))) =
   (if notif_cpu_temp (cf_notifications cfg) \<and> (\<exists>t. ds_cpu_temp r = Some t \<and>
         fst (sustained_temp fo (cf_notify_thresholds cfg) (nthr_cpu_temp (cf_notify_thresholds cfg)) t now (ns_cpu_temp st)))
    then 1 else 0)" (is "?with - ?without = ?k")
proof -
  let ?first = "\<lambda>reading. temp_check send fo (cf_notify_thresholds cfg) (notif_cpu_temp (cf_notifications cfg))
        reading (nthr_cpu_temp (cf_notify_thresholds cfg)) (plain_label (cf_labels cfg) ''cpu_temp'' ''Cpu temp'')
        ns_cpu_temp (\<lambda>l st. st\<lparr>ns_cpu_temp := l\<rparr>) now (st, (s, report_default))"
  have none: "?first None = (st, (s, report_default))" by (simp add: temp_check_def)
  have "ahead ?k (?first (ds_cpu_temp r)) (?first None)"
    unfolding none by (rule temp_check_ahead)
  note first = this
  have same: "ds_cpu_temp (r\<lparr>ds_cpu_temp := None\<rparr>) = None"
    "ds_gpu_temp (r\<lparr>ds_cpu_temp := None\<rparr>) = ds_gpu_temp r" "ds_gpu_amd_temp (r\<lparr>ds_cpu_temp := None\<rparr>) = ds_gpu_amd_temp r"
    "ds_disk_usage (r\<lparr>ds_cpu_temp := None\<rparr>) = ds_disk_usage r" "ds_disk_smart (r\<lparr>ds_cpu_temp := None\<rparr>) = ds_disk_smart r"
    "ds_hd_temps (r\<lparr>ds_cpu_temp := None\<rparr>) = ds_hd_temps r" "ds_battery_sys (r\<lparr>ds_cpu_temp := None\<rparr>) = ds_battery_sys r"
    "ds_battery_mouse (r\<lparr>ds_cpu_temp := None\<rparr>) = ds_battery_mouse r" "ds_battery_kbd (r\<lparr>ds_cpu_temp := None\<rparr>) = ds_battery_kbd r"
    "ds_load_average (r\<lparr>ds_cpu_temp := None\<rparr>) = ds_load_average r" "ds_server_ok (r\<lparr>ds_cpu_temp := None\<rparr>) = ds_server_ok r"
    by simp_all
  have "ahead ?k (check_and_notify send fo r cfg hw now st s)
      (check_and_notify send fo (r\<lparr>ds_cpu_temp := None\<rparr>) cfg hw now st s)"
    unfolding check_and_notify_def Let_def same by (intro ahead_rules first)
  then show ?thesis by (simp add: ahead_def)
qed

section \<open>Runs of polls\<close>

text \<open>
  A run threads the state through a list of polls. Its trace keeps, of each poll, the CPU temperature,
  the time, and how many notifications the pass attempts on account of the CPU temperature: its attempts
  less those of the same pass with that reading left out.
\<close>

type_synonym cpu_poll = "int option \<times> duration \<times> nat"

definition attempts ::
    "('s, 'e) facade \<Rightarrow> notify_floats \<Rightarrow> config \<Rightarrow> hardware_inventory \<Rightarrow> notification_state \<Rightarrow> 's \<Rightarrow>
     display_snapshot \<Rightarrow> duration \<Rightarrow> nat" where
  "attempts send fo cfg hw st s r now = nr_attempted (snd (snd (check_and_notify send fo r cfg hw now st s)))"

fun notify_trace ::
    "('s, 'e) facade \<Rightarrow> notify_floats \<Rightarrow> config \<Rightarrow> hardware_inventory \<Rightarrow> notification_state \<Rightarrow> 's \<Rightarrow>
     (display_snapshot \<times> duration) list \<Rightarrow> cpu_poll list" where
  "notify_trace send fo cfg hw st s [] = []"
| "notify_trace send fo cfg hw st s ((r, now) # polls) =
     (let (st', s', report) = check_and_notify send fo r cfg hw now st s
      in (ds_cpu_temp r, now,
          attempts send fo cfg hw st s r now - attempts send fo cfg hw st s (r\<lparr>ds_cpu_temp := None\<rparr>) now)
           # notify_trace send fo cfg hw st' s' polls)"

definition below :: "int \<Rightarrow> cpu_poll \<Rightarrow> bool" where
  "below level e = (case fst e of Some t \<Rightarrow> t < level | None \<Rightarrow> False)"

definition alerted :: "cpu_poll \<Rightarrow> bool" where
  "alerted e \<longleftrightarrow> snd (snd e) \<noteq> 0"

definition held :: "int \<Rightarrow> cpu_poll list \<Rightarrow> duration \<Rightarrow> bool" where
  "held trip polls since \<longleftrightarrow>
     (\<exists>us e vs. polls = us @ e # vs \<and> fst e \<noteq> None \<and> fst (snd e) = since \<and> (\<forall>v\<in>set (e # vs). \<not> below trip v))"

definition recovered :: "int \<Rightarrow> cpu_poll list \<Rightarrow> bool" where
  "recovered clear polls \<longleftrightarrow>
     (\<forall>us e vs. polls = us @ e # vs \<longrightarrow> alerted e \<longrightarrow> (\<exists>v\<in>set vs. below clear v))"

lemma held_snoc:
  assumes "held trip polls s" and "\<not> below trip e"
  shows "held trip (polls @ [e]) s"
proof -
  obtain us x vs where "polls = us @ x # vs" "fst x \<noteq> None" "fst (snd x) = s"
      "\<forall>v\<in>set (x # vs). \<not> below trip v"
    using assms(1) by (auto simp: held_def)
  then show ?thesis
    unfolding held_def using assms(2) by (intro exI [of _ us] exI [of _ x] exI [of _ "vs @ [e]"]) auto
qed

lemma held_start: "fst e \<noteq> None \<Longrightarrow> \<not> below trip e \<Longrightarrow> held trip (polls @ [e]) (fst (snd e))"
  unfolding held_def by (rule exI [of _ polls]) auto

lemma recovered_nil [simp]: "recovered clear []"
  by (simp add: recovered_def)

lemma recovered_snocI:
  assumes "\<not> alerted e" and "recovered clear polls \<or> below clear e"
  shows "recovered clear (polls @ [e])"
  unfolding recovered_def
proof (intro allI impI)
  fix us x vs
  assume split: "polls @ [e] = us @ x # vs" and "alerted x"
  with assms(1) obtain ws where ws: "vs = ws @ [e]" by (cases vs rule: rev_cases) auto
  with split have "polls = us @ x # ws" by simp
  with \<open>alerted x\<close> have "recovered clear polls \<Longrightarrow> \<exists>v\<in>set ws. below clear v"
    unfolding recovered_def by blast
  with assms(2) show "\<exists>v\<in>set vs. below clear v"
    by (auto simp: ws)
qed

text \<open>The latch after one poll, and the trace of a latch alone.\<close>

definition cpu_step :: "notify_floats \<Rightarrow> notify_thresholds \<Rightarrow> int option \<Rightarrow> duration \<Rightarrow> notification_latch \<Rightarrow>
    bool \<times> notification_latch" where
  "cpu_step fo thr reading now latch =
     (case reading of Some t \<Rightarrow> sustained_temp fo thr (nthr_cpu_temp thr) t now latch | None \<Rightarrow> (False, latch))"

fun latch_trace :: "notify_floats \<Rightarrow> notify_thresholds \<Rightarrow> notification_latch \<Rightarrow> (int option \<times> duration) list \<Rightarrow>
    cpu_poll list" where
  "latch_trace fo thr l [] = []"
| "latch_trace fo thr l ((r, now) # polls) =
     (r, now, if fst (cpu_step fo thr r now l) then 1 else 0) # latch_trace fo thr (snd (cpu_step fo thr r now l)) polls"

lemma notify_trace_latch:
  assumes "notif_cpu_temp (cf_notifications cfg)"
  shows "notify_trace send fo cfg hw st s polls =
     latch_trace fo (cf_notify_thresholds cfg) (ns_cpu_temp st) (map (\<lambda>(r, now). (ds_cpu_temp r, now)) polls)"
proof (induction polls arbitrary: st s)
  case (Cons p polls)
  obtain r now where p: "p = (r, now)" by (cases p)
  obtain st' s' rep where run: "check_and_notify send fo r cfg hw now st s = (st', s', rep)"
    by (cases "check_and_notify send fo r cfg hw now st s") auto
  have "ns_cpu_temp st' = snd (cpu_step fo (cf_notify_thresholds cfg) (ds_cpu_temp r) now (ns_cpu_temp st))"
    using cpu_latch_next [of send fo r cfg hw now st s] assms
    by (simp add: run cpu_step_def split: option.split)
  moreover have "attempts send fo cfg hw st s r now - attempts send fo cfg hw st s (r\<lparr>ds_cpu_temp := None\<rparr>) now =
      (if fst (cpu_step fo (cf_notify_thresholds cfg) (ds_cpu_temp r) now (ns_cpu_temp st)) then 1 else 0)"
    unfolding attempts_def cpu_attempts using assms by (cases "ds_cpu_temp r") (simp_all add: cpu_step_def)
  ultimately show ?case using Cons.IH [of st' s'] by (simp add: p run)
qed simp

text \<open>
  What the history says of a latch: an idle one has recovered from the last alert and remembers when the
  temperature was first held. Conversely, where the clearing level is not above the trip level, a latch
  that has recovered is idle and remembers no later time than any from which the temperature was held.
\<close>

definition latch_inv :: "notify_thresholds \<Rightarrow> cpu_poll list \<Rightarrow> notification_latch \<Rightarrow> bool" where
  "latch_inv thr h l \<longleftrightarrow>
     (\<not> nl_active l \<longrightarrow>
        recovered (nthr_cpu_temp thr - nthr_temp_hysteresis thr) h \<and>
        (\<forall>s. nl_since l = Some s \<longrightarrow> held (nthr_cpu_temp thr) h s))"

definition latch_due :: "notify_thresholds \<Rightarrow> cpu_poll list \<Rightarrow> notification_latch \<Rightarrow> bool" where
  "latch_due thr h l \<longleftrightarrow>
     (recovered (nthr_cpu_temp thr - nthr_temp_hysteresis thr) h \<longrightarrow>
        \<not> nl_active l \<and> (\<forall>s. held (nthr_cpu_temp thr) h s \<longrightarrow> (\<exists>s' \<le> s. nl_since l = Some s')))"

definition exact_hold :: "notify_floats \<Rightarrow> int \<Rightarrow> bool" where
  "exact_hold fo hold \<longleftrightarrow>
     (\<forall>d. nf_lt fo (nf_secs fo d) (fo_of_int fo hold) \<longleftrightarrow> int d < hold * int nanos_per_sec)"

lemma cpu_step_cases:
  assumes "exact_hold fo (nthr_temp_sustain_seconds thr)"
  obtains (Silent) "r = None" "cpu_step fo thr r now l = (False, l)"
  | (Cleared) t l' where "r = Some t" "nl_active l" "t < nthr_cpu_temp thr - nthr_temp_hysteresis thr"
      "cpu_step fo thr r now l = (False, l')" "\<not> nl_active l'" "nl_since l' = None"
  | (Active) t where "r = Some t" "nl_active l" "\<not> t < nthr_cpu_temp thr - nthr_temp_hysteresis thr"
      "cpu_step fo thr r now l = (False, l)"
  | (Low) t l' where "r = Some t" "\<not> nl_active l" "t < nthr_cpu_temp thr"
      "cpu_step fo thr r now l = (False, l')" "\<not> nl_active l'" "nl_since l' = None"
  | (High) t s a l' where "r = Some t" "\<not> nl_active l" "nthr_cpu_temp thr \<le> t"
      "s = (case nl_since l of Some s \<Rightarrow> s | None \<Rightarrow> now)"
      "cpu_step fo thr r now l = (a, l')" "nl_since l' = Some s" "nl_active l' = a"
      "a \<longleftrightarrow> nthr_temp_sustain_seconds thr * int nanos_per_sec \<le> int (now - s)"
proof (cases r)
  case None
  then show ?thesis by (intro Silent) (simp_all add: cpu_step_def)
next
  case (Some t)
  have shorter: "nf_lt fo (nf_secs fo d) (fo_of_int fo (nthr_temp_sustain_seconds thr)) \<longleftrightarrow>
      int d < nthr_temp_sustain_seconds thr * int nanos_per_sec" for d
    using assms by (simp add: exact_hold_def)
  note facts = cpu_step_def sustained_temp_def sustained_def Let_def shorter Some
  consider "nl_active l" "t < nthr_cpu_temp thr - nthr_temp_hysteresis thr"
    | "nl_active l" "\<not> t < nthr_cpu_temp thr - nthr_temp_hysteresis thr"
    | "\<not> nl_active l" "t < nthr_cpu_temp thr" | "\<not> nl_active l" "nthr_cpu_temp thr \<le> t" by linarith
  then show ?thesis
  proof cases
    case 1
    then show ?thesis by (intro Cleared [of t "\<lparr>nl_active = False, nl_since = None\<rparr>"]) (simp_all add: facts)
  next
    case 2
    then show ?thesis by (intro Active [of t]) (simp_all add: facts)
  next
    case 3
    then show ?thesis by (intro Low [of t "l\<lparr>nl_since := None\<rparr>"]) (simp_all add: facts)
  next
    case 4
    then show ?thesis
      by (intro High [of t _ "fst (cpu_step fo thr r now l)" "snd (cpu_step fo thr r now l)"]) (auto simp: facts)
  qed
qed

abbreviation poll_of :: "notify_floats \<Rightarrow> notify_thresholds \<Rightarrow> int option \<Rightarrow> duration \<Rightarrow> notification_latch \<Rightarrow> cpu_poll" where
  "poll_of fo thr r now l \<equiv> (r, now, if fst (cpu_step fo thr r now l) then 1 else 0)"

lemma latch_step:
  assumes inv: "latch_inv thr h l" and exact: "exact_hold fo (nthr_temp_sustain_seconds thr)"
    and e: "e = poll_of fo thr r now l"
  shows "latch_inv thr (h @ [e]) (snd (cpu_step fo thr r now l)) \<and>
         (alerted e \<longrightarrow> recovered (nthr_cpu_temp thr - nthr_temp_hysteresis thr) h \<and>
           (\<exists>s. held (nthr_cpu_temp thr) (h @ [e]) s \<and>
                nthr_temp_sustain_seconds thr * int nanos_per_sec \<le> int (now - s)))"
  using exact
proof (cases rule: cpu_step_cases [of fo thr r now l])
  case Silent
  with inv show ?thesis
    by (auto simp: latch_inv_def e below_def alerted_def intro!: recovered_snocI held_snoc)
next
  case (Cleared t)
  then show ?thesis
    by (auto simp: latch_inv_def e below_def alerted_def intro!: recovered_snocI)
next
  case Active
  then show ?thesis by (simp add: latch_inv_def e alerted_def)
next
  case (Low t)
  with inv show ?thesis
    by (auto simp: latch_inv_def e alerted_def intro!: recovered_snocI)
next
  case (High t s a l')
  have "held (nthr_cpu_temp thr) (h @ [e]) s"
    using inv High held_start [of e "nthr_cpu_temp thr" h]
    by (cases "nl_since l") (auto simp: latch_inv_def e below_def intro!: held_snoc)
  with inv High show ?thesis
    by (auto simp: latch_inv_def alerted_def e intro!: recovered_snocI)
qed

text \<open>What a snoc says the other way round.\<close>

lemma held_snocD:
  assumes "held trip (polls @ [e]) s"
  shows "\<not> below trip e" and "held trip polls s \<or> fst e \<noteq> None \<and> s = fst (snd e)"
proof -
  obtain us x vs where x: "polls @ [e] = us @ x # vs" "fst x \<noteq> None" "fst (snd x) = s" "\<forall>v\<in>set (x # vs). \<not> below trip v"
    using assms by (auto simp: held_def)
  show "\<not> below trip e" and "held trip polls s \<or> fst e \<noteq> None \<and> s = fst (snd e)"
  proof (atomize (full), cases vs rule: rev_cases)
    case Nil
    then show "\<not> below trip e \<and> (held trip polls s \<or> fst e \<noteq> None \<and> s = fst (snd e))" using x by auto
  next
    case (snoc ws y)
    then have "y = e" "polls = us @ x # ws" using x(1) by auto
    moreover from this have "held trip polls s"
      unfolding held_def by (intro exI [of _ us] exI [of _ x] exI [of _ ws]) (use x snoc in \<open>auto\<close>)
    ultimately show "\<not> below trip e \<and> (held trip polls s \<or> fst e \<noteq> None \<and> s = fst (snd e))"
      using x snoc by simp
  qed
qed

lemma recovered_snocD:
  assumes "recovered clear (polls @ [e])"
  shows "\<not> alerted e" and "\<not> below clear e \<Longrightarrow> recovered clear polls"
proof -
  show "\<not> alerted e" using assms [unfolded recovered_def, rule_format, of polls e "[]"] by auto
  show "recovered clear polls" if "\<not> below clear e"
    unfolding recovered_def
  proof (intro allI impI)
    fix us x vs
    assume "polls = us @ x # vs" "alerted x"
    then have "\<exists>v\<in>set (vs @ [e]). below clear v"
      using assms unfolding recovered_def by (metis append_Cons append_assoc)
    with that show "\<exists>v\<in>set vs. below clear v" by auto
  qed
qed

lemma latch_due_step:
  assumes inv: "latch_inv thr h l" and due: "latch_due thr h l" and exact: "exact_hold fo (nthr_temp_sustain_seconds thr)"
    and hyst: "0 \<le> nthr_temp_hysteresis thr" and times: "\<forall>x\<in>set h. fst (snd x) \<le> now"
    and e: "e = poll_of fo thr r now l"
  shows "latch_due thr (h @ [e]) (snd (cpu_step fo thr r now l)) \<and>
         (recovered (nthr_cpu_temp thr - nthr_temp_hysteresis thr) h \<longrightarrow> r \<noteq> None \<longrightarrow>
          held (nthr_cpu_temp thr) (h @ [e]) s \<longrightarrow>
          nthr_temp_sustain_seconds thr * int nanos_per_sec \<le> int (now - s) \<longrightarrow> alerted e)"
  using exact
proof (cases rule: cpu_step_cases [of fo thr r now l])
  case Silent
  then have "\<not> below (nthr_cpu_temp thr - nthr_temp_hysteresis thr) e" by (simp add: e below_def)
  with due Silent show ?thesis
    by (auto simp: latch_due_def e dest!: recovered_snocD(2) held_snocD(2))
next
  case (Cleared t)
  then have "below (nthr_cpu_temp thr) e" "nl_active l" using hyst by (simp_all add: e below_def)
  with Cleared due show ?thesis by (auto simp: latch_due_def dest: held_snocD(1))
next
  case (Active t)
  then have "\<not> below (nthr_cpu_temp thr - nthr_temp_hysteresis thr) e" by (simp add: e below_def)
  then have "recovered (nthr_cpu_temp thr - nthr_temp_hysteresis thr) (h @ [e]) \<Longrightarrow>
      recovered (nthr_cpu_temp thr - nthr_temp_hysteresis thr) h" by (rule recovered_snocD(2) [rotated])
  with Active due show ?thesis by (auto simp: latch_due_def)
next
  case (Low t)
  then have "below (nthr_cpu_temp thr) e" by (simp add: e below_def)
  with Low show ?thesis by (auto simp: latch_due_def dest: held_snocD(1))
next
  case (High t s' a l')
  then have rec: "recovered (nthr_cpu_temp thr - nthr_temp_hysteresis thr) h"
    using inv by (simp add: latch_inv_def)
  have "s' \<le> now"
    using High(2,4) inv times by (cases "nl_since l") (auto simp: latch_inv_def held_def)
  then have first: "s' \<le> u" if "held (nthr_cpu_temp thr) (h @ [e]) u" for u
    using held_snocD(2) [OF that] due rec High(4) by (auto simp: latch_due_def e)
  have "alerted e" if "held (nthr_cpu_temp thr) (h @ [e]) s"
      "nthr_temp_sustain_seconds thr * int nanos_per_sec \<le> int (now - s)"
    using first [OF that(1)] that(2) High by (simp add: alerted_def e)
  moreover have "\<not> nl_active l'" if "recovered (nthr_cpu_temp thr - nthr_temp_hysteresis thr) (h @ [e])"
    using recovered_snocD(1) [OF that] High by (simp add: alerted_def e split: if_splits)
  ultimately show ?thesis using first High by (auto simp: latch_due_def)
qed

lemma latch_trace_alerts:
  assumes "latch_inv thr h l" and "exact_hold fo (nthr_temp_sustain_seconds thr)"
    and "latch_trace fo thr l polls = xs @ e # ys" and "alerted e"
  shows "snd (snd e) = 1 \<and> recovered (nthr_cpu_temp thr - nthr_temp_hysteresis thr) (h @ xs) \<and>
           (\<exists>s. held (nthr_cpu_temp thr) (h @ xs @ [e]) s \<and>
                nthr_temp_sustain_seconds thr * int nanos_per_sec \<le> int (fst (snd e) - s))"
  using assms
proof (induction polls arbitrary: h l xs)
  case (Cons p polls)
  obtain r now where p: "p = (r, now)" by (cases p)
  note step = latch_step [OF Cons.prems(1,2) refl, of r now]
  show ?case
  proof (cases xs)
    case Nil
    then show ?thesis
      using step Cons.prems(3,4) by (auto simp: p alerted_def split: if_splits)
  next
    case (Cons x xs')
    then show ?thesis
      using Cons.IH [OF conjunct1 [OF step] Cons.prems(2) _ Cons.prems(4), of xs'] Cons.prems(3) by (simp add: p)
  qed
qed simp

lemma latch_trace_due:
  assumes "latch_inv thr h l" and "latch_due thr h l" and "exact_hold fo (nthr_temp_sustain_seconds thr)"
    and "0 \<le> nthr_temp_hysteresis thr" and "sorted (map (fst \<circ> snd) h @ map snd polls)"
    and "latch_trace fo thr l polls = xs @ e # ys"
    and "recovered (nthr_cpu_temp thr - nthr_temp_hysteresis thr) (h @ xs)" and "fst e \<noteq> None"
    and "held (nthr_cpu_temp thr) (h @ xs @ [e]) s"
    and "nthr_temp_sustain_seconds thr * int nanos_per_sec \<le> int (fst (snd e) - s)"
  shows "alerted e"
  using assms
proof (induction polls arbitrary: h l xs)
  case (Cons p polls)
  obtain r now where p: "p = (r, now)" by (cases p)
  have "\<forall>x\<in>set h. fst (snd x) \<le> now" using Cons.prems(5) by (auto simp: p sorted_append)
  note step = latch_due_step [OF Cons.prems(1-4) this refl, of r s]
  note inv = latch_step [OF Cons.prems(1,3) refl, of r now, THEN conjunct1]
  show ?case
  proof (cases xs)
    case Nil
    then show ?thesis
      using step Cons.prems(6-10) by (auto simp: p)
  next
    case (Cons x xs')
    then show ?thesis
      using Cons.IH [OF inv conjunct1 [OF step] Cons.prems(3,4), of xs'] Cons.prems(5-10) by (simp add: p)
  qed
qed simp

section \<open>Properties\<close>

text \<open>
  C39. Whether the desktop service accepts or refuses a notification changes neither the alert state
  nor which alerts are attempted: two passes over the same readings with any two adapters end in the
  same state with the same number of attempts, so a failing service can neither repeat nor suppress
  an alert.
\<close>

theorem delivery_never_matters:
  "fst (check_and_notify send fo r cfg hw now st s) = fst (check_and_notify send' fo r cfg hw now st s') \<and>
   nr_attempted (snd (snd (check_and_notify send fo r cfg hw now st s))) =
     nr_attempted (snd (snd (check_and_notify send' fo r cfg hw now st s')))"
  using notify_same_edges [of send fo r cfg hw now st s send' s'] by (simp add: same_edges_def)

text \<open>
  C38. CPU-temperature alerts of a run of polls that starts from a fresh state. A poll attempts at most one
  notification on account of the CPU temperature. When it does, it ends a stretch of polls none of which
  read a temperature under the trip level and whose first poll read one, at least the configured hold
  earlier; and after the alert before it some poll read a temperature under the clearing level (trip less
  hysteresis), so a temperature that hovers around the trip level without falling under the clearing level
  alerts at most once. Conversely a poll that reads a temperature at the end of such a stretch, with such
  a recovery since the last alert, does alert, when time does not run backwards and the hysteresis is not
  negative. Hypotheses: the alert is enabled, and comparing the seconds of a stretch with the configured
  hold in floating point is exact.
\<close>

theorem cpu_alerts_sustained:
  assumes "notif_cpu_temp (cf_notifications cfg)"
    and "exact_hold fo (nthr_temp_sustain_seconds (cf_notify_thresholds cfg))"
    and "notify_trace send fo cfg hw notification_state_default s polls = xs @ e # ys"
    and "trip = nthr_cpu_temp (cf_notify_thresholds cfg)"
    and "clear = trip - nthr_temp_hysteresis (cf_notify_thresholds cfg)"
    and "long = (\<lambda>since. nthr_temp_sustain_seconds (cf_notify_thresholds cfg) * int nanos_per_sec
                   \<le> int (fst (snd e) - since))"
  shows "(alerted e \<longrightarrow> snd (snd e) = 1 \<and> recovered clear xs \<and> (\<exists>since. held trip (xs @ [e]) since \<and> long since)) \<and>
    (sorted (map snd polls) \<and> clear \<le> trip \<and> fst e \<noteq> None \<and> recovered clear xs \<and>
       (\<exists>since. held trip (xs @ [e]) since \<and> long since) \<longrightarrow> alerted e)"
proof -
  let ?thr = "cf_notify_thresholds cfg"
  have inv: "latch_inv ?thr [] (ns_cpu_temp notification_state_default)"
    and due: "latch_due ?thr [] (ns_cpu_temp notification_state_default)"
    by (simp_all add: latch_inv_def latch_due_def held_def notification_state_default_def latch_default_def)
  have times: "map snd (map (\<lambda>(r, now). (ds_cpu_temp r, now)) polls) = map snd polls" by auto
  note trace = assms(3) [unfolded notify_trace_latch [OF assms(1)]]
  show ?thesis
    using latch_trace_alerts [OF inv assms(2) trace] latch_trace_due [OF inv due assms(2) _ _ trace]
    unfolding times assms(4-6) append_Nil list.map(1) by auto
qed

text \<open>A run with one alert: 85 degrees at 0 s and still at 60 s.\<close>

definition sample_notify_floats :: notify_floats where
  "sample_notify_floats = float_ops.extend sample_floats
     \<lparr>nf_lt = (\<lambda>a b. a < b), nf_secs = (\<lambda>d. of_nat (min d (2 ^ 63)))\<rparr>\<lparr>fo_of_int := (\<lambda>h. of_int (h * 10 ^ 9))\<rparr>"

definition hot_config :: config where
  "hot_config = config_default\<lparr>cf_notifications := notification_config_default\<lparr>notif_cpu_temp := True\<rparr>\<rparr>"

definition hot_polls :: "(display_snapshot \<times> duration) list" where
  "hot_polls = map (\<lambda>now. (display_snapshot_default\<lparr>ds_cpu_temp := Some 85\<rparr>, now)) [0, from_secs 60]"

lemma sample_exact: "exact_hold sample_notify_floats 60"
proof -
  have "unat (of_nat (min d (2 ^ 63)) :: 64 word) = min d (2 ^ 63)" for d
    by (simp add: unat_of_nat min_def)
  then have "(of_nat (min d (2 ^ 63)) :: 64 word) < of_int (60 * 10 ^ 9) \<longleftrightarrow> int d < 60 * 10 ^ 9" for d
    by (auto simp: word_less_nat_alt min_def)
  then show ?thesis
    by (simp add: exact_hold_def sample_notify_floats_def float_ops.defs nanos_per_sec_def)
qed

lemma hot_config_simps [simp]:
  "notif_cpu_temp (cf_notifications hot_config)"
  "cf_notify_thresholds hot_config = notify_thresholds_default"
  by (simp_all add: hot_config_def config_default_def)

theorem cpu_alerts_sustained_witness:
  "notify_trace (\<lambda>s n. (s, Some n)) sample_notify_floats hot_config hardware_inventory_default
       notification_state_default () hot_polls = [(Some 85, 0, 0)] @ (Some 85, from_secs 60, 1) # [] \<and>
   recovered 75 [(Some 85, 0, 0)] \<and>
   (\<exists>since. held 80 ([(Some 85, 0, 0)] @ [(Some 85, from_secs 60, 1)]) since \<and>
      60 * int nanos_per_sec \<le> int (from_secs 60 - since))"
proof -
  have shorter: "nf_lt sample_notify_floats (nf_secs sample_notify_floats d) (fo_of_int sample_notify_floats 60) \<longleftrightarrow>
      int d < 60 * int nanos_per_sec" for d
    using sample_exact by (simp add: exact_hold_def)
  have run: "notify_trace (\<lambda>s n. (s, Some n)) sample_notify_floats hot_config hardware_inventory_default
       notification_state_default () hot_polls = [(Some 85, 0, 0)] @ (Some 85, from_secs 60, 1) # []"
    unfolding notify_trace_latch [OF hot_config_simps(1)]
    by (simp add: hot_polls_def cpu_step_def sustained_temp_def sustained_def shorter notify_thresholds_default_def
        notification_state_default_def latch_default_def Let_def from_secs_def nanos_per_sec_def)
  then show ?thesis
    using cpu_alerts_sustained [OF hot_config_simps(1) _ run refl refl refl] sample_exact
    by (simp add: notify_thresholds_default_def alerted_def)
qed

end
