(* ===== verification/Procfs.thy ===== *)
theory Procfs
  imports Cells Readings
begin

text \<open>
  Numbers and files of the sensors: rounding and rates, the parsers of \<open>/proc\<close> in
  \<open>src/sensors/memory.rs\<close>, \<open>cpu.rs\<close>, \<open>disk.rs\<close> and \<open>process.rs\<close>, and the bounded histories. An unsigned
  integer is a natural number whose width shows in the operations that saturate, check or wrap; a
  file that cannot be read is \<open>None\<close>.
\<close>

section \<open>Machine arithmetic\<close>

definition u64_saturating_mul :: "nat \<Rightarrow> nat \<Rightarrow> nat" where
  "u64_saturating_mul a b = min (a * b) u64_max"

definition u64_checked_add :: "nat \<Rightarrow> nat \<Rightarrow> nat option" where
  "u64_checked_add a b = (if a + b \<le> u64_max then Some (a + b) else None)"

definition u64_checked_mul :: "nat \<Rightarrow> nat \<Rightarrow> nat option" where
  "u64_checked_mul a b = (if a * b \<le> u64_max then Some (a * b) else None)"

definition checked_sub :: "nat \<Rightarrow> nat \<Rightarrow> nat option" where
  "checked_sub a b = (if b \<le> a then Some (a - b) else None)"

definition as_u64 :: "nat \<Rightarrow> nat" where "as_u64 n = n mod 2 ^ 64"
definition as_i32 :: "nat \<Rightarrow> int" where "as_i32 n = wrap32 (int n)"

definition i128_sat :: "int \<Rightarrow> int" where
  "i128_sat v = max (- (2 ^ 127)) (min v (2 ^ 127 - 1))"

section \<open>Rounding and rates\<close>

definition round_half_even_ratio :: "nat \<Rightarrow> nat \<Rightarrow> nat" where
  "round_half_even_ratio numerator denominator =
     (if denominator = 0 then 0
      else
        let quotient = numerator div denominator;
            remainder = numerator mod denominator;
            doubled = u128_saturating_mul remainder 2
        in if denominator < doubled then u128_saturating_add quotient 1
           else if doubled < denominator \<or> quotient mod 2 = 0 then quotient
           else u128_saturating_add quotient 1)"

definition round_half_even_div :: "nat \<Rightarrow> nat \<Rightarrow> nat" where
  "round_half_even_div numerator denominator = as_u64 (round_half_even_ratio numerator denominator)"

definition BYTES_PER_KIB :: nat where "BYTES_PER_KIB = 1024"
definition BYTES_PER_GIB :: nat where "BYTES_PER_GIB = 1024 * 1024 * 1024"
definition DEFAULT_PAGE_SIZE :: nat where "DEFAULT_PAGE_SIZE = 4096"
definition DISKSTAT_SECTOR_BYTES :: nat where "DISKSTAT_SECTOR_BYTES = 512"

definition rounded_percent_int :: "nat \<Rightarrow> nat \<Rightarrow> int" where
  "rounded_percent_int used whole =
     (if whole = 0 then 0
      else as_i32 (round_half_even_ratio (u128_saturating_mul used 1000) whole div 10))"

definition rate_per_second :: "nat \<Rightarrow> nat \<Rightarrow> nat" where
  "rate_per_second delta elapsed_nanos =
     (let scaled = u128_saturating_mul delta nanos_per_sec div elapsed_nanos
      in if scaled \<le> u64_max then scaled else u64_max)"

definition dbm_to_pct :: "int \<Rightarrow> int" where
  "dbm_to_pct dbm = int_clamp 0 100 (wrap32 (2 * wrap32 (dbm + 100)))"

section \<open>Histories\<close>

definition trim_to_len :: "nat \<Rightarrow> 'a list \<Rightarrow> 'a list" where
  "trim_to_len max_len values =
     (if max_len = 0 then []
      else if max_len < length values then drop (length values - max_len) values else values)"

definition history_due :: "duration option \<Rightarrow> duration \<Rightarrow> duration \<Rightarrow> bool \<times> duration option" where
  "history_due last_sample_at now interval =
     (case last_sample_at of
        None \<Rightarrow> (True, Some now)
      | Some sampled \<Rightarrow>
          if interval \<le> dur_saturating_sub now sampled then (True, Some now) else (False, last_sample_at))"

definition maybe_append_history ::
    "'a list \<Rightarrow> duration option \<Rightarrow> duration \<Rightarrow> duration \<Rightarrow> nat \<Rightarrow> 'a \<Rightarrow> 'a list \<times> duration option" where
  "maybe_append_history history at now interval max_len sample =
     (let (due, at) = history_due at now interval
      in (if due then trim_to_len max_len (history @ [sample]) else history, at))"

definition i32_saturating_mul :: "int \<Rightarrow> int \<Rightarrow> int" where
  "i32_saturating_mul a b = max (- (2 ^ 31)) (min (a * b) (2 ^ 31 - 1))"

definition graph_len :: "config \<Rightarrow> int" where
  "graph_len cfg =
     (if ''graphs'' \<in> set (pages_order (cf_pages cfg)) then pages_graph_history_length (cf_pages cfg) else 0)"

definition longest :: "int list \<Rightarrow> nat" where
  "longest values = fold max (map nat values) 0"

definition aggregate_history_len :: "config \<Rightarrow> nat" where
  "aggregate_history_len cfg =
     longest
       [spark_cpu_spark_length (cf_spark_panel cfg),
        spark_cpu_spark_length (cf_spark_tooltip cfg),
        i32_saturating_mul (braille_cpu_braille_length (cf_braille_panel cfg)) 2,
        i32_saturating_mul (braille_cpu_braille_length (cf_braille_tooltip cfg)) 2,
        graph_len cfg]"

definition memory_history_len :: "config \<Rightarrow> nat" where
  "memory_history_len cfg =
     longest
       [spark_mem_spark_length (cf_spark_panel cfg),
        spark_mem_spark_length (cf_spark_tooltip cfg),
        i32_saturating_mul (braille_mem_braille_length (cf_braille_panel cfg)) 2,
        i32_saturating_mul (braille_mem_braille_length (cf_braille_tooltip cfg)) 2,
        graph_len cfg]"

definition per_core_history_len :: "config \<Rightarrow> nat" where
  "per_core_history_len cfg =
     u64_saturating_mul
       (nat (max (max (braille_cpu_braille_length (cf_braille_tooltip cfg))
                   (disp_tooltip_width (cf_display cfg))) 0)) 2"

section \<open>Memory\<close>

record mem_info =
  mi_mem_total :: "nat option"
  mi_mem_free :: "nat option"
  mi_mem_available :: "nat option"
  mi_cached :: "nat option"
  mi_s_reclaimable :: "nat option"
  mi_active_file :: "nat option"
  mi_inactive_file :: "nat option"
  mi_swap_total :: "nat option"
  mi_swap_free :: "nat option"

definition mem_info_default :: mem_info where
  "mem_info_default =
     \<lparr>mi_mem_total = None, mi_mem_free = None, mi_mem_available = None, mi_cached = None,
      mi_s_reclaimable = None, mi_active_file = None, mi_inactive_file = None, mi_swap_total = None,
      mi_swap_free = None\<rparr>"

definition meminfo_entry :: "utext \<Rightarrow> nat \<Rightarrow> mem_info \<Rightarrow> mem_info" where
  "meminfo_entry key value_bytes m =
     (if key = lit ''MemTotal:'' then m\<lparr>mi_mem_total := Some value_bytes\<rparr>
      else if key = lit ''MemFree:'' then m\<lparr>mi_mem_free := Some value_bytes\<rparr>
      else if key = lit ''MemAvailable:'' then m\<lparr>mi_mem_available := Some value_bytes\<rparr>
      else if key = lit ''Cached:'' then m\<lparr>mi_cached := Some value_bytes\<rparr>
      else if key = lit ''SReclaimable:'' then m\<lparr>mi_s_reclaimable := Some value_bytes\<rparr>
      else if key = lit ''Active(file):'' then m\<lparr>mi_active_file := Some value_bytes\<rparr>
      else if key = lit ''Inactive(file):'' then m\<lparr>mi_inactive_file := Some value_bytes\<rparr>
      else if key = lit ''SwapTotal:'' then m\<lparr>mi_swap_total := Some value_bytes\<rparr>
      else if key = lit ''SwapFree:'' then m\<lparr>mi_swap_free := Some value_bytes\<rparr>
      else m)"

fun meminfo_lines :: "utext list \<Rightarrow> bool \<Rightarrow> mem_info \<Rightarrow> mem_info option" where
  "meminfo_lines [] saw_entry m = (if saw_entry then Some m else None)"
| "meminfo_lines (line # lines) saw_entry m =
     (case split_ws line of
        key # value # _ \<Rightarrow>
          (case parse_u64 value of
             None \<Rightarrow> meminfo_lines lines saw_entry m
           | Some value_kib \<Rightarrow>
               (case u64_checked_mul value_kib BYTES_PER_KIB of
                  None \<Rightarrow> None
                | Some value_bytes \<Rightarrow> meminfo_lines lines True (meminfo_entry key value_bytes m)))
      | _ \<Rightarrow> meminfo_lines lines saw_entry m)"

definition parse_meminfo :: "utext \<Rightarrow> mem_info option" where
  "parse_meminfo text = meminfo_lines (text_lines text) False mem_info_default"

fun zoneinfo_lines :: "utext list \<Rightarrow> nat \<Rightarrow> nat option" where
  "zoneinfo_lines [] total_pages = Some total_pages"
| "zoneinfo_lines (line # lines) total_pages =
     (case split_ws line of
        [] \<Rightarrow> zoneinfo_lines lines total_pages
      | key # parts \<Rightarrow>
          if key \<noteq> lit ''low'' then zoneinfo_lines lines total_pages
          else (case parts of
             [] \<Rightarrow> None
           | value # _ \<Rightarrow>
               (case parse_u64 value of
                  None \<Rightarrow> None
                | Some v \<Rightarrow> zoneinfo_lines lines (u64_saturating_add total_pages v))))"

definition parse_zoneinfo_low_pages :: "utext \<Rightarrow> nat option" where
  "parse_zoneinfo_low_pages text = zoneinfo_lines (text_lines text) 0"

definition half_scaled_contribution :: "int \<Rightarrow> int \<Rightarrow> int" where
  "half_scaled_contribution v watermark_low =
     (if v \<le> i128_sat (watermark_low * 2) then v
      else i128_sat (i128_sat (v * 2) - i128_sat (watermark_low * 2)))"

definition trunc_div2 :: "int \<Rightarrow> int" where
  "trunc_div2 v = (if 0 \<le> v then v div 2 else - ((- v) div 2))"

definition calculate_available_bytes :: "mem_info \<Rightarrow> utext option \<Rightarrow> nat \<Rightarrow> int" where
  "calculate_available_bytes m zoneinfo page_size =
     (case mi_mem_free m of
        None \<Rightarrow> 0
      | Some free \<Rightarrow>
          let fallback = int (u64_saturating_add free (case mi_cached m of Some c \<Rightarrow> c | None \<Rightarrow> 0))
          in case (mi_active_file m, mi_inactive_file m, mi_s_reclaimable m) of
               (Some active_file, Some inactive_file, Some s_reclaimable) \<Rightarrow>
                 (case Option.bind zoneinfo parse_zoneinfo_low_pages of
                    None \<Rightarrow> fallback
                  | Some low_pages \<Rightarrow>
                      let watermark_low = int (u64_saturating_mul low_pages page_size);
                          pagecache = int (u64_saturating_add active_file inactive_file);
                          reclaimable = int s_reclaimable;
                          numerator =
                            i128_sat (i128_sat (i128_sat (i128_sat (int free * 2) - i128_sat (watermark_low * 2))
                              + half_scaled_contribution pagecache watermark_low)
                              + half_scaled_contribution reclaimable watermark_low)
                      in trunc_div2 numerator)
             | _ \<Rightarrow> fallback)"

definition resolved_available_bytes :: "mem_info \<Rightarrow> utext option \<Rightarrow> nat \<Rightarrow> int" where
  "resolved_available_bytes m zoneinfo page_size =
     (case mi_mem_available m of
        None \<Rightarrow> calculate_available_bytes m zoneinfo page_size
      | Some available \<Rightarrow>
          if available = 0 then calculate_available_bytes m zoneinfo page_size else int available)"

definition clamp_available_bytes :: "int \<Rightarrow> nat \<Rightarrow> nat \<Rightarrow> nat" where
  "clamp_available_bytes available whole free =
     (if available < 0 then 0
      else
        let available = as_u64 (nat available)
        in if whole < available then free else available)"

record memory_usage =
  mu_percent :: int
  mu_used_gib :: nat
  mu_total_gib :: nat

definition read_memory_usage_once :: "utext option \<Rightarrow> utext option \<Rightarrow> memory_usage option" where
  "read_memory_usage_once meminfo zoneinfo =
     (case Option.bind meminfo parse_meminfo of
        None \<Rightarrow> None
      | Some m \<Rightarrow>
          (case (mi_mem_total m, mi_mem_free m) of
             (Some whole, Some free) \<Rightarrow>
               let available = clamp_available_bytes (resolved_available_bytes m zoneinfo DEFAULT_PAGE_SIZE)
                                 whole free;
                   used = whole - available
               in Some \<lparr>mu_percent = rounded_percent_int used whole,
                        mu_used_gib = round_half_even_div used BYTES_PER_GIB,
                        mu_total_gib = round_half_even_div whole BYTES_PER_GIB\<rparr>
           | _ \<Rightarrow> None))"

datatype swap_usage_outcome = Swap_Present int | Swap_Absent | Swap_Failed

definition read_swap_usage_once :: "utext option \<Rightarrow> swap_usage_outcome" where
  "read_swap_usage_once meminfo =
     (case Option.bind meminfo parse_meminfo of
        None \<Rightarrow> Swap_Failed
      | Some m \<Rightarrow>
          (case mi_swap_total m of
             None \<Rightarrow> Swap_Failed
           | Some whole \<Rightarrow>
               if whole = 0 then Swap_Absent
               else (case mi_swap_free m of
                  None \<Rightarrow> Swap_Failed
                | Some free \<Rightarrow> Swap_Present (rounded_percent_int (whole - free) whole))))"

definition read_mem_total_bytes :: "utext option \<Rightarrow> nat option" where
  "read_mem_total_bytes meminfo = Option.bind (Option.bind meminfo parse_meminfo) mi_mem_total"

section \<open>CPU counters\<close>

definition parse_cpu_totals_line :: "utext \<Rightarrow> nat list option" where
  "parse_cpu_totals_line text =
     (case text_lines text of
        [] \<Rightarrow> None
      | line # _ \<Rightarrow>
          (case split_ws line of
             [] \<Rightarrow> None
           | label # parts \<Rightarrow>
               if label \<noteq> lit ''cpu'' then None
               else (case those (map parse_u64 parts) of
                  None \<Rightarrow> None
                | Some values \<Rightarrow> if values = [] then None else Some values)))"

definition ascii_digit :: "nat \<Rightarrow> bool" where
  "ascii_digit c \<longleftrightarrow> 48 \<le> c \<and> c \<le> 57"

definition core_index :: "utext \<Rightarrow> bool" where
  "core_index label =
     (case strip_pre (lit ''cpu'') label of
        None \<Rightarrow> False
      | Some index \<Rightarrow> index \<noteq> [] \<and> list_all ascii_digit index)"

fun core_lines :: "utext list \<Rightarrow> nat list list \<Rightarrow> nat list list option" where
  "core_lines [] cores = Some cores"
| "core_lines (line # lines) cores =
     (case split_ws line of
        [] \<Rightarrow> core_lines lines cores
      | label # parts \<Rightarrow>
          if \<not> core_index label then core_lines lines cores
          else (case those (map parse_u64 parts) of
             None \<Rightarrow> None
           | Some values \<Rightarrow> if values = [] then None else core_lines lines (cores @ [values])))"

definition parse_per_core_totals :: "utext \<Rightarrow> nat list list option" where
  "parse_per_core_totals text =
     (case core_lines (text_lines text) [] of
        None \<Rightarrow> None
      | Some cores \<Rightarrow> if cores = [] then None else Some cores)"

fun checked_sum :: "nat list \<Rightarrow> nat \<Rightarrow> nat option" where
  "checked_sum [] acc = Some acc"
| "checked_sum (v # vs) acc = Option.bind (u64_checked_add acc v) (checked_sum vs)"

text \<open>\<open>usage_from_diff\<close>: every step that overflows or runs backwards gives no usage.\<close>

definition usage_from_diff :: "nat list \<Rightarrow> nat list \<Rightarrow> int option" where
  "usage_from_diff prev current =
     (if prev = [] \<or> length prev \<noteq> length current \<or> length current \<le> 4 then None
      else
        Option.bind (checked_sum current 0) (\<lambda>total_current.
        Option.bind (checked_sum prev 0) (\<lambda>total_previous.
        Option.bind (checked_sub total_current total_previous) (\<lambda>total_delta.
          if total_delta = 0 then None
          else
            Option.bind (u64_checked_add (current ! 3) (current ! 4)) (\<lambda>idle_current.
            Option.bind (u64_checked_add (prev ! 3) (prev ! 4)) (\<lambda>idle_previous.
            Option.bind (checked_sub idle_current idle_previous) (\<lambda>idle_delta.
              if total_delta < idle_delta then None
              else
                Option.bind (u64_checked_mul idle_delta 100) (\<lambda>scaled.
                  Some (as_i32 (min (100 - scaled div total_delta) 99))))))))))"

section \<open>Disks and mounts\<close>

fun diskstats_lines :: "utext list \<Rightarrow> utext \<Rightarrow> (nat \<times> nat) option" where
  "diskstats_lines [] device = None"
| "diskstats_lines (line # lines) device =
     (let parts = split_ws line
      in if length parts \<le> 9 \<or> parts ! 2 \<noteq> device then diskstats_lines lines device
         else
           Option.bind (parse_u64 (parts ! 5)) (\<lambda>sectors_read.
           Option.bind (parse_u64 (parts ! 9)) (\<lambda>sectors_written.
             Some (u64_saturating_mul sectors_read DISKSTAT_SECTOR_BYTES,
                   u64_saturating_mul sectors_written DISKSTAT_SECTOR_BYTES))))"

definition read_disk_bytes :: "utext option \<Rightarrow> utext \<Rightarrow> (nat \<times> nat) option" where
  "read_disk_bytes diskstats device =
     (case diskstats of None \<Rightarrow> None | Some text \<Rightarrow> diskstats_lines (text_lines text) device)"

definition disk_usage_from_bytes :: "nat \<Rightarrow> nat \<Rightarrow> nat \<Rightarrow> disk_usage_reading" where
  "disk_usage_from_bytes whole free_bytes available_bytes =
     (let used_bytes = whole - free_bytes;
          visible_total = u64_saturating_add used_bytes available_bytes
      in \<lparr>du_percent =
            (if visible_total = 0 then 0
             else as_i32 (u128_saturating_mul used_bytes 1000 div visible_total div 10)),
          du_used_gib = round_half_even_div used_bytes BYTES_PER_GIB,
          du_total_gib = round_half_even_div whole BYTES_PER_GIB\<rparr>)"

text \<open>\<open>read_disk_usage\<close>, from the block counts of \<open>statvfs\<close>: blocks, free, available and their size.\<close>

definition read_disk_usage :: "(nat \<times> nat \<times> nat \<times> nat) option \<Rightarrow> disk_usage_reading option" where
  "read_disk_usage stats =
     (case stats of
        None \<Rightarrow> None
      | Some (blocks, blocks_free, blocks_available, fragment_size) \<Rightarrow>
          Some (disk_usage_from_bytes (u64_saturating_mul blocks fragment_size)
                  (u64_saturating_mul blocks_free fragment_size)
                  (u64_saturating_mul blocks_available fragment_size)))"

text \<open>
  \<open>decode_mount_field\<close> walks over the UTF-8 bytes of the field and takes each for a character. Slicing
  the field behind a backslash panics (\<open>None\<close>) where the slice ends inside a character.
\<close>

fun utf8_encode :: "utext \<Rightarrow> nat list" where
  "utf8_encode [] = []"
| "utf8_encode (c # cs) =
     (if c < 128 then [c]
      else if c < 2048 then [192 + c div 64, 128 + c mod 64]
      else if c < 65536 then [224 + c div 4096, 128 + c div 64 mod 64, 128 + c mod 64]
      else [240 + c div 262144, 128 + c div 4096 mod 64, 128 + c div 64 mod 64, 128 + c mod 64])
     @ utf8_encode cs"

definition char_boundary :: "nat list \<Rightarrow> bool" where
  "char_boundary rest = (case rest of [] \<Rightarrow> True | b # _ \<Rightarrow> \<not> (128 \<le> b \<and> b < 192))"

function decode_mount_bytes :: "nat list \<Rightarrow> utext option" where
  "decode_mount_bytes [] = Some []"
| "decode_mount_bytes (b # rest) =
     (if b = 92 \<and> 3 \<le> length rest then
        if \<not> char_boundary (drop 3 rest) then None
        else
          (case (if list_all ascii_digit (take 3 rest) then parse_unsigned 8 255 (take 3 rest) else None) of
             Some code \<Rightarrow> map_option ((#) code) (decode_mount_bytes (drop 3 rest))
           | None \<Rightarrow> map_option ((#) b) (decode_mount_bytes rest))
      else map_option ((#) b) (decode_mount_bytes rest))"
  by pat_completeness auto
termination by (relation "measure length") auto

definition decode_mount_field :: "utext \<Rightarrow> utext option" where
  "decode_mount_field v = decode_mount_bytes (utf8_encode v)"

record mount_entry =
  me_source :: utext
  me_mountpoint :: utext

text \<open>A malformed line is the outer \<open>Inl\<close>; a panic in a mount point is \<open>None\<close>.\<close>

fun mount_lines :: "utext list \<Rightarrow> mount_entry list \<Rightarrow> (unit + mount_entry list) option" where
  "mount_lines [] mounts = Some (Inr mounts)"
| "mount_lines (line # lines) mounts =
     (case split_ws line of
        [] \<Rightarrow> mount_lines lines mounts
      | [source] \<Rightarrow> Some (Inl ())
      | source # mountpoint # parts \<Rightarrow>
          if length parts \<noteq> 4 then Some (Inl ())
          else
            (case decode_mount_field mountpoint of
               None \<Rightarrow> None
             | Some decoded \<Rightarrow>
                 mount_lines lines (mounts @ [\<lparr>me_source = source, me_mountpoint = decoded\<rparr>])))"

definition parse_mounts_outcome :: "utext \<Rightarrow> (unit + mount_entry list) option" where
  "parse_mounts_outcome text = mount_lines (text_lines text) []"

definition trim_end_slashes :: "utext \<Rightarrow> utext" where
  "trim_end_slashes t = rev (dropWhile (\<lambda>c. c = 47) (rev t))"

text \<open>
  \<open>try_resolve_mounts\<close>; the text is that of \<open>mounts_path_outcome\<close>, \<open>None\<close> when there is no such file or
  it cannot be read. The outer option is again the panic.
\<close>

definition try_resolve_mounts :: "utext option \<Rightarrow> config \<Rightarrow> (unit + utext list) option" where
  "try_resolve_mounts mounts_text cfg =
     (case disk_mounts (cf_disks cfg) of
        Mounts_Explicit mounts \<Rightarrow> Some (Inr (map text_of mounts))
      | Mounts_Auto \<Rightarrow>
          let roots = map (\<lambda>root. trim_end_slashes (text_of root) @ lit ''/'') (disk_auto_roots (cf_disks cfg))
          in (case mounts_text of
                None \<Rightarrow> Some (Inl ())
              | Some text \<Rightarrow>
                  (case parse_mounts_outcome text of
                     None \<Rightarrow> None
                   | Some (Inl e) \<Rightarrow> Some (Inl e)
                   | Some (Inr entries) \<Rightarrow>
                       let found = filter (\<lambda>m. m \<noteq> lit ''/'' \<and> (\<exists>root\<in>set roots. take (length root) m = root))
                                     (map me_mountpoint entries)
                       in Some (Inr (lit ''/'' # bs_collect found)))))"

definition resolve_mounts :: "utext option \<Rightarrow> config \<Rightarrow> utext list option" where
  "resolve_mounts mounts_text cfg =
     (case try_resolve_mounts mounts_text cfg of
        None \<Rightarrow> None
      | Some (Inr mounts) \<Rightarrow> Some mounts
      | Some (Inl _) \<Rightarrow>
          (case disk_mounts (cf_disks cfg) of
             Mounts_Explicit mounts \<Rightarrow> Some (map text_of mounts)
           | Mounts_Auto \<Rightarrow> Some [lit ''/'']))"

end
