(* ===== verification/Sampling.thy ===== *)
theory Sampling
  imports Procfs Catalog
begin

text \<open>
  The owners of sampled readings: counters and their baselines, bounded histories, and the commit of an
  attempt into the retained samples, from \<open>src/sensors/cpu.rs\<close>, \<open>memory.rs\<close>, \<open>network.rs\<close>,
  \<open>disk.rs\<close>, \<open>gpu_history.rs\<close>, \<open>attempts.rs\<close> and \<open>attempts/processor.rs\<close>. Files are a function from
  paths to texts; the clock is a function on a state of its own.
\<close>

type_synonym files = "path \<Rightarrow> utext option"

definition join :: "path \<Rightarrow> string list \<Rightarrow> path" where
  "join root names = root @ map NormalComp names"

record sensor_floats = float_ops +
  sf_parse :: "utext \<Rightarrow> f64 option"
  sf_to_i64 :: "f64 \<Rightarrow> int"

section \<open>Attempts\<close>

datatype attempt_status = Status_Captured | Status_Baseline | Status_Absent | Status_Failed | Status_Cached

record 'a attempt_result =
  ar_sample :: "'a metric_sample option"
  ar_attempted_at :: "duration option"
  ar_failed_at :: "duration option"
  ar_latest_attempt_failed :: bool
  ar_status :: attempt_status

datatype 'a read_outcome = Read_Value 'a | Read_Baseline | Read_Absent | Read_Failed

definition attempt_result_of :: "'a retained \<Rightarrow> attempt_status \<Rightarrow> 'a attempt_result" where
  "attempt_result_of r status =
     \<lparr>ar_sample = latest r, ar_attempted_at = attempted_at r, ar_failed_at = failed_at r,
      ar_latest_attempt_failed = latest_attempt_failed r, ar_status = status\<rparr>"

definition commit_attempt ::
    "'a retained \<Rightarrow> 'a read_outcome \<Rightarrow> duration \<Rightarrow> 'a retained \<times> 'a attempt_result" where
  "commit_attempt r outcome t =
     (let (r, status) =
        (case outcome of
           Read_Value v \<Rightarrow> (record_value v t r, Status_Captured)
         | Read_Baseline \<Rightarrow> (record_baseline t r, Status_Baseline)
         | Read_Absent \<Rightarrow> (record_absence t r, Status_Absent)
         | Read_Failed \<Rightarrow> (record_failure t r, Status_Failed))
      in (r, attempt_result_of r status))"

definition cached_attempt :: "'a retained \<Rightarrow> 'a attempt_result" where
  "cached_attempt r = attempt_result_of r Status_Cached"

definition value_or_failed :: "'a option \<Rightarrow> 'a read_outcome" where
  "value_or_failed v = (case v of Some x \<Rightarrow> Read_Value x | None \<Rightarrow> Read_Failed)"

section \<open>CPU\<close>

record cpu_state =
  cs_usage :: "int retained"
  cs_core_usage :: "int list retained"
  cs_temperature :: "int retained"
  cs_temperature_source :: "path option"
  cs_frequency_mhz :: "f64 retained"
  cs_frequency_source :: "path option"
  cs_turbo :: "bool retained"
  cs_turbo_source :: "path option"
  cs_uptime_seconds :: "int retained"
  cs_load_average :: "load_average retained"
  cs_prev_times :: "nat list"
  cs_history :: "int list"
  cs_history_sample_at :: "duration option"
  cs_temp_history :: "int list"
  cs_gpu_temp_history :: "int list"
  cs_temp_cpu_source :: "path option"
  cs_temp_gpu_source :: "string option"
  cs_core_prev_times :: "nat list list"
  cs_core_history :: "int list list"
  cs_core_history_sample_at :: "duration option"

definition cpu_state_default :: cpu_state where
  "cpu_state_default =
     \<lparr>cs_usage = retained_default, cs_core_usage = retained_default, cs_temperature = retained_default,
      cs_temperature_source = None, cs_frequency_mhz = retained_default, cs_frequency_source = None,
      cs_turbo = retained_default, cs_turbo_source = None, cs_uptime_seconds = retained_default,
      cs_load_average = retained_default, cs_prev_times = [], cs_history = [], cs_history_sample_at = None,
      cs_temp_history = [], cs_gpu_temp_history = [], cs_temp_cpu_source = None, cs_temp_gpu_source = None,
      cs_core_prev_times = [], cs_core_history = [], cs_core_history_sample_at = None\<rparr>"

definition reconcile_core_page :: "bool \<Rightarrow> cpu_state \<Rightarrow> cpu_state" where
  "reconcile_core_page configured s =
     (if configured then s
      else s\<lparr>cs_core_usage := invalidate (cs_core_usage s), cs_core_prev_times := [], cs_core_history := [],
             cs_core_history_sample_at := None\<rparr>)"

datatype cpu_usage_outcome = Usage_Value int | Usage_Baseline | Usage_InvalidDelta | Usage_Failed

definition read_cpu_usage_once :: "utext option \<Rightarrow> cpu_state \<Rightarrow> cpu_state \<times> cpu_usage_outcome" where
  "read_cpu_usage_once stat s =
     (case Option.bind stat parse_cpu_totals_line of
        None \<Rightarrow> (s, Usage_Failed)
      | Some current \<Rightarrow>
          if cs_prev_times s = [] \<or> length (cs_prev_times s) \<noteq> length current then
            (s\<lparr>cs_prev_times := current, cs_history := [], cs_history_sample_at := None\<rparr>, Usage_Baseline)
          else
            (s\<lparr>cs_prev_times := current\<rparr>,
             case usage_from_diff (cs_prev_times s) current of
               None \<Rightarrow> Usage_InvalidDelta
             | Some usage \<Rightarrow> Usage_Value usage))"

definition append_cpu_history :: "config \<Rightarrow> duration \<Rightarrow> int \<Rightarrow> cpu_state \<Rightarrow> cpu_state" where
  "append_cpu_history cfg t usage s =
     s\<lparr>cs_history_sample_at := Some t,
       cs_history := trim_to_len (aggregate_history_len cfg) (cs_history s @ [usage])\<rparr>"

definition read_cpu_usage :: "utext option \<Rightarrow> config \<Rightarrow> duration \<Rightarrow> cpu_state \<Rightarrow> cpu_state \<times> int option" where
  "read_cpu_usage stat cfg now s =
     (case read_cpu_usage_once stat s of
        (s, Usage_Value usage) \<Rightarrow>
          let (history, at) = maybe_append_history (cs_history s) (cs_history_sample_at s) now
                                (disp_history_interval (cf_display cfg)) (aggregate_history_len cfg) usage
          in (s\<lparr>cs_history := history, cs_history_sample_at := at\<rparr>, Some usage)
      | (s, _) \<Rightarrow> (s, None))"

definition append_graph_temperature_history ::
    "config \<Rightarrow> hardware_inventory \<Rightarrow> display_snapshot \<Rightarrow> duration \<Rightarrow> cpu_state \<Rightarrow> cpu_state \<times> bool" where
  "append_graph_temperature_history cfg hw readings t s =
     (if \<not> (''graphs'' \<in> set (pages_order (cf_pages cfg)) \<and>
             ''temperature'' \<in> set (pages_graph_order (cf_pages cfg)))
      then (s\<lparr>cs_temp_history := [], cs_gpu_temp_history := [], cs_temp_cpu_source := None,
              cs_temp_gpu_source := None\<rparr>,
            cs_temp_history s \<noteq> [] \<or> cs_gpu_temp_history s \<noteq> [])
      else
        let changed = False;
            (s, changed) =
              (if cs_temp_cpu_source s \<noteq> hw_cpu_temp_path hw
               then (s\<lparr>cs_temp_history := [], cs_temp_cpu_source := hw_cpu_temp_path hw\<rparr>,
                     changed \<or> cs_temp_history s \<noteq> [])
               else (s, changed));
            gpu_source = selected_source hw;
            (s, changed) =
              (if cs_temp_gpu_source s \<noteq> gpu_source
               then (s\<lparr>cs_gpu_temp_history := [], cs_temp_gpu_source := gpu_source\<rparr>,
                     changed \<or> cs_gpu_temp_history s \<noteq> [])
               else (s, changed));
            max_len = nat (pages_graph_history_length (cf_pages cfg));
            (s, changed) =
              (if cs_temperature_source s = hw_cpu_temp_path hw \<and> hw_cpu_temp_path hw \<noteq> None
               then (case sample_at_or_before t (cs_temperature s) of
                       Some sample \<Rightarrow>
                         (s\<lparr>cs_temp_history := trim_to_len max_len (cs_temp_history s @ [smp_value sample])\<rparr>, True)
                     | None \<Rightarrow> (s, changed))
               else (s, changed));
            gpu_temp = (if hw_has_nvidia hw then ds_gpu_temp readings
                        else if hw_amd_gpu hw \<noteq> None then ds_gpu_amd_temp readings else None)
        in (case gpu_temp of
              Some v \<Rightarrow> (s\<lparr>cs_gpu_temp_history := trim_to_len max_len (cs_gpu_temp_history s @ [v])\<rparr>, True)
            | None \<Rightarrow> (s, changed)))"

datatype cpu_core_outcome = Cores_Value "int list" | Cores_Baseline | Cores_InvalidDelta | Cores_Failed

definition same_core_shape :: "nat list list \<Rightarrow> nat list list \<Rightarrow> bool" where
  "same_core_shape prev cores \<longleftrightarrow>
     length prev = length cores \<and>
     list_all (\<lambda>(old, current). old \<noteq> [] \<and> length old = length current) (zip prev cores)"

definition read_cpu_cores_once :: "utext option \<Rightarrow> cpu_state \<Rightarrow> cpu_state \<times> cpu_core_outcome" where
  "read_cpu_cores_once stat s =
     (case Option.bind stat parse_per_core_totals of
        None \<Rightarrow> (s, Cores_Failed)
      | Some cores \<Rightarrow>
          if cores = [] then (s, Cores_Failed)
          else if \<not> same_core_shape (cs_core_prev_times s) cores then
            (s\<lparr>cs_core_prev_times := cores, cs_core_history := replicate (length cores) [],
               cs_core_history_sample_at := None\<rparr>, Cores_Baseline)
          else
            (s\<lparr>cs_core_prev_times := cores\<rparr>,
             case those (map (\<lambda>(current, old). usage_from_diff old current)
                           (zip cores (cs_core_prev_times s))) of
               None \<Rightarrow> Cores_InvalidDelta
             | Some usage \<Rightarrow> Cores_Value usage))"

definition append_cpu_core_history :: "config \<Rightarrow> duration \<Rightarrow> int list \<Rightarrow> cpu_state \<Rightarrow> cpu_state" where
  "append_cpu_core_history cfg t usage s =
     (let max_len = per_core_history_len cfg;
          n = length usage
      in s\<lparr>cs_core_history_sample_at := Some t,
           cs_core_history :=
             map (\<lambda>(history, sample). trim_to_len max_len (history @ [sample])) (zip (cs_core_history s) usage)
             @ drop n (cs_core_history s)\<rparr>)"

definition read_cpu_cores ::
    "utext option \<Rightarrow> config \<Rightarrow> duration \<Rightarrow> cpu_state \<Rightarrow> cpu_state \<times> int list option" where
  "read_cpu_cores stat cfg now s =
     (case read_cpu_cores_once stat s of
        (s, Cores_Value usage) \<Rightarrow>
          let (due, at) = history_due (cs_core_history_sample_at s) now (disp_history_interval (cf_display cfg));
              s = s\<lparr>cs_core_history_sample_at := at\<rparr>
          in (if due then append_cpu_core_history cfg now usage s else s, Some usage)
      | (s, _) \<Rightarrow> (s, None))"

text \<open>The other readings of the owner.\<close>

definition read_uptime_seconds :: "sensor_floats \<Rightarrow> utext option \<Rightarrow> int option" where
  "read_uptime_seconds fo uptime =
     (case uptime of
        None \<Rightarrow> None
      | Some text \<Rightarrow>
          (case split_ws text of
             [] \<Rightarrow> None
           | first # _ \<Rightarrow> map_option (sf_to_i64 fo) (sf_parse fo first)))"

definition read_load_average :: "sensor_floats \<Rightarrow> utext option \<Rightarrow> (f64 \<times> f64 \<times> f64) option" where
  "read_load_average fo loadavg =
     (case loadavg of
        None \<Rightarrow> None
      | Some text \<Rightarrow>
          (case split_ws text of
             a # b # c # _ \<Rightarrow>
               Option.bind (sf_parse fo a) (\<lambda>one. Option.bind (sf_parse fo b) (\<lambda>five.
               Option.bind (sf_parse fo c) (\<lambda>fifteen. Some (one, five, fifteen))))
           | _ \<Rightarrow> None))"

fun cpuinfo_lines :: "sensor_floats \<Rightarrow> utext list \<Rightarrow> f64 option" where
  "cpuinfo_lines fo [] = None"
| "cpuinfo_lines fo (line # lines) =
     (case break_at 58 line of
        None \<Rightarrow> cpuinfo_lines fo lines
      | Some (key, v) \<Rightarrow>
          if trim_text key = lit ''cpu MHz'' then sf_parse fo (trim_text v) else cpuinfo_lines fo lines)"

definition parse_cpuinfo_frequency_mhz :: "sensor_floats \<Rightarrow> utext \<Rightarrow> f64 option" where
  "parse_cpuinfo_frequency_mhz fo text = cpuinfo_lines fo (text_lines text)"

definition read_cpu_frequency_mhz ::
    "sensor_floats \<Rightarrow> files \<Rightarrow> path \<Rightarrow> path option \<Rightarrow> f64 option" where
  "read_cpu_frequency_mhz fo files proc_root freq_at =
     (case Option.bind (Option.bind freq_at files) (\<lambda>text. parse_u64 (trim_text text)) of
        Some khz \<Rightarrow> Some (fo_div fo (fo_of_int fo (int khz)) (fo_of_int fo 1000))
      | None \<Rightarrow> Option.bind (files (join proc_root [''cpuinfo''])) (parse_cpuinfo_frequency_mhz fo))"

definition read_cpu_turbo_path :: "files \<Rightarrow> path option \<Rightarrow> bool option" where
  "read_cpu_turbo_path files path =
     (case path of
        None \<Rightarrow> None
      | Some p \<Rightarrow>
          let enabled_value = (if p \<noteq> [] \<and> last p = NormalComp ''no_turbo'' then lit ''0'' else lit ''1'')
          in map_option (\<lambda>text. trim_text text = enabled_value) (files p))"

definition read_path_millidegrees_celsius :: "files \<Rightarrow> path option \<Rightarrow> int option" where
  "read_path_millidegrees_celsius files path =
     map_option (\<lambda>v. tdiv v 1000)
       (Option.bind (Option.bind path files) (\<lambda>text. parse_signed 32 (trim_text text)))"

record cpu_result =
  cr_usage :: "int attempt_result"
  cr_temperature :: "int attempt_result"
  cr_frequency_mhz :: "f64 attempt_result"
  cr_turbo :: "bool attempt_result"
  cr_history :: "int list metric_sample option"
  cr_uptime_seconds :: "int attempt_result"
  cr_load_average :: "load_average attempt_result"

type_synonym 'c clock = "'c \<Rightarrow> 'c \<times> duration"

definition attempt_cpu ::
    "sensor_floats \<Rightarrow> files \<Rightarrow> path \<Rightarrow> hardware_inventory \<Rightarrow> capability bset \<Rightarrow> 'c clock \<Rightarrow> 'c \<Rightarrow> cpu_state \<Rightarrow>
     'c \<times> cpu_state \<times> cpu_result" where
  "attempt_cpu fo files proc_root hw caps clock c s =
     (let (c, usage_at) = clock c;
          (s, outcome) = read_cpu_usage_once (files (join proc_root [''stat''])) s;
          (r, usage) = commit_attempt (cs_usage s)
             (case outcome of Usage_Value v \<Rightarrow> Read_Value v | Usage_Baseline \<Rightarrow> Read_Baseline
              | Usage_InvalidDelta \<Rightarrow> Read_Baseline | Usage_Failed \<Rightarrow> Read_Failed) usage_at;
          s = s\<lparr>cs_usage := r\<rparr>;
          (c, s, temperature) =
            (if Cap_CpuTemperature \<in> set caps \<and> hw_cpu_temp_path hw \<noteq> None then
               let s = (if cs_temperature_source s \<noteq> hw_cpu_temp_path hw
                        then s\<lparr>cs_temperature := retained_default, cs_temperature_source := hw_cpu_temp_path hw\<rparr>
                        else s);
                   (c, t) = clock c;
                   (r, result) = commit_attempt (cs_temperature s)
                     (value_or_failed (read_path_millidegrees_celsius files (hw_cpu_temp_path hw))) t
               in (c, s\<lparr>cs_temperature := r\<rparr>, result)
             else
               let s = s\<lparr>cs_temperature := invalidate (cs_temperature s), cs_temperature_source := None\<rparr>
               in (c, s, cached_attempt (cs_temperature s)));
          (c, s, frequency_mhz) =
            (if Cap_CpuFrequency \<in> set caps then
               let s = (if cs_frequency_source s \<noteq> hw_cpu_freq_path hw
                        then s\<lparr>cs_frequency_mhz := retained_default, cs_frequency_source := hw_cpu_freq_path hw\<rparr>
                        else s);
                   (c, t) = clock c;
                   (r, result) = commit_attempt (cs_frequency_mhz s)
                     (value_or_failed (read_cpu_frequency_mhz fo files proc_root (hw_cpu_freq_path hw))) t
               in (c, s\<lparr>cs_frequency_mhz := r\<rparr>, result)
             else
               let s = s\<lparr>cs_frequency_mhz := invalidate (cs_frequency_mhz s), cs_frequency_source := None\<rparr>
               in (c, s, cached_attempt (cs_frequency_mhz s)));
          (c, s, turbo) =
            (if Cap_CpuTurbo \<in> set caps \<and> hw_cpu_turbo_supported hw \<and> hw_cpu_turbo_path hw \<noteq> None then
               let s = (if cs_turbo_source s \<noteq> hw_cpu_turbo_path hw
                        then s\<lparr>cs_turbo := invalidate (cs_turbo s), cs_turbo_source := hw_cpu_turbo_path hw\<rparr>
                        else s);
                   (c, t) = clock c;
                   (r, result) = commit_attempt (cs_turbo s)
                     (value_or_failed (read_cpu_turbo_path files (hw_cpu_turbo_path hw))) t
               in (c, s\<lparr>cs_turbo := r\<rparr>, result)
             else
               let s = s\<lparr>cs_turbo := invalidate (cs_turbo s), cs_turbo_source := None\<rparr>
               in (c, s, cached_attempt (cs_turbo s)));
          (c, s, uptime) =
            (if Cap_Uptime \<in> set caps then
               let (c, t) = clock c;
                   (r, result) = commit_attempt (cs_uptime_seconds s)
                     (value_or_failed (read_uptime_seconds fo (files (join proc_root [''uptime''])))) t
               in (c, s\<lparr>cs_uptime_seconds := r\<rparr>, result)
             else
               let s = s\<lparr>cs_uptime_seconds := invalidate (cs_uptime_seconds s)\<rparr>
               in (c, s, cached_attempt (cs_uptime_seconds s)));
          (c, s, load_avg) =
            (if Cap_LoadAverage \<in> set caps then
               let (c, t) = clock c;
                   (r, result) = commit_attempt (cs_load_average s)
                     (value_or_failed (map_option (\<lambda>(one, five, fifteen).
                          \<lparr>la_one = one, la_five = five, la_fifteen = fifteen\<rparr>)
                        (read_load_average fo (files (join proc_root [''loadavg'']))))) t
               in (c, s\<lparr>cs_load_average := r\<rparr>, result)
             else
               let s = s\<lparr>cs_load_average := invalidate (cs_load_average s)\<rparr>
               in (c, s, cached_attempt (cs_load_average s)))
      in (c, s,
          \<lparr>cr_usage = usage, cr_temperature = temperature, cr_frequency_mhz = frequency_mhz, cr_turbo = turbo,
           cr_history = map_option (metric_sample_new (cs_history s)) (cs_history_sample_at s),
           cr_uptime_seconds = uptime, cr_load_average = load_avg\<rparr>))"

record cpu_core_result =
  ccr_usage :: "int list attempt_result"
  ccr_history :: "int list list metric_sample option"

definition attempt_cpu_cores ::
    "files \<Rightarrow> path \<Rightarrow> duration \<Rightarrow> cpu_state \<Rightarrow> cpu_state \<times> cpu_core_result" where
  "attempt_cpu_cores files proc_root now s =
     (let (s, outcome) = read_cpu_cores_once (files (join proc_root [''stat''])) s;
          (r, usage) = commit_attempt (cs_core_usage s)
             (case outcome of Cores_Value v \<Rightarrow> Read_Value v | Cores_Baseline \<Rightarrow> Read_Baseline
              | Cores_InvalidDelta \<Rightarrow> Read_Baseline | Cores_Failed \<Rightarrow> Read_Failed) now;
          s = s\<lparr>cs_core_usage := r\<rparr>;
          history = (if \<exists>values\<in>set (cs_core_history s). values \<noteq> [] then
                       Some (metric_sample_new (cs_core_history s)
                               (case cs_core_history_sample_at s of Some t \<Rightarrow> t | None \<Rightarrow> now))
                     else None)
      in (s, \<lparr>ccr_usage = usage, ccr_history = history\<rparr>))"

end
