(* ===== verification/Rates.thy ===== *)
theory Rates
  imports Sampling
begin

text \<open>
  The owners of memory, network and disk samples and the selected GPU's history:
  \<open>src/sensors/memory.rs\<close>, \<open>network.rs\<close>, \<open>disk.rs\<close>, \<open>gpu_history.rs\<close> and their attempts in
  \<open>src/sensors/attempts.rs\<close>.
\<close>

section \<open>Memory\<close>

record memory_state =
  mst_usage :: "memory_usage retained"
  mst_swap_usage :: "int retained"
  mst_history :: "int list"
  mst_history_sample_at :: "duration option"

definition append_memory_history :: "config \<Rightarrow> duration \<Rightarrow> int \<Rightarrow> memory_state \<Rightarrow> memory_state" where
  "append_memory_history cfg t percent s =
     s\<lparr>mst_history_sample_at := Some t,
       mst_history := trim_to_len (memory_history_len cfg) (mst_history s @ [percent])\<rparr>"

definition read_memory_usage ::
    "utext option \<Rightarrow> utext option \<Rightarrow> config \<Rightarrow> duration \<Rightarrow> memory_state \<Rightarrow>
     memory_state \<times> memory_usage option" where
  "read_memory_usage meminfo zoneinfo cfg now s =
     (case read_memory_usage_once meminfo zoneinfo of
        None \<Rightarrow> (s, None)
      | Some usage \<Rightarrow>
          let (history, at) = maybe_append_history (mst_history s) (mst_history_sample_at s) now
                                (disp_history_interval (cf_display cfg)) (memory_history_len cfg) (mu_percent usage)
          in (s\<lparr>mst_history := history, mst_history_sample_at := at\<rparr>, Some usage))"

record memory_result =
  mr_usage :: "memory_usage attempt_result"
  mr_swap_usage :: "int attempt_result"
  mr_history :: "int list metric_sample option"

definition attempt_memory ::
    "files \<Rightarrow> path \<Rightarrow> bool \<Rightarrow> 'c clock \<Rightarrow> 'c \<Rightarrow> memory_state \<Rightarrow> 'c \<times> memory_state \<times> memory_result" where
  "attempt_memory files proc_root wants_swap clock c s =
     (let meminfo = files (join proc_root [''meminfo'']);
          (c, usage_at) = clock c;
          (r, usage) = commit_attempt (mst_usage s)
             (value_or_failed (read_memory_usage_once meminfo (files (join proc_root [''zoneinfo''])))) usage_at;
          s = s\<lparr>mst_usage := r\<rparr>;
          (c, s, swap_usage) =
            (if wants_swap then
               let (c, t) = clock c;
                   (r, result) = commit_attempt (mst_swap_usage s)
                     (case read_swap_usage_once meminfo of Swap_Present v \<Rightarrow> Read_Value v
                      | Swap_Absent \<Rightarrow> Read_Absent | Swap_Failed \<Rightarrow> Read_Failed) t
               in (c, s\<lparr>mst_swap_usage := r\<rparr>, result)
             else
               let s = s\<lparr>mst_swap_usage := invalidate (mst_swap_usage s)\<rparr>
               in (c, s, cached_attempt (mst_swap_usage s)))
      in (c, s,
          \<lparr>mr_usage = usage, mr_swap_usage = swap_usage,
           mr_history = map_option (metric_sample_new (mst_history s)) (mst_history_sample_at s)\<rparr>))"

section \<open>Network\<close>

record net_info =
  nif_device :: "string option"
  nif_ip_address :: "utext option"
  nif_ssid :: "utext option"
  nif_signal_pct :: "int option"

record wifi_info =
  wi_device :: string
  wi_ssid :: "utext option"
  wi_signal_pct :: "int option"

record network_state =
  net_info :: "net_info retained"
  net_wifi :: "wifi_info retained"
  net_info_source :: "string option"
  net_rate :: "(nat \<times> nat) retained"
  net_rate_device :: "string option"
  net_prev_tx_bytes :: nat
  net_prev_rx_bytes :: nat
  net_rate_sample_at :: "duration option"
  net_up_history :: "nat list"
  net_down_history :: "nat list"
  net_history_sample_at :: "duration option"

definition network_state_default :: network_state where
  "network_state_default =
     \<lparr>net_info = retained_default, net_wifi = retained_default, net_info_source = None,
      net_rate = retained_default, net_rate_device = None, net_prev_tx_bytes = 0, net_prev_rx_bytes = 0,
      net_rate_sample_at = None, net_up_history = [], net_down_history = [], net_history_sample_at = None\<rparr>"

definition reset_rate :: "network_state \<Rightarrow> network_state" where
  "reset_rate s =
     s\<lparr>net_rate := invalidate (net_rate s), net_rate_device := None, net_prev_tx_bytes := 0,
       net_prev_rx_bytes := 0, net_rate_sample_at := None\<rparr>"

definition invalidate_rate_baseline :: "network_state \<Rightarrow> network_state" where
  "invalidate_rate_baseline s =
     s\<lparr>net_prev_tx_bytes := 0, net_prev_rx_bytes := 0, net_rate_sample_at := None\<rparr>"

definition reset_info :: "network_state \<Rightarrow> network_state" where
  "reset_info s = s\<lparr>net_info := invalidate (net_info s), net_wifi := invalidate (net_wifi s)\<rparr>"

definition reset_history :: "network_state \<Rightarrow> network_state" where
  "reset_history s = s\<lparr>net_up_history := [], net_down_history := [], net_history_sample_at := None\<rparr>"

definition reconcile_network_sources ::
    "string option \<Rightarrow> bool \<Rightarrow> bool \<Rightarrow> bool \<Rightarrow> network_state \<Rightarrow> network_state" where
  "reconcile_network_sources device wants_rate wants_info wants_history s =
     (let rate_source_changed = (net_rate_device s \<noteq> None \<and> net_rate_device s \<noteq> device);
          s = (if \<not> wants_rate \<or> device = None \<or> rate_source_changed then
                 let s = reset_rate s in if rate_source_changed then reset_history s else s
               else s);
          s = (if \<not> wants_info then (reset_info s)\<lparr>net_info_source := None\<rparr>
               else if net_info_source s \<noteq> device then (reset_info s)\<lparr>net_info_source := device\<rparr>
               else s)
      in if \<not> wants_history then reset_history s else s)"

datatype rate_read_outcome = Rate_Value nat nat | Rate_Baseline | Rate_NoDelta | Rate_Failed

definition read_interface_counter :: "files \<Rightarrow> path \<Rightarrow> string \<Rightarrow> string \<Rightarrow> nat option" where
  "read_interface_counter files sys_root device counter =
     Option.bind (files (join sys_root [''class'', ''net'', device, ''statistics'', counter]))
       (\<lambda>text. parse_u64 (trim_text text))"

definition net_baseline :: "nat \<Rightarrow> nat \<Rightarrow> duration \<Rightarrow> network_state \<Rightarrow> network_state" where
  "net_baseline tx_bytes rx_bytes now s =
     s\<lparr>net_prev_tx_bytes := tx_bytes, net_prev_rx_bytes := rx_bytes, net_rate_sample_at := Some now\<rparr>"

definition read_net_speed_once ::
    "files \<Rightarrow> path \<Rightarrow> string \<Rightarrow> duration \<Rightarrow> network_state \<Rightarrow> network_state \<times> rate_read_outcome" where
  "read_net_speed_once files sys_root device now s =
     (case (read_interface_counter files sys_root device ''tx_bytes'',
            read_interface_counter files sys_root device ''rx_bytes'') of
        (Some tx_bytes, Some rx_bytes) \<Rightarrow>
          if net_rate_device s \<noteq> Some device then
            let s = (if net_rate_device s \<noteq> None then reset_history s else s)
            in (net_baseline tx_bytes rx_bytes now (s\<lparr>net_rate_device := Some device\<rparr>), Rate_Baseline)
          else (case net_rate_sample_at s of
             None \<Rightarrow> (net_baseline tx_bytes rx_bytes now s, Rate_Baseline)
           | Some previous_sample_at \<Rightarrow>
               if tx_bytes < net_prev_tx_bytes s \<or> rx_bytes < net_prev_rx_bytes s then
                 (net_baseline tx_bytes rx_bytes now s, Rate_Baseline)
               else (case checked_sub now previous_sample_at of
                  None \<Rightarrow> (s, Rate_NoDelta)
                | Some elapsed \<Rightarrow>
                    if elapsed = 0 then (s, Rate_NoDelta)
                    else (net_baseline tx_bytes rx_bytes now s,
                          Rate_Value (rate_per_second (tx_bytes - net_prev_tx_bytes s) elapsed)
                                     (rate_per_second (rx_bytes - net_prev_rx_bytes s) elapsed))))
      | _ \<Rightarrow> (s, Rate_Failed))"

definition append_net_history ::
    "config \<Rightarrow> duration \<Rightarrow> nat option \<Rightarrow> nat option \<Rightarrow> network_state \<Rightarrow> network_state" where
  "append_net_history cfg t up_bps down_bps s =
     (let max_len = nat (pages_graph_history_length (cf_pages cfg));
          or0 = (\<lambda>v. case v of Some n \<Rightarrow> n | None \<Rightarrow> 0)
      in s\<lparr>net_history_sample_at := Some t,
           net_up_history := trim_to_len max_len (net_up_history s @ [or0 up_bps]),
           net_down_history := trim_to_len max_len (net_down_history s @ [or0 down_bps])\<rparr>)"

definition sample_net_history ::
    "config \<Rightarrow> duration \<Rightarrow> nat option \<Rightarrow> nat option \<Rightarrow> network_state \<Rightarrow> network_state" where
  "sample_net_history cfg now up_bps down_bps s =
     (if ''graphs'' \<notin> set (pages_order (cf_pages cfg)) \<or> up_bps = None \<and> down_bps = None then s
      else
        let (due, at) = history_due (net_history_sample_at s) now (disp_history_interval (cf_display cfg));
            s = s\<lparr>net_history_sample_at := at\<rparr>
        in if due then append_net_history cfg now up_bps down_bps s else s)"

definition rate_outcome :: "rate_read_outcome \<Rightarrow> (nat \<times> nat) read_outcome" where
  "rate_outcome outcome =
     (case outcome of Rate_Value a b \<Rightarrow> Read_Value (a, b) | Rate_Baseline \<Rightarrow> Read_Baseline
      | Rate_NoDelta \<Rightarrow> Read_Baseline | Rate_Failed \<Rightarrow> Read_Failed)"

record network_speed_result =
  nsr_reading :: "(nat \<times> nat) attempt_result"
  nsr_up_history :: "nat list metric_sample option"
  nsr_down_history :: "nat list metric_sample option"

definition attempt_network_speed ::
    "files \<Rightarrow> path \<Rightarrow> string \<Rightarrow> duration \<Rightarrow> network_state \<Rightarrow> network_state \<times> network_speed_result" where
  "attempt_network_speed files sys_root device now s =
     (let (s, outcome) = read_net_speed_once files sys_root device now s;
          (r, reading) = commit_attempt (net_rate s) (rate_outcome outcome) now;
          s = s\<lparr>net_rate := r\<rparr>
      in (s, \<lparr>nsr_reading = reading,
              nsr_up_history = map_option (metric_sample_new (net_up_history s)) (net_history_sample_at s),
              nsr_down_history = map_option (metric_sample_new (net_down_history s)) (net_history_sample_at s)\<rparr>))"

section \<open>Disks\<close>

record disk_state =
  dst_io :: "(nat \<times> nat) retained"
  dst_usage :: "(string, disk_usage_reading retained) bmap"
  dst_hd_temp_cache :: "(string, int retained) bmap"
  dst_fan_speed_cache :: "(string, int retained) bmap"
  dst_hd_temp_sources :: "(string, path) bmap"
  dst_fan_speed_sources :: "(string, path) bmap"
  dst_smart_cache :: "(string, bool retained) bmap"
  dst_smart_sources :: "(string, smart_disk) bmap"
  dst_rate_device :: "string option"
  dst_prev_read_bytes :: nat
  dst_prev_write_bytes :: nat
  dst_rate_sample_at :: "duration option"
  dst_read_history :: "nat list"
  dst_write_history :: "nat list"
  dst_io_history_sample_at :: "duration option"

definition disk_state_default :: disk_state where
  "disk_state_default =
     \<lparr>dst_io = retained_default, dst_usage = [], dst_hd_temp_cache = [], dst_fan_speed_cache = [],
      dst_hd_temp_sources = [], dst_fan_speed_sources = [], dst_smart_cache = [], dst_smart_sources = [],
      dst_rate_device = None, dst_prev_read_bytes = 0, dst_prev_write_bytes = 0, dst_rate_sample_at = None,
      dst_read_history = [], dst_write_history = [], dst_io_history_sample_at = None\<rparr>"

definition reset_io_history :: "disk_state \<Rightarrow> disk_state" where
  "reset_io_history s = s\<lparr>dst_read_history := [], dst_write_history := [], dst_io_history_sample_at := None\<rparr>"

definition append_io_history :: "config \<Rightarrow> duration \<Rightarrow> nat \<Rightarrow> nat \<Rightarrow> disk_state \<Rightarrow> disk_state" where
  "append_io_history cfg t read_bps write_bps s =
     (let max_len = nat (pages_graph_history_length (cf_pages cfg));
          trim = (\<lambda>h. drop (length h - max_len) h)
      in s\<lparr>dst_io_history_sample_at := Some t,
           dst_read_history := trim (dst_read_history s @ [read_bps]),
           dst_write_history := trim (dst_write_history s @ [write_bps])\<rparr>)"

definition reset_io :: "disk_state \<Rightarrow> disk_state" where
  "reset_io s =
     s\<lparr>dst_io := invalidate (dst_io s), dst_rate_device := None, dst_prev_read_bytes := 0,
       dst_prev_write_bytes := 0, dst_rate_sample_at := None\<rparr>"

definition invalidate_io_baseline :: "disk_state \<Rightarrow> disk_state" where
  "invalidate_io_baseline s =
     s\<lparr>dst_prev_read_bytes := 0, dst_prev_write_bytes := 0, dst_rate_sample_at := None\<rparr>"

definition reconcile_path_samples ::
    "bool \<Rightarrow> (string, path) bmap \<Rightarrow> (string, int retained) bmap \<times> (string, path) bmap \<Rightarrow>
     (string, int retained) bmap \<times> (string, path) bmap" where
  "reconcile_path_samples wanted current p =
     (let (samples, sources) = p in
      if \<not> wanted then ([], [])
      else
        fold (\<lambda>(label, path) (samples, sources).
                if bm_get sources label \<noteq> Some path
                then (bm_remove label samples, bm_insert label path sources) else (samples, sources))
          current
          (filter (\<lambda>(label, _). bm_contains current label) samples,
           filter (\<lambda>(label, _). bm_contains current label) sources))"

definition reconcile_smart ::
    "bool \<Rightarrow> (string, smart_disk) bmap \<Rightarrow> (string, bool retained) bmap \<times> (string, smart_disk) bmap \<Rightarrow>
     (string, bool retained) bmap \<times> (string, smart_disk) bmap" where
  "reconcile_smart wanted drives p =
     (let (samples, sources) = p in
      if \<not> wanted then ([], [])
      else
        fold (\<lambda>(label, drive) (samples, sources).
                if bm_get sources label \<noteq> Some drive
                then (bm_remove label samples, bm_insert label drive sources) else (samples, sources))
          drives
          (filter (\<lambda>(label, _). bm_contains drives label) samples,
           filter (\<lambda>(label, _). bm_contains drives label) sources))"

definition reconcile_disk_sources ::
    "hardware_inventory \<Rightarrow> config \<Rightarrow> capability bset \<Rightarrow> disk_state \<Rightarrow> disk_state" where
  "reconcile_disk_sources hw cfg caps s =
     (let io_source_changed = (dst_rate_device s \<noteq> None \<and> dst_rate_device s \<noteq> hw_disk_io_device hw);
          s = (if \<not> io_graph_enabled cfg \<or> hw_disk_io_device hw = None \<or> io_source_changed
               then reset_io_history s else s);
          s = (if Cap_DiskIo \<notin> set caps \<or> hw_disk_io_device hw = None
                  \<or> dst_rate_device s \<noteq> hw_disk_io_device hw
               then reset_io s else s);
          s = (if Cap_DiskUsage \<notin> set caps then s\<lparr>dst_usage := []\<rparr> else s);
          (samples, sources) = reconcile_path_samples (Cap_DiskTemperature \<in> set caps) (hw_hd_temp_paths hw)
                                 (dst_hd_temp_cache s, dst_hd_temp_sources s);
          s = s\<lparr>dst_hd_temp_cache := samples, dst_hd_temp_sources := sources\<rparr>;
          (samples, sources) = reconcile_path_samples (Cap_FanSpeed \<in> set caps) (hw_fan_paths hw)
                                 (dst_fan_speed_cache s, dst_fan_speed_sources s);
          s = s\<lparr>dst_fan_speed_cache := samples, dst_fan_speed_sources := sources\<rparr>;
          (samples, sources) = reconcile_smart (Cap_DiskSmart \<in> set caps \<and> disk_smart (cf_disks cfg))
                                 (hw_disk_smart_drives hw) (dst_smart_cache s, dst_smart_sources s)
      in s\<lparr>dst_smart_cache := samples, dst_smart_sources := sources\<rparr>)"

definition io_baseline :: "nat \<Rightarrow> nat \<Rightarrow> duration \<Rightarrow> disk_state \<Rightarrow> disk_state" where
  "io_baseline read_bytes write_bytes now s =
     s\<lparr>dst_prev_read_bytes := read_bytes, dst_prev_write_bytes := write_bytes, dst_rate_sample_at := Some now\<rparr>"

definition read_disk_io_once ::
    "utext option \<Rightarrow> string \<Rightarrow> duration \<Rightarrow> disk_state \<Rightarrow> disk_state \<times> rate_read_outcome" where
  "read_disk_io_once diskstats device now s =
     (case read_disk_bytes diskstats (text_of device) of
        None \<Rightarrow> (s, Rate_Failed)
      | Some (read_bytes, write_bytes) \<Rightarrow>
          if dst_rate_device s \<noteq> Some device then
            (io_baseline read_bytes write_bytes now (s\<lparr>dst_rate_device := Some device\<rparr>), Rate_Baseline)
          else (case dst_rate_sample_at s of
             None \<Rightarrow> (io_baseline read_bytes write_bytes now s, Rate_Baseline)
           | Some previous_sample_at \<Rightarrow>
               if read_bytes < dst_prev_read_bytes s \<or> write_bytes < dst_prev_write_bytes s then
                 (io_baseline read_bytes write_bytes now s, Rate_Baseline)
               else (case checked_sub now previous_sample_at of
                  None \<Rightarrow> (s, Rate_NoDelta)
                | Some elapsed \<Rightarrow>
                    if elapsed = 0 then (s, Rate_NoDelta)
                    else (io_baseline read_bytes write_bytes now s,
                          Rate_Value (rate_per_second (read_bytes - dst_prev_read_bytes s) elapsed)
                                     (rate_per_second (write_bytes - dst_prev_write_bytes s) elapsed)))))"

definition attempt_disk_io ::
    "files \<Rightarrow> path \<Rightarrow> string \<Rightarrow> duration \<Rightarrow> disk_state \<Rightarrow> disk_state \<times> (nat \<times> nat) attempt_result" where
  "attempt_disk_io files proc_root device now s =
     (let (s, outcome) = read_disk_io_once (files (join proc_root [''diskstats''])) device now s;
          (r, reading) = commit_attempt (dst_io s) (rate_outcome outcome) now
      in (s\<lparr>dst_io := r\<rparr>, reading))"

definition attempt_disk_usage ::
    "(string \<Rightarrow> (nat \<times> nat \<times> nat \<times> nat) option) \<Rightarrow> string \<Rightarrow> duration \<Rightarrow> disk_state \<Rightarrow>
     disk_state \<times> disk_usage_reading attempt_result" where
  "attempt_disk_usage statvfs mount now s =
     (let (r, reading) = commit_attempt
            (case bm_get (dst_usage s) mount of Some r \<Rightarrow> r | None \<Rightarrow> retained_default)
            (value_or_failed (read_disk_usage (statvfs mount))) now
      in (s\<lparr>dst_usage := bm_insert mount r (dst_usage s)\<rparr>, reading))"

section \<open>The selected GPU's history\<close>

record gpu_history_state =
  gh_source :: "string option"
  gh_usage :: "int list"
  gh_decoder :: "int list"
  gh_latest_decoder :: "int option"
  gh_sampled_at :: "duration option"
  gh_usage_sample :: "int list metric_sample option"
  gh_decoder_sample :: "int list metric_sample option"

definition gpu_history_default :: gpu_history_state where
  "gpu_history_default =
     \<lparr>gh_source = None, gh_usage = [], gh_decoder = [], gh_latest_decoder = None, gh_sampled_at = None,
      gh_usage_sample = None, gh_decoder_sample = None\<rparr>"

datatype decoder_outcome =
  Decoder_Value int | Decoder_TransientFailure | Decoder_ConfirmedAbsent | Decoder_Unmeasured

definition sample_gpu_history ::
    "config \<Rightarrow> hardware_inventory \<Rightarrow> display_snapshot \<Rightarrow> decoder_outcome \<Rightarrow> duration \<Rightarrow> bool \<Rightarrow>
     gpu_history_state \<Rightarrow>
     gpu_history_state \<times> (int list metric_sample option \<times> int list metric_sample option) option" where
  "sample_gpu_history cfg hw readings outcome now appending s =
     (if ''graphs'' \<notin> set (pages_order (cf_pages cfg)) then (gpu_history_default, None)
      else (case selected_source hw of
         None \<Rightarrow> (gpu_history_default, None)
       | Some source \<Rightarrow>
           let usage = (if hw_has_nvidia hw then ds_gpu_usage readings
                        else if hw_amd_gpu hw \<noteq> None then ds_gpu_amd_usage readings
                        else ds_gpu_intel_usage readings);
               s = (if gh_source s \<noteq> Some source then gpu_history_default\<lparr>gh_source := Some source\<rparr> else s);
               s = (case outcome of
                      Decoder_Value v \<Rightarrow> s\<lparr>gh_latest_decoder := Some v\<rparr>
                    | Decoder_ConfirmedAbsent \<Rightarrow> s\<lparr>gh_latest_decoder := None\<rparr>
                    | _ \<Rightarrow> if \<not> hw_has_nvidia hw \<and> hw_amd_gpu hw \<noteq> None
                           then s\<lparr>gh_latest_decoder := None\<rparr> else s);
               s = (if \<not> appending then s
                    else
                      let s = s\<lparr>gh_sampled_at := Some now\<rparr>;
                          max_len = nat (pages_graph_history_length (cf_pages cfg));
                          trim = (\<lambda>h. if max_len < length h then drop (length h - max_len) h else h);
                          s = (case usage of
                                 Some v \<Rightarrow>
                                   let h = trim (gh_usage s @ [v])
                                   in s\<lparr>gh_usage := h, gh_usage_sample := Some (metric_sample_new h now)\<rparr>
                               | None \<Rightarrow> s)
                      in (case gh_latest_decoder s of
                            Some v \<Rightarrow>
                              let h = trim (gh_decoder s @ [v])
                              in s\<lparr>gh_decoder := h, gh_decoder_sample := Some (metric_sample_new h now)\<rparr>
                          | None \<Rightarrow> s))
           in (s, Some (gh_usage_sample s, gh_decoder_sample s))))"

end
