(* ===== verification/SensorProps.thy ===== *)
theory SensorProps
  imports Rates
begin

text \<open>
  What the samplers promise: percentages within their range, rounding to the nearest integer with ties
  to even, rates only between two reads of one device, histories that hold the newest samples.
\<close>

section \<open>Rounding\<close>

lemma half_even_nearest:
  assumes "0 < d" and "2 * d \<le> u128_max" and "n < u128_max"
  shows "round_half_even_ratio n d =
     (if 2 * (n mod d) < d then n div d
      else if d < 2 * (n mod d) then n div d + 1
      else if even (n div d) then n div d else n div d + 1)"
proof -
  have "n mod d < d" using assms by simp
  then have "u128_saturating_mul (n mod d) 2 = 2 * (n mod d)"
    using assms(2) by (simp add: u128_saturating_mul_def min_def)
  moreover have "n div d + 1 \<le> u128_max"
    using assms(3) div_le_dividend [of n d] by linarith
  then have "u128_saturating_add (n div d) 1 = n div d + 1"
    by (simp add: u128_saturating_add_def)
  ultimately show ?thesis
    using assms(1) by (simp add: round_half_even_ratio_def Let_def even_iff_mod_2_eq_zero)
qed

lemma half_even_le:
  assumes "n \<le> d * k" and "0 < d"
  shows "round_half_even_ratio n d \<le> k"
proof (cases "n div d < k")
  case True
  have "u128_saturating_add (n div d) 1 \<le> n div d + 1" by (simp add: u128_saturating_add_def)
  with True show ?thesis by (simp add: round_half_even_ratio_def Let_def)
next
  case False
  then have "n div d = k" using assms
    by (metis div_le_mono le_antisym linorder_not_less nonzero_mult_div_cancel_left less_not_refl)
  then have "d * k \<le> n" by (metis times_div_less_eq_dividend)
  then have "n = d * k" using assms(1) by simp
  with assms(2) show ?thesis
    by (simp add: round_half_even_ratio_def Let_def u128_saturating_mul_def)
qed

lemma rounded_percent_range:
  assumes "used \<le> whole"
  shows "0 \<le> rounded_percent_int used whole \<and> rounded_percent_int used whole \<le> 100"
proof (cases "whole = 0")
  case False
  have "u128_saturating_mul used 1000 \<le> whole * 1000"
    using assms by (simp add: u128_saturating_mul_def min_le_iff_disj)
  then have "round_half_even_ratio (u128_saturating_mul used 1000) whole \<le> 1000"
    using False by (intro half_even_le) auto
  then have "round_half_even_ratio (u128_saturating_mul used 1000) whole div 10 \<le> 100"
    by linarith
  with False show ?thesis
    by (simp add: rounded_percent_int_def as_i32_def wrap32_id)
qed (simp add: rounded_percent_int_def)

lemma half_even_mono:
  assumes "m \<le> n" and "0 < d" and "2 * d \<le> u128_max" and "n < u128_max"
  shows "round_half_even_ratio m d \<le> round_half_even_ratio n d"
proof -
  have nearest: "round_half_even_ratio m d = (if 2 * (m mod d) < d then m div d
      else if d < 2 * (m mod d) then m div d + 1
      else if even (m div d) then m div d else m div d + 1)"
    using assms by (intro half_even_nearest) auto
  show ?thesis
  proof (cases "m div d = n div d")
    case True
    then have "m mod d \<le> n mod d"
      using assms(1) by (metis add_le_cancel_left div_mult_mod_eq)
    with True show ?thesis
      unfolding nearest half_even_nearest [OF assms(2,3,4)] by auto
  next
    case False
    then have "m div d + 1 \<le> n div d"
      using assms(1) by (metis Suc_eq_plus1 Suc_leI div_le_mono le_neq_implies_less)
    then show ?thesis
      unfolding nearest half_even_nearest [OF assms(2,3,4)] by auto
  qed
qed

section \<open>Processor usage\<close>

lemma usage_range: "usage_from_diff old current = Some v \<Longrightarrow> 0 \<le> v \<and> v \<le> 99"
proof -
  have "0 \<le> as_i32 (min n 99) \<and> as_i32 (min n 99) \<le> 99" for n
    by (simp add: as_i32_def wrap32_id)
  then show "usage_from_diff old current = Some v \<Longrightarrow> 0 \<le> v \<and> v \<le> 99"
    by (auto simp: usage_from_diff_def split: if_splits option.splits Option.bind_splits)
qed

lemma those_map_Some: "those (map f xs) = Some ys \<Longrightarrow> y \<in> set ys \<Longrightarrow> \<exists>x\<in>set xs. f x = Some y"
  by (induction xs arbitrary: ys) (auto split: option.splits)

lemma those_length: "those xs = Some ys \<Longrightarrow> length ys = length xs"
  by (induction xs arbitrary: ys) (auto split: option.splits)

section \<open>Histories\<close>

lemma trim_take: "trim_to_len n xs = drop (length xs - n) xs"
  by (simp add: trim_to_len_def)

lemma trim_length [simp]: "length (trim_to_len n xs) = min n (length xs)"
  by (simp add: trim_take min_def)

lemma trim_snoc: "trim_to_len n (trim_to_len n xs @ [x]) = trim_to_len n (xs @ [x])"
  by (cases "n \<le> length xs") (auto simp: trim_take Suc_diff_le)


section \<open>Rates\<close>

text \<open>
  The specification of a sampler of two counters: what it holds is the device, the counters and the
  time of the read it compares the next one with.
\<close>

type_synonym baseline = "(string \<times> (nat \<times> nat) \<times> duration) option"

datatype rate_event =
  Ev_Read string "(nat \<times> nat) option" duration | Ev_Forget | Ev_Keep bool "string option" | Ev_Other

definition keep_for :: "bool \<Rightarrow> string option \<Rightarrow> baseline \<Rightarrow> baseline" where
  "keep_for wanted device v =
     (case v of Some (d, c) \<Rightarrow> if wanted \<and> device = Some d then v else None | None \<Rightarrow> None)"

definition compare_read :: "string \<Rightarrow> nat \<times> nat \<Rightarrow> duration \<Rightarrow> baseline \<Rightarrow> baseline \<times> rate_read_outcome" where
  "compare_read d c t v =
     (case v of
        None \<Rightarrow> (Some (d, c, t), Rate_Baseline)
      | Some (d', c', t') \<Rightarrow>
          if d' \<noteq> d \<or> fst c < fst c' \<or> snd c < snd c' then (Some (d, c, t), Rate_Baseline)
          else if t \<le> t' then (v, Rate_NoDelta)
          else (Some (d, c, t),
                Rate_Value (rate_per_second (fst c - fst c') (t - t')) (rate_per_second (snd c - snd c') (t - t'))))"

primrec rate_spec :: "rate_event \<Rightarrow> baseline \<Rightarrow> baseline \<times> rate_read_outcome option" where
  "rate_spec (Ev_Read d c t) v =
     (case c of None \<Rightarrow> (v, Some Rate_Failed) | Some c \<Rightarrow> apsnd Some (compare_read d c t v))"
| "rate_spec Ev_Forget v = (None, None)"
| "rate_spec (Ev_Keep wanted device) v = (keep_for wanted device v, None)"
| "rate_spec Ev_Other v = (v, None)"

primrec keeps_baseline :: "string \<Rightarrow> rate_event \<Rightarrow> bool" where
  "keeps_baseline d (Ev_Read d' c t) = (c = None \<or> d' = d)"
| "keeps_baseline d Ev_Forget = False"
| "keeps_baseline d (Ev_Keep wanted device) = (wanted \<and> device = Some d)"
| "keeps_baseline d Ev_Other = True"

text \<open>What the baseline says of the events so far, the latest last.\<close>

definition baseline_seen :: "rate_event list \<Rightarrow> string \<Rightarrow> nat \<times> nat \<Rightarrow> duration \<Rightarrow> bool" where
  "baseline_seen es d c t \<longleftrightarrow>
     (\<exists>us vs. es = us @ Ev_Read d (Some c) t # vs \<and> list_all (keeps_baseline d) vs)"

lemma seen_now: "baseline_seen (es @ [Ev_Read d (Some c) t]) d c t"
  unfolding baseline_seen_def by (intro exI [of _ es] exI [of _ "[]"]) simp

lemma seen_later: "baseline_seen es d c t \<Longrightarrow> keeps_baseline d e \<Longrightarrow> baseline_seen (es @ [e]) d c t"
  unfolding baseline_seen_def by force

lemma spec_seen:
  assumes "\<And>d c t. v = Some (d, c, t) \<Longrightarrow> baseline_seen es d c t"
    and "fst (rate_spec e v) = Some (d, c, t)"
  shows "baseline_seen (es @ [e]) d c t"
proof (cases e)
  case (Ev_Read d' c' t')
  show ?thesis
  proof (cases c')
    case None
    with assms Ev_Read show ?thesis by (auto intro: seen_later)
  next
    case (Some k)
    then consider "v = Some (d, c, t)" "d' = d" | "d = d'" "c = k" "t = t'"
      using assms(2) by (auto simp: Ev_Read compare_read_def split: option.splits if_splits)
    then show ?thesis
    proof cases
      case 1
      with assms(1) Some show ?thesis by (simp add: Ev_Read seen_later)
    next
      case 2
      with Some show ?thesis by (simp add: Ev_Read seen_now)
    qed
  qed
next
  case (Ev_Keep wanted device)
  with assms show ?thesis by (auto simp: keep_for_def split: option.splits if_splits intro: seen_later)
qed (use assms in \<open>auto intro: seen_later\<close>)

lemma spec_read:
  "rate_spec (Ev_Read d c t) v =
     apsnd Some (case c of None \<Rightarrow> (v, Rate_Failed) | Some c \<Rightarrow> compare_read d c t v)"
  by (simp split: option.split)

lemma apfst_Some: "apfst f (a, Some (snd p)) = apsnd Some (apfst f p) \<longleftrightarrow> f a = f (fst p)"
  by (cases p) simp

locale rate_owner =
  fixes act :: "'e \<Rightarrow> 's \<Rightarrow> 's \<times> rate_read_outcome option"
    and view :: "'s \<Rightarrow> baseline"
    and event :: "'e \<Rightarrow> rate_event"
    and start :: 's
  assumes start_view: "view start = None"
    and refines: "apfst view (act e s) = rate_spec (event e) (view s)"
begin

lemma view_seen: "view (fold (\<lambda>e s. fst (act e s)) es start) = Some (d, c, t) \<Longrightarrow> baseline_seen (map event es) d c t"
proof (induction es arbitrary: d c t rule: rev_induct)
  case Nil
  then show ?case by (simp add: start_view)
next
  case (snoc e es)
  let ?s = "fold (\<lambda>e s. fst (act e s)) es start"
  have "fst (rate_spec (event e) (view ?s)) = view (fst (act e ?s))"
    using refines [of e ?s] by (metis fst_apfst)
  with snoc.prems have "fst (rate_spec (event e) (view ?s)) = Some (d, c, t)" by simp
  from spec_seen [OF snoc.IH this] show ?case by simp
qed

lemma value_between:
  assumes "snd (act e (fold (\<lambda>e s. fst (act e s)) es start)) = Some (Rate_Value u v)"
  shows "\<exists>d c t c' t'. event e = Ev_Read d (Some c) t \<and> baseline_seen (map event es) d c' t' \<and> t' < t \<and>
           fst c' \<le> fst c \<and> snd c' \<le> snd c \<and> u = rate_per_second (fst c - fst c') (t - t') \<and>
           v = rate_per_second (snd c - snd c') (t - t')"
proof -
  let ?s = "fold (\<lambda>e s. fst (act e s)) es start"
  have "snd (rate_spec (event e) (view ?s)) = Some (Rate_Value u v)"
    using refines [of e ?s] assms by (metis snd_apfst)
  then obtain d c t where e: "event e = Ev_Read d (Some c) t"
    and step: "snd (compare_read d c t (view ?s)) = Rate_Value u v"
    by (cases "event e") (auto split: option.splits)
  then obtain c' t' where "view ?s = Some (d, c', t')"
    by (auto simp: compare_read_def split: option.splits if_splits)
  moreover from this have "baseline_seen (map event es) d c' t'" by (rule view_seen)
  ultimately show ?thesis
    using step e
    by (intro exI [of _ d] exI [of _ c] exI [of _ t] exI [of _ c'] exI [of _ t'])
      (auto simp: compare_read_def split: if_splits)
qed

end

subsection \<open>The network owner\<close>

datatype net_event =
  Net_Attempt files path string duration | Net_Reset_Rate | Net_Invalidate | Net_Reset_Info
  | Net_Reset_History | Net_Reconcile "string option" bool bool bool
  | Net_Append duration "nat option" "nat option" | Net_Sample duration "nat option" "nat option"

primrec net_act :: "config \<Rightarrow> net_event \<Rightarrow> network_state \<Rightarrow> network_state \<times> rate_read_outcome option" where
  "net_act cfg (Net_Attempt files sys_root device now) s =
     (fst (attempt_network_speed files sys_root device now s),
      Some (snd (read_net_speed_once files sys_root device now s)))"
| "net_act cfg Net_Reset_Rate s = (reset_rate s, None)"
| "net_act cfg Net_Invalidate s = (invalidate_rate_baseline s, None)"
| "net_act cfg Net_Reset_Info s = (reset_info s, None)"
| "net_act cfg Net_Reset_History s = (reset_history s, None)"
| "net_act cfg (Net_Reconcile device rate info history) s =
     (reconcile_network_sources device rate info history s, None)"
| "net_act cfg (Net_Append t up down) s = (append_net_history cfg t up down s, None)"
| "net_act cfg (Net_Sample t up down) s = (sample_net_history cfg t up down s, None)"

definition net_view :: "network_state \<Rightarrow> baseline" where
  "net_view s =
     (case (net_rate_device s, net_rate_sample_at s) of
        (Some d, Some t) \<Rightarrow> Some (d, (net_prev_tx_bytes s, net_prev_rx_bytes s), t) | _ \<Rightarrow> None)"

definition net_counters :: "files \<Rightarrow> path \<Rightarrow> string \<Rightarrow> (nat \<times> nat) option" where
  "net_counters files sys_root device =
     (case (read_interface_counter files sys_root device ''tx_bytes'',
            read_interface_counter files sys_root device ''rx_bytes'') of
        (Some tx, Some rx) \<Rightarrow> Some (tx, rx) | _ \<Rightarrow> None)"

primrec net_event_view :: "net_event \<Rightarrow> rate_event" where
  "net_event_view (Net_Attempt files sys_root device now) =
     Ev_Read device (net_counters files sys_root device) now"
| "net_event_view Net_Reset_Rate = Ev_Forget"
| "net_event_view Net_Invalidate = Ev_Forget"
| "net_event_view Net_Reset_Info = Ev_Other"
| "net_event_view Net_Reset_History = Ev_Other"
| "net_event_view (Net_Reconcile device rate info history) = Ev_Keep (rate \<and> device \<noteq> None) device"
| "net_event_view (Net_Append t up down) = Ev_Other"
| "net_event_view (Net_Sample t up down) = Ev_Other"

lemmas net_defs = net_view_def reset_rate_def invalidate_rate_baseline_def reset_info_def reset_history_def
  net_baseline_def append_net_history_def Let_def

lemma net_read_refines:
  "apfst net_view (read_net_speed_once files sys_root device now s) =
     (case net_counters files sys_root device of
        None \<Rightarrow> (net_view s, Rate_Failed) | Some c \<Rightarrow> compare_read device c now (net_view s))"
  by (auto simp: read_net_speed_once_def net_counters_def compare_read_def checked_sub_def net_defs
      split: option.split)

lemma net_refines: "apfst net_view (net_act cfg e s) = rate_spec (net_event_view e) (net_view s)"
proof (cases e)
  case (Net_Attempt files sys_root device now)
  have "net_view (fst (attempt_network_speed files sys_root device now s)) =
      net_view (fst (read_net_speed_once files sys_root device now s))"
    by (simp add: attempt_network_speed_def net_view_def Let_def split: prod.split option.split)
  then show ?thesis
    unfolding Net_Attempt net_event_view.simps net_act.simps spec_read net_read_refines [symmetric] apfst_Some .
next
  case (Net_Reconcile device rate info history)
  then show ?thesis
    by (cases "net_rate_device s"; cases "net_rate_sample_at s"; cases device)
      (auto simp: reconcile_network_sources_def keep_for_def net_defs)
next
  case (Net_Sample t up down)
  then show ?thesis
    by (cases "history_due (net_history_sample_at s) t (disp_history_interval (cf_display cfg))")
      (simp add: sample_net_history_def net_defs split: option.split)
qed (auto simp: net_defs split: option.split)

interpretation net_rates: rate_owner "net_act cfg" net_view net_event_view network_state_default for cfg
  by unfold_locales (simp_all add: net_refines, simp add: net_view_def network_state_default_def)


subsection \<open>The disk owner\<close>

datatype disk_event =
  Disk_Attempt files path string duration | Disk_Reset | Disk_Invalidate | Disk_Reset_History
  | Disk_Reconcile hardware_inventory config "capability bset" | Disk_Append config duration nat nat
  | Disk_Usage "string \<Rightarrow> (nat \<times> nat \<times> nat \<times> nat) option" string duration

primrec disk_act :: "disk_event \<Rightarrow> disk_state \<Rightarrow> disk_state \<times> rate_read_outcome option" where
  "disk_act (Disk_Attempt files proc_root device now) s =
     (fst (attempt_disk_io files proc_root device now s),
      Some (snd (read_disk_io_once (files (join proc_root [''diskstats''])) device now s)))"
| "disk_act Disk_Reset s = (reset_io s, None)"
| "disk_act Disk_Invalidate s = (invalidate_io_baseline s, None)"
| "disk_act Disk_Reset_History s = (reset_io_history s, None)"
| "disk_act (Disk_Reconcile hw cfg caps) s = (reconcile_disk_sources hw cfg caps s, None)"
| "disk_act (Disk_Append cfg t r w) s = (append_io_history cfg t r w s, None)"
| "disk_act (Disk_Usage statvfs mount now) s = (fst (attempt_disk_usage statvfs mount now s), None)"

definition disk_view :: "disk_state \<Rightarrow> baseline" where
  "disk_view s =
     (case (dst_rate_device s, dst_rate_sample_at s) of
        (Some d, Some t) \<Rightarrow> Some (d, (dst_prev_read_bytes s, dst_prev_write_bytes s), t) | _ \<Rightarrow> None)"

primrec disk_event_view :: "disk_event \<Rightarrow> rate_event" where
  "disk_event_view (Disk_Attempt files proc_root device now) =
     Ev_Read device (read_disk_bytes (files (join proc_root [''diskstats''])) (text_of device)) now"
| "disk_event_view Disk_Reset = Ev_Forget"
| "disk_event_view Disk_Invalidate = Ev_Forget"
| "disk_event_view Disk_Reset_History = Ev_Other"
| "disk_event_view (Disk_Reconcile hw cfg caps) =
     Ev_Keep (Cap_DiskIo \<in> set caps \<and> hw_disk_io_device hw \<noteq> None) (hw_disk_io_device hw)"
| "disk_event_view (Disk_Append cfg t r w) = Ev_Other"
| "disk_event_view (Disk_Usage statvfs mount now) = Ev_Other"

lemmas disk_defs = disk_view_def reset_io_def invalidate_io_baseline_def reset_io_history_def
  io_baseline_def append_io_history_def Let_def

lemma disk_read_refines:
  "apfst disk_view (read_disk_io_once diskstats device now s) =
     (case read_disk_bytes diskstats (text_of device) of
        None \<Rightarrow> (disk_view s, Rate_Failed) | Some c \<Rightarrow> compare_read device c now (disk_view s))"
  by (auto simp: read_disk_io_once_def compare_read_def checked_sub_def disk_defs split: option.split)

lemma disk_refines: "apfst disk_view (disk_act e s) = rate_spec (disk_event_view e) (disk_view s)"
proof (cases e)
  case (Disk_Attempt files proc_root device now)
  have "disk_view (fst (attempt_disk_io files proc_root device now s)) =
      disk_view (fst (read_disk_io_once (files (join proc_root [''diskstats''])) device now s))"
    by (simp add: attempt_disk_io_def disk_view_def Let_def split: prod.split option.split)
  then show ?thesis
    unfolding Disk_Attempt disk_event_view.simps disk_act.simps spec_read disk_read_refines [symmetric] apfst_Some .
next
  case (Disk_Reconcile hw cfg caps)
  then show ?thesis
    by (cases "dst_rate_device s"; cases "dst_rate_sample_at s"; cases "hw_disk_io_device hw")
      (auto simp: reconcile_disk_sources_def keep_for_def disk_defs split: prod.split)
next
  case (Disk_Usage statvfs mount now)
  then show ?thesis
    by (simp add: attempt_disk_usage_def disk_defs split: prod.split option.split)
qed (auto simp: disk_defs split: option.split)

interpretation disk_rates: rate_owner disk_act disk_view disk_event_view disk_state_default
  by unfold_locales (simp_all add: disk_refines, simp add: disk_view_def disk_state_default_def)


section \<open>Bounded histories\<close>

datatype 'a hist_event = Hist_Push 'a | Hist_Clear | Hist_Same

text \<open>A run beside the log of every sample since the last time the history was cleared.\<close>

definition with_log ::
    "('e \<Rightarrow> 's \<Rightarrow> 's) \<Rightarrow> ('e \<Rightarrow> 's \<Rightarrow> 'a hist_event) \<Rightarrow> 'e \<Rightarrow> 's \<times> 'a list \<Rightarrow> 's \<times> 'a list" where
  "with_log act event e p =
     (act e (fst p),
      case event e (fst p) of Hist_Push x \<Rightarrow> snd p @ [x] | Hist_Clear \<Rightarrow> [] | Hist_Same \<Rightarrow> snd p)"

locale bounded_history =
  fixes act :: "'e \<Rightarrow> 's \<Rightarrow> 's"
    and hist :: "'s \<Rightarrow> 'a list"
    and limit :: nat
    and event :: "'e \<Rightarrow> 's \<Rightarrow> 'a hist_event"
    and start :: 's
  assumes start_hist: "hist start = []"
    and hist_act: "hist (act e s) =
      (case event e s of Hist_Push x \<Rightarrow> trim_to_len limit (hist s @ [x]) | Hist_Clear \<Rightarrow> [] | Hist_Same \<Rightarrow> hist s)"
begin

lemma newest:
  "hist (fst (fold (with_log act event) es (start, []))) =
     trim_to_len limit (snd (fold (with_log act event) es (start, [])))"
proof (induction es rule: rev_induct)
  case Nil
  then show ?case by (simp add: start_hist trim_to_len_def)
next
  case (snoc e es)
  then show ?case
    by (auto simp: with_log_def hist_act trim_snoc trim_to_len_def [of _ "[]"] split: hist_event.split)
qed

end

definition or_zero :: "nat option \<Rightarrow> nat" where
  "or_zero v = (case v of Some n \<Rightarrow> n | None \<Rightarrow> 0)"

definition net_hist :: "bool \<Rightarrow> network_state \<Rightarrow> nat list" where
  "net_hist up s = (if up then net_up_history s else net_down_history s)"

primrec net_pushed :: "config \<Rightarrow> bool \<Rightarrow> net_event \<Rightarrow> network_state \<Rightarrow> nat hist_event" where
  "net_pushed cfg up (Net_Attempt files sys_root device now) s =
     (if net_counters files sys_root device \<noteq> None \<and> net_rate_device s \<noteq> None \<and> net_rate_device s \<noteq> Some device
      then Hist_Clear else Hist_Same)"
| "net_pushed cfg up Net_Reset_Rate s = Hist_Same"
| "net_pushed cfg up Net_Invalidate s = Hist_Same"
| "net_pushed cfg up Net_Reset_Info s = Hist_Same"
| "net_pushed cfg up Net_Reset_History s = Hist_Clear"
| "net_pushed cfg up (Net_Reconcile device rate info history) s =
     (if \<not> history \<or> net_rate_device s \<noteq> None \<and> net_rate_device s \<noteq> device then Hist_Clear else Hist_Same)"
| "net_pushed cfg up (Net_Append t u d) s = Hist_Push (or_zero (if up then u else d))"
| "net_pushed cfg up (Net_Sample t u d) s =
     (if ''graphs'' \<in> set (pages_order (cf_pages cfg)) \<and> (u \<noteq> None \<or> d \<noteq> None) \<and>
         fst (history_due (net_history_sample_at s) t (disp_history_interval (cf_display cfg)))
      then Hist_Push (or_zero (if up then u else d)) else Hist_Same)"

lemma net_hist_act:
  "net_hist up (fst (net_act cfg e s)) =
     (case net_pushed cfg up e s of
        Hist_Push x \<Rightarrow> trim_to_len (nat (pages_graph_history_length (cf_pages cfg))) (net_hist up s @ [x])
      | Hist_Clear \<Rightarrow> [] | Hist_Same \<Rightarrow> net_hist up s)"
proof (cases e)
  case (Net_Attempt files sys_root device now)
  have "net_hist up (fst (attempt_network_speed files sys_root device now s)) =
      net_hist up (fst (read_net_speed_once files sys_root device now s))"
    by (simp add: attempt_network_speed_def net_hist_def Let_def split: prod.split)
  moreover have "net_hist up (fst (read_net_speed_once files sys_root device now s)) =
      (case net_pushed cfg up e s of Hist_Clear \<Rightarrow> [] | _ \<Rightarrow> net_hist up s)"
    by (auto simp: Net_Attempt read_net_speed_once_def net_counters_def net_hist_def net_baseline_def
        reset_history_def Let_def split: option.split)
  ultimately show ?thesis by (simp add: Net_Attempt split: hist_event.split)
next
  case (Net_Sample t u d)
  then show ?thesis
    by (cases "history_due (net_history_sample_at s) t (disp_history_interval (cf_display cfg))")
      (auto simp: sample_net_history_def append_net_history_def net_hist_def or_zero_def Let_def)
next
  case (Net_Reconcile device rate info history)
  then show ?thesis
    by (auto simp: reconcile_network_sources_def net_hist_def reset_rate_def reset_info_def reset_history_def Let_def)
qed (simp_all add: net_hist_def or_zero_def append_net_history_def reset_rate_def reset_info_def reset_history_def
    invalidate_rate_baseline_def Let_def)

interpretation net_histories:
  bounded_history "\<lambda>e s. fst (net_act cfg e s)" "net_hist up" "nat (pages_graph_history_length (cf_pages cfg))"
    "net_pushed cfg up" network_state_default for cfg up
  by unfold_locales (simp add: net_hist_def network_state_default_def, rule net_hist_act)

section \<open>Mount points\<close>

text \<open>How the kernel writes a mount point: blanks, the backslash and the hash sign as three octal digits.\<close>

definition escape_mount_char :: "nat \<Rightarrow> nat list" where
  "escape_mount_char c =
     (if c \<in> {32, 9, 10, 92, 35} then [92, 48 + c div 64, 48 + c div 8 mod 8, 48 + c mod 8] else [c])"

lemma utf8_ascii: "list_all (\<lambda>c. c < 128) t \<Longrightarrow> utf8_encode t = t"
  by (induction t) auto

lemma escape_ascii: "c < 128 \<Longrightarrow> list_all (\<lambda>c. c < 128) (escape_mount_char c)"
  by (simp add: escape_mount_char_def)

lemma octal_digits:
  "c \<in> {32, 9, 10, 92, 35} \<Longrightarrow>
     parse_unsigned 8 255 [48 + c div 64, 48 + c div 8 mod 8, 48 + c mod 8] = Some c"
  by (auto simp: parse_unsigned_def digit_of_def)

lemma ascii_boundary: "\<forall>c\<in>set xs. c < 128 \<Longrightarrow> char_boundary xs"
  by (cases xs) (auto simp: char_boundary_def)

lemma decode_escaped:
  "list_all (\<lambda>c. c < 128) t \<Longrightarrow> decode_mount_bytes (concat (map escape_mount_char t)) = Some t"
proof (induction t)
  case (Cons c t)
  let ?rest = "concat (map escape_mount_char t)"
  have "\<forall>c\<in>set ?rest. c < 128"
    using Cons.prems by (auto simp: list_all_iff escape_mount_char_def split: if_splits)
  then have boundary: "char_boundary ?rest" by (rule ascii_boundary)
  show ?case
  proof (cases "c \<in> {32, 9, 10, 92, 35}")
    case True
    then have "list_all ascii_digit [48 + c div 64, 48 + c div 8 mod 8, 48 + c mod 8]"
      by (auto simp: ascii_digit_def)
    moreover have "escape_mount_char c = [92, 48 + c div 64, 48 + c div 8 mod 8, 48 + c mod 8]"
      using True by (simp only: escape_mount_char_def if_True)
    ultimately show ?thesis
      using Cons boundary octal_digits [OF True] by (simp add: numeral_3_eq_3)
  next
    case False
    with Cons show ?thesis by (simp add: escape_mount_char_def)
  qed
qed simp

text \<open>
  The percentage of a disk is cut off, where that of the memory is rounded to a tenth first.
\<close>

lemma disk_percent_cut_off:
  "du_percent (disk_usage_from_bytes 10000 504 504) = 94" "rounded_percent_int 9496 10000 = 95"
  by (simp_all add: disk_usage_from_bytes_def rounded_percent_int_def round_half_even_ratio_def as_i32_def wrap32_def
      u64_saturating_add_def u128_saturating_mul_def u128_saturating_add_def u64_max_def u128_max_def Let_def)

text \<open>A character outside ASCII becomes one character for each of its bytes.\<close>

lemma accented_mount: "decode_mount_field [47, 233] = Some [47, 195, 169]"
  by (simp add: decode_mount_field_def)

section \<open>Sources of cached samples\<close>

lemma bm_get_filter: "bm_get (filter (\<lambda>(l, _). P l) m) k = (if P k then bm_get m k else None)"
  by (induction m) (auto simp: bm_get_def)

lemma follow_fold:
  fixes samples :: "(string, 'a) bmap" and sources :: "(string, 'b) bmap"
  assumes "distinct (map fst current)"
    and "fold (\<lambda>(label, x) (samples, sources).
           if bm_get sources label \<noteq> Some x then (bm_remove label samples, bm_insert label x sources)
           else (samples, sources)) current (samples, sources) = (samples', sources')"
  shows "bm_get sources' l = (case map_of current l of Some x \<Rightarrow> Some x | None \<Rightarrow> bm_get sources l) \<and>
         bm_get samples' l =
           (case map_of current l of
              Some x \<Rightarrow> if bm_get sources l = Some x then bm_get samples l else None | None \<Rightarrow> bm_get samples l)"
  using assms
proof (induction current arbitrary: samples sources)
  case (Cons p current)
  obtain label x where p: "p = (label, x)" by (cases p)
  have "l = label \<Longrightarrow> map_of current l = None"
    using Cons.prems(1) by (auto simp: p map_of_eq_None_iff)
  with Cons show ?case
    by (cases "bm_get sources label = Some x") (auto simp: p split: option.split_asm option.split)
qed simp

lemma follow_all:
  fixes samples :: "(string, 'a) bmap" and sources :: "(string, 'b) bmap"
  assumes "distinct (map fst current)"
    and "fold (\<lambda>(label, x) (samples, sources).
           if bm_get sources label \<noteq> Some x then (bm_remove label samples, bm_insert label x sources)
           else (samples, sources)) current
           (filter (\<lambda>(label, _). bm_contains current label) samples,
            filter (\<lambda>(label, _). bm_contains current label) sources) = (samples', sources')"
  shows "bm_get sources' l = map_of current l \<and>
         bm_get samples' l =
           (if map_of current l \<noteq> None \<and> bm_get sources l = map_of current l then bm_get samples l else None)"
proof -
  have "l \<in> fst ` set current \<longleftrightarrow> map_of current l \<noteq> None"
    by (simp add: map_of_eq_None_iff)
  with follow_fold [OF assms, of l] show ?thesis
    by (cases "map_of current l") (simp_all add: bm_get_filter)
qed

text \<open>The sources wanted of an inventory, and the samples that stay when they replace the sources so far.\<close>

abbreviation wanted_sources :: "bool \<Rightarrow> ('k \<times> 'd) list \<Rightarrow> 'k \<Rightarrow> 'd option" where
  "wanted_sources wanted current \<equiv> (if wanted then map_of current else Map.empty)"

lemma path_samples_follow:
  assumes "distinct (map fst current)"
    and "reconcile_path_samples wanted current (samples, sources) = (samples', sources')"
  shows "bm_get sources' l = wanted_sources wanted current l"
    and "bm_get samples' l =
           (if wanted_sources wanted current l \<noteq> None \<and> bm_get sources l = wanted_sources wanted current l
            then bm_get samples l else None)"
proof -
  have "bm_get sources' l = wanted_sources wanted current l \<and> bm_get samples' l =
           (if wanted_sources wanted current l \<noteq> None \<and> bm_get sources l = wanted_sources wanted current l
            then bm_get samples l else None)"
  proof (cases wanted)
    case True
    then have "bm_get sources' l = map_of current l \<and>
         bm_get samples' l =
           (if map_of current l \<noteq> None \<and> bm_get sources l = map_of current l then bm_get samples l else None)"
      using assms by (intro follow_all) (simp_all add: reconcile_path_samples_def)
    with True show ?thesis by simp
  next
    case False
    with assms(2) show ?thesis by (simp add: reconcile_path_samples_def bm_get_def)
  qed
  then show "bm_get sources' l = wanted_sources wanted current l"
    and "bm_get samples' l =
           (if wanted_sources wanted current l \<noteq> None \<and> bm_get sources l = wanted_sources wanted current l
            then bm_get samples l else None)" by blast+
qed

lemma smart_samples_follow:
  assumes "distinct (map fst current)"
    and "reconcile_smart wanted current (samples, sources) = (samples', sources')"
  shows "bm_get sources' l = wanted_sources wanted current l"
    and "bm_get samples' l =
           (if wanted_sources wanted current l \<noteq> None \<and> bm_get sources l = wanted_sources wanted current l
            then bm_get samples l else None)"
proof -
  have "bm_get sources' l = wanted_sources wanted current l \<and> bm_get samples' l =
           (if wanted_sources wanted current l \<noteq> None \<and> bm_get sources l = wanted_sources wanted current l
            then bm_get samples l else None)"
  proof (cases wanted)
    case True
    then have "bm_get sources' l = map_of current l \<and>
         bm_get samples' l =
           (if map_of current l \<noteq> None \<and> bm_get sources l = map_of current l then bm_get samples l else None)"
      using assms by (intro follow_all) (simp_all add: reconcile_smart_def)
    with True show ?thesis by simp
  next
    case False
    with assms(2) show ?thesis by (simp add: reconcile_smart_def bm_get_def)
  qed
  then show "bm_get sources' l = wanted_sources wanted current l"
    and "bm_get samples' l =
           (if wanted_sources wanted current l \<noteq> None \<and> bm_get sources l = wanted_sources wanted current l
            then bm_get samples l else None)" by blast+
qed

section \<open>Bounds of the parsers\<close>

definition total_fits :: "mem_info \<Rightarrow> bool" where
  "total_fits m \<longleftrightarrow> (\<forall>n. mi_mem_total m = Some n \<longrightarrow> n \<le> u64_max)"

lemma entry_fits: "total_fits m \<Longrightarrow> v \<le> u64_max \<Longrightarrow> total_fits (meminfo_entry key v m)"
  by (simp add: total_fits_def meminfo_entry_def)

lemma meminfo_fits: "total_fits m \<Longrightarrow> meminfo_lines lines saw m = Some m' \<Longrightarrow> total_fits m'"
  by (induction lines saw m rule: meminfo_lines.induct)
    (auto simp: u64_checked_mul_def entry_fits split: list.splits option.splits if_splits)

lemma gib_mono:
  assumes "used \<le> whole" and "whole \<le> u64_max"
  shows "round_half_even_div used BYTES_PER_GIB \<le> round_half_even_div whole BYTES_PER_GIB"
proof -
  have big: "2 * BYTES_PER_GIB \<le> u128_max" "whole < u128_max"
    using assms(2) by (simp_all add: BYTES_PER_GIB_def bounds_defs)
  have bound: "round_half_even_ratio n BYTES_PER_GIB \<le> 2 ^ 34" if "n \<le> u64_max" for n
    using that by (intro half_even_le) (auto simp: BYTES_PER_GIB_def u64_max_def)
  have "round_half_even_ratio used BYTES_PER_GIB < 2 ^ 64" "round_half_even_ratio whole BYTES_PER_GIB < 2 ^ 64"
    using bound [of used] bound [of whole] assms by auto
  then show ?thesis
    using half_even_mono [OF assms(1) _ big] by (simp add: round_half_even_div_def as_u64_def BYTES_PER_GIB_def)
qed

lemma memory_in_range:
  "read_memory_usage_once meminfo zoneinfo = Some m \<Longrightarrow>
     0 \<le> mu_percent m \<and> mu_percent m \<le> 100 \<and> mu_used_gib m \<le> mu_total_gib m"
proof -
  assume "read_memory_usage_once meminfo zoneinfo = Some m"
  then obtain content i whole available where "parse_meminfo content = Some i"
    and whole: "mi_mem_total i = Some whole"
    and m: "m = \<lparr>mu_percent = rounded_percent_int (whole - available) whole,
        mu_used_gib = round_half_even_div (whole - available) BYTES_PER_GIB,
        mu_total_gib = round_half_even_div whole BYTES_PER_GIB\<rparr>"
    by (auto simp: read_memory_usage_once_def Let_def split: option.splits Option.bind_splits)
  then have "whole \<le> u64_max"
    using meminfo_fits [of mem_info_default "text_lines content" False i]
    by (simp add: parse_meminfo_def mem_info_default_def total_fits_def)
  then show ?thesis
    using rounded_percent_range [of "whole - available" whole] gib_mono [of "whole - available" whole]
    by (simp add: m)
qed

lemma disk_in_range:
  assumes "whole \<le> u64_max"
  shows "0 \<le> du_percent (disk_usage_from_bytes whole free available) \<and>
    du_percent (disk_usage_from_bytes whole free available) \<le> 100 \<and>
    du_used_gib (disk_usage_from_bytes whole free available) \<le>
      du_total_gib (disk_usage_from_bytes whole free available)"
proof -
  let ?used = "whole - free"
  let ?visible = "u64_saturating_add ?used available"
  have "?used \<le> ?visible" using assms by (simp add: u64_saturating_add_def)
  then have "u128_saturating_mul ?used 1000 \<le> 1000 * ?visible"
    by (simp add: u128_saturating_mul_def min_le_iff_disj)
  then have "u128_saturating_mul ?used 1000 div ?visible \<le> 1000"
    by (metis div_le_mono div_mult_self_is_m bot_nat_0.not_eq_extremum div_by_0 zero_le mult.commute)
  then have "u128_saturating_mul ?used 1000 div ?visible div 10 \<le> 100" by linarith
  then show ?thesis
    using gib_mono [of ?used whole] assms by (simp add: disk_usage_from_bytes_def Let_def as_i32_def wrap32_id)
qed

section \<open>Properties\<close>

text \<open>
  C28. Whatever the files say, the percentages shown are percentages: memory, swap and disk usage lie
  between 0 and 100, processor and core usage between 0 and 99, and the gibibytes in use never exceed
  the total.
\<close>

theorem percentages_in_range:
  "pred_option (\<lambda>m. 0 \<le> mu_percent m \<and> mu_percent m \<le> 100 \<and> mu_used_gib m \<le> mu_total_gib m)
     (read_memory_usage_once meminfo zoneinfo) \<and>
   (case read_swap_usage_once meminfo of Swap_Present v \<Rightarrow> 0 \<le> v \<and> v \<le> 100 | _ \<Rightarrow> True) \<and>
   pred_option (\<lambda>u. 0 \<le> du_percent u \<and> du_percent u \<le> 100 \<and> du_used_gib u \<le> du_total_gib u)
     (read_disk_usage blocks) \<and>
   (case snd (read_cpu_usage_once stat s) of Usage_Value v \<Rightarrow> 0 \<le> v \<and> v \<le> 99 | _ \<Rightarrow> True) \<and>
   (case snd (read_cpu_cores_once stat s) of Cores_Value vs \<Rightarrow> set vs \<subseteq> {0..99} | _ \<Rightarrow> True)"
proof (intro conjI)
  show "pred_option (\<lambda>m. 0 \<le> mu_percent m \<and> mu_percent m \<le> 100 \<and> mu_used_gib m \<le> mu_total_gib m)
     (read_memory_usage_once meminfo zoneinfo)"
    using memory_in_range by (cases "read_memory_usage_once meminfo zoneinfo") auto
  show "case read_swap_usage_once meminfo of Swap_Present v \<Rightarrow> 0 \<le> v \<and> v \<le> 100 | _ \<Rightarrow> True"
    by (auto simp: read_swap_usage_once_def rounded_percent_range split: option.split)
  show "pred_option (\<lambda>u. 0 \<le> du_percent u \<and> du_percent u \<le> 100 \<and> du_used_gib u \<le> du_total_gib u)
     (read_disk_usage blocks)"
    using disk_in_range by (auto simp: read_disk_usage_def u64_saturating_mul_def split: option.split prod.split)
  show "case snd (read_cpu_usage_once stat s) of Usage_Value v \<Rightarrow> 0 \<le> v \<and> v \<le> 99 | _ \<Rightarrow> True"
    by (auto simp: read_cpu_usage_once_def dest: usage_range split: option.split)
  show "case snd (read_cpu_cores_once stat s) of Cores_Value vs \<Rightarrow> set vs \<subseteq> {0..99} | _ \<Rightarrow> True"
    by (auto simp: read_cpu_cores_once_def dest!: those_map_Some dest: usage_range split: option.split)
qed

text \<open>
  C29. In every run of the network owner - attempts on any device, resets, suspends, reconciliations,
  history ticks - a rate is the difference of two successful reads of the same device, over the time
  between them: the earlier is the read whose counters the owner keeps, nothing between the two forgot
  it or read another device, no counter ran backwards and time has passed.
\<close>

theorem network_rates_between_reads:
  assumes "snd (net_act cfg e (fold (\<lambda>e s. fst (net_act cfg e s)) es network_state_default)) =
     Some (Rate_Value u v)"
  shows "\<exists>d c t c' t'. net_event_view e = Ev_Read d (Some c) t \<and>
           baseline_seen (map net_event_view es) d c' t' \<and> t' < t \<and>
           fst c' \<le> fst c \<and> snd c' \<le> snd c \<and> u = rate_per_second (fst c - fst c') (t - t') \<and>
           v = rate_per_second (snd c - snd c') (t - t')"
  using assms by (rule net_rates.value_between)

definition counter_files :: "nat \<Rightarrow> nat \<Rightarrow> files" where
  "counter_files tx rx p =
     (if p = join [RootDir] [''class'', ''net'', ''eth0'', ''statistics'', ''tx_bytes''] then Some (nat_text tx)
      else if p = join [RootDir] [''class'', ''net'', ''eth0'', ''statistics'', ''rx_bytes''] then Some (nat_text rx)
      else None)"

lemma counter_files_read:
  assumes "tx \<le> u64_max" and "rx \<le> u64_max"
  shows "read_interface_counter (counter_files tx rx) [RootDir] ''eth0'' ''tx_bytes'' = Some tx"
    "read_interface_counter (counter_files tx rx) [RootDir] ''eth0'' ''rx_bytes'' = Some rx"
proof -
  have "dropWhile is_ws ds = ds" if "\<forall>c\<in>set ds. 48 \<le> c \<and> c \<le> 57" for ds
    using that by (cases ds) (auto simp: is_ws_def)
  then have "trim_text (nat_text n) = nat_text n" for n
    using nat_text_digits [of _ n] by (simp add: trim_text_def)
  then show "read_interface_counter (counter_files tx rx) [RootDir] ''eth0'' ''tx_bytes'' = Some tx"
    "read_interface_counter (counter_files tx rx) [RootDir] ''eth0'' ''rx_bytes'' = Some rx"
    using assms by (simp_all add: read_interface_counter_def counter_files_def join_def parse_nat_text)
qed

theorem network_rates_between_reads_witness:
  "\<exists>d c t c' t'.
     net_event_view (Net_Attempt (counter_files 3000 4096) [RootDir] ''eth0'' (from_secs 2)) = Ev_Read d (Some c) t \<and>
     baseline_seen (map net_event_view [Net_Attempt (counter_files 1000 0) [RootDir] ''eth0'' 0]) d c' t' \<and> t' < t \<and>
     fst c' \<le> fst c \<and> snd c' \<le> snd c \<and> 1000 = rate_per_second (fst c - fst c') (t - t') \<and>
     2048 = rate_per_second (snd c - snd c') (t - t')"
proof (rule network_rates_between_reads [of config_default])
  have small: "(1000::nat) \<le> u64_max" "(0::nat) \<le> u64_max" "(3000::nat) \<le> u64_max" "(4096::nat) \<le> u64_max"
    by (simp_all add: u64_max_def)
  show "snd (net_act config_default (Net_Attempt (counter_files 3000 4096) [RootDir] ''eth0'' (from_secs 2))
      (fold (\<lambda>e s. fst (net_act config_default e s))
        [Net_Attempt (counter_files 1000 0) [RootDir] ''eth0'' 0] network_state_default)) =
      Some (Rate_Value 1000 2048)"
    using small by (simp add: attempt_network_speed_def read_net_speed_once_def counter_files_read
        network_state_default_def net_baseline_def commit_attempt_def rate_outcome_def checked_sub_def Let_def
        rate_per_second_def u128_saturating_mul_def bounds_defs from_secs_def)
qed

text \<open>The same for the disk owner and the counters of \<open>/proc/diskstats\<close>.\<close>

theorem disk_rates_between_reads:
  assumes "snd (disk_act e (fold (\<lambda>e s. fst (disk_act e s)) es disk_state_default)) = Some (Rate_Value u v)"
  shows "\<exists>d c t c' t'. disk_event_view e = Ev_Read d (Some c) t \<and>
           baseline_seen (map disk_event_view es) d c' t' \<and> t' < t \<and>
           fst c' \<le> fst c \<and> snd c' \<le> snd c \<and> u = rate_per_second (fst c - fst c') (t - t') \<and>
           v = rate_per_second (snd c - snd c') (t - t')"
  using assms by (rule disk_rates.value_between)

definition sda_files :: "string \<Rightarrow> files" where
  "sda_files content p = (if p = join [RootDir] [''diskstats''] then Some (lit content) else None)"

theorem disk_rates_between_reads_witness:
  "\<exists>d c t c' t'.
     disk_event_view (Disk_Attempt (sda_files ''8 0 sda 1 0 12 0 1 0 8 0'') [RootDir] ''sda'' (from_secs 2)) =
       Ev_Read d (Some c) t \<and>
     baseline_seen (map disk_event_view [Disk_Attempt (sda_files ''8 0 sda 1 0 4 0 1 0 8 0'') [RootDir] ''sda'' 0])
       d c' t' \<and> t' < t \<and> fst c' \<le> fst c \<and> snd c' \<le> snd c \<and>
     2048 = rate_per_second (fst c - fst c') (t - t') \<and> 0 = rate_per_second (snd c - snd c') (t - t')"
proof (rule disk_rates_between_reads)
  have reads: "read_disk_bytes (Some (lit ''8 0 sda 1 0 12 0 1 0 8 0'')) (text_of ''sda'') = Some (6144, 4096)"
    "read_disk_bytes (Some (lit ''8 0 sda 1 0 4 0 1 0 8 0'')) (text_of ''sda'') = Some (2048, 4096)"
    by (simp_all add: read_disk_bytes_def text_lines_def split_ws_def is_ws_def strip_cr_def lit_def text_of_def
        parse_unsigned_def digit_of_def u64_saturating_mul_def u64_max_def DISKSTAT_SECTOR_BYTES_def)
  then show "snd (disk_act (Disk_Attempt (sda_files ''8 0 sda 1 0 12 0 1 0 8 0'') [RootDir] ''sda'' (from_secs 2))
      (fold (\<lambda>e s. fst (disk_act e s))
        [Disk_Attempt (sda_files ''8 0 sda 1 0 4 0 1 0 8 0'') [RootDir] ''sda'' 0] disk_state_default)) =
      Some (Rate_Value 2048 0)"
    by (simp add: attempt_disk_io_def read_disk_io_once_def sda_files_def disk_state_default_def io_baseline_def
        commit_attempt_def rate_outcome_def checked_sub_def Let_def rate_per_second_def u128_saturating_mul_def
        bounds_defs from_secs_def)
qed

text \<open>
  C30. After any run of the network owner its upload and its download history are the end of the list of
  all points appended since the histories were last cleared - by a reset, by a change of device, or because
  no page shows them: the newest points, in order, at most \<open>graph_history_length\<close> of them (none for a
  negative length), and fewer only when fewer were appended. A point is a rate handed to the owner, 0 for
  an unknown one; a sample taken by the owner counts when the graphs page is configured, a rate is known
  and the history interval has passed.
\<close>

theorem network_histories_keep_newest:
  "case fold (with_log (\<lambda>e s. fst (net_act cfg e s)) (net_pushed cfg up)) es (network_state_default, []) of
     (s, points) \<Rightarrow>
       (if up then net_up_history s else net_down_history s) =
         drop (length points - nat (pages_graph_history_length (cf_pages cfg))) points \<and>
       length (if up then net_up_history s else net_down_history s) =
         min (length points) (nat (pages_graph_history_length (cf_pages cfg)))"
proof -
  obtain s points where run: "fold (with_log (\<lambda>e s. fst (net_act cfg e s)) (net_pushed cfg up)) es
      (network_state_default, []) = (s, points)" by force
  with net_histories.newest [of up cfg es] have "net_hist up s =
      drop (length points - nat (pages_graph_history_length (cf_pages cfg))) points"
    by (simp add: trim_take)
  then show ?thesis by (auto simp: run net_hist_def)
qed

text \<open>
  A mount point in ASCII, written with the kernel's octal escapes, is decoded to itself. (Outside
  ASCII it is not: \<open>accented_mount\<close>.)
\<close>

theorem mount_field_roundtrip:
  assumes "list_all (\<lambda>c. c < 128) mount"
  shows "decode_mount_field (concat (map escape_mount_char mount)) = Some mount"
proof -
  have "list_all (\<lambda>c. c < 128) (concat (map escape_mount_char mount))"
    using assms by (auto simp: list_all_iff escape_mount_char_def split: if_splits)
  with decode_escaped [OF assms] show ?thesis
    by (simp add: decode_mount_field_def utf8_ascii)
qed

theorem mount_field_roundtrip_witness:
  "decode_mount_field (concat (map escape_mount_char (lit ''/mnt/my disk''))) = Some (lit ''/mnt/my disk'')"
  by (rule mount_field_roundtrip) (simp add: lit_def)

text \<open>
  C31. When the disk owner is reconciled with an inventory, its temperatures, its fan speeds and its SMART
  results follow the devices. The sources of each kind are those of the inventory where the kind is wanted
  - its capability is demanded, and for SMART the configuration also enables it - and none otherwise; and a
  sample stays exactly when the label had a source before and has the same one now, so no sample is shown
  for another device under the same label. Hypothesis: a label names one device of its kind, as the keys
  of the inventory's ordered maps do.
\<close>

theorem disk_samples_follow_sources:
  assumes "distinct (map fst (hw_hd_temp_paths hw))" "distinct (map fst (hw_fan_paths hw))"
      "distinct (map fst (hw_disk_smart_drives hw))"
    and "temp = (if Cap_DiskTemperature \<in> set caps then map_of (hw_hd_temp_paths hw) else Map.empty)"
    and "fan = (if Cap_FanSpeed \<in> set caps then map_of (hw_fan_paths hw) else Map.empty)"
    and "smart = (if Cap_DiskSmart \<in> set caps \<and> disk_smart (cf_disks cfg)
                  then map_of (hw_disk_smart_drives hw) else Map.empty)"
    and "s' = reconcile_disk_sources hw cfg caps s"
  shows "bm_get (dst_hd_temp_sources s') l = temp l \<and>
         bm_get (dst_hd_temp_cache s') l =
           (if temp l \<noteq> None \<and> bm_get (dst_hd_temp_sources s) l = temp l
            then bm_get (dst_hd_temp_cache s) l else None) \<and>
         bm_get (dst_fan_speed_sources s') l = fan l \<and>
         bm_get (dst_fan_speed_cache s') l =
           (if fan l \<noteq> None \<and> bm_get (dst_fan_speed_sources s) l = fan l
            then bm_get (dst_fan_speed_cache s) l else None) \<and>
         bm_get (dst_smart_sources s') l = smart l \<and>
         bm_get (dst_smart_cache s') l =
           (if smart l \<noteq> None \<and> bm_get (dst_smart_sources s) l = smart l
            then bm_get (dst_smart_cache s) l else None)"
proof -
  let ?temp = "reconcile_path_samples (Cap_DiskTemperature \<in> set caps) (hw_hd_temp_paths hw)
    (dst_hd_temp_cache s, dst_hd_temp_sources s)"
  let ?fan = "reconcile_path_samples (Cap_FanSpeed \<in> set caps) (hw_fan_paths hw)
    (dst_fan_speed_cache s, dst_fan_speed_sources s)"
  let ?smart = "reconcile_smart (Cap_DiskSmart \<in> set caps \<and> disk_smart (cf_disks cfg)) (hw_disk_smart_drives hw)
    (dst_smart_cache s, dst_smart_sources s)"
  have s': "dst_hd_temp_cache s' = fst ?temp" "dst_hd_temp_sources s' = snd ?temp"
    "dst_fan_speed_cache s' = fst ?fan" "dst_fan_speed_sources s' = snd ?fan"
    "dst_smart_cache s' = fst ?smart" "dst_smart_sources s' = snd ?smart"
    by (simp_all add: assms(7) reconcile_disk_sources_def reset_io_history_def reset_io_def Let_def split: prod.split)
  show ?thesis
    unfolding s' assms(4-6)
    using path_samples_follow [OF assms(1) prod.collapse [symmetric]]
      path_samples_follow [OF assms(2) prod.collapse [symmetric]]
      smart_samples_follow [OF assms(3) prod.collapse [symmetric]]
    by (intro conjI)
qed

definition swapped_disks :: hardware_inventory where
  "swapped_disks = hardware_inventory_default
     \<lparr>hw_hd_temp_paths := [(''sda'', [RootDir, NormalComp ''new''])],
      hw_disk_smart_drives := [(''sda'', \<lparr>sd_object_path = ''sda'', sd_interface = Smart_Ata, sd_rotational = False\<rparr>)]\<rparr>"

theorem disk_samples_follow_sources_witness:
  "bm_get (dst_hd_temp_cache (reconcile_disk_sources swapped_disks
       (config_default\<lparr>cf_disks := disk_config_default\<lparr>disk_smart := True\<rparr>\<rparr>) [Cap_DiskTemperature, Cap_DiskSmart]
       (disk_state_default\<lparr>dst_hd_temp_cache := [(''sda'', retained_default)],
          dst_hd_temp_sources := [(''sda'', [RootDir, NormalComp ''old''])]\<rparr>))) ''sda'' = None"
proof -
  have maps: "hw_hd_temp_paths swapped_disks = [(''sda'', [RootDir, NormalComp ''new''])]"
    "distinct (map fst (hw_disk_smart_drives swapped_disks))" "hw_fan_paths swapped_disks = []"
    by (simp_all add: swapped_disks_def hardware_inventory_default_def)
  show ?thesis
    using disk_samples_follow_sources [where hw = swapped_disks
        and caps = "[Cap_DiskTemperature, Cap_DiskSmart]" and l = "''sda''"
        and cfg = "config_default\<lparr>cf_disks := disk_config_default\<lparr>disk_smart := True\<rparr>\<rparr>"
        and s = "disk_state_default\<lparr>dst_hd_temp_cache := [(''sda'', retained_default)],
          dst_hd_temp_sources := [(''sda'', [RootDir, NormalComp ''old''])]\<rparr>",
        OF _ _ _ refl refl refl refl] maps
    by (simp add: disk_state_default_def bm_get_def)
qed

end
