(* ===== verification/Hid.thy ===== *)
theory Hid
  imports Cells
begin

text \<open>
  The Logitech Bolt battery query: \<open>src/sensors/hid.rs\<close>. Reports are lists of bytes. The device is a
  parameter with a state of its own: one function writes a report, one reads into the 64-byte buffer and
  returns how many bytes it read. An index out of bounds panics: it is the result \<open>None\<close>.
\<close>

type_synonym bytes = "8 word list"

definition BOLT_PID :: utext where "BOLT_PID = lit ''c548''"
definition BOLT_USB_INTERFACE :: nat where "BOLT_USB_INTERFACE = 2"
definition SOFTWARE_ID :: "8 word" where "SOFTWARE_ID = 1"
definition TIMEOUT_MS :: "16 word" where "TIMEOUT_MS = 1000"
definition MAX_READS :: nat where "MAX_READS = 10"
definition REPORT_LEN :: nat where "REPORT_LEN = 20"
definition LONG_REPORT_ID :: "8 word" where "LONG_REPORT_ID = 0x11"
definition ROOT_FEATURE :: "8 word" where "ROOT_FEATURE = 0"
definition UNIFIED_BATTERY_FEATURE :: "16 word" where "UNIFIED_BATTERY_FEATURE = 0x1004"
definition DEVICE_NAME_FEATURE :: "16 word" where "DEVICE_NAME_FEATURE = 0x0005"

datatype 'e hid_error =
  Hid_DeviceAbsent | Hid_InvalidDeviceIndex int | Hid_Open path 'e | Hid_Write 'e | Hid_Read 'e
  | Hid_Timeout | Hid_NoMatchingResponse

record ('d, 'e) report_io =
  rio_write :: "'d \<Rightarrow> bytes \<Rightarrow> 'd \<times> 'e option"
  rio_read :: "'d \<Rightarrow> bytes \<Rightarrow> 16 word \<Rightarrow> 'd \<times> ('e + nat \<times> bytes)"

text \<open>The result of a step that talks to the device: a panic, or the device and an error or a value.\<close>

type_synonym ('d, 'e, 'a) hid_result = "('d \<times> ('e hid_error + 'a)) option"

section \<open>Transfers\<close>

fun read_loop ::
    "('d, 'e) report_io \<Rightarrow> bytes \<Rightarrow> 8 word \<Rightarrow> nat \<Rightarrow> bytes \<Rightarrow> 'd \<Rightarrow> ('d, 'e, bytes) hid_result" where
  "read_loop io packet expected_feature 0 buffer d = Some (d, Inl Hid_NoMatchingResponse)"
| "read_loop io packet expected_feature (Suc n) buffer d =
     (case rio_read io d buffer TIMEOUT_MS of
        (d, Inl e) \<Rightarrow> Some (d, Inl (Hid_Read e))
      | (d, Inr (k, buffer)) \<Rightarrow>
          if 5 \<le> k \<and> buffer ! 1 = packet ! 1 \<and> buffer ! 2 = expected_feature then
            if k \<le> length buffer then Some (d, Inr (take k buffer)) else None
          else if k = 0 then Some (d, Inl Hid_Timeout)
          else read_loop io packet expected_feature n buffer d)"

definition transfer ::
    "('d, 'e) report_io \<Rightarrow> 'd \<Rightarrow> bytes \<Rightarrow> 8 word \<Rightarrow> ('d, 'e, bytes) hid_result" where
  "transfer io d packet expected_feature =
     (case rio_write io d packet of
        (d, Some e) \<Rightarrow> Some (d, Inl (Hid_Write e))
      | (d, None) \<Rightarrow> read_loop io packet expected_feature MAX_READS (replicate 64 0) d)"

text \<open>The question mark operator, and a packet: the given bytes in front of zeros.\<close>

definition hid_bind ::
    "('d, 'e, 'a) hid_result \<Rightarrow> ('d \<Rightarrow> 'a \<Rightarrow> ('d, 'e, 'b) hid_result) \<Rightarrow> ('d, 'e, 'b) hid_result" where
  "hid_bind r f =
     (case r of None \<Rightarrow> None | Some (d, Inl e) \<Rightarrow> Some (d, Inl e) | Some (d, Inr x) \<Rightarrow> f d x)"

definition packet_of :: "bytes \<Rightarrow> bytes" where
  "packet_of prefix = prefix @ replicate (REPORT_LEN - length prefix) 0"

definition byte_at :: "bytes \<Rightarrow> nat \<Rightarrow> 'd \<Rightarrow> ('d, 'e, 8 word) hid_result" where
  "byte_at report i d = (if i < length report then Some (d, Inr (report ! i)) else None)"

definition feature_index ::
    "('d, 'e) report_io \<Rightarrow> 8 word \<Rightarrow> 16 word \<Rightarrow> 'd \<Rightarrow> ('d, 'e, 8 word) hid_result" where
  "feature_index io dev_idx feature_id d =
     hid_bind (transfer io d
        (packet_of [LONG_REPORT_ID, dev_idx, ROOT_FEATURE, SOFTWARE_ID,
                    ucast (drop_bit 8 feature_id), ucast feature_id]) ROOT_FEATURE)
       (\<lambda>d report. byte_at report 4 d)"

definition FUNCTION_ONE :: "8 word" where "FUNCTION_ONE = or (push_bit 4 1) SOFTWARE_ID"

definition battery_level :: "('d, 'e) report_io \<Rightarrow> 8 word \<Rightarrow> 'd \<Rightarrow> ('d, 'e, 8 word option) hid_result" where
  "battery_level io dev_idx d =
     hid_bind (feature_index io dev_idx UNIFIED_BATTERY_FEATURE d) (\<lambda>d feature.
       if feature = 0 then Some (d, Inr None)
       else hid_bind (transfer io d (packet_of [LONG_REPORT_ID, dev_idx, feature, FUNCTION_ONE]) feature)
         (\<lambda>d report. hid_bind (byte_at report 4 d) (\<lambda>d level. Some (d, Inr (Some level)))))"

definition name_char :: "8 word \<Rightarrow> nat" where
  "name_char b = (if b < 128 then unat b else 65533)"

definition device_name :: "('d, 'e) report_io \<Rightarrow> 8 word \<Rightarrow> 'd \<Rightarrow> ('d, 'e, utext) hid_result" where
  "device_name io dev_idx d =
     hid_bind (feature_index io dev_idx DEVICE_NAME_FEATURE d) (\<lambda>d feature.
       if feature = 0 then Some (d, Inr [])
       else hid_bind (transfer io d (packet_of [LONG_REPORT_ID, dev_idx, feature, FUNCTION_ONE, 0]) feature)
         (\<lambda>d response.
            if length response < 4 then None
            else Some (d, Inr (trim_text (map name_char (takeWhile (\<lambda>b. b \<noteq> 0) (drop 4 response)))))))"

record bolt_battery =
  bb_name :: utext
  bb_level :: "8 word"

definition query_device ::
    "('d, 'e) report_io \<Rightarrow> 8 word \<Rightarrow> bool \<Rightarrow> 'd \<Rightarrow> ('d, 'e, bolt_battery option) hid_result" where
  "query_device io dev_idx want_name d =
     hid_bind (if want_name then device_name io dev_idx d else Some (d, Inr [])) (\<lambda>d name.
     hid_bind (battery_level io dev_idx d) (\<lambda>d level.
       Some (d, Inr (map_option (\<lambda>l. \<lparr>bb_name = name, bb_level = l\<rparr>) level))))"

section \<open>Discovery\<close>

text \<open>\<open>rsplit_once\<close> on the full stop and \<open>u8\<close>'s \<open>parse\<close>, on the last component of a path.\<close>

definition interface_number :: "path \<Rightarrow> nat option" where
  "interface_number p =
     (if p = [] then None
      else case last p of
             NormalComp name \<Rightarrow>
               (case break_at 46 (rev (text_of name)) of
                  None \<Rightarrow> None
                | Some (suffix, _) \<Rightarrow> parse_unsigned 10 255 (rev suffix))
           | _ \<Rightarrow> None)"

definition ascii_lower :: "utext \<Rightarrow> utext" where
  "ascii_lower t = map (\<lambda>c. if 65 \<le> c \<and> c \<le> 90 then c + 32 else c) t"

text \<open>
  The walk from the device's directory to the one that names a product, at most eight levels; \<open>product\<close>
  is \<open>None\<close> where no \<open>idProduct\<close> exists and \<open>Some None\<close> where it cannot be read. Result: whether the
  entry is the control interface.
\<close>

fun climb :: "(path \<Rightarrow> utext option option) \<Rightarrow> nat \<Rightarrow> path \<Rightarrow> path option \<Rightarrow> bool" where
  "climb product 0 current below = False"
| "climb product (Suc n) current below =
     (case product current of
        Some content \<Rightarrow>
          (case content of Some v \<Rightarrow> ascii_lower (trim_text v) = BOLT_PID | None \<Rightarrow> False) \<and>
          Option.bind below interface_number = Some BOLT_USB_INTERFACE
      | None \<Rightarrow>
          if length current \<le> 1 then False else climb product n (butlast current) (Some current))"

text \<open>The entries of \<open>class/hidraw\<close> by name, each with the canonical path of its device.\<close>

definition find_bolt_hidraw ::
    "(string, path option) bmap option \<Rightarrow> (path \<Rightarrow> utext option option) \<Rightarrow> path \<Rightarrow> path option" where
  "find_bolt_hidraw entries product dev_root =
     (case entries of
        None \<Rightarrow> None
      | Some entries \<Rightarrow>
          map_option (\<lambda>(name, _). dev_root @ [NormalComp name])
            (List.find (\<lambda>(name, device). case device of None \<Rightarrow> False | Some p \<Rightarrow> climb product 8 p None) entries))"

text \<open>The production facade: \<open>open\<close> gives the device or its error.\<close>

definition query_inner ::
    "('d, 'e) report_io \<Rightarrow> path option \<Rightarrow> (path \<Rightarrow> 'e + 'd) \<Rightarrow> int \<Rightarrow> bool \<Rightarrow>
     ((path option \<times> 'e hid_error) + bolt_battery option) option" where
  "query_inner io found opening dev_idx want_name =
     (if \<not> (0 \<le> dev_idx \<and> dev_idx \<le> 255) then Some (Inl (None, Hid_InvalidDeviceIndex dev_idx))
      else case found of
        None \<Rightarrow> Some (Inl (None, Hid_DeviceAbsent))
      | Some path \<Rightarrow>
          (case opening path of
             Inl e \<Rightarrow> Some (Inl (Some path, Hid_Open path e))
           | Inr d \<Rightarrow>
               (case query_device io (word_of_int dev_idx) want_name d of
                  None \<Rightarrow> None
                | Some (_, Inl e) \<Rightarrow> Some (Inl (Some path, e))
                | Some (_, Inr battery) \<Rightarrow> Some (Inr battery))))"

end
