(* ===== verification/HidProps.thy ===== *)
theory HidProps
  imports Hid
begin

text \<open>
  The Bolt query ends after a bounded number of accesses and reads no report past its end.
\<close>

section \<open>The Bolt query\<close>

text \<open>A device beside the number of its reads and writes, and what a read promises: the bytes it counts.\<close>

definition counted :: "('d, 'e) report_io \<Rightarrow> ('d \<times> nat, 'e) report_io" where
  "counted io =
     \<lparr>rio_write = (\<lambda>d packet. let (d', r) = rio_write io (fst d) packet in ((d', snd d + 1), r)),
      rio_read = (\<lambda>d buffer t. let (d', r) = rio_read io (fst d) buffer t in ((d', snd d + 1), r))\<rparr>"

definition reads_fit :: "('d, 'e) report_io \<Rightarrow> bool" where
  "reads_fit io \<longleftrightarrow>
     (\<forall>d buffer t k buffer'. snd (rio_read io d buffer t) = Inr (k, buffer') \<longrightarrow> k \<le> length buffer')"

text \<open>A step that returns after at most \<open>k\<close> accesses, with a value that satisfies \<open>P\<close>.\<close>

definition returns_within :: "nat \<Rightarrow> ('a \<Rightarrow> bool) \<Rightarrow> ('d \<times> nat, 'e, 'a) hid_result \<Rightarrow> nat \<Rightarrow> bool" where
  "returns_within k P r n \<longleftrightarrow>
     (\<exists>d m v. r = Some ((d, m), v) \<and> m \<le> n + k \<and> (\<forall>x. v = Inr x \<longrightarrow> P x))"

lemma within_value: "P x \<Longrightarrow> returns_within k P (Some (d, Inr x)) (snd d)"
  by (cases d) (auto simp: returns_within_def)

lemma within_bind:
  assumes "returns_within k P r n"
    and "\<And>d x. P x \<Longrightarrow> returns_within k' Q (f d x) (snd d)"
  shows "returns_within (k + k') Q (hid_bind r f) n"
proof -
  obtain d m v where r: "r = Some ((d, m), v)" "m \<le> n + k" "\<forall>x. v = Inr x \<longrightarrow> P x"
    using assms(1) by (auto simp: returns_within_def)
  show ?thesis
  proof (cases v)
    case (Inl e)
    with r show ?thesis by (auto simp: returns_within_def hid_bind_def)
  next
    case (Inr x)
    with r assms(2) [of x "(d, m)"] show ?thesis
      by (fastforce simp: returns_within_def hid_bind_def)
  qed
qed

lemma within_weaken:
  "returns_within k P r n \<Longrightarrow> k \<le> k' \<Longrightarrow> (\<And>x. P x \<Longrightarrow> Q x) \<Longrightarrow> returns_within k' Q r n"
  by (fastforce simp: returns_within_def)

lemma read_loop_within:
  assumes "reads_fit io"
  shows "returns_within k (\<lambda>report. 5 \<le> length report) (read_loop (counted io) packet feature k buffer d) (snd d)"
proof (induction k arbitrary: buffer d)
  case 0
  then show ?case by (cases d) (auto simp: returns_within_def)
next
  case (Suc k)
  obtain d' r where read: "rio_read io (fst d) buffer TIMEOUT_MS = (d', r)" by force
  show ?case
  proof (cases r)
    case (Inl e)
    with read show ?thesis by (auto simp: returns_within_def counted_def)
  next
    case (Inr p)
    obtain i buffer' where p: "p = (i, buffer')" by (cases p)
    have "i \<le> length buffer'"
      using assms read Inr p unfolding reads_fit_def by (metis snd_conv)
    with Suc.IH [of buffer' "(d', snd d + 1)"] read Inr p show ?thesis
      by (auto simp: returns_within_def counted_def)
  qed
qed

lemma transfer_within:
  assumes "reads_fit io"
  shows "returns_within 11 (\<lambda>report. 5 \<le> length report) (transfer (counted io) d packet feature) (snd d)"
proof -
  obtain d' r where sent: "rio_write io (fst d) packet = (d', r)" by force
  show ?thesis
  proof (cases r)
    case None
    with sent read_loop_within [OF assms, of MAX_READS packet feature "replicate 64 0" "(d', snd d + 1)"]
    show ?thesis by (auto simp: transfer_def counted_def returns_within_def MAX_READS_def)
  next
    case (Some e)
    with sent show ?thesis by (auto simp: transfer_def counted_def returns_within_def)
  qed
qed

lemma byte_within: "i < length report \<Longrightarrow> returns_within 0 (\<lambda>_. True) (byte_at report i d) (snd d)"
  by (simp add: byte_at_def within_value)

lemma feature_within:
  assumes "reads_fit io"
  shows "returns_within 11 (\<lambda>_. True) (feature_index (counted io) dev feature d) (snd d)"
proof -
  have "returns_within (11 + 0) (\<lambda>_. True) (feature_index (counted io) dev feature d) (snd d)"
    unfolding feature_index_def by (rule within_bind [OF transfer_within [OF assms]]) (rule byte_within, simp)
  then show ?thesis by simp
qed

lemma battery_within:
  assumes "reads_fit io"
  shows "returns_within 22 (\<lambda>_. True) (battery_level (counted io) dev d) (snd d)"
proof -
  have "returns_within (11 + (11 + (0 + 0))) (\<lambda>_. True) (battery_level (counted io) dev d) (snd d)"
    unfolding battery_level_def
  proof (rule within_bind [OF feature_within [OF assms]])
    fix d :: "'a \<times> nat" and feature
    have "returns_within (11 + (0 + 0)) (\<lambda>_. True)
        (hid_bind (transfer (counted io) d (packet_of [LONG_REPORT_ID, dev, feature, FUNCTION_ONE]) feature)
          (\<lambda>d report. hid_bind (byte_at report 4 d) (\<lambda>d level. Some (d, Inr (Some level))))) (snd d)"
      by (rule within_bind [OF transfer_within [OF assms]], rule within_bind [OF byte_within])
        (simp_all add: within_value)
    then show "returns_within (11 + (0 + 0)) (\<lambda>_. True)
        (if feature = 0 then Some (d, Inr None)
         else hid_bind (transfer (counted io) d (packet_of [LONG_REPORT_ID, dev, feature, FUNCTION_ONE]) feature)
          (\<lambda>d report. hid_bind (byte_at report 4 d) (\<lambda>d level. Some (d, Inr (Some level))))) (snd d)"
      by (simp add: within_value)
  qed
  then show ?thesis by simp
qed

lemma name_within:
  assumes "reads_fit io"
  shows "returns_within 22 (\<lambda>_. True) (device_name (counted io) dev d) (snd d)"
proof -
  have "returns_within (11 + (11 + 0)) (\<lambda>_. True) (device_name (counted io) dev d) (snd d)"
    unfolding device_name_def
  proof (rule within_bind [OF feature_within [OF assms]])
    fix d :: "'a \<times> nat" and feature
    have "returns_within (11 + 0) (\<lambda>_. True)
        (hid_bind (transfer (counted io) d (packet_of [LONG_REPORT_ID, dev, feature, FUNCTION_ONE, 0]) feature)
          (\<lambda>d response. if length response < 4 then None
             else Some (d, Inr (trim_text (map name_char (takeWhile (\<lambda>b. b \<noteq> 0) (drop 4 response))))))) (snd d)"
      by (rule within_bind [OF transfer_within [OF assms]]) (simp add: within_value)
    then show "returns_within (11 + 0) (\<lambda>_. True)
        (if feature = 0 then Some (d, Inr [])
         else hid_bind (transfer (counted io) d (packet_of [LONG_REPORT_ID, dev, feature, FUNCTION_ONE, 0]) feature)
          (\<lambda>d response. if length response < 4 then None
             else Some (d, Inr (trim_text (map name_char (takeWhile (\<lambda>b. b \<noteq> 0) (drop 4 response))))))) (snd d)"
      by (simp add: within_value)
  qed
  then show ?thesis by simp
qed

lemma query_within:
  assumes "reads_fit io"
  shows "returns_within 44 (\<lambda>_. True) (query_device (counted io) dev want_name d) (snd d)"
proof -
  have "returns_within 22 (\<lambda>_. True)
      (if want_name then device_name (counted io) dev d else Some (d, Inr [])) (snd d)"
    by (cases want_name) (auto intro: within_value name_within [OF assms])
  then have "returns_within (22 + (22 + 0)) (\<lambda>_. True) (query_device (counted io) dev want_name d) (snd d)"
    unfolding query_device_def
    by (rule within_bind, intro within_bind [OF battery_within [OF assms]] within_value) simp
  then show ?thesis by simp
qed

text \<open>A reply meant for another program's request (software id 15) is taken for the own one.\<close>

lemma foreign_reply_accepted:
  "feature_index \<lparr>rio_write = (\<lambda>d _. (d, None)),
       rio_read = (\<lambda>d _ _. (d, Inr (20, [0x11, 2, 0, 0x0F, 7] @ replicate 15 0)))\<rparr> 2 UNIFIED_BATTERY_FEATURE ()
     = (Some ((), Inr 7) :: (unit, unit, 8 word) hid_result)"
  by (simp add: feature_index_def transfer_def MAX_READS_def numeral_nat packet_of_def hid_bind_def byte_at_def
      ROOT_FEATURE_def)

section \<open>Property\<close>

text \<open>
  C32. A query of the Bolt receiver always ends, whatever the device answers: after at most 44 reads
  and writes it has a result or an error, and no report is read past its end. The device only has to
  keep to what \<open>read\<close> promises, to count no more bytes than the buffer holds.
\<close>

theorem bolt_query_bounded:
  assumes "reads_fit io"
  shows "\<exists>d' m result. query_device (counted io) dev want_name (d, n) = Some ((d', m), result) \<and> m \<le> n + 44"
  using query_within [OF assms, of dev want_name "(d, n)"] by (auto simp: returns_within_def)

definition idle_device :: "(unit, unit) report_io" where
  "idle_device = \<lparr>rio_write = (\<lambda>d _. (d, None)), rio_read = (\<lambda>d _ _. (d, Inr (7, replicate 64 0)))\<rparr>"

theorem bolt_query_bounded_witness:
  "\<exists>d' m result. query_device (counted idle_device) 2 True ((), 0) = Some ((d', m), result) \<and> m \<le> 0 + 44"
  by (rule bolt_query_bounded) (simp add: reads_fit_def idle_device_def)

end
