(* ===== verification/PowerOwner.thy ===== *)
theory PowerOwner
  imports Rates Hid
begin

text \<open>
  The power owner: \<open>src/sensors/power.rs\<close>, its attempts in \<open>src/sensors/attempts.rs\<close> and
  \<open>src/sensors/scheduled/power.rs\<close>. UPower's answer to a call is a parameter with a state of its own, as
  is the Bolt query. A \<open>String\<close> is its UTF-8 bytes.
\<close>

section \<open>State\<close>

record battery_system_cache =
  bsc_charge_percent :: "int option"
  bsc_rate_watts :: int
  bsc_state :: battery_state
  bsc_charge_limit_percent :: "int option"
  bsc_sampled_at :: "duration option"
  bsc_attempted_at :: "duration option"
  bsc_failed_at :: "duration option"

definition battery_system_cache_default :: battery_system_cache where
  "battery_system_cache_default =
     \<lparr>bsc_charge_percent = None, bsc_rate_watts = 0, bsc_state = Bat_Unknown, bsc_charge_limit_percent = None,
      bsc_sampled_at = None, bsc_attempted_at = None, bsc_failed_at = None\<rparr>"

record battery_peripheral_cache =
  bpc_name :: string
  bpc_charge_percent :: "int option"
  bpc_sampled_at :: "duration option"
  bpc_attempted_at :: "duration option"
  bpc_failed_at :: "duration option"
  bpc_bolt_completed_at :: "duration option"
  bpc_source :: "string option"

definition battery_peripheral_cache_default :: battery_peripheral_cache where
  "battery_peripheral_cache_default =
     \<lparr>bpc_name = [], bpc_charge_percent = None, bpc_sampled_at = None, bpc_attempted_at = None,
      bpc_failed_at = None, bpc_bolt_completed_at = None, bpc_source = None\<rparr>"

record power_state =
  pst_battery_sys_cache :: "(string, battery_system_cache) bmap"
  pst_battery_mouse_cache :: battery_peripheral_cache
  pst_battery_kbd_cache :: battery_peripheral_cache

definition string_of_text :: "utext \<Rightarrow> string" where
  "string_of_text t = map char_of (utf8_encode t)"

definition source_text :: "peripheral_source \<Rightarrow> string" where
  "source_text source =
     (case source of
        Upower i \<Rightarrow> ''upower:'' @ i
      | Bolt index \<Rightarrow> ''bolt:'' @ string_of_text (int_text index))"

definition reconcile_peripheral_source ::
    "bool \<Rightarrow> peripheral_source option \<Rightarrow> battery_peripheral_cache \<Rightarrow> battery_peripheral_cache" where
  "reconcile_peripheral_source wanted resolved cache =
     (let source = (if wanted then map_option source_text resolved else None)
      in if bpc_source cache \<noteq> source then battery_peripheral_cache_default\<lparr>bpc_source := source\<rparr> else cache)"

definition reconcile_power_sources ::
    "hardware_inventory \<Rightarrow> config \<Rightarrow> capability bset \<Rightarrow> power_state \<Rightarrow> power_state" where
  "reconcile_power_sources hw cfg caps s =
     s\<lparr>pst_battery_sys_cache :=
         (if Cap_BatterySystem \<in> set caps
          then filter (\<lambda>(i, _). i \<in> set (hw_battery_sys_ids hw)) (pst_battery_sys_cache s) else []),
       pst_battery_mouse_cache :=
         reconcile_peripheral_source (Cap_BatteryMouse \<in> set caps) (resolve_peripheral_source cfg hw Role_Mouse)
           (pst_battery_mouse_cache s),
       pst_battery_kbd_cache :=
         reconcile_peripheral_source (Cap_BatteryKeyboard \<in> set caps)
           (resolve_peripheral_source cfg hw Role_Keyboard) (pst_battery_kbd_cache s)\<rparr>"

section \<open>System batteries\<close>

definition MICROWATTS_PER_WATT :: nat where "MICROWATTS_PER_WATT = 1000000"

text \<open>The last piece of \<open>rsplit\<close> on ``battery\_'': what follows its last occurrence.\<close>

fun after_last :: "string \<Rightarrow> string \<Rightarrow> string option" where
  "after_last p [] = None"
| "after_last p (c # s) =
     (case after_last p s of
        Some rest \<Rightarrow> Some rest
      | None \<Rightarrow> strip_pre p (c # s))"

definition bat_name_from_id :: "string \<Rightarrow> string" where
  "bat_name_from_id bat_id = (case after_last ''battery_'' bat_id of Some name \<Rightarrow> name | None \<Rightarrow> bat_id)"

definition sysfs_bat_rate :: "files \<Rightarrow> path \<Rightarrow> string \<Rightarrow> int" where
  "sysfs_bat_rate files sys_root bat_id =
     (case Option.bind
             (files (join sys_root [''class'', ''power_supply'', bat_name_from_id bat_id, ''power_now'']))
             (\<lambda>content. parse_unsigned 10 u128_max (trim_text content)) of
        None \<Rightarrow> 0
      | Some microwatts \<Rightarrow> as_i32 (round_half_even_ratio microwatts MICROWATTS_PER_WATT))"

definition sysfs_bat_charge_limit :: "files \<Rightarrow> path \<Rightarrow> string \<Rightarrow> int option" where
  "sysfs_bat_charge_limit files sys_root bat_id =
     (case Option.bind
             (files (join sys_root [''class'', ''power_supply'', bat_name_from_id bat_id,
                                    ''charge_control_end_threshold'']))
             (\<lambda>content. parse_signed 32 (trim_text content)) of
        None \<Rightarrow> None
      | Some limit \<Rightarrow> if limit < 100 then Some limit else None)"

definition sysfs_status_to_state :: "utext \<Rightarrow> battery_state" where
  "sysfs_status_to_state status =
     (if status = lit ''Full'' then Bat_FullyCharged
      else if status = lit ''Charging'' then Bat_Charging
      else if status = lit ''Discharging'' then Bat_Discharging
      else Bat_Unknown)"

definition sysfs_bat_read :: "files \<Rightarrow> path \<Rightarrow> string \<Rightarrow> (int \<times> int \<times> battery_state) option" where
  "sysfs_bat_read files sys_root bat_id =
     (let base = join sys_root [''class'', ''power_supply'', bat_name_from_id bat_id]
      in Option.bind (Option.bind (files (join base [''capacity'']))
           (\<lambda>content. parse_signed 32 (trim_text content))) (\<lambda>capacity.
         Option.bind (files (join base [''status''])) (\<lambda>content.
           let state = sysfs_status_to_state (trim_text content);
               rate = (if state \<in> {Bat_Charging, Bat_Discharging} then sysfs_bat_rate files sys_root bat_id else 0)
           in Some (capacity, rate, state))))"

text \<open>The properties UPower has of a device, and the operations on \<open>f64\<close> they need.\<close>

record upower_props =
  up_percentage :: "f64 option"
  up_state :: "nat option"
  up_energy_rate :: "f64 option"
  up_model :: "string option"

record power_floats = sensor_floats +
  pw_finite :: "f64 \<Rightarrow> bool"
  pw_negative :: "f64 \<Rightarrow> bool"
  pw_floor :: "f64 \<Rightarrow> f64"
  pw_sub :: "f64 \<Rightarrow> f64 \<Rightarrow> f64"
  pw_lt :: "f64 \<Rightarrow> f64 \<Rightarrow> bool"

definition HALF :: f64 where "HALF = 0x3FE0000000000000"
definition ZERO :: f64 where "ZERO = 0"

definition i32_saturating_add :: "int \<Rightarrow> int \<Rightarrow> int" where
  "i32_saturating_add a b = max (- (2 ^ 31)) (min (a + b) (2 ^ 31 - 1))"

definition round_half_even_f64 :: "power_floats \<Rightarrow> f64 \<Rightarrow> int" where
  "round_half_even_f64 fo v =
     (if \<not> pw_finite fo v \<or> pw_negative fo v then 0
      else
        let floor = pw_floor fo v;
            frac = pw_sub fo v floor;
            floor_int = (if fo_ge fo floor (fo_of_int fo (2 ^ 31 - 1)) then 2 ^ 31 - 1 else fo_to_i32 fo floor)
        in if pw_lt fo frac HALF then floor_int
           else if pw_lt fo HALF frac then i32_saturating_add floor_int 1
           else if floor_int mod 2 = 0 then floor_int
           else i32_saturating_add floor_int 1)"

definition upower_state :: "nat option \<Rightarrow> battery_state" where
  "upower_state state =
     (if state = Some 1 then Bat_Charging
      else if state = Some 2 then Bat_Discharging
      else if state = Some 4 then Bat_FullyCharged
      else Bat_Unknown)"

text \<open>\<open>upower_device_props\<close> is the call: every failure of the bus is \<open>None\<close>.\<close>

type_synonym 'd upower = "'d \<Rightarrow> string \<Rightarrow> 'd \<times> upower_props option"

definition refresh_battery_sys_cache ::
    "power_floats \<Rightarrow> 'd upower \<Rightarrow> files \<Rightarrow> path \<Rightarrow> string \<Rightarrow> duration \<Rightarrow> 'd \<Rightarrow> battery_system_cache \<Rightarrow>
     'd \<times> battery_system_cache \<times> bool" where
  "refresh_battery_sys_cache fo upower files sys_root bat_id now d cache =
     (let cache = cache\<lparr>bsc_attempted_at := Some now\<rparr>
      in case sysfs_bat_read files sys_root bat_id of
           Some (capacity, rate, state) \<Rightarrow>
             (d, cache\<lparr>bsc_charge_percent := Some capacity, bsc_rate_watts := rate, bsc_state := state,
                       bsc_charge_limit_percent := sysfs_bat_charge_limit files sys_root bat_id,
                       bsc_sampled_at := Some now\<rparr>, True)
         | None \<Rightarrow>
             (case upower d bat_id of
                (d, None) \<Rightarrow> (d, cache, False)
              | (d, Some props) \<Rightarrow>
                  (case up_percentage props of
                     None \<Rightarrow> (d, cache, False)
                   | Some percentage \<Rightarrow>
                       let state = upower_state (up_state props);
                           rate = round_half_even_f64 fo (case up_energy_rate props of Some r \<Rightarrow> r | None \<Rightarrow> ZERO);
                           rate = (if rate = 0 \<and> state \<in> {Bat_Charging, Bat_Discharging}
                                   then sysfs_bat_rate files sys_root bat_id else rate)
                       in (d, cache\<lparr>bsc_charge_percent := Some (fo_to_i32 fo percentage), bsc_state := state,
                                    bsc_rate_watts := rate,
                                    bsc_charge_limit_percent := sysfs_bat_charge_limit files sys_root bat_id,
                                    bsc_sampled_at := Some now\<rparr>, True))))"

definition refresh_battery_sys ::
    "power_floats \<Rightarrow> 'd upower \<Rightarrow> files \<Rightarrow> path \<Rightarrow> string \<Rightarrow> duration \<Rightarrow> 'd \<Rightarrow> battery_system_cache \<Rightarrow>
     'd \<times> battery_system_cache \<times> bool" where
  "refresh_battery_sys fo upower files sys_root bat_id now d cache =
     (let (d, cache, succeeded) = refresh_battery_sys_cache fo upower files sys_root bat_id now d cache
      in (d, cache\<lparr>bsc_failed_at := (if succeeded then None else Some now)\<rparr>, succeeded))"

definition battery_sys_from_cache ::
    "string \<Rightarrow> battery_system_cache \<Rightarrow> battery_system_reading option" where
  "battery_sys_from_cache bat_id cache =
     (case bsc_charge_percent cache of
        None \<Rightarrow> None
      | Some charge \<Rightarrow>
          Some \<lparr>bs_id = bat_id, bs_charge_percent = charge, bs_rate_watts = bsc_rate_watts cache,
                bs_state = bsc_state cache, bs_charge_limit_percent = bsc_charge_limit_percent cache\<rparr>)"

definition attempt_system_battery ::
    "power_floats \<Rightarrow> 'd upower \<Rightarrow> files \<Rightarrow> path \<Rightarrow> string \<Rightarrow> duration \<Rightarrow> 'd \<Rightarrow> power_state \<Rightarrow>
     'd \<times> power_state \<times> battery_system_reading attempt_result" where
  "attempt_system_battery fo upower files sys_root bat_id now d s =
     (let cache = (case bm_get (pst_battery_sys_cache s) bat_id of
                     Some c \<Rightarrow> c | None \<Rightarrow> battery_system_cache_default);
          (d, cache, succeeded) = refresh_battery_sys fo upower files sys_root bat_id now d cache;
          sample = Option.bind (bsc_sampled_at cache) (\<lambda>t.
                     map_option (\<lambda>reading. metric_sample_new reading t) (battery_sys_from_cache bat_id cache));
          status = (if succeeded then if sample \<noteq> None then Status_Captured else Status_Absent else Status_Failed)
      in (d, s\<lparr>pst_battery_sys_cache := bm_insert bat_id cache (pst_battery_sys_cache s)\<rparr>,
          \<lparr>ar_sample = sample, ar_attempted_at = bsc_attempted_at cache, ar_failed_at = bsc_failed_at cache,
           ar_latest_attempt_failed = (status = Status_Failed), ar_status = status\<rparr>))"

section \<open>Peripheral batteries\<close>

definition refresh_periph_cache ::
    "power_floats \<Rightarrow> 'd upower \<Rightarrow> string \<Rightarrow> duration \<Rightarrow> 'd \<Rightarrow> battery_peripheral_cache \<Rightarrow>
     'd \<times> battery_peripheral_cache \<times> bool" where
  "refresh_periph_cache fo upower upower_path now d cache =
     (let (d, props) = upower d upower_path;
          cache = cache\<lparr>bpc_attempted_at := Some now\<rparr>
      in case props of
           None \<Rightarrow> (d, cache\<lparr>bpc_failed_at := Some now\<rparr>, False)
         | Some props \<Rightarrow>
             let cache = (if bpc_name cache = [] then
                            (case up_model props of
                               Some model \<Rightarrow> if model \<noteq> [] then cache\<lparr>bpc_name := model\<rparr> else cache
                             | None \<Rightarrow> cache)
                          else cache)
             in (d, cache\<lparr>bpc_charge_percent :=
                            map_option (fo_to_i32 fo) (opt_filter (pw_lt fo ZERO) (up_percentage props)),
                          bpc_sampled_at := Some now, bpc_failed_at := None\<rparr>, True))"

definition battery_periph_from_cache ::
    "battery_peripheral_cache \<Rightarrow> string option \<Rightarrow> battery_peripheral_reading option" where
  "battery_periph_from_cache cache name_override =
     (case bpc_charge_percent cache of
        None \<Rightarrow> None
      | Some charge \<Rightarrow>
          Some \<lparr>bp_name = (case name_override of Some name \<Rightarrow> name | None \<Rightarrow> bpc_name cache),
                bp_charge_percent = charge\<rparr>)"

definition attempt_battery_periph_once ::
    "power_floats \<Rightarrow> 'd upower \<Rightarrow> string \<Rightarrow> string option \<Rightarrow> duration \<Rightarrow> 'd \<Rightarrow> battery_peripheral_cache \<Rightarrow>
     'd \<times> battery_peripheral_cache \<times> battery_peripheral_reading option \<times> bool" where
  "attempt_battery_periph_once fo upower upower_path name_override now d cache =
     (let (d, cache, succeeded) = refresh_periph_cache fo upower upower_path now d cache
      in (d, cache, battery_periph_from_cache cache name_override, succeeded))"

datatype bolt_attempt_outcome = Bolt_Captured | Bolt_Unsupported | Bolt_Failed

text \<open>The query of the Bolt facade, with a state of its own; an error is \<open>Inl\<close>.\<close>

type_synonym ('b, 'e) bolt_facade = "'b \<Rightarrow> int \<Rightarrow> bool \<Rightarrow> 'b \<times> ('e + bolt_battery option)"

definition attempt_battery_bolt_once ::
    "('b, 'e) bolt_facade \<Rightarrow> int \<Rightarrow> string option \<Rightarrow> duration \<Rightarrow> 'b \<Rightarrow> battery_peripheral_cache \<Rightarrow>
     'b \<times> battery_peripheral_cache \<times> battery_peripheral_reading option \<times> bolt_attempt_outcome" where
  "attempt_battery_bolt_once bolt dev_idx name_override now b cache =
     (let cache = cache\<lparr>bpc_attempted_at := Some now\<rparr>;
          want_name = (name_override = None \<and> bpc_name cache = []);
          (b, result) = bolt b dev_idx want_name
      in case result of
           Inr (Some battery) \<Rightarrow>
             let name = (case name_override of
                           Some name \<Rightarrow> name
                         | None \<Rightarrow> if bb_name battery \<noteq> [] then string_of_text (bb_name battery) else bpc_name cache);
                 cache = cache\<lparr>bpc_name := name, bpc_charge_percent := Some (uint (bb_level battery)),
                               bpc_sampled_at := Some now, bpc_bolt_completed_at := Some now,
                               bpc_failed_at := None\<rparr>
             in (b, cache, battery_periph_from_cache cache name_override, Bolt_Captured)
         | Inr None \<Rightarrow>
             let cache = cache\<lparr>bpc_charge_percent := None, bpc_sampled_at := None,
                               bpc_bolt_completed_at := Some now, bpc_failed_at := None\<rparr>
             in (b, cache, battery_periph_from_cache cache name_override, Bolt_Unsupported)
         | Inl e \<Rightarrow>
             let cache = cache\<lparr>bpc_failed_at := Some now\<rparr>
             in (b, cache, battery_periph_from_cache cache name_override, Bolt_Failed))"

definition peripheral_result ::
    "battery_peripheral_cache \<Rightarrow> battery_peripheral_reading option \<Rightarrow> attempt_status \<Rightarrow>
     battery_peripheral_reading attempt_result" where
  "peripheral_result cache reading status =
     \<lparr>ar_sample = Option.bind reading (\<lambda>r. map_option (metric_sample_new r) (bpc_sampled_at cache)),
      ar_attempted_at = bpc_attempted_at cache, ar_failed_at = bpc_failed_at cache,
      ar_latest_attempt_failed = (status = Status_Failed), ar_status = status\<rparr>"

definition attempt_upower_peripheral ::
    "power_floats \<Rightarrow> 'd upower \<Rightarrow> string \<Rightarrow> string option \<Rightarrow> duration \<Rightarrow> 'd \<Rightarrow> battery_peripheral_cache \<Rightarrow>
     'd \<times> battery_peripheral_cache \<times> battery_peripheral_reading attempt_result" where
  "attempt_upower_peripheral fo upower dev_id name now d cache =
     (let (d, cache, reading, succeeded) = attempt_battery_periph_once fo upower dev_id name now d cache;
          status = (if succeeded then if reading \<noteq> None then Status_Captured else Status_Absent else Status_Failed)
      in (d, cache, peripheral_result cache reading status))"

definition attempt_bolt_peripheral ::
    "('b, 'e) bolt_facade \<Rightarrow> int \<Rightarrow> string option \<Rightarrow> duration \<Rightarrow> 'b \<Rightarrow> battery_peripheral_cache \<Rightarrow>
     'b \<times> battery_peripheral_cache \<times> battery_peripheral_reading attempt_result" where
  "attempt_bolt_peripheral bolt index name now b cache =
     (let (b, cache, reading, outcome) = attempt_battery_bolt_once bolt index name now b cache;
          status = (case outcome of Bolt_Captured \<Rightarrow> Status_Captured | Bolt_Unsupported \<Rightarrow> Status_Absent
                    | Bolt_Failed \<Rightarrow> Status_Failed)
      in (b, cache, peripheral_result cache reading status))"

end
