(* ===== verification/NetIdentity.thy ===== *)
theory NetIdentity
  imports PowerOwner
begin

text \<open>
  The identity of the active route: \<open>read_net_info_once\<close> of \<open>src/sensors/network.rs\<close> and
  \<open>src/sensors/attempts/network_identity.rs\<close>. A command runs on a state of its own; of its output the model has the
  status and the text \<open>String::from_utf8_lossy\<close> makes of it.
\<close>

datatype command_status = Exit int | Signal int

type_synonym 'd command_runner = "'d \<Rightarrow> string \<Rightarrow> string list \<Rightarrow> 'd \<times> (command_status \<times> utext) option"

definition IP_PROGRAM :: string where "IP_PROGRAM = ''ip''"
definition IW_PROGRAM :: string where "IW_PROGRAM = ''iw''"

definition run_command_stdout ::
    "'d command_runner \<Rightarrow> string \<Rightarrow> string list \<Rightarrow> 'd \<Rightarrow> 'd \<times> utext option" where
  "run_command_stdout run program args d =
     (case run d program args of
        (d, Some (Exit code, stdout)) \<Rightarrow> (d, if code = 0 then Some stdout else None)
      | (d, _) \<Rightarrow> (d, None))"

fun token_after :: "utext list \<Rightarrow> utext \<Rightarrow> utext option" where
  "token_after (a # b # tokens) key = (if a = key then Some b else token_after (b # tokens) key)"
| "token_after _ key = None"

definition route_device :: "utext \<Rightarrow> utext option" where
  "route_device stdout =
     (case dropWhile (\<lambda>token. token \<noteq> lit ''dev'') (split_ws stdout) of
        _ # device # _ \<Rightarrow> Some device
      | _ \<Rightarrow> None)"

datatype wifi_read_outcome =
  Wifi_Captured "utext option" "int option" duration | Wifi_NotWireless duration | Wifi_Failed duration

datatype net_info_read_outcome =
  Net_Route net_info duration wifi_read_outcome | Net_RouteFailed duration

text \<open>One line of \<open>iw dev ... link\<close>: the last name and the last strength win.\<close>

definition wifi_line :: "utext \<Rightarrow> utext option \<times> int option \<Rightarrow> utext option \<times> int option" where
  "wifi_line line p =
     (let (ssid, signal_pct) = p; trimmed = trim_text line
      in case strip_pre (lit ''SSID:'') trimmed of
           Some rest \<Rightarrow> (if trim_text rest \<noteq> [] then Some (trim_text rest) else ssid, signal_pct)
         | None \<Rightarrow>
             (case strip_pre (lit ''signal:'') trimmed of
                None \<Rightarrow> p
              | Some rest \<Rightarrow>
                  (case split_ws rest of
                     [] \<Rightarrow> p
                   | dbm_text # _ \<Rightarrow>
                       (case parse_signed 32 dbm_text of
                          None \<Rightarrow> p
                        | Some dbm \<Rightarrow> (ssid, Some (dbm_to_pct dbm))))))"

definition read_net_info_once ::
    "(path \<Rightarrow> bool option) \<Rightarrow> path \<Rightarrow> 'd command_runner \<Rightarrow> 'c clock \<Rightarrow> 'd \<Rightarrow> 'c \<Rightarrow>
     'd \<times> 'c \<times> net_info_read_outcome" where
  "read_net_info_once try_exists sys_root run monotonic d c =
     (let (d, route) = run_command_stdout run IP_PROGRAM [''route'', ''get'', ''8.8.8.8''] d;
          (c, route_at) = monotonic c
      in case route of
           None \<Rightarrow> (d, c, Net_RouteFailed route_at)
         | Some stdout \<Rightarrow>
             (case route_device stdout of
                None \<Rightarrow> (d, c, Net_RouteFailed route_at)
              | Some device \<Rightarrow>
                  let dev = string_of_text device;
                      info = \<lparr>nif_device = Some dev, nif_ip_address = token_after (split_ws stdout) (lit ''src''),
                              nif_ssid = None, nif_signal_pct = None\<rparr>
                  in case try_exists (join sys_root [''class'', ''net'', dev, ''wireless'']) of
                       Some False \<Rightarrow>
                         let (c, t) = monotonic c in (d, c, Net_Route info route_at (Wifi_NotWireless t))
                     | None \<Rightarrow>
                         let (c, t) = monotonic c in (d, c, Net_Route info route_at (Wifi_Failed t))
                     | Some True \<Rightarrow>
                         let (d, wifi) = run_command_stdout run IW_PROGRAM [''dev'', dev, ''link''] d;
                             (c, wifi_at) = monotonic c
                         in case wifi of
                              None \<Rightarrow> (d, c, Net_Route info route_at (Wifi_Failed wifi_at))
                            | Some out \<Rightarrow>
                                let (ssid, signal_pct) = fold wifi_line (text_lines out) (None, None)
                                in (d, c, Net_Route info route_at (Wifi_Captured ssid signal_pct wifi_at))))"

record network_info_result =
  nir_reading :: "net_info attempt_result"
  nir_wifi :: "wifi_info attempt_result"
  nir_route_status :: attempt_status

definition attempt_wifi :: "string option \<Rightarrow> wifi_read_outcome \<Rightarrow> wifi_info retained \<Rightarrow>
     wifi_info retained \<times> wifi_info attempt_result" where
  "attempt_wifi device outcome r =
     (case outcome of
        Wifi_Captured ssid signal_pct t \<Rightarrow>
          commit_attempt r (Read_Value
            \<lparr>wi_device = (case device of Some dev \<Rightarrow> dev | None \<Rightarrow> []), wi_ssid = ssid,
             wi_signal_pct = signal_pct\<rparr>) t
      | Wifi_NotWireless t \<Rightarrow> commit_attempt r Read_Absent t
      | Wifi_Failed t \<Rightarrow>
          (let same_device = (case latest r of
                                Some sample \<Rightarrow> Some (wi_device (smp_value sample)) = device | None \<Rightarrow> False)
           in commit_attempt (if same_device then r else invalidate r) Read_Failed t))"

definition attempt_network_info ::
    "(path \<Rightarrow> bool option) \<Rightarrow> path \<Rightarrow> 'd command_runner \<Rightarrow> 'c clock \<Rightarrow> 'd \<Rightarrow> 'c \<Rightarrow> network_state \<Rightarrow>
     'd \<times> 'c \<times> network_state \<times> network_info_result" where
  "attempt_network_info try_exists sys_root run monotonic d c s =
     (case read_net_info_once try_exists sys_root run monotonic d c of
        (d, c, Net_RouteFailed t) \<Rightarrow>
          let (r, reading) = commit_attempt (net_info s) Read_Failed t
          in (d, c, s\<lparr>net_info := r\<rparr>,
              \<lparr>nir_reading = reading, nir_wifi = cached_attempt (net_wifi s), nir_route_status = Status_Failed\<rparr>)
      | (d, c, Net_Route info t wifi) \<Rightarrow>
          let device = nif_device info;
              (w, wifi) = attempt_wifi device wifi (net_wifi s);
              (r, reading) = commit_attempt (net_info s) (Read_Value info) t
          in (d, c, s\<lparr>net_wifi := w, net_info := r, net_info_source := device\<rparr>,
              \<lparr>nir_reading = reading, nir_wifi = wifi, nir_route_status = Status_Captured\<rparr>))"

end
