(* ===== verification/Accelerators.thy ===== *)
theory Accelerators
  imports Rates Catalog
begin

text \<open>
  The owners of the AMD graphics and neural processors and of the external files:
  \<open>src/sensors/gpu_amd.rs\<close>, \<open>npu_amd.rs\<close>, \<open>external.rs\<close> and their attempts in
  \<open>src/sensors/attempts.rs\<close> and \<open>attempts/amd.rs\<close>. The files are read as texts (\<open>files\<close>) or bytes (\<open>blobs\<close>).
\<close>

type_synonym blobs = "path \<Rightarrow> nat list option"

section \<open>AMD graphics processor\<close>

record amd_gpu_samples =
  ags_usage :: "int retained"
  ags_codec_usage :: "int retained"
  ags_memory :: "amd_memory_reading retained"
  ags_frequency :: "nat retained"
  ags_temperature :: "int retained"
  ags_power :: "nat retained"
  ags_fan_speed :: "nat retained"

definition amd_gpu_samples_default :: amd_gpu_samples where
  "amd_gpu_samples_default =
     \<lparr>ags_usage = retained_default, ags_codec_usage = retained_default, ags_memory = retained_default,
      ags_frequency = retained_default, ags_temperature = retained_default, ags_power = retained_default,
      ags_fan_speed = retained_default\<rparr>"

record amd_gpu_state =
  ag_source :: "amd_gpu_source option"
  ag_samples :: amd_gpu_samples

definition codec_outcome :: "amd_gpu_state \<Rightarrow> decoder_outcome" where
  "codec_outcome s =
     (if (case ag_source s of None \<Rightarrow> True | Some source \<Rightarrow> codec_usage_path source = None)
      then Decoder_ConfirmedAbsent
      else case latest (ags_codec_usage (ag_samples s)) of
             Some sample \<Rightarrow> Decoder_Value (smp_value sample)
           | None \<Rightarrow> if latest_attempt_failed (ags_codec_usage (ag_samples s))
                     then Decoder_TransientFailure else Decoder_Unmeasured)"

text \<open>The order of \<open>Option\<close>: \<open>None\<close> comes first.\<close>

definition opt_max :: "duration option \<Rightarrow> duration option \<Rightarrow> duration option" where
  "opt_max a b =
     (case (a, b) of (None, _) \<Rightarrow> b | (_, None) \<Rightarrow> a | (Some x, Some y) \<Rightarrow> Some (max x y))"

definition latest_value :: "'a retained \<Rightarrow> 'a option" where
  "latest_value r = map_option smp_value (latest r)"

definition latest_history_point :: "amd_gpu_state \<Rightarrow> (int option \<times> int option) metric_sample option" where
  "latest_history_point s =
     (let samples = ag_samples s in
      map_option (metric_sample_new (latest_value (ags_usage samples), latest_value (ags_codec_usage samples)))
        (opt_max (attempted_at (ags_usage samples)) (attempted_at (ags_codec_usage samples))))"

definition invalidate_amd_sample :: "metric \<Rightarrow> amd_gpu_samples \<Rightarrow> amd_gpu_samples" where
  "invalidate_amd_sample m s =
     (case m of
        M_GpuAmdUsage \<Rightarrow> s\<lparr>ags_usage := invalidate (ags_usage s)\<rparr>
      | M_GpuAmdCodecUsage \<Rightarrow> s\<lparr>ags_codec_usage := invalidate (ags_codec_usage s)\<rparr>
      | M_GpuAmdMemUsage \<Rightarrow> s\<lparr>ags_memory := invalidate (ags_memory s)\<rparr>
      | M_GpuAmdFreq \<Rightarrow> s\<lparr>ags_frequency := invalidate (ags_frequency s)\<rparr>
      | M_GpuAmdTemp \<Rightarrow> s\<lparr>ags_temperature := invalidate (ags_temperature s)\<rparr>
      | M_GpuAmdPower \<Rightarrow> s\<lparr>ags_power := invalidate (ags_power s)\<rparr>
      | M_GpuAmdFanSpeed \<Rightarrow> s\<lparr>ags_fan_speed := invalidate (ags_fan_speed s)\<rparr>
      | _ \<Rightarrow> s)"

definition invalidate_amd :: "metric list \<Rightarrow> amd_gpu_state \<Rightarrow> amd_gpu_state" where
  "invalidate_amd metrics s = s\<lparr>ag_samples := fold invalidate_amd_sample metrics (ag_samples s)\<rparr>"

definition reconcile_amd_source :: "amd_gpu_source option \<Rightarrow> amd_gpu_state \<Rightarrow> amd_gpu_state" where
  "reconcile_amd_source source s =
     (if ag_source s = source then s
      else
        (case (ag_source s, source) of
           (Some old, Some new) \<Rightarrow> invalidate_amd (changed_metrics old new) s
         | _ \<Rightarrow> s\<lparr>ag_samples := amd_gpu_samples_default\<rparr>)
        \<lparr>ag_source := source\<rparr>)"

definition sample_path :: "('p \<Rightarrow> 'a option) \<Rightarrow> 'p option \<Rightarrow> duration \<Rightarrow> 'a retained \<Rightarrow> 'a retained" where
  "sample_path read path t r =
     (case path of Some p \<Rightarrow> record_attempt (read p) t r | None \<Rightarrow> record_absence t r)"

definition read_percent :: "files \<Rightarrow> path \<Rightarrow> int option" where
  "read_percent files path =
     opt_filter (\<lambda>v. 0 \<le> v \<and> v \<le> 100) (Option.bind (files path) (\<lambda>t. parse_signed 32 (trim_text t)))"

definition read_number_u64 :: "files \<Rightarrow> path \<Rightarrow> nat option" where
  "read_number_u64 files path = Option.bind (files path) (\<lambda>t. parse_u64 (trim_text t))"

definition read_scaled_u32 :: "files \<Rightarrow> nat \<Rightarrow> path \<Rightarrow> nat option" where
  "read_scaled_u32 files divisor path =
     opt_filter (\<lambda>v. v \<le> u32_max) (map_option (\<lambda>v. v div divisor) (read_number_u64 files path))"

definition read_temperature :: "files \<Rightarrow> path \<Rightarrow> int option" where
  "read_temperature files path =
     (case Option.bind (files path) (\<lambda>t. parse_signed 64 (trim_text t)) of
        None \<Rightarrow> None
      | Some millidegrees \<Rightarrow>
          if \<not> (-273150 \<le> millidegrees \<and> millidegrees < 1000000) then None
          else opt_filter (\<lambda>v. - (2 ^ 31) \<le> v \<and> v < 2 ^ 31) (Some (tdiv millidegrees 1000)))"

definition read_memory :: "files \<Rightarrow> amd_memory_paths \<Rightarrow> amd_memory_reading option" where
  "read_memory files paths =
     Option.bind (read_number_u64 files (mem_used paths)) (\<lambda>used.
     Option.bind (read_number_u64 files (mem_total paths)) (\<lambda>whole.
       let reading = \<lparr>used_bytes = of_nat used, total_bytes = of_nat whole\<rparr>
       in if mem_percent reading = None then None else Some reading))"

definition sample_amd_metric ::
    "files \<Rightarrow> amd_gpu_source option \<Rightarrow> duration \<Rightarrow> metric \<Rightarrow> amd_gpu_samples \<Rightarrow> amd_gpu_samples" where
  "sample_amd_metric files source t m s =
     (case m of
        M_GpuAmdUsage \<Rightarrow>
          s\<lparr>ags_usage := sample_path (read_percent files) (Option.bind source usage_path) t (ags_usage s)\<rparr>
      | M_GpuAmdCodecUsage \<Rightarrow>
          s\<lparr>ags_codec_usage :=
              sample_path (read_percent files) (Option.bind source codec_usage_path) t (ags_codec_usage s)\<rparr>
      | M_GpuAmdMemUsage \<Rightarrow>
          s\<lparr>ags_memory := sample_path (read_memory files) (Option.bind source memory_paths) t (ags_memory s)\<rparr>
      | M_GpuAmdFreq \<Rightarrow>
          s\<lparr>ags_frequency :=
              sample_path (read_scaled_u32 files 1000000) (Option.bind source freq_path) t (ags_frequency s)\<rparr>
      | M_GpuAmdTemp \<Rightarrow>
          s\<lparr>ags_temperature :=
              sample_path (read_temperature files) (Option.bind source temp_path) t (ags_temperature s)\<rparr>
      | M_GpuAmdPower \<Rightarrow>
          s\<lparr>ags_power := sample_path (read_scaled_u32 files 1000000) (Option.bind source power_path) t (ags_power s)\<rparr>
      | M_GpuAmdFanSpeed \<Rightarrow>
          s\<lparr>ags_fan_speed :=
              sample_path (read_scaled_u32 files 1) (Option.bind source fan_speed_path) t (ags_fan_speed s)\<rparr>
      | _ \<Rightarrow> s)"

definition sample_amd :: "files \<Rightarrow> metric bset \<Rightarrow> duration \<Rightarrow> amd_gpu_state \<Rightarrow> amd_gpu_state" where
  "sample_amd files metrics t s =
     s\<lparr>ag_samples := fold (sample_amd_metric files (ag_source s) t) metrics (ag_samples s)\<rparr>"

definition retained_status :: "'a retained \<Rightarrow> attempt_status \<times> duration option" where
  "retained_status r =
     (let capture = map_option captured_at (latest r)
      in (if latest_attempt_failed r then Status_Failed
          else if capture \<noteq> None then Status_Captured else Status_Absent, capture))"

definition amd_metadata :: "amd_gpu_samples \<Rightarrow> metric \<Rightarrow> attempt_status \<times> duration option" where
  "amd_metadata s m =
     (case m of
        M_GpuAmdUsage \<Rightarrow> retained_status (ags_usage s)
      | M_GpuAmdCodecUsage \<Rightarrow> retained_status (ags_codec_usage s)
      | M_GpuAmdMemUsage \<Rightarrow> retained_status (ags_memory s)
      | M_GpuAmdFreq \<Rightarrow> retained_status (ags_frequency s)
      | M_GpuAmdTemp \<Rightarrow> retained_status (ags_temperature s)
      | M_GpuAmdPower \<Rightarrow> retained_status (ags_power s)
      | M_GpuAmdFanSpeed \<Rightarrow> retained_status (ags_fan_speed s)
      | _ \<Rightarrow> (Status_Absent, None))"

text \<open>The map from metrics to outcomes, in the order of the set.\<close>

definition attempt_amd ::
    "files \<Rightarrow> metric bset \<Rightarrow> duration \<Rightarrow> amd_gpu_state \<Rightarrow> amd_gpu_state \<times> (metric \<times> attempt_status) list" where
  "attempt_amd files metrics t s =
     (let s = sample_amd files metrics t s
      in (s, map (\<lambda>m. (m, fst (amd_metadata (ag_samples s) m))) metrics))"

definition amd_capture_time :: "amd_gpu_samples \<Rightarrow> metric list \<Rightarrow> duration option" where
  "amd_capture_time samples metrics =
     (case List.map_filter (\<lambda>m. snd (amd_metadata samples m)) metrics of
        [] \<Rightarrow> None
      | t # ts \<Rightarrow> Some (fold min ts t))"

definition amd_demand :: "capability bset \<Rightarrow> metric bset" where
  "amd_demand caps =
     bs_collect (filter (\<lambda>m. list_ex (\<lambda>cap. cap \<in> set caps) (metric_capabilities m))
       (FAST_METRICS @ SLOW_METRICS))"

definition reconcile_amd ::
    "hardware_inventory \<Rightarrow> capability bset \<Rightarrow> amd_gpu_state \<Rightarrow> amd_gpu_state" where
  "reconcile_amd hw caps s =
     reconcile_amd_source (map_option (\<lambda>source. source_for_metrics source (amd_demand caps)) (hw_amd_gpu hw)) s"

section \<open>AMD neural processor\<close>

definition FORMAT_REVISION :: nat where "FORMAT_REVISION = 3"
definition CONTENT_REVISION :: nat where "CONTENT_REVISION = 0"
definition MIN_STRUCTURE_SIZE :: nat where "MIN_STRUCTURE_SIZE = 264"
definition HEADER_SIZE :: nat where "HEADER_SIZE = 4"
definition IPU_ACTIVITY_OFFSET :: nat where "IPU_ACTIVITY_OFFSET = 46"
definition IPU_COLUMNS :: nat where "IPU_COLUMNS = 8"
definition IPU_POWER_OFFSET :: nat where "IPU_POWER_OFFSET = 116"
definition IPU_CLOCK_OFFSET :: nat where "IPU_CLOCK_OFFSET = 180"
definition UNAVAILABLE :: nat where "UNAVAILABLE = 0xFFFF"

lemmas npu_consts = FORMAT_REVISION_def CONTENT_REVISION_def MIN_STRUCTURE_SIZE_def HEADER_SIZE_def
  IPU_ACTIVITY_OFFSET_def IPU_COLUMNS_def IPU_POWER_OFFSET_def IPU_CLOCK_OFFSET_def UNAVAILABLE_def

record npu_samples =
  nps_usage :: "int retained"
  nps_power_mw :: "nat retained"
  nps_frequency :: "nat retained"

definition npu_samples_default :: npu_samples where
  "npu_samples_default =
     \<lparr>nps_usage = retained_default, nps_power_mw = retained_default, nps_frequency = retained_default\<rparr>"

record npu_state =
  np_source :: "amd_npu_source option"
  np_samples :: npu_samples
  np_usage_history :: "int list"
  np_history_sample_at :: "duration option"

definition reconcile_npu_source :: "amd_npu_source option \<Rightarrow> npu_state \<Rightarrow> npu_state" where
  "reconcile_npu_source source s =
     (if np_source s \<noteq> source
      then \<lparr>np_source = source, np_samples = npu_samples_default, np_usage_history = [],
            np_history_sample_at = None\<rparr>
      else s)"

definition append_npu_history :: "int \<Rightarrow> duration \<Rightarrow> nat \<Rightarrow> npu_state \<Rightarrow> npu_state" where
  "append_npu_history usage t max_len s =
     (let history = np_usage_history s @ [usage]
      in s\<lparr>np_history_sample_at := Some t, np_usage_history := drop (length history - max_len) history\<rparr>)"

definition reset_npu_history :: "npu_state \<Rightarrow> npu_state" where
  "reset_npu_history s = s\<lparr>np_usage_history := [], np_history_sample_at := None\<rparr>"

definition invalidate_npu :: "npu_state \<Rightarrow> npu_state" where
  "invalidate_npu s = s\<lparr>np_samples := npu_samples_default\<rparr>"

text \<open>The table: bytes are numbers below 256, read in pairs, the low byte first.\<close>

record npu_fields =
  nf_columns :: "nat list"
  nf_power_mw :: nat
  nf_clock_mhz :: nat

datatype npu_table = Table_Supported npu_fields | Table_Unsupported | Table_Incomplete
datatype npu_busy = Busy_Valid int | Busy_Unavailable | Busy_Invalid

definition read_u16 :: "nat list \<Rightarrow> nat \<Rightarrow> nat option" where
  "read_u16 bytes offset =
     (if offset + 2 \<le> length bytes then Some (bytes ! offset + 256 * bytes ! (offset + 1)) else None)"

definition table_field :: "nat list \<Rightarrow> nat \<Rightarrow> nat" where
  "table_field bytes offset = (case read_u16 bytes offset of Some v \<Rightarrow> v | None \<Rightarrow> UNAVAILABLE)"

definition parse_table :: "nat list \<Rightarrow> npu_table" where
  "parse_table bytes =
     (case read_u16 bytes 0 of
        None \<Rightarrow> Table_Incomplete
      | Some declared \<Rightarrow>
          if length bytes < HEADER_SIZE \<or> length bytes < declared then Table_Incomplete
          else if bytes ! 2 \<noteq> FORMAT_REVISION \<or> bytes ! 3 \<noteq> CONTENT_REVISION \<or> declared < MIN_STRUCTURE_SIZE
          then Table_Unsupported
          else Table_Supported
            \<lparr>nf_columns = map (\<lambda>i. table_field bytes (IPU_ACTIVITY_OFFSET + i * 2)) [0..<IPU_COLUMNS],
             nf_power_mw = table_field bytes IPU_POWER_OFFSET,
             nf_clock_mhz = table_field bytes IPU_CLOCK_OFFSET\<rparr>)"

definition busy_percent :: "nat list \<Rightarrow> npu_busy" where
  "busy_percent columns =
     (if UNAVAILABLE \<in> set columns then Busy_Unavailable
      else if list_ex (\<lambda>c. 100 < c) columns then Busy_Invalid
      else Busy_Valid (case i32_try_from ((sum_list columns + 4) div 8) of Some v \<Rightarrow> v | None \<Rightarrow> 100))"

definition record_scalar :: "nat \<Rightarrow> duration \<Rightarrow> nat retained \<Rightarrow> nat retained" where
  "record_scalar v t r = (if v = UNAVAILABLE then record_absence t r else record_value v t r)"

definition record_fields :: "npu_fields \<Rightarrow> duration \<Rightarrow> npu_samples \<Rightarrow> npu_samples" where
  "record_fields values t s =
     s\<lparr>nps_usage :=
         (case busy_percent (nf_columns values) of
            Busy_Valid v \<Rightarrow> record_value v t (nps_usage s)
          | Busy_Unavailable \<Rightarrow> record_absence t (nps_usage s)
          | Busy_Invalid \<Rightarrow> record_failure t (nps_usage s)),
       nps_power_mw := record_scalar (nf_power_mw values) t (nps_power_mw s),
       nps_frequency := record_scalar (nf_clock_mhz values) t (nps_frequency s)\<rparr>"

definition record_npu_absence :: "duration \<Rightarrow> npu_samples \<Rightarrow> npu_samples" where
  "record_npu_absence t s =
     s\<lparr>nps_usage := record_absence t (nps_usage s), nps_power_mw := record_absence t (nps_power_mw s),
       nps_frequency := record_absence t (nps_frequency s)\<rparr>"

definition sample_npu :: "blobs \<Rightarrow> duration \<Rightarrow> npu_state \<Rightarrow> npu_state" where
  "sample_npu blobs t s =
     (case np_source s of
        None \<Rightarrow> s\<lparr>np_samples := record_npu_absence t (np_samples s)\<rparr>
      | Some source \<Rightarrow>
          (case map_option parse_table (blobs (metrics_path source)) of
             Some (Table_Supported v) \<Rightarrow> s\<lparr>np_samples := record_fields v t (np_samples s)\<rparr>
           | Some Table_Unsupported \<Rightarrow>
               (invalidate_npu s)\<lparr>np_samples := record_npu_absence t (np_samples (invalidate_npu s))\<rparr>
           | _ \<Rightarrow>
               s\<lparr>np_samples := (np_samples s)
                   \<lparr>nps_usage := record_failure t (nps_usage (np_samples s)),
                    nps_power_mw := record_failure t (nps_power_mw (np_samples s)),
                    nps_frequency := record_failure t (nps_frequency (np_samples s))\<rparr>\<rparr>))"

section \<open>External files\<close>

record external_state =
  ext_brightness :: "int retained"
  ext_updates :: "int retained"
  ext_updates_source :: "path option"
  ext_server :: "bool retained"
  ext_server_source :: "path option"

definition reconcile_updates :: "bool \<Rightarrow> string \<Rightarrow> external_state \<Rightarrow> external_state" where
  "reconcile_updates wanted file s =
     (if wanted \<and> file \<noteq> []
      then if ext_updates_source s \<noteq> Some (path_of file)
           then s\<lparr>ext_updates := invalidate (ext_updates s), ext_updates_source := Some (path_of file)\<rparr> else s
      else s\<lparr>ext_updates := invalidate (ext_updates s), ext_updates_source := None\<rparr>)"

definition reconcile_server :: "bool \<Rightarrow> string \<Rightarrow> external_state \<Rightarrow> external_state" where
  "reconcile_server wanted file s =
     (if wanted \<and> file \<noteq> []
      then if ext_server_source s \<noteq> Some (path_of file)
           then s\<lparr>ext_server := invalidate (ext_server s), ext_server_source := Some (path_of file)\<rparr> else s
      else s\<lparr>ext_server := invalidate (ext_server s), ext_server_source := None\<rparr>)"

definition reconcile_external_sources ::
    "config \<Rightarrow> hardware_inventory \<Rightarrow> bool \<Rightarrow> bool \<Rightarrow> bool \<Rightarrow> external_state \<Rightarrow> external_state" where
  "reconcile_external_sources cfg hw wants_updates wants_server wants_brightness s =
     (let s = reconcile_updates wants_updates (updates_file (cf_system_updates cfg)) s;
          s = reconcile_server wants_server (server_file (cf_server_check cfg)) s
      in if \<not> wants_brightness \<or> \<not> hw_has_backlight hw
         then s\<lparr>ext_brightness := invalidate (ext_brightness s)\<rparr> else s)"

definition read_trimmed_i64 :: "files \<Rightarrow> path \<Rightarrow> int option" where
  "read_trimmed_i64 files path = Option.bind (files path) (\<lambda>t. parse_signed 64 (trim_text t))"

definition wrap64 :: "int \<Rightarrow> int" where "wrap64 v = (v + 2 ^ 63) mod 2 ^ 64 - 2 ^ 63"

text \<open>
  The directories of \<open>class/backlight\<close> come in the order of the file system. A file that does not exist cannot be
  read, so the test for its existence adds nothing. The product wraps, as in a release build.
\<close>

fun first_backlight :: "files \<Rightarrow> path list \<Rightarrow> int option" where
  "first_backlight files [] = None"
| "first_backlight files (path # paths) =
     (case (read_trimmed_i64 files (join path [''brightness'']),
            read_trimmed_i64 files (join path [''max_brightness''])) of
        (Some cur, Some limit) \<Rightarrow>
          if 0 < limit then Some (wrap32 (tdiv (wrap64 (cur * 100)) limit)) else first_backlight files paths
      | _ \<Rightarrow> first_backlight files paths)"

definition read_brightness :: "files \<Rightarrow> (path \<Rightarrow> path list option) \<Rightarrow> path \<Rightarrow> int option" where
  "read_brightness files entries sys_root =
     Option.bind (entries (join sys_root [''class'', ''backlight''])) (first_backlight files)"

definition read_count_file :: "files \<Rightarrow> path \<Rightarrow> int option" where
  "read_count_file files path = Option.bind (files path) (\<lambda>t. parse_signed 32 (trim_text t))"

definition read_server_file :: "files \<Rightarrow> path \<Rightarrow> bool option" where
  "read_server_file files path =
     (case files path of
        None \<Rightarrow> None
      | Some t \<Rightarrow>
          if trim_text t = lit ''1'' then Some True
          else if trim_text t = lit ''0'' then Some False else None)"

record external_result =
  xr_brightness :: "int attempt_result"
  xr_updates :: "int attempt_result"
  xr_server :: "bool attempt_result"

definition attempt_external ::
    "files \<Rightarrow> (path \<Rightarrow> path list option) \<Rightarrow> path \<Rightarrow> config \<Rightarrow> capability bset \<Rightarrow> 'c clock \<Rightarrow> 'c \<Rightarrow>
     external_state \<Rightarrow> 'c \<times> external_state \<times> external_result" where
  "attempt_external files entries sys_root cfg caps clock c s =
     (let (c, s, brightness) =
            (if Cap_ScreenBrightness \<in> set caps then
               let (c, t) = clock c;
                   (r, result) = commit_attempt (ext_brightness s)
                     (value_or_failed (read_brightness files entries sys_root)) t
               in (c, s\<lparr>ext_brightness := r\<rparr>, result)
             else (c, s, cached_attempt (ext_brightness s)));
          updates_at = updates_file (cf_system_updates cfg);
          (c, s, updates) =
            (if Cap_SystemUpdates \<in> set caps \<and> updates_at \<noteq> [] then
               let (c, t) = clock c;
                   (r, result) = commit_attempt (ext_updates s)
                     (value_or_failed (read_count_file files (path_of updates_at))) t
               in (c, s\<lparr>ext_updates := r\<rparr>, result)
             else (c, s, cached_attempt (ext_updates s)));
          server_at = server_file (cf_server_check cfg);
          (c, s, server) =
            (if Cap_ServerCheck \<in> set caps \<and> server_at \<noteq> [] then
               let (c, t) = clock c;
                   (r, result) = commit_attempt (ext_server s)
                     (value_or_failed (read_server_file files (path_of server_at))) t
               in (c, s\<lparr>ext_server := r\<rparr>, result)
             else (c, s, cached_attempt (ext_server s)))
      in (c, s, \<lparr>xr_brightness = brightness, xr_updates = updates, xr_server = server\<rparr>))"

end
