(* ===== verification/Jobs.thy ===== *)
theory Jobs
  imports NetIdentity Accelerators
begin

text \<open>
  The execution of a job: \<open>src/sensors/scheduled.rs\<close> and \<open>scheduled/*.rs\<close>, for the owners of CPU, memory,
  network, disks, power, AMD processors and external files. What a job meets outside is in \<open>job_env\<close> (files,
  clock, buses, commands), with the states of these in \<open>job_run\<close>; the jobs of the other owners (NVIDIA, Intel,
  the history of the selected GPU, processes) are the parameter \<open>other\<close>.
\<close>

section \<open>Disk sensors and SMART\<close>

definition read_path_int :: "files \<Rightarrow> path option \<Rightarrow> int option" where
  "read_path_int files path = Option.bind (Option.bind path files) (\<lambda>content. parse_signed 32 (trim_text content))"

definition read_hd_temp :: "files \<Rightarrow> path \<Rightarrow> int option" where
  "read_hd_temp files path = read_path_millidegrees_celsius files (Some path)"

definition read_fan_speed :: "files \<Rightarrow> path \<Rightarrow> int option" where
  "read_fan_speed files path = read_path_int files (Some path)"

definition or_default :: "'a retained option \<Rightarrow> 'a retained" where
  "or_default r = (case r of Some x \<Rightarrow> x | None \<Rightarrow> retained_default)"

definition attempt_disk_temperature ::
    "files \<Rightarrow> string \<Rightarrow> path \<Rightarrow> duration \<Rightarrow> disk_state \<Rightarrow> disk_state \<times> int attempt_result" where
  "attempt_disk_temperature files label path t s =
     (let s = (if bm_get (dst_hd_temp_sources s) label \<noteq> Some path
               then s\<lparr>dst_hd_temp_cache := bm_remove label (dst_hd_temp_cache s),
                      dst_hd_temp_sources := bm_insert label path (dst_hd_temp_sources s)\<rparr> else s);
          (r, reading) = commit_attempt (or_default (bm_get (dst_hd_temp_cache s) label))
                           (value_or_failed (read_hd_temp files path)) t
      in (s\<lparr>dst_hd_temp_cache := bm_insert label r (dst_hd_temp_cache s)\<rparr>, reading))"

definition attempt_fan_speed ::
    "files \<Rightarrow> string \<Rightarrow> path \<Rightarrow> duration \<Rightarrow> disk_state \<Rightarrow> disk_state \<times> int attempt_result" where
  "attempt_fan_speed files label path t s =
     (let s = (if bm_get (dst_fan_speed_sources s) label \<noteq> Some path
               then s\<lparr>dst_fan_speed_cache := bm_remove label (dst_fan_speed_cache s),
                      dst_fan_speed_sources := bm_insert label path (dst_fan_speed_sources s)\<rparr> else s);
          (r, reading) = commit_attempt (or_default (bm_get (dst_fan_speed_cache s) label))
                           (value_or_failed (read_fan_speed files path)) t
      in (s\<lparr>dst_fan_speed_cache := bm_insert label r (dst_fan_speed_cache s)\<rparr>, reading))"

text \<open>The answers UDisks gives to the request for a SMART property.\<close>

datatype smart_reply = Nvme_Critical_Warnings "string list" | Ata_Failing bool | Other_Reply

record 'd smart_bus =
  sb_update :: "'d \<Rightarrow> string \<Rightarrow> disk_smart_interface \<Rightarrow> 'd \<times> bool"
  sb_property :: "'d \<Rightarrow> string \<Rightarrow> disk_smart_interface \<Rightarrow> 'd \<times> smart_reply option"

definition read_disk_smart ::
    "'d smart_bus \<Rightarrow> string \<Rightarrow> disk_smart_interface \<Rightarrow> 'd \<Rightarrow> 'd \<times> bool option" where
  "read_disk_smart bus drive_path kind d =
     (case sb_update bus d drive_path kind of
        (d, False) \<Rightarrow> (d, None)
      | (d, True) \<Rightarrow>
          (case sb_property bus d drive_path kind of
             (d, Some (Nvme_Critical_Warnings warnings)) \<Rightarrow>
               (d, if kind = Smart_Nvme then Some (warnings = []) else None)
           | (d, Some (Ata_Failing failing)) \<Rightarrow> (d, if kind = Smart_Ata then Some (\<not> failing) else None)
           | (d, _) \<Rightarrow> (d, None)))"

definition attempt_smart ::
    "'d smart_bus \<Rightarrow> string \<Rightarrow> smart_disk \<Rightarrow> duration \<Rightarrow> 'd \<Rightarrow> disk_state \<Rightarrow>
     'd \<times> disk_state \<times> bool attempt_result" where
  "attempt_smart bus label drive t d s =
     (let s = (if bm_get (dst_smart_sources s) label \<noteq> Some drive
               then s\<lparr>dst_smart_cache := bm_remove label (dst_smart_cache s),
                      dst_smart_sources := bm_insert label drive (dst_smart_sources s)\<rparr> else s);
          (d, healthy) = read_disk_smart bus (sd_object_path drive) (sd_interface drive) d;
          (r, reading) = commit_attempt (or_default (bm_get (dst_smart_cache s) label)) (value_or_failed healthy) t
      in (d, s\<lparr>dst_smart_cache := bm_insert label r (dst_smart_cache s)\<rparr>, reading))"

section \<open>The state of an execution\<close>

record ('c, 'd, 'b, 'e) job_env =
  je_floats :: power_floats
  je_files :: files
  je_blobs :: blobs
  je_entries :: "path \<Rightarrow> path list option"
  je_exists :: "path \<Rightarrow> bool option"
  je_proc :: path
  je_sys :: path
  je_statvfs :: "string \<Rightarrow> (nat \<times> nat \<times> nat \<times> nat) option"
  je_lossy :: "path \<Rightarrow> string"
  je_now :: "'c \<Rightarrow> 'c \<times> clock_snapshot"
  je_commands :: "'d command_runner"
  je_upower :: "'d upower"
  je_smart :: "'d smart_bus"
  je_bolt :: "('b, 'e) bolt_facade option"

record job_owners =
  jo_cpu :: cpu_state
  jo_memory :: memory_state
  jo_network :: network_state
  jo_disk :: disk_state
  jo_power :: power_state
  jo_amd_gpu :: amd_gpu_state
  jo_amd_npu :: npu_state
  jo_external :: external_state

text \<open>The DBus services and the commands share one state.\<close>

record ('c, 'd, 'b) job_run =
  jr_owners :: job_owners
  jr_clock :: 'c
  jr_dbus :: 'd
  jr_hw :: hardware_inventory
  jr_bolt :: 'b
  jr_readings :: display_snapshot
  jr_notifications :: display_snapshot

definition job_clock :: "('c, 'd, 'b, 'e) job_env \<Rightarrow> ('c, 'd, 'b) job_run \<Rightarrow> ('c, 'd, 'b) job_run \<times> duration" where
  "job_clock env x = (let (c, now) = je_now env (jr_clock x) in (x\<lparr>jr_clock := c\<rparr>, cs_monotonic now))"

definition monotonic_clock :: "('c, 'd, 'b, 'e) job_env \<Rightarrow> 'c clock" where
  "monotonic_clock env c = apsnd cs_monotonic (je_now env c)"

definition reconcile_npu ::
    "hardware_inventory \<Rightarrow> config \<Rightarrow> capability bset \<Rightarrow> npu_state \<Rightarrow> npu_state" where
  "reconcile_npu hw cfg caps s =
     (let demanded = list_ex (\<lambda>capability. capability \<in> set caps)
                       [Cap_NpuAmdUsage, Cap_NpuAmdPower, Cap_NpuAmdFrequency];
          s = reconcile_npu_source (if demanded then hw_amd_npu hw else None) s
      in if \<not> npu_graph_enabled cfg then reset_npu_history s else s)"

definition reconcile_owners ::
    "hardware_inventory \<Rightarrow> config \<Rightarrow> capability bset \<Rightarrow> job_owners \<Rightarrow> job_owners" where
  "reconcile_owners hw cfg caps ow =
     ow\<lparr>jo_cpu := reconcile_core_page (''cpu_cores'' \<in> set (pages_order (cf_pages cfg))) (jo_cpu ow),
        jo_network := reconcile_network_sources (hw_net_device hw) (Cap_NetworkSpeed \<in> set caps)
          (Cap_NetworkInfo \<in> set caps) (''graphs'' \<in> set (pages_order (cf_pages cfg))) (jo_network ow),
        jo_disk := reconcile_disk_sources hw cfg caps (jo_disk ow),
        jo_power := reconcile_power_sources hw cfg caps (jo_power ow),
        jo_amd_gpu := reconcile_amd hw caps (jo_amd_gpu ow),
        jo_amd_npu := reconcile_npu hw cfg caps (jo_amd_npu ow),
        jo_external := reconcile_external_sources cfg hw (Cap_SystemUpdates \<in> set caps)
          (Cap_ServerCheck \<in> set caps) (Cap_ScreenBrightness \<in> set caps) (jo_external ow)\<rparr>"

definition sample_at_history_deadline :: "'a retained \<Rightarrow> duration option \<Rightarrow> 'a metric_sample option" where
  "sample_at_history_deadline sample deadline =
     (case deadline of None \<Rightarrow> latest sample | Some at \<Rightarrow> sample_at_or_before at sample)"

definition history_capture_time ::
    "duration option \<Rightarrow> ('c, 'd, 'b, 'e) job_env \<Rightarrow> ('c, 'd, 'b) job_run \<Rightarrow> ('c, 'd, 'b) job_run \<times> duration" where
  "history_capture_time deadline env x = (case deadline of None \<Rightarrow> job_clock env x | Some at \<Rightarrow> (x, at))"

definition sample_value :: "'a attempt_result \<Rightarrow> 'a option" where
  "sample_value r = map_option smp_value (ar_sample r)"

definition current_value :: "'a attempt_result \<Rightarrow> 'a option" where
  "current_value r = (if ar_status r = Status_Captured then sample_value r else None)"

definition completion_of :: "attempt_status \<Rightarrow> completion_kind" where
  "completion_of status =
     (case status of Status_Captured \<Rightarrow> Captured | Status_Cached \<Rightarrow> Captured | Status_Baseline \<Rightarrow> Baseline
      | Status_Absent \<Rightarrow> ConfirmedAbsent | Status_Failed \<Rightarrow> Failed)"

definition has_notification_sample :: "display_snapshot \<Rightarrow> bool" where
  "has_notification_sample n \<longleftrightarrow>
     ds_cpu_temp n \<noteq> None \<or> ds_load_average n \<noteq> None \<or> ds_disk_usage n \<noteq> [] \<or> ds_disk_smart n \<noteq> [] \<or>
     ds_hd_temps n \<noteq> [] \<or> ds_battery_sys n \<noteq> [] \<or> ds_battery_mouse n \<noteq> None \<or> ds_battery_kbd n \<noteq> None \<or>
     ds_gpu_temp n \<noteq> None \<or> ds_gpu_amd_temp n \<noteq> None \<or> ds_server_ok n \<noteq> None"

text \<open>Setting the owners, the readings and the notifications of a run.\<close>

definition with_readings ::
    "(display_snapshot \<Rightarrow> display_snapshot) \<Rightarrow> ('c, 'd, 'b) job_run \<Rightarrow> ('c, 'd, 'b) job_run" where
  "with_readings f x = x\<lparr>jr_readings := f (jr_readings x)\<rparr>"

definition notify_with ::
    "(display_snapshot \<Rightarrow> display_snapshot) \<Rightarrow> ('c, 'd, 'b) job_run \<Rightarrow> ('c, 'd, 'b) job_run" where
  "notify_with f x = x\<lparr>jr_notifications := f (jr_notifications x)\<rparr>"

definition with_owners :: "(job_owners \<Rightarrow> job_owners) \<Rightarrow> ('c, 'd, 'b) job_run \<Rightarrow> ('c, 'd, 'b) job_run" where
  "with_owners f x = x\<lparr>jr_owners := f (jr_owners x)\<rparr>"

type_synonym ('c, 'd, 'b) job_step = "('c, 'd, 'b) job_run \<Rightarrow> ('c, 'd, 'b) job_run \<times> completion_kind"

section \<open>CPU and memory\<close>

definition execute_cpu ::
    "('c, 'd, 'b, 'e) job_env \<Rightarrow> hardware_inventory \<Rightarrow> capability bset \<Rightarrow> ('c, 'd, 'b) job_step" where
  "execute_cpu env hw caps x =
     (let (c, cpu, result) = attempt_cpu (sensor_floats.truncate (je_floats env)) (je_files env) (je_proc env) hw caps
            (monotonic_clock env) (jr_clock x) (jo_cpu (jr_owners x));
          x = x\<lparr>jr_clock := c\<rparr>;
          x = with_owners (\<lambda>ow. ow\<lparr>jo_cpu := cpu\<rparr>) x;
          x = notify_with (\<lambda>n. n\<lparr>ds_cpu_temp := current_value (cr_temperature result),
                                 ds_load_average := current_value (cr_load_average result)\<rparr>) x;
          x = with_readings (\<lambda>r. r\<lparr>ds_cpu_usage := sample_value (cr_usage result),
                ds_cpu_temp := sample_value (cr_temperature result),
                ds_cpu_freq_mhz := sample_value (cr_frequency_mhz result),
                ds_cpu_turbo := sample_value (cr_turbo result),
                ds_uptime_seconds := sample_value (cr_uptime_seconds result),
                ds_load_average := sample_value (cr_load_average result)\<rparr>) x
      in (x, completion_of (ar_status (cr_usage result))))"

definition execute_cpu_history ::
    "('c, 'd, 'b, 'e) job_env \<Rightarrow> hardware_inventory \<Rightarrow> config \<Rightarrow> duration option \<Rightarrow> ('c, 'd, 'b) job_step" where
  "execute_cpu_history env hw cfg deadline x =
     (let (x, t) = history_capture_time deadline env x;
          (cpu, temperatures_changed) =
            append_graph_temperature_history cfg hw (jr_readings x) t (jo_cpu (jr_owners x));
          x = with_readings (\<lambda>r. r\<lparr>ds_cpu_temp_history := cs_temp_history cpu,
                                   ds_gpu_temp_history := cs_gpu_temp_history cpu\<rparr>) x
      in case sample_at_history_deadline (cs_usage cpu) deadline of
           Some sample \<Rightarrow>
             let cpu = append_cpu_history cfg t (smp_value sample) cpu;
                 x = with_owners (\<lambda>ow. ow\<lparr>jo_cpu := cpu\<rparr>) x
             in (with_readings (\<lambda>r. r\<lparr>ds_cpu_history := cs_history cpu\<rparr>) x, Captured)
         | None \<Rightarrow>
             (with_owners (\<lambda>ow. ow\<lparr>jo_cpu := cpu\<rparr>) x, if temperatures_changed then Captured else Baseline))"

definition execute_cpu_cores :: "('c, 'd, 'b, 'e) job_env \<Rightarrow> ('c, 'd, 'b) job_step" where
  "execute_cpu_cores env x =
     (let (x, now) = job_clock env x;
          (cpu, result) = attempt_cpu_cores (je_files env) (je_proc env) now (jo_cpu (jr_owners x));
          x = with_owners (\<lambda>ow. ow\<lparr>jo_cpu := cpu\<rparr>) x
      in (with_readings (\<lambda>r. r\<lparr>ds_cpu_core_usage := sample_value (ccr_usage result)\<rparr>) x,
          completion_of (ar_status (ccr_usage result))))"

definition execute_cpu_core_history ::
    "('c, 'd, 'b, 'e) job_env \<Rightarrow> config \<Rightarrow> duration option \<Rightarrow> ('c, 'd, 'b) job_step" where
  "execute_cpu_core_history env cfg deadline x =
     (case sample_at_history_deadline (cs_core_usage (jo_cpu (jr_owners x))) deadline of
        None \<Rightarrow> (x, Baseline)
      | Some sample \<Rightarrow>
          let (x, t) = history_capture_time deadline env x;
              cpu = append_cpu_core_history cfg t (smp_value sample) (jo_cpu (jr_owners x));
              x = with_owners (\<lambda>ow. ow\<lparr>jo_cpu := cpu\<rparr>) x
          in (with_readings (\<lambda>r. r\<lparr>ds_cpu_core_history := Some (cs_core_history cpu)\<rparr>) x, Captured))"

definition execute_memory ::
    "('c, 'd, 'b, 'e) job_env \<Rightarrow> capability bset \<Rightarrow> ('c, 'd, 'b) job_step" where
  "execute_memory env caps x =
     (let (c, mem, result) = attempt_memory (je_files env) (je_proc env) (Cap_SwapUsage \<in> set caps)
            (monotonic_clock env) (jr_clock x) (jo_memory (jr_owners x));
          x = x\<lparr>jr_clock := c\<rparr>;
          x = with_owners (\<lambda>ow. ow\<lparr>jo_memory := mem\<rparr>) x;
          x = (case ar_sample (mr_usage result) of
                 None \<Rightarrow> x
               | Some sample \<Rightarrow>
                   with_readings (\<lambda>r. r\<lparr>ds_mem_usage := Some (mu_percent (smp_value sample)),
                      ds_mem_used_gib := Some (mu_used_gib (smp_value sample)),
                      ds_mem_total_gib := Some (mu_total_gib (smp_value sample))\<rparr>) x)
      in (with_readings (\<lambda>r. r\<lparr>ds_swap_usage := sample_value (mr_swap_usage result)\<rparr>) x,
          completion_of (ar_status (mr_usage result))))"

definition execute_memory_history ::
    "('c, 'd, 'b, 'e) job_env \<Rightarrow> config \<Rightarrow> duration option \<Rightarrow> ('c, 'd, 'b) job_step" where
  "execute_memory_history env cfg deadline x =
     (case sample_at_history_deadline (mst_usage (jo_memory (jr_owners x))) deadline of
        None \<Rightarrow> (x, Baseline)
      | Some sample \<Rightarrow>
          let (x, t) = history_capture_time deadline env x;
              mem = append_memory_history cfg t (mu_percent (smp_value sample)) (jo_memory (jr_owners x));
              x = with_owners (\<lambda>ow. ow\<lparr>jo_memory := mem\<rparr>) x
          in (with_readings (\<lambda>r. r\<lparr>ds_mem_history := mst_history mem\<rparr>) x, Captured))"

section \<open>Network and disks\<close>

definition execute_network_rate ::
    "('c, 'd, 'b, 'e) job_env \<Rightarrow> string \<Rightarrow> ('c, 'd, 'b) job_step" where
  "execute_network_rate env device x =
     (let (x, now) = job_clock env x;
          (net, result) = attempt_network_speed (je_files env) (je_sys env) device now (jo_network (jr_owners x));
          x = with_owners (\<lambda>ow. ow\<lparr>jo_network := net\<rparr>) x
      in (with_readings (\<lambda>r. r\<lparr>ds_net_up_bps := map_option fst (sample_value (nsr_reading result)),
             ds_net_down_bps := map_option snd (sample_value (nsr_reading result))\<rparr>) x,
          completion_of (ar_status (nsr_reading result))))"

definition execute_network_identity :: "('c, 'd, 'b, 'e) job_env \<Rightarrow> ('c, 'd, 'b) job_step" where
  "execute_network_identity env x =
     (let (d, c, net, result) = attempt_network_info (je_exists env) (je_sys env) (je_commands env)
            (monotonic_clock env) (jr_dbus x) (jr_clock x) (jo_network (jr_owners x));
          x = with_owners (\<lambda>ow. ow\<lparr>jo_network := net\<rparr>) (x\<lparr>jr_dbus := d, jr_clock := c\<rparr>);
          reading = nir_reading result;
          device = Option.bind (ar_sample reading) (\<lambda>sample. nif_device (smp_value sample));
          x = (if nir_route_status result = Status_Captured \<and> hw_net_device (jr_hw x) \<noteq> device
               then with_readings (\<lambda>r. r\<lparr>ds_net_up_bps := None, ds_net_down_bps := None,
                                         ds_net_up_history := [], ds_net_down_history := []\<rparr>)
                      (with_owners (\<lambda>ow. ow\<lparr>jo_network := reset_history (reset_rate (jo_network ow))\<rparr>)
                        (x\<lparr>jr_hw := (jr_hw x)\<lparr>hw_net_device := device\<rparr>\<rparr>))
               else x);
          x = (case ar_sample reading of
                 None \<Rightarrow> x
               | Some sample \<Rightarrow>
                   let info = smp_value sample;
                       wifi = (case ar_sample (nir_wifi result) of
                                 Some w \<Rightarrow> if Some (wi_device (smp_value w)) = nif_device info
                                           then Some (smp_value w) else None
                               | None \<Rightarrow> None)
                   in with_readings (\<lambda>r. r\<lparr>ds_net_device := nif_device info,
                        ds_ip_address := map_option string_of_text (nif_ip_address info),
                        ds_wifi_ssid := Option.bind wifi (\<lambda>w. map_option string_of_text (wi_ssid w)),
                        ds_wifi_signal_percent := Option.bind wifi wi_signal_pct\<rparr>) x)
      in (x, completion_of (nir_route_status result)))"

definition execute_network_history ::
    "('c, 'd, 'b, 'e) job_env \<Rightarrow> config \<Rightarrow> duration option \<Rightarrow> ('c, 'd, 'b) job_step" where
  "execute_network_history env cfg deadline x =
     (case sample_at_history_deadline (net_rate (jo_network (jr_owners x))) deadline of
        None \<Rightarrow> (x, Baseline)
      | Some sample \<Rightarrow>
          let (x, t) = history_capture_time deadline env x;
              net = append_net_history cfg t (Some (fst (smp_value sample))) (Some (snd (smp_value sample)))
                      (jo_network (jr_owners x));
              x = with_owners (\<lambda>ow. ow\<lparr>jo_network := net\<rparr>) x
          in (with_readings (\<lambda>r. r\<lparr>ds_net_up_history := net_up_history net,
                                   ds_net_down_history := net_down_history net\<rparr>) x, Captured))"

definition execute_disk_io :: "('c, 'd, 'b, 'e) job_env \<Rightarrow> string \<Rightarrow> ('c, 'd, 'b) job_step" where
  "execute_disk_io env device x =
     (let (x, now) = job_clock env x;
          (disk, reading) = attempt_disk_io (je_files env) (je_proc env) device now (jo_disk (jr_owners x));
          x = with_owners (\<lambda>ow. ow\<lparr>jo_disk := disk\<rparr>) x
      in (with_readings (\<lambda>r. r\<lparr>ds_disk_read_bps := map_option fst (sample_value reading),
             ds_disk_write_bps := map_option snd (sample_value reading)\<rparr>) x,
          completion_of (ar_status reading)))"

definition execute_disk_io_history ::
    "('c, 'd, 'b, 'e) job_env \<Rightarrow> config \<Rightarrow> duration option \<Rightarrow> ('c, 'd, 'b) job_step" where
  "execute_disk_io_history env cfg deadline x =
     (case sample_at_history_deadline (dst_io (jo_disk (jr_owners x))) deadline of
        None \<Rightarrow> (x, Baseline)
      | Some sample \<Rightarrow>
          let (x, t) = history_capture_time deadline env x;
              disk = append_io_history cfg t (fst (smp_value sample)) (snd (smp_value sample)) (jo_disk (jr_owners x));
              x = with_owners (\<lambda>ow. ow\<lparr>jo_disk := disk\<rparr>) x
          in (with_readings (\<lambda>r. r\<lparr>ds_disk_read_history := dst_read_history disk,
                                   ds_disk_write_history := dst_write_history disk\<rparr>) x, Captured))"

definition execute_disk_usage :: "('c, 'd, 'b, 'e) job_env \<Rightarrow> path \<Rightarrow> ('c, 'd, 'b) job_step" where
  "execute_disk_usage env path x =
     (let mount = je_lossy env path;
          (x, now) = job_clock env x;
          (disk, reading) = attempt_disk_usage (je_statvfs env) mount now (jo_disk (jr_owners x));
          x = with_owners (\<lambda>ow. ow\<lparr>jo_disk := disk\<rparr>) x;
          v = sample_value reading;
          x = (if ar_status reading = Status_Captured
               then notify_with (\<lambda>n. n\<lparr>ds_disk_usage := bm_insert mount v (ds_disk_usage n)\<rparr>) x else x)
      in (with_readings (\<lambda>r. r\<lparr>ds_disk_usage := bm_insert mount v (ds_disk_usage r)\<rparr>) x,
          completion_of (ar_status reading)))"

definition execute_smart ::
    "('c, 'd, 'b, 'e) job_env \<Rightarrow> hardware_inventory \<Rightarrow> string \<Rightarrow> string \<Rightarrow> ('c, 'd, 'b) job_run \<Rightarrow>
     (('c, 'd, 'b) job_run \<times> completion_kind) option" where
  "execute_smart env hw label object_path x =
     (case bm_get (hw_disk_smart_drives hw) label of
        None \<Rightarrow> None
      | Some drive \<Rightarrow>
          if sd_object_path drive \<noteq> object_path then None
          else
            let (x, now) = job_clock env x;
                (d, disk, reading) = attempt_smart (je_smart env) label drive now (jr_dbus x) (jo_disk (jr_owners x));
                x = with_owners (\<lambda>ow. ow\<lparr>jo_disk := disk\<rparr>) (x\<lparr>jr_dbus := d\<rparr>);
                v = sample_value reading;
                x = (if ar_status reading = Status_Captured
                     then notify_with (\<lambda>n. n\<lparr>ds_disk_smart := bm_insert label v (ds_disk_smart n)\<rparr>) x else x)
            in Some (with_readings (\<lambda>r. r\<lparr>ds_disk_smart := bm_insert label v (ds_disk_smart r)\<rparr>) x,
                     completion_of (ar_status reading)))"

definition execute_disk_temperature ::
    "('c, 'd, 'b, 'e) job_env \<Rightarrow> string \<Rightarrow> path \<Rightarrow> ('c, 'd, 'b) job_step" where
  "execute_disk_temperature env name path x =
     (let (x, now) = job_clock env x;
          (disk, reading) = attempt_disk_temperature (je_files env) name path now (jo_disk (jr_owners x));
          x = with_owners (\<lambda>ow. ow\<lparr>jo_disk := disk\<rparr>) x;
          v = sample_value reading;
          x = (if ar_status reading = Status_Captured
               then notify_with (\<lambda>n. n\<lparr>ds_hd_temps := bm_insert name v (ds_hd_temps n)\<rparr>) x else x)
      in (with_readings (\<lambda>r. r\<lparr>ds_hd_temps := bm_insert name v (ds_hd_temps r)\<rparr>) x,
          completion_of (ar_status reading)))"

definition execute_fan_speed ::
    "('c, 'd, 'b, 'e) job_env \<Rightarrow> string \<Rightarrow> path \<Rightarrow> ('c, 'd, 'b) job_step" where
  "execute_fan_speed env name path x =
     (let (x, now) = job_clock env x;
          (disk, reading) = attempt_fan_speed (je_files env) name path now (jo_disk (jr_owners x));
          x = with_owners (\<lambda>ow. ow\<lparr>jo_disk := disk\<rparr>) x
      in (with_readings (\<lambda>r. r\<lparr>ds_fan_speeds := bm_insert name (sample_value reading) (ds_fan_speeds r)\<rparr>) x,
          completion_of (ar_status reading)))"

section \<open>Power\<close>

definition execute_system_battery ::
    "('c, 'd, 'b, 'e) job_env \<Rightarrow> string \<Rightarrow> ('c, 'd, 'b) job_step" where
  "execute_system_battery env bat_id x =
     (let (x, now) = job_clock env x;
          (d, pow, reading) = attempt_system_battery (je_floats env) (je_upower env) (je_files env) (je_sys env) bat_id
             now (jr_dbus x) (jo_power (jr_owners x));
          x = with_owners (\<lambda>ow. ow\<lparr>jo_power := pow\<rparr>) (x\<lparr>jr_dbus := d\<rparr>);
          x = with_readings (\<lambda>r. r\<lparr>ds_battery_sys := filter (\<lambda>b. bs_id b \<noteq> bat_id) (ds_battery_sys r)\<rparr>) x;
          x = (case ar_sample reading of
                 None \<Rightarrow> x
               | Some sample \<Rightarrow>
                   let x = (if ar_status reading = Status_Captured
                            then notify_with (\<lambda>n. n\<lparr>ds_battery_sys := ds_battery_sys n @ [smp_value sample]\<rparr>) x
                            else x)
                   in with_readings (\<lambda>r. r\<lparr>ds_battery_sys := ds_battery_sys r @ [smp_value sample]\<rparr>) x)
      in (x, completion_of (ar_status reading)))"

definition set_peripheral ::
    "peripheral_role \<Rightarrow> battery_peripheral_reading option \<Rightarrow> display_snapshot \<Rightarrow> display_snapshot" where
  "set_peripheral role v r =
     (case role of Role_Mouse \<Rightarrow> r\<lparr>ds_battery_mouse := v\<rparr> | Role_Keyboard \<Rightarrow> r\<lparr>ds_battery_kbd := v\<rparr>)"

definition execute_peripheral ::
    "('c, 'd, 'b, 'e) job_env \<Rightarrow> config \<Rightarrow> peripheral_role \<Rightarrow> peripheral_source \<Rightarrow> ('c, 'd, 'b) job_step" where
  "execute_peripheral env cfg role source x =
     (let pow = jo_power (jr_owners x);
          (cache, name) =
            (case role of
               Role_Mouse \<Rightarrow> (pst_battery_mouse_cache pow, batt_mouse_name (cf_battery cfg))
             | Role_Keyboard \<Rightarrow> (pst_battery_kbd_cache pow, batt_kbd_name (cf_battery cfg)));
          put = (\<lambda>cache x. with_owners (\<lambda>ow. ow\<lparr>jo_power :=
                   (case role of Role_Mouse \<Rightarrow> pow\<lparr>pst_battery_mouse_cache := cache\<rparr>
                    | Role_Keyboard \<Rightarrow> pow\<lparr>pst_battery_kbd_cache := cache\<rparr>)\<rparr>) x);
          outcome =
            (case source of
               Upower dev_id \<Rightarrow>
                 let (x, now) = job_clock env x;
                     (d, cache, reading) =
                       attempt_upower_peripheral (je_floats env) (je_upower env) dev_id name now (jr_dbus x) cache
                 in Some (put cache (x\<lparr>jr_dbus := d\<rparr>), reading)
             | Bolt index \<Rightarrow>
                 (case je_bolt env of
                    None \<Rightarrow> None
                  | Some bolt \<Rightarrow>
                      let (x, now) = job_clock env x;
                          (b, cache, reading) = attempt_bolt_peripheral bolt index name now (jr_bolt x) cache
                      in Some (put cache (x\<lparr>jr_bolt := b\<rparr>), reading)))
      in case outcome of
           None \<Rightarrow> (x, ConfirmedAbsent)
         | Some (x, reading) \<Rightarrow>
             let v = sample_value reading;
                 x = (if ar_status reading = Status_Captured then notify_with (set_peripheral role v) x else x)
             in (with_readings (set_peripheral role v) x, completion_of (ar_status reading)))"

section \<open>AMD processors and external files\<close>

definition source_device :: "job_id \<Rightarrow> string option" where
  "source_device job = (case jid_source job of Device device \<Rightarrow> Some device | _ \<Rightarrow> None)"

text \<open>The metrics of the group: those of the ticket, or those the configuration asks for.\<close>

definition amd_wanted :: "job_kind \<Rightarrow> metric bset option \<Rightarrow> config \<Rightarrow> metric bset" where
  "amd_wanted kind metrics cfg =
     (let group = (if kind = Job_AmdFast then FAST_METRICS else SLOW_METRICS)
      in bs_collect (case metrics of
           None \<Rightarrow> filter (\<lambda>m. list_ex (\<lambda>cap. cap \<in> set (configured_capabilities cfg)) (metric_capabilities m)) group
         | Some ms \<Rightarrow> filter (\<lambda>m. m \<in> set group) ms))"

definition outcomes_completion :: "attempt_status list \<Rightarrow> completion_kind" where
  "outcomes_completion outcomes =
     (if Status_Failed \<in> set outcomes then Failed
      else if Status_Captured \<in> set outcomes then Captured else ConfirmedAbsent)"

definition execute_amd ::
    "('c, 'd, 'b, 'e) job_env \<Rightarrow> job_id \<Rightarrow> metric bset option \<Rightarrow> hardware_inventory \<Rightarrow> config \<Rightarrow>
     ('c, 'd, 'b) job_step" where
  "execute_amd env job metrics hw cfg x =
     (case hw_amd_gpu hw of
        None \<Rightarrow> (x, ConfirmedAbsent)
      | Some source \<Rightarrow>
          if source_device job \<noteq> Some (''amd:'' @ pci_identity source) then (x, ConfirmedAbsent)
          else
            let (x, now) = job_clock env x;
                (s, outcomes) = attempt_amd (je_files env) (amd_wanted (jid_kind job) metrics cfg) now
                                  (jo_amd_gpu (jr_owners x));
                x = with_owners (\<lambda>ow. ow\<lparr>jo_amd_gpu := s\<rparr>) x;
                samples = ag_samples s;
                x = with_readings (\<lambda>r. r\<lparr>ds_gpu_amd_usage := latest_value (ags_usage samples),
                      ds_gpu_amd_codec_usage := latest_value (ags_codec_usage samples),
                      ds_gpu_amd_mem_usage := latest_value (ags_memory samples),
                      ds_gpu_amd_freq := latest_value (ags_frequency samples),
                      ds_gpu_amd_temp := latest_value (ags_temperature samples),
                      ds_gpu_amd_power := latest_value (ags_power samples),
                      ds_gpu_amd_fan_speed := latest_value (ags_fan_speed samples)\<rparr>) x;
                x = (if map_of outcomes M_GpuAmdTemp = Some Status_Captured
                     then notify_with (\<lambda>n. n\<lparr>ds_gpu_amd_temp := latest_value (ags_temperature samples)\<rparr>) x
                     else x)
            in (x, outcomes_completion (map snd outcomes)))"

definition is_current_npu :: "job_id \<Rightarrow> hardware_inventory \<Rightarrow> bool" where
  "is_current_npu job hw \<longleftrightarrow>
     (case hw_amd_npu hw of None \<Rightarrow> False | Some source \<Rightarrow> source_device job = Some (npu_identity source))"

definition execute_npu ::
    "('c, 'd, 'b, 'e) job_env \<Rightarrow> job_id \<Rightarrow> hardware_inventory \<Rightarrow> ('c, 'd, 'b) job_step" where
  "execute_npu env job hw x =
     (if \<not> is_current_npu job hw then (x, ConfirmedAbsent)
      else
        let (x, now) = job_clock env x;
            s = sample_npu (je_blobs env) now (jo_amd_npu (jr_owners x));
            x = with_owners (\<lambda>ow. ow\<lparr>jo_amd_npu := s\<rparr>) x;
            samples = np_samples s;
            x = with_readings (\<lambda>r. r\<lparr>ds_npu_amd_usage := latest_value (nps_usage samples),
                  ds_npu_amd_power_mw := latest_value (nps_power_mw samples),
                  ds_npu_amd_freq := latest_value (nps_frequency samples)\<rparr>) x
        in (x, outcomes_completion [fst (retained_status (nps_usage samples)),
                 fst (retained_status (nps_power_mw samples)), fst (retained_status (nps_frequency samples))]))"

definition execute_npu_history ::
    "('c, 'd, 'b, 'e) job_env \<Rightarrow> job_id \<Rightarrow> hardware_inventory \<Rightarrow> config \<Rightarrow> duration option \<Rightarrow>
     ('c, 'd, 'b) job_step" where
  "execute_npu_history env job hw cfg deadline x =
     (if \<not> is_current_npu job hw then (x, ConfirmedAbsent)
      else
        (case sample_at_history_deadline (nps_usage (np_samples (jo_amd_npu (jr_owners x)))) deadline of
           None \<Rightarrow> (x, Baseline)
         | Some sample \<Rightarrow>
             let (x, t) = history_capture_time deadline env x;
                 s = append_npu_history (smp_value sample) t (nat (pages_graph_history_length (cf_pages cfg)))
                       (jo_amd_npu (jr_owners x));
                 x = with_owners (\<lambda>ow. ow\<lparr>jo_amd_npu := s\<rparr>) x
             in (with_readings (\<lambda>r. r\<lparr>ds_npu_amd_usage_history := np_usage_history s\<rparr>) x, Captured)))"

definition external_capability :: "job_kind \<Rightarrow> capability option" where
  "external_capability kind =
     (case kind of
        Job_Brightness \<Rightarrow> Some Cap_ScreenBrightness
      | Job_UpdatesFile \<Rightarrow> Some Cap_SystemUpdates
      | Job_ServerFile \<Rightarrow> Some Cap_ServerCheck
      | _ \<Rightarrow> None)"

text \<open>The other kinds are the unreachable branch, where nothing happens.\<close>

definition execute_external ::
    "('c, 'd, 'b, 'e) job_env \<Rightarrow> job_kind \<Rightarrow> config \<Rightarrow> ('c, 'd, 'b) job_step" where
  "execute_external env kind cfg x =
     (case external_capability kind of
        None \<Rightarrow> (x, ConfirmedAbsent)
      | Some capability \<Rightarrow>
          let (c, s, result) = attempt_external (je_files env) (je_entries env) (je_sys env) cfg [capability]
                 (monotonic_clock env) (jr_clock x) (jo_external (jr_owners x));
              x = with_owners (\<lambda>ow. ow\<lparr>jo_external := s\<rparr>) (x\<lparr>jr_clock := c\<rparr>)
          in if kind = Job_Brightness then
               (with_readings (\<lambda>r. r\<lparr>ds_screen_brightness := sample_value (xr_brightness result)\<rparr>) x,
                completion_of (ar_status (xr_brightness result)))
             else if kind = Job_UpdatesFile then
               (with_readings (\<lambda>r. r\<lparr>ds_system_updates := sample_value (xr_updates result)\<rparr>) x,
                completion_of (ar_status (xr_updates result)))
             else
               let x = (if ar_status (xr_server result) = Status_Captured
                        then notify_with (\<lambda>n. n\<lparr>ds_server_ok := current_value (xr_server result)\<rparr>) x else x)
               in (with_readings (\<lambda>r. r\<lparr>ds_server_ok := sample_value (xr_server result)\<rparr>) x,
                   completion_of (ar_status (xr_server result))))"

section \<open>The dispatch\<close>

record job_execution =
  jx_completion :: completion_kind
  jx_notification_ready :: bool
  jx_notifications :: display_snapshot

definition run_job ::
    "(job_kind \<Rightarrow> ('c, 'd, 'b) job_step) \<Rightarrow> ('c, 'd, 'b, 'e) job_env \<Rightarrow> job_id \<Rightarrow> metric bset option \<Rightarrow>
     duration option \<Rightarrow> hardware_inventory \<Rightarrow> config \<Rightarrow> capability bset \<Rightarrow> ('c, 'd, 'b) job_run \<Rightarrow>
     (('c, 'd, 'b) job_run \<times> completion_kind) option" where
  "run_job other env job metrics deadline hw cfg caps x =
     (case jid_kind job of
        Job_Cpu \<Rightarrow> Some (execute_cpu env hw caps x)
      | Job_CpuHistory \<Rightarrow> Some (execute_cpu_history env hw cfg deadline x)
      | Job_CpuCores \<Rightarrow> Some (execute_cpu_cores env x)
      | Job_CpuCoreHistory \<Rightarrow> Some (execute_cpu_core_history env cfg deadline x)
      | Job_Memory \<Rightarrow> Some (execute_memory env caps x)
      | Job_MemoryHistory \<Rightarrow> Some (execute_memory_history env cfg deadline x)
      | Job_NetworkRate \<Rightarrow>
          (case source_device job of Some device \<Rightarrow> Some (execute_network_rate env device x) | None \<Rightarrow> None)
      | Job_NetworkHistory \<Rightarrow> Some (execute_network_history env cfg deadline x)
      | Job_DiskIo \<Rightarrow>
          (case source_device job of Some device \<Rightarrow> Some (execute_disk_io env device x) | None \<Rightarrow> None)
      | Job_DiskIoHistory \<Rightarrow> Some (execute_disk_io_history env cfg deadline x)
      | Job_DiskUsage \<Rightarrow>
          (case jid_source job of Mount path \<Rightarrow> Some (execute_disk_usage env path x) | _ \<Rightarrow> None)
      | Job_Smart \<Rightarrow>
          (case jid_source job of
             SmartDrive label object_path \<Rightarrow> execute_smart env hw label object_path x | _ \<Rightarrow> None)
      | Job_DiskTemperature \<Rightarrow>
          (case jid_source job of
             NamedPath name path \<Rightarrow> Some (execute_disk_temperature env name path x) | _ \<Rightarrow> None)
      | Job_FanSpeed \<Rightarrow>
          (case jid_source job of NamedPath name path \<Rightarrow> Some (execute_fan_speed env name path x) | _ \<Rightarrow> None)
      | Job_SystemBattery \<Rightarrow>
          (case jid_source job of BatterySource i \<Rightarrow> Some (execute_system_battery env i x) | _ \<Rightarrow> None)
      | Job_PeripheralBattery \<Rightarrow>
          (case jid_source job of
             Peripheral role source \<Rightarrow> Some (execute_peripheral env cfg role source x)
           | _ \<Rightarrow> Some (x, ConfirmedAbsent))
      | Job_NetworkIdentity \<Rightarrow> Some (execute_network_identity env x)
      | Job_AmdFast \<Rightarrow> Some (execute_amd env job metrics hw cfg x)
      | Job_AmdSlow \<Rightarrow> Some (execute_amd env job metrics hw cfg x)
      | Job_AmdNpu \<Rightarrow> Some (execute_npu env job hw x)
      | Job_AmdNpuHistory \<Rightarrow> Some (execute_npu_history env job hw cfg deadline x)
      | Job_Brightness \<Rightarrow> Some (execute_external env Job_Brightness cfg x)
      | Job_UpdatesFile \<Rightarrow> Some (execute_external env Job_UpdatesFile cfg x)
      | Job_ServerFile \<Rightarrow> Some (execute_external env Job_ServerFile cfg x)
      | Job_PageCommand \<Rightarrow> Some (x, ConfirmedAbsent)
      | Job_PageRender \<Rightarrow> Some (x, ConfirmedAbsent)
      | Job_HardwareDiscovery \<Rightarrow> Some (x, ConfirmedAbsent)
      | Job_MountInventory \<Rightarrow> Some (x, ConfirmedAbsent)
      | kind \<Rightarrow> Some (other kind x))"

text \<open>An early return (\<open>absent\<close>) is \<open>None\<close> above.\<close>

definition execute_scheduled_job ::
    "(job_kind \<Rightarrow> ('c, 'd, 'b) job_step) \<Rightarrow> ('c, 'd, 'b, 'e) job_env \<Rightarrow> job_id \<Rightarrow> metric bset option \<Rightarrow>
     duration option \<Rightarrow> config \<Rightarrow> ('c, 'd, 'b) job_run \<Rightarrow> ('c, 'd, 'b) job_run \<times> job_execution" where
  "execute_scheduled_job other env job metrics deadline cfg x =
     (let hw = jr_hw x;
          caps = configured_capabilities cfg;
          x = with_owners (reconcile_owners hw cfg caps) x;
          x = x\<lparr>jr_notifications := display_snapshot_default\<rparr>
      in case run_job other env job metrics deadline hw cfg caps x of
           None \<Rightarrow>
             (x, \<lparr>jx_completion = ConfirmedAbsent, jx_notification_ready = False,
                  jx_notifications = jr_notifications x\<rparr>)
         | Some (x, completion) \<Rightarrow>
             let (c, now) = je_now env (jr_clock x);
                 x = notify_with (\<lambda>n. n\<lparr>ds_assembled_at := now\<rparr>) (x\<lparr>jr_clock := c\<rparr>)
             in (x, \<lparr>jx_completion = completion,
                     jx_notification_ready = has_notification_sample (jr_notifications x),
                     jx_notifications = jr_notifications x\<rparr>))"

section \<open>Invalidation\<close>

text \<open>
  \<open>reset_counter_baseline\<close> and \<open>src/sensors/scheduled/invalidation.rs\<close>. The owners of NVIDIA and Intel
  processors, processes and the history of the selected GPU are not in \<open>job_owners\<close>: for them only the readings
  change here.
\<close>

definition reset_counter_baseline :: "job_id \<Rightarrow> job_owners \<Rightarrow> job_owners" where
  "reset_counter_baseline job ow =
     (case jid_kind job of
        Job_Cpu \<Rightarrow> ow\<lparr>jo_cpu := (jo_cpu ow)\<lparr>cs_prev_times := []\<rparr>\<rparr>
      | Job_CpuCores \<Rightarrow> ow\<lparr>jo_cpu := (jo_cpu ow)\<lparr>cs_core_prev_times := []\<rparr>\<rparr>
      | Job_NetworkRate \<Rightarrow> ow\<lparr>jo_network := invalidate_rate_baseline (jo_network ow)\<rparr>
      | Job_DiskIo \<Rightarrow> ow\<lparr>jo_disk := invalidate_io_baseline (jo_disk ow)\<rparr>
      | _ \<Rightarrow> ow)"

definition invalidate_cpu :: "cpu_state \<Rightarrow> cpu_state" where
  "invalidate_cpu s =
     s\<lparr>cs_usage := invalidate (cs_usage s), cs_temperature := invalidate (cs_temperature s),
       cs_frequency_mhz := invalidate (cs_frequency_mhz s), cs_turbo := invalidate (cs_turbo s),
       cs_uptime_seconds := invalidate (cs_uptime_seconds s),
       cs_load_average := invalidate (cs_load_average s), cs_prev_times := [], cs_temp_history := []\<rparr>"

definition invalidate_owner :: "(path \<Rightarrow> string) \<Rightarrow> job_id \<Rightarrow> job_owners \<Rightarrow> job_owners" where
  "invalidate_owner lossy job ow =
     (let cpu = jo_cpu ow; mem = jo_memory ow; net = jo_network ow; disk = jo_disk ow; pow = jo_power ow;
          ext = jo_external ow in
      case jid_kind job of
        Job_Cpu \<Rightarrow> ow\<lparr>jo_cpu := invalidate_cpu cpu\<rparr>
      | Job_CpuCores \<Rightarrow>
          ow\<lparr>jo_cpu := cpu\<lparr>cs_core_usage := invalidate (cs_core_usage cpu), cs_core_prev_times := []\<rparr>\<rparr>
      | Job_CpuHistory \<Rightarrow>
          ow\<lparr>jo_cpu := cpu\<lparr>cs_history := [], cs_history_sample_at := None, cs_temp_history := [],
                             cs_gpu_temp_history := []\<rparr>\<rparr>
      | Job_CpuCoreHistory \<Rightarrow> ow\<lparr>jo_cpu := cpu\<lparr>cs_core_history := [], cs_core_history_sample_at := None\<rparr>\<rparr>
      | Job_Memory \<Rightarrow>
          ow\<lparr>jo_memory := mem\<lparr>mst_usage := invalidate (mst_usage mem),
                                mst_swap_usage := invalidate (mst_swap_usage mem)\<rparr>\<rparr>
      | Job_MemoryHistory \<Rightarrow> ow\<lparr>jo_memory := mem\<lparr>mst_history := [], mst_history_sample_at := None\<rparr>\<rparr>
      | Job_NetworkRate \<Rightarrow> ow\<lparr>jo_network := reset_rate net\<rparr>
      | Job_NetworkIdentity \<Rightarrow> ow\<lparr>jo_network := reset_info net\<rparr>
      | Job_NetworkHistory \<Rightarrow> ow\<lparr>jo_network := reset_history net\<rparr>
      | Job_DiskIo \<Rightarrow> ow\<lparr>jo_disk := reset_io disk\<rparr>
      | Job_DiskIoHistory \<Rightarrow> ow\<lparr>jo_disk := reset_io_history disk\<rparr>
      | Job_DiskUsage \<Rightarrow>
          (case jid_source job of
             Mount path \<Rightarrow> ow\<lparr>jo_disk := disk\<lparr>dst_usage := bm_remove (lossy path) (dst_usage disk)\<rparr>\<rparr>
           | _ \<Rightarrow> ow)
      | Job_Smart \<Rightarrow>
          (case jid_source job of
             SmartDrive label object_path \<Rightarrow>
               ow\<lparr>jo_disk := disk\<lparr>dst_smart_cache := bm_remove label (dst_smart_cache disk),
                                    dst_smart_sources := bm_remove label (dst_smart_sources disk)\<rparr>\<rparr>
           | _ \<Rightarrow> ow)
      | Job_DiskTemperature \<Rightarrow>
          (case jid_source job of
             NamedPath name path \<Rightarrow>
               ow\<lparr>jo_disk := disk\<lparr>dst_hd_temp_cache := bm_remove name (dst_hd_temp_cache disk),
                                    dst_hd_temp_sources := bm_remove name (dst_hd_temp_sources disk)\<rparr>\<rparr>
           | _ \<Rightarrow> ow)
      | Job_FanSpeed \<Rightarrow>
          (case jid_source job of
             NamedPath name path \<Rightarrow>
               ow\<lparr>jo_disk := disk\<lparr>dst_fan_speed_cache := bm_remove name (dst_fan_speed_cache disk),
                                    dst_fan_speed_sources := bm_remove name (dst_fan_speed_sources disk)\<rparr>\<rparr>
           | _ \<Rightarrow> ow)
      | Job_SystemBattery \<Rightarrow>
          (case jid_source job of
             BatterySource i \<Rightarrow>
               ow\<lparr>jo_power := pow\<lparr>pst_battery_sys_cache := bm_remove i (pst_battery_sys_cache pow)\<rparr>\<rparr>
           | _ \<Rightarrow> ow)
      | Job_PeripheralBattery \<Rightarrow>
          (case jid_source job of
             Peripheral Role_Mouse source \<Rightarrow>
               ow\<lparr>jo_power := pow\<lparr>pst_battery_mouse_cache := battery_peripheral_cache_default\<rparr>\<rparr>
           | Peripheral Role_Keyboard source \<Rightarrow>
               ow\<lparr>jo_power := pow\<lparr>pst_battery_kbd_cache := battery_peripheral_cache_default\<rparr>\<rparr>
           | _ \<Rightarrow> ow)
      | Job_AmdFast \<Rightarrow> ow\<lparr>jo_amd_gpu := invalidate_amd FAST_METRICS (jo_amd_gpu ow)\<rparr>
      | Job_AmdSlow \<Rightarrow> ow\<lparr>jo_amd_gpu := invalidate_amd SLOW_METRICS (jo_amd_gpu ow)\<rparr>
      | Job_AmdNpu \<Rightarrow> ow\<lparr>jo_amd_npu := invalidate_npu (jo_amd_npu ow)\<rparr>
      | Job_AmdNpuHistory \<Rightarrow> ow\<lparr>jo_amd_npu := reset_npu_history (jo_amd_npu ow)\<rparr>
      | Job_Brightness \<Rightarrow> ow\<lparr>jo_external := ext\<lparr>ext_brightness := invalidate (ext_brightness ext)\<rparr>\<rparr>
      | Job_UpdatesFile \<Rightarrow>
          ow\<lparr>jo_external := ext\<lparr>ext_updates := invalidate (ext_updates ext), ext_updates_source := None\<rparr>\<rparr>
      | Job_ServerFile \<Rightarrow>
          ow\<lparr>jo_external := ext\<lparr>ext_server := invalidate (ext_server ext), ext_server_source := None\<rparr>\<rparr>
      | _ \<Rightarrow> ow)"

text \<open>A metric that is not of an AMD card is the unreachable branch, \<open>None\<close>.\<close>

definition invalidate_amd_metric :: "metric \<Rightarrow> display_snapshot \<Rightarrow> display_snapshot option" where
  "invalidate_amd_metric m r =
     (case m of
        M_GpuAmdUsage \<Rightarrow> Some (r\<lparr>ds_gpu_amd_usage := None\<rparr>)
      | M_GpuAmdCodecUsage \<Rightarrow> Some (r\<lparr>ds_gpu_amd_codec_usage := None\<rparr>)
      | M_GpuAmdMemUsage \<Rightarrow> Some (r\<lparr>ds_gpu_amd_mem_usage := None\<rparr>)
      | M_GpuAmdFreq \<Rightarrow> Some (r\<lparr>ds_gpu_amd_freq := None\<rparr>)
      | M_GpuAmdTemp \<Rightarrow> Some (r\<lparr>ds_gpu_amd_temp := None\<rparr>)
      | M_GpuAmdPower \<Rightarrow> Some (r\<lparr>ds_gpu_amd_power := None\<rparr>)
      | M_GpuAmdFanSpeed \<Rightarrow> Some (r\<lparr>ds_gpu_amd_fan_speed := None\<rparr>)
      | _ \<Rightarrow> None)"

definition invalidate_readings :: "(path \<Rightarrow> string) \<Rightarrow> job_id \<Rightarrow> display_snapshot \<Rightarrow> display_snapshot" where
  "invalidate_readings lossy job r =
     (case jid_kind job of
        Job_Cpu \<Rightarrow>
          r\<lparr>ds_cpu_usage := None, ds_cpu_temp := None, ds_cpu_temp_history := [], ds_cpu_freq_mhz := None,
            ds_cpu_turbo := None, ds_uptime_seconds := None, ds_load_average := None\<rparr>
      | Job_CpuCores \<Rightarrow> r\<lparr>ds_cpu_core_usage := None\<rparr>
      | Job_CpuHistory \<Rightarrow> r\<lparr>ds_cpu_history := [], ds_cpu_temp_history := [], ds_gpu_temp_history := []\<rparr>
      | Job_CpuCoreHistory \<Rightarrow> r\<lparr>ds_cpu_core_history := None\<rparr>
      | Job_Memory \<Rightarrow>
          r\<lparr>ds_mem_usage := None, ds_mem_used_gib := None, ds_mem_total_gib := None, ds_swap_usage := None\<rparr>
      | Job_MemoryHistory \<Rightarrow> r\<lparr>ds_mem_history := []\<rparr>
      | Job_NetworkRate \<Rightarrow> r\<lparr>ds_net_up_bps := None, ds_net_down_bps := None\<rparr>
      | Job_NetworkIdentity \<Rightarrow>
          r\<lparr>ds_net_device := None, ds_ip_address := None, ds_wifi_ssid := None, ds_wifi_signal_percent := None\<rparr>
      | Job_NetworkHistory \<Rightarrow> r\<lparr>ds_net_up_history := [], ds_net_down_history := []\<rparr>
      | Job_DiskIo \<Rightarrow> r\<lparr>ds_disk_read_bps := None, ds_disk_write_bps := None\<rparr>
      | Job_DiskIoHistory \<Rightarrow> r\<lparr>ds_disk_read_history := [], ds_disk_write_history := []\<rparr>
      | Job_DiskUsage \<Rightarrow>
          (case jid_source job of
             Mount path \<Rightarrow> r\<lparr>ds_disk_usage := bm_remove (lossy path) (ds_disk_usage r)\<rparr> | _ \<Rightarrow> r)
      | Job_Smart \<Rightarrow>
          (case jid_source job of
             SmartDrive label object_path \<Rightarrow> r\<lparr>ds_disk_smart := bm_remove label (ds_disk_smart r)\<rparr> | _ \<Rightarrow> r)
      | Job_DiskTemperature \<Rightarrow>
          (case jid_source job of
             NamedPath name path \<Rightarrow> r\<lparr>ds_hd_temps := bm_remove name (ds_hd_temps r)\<rparr> | _ \<Rightarrow> r)
      | Job_FanSpeed \<Rightarrow>
          (case jid_source job of
             NamedPath name path \<Rightarrow> r\<lparr>ds_fan_speeds := bm_remove name (ds_fan_speeds r)\<rparr> | _ \<Rightarrow> r)
      | Job_SystemBattery \<Rightarrow>
          (case jid_source job of
             BatterySource i \<Rightarrow> r\<lparr>ds_battery_sys := filter (\<lambda>b. bs_id b \<noteq> i) (ds_battery_sys r)\<rparr> | _ \<Rightarrow> r)
      | Job_PeripheralBattery \<Rightarrow>
          (case jid_source job of Peripheral role source \<Rightarrow> set_peripheral role None r | _ \<Rightarrow> r)
      | Job_NvidiaNvml \<Rightarrow>
          r\<lparr>ds_gpu_temp := None, ds_gpu_usage := None, ds_gpu_mem := None, ds_gpu_dec := None, ds_gpu_fan := None\<rparr>
      | Job_NvidiaFallback \<Rightarrow>
          r\<lparr>ds_gpu_temp := None, ds_gpu_usage := None, ds_gpu_mem := None, ds_gpu_dec := None, ds_gpu_fan := None\<rparr>
      | Job_AmdFast \<Rightarrow>
          r\<lparr>ds_gpu_amd_usage := None, ds_gpu_amd_codec_usage := None, ds_gpu_amd_mem_usage := None,
            ds_gpu_amd_freq := None\<rparr>
      | Job_AmdSlow \<Rightarrow> r\<lparr>ds_gpu_amd_temp := None, ds_gpu_amd_power := None, ds_gpu_amd_fan_speed := None\<rparr>
      | Job_AmdNpu \<Rightarrow> r\<lparr>ds_npu_amd_usage := None, ds_npu_amd_power_mw := None, ds_npu_amd_freq := None\<rparr>
      | Job_AmdNpuHistory \<Rightarrow> r\<lparr>ds_npu_amd_usage_history := []\<rparr>
      | Job_IntelFrequency \<Rightarrow> r\<lparr>ds_gpu_intel_freq := None\<rparr>
      | Job_IntelUsage \<Rightarrow> r\<lparr>ds_gpu_intel_usage := None, ds_gpu_intel_dec_usage := None\<rparr>
      | Job_GpuHistory \<Rightarrow> r\<lparr>ds_gpu_usage_history := [], ds_gpu_dec_history := []\<rparr>
      | Job_PanelProcesses \<Rightarrow> r\<lparr>ds_top_process := None\<rparr>
      | Job_PageProcesses \<Rightarrow> r\<lparr>ds_top_process_full := None\<rparr>
      | Job_Brightness \<Rightarrow> r\<lparr>ds_screen_brightness := None\<rparr>
      | Job_UpdatesFile \<Rightarrow> r\<lparr>ds_system_updates := None\<rparr>
      | Job_ServerFile \<Rightarrow> r\<lparr>ds_server_ok := None\<rparr>
      | Job_PageCommand \<Rightarrow> r | Job_PageRender \<Rightarrow> r | Job_HardwareDiscovery \<Rightarrow> r | Job_MountInventory \<Rightarrow> r)"

text \<open>With a set of metrics only these are invalidated, in the order of the set.\<close>

definition invalidate_scheduled_job ::
    "(path \<Rightarrow> string) \<Rightarrow> job_id \<Rightarrow> metric bset option \<Rightarrow> job_owners \<Rightarrow> display_snapshot \<Rightarrow>
     (job_owners \<times> display_snapshot) option" where
  "invalidate_scheduled_job lossy job metrics ow r =
     (case metrics of
        Some ms \<Rightarrow>
          map_option (\<lambda>r. (ow\<lparr>jo_amd_gpu := invalidate_amd ms (jo_amd_gpu ow)\<rparr>, r)) (fold (\<lambda>m r. Option.bind r (invalidate_amd_metric m)) ms (Some r))
      | None \<Rightarrow> Some (invalidate_owner lossy job ow, invalidate_readings lossy job r))"

end
