(* ===== verification/JobProps.thy ===== *)
theory JobProps
  imports Jobs CatalogProps
begin

text \<open>
  What the execution of a job promises, for the kinds that are modelled: it changes the readings of its owner only, what it hands to the
  notifications was captured in this very attempt, and a history point comes from a sample that was
  there at the deadline.
\<close>

section \<open>Readings of one owner\<close>

text \<open>Merging the owner's readings of \<open>r'\<close> into \<open>r\<close> gives all of \<open>r'\<close>.\<close>

definition owned :: "owner_id \<Rightarrow> display_snapshot \<Rightarrow> display_snapshot \<Rightarrow> bool" where
  "owned own r r' \<longleftrightarrow> apply_owner_readings own r' r = r'"

lemma owned_refl: "owned own r r"
  unfolding owned_def by (cases own; cases r) simp_all

lemma owned_update:
  assumes "owned own r r'"
    and "apply_owner_readings own (f r') r = f (apply_owner_readings own r' r)"
  shows "owned own r (f r')"
  using assms by (simp add: owned_def)

lemma owned_step:
  assumes "owned own r (jr_readings x)"
    and "\<And>r'. apply_owner_readings own (f r') r = f (apply_owner_readings own r' r)"
  shows "owned own r (jr_readings (with_readings f x))"
  using owned_update [OF assms(1), of f] assms(2) by (simp add: with_readings_def)

lemma readings_frames [simp]:
  "jr_readings (with_owners f x) = jr_readings x"
  "jr_readings (notify_with g x) = jr_readings x"
  "jr_readings (x\<lparr>jr_hw := hw\<rparr>) = jr_readings x"
  "jr_readings (fst (job_clock env x)) = jr_readings x"
  "jr_readings (fst (history_capture_time deadline env x)) = jr_readings x"
  by (simp_all add: with_owners_def notify_with_def job_clock_def history_capture_time_def Let_def
      split: prod.split option.split)

lemma tick_readings: "job_clock env x = (x', t) \<Longrightarrow> jr_readings x' = jr_readings x"
  using readings_frames(4) by (metis fst_conv)

lemma capture_readings: "history_capture_time deadline env x = (x', t) \<Longrightarrow> jr_readings x' = jr_readings x"
  using readings_frames(5) by (metis fst_conv)

lemma cpu_owned:
  "owned Own_Cpu (jr_readings x) (jr_readings (fst (execute_cpu env hw caps x)))"
  "owned Own_Cpu (jr_readings x) (jr_readings (fst (execute_cpu_cores env x)))"
  "owned Own_Cpu (jr_readings x) (jr_readings (fst (execute_cpu_history env hw cfg deadline x)))"
  "owned Own_Cpu (jr_readings x) (jr_readings (fst (execute_cpu_core_history env cfg deadline x)))"
  by (auto simp: execute_cpu_def execute_cpu_cores_def execute_cpu_history_def execute_cpu_core_history_def
      owned_refl tick_readings capture_readings Let_def split: prod.split option.split intro!: owned_step)

lemma memory_owned:
  "owned Own_Memory (jr_readings x) (jr_readings (fst (execute_memory env caps x)))"
  "owned Own_Memory (jr_readings x) (jr_readings (fst (execute_memory_history env cfg deadline x)))"
  by (auto simp: execute_memory_def execute_memory_history_def owned_refl capture_readings Let_def
      split: prod.split option.split intro!: owned_step)

lemma network_owned:
  "owned Own_Network (jr_readings x) (jr_readings (fst (execute_network_rate env device x)))"
  "owned Own_Network (jr_readings x) (jr_readings (fst (execute_network_history env cfg deadline x)))"
  by (auto simp: execute_network_rate_def execute_network_history_def owned_refl tick_readings
      capture_readings Let_def split: prod.split option.split intro!: owned_step)

lemma network_identity_owned:
  "owned Own_Network (jr_readings x) (jr_readings (fst (execute_network_identity env x)))"
  by (auto simp: execute_network_identity_def owned_refl Let_def split: prod.split option.split
      intro!: owned_step)

lemma amd_owned:
  "owned Own_AmdGpu (jr_readings x) (jr_readings (fst (execute_amd env job metrics hw cfg x)))"
  by (auto simp: execute_amd_def owned_refl tick_readings Let_def split: prod.split option.split
      intro!: owned_step)

lemma npu_owned:
  "owned Own_AmdNpu (jr_readings x) (jr_readings (fst (execute_npu env job hw x)))"
  "owned Own_AmdNpu (jr_readings x) (jr_readings (fst (execute_npu_history env job hw cfg deadline x)))"
  by (auto simp: execute_npu_def execute_npu_history_def owned_refl tick_readings capture_readings Let_def
      split: prod.split option.split intro!: owned_step)

lemma external_owned:
  "owned Own_External (jr_readings x) (jr_readings (fst (execute_external env kind cfg x)))"
  by (auto simp: execute_external_def owned_refl Let_def split: prod.split option.split intro!: owned_step)

lemma disk_io_owned:
  "owned Own_Disk (jr_readings x) (jr_readings (fst (execute_disk_io env device x)))"
  "owned Own_Disk (jr_readings x) (jr_readings (fst (execute_disk_io_history env cfg deadline x)))"
  by (auto simp: execute_disk_io_def execute_disk_io_history_def owned_refl tick_readings
      capture_readings Let_def split: prod.split option.split intro!: owned_step)

lemma if_notify [simp]:
  "jr_readings (if b then notify_with f x else x) = jr_readings x"
  by simp

lemma disk_owned:
  "owned Own_Disk (jr_readings x) (jr_readings (fst (execute_disk_usage env path x)))"
  "owned Own_Disk (jr_readings x) (jr_readings (fst (execute_disk_temperature env name path x)))"
  "owned Own_Disk (jr_readings x) (jr_readings (fst (execute_fan_speed env name path x)))"
  by (auto simp: execute_disk_usage_def execute_disk_temperature_def execute_fan_speed_def owned_refl
      tick_readings Let_def split: prod.split option.split intro!: owned_step)

lemma smart_owned:
  "execute_smart env hw label object_path x = Some (x', c) \<Longrightarrow> owned Own_Disk (jr_readings x) (jr_readings x')"
  by (auto simp: execute_smart_def owned_refl tick_readings Let_def
      split: prod.splits option.splits if_splits intro!: owned_step)

lemma battery_owned:
  "owned Own_Power (jr_readings x) (jr_readings (fst (execute_system_battery env bat_id x)))"
  by (auto simp: execute_system_battery_def owned_refl tick_readings Let_def
      split: prod.split option.split intro!: owned_step)

lemma peripheral_owned:
  "owned Own_Power (jr_readings x) (jr_readings (fst (execute_peripheral env cfg role source x)))"
  by (auto simp: execute_peripheral_def set_peripheral_def owned_refl tick_readings Let_def
      split: prod.split option.split peripheral_role.split peripheral_source.split intro!: owned_step)

section \<open>The job keeps to its owner\<close>

text \<open>The kinds whose execution is modelled.\<close>

definition modelled_kinds :: "job_kind list" where
  "modelled_kinds =
     [Job_Cpu, Job_CpuHistory, Job_CpuCores, Job_CpuCoreHistory, Job_Memory, Job_MemoryHistory,
      Job_NetworkRate, Job_NetworkIdentity, Job_NetworkHistory, Job_DiskIo, Job_DiskIoHistory, Job_DiskUsage, Job_Smart,
      Job_DiskTemperature, Job_FanSpeed, Job_SystemBattery, Job_PeripheralBattery, Job_AmdFast,
      Job_AmdSlow, Job_AmdNpu, Job_AmdNpuHistory, Job_Brightness, Job_UpdatesFile, Job_ServerFile,
      Job_PageCommand, Job_PageRender, Job_HardwareDiscovery, Job_MountInventory]"

lemmas jobs_owned = cpu_owned memory_owned network_owned disk_io_owned disk_owned battery_owned peripheral_owned
  network_identity_owned amd_owned npu_owned external_owned owned_refl

definition keeps_to :: "owner_id \<Rightarrow> ('c, 'd, 'b) job_run \<Rightarrow> (('c, 'd, 'b) job_run \<times> completion_kind) option \<Rightarrow> bool" where
  "keeps_to own x p \<longleftrightarrow> (\<forall>y. p = Some y \<longrightarrow> owned own (jr_readings x) (jr_readings (fst y)))"

lemma keeps_to_simps [simp]:
  "keeps_to own x None"
  "keeps_to own x (Some p) \<longleftrightarrow> owned own (jr_readings x) (jr_readings (fst p))"
  by (simp_all add: keeps_to_def)

lemma smart_keeps_to: "keeps_to Own_Disk x (execute_smart env hw label object_path x)"
  using smart_owned by (fastforce simp: keeps_to_def)

lemma run_job_owned:
  assumes "jid_kind job \<in> set modelled_kinds"
  shows "keeps_to (kind_owner (jid_kind job)) x (run_job other env job metrics deadline hw cfg caps x)"
  using assms
  by (simp only: modelled_kinds_def list.set insert_iff empty_iff, elim disjE FalseE;
      simp add: run_job_def kind_owner_def jobs_owned smart_keeps_to split: source_identity.split option.split)

lemma invalidation_owned: "owned (kind_owner (jid_kind job)) r (invalidate_readings lossy job r)"
  by (cases "jid_kind job"; cases "jid_source job")
    (simp_all add: invalidate_readings_def kind_owner_def owned_def set_peripheral_def split: peripheral_role.split)

lemma kinds_modelled:
  "kind \<notin> {Job_NvidiaNvml, Job_NvidiaFallback, Job_IntelFrequency, Job_IntelUsage, Job_GpuHistory,
     Job_PanelProcesses, Job_PageProcesses} \<Longrightarrow> kind \<in> set modelled_kinds"
  by (cases kind) (simp_all add: modelled_kinds_def)

text \<open>
  C33. A job of one of the 28 kinds that are modelled - those of the CPU, memory, network, disk, power, AMD,
  external, page and inventory owners - changes the readings of its owner only: merging the owner's
  readings of the snapshot afterwards into the snapshot before, as the daemon does when the job completes,
  gives the whole snapshot afterwards. So does the invalidation of a job of any of the 35 kinds. Nothing is
  said of running the seven other kinds (NVIDIA, Intel, graphics history, processes), whose readers are a
  parameter of the model.
\<close>

theorem job_keeps_to_its_owner:
  assumes "jid_kind job \<notin> {Job_NvidiaNvml, Job_NvidiaFallback, Job_IntelFrequency, Job_IntelUsage, Job_GpuHistory,
        Job_PanelProcesses, Job_PageProcesses}"
  shows "apply_owner_readings (kind_owner (jid_kind job))
           (jr_readings (fst (execute_scheduled_job other env job metrics deadline cfg x))) (jr_readings x) =
         jr_readings (fst (execute_scheduled_job other env job metrics deadline cfg x)) \<and>
         apply_owner_readings (kind_owner (jid_kind any)) (invalidate_readings lossy any r) r =
         invalidate_readings lossy any r"
proof -
  let ?x = "(with_owners (reconcile_owners (jr_hw x) cfg (configured_capabilities cfg)) x)
              \<lparr>jr_notifications := display_snapshot_default\<rparr>"
  have "owned (kind_owner (jid_kind job)) (jr_readings x)
          (jr_readings (fst (execute_scheduled_job other env job metrics deadline cfg x)))"
  proof (cases "run_job other env job metrics deadline (jr_hw x) cfg (configured_capabilities cfg) ?x")
    case None
    then show ?thesis
      by (simp add: execute_scheduled_job_def Let_def owned_refl)
  next
    case (Some p)
    then obtain x' c where "run_job other env job metrics deadline (jr_hw x) cfg (configured_capabilities cfg) ?x = Some (x', c)"
      by (cases p) auto
    moreover from this run_job_owned [OF kinds_modelled [OF assms], of ?x other env metrics deadline "jr_hw x" cfg "configured_capabilities cfg"]
    have "owned (kind_owner (jid_kind job)) (jr_readings x) (jr_readings x')"
      by simp
    ultimately show ?thesis
      by (simp add: execute_scheduled_job_def Let_def split: prod.split)
  qed
  with invalidation_owned [of any r lossy] show ?thesis
    by (simp add: owned_def)
qed

text \<open>A machine with one file: the temperature of a disk.\<close>

definition demo_power_floats :: power_floats where
  "demo_power_floats =
     \<lparr>fo_ge = (\<lambda>a b. b \<le> a), fo_div = (\<lambda>a b. a div b), fo_of_int = of_int, fo_to_i32 = sint,
      fo_fixed = (\<lambda>d v. []), sf_parse = (\<lambda>t. None), sf_to_i64 = sint, pw_finite = (\<lambda>v. True),
      pw_negative = (\<lambda>v. False), pw_floor = id, pw_sub = minus, pw_lt = (<)\<rparr>"

definition demo_job_env :: "(duration, unit, unit, unit) job_env" where
  "demo_job_env =
     \<lparr>je_floats = demo_power_floats,
      je_files = (\<lambda>path. if path = [NormalComp ''temp1_input''] then Some (lit ''41000'') else None),
      je_blobs = (\<lambda>path. None), je_entries = (\<lambda>path. None), je_exists = (\<lambda>path. Some False),
      je_proc = [RootDir, NormalComp ''proc''], je_sys = [RootDir, NormalComp ''sys''],
      je_statvfs = (\<lambda>mount. None), je_lossy = (\<lambda>path. []),
      je_now = (\<lambda>t. (t + 1, \<lparr>cs_monotonic = t, cs_wall = 0\<rparr>)),
      je_commands = (\<lambda>d program args. (d, None)),
      je_upower = (\<lambda>d i. (d, None)),
      je_smart = \<lparr>sb_update = (\<lambda>d p k. (d, False)), sb_property = (\<lambda>d p k. (d, None))\<rparr>,
      je_bolt = None\<rparr>"

definition demo_owners :: job_owners where
  "demo_owners =
     \<lparr>jo_cpu = cpu_state_default,
      jo_memory = \<lparr>mst_usage = retained_default, mst_swap_usage = retained_default, mst_history = [],
                   mst_history_sample_at = None\<rparr>,
      jo_network = network_state_default, jo_disk = disk_state_default,
      jo_power = \<lparr>pst_battery_sys_cache = [], pst_battery_mouse_cache = battery_peripheral_cache_default,
                  pst_battery_kbd_cache = battery_peripheral_cache_default\<rparr>,
      jo_amd_gpu = \<lparr>ag_source = None, ag_samples = amd_gpu_samples_default\<rparr>,
      jo_amd_npu = \<lparr>np_source = None, np_samples = npu_samples_default, np_usage_history = [],
                    np_history_sample_at = None\<rparr>,
      jo_external = \<lparr>ext_brightness = retained_default, ext_updates = retained_default,
                     ext_updates_source = None, ext_server = retained_default, ext_server_source = None\<rparr>\<rparr>"

definition demo_job_run :: "(duration, unit, unit) job_run" where
  "demo_job_run =
     \<lparr>jr_owners = demo_owners, jr_clock = 0, jr_dbus = (), jr_hw = hardware_inventory_default, jr_bolt = (), jr_readings = display_snapshot_default,
      jr_notifications = display_snapshot_default\<rparr>"

definition demo_disk_job :: job_id where
  "demo_disk_job = JobId Own_Disk Job_DiskTemperature (NamedPath ''sda'' [NormalComp ''temp1_input''])"

lemma demo_hw: "jr_hw demo_job_run = hardware_inventory_default"
  by (simp add: demo_job_run_def)

lemma demo_disk_kind: "jid_kind demo_disk_job = Job_DiskTemperature"
  by (simp add: demo_disk_job_def)

lemma job_keeps_to_its_owner_witness:
  "apply_owner_readings Own_Disk
     (jr_readings (fst (execute_scheduled_job (\<lambda>k x. (x, Failed)) demo_job_env demo_disk_job None None
        config_default demo_job_run))) (jr_readings demo_job_run) =
   jr_readings (fst (execute_scheduled_job (\<lambda>k x. (x, Failed)) demo_job_env demo_disk_job None None
        config_default demo_job_run)) \<and>
   apply_owner_readings Own_Disk (invalidate_readings (\<lambda>path. []) demo_disk_job display_snapshot_default)
     display_snapshot_default =
   invalidate_readings (\<lambda>path. []) demo_disk_job display_snapshot_default"
  using job_keeps_to_its_owner [of demo_disk_job "\<lambda>k x. (x, Failed)" demo_job_env None None
      config_default demo_job_run demo_disk_job "\<lambda>path. []" display_snapshot_default]
  by (simp add: demo_disk_kind kind_owner_def)

section \<open>What a job hands to the notifications\<close>

text \<open>The battery as its files or, failing those, UPower describe it now.\<close>

definition battery_now ::
    "power_floats \<Rightarrow> 'd upower \<Rightarrow> files \<Rightarrow> path \<Rightarrow> string \<Rightarrow> 'd \<Rightarrow> battery_system_reading option" where
  "battery_now fo upower files sys_root i d =
     (let limit = sysfs_bat_charge_limit files sys_root i
      in case sysfs_bat_read files sys_root i of
           Some (capacity, rate, state) \<Rightarrow>
             Some \<lparr>bs_id = i, bs_charge_percent = capacity, bs_rate_watts = rate, bs_state = state,
                   bs_charge_limit_percent = limit\<rparr>
         | None \<Rightarrow> Option.bind (snd (upower d i)) (\<lambda>props. map_option (\<lambda>percentage.
             let state = upower_state (up_state props);
                 rate = round_half_even_f64 fo (case up_energy_rate props of Some r \<Rightarrow> r | None \<Rightarrow> ZERO)
             in \<lparr>bs_id = i, bs_charge_percent = fo_to_i32 fo percentage,
                 bs_rate_watts = (if rate = 0 \<and> state \<in> {Bat_Charging, Bat_Discharging}
                                  then sysfs_bat_rate files sys_root i else rate),
                 bs_state = state, bs_charge_limit_percent = limit\<rparr>) (up_percentage props)))"

definition map_entry :: "string \<Rightarrow> 'a option \<Rightarrow> (string, 'a option) bmap" where
  "map_entry label v = (case v of None \<Rightarrow> [] | Some x \<Rightarrow> [(label, Some x)])"

definition amd_news ::
    "files \<Rightarrow> job_id \<Rightarrow> metric bset option \<Rightarrow> hardware_inventory \<Rightarrow> config \<Rightarrow> capability bset \<Rightarrow> display_snapshot" where
  "amd_news files job metrics hw cfg caps =
     (case hw_amd_gpu hw of
        None \<Rightarrow> display_snapshot_default
      | Some source \<Rightarrow>
          if source_device job \<noteq> Some (''amd:'' @ pci_identity source) \<or>
             M_GpuAmdTemp \<notin> set (amd_wanted (jid_kind job) metrics cfg)
          then display_snapshot_default
          else display_snapshot_default
            \<lparr>ds_gpu_amd_temp :=
               Option.bind (temp_path (source_for_metrics source (amd_demand caps))) (read_temperature files)\<rparr>)"

text \<open>What the sources say now, by job: no retained sample has a part in it.\<close>

definition fresh_news ::
    "('c, 'd, 'b, 'e) job_env \<Rightarrow> job_id \<Rightarrow> metric bset option \<Rightarrow> hardware_inventory \<Rightarrow> config \<Rightarrow>
     capability bset \<Rightarrow> 'd \<Rightarrow> display_snapshot" where
  "fresh_news env job metrics hw cfg caps d =
     (let none = display_snapshot_default; files = je_files env in
      case jid_kind job of
        Job_Cpu \<Rightarrow>
          none\<lparr>ds_cpu_temp := (if Cap_CpuTemperature \<in> set caps
                                then read_path_millidegrees_celsius files (hw_cpu_temp_path hw) else None),
               ds_load_average := (if Cap_LoadAverage \<in> set caps
                 then map_option (\<lambda>(one, five, fifteen). \<lparr>la_one = one, la_five = five, la_fifteen = fifteen\<rparr>)
                        (read_load_average (sensor_floats.truncate (je_floats env))
                          (files (join (je_proc env) [''loadavg''])))
                 else None)\<rparr>
      | Job_DiskUsage \<Rightarrow>
          (case jid_source job of
             Mount path \<Rightarrow>
               none\<lparr>ds_disk_usage := map_entry (je_lossy env path)
                                       (read_disk_usage (je_statvfs env (je_lossy env path)))\<rparr>
           | _ \<Rightarrow> none)
      | Job_DiskTemperature \<Rightarrow>
          (case jid_source job of
             NamedPath name path \<Rightarrow> none\<lparr>ds_hd_temps := map_entry name (read_hd_temp files path)\<rparr>
           | _ \<Rightarrow> none)
      | Job_Smart \<Rightarrow>
          (case jid_source job of
             SmartDrive label object_path \<Rightarrow>
               (case bm_get (hw_disk_smart_drives hw) label of
                  None \<Rightarrow> none
                | Some drive \<Rightarrow>
                    if sd_object_path drive \<noteq> object_path then none
                    else none\<lparr>ds_disk_smart := map_entry label
                                (snd (read_disk_smart (je_smart env) object_path (sd_interface drive) d))\<rparr>)
           | _ \<Rightarrow> none)
      | Job_SystemBattery \<Rightarrow>
          (case jid_source job of
             BatterySource i \<Rightarrow>
               none\<lparr>ds_battery_sys :=
                      (case battery_now (je_floats env) (je_upower env) files (je_sys env) i d of
                         None \<Rightarrow> [] | Some b \<Rightarrow> [b])\<rparr>
           | _ \<Rightarrow> none)
      | Job_AmdFast \<Rightarrow> amd_news files job metrics hw cfg caps
      | Job_AmdSlow \<Rightarrow> amd_news files job metrics hw cfg caps
      | Job_ServerFile \<Rightarrow>
          none\<lparr>ds_server_ok := (if server_file (cf_server_check cfg) \<noteq> []
                 then read_server_file files (path_of (server_file (cf_server_check cfg))) else None)\<rparr>
      | _ \<Rightarrow> none)"

lemma committed:
  "commit_attempt r (value_or_failed v) t = (r', a) \<Longrightarrow> current_value a = v"
  "commit_attempt r (value_or_failed v) t = (r', a) \<Longrightarrow> ar_status a = Status_Captured \<longleftrightarrow> v \<noteq> None"
  "commit_attempt r (value_or_failed v) t = (r', a) \<Longrightarrow> v \<noteq> None \<Longrightarrow> sample_value a = v"
  by (auto simp: commit_attempt_def value_or_failed_def current_value_def sample_value_def attempt_result_of_def
      record_value_def metric_sample_new_def split: option.splits)

lemma cached_not_current [simp]: "current_value (cached_attempt r) = None"
  by (simp add: cached_attempt_def current_value_def attempt_result_of_def)

lemma third_if: "(if P then (a, b, r) else (a', b', r')) = (x, y, z) \<Longrightarrow> z = (if P then r else r')"
  by (simp split: if_split_asm)

lemma no_file [simp]: "read_path_millidegrees_celsius files None = None"
  by (simp add: read_path_millidegrees_celsius_def)

lemma temperature_now:
  "attempt_cpu fo files proc hw caps clock c s = (c', s', result) \<Longrightarrow>
   current_value (cr_temperature result) =
     (if Cap_CpuTemperature \<in> set caps then read_path_millidegrees_celsius files (hw_cpu_temp_path hw) else None)"
  unfolding attempt_cpu_def Let_def
  apply (simp split: prod.split_asm)
  apply (drule third_if)+
  apply (drule committed(1))+
  apply (cases "hw_cpu_temp_path hw"; clarsimp)
  done

lemma load_now:
  "attempt_cpu fo files proc hw caps clock c s = (c', s', result) \<Longrightarrow>
   current_value (cr_load_average result) =
     (if Cap_LoadAverage \<in> set caps
      then map_option (\<lambda>(one, five, fifteen). \<lparr>la_one = one, la_five = five, la_fifteen = fifteen\<rparr>)
             (read_load_average fo (files (join proc [''loadavg'']))) else None)"
  unfolding attempt_cpu_def Let_def
  apply (simp split: prod.split_asm)
  apply (drule third_if)+
  apply (drule committed(1))+
  apply clarsimp
  done

lemma notification_frames [simp]:
  "jr_notifications (with_owners f x) = jr_notifications x"
  "jr_notifications (with_readings h x) = jr_notifications x"
  "jr_notifications (notify_with g x) = g (jr_notifications x)"
  by (simp_all add: with_owners_def with_readings_def notify_with_def)

lemma no_news [simp]:
  "ds_disk_usage display_snapshot_default = []" "ds_hd_temps display_snapshot_default = []"
  "ds_disk_smart display_snapshot_default = []" "ds_battery_sys display_snapshot_default = []"
  "display_snapshot_default\<lparr>ds_disk_usage := []\<rparr> = display_snapshot_default"
  "display_snapshot_default\<lparr>ds_hd_temps := []\<rparr> = display_snapshot_default"
  "display_snapshot_default\<lparr>ds_disk_smart := []\<rparr> = display_snapshot_default"
  "display_snapshot_default\<lparr>ds_battery_sys := []\<rparr> = display_snapshot_default"
  by (simp_all add: display_snapshot_default_def)

lemma clock_frame: "job_clock env x = (x', t) \<Longrightarrow> jr_notifications x' = jr_notifications x \<and> jr_dbus x' = jr_dbus x"
  by (auto simp: job_clock_def split: prod.splits)

lemma capture_frame: "history_capture_time deadline env x = (x', t) \<Longrightarrow> jr_notifications x' = jr_notifications x"
  using clock_frame by (auto simp: history_capture_time_def split: option.splits)

lemma silent_jobs:
  "jr_notifications (fst (execute_cpu_history env hw cfg deadline x)) = jr_notifications x"
  "jr_notifications (fst (execute_cpu_cores env x)) = jr_notifications x"
  "jr_notifications (fst (execute_cpu_core_history env cfg deadline x)) = jr_notifications x"
  "jr_notifications (fst (execute_memory env caps x)) = jr_notifications x"
  "jr_notifications (fst (execute_memory_history env cfg deadline x)) = jr_notifications x"
  "jr_notifications (fst (execute_network_rate env device x)) = jr_notifications x"
  "jr_notifications (fst (execute_network_history env cfg deadline x)) = jr_notifications x"
  "jr_notifications (fst (execute_disk_io env device x)) = jr_notifications x"
  "jr_notifications (fst (execute_disk_io_history env cfg deadline x)) = jr_notifications x"
  "jr_notifications (fst (execute_fan_speed env name path x)) = jr_notifications x"
  "jr_notifications (fst (execute_npu env job hw x)) = jr_notifications x"
  "jr_notifications (fst (execute_npu_history env job hw cfg deadline x)) = jr_notifications x"
  unfolding execute_cpu_history_def execute_cpu_cores_def execute_cpu_core_history_def execute_memory_def
    execute_memory_history_def execute_network_rate_def execute_network_history_def execute_disk_io_def
    execute_disk_io_history_def execute_fan_speed_def execute_npu_def execute_npu_history_def Let_def
  by (auto dest: clock_frame capture_frame split: prod.split option.split)

lemma silent_identity: "jr_notifications (fst (execute_network_identity env x)) = jr_notifications x"
  by (simp add: execute_network_identity_def Let_def split: prod.split option.split)

lemma silent_external:
  "kind \<noteq> Job_ServerFile \<Longrightarrow> jr_notifications (fst (execute_external env kind cfg x)) = jr_notifications x"
  by (simp add: execute_external_def external_capability_def Let_def split: prod.split option.split job_kind.split)

lemma server_news:
  assumes "jr_notifications x = display_snapshot_default" and "jid_kind job = Job_ServerFile"
  shows "jr_notifications (fst (execute_external env Job_ServerFile cfg x)) =
    fresh_news env job metrics hw cfg caps d"
proof -
  obtain c s result where attempt: "attempt_external (je_files env) (je_entries env) (je_sys env) cfg [Cap_ServerCheck]
      (monotonic_clock env) (jr_clock x) (jo_external (jr_owners x)) = (c, s, result)"
    by (metis prod_cases3)
  have quiet: "display_snapshot_default\<lparr>ds_server_ok := None\<rparr> = display_snapshot_default"
    by (simp add: display_snapshot_default_def)
  let ?file = "server_file (cf_server_check cfg)"
  have "current_value (xr_server result) =
      (if ?file \<noteq> [] then read_server_file (je_files env) (path_of ?file) else None)"
    using attempt by (auto simp: attempt_external_def Let_def committed(1) split: prod.splits if_splits)
  moreover have "ar_status (xr_server result) \<noteq> Status_Captured \<Longrightarrow> current_value (xr_server result) = None"
    by (simp add: current_value_def)
  ultimately show ?thesis
    using assms attempt
    by (auto simp: execute_external_def external_capability_def fresh_news_def Let_def quiet)
qed

lemma sample_other: "m \<noteq> M_GpuAmdTemp \<Longrightarrow> ags_temperature (sample_amd_metric files source t m s) = ags_temperature s"
  by (simp add: sample_amd_metric_def split: metric.split)

text \<open>Sampling a metric reads its file anew, whatever else is sampled.\<close>

lemma sampled_temperature:
  "M_GpuAmdTemp \<in> set ms \<Longrightarrow>
   \<exists>r. ags_temperature (fold (sample_amd_metric files source t) ms s) =
     sample_path (read_temperature files) (Option.bind source temp_path) t r"
proof (induction ms rule: rev_induct)
  case (snoc m ms)
  then show ?case
    by (cases "m = M_GpuAmdTemp") (auto simp: sample_amd_metric_def [of _ _ _ M_GpuAmdTemp] sample_other)
qed simp

lemma sampled_now:
  assumes "r = sample_path read path t r'"
  shows "fst (retained_status r) = Status_Captured \<longleftrightarrow> Option.bind path read \<noteq> None"
    and "Option.bind path read \<noteq> None \<Longrightarrow> latest_value r = Option.bind path read"
  unfolding assms
  by (cases path; cases "read (the path)"; simp add: sample_path_def record_attempt_def record_value_def
      record_failure_def record_absence_def retained_status_def latest_value_def metric_sample_new_def Let_def)+

lemma map_of_outcomes: "map_of (map (\<lambda>m. (m, f m)) ms) m = (if m \<in> set ms then Some (f m) else None)"
  by (induction ms) auto

lemma amd_job_news:
  assumes "jr_notifications x = display_snapshot_default"
    and "ag_source (jo_amd_gpu (jr_owners x)) =
      map_option (\<lambda>source. source_for_metrics source (amd_demand caps)) (hw_amd_gpu hw)"
  shows "jr_notifications (fst (execute_amd env job metrics hw cfg x)) =
    amd_news (je_files env) job metrics hw cfg caps"
proof (cases "hw_amd_gpu hw")
  case None
  then show ?thesis
    using assms by (simp add: execute_amd_def amd_news_def)
next
  case (Some source)
  obtain x' now where now: "job_clock env x = (x', now)"
    by fastforce
  let ?ms = "amd_wanted (jid_kind job) metrics cfg"
  let ?s = "sample_amd (je_files env) ?ms now (jo_amd_gpu (jr_owners x'))"
  let ?read = "Option.bind (temp_path (source_for_metrics source (amd_demand caps))) (read_temperature (je_files env))"
  have frame: "jr_owners x' = jr_owners x" "jr_notifications x' = display_snapshot_default"
    using now assms(1) by (auto simp: job_clock_def split: prod.splits)
  have quiet: "display_snapshot_default\<lparr>ds_gpu_amd_temp := None\<rparr> = display_snapshot_default"
    by (simp add: display_snapshot_default_def)
  have source: "ag_source (jo_amd_gpu (jr_owners x)) = Some (source_for_metrics source (amd_demand caps))"
    using assms(2) Some by simp
  have read: "fst (amd_metadata (ag_samples ?s) M_GpuAmdTemp) = Status_Captured \<longleftrightarrow> ?read \<noteq> None"
    "?read \<noteq> None \<Longrightarrow> latest_value (ags_temperature (ag_samples ?s)) = ?read" if wanted: "M_GpuAmdTemp \<in> set ?ms"
  proof -
    obtain r where "ags_temperature (ag_samples ?s) =
        sample_path (read_temperature (je_files env)) (temp_path (source_for_metrics source (amd_demand caps))) now r"
      using sampled_temperature [OF wanted, of "je_files env"
          "Some (source_for_metrics source (amd_demand caps))" now "ag_samples (jo_amd_gpu (jr_owners x))"]
        frame(1) source by (auto simp: sample_amd_def)
    note sampled_now [OF this]
    then show "fst (amd_metadata (ag_samples ?s) M_GpuAmdTemp) = Status_Captured \<longleftrightarrow> ?read \<noteq> None"
      "?read \<noteq> None \<Longrightarrow> latest_value (ags_temperature (ag_samples ?s)) = ?read"
      by (simp_all add: amd_metadata_def)
  qed
  show ?thesis
  proof (cases "source_device job = Some (''amd:'' @ pci_identity source) \<and> M_GpuAmdTemp \<in> set ?ms")
    case True
    have "amd_news (je_files env) job metrics hw cfg caps = display_snapshot_default\<lparr>ds_gpu_amd_temp := ?read\<rparr>"
      using True Some by (simp add: amd_news_def)
    moreover have "jr_notifications (fst (execute_amd env job metrics hw cfg x)) =
        (if fst (amd_metadata (ag_samples ?s) M_GpuAmdTemp) = Status_Captured
         then display_snapshot_default\<lparr>ds_gpu_amd_temp := latest_value (ags_temperature (ag_samples ?s))\<rparr>
         else display_snapshot_default)"
      using True Some frame(2) by (simp add: execute_amd_def attempt_amd_def Let_def now map_of_outcomes)
    moreover note read(1) [OF conjunct2 [OF True]] read(2) [OF conjunct2 [OF True]]
    ultimately show ?thesis
      using quiet by (simp only: if_split) metis
  next
    case False
    then show ?thesis
      using assms(1) Some frame
      by (auto simp: execute_amd_def amd_news_def attempt_amd_def Let_def now map_of_outcomes)
  qed
qed

lemma cpu_news:
  assumes "jr_notifications x = display_snapshot_default" and "jid_kind job = Job_Cpu"
  shows "jr_notifications (fst (execute_cpu env hw caps x)) = fresh_news env job metrics hw cfg caps d"
  using assms
  by (simp add: execute_cpu_def fresh_news_def Let_def temperature_now load_now split: prod.split)

lemma disk_usage_news:
  assumes "jr_notifications x = display_snapshot_default" and "jid_kind job = Job_DiskUsage"
    and "jid_source job = Mount path"
  shows "jr_notifications (fst (execute_disk_usage env path x)) = fresh_news env job metrics hw cfg caps d"
proof -
  obtain x' now where now: "job_clock env x = (x', now)"
    by fastforce
  obtain disk reading where reading: "attempt_disk_usage (je_statvfs env) (je_lossy env path) now
      (jo_disk (jr_owners x')) = (disk, reading)"
    by fastforce
  then obtain r r' where "commit_attempt r (value_or_failed (read_disk_usage (je_statvfs env (je_lossy env path)))) now
      = (r', reading)"
    by (auto simp: attempt_disk_usage_def split: prod.splits)
  note committed(2,3) [OF this]
  then show ?thesis
    using assms now reading
    by (cases "read_disk_usage (je_statvfs env (je_lossy env path))")
      (simp_all add: execute_disk_usage_def fresh_news_def Let_def clock_frame map_entry_def)
qed

lemma temperature_news:
  assumes "jr_notifications x = display_snapshot_default" and "jid_kind job = Job_DiskTemperature"
    and "jid_source job = NamedPath name path"
  shows "jr_notifications (fst (execute_disk_temperature env name path x)) = fresh_news env job metrics hw cfg caps d"
proof -
  obtain x' now where now: "job_clock env x = (x', now)"
    by fastforce
  obtain disk reading where reading: "attempt_disk_temperature (je_files env) name path now
      (jo_disk (jr_owners x')) = (disk, reading)"
    by fastforce
  then obtain r r' where "commit_attempt r (value_or_failed (read_hd_temp (je_files env) path)) now = (r', reading)"
    by (auto simp: attempt_disk_temperature_def Let_def split: prod.splits)
  note committed(2,3) [OF this]
  then show ?thesis
    using assms now reading
    by (cases "read_hd_temp (je_files env) path")
      (simp_all add: execute_disk_temperature_def fresh_news_def Let_def clock_frame map_entry_def)
qed

definition news_of :: "('c, 'd, 'b) job_run \<Rightarrow> (('c, 'd, 'b) job_run \<times> completion_kind) option \<Rightarrow> display_snapshot" where
  "news_of x p = (case p of None \<Rightarrow> jr_notifications x | Some y \<Rightarrow> jr_notifications (fst y))"

lemma news_of_simps [simp]:
  "news_of x None = jr_notifications x"
  "news_of x (Some p) = jr_notifications (fst p)"
  by (simp_all add: news_of_def)

lemma smart_news:
  assumes "jr_notifications x = display_snapshot_default" and "jid_kind job = Job_Smart"
    and "jid_source job = SmartDrive label object_path"
  shows "news_of x (execute_smart env hw label object_path x) = fresh_news env job metrics hw cfg caps (jr_dbus x)"
proof (cases "bm_get (hw_disk_smart_drives hw) label")
  case None
  then show ?thesis
    using assms by (simp add: execute_smart_def fresh_news_def Let_def)
next
  case (Some drive)
  obtain x' now where now: "job_clock env x = (x', now)"
    by fastforce
  obtain d disk reading where reading:
    "attempt_smart (je_smart env) label drive now (jr_dbus x') (jo_disk (jr_owners x')) = (d, disk, reading)"
    by (metis prod_cases3)
  then obtain r r' where commit: "commit_attempt r
      (value_or_failed (snd (read_disk_smart (je_smart env) (sd_object_path drive) (sd_interface drive) (jr_dbus x'))))
      now = (r', reading)"
    by (auto simp: attempt_smart_def Let_def split: prod.splits)
  have frame: "jr_dbus x' = jr_dbus x" "jr_notifications x' = display_snapshot_default"
    using clock_frame [OF now] assms(1) by simp_all
  note answer = committed(2,3) [OF commit, unfolded frame(1)]
  show ?thesis
  proof (cases "sd_object_path drive = object_path")
    case False
    then show ?thesis
      using assms Some by (simp add: execute_smart_def fresh_news_def Let_def)
  next
    case True
    then show ?thesis
      using assms(2,3) Some answer frame
      by (cases "snd (read_disk_smart (je_smart env) object_path (sd_interface drive) (jr_dbus x))")
        (simp_all add: execute_smart_def fresh_news_def Let_def map_entry_def now reading [unfolded frame(1)])
  qed
qed

lemma battery_reading_now:
  "attempt_system_battery fo upower files sys_root i now d s = (d', s', reading) \<Longrightarrow>
   current_value reading = battery_now fo upower files sys_root i d \<and>
   (ar_status reading = Status_Captured \<longleftrightarrow> battery_now fo upower files sys_root i d \<noteq> None)"
  unfolding attempt_system_battery_def refresh_battery_sys_def refresh_battery_sys_cache_def battery_now_def Let_def
  by (auto simp: battery_sys_from_cache_def current_value_def sample_value_def metric_sample_new_def
      split: prod.splits option.splits)

lemma captured_sample: "current_value r = Some v \<Longrightarrow> \<exists>smp. ar_sample r = Some smp \<and> smp_value smp = v"
  by (auto simp: current_value_def sample_value_def split: if_splits)

lemma battery_news:
  assumes "jr_notifications x = display_snapshot_default" and "jid_kind job = Job_SystemBattery"
    and "jid_source job = BatterySource i"
  shows "jr_notifications (fst (execute_system_battery env i x)) = fresh_news env job metrics hw cfg caps (jr_dbus x)"
proof -
  obtain x' now where now: "job_clock env x = (x', now)"
    by fastforce
  obtain d pow reading where reading: "attempt_system_battery (je_floats env) (je_upower env) (je_files env)
      (je_sys env) i now (jr_dbus x') (jo_power (jr_owners x')) = (d, pow, reading)"
    by (metis prod_cases3)
  have frame: "jr_dbus x' = jr_dbus x" "jr_notifications x' = display_snapshot_default"
    using clock_frame [OF now] assms(1) by simp_all
  note answer = battery_reading_now [OF reading, unfolded frame(1)]
  show ?thesis
  proof (cases "battery_now (je_floats env) (je_upower env) (je_files env) (je_sys env) i (jr_dbus x)")
    case None
    then show ?thesis
      using assms(2,3) answer frame(2)
      by (simp add: execute_system_battery_def fresh_news_def Let_def now reading
          split: option.split)
  next
    case (Some b)
    with answer have "current_value reading = Some b" "ar_status reading = Status_Captured"
      by simp_all
    moreover from this(1) obtain smp where "ar_sample reading = Some smp" "smp_value smp = b"
      using captured_sample [of reading b] by auto
    ultimately show ?thesis
      using assms(2,3) Some frame(2)
      by (simp add: execute_system_battery_def fresh_news_def Let_def now reading)
  qed
qed

lemma quiet_jobs:
  assumes "jid_kind job \<in> {Job_CpuHistory, Job_CpuCores, Job_CpuCoreHistory, Job_Memory, Job_MemoryHistory,
      Job_NetworkIdentity, Job_NetworkHistory, Job_DiskIoHistory, Job_AmdNpu, Job_AmdNpuHistory, Job_Brightness,
      Job_UpdatesFile, Job_PageCommand, Job_PageRender, Job_HardwareDiscovery, Job_MountInventory}"
  shows "news_of x (run_job other env job metrics deadline hw cfg caps x) = jr_notifications x"
  using assms by (elim insertE emptyE) (simp_all add: run_job_def silent_jobs silent_identity silent_external)

lemma quiet_device_jobs:
  assumes "jid_kind job \<in> {Job_NetworkRate, Job_DiskIo, Job_FanSpeed}"
  shows "news_of x (run_job other env job metrics deadline hw cfg caps x) = jr_notifications x"
  using assms by (elim insertE emptyE; cases "jid_source job") (simp_all add: run_job_def silent_jobs source_device_def)

lemma quiet_kinds:
  assumes "jid_kind job \<in> set modelled_kinds" and "jid_kind job \<noteq> Job_PeripheralBattery"
    and "jid_kind job \<notin> {Job_Cpu, Job_DiskUsage, Job_Smart, Job_DiskTemperature, Job_SystemBattery,
      Job_AmdFast, Job_AmdSlow, Job_ServerFile}"
  shows "news_of x (run_job other env job metrics deadline hw cfg caps x) = jr_notifications x"
    and "fresh_news env job metrics hw cfg caps d = display_snapshot_default"
proof -
  have "jid_kind job \<in> {Job_CpuHistory, Job_CpuCores, Job_CpuCoreHistory, Job_Memory, Job_MemoryHistory,
      Job_NetworkIdentity, Job_NetworkHistory, Job_DiskIoHistory, Job_AmdNpu, Job_AmdNpuHistory, Job_Brightness,
      Job_UpdatesFile, Job_PageCommand, Job_PageRender, Job_HardwareDiscovery, Job_MountInventory} \<union> {Job_NetworkRate, Job_DiskIo, Job_FanSpeed}"
    using assms by (auto simp: modelled_kinds_def)
  then show "news_of x (run_job other env job metrics deadline hw cfg caps x) = jr_notifications x"
    using quiet_jobs quiet_device_jobs by blast
  show "fresh_news env job metrics hw cfg caps d = display_snapshot_default"
    using assms(3) by (cases "jid_kind job") (simp_all add: fresh_news_def Let_def)
qed

lemma news_kinds:
  assumes "jr_notifications x = display_snapshot_default"
  shows "jid_kind job = Job_Cpu \<Longrightarrow>
      news_of x (run_job other env job metrics deadline hw cfg caps x) = fresh_news env job metrics hw cfg caps (jr_dbus x)"
    and "jid_kind job = Job_DiskUsage \<Longrightarrow>
      news_of x (run_job other env job metrics deadline hw cfg caps x) = fresh_news env job metrics hw cfg caps (jr_dbus x)"
    and "jid_kind job = Job_Smart \<Longrightarrow>
      news_of x (run_job other env job metrics deadline hw cfg caps x) = fresh_news env job metrics hw cfg caps (jr_dbus x)"
    and "jid_kind job = Job_DiskTemperature \<Longrightarrow>
      news_of x (run_job other env job metrics deadline hw cfg caps x) = fresh_news env job metrics hw cfg caps (jr_dbus x)"
    and "jid_kind job = Job_SystemBattery \<Longrightarrow>
      news_of x (run_job other env job metrics deadline hw cfg caps x) = fresh_news env job metrics hw cfg caps (jr_dbus x)"
proof -
  let ?goal = "news_of x (run_job other env job metrics deadline hw cfg caps x) = fresh_news env job metrics hw cfg caps (jr_dbus x)"
  show ?goal if "jid_kind job = Job_Cpu"
    using that by (simp add: run_job_def cpu_news [OF assms])
  show ?goal if "jid_kind job = Job_DiskUsage"
  proof (cases "jid_source job")
    case (Mount path)
    then show ?thesis
      using that by (simp add: run_job_def disk_usage_news [OF assms])
  qed (use that assms in \<open>simp_all add: run_job_def fresh_news_def Let_def\<close>)
  show ?goal if "jid_kind job = Job_Smart"
  proof (cases "jid_source job")
    case (SmartDrive label object_path)
    then show ?thesis
      using that by (simp add: run_job_def smart_news [OF assms])
  qed (use that assms in \<open>simp_all add: run_job_def fresh_news_def Let_def\<close>)
  show ?goal if "jid_kind job = Job_DiskTemperature"
  proof (cases "jid_source job")
    case (NamedPath name path)
    then show ?thesis
      using that by (simp add: run_job_def temperature_news [OF assms])
  qed (use that assms in \<open>simp_all add: run_job_def fresh_news_def Let_def\<close>)
  show ?goal if "jid_kind job = Job_SystemBattery"
  proof (cases "jid_source job")
    case (BatterySource i)
    then show ?thesis
      using that by (simp add: run_job_def battery_news [OF assms])
  qed (use that assms in \<open>simp_all add: run_job_def fresh_news_def Let_def\<close>)
qed

lemma amd_kinds:
  assumes "jr_notifications x = display_snapshot_default"
    and "ag_source (jo_amd_gpu (jr_owners x)) =
      map_option (\<lambda>source. source_for_metrics source (amd_demand caps)) (hw_amd_gpu hw)"
    and "jid_kind job \<in> {Job_AmdFast, Job_AmdSlow}"
  shows "news_of x (run_job other env job metrics deadline hw cfg caps x) =
    fresh_news env job metrics hw cfg caps (jr_dbus x)"
  using assms(3) by (elim insertE emptyE)
    (simp_all add: run_job_def fresh_news_def Let_def amd_job_news [OF assms(1,2)])

lemma server_kind:
  assumes "jr_notifications x = display_snapshot_default" and "jid_kind job = Job_ServerFile"
  shows "news_of x (run_job other env job metrics deadline hw cfg caps x) =
    fresh_news env job metrics hw cfg caps (jr_dbus x)"
  using assms(2) server_news [OF assms] by (simp add: run_job_def)

lemma job_news:
  assumes "jr_notifications x = display_snapshot_default"
    and "ag_source (jo_amd_gpu (jr_owners x)) =
      map_option (\<lambda>source. source_for_metrics source (amd_demand caps)) (hw_amd_gpu hw)"
    and "jid_kind job \<in> set modelled_kinds" and "jid_kind job \<noteq> Job_PeripheralBattery"
  shows "news_of x (run_job other env job metrics deadline hw cfg caps x) = fresh_news env job metrics hw cfg caps (jr_dbus x)"
proof (cases "jid_kind job \<in> {Job_Cpu, Job_DiskUsage, Job_Smart, Job_DiskTemperature, Job_SystemBattery,
      Job_AmdFast, Job_AmdSlow, Job_ServerFile}")
  case True
  then show ?thesis
    using news_kinds [OF assms(1), of job] amd_kinds [OF assms(1,2), of job] server_kind [OF assms(1), of job]
    by (elim insertE) simp_all
next
  case False
  then show ?thesis
    using quiet_kinds [OF assms(3,4) False] assms(1) by metis
qed

lemma reconciled_amd: "ag_source (reconcile_amd_source source s) = source"
  by (simp add: reconcile_amd_source_def invalidate_amd_def split: option.split)

text \<open>
  C34. What a job hands to the notifications is, apart from the time stamp, what its source says at that
  moment, as \<open>fresh_news\<close> reads it from the files, the file systems, UDisks and UPower alone: never a retained
  sample, and nothing of another kind of reading. The notifications are ready exactly when there is
  something in them. This is said of 27 kinds of job: not of the battery of a peripheral, whose
  notification may carry a cached name, and not of the seven kinds whose readers are a parameter of the
  model (NVIDIA, Intel, graphics history, processes).
\<close>

theorem notifications_are_fresh:
  assumes "jid_kind job \<notin> {Job_NvidiaNvml, Job_NvidiaFallback, Job_IntelFrequency, Job_IntelUsage, Job_GpuHistory,
        Job_PanelProcesses, Job_PageProcesses, Job_PeripheralBattery}"
    and "execute_scheduled_job other env job metrics deadline cfg x = (x', done)"
  shows "jx_notifications done =
           (fresh_news env job metrics (jr_hw x) cfg (configured_capabilities cfg) (jr_dbus x))
             \<lparr>ds_assembled_at := ds_assembled_at (jx_notifications done)\<rparr> \<and>
         jx_notification_ready done = has_notification_sample (jx_notifications done)"
proof -
  let ?x = "(with_owners (reconcile_owners (jr_hw x) cfg (configured_capabilities cfg)) x)
              \<lparr>jr_notifications := display_snapshot_default\<rparr>"
  let ?run = "run_job other env job metrics deadline (jr_hw x) cfg (configured_capabilities cfg) ?x"
  have news: "news_of ?x ?run = fresh_news env job metrics (jr_hw x) cfg (configured_capabilities cfg) (jr_dbus x)"
    using job_news [of ?x "configured_capabilities cfg" "jr_hw x" job other env metrics deadline cfg] assms(1)
      kinds_modelled [of "jid_kind job"]
    by (simp add: with_owners_def reconcile_owners_def reconcile_amd_def reconciled_amd)
  show ?thesis
  proof (cases ?run)
    case None
    have "\<not> has_notification_sample display_snapshot_default"
      by (simp add: has_notification_sample_def display_snapshot_default_def)
    with None news assms(2) show ?thesis
      by (auto simp: execute_scheduled_job_def Let_def)
  next
    case (Some p)
    then obtain y c where run: "?run = Some (y, c)"
      by (cases p) auto
    obtain clock now where "je_now env (jr_clock y) = (clock, now)"
      by fastforce
    with run news assms(2) show ?thesis
      by (auto simp: execute_scheduled_job_def Let_def notify_with_def)
  qed
qed

lemma notifications_are_fresh_witness:
  "ds_hd_temps (jx_notifications (snd (execute_scheduled_job (\<lambda>k x. (x, Failed)) demo_job_env demo_disk_job None None
     config_default demo_job_run))) = [(''sda'', Some 41)]"
proof -
  let ?run = "execute_scheduled_job (\<lambda>k x. (x, Failed)) demo_job_env demo_disk_job None None
     config_default demo_job_run"
  have "ds_hd_temps (jx_notifications (snd ?run)) =
      ds_hd_temps (fresh_news demo_job_env demo_disk_job None hardware_inventory_default config_default
        (configured_capabilities config_default) (jr_dbus demo_job_run))"
    using arg_cong [OF conjunct1 [OF notifications_are_fresh [of demo_disk_job "\<lambda>k x. (x, Failed)" demo_job_env
        None None config_default demo_job_run "fst ?run" "snd ?run"]], of ds_hd_temps]
    by (simp add: demo_disk_kind demo_hw)
  moreover have "read_hd_temp (je_files demo_job_env) [NormalComp ''temp1_input''] = Some 41"
  proof -
    have "parse_signed 32 (trim_text (lit ''41000'')) = Some 41000"
      by (simp add: lit_def trim_text_def is_ws_def parse_signed_def digit_of_def)
    then show ?thesis
      by (simp add: read_hd_temp_def read_path_millidegrees_celsius_def demo_job_env_def tdiv_def)
  qed
  ultimately show ?thesis
    by (simp add: fresh_news_def Let_def demo_disk_job_def map_entry_def)
qed

section \<open>Invalidated sources\<close>

definition no_sample :: "'a retained \<Rightarrow> bool" where
  "no_sample r \<longleftrightarrow> latest r = None \<and> previous r = None"

lemma no_sample_at: "no_sample r \<Longrightarrow> sample_at_history_deadline r deadline = None"
  by (cases deadline) (simp_all add: no_sample_def sample_at_history_deadline_def sample_at_or_before_def
      opt_filter_def)

lemma no_sample_invalidate [simp]: "no_sample (invalidate r)"
  by (simp add: no_sample_def invalidate_def)

text \<open>A sampling job and the history its samples go into.\<close>

definition history_of :: "(job_kind \<times> job_kind) list" where
  "history_of =
     [(Job_Cpu, Job_CpuHistory), (Job_CpuCores, Job_CpuCoreHistory), (Job_Memory, Job_MemoryHistory),
      (Job_NetworkRate, Job_NetworkHistory), (Job_DiskIo, Job_DiskIoHistory), (Job_AmdNpu, Job_AmdNpuHistory)]"

lemma reconciled_network:
  "no_sample (net_rate s) \<Longrightarrow> no_sample (net_rate (reconcile_network_sources device rate info graphs s))"
  by (simp add: reconcile_network_sources_def reset_rate_def reset_info_def reset_history_def Let_def)

lemma reconciled_disk: "no_sample (dst_io s) \<Longrightarrow> no_sample (dst_io (reconcile_disk_sources hw cfg caps s))"
  by (simp add: reconcile_disk_sources_def reset_io_def reset_io_history_def Let_def split: prod.split)

lemma reconciled_cores: "no_sample (cs_core_usage s) \<Longrightarrow> no_sample (cs_core_usage (reconcile_core_page b s))"
  by (simp add: reconcile_core_page_def)

lemma reconciled_npu: "no_sample (nps_usage (np_samples s)) \<Longrightarrow> no_sample (nps_usage (np_samples (reconcile_npu hw cfg caps s)))"
  by (simp add: reconcile_npu_def reconcile_npu_source_def reset_npu_history_def npu_samples_default_def
      no_sample_def retained_default_def Let_def)

lemma waiting_history:
  assumes "(jid_kind job, jid_kind hist) \<in> set history_of" "jid_kind hist \<noteq> Job_CpuHistory"
    and "jr_owners x = reconcile_owners hw cfg caps (invalidate_owner lossy job ow)"
  shows "\<exists>c. run_job other env hist metrics deadline hw cfg caps x = Some (x, c) \<and>
    (c = Baseline \<or> jid_kind hist = Job_AmdNpuHistory \<and> c = ConfirmedAbsent)"
proof -
  let ?ow = "jr_owners x"
  consider "jid_kind job = Job_CpuCores" "jid_kind hist = Job_CpuCoreHistory"
    | "jid_kind job = Job_Memory" "jid_kind hist = Job_MemoryHistory"
    | "jid_kind job = Job_NetworkRate" "jid_kind hist = Job_NetworkHistory"
    | "jid_kind job = Job_DiskIo" "jid_kind hist = Job_DiskIoHistory"
    | "jid_kind job = Job_AmdNpu" "jid_kind hist = Job_AmdNpuHistory"
    using assms(1,2) by (auto simp: history_of_def)
  then show ?thesis
  proof cases
    case 1
    then have "no_sample (cs_core_usage (jo_cpu ?ow))"
      by (simp add: assms(3) reconcile_owners_def invalidate_owner_def Let_def reconciled_cores)
    with 1(2) show ?thesis
      by (simp add: run_job_def execute_cpu_core_history_def no_sample_at)
  next
    case 2
    then have "no_sample (mst_usage (jo_memory ?ow))"
      by (simp add: assms(3) reconcile_owners_def invalidate_owner_def Let_def)
    with 2(2) show ?thesis
      by (simp add: run_job_def execute_memory_history_def no_sample_at)
  next
    case 3
    then have "no_sample (net_rate (jo_network ?ow))"
      by (simp add: assms(3) reconcile_owners_def invalidate_owner_def Let_def reconciled_network reset_rate_def)
    with 3(2) show ?thesis
      by (simp add: run_job_def execute_network_history_def no_sample_at)
  next
    case 4
    then have "no_sample (dst_io (jo_disk ?ow))"
      by (simp add: assms(3) reconcile_owners_def invalidate_owner_def Let_def reconciled_disk reset_io_def)
    with 4(2) show ?thesis
      by (simp add: run_job_def execute_disk_io_history_def no_sample_at)
  next
    case 5
    have "no_sample (nps_usage (np_samples (invalidate_npu s)))" for s
      by (simp add: invalidate_npu_def npu_samples_default_def no_sample_def retained_default_def)
    with 5 have "no_sample (nps_usage (np_samples (jo_amd_npu ?ow)))"
      by (simp add: assms(3) reconcile_owners_def invalidate_owner_def Let_def reconciled_npu)
    with 5(2) show ?thesis
      by (simp add: run_job_def execute_npu_history_def no_sample_at)
  qed
qed

text \<open>The CPU history waits too; the graph temperatures, which it takes along, are cleared or sampled anew.\<close>

lemma graph_temperature_waits:
  assumes "no_sample (cs_temperature s)" "cs_temp_history s = []"
  shows "cs_usage (fst (append_graph_temperature_history cfg hw r t s)) = cs_usage s"
    and "cs_temp_history (fst (append_graph_temperature_history cfg hw r t s)) = []"
  using assms
  by (simp_all add: append_graph_temperature_history_def no_sample_def sample_at_or_before_def opt_filter_def Let_def
      split: option.split)

lemma waiting_cpu_history:
  assumes "jid_kind job = Job_Cpu" "jid_kind hist = Job_CpuHistory"
    and "jr_owners x = reconcile_owners hw cfg caps (invalidate_owner lossy job ow)"
    and "run_job other env hist metrics deadline hw cfg caps x = Some (y, c)"
  shows "\<exists>gpu. jr_readings y = (jr_readings x)\<lparr>ds_cpu_temp_history := [], ds_gpu_temp_history := gpu\<rparr>"
proof -
  have cpu: "jo_cpu (jr_owners x) = reconcile_core_page (''cpu_cores'' \<in> set (pages_order (cf_pages cfg)))
      (invalidate_cpu (jo_cpu ow))"
    by (simp add: assms(1,3) reconcile_owners_def invalidate_owner_def Let_def)
  obtain x' t where t: "history_capture_time deadline env x = (x', t)" by force
  then have x': "jr_owners x' = jr_owners x" "jr_readings x' = jr_readings x"
    by (auto simp: history_capture_time_def job_clock_def split: option.splits prod.splits)
  let ?s = "jo_cpu (jr_owners x)"
  have idle: "no_sample (cs_usage ?s)" "no_sample (cs_temperature ?s)" "cs_temp_history ?s = []"
    by (simp_all add: cpu reconcile_core_page_def invalidate_cpu_def)
  obtain s' b where s': "append_graph_temperature_history cfg hw (jr_readings x) t ?s = (s', b)" by force
  with graph_temperature_waits [OF idle(2,3), of cfg hw "jr_readings x" t] idle(1)
  have "no_sample (cs_usage s')" "cs_temp_history s' = []" by simp_all
  with assms(2,4) show ?thesis
    by (auto simp: run_job_def execute_cpu_history_def t x' s' no_sample_at with_readings_def with_owners_def)
qed

text \<open>
  C35. When the job that samples the CPU, its cores, the memory, the network, the disk traffic or the neural
  processor has been invalidated, the history of its samples waits: whatever the deadline, the history job
  that follows adds no point. The histories of the cores, memory, network, disk traffic and neural processor
  leave the readings alone and report a baseline (that of the neural processor an absence, when its processor
  is gone). The CPU history leaves the usage history alone and shows an empty CPU temperature history; the only
  other reading it can change is the temperature history of the graphics processor, which has a sampling job
  of its own. (The usage history of graphics processors belongs to a job that is not modelled.)
\<close>

theorem no_history_from_invalidated_source:
  assumes "(jid_kind job, jid_kind hist) \<in> set history_of"
    and "jr_owners x = invalidate_owner lossy job ow"
    and "execute_scheduled_job other env hist metrics deadline cfg x = (y, done)"
  shows "if jid_kind hist = Job_CpuHistory
    then \<exists>gpu. jr_readings y = (jr_readings x)\<lparr>ds_cpu_temp_history := [], ds_gpu_temp_history := gpu\<rparr>
    else jr_readings y = jr_readings x \<and>
         (jx_completion done = Baseline \<or> jid_kind hist = Job_AmdNpuHistory \<and> jx_completion done = ConfirmedAbsent)"
proof -
  let ?caps = "configured_capabilities cfg"
  let ?x = "(with_owners (reconcile_owners (jr_hw x) cfg ?caps) x)\<lparr>jr_notifications := display_snapshot_default\<rparr>"
  have ow: "jr_owners ?x = reconcile_owners (jr_hw x) cfg ?caps (invalidate_owner lossy job ow)"
    by (simp add: with_owners_def assms(2))
  show ?thesis
  proof (cases "jid_kind hist = Job_CpuHistory")
    case True
    with assms(1) have job: "jid_kind job = Job_Cpu" by (auto simp: history_of_def)
    obtain z c where run: "run_job other env hist metrics deadline (jr_hw x) cfg ?caps ?x = Some (z, c)"
      using True by (fastforce simp: run_job_def)
    with waiting_cpu_history [OF job True ow] assms(3) True show ?thesis
      by (auto simp: execute_scheduled_job_def Let_def split: prod.splits)
  next
    case False
    with waiting_history [OF assms(1) False ow, of other env metrics deadline] assms(3) show ?thesis
      by (auto simp: execute_scheduled_job_def Let_def split: prod.splits)
  qed
qed

lemma no_history_from_invalidated_source_witness:
  "jx_completion (snd (execute_scheduled_job (\<lambda>k x. (x, Failed)) demo_job_env
      (job_singleton Own_Memory Job_MemoryHistory) None (Some 5) config_default
      (demo_job_run\<lparr>jr_owners := invalidate_owner (\<lambda>path. []) (job_singleton Own_Memory Job_Memory)
         demo_owners\<rparr>))) = Baseline"
  using no_history_from_invalidated_source [of "job_singleton Own_Memory Job_Memory"
      "job_singleton Own_Memory Job_MemoryHistory"
      "demo_job_run\<lparr>jr_owners := invalidate_owner (\<lambda>path. []) (job_singleton Own_Memory Job_Memory)
         demo_owners\<rparr>" "\<lambda>path. []" demo_owners "\<lambda>k x. (x, Failed)" demo_job_env None "Some 5"
      config_default, OF _ _ prod.collapse [symmetric]]
  by (simp add: history_of_def job_singleton_def)

section \<open>The name of a peripheral\<close>

text \<open>
  A configured name of a Bolt peripheral is written into the cache, where it counts as the name the device gave:
  when it is taken out of the configuration, the device is never asked for its own name.
\<close>

lemma override_sticks:
  assumes "attempt_battery_bolt_once bolt i (Some name) t b cache = (b', cache', reading, Bolt_Captured)"
    and "name \<noteq> []" and "bolt b' i False = (b'', Inr (Some \<lparr>bb_name = [], bb_level = level\<rparr>))"
  shows "fst (snd (snd (attempt_battery_bolt_once bolt i None t' b' cache'))) =
    Some \<lparr>bp_name = name, bp_charge_percent = uint level\<rparr>"
proof -
  have "bpc_name cache' = name"
    using assms(1) by (auto simp: attempt_battery_bolt_once_def Let_def split: prod.splits sum.splits option.splits)
  then show ?thesis
    using assms(2,3) by (simp add: attempt_battery_bolt_once_def Let_def battery_periph_from_cache_def)
qed

end
