(* ===== verification/AccelProps.thy ===== *)
theory AccelProps
  imports Accelerators
begin

text \<open>
  The samples of the AMD processors stay in range under every sequence of samplings, reconciliations and
  invalidations, and the parser of the neural processor's table reads what the table declares.
\<close>

section \<open>Retained samples of a kind\<close>

definition retains :: "('a \<Rightarrow> bool) \<Rightarrow> 'a retained \<Rightarrow> bool" where
  "retains P r \<longleftrightarrow> (\<forall>s. latest r = Some s \<or> previous r = Some s \<longrightarrow> P (smp_value s))"

lemma retains_steps [intro, simp]:
  "retains P retained_default"
  "retains P (invalidate r)"
  "retains P (record_absence t r)"
  "retains P r \<Longrightarrow> retains P (record_failure t r)"
  "retains P r \<Longrightarrow> P v \<Longrightarrow> retains P (record_value v t r)"
  by (auto simp: retains_def retained_default_def retained_defs)

lemma retains_sample_path:
  assumes "retains P r" and "\<And>p v. read p = Some v \<Longrightarrow> P v"
  shows "retains P (sample_path read path t r)"
  using assms by (auto simp: sample_path_def record_attempt_def split: option.split)

section \<open>AMD graphics processor\<close>

definition amd_in_range :: "amd_gpu_samples \<Rightarrow> bool" where
  "amd_in_range s \<longleftrightarrow>
     retains (\<lambda>v. 0 \<le> v \<and> v \<le> 100) (ags_usage s) \<and> retains (\<lambda>v. 0 \<le> v \<and> v \<le> 100) (ags_codec_usage s) \<and>
     retains (\<lambda>m. \<exists>v. mem_percent m = Some v \<and> 0 \<le> v \<and> v \<le> 100) (ags_memory s) \<and>
     retains (\<lambda>v. v \<le> u32_max) (ags_frequency s) \<and> retains (\<lambda>v. -273 \<le> v \<and> v < 1000) (ags_temperature s) \<and>
     retains (\<lambda>v. v \<le> u32_max) (ags_power s) \<and> retains (\<lambda>v. v \<le> u32_max) (ags_fan_speed s)"

lemma read_ranges:
  "read_percent files p = Some v \<Longrightarrow> 0 \<le> v \<and> v \<le> 100"
  "read_scaled_u32 files d p = Some n \<Longrightarrow> n \<le> u32_max"
  by (auto simp: read_percent_def read_scaled_u32_def opt_filter_def split: option.splits if_splits)

lemma read_temperature_range: "read_temperature files p = Some v \<Longrightarrow> -273 \<le> v \<and> v < 1000"
  by (auto simp: read_temperature_def opt_filter_def tdiv_def split: option.splits if_splits)

lemma read_memory_range:
  assumes "read_memory files p = Some m"
  shows "\<exists>v. mem_percent m = Some v \<and> 0 \<le> v \<and> v \<le> 100"
proof -
  from assms have some: "mem_percent m \<noteq> None"
    by (auto simp: read_memory_def Let_def bind_eq_Some_conv split: if_splits)
  then obtain v where v: "mem_percent m = Some v"
    by auto
  then have "total_bytes m \<noteq> 0" "used_bytes m \<le> total_bytes m"
    by (auto simp: mem_percent_def split: if_splits)
  from mem_percent_quotient [OF this] v show ?thesis
    by (auto simp: mem_percent_def i32_try_from_def split: if_splits)
qed

lemma amd_sampled: "amd_in_range s \<Longrightarrow> amd_in_range (sample_amd_metric files source t m s)"
  by (auto simp: amd_in_range_def sample_amd_metric_def split: metric.split
      intro!: retains_sample_path dest: read_ranges read_temperature_range read_memory_range)

lemma amd_invalidated: "amd_in_range s \<Longrightarrow> amd_in_range (invalidate_amd_sample m s)"
  by (simp add: amd_in_range_def invalidate_amd_sample_def split: metric.split)

lemma amd_default: "amd_in_range amd_gpu_samples_default"
  by (simp add: amd_in_range_def amd_gpu_samples_default_def)

interpretation amd_sampling: stepper "sample_amd_metric files source t" amd_gpu_samples_default amd_in_range
  for files source t
  by unfold_locales (simp_all add: amd_default amd_sampled)

interpretation amd_invalidation: stepper invalidate_amd_sample amd_gpu_samples_default amd_in_range
  by unfold_locales (simp_all add: amd_default amd_invalidated)

datatype amd_event =
  Amd_Sample files "metric bset" duration | Amd_Reconcile "amd_gpu_source option" | Amd_Invalidate "metric list"

primrec amd_act :: "amd_event \<Rightarrow> amd_gpu_state \<Rightarrow> amd_gpu_state" where
  "amd_act (Amd_Sample files metrics t) s = sample_amd files metrics t s"
| "amd_act (Amd_Reconcile source) s = reconcile_amd_source source s"
| "amd_act (Amd_Invalidate metrics) s = invalidate_amd metrics s"

lemma amd_act_range: "amd_in_range (ag_samples s) \<Longrightarrow> amd_in_range (ag_samples (amd_act e s))"
  by (cases e) (auto simp: sample_amd_def reconcile_amd_source_def invalidate_amd_def amd_default
      intro!: amd_sampling.inv_run_from amd_invalidation.inv_run_from split: option.split)

section \<open>AMD neural processor\<close>

definition npu_in_range :: "npu_samples \<Rightarrow> bool" where
  "npu_in_range s \<longleftrightarrow>
     retains (\<lambda>v. 0 \<le> v \<and> v \<le> 100) (nps_usage s) \<and> retains (\<lambda>v. v \<noteq> UNAVAILABLE) (nps_power_mw s) \<and>
     retains (\<lambda>v. v \<noteq> UNAVAILABLE) (nps_frequency s)"

lemma columns_sum: "list_all (\<lambda>c. c \<le> 100) cs \<Longrightarrow> sum_list cs \<le> 100 * length (cs :: nat list)"
  by (induction cs) auto

lemma busy_mean:
  assumes "length columns = IPU_COLUMNS" and "busy_percent columns = Busy_Valid v"
  shows "0 \<le> v \<and> v \<le> 100 \<and> \<bar>8 * v - int (sum_list columns)\<bar> \<le> 4"
proof -
  from assms(2) have "list_all (\<lambda>c. c \<le> 100) columns"
    by (auto simp: busy_percent_def list_ex_iff list_all_iff not_less split: if_splits)
  from columns_sum [OF this] assms(1) have "sum_list columns \<le> 800"
    by (simp add: npu_consts)
  with assms(2) have "v = int ((sum_list columns + 4) div 8)"
    by (auto simp: busy_percent_def i32_try_from_def split: if_splits)
  with \<open>sum_list columns \<le> 800\<close> show ?thesis
    by auto
qed

text \<open>The declared size covers every field, so the fallback for a missing one is never taken.\<close>

lemma parsed_fields:
  assumes "parse_table bytes = Table_Supported f"
  shows "nf_columns f = map (\<lambda>i. bytes ! (46 + 2 * i) + 256 * bytes ! (47 + 2 * i)) [0..<8]"
    and "nf_power_mw f = bytes ! 116 + 256 * bytes ! 117"
    and "nf_clock_mhz f = bytes ! 180 + 256 * bytes ! 181"
    and "264 \<le> length bytes"
proof -
  from assms have long: "264 \<le> length bytes"
    by (auto simp: parse_table_def npu_consts split: option.splits if_splits)
  then have field: "table_field bytes k = bytes ! k + 256 * bytes ! (k + 1)" if "k < 260" for k
    using that by (simp add: table_field_def read_u16_def)
  from assms have f: "f = \<lparr>nf_columns = map (\<lambda>i. table_field bytes (46 + i * 2)) [0..<8],
      nf_power_mw = table_field bytes 116, nf_clock_mhz = table_field bytes 180\<rparr>"
    by (auto simp: parse_table_def npu_consts split: option.splits if_splits)
  show "nf_columns f = map (\<lambda>i. bytes ! (46 + 2 * i) + 256 * bytes ! (47 + 2 * i)) [0..<8]"
    "nf_power_mw f = bytes ! 116 + 256 * bytes ! 117" "nf_clock_mhz f = bytes ! 180 + 256 * bytes ! 181"
    unfolding f by (auto simp: field mult.commute)
  show "264 \<le> length bytes"
    by (rule long)
qed

lemma record_scalar_range: "retains (\<lambda>v. v \<noteq> UNAVAILABLE) r \<Longrightarrow> retains (\<lambda>v. v \<noteq> UNAVAILABLE) (record_scalar v t r)"
  by (simp add: record_scalar_def)

lemma record_fields_range:
  "npu_in_range s \<Longrightarrow> length (nf_columns f) = IPU_COLUMNS \<Longrightarrow> npu_in_range (record_fields f t s)"
  by (auto simp: npu_in_range_def record_fields_def record_scalar_range split: npu_busy.split dest: busy_mean)

lemma npu_default: "npu_in_range npu_samples_default"
  by (simp add: npu_in_range_def npu_samples_default_def)

datatype npu_event =
  Npu_Sample blobs duration | Npu_Reconcile "amd_npu_source option" | Npu_Invalidate | Npu_ResetHistory

primrec npu_act :: "npu_event \<Rightarrow> npu_state \<Rightarrow> npu_state" where
  "npu_act (Npu_Sample blobs t) s = sample_npu blobs t s"
| "npu_act (Npu_Reconcile source) s = reconcile_npu_source source s"
| "npu_act Npu_Invalidate s = invalidate_npu s"
| "npu_act Npu_ResetHistory s = reset_npu_history s"

lemma sampled_npu_range: "npu_in_range (np_samples s) \<Longrightarrow> npu_in_range (np_samples (sample_npu blobs t s))"
  by (auto simp: sample_npu_def npu_in_range_def [of "record_npu_absence _ _"] record_npu_absence_def
      invalidate_npu_def npu_default parsed_fields(1) npu_consts(6) intro!: record_fields_range
      split: option.split npu_table.split)
    (auto simp: npu_in_range_def)

lemma npu_act_range: "npu_in_range (np_samples s) \<Longrightarrow> npu_in_range (np_samples (npu_act e s))"
  by (cases e) (auto simp: sampled_npu_range reconcile_npu_source_def invalidate_npu_def reset_npu_history_def
      npu_default)

definition amd_start :: amd_gpu_state where
  "amd_start = \<lparr>ag_source = None, ag_samples = amd_gpu_samples_default\<rparr>"

definition npu_start :: npu_state where
  "npu_start = \<lparr>np_source = None, np_samples = npu_samples_default, np_usage_history = [],
                np_history_sample_at = None\<rparr>"

interpretation amd: stepper amd_act amd_start "\<lambda>s. amd_in_range (ag_samples s)"
  by unfold_locales (simp_all add: amd_start_def amd_default amd_act_range)

interpretation npu: stepper npu_act npu_start "\<lambda>s. npu_in_range (np_samples s)"
  by unfold_locales (simp_all add: npu_start_def npu_default npu_act_range)

text \<open>
  C36. Whatever the files hold and in whatever order sources are sampled, replaced and invalidated, the retained samples
  of the AMD processors stay in range: shares between 0 and 100 percent, a memory share that is defined,
  temperatures above absolute zero and below 1000 degrees, numbers of 32 bits, and never the mark of a missing
  field.
\<close>

theorem amd_samples_in_range:
  "amd_in_range (ag_samples (fold amd_act es amd_start)) \<and> npu_in_range (np_samples (fold npu_act ns npu_start))"
  using amd.inv_run npu.inv_run by blast

lemma supported_table:
  "parse_table bytes = Table_Supported f \<longleftrightarrow>
     264 \<le> bytes ! 0 + 256 * bytes ! 1 \<and> bytes ! 0 + 256 * bytes ! 1 \<le> length bytes \<and>
     bytes ! 2 = 3 \<and> bytes ! 3 = 0 \<and>
     nf_columns f = map (\<lambda>i. bytes ! (46 + 2 * i) + 256 * bytes ! (47 + 2 * i)) [0..<8] \<and>
     nf_power_mw f = bytes ! 116 + 256 * bytes ! 117 \<and> nf_clock_mhz f = bytes ! 180 + 256 * bytes ! 181"
    (is "_ \<longleftrightarrow> ?layout")
proof
  assume p: "parse_table bytes = Table_Supported f"
  note fields = parsed_fields [OF p]
  have "read_u16 bytes 0 = Some (bytes ! 0 + 256 * bytes ! 1)"
    using fields(4) by (simp add: read_u16_def)
  with p fields show ?layout
    by (auto simp: parse_table_def npu_consts split: if_splits)
next
  assume l: ?layout
  then have long: "264 \<le> length bytes" by linarith
  then have field: "table_field bytes k = bytes ! k + 256 * bytes ! (k + 1)" if "k < 260" for k
    using that by (simp add: table_field_def read_u16_def)
  have "read_u16 bytes 0 = Some (bytes ! 0 + 256 * bytes ! 1)"
    using long by (simp add: read_u16_def)
  moreover have "nf_columns f = map (\<lambda>i. table_field bytes (46 + i * 2)) [0..<8]"
    using l by (auto simp: field mult.commute)
  ultimately show "parse_table bytes = Table_Supported f"
    using l long by (simp add: parse_table_def npu_consts field npu_fields.equality)
qed

lemma busy_cases:
  assumes "length columns = 8"
  shows "case busy_percent columns of
      Busy_Unavailable \<Rightarrow> 65535 \<in> set columns
    | Busy_Invalid \<Rightarrow> 65535 \<notin> set columns \<and> (\<exists>c \<in> set columns. 100 < c)
    | Busy_Valid v \<Rightarrow> (\<forall>c \<in> set columns. c \<le> 100) \<and> 0 \<le> v \<and> v \<le> 100 \<and>
        int (sum_list columns) - 4 < 8 * v \<and> 8 * v \<le> int (sum_list columns) + 4"
proof (cases "busy_percent columns")
  case (Busy_Valid v)
  then have le: "\<forall>c \<in> set columns. c \<le> 100"
    by (auto simp: busy_percent_def list_ex_iff npu_consts split: if_splits)
  then have "sum_list columns \<le> 100 * length columns"
    by (induction columns) auto
  then have "sum_list columns \<le> 800" using assms by simp
  moreover from this Busy_Valid have "v = int ((sum_list columns + 4) div 8)"
    by (auto simp: busy_percent_def i32_try_from_def split: if_splits)
  ultimately show ?thesis using le Busy_Valid by auto
qed (auto simp: busy_percent_def list_ex_iff npu_consts split: if_splits)

text \<open>
  C37. A table is supported exactly when it declares at least 264 bytes, has the bytes it declares, and bears
  revision 3.0; and then every field is the two bytes at its place, low byte first: eight columns from byte 46,
  the power at 116, the clock at 180. Of any eight columns the share of busy time is unavailable exactly when
  one of them is 0xFFFF, invalid when none is but one is above 100, and otherwise their mean in percent,
  rounded to the nearest with halves up.
\<close>

theorem npu_table_layout:
  assumes "length columns = 8"
  shows "(parse_table bytes = Table_Supported f \<longleftrightarrow>
       264 \<le> bytes ! 0 + 256 * bytes ! 1 \<and> bytes ! 0 + 256 * bytes ! 1 \<le> length bytes \<and>
       bytes ! 2 = 3 \<and> bytes ! 3 = 0 \<and>
       nf_columns f = map (\<lambda>i. bytes ! (46 + 2 * i) + 256 * bytes ! (47 + 2 * i)) [0..<8] \<and>
       nf_power_mw f = bytes ! 116 + 256 * bytes ! 117 \<and> nf_clock_mhz f = bytes ! 180 + 256 * bytes ! 181) \<and>
    (case busy_percent columns of
       Busy_Unavailable \<Rightarrow> 65535 \<in> set columns
     | Busy_Invalid \<Rightarrow> 65535 \<notin> set columns \<and> (\<exists>c \<in> set columns. 100 < c)
     | Busy_Valid v \<Rightarrow> (\<forall>c \<in> set columns. c \<le> 100) \<and> 0 \<le> v \<and> v \<le> 100 \<and>
         int (sum_list columns) - 4 < 8 * v \<and> 8 * v \<le> int (sum_list columns) + 4)"
  using supported_table busy_cases [OF assms] by blast

definition demo_byte :: "nat \<Rightarrow> nat" where
  "demo_byte k = (if k = 0 then 8 else if k = 1 then 1 else if k = 2 then 3
     else if 46 \<le> k \<and> k < 62 \<and> even k then 50 else 0)"

definition demo_table :: "nat list" where
  "demo_table = map demo_byte [0..<264]"

lemma demo_table_nth: "k < 264 \<Longrightarrow> demo_table ! k = demo_byte k"
  by (simp add: demo_table_def)

lemma demo_table_read: "k < 263 \<Longrightarrow> read_u16 demo_table k = Some (demo_byte k + 256 * demo_byte (k + 1))"
  by (simp add: read_u16_def demo_table_nth) (simp add: demo_table_def)

lemma npu_table_layout_witness:
  "parse_table demo_table = Table_Supported \<lparr>nf_columns = replicate 8 50, nf_power_mw = 0, nf_clock_mhz = 0\<rparr> \<and>
   (\<exists>v. busy_percent (replicate 8 50) = Busy_Valid v \<and> v = 50)"
proof -
  have "map (\<lambda>i. demo_table ! (46 + 2 * i) + 256 * demo_table ! (47 + 2 * i)) [0..<8] = replicate 8 50"
    by (rule nth_equalityI) (simp_all add: demo_table_nth demo_byte_def)
  moreover have "length demo_table = 264" by (simp add: demo_table_def)
  moreover have "busy_percent (replicate 8 50) = Busy_Valid 50"
    by (simp add: busy_percent_def npu_consts i32_try_from_def list_ex_iff sum_list_replicate)
  ultimately show ?thesis
    using npu_table_layout [of "replicate 8 50" demo_table
        "\<lparr>nf_columns = replicate 8 50, nf_power_mw = 0, nf_clock_mhz = 0\<rparr>"]
    by (simp add: demo_table_nth demo_byte_def)
qed

end
