(* ===== verification/Spec2Isabelle.thy ===== *)
theory Spec2Isabelle
  imports SchedProps SchedGuards SchedWakes DomainProps TextProps AppletProps SnapshotProps
    ConfigProps ConfiguredRuns ExecutorProps FormatProps NotifyProps SensorProps
    HidProps JobProps
    AccelProps
begin

text \<open>
  PlasmaTop, a verification library.

  PlasmaTop is a daemon that shows system statistics in a KDE panel. Its core is a scheduler: a pure
  state machine (\<open>src/scheduler\<close>) that is told events (time, completions, configurations, hardware
  changes, what the tooltip shows) and answers with actions (start or cancel a job, publish the
  display, wake me up at). Around it, a catalog (\<open>src/sensors/catalog.rs\<close>) turns the user's
  configuration and the hardware found into jobs and demand; item tokens (\<open>src/domain\<close>) name what is
  shown; completed jobs are merged into a snapshot; leases of the applet decide whether the tooltip
  is presented; pages show the cleaned output of commands. All paths are relative to the crate,
  \<open>src/\<close> of the repository.

  \<^bold>\<open>Foundations.\<close>
  \<^item> \<open>Prelude\<close>, \<open>OrdMap\<close>: what Rust's standard library gives the sources. A \<open>Duration\<close> is a number of
    nanoseconds below \<open>duration_max\<close>; counters saturate at \<open>u64_max\<close> and \<open>u32_max\<close>, written out. A
    \<open>BTreeSet\<close> is a strictly sorted list, a \<open>BTreeMap\<close> a list of entries with strictly increasing
    keys. The locales \<open>ordered_set\<close> and \<open>ordered_map\<close> state the laws their clients use and are
    interpreted on both; \<open>bounded_stepper\<close> and \<open>stepper\<close> are event machines with an invariant, and
    are interpreted on the scheduler and on the leases.

  \<^bold>\<open>Tokens and readings.\<close>
  \<^item> \<open>Forms\<close>, \<open>Metrics\<close>, \<open>Items\<close>, \<open>Registry\<close>: \<open>src/domain/form.rs\<close>, \<open>metric.rs\<close>, \<open>item.rs\<close>,
    \<open>registry.rs\<close>. The contract table of the metrics arm by arm, the token parser with its errors.
  \<^item> \<open>Readings\<close>, \<open>Snapshot\<close>: \<open>src/domain/readings.rs\<close> and \<open>src/daemon/async_loop/state/merge.rs\<close>.
  \<^item> \<open>DomainProps\<close>, \<open>SnapshotProps\<close>: the parser and the printer are inverse, each rejection has its
    cause, the listing and the capabilities are exact, a retained sample refines the history of its
    successes, every reading of the snapshot is written by exactly one owner.

  \<^bold>\<open>The scheduler.\<close>
  \<^item> \<open>SchedModel\<close>: \<open>src/scheduler/model.rs\<close>. \<open>SchedPolicy\<close>: \<open>machine/policy.rs\<close>. \<open>SchedState\<close>:
    \<open>JobRuntime\<close>, \<open>Scheduler\<close>, \<open>machine/publication.rs\<close>, \<open>machine/demand.rs\<close>. \<open>SchedMachine\<close>:
    \<open>machine.rs\<close>; \<open>handle\<close> is \<open>Scheduler::handle\<close> with every event, \<open>sched_run\<close> a list of events
    fed to a fresh scheduler.
  \<^item> \<open>Reservations\<close>: the abstract contract of the job owners. \<open>SchedOwners\<close>: the scheduler refines it.
    \<open>SchedFront\<close>: presentation, first paint and publications. \<open>SchedFrames\<close>: which fields an operation
    leaves alone. \<open>SchedGuards\<close>: which operation can emit which action.
  \<^item> \<open>SchedProps\<close>, \<open>SchedGuards\<close>, \<open>SchedWakes\<close>: the properties of whole runs. Where an id counter
    matters the statement is made below its saturation point (\<open>runs_left\<close>, 2^64 - 1 starts).

  \<^bold>\<open>Configuration and catalog.\<close>
  \<^item> \<open>ConfigMerge\<close>, \<open>KdeIni\<close>, \<open>Config\<close>: \<open>src/config/merge.rs\<close>, the machine and panel detection of
    \<open>geometry.rs\<close>, the records and defaults of \<open>schema.rs\<close>, the guardrails of \<open>mod.rs\<close>.
  \<^item> \<open>Catalog\<close>: \<open>src/sensors/catalog.rs\<close> and \<open>catalog/gpu.rs\<close>. The map of specifications is threaded
    through the calls by the state monad, in the order of the source.
  \<^item> \<open>ConfigProps\<close>: merging path by path, item lists, guardrails, the applet header as the regular
    expression it replaces. \<open>CatalogProps\<close>: the catalog is closed and typed. \<open>ConfiguredRuns\<close>: catalog
    and scheduler together, so that wake-ups lie in the future for every configuration accepted.

  \<^bold>\<open>The daemon loop.\<close>
  \<^item> \<open>Executor\<close>: \<open>src/daemon/async_loop.rs\<close>, \<open>dispatch.rs\<close>, \<open>completion.rs\<close>, \<open>control.rs\<close>, the message
    side of \<open>worker.rs\<close> and the control part of \<open>state.rs\<close>. The record \<open>executor\<close> holds the scheduler, the
    queue of actions, the pending messages, the valid runs and the control part of \<open>RuntimeState\<close>; what
    is under way to and from the fourteen workers are lists out of which any element may arrive next.
    \<open>exec_step\<close> is a step relation: one action drained, a flush, a completion taken or handled, a sleep
    or power event, a shutdown, and the three steps of a worker. It allows every order the loop has.
    The outcome of sensors, rendering and reloads is a parameter of a step (\<open>loop_env\<close>,
    \<open>commit_effect\<close>) or an event with an arbitrary change of the runtime state.
  \<^item> \<open>SchedTickets\<close>: what one transition of the scheduler does to the tickets it holds. \<open>ExecutorLedger\<close>,
    \<open>ExecutorBooks\<close>: every held ticket has exactly one entry, among the actions or on its way to or from
    a worker, and every step keeps these books. \<open>DrainEnds\<close>: the drain of the actions ends.
    \<open>ExecutorProps\<close>: until the shutdown no run is lost, an idle loop has all owners free and one run per owner is
    under way; the message queue merges and is flushed in order, commits move forward, the first shutdown request ends the loop.

  \<^bold>\<open>The display.\<close>
  \<^item> \<open>Texts\<close>: white space, lines and numbers of Rust's \<open>str\<close>. \<open>Layout\<close>: \<open>src/render/model.rs\<close>,
    \<open>mono.rs\<close> and the text helpers of \<open>cells.rs\<close>: cells, the width a browser shows, blocks, the
    monospace serializer. \<open>Cells\<close>: label cells, colour bands, \<open>src/render/registry.rs\<close>. \<open>Traces\<close>:
    \<open>src/render/traces.rs\<close>. \<open>FormatRows\<close>, \<open>FormatMore\<close>: one function per metric,
    \<open>src/render/formatter/*.rs\<close>. \<open>Formatter\<close>: \<open>src/render/formatter.rs\<close> and \<open>formatter/width.rs\<close>. A
    function that may index a threshold list out of bounds returns an option, \<open>None\<close> being the panic.
  \<^item> \<open>LayoutProps\<close>, \<open>FormatProps\<close>: every kind of line has the width stated for it, a right-aligned value
    ends at the shared width, grouping keeps the rows and draws one rule between two of them, the formatter panics
    exactly on short threshold lists, the rows of every metric have well-formed cells. \<open>TraceProps\<close>: traces have a
    fixed width.
  \<^item> \<open>Notify\<close>: \<open>src/notify.rs\<close> and \<open>src/domain/state.rs\<close>, the alerts of one pass over the readings; the
    adapter is a function on a state of its own that may fail. \<open>NotifyProps\<close>: delivery never matters to
    the state; a CPU alert is sent exactly when a temperature was held and, since the last alert, recovered (counted
    in attempts, by leaving the reading out of the same pass). There
    \<open>exact_hold\<close> asks that comparing the elapsed time with the hold as \<open>f64\<close> seconds is exact, which
    it is below 2^22 seconds.

  \<^bold>\<open>The sensors.\<close>
  \<^item> \<open>Procfs\<close>: numbers and files of \<open>src/sensors/memory.rs\<close>, \<open>cpu.rs\<close> and \<open>disk.rs\<close>: rounding, rates, the
    parsers of \<open>/proc\<close>, bounded histories. \<open>Sampling\<close>: the CPU owner, the commit of an attempt into a
    retained sample (\<open>attempts.rs\<close>, \<open>attempts/processor.rs\<close>). \<open>Rates\<close>: the owners of memory, network and
    disks, and the history of the selected GPU. Files are a function from paths to texts, the clock a
    function on a state of its own. \<open>Hid\<close>: \<open>src/sensors/hid.rs\<close> over a device that is a parameter.
  \<^item> \<open>SensorProps\<close>: percentages are in range; the locale \<open>rate_owner\<close>, interpreted on the network and the
    disk owner, shows that every rate is the difference of two reads of one device; the locale
    \<open>bounded_history\<close> that a history holds the newest samples; cached samples follow their sources;
    mount points are decoded. \<open>HidProps\<close>: a query ends after at most 44 accesses.
  \<^item> \<open>PowerOwner\<close>: the power owner, \<open>src/sensors/power.rs\<close>. \<open>NetIdentity\<close>: the active route and its wireless
    link, \<open>network.rs\<close> and \<open>attempts/network_identity.rs\<close>. \<open>Accelerators\<close>: the AMD graphics and neural processors
    (\<open>gpu_amd.rs\<close>, \<open>npu_amd.rs\<close>) and the external files (\<open>external.rs\<close>). \<open>AccelProps\<close>: their samples stay in range;
    the table of the neural processor is read as it is laid out.
  \<^item> \<open>Jobs\<close>: \<open>src/sensors/scheduled.rs\<close> and \<open>scheduled/*.rs\<close>, what the execution and the invalidation of a job do
    to the owners, the inventory, the readings and the notifications (\<open>job_run\<close>); an early return is \<open>None\<close>. The jobs
    of NVIDIA and Intel processors, of the selected GPU's history and of processes are the parameter
    \<open>other\<close>. \<open>JobProps\<close>: a job of a kind that is not \<open>other\<close> changes the readings of its owner only, so the merge of a
    completion loses nothing; the notifications get what the sources say now (peripherals apart); an
    invalidated source gives no history point.

  \<^bold>\<open>Applet and pages.\<close>
  \<^item> \<open>Applet\<close>: \<open>src/domain/applet.rs\<close>, the leases and page selection of
    \<open>src/daemon/async_loop/applet.rs\<close>, the page registry. \<open>AppletProps\<close>: each client's lease follows a
    three-state automaton and the effects reported are exactly its changes; selections announced are
    real changes; turning pages is a cycle.
  \<^item> \<open>Terminal\<close>: \<open>src/page_commands/terminal.rs\<close> and the text helpers of \<open>src/page_commands.rs\<close>.
    \<open>TextProps\<close>: plain pages fit the width and keep their text, control sequences and the listed escapes
    are dropped and colours kept, the quoting of a command line is undone by the shell's splitting.

  \<^bold>\<open>Conventions.\<close> A record field carries a short prefix of its struct. Strings of tokens and
  configuration are lists of characters below 256, those of pages lists of Unicode scalar values.
  A floating-point value the code only stores is its 64 bits. Methods on \<open>&mut self\<close> return the new
  state; a method that pushes actions takes and returns the pair of state and actions. Loops are
  structural recursions or folds, or \<open>function\<close> with a measure; no definition uses fuel.

  \<^bold>\<open>Not modelled.\<close> The channels, tasks and timers between the loop and the workers belong to tokio and
  appear only as the steps above. The discovery of devices and the readers of NVIDIA and Intel processors and of processes, the adapters, file watching, the reload of files, the command line, diagnostics and profiling are input
  and output through third-party libraries. The graphs (\<open>src/render/chart.rs\<close>, \<open>pages.rs\<close>), panel fitting
  compute with \<open>f64\<close>, for which the library here has no faithful type; where the formatter or the
  notifications divide, compare or print an \<open>f64\<close>, the operation is a field of \<open>float_ops\<close> or \<open>notify_floats\<close>. The derived deserialisation belongs to \<open>serde\<close>. The text of
  error messages and of \<open>Debug\<close> output is left out.
\<close>

end
